(* ===== verification/Prelude.thy ===== *)
theory Prelude
  imports Main "HOL-Library.Word"
begin

text \<open>
  Shared material: byte buffers and their big-endian reading, slices and copies as Node's
  Buffer has them, hexadecimal and ASCII renderings.
  The collections \<open>buf\<close> (lengths and reads of buffers), \<open>flow\<close> (what a
  successful run of an early-return chain went through) and \<open>key\<close> (which store keys are different) are filled by the
  component theories.
\<close>

named_theorems buf \<open>lengths and reads of buffers\<close>
named_theorems flow \<open>successful runs of early-return chains\<close>
named_theorems key \<open>disjointness of the key spaces of the store\<close>

unbundle bit_operations_syntax

type_synonym byte = "8 word"
type_synonym buffer = "byte list"

section \<open>Big-endian reading of a buffer\<close>

fun be_nat :: "buffer \<Rightarrow> nat" where
  "be_nat [] = 0"
| "be_nat (b # bs) = unat b * 256 ^ length bs + be_nat bs"

lemma unat_byte_less [simp]: "unat (b :: byte) < 256"
  using unsigned_less [of b, where ?'a = nat] by simp

lemma unat_byte_le [simp]: "unat (b :: byte) \<le> 255"
  using unat_byte_less [of b] by linarith

lemma unat_byte_of_nat: "unat (word_of_nat n :: byte) = n mod 256"
  by (simp add: unat_of_nat)

lemma be_nat_append: "be_nat (xs @ ys) = be_nat xs * 256 ^ length ys + be_nat ys"
  by (induction xs) (auto simp: algebra_simps power_add)

lemma be_nat_snoc: "be_nat (xs @ [y]) = 256 * be_nat xs + unat y"
  by (simp add: be_nat_append)

lemma be_nat_bound: "be_nat xs < 256 ^ length xs"
proof (induction xs)
  case Nil
  then show ?case by simp
next
  case (Cons x xs)
  have "be_nat (x # xs) < unat x * 256 ^ length xs + 256 ^ length xs"
    using Cons by simp
  also have "\<dots> = (unat x + 1) * 256 ^ length xs" by (simp add: algebra_simps)
  also have "\<dots> \<le> 256 * 256 ^ length xs"
    using unat_byte_less [of x] by (intro mult_right_mono) simp_all
  finally show ?case by simp
qed

lemma be_nat_replicate_0 [simp]: "be_nat (replicate n 0) = 0"
  by (induction n) auto

lemma be_nat_inj: "length xs = length ys \<Longrightarrow> be_nat xs = be_nat ys \<longleftrightarrow> xs = ys"
proof (induction xs ys rule: list_induct2)
  case Nil
  then show ?case by simp
next
  case (Cons x xs y ys)
  let ?B = "256 ^ length ys :: nat"
  have bx: "be_nat xs < ?B" and by_: "be_nat ys < ?B"
    using be_nat_bound [of xs] be_nat_bound [of ys] Cons.hyps by simp_all
  show ?case
  proof
    assume eq: "be_nat (x # xs) = be_nat (y # ys)"
    then have eq': "unat x * ?B + be_nat xs = unat y * ?B + be_nat ys"
      using Cons.hyps by simp
    have "unat x = (unat x * ?B + be_nat xs) div ?B" using bx by simp
    also have "\<dots> = (unat y * ?B + be_nat ys) div ?B" by (simp only: eq')
    also have "\<dots> = unat y" using by_ by simp
    finally have "unat x = unat y" .
    moreover from this eq' have "be_nat xs = be_nat ys" by simp
    ultimately show "x # xs = y # ys" using Cons.IH by (simp add: word_unat_eq_iff)
  next
    assume "x # xs = y # ys"
    then show "be_nat (x # xs) = be_nat (y # ys)" by simp
  qed
qed

lemma be_nat_eq_0: "be_nat xs = 0 \<longleftrightarrow> xs = replicate (length xs) 0"
  using be_nat_inj [of xs "replicate (length xs) 0"] by simp

lemma be_nat_update:
  assumes "k < length xs"
  shows "be_nat (xs[k := v]) + unat (xs ! k) * 256 ^ (length xs - Suc k)
       = be_nat xs + unat v * 256 ^ (length xs - Suc k)"
proof -
  have "xs = take k xs @ xs ! k # drop (Suc k) xs"
    using assms by (rule id_take_nth_drop)
  then have "be_nat xs = be_nat (take k xs) * 256 ^ Suc (length xs - Suc k)
      + (unat (xs ! k) * 256 ^ (length xs - Suc k) + be_nat (drop (Suc k) xs))"
    by (metis be_nat.simps(2) be_nat_append length_Cons length_drop)
  moreover have "be_nat (xs[k := v]) = be_nat (take k xs) * 256 ^ Suc (length xs - Suc k)
      + (unat v * 256 ^ (length xs - Suc k) + be_nat (drop (Suc k) xs))"
    using assms by (simp add: upd_conv_take_nth_drop be_nat_append)
  ultimately show ?thesis by simp
qed

section \<open>Buffer operations of the standard library\<close>

text \<open>\<open>b4a.alloc(n)\<close>, \<open>buf.subarray(i, j)\<close> for \<open>i \<le> j\<close>, and
  \<open>b4a.copy(src, tgt, off)\<close>, which stops at the end of the target.\<close>

definition alloc :: "nat \<Rightarrow> buffer" where
  "alloc n = replicate n 0"

definition subarray :: "nat \<Rightarrow> nat \<Rightarrow> buffer \<Rightarrow> buffer" where
  "subarray i j b = take (j - i) (drop i b)"

definition copy_into :: "buffer \<Rightarrow> nat \<Rightarrow> buffer \<Rightarrow> buffer" where
  "copy_into src off tgt =
     take off tgt @ take (length tgt - off) src @ drop (off + length src) tgt"

lemma length_alloc [simp, buf]: "length (alloc n) = n"
  by (simp add: alloc_def)

lemma be_nat_alloc [simp]: "be_nat (alloc n) = 0"
  by (simp add: alloc_def)

lemma length_subarray [buf]: "j \<le> length b \<Longrightarrow> length (subarray i j b) = j - i"
  by (simp add: subarray_def)

lemma length_copy_into [simp, buf]: "length (copy_into src off tgt) = length tgt"
  by (simp add: copy_into_def)

lemma nth_copy_into:
  assumes "off + length src \<le> length tgt" and "k < length tgt"
  shows "copy_into src off tgt ! k =
    (if off \<le> k \<and> k < off + length src then src ! (k - off) else tgt ! k)"
  using assms by (auto simp: copy_into_def nth_append min_def)

lemma nth_subarray: "k < j - i \<Longrightarrow> j \<le> length b \<Longrightarrow> subarray i j b ! k = b ! (i + k)"
  by (simp add: subarray_def)

lemma subarray_copy_same:
  assumes "off + length src \<le> length tgt"
  shows "subarray off (off + length src) (copy_into src off tgt) = src"
  using assms by (intro nth_equalityI) (simp_all add: buf nth_subarray nth_copy_into)

lemma subarray_copy_other:
  assumes "off + length src \<le> length tgt" and "j \<le> length tgt" and "j \<le> off \<or> off + length src \<le> i"
  shows "subarray i j (copy_into src off tgt) = subarray i j tgt"
  using assms by (intro nth_equalityI) (auto simp: buf nth_subarray nth_copy_into)

lemma copy_into_copy_into_same:
  assumes "length src = length src'" and "off + length src \<le> length tgt"
  shows "copy_into src off (copy_into src' off tgt) = copy_into src off tgt"
  using assms by (intro nth_equalityI) (auto simp: nth_copy_into)

section \<open>Text renderings\<close>

definition hex_digit :: "nat \<Rightarrow> char" where
  "hex_digit n = ''0123456789abcdef'' ! n"

definition hex_chars :: "char set" where
  "hex_chars = set ''0123456789abcdef''"

fun to_hex :: "buffer \<Rightarrow> string" where
  "to_hex [] = []"
| "to_hex (b # bs) = hex_digit (unat b div 16) # hex_digit (unat b mod 16) # to_hex bs"

lemma hex_digit_in: "n < 16 \<Longrightarrow> hex_digit n \<in> hex_chars"
  unfolding hex_digit_def hex_chars_def by (rule nth_mem) simp

lemma hex_digit_inj: "m < 16 \<Longrightarrow> n < 16 \<Longrightarrow> hex_digit m = hex_digit n \<longleftrightarrow> m = n"
  unfolding hex_digit_def by (rule nth_eq_iff_index_eq) simp_all

lemma to_hex_chars: "set (to_hex b) \<subseteq> hex_chars"
proof (induction b)
  case Nil
  then show ?case by simp
next
  case (Cons x xs)
  have "unat x div 16 < 16"
    using unat_byte_less [of x] by linarith
  with Cons show ?case by (simp add: hex_digit_in)
qed

lemma length_to_hex [simp]: "length (to_hex b) = 2 * length b"
  by (induction b) auto

lemma to_hex_eq_Nil [simp]: "to_hex b = [] \<longleftrightarrow> b = []"
  by (cases b) auto

lemma to_hex_inj: "to_hex a = to_hex b \<longleftrightarrow> a = b"
proof (induction a arbitrary: b)
  case Nil
  then show ?case by (cases b) auto
next
  case (Cons x xs)
  show ?case
  proof (cases b)
    case Nil
    then show ?thesis by simp
  next
    case (Cons y ys)
    have "unat x div 16 = unat y div 16 \<and> unat x mod 16 = unat y mod 16 \<longleftrightarrow> x = y"
      by (metis div_mult_mod_eq word_unat_eq_iff)
    moreover have "unat x div 16 < 16" "unat y div 16 < 16"
      using unat_byte_less [of x] unat_byte_less [of y] by linarith+
    ultimately show ?thesis
      using Cons Cons.IH [of ys] by (auto simp: hex_digit_inj)
  qed
qed

fun show_nat :: "nat \<Rightarrow> string" where
  "show_nat n = (if n < 10 then [hex_digit n] else show_nat (n div 10) @ [hex_digit (n mod 10)])"

declare show_nat.simps [simp del]

definition show_int :: "int \<Rightarrow> string" where
  "show_int v = (if v < 0 then ''-'' @ show_nat (nat (- v)) else show_nat (nat v))"

text \<open>\<open>buffer.toString('ascii')\<close>: Node unsets the highest bit of each byte before decoding.\<close>

definition ascii_string :: "buffer \<Rightarrow> string" where
  "ascii_string b = map (\<lambda>x. char_of (unat (x AND 127))) b"

definition ascii_bytes :: "string \<Rightarrow> buffer" where
  "ascii_bytes s = map (\<lambda>c. word_of_nat (of_char c)) s"

definition ascii_buffer :: "buffer \<Rightarrow> bool" where
  "ascii_buffer b \<longleftrightarrow> (\<forall>x \<in> set b. x < 128)"

lemma length_ascii_string [simp]: "length (ascii_string b) = length b"
  by (simp add: ascii_string_def)

lemma length_ascii_bytes [simp]: "length (ascii_bytes s) = length s"
  by (simp add: ascii_bytes_def)

lemma byte_and_127: "unat (x AND 127 :: byte) = unat x mod 128"
proof -
  have "x AND 127 = take_bit 7 x"
    by (simp add: take_bit_eq_mask mask_eq_exp_minus_1)
  then show ?thesis by (simp add: take_bit_eq_mod unat_mod)
qed

lemma ascii_string_inj:
  assumes "ascii_buffer a" and "ascii_buffer b"
  shows "ascii_string a = ascii_string b \<longleftrightarrow> a = b"
proof -
  have "inj_on (\<lambda>x :: byte. char_of (unat (x AND 127)) :: char) (set a \<union> set b)"
  proof (rule inj_onI)
    fix x y assume xy: "x \<in> set a \<union> set b" "y \<in> set a \<union> set b"
      and eq: "char_of (unat (x AND 127)) = (char_of (unat (y AND 127)) :: char)"
    then have "unat x mod 128 mod 256 = unat y mod 128 mod 256"
      unfolding byte_and_127 by (metis of_char_of)
    moreover have "unat x < 128" and "unat y < 128"
      using xy assms by (auto simp: ascii_buffer_def word_less_nat_alt)
    ultimately show "x = y" by (simp add: word_unat_eq_iff)
  qed
  then show ?thesis
    unfolding ascii_string_def by (simp add: inj_on_map_eq_map)
qed

end
