(* ===== verification/Amounts.thy ===== *)
theory Amounts
  imports Prelude
begin

text \<open>
  \<open>src/utils/buffer.js\<close>, the byte lengths of \<open>src/utils/constants.js\<close> and
  \<open>src/utils/amountSerialization.js\<close>: fixed-length buffers, message concatenation, the
  128-bit amounts and their decimal notation. Amounts are JavaScript BigInts, so \<open>int\<close>;
  a thrown error is an \<open>Inl\<close>.
\<close>

section \<open>Constants\<close>

definition WRITER_BYTE_LENGTH :: nat where [simp]: "WRITER_BYTE_LENGTH = 32"
definition BOOTSTRAP_BYTE_LENGTH :: nat where [simp]: "BOOTSTRAP_BYTE_LENGTH = 32"
definition CHANNEL_BYTE_LENGTH :: nat where [simp]: "CHANNEL_BYTE_LENGTH = 32"
definition NONCE_BYTE_LENGTH :: nat where [simp]: "NONCE_BYTE_LENGTH = 32"
definition HASH_BYTE_LENGTH :: nat where [simp]: "HASH_BYTE_LENGTH = 32"
definition BALANCE_BYTE_LENGTH :: nat where [simp]: "BALANCE_BYTE_LENGTH = 16"
definition SIGNATURE_BYTE_LENGTH :: nat where [simp]: "SIGNATURE_BYTE_LENGTH = 64"
definition AMOUNT_BYTE_LENGTH :: nat where [simp]: "AMOUNT_BYTE_LENGTH = 16"
definition LICENSE_BYTE_LENGTH :: nat where [simp]: "LICENSE_BYTE_LENGTH = 4"
definition BATCH_SIZE :: nat where [simp]: "BATCH_SIZE = 10"
definition TOKEN_DECIMALS :: nat where [simp]: "TOKEN_DECIMALS = 18"

section \<open>Buffers\<close>

definition ZERO_WK :: buffer where "ZERO_WK = alloc 32"
definition NULL_BUFFER :: buffer where "NULL_BUFFER = alloc 0"

text \<open>The argument may be \<open>null\<close>, which is \<open>None\<close>.\<close>

definition isBufferValid :: "buffer option \<Rightarrow> nat \<Rightarrow> bool" where
  "isBufferValid k n = (case k of None \<Rightarrow> False | Some b \<Rightarrow> length b = n)"

lemma isBufferValid_simps [simp]:
  "isBufferValid None n = False"
  "isBufferValid (Some b) n = (length b = n)"
  by (simp_all add: isBufferValid_def)

lemma NULL_BUFFER_Nil [simp]: "NULL_BUFFER = []"
  by (simp add: NULL_BUFFER_def alloc_def)

lemma length_ZERO_WK [simp]: "length ZERO_WK = 32"
  by (simp add: ZERO_WK_def)

text \<open>\<open>buf.writeUInt32BE(value, 0)\<close> on four bytes; it throws a RangeError out of range.\<close>

definition uint32_bytes :: "nat \<Rightarrow> buffer" where
  "uint32_bytes n = [word_of_nat (n div 256 ^ 3), word_of_nat (n div 256 ^ 2),
                     word_of_nat (n div 256), word_of_nat n]"

definition writeUInt32BE :: "nat \<Rightarrow> buffer option" where
  "writeUInt32BE n = (if n < 2 ^ 32 then Some (uint32_bytes n) else None)"

text \<open>Every call has offset 0; the error is caught and gives four zero bytes.\<close>

definition safeWriteUInt32BE :: "nat \<Rightarrow> buffer" where
  "safeWriteUInt32BE value = (case writeUInt32BE value of Some b \<Rightarrow> b | None \<Rightarrow> alloc 4)"

lemma length_uint32_bytes [simp]: "length (uint32_bytes n) = 4"
  by (simp add: uint32_bytes_def)

lemma writeUInt32BE_length: "writeUInt32BE n = Some b \<Longrightarrow> length b = 4"
  by (auto simp: writeUInt32BE_def split: if_splits)

lemma length_safeWriteUInt32BE [simp]: "length (safeWriteUInt32BE n) = 4"
  by (auto simp: safeWriteUInt32BE_def dest: writeUInt32BE_length split: option.split)

lemma be_nat_uint32_bytes:
  assumes "n < 2 ^ 32"
  shows "be_nat (uint32_bytes n) = n"
proof -
  define a where "a = n div 256"
  define b where "b = a div 256"
  define c where "c = b div 256"
  have "n div 256 ^ 3 = c" and "n div 256 ^ 2 = b"
    by (simp_all add: a_def b_def c_def div_mult2_eq [symmetric])
  moreover have "c < 256"
    using assms by (simp add: a_def b_def c_def div_mult2_eq [symmetric] less_mult_imp_div_less)
  ultimately have "be_nat (uint32_bytes n) = ((c * 256 + b mod 256) * 256 + a mod 256) * 256 + n mod 256"
    by (simp add: uint32_bytes_def unat_byte_of_nat a_def)
  also have "\<dots> = n"
    unfolding c_def div_mult_mod_eq unfolding b_def div_mult_mod_eq unfolding a_def div_mult_mod_eq ..
  finally show ?thesis .
qed

text \<open>
  \<open>createMessage(...args)\<close>: buffers are kept, numbers that are unsigned 32-bit and at
  least 1 are written as four bytes, every other number is dropped.
\<close>

datatype msg_arg = Buf buffer | Num nat

definition isUInt32 :: "nat \<Rightarrow> bool" where
  "isUInt32 n = (1 \<le> n \<and> n \<le> 0xFFFFFFFF)"

fun arg_buffer :: "msg_arg \<Rightarrow> buffer option" where
  "arg_buffer (Buf b) = Some b"
| "arg_buffer (Num n) = (if isUInt32 n then Some (safeWriteUInt32BE n) else None)"

definition createMessage :: "msg_arg list \<Rightarrow> buffer" where
  "createMessage args = concat (List.map_filter arg_buffer args)"

text \<open>\<open>deepCopyBuffer\<close> turns a missing value into \<open>null\<close>; a copy of a value is that value.\<close>

definition deepCopyBuffer :: "buffer option \<Rightarrow> buffer option" where
  "deepCopyBuffer b = (case b of None \<Rightarrow> None | Some x \<Rightarrow> Some (copy_into x 0 (alloc (length x))))"

lemma deepCopyBuffer_id [simp]: "deepCopyBuffer b = b"
  by (auto simp: deepCopyBuffer_def copy_into_def split: option.split)

section \<open>128-bit amounts\<close>

datatype amount_error =
    NegativeAmount | InvalidDecimalFormat | TooManyDecimals | ExceedsMaximum
  | InvalidLength | ValueTooSmall

text \<open>\<open>BigInt.asUintN(128, v)\<close> and the loop that writes the bytes from the last to the first.\<close>

fun be_bytes :: "nat \<Rightarrow> nat \<Rightarrow> buffer \<Rightarrow> buffer" where
  "be_bytes 0 tmp acc = acc"
| "be_bytes (Suc i) tmp acc = be_bytes i (tmp div 256) (word_of_nat (tmp mod 256) # acc)"

definition bigIntTo16ByteBuffer :: "int \<Rightarrow> buffer" where
  "bigIntTo16ByteBuffer v = be_bytes 16 (nat (v mod 2 ^ 128)) []"

definition bufferToBigInt :: "buffer \<Rightarrow> amount_error + int" where
  "bufferToBigInt b = (if length b \<noteq> 16 then Inl InvalidLength
     else Inr (fold (\<lambda>x res. res * 256 + uint x) b 0))"

definition licenseBufferToBigInt :: "buffer \<Rightarrow> amount_error + int" where
  "licenseBufferToBigInt b = (if length b \<noteq> LICENSE_BYTE_LENGTH then Inl InvalidLength
     else Inr (\<Sum>i\<leftarrow>[0..<length b]. uint (b ! i) * 2 ^ (8 * (length b - 1 - i))))"

lemma length_be_bytes [simp]: "length (be_bytes n t acc) = n + length acc"
  by (induction n t acc rule: be_bytes.induct) auto

lemma be_nat_be_bytes:
  "be_nat (be_bytes n t acc) = (t mod 256 ^ n) * 256 ^ length acc + be_nat acc"
proof (induction n t acc rule: be_bytes.induct)
  case (1 tmp acc)
  then show ?case by simp
next
  case (2 i tmp acc)
  have "tmp mod 256 ^ Suc i = 256 * (tmp div 256 mod 256 ^ i) + tmp mod 256"
    by (simp add: mod_mult2_eq)
  with 2 show ?case by (simp add: unat_byte_of_nat algebra_simps)
qed

lemma length_bigIntTo16ByteBuffer [simp, buf]: "length (bigIntTo16ByteBuffer v) = 16"
  by (simp add: bigIntTo16ByteBuffer_def)

lemma be_nat_bigIntTo16ByteBuffer [simp, buf]:
  "be_nat (bigIntTo16ByteBuffer v) = nat (v mod 2 ^ 128)"
proof -
  have "nat (v mod 2 ^ 128) < 256 ^ 16" by (simp add: nat_less_iff)
  then show ?thesis by (simp add: bigIntTo16ByteBuffer_def be_nat_be_bytes)
qed

lemma fold_be_nat: "fold (\<lambda>x res. res * 256 + uint x) b r = r * 256 ^ length b + int (be_nat b)"
  by (induction b arbitrary: r) (simp_all add: algebra_simps)

lemma bufferToBigInt_be_nat: "length b = 16 \<Longrightarrow> bufferToBigInt b = Inr (int (be_nat b))"
  by (simp add: bufferToBigInt_def fold_be_nat)

lemma licenseBufferToBigInt_be_nat:
  assumes "length b = 4"
  shows "licenseBufferToBigInt b = Inr (int (be_nat b))"
proof -
  obtain a1 a2 a3 a4 where "b = [a1, a2, a3, a4]"
    using assms by (auto simp: numeral_eq_Suc length_Suc_conv)
  then show ?thesis by (simp add: licenseBufferToBigInt_def upt_rec)
qed

text \<open>An amount survives the trip through its 16-byte big-endian buffer, for exactly the
  values the buffer can hold: writing reduces modulo \<open>2 ^ 128\<close>, reading gives that residue back.\<close>

lemma amount_buffer_roundtrip:
  "bufferToBigInt (bigIntTo16ByteBuffer v) = Inr (v mod 2 ^ 128)"
  by (simp add: bufferToBigInt_be_nat)

end
