(* ===== verification/Balance_Arith.thy ===== *)
theory Balance_Arith
  imports Balance
begin

text \<open>
  The byte routines of \<open>balance.js\<close> compute the operations of \<open>nat\<close>: addition and
  subtraction with carry and borrow, comparison, doubling, long division bit by bit and
  schoolbook multiplication, on 16-byte buffers; where the result does not fit the answer is the
  empty buffer. The lemmas are stated over \<open>be_nat\<close>.
\<close>

section \<open>Least significant byte first\<close>

fun le_nat :: "byte list \<Rightarrow> nat" where
  "le_nat [] = 0"
| "le_nat (x # xs) = unat x + 256 * le_nat xs"

lemma be_nat_rev: "be_nat (rev xs) = le_nat xs"
  by (induction xs) (simp_all add: be_nat_snoc)

lemma le_nat_rev: "le_nat (rev xs) = be_nat xs"
  using be_nat_rev [of "rev xs"] by simp

lemma carry_arith:
  fixes L :: nat
  assumes "M + 256 * (R + K) = M + 256 * D + 256 * S" "M + 256 * D = m" "L = M + 256 * R" "C = 256 * K"
  shows "L + C = m + 256 * S"
  using assms by presburger

lemma borrow_arith:
  fixes L :: int
  assumes "L = d' + 256 * R" "C = 256 * K" "d' = d + 256 * c" "R - K = x - y - c"
  shows "L - C = d + 256 * (x - y)"
  using assms by presburger

lemma add_loop_correct:
  "length as = length bs \<Longrightarrow> add_loop as bs c = (r, c') \<Longrightarrow>
   length r = length as \<and> le_nat r + c' * 256 ^ length as = le_nat as + le_nat bs + c"
proof (induction as bs arbitrary: c r c' rule: list_induct2)
  case Nil
  then show ?case by simp
next
  case (Cons a as b bs)
  define m where "m = unat a + unat b + c"
  obtain r1 c1 where 1: "add_loop as bs (m div 256) = (r1, c1)"
    by (cases "add_loop as bs (m div 256)")
  have r: "r = word_of_nat m # r1" "c' = c1"
    using Cons.prems(1) 1 unfolding add_loop.simps m_def [symmetric] by (auto simp: Let_def)
  have "m mod 256 + 256 * (le_nat r1 + c1 * 256 ^ length as)
      = m mod 256 + 256 * (m div 256) + 256 * (le_nat as + le_nat bs)"
    using Cons.IH [OF 1] by simp
  moreover have "m mod 256 + 256 * (m div 256) = m" by simp
  moreover have "le_nat r = m mod 256 + 256 * le_nat r1"
    unfolding r le_nat.simps unat_byte_of_nat ..
  moreover have "c1 * 256 ^ length (a # as) = 256 * (c1 * 256 ^ length as)" by simp
  ultimately have "le_nat r + c' * 256 ^ length (a # as) = m + 256 * (le_nat as + le_nat bs)"
    unfolding r(2) by (rule carry_arith)
  then show ?case using Cons.IH [OF 1] by (simp add: r(1) m_def)
qed

lemma addBuffers_be_nat:
  assumes "length a = n" and "length b = n" and "0 < n"
  shows "(if be_nat a + be_nat b < 256 ^ n
          then length (addBuffers a b) = n \<and> be_nat (addBuffers a b) = be_nat a + be_nat b
          else addBuffers a b = NULL_BUFFER)"
proof -
  obtain r c where rc: "add_loop (rev a) (rev b) 0 = (r, c)"
    by (cases "add_loop (rev a) (rev b) 0")
  with add_loop_correct [of "rev a" "rev b" 0 r c] assms
  have len: "length r = n" and eq: "le_nat r + c * 256 ^ n = be_nat a + be_nat b"
    by (simp_all add: le_nat_rev)
  have bound: "le_nat r < 256 ^ n"
    using be_nat_bound [of "rev r"] len by (simp add: be_nat_rev)
  show ?thesis
  proof (cases "c = 0")
    case True
    with eq bound rc len assms show ?thesis by (simp add: addBuffers_def be_nat_rev)
  next
    case False
    then have "256 ^ n \<le> c * 256 ^ n" by simp
    with eq have "\<not> be_nat a + be_nat b < 256 ^ n" by linarith
    with False rc assms show ?thesis by (simp add: addBuffers_def)
  qed
qed

lemma sub_loop_correct:
  "length as = length bs \<Longrightarrow> 0 \<le> c \<Longrightarrow> c \<le> 1 \<Longrightarrow> sub_loop as bs c = (r, c') \<Longrightarrow>
   length r = length as \<and> 0 \<le> c' \<and> c' \<le> 1 \<and>
   int (le_nat r) - c' * 256 ^ length as = int (le_nat as) - int (le_nat bs) - c"
proof (induction as bs arbitrary: c r c' rule: list_induct2)
  case Nil
  then show ?case by simp
next
  case (Cons a as b bs)
  define d where "d = uint a - uint b - c"
  define d' where "d' = (if d < 0 then d + 256 else d)"
  define c1 where "c1 = (if d < 0 then 1 else 0 :: int)"
  obtain r2 c2 where 2: "sub_loop as bs c1 = (r2, c2)" by (cases "sub_loop as bs c1")
  have r: "r = word_of_int d' # r2" "c' = c2"
    using Cons.prems(3) 2 unfolding sub_loop.simps d_def [symmetric] Let_def
    by (simp_all add: d'_def c1_def split: if_splits)
  have rng: "0 \<le> uint a" "uint a < 256" "0 \<le> uint b" "uint b < 256"
    using uint_lt2p [of a] uint_lt2p [of b] by simp_all
  have d': "0 \<le> d' \<and> d' < 256 \<and> d' = d + 256 * c1"
    using rng Cons.prems(1,2) unfolding d'_def d_def c1_def by (simp only: split: if_split) linarith
  have c1: "0 \<le> c1" "c1 \<le> 1" by (auto simp: c1_def)
  have "d' mod 256 = d'" using d' by (intro mod_pos_pos_trivial) auto
  then have u: "int (unat (word_of_int d' :: byte)) = d'"
    by (simp add: unsigned_of_int take_bit_eq_mod)
  have "int (le_nat r) = d' + 256 * int (le_nat r2)"
    unfolding r le_nat.simps of_nat_add u by simp
  moreover have "c2 * 256 ^ length (a # as) = 256 * (c2 * 256 ^ length as)" by simp
  ultimately have "int (le_nat r) - c' * 256 ^ length (a # as)
      = d + 256 * (int (le_nat as) - int (le_nat bs))"
    using Cons.IH [OF c1 2] d' unfolding r(2) by (elim conjE) (rule borrow_arith, assumption+)
  then show ?case using Cons.IH [OF c1 2] by (simp add: r d_def)
qed

lemma subBuffers_be_nat:
  assumes "length a = n" and "length b = n" and "0 < n"
  shows "(if be_nat b \<le> be_nat a
          then length (subBuffers a b) = n \<and> be_nat (subBuffers a b) = be_nat a - be_nat b
          else subBuffers a b = NULL_BUFFER)"
proof -
  obtain r c where rc: "sub_loop (rev a) (rev b) 0 = (r, c)"
    by (cases "sub_loop (rev a) (rev b) 0")
  with sub_loop_correct [of "rev a" "rev b" 0 r c] assms
  have len: "length r = n" and c: "0 \<le> c" "c \<le> 1"
    and eq: "int (le_nat r) - c * 256 ^ n = int (be_nat a) - int (be_nat b)"
    by (simp_all add: le_nat_rev)
  have bound: "le_nat r < 256 ^ n"
    using be_nat_bound [of "rev r"] len by (simp add: be_nat_rev)
  then have boundi: "int (le_nat r) < 256 ^ n" by (simp flip: of_nat_less_iff)
  show ?thesis
  proof (cases "c = 0")
    case True
    with eq have "be_nat b \<le> be_nat a" "le_nat r = be_nat a - be_nat b" by auto
    with True rc len assms show ?thesis by (simp add: subBuffers_def be_nat_rev)
  next
    case False
    with c have "c = 1" by simp
    with eq have "int (le_nat r) - 256 ^ n = int (be_nat a) - int (be_nat b)" by simp
    with boundi have "\<not> be_nat b \<le> be_nat a" by linarith
    with False rc assms show ?thesis by (simp add: subBuffers_def)
  qed
qed

lemma compare_be_nat:
  "length a = length b \<Longrightarrow>
   compare a b = (if be_nat a < be_nat b then -1 else if be_nat b < be_nat a then 1 else 0)"
proof (induction a b rule: list_induct2)
  case Nil
  then show ?case by simp
next
  case (Cons x xs y ys)
  have lt: "u * 256 ^ length ys + be_nat us < v * 256 ^ length ys + be_nat vs"
    if "u < v" "length us = length ys" for u v us vs
  proof -
    have "u * 256 ^ length ys + be_nat us < (u + 1) * 256 ^ length ys"
      using be_nat_bound [of us] that by simp
    also have "\<dots> \<le> v * 256 ^ length ys" using that by (intro mult_right_mono) auto
    finally show ?thesis by simp
  qed
  consider "x < y" | "y < x" | "x = y" by fastforce
  then show ?case
  proof cases
    case 1
    with lt [of "unat x" "unat y" xs ys] Cons.hyps show ?thesis by (simp add: word_less_nat_alt)
  next
    case 2
    with lt [of "unat y" "unat x" ys xs] Cons.hyps show ?thesis by (auto simp: word_less_nat_alt)
  next
    case 3
    with Cons show ?thesis by simp
  qed
qed

lemma shift_loop_correct:
  "length (shift_loop xs c) = length xs \<and>
   le_nat (shift_loop xs c) = (2 * le_nat xs + c) mod 256 ^ length xs"
proof (induction xs arbitrary: c)
  case Nil
  then show ?case by simp
next
  case (Cons x xs)
  define v where "v = 2 * unat x + c"
  have "(2 * le_nat (x # xs) + c) mod 256 ^ length (x # xs)
      = (v + 256 * (2 * le_nat xs)) mod (256 * 256 ^ length xs)"
    by (simp add: v_def algebra_simps)
  also have "\<dots> = 256 * ((2 * le_nat xs + v div 256) mod 256 ^ length xs) + v mod 256"
  proof -
    have "(v + 256 * y) div 256 = y + v div 256" and "(v + 256 * y) mod 256 = v mod 256" for y
      by simp_all
    then show ?thesis by (simp only: mod_mult2_eq)
  qed
  finally have eq: "(2 * le_nat (x # xs) + c) mod 256 ^ length (x # xs)
      = v mod 256 + 256 * le_nat (shift_loop xs (v div 256))"
    using Cons.IH [of "v div 256"] by (simp add: add.commute)
  have sh: "shift_loop (x # xs) c = word_of_nat v # shift_loop xs (v div 256)"
    unfolding shift_loop.simps Let_def v_def ..
  show ?case
    unfolding eq sh using Cons.IH [of "v div 256"] by (simp add: unat_byte_of_nat)
qed

lemma shiftLeft1_be_nat:
  "length (shiftLeft1 b) = length b \<and> be_nat (shiftLeft1 b) = 2 * be_nat b mod 256 ^ length b"
  using shift_loop_correct [of "rev b" 0] by (simp add: shiftLeft1_def be_nat_rev le_nat_rev)


section \<open>Long division, bit by bit\<close>

lemma be_nat_byte:
  assumes "i < length d"
  shows "be_nat d div 256 ^ (length d - Suc i) mod 256 = unat (d ! i)"
proof -
  let ?lo = "drop (Suc i) d"
  have "d = (take i d @ [d ! i]) @ ?lo"
    using assms by (simp add: id_take_nth_drop)
  then have "be_nat d = (256 * be_nat (take i d) + unat (d ! i)) * 256 ^ length ?lo + be_nat ?lo"
    by (metis be_nat_append be_nat_snoc)
  moreover have "be_nat ?lo < 256 ^ length ?lo" by (rule be_nat_bound)
  ultimately have "be_nat d div 256 ^ length ?lo = 256 * be_nat (take i d) + unat (d ! i)"
    by simp
  then show ?thesis by simp
qed

lemma div_mod_unique:
  fixes r :: nat
  assumes "r < d" and "n = q * d + r"
  shows "n div d = q \<and> n mod d = r"
  using assms by simp

lemma bit_position:
  fixes k :: nat
  assumes "k < 128"
  shows "127 - k = (7 - k mod 8) + 8 * (15 - k div 8)"
    and "128 - k = Suc (7 - k mod 8) + 8 * (15 - k div 8)"
proof -
  define i j where "i = k div 8" and "j = k mod 8"
  have "k = 8 * i + j" "j < 8" by (simp_all add: i_def j_def)
  moreover from this assms have "i < 16" by linarith
  ultimately show "127 - k = (7 - k mod 8) + 8 * (15 - k div 8)"
    and "128 - k = Suc (7 - k mod 8) + 8 * (15 - k div 8)"
    unfolding i_def [symmetric] j_def [symmetric] by linarith+
qed

lemma bit_buffer:
  assumes "length d = 16" and "k < 128"
  shows "drop_bit (7 - k mod 8) (d ! (k div 8)) AND 1 = of_bool (bit (be_nat d) (127 - k))"
proof -
  have i: "k div 8 < 16" using assms by (simp add: less_mult_imp_div_less)
  have byte: "be_nat d div 256 ^ (15 - k div 8) mod 256 = unat (d ! (k div 8))"
    using be_nat_byte [of "k div 8" d] i assms(1) by simp
  have m8: "7 - k mod 8 < 8" by simp
  have e: "127 - k = 8 * (15 - k div 8) + (7 - k mod 8)"
    using bit_position(1) [OF assms(2)] by (simp only: add.commute)
  have "bit (be_nat d) (127 - k) = bit (drop_bit (8 * (15 - k div 8)) (be_nat d)) (7 - k mod 8)"
    by (simp add: e bit_drop_bit_eq)
  also have "\<dots> = bit (take_bit 8 (drop_bit (8 * (15 - k div 8)) (be_nat d))) (7 - k mod 8)"
    by (simp only: bit_take_bit_iff m8 simp_thms)
  also have "take_bit 8 (drop_bit (8 * (15 - k div 8)) (be_nat d)) = unat (d ! (k div 8))"
    unfolding take_bit_eq_mod drop_bit_eq_div power_mult using byte by simp
  finally have "bit (be_nat d) (127 - k) = bit (d ! (k div 8)) (7 - k mod 8)"
    by (simp add: bit_unsigned_iff)
  then show ?thesis
    unfolding and_one_eq mod_2_eq_odd bit_iff_odd_drop_bit [of "d ! (k div 8)"] by simp
qed

lemma unat_or_bit:
  fixes x :: byte
  assumes "unat x mod 2 ^ Suc m = 0" and "m < 8"
  shows "unat (x OR push_bit m 1) = unat x + 2 ^ m"
proof -
  have "\<not> bit (unat x) m"
    using assms by (simp add: bit_iff_odd mod_eq_0_iff_dvd) (auto simp: dvd_def)
  then have "unat x + 2 ^ m = unat x OR 2 ^ m"
    by (intro disjunctive_add_eq_or bit_eqI) (auto simp: bit_and_iff bit_exp_iff)
  moreover have "unat (push_bit m 1 :: byte) = 2 ^ m"
  proof -
    have "2 ^ m < (2 :: nat) ^ 8" using assms(2) by (intro power_strict_increasing) auto
    then have "take_bit 8 (push_bit m (1 :: nat)) = 2 ^ m"
      by (simp add: take_bit_eq_mod push_bit_eq_mult)
    then show ?thesis unfolding unsigned_push_bit_eq by simp
  qed
  ultimately show ?thesis by (simp add: unsigned_or_eq)
qed

lemma or_low_bit:
  assumes "length r = 16" and "even (be_nat r)"
  shows "be_nat (r[15 := r ! 15 OR of_bool b]) = be_nat r + of_bool b"
proof -
  have "be_nat r mod 256 = unat (r ! 15)"
    using be_nat_byte [of 15 r] assms(1) by simp
  moreover have "even (be_nat r mod 256)" using assms(2) by (simp add: dvd_mod_iff)
  ultimately have "even (unat (r ! 15))" by simp
  then have "unat (r ! 15 OR of_bool b) = unat (r ! 15) + of_bool b"
    using unat_or_bit [of "r ! 15" 0] by (cases b) (simp_all add: even_iff_mod_2_eq_zero)
  then show ?thesis using be_nat_update [of 15 r "r ! 15 OR of_bool b"] assms by simp
qed

lemma or_quotient_bit:
  assumes "length q = 16" and "k < 128" and "be_nat q = t * 2 ^ (128 - k)"
  shows "be_nat (q[k div 8 := q ! (k div 8) OR push_bit (7 - k mod 8) 1]) = be_nat q + 2 ^ (127 - k)"
proof -
  let ?i = "k div 8" and ?m = "7 - k mod 8"
  have i: "?i < 16" using assms by (simp add: less_mult_imp_div_less)
  note e = bit_position(2) [OF assms(2)] bit_position(1) [OF assms(2)]
  have "be_nat q = t * 2 ^ Suc ?m * 256 ^ (15 - ?i)"
    unfolding assms(3) e(1) power_add power_mult by simp
  moreover have "be_nat q div 256 ^ (15 - ?i) mod 256 = unat (q ! ?i)"
    using be_nat_byte [of ?i q] i assms(1) by simp
  ultimately have "unat (q ! ?i) = t * 2 ^ Suc ?m mod 256"
    by (simp del: power_Suc)
  moreover have "2 ^ Suc ?m dvd (256 :: nat)"
    using le_imp_power_dvd [of "Suc ?m" 8 "2 :: nat"] by simp
  ultimately have "unat (q ! ?i) mod 2 ^ Suc ?m = 0"
    by (simp add: mod_mod_cancel del: power_Suc)
  then have "unat (q ! ?i OR push_bit ?m 1) = unat (q ! ?i) + 2 ^ ?m"
    by (intro unat_or_bit) auto
  moreover have "(2 :: nat) ^ (127 - k) = 2 ^ ?m * 256 ^ (15 - ?i)"
    unfolding e(2) power_add power_mult by simp
  ultimately show ?thesis
    using be_nat_update [of ?i q "q ! ?i OR push_bit ?m 1"] i assms(1) by (simp add: algebra_simps)
qed

definition div_inv :: "nat \<Rightarrow> nat \<Rightarrow> nat \<Rightarrow> buffer \<times> buffer \<Rightarrow> bool" where
  "div_inv N D k st \<longleftrightarrow> length (fst st) = 16 \<and> length (snd st) = 16 \<and>
     be_nat (snd st) = N div 2 ^ (128 - k) mod D \<and>
     be_nat (fst st) = N div 2 ^ (128 - k) div D * 2 ^ (128 - k)"

lemma div_step_inv:
  assumes len: "length a = 16" "length d = 16" and k: "k < 128" and D: "0 < be_nat d"
    and inv: "div_inv (be_nat a) (be_nat d) k (q, r)"
  shows "div_inv (be_nat a) (be_nat d) (Suc k) (div_step a d k (q, r))"
proof -
  let ?N = "be_nat a" and ?D = "be_nat d"
  define P where "P = ?N div 2 ^ (128 - k)"
  define b where "b = bit ?N (127 - k)"
  have lq: "length q = 16" and lr: "length r = 16"
    and r: "be_nat r = P mod ?D" and q: "be_nat q = P div ?D * 2 ^ (128 - k)"
    using inv by (simp_all add: div_inv_def P_def)
  have e: "128 - k = Suc (127 - k)" using k by simp
  have "?N div 2 ^ (127 - k) div 2 = P"
    unfolding P_def e by (simp only: div_mult2_eq [symmetric] power_Suc2)
  then have P': "?N div 2 ^ (127 - k) = 2 * P + of_bool b"
  proof -
    have "x = 2 * (x div 2) + of_bool (odd x)" for x :: nat by (cases "odd x") auto
    from this [of "?N div 2 ^ (127 - k)"] show ?thesis
      unfolding \<open>?N div 2 ^ (127 - k) div 2 = P\<close> b_def bit_iff_odd .
  qed
  have "?N < 2 ^ (128 - k) * 2 ^ k"
    using be_nat_bound [of a] len k by (simp flip: power_add)
  then have "P < 2 ^ k" unfolding P_def by (simp add: less_mult_imp_div_less mult.commute)
  moreover have "(2 :: nat) ^ k \<le> 2 ^ 127" using k by (intro power_increasing) auto
  moreover have "be_nat r \<le> P" using r by simp
  ultimately have "2 * be_nat r < 2 ^ 128" by simp
  then have sh: "be_nat (shiftLeft1 r) = 2 * be_nat r" "length (shiftLeft1 r) = 16"
    using shiftLeft1_be_nat [of r] lr by simp_all
  define R where "R = (shiftLeft1 r)[15 := shiftLeft1 r ! 15 OR of_bool b]"
  have R: "be_nat R = 2 * be_nat r + of_bool b" "length R = 16"
    using or_low_bit [of "shiftLeft1 r" b] sh by (simp_all add: R_def)
  have step: "div_step a d k (q, r) =
    (if compare R d \<ge> 0
     then (q[k div 8 := q ! (k div 8) OR push_bit (7 - k mod 8) 1], subBuffers R d) else (q, R))"
    using bit_buffer [OF len(1) k] by (simp add: div_step_def Let_def R_def b_def)
  have rlt: "be_nat r < ?D" using r D by simp
  have PD: "2 * P + of_bool b = 2 * (P div ?D) * ?D + be_nat R"
  proof -
    have "2 * P = 2 * (P div ?D * ?D) + 2 * (P mod ?D)"
      by (metis distrib_left div_mult_mod_eq)
    then show ?thesis unfolding R(1) r by (simp add: mult.assoc)
  qed
  show ?thesis
  proof (cases "?D \<le> be_nat R")
    case True
    have "be_nat R - ?D < ?D" using R rlt by (cases b) auto
    moreover have "2 * P + of_bool b = (2 * (P div ?D) + 1) * ?D + (be_nat R - ?D)"
      using PD True by (simp add: algebra_simps)
    ultimately have "(2 * P + of_bool b) div ?D = 2 * (P div ?D) + 1"
      and "(2 * P + of_bool b) mod ?D = be_nat R - ?D"
      using div_mod_unique by blast+
    moreover have "compare R d \<ge> 0" using True R len by (simp add: compare_be_nat)
    moreover have "length (subBuffers R d) = 16" "be_nat (subBuffers R d) = be_nat R - ?D"
      using subBuffers_be_nat [of R 16 d] R len True by simp_all
    ultimately show ?thesis
      using or_quotient_bit [OF lq k q] lq q k
      by (simp add: div_inv_def step P' e algebra_simps)
  next
    case False
    then have "(2 * P + of_bool b) div ?D = 2 * (P div ?D)"
      and "(2 * P + of_bool b) mod ?D = be_nat R"
      unfolding PD by simp_all
    moreover have "\<not> compare R d \<ge> 0" using False R len by (simp add: compare_be_nat)
    ultimately show ?thesis
      using lq q k R by (simp add: div_inv_def step P' e algebra_simps)
  qed
qed

lemma div_fold_inv:
  assumes "length a = 16" "length d = 16" "0 < be_nat d"
  shows "k \<le> 128 \<Longrightarrow> div_inv (be_nat a) (be_nat d) k (fold (div_step a d) [0..<k] (alloc 16, alloc 16))"
proof (induction k)
  case 0
  have "be_nat a < 2 ^ 128" using be_nat_bound [of a] assms by simp
  then show ?case by (simp add: div_inv_def)
next
  case (Suc k)
  then show ?case
    using assms by (cases "fold (div_step a d) [0..<k] (alloc 16, alloc 16)") (simp add: div_step_inv)
qed

lemma divBuffers_be_nat:
  assumes "length a = 16" "length d = 16" "0 < be_nat d"
  shows "length (divBuffers a d) = 16 \<and> be_nat (divBuffers a d) = be_nat a div be_nat d"
proof -
  have "d \<noteq> ZERO_BALANCE" using assms(3) by (auto simp: ZERO_BALANCE_def)
  then show ?thesis
    using div_fold_inv [OF assms, of 128] assms by (simp add: divBuffers_def div_inv_def)
qed


section \<open>Schoolbook multiplication\<close>

text \<open>\<open>weight n k\<close> is the value of a one at index \<open>k\<close> of the double-length result.\<close>

definition weight :: "nat \<Rightarrow> nat \<Rightarrow> nat" where
  "weight n k = 256 ^ (2 * n - Suc k)"

lemma weight_Suc: "Suc k < 2 * n \<Longrightarrow> weight n k = 256 * weight n (Suc k)"
  by (simp add: weight_def flip: power_Suc)

lemma be_nat_take_Suc: "m < length b \<Longrightarrow> be_nat (take (Suc m) b) = 256 * be_nat (take m b) + unat (b ! m)"
  by (simp add: take_Suc_conv_app_nth be_nat_snoc)

lemma mul_step_value:
  assumes "length res = 2 * n" and "i + j + 1 < 2 * n" and "mul_step ai b i j (res, c) = (res', c')"
  shows "length res' = 2 * n \<and>
    be_nat res' + c' * weight n (i + j) = be_nat res + (ai * unat (b ! j) + c) * weight n (i + j + 1)"
proof -
  define m where "m = ai * unat (b ! j) + unat (res ! (i + j + 1)) + c"
  define W where "W = weight n (i + j + 1)"
  have r: "res' = res[i + j + 1 := word_of_nat m]" "c' = m div 256"
    using assms(3) unfolding mul_step_def Let_def prod.case m_def [symmetric] by simp_all
  have upd: "be_nat res' + unat (res ! (i + j + 1)) * W = be_nat res + m mod 256 * W"
    using be_nat_update [of "i + j + 1" res "word_of_nat m"] assms(1,2)
    by (simp only: r unat_byte_of_nat W_def weight_def)
  have w: "weight n (i + j) = 256 * W"
    using weight_Suc [of "i + j" n] assms(2) by (simp add: W_def)
  have "m mod 256 * W + m div 256 * (256 * W) = (m mod 256 + m div 256 * 256) * W"
    unfolding distrib_right by (simp only: mult.assoc)
  also have "\<dots> = m * W" by (simp only: mod_div_mult_eq)
  finally have "m mod 256 * W + c' * (256 * W) = m * W" by (simp add: r)
  moreover have "m * W = (ai * unat (b ! j) + c) * W + unat (res ! (i + j + 1)) * W"
    by (simp add: m_def algebra_simps)
  ultimately have "be_nat res' + c' * (256 * W) = be_nat res + (ai * unat (b ! j) + c) * W"
    using upd by linarith
  then show ?thesis using assms(1) by (simp add: w r(1) W_def)
qed

lemma mul_step_carry:
  assumes "ai \<le> 255" and "c \<le> 255" and "mul_step ai b i j (res, c) = (res', c')"
  shows "c' \<le> 255"
proof -
  have "ai * unat (b ! j) \<le> 255 * 255" using assms(1) by (intro mult_le_mono) simp_all
  moreover have "unat (res ! (i + j + 1)) \<le> 255" by simp
  ultimately have "ai * unat (b ! j) + unat (res ! (i + j + 1)) + c \<le> 65535"
    using assms(2) by linarith
  then show ?thesis using assms(3) by (auto simp: mul_step_def Let_def)
qed

lemma mul_row_value:
  assumes "m \<le> n" and "length b = n" and "i < n"
  shows "length res = 2 * n \<Longrightarrow> ai \<le> 255 \<Longrightarrow> c \<le> 255 \<Longrightarrow>
    fold (mul_step ai b i) (rev [0..<m]) (res, c) = (res', c') \<Longrightarrow>
    length res' = 2 * n \<and> c' \<le> 255 \<and> (\<forall>k \<le> i. res' ! k = res ! k) \<and>
    be_nat res' + c' * weight n i
      = be_nat res + c * weight n (i + m) + ai * be_nat (take m b) * weight n (i + m)"
  using assms(1)
proof (induction m arbitrary: res c)
  case 0
  then show ?case by simp
next
  case (Suc m)
  obtain r1 c1 where 1: "mul_step ai b i m (res, c) = (r1, c1)"
    by (cases "mul_step ai b i m (res, c)")
  have i: "i + m + 1 < 2 * n" "Suc (i + m) < 2 * n" using Suc.prems(5) assms(3) by auto
  have v: "length r1 = 2 * n"
    "be_nat r1 + c1 * weight n (i + m) = be_nat res + (ai * unat (b ! m) + c) * weight n (i + m + 1)"
    using mul_step_value [OF Suc.prems(1) i(1) 1] by simp_all
  have c1: "c1 \<le> 255" by (rule mul_step_carry [OF Suc.prems(2,3) 1])
  have keep: "\<forall>k \<le> i. r1 ! k = res ! k" using 1 by (auto simp: mul_step_def Let_def)
  have "fold (mul_step ai b i) (rev [0..<m]) (r1, c1) = (res', c')"
    using Suc.prems(4) 1 by simp
  with Suc.IH [OF v(1) Suc.prems(2) c1] Suc.prems(5)
  have IH: "length res' = 2 * n" "c' \<le> 255" "\<forall>k \<le> i. res' ! k = r1 ! k"
    "be_nat res' + c' * weight n i
      = be_nat r1 + c1 * weight n (i + m) + ai * be_nat (take m b) * weight n (i + m)" by auto
  have "ai * be_nat (take (Suc m) b) * weight n (i + Suc m)
      = ai * unat (b ! m) * weight n (i + m + 1) + ai * be_nat (take m b) * weight n (i + m)"
    using Suc.prems(5) assms(2) weight_Suc [OF i(2)] by (simp add: be_nat_take_Suc algebra_simps)
  then show ?case using IH v(2) keep by (simp add: algebra_simps)
qed

lemma mul_rows_value:
  assumes "length a = n" and "length b = n"
  shows "m \<le> n \<Longrightarrow> length res = 2 * n \<Longrightarrow> (\<forall>k < m. res ! k = 0) \<Longrightarrow>
    length (fold (mul_row a b) (rev [0..<m]) res) = 2 * n \<and>
    be_nat (fold (mul_row a b) (rev [0..<m]) res)
      = be_nat res + be_nat (take m a) * 256 ^ (n - m) * be_nat b"
proof (induction m arbitrary: res)
  case 0
  then show ?case by simp
next
  case (Suc m)
  obtain r c where rc: "fold (mul_step (unat (a ! m)) b m) (rev [0..<length b]) (res, 0) = (r, c)"
    by (cases "fold (mul_step (unat (a ! m)) b m) (rev [0..<length b]) (res, 0)")
  have mn: "m < n" using Suc.prems(1) by simp
  have row: "length r = 2 * n" "c \<le> 255" "\<forall>k \<le> m. r ! k = res ! k"
    "be_nat r + c * weight n m = be_nat res + unat (a ! m) * be_nat b * weight n (m + n)"
    using mul_row_value [OF le_refl assms(2) mn Suc.prems(2) _ _ rc [unfolded assms(2)]] assms
    by simp_all
  define r' where "r' = r[m := word_of_nat (unat (r ! m) + c)]"
  have r': "mul_row a b m res = r'" using rc by (simp add: mul_row_def r'_def)
  have z: "r ! m = 0" using row(3) Suc.prems(3) by simp
  have "be_nat r' = be_nat r + c * weight n m"
    using be_nat_update [of m r "word_of_nat c"] row(1,2) mn
    by (simp add: r'_def z unat_byte_of_nat weight_def)
  then have val: "be_nat r' = be_nat res + unat (a ! m) * be_nat b * 256 ^ (n - Suc m)"
    using row(4) mn by (simp add: weight_def numeral_2_eq_2)
  have len: "length r' = 2 * n" using row(1) by (simp add: r'_def)
  have zero: "\<forall>k < m. r' ! k = 0" using row(3) Suc.prems(3) by (simp add: r'_def)
  have p: "(256 :: nat) ^ (n - m) = 256 * 256 ^ (n - Suc m)" using mn by (simp flip: power_Suc add: Suc_diff_Suc)
  have "be_nat (take (Suc m) a) * 256 ^ (n - Suc m) * be_nat b
      = unat (a ! m) * be_nat b * 256 ^ (n - Suc m) + be_nat (take m a) * 256 ^ (n - m) * be_nat b"
    using mn assms(1) p by (simp add: be_nat_take_Suc algebra_simps)
  then show ?case using Suc.IH [OF _ len zero] mn val by (simp add: r' algebra_simps)
qed

lemma mulBuffers_be_nat:
  assumes "length a = 16" and "length b = 16"
  shows "(if be_nat a * be_nat b < 256 ^ 16
          then length (mulBuffers a b) = 16 \<and> be_nat (mulBuffers a b) = be_nat a * be_nat b
          else mulBuffers a b = NULL_BUFFER)"
proof -
  define R where "R = fold (mul_row a b) (rev [0..<16]) (alloc 32)"
  have R: "length R = 32" "be_nat R = be_nat a * be_nat b"
    using mul_rows_value [OF assms, of 16 "alloc 32"] assms by (simp_all add: R_def alloc_def)
  have split: "be_nat R = be_nat (take 16 R) * 256 ^ 16 + be_nat (drop 16 R)"
    using be_nat_append [of "take 16 R" "drop 16 R"] R(1) by simp
  have lo: "be_nat (drop 16 R) < 256 ^ 16" using be_nat_bound [of "drop 16 R"] R(1) by simp
  have z: "take 16 R = ZERO_BALANCE \<longleftrightarrow> be_nat (take 16 R) = 0"
    using be_nat_eq_0 [of "take 16 R"] R(1) by (simp add: ZERO_BALANCE_def alloc_def)
  have def: "mulBuffers a b = (if take 16 R \<noteq> ZERO_BALANCE then NULL_BUFFER else drop 16 R)"
    using assms R(1) by (simp add: mulBuffers_def R_def DOUBLE_LENGTH_def truncate16_def Let_def)
  show ?thesis
  proof (cases "be_nat (take 16 R) = 0")
    case True
    with split lo R z show ?thesis by (simp add: def)
  next
    case False
    then have "256 ^ 16 \<le> be_nat (take 16 R) * 256 ^ 16" by simp
    with split have "\<not> be_nat R < 256 ^ 16" by linarith
    with False z show ?thesis by (simp add: def R(2))
  qed
qed

end
