(* ===== verification/Balance_Spec.thy ===== *)
theory Balance_Spec
  imports Balance_Arith
begin

text \<open>
  The contract of the class \<open>Balance\<close> as a locale: amounts have a value below a bound, and
  addition, subtraction and comparison act on the values, refusing a result out of range. The
  clients of \<open>Balance\<close> (fees, stakes, transfers) rest on it only through what is proved here;
  the interpretation shows that the byte routines provide it. The operations that scale an
  amount, and the constants of the fee schedule, follow.
\<close>

locale amounts =
  fixes ok :: "'m \<Rightarrow> bool" and val :: "'m \<Rightarrow> nat" and bound :: nat
    and add sub :: "'m \<Rightarrow> 'm \<Rightarrow> 'm option" and ge :: "'m \<Rightarrow> 'm \<Rightarrow> bool"
  assumes val_bound: "ok x \<Longrightarrow> val x < bound"
    and add_ok: "ok x \<Longrightarrow> ok y \<Longrightarrow> val x + val y < bound \<Longrightarrow>
      \<exists>z. add x y = Some z \<and> ok z \<and> val z = val x + val y"
    and add_overflow: "ok x \<Longrightarrow> ok y \<Longrightarrow> bound \<le> val x + val y \<Longrightarrow> add x y = None"
    and sub_ok: "ok x \<Longrightarrow> ok y \<Longrightarrow> val y \<le> val x \<Longrightarrow>
      \<exists>z. sub x y = Some z \<and> ok z \<and> val z = val x - val y"
    and sub_underflow: "ok x \<Longrightarrow> ok y \<Longrightarrow> val x < val y \<Longrightarrow> sub x y = None"
    and ge_iff: "ok x \<Longrightarrow> ok y \<Longrightarrow> ge x y \<longleftrightarrow> val y \<le> val x"
begin

lemma add_Some:
  assumes "ok x" "ok y" "add x y = Some z"
  shows "ok z \<and> val z = val x + val y"
  using assms add_ok [of x y] add_overflow [of x y] by (cases "val x + val y < bound") auto

lemma sub_Some:
  assumes "ok x" "ok y" "sub x y = Some z"
  shows "ok z \<and> val y \<le> val x \<and> val z = val x - val y"
  using assms sub_ok [of x y] sub_underflow [of x y] by (cases "val y \<le> val x") auto

lemma sub_after_ge: "ok x \<Longrightarrow> ok y \<Longrightarrow> ge x y \<Longrightarrow> sub x y \<noteq> None"
  using sub_ok [of x y] by (auto simp: ge_iff)

lemma add_sub_cancel:
  assumes "ok x" "ok y" "add x y = Some z"
  shows "\<exists>w. sub z y = Some w \<and> ok w \<and> val w = val x"
  using add_Some [OF assms] sub_ok [of z y] assms(2) by auto

lemma payment_conserves:
  assumes "ok a" "ok b" "ok c" "sub a c = Some a'" "add b c = Some b'"
  shows "val a' + val b' = val a + val b"
  using sub_Some [of a c a'] add_Some [of b c b'] assms by simp

lemma fee_burn:
  assumes "ok a" "ok b" "ok fee" "ok reward" "val reward \<le> val fee"
    and "sub a fee = Some a'" "add b reward = Some b'"
  shows "val a' + val b' + (val fee - val reward) = val a + val b"
  using sub_Some [of a fee a'] add_Some [of b reward b'] assms by simp

end

section \<open>Balances provide the contract\<close>

definition bal_ok :: "Balance \<Rightarrow> bool" where
  "bal_ok x \<longleftrightarrow> length (bal_value x) = 16"

definition bal_nat :: "Balance \<Rightarrow> nat" where
  "bal_nat x = be_nat (bal_value x)"

lemma toBalance_Some_iff: "toBalance b = Some x \<longleftrightarrow> length b = 16 \<and> x = Balance b"
  by (auto simp: toBalance_def)

lemma toBalance_None_iff: "toBalance b = None \<longleftrightarrow> length b \<noteq> 16"
  by (auto simp: toBalance_def)

lemma toBalance_NULL [simp]: "toBalance [] = None"
  by (simp add: toBalance_def)

lemma bal_ok_toBalance: "toBalance b = Some x \<Longrightarrow> bal_ok x \<and> bal_nat x = be_nat b"
  by (simp add: toBalance_Some_iff bal_ok_def bal_nat_def)

lemma bal_ok_Balance [simp]: "bal_ok (Balance b) \<longleftrightarrow> length b = 16"
  by (simp add: bal_ok_def)

lemma bal_nat_Balance [simp]: "bal_nat (Balance b) = be_nat b"
  by (simp add: bal_nat_def)

interpretation bal: amounts bal_ok bal_nat "2 ^ 128" bal_add bal_sub bal_greaterThanOrEquals
proof (unfold_locales, goal_cases)
  case (1 x)
  then show ?case using be_nat_bound [of "bal_value x"] by (simp add: bal_ok_def bal_nat_def)
next
  case (2 x y)
  then show ?case using addBuffers_be_nat [of "bal_value x" 16 "bal_value y"]
    by (simp add: bal_ok_def bal_nat_def bal_add_def toBalance_def)
next
  case (3 x y)
  then show ?case using addBuffers_be_nat [of "bal_value x" 16 "bal_value y"]
    by (simp add: bal_ok_def bal_nat_def bal_add_def)
next
  case (4 x y)
  then show ?case using subBuffers_be_nat [of "bal_value x" 16 "bal_value y"]
    by (simp add: bal_ok_def bal_nat_def bal_sub_def toBalance_def)
next
  case (5 x y)
  then show ?case using subBuffers_be_nat [of "bal_value x" 16 "bal_value y"]
    by (simp add: bal_ok_def bal_nat_def bal_sub_def)
next
  case (6 x y)
  then show ?case
    by (simp add: bal_ok_def bal_nat_def bal_greaterThanOrEquals_def compare_be_nat)
qed

lemma bal_greaterThan_iff: "bal_ok x \<Longrightarrow> bal_ok y \<Longrightarrow> bal_greaterThan x y \<longleftrightarrow> bal_nat y < bal_nat x"
  by (simp add: bal_ok_def bal_nat_def bal_greaterThan_def compare_be_nat)

lemma bal_lowerThan_iff: "bal_ok x \<Longrightarrow> bal_ok y \<Longrightarrow> bal_lowerThan x y \<longleftrightarrow> bal_nat x < bal_nat y"
  by (simp add: bal_ok_def bal_nat_def bal_lowerThan_def compare_be_nat)

lemma bal_lowerThanOrEquals_iff:
  "bal_ok x \<Longrightarrow> bal_ok y \<Longrightarrow> bal_lowerThanOrEquals x y \<longleftrightarrow> bal_nat x \<le> bal_nat y"
  by (auto simp: bal_ok_def bal_nat_def bal_lowerThanOrEquals_def compare_be_nat)

lemma bal_equals_iff: "bal_ok x \<Longrightarrow> bal_ok y \<Longrightarrow> bal_equals x y \<longleftrightarrow> bal_nat x = bal_nat y"
  using be_nat_inj [of "bal_value x" "bal_value y"]
  by (simp add: bal_ok_def bal_nat_def bal_equals_def)

section \<open>Scaling\<close>

lemma bal_mul_nat:
  assumes "bal_ok x" "length num = 16"
  shows "(if bal_nat x * be_nat num < 2 ^ 128
          then \<exists>z. bal_mul x num = Some z \<and> bal_ok z \<and> bal_nat z = bal_nat x * be_nat num
          else bal_mul x num = None)"
  using mulBuffers_be_nat [of "bal_value x" num] assms
  by (simp add: bal_mul_def bal_ok_def bal_nat_def toBalance_def)

lemma bal_div_nat:
  assumes "bal_ok x" "length d = 16" "0 < be_nat d"
  shows "\<exists>z. bal_div x d = Some z \<and> bal_ok z \<and> bal_nat z = bal_nat x div be_nat d"
  using divBuffers_be_nat [of "bal_value x" d] assms
  by (simp add: bal_div_def bal_ok_def bal_nat_def toBalance_def)

lemma bal_div_zero: "length d = 16 \<Longrightarrow> be_nat d = 0 \<Longrightarrow> bal_div x d = None"
  using be_nat_eq_0 [of d] by (simp add: bal_div_def divBuffers_def ZERO_BALANCE_def alloc_def)

lemma PERCENTAGE_TERM_nat [simp]: "length PERCENTAGE_TERM = 16" "be_nat PERCENTAGE_TERM = 10000"
  by (simp_all add: PERCENTAGE_TERM_def)

lemma length_percents [simp, buf]:
  "length PERCENT_75 = 16" "length PERCENT_50 = 16" "length PERCENT_25 = 16"
  "length (toTerm v) = 16"
  by (simp_all add: PERCENT_75_def PERCENT_50_def PERCENT_25_def percent_def toTerm_def)

lemma be_nat_percents [simp]:
  "be_nat PERCENT_75 = 7500" "be_nat PERCENT_50 = 5000" "be_nat PERCENT_25 = 2500"
  by (simp_all add: PERCENT_75_def PERCENT_50_def PERCENT_25_def percent_def)

lemma divBuffers_NULL [simp]: "divBuffers [] d = []"
  by (simp add: divBuffers_def)

lemma bal_percentage_nat:
  assumes "bal_ok x" "length p = 16"
  shows "(if bal_nat x * be_nat p < 2 ^ 128
          then \<exists>z. bal_percentage x p = Some z \<and> bal_ok z \<and> bal_nat z = bal_nat x * be_nat p div 10000
          else bal_percentage x p = None)"
  using mulBuffers_be_nat [of "bal_value x" p] assms
    divBuffers_be_nat [of "mulBuffers (bal_value x) p" PERCENTAGE_TERM]
  by (auto simp: bal_percentage_def bal_ok_def bal_nat_def toBalance_def Let_def)

section \<open>The constants of the fee schedule\<close>

definition fee :: nat where "fee = 30000000000000000"

lemma length_FEE [simp, buf]: "length FEE = 16"
  by (simp add: FEE_def)

lemma be_nat_FEE [simp]: "be_nat FEE = fee"
  by (simp add: FEE_def fee_def)

lemma length_ZERO_BALANCE [simp, buf]: "length ZERO_BALANCE = 16"
  by (simp add: ZERO_BALANCE_def)

lemma be_nat_ZERO_BALANCE [simp]: "be_nat ZERO_BALANCE = 0"
  by (simp add: ZERO_BALANCE_def)

lemma toBalance_FEE [simp]: "toBalance FEE = Some BALANCE_FEE"
  by (simp add: toBalance_def BALANCE_FEE_def)

lemma BALANCE_FEE_nat [simp]: "bal_ok BALANCE_FEE" "bal_nat BALANCE_FEE = fee"
  by (simp_all add: BALANCE_FEE_def)

lemma BALANCE_ZERO_nat [simp]: "bal_ok BALANCE_ZERO" "bal_nat BALANCE_ZERO = 0"
  by (simp_all add: BALANCE_ZERO_def)

lemma BALANCE_TO_STAKE_nat [simp]: "bal_ok BALANCE_TO_STAKE" "bal_nat BALANCE_TO_STAKE = 10 * fee"
  using bal_mul_nat [of BALANCE_FEE "toTerm 10"]
  by (auto simp: BALANCE_TO_STAKE_def fee_def toTerm_def)

definition reward75 :: Balance where "reward75 = the (bal_percentage BALANCE_FEE PERCENT_75)"
definition reward50 :: Balance where "reward50 = the (bal_percentage BALANCE_FEE PERCENT_50)"
definition reward25 :: Balance where "reward25 = the (bal_percentage BALANCE_FEE PERCENT_25)"

lemma fee_percentage:
  assumes "length p = 16" "be_nat p \<le> 10000"
  shows "\<exists>z. bal_percentage BALANCE_FEE p = Some z \<and> bal_ok z \<and> bal_nat z = fee * be_nat p div 10000"
proof -
  have "fee * be_nat p \<le> fee * 10000" using assms by simp
  also have "fee * 10000 < 2 ^ 128" by (simp add: fee_def)
  finally show ?thesis using bal_percentage_nat [of BALANCE_FEE p] assms by simp
qed

lemma rewards [simp]:
  "bal_percentage BALANCE_FEE PERCENT_75 = Some reward75"
  "bal_percentage BALANCE_FEE PERCENT_50 = Some reward50"
  "bal_percentage BALANCE_FEE PERCENT_25 = Some reward25"
  "bal_ok reward75" "bal_ok reward50" "bal_ok reward25"
  using fee_percentage [of PERCENT_75] fee_percentage [of PERCENT_50] fee_percentage [of PERCENT_25]
  by (auto simp: reward75_def reward50_def reward25_def)

lemma reward_values [simp]:
  "bal_nat reward75 = 3 * (fee div 4)" "bal_nat reward50 = 2 * (fee div 4)" "bal_nat reward25 = fee div 4"
  using fee_percentage [of PERCENT_75] fee_percentage [of PERCENT_50] fee_percentage [of PERCENT_25]
  by (auto simp: fee_def)

lemma fee_quarters: "fee = 4 * (fee div 4)"
  by (simp add: fee_def)

lemma fee_rest:
  "fee - 3 * (fee div 4) = fee div 4" "3 * (fee div 4) \<le> fee"
  "fee - 2 * (fee div 4) = 2 * (fee div 4)" "2 * (fee div 4) \<le> fee" "fee div 4 \<le> fee"
  by (simp_all add: fee_def)

end
