(* ===== verification/NodeEntry.thy ===== *)
theory NodeEntry
  imports Balance_Spec
begin

text \<open>
  \<open>src/core/state/utils/roles.js\<close> and \<open>src/core/state/utils/nodeEntry.js\<close>: the 69-byte
  entry of a network participant, \<open>[role(1)][writing key(32)][balance(16)][license(4)][stake(16)]\<close>.
  The setters are given as functions on buffers; the locale \<open>entry_field\<close> states what a
  setter promises in terms of the decoded record, and is interpreted for each of them. Some
  setters of the code write into their argument and some copy; every buffer they get was copied
  out of the store by \<open>getEntryApply\<close> and is not read again through its old name, so the
  returned buffer is all that matters.
\<close>

section \<open>Roles\<close>

definition WHITELISTED_MASK :: byte where "WHITELISTED_MASK = 0x1"
definition WRITER_MASK :: byte where "WRITER_MASK = 0x2"
definition INDEXER_MASK :: byte where "INDEXER_MASK = 0x4"

definition READER :: byte where "READER = 0x0"
definition WHITELISTED :: byte where "WHITELISTED = 0x1"
definition WRITER :: byte where "WRITER = 0x3"
definition INDEXER :: byte where "INDEXER = 0x7"

definition NodeRole :: "byte list" where
  "NodeRole = [READER, WHITELISTED, WRITER, INDEXER]"

definition isNodeRoleValid :: "byte \<Rightarrow> bool" where
  "isNodeRoleValid role \<longleftrightarrow> List.member NodeRole role"

lemmas role_defs = WHITELISTED_MASK_def WRITER_MASK_def INDEXER_MASK_def
  READER_def WHITELISTED_def WRITER_def INDEXER_def

lemma isNodeRoleValid_iff: "isNodeRoleValid r \<longleftrightarrow> r = 0 \<or> r = 1 \<or> r = 3 \<or> r = 7"
  by (auto simp: isNodeRoleValid_def NodeRole_def role_defs)

section \<open>Entries\<close>

record node_entry =
  ne_wk :: buffer
  ne_isWhitelisted :: bool
  ne_isWriter :: bool
  ne_isIndexer :: bool
  ne_balance :: buffer
  ne_license :: buffer
  ne_stakedBalance :: buffer

definition calculateNodeRole :: "node_entry \<Rightarrow> byte" where
  "calculateNodeRole node =
     (let role = READER;
          role = (if ne_isWhitelisted node then role OR WHITELISTED_MASK else role);
          role = (if ne_isWriter node then role OR WRITER_MASK else role);
          role = (if ne_isIndexer node then role OR INDEXER_MASK else role)
      in role)"

definition NODE_ENTRY_SIZE :: nat where
  "NODE_ENTRY_SIZE = LICENSE_BYTE_LENGTH + WRITER_BYTE_LENGTH + 2 * BALANCE_BYTE_LENGTH + 1"

definition ZERO_LICENSE :: buffer where "ZERO_LICENSE = alloc LICENSE_BYTE_LENGTH"

lemma NODE_ENTRY_SIZE_simp [simp]: "NODE_ENTRY_SIZE = 69"
  by (simp add: NODE_ENTRY_SIZE_def)

lemma length_ZERO_LICENSE [simp, buf]: "length ZERO_LICENSE = 4"
  by (simp add: ZERO_LICENSE_def)

definition ne_layout :: "byte \<Rightarrow> buffer \<Rightarrow> buffer \<Rightarrow> buffer \<Rightarrow> buffer \<Rightarrow> buffer" where
  "ne_layout role wk balance license staked =
     (let entry = (alloc NODE_ENTRY_SIZE)[0 := role];
          off = 1;
          entry = copy_into wk off entry;
          off = off + WRITER_BYTE_LENGTH;
          entry = copy_into balance off entry;
          off = off + BALANCE_BYTE_LENGTH;
          entry = copy_into license off entry;
          off = off + LICENSE_BYTE_LENGTH
      in copy_into staked off entry)"

definition ne_init :: "buffer \<Rightarrow> byte \<Rightarrow> buffer \<Rightarrow> buffer \<Rightarrow> buffer \<Rightarrow> buffer" where
  "ne_init writingKey role balance license stakedBalance =
     (if \<not> isBufferValid (Some writingKey) WRITER_BYTE_LENGTH \<or>
         \<not> isBufferValid (Some balance) BALANCE_BYTE_LENGTH \<or>
         \<not> isNodeRoleValid role \<or>
         \<not> isBufferValid (Some license) LICENSE_BYTE_LENGTH \<or>
         \<not> isBufferValid (Some stakedBalance) BALANCE_BYTE_LENGTH
      then alloc 0
      else ne_layout role writingKey balance license stakedBalance)"

definition ne_encode :: "node_entry \<Rightarrow> buffer" where
  "ne_encode node =
     (let nodeRole = calculateNodeRole node in
      if \<not> isBufferValid (Some (ne_wk node)) WRITER_BYTE_LENGTH \<or>
         \<not> isBufferValid (Some (ne_balance node)) BALANCE_BYTE_LENGTH \<or>
         \<not> isNodeRoleValid nodeRole \<or>
         \<not> isBufferValid (Some (ne_license node)) LICENSE_BYTE_LENGTH \<or>
         \<not> isBufferValid (Some (ne_stakedBalance node)) BALANCE_BYTE_LENGTH
      then alloc 0
      else ne_layout nodeRole (ne_wk node) (ne_balance node) (ne_license node) (ne_stakedBalance node))"

definition ne_decode :: "buffer option \<Rightarrow> node_entry option" where
  "ne_decode nodeEntry =
     (if \<not> isBufferValid nodeEntry NODE_ENTRY_SIZE then None
      else case nodeEntry of None \<Rightarrow> None | Some b \<Rightarrow>
        let role = b ! 0;
            off1 = 1; off2 = off1 + WRITER_BYTE_LENGTH;
            off3 = off2 + BALANCE_BYTE_LENGTH; off4 = off3 + LICENSE_BYTE_LENGTH
        in Some \<lparr>ne_wk = subarray off1 off2 b,
                 ne_isWhitelisted = (role AND WHITELISTED_MASK \<noteq> 0),
                 ne_isWriter = (role AND WRITER_MASK \<noteq> 0),
                 ne_isIndexer = (role AND INDEXER_MASK \<noteq> 0),
                 ne_balance = subarray off2 off3 b,
                 ne_license = subarray off3 off4 b,
                 ne_stakedBalance = subarray off4 NODE_ENTRY_SIZE b\<rparr>)"

definition isWhitelisted :: "buffer option \<Rightarrow> bool" where
  "isWhitelisted nodeEntry =
     (case nodeEntry of
        Some b \<Rightarrow> isBufferValid nodeEntry NODE_ENTRY_SIZE \<and> b ! 0 AND WHITELISTED_MASK \<noteq> 0
      | None \<Rightarrow> False)"

definition isWriter :: "buffer option \<Rightarrow> bool" where
  "isWriter nodeEntry =
     (if \<not> isWhitelisted nodeEntry then False
      else case nodeEntry of Some b \<Rightarrow> b ! 0 AND WRITER_MASK \<noteq> 0 | None \<Rightarrow> False)"

definition isIndexer :: "buffer option \<Rightarrow> bool" where
  "isIndexer nodeEntry =
     (if \<not> isWriter nodeEntry then False
      else case nodeEntry of Some b \<Rightarrow> b ! 0 AND INDEXER_MASK \<noteq> 0 | None \<Rightarrow> False)"

text \<open>\<open>null\<close> as entry or as result is \<open>None\<close>.\<close>

definition setRole :: "buffer option \<Rightarrow> byte \<Rightarrow> buffer option" where
  "setRole nodeEntry nodeRole =
     (if \<not> isNodeRoleValid nodeRole then None
      else if \<not> isBufferValid nodeEntry NODE_ENTRY_SIZE then None
      else map_option (\<lambda>b. (copy_into b 0 (alloc NODE_ENTRY_SIZE))[0 := nodeRole]) nodeEntry)"

definition setWritingKey :: "buffer option \<Rightarrow> buffer \<Rightarrow> buffer option" where
  "setWritingKey nodeEntry writingKey =
     (if \<not> isBufferValid nodeEntry NODE_ENTRY_SIZE \<or>
         \<not> isBufferValid (Some writingKey) WRITER_BYTE_LENGTH then None
      else map_option (copy_into writingKey 1) nodeEntry)"

definition setBalance :: "buffer option \<Rightarrow> buffer \<Rightarrow> buffer option" where
  "setBalance nodeEntry balance =
     (if \<not> isBufferValid nodeEntry NODE_ENTRY_SIZE \<or>
         \<not> isBufferValid (Some balance) BALANCE_BYTE_LENGTH then None
      else map_option (copy_into balance (WRITER_BYTE_LENGTH + 1)) nodeEntry)"

definition setLicense :: "buffer option \<Rightarrow> buffer \<Rightarrow> buffer option" where
  "setLicense nodeEntry license =
     (if \<not> isBufferValid nodeEntry NODE_ENTRY_SIZE \<or>
         \<not> isBufferValid (Some license) LICENSE_BYTE_LENGTH then None
      else map_option (copy_into license (WRITER_BYTE_LENGTH + BALANCE_BYTE_LENGTH + 1)) nodeEntry)"

definition setStakedBalance :: "buffer option \<Rightarrow> buffer \<Rightarrow> buffer option" where
  "setStakedBalance nodeEntry stakedBalance =
     (if \<not> isBufferValid nodeEntry NODE_ENTRY_SIZE \<or>
         \<not> isBufferValid (Some stakedBalance) BALANCE_BYTE_LENGTH then None
      else map_option (\<lambda>b. copy_into stakedBalance
             (WRITER_BYTE_LENGTH + BALANCE_BYTE_LENGTH + LICENSE_BYTE_LENGTH + 1)
             (copy_into b 0 (alloc NODE_ENTRY_SIZE))) nodeEntry)"

definition setRoleAndWriterKey :: "buffer option \<Rightarrow> byte \<Rightarrow> buffer \<Rightarrow> buffer option" where
  "setRoleAndWriterKey nodeEntry nodeRole writingKey =
     (if \<not> isNodeRoleValid nodeRole \<or> \<not> isBufferValid (Some writingKey) WRITER_BYTE_LENGTH then None
      else if \<not> isBufferValid nodeEntry NODE_ENTRY_SIZE then None
      else map_option (\<lambda>b. copy_into writingKey 1 (b[0 := nodeRole])) nodeEntry)"

text \<open>\<open>Balance.update(nodeEntry)\<close>.\<close>

definition bal_update :: "Balance \<Rightarrow> buffer option \<Rightarrow> buffer option" where
  "bal_update x nodeEntry = setBalance nodeEntry (bal_value x)"

section \<open>What the setters promise\<close>

locale entry_field =
  fixes decode :: "buffer option \<Rightarrow> 'r option"
    and set :: "buffer option \<Rightarrow> 'v \<Rightarrow> buffer option"
    and upd :: "'v \<Rightarrow> 'r \<Rightarrow> 'r" and ok :: "'v \<Rightarrow> bool"
  assumes set_decode: "decode (Some b) = Some r \<Longrightarrow> ok v \<Longrightarrow>
      \<exists>b'. set (Some b) v = Some b' \<and> decode (Some b') = Some (upd v r)"
    and set_reject: "decode e = None \<or> \<not> ok v \<Longrightarrow> set e v = None"
    and decode_null: "decode None = None"
begin

lemma set_SomeD:
  assumes "set e v = Some b'"
  shows "ok v \<and> (\<exists>r. decode e = Some r \<and> decode (Some b') = Some (upd v r))"
proof -
  have ok: "ok v" "decode e \<noteq> None" using assms set_reject [of e v] by (metis option.distinct(1))+
  then obtain b r where "e = Some b" "decode (Some b) = Some r"
    using decode_null by (cases e) auto
  with set_decode [of b r v] ok assms show ?thesis by auto
qed

lemma set_None_iff: "set e v = None \<longleftrightarrow> decode e = None \<or> \<not> ok v"
proof (cases "decode e = None \<or> \<not> ok v")
  case True
  then show ?thesis using set_reject by blast
next
  case False
  then obtain b r where "e = Some b" "decode (Some b) = Some r"
    using decode_null by (cases e) auto
  with False set_decode [of b r v] show ?thesis by auto
qed

lemma decode_set:
  "decode (set e v) = (if ok v then map_option (upd v) (decode e) else None)"
proof (cases "set e v")
  case None
  then show ?thesis using set_None_iff [of e v] decode_null by auto
next
  case (Some b')
  then show ?thesis using set_SomeD [OF Some] by auto
qed

end

lemma ne_decode_None_iff: "ne_decode e = None \<longleftrightarrow> \<not> isBufferValid e 69"
  by (auto simp: ne_decode_def Let_def split: option.split)

lemma ne_decode_Some_iff: "(\<exists>r. ne_decode (Some b) = Some r) \<longleftrightarrow> length b = 69"
  using ne_decode_None_iff [of "Some b"] by auto

lemma ne_decode_null [simp]: "ne_decode None = None"
  by (simp add: ne_decode_def)

definition set_role_flags :: "byte \<Rightarrow> node_entry \<Rightarrow> node_entry" where
  "set_role_flags role r = r\<lparr>ne_isWhitelisted := (role AND WHITELISTED_MASK \<noteq> 0),
     ne_isWriter := (role AND WRITER_MASK \<noteq> 0), ne_isIndexer := (role AND INDEXER_MASK \<noteq> 0)\<rparr>"

lemma copy_whole: "length b = n \<Longrightarrow> copy_into b 0 (alloc n) = b"
  by (simp add: copy_into_def)

lemma subarray_update_0: "0 < i \<Longrightarrow> subarray i j (b[0 := v]) = subarray i j b"
  by (simp add: subarray_def drop_update_cancel)

lemma ne_decode_Some:
  "length b = 69 \<Longrightarrow> ne_decode (Some b) = Some \<lparr>ne_wk = subarray 1 33 b,
     ne_isWhitelisted = (b ! 0 AND WHITELISTED_MASK \<noteq> 0),
     ne_isWriter = (b ! 0 AND WRITER_MASK \<noteq> 0),
     ne_isIndexer = (b ! 0 AND INDEXER_MASK \<noteq> 0),
     ne_balance = subarray 33 49 b, ne_license = subarray 49 53 b,
     ne_stakedBalance = subarray 53 69 b\<rparr>"
  by (simp add: ne_decode_def Let_def)

lemma copy_field:
  assumes "length b = 69" "length v = n" "off + n \<le> 69"
  shows "length (copy_into v off b) = 69"
    "i = off \<Longrightarrow> j = off + n \<Longrightarrow> subarray i j (copy_into v off b) = v"
    "j \<le> 69 \<Longrightarrow> j \<le> off \<or> off + n \<le> i \<Longrightarrow> subarray i j (copy_into v off b) = subarray i j b"
    "0 < off \<Longrightarrow> copy_into v off b ! 0 = b ! 0"
  using assms subarray_copy_same [of off v b] subarray_copy_other [of off v b j i]
  by (auto simp: nth_copy_into)

interpretation fbalance: entry_field ne_decode setBalance "\<lambda>v r. r\<lparr>ne_balance := v\<rparr>" "\<lambda>v. length v = 16"
proof (unfold_locales, goal_cases)
  case (1 b r v)
  then have "length b = 69" using ne_decode_Some_iff [of b] by auto
  with 1 show ?case by (auto simp: setBalance_def ne_decode_Some copy_field)
qed (auto simp: setBalance_def ne_decode_None_iff)

interpretation fwk: entry_field ne_decode setWritingKey "\<lambda>v r. r\<lparr>ne_wk := v\<rparr>" "\<lambda>v. length v = 32"
proof (unfold_locales, goal_cases)
  case (1 b r v)
  then have "length b = 69" using ne_decode_Some_iff [of b] by auto
  with 1 show ?case by (auto simp: setWritingKey_def ne_decode_Some copy_field)
qed (auto simp: setWritingKey_def ne_decode_None_iff)

interpretation flicense: entry_field ne_decode setLicense "\<lambda>v r. r\<lparr>ne_license := v\<rparr>" "\<lambda>v. length v = 4"
proof (unfold_locales, goal_cases)
  case (1 b r v)
  then have "length b = 69" using ne_decode_Some_iff [of b] by auto
  with 1 show ?case by (auto simp: setLicense_def ne_decode_Some copy_field)
qed (auto simp: setLicense_def ne_decode_None_iff)

interpretation fstaked: entry_field ne_decode setStakedBalance
  "\<lambda>v r. r\<lparr>ne_stakedBalance := v\<rparr>" "\<lambda>v. length v = 16"
proof (unfold_locales, goal_cases)
  case (1 b r v)
  then have "length b = 69" using ne_decode_Some_iff [of b] by auto
  with 1 show ?case by (auto simp: setStakedBalance_def ne_decode_Some copy_field copy_whole)
qed (auto simp: setStakedBalance_def ne_decode_None_iff)

interpretation frole: entry_field ne_decode setRole set_role_flags isNodeRoleValid
proof (unfold_locales, goal_cases)
  case (1 b r v)
  then have "length b = 69" using ne_decode_Some_iff [of b] by auto
  with 1 show ?case
    by (auto simp: setRole_def ne_decode_Some copy_whole set_role_flags_def subarray_update_0)
qed (auto simp: setRole_def ne_decode_None_iff)

interpretation frolewk: entry_field ne_decode "\<lambda>e (role, wk). setRoleAndWriterKey e role wk"
  "\<lambda>(role, wk) r. (set_role_flags role r)\<lparr>ne_wk := wk\<rparr>" "\<lambda>(role, wk). isNodeRoleValid role \<and> length wk = 32"
proof (unfold_locales, goal_cases)
  case (1 b r v)
  obtain role wk where v: "v = (role, wk)" by (cases v)
  have "length b = 69" using 1 ne_decode_Some_iff [of b] by auto
  with 1 show ?case
    by (auto simp: v setRoleAndWriterKey_def ne_decode_Some copy_field set_role_flags_def subarray_update_0)
qed (auto simp: setRoleAndWriterKey_def ne_decode_None_iff split: if_splits)

lemmas set_decode_simps = fbalance.decode_set fwk.decode_set flicense.decode_set fstaked.decode_set
  frole.decode_set frolewk.decode_set [of _ "(role, wk)" for role wk, simplified]


section \<open>Valid entries\<close>

text \<open>An entry of the ledger has 69 bytes and one of the four roles. Its holding is the liquid
  balance and the stake together.\<close>

definition valid_entry :: "buffer \<Rightarrow> bool" where
  "valid_entry b \<longleftrightarrow> length b = 69 \<and> isNodeRoleValid (b ! 0)"

definition entry_holding :: "buffer \<Rightarrow> nat" where
  "entry_holding b = be_nat (subarray 33 49 b) + be_nat (subarray 53 69 b)"

lemma valid_entry_length [buf]: "valid_entry b \<Longrightarrow> length b = 69"
  by (simp add: valid_entry_def)

lemma ne_decode_length: "ne_decode (Some b) = Some r \<Longrightarrow> length b = 69"
  using ne_decode_Some_iff [of b] by auto

lemma ne_decode_fields:
  assumes "ne_decode (Some b) = Some r"
  shows "length (ne_wk r) = 32" "length (ne_balance r) = 16" "length (ne_license r) = 4"
    "length (ne_stakedBalance r) = 16"
  using assms ne_decode_length [OF assms] by (auto simp: ne_decode_Some length_subarray)

lemma entry_holding_decode:
  "ne_decode (Some b) = Some r \<Longrightarrow> entry_holding b = be_nat (ne_balance r) + be_nat (ne_stakedBalance r)"
  using ne_decode_length [of b r] by (auto simp: ne_decode_Some entry_holding_def)

lemma ne_layout_props:
  assumes "length wk = 32" "length bal = 16" "length lic = 4" "length st = 16"
  shows "length (ne_layout role wk bal lic st) = 69"
    "ne_layout role wk bal lic st ! 0 = role"
    "subarray 1 33 (ne_layout role wk bal lic st) = wk"
    "subarray 33 49 (ne_layout role wk bal lic st) = bal"
    "subarray 49 53 (ne_layout role wk bal lic st) = lic"
    "subarray 53 69 (ne_layout role wk bal lic st) = st"
  using assms by (simp_all add: ne_layout_def copy_field)

lemma ne_init_valid:
  assumes "length wk = 32" "isNodeRoleValid role" "length bal = 16" "length lic = 4" "length st = 16"
  shows "valid_entry (ne_init wk role bal lic st)"
    "ne_decode (Some (ne_init wk role bal lic st)) = Some (set_role_flags role
       \<lparr>ne_wk = wk, ne_isWhitelisted = False, ne_isWriter = False, ne_isIndexer = False,
        ne_balance = bal, ne_license = lic, ne_stakedBalance = st\<rparr>)"
    "entry_holding (ne_init wk role bal lic st) = be_nat bal + be_nat st"
  using assms ne_layout_props [OF assms(1,3,4,5), of role]
  by (simp_all add: ne_init_def valid_entry_def ne_decode_Some set_role_flags_def entry_holding_def)

lemma ne_init_length:
  "length (ne_init wk role bal lic st) = 0 \<longleftrightarrow>
   \<not> (length wk = 32 \<and> isNodeRoleValid role \<and> length bal = 16 \<and> length lic = 4 \<and> length st = 16)"
proof (cases "length wk = 32 \<and> isNodeRoleValid role \<and> length bal = 16 \<and> length lic = 4 \<and> length st = 16")
  case True
  then show ?thesis using ne_init_valid(1) [of wk role bal lic st] by (auto simp: valid_entry_def)
next
  case False
  then show ?thesis by (auto simp: ne_init_def)
qed

lemma isWhitelisted_decode: "ne_decode e = Some r \<Longrightarrow> isWhitelisted e = ne_isWhitelisted r"
  by (cases e) (auto simp: isWhitelisted_def ne_decode_def Let_def split: if_splits)

lemma isWriter_decode: "ne_decode e = Some r \<Longrightarrow> isWriter e = (ne_isWhitelisted r \<and> ne_isWriter r)"
  by (cases e) (auto simp: isWriter_def isWhitelisted_def ne_decode_def Let_def split: if_splits)

lemma isIndexer_decode:
  "ne_decode e = Some r \<Longrightarrow> isIndexer e = (ne_isWhitelisted r \<and> ne_isWriter r \<and> ne_isIndexer r)"
  by (cases e) (auto simp: isIndexer_def isWriter_def isWhitelisted_def ne_decode_def Let_def split: if_splits)

lemma role_flags_nested:
  assumes "valid_entry b" "ne_decode (Some b) = Some r"
  shows "ne_isIndexer r \<longrightarrow> ne_isWriter r" "ne_isWriter r \<longrightarrow> ne_isWhitelisted r"
  using assms by (auto simp: valid_entry_def ne_decode_Some isNodeRoleValid_iff role_defs)

text \<open>Every setter keeps the entry valid and, but for the two amounts, its holding.\<close>

lemma setBalance_valid:
  assumes "setBalance (Some b) v = Some b'"
  shows "length v = 16" "valid_entry b \<Longrightarrow> valid_entry b'"
    "entry_holding b' = be_nat v + be_nat (subarray 53 69 b)"
  using assms by (auto simp: setBalance_def valid_entry_def copy_field entry_holding_def split: if_splits)

lemma setStakedBalance_valid:
  assumes "setStakedBalance (Some b) v = Some b'"
  shows "length v = 16" "valid_entry b \<Longrightarrow> valid_entry b'"
    "entry_holding b' = be_nat (subarray 33 49 b) + be_nat v"
  using assms
  by (auto simp: setStakedBalance_def valid_entry_def copy_field copy_whole entry_holding_def split: if_splits)

lemma setLicense_valid:
  assumes "setLicense (Some b) v = Some b'"
  shows "valid_entry b \<Longrightarrow> valid_entry b'" "entry_holding b' = entry_holding b"
  using assms by (auto simp: setLicense_def valid_entry_def copy_field entry_holding_def split: if_splits)

lemma setWritingKey_valid:
  assumes "setWritingKey (Some b) v = Some b'"
  shows "valid_entry b \<Longrightarrow> valid_entry b'" "entry_holding b' = entry_holding b"
  using assms by (auto simp: setWritingKey_def valid_entry_def copy_field entry_holding_def split: if_splits)

lemma setRole_valid:
  assumes "setRole (Some b) role = Some b'"
  shows "valid_entry b'" "entry_holding b' = entry_holding b"
  using assms
  by (auto simp: setRole_def valid_entry_def copy_whole entry_holding_def subarray_update_0 split: if_splits)

lemma setRoleAndWriterKey_valid:
  assumes "setRoleAndWriterKey (Some b) role wk = Some b'"
  shows "valid_entry b'" "entry_holding b' = entry_holding b"
  using assms
  by (auto simp: setRoleAndWriterKey_def valid_entry_def copy_field entry_holding_def
      subarray_update_0 split: if_splits)

text \<open>Encoding a record and decoding the bytes, both ways.\<close>

definition ne_wellformed :: "node_entry \<Rightarrow> bool" where
  "ne_wellformed r \<longleftrightarrow> length (ne_wk r) = 32 \<and> length (ne_balance r) = 16 \<and>
     length (ne_license r) = 4 \<and> length (ne_stakedBalance r) = 16 \<and>
     (ne_isIndexer r \<longrightarrow> ne_isWriter r) \<and> (ne_isWriter r \<longrightarrow> ne_isWhitelisted r)"

lemma calculateNodeRole_flags:
  assumes "ne_isIndexer r \<longrightarrow> ne_isWriter r" "ne_isWriter r \<longrightarrow> ne_isWhitelisted r"
  shows "isNodeRoleValid (calculateNodeRole r)" "set_role_flags (calculateNodeRole r) r = r"
  using assms
  by (cases r; auto simp: calculateNodeRole_def isNodeRoleValid_iff role_defs set_role_flags_def Let_def)+

lemma ne_decode_encode:
  assumes "ne_wellformed r"
  shows "ne_decode (Some (ne_encode r)) = Some r"
proof -
  have e: "ne_encode r = ne_layout (calculateNodeRole r) (ne_wk r) (ne_balance r) (ne_license r) (ne_stakedBalance r)"
    using assms calculateNodeRole_flags(1) [of r] by (simp add: ne_encode_def ne_wellformed_def)
  show ?thesis
    unfolding e using assms ne_layout_props [of "ne_wk r" "ne_balance r" "ne_license r" "ne_stakedBalance r"]
      calculateNodeRole_flags(2) [of r]
    by (cases r) (simp add: ne_wellformed_def ne_decode_Some set_role_flags_def)
qed

end
