(* ===== verification/Entries.thy ===== *)
theory Entries
  imports NodeEntry
begin

text \<open>
  The environment of the apply function and the small entries of the store:
  \<open>src/core/state/utils/address.js\<close>, \<open>adminEntry.js\<close>, \<open>deploymentEntry.js\<close> and
  \<open>lengthEntry.js\<close>. The record \<open>env\<close> holds what is not in the repository: the
  configuration values, the library \<open>trac-crypto-api\<close> (addresses, the hash, signatures),
  the calls of \<open>autobase\<close> the handlers make, and the decoder of operations, which the
  theory \<open>Codec\<close> models. A call that may throw returns \<open>None\<close>.
\<close>

section \<open>Operations as decoded\<close>

text \<open>
  \<open>Operation.decode\<close> builds an object whose bytes fields start as \<open>null\<close>; an operation
  built in the program may leave a field out. So a field is absent, null or a buffer. At most one
  payload remains, since the decoder deletes the others.
\<close>

datatype field = Absent | Null | Bytes buffer

record payload =
  p_tx :: field
  p_txv :: field
  p_iw :: field
  p_ia :: field
  p_am :: field
  p_in :: field
  p_is :: field
  p_to :: field
  p_ch :: field
  p_bs :: field
  p_mbs :: field
  p_ic :: field
  p_va :: field
  p_vn :: field
  p_vs :: field

datatype op_value =
    NoValue
  | Cao payload
  | Aco payload
  | Bio payload
  | Tro payload
  | Rao payload
  | Bdo payload
  | Txo payload

record operation =
  op_type :: nat
  op_address :: field
  op_value :: op_value

record apply_node =
  from_key :: buffer
  node_value :: buffer

section \<open>The environment\<close>

record 'b env =
  networkId :: nat
  addressPrefix :: string
  addressLength :: nat
  bootstrap :: buffer
  address_size :: "string \<Rightarrow> nat option"
  address_isValid :: "string \<Rightarrow> bool option"
  address_decodeSafe :: "string option \<Rightarrow> buffer"
  blake3Safe :: "buffer \<Rightarrow> buffer"
  signature_verify :: "buffer \<Rightarrow> buffer \<Rightarrow> buffer \<Rightarrow> bool"
  base_indexers :: "'b \<Rightarrow> buffer list option"
  base_addWriter :: "buffer \<Rightarrow> bool \<Rightarrow> 'b \<Rightarrow> 'b option"
  base_removeWriter :: "buffer \<Rightarrow> 'b \<Rightarrow> 'b option"
  Operation_decode :: "buffer \<Rightarrow> operation option"

section \<open>Addresses\<close>

definition startsWith :: "string \<Rightarrow> string \<Rightarrow> bool" where
  "startsWith s p \<longleftrightarrow> take (length p) s = p"

definition isAddressValid :: "'b env \<Rightarrow> string \<Rightarrow> bool" where
  "isAddressValid E address =
     (case address_size E (addressPrefix E) of
        None \<Rightarrow> False
      | Some n \<Rightarrow> n = length address \<and> startsWith address (addressPrefix E @ ''1'') \<and>
          (case address_isValid E address of None \<Rightarrow> False | Some ok \<Rightarrow> ok))"

definition addressToBuffer :: "'b env \<Rightarrow> string \<Rightarrow> buffer" where
  "addressToBuffer E address = (if \<not> isAddressValid E address then alloc 0 else ascii_bytes address)"

definition bufferToAddress :: "'b env \<Rightarrow> buffer \<Rightarrow> string option" where
  "bufferToAddress E dataBuffer =
     (let address = ascii_string dataBuffer
      in if \<not> isAddressValid E address then None else Some address)"

lemma bufferToAddress_Some:
  "bufferToAddress E b = Some a \<longleftrightarrow> a = ascii_string b \<and> isAddressValid E a"
  by (auto simp: bufferToAddress_def Let_def)

lemma bufferToAddress_inj:
  assumes "bufferToAddress E a = Some s" "bufferToAddress E b = Some t"
    and "ascii_buffer a" "ascii_buffer b"
  shows "s = t \<longleftrightarrow> a = b"
  using assms ascii_string_inj [of a b] by (simp add: bufferToAddress_Some)

section \<open>Length entries\<close>

definition le_init :: buffer where "le_init = alloc 4"

text \<open>\<open>readUInt32BE\<close> throws when fewer than four bytes are there.\<close>

definition decodeBE :: "buffer \<Rightarrow> nat option" where
  "decodeBE b = (if length b < 4 then None else Some (be_nat (take 4 b)))"

definition encodeBE :: "nat \<Rightarrow> buffer option" where
  "encodeBE n = writeUInt32BE n"

definition incrementBE :: "nat \<Rightarrow> buffer option" where
  "incrementBE n = encodeBE (n + 1)"

lemma decodeBE_encodeBE: "encodeBE n = Some b \<Longrightarrow> decodeBE b = Some n"
  by (auto simp: encodeBE_def decodeBE_def writeUInt32BE_def be_nat_uint32_bytes split: if_splits)

lemma decodeBE_le_init [simp]: "decodeBE le_init = Some 0"
  by (simp add: decodeBE_def le_init_def alloc_def)

section \<open>Admin entries\<close>

record admin_entry =
  ae_address :: "string option"
  ae_wk :: buffer

definition ae_encode :: "'b env \<Rightarrow> buffer \<Rightarrow> buffer \<Rightarrow> buffer" where
  "ae_encode E address wk =
     (if \<not> isAddressValid E (ascii_string address) \<or> \<not> isBufferValid (Some wk) WRITER_BYTE_LENGTH
      then alloc 0
      else let adminEntry = alloc (length address + WRITER_BYTE_LENGTH)
           in copy_into wk (length address) (copy_into address 0 adminEntry))"

definition ae_decode :: "'b env \<Rightarrow> buffer option \<Rightarrow> admin_entry option" where
  "ae_decode E adminEntry =
     (case address_size E (addressPrefix E) of
        None \<Rightarrow> None
      | Some n \<Rightarrow>
          if \<not> isBufferValid adminEntry (n + WRITER_BYTE_LENGTH) then None
          else map_option (\<lambda>b. \<lparr>ae_address = bufferToAddress E (subarray 0 n b),
                                ae_wk = drop n b\<rparr>) adminEntry)"

section \<open>Deployment entries\<close>

record deployment_entry =
  de_txHash :: buffer
  de_address :: buffer

definition de_encode :: "'b env \<Rightarrow> buffer \<Rightarrow> buffer \<Rightarrow> buffer" where
  "de_encode E txHash address =
     (if \<not> isBufferValid (Some txHash) HASH_BYTE_LENGTH \<or> \<not> isAddressValid E (ascii_string address)
      then alloc 0
      else let entry = alloc (HASH_BYTE_LENGTH + length address)
           in copy_into address HASH_BYTE_LENGTH (copy_into txHash 0 entry))"

definition de_decode :: "buffer option \<Rightarrow> nat \<Rightarrow> deployment_entry option" where
  "de_decode entry addrLength =
     (if \<not> isBufferValid entry (HASH_BYTE_LENGTH + addrLength) then None
      else map_option (\<lambda>b. \<lparr>de_txHash = subarray 0 HASH_BYTE_LENGTH b,
             de_address = subarray HASH_BYTE_LENGTH (HASH_BYTE_LENGTH + addrLength) b\<rparr>) entry)"

section \<open>Round trips\<close>

lemma copy_two:
  "copy_into w (length a) (copy_into a 0 (alloc (length a + length w))) = a @ w"
  by (simp add: copy_into_def alloc_def)

lemma ae_encode_eq:
  "isAddressValid E (ascii_string a) \<Longrightarrow> length w = 32 \<Longrightarrow> ae_encode E a w = a @ w"
  using copy_two [of w a] by (simp add: ae_encode_def Let_def)

lemma isAddressValid_size:
  "isAddressValid E s \<Longrightarrow> address_size E (addressPrefix E) = Some (length s)"
  by (auto simp: isAddressValid_def split: option.splits)

lemma ae_decode_encode:
  assumes "isAddressValid E (ascii_string a)" "length w = 32"
  shows "ae_decode E (Some (ae_encode E a w)) = Some \<lparr>ae_address = Some (ascii_string a), ae_wk = w\<rparr>"
  using assms isAddressValid_size [OF assms(1)]
  by (simp add: ae_encode_eq ae_decode_def subarray_def bufferToAddress_def)

lemma ae_encode_empty: "length (ae_encode E a w) = 0 \<longleftrightarrow> \<not> (isAddressValid E (ascii_string a) \<and> length w = 32)"
  using ae_encode_eq [of E a w] by (auto simp: ae_encode_def Let_def alloc_def)

lemma de_encode_eq:
  "isAddressValid E (ascii_string a) \<Longrightarrow> length h = 32 \<Longrightarrow> de_encode E h a = h @ a"
  using copy_two [of a h] by (simp add: de_encode_def Let_def)

lemma de_decode_encode:
  assumes "isAddressValid E (ascii_string a)" "length h = 32"
  shows "de_decode (Some (de_encode E h a)) (length a) = Some \<lparr>de_txHash = h, de_address = a\<rparr>"
  using assms by (simp add: de_encode_eq de_decode_def subarray_def)

lemma ae_decode_wk_length: "ae_decode E (Some b) = Some r \<Longrightarrow> length (ae_wk r) = 32"
  by (auto simp: ae_decode_def split: option.splits if_splits)

end
