(* ===== verification/Check.thy ===== *)
theory Check
  imports Entries
begin

text \<open>
  \<open>src/utils/check.js\<close> and the operation types of \<open>src/utils/constants.js\<close>: the schemas
  that every operation must satisfy before its handler reads it. \<open>fastest-validator\<close> is a
  library; what is used of it is its documented behaviour: a property that is not \<open>optional\<close>
  must be there, an optional one may be missing or \<open>null\<close>, a strict object has no other
  property, a rule of the program (\<open>buffer\<close>, \<open>buffer_amount\<close>) rejects when it reports
  an error, and the \<open>custom\<close> function of an object runs after the rules of its properties.
\<close>

section \<open>Operation types\<close>

definition OT_ADD_ADMIN :: nat where [simp]: "OT_ADD_ADMIN = 1"
definition OT_DISABLE_INITIALIZATION :: nat where [simp]: "OT_DISABLE_INITIALIZATION = 2"
definition OT_BALANCE_INITIALIZATION :: nat where [simp]: "OT_BALANCE_INITIALIZATION = 3"
definition OT_APPEND_WHITELIST :: nat where [simp]: "OT_APPEND_WHITELIST = 4"
definition OT_ADD_WRITER :: nat where [simp]: "OT_ADD_WRITER = 5"
definition OT_REMOVE_WRITER :: nat where [simp]: "OT_REMOVE_WRITER = 6"
definition OT_ADMIN_RECOVERY :: nat where [simp]: "OT_ADMIN_RECOVERY = 7"
definition OT_ADD_INDEXER :: nat where [simp]: "OT_ADD_INDEXER = 8"
definition OT_REMOVE_INDEXER :: nat where [simp]: "OT_REMOVE_INDEXER = 9"
definition OT_BAN_VALIDATOR :: nat where [simp]: "OT_BAN_VALIDATOR = 10"
definition OT_BOOTSTRAP_DEPLOYMENT :: nat where [simp]: "OT_BOOTSTRAP_DEPLOYMENT = 11"
definition OT_TX :: nat where [simp]: "OT_TX = 12"
definition OT_TRANSFER :: nat where [simp]: "OT_TRANSFER = 13"

section \<open>The rules\<close>

fun rule_buffer :: "nat \<Rightarrow> field \<Rightarrow> bool" where
  "rule_buffer n (Bytes b) \<longleftrightarrow> length b = n \<and> list_ex (\<lambda>x. x \<noteq> 0) b"
| "rule_buffer n _ \<longleftrightarrow> False"

fun rule_buffer_amount :: "nat \<Rightarrow> field \<Rightarrow> bool" where
  "rule_buffer_amount n (Bytes b) \<longleftrightarrow> length b = n"
| "rule_buffer_amount n _ \<longleftrightarrow> False"

fun rule_optional :: "(field \<Rightarrow> bool) \<Rightarrow> field \<Rightarrow> bool" where
  "rule_optional rule (Bytes b) \<longleftrightarrow> rule (Bytes b)"
| "rule_optional rule _ \<longleftrightarrow> True"

text \<open>A strict object has none of the properties outside its schema.\<close>

definition none_of :: "(payload \<Rightarrow> field) list \<Rightarrow> payload \<Rightarrow> bool" where
  "none_of others p \<longleftrightarrow> list_all (\<lambda>f. f p = Absent) others"

text \<open>The \<open>custom\<close> function shared by the operations that a validator completes.\<close>

definition custom_validator_fields :: "payload \<Rightarrow> bool" where
  "custom_validator_fields p \<longleftrightarrow>
     (let fieldsPresent = length (filter (\<lambda>f. f \<noteq> Absent) [p_vn p, p_vs p, p_va p])
      in \<not> (0 < fieldsPresent \<and> fieldsPresent < 3) \<and>
         \<not> (p_vn p = Null \<or> p_vs p = Null \<or> p_va p = Null))"

section \<open>The schemas\<close>

definition validateCoreAdminOperation :: "'b env \<Rightarrow> operation \<Rightarrow> bool" where
  "validateCoreAdminOperation E op \<longleftrightarrow>
     List.member [OT_ADD_ADMIN, OT_DISABLE_INITIALIZATION] (op_type op) \<and>
     rule_buffer (addressLength E) (op_address op) \<and>
     (case op_value op of
        Cao cao \<Rightarrow>
          rule_buffer HASH_BYTE_LENGTH (p_tx cao) \<and>
          rule_buffer HASH_BYTE_LENGTH (p_txv cao) \<and>
          rule_buffer WRITER_BYTE_LENGTH (p_iw cao) \<and>
          rule_buffer NONCE_BYTE_LENGTH (p_in cao) \<and>
          rule_buffer SIGNATURE_BYTE_LENGTH (p_is cao) \<and>
          none_of [p_ia, p_am, p_to, p_ch, p_bs, p_mbs, p_ic, p_va, p_vn, p_vs] cao
      | _ \<Rightarrow> False)"

definition validateBalanceInitialization :: "'b env \<Rightarrow> operation \<Rightarrow> bool" where
  "validateBalanceInitialization E op \<longleftrightarrow>
     op_type op = OT_BALANCE_INITIALIZATION \<and>
     rule_buffer (addressLength E) (op_address op) \<and>
     (case op_value op of
        Bio bio \<Rightarrow>
          rule_buffer HASH_BYTE_LENGTH (p_tx bio) \<and>
          rule_buffer HASH_BYTE_LENGTH (p_txv bio) \<and>
          rule_buffer (addressLength E) (p_ia bio) \<and>
          rule_buffer AMOUNT_BYTE_LENGTH (p_am bio) \<and>
          rule_buffer NONCE_BYTE_LENGTH (p_in bio) \<and>
          rule_buffer SIGNATURE_BYTE_LENGTH (p_is bio) \<and>
          none_of [p_iw, p_to, p_ch, p_bs, p_mbs, p_ic, p_va, p_vn, p_vs] bio
      | _ \<Rightarrow> False)"

definition validateAdminControlOperation :: "'b env \<Rightarrow> operation \<Rightarrow> bool" where
  "validateAdminControlOperation E op \<longleftrightarrow>
     List.member [OT_APPEND_WHITELIST, OT_ADD_INDEXER, OT_REMOVE_INDEXER, OT_BAN_VALIDATOR] (op_type op) \<and>
     rule_buffer (addressLength E) (op_address op) \<and>
     (case op_value op of
        Aco aco \<Rightarrow>
          rule_buffer HASH_BYTE_LENGTH (p_tx aco) \<and>
          rule_buffer HASH_BYTE_LENGTH (p_txv aco) \<and>
          rule_buffer (addressLength E) (p_ia aco) \<and>
          rule_buffer NONCE_BYTE_LENGTH (p_in aco) \<and>
          rule_buffer SIGNATURE_BYTE_LENGTH (p_is aco) \<and>
          none_of [p_iw, p_am, p_to, p_ch, p_bs, p_mbs, p_ic, p_va, p_vn, p_vs] aco
      | _ \<Rightarrow> False)"

definition validateRoleAccessOperation :: "'b env \<Rightarrow> operation \<Rightarrow> bool" where
  "validateRoleAccessOperation E op \<longleftrightarrow>
     List.member [OT_ADD_WRITER, OT_REMOVE_WRITER, OT_ADMIN_RECOVERY] (op_type op) \<and>
     rule_buffer (addressLength E) (op_address op) \<and>
     (case op_value op of
        Rao rao \<Rightarrow>
          rule_buffer HASH_BYTE_LENGTH (p_tx rao) \<and>
          rule_buffer HASH_BYTE_LENGTH (p_txv rao) \<and>
          rule_buffer WRITER_BYTE_LENGTH (p_iw rao) \<and>
          rule_buffer NONCE_BYTE_LENGTH (p_in rao) \<and>
          rule_buffer SIGNATURE_BYTE_LENGTH (p_is rao) \<and>
          rule_optional (rule_buffer (addressLength E)) (p_va rao) \<and>
          rule_optional (rule_buffer NONCE_BYTE_LENGTH) (p_vn rao) \<and>
          rule_optional (rule_buffer SIGNATURE_BYTE_LENGTH) (p_vs rao) \<and>
          none_of [p_ia, p_am, p_to, p_ch, p_bs, p_mbs, p_ic] rao \<and>
          custom_validator_fields rao
      | _ \<Rightarrow> False)"

definition validateTransactionOperation :: "'b env \<Rightarrow> operation \<Rightarrow> bool" where
  "validateTransactionOperation E op \<longleftrightarrow>
     op_type op = OT_TX \<and>
     rule_buffer (addressLength E) (op_address op) \<and>
     (case op_value op of
        Txo txo \<Rightarrow>
          rule_buffer HASH_BYTE_LENGTH (p_tx txo) \<and>
          rule_buffer HASH_BYTE_LENGTH (p_txv txo) \<and>
          rule_buffer WRITER_BYTE_LENGTH (p_iw txo) \<and>
          rule_buffer NONCE_BYTE_LENGTH (p_ch txo) \<and>
          rule_buffer BOOTSTRAP_BYTE_LENGTH (p_bs txo) \<and>
          rule_buffer BOOTSTRAP_BYTE_LENGTH (p_mbs txo) \<and>
          rule_buffer NONCE_BYTE_LENGTH (p_in txo) \<and>
          rule_buffer SIGNATURE_BYTE_LENGTH (p_is txo) \<and>
          rule_optional (rule_buffer (addressLength E)) (p_va txo) \<and>
          rule_optional (rule_buffer NONCE_BYTE_LENGTH) (p_vn txo) \<and>
          rule_optional (rule_buffer SIGNATURE_BYTE_LENGTH) (p_vs txo) \<and>
          none_of [p_ia, p_am, p_to, p_ic] txo \<and>
          custom_validator_fields txo
      | _ \<Rightarrow> False)"

definition validateBootstrapDeploymentOperation :: "'b env \<Rightarrow> operation \<Rightarrow> bool" where
  "validateBootstrapDeploymentOperation E op \<longleftrightarrow>
     op_type op = OT_BOOTSTRAP_DEPLOYMENT \<and>
     rule_buffer (addressLength E) (op_address op) \<and>
     (case op_value op of
        Bdo bdo \<Rightarrow>
          rule_buffer HASH_BYTE_LENGTH (p_tx bdo) \<and>
          rule_buffer HASH_BYTE_LENGTH (p_txv bdo) \<and>
          rule_buffer BOOTSTRAP_BYTE_LENGTH (p_bs bdo) \<and>
          rule_buffer CHANNEL_BYTE_LENGTH (p_ic bdo) \<and>
          rule_buffer NONCE_BYTE_LENGTH (p_in bdo) \<and>
          rule_buffer SIGNATURE_BYTE_LENGTH (p_is bdo) \<and>
          rule_optional (rule_buffer (addressLength E)) (p_va bdo) \<and>
          rule_optional (rule_buffer NONCE_BYTE_LENGTH) (p_vn bdo) \<and>
          rule_optional (rule_buffer SIGNATURE_BYTE_LENGTH) (p_vs bdo) \<and>
          none_of [p_iw, p_ia, p_am, p_to, p_ch, p_mbs] bdo \<and>
          custom_validator_fields bdo
      | _ \<Rightarrow> False)"

definition validateTransferOperation :: "'b env \<Rightarrow> operation \<Rightarrow> bool" where
  "validateTransferOperation E op \<longleftrightarrow>
     op_type op = OT_TRANSFER \<and>
     rule_buffer (addressLength E) (op_address op) \<and>
     (case op_value op of
        Tro tro \<Rightarrow>
          rule_buffer HASH_BYTE_LENGTH (p_tx tro) \<and>
          rule_buffer HASH_BYTE_LENGTH (p_txv tro) \<and>
          rule_buffer (addressLength E) (p_to tro) \<and>
          rule_buffer_amount AMOUNT_BYTE_LENGTH (p_am tro) \<and>
          rule_buffer NONCE_BYTE_LENGTH (p_in tro) \<and>
          rule_buffer SIGNATURE_BYTE_LENGTH (p_is tro) \<and>
          rule_optional (rule_buffer (addressLength E)) (p_va tro) \<and>
          rule_optional (rule_buffer NONCE_BYTE_LENGTH) (p_vn tro) \<and>
          rule_optional (rule_buffer SIGNATURE_BYTE_LENGTH) (p_vs tro) \<and>
          none_of [p_iw, p_ia, p_ch, p_bs, p_mbs, p_ic] tro \<and>
          custom_validator_fields tro
      | _ \<Rightarrow> False)"

section \<open>Reading a validated operation\<close>

text \<open>
  \<open>op.cao\<close>, \<open>op.rao\<close> and so on: a handler reads its own payload after its schema has
  accepted the operation, so the constructor is the right one and every required field is a
  buffer. Of the validator's three fields all or none are there; \<open>Object.hasOwn\<close> is asked first.
\<close>

definition empty_payload :: payload where
  "empty_payload = \<lparr>p_tx = Absent, p_txv = Absent, p_iw = Absent, p_ia = Absent, p_am = Absent,
     p_in = Absent, p_is = Absent, p_to = Absent, p_ch = Absent, p_bs = Absent, p_mbs = Absent,
     p_ic = Absent, p_va = Absent, p_vn = Absent, p_vs = Absent\<rparr>"

fun payload_of :: "operation \<Rightarrow> payload" where
  "payload_of op = (case op_value op of
     Cao p \<Rightarrow> p | Aco p \<Rightarrow> p | Bio p \<Rightarrow> p | Tro p \<Rightarrow> p | Rao p \<Rightarrow> p | Bdo p \<Rightarrow> p | Txo p \<Rightarrow> p
   | NoValue \<Rightarrow> empty_payload)"

fun bytes :: "field \<Rightarrow> buffer" where
  "bytes (Bytes b) = b"
| "bytes _ = []"

definition hasOwn :: "field \<Rightarrow> bool" where
  "hasOwn f \<longleftrightarrow> f \<noteq> Absent"

declare payload_of.simps [simp del]

lemma rule_buffer_bytes: "rule_buffer n f \<Longrightarrow> length (bytes f) = n"
  by (cases f) auto

lemma rule_buffer_amount_bytes: "rule_buffer_amount n f \<Longrightarrow> length (bytes f) = n"
  by (cases f) auto

lemma validator_fields_bytes:
  assumes "rule_optional (rule_buffer n) f" "hasOwn f" "custom_validator_fields p" "f \<in> {p_va p, p_vn p, p_vs p}"
  shows "length (bytes f) = n"
  using assms by (cases f) (auto simp: hasOwn_def custom_validator_fields_def Let_def)

lemma validateTransferOperation_bytes:
  assumes "validateTransferOperation E op" and "p = payload_of op"
  shows "length (bytes (op_address op)) = addressLength E" "length (bytes (p_tx p)) = 32"
    "length (bytes (p_to p)) = addressLength E" "length (bytes (p_am p)) = 16"
  using assms
  by (auto simp: validateTransferOperation_def payload_of.simps
      dest: rule_buffer_bytes rule_buffer_amount_bytes split: op_value.splits)

lemma validateCoreAdminOperation_bytes:
  assumes "validateCoreAdminOperation E op" and "p = payload_of op"
  shows "length (bytes (op_address op)) = addressLength E" "length (bytes (p_tx p)) = 32"
    "length (bytes (p_iw p)) = 32"
  using assms
  by (auto simp: validateCoreAdminOperation_def payload_of.simps
      dest: rule_buffer_bytes split: op_value.splits)

lemma validateRoleAccessOperation_bytes:
  assumes "validateRoleAccessOperation E op" and "p = payload_of op"
  shows "length (bytes (op_address op)) = addressLength E" "length (bytes (p_tx p)) = 32"
    "length (bytes (p_iw p)) = 32"
  using assms
  by (auto simp: validateRoleAccessOperation_def payload_of.simps
      dest: rule_buffer_bytes split: op_value.splits)

lemma validateAdminControlOperation_bytes:
  assumes "validateAdminControlOperation E op" and "p = payload_of op"
  shows "length (bytes (op_address op)) = addressLength E" "length (bytes (p_tx p)) = 32"
    "length (bytes (p_ia p)) = addressLength E"
  using assms
  by (auto simp: validateAdminControlOperation_def payload_of.simps
      dest: rule_buffer_bytes split: op_value.splits)

lemma validateBalanceInitialization_bytes:
  assumes "validateBalanceInitialization E op" and "p = payload_of op"
  shows "length (bytes (op_address op)) = addressLength E" "length (bytes (p_tx p)) = 32"
    "length (bytes (p_ia p)) = addressLength E" "length (bytes (p_am p)) = 16"
  using assms
  by (auto simp: validateBalanceInitialization_def payload_of.simps
      dest: rule_buffer_bytes split: op_value.splits)

lemma validateTransactionOperation_bytes:
  assumes "validateTransactionOperation E op" and "p = payload_of op"
  shows "length (bytes (op_address op)) = addressLength E" "length (bytes (p_tx p)) = 32"
    "length (bytes (p_bs p)) = 32"
  using assms
  by (auto simp: validateTransactionOperation_def payload_of.simps
      dest: rule_buffer_bytes split: op_value.splits)

lemma validateBootstrapDeploymentOperation_bytes:
  assumes "validateBootstrapDeploymentOperation E op" and "p = payload_of op"
  shows "length (bytes (op_address op)) = addressLength E" "length (bytes (p_tx p)) = 32"
    "length (bytes (p_bs p)) = 32"
  using assms
  by (auto simp: validateBootstrapDeploymentOperation_def payload_of.simps
      dest: rule_buffer_bytes split: op_value.splits)

lemmas validate_bytes = validateTransferOperation_bytes validateCoreAdminOperation_bytes
  validateRoleAccessOperation_bytes validateAdminControlOperation_bytes
  validateBalanceInitialization_bytes validateTransactionOperation_bytes
  validateBootstrapDeploymentOperation_bytes

end
