(* ===== verification/ApplyState.thy ===== *)
theory ApplyState
  imports Check
begin

text \<open>
  The state an apply handler of \<open>src/core/state/State.js\<close> works on, and the helpers the handlers
  share: reading and writing the batch, the writer index and the licence counter, the
  validator check, staking and unstaking. A handler returns \<open>None\<close> when a call in it throws,
  and otherwise its status with the state it leaves.
\<close>

section \<open>State and statuses\<close>

datatype Status = SUCCESS | FAILURE | IGNORE

datatype event = UNWRITABLE buffer | IS_INDEXER buffer

record 'b astate =
  batch :: "string \<Rightarrow> buffer option"
  base :: 'b
  events :: "event list"

type_synonym 'b result = "(Status \<times> 'b astate) option"

abbreviation fail :: "'b astate \<Rightarrow> 'b result" where "fail s \<equiv> Some (FAILURE, s)"
abbreviation ignore :: "'b astate \<Rightarrow> 'b result" where "ignore s \<equiv> Some (IGNORE, s)"
abbreviation success :: "'b astate \<Rightarrow> 'b result" where "success s \<equiv> Some (SUCCESS, s)"

definition put :: "string \<Rightarrow> buffer \<Rightarrow> 'b astate \<Rightarrow> 'b astate" where
  "put k v s = s\<lparr>batch := (batch s)(k \<mapsto> v)\<rparr>"

text \<open>A stored \<open>null\<close> reads back as \<open>null\<close>, like a missing entry.\<close>

definition put_nullable :: "string \<Rightarrow> buffer option \<Rightarrow> 'b astate \<Rightarrow> 'b astate" where
  "put_nullable k v s = s\<lparr>batch := (batch s)(k := v)\<rparr>"

definition emitEvent :: "event \<Rightarrow> 'b astate \<Rightarrow> 'b astate" where
  "emitEvent e s = s\<lparr>events := events s @ [e]\<rparr>"

definition addWriterBase :: "'b env \<Rightarrow> buffer \<Rightarrow> bool \<Rightarrow> 'b astate \<Rightarrow> 'b astate option" where
  "addWriterBase E wk indexer s =
     (case base_addWriter E wk indexer (base s) of None \<Rightarrow> None | Some b \<Rightarrow> Some (s\<lparr>base := b\<rparr>))"

definition removeWriterBase :: "'b env \<Rightarrow> buffer \<Rightarrow> 'b astate \<Rightarrow> 'b astate option" where
  "removeWriterBase E wk s =
     (case base_removeWriter E wk (base s) of None \<Rightarrow> None | Some b \<Rightarrow> Some (s\<lparr>base := b\<rparr>))"

section \<open>Keys of the store\<close>

definition EntryType_ADMIN :: string where "EntryType_ADMIN = ''admin''"
definition EntryType_WRITERS_LENGTH :: string where "EntryType_WRITERS_LENGTH = ''wrl''"
definition EntryType_WRITERS_INDEX :: string where "EntryType_WRITERS_INDEX = ''wri/''"
definition EntryType_WRITER_ADDRESS :: string where "EntryType_WRITER_ADDRESS = ''wka/''"
definition EntryType_DEPLOYMENT :: string where "EntryType_DEPLOYMENT = ''deployment/''"
definition EntryType_INITIALIZATION :: string where "EntryType_INITIALIZATION = ''init''"
definition EntryType_LICENSE_COUNT :: string where "EntryType_LICENSE_COUNT = ''lc''"
definition EntryType_LICENSE_INDEX :: string where "EntryType_LICENSE_INDEX = ''li/''"

definition ADMIN_INITIAL_BALANCE :: buffer where
  "ADMIN_INITIAL_BALANCE = [0, 0, 0, 0, 0, 0, 0, 54, 53, 201, 173, 197, 222, 160, 0, 0]"
definition ADMIN_INITIAL_STAKED_BALANCE :: buffer where
  "ADMIN_INITIAL_STAKED_BALANCE = [0, 0, 0, 0, 0, 0, 0, 0, 4, 41, 208, 105, 24, 158, 0, 0]"

section \<open>Reads\<close>

definition isAdminApply :: "admin_entry \<Rightarrow> apply_node \<Rightarrow> bool" where
  "isAdminApply adminEntry node \<longleftrightarrow> ae_wk adminEntry = from_key node"

definition getEntryApply :: "string \<Rightarrow> 'b astate \<Rightarrow> buffer option" where
  "getEntryApply key s = deepCopyBuffer (batch s key)"

definition getDeploymentEntryApply :: "string \<Rightarrow> 'b astate \<Rightarrow> buffer option" where
  "getDeploymentEntryApply key s = deepCopyBuffer (batch s (EntryType_DEPLOYMENT @ key))"

definition getIndexerSequenceStateApply :: "'b env \<Rightarrow> 'b astate \<Rightarrow> buffer option" where
  "getIndexerSequenceStateApply E s =
     (case base_indexers E (base s) of
        None \<Rightarrow> None
      | Some keys \<Rightarrow> Some (blake3Safe E (concat keys)))"

text \<open>\<open>null\<close>, when the list cannot be read, is falsy but not \<open>false\<close>.\<close>

definition isWriterKeyInIndexerListApply :: "'b env \<Rightarrow> buffer \<Rightarrow> 'b astate \<Rightarrow> bool option" where
  "isWriterKeyInIndexerListApply E wk s =
     (case base_indexers E (base s) of
        None \<Rightarrow> None
      | Some keys \<Rightarrow> Some (list_ex (\<lambda>key. key = wk) keys))"

definition isValidatorValidApply :: "buffer option \<Rightarrow> apply_node \<Rightarrow> bool" where
  "isValidatorValidApply validatorEntryBuffer node \<longleftrightarrow>
     (if validatorEntryBuffer = None then False
      else case ne_decode validatorEntryBuffer of
        None \<Rightarrow> False
      | Some decodedValidatorEntry \<Rightarrow>
          if \<not> ne_isWriter decodedValidatorEntry then False
          else if ne_wk decodedValidatorEntry \<noteq> from_key node then False
          else True)"

definition getRegisteredWriterKeyApply :: "'b astate \<Rightarrow> string \<Rightarrow> buffer option" where
  "getRegisteredWriterKeyApply s writingKey =
     deepCopyBuffer (batch s (EntryType_WRITER_ADDRESS @ writingKey))"

definition isApplyInitalizationDisabled :: "'b astate \<Rightarrow> bool" where
  "isApplyInitalizationDisabled s \<longleftrightarrow>
     (case getEntryApply EntryType_INITIALIZATION s of
        None \<Rightarrow> False
      | Some initialization \<Rightarrow> initialization = safeWriteUInt32BE 0)"

section \<open>Counters\<close>

text \<open>\<open>length\<close> and \<open>incrementedLength\<close>, or an exception on a short buffer or past \<open>2 ^ 32 - 1\<close>.\<close>

definition updateWritersIndex :: "'b astate \<Rightarrow> (nat \<times> buffer) option" where
  "updateWritersIndex s =
     (case getEntryApply EntryType_WRITERS_LENGTH s of
        None \<Rightarrow>
          (case decodeBE le_init of None \<Rightarrow> None
           | Some len \<Rightarrow> map_option (\<lambda>inc. (len, inc)) (incrementBE len))
      | Some b \<Rightarrow>
          (case decodeBE b of None \<Rightarrow> None
           | Some len \<Rightarrow> map_option (\<lambda>inc. (len, inc)) (incrementBE len)))"

definition applyGetLicenseCount :: "'b astate \<Rightarrow> buffer option" where
  "applyGetLicenseCount s = getEntryApply EntryType_LICENSE_COUNT s"

definition applyAssignNewLicense :: "'b astate \<Rightarrow> (buffer \<times> nat) option" where
  "applyAssignNewLicense s =
     (case (case applyGetLicenseCount s of None \<Rightarrow> decodeBE le_init | Some b \<Rightarrow> decodeBE b) of
        None \<Rightarrow> None
      | Some licenseCount \<Rightarrow>
          (case incrementBE licenseCount of
             None \<Rightarrow> None
           | Some newLicenseLength \<Rightarrow>
               map_option (\<lambda>n. (newLicenseLength, n)) (decodeBE newLicenseLength)))"

section \<open>Staking\<close>

definition stakeBalanceApply :: "buffer option \<Rightarrow> buffer option" where
  "stakeBalanceApply nodeEntryBuffer =
     (if \<not> isBufferValid nodeEntryBuffer NODE_ENTRY_SIZE then None
      else case ne_decode nodeEntryBuffer of None \<Rightarrow> None
      | Some decodedNodeEntry \<Rightarrow>
      case toBalance (ne_balance decodedNodeEntry) of None \<Rightarrow> None
      | Some currentNodeBalance \<Rightarrow>
      if \<not> bal_greaterThanOrEquals currentNodeBalance BALANCE_TO_STAKE then None
      else case bal_sub currentNodeBalance BALANCE_TO_STAKE of None \<Rightarrow> None
      | Some newNodeBalance \<Rightarrow>
      case bal_update newNodeBalance nodeEntryBuffer of None \<Rightarrow> None
      | Some updatedNodeEntryWithBalance \<Rightarrow>
        setStakedBalance (Some updatedNodeEntryWithBalance) (bal_value BALANCE_TO_STAKE))"

definition withdrawStakedBalanceApply :: "buffer option \<Rightarrow> buffer option" where
  "withdrawStakedBalanceApply nodeEntryBuffer =
     (if \<not> isBufferValid nodeEntryBuffer NODE_ENTRY_SIZE then None
      else case ne_decode nodeEntryBuffer of None \<Rightarrow> None
      | Some decodedNodeEntry \<Rightarrow>
      case toBalance (ne_stakedBalance decodedNodeEntry) of None \<Rightarrow> None
      | Some stakedBalance \<Rightarrow>
      if \<not> bal_greaterThan stakedBalance BALANCE_ZERO then None
      else case toBalance (ne_balance decodedNodeEntry) of None \<Rightarrow> None
      | Some currentNodeBalance \<Rightarrow>
      case bal_add currentNodeBalance stakedBalance of None \<Rightarrow> None
      | Some newNodeBalance \<Rightarrow>
      case bal_update newNodeBalance nodeEntryBuffer of None \<Rightarrow> None
      | Some updatedNodeEntryWithBalance \<Rightarrow>
        setStakedBalance (Some updatedNodeEntryWithBalance) (bal_value BALANCE_ZERO))"

section \<open>Basic facts\<close>

lemma put_sel [simp]:
  "batch (put k v s) = (batch s)(k \<mapsto> v)" "base (put k v s) = base s" "events (put k v s) = events s"
  by (simp_all add: put_def)

lemma put_nullable_sel [simp]:
  "batch (put_nullable k v s) = (batch s)(k := v)" "base (put_nullable k v s) = base s"
  "events (put_nullable k v s) = events s"
  by (simp_all add: put_nullable_def)

lemma emitEvent_sel [simp]:
  "batch (emitEvent e s) = batch s" "base (emitEvent e s) = base s" "events (emitEvent e s) = events s @ [e]"
  by (simp_all add: emitEvent_def)

lemma getEntryApply_batch [simp]: "getEntryApply k s = batch s k"
  by (simp add: getEntryApply_def)

lemma getDeploymentEntryApply_batch [simp]: "getDeploymentEntryApply k s = batch s (EntryType_DEPLOYMENT @ k)"
  by (simp add: getDeploymentEntryApply_def)

lemma getRegisteredWriterKeyApply_batch [simp]:
  "getRegisteredWriterKeyApply s k = batch s (EntryType_WRITER_ADDRESS @ k)"
  by (simp add: getRegisteredWriterKeyApply_def)

lemma addWriterBase_batch:
  "addWriterBase E wk i s = Some s' \<Longrightarrow> batch s' = batch s \<and> events s' = events s \<and>
     base_addWriter E wk i (base s) = Some (base s')"
  by (auto simp: addWriterBase_def split: option.splits)

lemma removeWriterBase_batch:
  "removeWriterBase E wk s = Some s' \<Longrightarrow> batch s' = batch s \<and> events s' = events s \<and>
     base_removeWriter E wk (base s) = Some (base s')"
  by (auto simp: removeWriterBase_def split: option.splits)

lemma isValidatorValidApply_iff:
  "isValidatorValidApply e node \<longleftrightarrow>
     (\<exists>r. ne_decode e = Some r \<and> ne_isWriter r \<and> ne_wk r = from_key node)"
  by (cases e) (auto simp: isValidatorValidApply_def split: option.splits)

lemma applyAssignNewLicense_Some:
  assumes "applyAssignNewLicense s = Some (l, n)"
  shows "length l = 4 \<and> be_nat l = n \<and> 0 < n"
proof -
  obtain c where c: "incrementBE c = Some l" and n: "decodeBE l = Some n"
    using assms by (auto simp: applyAssignNewLicense_def split: option.splits)
  have len: "length l = 4" using c by (auto simp: incrementBE_def encodeBE_def dest: writeUInt32BE_length)
  have "decodeBE l = Some (c + 1)"
    using c decodeBE_encodeBE [of "c + 1" l] by (simp add: incrementBE_def)
  with n len show ?thesis by (auto simp: decodeBE_def)
qed

lemma updateWritersIndex_Some:
  "updateWritersIndex s = Some (n, l) \<Longrightarrow> length l = 4 \<and> be_nat l = n + 1"
  using decodeBE_encodeBE [of "n + 1" l]
  by (auto simp: updateWritersIndex_def incrementBE_def encodeBE_def decodeBE_def
      dest!: writeUInt32BE_length split: option.splits if_splits)

end
