(* ===== verification/Admin_Ops.thy ===== *)
theory Admin_Ops
  imports ApplyState
begin

text \<open>
  The handlers of the operations that create and keep the administrator:
  BALANCE_INITIALIZATION, DISABLE_INITIALIZATION, ADD_ADMIN and ADMIN_RECOVERY. The
  guards stand in the order of the code; each reads its operation after the schema accepted it.
  Logging is left out.
\<close>

text \<open>The two guards every handler puts on an address: a valid address string, a public key.\<close>

definition addressAndKey :: "'b env \<Rightarrow> buffer \<Rightarrow> (string \<times> buffer) option" where
  "addressAndKey E addressBuffer =
     (case bufferToAddress E addressBuffer of None \<Rightarrow> None
      | Some addressString \<Rightarrow> (
        let publicKey = address_decodeSafe E (Some addressString) in
        if publicKey = NULL_BUFFER then None else Some (addressString, publicKey)))"

text \<open>The two guards on a recreated message: it is not empty and hashes to the transaction hash.\<close>

definition messageHash :: "'b env \<Rightarrow> buffer \<Rightarrow> buffer \<Rightarrow> buffer option" where
  "messageHash E message tx =
     (if length message = 0 then None
      else let hash = blake3Safe E message in if hash \<noteq> tx then None else Some hash)"

text \<open>The deferred-execution guard: \<open>txv\<close> is the hash of the indexers the base has now.\<close>

definition indexersMatch :: "'b env \<Rightarrow> buffer \<Rightarrow> 'b astate \<Rightarrow> bool" where
  "indexersMatch E txv s \<longleftrightarrow>
     (case getIndexerSequenceStateApply E s of None \<Rightarrow> False
      | Some indexersSequenceState \<Rightarrow> txv = indexersSequenceState)"

text \<open>The admin entry, decoded, when the operation is the administrator's: its node and its key.\<close>

definition adminOf :: "'b env \<Rightarrow> apply_node \<Rightarrow> buffer \<Rightarrow> 'b astate \<Rightarrow> buffer option" where
  "adminOf E node requesterPublicKey s =
     (case ae_decode E (getEntryApply EntryType_ADMIN s) of None \<Rightarrow> None
      | Some decodedAdminEntry \<Rightarrow> (
        if \<not> isAdminApply decodedAdminEntry node then None
        else let adminPublicKey = address_decodeSafe E (ae_address decodedAdminEntry) in
        if adminPublicKey = NULL_BUFFER then None
        else if adminPublicKey \<noteq> requesterPublicKey then None
        else Some adminPublicKey))"

section \<open>BALANCE_INITIALIZATION\<close>

text \<open>The recipient's entry: a new reader, or the old entry with its balance overwritten.\<close>

definition initializedEntry :: "Balance \<Rightarrow> buffer option \<Rightarrow> buffer option" where
  "initializedEntry amount incomingAddressNodeEntryBuffer =
     (if incomingAddressNodeEntryBuffer = None then
        let nodeEntry = ne_init ZERO_WK READER (bal_value amount) ZERO_LICENSE ZERO_BALANCE
        in if length nodeEntry = 0 then None else Some nodeEntry
      else bal_update amount incomingAddressNodeEntryBuffer)"

definition handleApplyInitializeBalanceOperation ::
  "'b env \<Rightarrow> operation \<Rightarrow> apply_node \<Rightarrow> 'b astate \<Rightarrow> 'b result" where
  "handleApplyInitializeBalanceOperation E op node s =
     (let bio = payload_of op in
      if \<not> validateBalanceInitialization E op then fail s
      else case addressAndKey E (bytes (op_address op)) of None \<Rightarrow> fail s
      | Some (adminAddressString, requesterAdminPublicKey) \<Rightarrow> (
      case addressAndKey E (bytes (p_ia bio)) of None \<Rightarrow> fail s
      | Some (recipientAddressString, recipientPublicKey) \<Rightarrow> (
      case toBalance (bytes (p_am bio)) of None \<Rightarrow> fail s
      | Some amount \<Rightarrow> (
      if isApplyInitalizationDisabled s then fail s
      else case adminOf E node requesterAdminPublicKey s of None \<Rightarrow> fail s
      | Some adminPublicKey \<Rightarrow> (
      let message = createMessage [Num (networkId E), Buf (bytes (p_txv bio)), Buf (bytes (p_ia bio)),
            Buf (bal_value amount), Buf (bytes (p_in bio)), Num OT_BALANCE_INITIALIZATION];
          txHashHexString = to_hex (bytes (p_tx bio))
      in case messageHash E message (bytes (p_tx bio)) of None \<Rightarrow> fail s
      | Some hash \<Rightarrow> (
      if \<not> signature_verify E (bytes (p_is bio)) hash adminPublicKey then fail s
      else if \<not> indexersMatch E (bytes (p_txv bio)) s then fail s
      else if getEntryApply txHashHexString s \<noteq> None then fail s
      else
      case initializedEntry amount (getEntryApply recipientAddressString s) of
        None \<Rightarrow> fail s
      | Some nodeEntry \<Rightarrow> (
          success (put txHashHexString (node_value node) (put recipientAddressString nodeEntry s)))))))))"

section \<open>DISABLE_INITIALIZATION\<close>

definition handleApplyDisableBalanceInitializationOperation ::
  "'b env \<Rightarrow> operation \<Rightarrow> apply_node \<Rightarrow> 'b astate \<Rightarrow> 'b result" where
  "handleApplyDisableBalanceInitializationOperation E op node s =
     (let cao = payload_of op in
      if \<not> validateCoreAdminOperation E op then fail s
      else if isApplyInitalizationDisabled s then fail s
      else case addressAndKey E (bytes (op_address op)) of None \<Rightarrow> fail s
      | Some (adminAddressString, requesterAdminPublicKey) \<Rightarrow> (
      case adminOf E node requesterAdminPublicKey s of None \<Rightarrow> fail s
      | Some adminPublicKey \<Rightarrow> (
      let message = createMessage [Num (networkId E), Buf (bytes (p_txv cao)), Buf (bytes (p_iw cao)),
            Buf (bytes (p_in cao)), Num OT_DISABLE_INITIALIZATION];
          txHashHexString = to_hex (bytes (p_tx cao))
      in case messageHash E message (bytes (p_tx cao)) of None \<Rightarrow> fail s
      | Some hash \<Rightarrow> (
      if \<not> signature_verify E (bytes (p_is cao)) hash adminPublicKey then fail s
      else if \<not> indexersMatch E (bytes (p_txv cao)) s then fail s
      else if getEntryApply txHashHexString s \<noteq> None then fail s
      else success (put txHashHexString (node_value node)
                     (put EntryType_INITIALIZATION (safeWriteUInt32BE 0) s))))))"

section \<open>ADD_ADMIN\<close>

text \<open>Before the first write: the requester is the bootstrap node and nothing is initialised.\<close>

definition addAdmin_verify :: "'b env \<Rightarrow> operation \<Rightarrow> apply_node \<Rightarrow> 'b astate \<Rightarrow> string option" where
  "addAdmin_verify E op node s =
     (let cao = payload_of op in
      if \<not> validateCoreAdminOperation E op then None
      else case addressAndKey E (bytes (op_address op)) of None \<Rightarrow> None
      | Some (adminAddressString, adminPublicKey) \<Rightarrow> (
      if from_key node \<noteq> bootstrap E \<or> bytes (p_iw cao) \<noteq> bootstrap E then None
      else let requesterMessage = createMessage [Num (networkId E), Buf (bytes (p_txv cao)),
                 Buf (bytes (p_iw cao)), Buf (bytes (p_in cao)), Num OT_ADD_ADMIN]
      in case messageHash E requesterMessage (bytes (p_tx cao)) of None \<Rightarrow> None
      | Some hash \<Rightarrow> (
      if \<not> signature_verify E (bytes (p_is cao)) (bytes (p_tx cao)) adminPublicKey then None
      else if \<not> indexersMatch E (bytes (p_txv cao)) s then None
      else if getRegisteredWriterKeyApply s (to_hex (bytes (p_iw cao))) \<noteq> None then None
      else if getEntryApply EntryType_ADMIN s \<noteq> None then None
      else if getEntryApply (to_hex (bytes (p_tx cao))) s \<noteq> None then None
      else Some adminAddressString)))"

definition handleApplyAddAdminOperation ::
  "'b env \<Rightarrow> operation \<Rightarrow> apply_node \<Rightarrow> 'b astate \<Rightarrow> 'b result" where
  "handleApplyAddAdminOperation E op node s =
     (let cao = payload_of op;
          adminAddressBuffer = bytes (op_address op);
          txHashHexString = to_hex (bytes (p_tx cao))
      in case addAdmin_verify E op node s of None \<Rightarrow> fail s
      | Some adminAddressString \<Rightarrow> (
      case applyAssignNewLicense s of None \<Rightarrow> None
      | Some (newLicenseLength, decodedNewLicenseLength) \<Rightarrow> (
      let s = (if decodedNewLicenseLength \<noteq> 0
               then put (EntryType_LICENSE_INDEX @ show_nat decodedNewLicenseLength) adminAddressBuffer
                      (put EntryType_LICENSE_COUNT newLicenseLength s)
               else s);
          initializedNodeEntry = ne_init (bytes (p_iw cao)) INDEXER ADMIN_INITIAL_BALANCE
            newLicenseLength ADMIN_INITIAL_STAKED_BALANCE
      in if length initializedNodeEntry = 0 then fail s
      else let newAdminEntry = ae_encode E adminAddressBuffer (bytes (p_iw cao))
      in if length newAdminEntry = 0 then fail s
      else let s = put adminAddressString initializedNodeEntry s;
               s = put (EntryType_WRITER_ADDRESS @ to_hex (bytes (p_iw cao))) adminAddressBuffer s
      in case updateWritersIndex s of None \<Rightarrow> None
      | Some (len, incrementedLength) \<Rightarrow> (
      let s = put (EntryType_WRITERS_INDEX @ show_nat len) adminAddressBuffer s;
          s = put EntryType_WRITERS_LENGTH incrementedLength s;
          s = put EntryType_ADMIN newAdminEntry s;
          s = put EntryType_INITIALIZATION (safeWriteUInt32BE 1) s
      in success (put txHashHexString (node_value node) s)))))"

section \<open>ADMIN_RECOVERY\<close>

text \<open>
  The guards on the operation alone: schema, completeness, the two signatures. The result is the
  requester's address and public key and the validator's address.
\<close>

definition adminRecovery_verify :: "'b env \<Rightarrow> operation \<Rightarrow> (string \<times> buffer \<times> string) option" where
  "adminRecovery_verify E op =
     (let rao = payload_of op in
      if \<not> validateRoleAccessOperation E op then None
      else if \<not> hasOwn (p_vs rao) \<or> \<not> hasOwn (p_va rao) \<or> \<not> hasOwn (p_vn rao) then None
      else if bytes (p_in rao) = bytes (p_vn rao) then None
      else if bytes (op_address op) = bytes (p_va rao) then None
      else if bytes (p_is rao) = bytes (p_vs rao) then None
      else case addressAndKey E (bytes (op_address op)) of None \<Rightarrow> None
      | Some (requesterAdminAddressString, requesterAdminPublicKey) \<Rightarrow> (
      let requesterMessage = createMessage [Num (networkId E), Buf (bytes (p_txv rao)),
            Buf (bytes (p_iw rao)), Buf (bytes (p_in rao)), Num OT_ADMIN_RECOVERY]
      in case messageHash E requesterMessage (bytes (p_tx rao)) of None \<Rightarrow> None
      | Some hash \<Rightarrow> (
      if \<not> signature_verify E (bytes (p_is rao)) (bytes (p_tx rao)) requesterAdminPublicKey then None
      else case addressAndKey E (bytes (p_va rao)) of None \<Rightarrow> None
      | Some (validatorAddressString, validatorPublicKey) \<Rightarrow> (
      let validatorMessage = createMessage [Num (networkId E), Buf (bytes (p_tx rao)),
            Buf (bytes (p_vn rao)), Num OT_ADMIN_RECOVERY]
      in if length validatorMessage = 0 then None
      else if \<not> signature_verify E (bytes (p_vs rao)) (blake3Safe E validatorMessage) validatorPublicKey
      then None
      else Some (requesterAdminAddressString, requesterAdminPublicKey, validatorAddressString)))))"

definition handleApplyAdminRecoveryOperation ::
  "'b env \<Rightarrow> operation \<Rightarrow> apply_node \<Rightarrow> 'b astate \<Rightarrow> 'b result" where
  "handleApplyAdminRecoveryOperation E op node s =
     (let rao = payload_of op;
          iw = bytes (p_iw rao);
          txHashHexString = to_hex (bytes (p_tx rao))
      in case adminRecovery_verify E op of None \<Rightarrow> fail s
      | Some (requesterAdminAddressString, requesterAdminPublicKey, validatorAddressString) \<Rightarrow> (
      if getRegisteredWriterKeyApply s (to_hex iw) \<noteq> None then fail s
      else if \<not> indexersMatch E (bytes (p_txv rao)) s then fail s
      else let validatorEntryBuffer = getEntryApply validatorAddressString s
      in if \<not> isValidatorValidApply validatorEntryBuffer node then fail s
      else case ae_decode E (getEntryApply EntryType_ADMIN s) of None \<Rightarrow> fail s
      | Some decodedAdminEntry \<Rightarrow> (
      if requesterAdminPublicKey \<noteq> address_decodeSafe E (ae_address decodedAdminEntry) then fail s
      else if getEntryApply txHashHexString s \<noteq> None then fail s
      else if isWriterKeyInIndexerListApply E (ae_wk decodedAdminEntry) s \<noteq> Some True then fail s
      else let newAdminEntry = ae_encode E (bytes (op_address op)) iw
      in if length newAdminEntry = 0 then fail s
      else let adminNodeEntry = getEntryApply requesterAdminAddressString s;
               newAdminNodeEntry = setWritingKey adminNodeEntry iw
      in if isWriterKeyInIndexerListApply E iw s = Some True then fail s
      else case ne_decode newAdminNodeEntry of None \<Rightarrow> fail s
      | Some decodedAdminNodeEntry \<Rightarrow> (
      case toBalance (ne_balance decodedAdminNodeEntry) of None \<Rightarrow> fail s
      | Some adminBalance \<Rightarrow> (
      if \<not> bal_greaterThanOrEquals adminBalance BALANCE_FEE then ignore s
      else case bal_sub adminBalance BALANCE_FEE of None \<Rightarrow> fail s
      | Some updatedFee \<Rightarrow> (
      let chargedAdminEntry = bal_update updatedFee newAdminNodeEntry
      in case ne_decode validatorEntryBuffer of None \<Rightarrow> fail s
      | Some validatorNodeEntry \<Rightarrow> (
      case toBalance (ne_balance validatorNodeEntry) of None \<Rightarrow> fail s
      | Some validatorBalance \<Rightarrow> (
      case bal_percentage BALANCE_FEE PERCENT_75 of None \<Rightarrow> None
      | Some reward \<Rightarrow> (
      case bal_add validatorBalance reward of None \<Rightarrow> fail s
      | Some newValidatorBalance \<Rightarrow> (
      case bal_update newValidatorBalance validatorEntryBuffer of None \<Rightarrow> fail s
      | Some updatedValidatorNodeEntry \<Rightarrow> (
      case removeWriterBase E (ae_wk decodedAdminEntry) s of None \<Rightarrow> None
      | Some s \<Rightarrow> (
      case addWriterBase E iw True s of None \<Rightarrow> None
      | Some s \<Rightarrow> (
      let s = put (EntryType_WRITER_ADDRESS @ to_hex iw) (bytes (op_address op)) s;
          s = put EntryType_ADMIN newAdminEntry s;
          s = put_nullable requesterAdminAddressString chargedAdminEntry s;
          s = put validatorAddressString updatedValidatorNodeEntry s
      in success (put txHashHexString (node_value node) s))))))))))))))"

end
