(* ===== verification/Whitelist_Ops.thy ===== *)
theory Whitelist_Ops
  imports Admin_Ops
begin

text \<open>
  APPEND_WHITELIST and BAN_VALIDATOR: the administrator gives a node its licence and the right to
  become a writer, or takes its role away. After the initialisation phase both burn the fee.
\<close>

section \<open>APPEND_WHITELIST\<close>

text \<open>The guards: the administrator's address and the node's.\<close>

definition appendWhitelist_verify ::
  "'b env \<Rightarrow> operation \<Rightarrow> apply_node \<Rightarrow> 'b astate \<Rightarrow> (string \<times> string) option" where
  "appendWhitelist_verify E op node s =
     (let aco = payload_of op in
      if \<not> validateAdminControlOperation E op then None
      else case addressAndKey E (bytes (op_address op)) of None \<Rightarrow> None
      | Some (adminAddressString, requesterAdminPublicKey) \<Rightarrow> (
      case adminOf E node requesterAdminPublicKey s of None \<Rightarrow> None
      | Some adminPublicKey \<Rightarrow> (
      case addressAndKey E (bytes (p_ia aco)) of None \<Rightarrow> None
      | Some (nodeAddressString, nodePublicKey) \<Rightarrow> (
      let message = createMessage [Num (networkId E), Buf (bytes (p_txv aco)), Buf (bytes (p_ia aco)),
            Buf (bytes (p_in aco)), Num OT_APPEND_WHITELIST]
      in case messageHash E message (bytes (p_tx aco)) of None \<Rightarrow> None
      | Some hash \<Rightarrow> (
      if \<not> signature_verify E (bytes (p_is aco)) (bytes (p_tx aco)) adminPublicKey then None
      else if \<not> indexersMatch E (bytes (p_txv aco)) s then None
      else if getEntryApply (to_hex (bytes (p_tx aco))) s \<noteq> None then None
      else if isWhitelisted (getEntryApply nodeAddressString s) then None
      else Some (adminAddressString, nodeAddressString))))))"

text \<open>The fee, which the administrator pays once the initialisation phase is over.\<close>

definition appendWhitelist_fee :: "string \<Rightarrow> 'b astate \<Rightarrow> 'b astate option" where
  "appendWhitelist_fee adminAddressString s =
     (if isApplyInitalizationDisabled s then
        (case getEntryApply adminAddressString s of None \<Rightarrow> None
        | Some adminNodeEntry \<Rightarrow> (
        case ne_decode (Some adminNodeEntry) of None \<Rightarrow> None
        | Some decodedNodeEntry \<Rightarrow> (
        case toBalance (ne_balance decodedNodeEntry) of None \<Rightarrow> None
        | Some adminBalance \<Rightarrow> (
        if \<not> bal_greaterThanOrEquals adminBalance BALANCE_FEE then None
        else case bal_sub adminBalance BALANCE_FEE of None \<Rightarrow> None
        | Some newAdminBalance \<Rightarrow> (
        case bal_update newAdminBalance (Some adminNodeEntry) of None \<Rightarrow> None
        | Some updatedAdminEntry \<Rightarrow> Some (put adminAddressString updatedAdminEntry s))))))
      else Some s)"

text \<open>The licence of a new or not yet licensed node; the counter may throw.\<close>

definition assignLicense :: "buffer \<Rightarrow> 'b astate \<Rightarrow> (buffer \<times> 'b astate) option" where
  "assignLicense nodeAddressBuffer s =
     (case applyAssignNewLicense s of None \<Rightarrow> None
      | Some (newLicenseLength, decodedNewLicenseLength) \<Rightarrow> (
        Some (newLicenseLength,
          if decodedNewLicenseLength \<noteq> 0
          then put (EntryType_LICENSE_INDEX @ show_nat decodedNewLicenseLength) nodeAddressBuffer
                 (put EntryType_LICENSE_COUNT newLicenseLength s)
          else s)))"

definition handleApplyAppendWhitelistOperation ::
  "'b env \<Rightarrow> operation \<Rightarrow> apply_node \<Rightarrow> 'b astate \<Rightarrow> 'b result" where
  "handleApplyAppendWhitelistOperation E op node s =
     (let aco = payload_of op;
          nodeAddressBuffer = bytes (p_ia aco);
          hashHexString = to_hex (bytes (p_tx aco))
      in case appendWhitelist_verify E op node s of None \<Rightarrow> fail s
      | Some (adminAddressString, nodeAddressString) \<Rightarrow> (
      let nodeEntry = getEntryApply nodeAddressString s
      in case appendWhitelist_fee adminAddressString s of None \<Rightarrow> fail s
      | Some s \<Rightarrow> (
      case nodeEntry of
        None \<Rightarrow>
          (case assignLicense nodeAddressBuffer s of None \<Rightarrow> None
           | Some (newLicenseLength, s) \<Rightarrow> (
           let initializedNodeEntry = ne_init ZERO_WK WHITELISTED ZERO_BALANCE newLicenseLength ZERO_BALANCE
           in if length initializedNodeEntry = 0 then fail s
           else success (put hashHexString (node_value node)
                          (put nodeAddressString initializedNodeEntry s))))
      | Some _ \<Rightarrow>
          (case ne_decode nodeEntry of None \<Rightarrow> fail s
           | Some decodedNodeEntry \<Rightarrow> (
           case setRole nodeEntry WHITELISTED of None \<Rightarrow> fail s
           | Some editedNodeEntry \<Rightarrow> (
           if ne_license decodedNodeEntry \<noteq> ZERO_LICENSE then
             success (put hashHexString (node_value node) (put nodeAddressString editedNodeEntry s))
           else
             case assignLicense nodeAddressBuffer s of None \<Rightarrow> None
             | Some (newLicenseLength, s) \<Rightarrow> (
             let nodeEntryWithNewLicense = setLicense (Some editedNodeEntry) newLicenseLength
             in success (put hashHexString (node_value node)
                          (put_nullable nodeAddressString nodeEntryWithNewLicense s)))))))))"

section \<open>BAN_VALIDATOR\<close>

definition banValidator_verify ::
  "'b env \<Rightarrow> operation \<Rightarrow> apply_node \<Rightarrow> 'b astate \<Rightarrow> (string \<times> string) option" where
  "banValidator_verify E op node s =
     (let aco = payload_of op in
      if \<not> validateAdminControlOperation E op then None
      else case addressAndKey E (bytes (op_address op)) of None \<Rightarrow> None
      | Some (requesterAddressString, requesterPublicKey) \<Rightarrow> (
      case ae_decode E (getEntryApply EntryType_ADMIN s) of None \<Rightarrow> None
      | Some decodedAdminEntry \<Rightarrow> (
      let adminPublicKey = address_decodeSafe E (ae_address decodedAdminEntry)
      in if adminPublicKey = NULL_BUFFER then None
      else if \<not> isAdminApply decodedAdminEntry node then None
      else if adminPublicKey \<noteq> requesterPublicKey then None
      else let message = createMessage [Num (networkId E), Buf (bytes (p_txv aco)), Buf (bytes (p_ia aco)),
            Buf (bytes (p_in aco)), Num OT_BAN_VALIDATOR]
      in case messageHash E message (bytes (p_tx aco)) of None \<Rightarrow> None
      | Some regeneratedHash \<Rightarrow> (
      if \<not> signature_verify E (bytes (p_is aco)) regeneratedHash adminPublicKey then None
      else if \<not> indexersMatch E (bytes (p_txv aco)) s then None
      else if getEntryApply (to_hex regeneratedHash) s \<noteq> None then None
      else case bufferToAddress E (bytes (p_ia aco)) of None \<Rightarrow> None
      | Some nodeToBeBannedAddressString \<Rightarrow> Some (requesterAddressString, nodeToBeBannedAddressString)))))"

definition handleApplyBanValidatorOperation ::
  "'b env \<Rightarrow> operation \<Rightarrow> apply_node \<Rightarrow> 'b astate \<Rightarrow> 'b result" where
  "handleApplyBanValidatorOperation E op node s =
     (let aco = payload_of op;
          txHashHexString = to_hex (bytes (p_tx aco))
      in case banValidator_verify E op node s of None \<Rightarrow> fail s
      | Some (requesterAddressString, nodeToBeBannedAddressString) \<Rightarrow> (
      let toBanNodeEntry = getEntryApply nodeToBeBannedAddressString s
      in if toBanNodeEntry = None then fail s
      else if (\<not> isWhitelisted toBanNodeEntry \<and> \<not> isWriter toBanNodeEntry) \<or> isIndexer toBanNodeEntry
      then fail s
      else case setRole toBanNodeEntry READER of None \<Rightarrow> fail s
      | Some updatedToBanNodeEntry \<Rightarrow> (
      case ne_decode (Some updatedToBanNodeEntry) of None \<Rightarrow> fail s
      | Some decodedToBanNodeEntry \<Rightarrow> (
      case toBalance FEE of None \<Rightarrow> fail s
      | Some feeAmount \<Rightarrow> (
      case getEntryApply requesterAddressString s of None \<Rightarrow> fail s
      | Some adminNodeEntryBuffer \<Rightarrow> (
      case ne_decode (Some adminNodeEntryBuffer) of None \<Rightarrow> fail s
      | Some adminNodeEntry \<Rightarrow> (
      case toBalance (ne_balance adminNodeEntry) of None \<Rightarrow> fail s
      | Some adminBalance \<Rightarrow> (
      if \<not> bal_greaterThanOrEquals adminBalance feeAmount then fail s
      else case bal_sub adminBalance feeAmount of None \<Rightarrow> fail s
      | Some newAdminBalance \<Rightarrow> (
      case bal_update newAdminBalance (Some adminNodeEntryBuffer) of None \<Rightarrow> fail s
      | Some updatedAdminNodeEntry \<Rightarrow> (
      let finish = (\<lambda>s. success
            (emitEvent (UNWRITABLE (address_decodeSafe E (Some nodeToBeBannedAddressString)))
              (put txHashHexString (node_value node)
                (put requesterAddressString updatedAdminNodeEntry s))))
      in if isWriter toBanNodeEntry then
           (case withdrawStakedBalanceApply (Some updatedToBanNodeEntry) of None \<Rightarrow> fail s
            | Some finalNodeEntry \<Rightarrow> (
            case removeWriterBase E (ne_wk decodedToBanNodeEntry) s of None \<Rightarrow> None
            | Some s \<Rightarrow> finish (put nodeToBeBannedAddressString finalNodeEntry s)))
         else finish (put nodeToBeBannedAddressString updatedToBanNodeEntry s)))))))))))"

end
