(* ===== verification/Writer_Ops.thy ===== *)
theory Writer_Ops
  imports Admin_Ops
begin

text \<open>
  ADD_WRITER and REMOVE_WRITER: a whitelisted node stakes and becomes a writer, a writer
  unstakes and returns to the whitelist. A writer that is not the requester completes the
  operation and earns three quarters of the fee. The inner functions return \<open>null\<close> (failure),
  IGNORE or nothing (success); the outer ones turn this into a status.
\<close>

section \<open>ADD_WRITER\<close>

definition addWriter_verify :: "'b env \<Rightarrow> operation \<Rightarrow> (string \<times> string) option" where
  "addWriter_verify E op =
     (let rao = payload_of op in
      if \<not> validateRoleAccessOperation E op then None
      else if \<not> hasOwn (p_vs rao) \<or> \<not> hasOwn (p_va rao) \<or> \<not> hasOwn (p_vn rao) then None
      else if bytes (p_in rao) = bytes (p_vn rao) then None
      else if bytes (op_address op) = bytes (p_va rao) then None
      else if bytes (p_is rao) = bytes (p_vs rao) then None
      else case addressAndKey E (bytes (op_address op)) of None \<Rightarrow> None
      | Some (requesterAddressString, requesterPublicKey) \<Rightarrow> (
      if bytes (p_iw rao) = ZERO_WK then None
      else let requesterMessage = createMessage [Num (networkId E), Buf (bytes (p_txv rao)),
            Buf (bytes (p_iw rao)), Buf (bytes (p_in rao)), Num OT_ADD_WRITER]
      in case messageHash E requesterMessage (bytes (p_tx rao)) of None \<Rightarrow> None
      | Some hash \<Rightarrow> (
      if \<not> signature_verify E (bytes (p_is rao)) (bytes (p_tx rao)) requesterPublicKey then None
      else case addressAndKey E (bytes (p_va rao)) of None \<Rightarrow> None
      | Some (validatorAddressString, validatorPublicKey) \<Rightarrow> (
      let validatorMessage = createMessage [Num (networkId E), Buf (bytes (p_tx rao)),
            Buf (bytes (p_vn rao)), Num OT_ADD_WRITER]
      in if length validatorMessage = 0 then None
      else if \<not> signature_verify E (bytes (p_vs rao)) (blake3Safe E validatorMessage) validatorPublicKey
      then None
      else Some (requesterAddressString, validatorAddressString)))))"

definition addWriter :: "'b env \<Rightarrow> operation \<Rightarrow> apply_node \<Rightarrow> string \<Rightarrow> string \<Rightarrow> string \<Rightarrow>
    buffer option \<Rightarrow> 'b astate \<Rightarrow> 'b result" where
  "addWriter E op node txHashHexString requesterAddressString validatorAddressString
     validatorEntryBuffer s =
     (let rao = payload_of op;
          iw = bytes (p_iw rao);
          requesterAddressBuffer = bytes (op_address op);
          requesterNodeEntry = getEntryApply requesterAddressString s
      in if requesterNodeEntry = None then fail s
      else case ne_decode requesterNodeEntry of None \<Rightarrow> fail s
      | Some decodedRequesterNodeEntry \<Rightarrow> (
      let writerKeyHasBeenRegistered = getRegisteredWriterKeyApply s (to_hex iw);
          isCurrentWk = (ne_wk decodedRequesterNodeEntry = iw);
          isOwner = (writerKeyHasBeenRegistered = Some requesterAddressBuffer)
      in if writerKeyHasBeenRegistered \<noteq> None \<and> (\<not> isCurrentWk \<or> \<not> isOwner) then fail s
      else if ne_isIndexer decodedRequesterNodeEntry \<or> ne_isWriter decodedRequesterNodeEntry \<or>
        \<not> ne_isWhitelisted decodedRequesterNodeEntry then fail s
      else case toBalance (ne_balance decodedRequesterNodeEntry) of None \<Rightarrow> fail s
      | Some requesterBalance \<Rightarrow> (
      if \<not> bal_greaterThanOrEquals requesterBalance BALANCE_FEE then ignore s
      else case bal_sub requesterBalance BALANCE_FEE of None \<Rightarrow> fail s
      | Some updatedBalance \<Rightarrow> (
      case setRoleAndWriterKey requesterNodeEntry WRITER iw of None \<Rightarrow> fail s
      | Some updatedRoleRequesterNodeEntry \<Rightarrow> (
      case bal_update updatedBalance (Some updatedRoleRequesterNodeEntry) of None \<Rightarrow> fail s
      | Some chargedFeeRequesterNodeEntry \<Rightarrow> (
      case ne_decode validatorEntryBuffer of None \<Rightarrow> fail s
      | Some decodedValidatorEntry \<Rightarrow> (
      case toBalance (ne_balance decodedValidatorEntry) of None \<Rightarrow> fail s
      | Some validatorBalance \<Rightarrow> (
      case bal_percentage BALANCE_FEE PERCENT_75 of None \<Rightarrow> None
      | Some reward \<Rightarrow> (
      case bal_add validatorBalance reward of None \<Rightarrow> fail s
      | Some updatedValidatorBalance \<Rightarrow> (
      case bal_update updatedValidatorBalance validatorEntryBuffer of None \<Rightarrow> fail s
      | Some updatedValidatorEntry \<Rightarrow> (
      case stakeBalanceApply (Some chargedFeeRequesterNodeEntry) of None \<Rightarrow> fail s
      | Some finalRequesterNodeEntry \<Rightarrow> (
      case addWriterBase E iw False s of None \<Rightarrow> None
      | Some s \<Rightarrow> (
      let s = put requesterAddressString finalRequesterNodeEntry s;
          s = (if writerKeyHasBeenRegistered = None
               then put (EntryType_WRITER_ADDRESS @ to_hex iw) requesterAddressBuffer s else s)
      in case updateWritersIndex s of None \<Rightarrow> None
      | Some (len, incrementedLength) \<Rightarrow> (
      let s = put (EntryType_WRITERS_INDEX @ show_nat len) requesterAddressBuffer s;
          s = put EntryType_WRITERS_LENGTH incrementedLength s;
          s = put validatorAddressString updatedValidatorEntry s
      in success (put txHashHexString (node_value node) s)))))))))))))))"

definition handleApplyAddWriterOperation ::
  "'b env \<Rightarrow> operation \<Rightarrow> apply_node \<Rightarrow> 'b astate \<Rightarrow> 'b result" where
  "handleApplyAddWriterOperation E op node s =
     (let rao = payload_of op;
          txHashHexString = to_hex (bytes (p_tx rao))
      in case addWriter_verify E op of None \<Rightarrow> fail s
      | Some (requesterAddressString, validatorAddressString) \<Rightarrow> (
      if \<not> indexersMatch E (bytes (p_txv rao)) s then fail s
      else let validatorEntryBuffer = getEntryApply validatorAddressString s
      in if \<not> isValidatorValidApply validatorEntryBuffer node then fail s
      else if getEntryApply txHashHexString s \<noteq> None then ignore s
      else addWriter E op node txHashHexString requesterAddressString validatorAddressString
             validatorEntryBuffer s))"

section \<open>REMOVE_WRITER\<close>

definition removeWriter_verify :: "'b env \<Rightarrow> operation \<Rightarrow> (string \<times> string) option" where
  "removeWriter_verify E op =
     (let rao = payload_of op in
      if \<not> validateRoleAccessOperation E op then None
      else if \<not> hasOwn (p_vs rao) \<or> \<not> hasOwn (p_va rao) \<or> \<not> hasOwn (p_vn rao) then None
      else if bytes (p_in rao) = bytes (p_vn rao) then None
      else if bytes (op_address op) = bytes (p_va rao) then None
      else if bytes (p_is rao) = bytes (p_vs rao) then None
      else case addressAndKey E (bytes (op_address op)) of None \<Rightarrow> None
      | Some (requesterAddressString, requesterPublicKey) \<Rightarrow> (
      let requesterMessage = createMessage [Num (networkId E), Buf (bytes (p_txv rao)),
            Buf (bytes (p_iw rao)), Buf (bytes (p_in rao)), Num OT_REMOVE_WRITER]
      in case messageHash E requesterMessage (bytes (p_tx rao)) of None \<Rightarrow> None
      | Some hash \<Rightarrow> (
      if \<not> signature_verify E (bytes (p_is rao)) (bytes (p_tx rao)) requesterPublicKey then None
      else case addressAndKey E (bytes (p_va rao)) of None \<Rightarrow> None
      | Some (validatorAddressString, validatorPublicKey) \<Rightarrow> (
      let validatorMessage = createMessage [Num (networkId E), Buf (bytes (p_tx rao)),
            Buf (bytes (p_vn rao)), Num OT_REMOVE_WRITER]
      in if length validatorMessage = 0 then None
      else if \<not> signature_verify E (bytes (p_vs rao)) (blake3Safe E validatorMessage) validatorPublicKey
      then None
      else Some (requesterAddressString, validatorAddressString)))))"

definition removeWriter :: "'b env \<Rightarrow> operation \<Rightarrow> apply_node \<Rightarrow> string \<Rightarrow> string \<Rightarrow> string \<Rightarrow>
    buffer option \<Rightarrow> 'b astate \<Rightarrow> 'b result" where
  "removeWriter E op node txHashHexString requesterAddressString validatorAddressString
     validatorEntryBuffer s =
     (let rao = payload_of op;
          iw = bytes (p_iw rao);
          requesterAddress = bytes (op_address op);
          requesterNodeEntry = getEntryApply requesterAddressString s
      in if requesterNodeEntry = None then fail s
      else case ne_decode requesterNodeEntry of None \<Rightarrow> fail s
      | Some decodedNodeEntry \<Rightarrow> (
      if ne_isIndexer decodedNodeEntry \<or> \<not> ne_isWriter decodedNodeEntry then fail s
      else if getRegisteredWriterKeyApply s (to_hex iw) = None \<or> iw \<noteq> ne_wk decodedNodeEntry \<or>
        getRegisteredWriterKeyApply s (to_hex iw) \<noteq> Some requesterAddress then fail s
      else case toBalance (ne_balance decodedNodeEntry) of None \<Rightarrow> fail s
      | Some requesterBalance \<Rightarrow> (
      if \<not> bal_greaterThanOrEquals requesterBalance BALANCE_FEE then ignore s
      else case bal_sub requesterBalance BALANCE_FEE of None \<Rightarrow> fail s
      | Some updatedBalance \<Rightarrow> (
      case setRole requesterNodeEntry WHITELISTED of None \<Rightarrow> fail s
      | Some updatedNodeEntry \<Rightarrow> (
      case bal_update updatedBalance (Some updatedNodeEntry) of None \<Rightarrow> fail s
      | Some chargedNodeEntry \<Rightarrow> (
      case ne_decode validatorEntryBuffer of None \<Rightarrow> fail s
      | Some decodedValidatorEntry \<Rightarrow> (
      case toBalance (ne_balance decodedValidatorEntry) of None \<Rightarrow> fail s
      | Some validatorBalance \<Rightarrow> (
      case bal_percentage BALANCE_FEE PERCENT_75 of None \<Rightarrow> None
      | Some reward \<Rightarrow> (
      case bal_add validatorBalance reward of None \<Rightarrow> fail s
      | Some validatorNewBalance \<Rightarrow> (
      case bal_update validatorNewBalance validatorEntryBuffer of None \<Rightarrow> fail s
      | Some updateValidatorEntry \<Rightarrow> (
      case withdrawStakedBalanceApply (Some chargedNodeEntry) of None \<Rightarrow> fail s
      | Some finalRequesterNodeEntry \<Rightarrow> (
      case removeWriterBase E (ne_wk decodedNodeEntry) s of None \<Rightarrow> None
      | Some s \<Rightarrow> (
      let s = put requesterAddressString finalRequesterNodeEntry s;
          s = put validatorAddressString updateValidatorEntry s;
          s = put txHashHexString (node_value node) s
      in success (emitEvent (UNWRITABLE (address_decodeSafe E (Some requesterAddressString))) s))))))))))))))"

definition handleApplyRemoveWriterOperation ::
  "'b env \<Rightarrow> operation \<Rightarrow> apply_node \<Rightarrow> 'b astate \<Rightarrow> 'b result" where
  "handleApplyRemoveWriterOperation E op node s =
     (let rao = payload_of op;
          txHashHexString = to_hex (bytes (p_tx rao))
      in case removeWriter_verify E op of None \<Rightarrow> fail s
      | Some (requesterAddressString, validatorAddressString) \<Rightarrow> (
      if \<not> indexersMatch E (bytes (p_txv rao)) s then fail s
      else let validatorEntryBuffer = getEntryApply validatorAddressString s
      in if \<not> isValidatorValidApply validatorEntryBuffer node then fail s
      else if getEntryApply txHashHexString s \<noteq> None then ignore s
      else removeWriter E op node txHashHexString requesterAddressString validatorAddressString
             validatorEntryBuffer s))"

end
