(* ===== verification/Indexer_Ops.thy ===== *)
theory Indexer_Ops
  imports Admin_Ops
begin

text \<open>
  ADD_INDEXER and REMOVE_INDEXER: the administrator promotes a writer to indexer, or takes an
  indexer back to writer, and burns the fee.
\<close>

text \<open>
  The guards of the two handlers differ only in the operation type. The result is the
  administrator's address, the target's address and the regenerated transaction hash.
\<close>

definition indexer_verify :: "nat \<Rightarrow> 'b env \<Rightarrow> operation \<Rightarrow> apply_node \<Rightarrow> 'b astate \<Rightarrow>
    (string \<times> string \<times> string) option" where
  "indexer_verify operationType E op node s =
     (let aco = payload_of op in
      if \<not> validateAdminControlOperation E op then None
      else case addressAndKey E (bytes (op_address op)) of None \<Rightarrow> None
      | Some (requesterAddressString, requesterPublicKey) \<Rightarrow> (
      case addressAndKey E (bytes (p_ia aco)) of None \<Rightarrow> None
      | Some (targetAddressString, targetPublicKey) \<Rightarrow> (
      case adminOf E node requesterPublicKey s of None \<Rightarrow> None
      | Some adminPublicKey \<Rightarrow> (
      let message = createMessage [Num (networkId E), Buf (bytes (p_txv aco)), Buf (bytes (p_ia aco)),
            Buf (bytes (p_in aco)), Num operationType]
      in case messageHash E message (bytes (p_tx aco)) of None \<Rightarrow> None
      | Some hash \<Rightarrow> (
      if \<not> signature_verify E (bytes (p_is aco)) hash adminPublicKey then None
      else if \<not> indexersMatch E (bytes (p_txv aco)) s then None
      else if getEntryApply (to_hex hash) s \<noteq> None then None
      else Some (requesterAddressString, targetAddressString, to_hex hash))))))"

section \<open>ADD_INDEXER\<close>

definition addIndexer :: "'b env \<Rightarrow> apply_node \<Rightarrow> string \<Rightarrow> string \<Rightarrow> string \<Rightarrow> 'b astate \<Rightarrow> 'b result" where
  "addIndexer E node txHashHexString pretendingAddressString requesterAddressString s =
     (let pretenderNodeEntry = getEntryApply pretendingAddressString s
      in if pretenderNodeEntry = None then fail s
      else case ne_decode pretenderNodeEntry of None \<Rightarrow> fail s
      | Some decodedPretenderNodeEntry \<Rightarrow> (
      if \<not> isWriter pretenderNodeEntry \<or> isIndexer pretenderNodeEntry then fail s
      else case setRole pretenderNodeEntry INDEXER of None \<Rightarrow> fail s
      | Some updatedNodeEntry \<Rightarrow> (
      if isWriterKeyInIndexerListApply E (ne_wk decodedPretenderNodeEntry) s = Some True then fail s
      else case toBalance FEE of None \<Rightarrow> fail s
      | Some feeAmount \<Rightarrow> (
      case getEntryApply requesterAddressString s of None \<Rightarrow> fail s
      | Some adminNodeEntryBuffer \<Rightarrow> (
      case ne_decode (Some adminNodeEntryBuffer) of None \<Rightarrow> fail s
      | Some adminNodeEntry \<Rightarrow> (
      case toBalance (ne_balance adminNodeEntry) of None \<Rightarrow> fail s
      | Some adminBalance \<Rightarrow> (
      if \<not> bal_greaterThanOrEquals adminBalance feeAmount then fail s
      else case bal_sub adminBalance feeAmount of None \<Rightarrow> fail s
      | Some newAdminBalance \<Rightarrow> (
      case bal_update newAdminBalance (Some adminNodeEntryBuffer) of None \<Rightarrow> fail s
      | Some updatedAdminNodeEntry \<Rightarrow> (
      case removeWriterBase E (ne_wk decodedPretenderNodeEntry) s of None \<Rightarrow> None
      | Some s \<Rightarrow> (
      case addWriterBase E (ne_wk decodedPretenderNodeEntry) True s of None \<Rightarrow> None
      | Some s \<Rightarrow> (
      let s = put pretendingAddressString updatedNodeEntry s;
          s = put requesterAddressString updatedAdminNodeEntry s;
          s = put txHashHexString (node_value node) s
      in success (emitEvent (IS_INDEXER (address_decodeSafe E (Some pretendingAddressString))) s))))))))))))"

definition handleApplyAddIndexerOperation ::
  "'b env \<Rightarrow> operation \<Rightarrow> apply_node \<Rightarrow> 'b astate \<Rightarrow> 'b result" where
  "handleApplyAddIndexerOperation E op node s =
     (case indexer_verify OT_ADD_INDEXER E op node s of None \<Rightarrow> fail s
      | Some (requesterAddressString, pretendingAddressString, txHashHexString) \<Rightarrow> (
          addIndexer E node txHashHexString pretendingAddressString requesterAddressString s))"

section \<open>REMOVE_INDEXER\<close>

definition removeIndexer :: "'b env \<Rightarrow> apply_node \<Rightarrow> string \<Rightarrow> string \<Rightarrow> buffer \<Rightarrow> string \<Rightarrow>
    'b astate \<Rightarrow> 'b result" where
  "removeIndexer E node txHashHexString toRemoveAddressString toRemoveAddressBuffer
     requesterAddressString s =
     (let toRemoveNodeEntry = getEntryApply toRemoveAddressString s
      in if toRemoveNodeEntry = None then fail s
      else case ne_decode toRemoveNodeEntry of None \<Rightarrow> fail s
      | Some decodedNodeEntry \<Rightarrow> (
      if \<not> isIndexer toRemoveNodeEntry then fail s
      else case setRoleAndWriterKey toRemoveNodeEntry WRITER (ne_wk decodedNodeEntry) of None \<Rightarrow> fail s
      | Some updatedNodeEntry \<Rightarrow> (
      if isWriterKeyInIndexerListApply E (ne_wk decodedNodeEntry) s \<noteq> Some True then fail s
      else case getEntryApply requesterAddressString s of None \<Rightarrow> fail s
      | Some adminNodeEntry \<Rightarrow> (
      case ne_decode (Some adminNodeEntry) of None \<Rightarrow> fail s
      | Some decodedAdminNodeEntry \<Rightarrow> (
      case toBalance (ne_balance decodedAdminNodeEntry) of None \<Rightarrow> fail s
      | Some adminBalance \<Rightarrow> (
      if \<not> bal_greaterThanOrEquals adminBalance BALANCE_FEE then fail s
      else case bal_sub adminBalance BALANCE_FEE of None \<Rightarrow> fail s
      | Some newAdminBalance \<Rightarrow> (
      case bal_update newAdminBalance (Some adminNodeEntry) of None \<Rightarrow> fail s
      | Some updatedAdminNodeEntry \<Rightarrow> (
      case removeWriterBase E (ne_wk decodedNodeEntry) s of None \<Rightarrow> None
      | Some s \<Rightarrow> (
      case addWriterBase E (ne_wk decodedNodeEntry) False s of None \<Rightarrow> None
      | Some s \<Rightarrow> (
      case updateWritersIndex s of None \<Rightarrow> None
      | Some (len, incrementedLength) \<Rightarrow> (
      let s = put (EntryType_WRITERS_INDEX @ show_nat len) toRemoveAddressBuffer s;
          s = put EntryType_WRITERS_LENGTH incrementedLength s;
          s = put toRemoveAddressString updatedNodeEntry s;
          s = put requesterAddressString updatedAdminNodeEntry s
      in success (put txHashHexString (node_value node) s))))))))))))"

definition handleApplyRemoveIndexerOperation ::
  "'b env \<Rightarrow> operation \<Rightarrow> apply_node \<Rightarrow> 'b astate \<Rightarrow> 'b result" where
  "handleApplyRemoveIndexerOperation E op node s =
     (case indexer_verify OT_REMOVE_INDEXER E op node s of None \<Rightarrow> fail s
      | Some (requesterAddressString, toRemoveAddressString, txHashHexString) \<Rightarrow> (
          removeIndexer E node txHashHexString toRemoveAddressString
            (bytes (p_ia (payload_of op))) requesterAddressString s))"

end
