(* ===== verification/Network_Ops.thy ===== *)
theory Network_Ops
  imports Admin_Ops
begin

text \<open>
  The operations of the network's users: BOOTSTRAP_DEPLOYMENT, TX and TRANSFER, and the two
  functions that move the money, \<open>#transferFeeTxOperation\<close> and \<open>#transfer\<close>. Those return
  \<open>null\<close> (\<open>Failed\<close>), IGNORE (\<open>Skipped\<close>), the new entries (\<open>Done\<close>), or throw.
\<close>

datatype 'e outcome = Failed | Skipped | Done 'e | Threw

section \<open>BOOTSTRAP_DEPLOYMENT\<close>

definition bootstrapDeployment_verify :: "'b env \<Rightarrow> operation \<Rightarrow> (string \<times> string) option" where
  "bootstrapDeployment_verify E op =
     (let bdo = payload_of op in
      if \<not> validateBootstrapDeploymentOperation E op then None
      else if \<not> hasOwn (p_vs bdo) \<or> \<not> hasOwn (p_va bdo) \<or> \<not> hasOwn (p_vn bdo) then None
      else if bytes (p_bs bdo) = bootstrap E then None
      else if bytes (p_in bdo) = bytes (p_vn bdo) then None
      else if bytes (op_address op) = bytes (p_va bdo) then None
      else if bytes (p_is bdo) = bytes (p_vs bdo) then None
      else case addressAndKey E (bytes (op_address op)) of None \<Rightarrow> None
      | Some (requesterAddressString, requesterPublicKey) \<Rightarrow> (
      let requesterMessage = createMessage [Num (networkId E), Buf (bytes (p_txv bdo)),
            Buf (bytes (p_bs bdo)), Buf (bytes (p_ic bdo)), Buf (bytes (p_in bdo)),
            Num OT_BOOTSTRAP_DEPLOYMENT]
      in case messageHash E requesterMessage (bytes (p_tx bdo)) of None \<Rightarrow> None
      | Some regeneratedTxHash \<Rightarrow> (
      if \<not> signature_verify E (bytes (p_is bdo)) regeneratedTxHash requesterPublicKey then None
      else case addressAndKey E (bytes (p_va bdo)) of None \<Rightarrow> None
      | Some (validatorAddressString, validatorPublicKey) \<Rightarrow> (
      let validatorMessage = createMessage [Num (networkId E), Buf (bytes (p_tx bdo)),
            Buf (bytes (p_vn bdo)), Num OT_BOOTSTRAP_DEPLOYMENT]
      in if length validatorMessage = 0 then None
      else if \<not> signature_verify E (bytes (p_vs bdo)) (blake3Safe E validatorMessage) validatorPublicKey
      then None
      else Some (requesterAddressString, validatorAddressString)))))"

definition handleApplyBootstrapDeploymentOperation ::
  "'b env \<Rightarrow> operation \<Rightarrow> apply_node \<Rightarrow> 'b astate \<Rightarrow> 'b result" where
  "handleApplyBootstrapDeploymentOperation E op node s =
     (let bdo = payload_of op;
          bootstrapDeploymentHexString = to_hex (bytes (p_bs bdo));
          hashHexString = to_hex (bytes (p_tx bdo))
      in case bootstrapDeployment_verify E op of None \<Rightarrow> fail s
      | Some (requesterAddressString, validatorAddressString) \<Rightarrow> (
      if \<not> indexersMatch E (bytes (p_txv bdo)) s then fail s
      else let validatorEntryBuffer = getEntryApply validatorAddressString s
      in if \<not> isValidatorValidApply validatorEntryBuffer node then fail s
      else if getEntryApply hashHexString s \<noteq> None then ignore s
      else if getDeploymentEntryApply bootstrapDeploymentHexString s \<noteq> None then ignore s
      else let deploymentEntry = de_encode E (bytes (p_tx bdo)) (bytes (op_address op))
      in if length deploymentEntry = 0 then fail s
      else case toBalance FEE of None \<Rightarrow> fail s
      | Some feeAmount \<Rightarrow> (
      case getEntryApply requesterAddressString s of None \<Rightarrow> fail s
      | Some requesterNodeEntryBuffer \<Rightarrow> (
      case ne_decode (Some requesterNodeEntryBuffer) of None \<Rightarrow> fail s
      | Some requesterNodeEntry \<Rightarrow> (
      case toBalance (ne_balance requesterNodeEntry) of None \<Rightarrow> fail s
      | Some requesterBalance \<Rightarrow> (
      if \<not> bal_greaterThanOrEquals requesterBalance feeAmount then ignore s
      else case bal_sub requesterBalance feeAmount of None \<Rightarrow> fail s
      | Some newRequesterBalance \<Rightarrow> (
      case bal_update newRequesterBalance (Some requesterNodeEntryBuffer) of None \<Rightarrow> fail s
      | Some updatedRequesterNodeEntry \<Rightarrow> (
      case ne_decode validatorEntryBuffer of None \<Rightarrow> fail s
      | Some validatorNodeEntry \<Rightarrow> (
      case toBalance (ne_balance validatorNodeEntry) of None \<Rightarrow> fail s
      | Some validatorBalance \<Rightarrow> (
      case bal_percentage feeAmount PERCENT_75 of None \<Rightarrow> None
      | Some reward \<Rightarrow> (
      case bal_add validatorBalance reward of None \<Rightarrow> fail s
      | Some newValidatorBalance \<Rightarrow> (
      case bal_update newValidatorBalance validatorEntryBuffer of None \<Rightarrow> fail s
      | Some updatedValidatorNodeEntry \<Rightarrow> (
      let s = put (EntryType_DEPLOYMENT @ bootstrapDeploymentHexString) deploymentEntry s;
          s = put requesterAddressString updatedRequesterNodeEntry s;
          s = put validatorAddressString updatedValidatorNodeEntry s
      in success (put hashHexString (node_value node) s))))))))))))))"

section \<open>TX\<close>

definition tx_verify :: "'b env \<Rightarrow> operation \<Rightarrow> (string \<times> string) option" where
  "tx_verify E op =
     (let txo = payload_of op in
      if \<not> validateTransactionOperation E op then None
      else if \<not> hasOwn (p_vs txo) \<or> \<not> hasOwn (p_va txo) \<or> \<not> hasOwn (p_vn txo) then None
      else if bytes (op_address op) = bytes (p_va txo) then None
      else if bytes (p_in txo) = bytes (p_vn txo) then None
      else if bytes (p_is txo) = bytes (p_vs txo) then None
      else if bytes (p_bs txo) = bytes (p_mbs txo) then None
      else if bytes (p_mbs txo) \<noteq> bootstrap E then None
      else case addressAndKey E (bytes (op_address op)) of None \<Rightarrow> None
      | Some (requesterAddressString, requesterPublicKey) \<Rightarrow> (
      let requesterMessage = createMessage [Num (networkId E), Buf (bytes (p_txv txo)),
            Buf (bytes (p_iw txo)), Buf (bytes (p_ch txo)), Buf (bytes (p_bs txo)),
            Buf (bootstrap E), Buf (bytes (p_in txo)), Num OT_TX]
      in case messageHash E requesterMessage (bytes (p_tx txo)) of None \<Rightarrow> None
      | Some regeneratedTxHash \<Rightarrow> (
      if \<not> signature_verify E (bytes (p_is txo)) (bytes (p_tx txo)) requesterPublicKey then None
      else case addressAndKey E (bytes (p_va txo)) of None \<Rightarrow> None
      | Some (validatorAddressString, validatorPublicKey) \<Rightarrow> (
      let validatorMessage = createMessage [Num (networkId E), Buf (bytes (p_tx txo)),
            Buf (bytes (p_vn txo)), Num OT_TX]
      in if length validatorMessage = 0 then None
      else if \<not> signature_verify E (bytes (p_vs txo)) (blake3Safe E validatorMessage) validatorPublicKey
      then None
      else Some (requesterAddressString, validatorAddressString)))))"

text \<open>The new entries of the requester, the validator and, when a third party, the creator.
  The requester of a transaction is charged, the validator gets half of the fee, the creator of
  the subnetwork a quarter, and the rest is burned.\<close>

definition transferFeeTxOperation :: "string \<Rightarrow> string \<Rightarrow> buffer option \<Rightarrow> string \<Rightarrow> Balance \<Rightarrow>
    'b astate \<Rightarrow> (buffer \<times> buffer \<times> buffer option) outcome" where
  "transferFeeTxOperation requesterAddressString validatorAddressString validatorEntryBuffer
     subnetworkCreatorAddressString feeAmount s =
     (if requesterAddressString = [] \<or> validatorAddressString = [] \<or> validatorEntryBuffer = None \<or>
         subnetworkCreatorAddressString = [] then Failed
      else case getEntryApply requesterAddressString s of None \<Rightarrow> Failed
      | Some requesterNodeEntryBuffer \<Rightarrow> (
      case ne_decode (Some requesterNodeEntryBuffer) of None \<Rightarrow> Failed
      | Some requesterNodeEntry \<Rightarrow> (
      case toBalance (ne_balance requesterNodeEntry) of None \<Rightarrow> Failed
      | Some requesterBalance \<Rightarrow> (
      if \<not> bal_greaterThanOrEquals requesterBalance feeAmount then Skipped
      else case bal_sub requesterBalance feeAmount of None \<Rightarrow> Failed
      | Some newRequesterBalance \<Rightarrow> (
      case bal_update newRequesterBalance (Some requesterNodeEntryBuffer) of None \<Rightarrow> Failed
      | Some updatedRequesterNodeEntry \<Rightarrow> (
      case ne_decode validatorEntryBuffer of None \<Rightarrow> Failed
      | Some validatorNodeEntry \<Rightarrow> (
      case toBalance (ne_balance validatorNodeEntry) of None \<Rightarrow> Failed
      | Some validatorBalance \<Rightarrow> (
      case bal_percentage feeAmount PERCENT_50 of None \<Rightarrow> Threw
      | Some half \<Rightarrow> (
      case bal_add validatorBalance half of None \<Rightarrow> Failed
      | Some newValidatorBalance \<Rightarrow> (
      case bal_update newValidatorBalance validatorEntryBuffer of None \<Rightarrow> Failed
      | Some updatedValidatorNodeEntry \<Rightarrow> (
      if requesterAddressString = subnetworkCreatorAddressString
      then Done (updatedRequesterNodeEntry, updatedValidatorNodeEntry, None)
      else case bal_percentage feeAmount PERCENT_25 of None \<Rightarrow> Threw
      | Some quarter \<Rightarrow> (
      if validatorAddressString = subnetworkCreatorAddressString
      then (case bal_add newValidatorBalance quarter of None \<Rightarrow> Failed
        | Some newValidatorBalanceWithBonus \<Rightarrow> (
        case bal_update newValidatorBalanceWithBonus (Some updatedValidatorNodeEntry) of None \<Rightarrow> Failed
        | Some updatedValidatorNodeEntryWithBonus \<Rightarrow> (
          Done (updatedRequesterNodeEntry, updatedValidatorNodeEntryWithBonus, None))))
      else case getEntryApply subnetworkCreatorAddressString s of None \<Rightarrow> Failed
      | Some subnetworkCreatorNodeEntryBuffer \<Rightarrow> (
      case ne_decode (Some subnetworkCreatorNodeEntryBuffer) of None \<Rightarrow> Failed
      | Some subnetworkCreatorNodeEntry \<Rightarrow> (
      case toBalance (ne_balance subnetworkCreatorNodeEntry) of None \<Rightarrow> Failed
      | Some subnetworkCreatorBalance \<Rightarrow> (
      case bal_add subnetworkCreatorBalance quarter of None \<Rightarrow> Failed
      | Some newSubnetworkCreatorBalance \<Rightarrow> (
      case bal_update newSubnetworkCreatorBalance (Some subnetworkCreatorNodeEntryBuffer) of None \<Rightarrow> Failed
      | Some updatedSubnetworkCreatorNodeEntry \<Rightarrow> (
        Done (updatedRequesterNodeEntry, updatedValidatorNodeEntry,
              Some updatedSubnetworkCreatorNodeEntry))))))))))))))))))"

definition handleApplyTxOperation ::
  "'b env \<Rightarrow> operation \<Rightarrow> apply_node \<Rightarrow> 'b astate \<Rightarrow> 'b result" where
  "handleApplyTxOperation E op node s =
     (let txo = payload_of op;
          hashHexString = to_hex (bytes (p_tx txo))
      in case tx_verify E op of None \<Rightarrow> fail s
      | Some (requesterAddressString, validatorAddressString) \<Rightarrow> (
      if \<not> indexersMatch E (bytes (p_txv txo)) s then fail s
      else let validatorEntryBuffer = getEntryApply validatorAddressString s
      in if \<not> isValidatorValidApply validatorEntryBuffer node then fail s
      else if getEntryApply hashHexString s \<noteq> None then ignore s
      else let bootstrapHasBeenRegistered = getDeploymentEntryApply (to_hex (bytes (p_bs txo))) s
      in if bootstrapHasBeenRegistered = None then fail s
      else case de_decode bootstrapHasBeenRegistered (addressLength E) of None \<Rightarrow> fail s
      | Some deploymentEntry \<Rightarrow> (
      case bufferToAddress E (de_address deploymentEntry) of None \<Rightarrow> fail s
      | Some subnetworkCreatorAddressString \<Rightarrow> (
      case toBalance FEE of None \<Rightarrow> fail s
      | Some feeAmount \<Rightarrow> (
      case transferFeeTxOperation requesterAddressString validatorAddressString validatorEntryBuffer
             subnetworkCreatorAddressString feeAmount s of
        Threw \<Rightarrow> None
      | Failed \<Rightarrow> fail s
      | Skipped \<Rightarrow> ignore s
      | Done (requesterEntry, validatorEntry, subnetworkCreatorEntry) \<Rightarrow>
          let s = put requesterAddressString requesterEntry s;
              s = put validatorAddressString validatorEntry s;
              s = (case subnetworkCreatorEntry of None \<Rightarrow> s
                   | Some e \<Rightarrow> put subnetworkCreatorAddressString e s)
          in success (put hashHexString (node_value node) s))))))"

section \<open>TRANSFER\<close>

definition transfer_verify :: "'b env \<Rightarrow> operation \<Rightarrow> (string \<times> string) option" where
  "transfer_verify E op =
     (let tro = payload_of op in
      if \<not> validateTransferOperation E op then None
      else if \<not> hasOwn (p_vs tro) \<or> \<not> hasOwn (p_va tro) \<or> \<not> hasOwn (p_vn tro) then None
      else if bytes (p_in tro) = bytes (p_vn tro) then None
      else if bytes (op_address op) = bytes (p_va tro) then None
      else if bytes (p_is tro) = bytes (p_vs tro) then None
      else case addressAndKey E (bytes (op_address op)) of None \<Rightarrow> None
      | Some (requesterAddressString, requesterPublicKey) \<Rightarrow> (
      let requesterMessage = createMessage [Num (networkId E), Buf (bytes (p_txv tro)),
            Buf (bytes (p_to tro)), Buf (bytes (p_am tro)), Buf (bytes (p_in tro)), Num OT_TRANSFER]
      in case messageHash E requesterMessage (bytes (p_tx tro)) of None \<Rightarrow> None
      | Some regeneratedTxHash \<Rightarrow> (
      if \<not> signature_verify E (bytes (p_is tro)) regeneratedTxHash requesterPublicKey then None
      else case addressAndKey E (bytes (p_va tro)) of None \<Rightarrow> None
      | Some (validatorAddressString, validatorPublicKey) \<Rightarrow> (
      let validatorMessage = createMessage [Num (networkId E), Buf (bytes (p_tx tro)),
            Buf (bytes (p_vn tro)), Num OT_TRANSFER]
      in if length validatorMessage = 0 then None
      else if \<not> signature_verify E (bytes (p_vs tro)) (blake3Safe E validatorMessage) validatorPublicKey
      then None
      else Some (requesterAddressString, validatorAddressString)))))"

text \<open>What the recipient's entry becomes when the recipient is a third party.\<close>

definition transfer_recipient :: "string \<Rightarrow> Balance \<Rightarrow> 'b astate \<Rightarrow> buffer option" where
  "transfer_recipient recipientAddressString transferAmount s =
     (case getEntryApply recipientAddressString s of
        None \<Rightarrow>
          (let newRecipientEntry = ne_init ZERO_WK READER (bal_value transferAmount) ZERO_LICENSE ZERO_BALANCE
           in if length newRecipientEntry = 0 then None else Some newRecipientEntry)
      | Some recipientEntryBuffer \<Rightarrow>
          (case ne_decode (Some recipientEntryBuffer) of None \<Rightarrow> None
           | Some recipientEntry \<Rightarrow> (
           case toBalance (ne_balance recipientEntry) of None \<Rightarrow> None
           | Some recipientBalance \<Rightarrow> (
           case bal_add recipientBalance transferAmount of None \<Rightarrow> None
           | Some newRecipientBalance \<Rightarrow> bal_update newRecipientBalance (Some recipientEntryBuffer)))))"

text \<open>\<open>validatorBalance.add(transferAmount).add(validatorReward)\<close> throws when the first sum
  does not fit; \<open>Some None\<close> is the \<open>null\<close> of the last sum.\<close>

definition transfer_validatorBalance :: "bool \<Rightarrow> Balance \<Rightarrow> Balance \<Rightarrow> Balance \<Rightarrow> Balance option option" where
  "transfer_validatorBalance isRecipientValidator validatorBalance transferAmount validatorReward =
     (if isRecipientValidator
      then case bal_add validatorBalance transferAmount of None \<Rightarrow> None
           | Some b \<Rightarrow> Some (bal_add b validatorReward)
      else Some (bal_add validatorBalance validatorReward))"

definition transfer :: "string \<Rightarrow> string \<Rightarrow> string \<Rightarrow> buffer option \<Rightarrow> buffer \<Rightarrow> buffer \<Rightarrow>
    bool \<Rightarrow> bool \<Rightarrow> 'b astate \<Rightarrow> (buffer \<times> buffer option \<times> buffer) outcome" where
  "transfer senderAddressString recipientAddressString validatorAddressString validatorEntryBuffer
     transferAmountBuffer feeAmountBuffer isSelfTransfer isRecipientValidator s =
     (if senderAddressString = [] \<or> recipientAddressString = [] \<or> validatorAddressString = [] \<or>
         validatorEntryBuffer = None then Failed
      else case toBalance transferAmountBuffer of None \<Rightarrow> Failed
      | Some transferAmount \<Rightarrow> (
      case toBalance feeAmountBuffer of None \<Rightarrow> Failed
      | Some feeAmount \<Rightarrow> (
      case (if isSelfTransfer then Some feeAmount else bal_add transferAmount feeAmount) of None \<Rightarrow> Failed
      | Some totalDeductedAmount \<Rightarrow> (
      case getEntryApply senderAddressString s of None \<Rightarrow> Failed
      | Some senderEntryBuffer \<Rightarrow> (
      case ne_decode (Some senderEntryBuffer) of None \<Rightarrow> Failed
      | Some senderEntry \<Rightarrow> (
      case toBalance (ne_balance senderEntry) of None \<Rightarrow> Failed
      | Some senderBalance \<Rightarrow> (
      if \<not> bal_greaterThanOrEquals senderBalance totalDeductedAmount then Skipped
      else case bal_sub senderBalance totalDeductedAmount of None \<Rightarrow> Failed
      | Some newSenderBalance \<Rightarrow> (
      case bal_update newSenderBalance (Some senderEntryBuffer) of None \<Rightarrow> Failed
      | Some updatedSenderEntry \<Rightarrow> (
      case (if \<not> isSelfTransfer \<and> \<not> isRecipientValidator
            then map_option Some (transfer_recipient recipientAddressString transferAmount s)
            else Some None) of None \<Rightarrow> Failed
      | Some recipientEntry \<Rightarrow> (
      case ne_decode validatorEntryBuffer of None \<Rightarrow> Failed
      | Some validatorEntry \<Rightarrow> (
      case toBalance (ne_balance validatorEntry) of None \<Rightarrow> Failed
      | Some validatorBalance \<Rightarrow> (
      case bal_percentage feeAmount PERCENT_75 of None \<Rightarrow> Failed
      | Some validatorReward \<Rightarrow> (
      case transfer_validatorBalance isRecipientValidator validatorBalance transferAmount validatorReward of
        None \<Rightarrow> Threw
      | Some None \<Rightarrow> Failed
      | Some (Some newValidatorBalance) \<Rightarrow> (
      case bal_update newValidatorBalance validatorEntryBuffer of None \<Rightarrow> Failed
      | Some updatedValidatorEntry \<Rightarrow> (
        Done (updatedSenderEntry,
              (if isRecipientValidator then Some updatedValidatorEntry else recipientEntry),
              updatedValidatorEntry))))))))))))))))"

definition handleApplyTransferOperation ::
  "'b env \<Rightarrow> operation \<Rightarrow> apply_node \<Rightarrow> 'b astate \<Rightarrow> 'b result" where
  "handleApplyTransferOperation E op node s =
     (let tro = payload_of op;
          requesterAddressBuffer = bytes (op_address op);
          validatorAddressBuffer = bytes (p_va tro);
          recipientAddressBuffer = bytes (p_to tro);
          hashHexString = to_hex (bytes (p_tx tro))
      in case transfer_verify E op of None \<Rightarrow> fail s
      | Some (requesterAddressString, validatorAddressString) \<Rightarrow> (
      if \<not> indexersMatch E (bytes (p_txv tro)) s then fail s
      else let validatorEntryBuffer = getEntryApply validatorAddressString s
      in if \<not> isValidatorValidApply validatorEntryBuffer node then fail s
      else if getEntryApply hashHexString s \<noteq> None then ignore s
      else case addressAndKey E recipientAddressBuffer of None \<Rightarrow> fail s
      | Some (recipientAddressString, recipientPublicKey) \<Rightarrow> (
      let isSelfTransfer = (requesterAddressBuffer = recipientAddressBuffer);
          isRecipientValidator = (recipientAddressBuffer = validatorAddressBuffer)
      in case transfer requesterAddressString recipientAddressString validatorAddressString
             validatorEntryBuffer (bytes (p_am tro)) FEE isSelfTransfer isRecipientValidator s of
        Threw \<Rightarrow> None
      | Failed \<Rightarrow> fail s
      | Skipped \<Rightarrow> ignore s
      | Done (senderEntry, recipientEntry, validatorEntry) \<Rightarrow>
          case (if \<not> isSelfTransfer
                then map_option (\<lambda>e. put recipientAddressString e s) recipientEntry
                else Some s) of None \<Rightarrow> fail s
          | Some s \<Rightarrow> (
          let s = put requesterAddressString senderEntry s;
              s = put validatorAddressString validatorEntry s;
              s = (case recipientEntry of
                     Some e \<Rightarrow> if \<not> isSelfTransfer \<and> \<not> isRecipientValidator
                               then put recipientAddressString e s else s
                   | None \<Rightarrow> s)
          in success (put hashHexString (node_value node) s)))))"

end
