(* ===== verification/Apply_Loop.thy ===== *)
theory Apply_Loop
  imports Whitelist_Ops Writer_Ops Indexer_Ops Network_Ops
begin

text \<open>
  \<open>#apply\<close>: the batch of nodes that autobase hands over, the choice of the handler, and the
  penalty of the node that appended the batch. \<open>None\<close> is an exception, after which nothing of the
  batch is flushed.
\<close>

section \<open>The penalty\<close>

definition validatorPenaltyApply :: "'b env \<Rightarrow> buffer \<Rightarrow> nat \<Rightarrow> 'b astate \<Rightarrow> 'b astate option" where
  "validatorPenaltyApply E writingKeyBuffer invalidOperations s =
     (case getEntryApply EntryType_ADMIN s of None \<Rightarrow> Some s
      | Some adminEntryBuffer \<Rightarrow> (
      case ae_decode E (Some adminEntryBuffer) of None \<Rightarrow> Some s
      | Some adminEntry \<Rightarrow> (
      if ae_wk adminEntry = writingKeyBuffer then Some s
      else case getRegisteredWriterKeyApply s (to_hex writingKeyBuffer) of None \<Rightarrow> Some s
      | Some validatorAddressBuffer \<Rightarrow> (
      case addressAndKey E validatorAddressBuffer of None \<Rightarrow> Some s
      | Some (validatorAddressString, validatorPublicKey) \<Rightarrow> (
      case getEntryApply validatorAddressString s of None \<Rightarrow> Some s
      | Some validatorNodeEntryBuffer \<Rightarrow> (
      case ne_decode (Some validatorNodeEntryBuffer) of None \<Rightarrow> Some s
      | Some decodedValidatorNodeEntry \<Rightarrow> (
      case toBalance (ne_stakedBalance decodedValidatorNodeEntry) of None \<Rightarrow> Some s
      | Some stakedBalance \<Rightarrow> (
      case bal_mul BALANCE_FEE (toTerm (int invalidOperations)) of None \<Rightarrow> Some s
      | Some penalty \<Rightarrow> (
      case (if bal_greaterThanOrEquals penalty stakedBalance then Some BALANCE_ZERO
            else bal_sub stakedBalance penalty) of None \<Rightarrow> Some s
      | Some deductedStakedBalance \<Rightarrow> (
      if bal_greaterThan deductedStakedBalance BALANCE_ZERO
      then (case toBalance (ne_balance decodedValidatorNodeEntry) of None \<Rightarrow> Some s
        | Some currentBalance \<Rightarrow> (
        case bal_add currentBalance deductedStakedBalance of None \<Rightarrow> Some s
        | Some newBalance \<Rightarrow> (
        case bal_update newBalance (Some validatorNodeEntryBuffer) of None \<Rightarrow> Some s
        | Some updatedNodeEntryWithBalance \<Rightarrow> (
        case setStakedBalance (Some updatedNodeEntryWithBalance) (bal_value BALANCE_ZERO) of None \<Rightarrow> Some s
        | Some updatedNodeEntryWithAllBalances \<Rightarrow> (
        case setRole (Some updatedNodeEntryWithAllBalances) WHITELISTED of None \<Rightarrow> Some s
        | Some downgradedNodeEntry \<Rightarrow> (
        case removeWriterBase E writingKeyBuffer s of None \<Rightarrow> None
        | Some s \<Rightarrow> (
          Some (put validatorAddressString downgradedNodeEntry s))))))))
      else (case setStakedBalance (Some validatorNodeEntryBuffer) (bal_value BALANCE_ZERO) of None \<Rightarrow> Some s
        | Some updatedNodeEntryZeroStakedBalance \<Rightarrow> (
        case setRole (Some updatedNodeEntryZeroStakedBalance) WHITELISTED of None \<Rightarrow> Some s
        | Some downgradedNodeEntry \<Rightarrow> (
        case removeWriterBase E writingKeyBuffer s of None \<Rightarrow> None
        | Some s \<Rightarrow> (
          Some (put validatorAddressString downgradedNodeEntry s)))))))))))))))"

section \<open>The handlers\<close>

definition getApplyOperationHandler ::
  "'b env \<Rightarrow> nat \<Rightarrow> (operation \<Rightarrow> apply_node \<Rightarrow> 'b astate \<Rightarrow> 'b result) option" where
  "getApplyOperationHandler E operationType = map_of
     [(OT_BALANCE_INITIALIZATION, handleApplyInitializeBalanceOperation E),
      (OT_DISABLE_INITIALIZATION, handleApplyDisableBalanceInitializationOperation E),
      (OT_ADD_ADMIN, handleApplyAddAdminOperation E),
      (OT_APPEND_WHITELIST, handleApplyAppendWhitelistOperation E),
      (OT_ADD_WRITER, handleApplyAddWriterOperation E),
      (OT_REMOVE_WRITER, handleApplyRemoveWriterOperation E),
      (OT_ADMIN_RECOVERY, handleApplyAdminRecoveryOperation E),
      (OT_ADD_INDEXER, handleApplyAddIndexerOperation E),
      (OT_REMOVE_INDEXER, handleApplyRemoveIndexerOperation E),
      (OT_BAN_VALIDATOR, handleApplyBanValidatorOperation E),
      (OT_BOOTSTRAP_DEPLOYMENT, handleApplyBootstrapDeploymentOperation E),
      (OT_TX, handleApplyTxOperation E),
      (OT_TRANSFER, handleApplyTransferOperation E)] operationType"

section \<open>The batch\<close>

definition MAXIMUM_OPERATION_PAYLOAD_SIZE :: nat where [simp]: "MAXIMUM_OPERATION_PAYLOAD_SIZE = 4096"
definition OVERSIZED_BATCH_PENALTY_MULTIPLIER :: nat where
  [simp]: "OVERSIZED_BATCH_PENALTY_MULTIPLIER = BATCH_SIZE"

text \<open>One turn of the loop: whether the operation counts as invalid, and the state after it.\<close>

definition applyNode :: "'b env \<Rightarrow> apply_node \<Rightarrow> 'b astate \<Rightarrow> (bool \<times> 'b astate) option" where
  "applyNode E node s =
     (if length (node_value node) > MAXIMUM_OPERATION_PAYLOAD_SIZE then Some (True, s)
      else case Operation_decode E (node_value node) of
        None \<Rightarrow> Some (True, s)
      | Some op \<Rightarrow>
          (case getApplyOperationHandler E (op_type op) of
             None \<Rightarrow> Some (True, s)
           | Some handler \<Rightarrow>
               (case handler op node s of
                  None \<Rightarrow> None
                | Some (result, s) \<Rightarrow> Some (result = FAILURE, s))))"

fun applyNodes :: "'b env \<Rightarrow> apply_node list \<Rightarrow> nat \<Rightarrow> 'b astate \<Rightarrow> (nat \<times> 'b astate) option" where
  "applyNodes E [] invalidOperations s = Some (invalidOperations, s)"
| "applyNodes E (node # nodes) invalidOperations s =
     (case applyNode E node s of
        None \<Rightarrow> None
      | Some (invalid, s) \<Rightarrow>
          applyNodes E nodes (if invalid then invalidOperations + 1 else invalidOperations) s)"

text \<open>\<open>nodes[0]\<close> of an empty batch is undefined, and reading its key throws.\<close>

definition apply_batch :: "'b env \<Rightarrow> apply_node list \<Rightarrow> 'b astate \<Rightarrow> 'b astate option" where
  "apply_batch E nodes s =
     (if nodes = [] then None
      else let batchInvoker = from_key (hd nodes)
      in if length nodes > BATCH_SIZE
      then validatorPenaltyApply E batchInvoker OVERSIZED_BATCH_PENALTY_MULTIPLIER s
      else case applyNodes E nodes 0 s of
        None \<Rightarrow> None
      | Some (invalidOperations, s) \<Rightarrow> (
          if invalidOperations > 0 then validatorPenaltyApply E batchInvoker invalidOperations s
          else Some s))"

end
