(* ===== verification/Ledger.thy ===== *)
theory Ledger
  imports ApplyState
begin

text \<open>
  The abstract view of the store: which keys are accounts, what an account holds, the sum over all
  accounts, and the invariant every operation keeps. An account entry is well-formed and its stake is
  exactly 0.3 TNK when it is a writer or an indexer, and nothing otherwise.
\<close>

section \<open>Key spaces\<close>

abbreviation account :: "'b env \<Rightarrow> string \<Rightarrow> bool" where
  "account E k \<equiv> isAddressValid E k"

text \<open>Account keys begin with the address prefix, \<open>trac\<close> or \<open>testtrac\<close> in the configurations of
  the repository; no other key begins with that letter.\<close>

definition prefix_ok :: "'b env \<Rightarrow> bool" where
  "prefix_ok E \<longleftrightarrow> addressPrefix E \<noteq> [] \<and> hd (addressPrefix E) \<notin> hex_chars \<union> set ''awild''"

lemma account_prefix:
  assumes "account E k" and "addressPrefix E \<noteq> []"
  shows "k \<noteq> [] \<and> hd k = hd (addressPrefix E)"
proof -
  have "take (length (addressPrefix E @ ''1'')) k = addressPrefix E @ ''1''"
    using assms(1) by (auto simp: isAddressValid_def startsWith_def split: option.splits)
  then show ?thesis using assms(2)
    by (metis append_is_Nil_conv hd_append2 hd_take length_greater_0_conv take_eq_Nil2)
qed

lemma prefix_okD: "prefix_ok E \<Longrightarrow> account E k \<Longrightarrow> k \<noteq> [] \<and> hd k \<notin> hex_chars \<and> hd k \<notin> set ''awild''"
  using account_prefix [of E k] by (auto simp: prefix_ok_def)

lemma account_hex [key]: "prefix_ok E \<Longrightarrow> \<not> account E (to_hex b)"
  using prefix_okD [of E "to_hex b"] to_hex_chars [of b]
  by (metis hd_in_set subset_iff)

lemma account_fixed [key]:
  assumes "prefix_ok E"
  shows "\<not> account E EntryType_ADMIN" "\<not> account E EntryType_WRITERS_LENGTH"
    "\<not> account E (EntryType_WRITERS_INDEX @ x)" "\<not> account E (EntryType_WRITER_ADDRESS @ x)"
    "\<not> account E (EntryType_DEPLOYMENT @ x)" "\<not> account E EntryType_INITIALIZATION"
    "\<not> account E EntryType_LICENSE_COUNT" "\<not> account E (EntryType_LICENSE_INDEX @ x)"
  using assms
  by (auto dest!: prefix_okD simp: EntryType_ADMIN_def EntryType_WRITERS_LENGTH_def
      EntryType_WRITERS_INDEX_def EntryType_WRITER_ADDRESS_def EntryType_DEPLOYMENT_def
      EntryType_INITIALIZATION_def EntryType_LICENSE_COUNT_def EntryType_LICENSE_INDEX_def)

text \<open>The hexadecimal keys, under which transactions are recorded, meet no other key.\<close>

lemma to_hex_not_prefixed: "c \<notin> hex_chars \<Longrightarrow> c \<in> set p \<Longrightarrow> to_hex b \<noteq> p @ x \<and> p @ x \<noteq> to_hex b"
  using to_hex_chars [of b] by (metis UnCI set_append subsetD)

lemma hex_fixed [key]:
  "to_hex b \<noteq> EntryType_ADMIN" "to_hex b \<noteq> EntryType_WRITERS_LENGTH"
  "to_hex b \<noteq> EntryType_WRITERS_INDEX @ x" "to_hex b \<noteq> EntryType_WRITER_ADDRESS @ x"
  "to_hex b \<noteq> EntryType_DEPLOYMENT @ x" "to_hex b \<noteq> EntryType_INITIALIZATION"
  "to_hex b \<noteq> EntryType_LICENSE_COUNT" "to_hex b \<noteq> EntryType_LICENSE_INDEX @ x"
  using to_hex_not_prefixed [of "CHR ''n''" EntryType_ADMIN b "[]"]
    to_hex_not_prefixed [of "CHR ''w''" EntryType_WRITERS_LENGTH b "[]"]
    to_hex_not_prefixed [of "CHR ''w''" EntryType_WRITERS_INDEX b x]
    to_hex_not_prefixed [of "CHR ''w''" EntryType_WRITER_ADDRESS b x]
    to_hex_not_prefixed [of "CHR ''p''" EntryType_DEPLOYMENT b x]
    to_hex_not_prefixed [of "CHR ''i''" EntryType_INITIALIZATION b "[]"]
    to_hex_not_prefixed [of "CHR ''l''" EntryType_LICENSE_COUNT b "[]"]
    to_hex_not_prefixed [of "CHR ''l''" EntryType_LICENSE_INDEX b x]
  by (auto simp: hex_chars_def EntryType_ADMIN_def EntryType_WRITERS_LENGTH_def
      EntryType_WRITERS_INDEX_def EntryType_WRITER_ADDRESS_def EntryType_DEPLOYMENT_def
      EntryType_INITIALIZATION_def EntryType_LICENSE_COUNT_def EntryType_LICENSE_INDEX_def)

lemmas hex_fixed_sym [key] = hex_fixed [symmetric]

text \<open>The fixed keys are different from one another.\<close>

lemma fixed_fixed [key]:
  "EntryType_ADMIN \<noteq> EntryType_WRITERS_LENGTH" "EntryType_ADMIN \<noteq> EntryType_WRITERS_INDEX @ x"
  "EntryType_ADMIN \<noteq> EntryType_WRITER_ADDRESS @ x" "EntryType_ADMIN \<noteq> EntryType_DEPLOYMENT @ x"
  "EntryType_ADMIN \<noteq> EntryType_INITIALIZATION" "EntryType_ADMIN \<noteq> EntryType_LICENSE_COUNT"
  "EntryType_ADMIN \<noteq> EntryType_LICENSE_INDEX @ x"
  "EntryType_INITIALIZATION \<noteq> EntryType_WRITERS_LENGTH"
  "EntryType_INITIALIZATION \<noteq> EntryType_WRITERS_INDEX @ x"
  "EntryType_INITIALIZATION \<noteq> EntryType_WRITER_ADDRESS @ x"
  "EntryType_INITIALIZATION \<noteq> EntryType_DEPLOYMENT @ x"
  "EntryType_INITIALIZATION \<noteq> EntryType_LICENSE_COUNT"
  "EntryType_INITIALIZATION \<noteq> EntryType_LICENSE_INDEX @ x"
  by (simp_all add: EntryType_ADMIN_def EntryType_WRITERS_LENGTH_def
      EntryType_WRITERS_INDEX_def EntryType_WRITER_ADDRESS_def EntryType_DEPLOYMENT_def
      EntryType_INITIALIZATION_def EntryType_LICENSE_COUNT_def EntryType_LICENSE_INDEX_def)

lemmas fixed_fixed_sym [key] = fixed_fixed [symmetric]

lemma registry_keys [key]:
  "EntryType_LICENSE_COUNT \<noteq> EntryType_WRITERS_LENGTH" "EntryType_WRITER_ADDRESS @ x \<noteq> EntryType_DEPLOYMENT @ y"
  "EntryType_WRITER_ADDRESS @ x \<noteq> EntryType_LICENSE_COUNT" "EntryType_WRITER_ADDRESS @ x \<noteq> EntryType_WRITERS_LENGTH"
  "EntryType_WRITER_ADDRESS @ x \<noteq> EntryType_WRITERS_INDEX @ y" "EntryType_WRITER_ADDRESS @ x \<noteq> EntryType_LICENSE_INDEX @ y"
  "EntryType_DEPLOYMENT @ x \<noteq> EntryType_LICENSE_COUNT" "EntryType_DEPLOYMENT @ x \<noteq> EntryType_WRITERS_LENGTH"
  "EntryType_DEPLOYMENT @ x \<noteq> EntryType_WRITERS_INDEX @ y" "EntryType_DEPLOYMENT @ x \<noteq> EntryType_LICENSE_INDEX @ y"
  "EntryType_LICENSE_COUNT \<noteq> EntryType_WRITERS_INDEX @ x" "EntryType_LICENSE_INDEX @ x \<noteq> EntryType_WRITERS_LENGTH"
  by (auto simp: EntryType_LICENSE_COUNT_def EntryType_WRITERS_LENGTH_def EntryType_WRITER_ADDRESS_def
      EntryType_DEPLOYMENT_def EntryType_WRITERS_INDEX_def EntryType_LICENSE_INDEX_def)

lemmas registry_keys_sym [key] = registry_keys [symmetric]

text \<open>An account key is not one of the others.\<close>

lemma account_neq [key]:
  assumes "prefix_ok E" "account E k"
  shows "k \<noteq> EntryType_ADMIN" "k \<noteq> EntryType_INITIALIZATION" "k \<noteq> to_hex b"
    "EntryType_ADMIN \<noteq> k" "EntryType_INITIALIZATION \<noteq> k" "to_hex b \<noteq> k"
    "k \<noteq> EntryType_WRITERS_LENGTH" "k \<noteq> EntryType_WRITERS_INDEX @ x" "k \<noteq> EntryType_WRITER_ADDRESS @ x"
    "k \<noteq> EntryType_DEPLOYMENT @ x" "k \<noteq> EntryType_LICENSE_COUNT" "k \<noteq> EntryType_LICENSE_INDEX @ x"
  using assms account_fixed [OF assms(1)] account_hex [OF assms(1)] by metis+

lemmas account_neq_sym [key] = account_neq(7-12) [symmetric]

section \<open>Holdings and supply\<close>

definition liquid :: "buffer \<Rightarrow> nat" where "liquid b = be_nat (subarray 33 49 b)"
definition staked :: "buffer \<Rightarrow> nat" where "staked b = be_nat (subarray 53 69 b)"

lemma entry_holding_eq: "entry_holding b = liquid b + staked b"
  by (simp add: entry_holding_def liquid_def staked_def)

definition holding :: "(string \<Rightarrow> buffer option) \<Rightarrow> string \<Rightarrow> nat" where
  "holding m k = (case m k of None \<Rightarrow> 0 | Some b \<Rightarrow> entry_holding b)"

definition total_supply :: "'b env \<Rightarrow> (string \<Rightarrow> buffer option) \<Rightarrow> nat" where
  "total_supply E m = (\<Sum>k | k \<in> dom m \<and> account E k. holding m k)"

lemma holding_upd [simp]: "holding (m(k \<mapsto> v)) k' = (if k' = k then entry_holding v else holding m k')"
  by (simp add: holding_def)

lemma holding_Some [simp]: "m k = Some b \<Longrightarrow> holding m k = entry_holding b"
  by (simp add: holding_def)

lemma holding_None [simp]: "m k = None \<Longrightarrow> holding m k = 0"
  by (simp add: holding_def)

lemma supply_put:
  assumes fin: "finite (dom m)" and k: "account E k"
  shows "total_supply E (m(k \<mapsto> v)) + holding m k = total_supply E m + entry_holding v"
proof -
  let ?A = "\<lambda>m. {k \<in> dom m. account E k}"
  have finA: "finite (?A m)" using fin by simp
  have upd: "?A (m(k \<mapsto> v)) = insert k (?A m - {k})" using k by auto
  have "total_supply E (m(k \<mapsto> v)) = entry_holding v + (\<Sum>j \<in> ?A m - {k}. holding (m(k \<mapsto> v)) j)"
    unfolding total_supply_def upd using finA by (subst sum.insert_remove) auto
  also have "(\<Sum>j \<in> ?A m - {k}. holding (m(k \<mapsto> v)) j) = (\<Sum>j \<in> ?A m - {k}. holding m j)"
    by (rule sum.cong) auto
  finally have new: "total_supply E (m(k \<mapsto> v)) = entry_holding v + (\<Sum>j \<in> ?A m - {k}. holding m j)" .
  have "total_supply E m = holding m k + (\<Sum>j \<in> ?A m - {k}. holding m j)"
  proof (cases "k \<in> dom m")
    case True
    then have "k \<in> ?A m" using k by simp
    then show ?thesis unfolding total_supply_def using finA by (simp add: sum.remove)
  next
    case False
    then have "holding m k = 0" and "?A m - {k} = ?A m" by (auto simp: holding_def domIff)
    then show ?thesis by (simp add: total_supply_def)
  qed
  with new show ?thesis by simp
qed

lemma supply_put_other: "\<not> account E k \<Longrightarrow> total_supply E (m(k := v)) = total_supply E m"
  unfolding total_supply_def by (rule sum.cong) (auto simp: holding_def dom_def)

lemma total_supply_cong:
  assumes "\<And>k. account E k \<Longrightarrow> m k = m' k"
  shows "total_supply E m = total_supply E m'"
  unfolding total_supply_def using assms by (intro sum.cong) (auto simp: holding_def dom_def)

text \<open>Two accounts change; everything else that changes is not an account.\<close>

lemma supply_two:
  assumes "finite (dom m)" "account E x" "account E y" "x \<noteq> y"
    and "\<And>k. account E k \<Longrightarrow> m' k = (m(x \<mapsto> a, y \<mapsto> b)) k"
  shows "total_supply E m' + holding m x + holding m y = total_supply E m + entry_holding a + entry_holding b"
proof -
  have "total_supply E m' = total_supply E (m(x \<mapsto> a, y \<mapsto> b))"
    by (rule total_supply_cong) (rule assms(5))
  then show ?thesis
    using supply_put [of m E x a] supply_put [of "m(x \<mapsto> a)" E y b] assms(1-4) by simp
qed

lemma supply_one:
  assumes "finite (dom m)" "account E x" and "\<And>k. account E k \<Longrightarrow> m' k = (m(x \<mapsto> a)) k"
  shows "total_supply E m' + holding m x = total_supply E m + entry_holding a"
proof -
  have "total_supply E m' = total_supply E (m(x \<mapsto> a))"
    by (rule total_supply_cong) (rule assms(3))
  then show ?thesis using supply_put [of m E x a] assms(1,2) by simp
qed

lemma supply_three:
  assumes "finite (dom m)" "account E x" "account E y" "account E z" "x \<noteq> y" "x \<noteq> z" "y \<noteq> z"
    and "\<And>k. account E k \<Longrightarrow> m' k = (m(x \<mapsto> a, y \<mapsto> b, z \<mapsto> c)) k"
  shows "total_supply E m' + holding m x + holding m y + holding m z
       = total_supply E m + entry_holding a + entry_holding b + entry_holding c"
proof -
  have "total_supply E m' = total_supply E (m(x \<mapsto> a, y \<mapsto> b, z \<mapsto> c))"
    by (rule total_supply_cong) (rule assms(8))
  then show ?thesis
    using supply_put [of "m(x \<mapsto> a, y \<mapsto> b)" E z c] supply_two [of m E x y "m(x \<mapsto> a, y \<mapsto> b)" a b]
      assms(1-7) by simp
qed

lemma holding_le_supply: "finite (dom m) \<Longrightarrow> account E k \<Longrightarrow> holding m k \<le> total_supply E m"
  using supply_put [of m E k "[]"] by (simp add: entry_holding_def subarray_def)

section \<open>The invariant\<close>

definition good_entry :: "buffer \<Rightarrow> bool" where
  "good_entry b \<longleftrightarrow> valid_entry b \<and> staked b = (if b ! 0 \<in> {WRITER, INDEXER} then 10 * fee else 0)"

definition ledger_ok :: "'b env \<Rightarrow> (string \<Rightarrow> buffer option) \<Rightarrow> bool" where
  "ledger_ok E m \<longleftrightarrow> finite (dom m) \<and> (\<forall>k b. account E k \<and> m k = Some b \<longrightarrow> good_entry b)"

lemma ledger_ok_finite: "ledger_ok E m \<Longrightarrow> finite (dom m)"
  by (simp add: ledger_ok_def)

lemma ledger_ok_entry: "ledger_ok E m \<Longrightarrow> account E k \<Longrightarrow> m k = Some b \<Longrightarrow> good_entry b"
  by (auto simp: ledger_ok_def)

lemma ledger_ok_put: "ledger_ok E m \<Longrightarrow> good_entry b \<Longrightarrow> ledger_ok E (m(k \<mapsto> b))"
  by (auto simp: ledger_ok_def)

lemma ledger_ok_put_other: "ledger_ok E m \<Longrightarrow> \<not> account E k \<Longrightarrow> ledger_ok E (m(k \<mapsto> b))"
  by (auto simp: ledger_ok_def)

lemma good_entry_length: "good_entry b \<Longrightarrow> length b = 69"
  by (simp add: good_entry_def valid_entry_def)

lemmas ledger_puts = ledger_ok_put ledger_ok_put_other

section \<open>Effects on entries\<close>

text \<open>Everything outside the balance stays; the balance goes down or up by an amount.\<close>

definition charged :: "nat \<Rightarrow> buffer \<Rightarrow> buffer \<Rightarrow> bool" where
  "charged n b b' \<longleftrightarrow> (\<exists>v. setBalance (Some b) v = Some b' \<and> be_nat v + n = liquid b)"

definition credited :: "nat \<Rightarrow> buffer \<Rightarrow> buffer \<Rightarrow> bool" where
  "credited n b b' \<longleftrightarrow> (\<exists>v. setBalance (Some b) v = Some b' \<and> be_nat v = liquid b + n)"

lemma setBalance_effect:
  assumes "setBalance (Some b) v = Some b'"
  shows "length b' = 69" "length b = 69" "b' ! 0 = b ! 0" "liquid b' = be_nat v" "staked b' = staked b"
  using assms by (auto simp: setBalance_def copy_field liquid_def staked_def split: if_splits)

lemma setStakedBalance_effect:
  assumes "setStakedBalance (Some b) v = Some b'"
  shows "length b' = 69" "length b = 69" "b' ! 0 = b ! 0" "liquid b' = liquid b" "staked b' = be_nat v"
  using assms
  by (auto simp: setStakedBalance_def copy_field copy_whole liquid_def staked_def split: if_splits)

lemma setLicense_effect:
  assumes "setLicense (Some b) v = Some b'"
  shows "length b' = 69" "length b = 69" "b' ! 0 = b ! 0" "liquid b' = liquid b" "staked b' = staked b"
  using assms by (auto simp: setLicense_def copy_field liquid_def staked_def split: if_splits)

lemma setWritingKey_effect:
  assumes "setWritingKey (Some b) v = Some b'"
  shows "length b' = 69" "length b = 69" "b' ! 0 = b ! 0" "liquid b' = liquid b" "staked b' = staked b"
  using assms by (auto simp: setWritingKey_def copy_field liquid_def staked_def split: if_splits)

lemma setRole_effect:
  assumes "setRole (Some b) role = Some b'"
  shows "length b' = 69" "length b = 69" "b' ! 0 = role" "liquid b' = liquid b" "staked b' = staked b"
  using assms
  by (auto simp: setRole_def copy_whole liquid_def staked_def subarray_update_0 split: if_splits)

lemma setRoleAndWriterKey_effect:
  assumes "setRoleAndWriterKey (Some b) role wk = Some b'"
  shows "length b' = 69" "length b = 69" "b' ! 0 = role" "liquid b' = liquid b" "staked b' = staked b"
  using assms
  by (auto simp: setRoleAndWriterKey_def copy_field liquid_def staked_def subarray_update_0 split: if_splits)

lemma charged_effect:
  assumes "charged n b b'"
  shows "length b' = 69" "length b = 69" "b' ! 0 = b ! 0" "liquid b' + n = liquid b" "staked b' = staked b"
  using assms setBalance_effect by (auto simp: charged_def)

lemma credited_effect:
  assumes "credited n b b'"
  shows "length b' = 69" "length b = 69" "b' ! 0 = b ! 0" "liquid b' = liquid b + n" "staked b' = staked b"
  using assms setBalance_effect by (auto simp: credited_def)

lemma charged_good: "charged n b b' \<Longrightarrow> good_entry b \<Longrightarrow> good_entry b'"
  using charged_effect [of n b b'] by (auto simp: good_entry_def valid_entry_def)

lemma credited_good: "credited n b b' \<Longrightarrow> good_entry b \<Longrightarrow> good_entry b'"
  using credited_effect [of n b b'] by (auto simp: good_entry_def valid_entry_def)

lemma charged_holding: "charged n b b' \<Longrightarrow> entry_holding b' + n = entry_holding b"
  using charged_effect [of n b b'] by (simp add: entry_holding_eq)

lemma credited_holding: "credited n b b' \<Longrightarrow> entry_holding b' = entry_holding b + n"
  using credited_effect [of n b b'] by (simp add: entry_holding_eq)

text \<open>A second update of the balance replaces the first.\<close>

lemma setBalance_again: "setBalance (Some b) v = Some b1 \<Longrightarrow> setBalance (Some b1) w = setBalance (Some b) w"
  by (auto simp: setBalance_def copy_field copy_into_copy_into_same split: if_splits)

lemma decode_liquid: "ne_decode (Some b) = Some r \<Longrightarrow> be_nat (ne_balance r) = liquid b"
  using ne_decode_length [of b r] by (auto simp: ne_decode_Some liquid_def)

lemma decode_staked: "ne_decode (Some b) = Some r \<Longrightarrow> be_nat (ne_stakedBalance r) = staked b"
  using ne_decode_length [of b r] by (auto simp: ne_decode_Some staked_def)

lemma toBalance_nat: "toBalance b = Some x \<Longrightarrow> bal_ok x \<and> bal_nat x = be_nat b \<and> length b = 16 \<and> bal_value x = b"
  by (auto simp: toBalance_Some_iff)

text \<open>The sequence decode, read the balance, subtract (add), update is a charge (credit).\<close>

lemma charge_intro:
  assumes "ne_decode (Some b0) = Some r" "toBalance (ne_balance r) = Some x" "bal_sub x f = Some y"
    and "bal_update y (Some b) = Some b'" "bal_ok f" "liquid b = liquid b0"
  shows "charged (bal_nat f) b b'"
proof -
  have "bal_ok x" "bal_nat x = liquid b"
    using assms toBalance_nat [of "ne_balance r" x] decode_liquid [of b0 r] by auto
  then have "bal_nat f \<le> liquid b \<and> bal_nat y = liquid b - bal_nat f"
    using bal.sub_Some [of x f y] assms by auto
  then show ?thesis using assms by (auto simp: charged_def bal_update_def bal_nat_def)
qed

lemma credit_intro:
  assumes "ne_decode (Some b0) = Some r" "toBalance (ne_balance r) = Some x" "bal_add x f = Some y"
    and "bal_update y (Some b) = Some b'" "bal_ok f" "liquid b = liquid b0"
  shows "credited (bal_nat f) b b'"
proof -
  have "bal_ok x" "bal_nat x = liquid b"
    using assms toBalance_nat [of "ne_balance r" x] decode_liquid [of b0 r] by auto
  then have "bal_nat y = liquid b + bal_nat f"
    using bal.add_Some [of x f y] assms by auto
  then show ?thesis using assms by (auto simp: credited_def bal_update_def bal_nat_def)
qed

lemma stakeBalanceApply_effect:
  assumes "stakeBalanceApply (Some b) = Some b'"
  shows "length b' = 69" "b' ! 0 = b ! 0" "liquid b' + 10 * fee = liquid b" "staked b' = 10 * fee"
proof -
  obtain r x y b1 where *: "ne_decode (Some b) = Some r" "toBalance (ne_balance r) = Some x"
      "bal_sub x BALANCE_TO_STAKE = Some y" "bal_update y (Some b) = Some b1"
      "setStakedBalance (Some b1) (bal_value BALANCE_TO_STAKE) = Some b'"
    using assms by (auto simp: stakeBalanceApply_def split: option.splits if_splits)
  have c: "charged (10 * fee) b b1" using charge_intro [OF *(1-4)] by simp
  show "length b' = 69" "b' ! 0 = b ! 0" "liquid b' + 10 * fee = liquid b" "staked b' = 10 * fee"
    using charged_effect [OF c] setStakedBalance_effect [OF *(5)] BALANCE_TO_STAKE_nat
    by (simp_all add: bal_nat_def)
qed

lemma withdrawStakedBalanceApply_effect:
  assumes "withdrawStakedBalanceApply (Some b) = Some b'"
  shows "length b' = 69" "b' ! 0 = b ! 0" "liquid b' = liquid b + staked b" "staked b' = 0" "0 < staked b"
proof -
  obtain r x z y b1 where *: "ne_decode (Some b) = Some r" "toBalance (ne_balance r) = Some x"
      "toBalance (ne_stakedBalance r) = Some z" "bal_greaterThan z BALANCE_ZERO"
      "bal_add x z = Some y" "bal_update y (Some b) = Some b1"
      "setStakedBalance (Some b1) (bal_value BALANCE_ZERO) = Some b'"
    using assms by (auto simp: withdrawStakedBalanceApply_def split: option.splits if_splits)
  have z: "bal_ok z" "bal_nat z = staked b"
    using toBalance_nat [OF *(3)] decode_staked [OF *(1)] by auto
  have c: "credited (staked b) b b1" using credit_intro [OF *(1,2,5,6)] z by simp
  show "length b' = 69" "b' ! 0 = b ! 0" "liquid b' = liquid b + staked b" "staked b' = 0" "0 < staked b"
    using credited_effect [OF c] setStakedBalance_effect [OF *(7)] BALANCE_ZERO_nat z *(4)
      bal_greaterThan_iff [of z BALANCE_ZERO] by (simp_all add: bal_nat_def)
qed

end
