(* ===== verification/Contract.thy ===== *)
theory Contract
  imports Ledger Admin_Ops
begin

text \<open>
  What the apply loop relies on, whichever handler it calls: a rejected operation leaves the state
  alone, an accepted one is recorded under its hash, which was free, and the log only
  grows; the ledger invariant is kept; and once the genesis phase is over, it stays over
  and no operation creates money. The theories of the handlers interpret this contract, and
  the loop is verified against it.
\<close>

definition txKey :: "operation \<Rightarrow> string" where
  "txKey op = to_hex (bytes (p_tx (payload_of op)))"

definition wkaKey :: "operation \<Rightarrow> string" where
  "wkaKey op = EntryType_WRITER_ADDRESS @ to_hex (bytes (p_iw (payload_of op)))"

definition genesis_over :: "'b astate \<Rightarrow> bool" where
  "genesis_over s \<longleftrightarrow> isApplyInitalizationDisabled s \<and> batch s EntryType_ADMIN \<noteq> None"

text \<open>
  \<open>toString('ascii')\<close> drops the top bit of every byte, so two different address buffers may name one
  account. In a canonical operation no address buffer has a top bit set.
\<close>

definition canonical_op :: "operation \<Rightarrow> bool" where
  "canonical_op op \<longleftrightarrow> ascii_buffer (bytes (op_address op)) \<and>
     ascii_buffer (bytes (p_va (payload_of op))) \<and> ascii_buffer (bytes (p_to (payload_of op)))"

locale apply_handler =
  fixes handler :: "'b env \<Rightarrow> operation \<Rightarrow> apply_node \<Rightarrow> 'b astate \<Rightarrow> 'b result"
  assumes rejected: "prefix_ok E \<Longrightarrow> ledger_ok E (batch s) \<Longrightarrow> handler E op node s = Some (st, s') \<Longrightarrow>
      st \<noteq> SUCCESS \<Longrightarrow> s' = s"
    and recorded: "handler E op node s = Some (SUCCESS, s') \<Longrightarrow>
      batch s (txKey op) = None \<and> batch s' (txKey op) = Some (node_value node)"
    and log_kept: "prefix_ok E \<Longrightarrow> handler E op node s = Some (SUCCESS, s') \<Longrightarrow>
      batch s (to_hex h) = Some v \<Longrightarrow> batch s' (to_hex h) = Some v"
    and ledger_kept: "prefix_ok E \<Longrightarrow> ledger_ok E (batch s) \<Longrightarrow> handler E op node s = Some (SUCCESS, s') \<Longrightarrow>
      ledger_ok E (batch s')"
    and genesis_kept: "prefix_ok E \<Longrightarrow> genesis_over s \<Longrightarrow> handler E op node s = Some (SUCCESS, s') \<Longrightarrow>
      genesis_over s'"
    and no_minting: "prefix_ok E \<Longrightarrow> ledger_ok E (batch s) \<Longrightarrow> canonical_op op \<Longrightarrow> genesis_over s \<Longrightarrow>
      handler E op node s = Some (SUCCESS, s') \<Longrightarrow>
      total_supply E (batch s') \<le> total_supply E (batch s)"
begin

lemma replay_refused: "batch s (txKey op) \<noteq> None \<Longrightarrow> handler E op node s \<noteq> Some (SUCCESS, s')"
  using recorded [of E op node s s'] by auto

lemma step_ledger:
  "prefix_ok E \<Longrightarrow> ledger_ok E (batch s) \<Longrightarrow> handler E op node s = Some (st, s') \<Longrightarrow> ledger_ok E (batch s')"
  using rejected [of E s op node st s'] ledger_kept [of E s op node s'] by (cases st) auto

lemma step_log:
  "prefix_ok E \<Longrightarrow> ledger_ok E (batch s) \<Longrightarrow> handler E op node s = Some (st, s') \<Longrightarrow>
   batch s (to_hex h) = Some v \<Longrightarrow> batch s' (to_hex h) = Some v"
  using rejected [of E s op node st s'] log_kept [of E op node s s' h v] by (cases st) auto

lemma step_genesis:
  "prefix_ok E \<Longrightarrow> ledger_ok E (batch s) \<Longrightarrow> genesis_over s \<Longrightarrow> handler E op node s = Some (st, s') \<Longrightarrow>
   genesis_over s'"
  using rejected [of E s op node st s'] genesis_kept [of E s op node s'] by (cases st) auto

lemma step_supply:
  "prefix_ok E \<Longrightarrow> ledger_ok E (batch s) \<Longrightarrow> canonical_op op \<Longrightarrow> genesis_over s \<Longrightarrow>
   handler E op node s = Some (st, s') \<Longrightarrow> total_supply E (batch s') \<le> total_supply E (batch s)"
  using rejected [of E s op node st s'] no_minting [of E s op node s'] by (cases st) auto

end

text \<open>The laws for one successful run, as one predicate, and the way from it to the contract.\<close>

definition settles :: "'b env \<Rightarrow> operation \<Rightarrow> apply_node \<Rightarrow> 'b astate \<Rightarrow> 'b astate \<Rightarrow> bool" where
  "settles E op node s s' \<longleftrightarrow>
     batch s (txKey op) = None \<and> batch s' (txKey op) = Some (node_value node) \<and>
     (prefix_ok E \<longrightarrow>
       (\<forall>g. to_hex g \<noteq> txKey op \<longrightarrow> batch s' (to_hex g) = batch s (to_hex g)) \<and>
       (ledger_ok E (batch s) \<longrightarrow> ledger_ok E (batch s')) \<and>
       (genesis_over s \<longrightarrow> genesis_over s') \<and>
       (ledger_ok E (batch s) \<longrightarrow> canonical_op op \<longrightarrow> genesis_over s \<longrightarrow>
          total_supply E (batch s') \<le> total_supply E (batch s)))"

lemma apply_handlerI:
  fixes h :: "'b env \<Rightarrow> operation \<Rightarrow> apply_node \<Rightarrow> 'b astate \<Rightarrow> 'b result"
  assumes "\<And>E op node s st s'. prefix_ok E \<Longrightarrow> ledger_ok E (batch s) \<Longrightarrow> h E op node s = Some (st, s') \<Longrightarrow>
      st \<noteq> SUCCESS \<Longrightarrow> s' = s"
    and "\<And>E op node s s'. h E op node s = Some (SUCCESS, s') \<Longrightarrow> settles E op node s s'"
  shows "apply_handler h"
proof (unfold_locales, goal_cases)
  case (1 E s op node st s')
  then show ?case using assms(1) by blast
next
  case (2 E op node s s')
  then show ?case using assms(2) unfolding settles_def by blast
next
  case (3 E op node s s' g v)
  then show ?case using assms(2) [of E op node s s'] unfolding settles_def by (cases "to_hex g = txKey op") auto
next
  case (4 E s op node s')
  then show ?case using assms(2) unfolding settles_def by blast
next
  case (5 E s op node s')
  then show ?case using assms(2) unfolding settles_def by blast
next
  case (6 E s op node s')
  then show ?case using assms(2) unfolding settles_def by blast
qed

section \<open>Shared facts about the guards\<close>

text \<open>A chain of early returns ends in success only through its last branch.\<close>

lemma flow_success [flow]:
  "(case x of None \<Rightarrow> Some (FAILURE, s) | Some y \<Rightarrow> f y) = Some (SUCCESS, s') \<longleftrightarrow>
     (\<exists>y. x = Some y \<and> f y = Some (SUCCESS, s'))"
  "(if b then Some (FAILURE, s) else t) = Some (SUCCESS, s') \<longleftrightarrow> \<not> b \<and> t = Some (SUCCESS, s')"
  "(if b then Some (IGNORE, s) else t) = Some (SUCCESS, s') \<longleftrightarrow> \<not> b \<and> t = Some (SUCCESS, s')"
  by (auto split: option.splits)

lemma flow_Some [flow]:
  "(case x of None \<Rightarrow> None | Some y \<Rightarrow> f y) = Some z \<longleftrightarrow> (\<exists>y. x = Some y \<and> f y = Some z)"
  "(if b then None else t) = Some z \<longleftrightarrow> \<not> b \<and> t = Some z"
  "(case p of (a, b) \<Rightarrow> g a b) = Some z \<longleftrightarrow> (\<exists>a b. p = (a, b) \<and> g a b = Some z)"
  by (auto split: option.splits prod.splits)

text \<open>Nothing is written before the last guard: every branch but success gives the state back.\<close>

definition unchanged :: "'b astate \<Rightarrow> 'b result \<Rightarrow> bool" where
  "unchanged s r \<longleftrightarrow> (\<forall>st s'. r = Some (st, s') \<longrightarrow> st \<noteq> SUCCESS \<longrightarrow> s' = s)"

lemma unchangedD: "unchanged s r \<Longrightarrow> r = Some (st, s') \<Longrightarrow> st \<noteq> SUCCESS \<Longrightarrow> s' = s"
  by (simp add: unchanged_def)

lemma unchanged_intros:
  "unchanged s None" "unchanged s (Some (st, s))" "unchanged s (Some (SUCCESS, t))"
  "unchanged s a \<Longrightarrow> unchanged s c \<Longrightarrow> unchanged s (if b then a else c)"
  "unchanged s a \<Longrightarrow> (\<And>y. unchanged s (f y)) \<Longrightarrow> unchanged s (case x of None \<Rightarrow> a | Some y \<Rightarrow> f y)"
  "(\<And>a b. unchanged s (g a b)) \<Longrightarrow> unchanged s (case p of (a, b) \<Rightarrow> g a b)"
  "(\<And>y. unchanged s (f y)) \<Longrightarrow> unchanged s (let y = e in f y)"
  by (auto simp: unchanged_def split: option.splits prod.splits if_splits)

lemma addressAndKey_Some:
  "addressAndKey E b = Some (a, k) \<longleftrightarrow>
     bufferToAddress E b = Some a \<and> k = address_decodeSafe E (Some a) \<and> k \<noteq> []"
  by (auto simp: addressAndKey_def Let_def split: option.splits)

lemma updateWritersIndex_cong:
  "batch s' EntryType_WRITERS_LENGTH = batch s EntryType_WRITERS_LENGTH \<Longrightarrow>
   updateWritersIndex s' = updateWritersIndex s"
  by (simp add: updateWritersIndex_def)

lemma bufferToAddress_account: "bufferToAddress E b = Some a \<Longrightarrow> account E a"
  by (auto simp: bufferToAddress_Some)

lemma addressAndKey_account: "addressAndKey E b = Some (a, k) \<Longrightarrow> account E a \<and> a = ascii_string b"
  by (auto simp: addressAndKey_Some bufferToAddress_Some)

lemma messageHash_Some: "messageHash E m tx = Some h \<longleftrightarrow> m \<noteq> [] \<and> h = tx \<and> h = blake3Safe E m"
  by (auto simp: messageHash_def Let_def)

lemma adminOf_Some: "adminOf E node pk s = Some apk \<longleftrightarrow>
   (\<exists>r. ae_decode E (batch s EntryType_ADMIN) = Some r \<and> ae_wk r = from_key node \<and>
        apk = address_decodeSafe E (ae_address r) \<and> apk \<noteq> [] \<and> apk = pk)"
  by (auto simp: adminOf_def isAdminApply_def Let_def split: option.splits)

lemma isApplyInitalizationDisabled_cong:
  "batch s' EntryType_INITIALIZATION = batch s EntryType_INITIALIZATION \<Longrightarrow>
   isApplyInitalizationDisabled s' = isApplyInitalizationDisabled s"
  by (simp add: isApplyInitalizationDisabled_def)

lemma genesis_over_cong:
  "batch s' EntryType_INITIALIZATION = batch s EntryType_INITIALIZATION \<Longrightarrow>
   batch s' EntryType_ADMIN \<noteq> None \<Longrightarrow> genesis_over s \<Longrightarrow> genesis_over s'"
  by (simp add: genesis_over_def isApplyInitalizationDisabled_def)

text \<open>Two different canonical buffers name two different accounts.\<close>

lemma canonical_distinct:
  assumes "ascii_buffer a" "ascii_buffer b" "a \<noteq> b"
  shows "ascii_string a \<noteq> ascii_string b"
  using ascii_string_inj [OF assms(1,2)] assms(3) by simp

lemma canonical_parties:
  assumes "canonical_op op" "bufferToAddress E (bytes (op_address op)) = Some ra"
    "bufferToAddress E (bytes (p_va (payload_of op))) = Some va"
    "bytes (op_address op) \<noteq> bytes (p_va (payload_of op))"
  shows "ra \<noteq> va"
  using assms canonical_distinct by (auto simp: canonical_op_def bufferToAddress_Some)

text \<open>Two accounts settle: one is charged, one is credited, the difference is burned.\<close>

lemma two_parties:
  assumes acc: "account E ra" "account E va" and m: "m ra = Some rb" "m va = Some vb"
    and m': "\<And>k. account E k \<Longrightarrow> m' k = (m(ra \<mapsto> rb', va \<mapsto> vb')) k" "finite (dom m) \<Longrightarrow> finite (dom m')"
    and c: "charged n rb rb'" "credited p vb vb'"
  shows "ledger_ok E m \<Longrightarrow> ledger_ok E m'"
    "ledger_ok E m \<Longrightarrow> ra \<noteq> va \<Longrightarrow> p \<le> n \<Longrightarrow> total_supply E m' + (n - p) = total_supply E m"
proof -
  show "ledger_ok E m'" if led: "ledger_ok E m"
    using led m' charged_good [OF c(1) ledger_ok_entry [OF led acc(1) m(1)]]
      credited_good [OF c(2) ledger_ok_entry [OF led acc(2) m(2)]]
    by (auto simp: ledger_ok_def split: if_splits)
  show "total_supply E m' + (n - p) = total_supply E m" if "ledger_ok E m" "ra \<noteq> va" "p \<le> n"
    using supply_two [OF ledger_ok_finite [OF that(1)] acc that(2) m'(1)] m that(3)
      charged_holding [OF c(1)] credited_holding [OF c(2)] by simp
qed

text \<open>The administrator pays a fee that is burned, and an entry of the same holding replaces the
  target's; the two may be one account, and then only the payment is left.\<close>

lemma admin_pays:
  assumes acc: "account E ra" "account E ta" and m: "m ra = Some ab" "m ta = Some tb"
    and m': "\<And>k. account E k \<Longrightarrow> m' k = (m(ta \<mapsto> tb', ra \<mapsto> ab')) k" "finite (dom m) \<Longrightarrow> finite (dom m')"
    and c: "charged n ab ab'"
    and t: "good_entry tb \<Longrightarrow> good_entry tb' \<and> entry_holding tb' = entry_holding tb"
  shows "ledger_ok E m \<Longrightarrow> ledger_ok E m'"
    "ledger_ok E m \<Longrightarrow> total_supply E m' + n = total_supply E m"
proof -
  show "ledger_ok E m'" if led: "ledger_ok E m"
    using led m' charged_good [OF c ledger_ok_entry [OF led acc(1) m(1)]]
      t [OF ledger_ok_entry [OF led acc(2) m(2)]]
    by (auto simp: ledger_ok_def split: if_splits)
  show "total_supply E m' + n = total_supply E m" if led: "ledger_ok E m"
  proof (cases "ra = ta")
    case True
    then show ?thesis
      using supply_one [OF ledger_ok_finite [OF led] acc(1), of m' ab'] m' m(1) charged_holding [OF c] by simp
  next
    case False
    have "account E k \<Longrightarrow> m' k = (m(ra \<mapsto> ab', ta \<mapsto> tb')) k" for k using m'(1) False by simp
    then show ?thesis
      using supply_two [OF ledger_ok_finite [OF led] acc False, of m' ab' tb'] m charged_holding [OF c]
        t [OF ledger_ok_entry [OF led acc(2) m(2)]] by simp
  qed
qed

end
