(* ===== verification/Admin_Spec.thy ===== *)
theory Admin_Spec
  imports Contract
begin

text \<open>
  What the four operations around the administrator do when they succeed, and the contract of a
  handler for each. Three of them create or overwrite balances; those need the genesis phase.
\<close>

section \<open>BALANCE_INITIALIZATION\<close>

lemma handleApplyInitializeBalanceOperation_success:
  assumes "handleApplyInitializeBalanceOperation E op node s = Some (SUCCESS, s')"
  obtains ra ta am e where
    "bufferToAddress E (bytes (op_address op)) = Some ra"
    "bufferToAddress E (bytes (p_ia (payload_of op))) = Some ta"
    "am = bytes (p_am (payload_of op))" "length am = 16"
    "\<not> isApplyInitalizationDisabled s" "batch s (txKey op) = None"
    "\<exists>r. ae_decode E (batch s EntryType_ADMIN) = Some r \<and> ae_wk r = from_key node \<and>
       address_decodeSafe E (ae_address r) = address_decodeSafe E (Some ra) \<and>
       signature_verify E (bytes (p_is (payload_of op))) (bytes (p_tx (payload_of op)))
         (address_decodeSafe E (ae_address r))"
    "case batch s ta of None \<Rightarrow> e = ne_init ZERO_WK READER am ZERO_LICENSE ZERO_BALANCE
     | Some b \<Rightarrow> setBalance (Some b) am = Some e"
    "base s' = base s" "events s' = events s"
    "batch s' = (batch s)(ta \<mapsto> e, txKey op \<mapsto> node_value node)"
proof -
  define am where "am = bytes (p_am (payload_of op))"
  obtain ra pk ta pk' r e where *:
    "addressAndKey E (bytes (op_address op)) = Some (ra, pk)"
    "addressAndKey E (bytes (p_ia (payload_of op))) = Some (ta, pk')"
    "toBalance am = Some (Balance am)" "\<not> isApplyInitalizationDisabled s" "batch s (txKey op) = None"
    "ae_decode E (batch s EntryType_ADMIN) = Some r" "ae_wk r = from_key node"
    "address_decodeSafe E (ae_address r) = pk"
    "signature_verify E (bytes (p_is (payload_of op))) (bytes (p_tx (payload_of op))) pk"
    "initializedEntry (Balance am) (batch s ta) = Some e"
    "s' = put (txKey op) (node_value node) (put ta e s)"
    using assms unfolding handleApplyInitializeBalanceOperation_def Let_def txKey_def am_def
    by (auto simp: flow toBalance_Some_iff adminOf_Some messageHash_Some simp del: not_None_eq split del: if_split)
  have e: "case batch s ta of None \<Rightarrow> e = ne_init ZERO_WK READER am ZERO_LICENSE ZERO_BALANCE
     | Some b \<Rightarrow> setBalance (Some b) am = Some e"
    using *(10) by (auto simp: initializedEntry_def Let_def bal_update_def split: option.splits if_splits)
  show ?thesis
    by (rule that [OF _ _ am_def _ *(4,5) _ e])
      (use * in \<open>auto simp: addressAndKey_Some toBalance_Some_iff\<close>)
qed

lemma initializeBalance_good:
  assumes "case e0 of None \<Rightarrow> e = ne_init ZERO_WK READER am ZERO_LICENSE ZERO_BALANCE
     | Some b \<Rightarrow> setBalance (Some b) am = Some e" "length am = 16" "\<And>b. e0 = Some b \<Longrightarrow> good_entry b"
  shows "good_entry e \<and> liquid e = be_nat am"
proof (cases e0)
  case None
  then show ?thesis
    using assms(1,2) ne_init_valid [of ZERO_WK READER am ZERO_LICENSE ZERO_BALANCE]
      ne_layout_props [of ZERO_WK am ZERO_LICENSE ZERO_BALANCE READER]
    by (simp add: good_entry_def isNodeRoleValid_iff role_defs ne_init_def staked_def liquid_def)
next
  case (Some b)
  then have b: "setBalance (Some b) am = Some e" "good_entry b" using assms by auto
  then show ?thesis
    using setBalance_effect [OF b(1)] by (auto simp: good_entry_def valid_entry_def)
qed

lemma initializeBalance_settles:
  assumes "handleApplyInitializeBalanceOperation E op node s = Some (SUCCESS, s')"
  shows "settles E op node s s'"
proof -
  obtain ta am e where *: "bufferToAddress E (bytes (p_ia (payload_of op))) = Some ta" "length am = 16"
    "\<not> isApplyInitalizationDisabled s" "batch s (txKey op) = None"
    "case batch s ta of None \<Rightarrow> e = ne_init ZERO_WK READER am ZERO_LICENSE ZERO_BALANCE
     | Some b \<Rightarrow> setBalance (Some b) am = Some e"
    "batch s' = (batch s)(ta \<mapsto> e, txKey op \<mapsto> node_value node)"
    by (rule handleApplyInitializeBalanceOperation_success [OF assms])
  have acc: "account E ta" using *(1) by (rule bufferToAddress_account)
  have "ledger_ok E (batch s')" if "prefix_ok E" "ledger_ok E (batch s)"
    using initializeBalance_good [OF *(5,2) ledger_ok_entry [OF that(2) acc]] that
    by (simp add: *(6) ledger_puts key txKey_def)
  then show ?thesis
    unfolding settles_def genesis_over_def using *(3,4) acc by (auto simp: *(6) key txKey_def)
qed

lemma initializeBalance_unchanged: "unchanged s (handleApplyInitializeBalanceOperation E op node s)"
  unfolding handleApplyInitializeBalanceOperation_def by (intro unchanged_intros)

interpretation h_initBalance: apply_handler handleApplyInitializeBalanceOperation
  using unchangedD [OF initializeBalance_unchanged] initializeBalance_settles by (rule apply_handlerI)

section \<open>DISABLE_INITIALIZATION\<close>

lemma handleApplyDisableBalanceInitializationOperation_success:
  assumes "handleApplyDisableBalanceInitializationOperation E op node s = Some (SUCCESS, s')"
  obtains ra r where
    "bufferToAddress E (bytes (op_address op)) = Some ra"
    "\<not> isApplyInitalizationDisabled s" "batch s (txKey op) = None"
    "ae_decode E (batch s EntryType_ADMIN) = Some r" "ae_wk r = from_key node"
    "address_decodeSafe E (ae_address r) = address_decodeSafe E (Some ra)"
    "signature_verify E (bytes (p_is (payload_of op))) (bytes (p_tx (payload_of op)))
       (address_decodeSafe E (ae_address r))"
    "s' = put (txKey op) (node_value node) (put EntryType_INITIALIZATION (safeWriteUInt32BE 0) s)"
  using assms unfolding handleApplyDisableBalanceInitializationOperation_def Let_def txKey_def
  by (auto simp: flow addressAndKey_Some adminOf_Some messageHash_Some simp del: not_None_eq split del: if_split)

lemma disable_settles:
  assumes "handleApplyDisableBalanceInitializationOperation E op node s = Some (SUCCESS, s')"
  shows "settles E op node s s'"
  by (rule handleApplyDisableBalanceInitializationOperation_success [OF assms])
    (auto simp: settles_def genesis_over_def key txKey_def ledger_puts)

lemma disable_unchanged: "unchanged s (handleApplyDisableBalanceInitializationOperation E op node s)"
  unfolding handleApplyDisableBalanceInitializationOperation_def by (intro unchanged_intros)

interpretation h_disable: apply_handler handleApplyDisableBalanceInitializationOperation
  using unchangedD [OF disable_unchanged] disable_settles by (rule apply_handlerI)

section \<open>ADD_ADMIN\<close>

lemma addAdmin_verify_Some:
  assumes "addAdmin_verify E op node s = Some ra"
  shows "bufferToAddress E (bytes (op_address op)) = Some ra"
    "from_key node = bootstrap E" "bytes (p_iw (payload_of op)) = bootstrap E"
    "length (bytes (p_iw (payload_of op))) = 32"
    "batch s (wkaKey op) = None" "batch s EntryType_ADMIN = None" "batch s (txKey op) = None"
    "signature_verify E (bytes (p_is (payload_of op))) (bytes (p_tx (payload_of op)))
       (address_decodeSafe E (Some ra))"
  using assms validateCoreAdminOperation_bytes(3) [of E op "payload_of op"]
  by (auto simp: addAdmin_verify_def Let_def flow addressAndKey_Some messageHash_Some txKey_def wkaKey_def)

lemma length_admin_amounts [simp]:
  "length ADMIN_INITIAL_BALANCE = 16" "length ADMIN_INITIAL_STAKED_BALANCE = 16"
  by (simp_all add: ADMIN_INITIAL_BALANCE_def ADMIN_INITIAL_STAKED_BALANCE_def)

lemma admin_amounts:
  "be_nat ADMIN_INITIAL_BALANCE = 1000 * 10 ^ 18" "be_nat ADMIN_INITIAL_STAKED_BALANCE = 10 * fee"
  by (simp_all add: ADMIN_INITIAL_BALANCE_def ADMIN_INITIAL_STAKED_BALANCE_def fee_def)

lemma handleApplyAddAdminOperation_success:
  assumes "handleApplyAddAdminOperation E op node s = Some (SUCCESS, s')"
  obtains ra l n k l' where
    "addAdmin_verify E op node s = Some ra" "applyAssignNewLicense s = Some (l, n)"
    "prefix_ok E \<longrightarrow> updateWritersIndex s = Some (k, l')"
    "base s' = base s" "events s' = events s"
    "batch s' = (batch s)(EntryType_LICENSE_COUNT \<mapsto> l,
       EntryType_LICENSE_INDEX @ show_nat n \<mapsto> bytes (op_address op),
       ra \<mapsto> ne_init (bytes (p_iw (payload_of op))) INDEXER ADMIN_INITIAL_BALANCE l ADMIN_INITIAL_STAKED_BALANCE,
       wkaKey op \<mapsto> bytes (op_address op),
       EntryType_WRITERS_INDEX @ show_nat k \<mapsto> bytes (op_address op), EntryType_WRITERS_LENGTH \<mapsto> l',
       EntryType_ADMIN \<mapsto> bytes (op_address op) @ bytes (p_iw (payload_of op)),
       EntryType_INITIALIZATION \<mapsto> safeWriteUInt32BE 1, txKey op \<mapsto> node_value node)"
proof -
  obtain ra l n s1 k l' where *: "addAdmin_verify E op node s = Some ra"
    "applyAssignNewLicense s = Some (l, n)"
    "s1 = (if n \<noteq> 0 then put (EntryType_LICENSE_INDEX @ show_nat n) (bytes (op_address op))
             (put EntryType_LICENSE_COUNT l s) else s)"
    "s' = put (txKey op) (node_value node) (put EntryType_INITIALIZATION (safeWriteUInt32BE 1)
       (put EntryType_ADMIN (ae_encode E (bytes (op_address op)) (bytes (p_iw (payload_of op))))
       (put EntryType_WRITERS_LENGTH l' (put (EntryType_WRITERS_INDEX @ show_nat k) (bytes (op_address op))
       (put (wkaKey op) (bytes (op_address op)) (put ra (ne_init (bytes (p_iw (payload_of op))) INDEXER
          ADMIN_INITIAL_BALANCE l ADMIN_INITIAL_STAKED_BALANCE) s1))))))"
    "updateWritersIndex (put (wkaKey op) (bytes (op_address op)) (put ra (ne_init (bytes (p_iw (payload_of op)))
       INDEXER ADMIN_INITIAL_BALANCE l ADMIN_INITIAL_STAKED_BALANCE) s1)) = Some (k, l')"
    using assms unfolding handleApplyAddAdminOperation_def Let_def txKey_def wkaKey_def
    by (auto simp: flow simp del: not_None_eq split del: if_split)
  have n: "n \<noteq> 0" using applyAssignNewLicense_Some [OF *(2)] by simp
  have ae: "ae_encode E (bytes (op_address op)) (bytes (p_iw (payload_of op)))
      = bytes (op_address op) @ bytes (p_iw (payload_of op))"
    using addAdmin_verify_Some [OF *(1)] by (intro ae_encode_eq) (auto simp: bufferToAddress_Some)
  have "account E ra" using addAdmin_verify_Some(1) [OF *(1)] by (rule bufferToAddress_account)
  then have idx: "updateWritersIndex s = Some (k, l')" if "prefix_ok E"
    using that *(5) by (subst updateWritersIndex_cong [symmetric]) (auto simp: *(3) key wkaKey_def)
  show ?thesis by (rule that [OF *(1,2)]) (simp_all add: *(3,4) n ae idx)
qed

lemma admin_entry_good:
  assumes "length wk = 32" "length l = 4"
  shows "good_entry (ne_init wk INDEXER ADMIN_INITIAL_BALANCE l ADMIN_INITIAL_STAKED_BALANCE)"
    "entry_holding (ne_init wk INDEXER ADMIN_INITIAL_BALANCE l ADMIN_INITIAL_STAKED_BALANCE)
       = 1000 * 10 ^ 18 + 10 * fee"
  using assms ne_init_valid [of wk INDEXER ADMIN_INITIAL_BALANCE l ADMIN_INITIAL_STAKED_BALANCE]
    ne_layout_props [of wk ADMIN_INITIAL_BALANCE l ADMIN_INITIAL_STAKED_BALANCE INDEXER]
  by (simp_all add: good_entry_def isNodeRoleValid_iff role_defs ne_init_def staked_def admin_amounts)

lemma addAdmin_settles:
  assumes "handleApplyAddAdminOperation E op node s = Some (SUCCESS, s')"
  shows "settles E op node s s'"
proof -
  obtain ra l n k l' where v: "addAdmin_verify E op node s = Some ra"
    and lic: "applyAssignNewLicense s = Some (l, n)"
    and s': "batch s' = (batch s)(EntryType_LICENSE_COUNT \<mapsto> l,
       EntryType_LICENSE_INDEX @ show_nat n \<mapsto> bytes (op_address op),
       ra \<mapsto> ne_init (bytes (p_iw (payload_of op))) INDEXER ADMIN_INITIAL_BALANCE l ADMIN_INITIAL_STAKED_BALANCE,
       wkaKey op \<mapsto> bytes (op_address op),
       EntryType_WRITERS_INDEX @ show_nat k \<mapsto> bytes (op_address op), EntryType_WRITERS_LENGTH \<mapsto> l',
       EntryType_ADMIN \<mapsto> bytes (op_address op) @ bytes (p_iw (payload_of op)),
       EntryType_INITIALIZATION \<mapsto> safeWriteUInt32BE 1, txKey op \<mapsto> node_value node)"
    by (rule handleApplyAddAdminOperation_success [OF assms])
  note v = addAdmin_verify_Some [OF v]
  have acc: "account E ra" using v(1) by (rule bufferToAddress_account)
  have good: "good_entry (ne_init (bytes (p_iw (payload_of op))) INDEXER ADMIN_INITIAL_BALANCE l
      ADMIN_INITIAL_STAKED_BALANCE)"
    using admin_entry_good(1) [OF v(4)] applyAssignNewLicense_Some [OF lic] by blast
  have "ledger_ok E (batch s')" if "prefix_ok E" "ledger_ok E (batch s)"
    using that good by (simp add: s' ledger_puts key txKey_def wkaKey_def)
  then show ?thesis
    unfolding settles_def genesis_over_def using v(6,7) acc by (auto simp: s' key txKey_def wkaKey_def)
qed

text \<open>After the licence was counted no guard can fail.\<close>

lemma addAdmin_rejected:
  assumes h: "handleApplyAddAdminOperation E op node s = Some (st, s')" "st \<noteq> SUCCESS"
  shows "s' = s"
proof (cases "addAdmin_verify E op node s")
  case None
  then show ?thesis using h by (simp add: handleApplyAddAdminOperation_def)
next
  case (Some ra)
  note v = addAdmin_verify_Some [OF Some]
  have ae: "ae_encode E (bytes (op_address op)) (bytes (p_iw (payload_of op))) \<noteq> []"
    using ae_encode_empty [of E "bytes (op_address op)" "bytes (p_iw (payload_of op))"] v(1,4)
    by (auto simp: bufferToAddress_Some)
  have init: "ne_init (bytes (p_iw (payload_of op))) INDEXER ADMIN_INITIAL_BALANCE l
      ADMIN_INITIAL_STAKED_BALANCE \<noteq> []" if "applyAssignNewLicense s = Some (l, n)" for l n
    using good_entry_length [OF admin_entry_good(1) [OF v(4), of l]] applyAssignNewLicense_Some [OF that]
    by auto
  have False
    using h Some ae
    by (auto simp: handleApplyAddAdminOperation_def Let_def dest: init split: option.splits if_splits)
  then show ?thesis ..
qed

interpretation h_addAdmin: apply_handler handleApplyAddAdminOperation
  using addAdmin_rejected addAdmin_settles by (rule apply_handlerI)

section \<open>ADMIN_RECOVERY\<close>

lemma adminRecovery_verify_Some:
  assumes "adminRecovery_verify E op = Some (ra, pk, va)"
  shows "bufferToAddress E (bytes (op_address op)) = Some ra"
    "bufferToAddress E (bytes (p_va (payload_of op))) = Some va"
    "bytes (op_address op) \<noteq> bytes (p_va (payload_of op))"
    "length (bytes (p_iw (payload_of op))) = 32" "pk = address_decodeSafe E (Some ra)"
    "signature_verify E (bytes (p_is (payload_of op))) (bytes (p_tx (payload_of op))) pk"
  using assms validateRoleAccessOperation_bytes(3) [of E op "payload_of op"]
  by (auto simp: adminRecovery_verify_def Let_def flow addressAndKey_Some messageHash_Some)

text \<open>The old writer key was an indexer, the new one is not; the base drops one and takes the other.\<close>

lemma handleApplyAdminRecoveryOperation_success:
  assumes "handleApplyAdminRecoveryOperation E op node s = Some (SUCCESS, s')"
  obtains ra pk va ae rb b1 rb' vb vb' sb where
    "adminRecovery_verify E op = Some (ra, pk, va)" "isValidatorValidApply (batch s va) node"
    "batch s (wkaKey op) = None" "batch s (txKey op) = None"
    "ae_decode E (batch s EntryType_ADMIN) = Some ae" "pk = address_decodeSafe E (ae_address ae)"
    "isWriterKeyInIndexerListApply E (ae_wk ae) s = Some True"
    "isWriterKeyInIndexerListApply E (bytes (p_iw (payload_of op))) s \<noteq> Some True"
    "batch s ra = Some rb" "setWritingKey (Some rb) (bytes (p_iw (payload_of op))) = Some b1"
    "charged fee b1 rb'" "batch s va = Some vb" "credited (3 * (fee div 4)) vb vb'"
    "base_removeWriter E (ae_wk ae) (base s) = Some sb"
    "base_addWriter E (bytes (p_iw (payload_of op))) True sb = Some (base s')"
    "batch s' = (batch s)(wkaKey op \<mapsto> bytes (op_address op),
       EntryType_ADMIN \<mapsto> bytes (op_address op) @ bytes (p_iw (payload_of op)),
       ra \<mapsto> rb', va \<mapsto> vb', txKey op \<mapsto> node_value node)"
proof -
  obtain ra pk va ae r x y vr vx vy vb' s1 s2 where *:
    "adminRecovery_verify E op = Some (ra, pk, va)" "isValidatorValidApply (batch s va) node"
    "batch s (wkaKey op) = None" "batch s (txKey op) = None"
    "ae_decode E (batch s EntryType_ADMIN) = Some ae" "pk = address_decodeSafe E (ae_address ae)"
    "isWriterKeyInIndexerListApply E (ae_wk ae) s = Some True"
    "isWriterKeyInIndexerListApply E (bytes (p_iw (payload_of op))) s \<noteq> Some True"
    "ne_decode (setWritingKey (batch s ra) (bytes (p_iw (payload_of op)))) = Some r"
    "toBalance (ne_balance r) = Some x" "bal_sub x BALANCE_FEE = Some y"
    "ne_decode (batch s va) = Some vr" "toBalance (ne_balance vr) = Some vx"
    "bal_add vx reward75 = Some vy" "bal_update vy (batch s va) = Some vb'"
    "removeWriterBase E (ae_wk ae) s = Some s1" "addWriterBase E (bytes (p_iw (payload_of op))) True s1 = Some s2"
    "s' = put (txKey op) (node_value node) (put va vb' (put_nullable ra
       (bal_update y (setWritingKey (batch s ra) (bytes (p_iw (payload_of op)))))
       (put EntryType_ADMIN (ae_encode E (bytes (op_address op)) (bytes (p_iw (payload_of op))))
       (put (wkaKey op) (bytes (op_address op)) s2))))"
    using assms unfolding handleApplyAdminRecoveryOperation_def Let_def txKey_def
      getRegisteredWriterKeyApply_batch wkaKey_def [symmetric]
    by (auto simp: flow simp del: not_None_eq split del: if_split)
  note v = adminRecovery_verify_Some [OF *(1)]
  obtain rb b1 where b: "batch s ra = Some rb" "setWritingKey (Some rb) (bytes (p_iw (payload_of op))) = Some b1"
    using *(9) by (cases "batch s ra"; cases "setWritingKey (batch s ra) (bytes (p_iw (payload_of op)))")
      (auto simp: setWritingKey_def)
  obtain vb where vb: "batch s va = Some vb" using *(12) by (cases "batch s va") auto
  have r: "ne_decode (Some b1) = Some r" using *(9) b by simp
  have y: "length (bal_value y) = 16"
    using bal.sub_Some [of x BALANCE_FEE y] *(11) toBalance_nat [OF *(10)] BALANCE_FEE_nat(1)
    unfolding bal_ok_def by blast
  obtain rb' where rb': "bal_update y (Some b1) = Some rb'"
    using y ne_decode_length [OF r] by (simp add: bal_update_def setBalance_def)
  have ae: "ae_encode E (bytes (op_address op)) (bytes (p_iw (payload_of op)))
      = bytes (op_address op) @ bytes (p_iw (payload_of op))"
    using v(1,4) by (intro ae_encode_eq) (auto simp: bufferToAddress_Some)
  have c: "charged fee b1 rb'" using charge_intro [OF r *(10,11) rb'] by simp
  have d: "credited (3 * (fee div 4)) vb vb'"
    using credit_intro [of vb vr vx reward75 vy vb vb'] *(12-15) vb by simp
  show ?thesis
    by (rule that [OF *(1-8) b c vb d, of "base s1"])
      (use removeWriterBase_batch [OF *(16)] addWriterBase_batch [OF *(17)] *(18) b rb' ae in \<open>simp_all add: put_nullable_def put_def\<close>)
qed

lemma adminRecovery_settles:
  assumes "handleApplyAdminRecoveryOperation E op node s = Some (SUCCESS, s')"
  shows "settles E op node s s'"
    "prefix_ok E \<Longrightarrow> ledger_ok E (batch s) \<Longrightarrow> canonical_op op \<Longrightarrow>
       total_supply E (batch s') + fee div 4 = total_supply E (batch s)"
proof -
  obtain ra pk va rb b1 rb' vb vb' where *: "adminRecovery_verify E op = Some (ra, pk, va)"
    "batch s (txKey op) = None" "batch s ra = Some rb"
    "setWritingKey (Some rb) (bytes (p_iw (payload_of op))) = Some b1"
    "charged fee b1 rb'" "batch s va = Some vb" "credited (3 * (fee div 4)) vb vb'"
    "batch s' = (batch s)(wkaKey op \<mapsto> bytes (op_address op),
       EntryType_ADMIN \<mapsto> bytes (op_address op) @ bytes (p_iw (payload_of op)),
       ra \<mapsto> rb', va \<mapsto> vb', txKey op \<mapsto> node_value node)"
    by (rule handleApplyAdminRecoveryOperation_success [OF assms])
  note v = adminRecovery_verify_Some [OF *(1)]
  have acc: "account E ra" "account E va" using v(1,2) by (auto dest: bufferToAddress_account)
  note eff = setWritingKey_effect [OF *(4)] charged_effect [OF *(5)]
  have rb': "good_entry rb'" if "good_entry rb"
    using that eff by (simp add: good_entry_def valid_entry_def)
  have hold: "entry_holding rb' + fee = entry_holding rb" using eff by (simp add: entry_holding_eq)
  have agree: "batch s' k = ((batch s)(ra \<mapsto> rb', va \<mapsto> vb')) k" if "prefix_ok E" "account E k" for k
    using that by (simp add: *(8) key txKey_def wkaKey_def)
  have led: "ledger_ok E (batch s')" if pre: "prefix_ok E" and l: "ledger_ok E (batch s)"
    using pre l rb' [OF ledger_ok_entry [OF l acc(1) *(3)]]
      credited_good [OF *(7) ledger_ok_entry [OF l acc(2) *(6)]]
    by (simp add: *(8) ledger_puts key txKey_def wkaKey_def)
  show sup: "total_supply E (batch s') + fee div 4 = total_supply E (batch s)"
    if pre: "prefix_ok E" and l: "ledger_ok E (batch s)" and can: "canonical_op op"
    using supply_two [OF ledger_ok_finite [OF l] acc canonical_parties [OF can v(1-3)] agree [OF pre]]
      hold credited_holding [OF *(7)] *(3,6) fee_quarters by simp
  show "settles E op node s s'"
    unfolding settles_def genesis_over_def isApplyInitalizationDisabled_def
    using *(2) led sup acc by (fastforce simp: *(8) key txKey_def wkaKey_def)
qed

lemma adminRecovery_unchanged: "unchanged s (handleApplyAdminRecoveryOperation E op node s)"
  unfolding handleApplyAdminRecoveryOperation_def by (intro unchanged_intros)

interpretation h_adminRecovery: apply_handler handleApplyAdminRecoveryOperation
  using unchangedD [OF adminRecovery_unchanged] adminRecovery_settles(1) by (rule apply_handlerI)

end
