(* ===== verification/Whitelist_Spec.thy ===== *)
theory Whitelist_Spec
  imports Contract Whitelist_Ops
begin

text \<open>
  What APPEND_WHITELIST and BAN_VALIDATOR do when they succeed, and the contract of a handler.
\<close>

section \<open>BAN_VALIDATOR\<close>

lemma banValidator_verify_Some:
  assumes "banValidator_verify E op node s = Some (ra, ta)"
  shows "bufferToAddress E (bytes (op_address op)) = Some ra"
    "bufferToAddress E (bytes (p_ia (payload_of op))) = Some ta"
    "batch s (txKey op) = None"
    "\<exists>r. ae_decode E (batch s EntryType_ADMIN) = Some r \<and> ae_wk r = from_key node \<and>
       address_decodeSafe E (ae_address r) = address_decodeSafe E (Some ra) \<and>
       signature_verify E (bytes (p_is (payload_of op))) (bytes (p_tx (payload_of op)))
         (address_decodeSafe E (ae_address r))"
    "bytes (p_tx (payload_of op)) = blake3Safe E (createMessage [Num (networkId E),
       Buf (bytes (p_txv (payload_of op))), Buf (bytes (p_ia (payload_of op))),
       Buf (bytes (p_in (payload_of op))), Num OT_BAN_VALIDATOR])"
  using assms
  by (auto simp: banValidator_verify_def Let_def flow addressAndKey_Some messageHash_Some
      isAdminApply_def txKey_def)

text \<open>A banned writer gets its stake back and its key removed from the base.\<close>

lemma handleApplyBanValidatorOperation_success:
  assumes "handleApplyBanValidatorOperation E op node s = Some (SUCCESS, s')"
  obtains ra ta tb b1 tb' ab ab' where
    "banValidator_verify E op node s = Some (ra, ta)"
    "batch s ta = Some tb" "isWhitelisted (Some tb)" "\<not> isIndexer (Some tb)"
    "setRole (Some tb) READER = Some b1"
    "if isWriter (Some tb) then withdrawStakedBalanceApply (Some b1) = Some tb' else tb' = b1"
    "if isWriter (Some tb) then \<exists>r. ne_decode (Some b1) = Some r \<and>
         base_removeWriter E (ne_wk r) (base s) = Some (base s') else base s' = base s"
    "batch s ra = Some ab" "charged fee ab ab'"
    "batch s' = (batch s)(ta \<mapsto> tb', ra \<mapsto> ab', txKey op \<mapsto> node_value node)"
    "events s' = events s @ [UNWRITABLE (address_decodeSafe E (Some ta))]"
proof -
  obtain ra ta tb b1 r ab ar x y ab' where *:
    "banValidator_verify E op node s = Some (ra, ta)" "batch s ta = Some tb"
    "isWhitelisted (Some tb) \<or> isWriter (Some tb)" "\<not> isIndexer (Some tb)"
    "setRole (Some tb) READER = Some b1" "ne_decode (Some b1) = Some r"
    "batch s ra = Some ab" "ne_decode (Some ab) = Some ar" "toBalance (ne_balance ar) = Some x"
    "bal_sub x BALANCE_FEE = Some y" "bal_update y (Some ab) = Some ab'"
    and fin: "(if isWriter (Some tb)
      then (\<exists>e s1. withdrawStakedBalanceApply (Some b1) = Some e \<and> removeWriterBase E (ne_wk r) s = Some s1 \<and>
         s' = emitEvent (UNWRITABLE (address_decodeSafe E (Some ta)))
           (put (txKey op) (node_value node) (put ra ab' (put ta e s1))))
      else s' = emitEvent (UNWRITABLE (address_decodeSafe E (Some ta)))
           (put (txKey op) (node_value node) (put ra ab' (put ta b1 s))))"
    using assms unfolding handleApplyBanValidatorOperation_def Let_def txKey_def
    by (auto simp: flow simp del: not_None_eq split: if_splits)
  have c: "charged fee ab ab'" using charge_intro [OF *(8-11)] by simp
  have w: "isWhitelisted (Some tb)" using *(3) by (auto simp: isWriter_def split: if_splits)
  show ?thesis
  proof (cases "isWriter (Some tb)")
    case True
    with fin obtain e s1 where e: "withdrawStakedBalanceApply (Some b1) = Some e"
      "removeWriterBase E (ne_wk r) s = Some s1"
      "s' = emitEvent (UNWRITABLE (address_decodeSafe E (Some ta)))
           (put (txKey op) (node_value node) (put ra ab' (put ta e s1)))" by auto
    show ?thesis
      by (rule that [OF *(1,2) w *(4,5) _ _ *(7) c, of e])
        (use True e *(6) removeWriterBase_batch [OF e(2)] in simp_all)
  next
    case False
    show ?thesis
      by (rule that [OF *(1,2) w *(4,5) _ _ *(7) c, of b1]) (use False fin in simp_all)
  qed
qed

lemma banned_good:
  assumes "setRole (Some b) READER = Some b1" "good_entry b" "\<not> isIndexer (Some b)"
    and "if isWriter (Some b) then withdrawStakedBalanceApply (Some b1) = Some b' else b' = b1"
  shows "good_entry b' \<and> entry_holding b' = entry_holding b"
proof (cases "isWriter (Some b)")
  case True
  then show ?thesis
    using assms setRole_effect [OF assms(1)] withdrawStakedBalanceApply_effect [of b1 b']
    by (simp add: good_entry_def valid_entry_def entry_holding_eq isNodeRoleValid_iff role_defs)
next
  case False
  then show ?thesis
    using assms setRole_effect [OF assms(1)]
    by (auto simp: good_entry_def valid_entry_def entry_holding_eq isNodeRoleValid_iff role_defs
        isWriter_def isWhitelisted_def split: if_splits)
qed

lemma ban_settles:
  assumes "handleApplyBanValidatorOperation E op node s = Some (SUCCESS, s')"
  shows "settles E op node s s'"
    "prefix_ok E \<Longrightarrow> ledger_ok E (batch s) \<Longrightarrow> total_supply E (batch s') + fee = total_supply E (batch s)"
proof -
  obtain ra ta tb b1 tb' ab ab' where v: "banValidator_verify E op node s = Some (ra, ta)"
    and *: "batch s ta = Some tb" "\<not> isIndexer (Some tb)"
    "setRole (Some tb) READER = Some b1"
    "if isWriter (Some tb) then withdrawStakedBalanceApply (Some b1) = Some tb' else tb' = b1"
    "batch s ra = Some ab" "charged fee ab ab'"
    "batch s' = (batch s)(ta \<mapsto> tb', ra \<mapsto> ab', txKey op \<mapsto> node_value node)"
    by (rule handleApplyBanValidatorOperation_success [OF assms])
  note v = banValidator_verify_Some [OF v]
  have acc: "account E ra" "account E ta" using v(1,2) by (auto dest: bufferToAddress_account)
  have agree: "batch s' k = ((batch s)(ta \<mapsto> tb', ra \<mapsto> ab')) k" if "prefix_ok E" "account E k" for k
    using that by (simp add: *(7) key txKey_def)
  have fin: "finite (dom (batch s)) \<Longrightarrow> finite (dom (batch s'))" by (simp add: *(7))
  note ap = admin_pays [OF acc *(5,1) agree fin *(6) banned_good [OF *(3) _ *(2,4)]]
  show sup: "total_supply E (batch s') + fee = total_supply E (batch s)"
    if "prefix_ok E" "ledger_ok E (batch s)" using ap(2) that by blast
  show "settles E op node s s'"
    unfolding settles_def genesis_over_def isApplyInitalizationDisabled_def
    using v(3,4) ap(1) sup acc by (fastforce simp: key txKey_def *(7))
qed

lemma ban_unchanged: "unchanged s (handleApplyBanValidatorOperation E op node s)"
  unfolding handleApplyBanValidatorOperation_def Let_def by (intro unchanged_intros)

interpretation h_ban: apply_handler handleApplyBanValidatorOperation
  using unchangedD [OF ban_unchanged] ban_settles(1) by (rule apply_handlerI)

section \<open>APPEND_WHITELIST\<close>

lemma appendWhitelist_verify_Some:
  assumes "appendWhitelist_verify E op node s = Some (ra, na)"
  shows "bufferToAddress E (bytes (op_address op)) = Some ra"
    "bufferToAddress E (bytes (p_ia (payload_of op))) = Some na"
    "batch s (txKey op) = None" "\<not> isWhitelisted (batch s na)"
    "\<exists>r. ae_decode E (batch s EntryType_ADMIN) = Some r \<and> ae_wk r = from_key node \<and>
       address_decodeSafe E (ae_address r) = address_decodeSafe E (Some ra) \<and>
       signature_verify E (bytes (p_is (payload_of op))) (bytes (p_tx (payload_of op)))
         (address_decodeSafe E (ae_address r))"
    "bytes (p_tx (payload_of op)) = blake3Safe E (createMessage [Num (networkId E),
       Buf (bytes (p_txv (payload_of op))), Buf (bytes (p_ia (payload_of op))),
       Buf (bytes (p_in (payload_of op))), Num OT_APPEND_WHITELIST])"
  using assms
  by (auto simp: appendWhitelist_verify_def Let_def flow addressAndKey_Some messageHash_Some
      adminOf_Some txKey_def)

lemma appendWhitelist_fee_Some:
  assumes "appendWhitelist_fee ra s = Some s1"
  shows "if isApplyInitalizationDisabled s
    then \<exists>ab ab'. batch s ra = Some ab \<and> charged fee ab ab' \<and> s1 = put ra ab' s else s1 = s"
proof (cases "isApplyInitalizationDisabled s")
  case True
  then obtain ab r x y ab' where *: "batch s ra = Some ab" "ne_decode (Some ab) = Some r"
    "toBalance (ne_balance r) = Some x" "bal_sub x BALANCE_FEE = Some y" "bal_update y (Some ab) = Some ab'"
    "s1 = put ra ab' s"
    using assms by (auto simp: appendWhitelist_fee_def flow)
  then show ?thesis using True charge_intro [OF *(2-5)] by auto
next
  case False
  then show ?thesis using assms by (simp add: appendWhitelist_fee_def)
qed

lemma assignLicense_Some:
  assumes "assignLicense a s = Some (l, s1)"
  obtains n where "length l = 4" "be_nat l = n" "0 < n"
    "s1 = put (EntryType_LICENSE_INDEX @ show_nat n) a (put EntryType_LICENSE_COUNT l s)"
  using assms applyAssignNewLicense_Some [of s l]
  by (auto simp: assignLicense_def flow split: if_splits)

text \<open>The whitelisted entry, and the state after the licence was counted.\<close>

definition whitelisted_entry :: "buffer \<Rightarrow> buffer option \<Rightarrow> 'b astate \<Rightarrow> buffer \<Rightarrow> 'b astate \<Rightarrow> bool" where
  "whitelisted_entry ia nodeEntry s1 nb s2 \<longleftrightarrow>
     (case nodeEntry of
        None \<Rightarrow> \<exists>l. assignLicense ia s1 = Some (l, s2) \<and> nb = ne_init ZERO_WK WHITELISTED ZERO_BALANCE l ZERO_BALANCE
      | Some b \<Rightarrow> \<exists>r b1. ne_decode (Some b) = Some r \<and> setRole (Some b) WHITELISTED = Some b1 \<and>
          (if ne_license r \<noteq> ZERO_LICENSE then nb = b1 \<and> s2 = s1
           else \<exists>l. assignLicense ia s1 = Some (l, s2) \<and> setLicense (Some b1) l = Some nb))"

lemma handleApplyAppendWhitelistOperation_success:
  assumes "handleApplyAppendWhitelistOperation E op node s = Some (SUCCESS, s')"
  obtains ra na s1 s2 nb where
    "appendWhitelist_verify E op node s = Some (ra, na)" "appendWhitelist_fee ra s = Some s1"
    "whitelisted_entry (bytes (p_ia (payload_of op))) (batch s na) s1 nb s2"
    "s' = put (txKey op) (node_value node) (put na nb s2)"
proof -
  obtain ra na s1 where *: "appendWhitelist_verify E op node s = Some (ra, na)"
    "appendWhitelist_fee ra s = Some s1"
    using assms unfolding handleApplyAppendWhitelistOperation_def Let_def txKey_def
    by (auto simp: flow)
  have "\<exists>nb s2. whitelisted_entry (bytes (p_ia (payload_of op))) (batch s na) s1 nb s2 \<and>
      s' = put (txKey op) (node_value node) (put na nb s2)"
  proof (cases "batch s na")
    case None
    then show ?thesis
      using assms unfolding handleApplyAppendWhitelistOperation_def Let_def txKey_def
      by (auto simp: flow * whitelisted_entry_def)
  next
    case (Some b)
    then obtain r b1 where r: "ne_decode (Some b) = Some r" "setRole (Some b) WHITELISTED = Some b1"
      using assms unfolding handleApplyAppendWhitelistOperation_def Let_def txKey_def
      by (auto simp: flow *)
    show ?thesis
    proof (cases "ne_license r = ZERO_LICENSE")
      case False
      then show ?thesis
        using assms Some r unfolding handleApplyAppendWhitelistOperation_def Let_def txKey_def
        by (auto simp: flow * whitelisted_entry_def)
    next
      case True
      then obtain l s2 where l: "assignLicense (bytes (p_ia (payload_of op))) s1 = Some (l, s2)"
        "s' = put (txKey op) (node_value node) (put_nullable na (setLicense (Some b1) l) s2)"
        using assms Some r unfolding handleApplyAppendWhitelistOperation_def Let_def txKey_def
        by (auto simp: flow *)
      have "length l = 4" using assignLicense_Some [OF l(1)] by blast
      moreover have "length b1 = 69" using setRole_effect(1) [OF r(2)] .
      ultimately obtain nb where "setLicense (Some b1) l = Some nb" by (simp add: setLicense_def)
      then show ?thesis
        using l r Some True by (auto simp: whitelisted_entry_def put_nullable_def put_def)
    qed
  qed
  then show ?thesis using that * by blast
qed

lemma whitelisted_entry_good:
  assumes "whitelisted_entry ia e s1 nb s2" "\<not> isWhitelisted e" "\<And>b. e = Some b \<Longrightarrow> good_entry b"
  shows "good_entry nb \<and> entry_holding nb = (case e of None \<Rightarrow> 0 | Some b \<Rightarrow> entry_holding b)"
proof (cases e)
  case None
  then obtain l where l: "assignLicense ia s1 = Some (l, s2)"
    "nb = ne_init ZERO_WK WHITELISTED ZERO_BALANCE l ZERO_BALANCE"
    using assms(1) by (auto simp: whitelisted_entry_def)
  have "length l = 4" using assignLicense_Some [OF l(1)] by blast
  then show ?thesis
    using None l(2) ne_init_valid [of ZERO_WK WHITELISTED ZERO_BALANCE l ZERO_BALANCE]
      ne_layout_props [of ZERO_WK ZERO_BALANCE l ZERO_BALANCE WHITELISTED]
    by (simp add: good_entry_def isNodeRoleValid_iff role_defs ne_init_def staked_def)
next
  case (Some b)
  then obtain b1 where b1: "setRole (Some b) WHITELISTED = Some b1"
    and nb: "nb = b1 \<or> (\<exists>l. setLicense (Some b1) l = Some nb)"
    using assms(1) by (auto simp: whitelisted_entry_def split: if_splits)
  have "staked b = 0" "length b = 69"
    using assms(2,3) Some
    by (auto simp: good_entry_def valid_entry_def isWhitelisted_def isNodeRoleValid_iff role_defs)
  then have "good_entry b1 \<and> entry_holding b1 = entry_holding b"
    using setRole_effect [OF b1]
    by (simp add: good_entry_def valid_entry_def isNodeRoleValid_iff role_defs entry_holding_eq)
  moreover have "good_entry b2 \<and> entry_holding b2 = entry_holding b1"
    if "setLicense (Some b1) l = Some b2" "good_entry b1" for l b2
    using setLicense_effect [OF that(1)] that(2)
    by (simp add: good_entry_def valid_entry_def entry_holding_eq)
  ultimately show ?thesis using nb Some by auto
qed

lemma whitelist_settles:
  assumes "handleApplyAppendWhitelistOperation E op node s = Some (SUCCESS, s')"
  shows "settles E op node s s'"
    "prefix_ok E \<Longrightarrow> ledger_ok E (batch s) \<Longrightarrow> bytes (op_address op) \<noteq> bytes (p_ia (payload_of op)) \<Longrightarrow>
     ascii_buffer (bytes (op_address op)) \<Longrightarrow> ascii_buffer (bytes (p_ia (payload_of op))) \<Longrightarrow>
     total_supply E (batch s') + (if isApplyInitalizationDisabled s then fee else 0) = total_supply E (batch s)"
proof -
  obtain ra na s1 s2 nb where v: "appendWhitelist_verify E op node s = Some (ra, na)"
    and f: "appendWhitelist_fee ra s = Some s1"
    and w: "whitelisted_entry (bytes (p_ia (payload_of op))) (batch s na) s1 nb s2"
    and s': "s' = put (txKey op) (node_value node) (put na nb s2)"
    by (rule handleApplyAppendWhitelistOperation_success [OF assms])
  note v = appendWhitelist_verify_Some [OF v]
  note f = appendWhitelist_fee_Some [OF f]
  have acc: "account E ra" "account E na" using v(1,2) by (auto dest: bufferToAddress_account)
  have s2: "s2 = s1 \<or> (\<exists>n l. s2 = put (EntryType_LICENSE_INDEX @ show_nat n) (bytes (p_ia (payload_of op)))
      (put EntryType_LICENSE_COUNT l s1))"
    using w unfolding whitelisted_entry_def
    by (auto split: option.splits if_splits elim!: assignLicense_Some)
  have off: "batch s' EntryType_ADMIN = batch s EntryType_ADMIN \<and>
      batch s' EntryType_INITIALIZATION = batch s EntryType_INITIALIZATION \<and>
      (\<forall>g. to_hex g \<noteq> txKey op \<longrightarrow> batch s' (to_hex g) = batch s (to_hex g))" if "prefix_ok E"
    using that s2 f acc by (auto simp: s' key txKey_def to_hex_inj split: if_splits)
  have rec: "batch s' (txKey op) = Some (node_value node)" by (simp add: s')
  have agree: "batch s' k = ((batch s1)(na \<mapsto> nb)) k" if "prefix_ok E" "account E k" for k
    using that s2 by (auto simp: s' key txKey_def)
  have fin: "finite (dom (batch s)) \<Longrightarrow> finite (dom (batch s'))"
    using s2 f by (auto simp: s' split: if_splits)
  have nb: "good_entry nb \<and> entry_holding nb = holding (batch s) na" if "ledger_ok E (batch s)"
    using whitelisted_entry_good [OF w v(4) ledger_ok_entry [OF that acc(2)]] by (simp add: holding_def)
  have s1: "ledger_ok E (batch s1) \<and>
      total_supply E (batch s1) + (if isApplyInitalizationDisabled s then fee else 0) = total_supply E (batch s)"
    if l: "ledger_ok E (batch s)"
  proof (cases "isApplyInitalizationDisabled s")
    case True
    then obtain ab ab' where a: "batch s ra = Some ab" "charged fee ab ab'" "s1 = put ra ab' s" using f by auto
    show ?thesis
      using a True charged_good [OF a(2) ledger_ok_entry [OF l acc(1) a(1)]] charged_holding [OF a(2)]
        supply_put [OF ledger_ok_finite [OF l] acc(1), of ab'] l by (simp add: ledger_ok_put)
  next
    case False
    then show ?thesis using f l by simp
  qed
  have led: "ledger_ok E (batch s')" if pre: "prefix_ok E" and l: "ledger_ok E (batch s)"
    using s1 [OF l] nb [OF l] agree [OF pre] fin [OF ledger_ok_finite [OF l]]
    by (auto simp: ledger_ok_def split: if_splits)
  have total: "total_supply E (batch s') + holding (batch s1) na = total_supply E (batch s1) + holding (batch s) na"
    if pre: "prefix_ok E" and l: "ledger_ok E (batch s)"
    using supply_one [OF ledger_ok_finite [OF conjunct1 [OF s1 [OF l]]] acc(2) agree [OF pre]] nb [OF l] by simp
  show "total_supply E (batch s') + (if isApplyInitalizationDisabled s then fee else 0) = total_supply E (batch s)"
    if "prefix_ok E" "ledger_ok E (batch s)" "bytes (op_address op) \<noteq> bytes (p_ia (payload_of op))"
     "ascii_buffer (bytes (op_address op))" "ascii_buffer (bytes (p_ia (payload_of op)))"
  proof -
    have "ra \<noteq> na" using canonical_distinct that(3-5) v(1,2) by (auto simp: bufferToAddress_Some)
    then have "holding (batch s1) na = holding (batch s) na" using f by (auto split: if_splits)
    then show ?thesis using total [OF that(1,2)] s1 [OF that(2)] by simp
  qed
  have sup: "total_supply E (batch s') \<le> total_supply E (batch s)"
    if pre: "prefix_ok E" and l: "ledger_ok E (batch s)"
  proof -
    have "holding (batch s) na \<le> holding (batch s1) na + (if isApplyInitalizationDisabled s then fee else 0)"
      using f charged_holding by (fastforce split: if_splits)
    then show ?thesis using total [OF pre l] s1 [OF l] by linarith
  qed
  show "settles E op node s s'"
    unfolding settles_def genesis_over_def isApplyInitalizationDisabled_def
    using v(3) led sup off rec by simp
qed

text \<open>After the fee was charged no guard can fail on a well-formed ledger.\<close>

lemma whitelist_rejected:
  assumes pre: "prefix_ok E" and l: "ledger_ok E (batch s)"
    and h: "handleApplyAppendWhitelistOperation E op node s = Some (st, s')" "st \<noteq> SUCCESS"
  shows "s' = s"
proof (cases "appendWhitelist_verify E op node s")
  case None
  then show ?thesis using h by (simp add: handleApplyAppendWhitelistOperation_def)
next
  case (Some p)
  then obtain ra na where p: "appendWhitelist_verify E op node s = Some (ra, na)" by (cases p) auto
  show ?thesis
  proof (cases "appendWhitelist_fee ra s")
    case None
    then show ?thesis using h p by (simp add: handleApplyAppendWhitelistOperation_def)
  next
    case (Some s1)
    have acc: "account E na"
      using appendWhitelist_verify_Some(2) [OF p] by (auto dest: bufferToAddress_account)
    have init: "ne_init ZERO_WK WHITELISTED ZERO_BALANCE q ZERO_BALANCE \<noteq> []"
      if "assignLicense a t = Some (q, t')" for a t q t'
      using ne_init_length [of ZERO_WK WHITELISTED ZERO_BALANCE q ZERO_BALANCE]
        assignLicense_Some [OF that] by (auto simp: isNodeRoleValid_iff role_defs)
    have entry: "ne_decode (Some b) \<noteq> None \<and> setRole (Some b) WHITELISTED \<noteq> None"
      if "batch s na = Some b" for b
      using good_entry_length [OF ledger_ok_entry [OF l acc that]]
      by (simp add: ne_decode_Some setRole_def isNodeRoleValid_iff role_defs)
    show ?thesis
    proof (cases "batch s na")
      case None
      with h p Some have False
        by (auto simp: handleApplyAppendWhitelistOperation_def Let_def dest: init split: option.splits if_splits)
      then show ?thesis ..
    next
      case b: (Some b)
      with h p Some entry [OF b] have False
        by (auto simp: handleApplyAppendWhitelistOperation_def Let_def split: option.splits if_splits)
      then show ?thesis ..
    qed
  qed
qed

interpretation h_whitelist: apply_handler handleApplyAppendWhitelistOperation
  using whitelist_rejected whitelist_settles(1) by (rule apply_handlerI)

end
