(* ===== verification/Writer_Spec.thy ===== *)
theory Writer_Spec
  imports Contract Writer_Ops
begin

text \<open>
  What ADD_WRITER and REMOVE_WRITER do when they succeed, and the contract of a handler for both.
\<close>

section \<open>The inner functions\<close>

lemma addWriter_success:
  assumes "addWriter E op node tx ra va vbo s = Some (SUCCESS, s')"
  obtains vb rb r b1 b2 rb' vb' s1 len l where
    "vbo = Some vb" "batch s ra = Some rb" "ne_decode (Some rb) = Some r"
    "\<not> ne_isIndexer r" "\<not> ne_isWriter r" "ne_isWhitelisted r"
    "batch s (wkaKey op) = None \<or>
       ne_wk r = bytes (p_iw (payload_of op)) \<and> batch s (wkaKey op) = Some (bytes (op_address op))"
    "setRoleAndWriterKey (Some rb) WRITER (bytes (p_iw (payload_of op))) = Some b1" "charged fee b1 b2"
    "stakeBalanceApply (Some b2) = Some rb'" "credited (3 * (fee div 4)) vb vb'"
    "base_addWriter E (bytes (p_iw (payload_of op))) False (base s) = Some (base s')"
    "s1 = (if batch s (wkaKey op) = None
           then (batch s)(ra \<mapsto> rb', wkaKey op \<mapsto> bytes (op_address op)) else (batch s)(ra \<mapsto> rb'))"
    "batch s' = s1(EntryType_WRITERS_INDEX @ show_nat len \<mapsto> bytes (op_address op),
         EntryType_WRITERS_LENGTH \<mapsto> l, va \<mapsto> vb', tx \<mapsto> node_value node)"
    "prefix_ok E \<longrightarrow> account E ra \<longrightarrow> updateWritersIndex s = Some (len, l)"
proof -
  obtain rb r x y b1 b2 vr vx vy vb' rb' sb len l where *:
    "batch s ra = Some rb" "ne_decode (Some rb) = Some r"
    "\<not> ne_isIndexer r" "\<not> ne_isWriter r" "ne_isWhitelisted r"
    "batch s (wkaKey op) = None \<or>
       ne_wk r = bytes (p_iw (payload_of op)) \<and> batch s (wkaKey op) = Some (bytes (op_address op))"
    "toBalance (ne_balance r) = Some x" "bal_sub x BALANCE_FEE = Some y"
    "setRoleAndWriterKey (Some rb) WRITER (bytes (p_iw (payload_of op))) = Some b1"
    "bal_update y (Some b1) = Some b2"
    "ne_decode vbo = Some vr" "toBalance (ne_balance vr) = Some vx"
    "bal_add vx reward75 = Some vy" "bal_update vy vbo = Some vb'"
    "stakeBalanceApply (Some b2) = Some rb'"
    "addWriterBase E (bytes (p_iw (payload_of op))) False s = Some sb"
    "s' = put tx (node_value node) (put va vb' (put EntryType_WRITERS_LENGTH l
       (put (EntryType_WRITERS_INDEX @ show_nat len) (bytes (op_address op))
         (if batch s (wkaKey op) = None then put (wkaKey op) (bytes (op_address op)) (put ra rb' sb)
          else put ra rb' sb))))"
    "updateWritersIndex (if batch s (wkaKey op) = None then put (wkaKey op) (bytes (op_address op)) (put ra rb' sb)
       else put ra rb' sb) = Some (len, l)"
    using assms unfolding addWriter_def Let_def getRegisteredWriterKeyApply_batch wkaKey_def [symmetric]
    by (auto simp: flow simp del: not_None_eq split del: if_split)
  then obtain vb where vb: "vbo = Some vb" by (cases vbo) auto
  show ?thesis
  proof (rule that [OF vb *(1-6,9) _ *(15) _ _ refl])
    show "charged fee b1 b2"
      using charge_intro [OF *(2,7,8,10)] setRoleAndWriterKey_effect [OF *(9)] by simp
    show "credited (3 * (fee div 4)) vb vb'"
      using credit_intro [of vb vr vx reward75 vy vb vb'] *(11-14) vb by simp
    show "base_addWriter E (bytes (p_iw (payload_of op))) False (base s) = Some (base s')"
      using addWriterBase_batch [OF *(16)] *(17) by simp
    show "batch s' = (if batch s (wkaKey op) = None
        then (batch s)(ra \<mapsto> rb', wkaKey op \<mapsto> bytes (op_address op)) else (batch s)(ra \<mapsto> rb'))
        (EntryType_WRITERS_INDEX @ show_nat len \<mapsto> bytes (op_address op),
         EntryType_WRITERS_LENGTH \<mapsto> l, va \<mapsto> vb', tx \<mapsto> node_value node)"
      using addWriterBase_batch [OF *(16)] *(17) by simp
    show "prefix_ok E \<longrightarrow> account E ra \<longrightarrow> updateWritersIndex s = Some (len, l)"
      using addWriterBase_batch [OF *(16)] *(18)
      by (auto simp: key wkaKey_def updateWritersIndex_def split: if_splits)
  qed
qed

text \<open>Every law of the contract follows from this description of a successful run.\<close>

lemma addWriter_contract:
  assumes "addWriter E op node (to_hex h) ra va (batch s va) s = Some (SUCCESS, s')"
    and pre: "prefix_ok E" and acc: "account E ra" "account E va"
  shows "g \<noteq> h \<Longrightarrow> batch s' (to_hex g) = batch s (to_hex g)"
    "batch s' EntryType_ADMIN = batch s EntryType_ADMIN"
    "batch s' EntryType_INITIALIZATION = batch s EntryType_INITIALIZATION"
    "ledger_ok E (batch s) \<Longrightarrow> ledger_ok E (batch s')"
    "ledger_ok E (batch s) \<Longrightarrow> ra \<noteq> va \<Longrightarrow>
       total_supply E (batch s') + fee div 4 = total_supply E (batch s)"
proof -
  obtain vb rb r b1 b2 rb' vb' s1 len l where *:
    "batch s va = Some vb" "batch s ra = Some rb" "ne_decode (Some rb) = Some r"
    "\<not> ne_isIndexer r" "\<not> ne_isWriter r" "ne_isWhitelisted r"
    "setRoleAndWriterKey (Some rb) WRITER (bytes (p_iw (payload_of op))) = Some b1" "charged fee b1 b2"
    "stakeBalanceApply (Some b2) = Some rb'" "credited (3 * (fee div 4)) vb vb'"
    "s1 = (if batch s (wkaKey op) = None
           then (batch s)(ra \<mapsto> rb', wkaKey op \<mapsto> bytes (op_address op)) else (batch s)(ra \<mapsto> rb'))"
    "batch s' = s1(EntryType_WRITERS_INDEX @ show_nat len \<mapsto> bytes (op_address op),
         EntryType_WRITERS_LENGTH \<mapsto> l, va \<mapsto> vb', to_hex h \<mapsto> node_value node)"
    by (rule addWriter_success [OF assms(1)])
  note keys = key pre acc wkaKey_def
  show "g \<noteq> h \<Longrightarrow> batch s' (to_hex g) = batch s (to_hex g)"
    "batch s' EntryType_ADMIN = batch s EntryType_ADMIN"
    "batch s' EntryType_INITIALIZATION = batch s EntryType_INITIALIZATION"
    unfolding *(11,12) using pre acc by (simp_all add: key wkaKey_def to_hex_inj)
  have good: "good_entry rb'" if "ledger_ok E (batch s)"
  proof -
    have "good_entry rb" using ledger_ok_entry [OF that acc(1) *(2)] .
    then show ?thesis
      using stakeBalanceApply_effect [OF *(9)] charged_effect [OF *(8)] setRoleAndWriterKey_effect [OF *(7)]
      by (auto simp: good_entry_def valid_entry_def isNodeRoleValid_iff role_defs)
  qed
  have good': "good_entry vb'" if "ledger_ok E (batch s)"
    using credited_good [OF *(10)] ledger_ok_entry [OF that acc(2) *(1)] .
  show "ledger_ok E (batch s')" if "ledger_ok E (batch s)"
    unfolding *(11,12) using that good [OF that] good' [OF that] pre acc
    by (simp add: ledger_puts key wkaKey_def)
  show "total_supply E (batch s') + fee div 4 = total_supply E (batch s)"
    if led: "ledger_ok E (batch s)" and "ra \<noteq> va"
  proof -
    have "staked rb = 0"
      using ledger_ok_entry [OF led acc(1) *(2)] *(3,4,5) ne_decode_length [OF *(3)]
      by (auto simp: good_entry_def ne_decode_Some valid_entry_def isNodeRoleValid_iff role_defs)
    then have "entry_holding rb' + fee = entry_holding rb"
      using stakeBalanceApply_effect [OF *(9)] charged_effect [OF *(8)] setRoleAndWriterKey_effect [OF *(7)]
      by (simp add: entry_holding_eq)
    moreover have "entry_holding vb' = entry_holding vb + 3 * (fee div 4)"
      using credited_holding [OF *(10)] .
    moreover have "total_supply E (batch s') + holding (batch s) ra + holding (batch s) va
        = total_supply E (batch s) + entry_holding rb' + entry_holding vb'"
      unfolding *(11,12) using ledger_ok_finite [OF led] acc pre \<open>ra \<noteq> va\<close>
      by (intro supply_two) (auto simp: key wkaKey_def)
    ultimately show ?thesis using *(1,2) fee_quarters by simp
  qed
qed

lemma removeWriter_success:
  assumes "removeWriter E op node tx ra va vbo s = Some (SUCCESS, s')"
  obtains vb rb r b1 b2 rb' vb' where
    "vbo = Some vb" "batch s ra = Some rb" "ne_decode (Some rb) = Some r"
    "\<not> ne_isIndexer r" "ne_isWriter r" "ne_wk r = bytes (p_iw (payload_of op))"
    "batch s (wkaKey op) = Some (bytes (op_address op))"
    "setRole (Some rb) WHITELISTED = Some b1" "charged fee b1 b2"
    "withdrawStakedBalanceApply (Some b2) = Some rb'" "credited (3 * (fee div 4)) vb vb'"
    "base_removeWriter E (ne_wk r) (base s) = Some (base s')"
    "events s' = events s @ [UNWRITABLE (address_decodeSafe E (Some ra))]"
    "batch s' = (batch s)(ra \<mapsto> rb', va \<mapsto> vb', tx \<mapsto> node_value node)"
proof -
  obtain rb r x y b1 b2 vr vx vy vb' rb' sb where *:
    "batch s ra = Some rb" "ne_decode (Some rb) = Some r"
    "\<not> ne_isIndexer r" "ne_isWriter r" "ne_wk r = bytes (p_iw (payload_of op))"
    "batch s (wkaKey op) = Some (bytes (op_address op))"
    "toBalance (ne_balance r) = Some x" "bal_sub x BALANCE_FEE = Some y"
    "setRole (Some rb) WHITELISTED = Some b1" "bal_update y (Some b1) = Some b2"
    "ne_decode vbo = Some vr" "toBalance (ne_balance vr) = Some vx"
    "bal_add vx reward75 = Some vy" "bal_update vy vbo = Some vb'"
    "withdrawStakedBalanceApply (Some b2) = Some rb'"
    "removeWriterBase E (ne_wk r) s = Some sb"
    "s' = emitEvent (UNWRITABLE (address_decodeSafe E (Some ra)))
       (put tx (node_value node) (put va vb' (put ra rb' sb)))"
    using assms unfolding removeWriter_def Let_def getRegisteredWriterKeyApply_batch wkaKey_def [symmetric]
    by (auto simp: flow simp del: not_None_eq split del: if_split)
  then obtain vb where vb: "vbo = Some vb" by (cases vbo) auto
  show ?thesis
  proof (rule that [OF vb *(1-6,9) _ *(15)])
    show "charged fee b1 b2"
      using charge_intro [OF *(2,7,8,10)] setRole_effect [OF *(9)] by simp
    show "credited (3 * (fee div 4)) vb vb'"
      using credit_intro [of vb vr vx reward75 vy vb vb'] *(11-14) vb by simp
  qed (use removeWriterBase_batch [OF *(16)] *(17) in simp_all)
qed

lemma removeWriter_contract:
  assumes "removeWriter E op node (to_hex h) ra va (batch s va) s = Some (SUCCESS, s')"
    and pre: "prefix_ok E" and acc: "account E ra" "account E va"
  shows "g \<noteq> h \<Longrightarrow> batch s' (to_hex g) = batch s (to_hex g)"
    "batch s' EntryType_ADMIN = batch s EntryType_ADMIN"
    "batch s' EntryType_INITIALIZATION = batch s EntryType_INITIALIZATION"
    "ledger_ok E (batch s) \<Longrightarrow> ledger_ok E (batch s')"
    "ledger_ok E (batch s) \<Longrightarrow> ra \<noteq> va \<Longrightarrow>
       total_supply E (batch s') + fee div 4 = total_supply E (batch s)"
proof -
  obtain vb rb r b1 b2 rb' vb' where *:
    "batch s va = Some vb" "batch s ra = Some rb" "ne_decode (Some rb) = Some r"
    "setRole (Some rb) WHITELISTED = Some b1" "charged fee b1 b2"
    "withdrawStakedBalanceApply (Some b2) = Some rb'" "credited (3 * (fee div 4)) vb vb'"
    "batch s' = (batch s)(ra \<mapsto> rb', va \<mapsto> vb', to_hex h \<mapsto> node_value node)"
    by (rule removeWriter_success [OF assms(1)])
  show "g \<noteq> h \<Longrightarrow> batch s' (to_hex g) = batch s (to_hex g)"
    "batch s' EntryType_ADMIN = batch s EntryType_ADMIN"
    "batch s' EntryType_INITIALIZATION = batch s EntryType_INITIALIZATION"
    unfolding *(8) using pre acc by (simp_all add: key to_hex_inj)
  note eff = withdrawStakedBalanceApply_effect [OF *(6)] charged_effect [OF *(5)] setRole_effect [OF *(4)]
  have good: "good_entry rb'"
    using eff by (simp add: good_entry_def valid_entry_def isNodeRoleValid_iff role_defs)
  have good': "good_entry vb'" if "ledger_ok E (batch s)"
    using credited_good [OF *(7)] ledger_ok_entry [OF that acc(2) *(1)] .
  show "ledger_ok E (batch s')" if "ledger_ok E (batch s)"
    unfolding *(8) using that good good' [OF that] pre acc by (simp add: ledger_puts key)
  show "total_supply E (batch s') + fee div 4 = total_supply E (batch s)"
    if led: "ledger_ok E (batch s)" and "ra \<noteq> va"
  proof -
    have "entry_holding rb' + fee = entry_holding rb" using eff by (simp add: entry_holding_eq)
    moreover have "entry_holding vb' = entry_holding vb + 3 * (fee div 4)"
      using credited_holding [OF *(7)] .
    moreover have "total_supply E (batch s') + holding (batch s) ra + holding (batch s) va
        = total_supply E (batch s) + entry_holding rb' + entry_holding vb'"
      unfolding *(8) using ledger_ok_finite [OF led] acc pre \<open>ra \<noteq> va\<close>
      by (intro supply_two) (auto simp: key)
    ultimately show ?thesis using *(1,2) fee_quarters by simp
  qed
qed

section \<open>The handlers\<close>

text \<open>The result of the outer guards: two accounts, named by different buffers, and both signatures.\<close>

lemma addWriter_verify_Some:
  assumes "addWriter_verify E op = Some (ra, va)"
  shows "bufferToAddress E (bytes (op_address op)) = Some ra"
    "bufferToAddress E (bytes (p_va (payload_of op))) = Some va"
    "bytes (op_address op) \<noteq> bytes (p_va (payload_of op))"
    "length (bytes (p_iw (payload_of op))) = 32" "bytes (p_iw (payload_of op)) \<noteq> ZERO_WK"
    "signature_verify E (bytes (p_is (payload_of op))) (bytes (p_tx (payload_of op)))
       (address_decodeSafe E (Some ra))"
    "bytes (p_tx (payload_of op)) = blake3Safe E (createMessage [Num (networkId E),
       Buf (bytes (p_txv (payload_of op))), Buf (bytes (p_iw (payload_of op))),
       Buf (bytes (p_in (payload_of op))), Num OT_ADD_WRITER])"
  using assms validateRoleAccessOperation_bytes [of E op "payload_of op"]
  by (auto simp: addWriter_verify_def Let_def flow addressAndKey_Some messageHash_Some)

lemma removeWriter_verify_Some:
  assumes "removeWriter_verify E op = Some (ra, va)"
  shows "bufferToAddress E (bytes (op_address op)) = Some ra"
    "bufferToAddress E (bytes (p_va (payload_of op))) = Some va"
    "bytes (op_address op) \<noteq> bytes (p_va (payload_of op))"
    "signature_verify E (bytes (p_is (payload_of op))) (bytes (p_tx (payload_of op)))
       (address_decodeSafe E (Some ra))"
    "bytes (p_tx (payload_of op)) = blake3Safe E (createMessage [Num (networkId E),
       Buf (bytes (p_txv (payload_of op))), Buf (bytes (p_iw (payload_of op))),
       Buf (bytes (p_in (payload_of op))), Num OT_REMOVE_WRITER])"
  using assms
  by (auto simp: removeWriter_verify_def Let_def flow addressAndKey_Some messageHash_Some)

lemma handleApplyAddWriterOperation_success:
  assumes "handleApplyAddWriterOperation E op node s = Some (SUCCESS, s')"
  obtains ra va where "addWriter_verify E op = Some (ra, va)"
    "isValidatorValidApply (batch s va) node" "batch s (txKey op) = None"
    "addWriter E op node (txKey op) ra va (batch s va) s = Some (SUCCESS, s')"
  using assms unfolding handleApplyAddWriterOperation_def Let_def txKey_def
  by (auto simp: flow simp del: not_None_eq split del: if_split)

lemma handleApplyRemoveWriterOperation_success:
  assumes "handleApplyRemoveWriterOperation E op node s = Some (SUCCESS, s')"
  obtains ra va where "removeWriter_verify E op = Some (ra, va)"
    "isValidatorValidApply (batch s va) node" "batch s (txKey op) = None"
    "removeWriter E op node (txKey op) ra va (batch s va) s = Some (SUCCESS, s')"
  using assms unfolding handleApplyRemoveWriterOperation_def Let_def txKey_def
  by (auto simp: flow simp del: not_None_eq split del: if_split)

lemma addWriter_unchanged: "unchanged s (handleApplyAddWriterOperation E op node s)"
  unfolding handleApplyAddWriterOperation_def addWriter_def by (intro unchanged_intros)

lemma removeWriter_unchanged: "unchanged s (handleApplyRemoveWriterOperation E op node s)"
  unfolding handleApplyRemoveWriterOperation_def removeWriter_def by (intro unchanged_intros)

text \<open>The two handlers keep the contract, and each burns a quarter of the fee.\<close>

lemma addWriter_settles:
  assumes "handleApplyAddWriterOperation E op node s = Some (SUCCESS, s')"
  shows "settles E op node s s'"
    "prefix_ok E \<Longrightarrow> ledger_ok E (batch s) \<Longrightarrow> canonical_op op \<Longrightarrow>
       total_supply E (batch s') + fee div 4 = total_supply E (batch s)"
proof -
  obtain ra va where *: "addWriter_verify E op = Some (ra, va)" "batch s (txKey op) = None"
      "addWriter E op node (txKey op) ra va (batch s va) s = Some (SUCCESS, s')"
    by (rule handleApplyAddWriterOperation_success [OF assms])
  note v = addWriter_verify_Some [OF *(1)]
  have acc: "account E ra" "account E va" using v(1,2) by (auto dest: bufferToAddress_account)
  note c = addWriter_contract [OF *(3) [unfolded txKey_def] _ acc]
  have rec: "batch s' (txKey op) = Some (node_value node)"
    by (rule addWriter_success [OF *(3)]) simp
  show sup: "total_supply E (batch s') + fee div 4 = total_supply E (batch s)"
    if "prefix_ok E" "ledger_ok E (batch s)" "canonical_op op"
    using c(5) canonical_parties [OF that(3) v(1-3)] that by blast
  show "settles E op node s s'"
    unfolding settles_def genesis_over_def
    using *(2) rec c(1-4) sup genesis_over_cong [of s' s]
    by (fastforce simp: txKey_def to_hex_inj isApplyInitalizationDisabled_def)
qed

lemma removeWriter_settles:
  assumes "handleApplyRemoveWriterOperation E op node s = Some (SUCCESS, s')"
  shows "settles E op node s s'"
    "prefix_ok E \<Longrightarrow> ledger_ok E (batch s) \<Longrightarrow> canonical_op op \<Longrightarrow>
       total_supply E (batch s') + fee div 4 = total_supply E (batch s)"
proof -
  obtain ra va where *: "removeWriter_verify E op = Some (ra, va)" "batch s (txKey op) = None"
      "removeWriter E op node (txKey op) ra va (batch s va) s = Some (SUCCESS, s')"
    by (rule handleApplyRemoveWriterOperation_success [OF assms])
  note v = removeWriter_verify_Some [OF *(1)]
  have acc: "account E ra" "account E va" using v(1,2) by (auto dest: bufferToAddress_account)
  note c = removeWriter_contract [OF *(3) [unfolded txKey_def] _ acc]
  have rec: "batch s' (txKey op) = Some (node_value node)"
    by (rule removeWriter_success [OF *(3)]) simp
  show sup: "total_supply E (batch s') + fee div 4 = total_supply E (batch s)"
    if "prefix_ok E" "ledger_ok E (batch s)" "canonical_op op"
    using c(5) canonical_parties [OF that(3) v(1-3)] that by blast
  show "settles E op node s s'"
    unfolding settles_def genesis_over_def
    using *(2) rec c(1-4) sup genesis_over_cong [of s' s]
    by (fastforce simp: txKey_def to_hex_inj isApplyInitalizationDisabled_def)
qed

interpretation h_addWriter: apply_handler handleApplyAddWriterOperation
  using unchangedD [OF addWriter_unchanged] addWriter_settles(1) by (rule apply_handlerI)

interpretation h_removeWriter: apply_handler handleApplyRemoveWriterOperation
  using unchangedD [OF removeWriter_unchanged] removeWriter_settles(1) by (rule apply_handlerI)

end
