(* ===== verification/Indexer_Spec.thy ===== *)
theory Indexer_Spec
  imports Contract Indexer_Ops
begin

text \<open>
  What ADD_INDEXER and REMOVE_INDEXER do when they succeed, and the contract of a handler for both.
\<close>

lemma indexer_verify_Some:
  assumes "indexer_verify t E op node s = Some (ra, ta, tx)"
  shows "bufferToAddress E (bytes (op_address op)) = Some ra"
    "bufferToAddress E (bytes (p_ia (payload_of op))) = Some ta"
    "tx = txKey op" "batch s (txKey op) = None"
    "\<exists>r. ae_decode E (batch s EntryType_ADMIN) = Some r \<and> ae_wk r = from_key node \<and>
       address_decodeSafe E (ae_address r) = address_decodeSafe E (Some ra) \<and>
       signature_verify E (bytes (p_is (payload_of op))) (bytes (p_tx (payload_of op)))
         (address_decodeSafe E (ae_address r))"
    "bytes (p_tx (payload_of op)) = blake3Safe E (createMessage [Num (networkId E),
       Buf (bytes (p_txv (payload_of op))), Buf (bytes (p_ia (payload_of op))),
       Buf (bytes (p_in (payload_of op))), Num t])"
  using assms
  by (auto simp: indexer_verify_def Let_def flow addressAndKey_Some messageHash_Some adminOf_Some txKey_def)

lemma addIndexer_success:
  assumes "addIndexer E node tx ta ra s = Some (SUCCESS, s')"
  obtains tb r tb' ab ab' sb where
    "batch s ta = Some tb" "ne_decode (Some tb) = Some r" "isWriter (Some tb)" "\<not> isIndexer (Some tb)"
    "setRole (Some tb) INDEXER = Some tb'" "isWriterKeyInIndexerListApply E (ne_wk r) s \<noteq> Some True"
    "batch s ra = Some ab" "charged fee ab ab'"
    "base_removeWriter E (ne_wk r) (base s) = Some sb" "base_addWriter E (ne_wk r) True sb = Some (base s')"
    "events s' = events s @ [IS_INDEXER (address_decodeSafe E (Some ta))]"
    "batch s' = (batch s)(ta \<mapsto> tb', ra \<mapsto> ab', tx \<mapsto> node_value node)"
proof -
  obtain tb r tb' ab ar x y ab' s1 s2 where *:
    "batch s ta = Some tb" "ne_decode (Some tb) = Some r" "isWriter (Some tb)" "\<not> isIndexer (Some tb)"
    "setRole (Some tb) INDEXER = Some tb'" "isWriterKeyInIndexerListApply E (ne_wk r) s \<noteq> Some True"
    "batch s ra = Some ab" "ne_decode (Some ab) = Some ar" "toBalance (ne_balance ar) = Some x"
    "bal_sub x BALANCE_FEE = Some y" "bal_update y (Some ab) = Some ab'"
    "removeWriterBase E (ne_wk r) s = Some s1" "addWriterBase E (ne_wk r) True s1 = Some s2"
    "s' = emitEvent (IS_INDEXER (address_decodeSafe E (Some ta)))
       (put tx (node_value node) (put ra ab' (put ta tb' s2)))"
    using assms unfolding addIndexer_def Let_def
    by (auto simp: flow simp del: not_None_eq split del: if_split)
  have "charged fee ab ab'" using charge_intro [OF *(8-11)] by simp
  then show ?thesis
    using removeWriterBase_batch [OF *(12)] addWriterBase_batch [OF *(13)] *(14)
    by (intro that [OF *(1-7)]) auto
qed

lemma removeIndexer_success:
  assumes "removeIndexer E node tx ta tab ra s = Some (SUCCESS, s')"
  obtains tb r tb' ab ab' sb n l where
    "batch s ta = Some tb" "ne_decode (Some tb) = Some r" "isIndexer (Some tb)"
    "setRoleAndWriterKey (Some tb) WRITER (ne_wk r) = Some tb'"
    "isWriterKeyInIndexerListApply E (ne_wk r) s = Some True"
    "batch s ra = Some ab" "charged fee ab ab'"
    "base_removeWriter E (ne_wk r) (base s) = Some sb" "base_addWriter E (ne_wk r) False sb = Some (base s')"
    "batch s' = (batch s)(EntryType_WRITERS_INDEX @ show_nat n \<mapsto> tab, EntryType_WRITERS_LENGTH \<mapsto> l,
       ta \<mapsto> tb', ra \<mapsto> ab', tx \<mapsto> node_value node)"
    "updateWritersIndex s = Some (n, l)"
proof -
  obtain tb r tb' ab ar x y ab' s1 s2 n l where *:
    "batch s ta = Some tb" "ne_decode (Some tb) = Some r" "isIndexer (Some tb)"
    "setRoleAndWriterKey (Some tb) WRITER (ne_wk r) = Some tb'"
    "isWriterKeyInIndexerListApply E (ne_wk r) s = Some True"
    "batch s ra = Some ab" "ne_decode (Some ab) = Some ar" "toBalance (ne_balance ar) = Some x"
    "bal_sub x BALANCE_FEE = Some y" "bal_update y (Some ab) = Some ab'"
    "removeWriterBase E (ne_wk r) s = Some s1" "addWriterBase E (ne_wk r) False s1 = Some s2"
    "s' = put tx (node_value node) (put ra ab' (put ta tb' (put EntryType_WRITERS_LENGTH l
       (put (EntryType_WRITERS_INDEX @ show_nat n) tab s2))))"
    "updateWritersIndex s2 = Some (n, l)"
    using assms unfolding removeIndexer_def Let_def
    by (auto simp: flow simp del: not_None_eq split del: if_split)
  have "charged fee ab ab'" using charge_intro [OF *(7-10)] by simp
  then show ?thesis
    using removeWriterBase_batch [OF *(11)] addWriterBase_batch [OF *(12)] *(13,14) updateWritersIndex_cong [of s2 s]
    by (intro that [OF *(1-6)]) auto
qed

text \<open>Promotion and demotion between writer and indexer keep the stake that both roles have.\<close>

lemma promote_good:
  assumes "setRole (Some b) INDEXER = Some b'" "isWriter (Some b)" "good_entry b"
  shows "good_entry b' \<and> entry_holding b' = entry_holding b"
  using assms setRole_effect [OF assms(1)]
  by (auto simp: good_entry_def valid_entry_def entry_holding_eq isNodeRoleValid_iff role_defs
      isWriter_def isWhitelisted_def split: if_splits)

lemma demote_good:
  assumes "setRoleAndWriterKey (Some b) WRITER wk = Some b'" "isIndexer (Some b)" "good_entry b"
  shows "good_entry b' \<and> entry_holding b' = entry_holding b"
  using assms setRoleAndWriterKey_effect [OF assms(1)]
  by (auto simp: good_entry_def valid_entry_def entry_holding_eq isNodeRoleValid_iff role_defs
      isIndexer_def isWriter_def isWhitelisted_def split: if_splits)

lemma addIndexer_settles:
  assumes "handleApplyAddIndexerOperation E op node s = Some (SUCCESS, s')"
  shows "settles E op node s s'"
    "prefix_ok E \<Longrightarrow> ledger_ok E (batch s) \<Longrightarrow> total_supply E (batch s') + fee = total_supply E (batch s)"
proof -
  obtain ra ta tx where v: "indexer_verify OT_ADD_INDEXER E op node s = Some (ra, ta, tx)"
    and add: "addIndexer E node tx ta ra s = Some (SUCCESS, s')"
    using assms unfolding handleApplyAddIndexerOperation_def by (auto simp: flow)
  note v = indexer_verify_Some [OF v]
  have acc: "account E ra" "account E ta" using v(1,2) by (auto dest: bufferToAddress_account)
  obtain tb tb' ab ab' where *: "batch s ta = Some tb" "isWriter (Some tb)"
    "setRole (Some tb) INDEXER = Some tb'" "batch s ra = Some ab" "charged fee ab ab'"
    "batch s' = (batch s)(ta \<mapsto> tb', ra \<mapsto> ab', tx \<mapsto> node_value node)"
    by (rule addIndexer_success [OF add])
  have agree: "batch s' k = ((batch s)(ta \<mapsto> tb', ra \<mapsto> ab')) k" if "prefix_ok E" "account E k" for k
    using that by (simp add: *(6) key v(3) txKey_def)
  have fin: "finite (dom (batch s)) \<Longrightarrow> finite (dom (batch s'))" by (simp add: *(6))
  note ap = admin_pays [OF acc *(4,1) agree fin *(5) promote_good [OF *(3,2)]]
  show sup: "total_supply E (batch s') + fee = total_supply E (batch s)"
    if "prefix_ok E" "ledger_ok E (batch s)" using ap(2) that by blast
  show "settles E op node s s'"
    unfolding settles_def genesis_over_def isApplyInitalizationDisabled_def
    using v(3,4) ap(1) sup acc by (fastforce simp: key txKey_def *(6))
qed

lemma removeIndexer_settles:
  assumes "handleApplyRemoveIndexerOperation E op node s = Some (SUCCESS, s')"
  shows "settles E op node s s'"
    "prefix_ok E \<Longrightarrow> ledger_ok E (batch s) \<Longrightarrow> total_supply E (batch s') + fee = total_supply E (batch s)"
proof -
  obtain ra ta tx where v: "indexer_verify OT_REMOVE_INDEXER E op node s = Some (ra, ta, tx)"
    and rem: "removeIndexer E node tx ta (bytes (p_ia (payload_of op))) ra s = Some (SUCCESS, s')"
    using assms unfolding handleApplyRemoveIndexerOperation_def by (auto simp: flow)
  note v = indexer_verify_Some [OF v]
  have acc: "account E ra" "account E ta" using v(1,2) by (auto dest: bufferToAddress_account)
  obtain tb r tb' ab ab' n l where *: "batch s ta = Some tb" "isIndexer (Some tb)"
    "setRoleAndWriterKey (Some tb) WRITER (ne_wk (r :: node_entry)) = Some tb'" "batch s ra = Some ab"
    "charged fee ab ab'"
    "batch s' = (batch s)(EntryType_WRITERS_INDEX @ show_nat n \<mapsto> bytes (p_ia (payload_of op)),
       EntryType_WRITERS_LENGTH \<mapsto> l, ta \<mapsto> tb', ra \<mapsto> ab', tx \<mapsto> node_value node)"
    by (rule removeIndexer_success [OF rem])
  have agree: "batch s' k = ((batch s)(ta \<mapsto> tb', ra \<mapsto> ab')) k" if "prefix_ok E" "account E k" for k
    using that by (simp add: *(6) key v(3) txKey_def)
  have fin: "finite (dom (batch s)) \<Longrightarrow> finite (dom (batch s'))" by (simp add: *(6))
  note ap = admin_pays [OF acc *(4,1) agree fin *(5) demote_good [OF *(3,2)]]
  show sup: "total_supply E (batch s') + fee = total_supply E (batch s)"
    if "prefix_ok E" "ledger_ok E (batch s)" using ap(2) that by blast
  show "settles E op node s s'"
    unfolding settles_def genesis_over_def isApplyInitalizationDisabled_def
    using v(3,4) ap(1) sup acc by (fastforce simp: key txKey_def *(6))
qed

lemma addIndexer_unchanged: "unchanged s (handleApplyAddIndexerOperation E op node s)"
  unfolding handleApplyAddIndexerOperation_def addIndexer_def by (intro unchanged_intros)

lemma removeIndexer_unchanged: "unchanged s (handleApplyRemoveIndexerOperation E op node s)"
  unfolding handleApplyRemoveIndexerOperation_def removeIndexer_def by (intro unchanged_intros)

interpretation h_addIndexer: apply_handler handleApplyAddIndexerOperation
  using unchangedD [OF addIndexer_unchanged] addIndexer_settles(1) by (rule apply_handlerI)

interpretation h_removeIndexer: apply_handler handleApplyRemoveIndexerOperation
  using unchangedD [OF removeIndexer_unchanged] removeIndexer_settles(1) by (rule apply_handlerI)

end
