(* ===== verification/Network_Spec.thy ===== *)
theory Network_Spec
  imports Contract Network_Ops
begin

text \<open>
  What BOOTSTRAP_DEPLOYMENT, TX and TRANSFER do when they succeed: who pays, who earns, what is
  burned, and the contract of a handler for the three.
\<close>

lemma flow_outcome [flow]:
  "(case x of None \<Rightarrow> Failed | Some y \<Rightarrow> f y) = Done z \<longleftrightarrow> (\<exists>y. x = Some y \<and> f y = Done z)"
  "(case x of None \<Rightarrow> Threw | Some y \<Rightarrow> f y) = Done z \<longleftrightarrow> (\<exists>y. x = Some y \<and> f y = Done z)"
  "(if b then Failed else t) = Done z \<longleftrightarrow> \<not> b \<and> t = Done z"
  "(if b then Skipped else t) = Done z \<longleftrightarrow> \<not> b \<and> t = Done z"
  by (auto split: option.splits)

lemma flow_outcome_result [flow]:
  "(case x of Failed \<Rightarrow> Some (FAILURE, s) | Skipped \<Rightarrow> Some (IGNORE, s) | Done e \<Rightarrow> f e | Threw \<Rightarrow> None)
     = Some (SUCCESS, s') \<longleftrightarrow> (\<exists>e. x = Done e \<and> f e = Some (SUCCESS, s'))"
  by (cases x) auto

lemma unchanged_outcome:
  "(\<And>e. unchanged s (f e)) \<Longrightarrow>
   unchanged s (case x of Failed \<Rightarrow> Some (FAILURE, s) | Skipped \<Rightarrow> Some (IGNORE, s) | Done e \<Rightarrow> f e | Threw \<Rightarrow> None)"
  by (cases x) (auto simp: unchanged_def)

section \<open>BOOTSTRAP_DEPLOYMENT\<close>

definition deploymentKey :: "operation \<Rightarrow> string" where
  "deploymentKey op = EntryType_DEPLOYMENT @ to_hex (bytes (p_bs (payload_of op)))"

lemma bootstrapDeployment_verify_Some:
  assumes "bootstrapDeployment_verify E op = Some (ra, va)"
  shows "bufferToAddress E (bytes (op_address op)) = Some ra"
    "bufferToAddress E (bytes (p_va (payload_of op))) = Some va"
    "bytes (op_address op) \<noteq> bytes (p_va (payload_of op))"
    "length (bytes (p_tx (payload_of op))) = 32" "bytes (p_bs (payload_of op)) \<noteq> bootstrap E"
    "signature_verify E (bytes (p_is (payload_of op))) (bytes (p_tx (payload_of op)))
       (address_decodeSafe E (Some ra))"
    "bytes (p_tx (payload_of op)) = blake3Safe E (createMessage [Num (networkId E),
       Buf (bytes (p_txv (payload_of op))), Buf (bytes (p_bs (payload_of op))),
       Buf (bytes (p_ic (payload_of op))), Buf (bytes (p_in (payload_of op))),
       Num OT_BOOTSTRAP_DEPLOYMENT])"
    "length (bytes (op_address op)) = addressLength E"
  using assms validateBootstrapDeploymentOperation_bytes [of E op "payload_of op"]
  by (auto simp: bootstrapDeployment_verify_def Let_def flow addressAndKey_Some messageHash_Some)

lemma handleApplyBootstrapDeploymentOperation_success:
  assumes "handleApplyBootstrapDeploymentOperation E op node s = Some (SUCCESS, s')"
  obtains ra va rb vb rb' vb' where
    "bootstrapDeployment_verify E op = Some (ra, va)" "isValidatorValidApply (batch s va) node"
    "batch s (txKey op) = None" "batch s (deploymentKey op) = None"
    "batch s ra = Some rb" "batch s va = Some vb" "charged fee rb rb'" "credited (3 * (fee div 4)) vb vb'"
    "base s' = base s" "events s' = events s"
    "batch s' = (batch s)(deploymentKey op \<mapsto> bytes (p_tx (payload_of op)) @ bytes (op_address op),
       ra \<mapsto> rb', va \<mapsto> vb', txKey op \<mapsto> node_value node)"
proof -
  obtain ra va rb r x y rb' vr vx vy vb' where *:
    "bootstrapDeployment_verify E op = Some (ra, va)" "isValidatorValidApply (batch s va) node"
    "batch s (txKey op) = None" "batch s (deploymentKey op) = None"
    "batch s ra = Some rb" "ne_decode (Some rb) = Some r" "toBalance (ne_balance r) = Some x"
    "bal_sub x BALANCE_FEE = Some y" "bal_update y (Some rb) = Some rb'"
    "ne_decode (batch s va) = Some vr" "toBalance (ne_balance vr) = Some vx"
    "bal_add vx reward75 = Some vy" "bal_update vy (batch s va) = Some vb'"
    "s' = put (txKey op) (node_value node) (put va vb' (put ra rb'
       (put (deploymentKey op) (de_encode E (bytes (p_tx (payload_of op))) (bytes (op_address op))) s)))"
    using assms unfolding handleApplyBootstrapDeploymentOperation_def Let_def txKey_def deploymentKey_def
    by (auto simp: flow simp del: not_None_eq split del: if_split)
  then obtain vb where vb: "batch s va = Some vb" by (cases "batch s va") auto
  note v = bootstrapDeployment_verify_Some [OF *(1)]
  have enc: "de_encode E (bytes (p_tx (payload_of op))) (bytes (op_address op))
      = bytes (p_tx (payload_of op)) @ bytes (op_address op)"
    using v(1,4) by (intro de_encode_eq) (auto simp: bufferToAddress_Some)
  show ?thesis
  proof (rule that [OF *(1-5) vb])
    show "charged fee rb rb'" using charge_intro [OF *(6-9)] by simp
    show "credited (3 * (fee div 4)) vb vb'"
      using credit_intro [of vb vr vx reward75 vy vb vb'] *(10-13) vb by simp
  qed (simp_all add: *(14) enc)
qed

lemma deployment_settles:
  assumes "handleApplyBootstrapDeploymentOperation E op node s = Some (SUCCESS, s')"
  shows "settles E op node s s'"
    "prefix_ok E \<Longrightarrow> ledger_ok E (batch s) \<Longrightarrow> canonical_op op \<Longrightarrow>
       total_supply E (batch s') + fee div 4 = total_supply E (batch s)"
proof -
  obtain ra va rb vb rb' vb' where *:
    "bootstrapDeployment_verify E op = Some (ra, va)" "batch s (txKey op) = None"
    "batch s ra = Some rb" "batch s va = Some vb" "charged fee rb rb'" "credited (3 * (fee div 4)) vb vb'"
    "batch s' = (batch s)(deploymentKey op \<mapsto> bytes (p_tx (payload_of op)) @ bytes (op_address op),
       ra \<mapsto> rb', va \<mapsto> vb', txKey op \<mapsto> node_value node)"
    by (rule handleApplyBootstrapDeploymentOperation_success [OF assms])
  note v = bootstrapDeployment_verify_Some [OF *(1)]
  have acc: "account E ra" "account E va" using v(1,2) by (auto dest: bufferToAddress_account)
  have agree: "batch s' k = ((batch s)(ra \<mapsto> rb', va \<mapsto> vb')) k" if "prefix_ok E" "account E k" for k
    using that by (simp add: *(7) key txKey_def deploymentKey_def)
  have fin: "finite (dom (batch s)) \<Longrightarrow> finite (dom (batch s'))" by (simp add: *(7))
  note tp = two_parties [OF acc *(3,4) agree fin *(5,6)]
  have led: "ledger_ok E (batch s')" if "prefix_ok E" "ledger_ok E (batch s)"
    using tp(1) that by blast
  show sup: "total_supply E (batch s') + fee div 4 = total_supply E (batch s)"
    if "prefix_ok E" "ledger_ok E (batch s)" "canonical_op op"
    using tp(2) that canonical_parties [OF that(3) v(1-3)] fee_rest by simp
  show "settles E op node s s'"
    unfolding settles_def genesis_over_def isApplyInitalizationDisabled_def
    using *(2) led sup acc by (fastforce simp: key txKey_def deploymentKey_def *(7))
qed

lemma deployment_unchanged: "unchanged s (handleApplyBootstrapDeploymentOperation E op node s)"
  unfolding handleApplyBootstrapDeploymentOperation_def by (intro unchanged_intros)

interpretation h_deployment: apply_handler handleApplyBootstrapDeploymentOperation
  using unchangedD [OF deployment_unchanged] deployment_settles(1) by (rule apply_handlerI)

section \<open>TX\<close>

text \<open>The three ways the fee of a transaction is split.\<close>

lemma transferFee_Done:
  assumes "transferFeeTxOperation ra va vbo ca BALANCE_FEE s = Done (re, ve, ce)"
  obtains rb vb where "batch s ra = Some rb" "vbo = Some vb" "charged fee rb re"
    "ra = ca \<Longrightarrow> credited (2 * (fee div 4)) vb ve \<and> ce = None"
    "ra \<noteq> ca \<Longrightarrow> va = ca \<Longrightarrow> credited (3 * (fee div 4)) vb ve \<and> ce = None"
    "ra \<noteq> ca \<Longrightarrow> va \<noteq> ca \<Longrightarrow> credited (2 * (fee div 4)) vb ve \<and>
       (\<exists>cb ce'. batch s ca = Some cb \<and> ce = Some ce' \<and> credited (fee div 4) cb ce')"
proof -
  obtain rb r x y vr vx vy ve0 where *:
    "batch s ra = Some rb" "ne_decode (Some rb) = Some r" "toBalance (ne_balance r) = Some x"
    "bal_sub x BALANCE_FEE = Some y" "bal_update y (Some rb) = Some re"
    "ne_decode vbo = Some vr" "toBalance (ne_balance vr) = Some vx"
    "bal_add vx reward50 = Some vy" "bal_update vy vbo = Some ve0"
    and rest: "(if ra = ca then Done (re, ve0, None)
      else if va = ca
      then (case bal_add vy reward25 of None \<Rightarrow> Failed
            | Some w \<Rightarrow> (case bal_update w (Some ve0) of None \<Rightarrow> Failed | Some u \<Rightarrow> Done (re, u, None)))
      else (case batch s ca of None \<Rightarrow> Failed
            | Some cb \<Rightarrow> (case ne_decode (Some cb) of None \<Rightarrow> Failed
            | Some cr \<Rightarrow> (case toBalance (ne_balance cr) of None \<Rightarrow> Failed
            | Some cx \<Rightarrow> (case bal_add cx reward25 of None \<Rightarrow> Failed
            | Some cy \<Rightarrow> (case bal_update cy (Some cb) of None \<Rightarrow> Failed
            | Some u \<Rightarrow> Done (re, ve0, Some u))))))) = Done (re, ve, ce)"
    using assms unfolding transferFeeTxOperation_def Let_def
    by (auto simp: flow simp del: not_None_eq split: if_splits)
  then obtain vb where vb: "vbo = Some vb" by (cases vbo) auto
  have ch: "charged fee rb re" using charge_intro [OF *(2-5)] by simp
  have half: "credited (2 * (fee div 4)) vb ve0"
    using credit_intro [of vb vr vx reward50 vy vb ve0] *(6-9) vb by simp
  have bonus: "credited (3 * (fee div 4)) vb u"
    if "bal_add vy reward25 = Some w" "bal_update w (Some ve0) = Some u" for w u
  proof -
    have "bal_ok vx" "bal_nat vx = liquid vb"
      using toBalance_nat [OF *(7)] decode_liquid [of vb vr] *(6) vb by auto
    then have "bal_ok vy \<and> bal_nat vy = liquid vb + 2 * (fee div 4)"
      using bal.add_Some [of vx reward50 vy] *(8) by simp
    then have "bal_nat w = liquid vb + 3 * (fee div 4)"
      using bal.add_Some [of vy reward25 w] that(1) by simp
    moreover have "setBalance (Some vb) (bal_value w) = Some u"
      using that(2) setBalance_again [of vb "bal_value vy" ve0] *(9) vb by (simp add: bal_update_def)
    ultimately show ?thesis by (auto simp: credited_def bal_nat_def)
  qed
  have quarter: "credited (fee div 4) cb u"
    if "ne_decode (Some cb) = Some cr" "toBalance (ne_balance cr) = Some cx" "bal_add cx reward25 = Some cy"
      "bal_update cy (Some cb) = Some u" for cb cr cx cy u
    using credit_intro [OF that] by simp
  show ?thesis
    by (rule that [OF *(1) vb ch]; insert rest half) (auto simp: flow bonus quarter split: if_splits)
qed

lemma tx_verify_Some:
  assumes "tx_verify E op = Some (ra, va)"
  shows "bufferToAddress E (bytes (op_address op)) = Some ra"
    "bufferToAddress E (bytes (p_va (payload_of op))) = Some va"
    "bytes (op_address op) \<noteq> bytes (p_va (payload_of op))"
    "signature_verify E (bytes (p_is (payload_of op))) (bytes (p_tx (payload_of op)))
       (address_decodeSafe E (Some ra))"
    "bytes (p_mbs (payload_of op)) = bootstrap E" "bytes (p_bs (payload_of op)) \<noteq> bootstrap E"
    "bytes (p_tx (payload_of op)) = blake3Safe E (createMessage [Num (networkId E),
       Buf (bytes (p_txv (payload_of op))), Buf (bytes (p_iw (payload_of op))),
       Buf (bytes (p_ch (payload_of op))), Buf (bytes (p_bs (payload_of op))), Buf (bootstrap E),
       Buf (bytes (p_in (payload_of op))), Num OT_TX])"
  using assms
  by (auto simp: tx_verify_def Let_def flow addressAndKey_Some messageHash_Some)

lemma handleApplyTxOperation_success:
  assumes "handleApplyTxOperation E op node s = Some (SUCCESS, s')"
  obtains ra va ca d re ve ce where
    "tx_verify E op = Some (ra, va)" "isValidatorValidApply (batch s va) node" "batch s (txKey op) = None"
    "de_decode (batch s (deploymentKey op)) (addressLength E) = Some d"
    "bufferToAddress E (de_address d) = Some ca"
    "transferFeeTxOperation ra va (batch s va) ca BALANCE_FEE s = Done (re, ve, ce)"
    "base s' = base s" "events s' = events s"
    "batch s' = (case ce of None \<Rightarrow> (batch s)(ra \<mapsto> re, va \<mapsto> ve)
       | Some e \<Rightarrow> (batch s)(ra \<mapsto> re, va \<mapsto> ve, ca \<mapsto> e))(txKey op \<mapsto> node_value node)"
proof -
  obtain ra va ca d re ve ce where *:
    "tx_verify E op = Some (ra, va)" "isValidatorValidApply (batch s va) node" "batch s (txKey op) = None"
    "de_decode (batch s (deploymentKey op)) (addressLength E) = Some d"
    "bufferToAddress E (de_address d) = Some ca"
    "transferFeeTxOperation ra va (batch s va) ca BALANCE_FEE s = Done (re, ve, ce)"
    "s' = put (txKey op) (node_value node)
      (case ce of None \<Rightarrow> put va ve (put ra re s) | Some e \<Rightarrow> put ca e (put va ve (put ra re s)))"
    using assms unfolding handleApplyTxOperation_def Let_def txKey_def deploymentKey_def
    by (auto simp: flow simp del: not_None_eq split del: if_split)
  show ?thesis by (rule that [OF *(1-6)]) (auto simp: *(7) split: option.splits)
qed

lemma tx_settles:
  assumes "handleApplyTxOperation E op node s = Some (SUCCESS, s')"
  shows "settles E op node s s'"
    "prefix_ok E \<Longrightarrow> ledger_ok E (batch s) \<Longrightarrow> canonical_op op \<Longrightarrow>
       total_supply E (batch s') + fee div 4 = total_supply E (batch s) \<or>
       total_supply E (batch s') + 2 * (fee div 4) = total_supply E (batch s)"
proof -
  obtain ra va ca re ve ce and d :: deployment_entry where *: "tx_verify E op = Some (ra, va)" "batch s (txKey op) = None"
    "bufferToAddress E (de_address d) = Some ca"
    "transferFeeTxOperation ra va (batch s va) ca BALANCE_FEE s = Done (re, ve, ce)"
    "batch s' = (case ce of None \<Rightarrow> (batch s)(ra \<mapsto> re, va \<mapsto> ve)
       | Some e \<Rightarrow> (batch s)(ra \<mapsto> re, va \<mapsto> ve, ca \<mapsto> e))(txKey op \<mapsto> node_value node)"
    by (rule handleApplyTxOperation_success [OF assms])
  note v = tx_verify_Some [OF *(1)]
  have acc: "account E ra" "account E va" "account E ca"
    using v(1,2) *(3) by (auto dest: bufferToAddress_account)
  obtain rb vb where p: "batch s ra = Some rb" "batch s va = Some vb" "charged fee rb re"
    and split: "ra = ca \<Longrightarrow> credited (2 * (fee div 4)) vb ve \<and> ce = None"
    "ra \<noteq> ca \<Longrightarrow> va = ca \<Longrightarrow> credited (3 * (fee div 4)) vb ve \<and> ce = None"
    "ra \<noteq> ca \<Longrightarrow> va \<noteq> ca \<Longrightarrow> credited (2 * (fee div 4)) vb ve \<and>
       (\<exists>cb ce'. batch s ca = Some cb \<and> ce = Some ce' \<and> credited (fee div 4) cb ce')"
    by (rule transferFee_Done [OF *(4)]) (rule that; blast)
  have two: "prefix_ok E \<Longrightarrow> account E k \<Longrightarrow> batch s' k = ((batch s)(ra \<mapsto> re, va \<mapsto> ve)) k" if "ce = None" for k
    by (simp add: *(5) that key txKey_def)
  have three: "prefix_ok E \<Longrightarrow> account E k \<Longrightarrow> batch s' k = ((batch s)(ra \<mapsto> re, va \<mapsto> ve, ca \<mapsto> e)) k"
    if "ce = Some e" for k e
    by (simp add: *(5) that key txKey_def)
  have fin: "finite (dom (batch s)) \<Longrightarrow> finite (dom (batch s'))" by (simp add: *(5) split: option.split)
  have led: "ledger_ok E (batch s')" if pre: "prefix_ok E" and l: "ledger_ok E (batch s)"
  proof -
    have "good_entry re" using charged_good [OF p(3) ledger_ok_entry [OF l acc(1) p(1)]] .
    moreover have "good_entry ve"
      using credited_good ledger_ok_entry [OF l acc(2) p(2)] split by blast
    moreover have "\<forall>e. ce = Some e \<longrightarrow> good_entry e"
      using credited_good ledger_ok_entry [OF l acc(3)] split by (metis option.distinct(1) option.inject)
    ultimately show ?thesis
      using l pre acc by (auto simp: *(5) ledger_puts key txKey_def split: option.split)
  qed
  show sup: "total_supply E (batch s') + fee div 4 = total_supply E (batch s) \<or>
       total_supply E (batch s') + 2 * (fee div 4) = total_supply E (batch s)"
    if pre: "prefix_ok E" and l: "ledger_ok E (batch s)" and can: "canonical_op op"
  proof -
    have neq: "ra \<noteq> va" using canonical_parties [OF can v(1-3)] .
    consider "ra = ca" | "ra \<noteq> ca" "va = ca" | "ra \<noteq> ca" "va \<noteq> ca" by blast
    then show ?thesis
    proof cases
      case 1
      then show ?thesis
        using two_parties(2) [OF acc(1,2) p(1,2) two fin p(3) conjunct1 [OF split(1)] l neq] split(1) pre fee_rest
        by auto
    next
      case 2
      then show ?thesis
        using two_parties(2) [OF acc(1,2) p(1,2) two fin p(3) conjunct1 [OF split(2)] l neq] split(2) pre fee_rest
        by auto
    next
      case 3
      then obtain cb ce' where c: "credited (2 * (fee div 4)) vb ve" "batch s ca = Some cb" "ce = Some ce'"
        "credited (fee div 4) cb ce'" using split(3) by blast
      have "total_supply E (batch s') + holding (batch s) ra + holding (batch s) va + holding (batch s) ca
          = total_supply E (batch s) + entry_holding re + entry_holding ve + entry_holding ce'"
        using supply_three [OF ledger_ok_finite [OF l] acc neq _ _ three [OF c(3) pre]] 3 by blast
      then show ?thesis
        using charged_holding [OF p(3)] credited_holding [OF c(1)] credited_holding [OF c(4)] p(1,2) c(2)
          fee_quarters by simp
    qed
  qed
  show "settles E op node s s'"
    unfolding settles_def genesis_over_def isApplyInitalizationDisabled_def
    using *(2) led sup acc
    by (fastforce simp: key txKey_def *(5) split: option.splits)
qed

lemma tx_unchanged: "unchanged s (handleApplyTxOperation E op node s)"
  unfolding handleApplyTxOperation_def by (intro unchanged_intros unchanged_outcome)

interpretation h_tx: apply_handler handleApplyTxOperation
  using unchangedD [OF tx_unchanged] tx_settles(1) by (rule apply_handlerI)

section \<open>TRANSFER\<close>

lemma transfer_recipient_effect:
  assumes "transfer_recipient ta (Balance am) s = Some re" "length am = 16"
  shows "case batch s ta of None \<Rightarrow> good_entry re \<and> entry_holding re = be_nat am
         | Some tb \<Rightarrow> credited (be_nat am) tb re"
proof (cases "batch s ta")
  case None
  then have "re = ne_init ZERO_WK READER am ZERO_LICENSE ZERO_BALANCE"
    using assms(1) by (simp add: transfer_recipient_def Let_def flow)
  moreover have v: "valid_entry (ne_init ZERO_WK READER am ZERO_LICENSE ZERO_BALANCE)"
      "entry_holding (ne_init ZERO_WK READER am ZERO_LICENSE ZERO_BALANCE) = be_nat am"
    using ne_init_valid [of ZERO_WK READER am ZERO_LICENSE ZERO_BALANCE] assms(2)
    by (simp_all add: isNodeRoleValid_iff role_defs)
  moreover have "ne_init ZERO_WK READER am ZERO_LICENSE ZERO_BALANCE ! 0 = READER"
      "staked (ne_init ZERO_WK READER am ZERO_LICENSE ZERO_BALANCE) = 0"
    using ne_layout_props [of ZERO_WK am ZERO_LICENSE ZERO_BALANCE READER] assms(2)
    by (simp_all add: ne_init_def isNodeRoleValid_iff role_defs staked_def)
  ultimately show ?thesis using None by (simp add: good_entry_def role_defs)
next
  case (Some tb)
  then obtain r x y where *: "ne_decode (Some tb) = Some r" "toBalance (ne_balance r) = Some x"
      "bal_add x (Balance am) = Some y" "bal_update y (Some tb) = Some re"
    using assms(1) by (auto simp: transfer_recipient_def flow)
  then show ?thesis using credit_intro [OF *] assms(2) Some by simp
qed

lemma transfer_Done:
  assumes "transfer ra ta va vbo am FEE isSelf isVal s = Done (se, reo, ve)"
  obtains sb vb where "length am = 16" "batch s ra = Some sb" "vbo = Some vb"
    "charged (if isSelf then fee else be_nat am + fee) sb se"
    "credited (if isVal then be_nat am + 3 * (fee div 4) else 3 * (fee div 4)) vb ve"
    "reo = (if isVal then Some ve else if isSelf then None else transfer_recipient ta (Balance am) s)"
    "isSelf \<or> isVal \<or> reo \<noteq> None"
proof -
  obtain total sb r x y vr vx vz vy re where *:
    "toBalance am = Some (Balance am)"
    "(if isSelf then Some BALANCE_FEE else bal_add (Balance am) BALANCE_FEE) = Some total"
    "batch s ra = Some sb" "ne_decode (Some sb) = Some r" "toBalance (ne_balance r) = Some x"
    "bal_sub x total = Some y" "bal_update y (Some sb) = Some se"
    "(if \<not> isSelf \<and> \<not> isVal then map_option Some (transfer_recipient ta (Balance am) s) else Some None)
       = Some re"
    "ne_decode vbo = Some vr" "toBalance (ne_balance vr) = Some vx"
    "transfer_validatorBalance isVal vx (Balance am) reward75 = Some (Some vy)"
    "bal_update vy vbo = Some ve" "reo = (if isVal then Some ve else re)"
    using assms unfolding transfer_def
    by (auto simp: flow toBalance_Some_iff simp del: not_None_eq split del: if_split)
  have len: "length am = 16" using *(1) by (simp add: toBalance_Some_iff)
  obtain vb where vb: "vbo = Some vb" using *(9) by (cases vbo) auto
  have total: "bal_ok total" "bal_nat total = (if isSelf then fee else be_nat am + fee)"
    using *(2) bal.add_Some [of "Balance am" BALANCE_FEE total] len by (auto split: if_splits)
  have x: "bal_ok vx" "bal_nat vx = liquid vb"
    using toBalance_nat [OF *(10)] decode_liquid [of vb vr] *(9) vb by auto
  have y: "bal_nat vy = liquid vb + (if isVal then be_nat am + 3 * (fee div 4) else 3 * (fee div 4))"
    using *(11) x len bal.add_Some [of vx "Balance am"] bal.add_Some [of _ reward75 vy]
    by (auto simp: transfer_validatorBalance_def split: if_splits option.splits)
  show ?thesis
  proof (rule that [OF len *(3) vb])
    show "charged (if isSelf then fee else be_nat am + fee) sb se"
      using charge_intro [OF *(4,5,6,7) total(1) refl] total(2) by simp
    show "credited (if isVal then be_nat am + 3 * (fee div 4) else 3 * (fee div 4)) vb ve"
      using *(12) vb y by (auto simp: credited_def bal_update_def bal_nat_def)
  qed (use *(8,13) in \<open>auto split: if_splits\<close>)
qed

lemma transfer_verify_Some:
  assumes "transfer_verify E op = Some (ra, va)"
  shows "bufferToAddress E (bytes (op_address op)) = Some ra"
    "bufferToAddress E (bytes (p_va (payload_of op))) = Some va"
    "bytes (op_address op) \<noteq> bytes (p_va (payload_of op))"
    "signature_verify E (bytes (p_is (payload_of op))) (bytes (p_tx (payload_of op)))
       (address_decodeSafe E (Some ra))"
    "bytes (p_tx (payload_of op)) = blake3Safe E (createMessage [Num (networkId E),
       Buf (bytes (p_txv (payload_of op))), Buf (bytes (p_to (payload_of op))),
       Buf (bytes (p_am (payload_of op))), Buf (bytes (p_in (payload_of op))), Num OT_TRANSFER])"
  using assms
  by (auto simp: transfer_verify_def Let_def flow addressAndKey_Some messageHash_Some)

text \<open>The final store of a transfer: the recipient is the sender, the validator, or a third party.\<close>

lemma handleApplyTransferOperation_success:
  assumes "handleApplyTransferOperation E op node s = Some (SUCCESS, s')"
  obtains ra va ta se reo ve isSelf isVal where
    "transfer_verify E op = Some (ra, va)" "isValidatorValidApply (batch s va) node"
    "batch s (txKey op) = None"
    "bufferToAddress E (bytes (p_to (payload_of op))) = Some ta"
    "isSelf = (bytes (op_address op) = bytes (p_to (payload_of op)))"
    "isVal = (bytes (p_to (payload_of op)) = bytes (p_va (payload_of op)))"
    "transfer ra ta va (batch s va) (bytes (p_am (payload_of op))) FEE isSelf isVal s = Done (se, reo, ve)"
    "base s' = base s" "events s' = events s"
    "batch s' = (if isSelf then (batch s)(ra \<mapsto> se, va \<mapsto> ve)
       else if isVal then (batch s)(ta \<mapsto> the reo, ra \<mapsto> se, va \<mapsto> ve)
       else (batch s)(ta \<mapsto> the reo, ra \<mapsto> se, va \<mapsto> ve, ta \<mapsto> the reo))(txKey op \<mapsto> node_value node)"
proof -
  define isSelf where "isSelf = (bytes (op_address op) = bytes (p_to (payload_of op)))"
  define isVal where "isVal = (bytes (p_to (payload_of op)) = bytes (p_va (payload_of op)))"
  obtain ra va ta pk se reo ve s1 where *:
    "transfer_verify E op = Some (ra, va)" "isValidatorValidApply (batch s va) node"
    "batch s (txKey op) = None"
    "addressAndKey E (bytes (p_to (payload_of op))) = Some (ta, pk)"
    "transfer ra ta va (batch s va) (bytes (p_am (payload_of op))) FEE isSelf isVal s = Done (se, reo, ve)"
    "(if \<not> isSelf then map_option (\<lambda>e. put ta e s) reo else Some s) = Some s1"
    "s' = put (txKey op) (node_value node) (case reo of
        Some e \<Rightarrow> if \<not> isSelf \<and> \<not> isVal then put ta e (put va ve (put ra se s1)) else put va ve (put ra se s1)
      | None \<Rightarrow> put va ve (put ra se s1))"
    using assms unfolding handleApplyTransferOperation_def Let_def txKey_def isSelf_def isVal_def
    by (auto simp: flow simp del: not_None_eq split del: if_split)
  have ta: "bufferToAddress E (bytes (p_to (payload_of op))) = Some ta"
    using *(4) by (simp add: addressAndKey_Some)
  show ?thesis
    by (rule that [OF *(1-3) ta isSelf_def isVal_def *(5)])
      (use *(6) in \<open>auto simp: *(7) split: if_splits option.splits\<close>)
qed

lemma transfer_settles:
  assumes "handleApplyTransferOperation E op node s = Some (SUCCESS, s')"
  shows "settles E op node s s'"
    "prefix_ok E \<Longrightarrow> ledger_ok E (batch s) \<Longrightarrow> canonical_op op \<Longrightarrow>
       total_supply E (batch s') + fee div 4 = total_supply E (batch s)"
proof -
  define am where "am = be_nat (bytes (p_am (payload_of op)))"
  obtain ra va ta se reo ve isSelf isVal where *: "transfer_verify E op = Some (ra, va)"
    "batch s (txKey op) = None" "bufferToAddress E (bytes (p_to (payload_of op))) = Some ta"
    "isSelf = (bytes (op_address op) = bytes (p_to (payload_of op)))"
    "isVal = (bytes (p_to (payload_of op)) = bytes (p_va (payload_of op)))"
    "transfer ra ta va (batch s va) (bytes (p_am (payload_of op))) FEE isSelf isVal s = Done (se, reo, ve)"
    "batch s' = (if isSelf then (batch s)(ra \<mapsto> se, va \<mapsto> ve)
       else if isVal then (batch s)(ta \<mapsto> the reo, ra \<mapsto> se, va \<mapsto> ve)
       else (batch s)(ta \<mapsto> the reo, ra \<mapsto> se, va \<mapsto> ve, ta \<mapsto> the reo))(txKey op \<mapsto> node_value node)"
    by (rule handleApplyTransferOperation_success [OF assms])
  note v = transfer_verify_Some [OF *(1)]
  have acc: "account E ra" "account E va" "account E ta"
    using v(1,2) *(3) by (auto dest: bufferToAddress_account)
  obtain sb vb where d: "length (bytes (p_am (payload_of op))) = 16" "batch s ra = Some sb" "batch s va = Some vb"
    "charged (if isSelf then fee else am + fee) sb se"
    "credited (if isVal then am + 3 * (fee div 4) else 3 * (fee div 4)) vb ve"
    "reo = (if isVal then Some ve else if isSelf then None
            else transfer_recipient ta (Balance (bytes (p_am (payload_of op)))) s)"
    "isSelf \<or> isVal \<or> reo \<noteq> None"
    unfolding am_def by (rule transfer_Done [OF *(6)])
  have not_both: "\<not> (isSelf \<and> isVal)" using *(4,5) v(3) by auto
  have taval: "isVal \<Longrightarrow> ta = va" using *(3,5) v(2) by simp
  have rec: "case batch s ta of None \<Rightarrow> good_entry re \<and> entry_holding re = am | Some tb \<Rightarrow> credited am tb re"
    if "\<not> isSelf" "\<not> isVal" "reo = Some re" for re
    unfolding am_def by (rule transfer_recipient_effect [OF _ d(1)]) (use d(6) that in simp)
  have fin: "finite (dom (batch s)) \<Longrightarrow> finite (dom (batch s'))" by (simp add: *(7))
  have led: "ledger_ok E (batch s')" if pre: "prefix_ok E" and l: "ledger_ok E (batch s)"
  proof -
    have se: "good_entry se" using charged_good [OF d(4) ledger_ok_entry [OF l acc(1) d(2)]] .
    have ve: "good_entry ve" using credited_good [OF d(5) ledger_ok_entry [OF l acc(2) d(3)]] .
    have "good_entry (the reo)" if ns: "\<not> isSelf"
    proof (cases isVal)
      case True
      then show ?thesis using d(6) ve by simp
    next
      case False
      then obtain re where re: "reo = Some re" using d(7) ns by auto
      then show ?thesis
        using rec [OF ns False re] credited_good ledger_ok_entry [OF l acc(3)]
        by (auto split: option.splits)
    qed
    then show ?thesis
      using se ve l pre by (simp add: *(7) ledger_puts key txKey_def)
  qed
  show sup: "total_supply E (batch s') + fee div 4 = total_supply E (batch s)"
    if pre: "prefix_ok E" and l: "ledger_ok E (batch s)" and can: "canonical_op op"
  proof (cases "isSelf \<or> isVal")
    case True
    have agree: "batch s' k = ((batch s)(ra \<mapsto> se, va \<mapsto> ve)) k" if "account E k" for k
    proof (cases isSelf)
      case True
      then show ?thesis using that pre by (simp add: *(7) key txKey_def)
    next
      case False
      with \<open>isSelf \<or> isVal\<close> have "isVal" by simp
      with False show ?thesis using that pre taval d(6) by (simp add: *(7) key txKey_def)
    qed
    have diff: "(if isVal then am + 3 * (fee div 4) else 3 * (fee div 4)) \<le> (if isSelf then fee else am + fee)"
      "(if isSelf then fee else am + fee) - (if isVal then am + 3 * (fee div 4) else 3 * (fee div 4)) = fee div 4"
      using True not_both fee_rest by auto
    show ?thesis
      by (rule two_parties(2) [OF acc(1,2) d(2,3) agree fin d(4,5) l canonical_parties [OF can v(1-3)] diff(1),
            unfolded diff(2)])
  next
    case False
    then obtain re where re: "reo = Some re" using d(7) by auto
    have neq: "ra \<noteq> va" "ra \<noteq> ta" "va \<noteq> ta"
      using canonical_parties [OF can v(1-3)] can v(1,2) *(3,4,5) False canonical_distinct
      by (auto simp: canonical_op_def bufferToAddress_Some)
    have "batch s' k = ((batch s)(ra \<mapsto> se, va \<mapsto> ve, ta \<mapsto> re)) k" if "account E k" for k
      using False that pre re by (simp add: *(7) key txKey_def)
    note three = supply_three [OF ledger_ok_finite [OF l] acc neq this]
    have "entry_holding re = holding (batch s) ta + am"
      using rec [OF _ _ re] False credited_holding by (auto simp: holding_def split: option.splits)
    then show ?thesis
      using three charged_holding [OF d(4)] credited_holding [OF d(5)] d(2,3) False fee_quarters by simp
  qed
  show "settles E op node s s'"
    unfolding settles_def genesis_over_def isApplyInitalizationDisabled_def
    using *(2) led sup acc by (fastforce simp: key txKey_def *(7))
qed

lemma transfer_unchanged: "unchanged s (handleApplyTransferOperation E op node s)"
  unfolding handleApplyTransferOperation_def by (intro unchanged_intros unchanged_outcome)

interpretation h_transfer: apply_handler handleApplyTransferOperation
  using unchangedD [OF transfer_unchanged] transfer_settles(1) by (rule apply_handlerI)

end
