(* ===== verification/Loop_Spec.thy ===== *)
theory Loop_Spec
  imports Apply_Loop Admin_Spec Whitelist_Spec Writer_Spec Indexer_Spec Network_Spec
begin

text \<open>
  The apply loop against the contract of the handlers: the penalty, the registries beside the accounts,
  which every handler keeps sound, one node, a batch, and runs of many batches as a step relation with its
  reachable states.
\<close>

section \<open>The dispatcher is a handler\<close>

definition dispatch :: "'b env \<Rightarrow> operation \<Rightarrow> apply_node \<Rightarrow> 'b astate \<Rightarrow> 'b result" where
  "dispatch E op node s =
     (case getApplyOperationHandler E (op_type op) of None \<Rightarrow> fail s | Some h \<Rightarrow> h op node s)"

lemma handler_cases:
  fixes E :: "'b env"
  assumes "getApplyOperationHandler E t = Some h"
  obtains H where "h = H E" "apply_handler (H :: 'b env \<Rightarrow> operation \<Rightarrow> apply_node \<Rightarrow> 'b astate \<Rightarrow> 'b result)"
  using assms
    h_initBalance.apply_handler_axioms h_disable.apply_handler_axioms h_addAdmin.apply_handler_axioms
    h_whitelist.apply_handler_axioms h_addWriter.apply_handler_axioms h_removeWriter.apply_handler_axioms
    h_adminRecovery.apply_handler_axioms h_addIndexer.apply_handler_axioms
    h_removeIndexer.apply_handler_axioms h_ban.apply_handler_axioms h_deployment.apply_handler_axioms
    h_tx.apply_handler_axioms h_transfer.apply_handler_axioms
  unfolding getApplyOperationHandler_def by (auto split: if_splits)

lemma dispatch_cases:
  assumes "dispatch E op node s = Some (st, s')"
  shows "st = FAILURE \<and> s' = s \<or> (\<exists>H. apply_handler H \<and> H E op node s = Some (st, s'))"
proof (cases "getApplyOperationHandler E (op_type op)")
  case None
  then show ?thesis using assms by (simp add: dispatch_def)
next
  case (Some h)
  from Some obtain H where "h = H E" "apply_handler H" by (rule handler_cases)
  then show ?thesis using assms Some by (auto simp: dispatch_def)
qed

interpretation disp: apply_handler dispatch
proof (unfold_locales, goal_cases)
  case (1 E s op node st s')
  then show ?case using dispatch_cases [of E op node s st s'] apply_handler.rejected by blast
next
  case (2 E op node s s')
  then show ?case using dispatch_cases [of E op node s SUCCESS s'] apply_handler.recorded by blast
next
  case (3 E op node s s' h v)
  then show ?case using dispatch_cases [of E op node s SUCCESS s'] apply_handler.log_kept by blast
next
  case (4 E s op node s')
  then show ?case using dispatch_cases [of E op node s SUCCESS s'] apply_handler.ledger_kept by blast
next
  case (5 E s op node s')
  then show ?case using dispatch_cases [of E op node s SUCCESS s'] apply_handler.genesis_kept by blast
next
  case (6 E s op node s')
  then show ?case using dispatch_cases [of E op node s SUCCESS s'] apply_handler.no_minting by blast
qed

lemma applyNode_dispatch:
  assumes "applyNode E node s = Some (invalid, s')"
  shows "invalid \<and> s' = s \<or> (\<exists>op st. Operation_decode E (node_value node) = Some op \<and>
     dispatch E op node s = Some (st, s') \<and> invalid = (st = FAILURE))"
  using assms by (auto simp: applyNode_def dispatch_def split: if_splits option.splits)

section \<open>The penalty\<close>

text \<open>Either nothing happens, or the validator's stake is gone, what the penalty left of it is back
  in the balance, and the key is no writer any more.\<close>

lemma penalty_effect:
  assumes "validatorPenaltyApply E wk n s = Some s'"
  shows "s' = s \<or> (\<exists>ae vab va vb vb' p. ae_decode E (batch s EntryType_ADMIN) = Some ae \<and> ae_wk ae \<noteq> wk \<and>
      batch s (EntryType_WRITER_ADDRESS @ to_hex wk) = Some vab \<and> bufferToAddress E vab = Some va \<and>
      bal_mul BALANCE_FEE (toTerm (int n)) = Some p \<and> bal_ok p \<and>
      batch s va = Some vb \<and> length vb' = 69 \<and> vb' ! 0 = WHITELISTED \<and> staked vb' = 0 \<and>
      liquid vb' = liquid vb + (staked vb - bal_nat p) \<and>
      base_removeWriter E wk (base s) = Some (base s') \<and> batch s' = (batch s)(va \<mapsto> vb') \<and>
      events s' = events s)"
proof -
  consider "s' = s" | aeb ae vab va pk vb r st p d where
    "batch s EntryType_ADMIN = Some aeb" "ae_decode E (Some aeb) = Some ae" "ae_wk ae \<noteq> wk"
    "batch s (EntryType_WRITER_ADDRESS @ to_hex wk) = Some vab" "addressAndKey E vab = Some (va, pk)"
    "batch s va = Some vb" "ne_decode (Some vb) = Some r" "toBalance (ne_stakedBalance r) = Some st"
    "bal_mul BALANCE_FEE (toTerm (int n)) = Some p"
    "(if bal_greaterThanOrEquals p st then Some BALANCE_ZERO else bal_sub st p) = Some d"
    "(if bal_greaterThan d BALANCE_ZERO
      then \<exists>x y b1 b2 b3 s1. toBalance (ne_balance r) = Some x \<and> bal_add x d = Some y \<and>
         bal_update y (Some vb) = Some b1 \<and> setStakedBalance (Some b1) (bal_value BALANCE_ZERO) = Some b2 \<and>
         setRole (Some b2) WHITELISTED = Some b3 \<and> removeWriterBase E wk s = Some s1 \<and> s' = put va b3 s1
      else \<exists>b2 b3 s1. setStakedBalance (Some vb) (bal_value BALANCE_ZERO) = Some b2 \<and>
         setRole (Some b2) WHITELISTED = Some b3 \<and> removeWriterBase E wk s = Some s1 \<and> s' = put va b3 s1)"
    using assms unfolding validatorPenaltyApply_def
    by (auto simp del: not_None_eq split: option.splits if_splits prod.splits)
  then show ?thesis
  proof cases
    case 1
    then show ?thesis by simp
  next
    case (2 aeb ae vab va pk vb r st p d)
    have p: "bal_ok p" using 2(9) by (auto simp: bal_mul_def toBalance_Some_iff split: if_splits)
    have st: "bal_ok st" "bal_nat st = staked vb"
      using toBalance_nat [OF 2(8)] decode_staked [OF 2(7)] by auto
    have d: "bal_ok d" "bal_nat d = staked vb - bal_nat p"
      using 2(10) bal.sub_Some [of st p d] bal.ge_iff [of p st] st p by (auto split: if_splits)
    have va: "bufferToAddress E vab = Some va" using 2(5) by (simp add: addressAndKey_Some)
    have "\<exists>b3 s1. length b3 = 69 \<and> b3 ! 0 = WHITELISTED \<and> staked b3 = 0 \<and>
        liquid b3 = liquid vb + (staked vb - bal_nat p) \<and> removeWriterBase E wk s = Some s1 \<and> s' = put va b3 s1"
    proof (cases "bal_greaterThan d BALANCE_ZERO")
      case True
      then obtain x y b1 b2 b3 s1 where b: "toBalance (ne_balance r) = Some x" "bal_add x d = Some y"
        "bal_update y (Some vb) = Some b1" "setStakedBalance (Some b1) (bal_value BALANCE_ZERO) = Some b2"
        "setRole (Some b2) WHITELISTED = Some b3" "removeWriterBase E wk s = Some s1" "s' = put va b3 s1"
        using 2(11) by auto
      have "credited (bal_nat d) vb b1" using credit_intro [OF 2(7) b(1-3) d(1)] by simp
      then show ?thesis
        using credited_effect [of "bal_nat d" vb b1] setStakedBalance_effect [OF b(4)] setRole_effect [OF b(5)]
          d(2) b(6,7) BALANCE_ZERO_nat(2) by (auto simp: bal_nat_def)
    next
      case False
      then obtain b2 b3 s1 where b: "setStakedBalance (Some vb) (bal_value BALANCE_ZERO) = Some b2"
        "setRole (Some b2) WHITELISTED = Some b3" "removeWriterBase E wk s = Some s1" "s' = put va b3 s1"
        using 2(11) by auto
      have "bal_nat d = 0" using False d(1) by (simp add: bal_greaterThan_iff)
      then show ?thesis
        using setStakedBalance_effect [OF b(1)] setRole_effect [OF b(2)] d(2) b(3,4) BALANCE_ZERO_nat(2)
        by (auto simp: bal_nat_def)
    qed
    then obtain b3 s1 where "length b3 = 69" "b3 ! 0 = WHITELISTED" "staked b3 = 0"
      "liquid b3 = liquid vb + (staked vb - bal_nat p)" "removeWriterBase E wk s = Some s1" "s' = put va b3 s1"
      by blast
    then show ?thesis
      using 2(1-4,6,9) va p removeWriterBase_batch [of E wk s s1] by auto
  qed
qed

lemma penalty_laws:
  assumes p: "validatorPenaltyApply E wk n s = Some s'" and pre: "prefix_ok E"
  shows "batch s' (to_hex h) = batch s (to_hex h)"
    "ledger_ok E (batch s) \<Longrightarrow> ledger_ok E (batch s')"
    "genesis_over s \<Longrightarrow> genesis_over s'"
    "ledger_ok E (batch s) \<Longrightarrow> total_supply E (batch s') \<le> total_supply E (batch s)"
proof -
  consider "s' = s" | va vb vb' p where "account E va" "batch s va = Some vb" "length vb' = 69"
      "vb' ! 0 = WHITELISTED" "staked vb' = 0" "liquid vb' = liquid vb + (staked vb - bal_nat p)"
      "batch s' = (batch s)(va \<mapsto> vb')"
    using penalty_effect [OF p] bufferToAddress_account by metis
  then have "batch s' (to_hex h) = batch s (to_hex h) \<and>
    (ledger_ok E (batch s) \<longrightarrow> ledger_ok E (batch s')) \<and> (genesis_over s \<longrightarrow> genesis_over s') \<and>
    (ledger_ok E (batch s) \<longrightarrow> total_supply E (batch s') \<le> total_supply E (batch s))"
  proof cases
    case 1
    then show ?thesis by simp
  next
    case (2 va vb vb' p)
    have "good_entry vb'" using 2 by (simp add: good_entry_def valid_entry_def isNodeRoleValid_iff role_defs)
    moreover have "entry_holding vb' \<le> entry_holding vb" using 2 by (simp add: entry_holding_eq)
    ultimately show ?thesis
      using 2(1,2) pre supply_put [OF ledger_ok_finite 2(1), of E "batch s" vb']
      by (auto simp: 2(7) ledger_puts key genesis_over_def isApplyInitalizationDisabled_def)
  qed
  then show "batch s' (to_hex h) = batch s (to_hex h)"
    "ledger_ok E (batch s) \<Longrightarrow> ledger_ok E (batch s')"
    "genesis_over s \<Longrightarrow> genesis_over s'"
    "ledger_ok E (batch s) \<Longrightarrow> total_supply E (batch s') \<le> total_supply E (batch s)"
    by blast+
qed

section \<open>The registries\<close>

text \<open>
  The records beside the accounts: the registered writer keys, the writers by their index, the licence
  numbers and the deployments each name an address whose account is there, and so does the
  administrator's record; the counters have four bytes and count entries that are there.
\<close>

definition counter :: "(string \<Rightarrow> buffer option) \<Rightarrow> string \<Rightarrow> nat" where
  "counter m k = (case m k of None \<Rightarrow> 0 | Some b \<Rightarrow> be_nat b)"

definition names_account :: "'b env \<Rightarrow> (string \<Rightarrow> buffer option) \<Rightarrow> buffer \<Rightarrow> bool" where
  "names_account E m v \<longleftrightarrow> (\<exists>a. bufferToAddress E v = Some a \<and> m a \<noteq> None)"

definition record_ok :: "'b env \<Rightarrow> (string \<Rightarrow> buffer option) \<Rightarrow> string \<Rightarrow> buffer \<Rightarrow> bool" where
  "record_ok E m k v \<longleftrightarrow>
     ((\<exists>x. k = EntryType_WRITER_ADDRESS @ x \<or> k = EntryType_WRITERS_INDEX @ x \<or>
         k = EntryType_LICENSE_INDEX @ x) \<longrightarrow> names_account E m v) \<and>
     ((\<exists>x. k = EntryType_DEPLOYMENT @ x) \<longrightarrow>
        (\<exists>d. de_decode (Some v) (addressLength E) = Some d \<and> names_account E m (de_address d))) \<and>
     (k = EntryType_ADMIN \<longrightarrow>
        (\<exists>r a. ae_decode E (Some v) = Some r \<and> ae_address r = Some a \<and> m a \<noteq> None)) \<and>
     (k = EntryType_WRITERS_LENGTH \<or> k = EntryType_LICENSE_COUNT \<longrightarrow> length v = 4) \<and>
     (k = EntryType_INITIALIZATION \<longrightarrow> v = safeWriteUInt32BE 0 \<or> v = safeWriteUInt32BE 1)"

definition registries_ok :: "'b env \<Rightarrow> (string \<Rightarrow> buffer option) \<Rightarrow> bool" where
  "registries_ok E m \<longleftrightarrow> (\<forall>k v. m k = Some v \<longrightarrow> record_ok E m k v) \<and>
     (\<forall>n < counter m EntryType_WRITERS_LENGTH. m (EntryType_WRITERS_INDEX @ show_nat n) \<noteq> None) \<and>
     (\<forall>n < counter m EntryType_LICENSE_COUNT. m (EntryType_LICENSE_INDEX @ show_nat (n + 1)) \<noteq> None)"

lemma names_accountI: "bufferToAddress E v = Some a \<Longrightarrow> m a \<noteq> None \<Longrightarrow> names_account E m v"
  by (auto simp: names_account_def)

lemma counter_upd [simp]: "counter (m(k \<mapsto> v)) k' = (if k' = k then be_nat v else counter m k')"
  by (simp add: counter_def)

lemma index_keys [key]:
  "EntryType_WRITERS_INDEX @ x \<noteq> EntryType_WRITERS_LENGTH" "EntryType_LICENSE_INDEX @ x \<noteq> EntryType_LICENSE_COUNT"
  "EntryType_WRITERS_INDEX @ x \<noteq> EntryType_LICENSE_INDEX @ y"
  by (simp_all add: EntryType_WRITERS_INDEX_def EntryType_WRITERS_LENGTH_def EntryType_LICENSE_INDEX_def
      EntryType_LICENSE_COUNT_def)

lemmas index_keys_sym [key] = index_keys [symmetric]

lemma record_kinds:
  "prefix_ok E \<Longrightarrow> account E k \<Longrightarrow> record_ok E m k v"
  "record_ok E m (to_hex h) v"
  "record_ok E m (EntryType_WRITER_ADDRESS @ x) v \<longleftrightarrow> names_account E m v"
  "record_ok E m (EntryType_WRITERS_INDEX @ x) v \<longleftrightarrow> names_account E m v"
  "record_ok E m (EntryType_LICENSE_INDEX @ x) v \<longleftrightarrow> names_account E m v"
  "record_ok E m (EntryType_DEPLOYMENT @ x) v \<longleftrightarrow>
     (\<exists>d. de_decode (Some v) (addressLength E) = Some d \<and> names_account E m (de_address d))"
  "record_ok E m EntryType_ADMIN v \<longleftrightarrow>
     (\<exists>r a. ae_decode E (Some v) = Some r \<and> ae_address r = Some a \<and> m a \<noteq> None)"
  "record_ok E m EntryType_WRITERS_LENGTH v \<longleftrightarrow> length v = 4"
  "record_ok E m EntryType_LICENSE_COUNT v \<longleftrightarrow> length v = 4"
  "record_ok E m EntryType_INITIALIZATION v \<longleftrightarrow> v = safeWriteUInt32BE 0 \<or> v = safeWriteUInt32BE 1"
  by (auto simp: record_ok_def key)

lemma dom_mono: "dom m \<subseteq> dom m' \<Longrightarrow> m k \<noteq> None \<Longrightarrow> m' k \<noteq> None"
  by blast

lemma names_account_mono: "names_account E m v \<Longrightarrow> dom m \<subseteq> dom m' \<Longrightarrow> names_account E m' v"
  unfolding names_account_def using dom_mono by fast

lemma record_mono:
  assumes r: "record_ok E m k v" and d: "dom m \<subseteq> dom m'"
  shows "record_ok E m' k v"
proof -
  have "\<exists>r a. ae_decode E (Some v) = Some r \<and> ae_address r = Some a \<and> m' a \<noteq> None" if "k = EntryType_ADMIN"
    using r that dom_mono [OF d] unfolding record_ok_def by metis
  moreover have "\<exists>d. de_decode (Some v) (addressLength E) = Some d \<and> names_account E m' (de_address d)"
    if "\<exists>x. k = EntryType_DEPLOYMENT @ x"
    using r that names_account_mono [OF _ d] unfolding record_ok_def by blast
  ultimately show ?thesis
    using r names_account_mono [OF _ d] unfolding record_ok_def by blast
qed

text \<open>What a step that only adds records has to show: the new records, and the entries newly counted.\<close>

lemma registries_step:
  assumes r: "registries_ok E m" and d: "dom m \<subseteq> dom m'"
    and new: "\<And>k v. m' k = Some v \<Longrightarrow> m k \<noteq> Some v \<Longrightarrow> record_ok E m' k v"
    and writers: "\<And>n. n < counter m' EntryType_WRITERS_LENGTH \<Longrightarrow> \<not> n < counter m EntryType_WRITERS_LENGTH \<Longrightarrow>
      m' (EntryType_WRITERS_INDEX @ show_nat n) \<noteq> None"
    and licences: "\<And>n. n < counter m' EntryType_LICENSE_COUNT \<Longrightarrow> \<not> n < counter m EntryType_LICENSE_COUNT \<Longrightarrow>
      m' (EntryType_LICENSE_INDEX @ show_nat (n + 1)) \<noteq> None"
  shows "registries_ok E m'"
  unfolding registries_ok_def
proof (intro conjI allI impI)
  show "record_ok E m' k v" if "m' k = Some v" for k v
    using that new [OF that] r record_mono [OF _ d, of E k v] by (cases "m k = Some v") (simp_all add: registries_ok_def)
  show "m' (EntryType_WRITERS_INDEX @ show_nat n) \<noteq> None" if "n < counter m' EntryType_WRITERS_LENGTH" for n
    using writers [OF that] r dom_mono [OF d] unfolding registries_ok_def by blast
  show "m' (EntryType_LICENSE_INDEX @ show_nat (n + 1)) \<noteq> None" if "n < counter m' EntryType_LICENSE_COUNT" for n
    using licences [OF that] r dom_mono [OF d] unfolding registries_ok_def by blast
qed

lemma counter_length:
  assumes "registries_ok E (batch s)"
  shows "updateWritersIndex s = Some (n, l) \<Longrightarrow>
      n = counter (batch s) EntryType_WRITERS_LENGTH \<and> be_nat l = n + 1 \<and> length l = 4"
    "applyAssignNewLicense s = Some (l, n) \<Longrightarrow>
      n = counter (batch s) EntryType_LICENSE_COUNT + 1 \<and> be_nat l = n \<and> length l = 4"
proof -
  have four: "batch s EntryType_WRITERS_LENGTH = Some b \<Longrightarrow> length b = 4"
    "batch s EntryType_LICENSE_COUNT = Some b \<Longrightarrow> length b = 4" for b
    using assms record_kinds(8,9) unfolding registries_ok_def by blast+
  show "n = counter (batch s) EntryType_WRITERS_LENGTH \<and> be_nat l = n + 1 \<and> length l = 4"
    if "updateWritersIndex s = Some (n, l)"
    using that updateWritersIndex_Some [OF that] four(1)
    by (auto simp: updateWritersIndex_def counter_def decodeBE_def le_init_def alloc_def split: option.splits if_splits)
  show "n = counter (batch s) EntryType_LICENSE_COUNT + 1 \<and> be_nat l = n \<and> length l = 4"
    if "applyAssignNewLicense s = Some (l, n)"
  proof -
    define cnt where "cnt = (case batch s EntryType_LICENSE_COUNT of None \<Rightarrow> decodeBE le_init | Some b \<Rightarrow> decodeBE b)"
    have cnt: "(case cnt of None \<Rightarrow> None | Some c \<Rightarrow> (case incrementBE c of None \<Rightarrow> None
        | Some l' \<Rightarrow> map_option (Pair l') (decodeBE l'))) = Some (l, n)"
      using that by (simp add: cnt_def applyAssignNewLicense_def applyGetLicenseCount_def cong: option.case_cong)
    obtain c l' where c: "cnt = Some c" and l': "incrementBE c = Some l'"
      and n: "map_option (Pair l') (decodeBE l') = Some (l, n)"
      using cnt by (auto split: option.splits)
    have "n = c + 1" using l' n decodeBE_encodeBE [of "c + 1" l'] by (simp add: incrementBE_def)
    moreover have "c = counter (batch s) EntryType_LICENSE_COUNT"
      using c four(2) by (auto simp: cnt_def counter_def decodeBE_def le_init_def alloc_def split: option.splits if_splits)
    ultimately show ?thesis using applyAssignNewLicense_Some [OF that] by simp
  qed
qed

text \<open>The records of the administrator and of a deployment, as the handlers write them.\<close>

lemma admin_record:
  assumes "bufferToAddress E a = Some ra" "length w = 32"
  shows "\<exists>r. ae_decode E (Some (a @ w)) = Some r \<and> ae_address r = Some ra"
  using ae_decode_encode [of E a w] ae_encode_eq [of E a w] assms by (auto simp: bufferToAddress_Some)

lemma deployment_record:
  assumes "length h = 32" "length a = addressLength E"
  shows "\<exists>d. de_decode (Some (h @ a)) (addressLength E) = Some d \<and> de_address d = a"
  using assms by (auto simp: de_decode_def subarray_def)

text \<open>Every handler keeps the registries; where only accounts change this is immediate.\<close>

lemma registries_accounts:
  assumes r: "registries_ok E m" and pre: "prefix_ok E" and d: "dom m \<subseteq> dom m'"
    and new: "\<And>k. m' k \<noteq> m k \<Longrightarrow> account E k \<or> (\<exists>h. k = to_hex h)"
  shows "registries_ok E m'"
proof (rule registries_step [OF r d])
  show "record_ok E m' k v" if "m' k = Some v" "m k \<noteq> Some v" for k v
    using new [of k] that pre by (auto simp: record_kinds)
  have same: "m' EntryType_WRITERS_LENGTH = m EntryType_WRITERS_LENGTH"
    "m' EntryType_LICENSE_COUNT = m EntryType_LICENSE_COUNT"
    using new [of EntryType_WRITERS_LENGTH] new [of EntryType_LICENSE_COUNT] account_fixed(2,7) [OF pre] hex_fixed(2,7)
    by metis+
  then have "counter m' EntryType_WRITERS_LENGTH = counter m EntryType_WRITERS_LENGTH"
    "counter m' EntryType_LICENSE_COUNT = counter m EntryType_LICENSE_COUNT" by (simp_all add: counter_def)
  then show "m' (EntryType_WRITERS_INDEX @ show_nat n) \<noteq> None"
    if "n < counter m' EntryType_WRITERS_LENGTH" "\<not> n < counter m EntryType_WRITERS_LENGTH" for n
    using that by simp
  show "m' (EntryType_LICENSE_INDEX @ show_nat (n + 1)) \<noteq> None"
    if "n < counter m' EntryType_LICENSE_COUNT" "\<not> n < counter m EntryType_LICENSE_COUNT" for n
    using that \<open>counter m' EntryType_LICENSE_COUNT = counter m EntryType_LICENSE_COUNT\<close> by simp
qed

definition keeps_registries :: "'b env \<Rightarrow> 'b astate \<Rightarrow> 'b astate \<Rightarrow> bool" where
  "keeps_registries E s s' \<longleftrightarrow>
     (prefix_ok E \<longrightarrow> registries_ok E (batch s) \<longrightarrow> registries_ok E (batch s'))"

lemma only_accounts:
  assumes "dom (batch s) \<subseteq> dom (batch s')"
    and "\<And>k. batch s' k \<noteq> batch s k \<Longrightarrow> account E k \<or> (\<exists>h. k = to_hex h)"
  shows "keeps_registries E s s'"
  using registries_accounts [OF _ _ assms] by (simp add: keeps_registries_def)

lemma initializeBalance_registries:
  assumes "handleApplyInitializeBalanceOperation E op node s = Some (SUCCESS, s')"
  shows "keeps_registries E s s'"
  by (rule handleApplyInitializeBalanceOperation_success [OF assms], rule only_accounts)
    (auto simp: txKey_def bufferToAddress_account split: if_splits)

lemma transfer_registries:
  assumes "handleApplyTransferOperation E op node s = Some (SUCCESS, s')"
  shows "keeps_registries E s s'"
  by (rule handleApplyTransferOperation_success [OF assms], rule only_accounts)
    (auto simp: txKey_def dest: bufferToAddress_account transfer_verify_Some(1,2) split: if_splits)

lemma tx_registries:
  assumes "handleApplyTxOperation E op node s = Some (SUCCESS, s')"
  shows "keeps_registries E s s'"
  by (rule handleApplyTxOperation_success [OF assms], rule only_accounts)
    (auto simp: txKey_def dest: bufferToAddress_account tx_verify_Some(1,2) split: if_splits option.splits)

lemma ban_registries:
  assumes "handleApplyBanValidatorOperation E op node s = Some (SUCCESS, s')"
  shows "keeps_registries E s s'"
  by (rule handleApplyBanValidatorOperation_success [OF assms], rule only_accounts)
    (auto simp: txKey_def dest: bufferToAddress_account banValidator_verify_Some(1,2) split: if_splits)

lemma addIndexer_registries:
  assumes "handleApplyAddIndexerOperation E op node s = Some (SUCCESS, s')"
  shows "keeps_registries E s s'"
proof -
  obtain ra ta tx where v: "indexer_verify OT_ADD_INDEXER E op node s = Some (ra, ta, tx)"
    and a: "addIndexer E node tx ta ra s = Some (SUCCESS, s')"
    using assms unfolding handleApplyAddIndexerOperation_def by (auto simp: flow)
  show ?thesis
    by (rule addIndexer_success [OF a], rule only_accounts)
      (use indexer_verify_Some(1-3) [OF v] in
        \<open>auto simp: txKey_def dest: bufferToAddress_account split: if_splits\<close>)
qed

lemma removeWriter_registries:
  assumes "handleApplyRemoveWriterOperation E op node s = Some (SUCCESS, s')"
  shows "keeps_registries E s s'"
proof -
  obtain ra va where v: "removeWriter_verify E op = Some (ra, va)"
    and r: "removeWriter E op node (txKey op) ra va (batch s va) s = Some (SUCCESS, s')"
    by (rule handleApplyRemoveWriterOperation_success [OF assms])
  show ?thesis
    by (rule removeWriter_success [OF r], rule only_accounts)
      (use removeWriter_verify_Some(1,2) [OF v] in
        \<open>auto simp: txKey_def dest: bufferToAddress_account split: if_splits\<close>)
qed

lemma penalty_registries:
  assumes "validatorPenaltyApply E wk n s = Some s'"
  shows "keeps_registries E s s'"
  using penalty_effect [OF assms]
  by (elim disjE exE conjE, simp add: keeps_registries_def, intro only_accounts)
    (auto dest: bufferToAddress_account split: if_splits)

lemma disable_registries:
  assumes "handleApplyDisableBalanceInitializationOperation E op node s = Some (SUCCESS, s')"
  shows "keeps_registries E s s'"
  unfolding keeps_registries_def
  by (rule handleApplyDisableBalanceInitializationOperation_success [OF assms], intro impI,
      rule registries_step)
    (auto simp: txKey_def key record_kinds split: if_splits)

lemma deployment_registries:
  assumes "handleApplyBootstrapDeploymentOperation E op node s = Some (SUCCESS, s')"
  shows "keeps_registries E s s'"
proof -
  obtain ra va rb rb' vb' where v: "bootstrapDeployment_verify E op = Some (ra, va)"
    and ra: "batch s ra = Some rb"
    and s': "batch s' = (batch s)(deploymentKey op \<mapsto> bytes (p_tx (payload_of op)) @ bytes (op_address op),
       ra \<mapsto> rb', va \<mapsto> vb', txKey op \<mapsto> node_value node)"
    by (rule handleApplyBootstrapDeploymentOperation_success [OF assms])
  note v = bootstrapDeployment_verify_Some [OF v]
  have acc: "account E ra" "account E va" using v(1,2) by (auto dest: bufferToAddress_account)
  have named: "names_account E (batch s') (bytes (op_address op))"
    using v(1) by (rule names_accountI) (simp add: s' ra)
  show ?thesis
    unfolding keeps_registries_def
    by (intro impI, rule registries_step)
      (use acc named deployment_record [OF v(4,8)] in
        \<open>auto simp: s' txKey_def deploymentKey_def key record_kinds split: if_splits\<close>)
qed

lemma addAdmin_registries:
  assumes "handleApplyAddAdminOperation E op node s = Some (SUCCESS, s')"
  shows "keeps_registries E s s'"
  unfolding keeps_registries_def
proof (intro impI)
  assume pre: "prefix_ok E" and r: "registries_ok E (batch s)"
  obtain ra l n k l' e where v: "addAdmin_verify E op node s = Some ra"
    and lic: "applyAssignNewLicense s = Some (l, n)" and idx: "prefix_ok E \<longrightarrow> updateWritersIndex s = Some (k, l')"
    and s': "batch s' = (batch s)(EntryType_LICENSE_COUNT \<mapsto> l,
       EntryType_LICENSE_INDEX @ show_nat n \<mapsto> bytes (op_address op), ra \<mapsto> e, wkaKey op \<mapsto> bytes (op_address op),
       EntryType_WRITERS_INDEX @ show_nat k \<mapsto> bytes (op_address op), EntryType_WRITERS_LENGTH \<mapsto> l',
       EntryType_ADMIN \<mapsto> bytes (op_address op) @ bytes (p_iw (payload_of op)),
       EntryType_INITIALIZATION \<mapsto> safeWriteUInt32BE 1, txKey op \<mapsto> node_value node)"
    by (rule handleApplyAddAdminOperation_success [OF assms])
  note v = addAdmin_verify_Some(1,4) [OF v]
  have acc: "account E ra" using v(1) by (rule bufferToAddress_account)
  have there: "batch s' ra \<noteq> None" using acc pre by (simp add: s' key txKey_def wkaKey_def)
  have "names_account E (batch s') (bytes (op_address op))" using v(1) there by (rule names_accountI)
  then show "registries_ok E (batch s')"
    using pre acc there admin_record [OF v] counter_length(1) [OF r, of k l'] counter_length(2) [OF r lic] idx
    by (intro registries_step [OF r])
      (auto simp: s' txKey_def wkaKey_def key record_kinds less_Suc_eq split: if_splits)
qed

lemma adminRecovery_registries:
  assumes "handleApplyAdminRecoveryOperation E op node s = Some (SUCCESS, s')"
  shows "keeps_registries E s s'"
  unfolding keeps_registries_def
proof (intro impI)
  assume pre: "prefix_ok E" and r: "registries_ok E (batch s)"
  obtain ra pk va rb' vb' where v: "adminRecovery_verify E op = Some (ra, pk, va)"
    and s': "batch s' = (batch s)(wkaKey op \<mapsto> bytes (op_address op),
       EntryType_ADMIN \<mapsto> bytes (op_address op) @ bytes (p_iw (payload_of op)),
       ra \<mapsto> rb', va \<mapsto> vb', txKey op \<mapsto> node_value node)"
    by (rule handleApplyAdminRecoveryOperation_success [OF assms])
  note v = adminRecovery_verify_Some [OF v]
  have acc: "account E ra" "account E va" using v(1,2) by (auto dest: bufferToAddress_account)
  have there: "batch s' ra \<noteq> None" by (simp add: s')
  have "names_account E (batch s') (bytes (op_address op))" using v(1) there by (rule names_accountI)
  then show "registries_ok E (batch s')"
    using pre acc there admin_record [OF v(1,4)]
    by (intro registries_step [OF r]) (auto simp: s' txKey_def wkaKey_def key record_kinds less_Suc_eq split: if_splits)
qed

lemma addWriter_registries:
  assumes "handleApplyAddWriterOperation E op node s = Some (SUCCESS, s')"
  shows "keeps_registries E s s'"
  unfolding keeps_registries_def
proof (intro impI)
  assume pre: "prefix_ok E" and r: "registries_ok E (batch s)"
  obtain ra va where v: "addWriter_verify E op = Some (ra, va)"
    and a: "addWriter E op node (txKey op) ra va (batch s va) s = Some (SUCCESS, s')"
    by (rule handleApplyAddWriterOperation_success [OF assms])
  note v = addWriter_verify_Some(1,2) [OF v]
  have acc: "account E ra" "account E va" using v by (auto dest: bufferToAddress_account)
  obtain rb' vb' s1 len l where s1: "s1 = (if batch s (wkaKey op) = None
        then (batch s)(ra \<mapsto> rb', wkaKey op \<mapsto> bytes (op_address op)) else (batch s)(ra \<mapsto> rb'))"
    and s': "batch s' = s1(EntryType_WRITERS_INDEX @ show_nat len \<mapsto> bytes (op_address op),
         EntryType_WRITERS_LENGTH \<mapsto> l, va \<mapsto> vb', txKey op \<mapsto> node_value node)"
    and idx: "prefix_ok E \<longrightarrow> account E ra \<longrightarrow> updateWritersIndex s = Some (len, l)"
    by (rule addWriter_success [OF a])
  have there: "batch s' ra \<noteq> None" using acc pre by (simp add: s' s1 key txKey_def wkaKey_def)
  have "names_account E (batch s') (bytes (op_address op))" using v(1) there by (rule names_accountI)
  then show "registries_ok E (batch s')"
    using pre acc counter_length(1) [OF r, of len l] idx
    by (intro registries_step [OF r])
      (auto simp: s' s1 txKey_def wkaKey_def key record_kinds less_Suc_eq split: if_splits)
qed

lemma removeIndexer_registries:
  assumes "handleApplyRemoveIndexerOperation E op node s = Some (SUCCESS, s')"
  shows "keeps_registries E s s'"
  unfolding keeps_registries_def
proof (intro impI)
  assume pre: "prefix_ok E" and r: "registries_ok E (batch s)"
  obtain ra ta tx where v: "indexer_verify OT_REMOVE_INDEXER E op node s = Some (ra, ta, tx)"
    and rem: "removeIndexer E node tx ta (bytes (p_ia (payload_of op))) ra s = Some (SUCCESS, s')"
    using assms unfolding handleApplyRemoveIndexerOperation_def by (auto simp: flow)
  note v = indexer_verify_Some(1-3) [OF v]
  have acc: "account E ra" "account E ta" using v(1,2) by (auto dest: bufferToAddress_account)
  obtain tb' ab' n l where s': "batch s' = (batch s)(EntryType_WRITERS_INDEX @ show_nat n \<mapsto> bytes (p_ia (payload_of op)),
       EntryType_WRITERS_LENGTH \<mapsto> l, ta \<mapsto> tb', ra \<mapsto> ab', tx \<mapsto> node_value node)"
    and idx: "updateWritersIndex s = Some (n, l)"
    by (rule removeIndexer_success [OF rem])
  have "names_account E (batch s') (bytes (p_ia (payload_of op)))" using v(2) by (rule names_accountI) (simp add: s')
  then show "registries_ok E (batch s')"
    using pre acc counter_length(1) [OF r idx]
    by (intro registries_step [OF r]) (auto simp: s' v(3) txKey_def key record_kinds less_Suc_eq split: if_splits)
qed

lemma whitelist_registries:
  assumes "handleApplyAppendWhitelistOperation E op node s = Some (SUCCESS, s')"
  shows "keeps_registries E s s'"
  unfolding keeps_registries_def
proof (intro impI)
  assume pre: "prefix_ok E" and r: "registries_ok E (batch s)"
  obtain ra na s1 s2 nb where v: "appendWhitelist_verify E op node s = Some (ra, na)"
    and f: "appendWhitelist_fee ra s = Some s1"
    and w: "whitelisted_entry (bytes (p_ia (payload_of op))) (batch s na) s1 nb s2"
    and s': "s' = put (txKey op) (node_value node) (put na nb s2)"
    by (rule handleApplyAppendWhitelistOperation_success [OF assms])
  note v = appendWhitelist_verify_Some(1,2) [OF v]
  have acc: "account E ra" "account E na" using v by (auto dest: bufferToAddress_account)
  have "keeps_registries E s s1"
    using appendWhitelist_fee_Some [OF f] acc by (intro only_accounts) (auto split: if_splits)
  then have r1: "registries_ok E (batch s1)" using pre r by (simp add: keeps_registries_def)
  have "names_account E (batch s') (bytes (p_ia (payload_of op)))" using v(2) by (rule names_accountI) (simp add: s')
  moreover have "s2 = s1 \<or> (\<exists>l n. applyAssignNewLicense s1 = Some (l, n) \<and>
      s2 = put (EntryType_LICENSE_INDEX @ show_nat n) (bytes (p_ia (payload_of op))) (put EntryType_LICENSE_COUNT l s1))"
    using w applyAssignNewLicense_Some unfolding whitelisted_entry_def
    by (auto simp: assignLicense_def flow split: option.splits if_splits)
  ultimately show "registries_ok E (batch s')"
    using pre acc counter_length(2) [OF r1]
    by (intro registries_step [OF r1]) (auto simp: s' txKey_def key record_kinds less_Suc_eq split: if_splits)
qed

lemmas handler_registries =
  initializeBalance_registries disable_registries addAdmin_registries whitelist_registries
  addWriter_registries removeWriter_registries adminRecovery_registries addIndexer_registries
  removeIndexer_registries ban_registries deployment_registries tx_registries transfer_registries

lemma dispatch_registries:
  assumes "prefix_ok E" "ledger_ok E (batch s)" "dispatch E op node s = Some (st, s')"
  shows "registries_ok E (batch s) \<Longrightarrow> registries_ok E (batch s')"
proof (cases "st = SUCCESS")
  case True
  have "keeps_registries E s s'"
    using assms(3) handler_registries unfolding True dispatch_def getApplyOperationHandler_def
    by (auto split: if_splits)
  then show "registries_ok E (batch s) \<Longrightarrow> registries_ok E (batch s')"
    using assms(1) by (simp add: keeps_registries_def)
next
  case False
  then show "registries_ok E (batch s) \<Longrightarrow> registries_ok E (batch s')"
    using disp.rejected [OF assms] by simp
qed

section \<open>Nodes and batches\<close>

definition canonical_node :: "'b env \<Rightarrow> apply_node \<Rightarrow> bool" where
  "canonical_node E node \<longleftrightarrow>
     (case Operation_decode E (node_value node) of None \<Rightarrow> True | Some op \<Rightarrow> canonical_op op)"

text \<open>What every turn of the loop keeps. The supply is bounded only after the genesis phase.\<close>

definition keeps :: "'b env \<Rightarrow> bool \<Rightarrow> 'b astate \<Rightarrow> 'b astate \<Rightarrow> bool" where
  "keeps E canonical s s' \<longleftrightarrow> ledger_ok E (batch s') \<and>
     (registries_ok E (batch s) \<longrightarrow> registries_ok E (batch s')) \<and>
     (\<forall>h v. batch s (to_hex h) = Some v \<longrightarrow> batch s' (to_hex h) = Some v) \<and>
     (genesis_over s \<longrightarrow> genesis_over s' \<and>
        (canonical \<longrightarrow> total_supply E (batch s') \<le> total_supply E (batch s)))"

lemma keeps_refl: "ledger_ok E (batch s) \<Longrightarrow> keeps E c s s"
  by (simp add: keeps_def)

lemma keeps_trans: "keeps E c s s1 \<Longrightarrow> keeps E c s1 s2 \<Longrightarrow> keeps E c s s2"
  by (auto simp: keeps_def)

lemma keeps_mono: "keeps E c s s' \<Longrightarrow> (c' \<Longrightarrow> c) \<Longrightarrow> keeps E c' s s'"
  by (auto simp: keeps_def)

lemma applyNode_keeps:
  assumes "applyNode E node s = Some (invalid, s')" "prefix_ok E" "ledger_ok E (batch s)"
  shows "keeps E (canonical_node E node) s s'"
  using applyNode_dispatch [OF assms(1)]
proof
  assume "invalid \<and> s' = s"
  then show ?thesis using assms(3) by (simp add: keeps_refl)
next
  assume "\<exists>op st. Operation_decode E (node_value node) = Some op \<and>
     dispatch E op node s = Some (st, s') \<and> invalid = (st = FAILURE)"
  then obtain op st where op: "Operation_decode E (node_value node) = Some op"
    "dispatch E op node s = Some (st, s')" by blast
  then show ?thesis
    using disp.step_ledger [OF assms(2,3) op(2)] dispatch_registries [OF assms(2,3) op(2)] disp.step_log [OF assms(2,3) op(2)]
      disp.step_genesis [OF assms(2,3) _ op(2)] disp.step_supply [OF assms(2,3) _ _ op(2)]
    by (auto simp: keeps_def canonical_node_def)
qed

lemma applyNodes_keeps:
  assumes "applyNodes E nodes n s = Some (k, s')" "prefix_ok E" "ledger_ok E (batch s)"
  shows "keeps E (\<forall>node \<in> set nodes. canonical_node E node) s s'"
  using assms
proof (induction nodes arbitrary: n s)
  case Nil
  then show ?case by (simp add: keeps_refl)
next
  case (Cons node nodes)
  then obtain inv s1 where 1: "applyNode E node s = Some (inv, s1)"
    and 2: "applyNodes E nodes (if inv then n + 1 else n) s1 = Some (k, s')"
    by (auto split: option.splits)
  have k1: "keeps E (canonical_node E node) s s1" using applyNode_keeps [OF 1 Cons.prems(2,3)] .
  then have "ledger_ok E (batch s1)" by (simp add: keeps_def)
  from Cons.IH [OF 2 Cons.prems(2) this] k1 show ?case
    by (auto intro: keeps_trans keeps_mono)
qed

lemma applyNodes_count:
  "applyNodes E nodes n s = Some (k, s') \<Longrightarrow> n \<le> k \<and> k \<le> n + length nodes"
proof (induction nodes arbitrary: n s)
  case Nil
  then show ?case by simp
next
  case (Cons node nodes)
  then show ?case by (force split: option.splits if_splits)
qed

lemma apply_batch_keeps:
  assumes a: "apply_batch E nodes s = Some s'" and pre: "prefix_ok E" and l: "ledger_ok E (batch s)"
  shows "keeps E (\<forall>node \<in> set nodes. canonical_node E node) s s'"
proof (cases "length nodes > BATCH_SIZE")
  case True
  then have "validatorPenaltyApply E (from_key (hd nodes)) BATCH_SIZE s = Some s'"
    using a by (auto simp: apply_batch_def split: if_splits)
  note pl = penalty_laws [OF this pre] and pr = penalty_registries [OF this]
  show ?thesis using pl pr l pre by (simp add: keeps_def keeps_registries_def)
next
  case False
  then obtain k s1 where n: "applyNodes E nodes 0 s = Some (k, s1)"
    and p: "if k > 0 then validatorPenaltyApply E (from_key (hd nodes)) k s1 = Some s' else s' = s1"
    using a by (auto simp: apply_batch_def split: if_splits option.splits)
  have k1: "keeps E (\<forall>node \<in> set nodes. canonical_node E node) s s1"
    using applyNodes_keeps [OF n pre l] .
  have l1: "ledger_ok E (batch s1)" using k1 by (simp add: keeps_def)
  have "keeps E (\<forall>node \<in> set nodes. canonical_node E node) s1 s'"
  proof (cases "k > 0")
    case True
    with p have "validatorPenaltyApply E (from_key (hd nodes)) k s1 = Some s'" by simp
    note pl = penalty_laws [OF this pre] and pr = penalty_registries [OF this]
    show ?thesis using pl pr l1 pre by (simp add: keeps_def keeps_registries_def)
  next
    case False
    then show ?thesis using p l1 by (simp add: keeps_refl)
  qed
  with k1 show ?thesis by (rule keeps_trans)
qed

section \<open>Runs\<close>

text \<open>A run applies one batch after the other; a batch that throws is not flushed and is no step.\<close>

inductive reachable :: "'b env \<Rightarrow> bool \<Rightarrow> 'b astate \<Rightarrow> 'b astate \<Rightarrow> bool"
  for E :: "'b env" and canonical :: bool and s0 :: "'b astate" where
  start: "reachable E canonical s0 s0"
| step: "reachable E canonical s0 s \<Longrightarrow> apply_batch E nodes s = Some s' \<Longrightarrow>
    (canonical \<Longrightarrow> \<forall>node \<in> set nodes. canonical_node E node) \<Longrightarrow> reachable E canonical s0 s'"

inductive_cases reachableE: "reachable E c s0 s"

lemma reachable_keeps:
  assumes "reachable E c s0 s" "prefix_ok E" "ledger_ok E (batch s0)"
  shows "keeps E c s0 s"
  using assms
proof (induction rule: reachable.induct)
  case start
  then show ?case by (simp add: keeps_refl)
next
  case (step s nodes s')
  then have k: "keeps E c s0 s" by blast
  then have "ledger_ok E (batch s)" by (simp add: keeps_def)
  from apply_batch_keeps [OF step(2,5) this] step(3) have "keeps E c s s'"
    by (auto intro: keeps_mono)
  with k show ?case by (rule keeps_trans)
qed

end
