(* ===== verification/Settlement.thy ===== *)
theory Settlement
  imports Ledger
begin

text \<open>
  The amounts of the model in closed form: every routine of \<open>Balance\<close> equals one written on natural
  numbers, a payment from or to an entry succeeds exactly when it fits, and no sum of two different
  accounts overflows while the whole supply fits in 16 bytes. The runs of the handlers are computed with these.
\<close>

section \<open>Amounts as numbers\<close>

definition amount :: "nat \<Rightarrow> buffer" where
  "amount n = bigIntTo16ByteBuffer (int n)"

lemma length_amount [simp, buf]: "length (amount n) = 16"
  by (simp add: amount_def)

lemma be_nat_amount [simp]: "n < 2 ^ 128 \<Longrightarrow> be_nat (amount n) = n"
  by (simp add: amount_def nat_mod_distrib)

lemma amount_be_nat [simp]: "length b = 16 \<Longrightarrow> amount (be_nat b) = b"
  using be_nat_bound [of b] be_nat_inj [of "amount (be_nat b)" b] by simp

lemma bal_eq_amount: "bal_ok x \<Longrightarrow> bal_nat x = n \<Longrightarrow> x = Balance (amount n)"
  by (cases x) (auto simp: bal_ok_def bal_nat_def)

lemma bal_add_eq:
  assumes "bal_ok x" "bal_ok y"
  shows "bal_add x y = (if bal_nat x + bal_nat y < 2 ^ 128 then Some (Balance (amount (bal_nat x + bal_nat y))) else None)"
  using bal.add_ok [OF assms] bal.add_overflow [OF assms] bal_eq_amount by fastforce

lemma bal_sub_eq:
  assumes "bal_ok x" "bal_ok y"
  shows "bal_sub x y = (if bal_nat y \<le> bal_nat x then Some (Balance (amount (bal_nat x - bal_nat y))) else None)"
  using bal.sub_ok [OF assms] bal.sub_underflow [OF assms] bal_eq_amount by fastforce

lemma bal_mul_eq:
  assumes "bal_ok x" "length m = 16"
  shows "bal_mul x m = (if bal_nat x * be_nat m < 2 ^ 128 then Some (Balance (amount (bal_nat x * be_nat m))) else None)"
  using bal_mul_nat [OF assms] bal_eq_amount by (auto split: if_splits)

lemma bal_percentage_eq:
  assumes "bal_ok x" "length p = 16"
  shows "bal_percentage x p = (if bal_nat x * be_nat p < 2 ^ 128
     then Some (Balance (amount (bal_nat x * be_nat p div 10000))) else None)"
  using bal_percentage_nat [OF assms] bal_eq_amount by (auto split: if_splits)

section \<open>Payments\<close>

lemma entry_balance:
  assumes "length b = 69"
  shows "\<exists>r x y. ne_decode (Some b) = Some r \<and> toBalance (ne_balance r) = Some x \<and> bal_ok x \<and> bal_nat x = liquid b \<and>
     toBalance (ne_stakedBalance r) = Some y \<and> bal_ok y \<and> bal_nat y = staked b"
  using assms by (auto simp: ne_decode_Some toBalance_Some_iff buf liquid_def staked_def)

text \<open>The fields a handler reads from an entry of the right size.\<close>

definition decoded :: "buffer \<Rightarrow> node_entry" where
  "decoded b = the (ne_decode (Some b))"

definition balance_of :: "buffer \<Rightarrow> Balance" where
  "balance_of b = Balance (subarray 33 49 b)"

lemma decoded [simp]:
  assumes "length b = 69"
  shows "ne_decode (Some b) = Some (decoded b)" "toBalance (ne_balance (decoded b)) = Some (balance_of b)"
    "bal_ok (balance_of b)" "bal_nat (balance_of b) = liquid b"
    "ne_wk (decoded b) = subarray 1 33 b" "ne_license (decoded b) = subarray 49 53 b"
    "ne_isWriter (decoded b) \<longleftrightarrow> b ! 0 AND WRITER_MASK \<noteq> 0"
    "ne_isIndexer (decoded b) \<longleftrightarrow> b ! 0 AND INDEXER_MASK \<noteq> 0"
    "ne_isWhitelisted (decoded b) \<longleftrightarrow> b ! 0 AND WHITELISTED_MASK \<noteq> 0"
  using assms
  by (simp_all add: decoded_def balance_of_def ne_decode_Some toBalance_def buf liquid_def)

lemma liquid_bound: "length b = 69 \<Longrightarrow> liquid b < 2 ^ 128"
  using be_nat_bound [of "subarray 33 49 b"] by (simp add: liquid_def buf)

lemma ge_liquid [simp]: "length b = 69 \<Longrightarrow> bal_ok f \<Longrightarrow> bal_greaterThanOrEquals (balance_of b) f \<longleftrightarrow> bal_nat f \<le> liquid b"
  by (simp add: bal.ge_iff)

text \<open>An entry whose balance was replaced.\<close>

definition with_liquid :: "nat \<Rightarrow> buffer \<Rightarrow> buffer" where
  "with_liquid n b = copy_into (amount n) 33 b"

lemma with_liquid [simp]:
  assumes "length b = 69"
  shows "length (with_liquid n b) = 69" "with_liquid n b ! 0 = b ! 0" "staked (with_liquid n b) = staked b"
    "n < 2 ^ 128 \<Longrightarrow> liquid (with_liquid n b) = n" "subarray 1 33 (with_liquid n b) = subarray 1 33 b"
    "with_liquid m (with_liquid n b) = with_liquid m b"
  using assms by (simp_all add: with_liquid_def copy_field liquid_def staked_def copy_into_copy_into_same)

lemma bal_update_with_liquid [simp]:
  "length b = 69 \<Longrightarrow> bal_update (Balance (amount n)) (Some b) = Some (with_liquid n b)"
  by (simp add: bal_update_def setBalance_def with_liquid_def)

lemma pay [simp]:
  assumes "length b = 69" "bal_ok f"
  shows "bal_sub (balance_of b) f = (if bal_nat f \<le> liquid b then Some (Balance (amount (liquid b - bal_nat f))) else None)"
    "bal_add (balance_of b) f = (if liquid b + bal_nat f < 2 ^ 128 then Some (Balance (amount (liquid b + bal_nat f))) else None)"
  using assms by (simp_all add: bal_sub_eq bal_add_eq)

lemma setRole_Some [simp]:
  "length b = 69 \<Longrightarrow> isNodeRoleValid role \<Longrightarrow> setRole (Some b) role = Some (b[0 := role])"
  by (simp add: setRole_def copy_whole)

lemma roles_valid [simp]:
  "isNodeRoleValid READER" "isNodeRoleValid WHITELISTED" "isNodeRoleValid WRITER" "isNodeRoleValid INDEXER"
  by (simp_all add: isNodeRoleValid_iff role_defs)

section \<open>No overflow below the supply\<close>

lemma two_holdings:
  assumes "finite (dom m)" "account E x" "account E y" "x \<noteq> y"
  shows "holding m x + holding m y \<le> total_supply E m"
  using supply_two [OF assms, of "m(x \<mapsto> [], y \<mapsto> [])" "[]" "[]"]
  by (simp add: entry_holding_def subarray_def)

lemma liquid_le_holding: "m k = Some b \<Longrightarrow> liquid b \<le> holding m k"
  by (simp add: entry_holding_eq)

lemma liquid_le_supply: "finite (dom m) \<Longrightarrow> account E k \<Longrightarrow> m k = Some b \<Longrightarrow> liquid b \<le> total_supply E m"
  using holding_le_supply [of m E k] liquid_le_holding [of m k b] by linarith

lemma two_liquids:
  assumes "finite (dom m)" "account E x" "account E y" "x \<noteq> y" "m x = Some a" "m y = Some b"
  shows "liquid a + liquid b \<le> total_supply E m"
  using two_holdings [OF assms(1-4)] liquid_le_holding [of m x a] liquid_le_holding [of m y b] assms(5,6)
  by simp

end
