(* ===== verification/Acceptance.thy ===== *)
theory Acceptance
  imports Loop_Spec Settlement
begin

text \<open>
  The other half of the handlers: an operation that passes its guards, is funded and finds the
  accounts it needs succeeds. No amount overflows because the whole supply fits in 16 bytes, so
  no handler throws or rejects there. The hypotheses are the guards of the code, stated on the state
  before the operation.
\<close>

section \<open>TRANSFER\<close>

definition transferCost :: "operation \<Rightarrow> nat" where
  "transferCost op = (if bytes (op_address op) = bytes (p_to (payload_of op)) then fee
     else be_nat (bytes (p_am (payload_of op))) + fee)"

lemma account_nonempty: "\<not> account E []"
  by (auto simp: isAddressValid_def startsWith_def split: option.splits)

lemma isValidator_length: "isValidatorValidApply (batch s va) node \<Longrightarrow> \<exists>vb. batch s va = Some vb \<and> length vb = 69"
  by (cases "batch s va") (auto simp: isValidatorValidApply_iff dest: ne_decode_length)

lemma transfer_Done_intro:
  assumes len: "length am = 16" "length sb = 69" "length vb = 69" and s: "batch s ra = Some sb"
    and names: "ra \<noteq> []" "ta \<noteq> []" "va \<noteq> []"
    and cost: "(if isSelf then fee else be_nat am + fee) \<le> liquid sb"
    and val: "liquid vb + (if isVal then be_nat am else 0) + 3 * (fee div 4) < 2 ^ 128"
    and rec: "\<not> isSelf \<Longrightarrow> \<not> isVal \<Longrightarrow> (case batch s ta of None \<Rightarrow> True | Some tb \<Rightarrow> length tb = 69 \<and> liquid tb + be_nat am < 2 ^ 128)"
  shows "\<exists>e. transfer ra ta va (Some vb) am FEE isSelf isVal s = Done e"
proof -
  have am: "toBalance am = Some (Balance am)" using len by (simp add: toBalance_Some_iff)
  have total: "\<exists>x. (if isSelf then Some BALANCE_FEE else bal_add (Balance am) BALANCE_FEE) = Some x \<and> bal_ok x \<and>
      bal_nat x = (if isSelf then fee else be_nat am + fee)"
    using cost liquid_bound [OF len(2)] len by (cases isSelf) (auto simp: bal_add_eq)
  have recip: "\<exists>x. (if \<not> isSelf \<and> \<not> isVal then map_option Some (transfer_recipient ta (Balance am) s) else Some None) = Some x"
    using rec len ne_init_length [of ZERO_WK READER am ZERO_LICENSE ZERO_BALANCE]
    by (cases isSelf; cases isVal; cases "batch s ta") (auto simp: transfer_recipient_def Let_def)
  have vbal: "\<exists>x. transfer_validatorBalance isVal (balance_of vb) (Balance am) reward75 = Some (Some (Balance (amount x)))"
    using val len by (cases isVal) (auto simp: transfer_validatorBalance_def bal_add_eq)
  show ?thesis
    using total recip vbal am len names s cost
    by (auto simp: transfer_def split del: if_split)
qed

lemma transfer_accepts:
  assumes l: "ledger_ok E (batch s)" and small: "total_supply E (batch s) < 2 ^ 128"
    and v: "transfer_verify E op = Some (ra, va)" and can: "canonical_op op"
    and i: "indexersMatch E (bytes (p_txv (payload_of op))) s"
    and val: "isValidatorValidApply (batch s va) node" and new: "batch s (txKey op) = None"
    and t: "addressAndKey E (bytes (p_to (payload_of op))) = Some (ta, pk)"
    and s: "batch s ra = Some sb" and cost: "transferCost op \<le> liquid sb"
  shows "\<exists>s'. handleApplyTransferOperation E op node s = Some (SUCCESS, s')"
proof -
  define isSelf where "isSelf = (bytes (op_address op) = bytes (p_to (payload_of op)))"
  define isVal where "isVal = (bytes (p_to (payload_of op)) = bytes (p_va (payload_of op)))"
  note w = transfer_verify_Some [OF v]
  have acc: "account E ra" "account E va" "account E ta"
    using w(1,2) t by (auto dest: bufferToAddress_account simp: addressAndKey_Some)
  obtain vb where vb: "batch s va = Some vb" "length vb = 69" using isValidator_length [OF val] by auto
  have sb: "length sb = 69" using good_entry_length [OF ledger_ok_entry [OF l acc(1) s]] .
  have am: "length (bytes (p_am (payload_of op))) = 16"
    using v validateTransferOperation_bytes(4) [of E op "payload_of op"]
    by (auto simp: transfer_verify_def Let_def split: if_splits)
  have ne: "ra \<noteq> va" using canonical_parties [OF can w(1-3)] .
  have self: "isSelf \<longrightarrow> \<not> isVal" using w(3) by (auto simp: isSelf_def isVal_def)
  have 1: "liquid sb + liquid vb < 2 ^ 128"
    using two_liquids [OF ledger_ok_finite [OF l] acc(1,2) ne s vb(1)] small by linarith
  have 2: "liquid sb + liquid tb < 2 ^ 128 \<and> length tb = 69" if tb: "batch s ta = Some tb" "\<not> isSelf" for tb
  proof -
    have "ra \<noteq> ta"
      using canonical_distinct [of "bytes (op_address op)" "bytes (p_to (payload_of op))"] can that(2) w(1) t
      by (auto simp: canonical_op_def isSelf_def bufferToAddress_Some addressAndKey_Some)
    then show ?thesis
      using two_liquids [OF ledger_ok_finite [OF l] acc(1,3) _ s tb(1)] small
        good_entry_length [OF ledger_ok_entry [OF l acc(3) tb(1)]] by linarith
  qed
  have c: "(if isSelf then fee else be_nat (bytes (p_am (payload_of op))) + fee) \<le> liquid sb"
    using cost by (simp add: transferCost_def isSelf_def)
  have "\<exists>e. transfer ra ta va (batch s va) (bytes (p_am (payload_of op))) FEE isSelf isVal s = Done e"
    unfolding vb(1)
  proof (rule transfer_Done_intro [OF am sb vb(2) s _ _ _ c])
    show "ra \<noteq> []" "ta \<noteq> []" "va \<noteq> []" using acc account_nonempty by blast+
    show "liquid vb + (if isVal then be_nat (bytes (p_am (payload_of op))) else 0) + 3 * (fee div 4) < 2 ^ 128"
      using 1 c self fee_rest(2) by (cases isVal; cases isSelf) auto
    show "case batch s ta of None \<Rightarrow> True | Some tb \<Rightarrow> length tb = 69 \<and>
        liquid tb + be_nat (bytes (p_am (payload_of op))) < 2 ^ 128" if "\<not> isSelf" "\<not> isVal"
      using 2 [OF _ that(1)] c that by (auto split: option.split)
  qed
  then obtain se reo ve where d: "transfer ra ta va (batch s va) (bytes (p_am (payload_of op))) FEE isSelf isVal s
      = Done (se, reo, ve)" by (metis prod_cases3)
  moreover have "isSelf \<or> reo \<noteq> None" using transfer_Done [OF d] by (metis option.distinct(1))
  ultimately show ?thesis
    using v i val new t
    by (cases reo) (auto simp: handleApplyTransferOperation_def Let_def txKey_def isSelf_def isVal_def)
qed

lemma transfer_insufficient:
  assumes v: "transfer_verify E op = Some (ra, va)"
    and i: "indexersMatch E (bytes (p_txv (payload_of op))) s"
    and val: "isValidatorValidApply (batch s va) node" and new: "batch s (txKey op) = None"
    and t: "addressAndKey E (bytes (p_to (payload_of op))) = Some (ta, pk)"
    and s: "batch s ra = Some sb" "length sb = 69"
    and cost: "liquid sb < transferCost op" "transferCost op < 2 ^ 128"
  shows "handleApplyTransferOperation E op node s = Some (IGNORE, s)"
proof -
  define isSelf where "isSelf = (bytes (op_address op) = bytes (p_to (payload_of op)))"
  define isVal where "isVal = (bytes (p_to (payload_of op)) = bytes (p_va (payload_of op)))"
  define am where "am = bytes (p_am (payload_of op))"
  note w = transfer_verify_Some [OF v]
  have names: "ra \<noteq> []" "ta \<noteq> []" "va \<noteq> []"
    using w(1,2) t account_nonempty [of E] by (auto dest!: bufferToAddress_account simp: addressAndKey_Some)
  obtain vb where vb: "batch s va = Some vb" using isValidator_length [OF val] by auto
  have am: "length am = 16" unfolding am_def
    using v validateTransferOperation_bytes(4) [of E op "payload_of op"]
    by (auto simp: transfer_verify_def Let_def split: if_splits)
  have tb: "toBalance am = Some (Balance am)" using am by (simp add: toBalance_Some_iff)
  have total: "\<exists>x. (if isSelf then Some BALANCE_FEE else bal_add (Balance am) BALANCE_FEE) = Some x \<and> bal_ok x \<and>
      bal_nat x = transferCost op"
    using cost am by (cases isSelf) (auto simp: bal_add_eq transferCost_def isSelf_def am_def)
  have "transfer ra ta va (batch s va) am FEE isSelf isVal s = Skipped"
    using total tb s names cost vb by (auto simp: transfer_def split del: if_split)
  then show ?thesis
    using v i val new t by (simp add: handleApplyTransferOperation_def Let_def txKey_def isSelf_def isVal_def am_def)
qed

section \<open>BOOTSTRAP_DEPLOYMENT and TX\<close>

text \<open>The room left in the validator's balance by a requester who pays.\<close>

lemma validator_room:
  assumes l: "ledger_ok E (batch s)" and small: "total_supply E (batch s) < 2 ^ 128"
    and acc: "account E ra" "account E va" "ra \<noteq> va" and s: "batch s ra = Some rb" "batch s va = Some vb"
    and paid: "fee \<le> liquid rb"
  shows "length rb = 69" "length vb = 69" "liquid vb + fee < 2 ^ 128"
proof -
  show "length rb = 69" "length vb = 69"
    using good_entry_length ledger_ok_entry [OF l] acc s by blast+
  show "liquid vb + fee < 2 ^ 128"
    using two_liquids [OF ledger_ok_finite [OF l] acc s] small paid by linarith
qed

lemma deployment_accepts:
  assumes l: "ledger_ok E (batch s)" and small: "total_supply E (batch s) < 2 ^ 128"
    and v: "bootstrapDeployment_verify E op = Some (ra, va)" and can: "canonical_op op"
    and i: "indexersMatch E (bytes (p_txv (payload_of op))) s"
    and val: "isValidatorValidApply (batch s va) node" and new: "batch s (txKey op) = None"
    and free: "batch s (deploymentKey op) = None" and s: "batch s ra = Some rb" and paid: "fee \<le> liquid rb"
  shows "\<exists>s'. handleApplyBootstrapDeploymentOperation E op node s = Some (SUCCESS, s')"
proof -
  note w = bootstrapDeployment_verify_Some [OF v]
  have acc: "account E ra" "account E va" using w(1,2) by (auto dest: bufferToAddress_account)
  obtain vb where vb: "batch s va = Some vb" using isValidator_length [OF val] by auto
  note room = validator_room [OF l small acc canonical_parties [OF can w(1-3)] s vb paid]
  have "de_encode E (bytes (p_tx (payload_of op))) (bytes (op_address op)) \<noteq> []"
    using w(1,4) by (auto simp: de_encode_eq bufferToAddress_Some)
  then show ?thesis
    using v i val new free s vb room paid fee_rest(2)
    by (auto simp: handleApplyBootstrapDeploymentOperation_def Let_def txKey_def deploymentKey_def)
qed

lemma tx_accepts:
  assumes l: "ledger_ok E (batch s)" and small: "total_supply E (batch s) < 2 ^ 128"
    and v: "tx_verify E op = Some (ra, va)" and can: "canonical_op op"
    and i: "indexersMatch E (bytes (p_txv (payload_of op))) s"
    and val: "isValidatorValidApply (batch s va) node" and new: "batch s (txKey op) = None"
    and dep: "de_decode (batch s (deploymentKey op)) (addressLength E) = Some d"
    and ca: "bufferToAddress E (de_address d) = Some ca" and cb: "batch s ca = Some cb"
    and s: "batch s ra = Some rb" and paid: "fee \<le> liquid rb"
  shows "\<exists>s'. handleApplyTxOperation E op node s = Some (SUCCESS, s')"
proof -
  note w = tx_verify_Some [OF v]
  have acc: "account E ra" "account E va" "account E ca"
    using w(1,2) ca by (auto dest: bufferToAddress_account)
  then have names: "ra \<noteq> []" "va \<noteq> []" "ca \<noteq> []" using account_nonempty by blast+
  obtain vb where vb: "batch s va = Some vb" using isValidator_length [OF val] by auto
  note room = validator_room [OF l small acc(1,2) canonical_parties [OF can w(1-3)] s vb paid]
  have cb69: "length cb = 69" using good_entry_length [OF ledger_ok_entry [OF l acc(3) cb]] .
  have room_c: "liquid cb + fee < 2 ^ 128" if "ra \<noteq> ca"
    using two_liquids [OF ledger_ok_finite [OF l] acc(1,3) that s cb] small paid by linarith
  have "\<exists>e. transferFeeTxOperation ra va (batch s va) ca BALANCE_FEE s = Done e"
    using names s vb cb room cb69 room_c paid fee_rest
    by (cases "ra = ca") (auto simp: transferFeeTxOperation_def Let_def bal_add_eq)
  moreover have "batch s (deploymentKey op) \<noteq> None" using dep by (auto simp: de_decode_def split: if_splits)
  ultimately show ?thesis
    using v i val new dep ca by (auto simp: handleApplyTxOperation_def Let_def txKey_def deploymentKey_def)
qed

section \<open>ADD_WRITER and REMOVE_WRITER\<close>

lemma stakeBalanceApply_accepts:
  assumes "length b = 69" "10 * fee \<le> liquid b"
  shows "\<exists>b'. stakeBalanceApply (Some b) = Some b'"
proof -
  have "length (bal_value BALANCE_TO_STAKE) = 16" using BALANCE_TO_STAKE_nat(1) by (simp add: bal_ok_def)
  then show ?thesis using assms by (auto simp: stakeBalanceApply_def setStakedBalance_def)
qed

lemma withdrawStakedBalanceApply_accepts:
  assumes "length b = 69" "0 < staked b" "entry_holding b < 2 ^ 128"
  shows "\<exists>b'. withdrawStakedBalanceApply (Some b) = Some b'"
proof -
  obtain x where x: "toBalance (ne_stakedBalance (decoded b)) = Some x" "bal_ok x" "bal_nat x = staked b"
    using entry_balance [OF assms(1)] assms(1) by auto
  have "length (bal_value BALANCE_ZERO) = 16" by (simp add: BALANCE_ZERO_def)
  then show ?thesis
    using x assms
    by (auto simp: withdrawStakedBalanceApply_def setStakedBalance_def bal_greaterThan_iff entry_holding_eq)
qed

lemma setRoleAndWriterKey_Some:
  assumes "length b = 69" "length wk = 32" "isNodeRoleValid role"
  shows "\<exists>b1. setRoleAndWriterKey (Some b) role wk = Some b1 \<and> length b1 = 69 \<and> liquid b1 = liquid b"
proof -
  have "setRoleAndWriterKey (Some b) role wk = Some (copy_into wk 1 (b[0 := role]))"
    using assms by (simp add: setRoleAndWriterKey_def)
  then show ?thesis using setRoleAndWriterKey_effect(1,4) by blast
qed

lemma addWriter_accepts:
  assumes pre: "prefix_ok E" and l: "ledger_ok E (batch s)" and small: "total_supply E (batch s) < 2 ^ 128"
    and v: "addWriter_verify E op = Some (ra, va)" and can: "canonical_op op"
    and i: "indexersMatch E (bytes (p_txv (payload_of op))) s"
    and val: "isValidatorValidApply (batch s va) node" and new: "batch s (txKey op) = None"
    and s: "batch s ra = Some rb" and role: "rb ! 0 = WHITELISTED"
    and wk: "batch s (wkaKey op) = None \<or> subarray 1 33 rb = bytes (p_iw (payload_of op)) \<and>
       batch s (wkaKey op) = Some (bytes (op_address op))"
    and paid: "11 * fee \<le> liquid rb"
    and base: "base_addWriter E (bytes (p_iw (payload_of op))) False (base s) \<noteq> None"
    and idx: "updateWritersIndex s \<noteq> None"
  shows "\<exists>s'. handleApplyAddWriterOperation E op node s = Some (SUCCESS, s')"
proof -
  note w = addWriter_verify_Some [OF v]
  have acc: "account E ra" "account E va" using w(1,2) by (auto dest: bufferToAddress_account)
  obtain vb where vb: "batch s va = Some vb" using isValidator_length [OF val] by auto
  have "fee \<le> liquid rb" using paid by simp
  note room = validator_room [OF l small acc canonical_parties [OF can w(1-3)] s vb this]
  obtain b1 where b1: "setRoleAndWriterKey (Some rb) WRITER (bytes (p_iw (payload_of op))) = Some b1"
    "length b1 = 69" "liquid b1 = liquid rb"
    using setRoleAndWriterKey_Some [OF room(1) w(4), of WRITER] by auto
  have "10 * fee \<le> liquid (with_liquid (liquid rb - fee) b1)"
    using paid b1 liquid_bound [OF room(1)] by simp
  then obtain b2 where b2: "stakeBalanceApply (Some (with_liquid (liquid rb - fee) b1)) = Some b2"
    using stakeBalanceApply_accepts [of "with_liquid (liquid rb - fee) b1"] b1 by auto
  obtain bs where bs: "addWriterBase E (bytes (p_iw (payload_of op))) False s = Some (s\<lparr>base := bs\<rparr>)"
    using base by (auto simp: addWriterBase_def)
  obtain n len where n: "updateWritersIndex s = Some (n, len)" using idx by auto
  have "EntryType_WRITERS_LENGTH \<noteq> ra" "EntryType_WRITERS_LENGTH \<noteq> EntryType_WRITER_ADDRESS @ x" for x
    using account_neq(7) [OF pre acc(1)] by (auto simp: EntryType_WRITER_ADDRESS_def EntryType_WRITERS_LENGTH_def)
  then have idx': "updateWritersIndex (put ra b2 (s\<lparr>base := bs\<rparr>)) = Some (n, len)"
    "updateWritersIndex (put (EntryType_WRITER_ADDRESS @ k) x (put ra b2 (s\<lparr>base := bs\<rparr>))) = Some (n, len)" for k x
    using updateWritersIndex_cong [of "put ra b2 (s\<lparr>base := bs\<rparr>)" s] n
      updateWritersIndex_cong [of "put (EntryType_WRITER_ADDRESS @ k) x (put ra b2 (s\<lparr>base := bs\<rparr>))" s] by auto
  have flags: "\<not> ne_isIndexer (decoded rb)" "\<not> ne_isWriter (decoded rb)" "ne_isWhitelisted (decoded rb)"
    using role room(1) by (simp_all add: role_defs)
  have "\<exists>s'. addWriter E op node (txKey op) ra va (batch s va) s = Some (SUCCESS, s')"
    using s vb room b1 b2 bs idx' wk flags paid fee_rest(2) unfolding addWriter_def Let_def
    by (auto simp: wkaKey_def)
  then show ?thesis
    using v i val new by (simp add: handleApplyAddWriterOperation_def Let_def txKey_def)
qed

lemma removeWriter_accepts:
  assumes l: "ledger_ok E (batch s)" and small: "total_supply E (batch s) < 2 ^ 128"
    and v: "removeWriter_verify E op = Some (ra, va)" and can: "canonical_op op"
    and i: "indexersMatch E (bytes (p_txv (payload_of op))) s"
    and val: "isValidatorValidApply (batch s va) node" and new: "batch s (txKey op) = None"
    and s: "batch s ra = Some rb" and role: "rb ! 0 = WRITER"
    and wk: "subarray 1 33 rb = bytes (p_iw (payload_of op))" "batch s (wkaKey op) = Some (bytes (op_address op))"
    and paid: "fee \<le> liquid rb"
    and base: "base_removeWriter E (bytes (p_iw (payload_of op))) (base s) \<noteq> None"
  shows "\<exists>s'. handleApplyRemoveWriterOperation E op node s = Some (SUCCESS, s')"
proof -
  note w = removeWriter_verify_Some [OF v]
  have acc: "account E ra" "account E va" using w(1,2) by (auto dest: bufferToAddress_account)
  obtain vb where vb: "batch s va = Some vb" using isValidator_length [OF val] by auto
  note room = validator_room [OF l small acc canonical_parties [OF can w(1-3)] s vb paid]
  define b1 where "b1 = with_liquid (liquid rb - fee) (rb[0 := WHITELISTED])"
  have u: "length (rb[0 := WHITELISTED]) = 69" "staked (rb[0 := WHITELISTED]) = staked rb"
    using room(1) by (simp_all add: staked_def subarray_update_0)
  have "staked rb = 10 * fee" using ledger_ok_entry [OF l acc(1) s] role by (simp add: good_entry_def)
  moreover have "entry_holding rb \<le> total_supply E (batch s)"
    using holding_le_supply [OF ledger_ok_finite [OF l] acc(1)] s by simp
  ultimately have "length b1 = 69" "0 < staked b1" "entry_holding b1 < 2 ^ 128"
    using u small liquid_bound [OF room(1)] by (simp_all add: b1_def entry_holding_eq fee_def)
  then obtain b2 where b2: "withdrawStakedBalanceApply (Some b1) = Some b2"
    using withdrawStakedBalanceApply_accepts by blast
  obtain bs where bs: "removeWriterBase E (bytes (p_iw (payload_of op))) s = Some (s\<lparr>base := bs\<rparr>)"
    using base by (auto simp: removeWriterBase_def)
  have flags: "\<not> ne_isIndexer (decoded rb)" "ne_isWriter (decoded rb)"
    using role room(1) by (simp_all add: role_defs)
  have "\<exists>s'. removeWriter E op node (txKey op) ra va (batch s va) s = Some (SUCCESS, s')"
    using s vb room u b2 bs wk flags paid fee_rest(2) unfolding removeWriter_def Let_def
    by (auto simp: wkaKey_def b1_def)
  then show ?thesis
    using v i val new by (simp add: handleApplyRemoveWriterOperation_def Let_def txKey_def)
qed

section \<open>The administrator's operations\<close>

lemma ban_accepts:
  assumes l: "ledger_ok E (batch s)" and small: "total_supply E (batch s) < 2 ^ 128"
    and v: "banValidator_verify E op node s = Some (ra, ta)"
    and t: "batch s ta = Some tb" and role: "tb ! 0 = WHITELISTED \<or> tb ! 0 = WRITER"
    and s: "batch s ra = Some ab" and paid: "fee \<le> liquid ab"
    and base: "tb ! 0 = WRITER \<Longrightarrow> base_removeWriter E (subarray 1 33 tb) (base s) \<noteq> None"
  shows "\<exists>s'. handleApplyBanValidatorOperation E op node s = Some (SUCCESS, s')"
proof -
  note w = banValidator_verify_Some [OF v]
  have acc: "account E ra" "account E ta" using w(1,2) by (auto dest: bufferToAddress_account)
  have len: "length ab = 69" "length tb = 69"
    using good_entry_length ledger_ok_entry [OF l] acc s t by blast+
  define b1 where "b1 = tb[0 := READER]"
  have u: "length b1 = 69" "staked b1 = staked tb" "liquid b1 = liquid tb" "subarray 1 33 b1 = subarray 1 33 tb"
    using len by (simp_all add: b1_def staked_def liquid_def subarray_update_0)
  have flags: "isWhitelisted (Some tb)" "\<not> isIndexer (Some tb)" "isWriter (Some tb) \<longleftrightarrow> tb ! 0 = WRITER"
    using role len by (auto simp: isWhitelisted_def isIndexer_def isWriter_def role_defs)
  have wd: "\<exists>b2. withdrawStakedBalanceApply (Some b1) = Some b2" if "tb ! 0 = WRITER"
  proof -
    have "staked tb = 10 * fee" using ledger_ok_entry [OF l acc(2) t] that by (simp add: good_entry_def)
    moreover have "entry_holding tb \<le> total_supply E (batch s)"
      using holding_le_supply [OF ledger_ok_finite [OF l] acc(2)] t by simp
    ultimately show ?thesis
      using u small by (intro withdrawStakedBalanceApply_accepts) (simp_all add: entry_holding_eq fee_def)
  qed
  have rm: "\<exists>bs. removeWriterBase E (subarray 1 33 tb) s = Some bs" if "tb ! 0 = WRITER"
    using base [OF that] by (auto simp: removeWriterBase_def)
  show ?thesis
    using v s t len u flags wd rm paid
    by (cases "tb ! 0 = WRITER") (auto simp: handleApplyBanValidatorOperation_def Let_def b1_def)
qed

lemma addIndexer_accepts:
  assumes l: "ledger_ok E (batch s)"
    and v: "indexer_verify OT_ADD_INDEXER E op node s = Some (ra, ta, tx)"
    and t: "batch s ta = Some tb" and role: "tb ! 0 = WRITER"
    and s: "batch s ra = Some ab" and paid: "fee \<le> liquid ab"
    and idx: "isWriterKeyInIndexerListApply E (subarray 1 33 tb) s \<noteq> Some True"
    and base: "base_removeWriter E (subarray 1 33 tb) (base s) = Some bs"
      "base_addWriter E (subarray 1 33 tb) True bs \<noteq> None"
  shows "\<exists>s'. handleApplyAddIndexerOperation E op node s = Some (SUCCESS, s')"
proof -
  note w = indexer_verify_Some [OF v]
  have acc: "account E ra" "account E ta" using w(1,2) by (auto dest: bufferToAddress_account)
  have len: "length ab = 69" "length tb = 69"
    using good_entry_length ledger_ok_entry [OF l] acc s t by blast+
  have flags: "isWriter (Some tb)" "\<not> isIndexer (Some tb)"
    using role len by (auto simp: isWhitelisted_def isIndexer_def isWriter_def role_defs)
  show ?thesis
    using v s t len flags paid idx base
    by (auto simp: handleApplyAddIndexerOperation_def addIndexer_def Let_def removeWriterBase_def addWriterBase_def)
qed

lemma removeIndexer_accepts:
  assumes l: "ledger_ok E (batch s)"
    and v: "indexer_verify OT_REMOVE_INDEXER E op node s = Some (ra, ta, tx)"
    and t: "batch s ta = Some tb" and role: "tb ! 0 = INDEXER"
    and s: "batch s ra = Some ab" and paid: "fee \<le> liquid ab"
    and idx: "isWriterKeyInIndexerListApply E (subarray 1 33 tb) s = Some True"
    and base: "base_removeWriter E (subarray 1 33 tb) (base s) = Some bs"
      "base_addWriter E (subarray 1 33 tb) False bs = Some bs'"
    and cnt: "updateWritersIndex s = Some (n, len)"
  shows "\<exists>s'. handleApplyRemoveIndexerOperation E op node s = Some (SUCCESS, s')"
proof -
  note w = indexer_verify_Some [OF v]
  have acc: "account E ra" "account E ta" using w(1,2) by (auto dest: bufferToAddress_account)
  have len: "length ab = 69" "length tb = 69"
    using good_entry_length ledger_ok_entry [OF l] acc s t by blast+
  have flags: "isIndexer (Some tb)"
    using role len by (auto simp: isWhitelisted_def isIndexer_def isWriter_def role_defs)
  obtain b1 where b1: "setRoleAndWriterKey (Some tb) WRITER (subarray 1 33 tb) = Some b1"
    using setRoleAndWriterKey_Some [OF len(2), of "subarray 1 33 tb" WRITER] len(2) by (auto simp: buf)
  have "updateWritersIndex (s\<lparr>base := bs'\<rparr>) = Some (n, len)"
    using cnt updateWritersIndex_cong [of "s\<lparr>base := bs'\<rparr>" s] by simp
  then show ?thesis
    using v s t len flags paid idx base b1
    by (auto simp: handleApplyRemoveIndexerOperation_def removeIndexer_def Let_def removeWriterBase_def addWriterBase_def)
qed

lemma appendWhitelist_accepts:
  assumes l: "ledger_ok E (batch s)"
    and v: "appendWhitelist_verify E op node s = Some (ra, na)"
    and paid: "isApplyInitalizationDisabled s \<Longrightarrow> \<exists>ab. batch s ra = Some ab \<and> fee \<le> liquid ab"
    and lic: "applyAssignNewLicense s \<noteq> None" and pre: "prefix_ok E"
  shows "\<exists>s'. handleApplyAppendWhitelistOperation E op node s = Some (SUCCESS, s')"
proof -
  note w = appendWhitelist_verify_Some [OF v]
  have acc: "account E ra" "account E na" using w(1,2) by (auto dest: bufferToAddress_account)
  have ab: "length ab = 69" if "batch s ra = Some ab" for ab
    using good_entry_length [OF ledger_ok_entry [OF l acc(1) that]] .
  obtain s1 where s1: "appendWhitelist_fee ra s = Some s1" "\<forall>k. k \<noteq> ra \<longrightarrow> batch s1 k = batch s k"
    using paid ab by (cases "isApplyInitalizationDisabled s") (fastforce simp: appendWhitelist_fee_def)+
  have "batch s1 EntryType_LICENSE_COUNT = batch s EntryType_LICENSE_COUNT"
    using s1(2) account_neq(11) [OF pre acc(1)] by metis
  then have "applyAssignNewLicense s1 = applyAssignNewLicense s"
    by (simp add: applyAssignNewLicense_def applyGetLicenseCount_def)
  then obtain len n where ln: "applyAssignNewLicense s1 = Some (len, n)" using lic by auto
  then have al: "\<exists>t. assignLicense (bytes (p_ia (payload_of op))) s1 = Some (len, t)"
    by (auto simp: assignLicense_def)
  show ?thesis
  proof (cases "batch s na")
    case None
    have "ne_init ZERO_WK WHITELISTED ZERO_BALANCE len ZERO_BALANCE \<noteq> []"
      using ne_init_length [of ZERO_WK WHITELISTED ZERO_BALANCE len ZERO_BALANCE] applyAssignNewLicense_Some [OF ln]
      by auto
    then show ?thesis using None v s1(1) al by (auto simp: handleApplyAppendWhitelistOperation_def Let_def)
  next
    case (Some nb)
    then have "length nb = 69" using good_entry_length [OF ledger_ok_entry [OF l acc(2)]] by blast
    then show ?thesis using Some v s1(1) al by (auto simp: handleApplyAppendWhitelistOperation_def Let_def)
  qed
qed

section \<open>The genesis phase and the recovery\<close>

lemma addAdmin_accepts:
  assumes v: "addAdmin_verify E op node s = Some ra" and acc: "prefix_ok E"
    and lic: "applyAssignNewLicense s \<noteq> None" and idx: "updateWritersIndex s \<noteq> None"
  shows "\<exists>s'. handleApplyAddAdminOperation E op node s = Some (SUCCESS, s')"
proof -
  note w = addAdmin_verify_Some [OF v]
  have ra: "account E ra" using w(1) by (rule bufferToAddress_account)
  obtain l n where l: "applyAssignNewLicense s = Some (l, n)" using lic by auto
  have n: "n \<noteq> 0" "length l = 4" using applyAssignNewLicense_Some [OF l] by simp_all
  have "ne_init (bytes (p_iw (payload_of op))) INDEXER ADMIN_INITIAL_BALANCE l ADMIN_INITIAL_STAKED_BALANCE \<noteq> []"
    using good_entry_length [OF admin_entry_good(1) [OF w(4) n(2)]] by auto
  moreover have "ae_encode E (bytes (op_address op)) (bytes (p_iw (payload_of op))) \<noteq> []"
    using ae_encode_empty [of E "bytes (op_address op)" "bytes (p_iw (payload_of op))"] w(1,4)
    by (auto simp: bufferToAddress_Some)
  moreover have "updateWritersIndex (put (EntryType_WRITER_ADDRESS @ k) x (put ra y
      (put (EntryType_LICENSE_INDEX @ i) x (put EntryType_LICENSE_COUNT l s)))) = updateWritersIndex s" for k x y i
    using account_neq(7) [OF acc ra] by (intro updateWritersIndex_cong)
      (simp add: EntryType_WRITER_ADDRESS_def EntryType_WRITERS_LENGTH_def EntryType_LICENSE_INDEX_def
        EntryType_LICENSE_COUNT_def)
  ultimately show ?thesis
    using v l n(1) idx by (auto simp: handleApplyAddAdminOperation_def Let_def)
qed

lemma adminRecovery_accepts:
  assumes l: "ledger_ok E (batch s)" and small: "total_supply E (batch s) < 2 ^ 128"
    and v: "adminRecovery_verify E op = Some (ra, pk, va)" and can: "canonical_op op"
    and i: "indexersMatch E (bytes (p_txv (payload_of op))) s"
    and val: "isValidatorValidApply (batch s va) node" and new: "batch s (txKey op) = None"
    and free: "batch s (wkaKey op) = None"
    and ad: "ae_decode E (batch s EntryType_ADMIN) = Some ae" "pk = address_decodeSafe E (ae_address ae)"
    and idx: "isWriterKeyInIndexerListApply E (ae_wk ae) s = Some True"
      "isWriterKeyInIndexerListApply E (bytes (p_iw (payload_of op))) s \<noteq> Some True"
    and s: "batch s ra = Some rb" and paid: "fee \<le> liquid rb"
    and base: "base_removeWriter E (ae_wk ae) (base s) = Some bs"
      "base_addWriter E (bytes (p_iw (payload_of op))) True bs \<noteq> None"
  shows "\<exists>s'. handleApplyAdminRecoveryOperation E op node s = Some (SUCCESS, s')"
proof -
  note w = adminRecovery_verify_Some [OF v]
  have acc: "account E ra" "account E va" using w(1,2) by (auto dest: bufferToAddress_account)
  obtain vb where vb: "batch s va = Some vb" using isValidator_length [OF val] by auto
  note room = validator_room [OF l small acc canonical_parties [OF can w(1-3)] s vb paid]
  obtain b1 where b1: "setWritingKey (Some rb) (bytes (p_iw (payload_of op))) = Some b1"
    using room(1) w(4) by (simp add: setWritingKey_def)
  note e = setWritingKey_effect [OF b1]
  have enc: "ae_encode E (bytes (op_address op)) (bytes (p_iw (payload_of op))) \<noteq> []"
    using ae_encode_empty [of E "bytes (op_address op)" "bytes (p_iw (payload_of op))"] w(1,4)
    by (auto simp: bufferToAddress_Some)
  show ?thesis
    using v i val new free ad idx s vb room b1 e paid base enc fee_rest(2)
    by (auto simp: handleApplyAdminRecoveryOperation_def Let_def txKey_def wkaKey_def removeWriterBase_def
        addWriterBase_def)
qed

lemma initializeBalance_accepts:
  assumes l: "ledger_ok E (batch s)" and v: "validateBalanceInitialization E op"
    and a: "addressAndKey E (bytes (op_address op)) = Some (ra, pk)"
    and t: "addressAndKey E (bytes (p_ia (payload_of op))) = Some (ta, tk)"
    and open_: "\<not> isApplyInitalizationDisabled s" and ad: "adminOf E node pk s = Some apk"
    and h: "messageHash E (createMessage [Num (networkId E), Buf (bytes (p_txv (payload_of op))),
       Buf (bytes (p_ia (payload_of op))), Buf (bytes (p_am (payload_of op))), Buf (bytes (p_in (payload_of op))),
       Num OT_BALANCE_INITIALIZATION]) (bytes (p_tx (payload_of op))) = Some h"
    and sig: "signature_verify E (bytes (p_is (payload_of op))) h apk"
    and i: "indexersMatch E (bytes (p_txv (payload_of op))) s" and new: "batch s (txKey op) = None"
  shows "\<exists>s'. handleApplyInitializeBalanceOperation E op node s = Some (SUCCESS, s')"
proof -
  have len: "length (bytes (p_am (payload_of op))) = 16" using validateBalanceInitialization_bytes(4) [OF v] by simp
  have "\<exists>e. initializedEntry (Balance (bytes (p_am (payload_of op)))) (batch s ta) = Some e"
  proof (cases "batch s ta")
    case None
    then show ?thesis
      using len ne_init_length [of ZERO_WK READER "bytes (p_am (payload_of op))" ZERO_LICENSE ZERO_BALANCE]
      by (auto simp: initializedEntry_def Let_def)
  next
    case (Some b)
    then have "length b = 69"
      using good_entry_length ledger_ok_entry [OF l] t by (auto simp: addressAndKey_Some dest: bufferToAddress_account)
    then show ?thesis using Some len by (simp add: initializedEntry_def bal_update_def setBalance_def)
  qed
  then show ?thesis
    using assms len by (auto simp: handleApplyInitializeBalanceOperation_def Let_def txKey_def toBalance_def)
qed

end
