(* ===== verification/Views.thy ===== *)
theory Views
  imports Acceptance
begin

text \<open>
  What the properties of the operations speak about: the balance, stake, role and writer key of an
  account in a store, the parties of an operation, and the change a run makes to every balance at once.
\<close>

section \<open>What an account has\<close>

definition liquidOf :: "(string \<Rightarrow> buffer option) \<Rightarrow> string \<Rightarrow> nat" where
  "liquidOf m k = (case m k of None \<Rightarrow> 0 | Some b \<Rightarrow> liquid b)"

definition stakeOf :: "(string \<Rightarrow> buffer option) \<Rightarrow> string \<Rightarrow> nat" where
  "stakeOf m k = (case m k of None \<Rightarrow> 0 | Some b \<Rightarrow> staked b)"

definition roleOf :: "(string \<Rightarrow> buffer option) \<Rightarrow> string \<Rightarrow> byte" where
  "roleOf m k = (case m k of None \<Rightarrow> READER | Some b \<Rightarrow> b ! 0)"

definition keyOf :: "(string \<Rightarrow> buffer option) \<Rightarrow> string \<Rightarrow> buffer" where
  "keyOf m k = (case m k of None \<Rightarrow> ZERO_WK | Some b \<Rightarrow> subarray 1 33 b)"

lemma views [simp]:
  "m k = Some b \<Longrightarrow> liquidOf m k = liquid b" "m k = Some b \<Longrightarrow> stakeOf m k = staked b"
  "m k = Some b \<Longrightarrow> roleOf m k = b ! 0" "m k = Some b \<Longrightarrow> keyOf m k = subarray 1 33 b"
  "m k = None \<Longrightarrow> liquidOf m k = 0" "m k = None \<Longrightarrow> stakeOf m k = 0" "m k = None \<Longrightarrow> roleOf m k = READER"
  by (simp_all add: liquidOf_def stakeOf_def roleOf_def keyOf_def)

lemma views_cong: "m k = m' k \<Longrightarrow> liquidOf m k = liquidOf m' k \<and> stakeOf m k = stakeOf m' k \<and>
    roleOf m k = roleOf m' k \<and> keyOf m k = keyOf m' k"
  by (simp add: liquidOf_def stakeOf_def roleOf_def keyOf_def)

text \<open>The parties of an operation, as the accounts their buffers name.\<close>

definition requester :: "operation \<Rightarrow> string" where
  "requester op = ascii_string (bytes (op_address op))"

definition validator :: "operation \<Rightarrow> string" where
  "validator op = ascii_string (bytes (p_va (payload_of op)))"

definition recipient :: "operation \<Rightarrow> string" where
  "recipient op = ascii_string (bytes (p_to (payload_of op)))"

definition target :: "operation \<Rightarrow> string" where
  "target op = ascii_string (bytes (p_ia (payload_of op)))"

text \<open>The balances change by the given amounts; stakes and roles are what they were.\<close>

definition pays :: "'b env \<Rightarrow> (string \<Rightarrow> buffer option) \<Rightarrow> (string \<Rightarrow> buffer option) \<Rightarrow> (string \<Rightarrow> int) \<Rightarrow> bool" where
  "pays E m m' d \<longleftrightarrow> (\<forall>k. account E k \<longrightarrow> int (liquidOf m' k) = int (liquidOf m k) + d k)"

definition keepsRoles :: "'b env \<Rightarrow> (string \<Rightarrow> buffer option) \<Rightarrow> (string \<Rightarrow> buffer option) \<Rightarrow> string set \<Rightarrow> bool" where
  "keepsRoles E m m' X \<longleftrightarrow> (\<forall>k. account E k \<and> k \<notin> X \<longrightarrow> stakeOf m' k = stakeOf m k \<and> roleOf m' k = roleOf m k)"

text \<open>An entry against its successor.\<close>

definition shift :: "int \<Rightarrow> buffer option \<Rightarrow> buffer option \<Rightarrow> bool" where
  "shift d e e' \<longleftrightarrow> (case e' of None \<Rightarrow> e = None \<and> d = 0 | Some b' \<Rightarrow>
     (case e of None \<Rightarrow> int (liquid b') = d \<and> staked b' = 0 \<and> b' ! 0 = READER
      | Some b \<Rightarrow> int (liquid b') = int (liquid b) + d \<and> staked b' = staked b \<and> b' ! 0 = b ! 0))"

lemma shift_0 [simp]: "shift 0 e e"
  by (auto simp: shift_def split: option.split)

lemma shift_views: "shift d (m k) (m' k) \<Longrightarrow>
   int (liquidOf m' k) = int (liquidOf m k) + d \<and> stakeOf m' k = stakeOf m k \<and> roleOf m' k = roleOf m k"
  by (auto simp: shift_def liquidOf_def stakeOf_def roleOf_def split: option.splits)

lemma shiftI_all: "(\<And>k. account E k \<Longrightarrow> shift (d k) (m k) (m' k)) \<Longrightarrow> pays E m m' d \<and> keepsRoles E m m' {}"
  using shift_views by (fastforce simp: pays_def keepsRoles_def)

lemma charged_shift: "charged n b b' \<Longrightarrow> shift (- int n) (Some b) (Some b')"
  using charged_effect [of n b b'] by (auto simp: shift_def)

lemma credited_shift: "credited n b b' \<Longrightarrow> shift (int n) (Some b) (Some b')"
  using credited_effect [of n b b'] by (auto simp: shift_def)

text \<open>
  An entry whose balance alone is another: every byte outside the balance, bytes 33 to 48, is what it was, or what a new entry of a reader has,
  without a writer key, a license and a stake.
\<close>

definition fresh_entry :: buffer where
  "fresh_entry = ne_init ZERO_WK READER ZERO_BALANCE ZERO_LICENSE ZERO_BALANCE"

definition rebalanced :: "buffer option \<Rightarrow> buffer option \<Rightarrow> bool" where
  "rebalanced e e' \<longleftrightarrow> (case e' of None \<Rightarrow> e = None | Some b' \<Rightarrow>
     let b = (case e of None \<Rightarrow> fresh_entry | Some b \<Rightarrow> b) in length b' = 69 \<and> take 33 b' = take 33 b \<and> drop 49 b' = drop 49 b)"

lemma setBalance_rebalanced: "setBalance (Some b) v = Some b' \<Longrightarrow> rebalanced (Some b) (Some b')"
  by (auto simp: setBalance_def rebalanced_def copy_into_def min_def split: if_splits)

lemma charged_rebalanced: "charged n b b' \<Longrightarrow> rebalanced (Some b) (Some b')"
  unfolding charged_def using setBalance_rebalanced by blast

lemma credited_rebalanced: "credited n b b' \<Longrightarrow> rebalanced (Some b) (Some b')"
  unfolding credited_def using setBalance_rebalanced by blast

lemma copy_into_outside:
  assumes "off + length src \<le> length tgt"
  shows "n \<le> off \<Longrightarrow> take n (copy_into src off tgt) = take n tgt"
    "n \<le> off \<Longrightarrow> drop n (copy_into src off tgt) = copy_into src (off - n) (drop n tgt)"
    "off + length src \<le> n \<Longrightarrow> drop n (copy_into src off tgt) = drop n tgt"
proof -
  have len: "length (take off tgt) = off" using assms by simp
  show "take n (copy_into src off tgt) = take n tgt" if "n \<le> off"
    using that len by (simp add: copy_into_def take_append min_absorb1)
  show "drop n (copy_into src off tgt) = copy_into src (off - n) (drop n tgt)" if "n \<le> off"
    using that assms len by (simp add: copy_into_def drop_append drop_take algebra_simps)
  show "drop n (copy_into src off tgt) = drop n tgt" if "off + length src \<le> n"
  proof -
    have "n = off + length src + (n - (off + length src))" using that by simp
    moreover have "drop (off + length src) (copy_into src off tgt) = drop (off + length src) tgt"
      using assms len by (simp add: copy_into_def drop_append)
    ultimately show ?thesis by (metis drop_drop add.commute)
  qed
qed

lemma fresh_rebalanced: "length am = 16 \<Longrightarrow> rebalanced None (Some (ne_init ZERO_WK READER am ZERO_LICENSE ZERO_BALANCE))"
  by (simp add: rebalanced_def fresh_entry_def ne_init_def ne_layout_def isNodeRoleValid_iff role_defs copy_into_outside
      del: take_all drop_all)

text \<open>
  What else a payment does to the store: but for the balances of the parties and the operation, recorded under its hash, nothing.
\<close>

definition records :: "operation \<Rightarrow> buffer \<Rightarrow> string set \<Rightarrow> (string \<Rightarrow> buffer option) \<Rightarrow> (string \<Rightarrow> buffer option) \<Rightarrow> bool" where
  "records op value parties m m' \<longleftrightarrow> m' (txKey op) = Some value \<and>
     (\<forall>k \<in> parties. m k \<noteq> m' k \<longrightarrow> rebalanced (m k) (m' k)) \<and> (\<forall>k. k \<notin> parties \<and> k \<noteq> txKey op \<longrightarrow> m' k = m k)"

section \<open>What a transfer moves\<close>

text \<open>What a successful transfer does to every balance, for the properties of the ledger and of the node that prepares it.\<close>

lemma recipient_shift:
  assumes "transfer_recipient ta (Balance am) s = Some re" "length am = 16"
  shows "shift (int (be_nat am)) (batch s ta) (Some re)"
proof (cases "batch s ta")
  case None
  then have re: "re = ne_init ZERO_WK READER am ZERO_LICENSE ZERO_BALANCE"
    using assms(1) by (simp add: transfer_recipient_def Let_def flow)
  show ?thesis
    using ne_layout_props [of ZERO_WK am ZERO_LICENSE ZERO_BALANCE READER] assms(2) None
    by (simp add: re ne_init_def shift_def liquid_def staked_def)
next
  case (Some tb)
  then have "credited (be_nat am) tb re" using transfer_recipient_effect [OF assms] by simp
  then show ?thesis using credited_shift Some by simp
qed

lemma recipient_rebalanced:
  assumes "transfer_recipient ta (Balance am) s = Some re" "length am = 16"
  shows "rebalanced (batch s ta) (Some re)"
proof (cases "batch s ta")
  case None
  then have "re = ne_init ZERO_WK READER am ZERO_LICENSE ZERO_BALANCE"
    using assms(1) by (simp add: transfer_recipient_def Let_def flow)
  then show ?thesis using fresh_rebalanced [OF assms(2)] None by simp
next
  case (Some tb)
  then have "credited (be_nat am) tb re" using transfer_recipient_effect [OF assms] by simp
  then show ?thesis using credited_rebalanced Some by simp
qed

lemma transfer_pays:
  assumes "handleApplyTransferOperation E op node s = Some (SUCCESS, s')"
    and "prefix_ok E" "canonical_op op"
  shows "pays E (batch s) (batch s') (\<lambda>k.
      (if k = requester op then - int (transferCost op) else 0) +
      (if k = recipient op \<and> recipient op \<noteq> requester op then int (be_nat (bytes (p_am (payload_of op)))) else 0) +
      (if k = validator op then int (3 * (fee div 4)) else 0))
    \<and> keepsRoles E (batch s) (batch s') {} \<and> base s' = base s
    \<and> records op (node_value node) {requester op, recipient op, validator op} (batch s) (batch s')"
proof -
  define am where "am = bytes (p_am (payload_of op))"
  obtain ra va ta se reo ve isSelf isVal where *: "transfer_verify E op = Some (ra, va)"
    "bufferToAddress E (bytes (p_to (payload_of op))) = Some ta"
    "isSelf = (bytes (op_address op) = bytes (p_to (payload_of op)))"
    "isVal = (bytes (p_to (payload_of op)) = bytes (p_va (payload_of op)))"
    "transfer ra ta va (batch s va) am FEE isSelf isVal s = Done (se, reo, ve)" "base s' = base s"
    "batch s' = (if isSelf then (batch s)(ra \<mapsto> se, va \<mapsto> ve)
       else if isVal then (batch s)(ta \<mapsto> the reo, ra \<mapsto> se, va \<mapsto> ve)
       else (batch s)(ta \<mapsto> the reo, ra \<mapsto> se, va \<mapsto> ve, ta \<mapsto> the reo))(txKey op \<mapsto> node_value node)"
    unfolding am_def by (rule handleApplyTransferOperation_success [OF assms(1)])
  note v = transfer_verify_Some [OF *(1)]
  obtain sb vb where d: "length am = 16" "batch s ra = Some sb" "batch s va = Some vb"
    "charged (if isSelf then fee else be_nat am + fee) sb se"
    "credited (if isVal then be_nat am + 3 * (fee div 4) else 3 * (fee div 4)) vb ve"
    "reo = (if isVal then Some ve else if isSelf then None else transfer_recipient ta (Balance am) s)"
    "isSelf \<or> isVal \<or> reo \<noteq> None" by (rule transfer_Done [OF *(5)])
  have parties: "ra = requester op" "va = validator op" "ta = recipient op"
    using v(1,2) *(2) by (auto simp: bufferToAddress_Some requester_def validator_def recipient_def)
  have eqs: "isSelf \<longleftrightarrow> ta = ra" "isVal \<longleftrightarrow> ta = va" "ra \<noteq> va"
    using canonical_parties [OF assms(3) v(1-3)] assms(3) v(1,2) *(2-4)
    by (auto simp: canonical_op_def bufferToAddress_Some ascii_string_inj)
  have acc: "account E ra" "account E va" "account E ta" using v(1,2) *(2) by (auto dest: bufferToAddress_account)
  have cost: "transferCost op = (if isSelf then fee else be_nat am + fee)"
    by (simp add: transferCost_def *(3) am_def)
  have rec: "shift (int (be_nat am)) (batch s ta) (Some (the reo))" if third: "\<not> isSelf" "\<not> isVal"
  proof -
    obtain re where "reo = Some re" using d(7) third by auto
    then show ?thesis using recipient_shift [OF _ d(1), of ta s re] d(6) third by simp
  qed
  have "shift ((if k = ra then - int (transferCost op) else 0) +
      (if k = ta \<and> ta \<noteq> ra then int (be_nat am) else 0) + (if k = va then int (3 * (fee div 4)) else 0))
      (batch s k) (batch s' k)" if "account E k" for k
    using charged_shift [OF d(4)] credited_shift [OF d(5)] rec eqs d(2,3) assms(2) that
    by (auto simp: *(7) cost txKey_def key)
  moreover have "rebalanced (batch s ta) (Some (the reo))" if third: "\<not> isSelf" "\<not> isVal"
  proof -
    obtain re where "reo = Some re" using d(7) third by auto
    then show ?thesis using recipient_rebalanced [OF _ d(1), of ta s re] d(6) third by simp
  qed
  then have "records op (node_value node) {ra, ta, va} (batch s) (batch s')"
    using charged_rebalanced [OF d(4)] credited_rebalanced [OF d(5)] eqs d(2,3,6) acc assms(2)
    by (auto simp: records_def *(7) txKey_def key)
  ultimately show ?thesis using shiftI_all *(6) unfolding parties am_def by fast
qed

end
