(* ===== verification/Scenario.thy ===== *)
theory Scenario
  imports Acceptance Views
begin

text \<open>
  A small concrete network on which the theorems are applied: seven accounts, a toy hash and a toy
  signature in the place of the cryptographic library, and one signed operation of each kind. The
  hypotheses of the acceptance lemmas are evaluated on it by the simplifier.
\<close>

section \<open>The environment\<close>

definition xhash :: "buffer \<Rightarrow> buffer" where
  "xhash m = replicate 32 (word_of_nat (length m + 1))"

definition xsign :: "buffer \<Rightarrow> buffer \<Rightarrow> buffer" where
  "xsign pk h = h @ pk @ replicate 26 0"

definition xwk :: "byte \<Rightarrow> buffer" where "xwk n = replicate 32 n"

definition acct :: "char \<Rightarrow> string" where "acct c = ''trac1'' @ [c]"

definition addr :: "char \<Rightarrow> buffer" where "addr c = ascii_bytes (acct c)"

text \<open>An operation of the user c, completed by a validator; a transfer that b completes.\<close>

definition completed :: "char \<Rightarrow> char \<Rightarrow> buffer \<Rightarrow> nat \<Rightarrow> payload \<Rightarrow> payload" where
  "completed c v tx t p =
     p\<lparr>p_tx := Bytes tx, p_txv := Bytes (xwk 65), p_in := Bytes (xwk 20), p_is := Bytes (xsign (addr c) tx),
       p_va := Bytes (addr v), p_vn := Bytes (xwk 21), p_vs := Bytes (xsign (addr v)
         (xhash (createMessage [Num 918, Buf tx, Buf (xwk 21), Num t])))\<rparr>"

definition xtransferTo :: "char \<Rightarrow> buffer \<Rightarrow> nat \<Rightarrow> operation" where
  "xtransferTo c b n = \<lparr>op_type = OT_TRANSFER, op_address = Bytes (addr c),
     op_value = Tro (completed c CHR ''b'' (xwk 95) OT_TRANSFER
       (empty_payload\<lparr>p_to := Bytes b, p_am := Bytes (amount n)\<rparr>))\<rparr>"

abbreviation xtransfer :: "char \<Rightarrow> char \<Rightarrow> nat \<Rightarrow> operation" where
  "xtransfer c d n \<equiv> xtransferTo c (addr d) n"

text \<open>The base holds the indexers and the other writers. One node value decodes to an operation.\<close>

definition xenv :: "(buffer list \<times> buffer list) env" where
  "xenv = \<lparr>networkId = 918, addressPrefix = ''trac'', addressLength = 6, bootstrap = xwk 1,
     address_size = (\<lambda>_. Some 6), address_isValid = (\<lambda>_. Some True),
     address_decodeSafe = (\<lambda>a. case a of None \<Rightarrow> [] | Some s \<Rightarrow> ascii_bytes s),
     blake3Safe = xhash,
     signature_verify = (\<lambda>sig h pk. sig = xsign pk h),
     base_indexers = (\<lambda>b. Some (fst b)),
     base_addWriter = (\<lambda>k i b. Some (if i then (k # fst b, snd b) else (fst b, k # snd b))),
     base_removeWriter = (\<lambda>k b. Some (removeAll k (fst b), removeAll k (snd b))),
     Operation_decode = (\<lambda>v. if v = [2] then Some (xtransfer CHR ''a'' CHR ''c'' (10 ^ 18)) else None)\<rparr>"

lemma xenv_sel [simp]:
  "networkId xenv = 918" "addressPrefix xenv = ''trac''" "addressLength xenv = 6" "bootstrap xenv = xwk 1"
  "address_decodeSafe xenv (Some s) = ascii_bytes s" "blake3Safe xenv = xhash"
  "signature_verify xenv sig h pk \<longleftrightarrow> sig = xsign pk h"
  "base_indexers xenv b = Some (fst b)"
  "base_addWriter xenv k i b = Some (if i then (k # fst b, snd b) else (fst b, k # snd b))"
  "base_removeWriter xenv k b = Some (removeAll k (fst b), removeAll k (snd b))"
  "address_size xenv p = Some 6"
  "Operation_decode xenv v = (if v = [2] then Some (xtransfer CHR ''a'' CHR ''c'' (10 ^ 18)) else None)"
  by (simp_all add: xenv_def)

lemma length_xhash [simp]: "length (xhash m) = 32" by (simp add: xhash_def)
lemma length_wk [simp]: "length (xwk n) = 32" by (simp add: xwk_def)
lemma length_addr [simp]: "length (addr n) = 6" by (simp add: addr_def acct_def)
lemma length_xsign [simp]: "length pk = 6 \<Longrightarrow> length h = 32 \<Longrightarrow> length (xsign pk h) = 64" by (simp add: xsign_def)

lemma xwk_nonempty [simp]: "xwk n \<noteq> []" by (simp add: xwk_def)
lemma xwk_eq [simp]: "xwk m = xwk n \<longleftrightarrow> m = n" by (simp add: xwk_def)
lemma addr_nonempty [simp]: "addr n \<noteq> []" using length_addr [of n] by fastforce

lemma xsign_eq [simp]: "length h = 32 \<Longrightarrow> length h' = 32 \<Longrightarrow> length pk = length pk' \<Longrightarrow>
    xsign pk h = xsign pk' h' \<longleftrightarrow> pk = pk' \<and> h = h'"
  by (auto simp: xsign_def)

lemma prefix_ok_xenv [simp]: "prefix_ok xenv"
  by (simp add: prefix_ok_def hex_chars_def)

lemma account_acct [simp]: "account xenv (acct c)"
  by (simp add: isAddressValid_def xenv_def startsWith_def acct_def)

lemma acct_nonempty [simp]: "acct c \<noteq> []" by (simp add: acct_def)
lemma acct_eq [simp]: "acct c = acct d \<longleftrightarrow> c = d" by (simp add: acct_def)

text \<open>The letters of the accounts are ASCII.\<close>

lemma ascii_byte: "of_char c < (128 :: nat) \<Longrightarrow>
    unat (word_of_nat (of_char c) :: byte) = of_char c \<and> (word_of_nat (of_char c) :: byte) < 128"
  by (simp add: unat_byte_of_nat word_less_nat_alt)

lemma ascii_string_bytes:
  assumes "\<forall>c \<in> set s. of_char c < (128 :: nat)"
  shows "ascii_string (ascii_bytes s) = s" "ascii_buffer (ascii_bytes s)"
  using assms by (induction s)
    (auto simp: ascii_string_def ascii_bytes_def ascii_buffer_def byte_and_127 ascii_byte)

lemma addr_names [simp]:
  assumes "of_char c < (128 :: nat)"
  shows "ascii_string (addr c) = acct c" "ascii_buffer (addr c)"
  using ascii_string_bytes [of "acct c"] assms by (simp_all add: addr_def acct_def)

lemma addr_eq [simp]: "of_char c < (128 :: nat) \<Longrightarrow> of_char d < (128 :: nat) \<Longrightarrow> addr c = addr d \<longleftrightarrow> c = d"
  using addr_names(1) [of c] addr_names(1) [of d] by (metis acct_eq)

lemma decodeSafe_acct [simp]: "ascii_bytes (acct c) = addr c"
  by (simp add: addr_def)

lemma bufferToAddress_addr [simp]: "of_char c < (128 :: nat) \<Longrightarrow> bufferToAddress xenv (addr c) = Some (acct c)"
  by (simp add: bufferToAddress_Some)

lemma addressAndKey_addr [simp]: "of_char c < (128 :: nat) \<Longrightarrow> addressAndKey xenv (addr c) = Some (acct c, addr c)"
  by (simp add: addressAndKey_Some)

section \<open>Messages\<close>

lemma createMessage_simps:
  "createMessage [] = []" "createMessage (Buf b # xs) = b @ createMessage xs"
  "createMessage (Num n # xs) = (if isUInt32 n then safeWriteUInt32BE n else []) @ createMessage xs"
  by (simp_all add: createMessage_def List.map_filter_simps)

lemma list_ex_replicate [simp]: "list_ex P (replicate n x) \<longleftrightarrow> 0 < n \<and> P x"
  by (induction n) auto

lemma nonzero_addr [simp]: "list_ex (\<lambda>x. x \<noteq> 0) (addr c)"
  by (simp add: addr_def acct_def ascii_bytes_def)

lemma nonzero_append [simp]: "list_ex P (xs @ ys) \<longleftrightarrow> list_ex P xs \<or> list_ex P ys"
  by (induction xs) auto

section \<open>Operations\<close>

text \<open>An operation of a user, completed by a validator, and one of the administrator.\<close>

lemma payload_sel [simp]:
  "payload_of \<lparr>op_type = t, op_address = a, op_value = Tro p\<rparr> = p"
  "payload_of \<lparr>op_type = t, op_address = a, op_value = Txo p\<rparr> = p"
  "payload_of \<lparr>op_type = t, op_address = a, op_value = Rao p\<rparr> = p"
  "payload_of \<lparr>op_type = t, op_address = a, op_value = Aco p\<rparr> = p"
  "payload_of \<lparr>op_type = t, op_address = a, op_value = Cao p\<rparr> = p"
  "payload_of \<lparr>op_type = t, op_address = a, op_value = Bio p\<rparr> = p"
  "payload_of \<lparr>op_type = t, op_address = a, op_value = Bdo p\<rparr> = p"
  by (simp_all add: payload_of.simps)

lemma nonzero_xsign [simp]: "list_ex (\<lambda>x. x \<noteq> 0) (xsign (addr c) h)"
  by (simp add: xsign_def)

lemma nonzero_wk [simp]: "list_ex (\<lambda>x. x \<noteq> 0) (xwk n) \<longleftrightarrow> n \<noteq> 0"
  by (simp add: xwk_def)

lemma xhash_wk: "xhash m = xwk (word_of_nat (length m + 1))"
  by (simp add: xhash_def xwk_def)

lemma xtransferTo_verify:
  assumes "c \<noteq> CHR ''b''" "of_char c < (128 :: nat)" "length b = 6" "list_ex (\<lambda>x. x \<noteq> 0) b"
  shows "transfer_verify xenv (xtransferTo c b n) = Some (acct c, acct CHR ''b'')"
  using assms by (simp add: transfer_verify_def xtransferTo_def completed_def empty_payload_def
      validateTransferOperation_def none_of_def custom_validator_fields_def hasOwn_def messageHash_def Let_def
      isUInt32_def xhash_wk createMessage_simps)

lemma xtransfer_verify:
  assumes "c \<noteq> CHR ''b''" "of_char c < (128 :: nat)" "of_char to < (128 :: nat)"
  shows "transfer_verify xenv (xtransfer c to n) = Some (acct c, acct CHR ''b'')"
  using assms by (intro xtransferTo_verify) simp_all

section \<open>The state\<close>

definition xentry :: "buffer \<Rightarrow> byte \<Rightarrow> nat \<Rightarrow> nat \<Rightarrow> buffer" where
  "xentry key role milli lic = ne_init key role (amount (milli * 10 ^ 15)) (uint32_bytes lic)
     (amount (if role \<in> {WRITER, INDEXER} then 10 * fee else 0))"

lemma xentry_props [simp]:
  assumes "length key = 32" "isNodeRoleValid role" "milli < 10 ^ 6"
  shows "length (xentry key role milli lic) = 69" "xentry key role milli lic ! 0 = role"
    "subarray (Suc 0) 33 (xentry key role milli lic) = key" "liquid (xentry key role milli lic) = milli * 10 ^ 15"
    "staked (xentry key role milli lic) = (if role \<in> {WRITER, INDEXER} then 10 * fee else 0)"
    "good_entry (xentry key role milli lic)"
proof -
  have "milli * 10 ^ 15 < 2 ^ 128" using assms(3) by simp
  then show "length (xentry key role milli lic) = 69" "xentry key role milli lic ! 0 = role"
    "subarray (Suc 0) 33 (xentry key role milli lic) = key" "liquid (xentry key role milli lic) = milli * 10 ^ 15"
    "staked (xentry key role milli lic) = (if role \<in> {WRITER, INDEXER} then 10 * fee else 0)"
    "good_entry (xentry key role milli lic)"
    using assms ne_layout_props [unfolded One_nat_def, of key "amount (milli * 10 ^ 15)" "uint32_bytes lic"
        "amount (if role \<in> {WRITER, INDEXER} then 10 * fee else 0)" role]
    by (auto simp: xentry_def ne_init_def good_entry_def valid_entry_def staked_def liquid_def fee_def)
qed

lemma roles_differ [simp]:
  "READER \<noteq> WRITER" "READER \<noteq> INDEXER" "WHITELISTED \<noteq> WRITER" "WHITELISTED \<noteq> INDEXER"
  "WRITER \<noteq> INDEXER" "INDEXER \<noteq> WRITER" "WRITER AND WRITER_MASK \<noteq> 0" "WHITELISTED \<noteq> READER" "WRITER \<noteq> READER"
  "READER AND WHITELISTED_MASK = 0" "READER \<noteq> WHITELISTED" "WRITER \<noteq> WHITELISTED" "INDEXER \<noteq> WHITELISTED"
  by (simp_all add: role_defs)

text \<open>The writers and the licences of the network by their index.\<close>

definition xindexes :: "string \<Rightarrow> buffer option" where
  "xindexes = [
     EntryType_LICENSE_INDEX @ show_nat 1 \<mapsto> addr CHR ''d'',
     EntryType_LICENSE_INDEX @ show_nat 2 \<mapsto> addr CHR ''b'',
     EntryType_LICENSE_INDEX @ show_nat 3 \<mapsto> addr CHR ''e'',
     EntryType_LICENSE_INDEX @ show_nat 4 \<mapsto> addr CHR ''f'',
     EntryType_LICENSE_INDEX @ show_nat 5 \<mapsto> addr CHR ''g'',
     EntryType_WRITERS_INDEX @ show_nat 0 \<mapsto> addr CHR ''d'',
     EntryType_WRITERS_INDEX @ show_nat 1 \<mapsto> addr CHR ''b'',
     EntryType_WRITERS_INDEX @ show_nat 2 \<mapsto> addr CHR ''f'',
     EntryType_WRITERS_INDEX @ show_nat 3 \<mapsto> addr CHR ''g'']"

lemma xindexes_sel [simp]:
  "xindexes (acct c) = None" "xindexes (to_hex h) = None" "xindexes EntryType_ADMIN = None"
  "xindexes EntryType_INITIALIZATION = None" "xindexes EntryType_LICENSE_COUNT = None"
  "xindexes EntryType_WRITERS_LENGTH = None" "xindexes (EntryType_WRITER_ADDRESS @ x) = None"
  "xindexes (EntryType_DEPLOYMENT @ x) = None"
  by (simp_all add: xindexes_def key account_neq [OF prefix_ok_xenv account_acct])

lemma xindexes_ledger [simp]: "ledger_ok xenv xindexes" "total_supply xenv xindexes = 0" "finite (dom xindexes)"
  unfolding xindexes_def
  by (simp_all add: ledger_puts supply_put_other key ledger_ok_def [of _ Map.empty] total_supply_def [of _ Map.empty])

text \<open>a, c: readers, c deployed the subnetwork \<open>xwk 9\<close>; b, f: writers, b validates; d: the administrator
  and g: indexers; e: whitelisted. Amounts in thousandths of a token.\<close>

definition xbatch :: "string \<Rightarrow> buffer option" where
  "xbatch = xindexes(acct CHR ''a'' \<mapsto> xentry ZERO_WK READER 5000 0,
     acct CHR ''b'' \<mapsto> xentry (xwk 2) WRITER 1000 2,
     acct CHR ''c'' \<mapsto> xentry ZERO_WK READER 2000 0,
     acct CHR ''d'' \<mapsto> xentry (xwk 1) INDEXER 9000 1,
     acct CHR ''e'' \<mapsto> xentry ZERO_WK WHITELISTED 1000 3,
     acct CHR ''f'' \<mapsto> xentry (xwk 3) WRITER 1000 4,
     acct CHR ''g'' \<mapsto> xentry (xwk 4) INDEXER 1000 5,
     EntryType_ADMIN \<mapsto> addr CHR ''d'' @ xwk 1,
     EntryType_INITIALIZATION \<mapsto> safeWriteUInt32BE 0,
     EntryType_WRITER_ADDRESS @ to_hex (xwk 1) \<mapsto> addr CHR ''d'',
     EntryType_WRITER_ADDRESS @ to_hex (xwk 2) \<mapsto> addr CHR ''b'',
     EntryType_WRITER_ADDRESS @ to_hex (xwk 3) \<mapsto> addr CHR ''f'',
     EntryType_WRITER_ADDRESS @ to_hex (xwk 4) \<mapsto> addr CHR ''g'',
     EntryType_DEPLOYMENT @ to_hex (xwk 9) \<mapsto> xwk 8 @ addr CHR ''c'',
     EntryType_LICENSE_COUNT \<mapsto> uint32_bytes 5,
     EntryType_WRITERS_LENGTH \<mapsto> uint32_bytes 4)"

definition xstate :: "(buffer list \<times> buffer list) astate" where
  "xstate = \<lparr>batch = xbatch, base = ([xwk 1, xwk 4], [xwk 2, xwk 3]), events = []\<rparr>"

lemma acct_key [simp]:
  "acct c \<noteq> EntryType_ADMIN" "acct c \<noteq> EntryType_INITIALIZATION" "acct c \<noteq> to_hex b"
  "EntryType_ADMIN \<noteq> acct c" "EntryType_INITIALIZATION \<noteq> acct c" "to_hex b \<noteq> acct c"
  "acct c \<noteq> EntryType_WRITERS_LENGTH" "acct c \<noteq> EntryType_WRITERS_INDEX @ x" "acct c \<noteq> EntryType_WRITER_ADDRESS @ x"
  "acct c \<noteq> EntryType_DEPLOYMENT @ x" "acct c \<noteq> EntryType_LICENSE_COUNT" "acct c \<noteq> EntryType_LICENSE_INDEX @ x"
  "EntryType_WRITERS_LENGTH \<noteq> acct c" "EntryType_WRITERS_INDEX @ x \<noteq> acct c" "EntryType_WRITER_ADDRESS @ x \<noteq> acct c"
  "EntryType_DEPLOYMENT @ x \<noteq> acct c" "EntryType_LICENSE_COUNT \<noteq> acct c" "EntryType_LICENSE_INDEX @ x \<noteq> acct c"
  using account_neq [OF prefix_ok_xenv account_acct [of c]] by metis+

lemma xbatch_accounts:
  "xbatch (acct CHR ''a'') = Some (xentry ZERO_WK READER 5000 0)"
  "xbatch (acct CHR ''b'') = Some (xentry (xwk 2) WRITER 1000 2)"
  "xbatch (acct CHR ''c'') = Some (xentry ZERO_WK READER 2000 0)"
  "xbatch (acct CHR ''d'') = Some (xentry (xwk 1) INDEXER 9000 1)"
  "xbatch (acct CHR ''e'') = Some (xentry ZERO_WK WHITELISTED 1000 3)"
  "xbatch (acct CHR ''f'') = Some (xentry (xwk 3) WRITER 1000 4)"
  "xbatch (acct CHR ''g'') = Some (xentry (xwk 4) INDEXER 1000 5)"
  by (simp_all add: xbatch_def key)

lemma xbatch_fixed:
  "xbatch EntryType_ADMIN = Some (addr CHR ''d'' @ xwk 1)"
  "xbatch EntryType_INITIALIZATION = Some (safeWriteUInt32BE 0)"
  "xbatch EntryType_LICENSE_COUNT = Some (uint32_bytes 5)"
  "xbatch EntryType_WRITERS_LENGTH = Some (uint32_bytes 4)"
  "xbatch (to_hex h) = None"
  by (simp_all add: xbatch_def key)

lemma xbatch_writers:
  "xbatch (EntryType_WRITER_ADDRESS @ to_hex (xwk n)) = (if n = 1 then Some (addr CHR ''d'')
     else if n = 2 then Some (addr CHR ''b'') else if n = 3 then Some (addr CHR ''f'')
     else if n = 4 then Some (addr CHR ''g'') else None)"
  "xbatch (EntryType_DEPLOYMENT @ to_hex (xwk n)) = (if n = 9 then Some (xwk 8 @ addr CHR ''c'') else None)"
  by (simp_all add: xbatch_def key to_hex_inj)

lemmas xbatch_sel [simp] = xbatch_accounts xbatch_fixed xbatch_writers

lemma xstate_sel [simp]: "batch xstate = xbatch" "base xstate = ([xwk 1, xwk 4], [xwk 2, xwk 3])" "events xstate = []"
  by (simp_all add: xstate_def)

lemma supply_fresh:
  "finite (dom m) \<Longrightarrow> account E k \<Longrightarrow> m k = None \<Longrightarrow> total_supply E (m(k \<mapsto> v)) = total_supply E m + entry_holding v"
  using supply_put [of m E k v] by simp

lemma xbatch_supply: "total_supply xenv xbatch = 20000 * 10 ^ 15 + 40 * fee"
  unfolding xbatch_def
  by (simp add: supply_put_other supply_fresh key entry_holding_eq)

lemma xbatch_small [simp]: "total_supply xenv xbatch < 340282366920938463463374607431768211456"
  by (simp add: xbatch_supply fee_def)

lemma xbatch_ledger_ok [simp]: "ledger_ok xenv xbatch"
  unfolding xbatch_def by (simp add: ledger_puts key)

lemma xstate_genesis_over [simp]: "genesis_over xstate"
  by (simp add: genesis_over_def isApplyInitalizationDisabled_def)

definition xnode :: "byte \<Rightarrow> apply_node" where
  "xnode n = \<lparr>from_key = xwk n, node_value = [n]\<rparr>"

lemma xnode_sel [simp]: "from_key (xnode n) = xwk n" "node_value (xnode n) = [n]"
  by (simp_all add: xnode_def)

lemma xvalidator [simp]: "isValidatorValidApply (Some (xentry (xwk 2) WRITER 1000 2)) (xnode 2)"
  by (simp add: isValidatorValidApply_iff)

lemma xindexers [simp]: "indexersMatch xenv (xwk 65) xstate"
  by (simp add: indexersMatch_def getIndexerSequenceStateApply_def xhash_wk)

lemma isUInt32_small: "isUInt32 n \<longleftrightarrow> 0 < n \<and> n \<le> 0xFFFFFFFF"
  by (auto simp: isUInt32_def)

lemmas xop = completed_def empty_payload_def none_of_def custom_validator_fields_def hasOwn_def messageHash_def
  Let_def xhash_wk createMessage_simps isUInt32_small

definition xtx :: "char \<Rightarrow> operation" where
  "xtx c = \<lparr>op_type = OT_TX, op_address = Bytes (addr c),
     op_value = Txo (completed c CHR ''b'' (xwk 201) OT_TX
       (empty_payload\<lparr>p_iw := Bytes (xwk 5), p_ch := Bytes (xwk 6), p_bs := Bytes (xwk 9), p_mbs := Bytes (xwk 1)\<rparr>))\<rparr>"

definition xdeploy :: "char \<Rightarrow> operation" where
  "xdeploy c = \<lparr>op_type = OT_BOOTSTRAP_DEPLOYMENT, op_address = Bytes (addr c),
     op_value = Bdo (completed c CHR ''b'' (xwk 137) OT_BOOTSTRAP_DEPLOYMENT
       (empty_payload\<lparr>p_bs := Bytes (xwk 7), p_ic := Bytes (xwk 6)\<rparr>))\<rparr>"

definition xrole :: "nat \<Rightarrow> char \<Rightarrow> byte \<Rightarrow> operation" where
  "xrole t c n = \<lparr>op_type = t, op_address = Bytes (addr c),
     op_value = Rao (completed c CHR ''b'' (xwk 105) t (empty_payload\<lparr>p_iw := Bytes (xwk n)\<rparr>))\<rparr>"

lemma xtx_verify:
  assumes "c \<noteq> CHR ''b''" "of_char c < (128 :: nat)"
  shows "tx_verify xenv (xtx c) = Some (acct c, acct CHR ''b'')"
  using assms by (simp add: tx_verify_def xtx_def validateTransactionOperation_def xop)

lemma xdeploy_verify:
  assumes "c \<noteq> CHR ''b''" "of_char c < (128 :: nat)"
  shows "bootstrapDeployment_verify xenv (xdeploy c) = Some (acct c, acct CHR ''b'')"
  using assms by (simp add: bootstrapDeployment_verify_def xdeploy_def validateBootstrapDeploymentOperation_def xop)

lemma xrole_verify:
  assumes "c \<noteq> CHR ''b''" "of_char c < (128 :: nat)" "n \<noteq> 0"
  shows "addWriter_verify xenv (xrole OT_ADD_WRITER c n) = Some (acct c, acct CHR ''b'')"
    "removeWriter_verify xenv (xrole OT_REMOVE_WRITER c n) = Some (acct c, acct CHR ''b'')"
    "adminRecovery_verify xenv (xrole OT_ADMIN_RECOVERY c n) = Some (acct c, addr c, acct CHR ''b'')"
proof -
  have "xwk n \<noteq> ZERO_WK" using assms(3) by (simp add: xwk_def ZERO_WK_def alloc_def)
  then show "addWriter_verify xenv (xrole OT_ADD_WRITER c n) = Some (acct c, acct CHR ''b'')"
    "removeWriter_verify xenv (xrole OT_REMOVE_WRITER c n) = Some (acct c, acct CHR ''b'')"
    "adminRecovery_verify xenv (xrole OT_ADMIN_RECOVERY c n) = Some (acct c, addr c, acct CHR ''b'')"
    using assms
    by (simp_all add: addWriter_verify_def removeWriter_verify_def adminRecovery_verify_def xrole_def
        validateRoleAccessOperation_def xop)
qed

text \<open>The administrator's operations: on a node, and on the bootstrap key.\<close>

definition signed :: "byte \<Rightarrow> buffer \<Rightarrow> payload \<Rightarrow> payload" where
  "signed txv tx p = p\<lparr>p_tx := Bytes tx, p_txv := Bytes (xwk txv), p_in := Bytes (xwk 20),
     p_is := Bytes (xsign (addr CHR ''d'') tx)\<rparr>"

definition xcontrol :: "nat \<Rightarrow> char \<Rightarrow> operation" where
  "xcontrol t c = \<lparr>op_type = t, op_address = Bytes (addr CHR ''d''),
     op_value = Aco (signed 65 (xwk 79) (empty_payload\<lparr>p_ia := Bytes (addr c)\<rparr>))\<rparr>"

definition xinitialize :: "char \<Rightarrow> nat \<Rightarrow> operation" where
  "xinitialize c n = \<lparr>op_type = OT_BALANCE_INITIALIZATION, op_address = Bytes (addr CHR ''d''),
     op_value = Bio (signed 65 (xwk 95) (empty_payload\<lparr>p_ia := Bytes (addr c), p_am := Bytes (amount n)\<rparr>))\<rparr>"

definition xcore :: "nat \<Rightarrow> byte \<Rightarrow> operation" where
  "xcore t txv = \<lparr>op_type = t, op_address = Bytes (addr CHR ''d''),
     op_value = Cao (signed txv (xwk 105) (empty_payload\<lparr>p_iw := Bytes (xwk 1)\<rparr>))\<rparr>"

lemma xadmin [simp]: "ae_decode xenv (Some (addr CHR ''d'' @ xwk 1)) = Some \<lparr>ae_address = Some (acct CHR ''d''), ae_wk = xwk 1\<rparr>"
  by (simp add: ae_decode_def subarray_def)

lemma xadminOf [simp]: "adminOf xenv (xnode 1) (addr CHR ''d'') xstate = Some (addr CHR ''d'')"
  by (simp add: adminOf_Some)

lemma xcontrol_verify:
  assumes "of_char c < (128 :: nat)"
  shows "c \<in> {CHR ''a'', CHR ''c''} \<Longrightarrow>
      appendWhitelist_verify xenv (xcontrol OT_APPEND_WHITELIST c) (xnode 1) xstate = Some (acct CHR ''d'', acct c)"
    "banValidator_verify xenv (xcontrol OT_BAN_VALIDATOR c) (xnode 1) xstate = Some (acct CHR ''d'', acct c)"
    "t \<in> {OT_ADD_INDEXER, OT_REMOVE_INDEXER} \<Longrightarrow>
     indexer_verify t xenv (xcontrol t c) (xnode 1) xstate = Some (acct CHR ''d'', acct c, to_hex (xwk 79))"
proof -
  show "appendWhitelist_verify xenv (xcontrol OT_APPEND_WHITELIST c) (xnode 1) xstate = Some (acct CHR ''d'', acct c)"
    if "c \<in> {CHR ''a'', CHR ''c''}"
    using assms that by (auto simp: appendWhitelist_verify_def xcontrol_def signed_def
        validateAdminControlOperation_def xop isWhitelisted_def)
  show "banValidator_verify xenv (xcontrol OT_BAN_VALIDATOR c) (xnode 1) xstate = Some (acct CHR ''d'', acct c)"
    using assms by (simp add: banValidator_verify_def xcontrol_def signed_def
        validateAdminControlOperation_def xop isAdminApply_def)
  show "indexer_verify t xenv (xcontrol t c) (xnode 1) xstate = Some (acct CHR ''d'', acct c, to_hex (xwk 79))"
    if "t \<in> {OT_ADD_INDEXER, OT_REMOVE_INDEXER}"
    using assms that by (auto simp: indexer_verify_def xcontrol_def signed_def validateAdminControlOperation_def xop)
qed

section \<open>Runs\<close>

lemma fee_milli: "fee = 30 * 10 ^ 15"
  by (simp add: fee_def)

lemma xkeys [simp]:
  "txKey (xtransferTo c b n) = to_hex (xwk 95)" "txKey (xtx c) = to_hex (xwk 201)"
  "txKey (xdeploy c) = to_hex (xwk 137)" "txKey (xrole t c k) = to_hex (xwk 105)"
  "txKey (xcontrol t c) = to_hex (xwk 79)" "txKey (xinitialize c n) = to_hex (xwk 95)"
  "txKey (xcore t k) = to_hex (xwk 105)"
  "deploymentKey (xdeploy c) = EntryType_DEPLOYMENT @ to_hex (xwk 7)"
  "deploymentKey (xtx c) = EntryType_DEPLOYMENT @ to_hex (xwk 9)"
  "wkaKey (xrole t c k) = EntryType_WRITER_ADDRESS @ to_hex (xwk k)"
  by (simp_all add: txKey_def deploymentKey_def wkaKey_def xtransferTo_def xtx_def xdeploy_def xrole_def
      xcontrol_def xinitialize_def xcore_def completed_def signed_def)

lemma xcanonical [simp]:
  "of_char c < (128 :: nat) \<Longrightarrow> of_char d < (128 :: nat) \<Longrightarrow> canonical_op (xtransfer c d n)"
  "of_char c < (128 :: nat) \<Longrightarrow> canonical_op (xtx c)" "of_char c < (128 :: nat) \<Longrightarrow> canonical_op (xdeploy c)"
  "of_char c < (128 :: nat) \<Longrightarrow> canonical_op (xrole t c k)"
  "of_char c < (128 :: nat) \<Longrightarrow> canonical_op (xcontrol t c)"
  by (simp_all add: canonical_op_def xtransferTo_def xtx_def xdeploy_def xrole_def xcontrol_def completed_def
      signed_def empty_payload_def ascii_buffer_def [of "[]"])

lemma xfields [simp]:
  "p_txv (payload_of (xtransferTo c b n)) = Bytes (xwk 65)" "p_to (payload_of (xtransferTo c b n)) = Bytes b"
  "p_am (payload_of (xtransferTo c b n)) = Bytes (amount n)" "op_address (xtransferTo c b n) = Bytes (addr c)"
  "p_va (payload_of (xtransferTo c b n)) = Bytes (addr CHR ''b'')"
  "p_txv (payload_of (xtx c)) = Bytes (xwk 65)" "op_address (xtx c) = Bytes (addr c)"
  "p_txv (payload_of (xdeploy c)) = Bytes (xwk 65)" "op_address (xdeploy c) = Bytes (addr c)"
  "p_txv (payload_of (xrole t c k)) = Bytes (xwk 65)" "p_iw (payload_of (xrole t c k)) = Bytes (xwk k)"
  "op_address (xrole t c k) = Bytes (addr c)"
  "op_address (xcontrol t c) = Bytes (addr CHR ''d'')" "p_ia (payload_of (xcontrol t c)) = Bytes (addr c)"
  by (simp_all add: xtransferTo_def xtx_def xdeploy_def xrole_def xcontrol_def completed_def signed_def)

lemma xtypes [simp]:
  "op_type (xtransferTo c b n) = OT_TRANSFER" "op_type (xtx c) = OT_TX" "op_type (xdeploy c) = OT_BOOTSTRAP_DEPLOYMENT"
  "op_type (xrole t c k) = t" "op_type (xcontrol t c) = t" "op_type (xinitialize c n) = OT_BALANCE_INITIALIZATION"
  "op_type (xcore t k) = t"
  by (simp_all add: xtransferTo_def xtx_def xdeploy_def xrole_def xcontrol_def xinitialize_def xcore_def)

lemma xparties [simp]:
  "of_char c < (128 :: nat) \<Longrightarrow> requester (xtransferTo c b n) = acct c"
  "of_char d < (128 :: nat) \<Longrightarrow> recipient (xtransfer c d n) = acct d" "validator (xtransferTo c b n) = acct CHR ''b''"
  "of_char c < (128 :: nat) \<Longrightarrow> requester (xtx c) = acct c" "validator (xtx c) = acct CHR ''b''"
  "of_char c < (128 :: nat) \<Longrightarrow> requester (xdeploy c) = acct c" "validator (xdeploy c) = acct CHR ''b''"
  "of_char c < (128 :: nat) \<Longrightarrow> requester (xrole t c k) = acct c" "validator (xrole t c k) = acct CHR ''b''"
  "requester (xcontrol t c) = acct CHR ''d''" "of_char c < (128 :: nat) \<Longrightarrow> target (xcontrol t c) = acct c"
  by (simp_all add: requester_def recipient_def validator_def target_def)
    (simp_all add: xtx_def xdeploy_def xrole_def completed_def)

lemma xtransfer_runs:
  assumes "to \<in> {CHR ''a'', CHR ''b'', CHR ''c'', CHR ''h''}"
  shows "\<exists>s'. handleApplyTransferOperation xenv (xtransfer CHR ''a'' to (10 ^ 18)) (xnode 2) xstate = Some (SUCCESS, s')"
proof -
  have "of_char to < (128 :: nat)" using assms by auto
  then show ?thesis
    by (intro transfer_accepts [OF _ _ xtransfer_verify]) (auto simp: transferCost_def fee_milli)
qed

lemma xtx_runs: "\<exists>s'. handleApplyTxOperation xenv (xtx CHR ''a'') (xnode 2) xstate = Some (SUCCESS, s')"
  by (rule tx_accepts [OF _ _ xtx_verify,
        where d = "\<lparr>de_txHash = xwk 8, de_address = addr CHR ''c''\<rparr>" and ca = "acct CHR ''c''"])
    (auto simp: de_decode_def subarray_def fee_milli)

lemma xdeploy_runs:
  "\<exists>s'. handleApplyBootstrapDeploymentOperation xenv (xdeploy CHR ''a'') (xnode 2) xstate = Some (SUCCESS, s')"
  by (rule deployment_accepts [OF _ _ xdeploy_verify]) (auto simp: fee_milli)

lemma xindex [simp]: "updateWritersIndex xstate = Some (4, uint32_bytes 5)"
  using decodeBE_encodeBE [of 4 "uint32_bytes 4"]
  by (simp add: updateWritersIndex_def incrementBE_def encodeBE_def writeUInt32BE_def)

lemma xlicense [simp]: "applyAssignNewLicense xstate = Some (uint32_bytes 6, 6)"
  using decodeBE_encodeBE [of 5 "uint32_bytes 5"] decodeBE_encodeBE [of 6 "uint32_bytes 6"]
  by (simp add: applyAssignNewLicense_def applyGetLicenseCount_def incrementBE_def encodeBE_def writeUInt32BE_def)

lemma xaddWriter_runs:
  "\<exists>s'. handleApplyAddWriterOperation xenv (xrole OT_ADD_WRITER CHR ''e'' 5) (xnode 2) xstate = Some (SUCCESS, s')"
  by (rule addWriter_accepts [OF _ _ _ xrole_verify(1)]) (auto simp: fee_milli)

lemma xremoveWriter_runs:
  "\<exists>s'. handleApplyRemoveWriterOperation xenv (xrole OT_REMOVE_WRITER CHR ''f'' 3) (xnode 2) xstate = Some (SUCCESS, s')"
  by (rule removeWriter_accepts [OF _ _ xrole_verify(2)]) (auto simp: fee_milli)

lemma xban_runs:
  "\<exists>s'. handleApplyBanValidatorOperation xenv (xcontrol OT_BAN_VALIDATOR CHR ''f'') (xnode 1) xstate = Some (SUCCESS, s')"
  by (rule ban_accepts [OF _ _ xcontrol_verify(2)]) (auto simp add: fee_milli)

lemma xwhitelist_runs:
  "\<exists>s'. handleApplyAppendWhitelistOperation xenv (xcontrol OT_APPEND_WHITELIST CHR ''a'') (xnode 1) xstate = Some (SUCCESS, s')"
  by (rule appendWhitelist_accepts [OF _ xcontrol_verify(1)]) (auto simp: fee_milli)

lemma xaddIndexer_runs:
  "\<exists>s'. handleApplyAddIndexerOperation xenv (xcontrol OT_ADD_INDEXER CHR ''f'') (xnode 1) xstate = Some (SUCCESS, s')"
  by (rule addIndexer_accepts [OF _ xcontrol_verify(3)])
    (auto simp: fee_milli isWriterKeyInIndexerListApply_def)

lemma xremoveIndexer_runs:
  "\<exists>s'. handleApplyRemoveIndexerOperation xenv (xcontrol OT_REMOVE_INDEXER CHR ''g'') (xnode 1) xstate = Some (SUCCESS, s')"
  by (rule removeIndexer_accepts [OF _ xcontrol_verify(3)])
    (auto simp: fee_milli isWriterKeyInIndexerListApply_def)

lemma xrecovery_runs:
  "\<exists>s'. handleApplyAdminRecoveryOperation xenv (xrole OT_ADMIN_RECOVERY CHR ''d'' 5) (xnode 2) xstate = Some (SUCCESS, s')"
  by (rule adminRecovery_accepts [OF _ _ xrole_verify(3)])
    (auto simp: fee_milli isWriterKeyInIndexerListApply_def)

text \<open>Before the genesis phase is closed.\<close>

definition xgenesis :: "(buffer list \<times> buffer list) astate" where
  "xgenesis = put EntryType_INITIALIZATION (safeWriteUInt32BE 1) xstate"

lemma xgenesis_sel [simp]:
  "batch xgenesis = xbatch(EntryType_INITIALIZATION \<mapsto> safeWriteUInt32BE 1)" "base xgenesis = base xstate"
  "indexersMatch xenv h xgenesis = indexersMatch xenv h xstate"
  "adminOf xenv node pk xgenesis = adminOf xenv node pk xstate"
  by (simp_all add: xgenesis_def indexersMatch_def getIndexerSequenceStateApply_def adminOf_def key)

lemma xgenesis_open [simp]: "\<not> isApplyInitalizationDisabled xgenesis"
  by (simp add: isApplyInitalizationDisabled_def safeWriteUInt32BE_def writeUInt32BE_def uint32_bytes_def)

lemma xgenesis_ledger_ok [simp]: "ledger_ok xenv (xbatch(EntryType_INITIALIZATION \<mapsto> v))"
  by (simp add: ledger_puts key)

lemma xinitialize_runs:
  assumes "of_char c < (128 :: nat)"
  shows "\<exists>s'. handleApplyInitializeBalanceOperation xenv (xinitialize c (10 ^ 18)) (xnode 1) xgenesis = Some (SUCCESS, s')"
proof -
  have "list_ex (\<lambda>x. x \<noteq> 0) (amount (10 ^ 18))"
    using be_nat_eq_0 [of "amount (10 ^ 18)"] by (auto simp: list_ex_iff intro: replicate_eqI)
  then show ?thesis
    using assms by (intro initializeBalance_accepts) (auto simp: xinitialize_def signed_def
        validateBalanceInitialization_def xop key txKey_def)
qed

lemma xdisable_runs:
  "\<exists>s'. handleApplyDisableBalanceInitializationOperation xenv (xcore OT_DISABLE_INITIALIZATION 65) (xnode 1) xgenesis
     = Some (SUCCESS, s')"
  by (simp add: handleApplyDisableBalanceInitializationOperation_def xcore_def signed_def
      validateCoreAdminOperation_def xop key)

text \<open>The empty store, whose base knows the bootstrap node alone.\<close>

definition xempty :: "(buffer list \<times> buffer list) astate" where
  "xempty = \<lparr>batch = Map.empty, base = ([xwk 1], []), events = []\<rparr>"

lemma xempty_sel [simp]: "batch xempty = Map.empty" "base xempty = ([xwk 1], [])"
  by (simp_all add: xempty_def)

lemma xaddAdmin_runs:
  "\<exists>s'. handleApplyAddAdminOperation xenv (xcore OT_ADD_ADMIN 33) (xnode 1) xempty = Some (SUCCESS, s')"
proof -
  have v: "addAdmin_verify xenv (xcore OT_ADD_ADMIN 33) (xnode 1) xempty = Some (acct CHR ''d'')"
    by (simp add: addAdmin_verify_def xcore_def signed_def validateCoreAdminOperation_def xop
        indexersMatch_def getIndexerSequenceStateApply_def)
  show ?thesis
    by (rule addAdmin_accepts [OF v])
      (simp_all add: applyAssignNewLicense_def applyGetLicenseCount_def updateWritersIndex_def incrementBE_def
        encodeBE_def writeUInt32BE_def decodeBE_def le_init_def)
qed

text \<open>The administrator demotes itself.\<close>

lemma xself_runs:
  "\<exists>s'. handleApplyRemoveIndexerOperation xenv (xcontrol OT_REMOVE_INDEXER CHR ''d'') (xnode 1) xstate = Some (SUCCESS, s')"
  by (rule removeIndexer_accepts [OF _ xcontrol_verify(3)])
    (auto simp: fee_milli isWriterKeyInIndexerListApply_def)

end
