(* ===== verification/Payment_Claims.thy ===== *)
theory Payment_Claims
  imports Scenario
begin

text \<open>
  Properties of TRANSFER, TX and BOOTSTRAP_DEPLOYMENT: what each account pays and earns, and when the
  operations go through.
\<close>

section \<open>Transfers\<close>

text \<open>C5. A successful transfer whose address buffers are ASCII charges the sender the amount and the fee (the fee alone on a
  transfer to oneself), credits the recipient with the amount, creating the account of a reader where there was none,
  and the validator with three quarters of the fee, in every combination of the three being one account. The operation is recorded under
  its hash. Nothing else changes: no other balance, stake or role, nothing of the base, no other byte of the three entries, so
  neither a writer key nor a license, and no other key of the store. Without the hypothesis on the buffers it is false, as
  \<open>transfer_alias\<close> below shows.\<close>

theorem transfer_effect:
  assumes "handleApplyTransferOperation E op node s = Some (SUCCESS, s')"
    and "prefix_ok E" "canonical_op op"
  shows "pays E (batch s) (batch s') (\<lambda>k.
      (if k = requester op then - int (transferCost op) else 0) +
      (if k = recipient op \<and> recipient op \<noteq> requester op then int (be_nat (bytes (p_am (payload_of op)))) else 0) +
      (if k = validator op then int (3 * (fee div 4)) else 0))
    \<and> keepsRoles E (batch s) (batch s') {} \<and> base s' = base s
    \<and> records op (node_value node) {requester op, recipient op, validator op} (batch s) (batch s')"
  using assms by (rule transfer_pays)

theorem transfer_effect_witness:
  "\<exists>s'. handleApplyTransferOperation xenv (xtransfer CHR ''a'' CHR ''h'' (10 ^ 18)) (xnode 2) xstate = Some (SUCCESS, s') \<and>
     int (liquidOf (batch s') (acct CHR ''a'')) = int (liquidOf xbatch (acct CHR ''a'')) - 10 ^ 18 - int fee \<and>
     batch s' (txKey (xtransfer CHR ''a'' CHR ''h'' (10 ^ 18))) = Some (node_value (xnode 2))"
proof -
  obtain s' where r: "handleApplyTransferOperation xenv (xtransfer CHR ''a'' CHR ''h'' (10 ^ 18)) (xnode 2) xstate
      = Some (SUCCESS, s')" using xtransfer_runs [of "CHR ''h''"] by auto
  have "int (liquidOf (batch s') (acct CHR ''a'')) = int (liquidOf xbatch (acct CHR ''a'')) - 10 ^ 18 - int fee"
    using transfer_effect [OF r prefix_ok_xenv] account_acct [of "CHR ''a''"]
    by (auto simp: pays_def transferCost_def)
  moreover have "batch s' (txKey (xtransfer CHR ''a'' CHR ''h'' (10 ^ 18))) = Some (node_value (xnode 2))"
    using transfer_effect [OF r prefix_ok_xenv] by (simp add: records_def)
  ultimately show ?thesis using r by blast
qed

text \<open>C6. A transfer that passes the guards, whose sender can pay for it, succeeds: while the whole
  supply fits in 16 bytes no sum overflows, so it neither throws nor is rejected.\<close>

theorem transfer_succeeds:
  assumes "ledger_ok E (batch s)" "total_supply E (batch s) < 2 ^ 128"
    and "transfer_verify E op = Some (ra, va)" "canonical_op op"
    and "indexersMatch E (bytes (p_txv (payload_of op))) s" "isValidatorValidApply (batch s va) node"
    and "batch s (txKey op) = None" "addressAndKey E (bytes (p_to (payload_of op))) = Some (ta, pk)"
    and "batch s ra = Some sb" "transferCost op \<le> liquid sb"
  shows "\<exists>s'. handleApplyTransferOperation E op node s = Some (SUCCESS, s')"
  using assms by (rule transfer_accepts)

theorem transfer_succeeds_witness:
  "\<exists>s'. handleApplyTransferOperation xenv (xtransfer CHR ''a'' CHR ''c'' (10 ^ 18)) (xnode 2) xstate = Some (SUCCESS, s')"
  by (rule transfer_succeeds [OF _ _ xtransfer_verify]) (auto simp: transferCost_def fee_milli)

text \<open>A transfer whose sender cannot pay is ignored: the state stays and the validator who
  relayed it is not penalised.\<close>

lemma transfer_ignored:
  assumes "transfer_verify E op = Some (ra, va)"
    and "indexersMatch E (bytes (p_txv (payload_of op))) s" "isValidatorValidApply (batch s va) node"
    and "batch s (txKey op) = None" "addressAndKey E (bytes (p_to (payload_of op))) = Some (ta, pk)"
    and "batch s ra = Some sb" "length sb = 69" "liquid sb < transferCost op" "transferCost op < 2 ^ 128"
  shows "handleApplyTransferOperation E op node s = Some (IGNORE, s)"
  using assms by (rule transfer_insufficient)

section \<open>Transactions of subnetworks\<close>

definition creator :: "'b env \<Rightarrow> operation \<Rightarrow> 'b astate \<Rightarrow> string" where
  "creator E op s = (case de_decode (batch s (deploymentKey op)) (addressLength E) of
     None \<Rightarrow> [] | Some d \<Rightarrow> ascii_string (de_address d))"

text \<open>How the fee of a TX is split, for a creator who may be the requester or the validator.\<close>

lemma tx_split:
  assumes "transferFeeTxOperation ra va (batch s va) ca BALANCE_FEE s = Done (re, ve, ce)"
  obtains rb vb where "batch s ra = Some rb" "batch s va = Some vb" "charged fee rb re"
    "ra = ca \<Longrightarrow> credited (2 * (fee div 4)) vb ve \<and> ce = None"
    "ra \<noteq> ca \<Longrightarrow> va = ca \<Longrightarrow> credited (3 * (fee div 4)) vb ve \<and> ce = None"
    "ra \<noteq> ca \<Longrightarrow> va \<noteq> ca \<Longrightarrow> credited (2 * (fee div 4)) vb ve \<and>
       (\<exists>cb ce'. batch s ca = Some cb \<and> ce = Some ce' \<and> credited (fee div 4) cb ce')"
  by (rule transferFee_Done [OF assms]) (rule that; blast)

lemma tx_shares:
  assumes t: "transferFeeTxOperation ra va (batch s va) ca BALANCE_FEE s = Done (re, ve, ce)"
    and ne: "ra \<noteq> va" and pre: "prefix_ok E" and acc: "account E ra" "account E va" "account E ca"
    and s': "batch s' = (case ce of None \<Rightarrow> (batch s)(ra \<mapsto> re, va \<mapsto> ve)
       | Some e \<Rightarrow> (batch s)(ra \<mapsto> re, va \<mapsto> ve, ca \<mapsto> e))(txKey op \<mapsto> v)"
    and k: "account E k"
  shows "shift ((if k = ra then - int fee else 0) + (if k = va then int (2 * (fee div 4)) else 0) +
    (if k = ca \<and> ca \<noteq> ra then int (fee div 4) else 0)) (batch s k) (batch s' k)"
proof -
  obtain rb vb where p: "batch s ra = Some rb" "batch s va = Some vb" "charged fee rb re"
    and split: "ra = ca \<Longrightarrow> credited (2 * (fee div 4)) vb ve \<and> ce = None"
    "ra \<noteq> ca \<Longrightarrow> va = ca \<Longrightarrow> credited (3 * (fee div 4)) vb ve \<and> ce = None"
    "ra \<noteq> ca \<Longrightarrow> va \<noteq> ca \<Longrightarrow> credited (2 * (fee div 4)) vb ve \<and>
       (\<exists>cb ce'. batch s ca = Some cb \<and> ce = Some ce' \<and> credited (fee div 4) cb ce')"
    by (rule tx_split [OF t]) (rule that; blast)
  note facts = charged_shift [OF p(3)] ne p(1,2) pre k
  consider "ra = ca" | "ra \<noteq> ca" "va = ca" | "ra \<noteq> ca" "va \<noteq> ca" by blast
  then show ?thesis
  proof cases
    case 1
    then have c: "credited (2 * (fee div 4)) vb ve" "ce = None" using split(1) by auto
    show ?thesis using facts 1 c(2) credited_shift [OF c(1)] by (auto simp: s' txKey_def key)
  next
    case 2
    then have c: "credited (3 * (fee div 4)) vb ve" "ce = None" using split(2) by auto
    show ?thesis using facts 2 c(2) credited_shift [OF c(1)] by (auto simp: s' txKey_def key)
  next
    case 3
    then obtain cb ce' where c: "credited (2 * (fee div 4)) vb ve" "batch s ca = Some cb" "ce = Some ce'"
      "credited (fee div 4) cb ce'" using split(3) by blast
    show ?thesis using facts 3 c(2,3) credited_shift [OF c(1)] credited_shift [OF c(4)]
      by (auto simp: s' txKey_def key)
  qed
qed

lemma tx_records:
  assumes t: "transferFeeTxOperation ra va (batch s va) ca BALANCE_FEE s = Done (re, ve, ce)"
    and ne: "ra \<noteq> va" and pre: "prefix_ok E" and acc: "account E ra" "account E va" "account E ca"
    and s': "batch s' = (case ce of None \<Rightarrow> (batch s)(ra \<mapsto> re, va \<mapsto> ve)
       | Some e \<Rightarrow> (batch s)(ra \<mapsto> re, va \<mapsto> ve, ca \<mapsto> e))(txKey op \<mapsto> v)"
  shows "records op v {ra, va, ca} (batch s) (batch s')"
proof -
  obtain rb vb where p: "batch s ra = Some rb" "batch s va = Some vb" "charged fee rb re"
    and split: "ra = ca \<Longrightarrow> credited (2 * (fee div 4)) vb ve \<and> ce = None"
    "ra \<noteq> ca \<Longrightarrow> va = ca \<Longrightarrow> credited (3 * (fee div 4)) vb ve \<and> ce = None"
    "ra \<noteq> ca \<Longrightarrow> va \<noteq> ca \<Longrightarrow> credited (2 * (fee div 4)) vb ve \<and>
       (\<exists>cb ce'. batch s ca = Some cb \<and> ce = Some ce' \<and> credited (fee div 4) cb ce')"
    by (rule tx_split [OF t]) (rule that; blast)
  have "rebalanced (batch s va) (Some ve)" using split p(2) credited_rebalanced by metis
  moreover have "rebalanced (batch s ca) (Some e) \<and> ca \<noteq> ra \<and> ca \<noteq> va" if "ce = Some e" for e
    using split that credited_rebalanced by (cases "ra = ca"; cases "va = ca") auto
  ultimately show ?thesis
    using charged_rebalanced [OF p(3)] ne p(1) acc pre
    by (auto simp: records_def s' txKey_def key split: option.split)
qed

text \<open>C9. A successful TX whose address buffers are ASCII is for a deployed subnetwork, is recorded under its hash, and charges the requester the
  fee. Half of it goes to the validator, a quarter to the creator of the subnetwork unless the creator is the requester, and the rest
  is burned. Nothing else changes: no other balance, stake or role, nothing of the base, no other byte of the entries of the three, and no other
  key of the store, the deployment included.\<close>

theorem tx_effect:
  assumes "handleApplyTxOperation E op node s = Some (SUCCESS, s')"
    and "prefix_ok E" "canonical_op op"
  shows "batch s (deploymentKey op) \<noteq> None \<and>
    pays E (batch s) (batch s') (\<lambda>k.
      (if k = requester op then - int fee else 0) +
      (if k = validator op then int (2 * (fee div 4)) else 0) +
      (if k = creator E op s \<and> creator E op s \<noteq> requester op then int (fee div 4) else 0))
    \<and> keepsRoles E (batch s) (batch s') {} \<and> base s' = base s
    \<and> records op (node_value node) {requester op, validator op, creator E op s} (batch s) (batch s')"
proof -
  obtain ra va ca re ve ce and d :: deployment_entry where *: "tx_verify E op = Some (ra, va)"
    "de_decode (batch s (deploymentKey op)) (addressLength E) = Some d"
    "bufferToAddress E (de_address d) = Some ca"
    "transferFeeTxOperation ra va (batch s va) ca BALANCE_FEE s = Done (re, ve, ce)" "base s' = base s"
    "batch s' = (case ce of None \<Rightarrow> (batch s)(ra \<mapsto> re, va \<mapsto> ve)
       | Some e \<Rightarrow> (batch s)(ra \<mapsto> re, va \<mapsto> ve, ca \<mapsto> e))(txKey op \<mapsto> node_value node)"
    by (rule handleApplyTxOperation_success [OF assms(1)])
  note v = tx_verify_Some [OF *(1)]
  have parties: "ra = requester op" "va = validator op" "ca = creator E op s"
    using v(1,2) *(2,3) by (auto simp: bufferToAddress_Some requester_def validator_def creator_def)
  have ne: "ra \<noteq> va" using canonical_parties [OF assms(3) v(1-3)] .
  obtain rb vb where p: "batch s ra = Some rb" "batch s va = Some vb" "charged fee rb re"
    and split: "ra = ca \<Longrightarrow> credited (2 * (fee div 4)) vb ve \<and> ce = None"
    "ra \<noteq> ca \<Longrightarrow> va = ca \<Longrightarrow> credited (3 * (fee div 4)) vb ve \<and> ce = None"
    "ra \<noteq> ca \<Longrightarrow> va \<noteq> ca \<Longrightarrow> credited (2 * (fee div 4)) vb ve \<and>
       (\<exists>cb ce'. batch s ca = Some cb \<and> ce = Some ce' \<and> credited (fee div 4) cb ce')"
    by (rule transferFee_Done [OF *(4)]) (rule that; blast)
  have acc: "account E ra" "account E va" "account E ca" using v(1,2) *(3) by (auto dest: bufferToAddress_account)
  have "batch s (deploymentKey op) \<noteq> None" using *(2) by (auto simp: de_decode_def split: if_splits)
  then show ?thesis
    using tx_shares [OF *(4) ne assms(2) acc *(6)] tx_records [OF *(4) ne assms(2) acc *(6)] shiftI_all *(5)
    unfolding parties by fast
qed

theorem tx_effect_witness:
  "\<exists>s'. handleApplyTxOperation xenv (xtx CHR ''a'') (xnode 2) xstate = Some (SUCCESS, s') \<and>
     int (liquidOf (batch s') (acct CHR ''c'')) = int (liquidOf xbatch (acct CHR ''c'')) + int (fee div 4) \<and>
     batch s' (txKey (xtx CHR ''a'')) = Some (node_value (xnode 2))"
proof -
  obtain s' where r: "handleApplyTxOperation xenv (xtx CHR ''a'') (xnode 2) xstate = Some (SUCCESS, s')"
    using xtx_runs by auto
  have "creator xenv (xtx CHR ''a'') xstate = acct CHR ''c''"
    by (simp add: creator_def de_decode_def subarray_def)
  then have "int (liquidOf (batch s') (acct CHR ''c'')) = int (liquidOf xbatch (acct CHR ''c'')) + int (fee div 4)"
    using tx_effect [OF r prefix_ok_xenv] account_acct [of "CHR ''c''"]
    by (auto simp: pays_def)
  moreover have "batch s' (txKey (xtx CHR ''a'')) = Some (node_value (xnode 2))"
    using tx_effect [OF r prefix_ok_xenv] by (simp add: records_def)
  ultimately show ?thesis using r by blast
qed

text \<open>A TX for a subnetwork that was never deployed fails and changes nothing.\<close>

lemma tx_needs_deployment:
  assumes "batch s (deploymentKey op) = None" "batch s (txKey op) = None"
  shows "handleApplyTxOperation E op node s = Some (FAILURE, s)"
  using assms by (auto simp: handleApplyTxOperation_def Let_def txKey_def deploymentKey_def split: option.split)

lemma tx_needs_deployment_witness:
  "handleApplyTxOperation xenv (xtx CHR ''a'') (xnode 2)
     (xstate\<lparr>batch := xbatch(EntryType_DEPLOYMENT @ to_hex (xwk 9) := None)\<rparr>) =
   Some (FAILURE, xstate\<lparr>batch := xbatch(EntryType_DEPLOYMENT @ to_hex (xwk 9) := None)\<rparr>)"
  by (rule tx_needs_deployment) (simp_all add: key)

section \<open>Deployments\<close>

text \<open>A successful BOOTSTRAP_DEPLOYMENT registers a bootstrap that was not registered and is not the
  network's own, under the hash and the requester's address, so that it decodes to them. The
  requester pays the fee, three quarters of which go to the validator.\<close>

theorem deployment_effect:
  assumes "handleApplyBootstrapDeploymentOperation E op node s = Some (SUCCESS, s')"
    and "prefix_ok E" "canonical_op op"
  shows "batch s (deploymentKey op) = None \<and> bytes (p_bs (payload_of op)) \<noteq> bootstrap E \<and>
    de_decode (batch s' (deploymentKey op)) (length (bytes (op_address op))) =
      Some \<lparr>de_txHash = bytes (p_tx (payload_of op)), de_address = bytes (op_address op)\<rparr> \<and>
    pays E (batch s) (batch s') (\<lambda>k. (if k = requester op then - int fee else 0) +
      (if k = validator op then int (3 * (fee div 4)) else 0)) \<and>
    keepsRoles E (batch s) (batch s') {} \<and> base s' = base s"
proof -
  obtain ra va rb vb rb' vb' where *:
    "bootstrapDeployment_verify E op = Some (ra, va)" "batch s (deploymentKey op) = None"
    "batch s ra = Some rb" "batch s va = Some vb" "charged fee rb rb'" "credited (3 * (fee div 4)) vb vb'"
    "base s' = base s"
    "batch s' = (batch s)(deploymentKey op \<mapsto> bytes (p_tx (payload_of op)) @ bytes (op_address op),
       ra \<mapsto> rb', va \<mapsto> vb', txKey op \<mapsto> node_value node)"
    by (rule handleApplyBootstrapDeploymentOperation_success [OF assms(1)])
  note v = bootstrapDeployment_verify_Some [OF *(1)]
  have acc: "account E ra" "account E va" using v(1,2) by (auto dest: bufferToAddress_account)
  have parties: "ra = requester op" "va = validator op"
    using v(1,2) by (auto simp: bufferToAddress_Some requester_def validator_def)
  have ne: "ra \<noteq> va" using canonical_parties [OF assms(3) v(1-3)] .
  have "batch s' (deploymentKey op) = Some (bytes (p_tx (payload_of op)) @ bytes (op_address op))"
    using acc assms(2) by (simp add: *(8) key txKey_def deploymentKey_def)
  then have dec: "de_decode (batch s' (deploymentKey op)) (length (bytes (op_address op))) =
      Some \<lparr>de_txHash = bytes (p_tx (payload_of op)), de_address = bytes (op_address op)\<rparr>"
    using v(4) by (simp add: de_decode_def subarray_def)
  have "shift ((if k = ra then - int fee else 0) + (if k = va then int (3 * (fee div 4)) else 0))
      (batch s k) (batch s' k)" if "account E k" for k
    using charged_shift [OF *(5)] credited_shift [OF *(6)] ne *(3,4) assms(2) that
    by (auto simp: *(8) txKey_def deploymentKey_def key)
  then show ?thesis using shiftI_all *(2,7) v(5) dec unfolding parties by fast
qed

theorem deployment_effect_witness:
  "\<exists>s'. handleApplyBootstrapDeploymentOperation xenv (xdeploy CHR ''a'') (xnode 2) xstate = Some (SUCCESS, s') \<and>
     batch s' (EntryType_DEPLOYMENT @ to_hex (xwk 7)) \<noteq> None"
proof -
  obtain s' where r: "handleApplyBootstrapDeploymentOperation xenv (xdeploy CHR ''a'') (xnode 2) xstate
      = Some (SUCCESS, s')" using xdeploy_runs by auto
  have "batch s' (EntryType_DEPLOYMENT @ to_hex (xwk 7)) \<noteq> None"
    using deployment_effect [OF r prefix_ok_xenv] by (auto simp: de_decode_def split: if_splits)
  with r show ?thesis by blast
qed

text \<open>A bootstrap that is registered is not registered a second time, whoever asks for it.\<close>

lemma deployment_once:
  assumes "handleApplyBootstrapDeploymentOperation E op node s = Some (SUCCESS, s')"
    and "prefix_ok E" "deploymentKey op' = deploymentKey op"
  shows "handleApplyBootstrapDeploymentOperation E op' node' s' \<noteq> Some (SUCCESS, s'')"
proof
  assume second: "handleApplyBootstrapDeploymentOperation E op' node' s' = Some (SUCCESS, s'')"
  obtain ra va rb' vb' where *: "bootstrapDeployment_verify E op = Some (ra, va)"
    "batch s' = (batch s)(deploymentKey op \<mapsto> bytes (p_tx (payload_of op)) @ bytes (op_address op),
       ra \<mapsto> rb', va \<mapsto> vb', txKey op \<mapsto> node_value node)"
    by (rule handleApplyBootstrapDeploymentOperation_success [OF assms(1)])
  have "batch s' (deploymentKey op) \<noteq> None" by (simp add: *(2))
  moreover have "batch s' (deploymentKey op') = None"
    by (rule handleApplyBootstrapDeploymentOperation_success [OF second]) simp
  ultimately show False using assms(3) by simp
qed

lemma deployment_once_witness:
  "\<exists>s'. handleApplyBootstrapDeploymentOperation xenv (xdeploy CHR ''a'') (xnode 2) xstate = Some (SUCCESS, s') \<and>
     handleApplyBootstrapDeploymentOperation xenv (xdeploy CHR ''c'') (xnode 2) s' \<noteq> Some (SUCCESS, xstate)"
proof -
  obtain s' where r: "handleApplyBootstrapDeploymentOperation xenv (xdeploy CHR ''a'') (xnode 2) xstate
      = Some (SUCCESS, s')" using xdeploy_runs by auto
  then show ?thesis using deployment_once [OF r prefix_ok_xenv, of "xdeploy CHR ''c''"] by auto
qed

section \<open>Addresses with a byte past ASCII\<close>

text \<open>The handler compares address buffers, but the store is keyed by their ASCII rendering,
  which drops the top bit of every byte. A transfer to a different buffer that renders to the sender's own account
  is taken for one to a third party and puts the credited entry over the charged one: the sender gains the
  amount, and the fee is not charged. So money is created.\<close>

theorem transfer_alias:
  assumes "handleApplyTransferOperation E op node s = Some (SUCCESS, s')" and "prefix_ok E"
    and "recipient op = requester op" "bytes (p_to (payload_of op)) \<noteq> bytes (op_address op)"
    and "requester op \<noteq> validator op"
  shows "pays E (batch s) (batch s') (\<lambda>k.
      (if k = requester op then int (be_nat (bytes (p_am (payload_of op)))) else 0) +
      (if k = validator op then int (3 * (fee div 4)) else 0))"
proof -
  define am where "am = bytes (p_am (payload_of op))"
  obtain ra va ta se reo ve isSelf isVal where *: "transfer_verify E op = Some (ra, va)"
    "bufferToAddress E (bytes (p_to (payload_of op))) = Some ta"
    "isSelf = (bytes (op_address op) = bytes (p_to (payload_of op)))"
    "isVal = (bytes (p_to (payload_of op)) = bytes (p_va (payload_of op)))"
    "transfer ra ta va (batch s va) am FEE isSelf isVal s = Done (se, reo, ve)"
    "batch s' = (if isSelf then (batch s)(ra \<mapsto> se, va \<mapsto> ve)
       else if isVal then (batch s)(ta \<mapsto> the reo, ra \<mapsto> se, va \<mapsto> ve)
       else (batch s)(ta \<mapsto> the reo, ra \<mapsto> se, va \<mapsto> ve, ta \<mapsto> the reo))(txKey op \<mapsto> node_value node)"
    unfolding am_def by (rule handleApplyTransferOperation_success [OF assms(1)])
  note v = transfer_verify_Some [OF *(1)]
  obtain sb vb where d: "length am = 16" "batch s ra = Some sb" "batch s va = Some vb"
    "credited (if isVal then be_nat am + 3 * (fee div 4) else 3 * (fee div 4)) vb ve"
    "reo = (if isVal then Some ve else if isSelf then None else transfer_recipient ta (Balance am) s)"
    "isSelf \<or> isVal \<or> reo \<noteq> None" by (rule transfer_Done [OF *(5)])
  have parties: "ra = requester op" "va = validator op" "ta = ra"
    using v(1,2) *(2) assms(3) by (auto simp: bufferToAddress_Some requester_def validator_def recipient_def)
  have third: "\<not> isSelf" "\<not> isVal" "ra \<noteq> va"
    using assms(4,5) *(2-4) v(2) parties by (auto simp: bufferToAddress_Some)
  obtain re where re: "reo = Some re" using d(6) third by auto
  have "shift (int (be_nat am)) (batch s ra) (Some re)"
    using recipient_shift [OF _ d(1), of ra s re] d(5) third re parties by simp
  then have "shift ((if k = ra then int (be_nat am) else 0) + (if k = va then int (3 * (fee div 4)) else 0))
      (batch s k) (batch s' k)" if "account E k" for k
    using credited_shift [OF d(4)] d(3) third re parties(3) assms(2) that
    by (auto simp: *(6) txKey_def key)
  then show ?thesis using shiftI_all unfolding parties am_def by fast
qed

definition xhigh :: "buffer \<Rightarrow> buffer" where
  "xhigh b = map (\<lambda>x. x OR 128) b"

lemma high_bit: "(x OR 128) AND 127 = (x AND 127 :: byte)"
  by (simp add: bit.conj_disj_distrib2)

lemma xhigh_addr [simp]:
  assumes "of_char c < (128 :: nat)"
  shows "ascii_string (xhigh (addr c)) = acct c" "length (xhigh (addr c)) = 6" "xhigh (addr c) \<noteq> addr d"
    "list_ex (\<lambda>x. x \<noteq> 0) (xhigh (addr c))"
proof -
  show "ascii_string (xhigh (addr c)) = acct c"
    using addr_names(1) [OF assms] by (simp add: ascii_string_def xhigh_def comp_def high_bit)
  show "length (xhigh (addr c)) = 6" by (simp add: xhigh_def)
  show "xhigh (addr c) \<noteq> addr d" by (simp add: xhigh_def addr_def acct_def ascii_bytes_def)
  show "list_ex (\<lambda>x. x \<noteq> 0) (xhigh (addr c))" by (simp add: xhigh_def addr_def acct_def ascii_bytes_def)
qed

lemma xalias_runs:
  "\<exists>s'. handleApplyTransferOperation xenv (xtransferTo CHR ''a'' (xhigh (addr CHR ''a'')) (10 ^ 18)) (xnode 2) xstate
     = Some (SUCCESS, s')"
proof -
  have v: "transfer_verify xenv (xtransferTo CHR ''a'' (xhigh (addr CHR ''a'')) (10 ^ 18)) = Some (acct CHR ''a'', acct CHR ''b'')"
    by (rule xtransferTo_verify) simp_all
  have "\<exists>e. transfer (acct CHR ''a'') (acct CHR ''a'') (acct CHR ''b'') (Some (xentry (xwk 2) WRITER 1000 2))
      (amount (10 ^ 18)) FEE False False xstate = Done e"
    by (rule transfer_Done_intro [where sb = "xentry ZERO_WK READER 5000 0"]) (auto simp: fee_milli)
  then obtain se reo ve where d: "transfer (acct CHR ''a'') (acct CHR ''a'') (acct CHR ''b'') (Some (xentry (xwk 2) WRITER 1000 2))
      (amount (10 ^ 18)) FEE False False xstate = Done (se, reo, ve)" by (metis prod_cases3)
  moreover have "reo \<noteq> None" using transfer_Done [OF d] by (metis option.distinct(1))
  moreover have "addressAndKey xenv (xhigh (addr CHR ''a'')) = Some (acct CHR ''a'', addr CHR ''a'')"
    by (simp add: addressAndKey_Some bufferToAddress_Some)
  moreover have "addr CHR ''a'' \<noteq> xhigh (addr CHR ''a'')" by (rule not_sym) simp
  ultimately show ?thesis
    using v by (auto simp: handleApplyTransferOperation_def Let_def txKey_def [symmetric])
qed

theorem transfer_alias_witness:
  "\<exists>s'. handleApplyTransferOperation xenv (xtransferTo CHR ''a'' (xhigh (addr CHR ''a'')) (10 ^ 18)) (xnode 2) xstate
     = Some (SUCCESS, s') \<and>
     int (liquidOf (batch s') (acct CHR ''a'')) = int (liquidOf xbatch (acct CHR ''a'')) + 10 ^ 18"
proof -
  obtain s' where r: "handleApplyTransferOperation xenv (xtransferTo CHR ''a'' (xhigh (addr CHR ''a'')) (10 ^ 18))
      (xnode 2) xstate = Some (SUCCESS, s')" using xalias_runs by auto
  have "recipient (xtransferTo CHR ''a'' (xhigh (addr CHR ''a'')) (10 ^ 18)) = acct CHR ''a''"
    by (simp add: recipient_def)
  then have "int (liquidOf (batch s') (acct CHR ''a'')) = int (liquidOf xbatch (acct CHR ''a'')) + 10 ^ 18"
    using transfer_alias [OF r prefix_ok_xenv] account_acct [of "CHR ''a''"] by (auto simp: pays_def)
  with r show ?thesis by blast
qed

end
