(* ===== verification/Role_Claims.thy ===== *)
theory Role_Claims
  imports Scenario
begin

text \<open>
  Properties of the operations that change roles: who becomes a writer, an indexer or a reader again, what
  is staked and paid back, and which key the base adds or drops.
\<close>

section \<open>Helpers\<close>

text \<open>The writer key of an entry under the setters.\<close>

lemma setBalance_key: "setBalance (Some b) v = Some b' \<Longrightarrow> subarray 1 33 b' = subarray 1 33 b"
  by (auto simp: setBalance_def copy_field split: if_splits)

lemma setStakedBalance_key: "setStakedBalance (Some b) v = Some b' \<Longrightarrow> subarray 1 33 b' = subarray 1 33 b"
  by (auto simp: setStakedBalance_def copy_field copy_whole split: if_splits)

lemma setRole_key: "setRole (Some b) r = Some b' \<Longrightarrow> subarray 1 33 b' = subarray 1 33 b"
  by (auto simp: setRole_def copy_whole subarray_update_0 split: if_splits)

lemma setRoleAndWriterKey_key: "setRoleAndWriterKey (Some b) r wk = Some b' \<Longrightarrow> subarray 1 33 b' = wk"
  by (auto simp: setRoleAndWriterKey_def copy_field split: if_splits)

lemma setWritingKey_key: "setWritingKey (Some b) wk = Some b' \<Longrightarrow> subarray 1 33 b' = wk"
  by (auto simp: setWritingKey_def copy_field split: if_splits)

lemma charged_key: "charged n b b' \<Longrightarrow> subarray 1 33 b' = subarray 1 33 b"
  using setBalance_key by (auto simp: charged_def)

lemma stakeBalanceApply_key:
  assumes "stakeBalanceApply (Some b) = Some b'"
  shows "subarray 1 33 b' = subarray 1 33 b"
proof -
  obtain y b1 where "bal_update y (Some b) = Some b1" "setStakedBalance (Some b1) (bal_value BALANCE_TO_STAKE) = Some b'"
    using assms by (auto simp: stakeBalanceApply_def split: option.splits if_splits)
  then show ?thesis using setBalance_key setStakedBalance_key by (metis bal_update_def)
qed

text \<open>Two accounts change, the first in its role too.\<close>

lemma two_changes:
  assumes agree: "\<And>k. account E k \<Longrightarrow> m' k = (m(x \<mapsto> a, y \<mapsto> b)) k" and m: "m x = Some a0" "m y = Some b0"
    and ne: "x \<noteq> y" and a: "int (liquid a) = int (liquid a0) + da" and b: "shift db (Some b0) (Some b)"
  shows "pays E m m' (\<lambda>k. (if k = x then da else 0) + (if k = y then db else 0)) \<and> keepsRoles E m m' {x}"
proof -
  have "shift (if k = y then db else 0) (m k) (m' k)" if "account E k" "k \<noteq> x" for k
    using agree [OF that(1)] that(2) m b by auto
  moreover have "int (liquidOf m' x) = int (liquidOf m x) + da" if "account E x"
    using agree [OF that] ne m a by simp
  ultimately show ?thesis
    using shift_views [of _ m _ m'] ne by (fastforce simp: pays_def keepsRoles_def)
qed

lemma good_role:
  assumes "good_entry b" "ne_decode (Some b) = Some r"
  shows "ne_isIndexer r \<longleftrightarrow> b ! 0 = INDEXER" "ne_isWriter r \<longleftrightarrow> b ! 0 = WRITER \<or> b ! 0 = INDEXER"
    "ne_isWhitelisted r \<longleftrightarrow> b ! 0 \<noteq> READER"
  using assms ne_decode_length [OF assms(2)]
  by (auto simp: good_entry_def valid_entry_def ne_decode_Some isNodeRoleValid_iff role_defs)

section \<open>Writers\<close>

text \<open>C10. A successful ADD_WRITER makes a whitelisted requester a writer with the key of the operation, which the base
  adds and the registry maps to the requester's address. The requester pays the fee and stakes 0.3 TNK out
  of its balance, the validator earns three quarters of the fee, and nobody else is touched.\<close>

theorem add_writer_effect:
  assumes "handleApplyAddWriterOperation E op node s = Some (SUCCESS, s')"
    and "prefix_ok E" "ledger_ok E (batch s)" "canonical_op op"
  shows "roleOf (batch s) (requester op) = WHITELISTED \<and> roleOf (batch s') (requester op) = WRITER \<and>
    keyOf (batch s') (requester op) = bytes (p_iw (payload_of op)) \<and>
    stakeOf (batch s') (requester op) = 10 * fee \<and>
    batch s' (wkaKey op) = Some (bytes (op_address op)) \<and>
    base_addWriter E (bytes (p_iw (payload_of op))) False (base s) = Some (base s') \<and>
    pays E (batch s) (batch s') (\<lambda>k. (if k = requester op then - int (11 * fee) else 0) +
      (if k = validator op then int (3 * (fee div 4)) else 0)) \<and>
    keepsRoles E (batch s) (batch s') {requester op}"
proof -
  obtain ra va where h: "addWriter_verify E op = Some (ra, va)"
      "addWriter E op node (txKey op) ra va (batch s va) s = Some (SUCCESS, s')"
    by (rule handleApplyAddWriterOperation_success [OF assms(1)])
  note v = addWriter_verify_Some [OF h(1)]
  have acc: "account E ra" "account E va" using v(1,2) by (auto dest: bufferToAddress_account)
  have parties: "ra = requester op" "va = validator op"
    using v(1,2) by (auto simp: bufferToAddress_Some requester_def validator_def)
  have ne: "ra \<noteq> va" using canonical_parties [OF assms(4) v(1-3)] .
  obtain vb rb r b1 b2 rb' vb' s1 len l where *:
    "batch s va = Some vb" "batch s ra = Some rb" "ne_decode (Some rb) = Some r"
    "\<not> ne_isIndexer r" "\<not> ne_isWriter r" "ne_isWhitelisted r"
    "batch s (wkaKey op) = None \<or>
       ne_wk r = bytes (p_iw (payload_of op)) \<and> batch s (wkaKey op) = Some (bytes (op_address op))"
    "setRoleAndWriterKey (Some rb) WRITER (bytes (p_iw (payload_of op))) = Some b1" "charged fee b1 b2"
    "stakeBalanceApply (Some b2) = Some rb'" "credited (3 * (fee div 4)) vb vb'"
    "base_addWriter E (bytes (p_iw (payload_of op))) False (base s) = Some (base s')"
    "s1 = (if batch s (wkaKey op) = None
           then (batch s)(ra \<mapsto> rb', wkaKey op \<mapsto> bytes (op_address op)) else (batch s)(ra \<mapsto> rb'))"
    "batch s' = s1(EntryType_WRITERS_INDEX @ show_nat len \<mapsto> bytes (op_address op),
         EntryType_WRITERS_LENGTH \<mapsto> l, va \<mapsto> vb', txKey op \<mapsto> node_value node)"
    by (rule addWriter_success [OF h(2)])
  note e = setRoleAndWriterKey_effect [OF *(8)] charged_effect [OF *(9)] stakeBalanceApply_effect [OF *(10)]
  have role: "rb ! 0 = WHITELISTED"
    using good_role [OF ledger_ok_entry [OF assms(3) acc(1) *(2)] *(3)] *(4-6)
      ledger_ok_entry [OF assms(3) acc(1) *(2)]
    by (auto simp: good_entry_def valid_entry_def isNodeRoleValid_iff role_defs)
  have wk: "subarray 1 33 rb' = bytes (p_iw (payload_of op))"
    using stakeBalanceApply_key [OF *(10)] charged_key [OF *(9)] setRoleAndWriterKey_key [OF *(8)] by simp
  have agree: "batch s' k = ((batch s)(ra \<mapsto> rb', va \<mapsto> vb')) k" if "account E k" for k
    using that assms(2) ne by (simp add: *(13,14) key txKey_def wkaKey_def)
  have ra': "batch s' ra = Some rb'" using agree [OF acc(1)] ne by simp
  have lq: "int (liquid rb') = int (liquid rb) + - int (11 * fee)" using e by simp
  note two = two_changes [OF agree *(2,1) ne lq credited_shift [OF *(11)]]
  have reg: "batch s' (wkaKey op) = Some (bytes (op_address op))"
    using *(7) acc assms(2) by (auto simp: *(13,14) key txKey_def wkaKey_def)
  show ?thesis
    using two reg *(2,12) ra' role wk e unfolding parties by simp
qed

theorem add_writer_effect_witness:
  "\<exists>s'. handleApplyAddWriterOperation xenv (xrole OT_ADD_WRITER CHR ''e'' 5) (xnode 2) xstate = Some (SUCCESS, s') \<and>
     roleOf (batch s') (acct CHR ''e'') = WRITER \<and> base s' = ([xwk 1, xwk 4], [xwk 5, xwk 2, xwk 3])"
proof -
  obtain s' where r: "handleApplyAddWriterOperation xenv (xrole OT_ADD_WRITER CHR ''e'' 5) (xnode 2) xstate
      = Some (SUCCESS, s')" using xaddWriter_runs by auto
  have "roleOf (batch s') (acct CHR ''e'') = WRITER \<and> base s' = ([xwk 1, xwk 4], [xwk 5, xwk 2, xwk 3])"
    using add_writer_effect [OF r prefix_ok_xenv] by auto
  with r show ?thesis by blast
qed

text \<open>A successful REMOVE_WRITER returns a writer who owns the key to the whitelist, with its whole stake
  of 0.3 TNK back in its balance less the fee; the base drops the key, and the validator earns three
  quarters of the fee.\<close>

theorem remove_writer_effect:
  assumes "handleApplyRemoveWriterOperation E op node s = Some (SUCCESS, s')"
    and "prefix_ok E" "ledger_ok E (batch s)" "canonical_op op"
  shows "roleOf (batch s) (requester op) = WRITER \<and> roleOf (batch s') (requester op) = WHITELISTED \<and>
    keyOf (batch s) (requester op) = bytes (p_iw (payload_of op)) \<and>
    batch s (wkaKey op) = Some (bytes (op_address op)) \<and>
    stakeOf (batch s) (requester op) = 10 * fee \<and> stakeOf (batch s') (requester op) = 0 \<and>
    base_removeWriter E (bytes (p_iw (payload_of op))) (base s) = Some (base s') \<and>
    pays E (batch s) (batch s') (\<lambda>k. (if k = requester op then int (10 * fee) - int fee else 0) +
      (if k = validator op then int (3 * (fee div 4)) else 0)) \<and>
    keepsRoles E (batch s) (batch s') {requester op}"
proof -
  obtain ra va where h: "removeWriter_verify E op = Some (ra, va)"
      "removeWriter E op node (txKey op) ra va (batch s va) s = Some (SUCCESS, s')"
    by (rule handleApplyRemoveWriterOperation_success [OF assms(1)])
  note v = removeWriter_verify_Some [OF h(1)]
  have acc: "account E ra" "account E va" using v(1,2) by (auto dest: bufferToAddress_account)
  have parties: "ra = requester op" "va = validator op"
    using v(1,2) by (auto simp: bufferToAddress_Some requester_def validator_def)
  have ne: "ra \<noteq> va" using canonical_parties [OF assms(4) v(1-3)] .
  obtain vb rb r b1 b2 rb' vb' where *:
    "batch s va = Some vb" "batch s ra = Some rb" "ne_decode (Some rb) = Some r"
    "\<not> ne_isIndexer r" "ne_isWriter r" "ne_wk r = bytes (p_iw (payload_of op))"
    "batch s (wkaKey op) = Some (bytes (op_address op))"
    "setRole (Some rb) WHITELISTED = Some b1" "charged fee b1 b2"
    "withdrawStakedBalanceApply (Some b2) = Some rb'" "credited (3 * (fee div 4)) vb vb'"
    "base_removeWriter E (ne_wk r) (base s) = Some (base s')"
    "batch s' = (batch s)(ra \<mapsto> rb', va \<mapsto> vb', txKey op \<mapsto> node_value node)"
    by (rule removeWriter_success [OF h(2)])
  note e = setRole_effect [OF *(8)] charged_effect [OF *(9)] withdrawStakedBalanceApply_effect [OF *(10)]
  have good: "good_entry rb" using ledger_ok_entry [OF assms(3) acc(1) *(2)] .
  have role: "rb ! 0 = WRITER" using good_role [OF good *(3)] *(4,5) by auto
  then have st: "staked rb = 10 * fee" using good by (simp add: good_entry_def)
  have wk: "subarray 1 33 rb = bytes (p_iw (payload_of op))"
    using *(3,6) ne_decode_length [OF *(3)] by (auto simp: ne_decode_Some)
  have agree: "batch s' k = ((batch s)(ra \<mapsto> rb', va \<mapsto> vb')) k" if "account E k" for k
    using that assms(2) by (simp add: *(13) key txKey_def)
  have ra': "batch s' ra = Some rb'" using agree [OF acc(1)] ne by simp
  have lq: "int (liquid rb') = int (liquid rb) + (int (10 * fee) - int fee)" using e st by simp
  note two = two_changes [OF agree *(2,1) ne lq credited_shift [OF *(11)]]
  show ?thesis
    using two *(2,6,7,12) ra' role st wk e unfolding parties by simp
qed

theorem remove_writer_effect_witness:
  "\<exists>s'. handleApplyRemoveWriterOperation xenv (xrole OT_REMOVE_WRITER CHR ''f'' 3) (xnode 2) xstate = Some (SUCCESS, s') \<and>
     roleOf (batch s') (acct CHR ''f'') = WHITELISTED \<and> base s' = ([xwk 1, xwk 4], [xwk 2])"
proof -
  obtain s' where r: "handleApplyRemoveWriterOperation xenv (xrole OT_REMOVE_WRITER CHR ''f'' 3) (xnode 2) xstate
      = Some (SUCCESS, s')" using xremoveWriter_runs by auto
  have "roleOf (batch s') (acct CHR ''f'') = WHITELISTED \<and> base s' = ([xwk 1, xwk 4], [xwk 2])"
    using remove_writer_effect [OF r prefix_ok_xenv] by auto
  with r show ?thesis by blast
qed

end
