(* ===== verification/Access_Claims.thy ===== *)
theory Access_Claims
  imports Role_Claims
begin

text \<open>
  Who may do what: every accepted operation carries the signature of the one who asked for it over the hash
  of everything it says, and came from the node it had to come from.
\<close>

text \<open>The message an operation signs: the network, the indexers it saw, its arguments, its nonce and its type.\<close>

definition signedMessage :: "'b env \<Rightarrow> operation \<Rightarrow> buffer" where
  "signedMessage E op = (let p = payload_of op; b = (\<lambda>f. Buf (bytes f)) in
     createMessage ([Num (networkId E), b (p_txv p)] @
       (if op_type op = OT_BALANCE_INITIALIZATION then [b (p_ia p), b (p_am p)]
        else if op_type op \<in> {OT_APPEND_WHITELIST, OT_ADD_INDEXER, OT_REMOVE_INDEXER, OT_BAN_VALIDATOR} then [b (p_ia p)]
        else if op_type op = OT_BOOTSTRAP_DEPLOYMENT then [b (p_bs p), b (p_ic p)]
        else if op_type op = OT_TX then [b (p_iw p), b (p_ch p), b (p_bs p), Buf (bootstrap E)]
        else if op_type op = OT_TRANSFER then [b (p_to p), b (p_am p)]
        else [b (p_iw p)]) @
       [b (p_in p), Num (op_type op)]))"

text \<open>The signature of the requester, and the indexers unchanged since the operation was signed.\<close>

definition authentic :: "'b env \<Rightarrow> operation \<Rightarrow> 'b astate \<Rightarrow> buffer \<Rightarrow> bool" where
  "authentic E op s pk \<longleftrightarrow>
     bytes (p_tx (payload_of op)) = blake3Safe E (signedMessage E op) \<and>
     signature_verify E (bytes (p_is (payload_of op))) (bytes (p_tx (payload_of op))) pk \<and>
     indexersMatch E (bytes (p_txv (payload_of op))) s"

section \<open>The administrator\<close>

definition fromAdmin :: "'b env \<Rightarrow> operation \<Rightarrow> apply_node \<Rightarrow> 'b astate \<Rightarrow> bool" where
  "fromAdmin E op node s \<longleftrightarrow> (\<exists>r. ae_decode E (batch s EntryType_ADMIN) = Some r \<and> ae_wk r = from_key node \<and>
     address_decodeSafe E (ae_address r) = address_decodeSafe E (Some (requester op)) \<and>
     authentic E op s (address_decodeSafe E (ae_address r)))"

lemmas admin_guards = flow addressAndKey_Some messageHash_Some adminOf_Some bufferToAddress_Some requester_def
  fromAdmin_def authentic_def signedMessage_def

lemma initializeBalance_authority:
  "handleApplyInitializeBalanceOperation E op node s = Some (SUCCESS, s') \<Longrightarrow> fromAdmin E op node s"
  unfolding handleApplyInitializeBalanceOperation_def Let_def validateBalanceInitialization_def
  by (auto simp: admin_guards toBalance_Some_iff Let_def)

lemma disable_authority:
  "handleApplyDisableBalanceInitializationOperation E op node s = Some (SUCCESS, s') \<Longrightarrow>
   op_type op = OT_DISABLE_INITIALIZATION \<Longrightarrow> fromAdmin E op node s"
  unfolding handleApplyDisableBalanceInitializationOperation_def Let_def
  by (auto simp: admin_guards Let_def)

lemma whitelist_authority:
  "handleApplyAppendWhitelistOperation E op node s = Some (SUCCESS, s') \<Longrightarrow>
   op_type op = OT_APPEND_WHITELIST \<Longrightarrow> fromAdmin E op node s"
  by (erule handleApplyAppendWhitelistOperation_success)
    (auto simp: admin_guards appendWhitelist_verify_def Let_def)

lemma ban_authority:
  "handleApplyBanValidatorOperation E op node s = Some (SUCCESS, s') \<Longrightarrow>
   op_type op = OT_BAN_VALIDATOR \<Longrightarrow> fromAdmin E op node s"
  by (erule handleApplyBanValidatorOperation_success)
    (auto simp: admin_guards banValidator_verify_def Let_def isAdminApply_def)

lemma addIndexer_authority:
  "handleApplyAddIndexerOperation E op node s = Some (SUCCESS, s') \<Longrightarrow>
   op_type op = OT_ADD_INDEXER \<Longrightarrow> fromAdmin E op node s"
  unfolding handleApplyAddIndexerOperation_def
  by (auto simp: admin_guards indexer_verify_def Let_def)

lemma removeIndexer_authority:
  "handleApplyRemoveIndexerOperation E op node s = Some (SUCCESS, s') \<Longrightarrow>
   op_type op = OT_REMOVE_INDEXER \<Longrightarrow> fromAdmin E op node s"
  unfolding handleApplyRemoveIndexerOperation_def
  by (auto simp: admin_guards indexer_verify_def Let_def)

text \<open>C8. Initialising balances, closing the genesis phase, whitelisting, banning, promoting and demoting
  succeed only for the administrator: the operation came from the node whose key the admin entry
  holds, and the administrator's key signed the hash of the whole operation, for the indexers of now.\<close>

theorem admin_authority:
  assumes "dispatch E op node s = Some (SUCCESS, s')"
    and "op_type op \<in> {OT_DISABLE_INITIALIZATION, OT_BALANCE_INITIALIZATION, OT_APPEND_WHITELIST,
      OT_ADD_INDEXER, OT_REMOVE_INDEXER, OT_BAN_VALIDATOR}"
  shows "fromAdmin E op node s"
  using assms initializeBalance_authority disable_authority whitelist_authority ban_authority
    addIndexer_authority removeIndexer_authority
  by (auto simp: dispatch_def getApplyOperationHandler_def)

theorem admin_authority_witness:
  "\<exists>s'. dispatch xenv (xcontrol OT_BAN_VALIDATOR CHR ''f'') (xnode 1) xstate = Some (SUCCESS, s') \<and>
     fromAdmin xenv (xcontrol OT_BAN_VALIDATOR CHR ''f'') (xnode 1) xstate"
proof -
  obtain s' where r: "dispatch xenv (xcontrol OT_BAN_VALIDATOR CHR ''f'') (xnode 1) xstate = Some (SUCCESS, s')"
    using xban_runs by (auto simp: dispatch_def getApplyOperationHandler_def)
  have "fromAdmin xenv (xcontrol OT_BAN_VALIDATOR CHR ''f'') (xnode 1) xstate"
    by (rule admin_authority [OF r]) simp
  with r show ?thesis by blast
qed

section \<open>The users\<close>

text \<open>Another party than the requester, a writer whose node appended the operation, completed it.\<close>

definition completedByValidator :: "'b env \<Rightarrow> operation \<Rightarrow> apply_node \<Rightarrow> 'b astate \<Rightarrow> bool" where
  "completedByValidator E op node s \<longleftrightarrow> (let p = payload_of op in
     bytes (op_address op) \<noteq> bytes (p_va p) \<and>
     isValidatorValidApply (batch s (validator op)) node \<and>
     signature_verify E (bytes (p_vs p)) (blake3Safe E (createMessage [Num (networkId E), Buf (bytes (p_tx p)),
       Buf (bytes (p_vn p)), Num (op_type op)])) (address_decodeSafe E (Some (validator op))))"

definition fromUser :: "'b env \<Rightarrow> operation \<Rightarrow> apply_node \<Rightarrow> 'b astate \<Rightarrow> bool" where
  "fromUser E op node s \<longleftrightarrow> authentic E op s (address_decodeSafe E (Some (requester op))) \<and>
     completedByValidator E op node s"

lemmas user_guards = flow addressAndKey_Some messageHash_Some bufferToAddress_Some requester_def validator_def
  authentic_def signedMessage_def fromUser_def completedByValidator_def

lemma addWriter_authority:
  "handleApplyAddWriterOperation E op node s = Some (SUCCESS, s') \<Longrightarrow> op_type op = OT_ADD_WRITER \<Longrightarrow>
   fromUser E op node s"
  unfolding handleApplyAddWriterOperation_def Let_def
  by (auto simp: user_guards Let_def addWriter_verify_def simp del: not_None_eq split del: if_split)

lemma removeWriter_authority:
  "handleApplyRemoveWriterOperation E op node s = Some (SUCCESS, s') \<Longrightarrow> op_type op = OT_REMOVE_WRITER \<Longrightarrow>
   fromUser E op node s"
  unfolding handleApplyRemoveWriterOperation_def Let_def
  by (auto simp: user_guards Let_def removeWriter_verify_def simp del: not_None_eq split del: if_split)

lemma deployment_authority:
  "handleApplyBootstrapDeploymentOperation E op node s = Some (SUCCESS, s') \<Longrightarrow>
   op_type op = OT_BOOTSTRAP_DEPLOYMENT \<Longrightarrow> fromUser E op node s"
  unfolding handleApplyBootstrapDeploymentOperation_def Let_def
  by (auto simp: user_guards Let_def bootstrapDeployment_verify_def simp del: not_None_eq split del: if_split)

lemma tx_authority:
  "handleApplyTxOperation E op node s = Some (SUCCESS, s') \<Longrightarrow> op_type op = OT_TX \<Longrightarrow> fromUser E op node s"
  unfolding handleApplyTxOperation_def Let_def
  by (auto simp: user_guards Let_def tx_verify_def flow_outcome_result simp del: not_None_eq split del: if_split)

lemma transfer_authority:
  "handleApplyTransferOperation E op node s = Some (SUCCESS, s') \<Longrightarrow> op_type op = OT_TRANSFER \<Longrightarrow>
   fromUser E op node s"
  unfolding handleApplyTransferOperation_def Let_def
  by (auto simp: user_guards Let_def transfer_verify_def flow_outcome_result simp del: not_None_eq split del: if_split)

lemma recovery_authority:
  "handleApplyAdminRecoveryOperation E op node s = Some (SUCCESS, s') \<Longrightarrow> op_type op = OT_ADMIN_RECOVERY \<Longrightarrow>
   fromUser E op node s"
  unfolding handleApplyAdminRecoveryOperation_def Let_def
  by (auto simp: user_guards Let_def adminRecovery_verify_def simp del: not_None_eq split del: if_split)

text \<open>C7. Transfers, transactions, deployments, the writer operations and the recovery of the
  administrator succeed only with the requester's signature over the hash of the whole operation, and only
  when somebody else, a writer appending with its own key, completed and signed them.\<close>

theorem user_authority:
  assumes "dispatch E op node s = Some (SUCCESS, s')"
    and "op_type op \<in> {OT_ADD_WRITER, OT_REMOVE_WRITER, OT_ADMIN_RECOVERY, OT_BOOTSTRAP_DEPLOYMENT, OT_TX, OT_TRANSFER}"
  shows "fromUser E op node s"
  using assms addWriter_authority removeWriter_authority deployment_authority tx_authority transfer_authority
    recovery_authority
  by (auto simp: dispatch_def getApplyOperationHandler_def)

theorem user_authority_witness:
  "\<exists>s'. dispatch xenv (xtx CHR ''a'') (xnode 2) xstate = Some (SUCCESS, s') \<and>
     fromUser xenv (xtx CHR ''a'') (xnode 2) xstate"
proof -
  obtain s' where r: "dispatch xenv (xtx CHR ''a'') (xnode 2) xstate = Some (SUCCESS, s')"
    using xtx_runs by (auto simp: dispatch_def getApplyOperationHandler_def)
  have "fromUser xenv (xtx CHR ''a'') (xnode 2) xstate" by (rule user_authority [OF r]) simp
  with r show ?thesis by blast
qed

section \<open>The first administrator\<close>

lemma ae_decode_stored:
  assumes "bufferToAddress E a = Some ra" "length w = 32"
  shows "ae_decode E (Some (a @ w)) = Some \<lparr>ae_address = Some ra, ae_wk = w\<rparr>"
  using ae_encode_eq [of E a w] ae_decode_encode [of E a w] assms by (auto simp: bufferToAddress_Some)

text \<open>ADD_ADMIN succeeds only from the bootstrap node, with the bootstrap key, and only while there is
  no administrator. It creates one: an indexer with that key, 1000 TNK and its stake; it opens the
  genesis phase and touches no other account.\<close>

theorem add_admin_effect:
  assumes "handleApplyAddAdminOperation E op node s = Some (SUCCESS, s')" and "prefix_ok E"
  shows "batch s EntryType_ADMIN = None \<and> from_key node = bootstrap E \<and>
    signature_verify E (bytes (p_is (payload_of op))) (bytes (p_tx (payload_of op)))
      (address_decodeSafe E (Some (requester op))) \<and>
    ae_decode E (batch s' EntryType_ADMIN) = Some \<lparr>ae_address = Some (requester op), ae_wk = bootstrap E\<rparr> \<and>
    roleOf (batch s') (requester op) = INDEXER \<and> keyOf (batch s') (requester op) = bootstrap E \<and>
    liquidOf (batch s') (requester op) = 1000 * 10 ^ 18 \<and> stakeOf (batch s') (requester op) = 10 * fee \<and>
    \<not> isApplyInitalizationDisabled s' \<and>
    (\<forall>k. account E k \<and> k \<noteq> requester op \<longrightarrow> batch s' k = batch s k)"
proof -
  obtain ra l n k l' where v: "addAdmin_verify E op node s = Some ra"
    and lic: "applyAssignNewLicense s = Some (l, n)"
    and s': "batch s' = (batch s)(EntryType_LICENSE_COUNT \<mapsto> l,
       EntryType_LICENSE_INDEX @ show_nat n \<mapsto> bytes (op_address op),
       ra \<mapsto> ne_init (bytes (p_iw (payload_of op))) INDEXER ADMIN_INITIAL_BALANCE l ADMIN_INITIAL_STAKED_BALANCE,
       wkaKey op \<mapsto> bytes (op_address op),
       EntryType_WRITERS_INDEX @ show_nat k \<mapsto> bytes (op_address op), EntryType_WRITERS_LENGTH \<mapsto> l',
       EntryType_ADMIN \<mapsto> bytes (op_address op) @ bytes (p_iw (payload_of op)),
       EntryType_INITIALIZATION \<mapsto> safeWriteUInt32BE 1, txKey op \<mapsto> node_value node)"
    by (rule handleApplyAddAdminOperation_success [OF assms(1)])
  note v = addAdmin_verify_Some [OF v]
  have ra: "ra = requester op" "account E ra" using v(1) by (auto simp: bufferToAddress_Some requester_def)
  have len: "length l = 4" using applyAssignNewLicense_Some [OF lic] by simp
  define e where "e = ne_init (bytes (p_iw (payload_of op))) INDEXER ADMIN_INITIAL_BALANCE l ADMIN_INITIAL_STAKED_BALANCE"
  have e: "e ! 0 = INDEXER" "subarray 1 33 e = bootstrap E" "liquid e = 1000 * 10 ^ 18" "staked e = 10 * fee"
    using ne_layout_props [of "bytes (p_iw (payload_of op))" ADMIN_INITIAL_BALANCE l ADMIN_INITIAL_STAKED_BALANCE INDEXER]
      v(3,4) len by (simp_all add: e_def ne_init_def liquid_def staked_def admin_amounts)
  have new: "batch s' ra = Some e"
    using ra(2) assms(2) by (simp add: s' e_def key txKey_def wkaKey_def)
  have "batch s' EntryType_ADMIN = Some (bytes (op_address op) @ bytes (p_iw (payload_of op)))"
    by (simp add: s' key txKey_def)
  then have dec: "ae_decode E (batch s' EntryType_ADMIN) = Some \<lparr>ae_address = Some ra, ae_wk = bootstrap E\<rparr>"
    using ae_decode_stored [OF v(1,4)] v(3) by simp
  have "batch s' EntryType_INITIALIZATION = Some (safeWriteUInt32BE 1)" by (simp add: s' key txKey_def)
  then have init: "\<not> isApplyInitalizationDisabled s'"
    by (simp add: isApplyInitalizationDisabled_def safeWriteUInt32BE_def writeUInt32BE_def uint32_bytes_def)
  have "batch s' j = batch s j" if "account E j" "j \<noteq> ra" for j
    using that assms(2) by (simp add: s' key txKey_def wkaKey_def)
  then show ?thesis using v(2,6,8) new e dec init ra by simp
qed

theorem add_admin_effect_witness:
  "\<exists>s'. handleApplyAddAdminOperation xenv (xcore OT_ADD_ADMIN 33) (xnode 1) xempty = Some (SUCCESS, s') \<and>
     \<not> isApplyInitalizationDisabled s'"
proof -
  obtain s' where r: "handleApplyAddAdminOperation xenv (xcore OT_ADD_ADMIN 33) (xnode 1) xempty = Some (SUCCESS, s')"
    using xaddAdmin_runs by auto
  then show ?thesis using add_admin_effect [OF r prefix_ok_xenv] by blast
qed

text \<open>A successful ADMIN_RECOVERY, by the administrator of the admin entry, replaces the writer key by one
  that nobody registered: in the entry, in the admin entry, in the registry and in the base, where the old
  key was an indexer. The administrator pays the fee, the validator earns three quarters of it.\<close>

theorem recovery_effect:
  assumes "handleApplyAdminRecoveryOperation E op node s = Some (SUCCESS, s')"
    and "prefix_ok E" "canonical_op op"
  shows "batch s (wkaKey op) = None \<and> batch s' (wkaKey op) = Some (bytes (op_address op)) \<and>
    ae_decode E (batch s' EntryType_ADMIN) =
      Some \<lparr>ae_address = Some (requester op), ae_wk = bytes (p_iw (payload_of op))\<rparr> \<and>
    keyOf (batch s') (requester op) = bytes (p_iw (payload_of op)) \<and>
    (\<exists>ae b. ae_decode E (batch s EntryType_ADMIN) = Some ae \<and>
       address_decodeSafe E (ae_address ae) = address_decodeSafe E (Some (requester op)) \<and>
       isWriterKeyInIndexerListApply E (ae_wk ae) s = Some True \<and>
       base_removeWriter E (ae_wk ae) (base s) = Some b \<and>
       base_addWriter E (bytes (p_iw (payload_of op))) True b = Some (base s')) \<and>
    pays E (batch s) (batch s') (\<lambda>k. (if k = requester op then - int fee else 0) +
      (if k = validator op then int (3 * (fee div 4)) else 0)) \<and>
    keepsRoles E (batch s) (batch s') {}"
proof -
  obtain ra pk va ae rb b1 rb' vb vb' sb where *:
    "adminRecovery_verify E op = Some (ra, pk, va)" "batch s (wkaKey op) = None"
    "ae_decode E (batch s EntryType_ADMIN) = Some ae" "pk = address_decodeSafe E (ae_address ae)"
    "isWriterKeyInIndexerListApply E (ae_wk ae) s = Some True"
    "batch s ra = Some rb" "setWritingKey (Some rb) (bytes (p_iw (payload_of op))) = Some b1"
    "charged fee b1 rb'" "batch s va = Some vb" "credited (3 * (fee div 4)) vb vb'"
    "base_removeWriter E (ae_wk ae) (base s) = Some sb"
    "base_addWriter E (bytes (p_iw (payload_of op))) True sb = Some (base s')"
    "batch s' = (batch s)(wkaKey op \<mapsto> bytes (op_address op),
       EntryType_ADMIN \<mapsto> bytes (op_address op) @ bytes (p_iw (payload_of op)),
       ra \<mapsto> rb', va \<mapsto> vb', txKey op \<mapsto> node_value node)"
    by (rule handleApplyAdminRecoveryOperation_success [OF assms(1)])
  note v = adminRecovery_verify_Some [OF *(1)]
  have acc: "account E ra" "account E va" using v(1,2) by (auto dest: bufferToAddress_account)
  have parties: "ra = requester op" "va = validator op"
    using v(1,2) by (auto simp: bufferToAddress_Some requester_def validator_def)
  have ne: "ra \<noteq> va" using canonical_parties [OF assms(3) v(1-3)] .
  have paid: "shift (- int fee) (Some rb) (Some rb')"
    using setWritingKey_effect [OF *(7)] charged_effect [OF *(8)] by (auto simp: shift_def)
  have wk: "subarray 1 33 rb' = bytes (p_iw (payload_of op))"
    using charged_key [OF *(8)] setWritingKey_key [OF *(7)] by simp
  have "shift ((if k = ra then - int fee else 0) + (if k = va then int (3 * (fee div 4)) else 0))
      (batch s k) (batch s' k)" if "account E k" for k
    using paid credited_shift [OF *(10)] ne *(6,9) assms(2) that
    by (auto simp: *(13) txKey_def wkaKey_def key)
  note sh = shiftI_all [OF this]
  have reg: "batch s' (wkaKey op) = Some (bytes (op_address op))" "batch s' ra = Some rb'"
    using acc assms(2) ne by (auto simp: *(13) key txKey_def wkaKey_def)
  have "batch s' EntryType_ADMIN = Some (bytes (op_address op) @ bytes (p_iw (payload_of op)))"
    using acc assms(2) by (simp add: *(13) key txKey_def)
  then have dec: "ae_decode E (batch s' EntryType_ADMIN) = Some \<lparr>ae_address = Some ra, ae_wk = bytes (p_iw (payload_of op))\<rparr>"
    using ae_decode_stored [OF v(1,4)] by simp
  show ?thesis using sh reg dec *(2-5,11,12) v(5) wk unfolding parties by simp
qed

theorem recovery_effect_witness:
  "\<exists>s'. handleApplyAdminRecoveryOperation xenv (xrole OT_ADMIN_RECOVERY CHR ''d'' 5) (xnode 2) xstate = Some (SUCCESS, s') \<and>
     keyOf (batch s') (acct CHR ''d'') = xwk 5"
proof -
  obtain s' where r: "handleApplyAdminRecoveryOperation xenv (xrole OT_ADMIN_RECOVERY CHR ''d'' 5) (xnode 2) xstate
      = Some (SUCCESS, s')" using xrecovery_runs by auto
  then show ?thesis using recovery_effect [OF r prefix_ok_xenv] by auto
qed

section \<open>The administrator's operations\<close>

text \<open>
  Properties of the administrator's operations: banning, whitelisting, promotion and demotion of indexers,
  recovery of the administrator's key, and the genesis phase.
\<close>

lemma one_change:
  assumes other: "\<And>k. account E k \<Longrightarrow> k \<noteq> x \<Longrightarrow> shift (d k) (m k) (m' k)"
    and x: "m' x = Some a" "int (liquid a) = int (liquidOf m x) + d x"
  shows "pays E m m' d \<and> keepsRoles E m m' {x}"
proof -
  have "int (liquidOf m' k) = int (liquidOf m k) + d k" if "account E k" for k
    using x shift_views [of "d k" m k m'] other [OF that] by (cases "k = x") auto
  moreover have "stakeOf m' k = stakeOf m k \<and> roleOf m' k = roleOf m k" if "account E k" "k \<noteq> x" for k
    using shift_views [of "d k" m k m'] other [OF that] by simp
  ultimately show ?thesis by (simp add: pays_def keepsRoles_def)
qed

section \<open>Nodes\<close>

text \<open>A successful BAN_VALIDATOR turns a whitelisted node or a writer into a reader, with whatever it staked back in
  its balance; the base drops a writer's key, the node is told that it cannot write, and the
  administrator pays the fee.\<close>

theorem ban_effect:
  assumes "handleApplyBanValidatorOperation E op node s = Some (SUCCESS, s')"
    and "prefix_ok E" "ledger_ok E (batch s)" "requester op \<noteq> target op"
  shows "roleOf (batch s) (target op) \<in> {WHITELISTED, WRITER} \<and> roleOf (batch s') (target op) = READER \<and>
    stakeOf (batch s') (target op) = 0 \<and>
    (if roleOf (batch s) (target op) = WRITER
     then base_removeWriter E (keyOf (batch s) (target op)) (base s) = Some (base s') else base s' = base s) \<and>
    events s' = events s @ [UNWRITABLE (address_decodeSafe E (Some (target op)))] \<and>
    pays E (batch s) (batch s') (\<lambda>k. (if k = target op then int (stakeOf (batch s) (target op)) else 0) +
      (if k = requester op then - int fee else 0)) \<and>
    keepsRoles E (batch s) (batch s') {target op}"
proof -
  obtain ra ta tb b1 tb' ab ab' where *:
    "banValidator_verify E op node s = Some (ra, ta)"
    "batch s ta = Some tb" "isWhitelisted (Some tb)" "\<not> isIndexer (Some tb)"
    "setRole (Some tb) READER = Some b1"
    "if isWriter (Some tb) then withdrawStakedBalanceApply (Some b1) = Some tb' else tb' = b1"
    "if isWriter (Some tb) then \<exists>r. ne_decode (Some b1) = Some r \<and>
         base_removeWriter E (ne_wk r) (base s) = Some (base s') else base s' = base s"
    "batch s ra = Some ab" "charged fee ab ab'"
    "batch s' = (batch s)(ta \<mapsto> tb', ra \<mapsto> ab', txKey op \<mapsto> node_value node)"
    "events s' = events s @ [UNWRITABLE (address_decodeSafe E (Some ta))]"
    by (rule handleApplyBanValidatorOperation_success [OF assms(1)])
  note v = banValidator_verify_Some [OF *(1)]
  have acc: "account E ra" "account E ta" using v(1,2) by (auto dest: bufferToAddress_account)
  have parties: "ra = requester op" "ta = target op"
    using v(1,2) by (auto simp: bufferToAddress_Some requester_def target_def)
  have good: "good_entry tb" using ledger_ok_entry [OF assms(3) acc(2) *(2)] .
  have role: "tb ! 0 = WHITELISTED \<and> \<not> isWriter (Some tb) \<or> tb ! 0 = WRITER \<and> isWriter (Some tb)"
    using good *(3,4) by (auto simp: good_entry_def valid_entry_def isWhitelisted_def isWriter_def isIndexer_def
        isNodeRoleValid_iff role_defs split: if_splits)
  note e = setRole_effect [OF *(5)]
  have st: "tb ! 0 = WHITELISTED \<Longrightarrow> staked tb = 0" using good by (auto simp: good_entry_def)
  have new: "tb' ! 0 = READER \<and> staked tb' = 0 \<and> liquid tb' = liquid tb + staked tb"
  proof (cases "isWriter (Some tb)")
    case True
    then show ?thesis using *(6) e withdrawStakedBalanceApply_effect [of b1 tb'] by simp
  next
    case False
    then show ?thesis using *(6) e role st by simp
  qed
  have wkr: "ne_decode (Some b1) = Some r \<Longrightarrow> ne_wk r = subarray 1 33 tb" for r
    using setRole_key [OF *(5)] e(1) by (auto simp: ne_decode_Some)
  have agree: "batch s' k = ((batch s)(ta \<mapsto> tb', ra \<mapsto> ab')) k" if "account E k" for k
    using that assms(2) by (simp add: *(10) key txKey_def)
  have ne: "ta \<noteq> ra" using assms(4) parties by simp
  have ta': "batch s' ta = Some tb'" using agree [OF acc(2)] ne by simp
  have lq: "int (liquid tb') = int (liquid tb) + int (stakeOf (batch s) ta)" using new *(2) by simp
  note two = two_changes [OF agree *(2,8) ne lq charged_shift [OF *(9)]]
  have b: "if tb ! 0 = WRITER then base_removeWriter E (subarray 1 33 tb) (base s) = Some (base s') else base s' = base s"
    using *(7) wkr role by (auto split: if_splits)
  show ?thesis
    using two b *(2,11) ta' role new unfolding parties by auto
qed

theorem ban_effect_witness:
  "\<exists>s'. handleApplyBanValidatorOperation xenv (xcontrol OT_BAN_VALIDATOR CHR ''f'') (xnode 1) xstate = Some (SUCCESS, s') \<and>
     roleOf (batch s') (acct CHR ''f'') = READER \<and> base s' = ([xwk 1, xwk 4], [xwk 2])"
proof -
  obtain s' where r: "handleApplyBanValidatorOperation xenv (xcontrol OT_BAN_VALIDATOR CHR ''f'') (xnode 1) xstate
      = Some (SUCCESS, s')" using xban_runs by auto
  have "roleOf (batch s') (acct CHR ''f'') = READER \<and> base s' = ([xwk 1, xwk 4], [xwk 2])"
    using ban_effect [OF r prefix_ok_xenv] by auto
  with r show ?thesis by blast
qed

lemma setRole_license: "setRole (Some b) r = Some b' \<Longrightarrow> subarray 49 53 b' = subarray 49 53 b"
  by (auto simp: setRole_def copy_whole subarray_update_0 split: if_splits)

lemma setLicense_license: "setLicense (Some b) l = Some b' \<Longrightarrow> subarray 49 53 b' = l"
  by (auto simp: setLicense_def copy_field split: if_splits)

lemma assigned_license: "assignLicense a s = Some (l, s') \<Longrightarrow> length l = 4 \<and> l \<noteq> ZERO_LICENSE"
  by (erule assignLicense_Some) (auto simp: ZERO_LICENSE_def)

lemma whitelisted_view:
  assumes "whitelisted_entry ia (m k) s1 nb s2" "\<not> isWhitelisted (m k)" "\<And>b. m k = Some b \<Longrightarrow> good_entry b"
  shows "roleOf m k = READER \<and> nb ! 0 = WHITELISTED \<and> int (liquid nb) = int (liquidOf m k) + 0 \<and> staked nb = stakeOf m k \<and>
    subarray 49 53 nb \<noteq> ZERO_LICENSE"
proof (cases "m k")
  case None
  then obtain l where l: "assignLicense ia s1 = Some (l, s2)"
    "nb = ne_init ZERO_WK WHITELISTED ZERO_BALANCE l ZERO_BALANCE"
    using assms(1) by (auto simp: whitelisted_entry_def)
  then show ?thesis
    using None assigned_license [OF l(1)] ne_layout_props [of ZERO_WK ZERO_BALANCE l ZERO_BALANCE WHITELISTED]
    by (simp add: ne_init_def staked_def liquid_def)
next
  case (Some b)
  then obtain r b1 where b: "ne_decode (Some b) = Some r" "setRole (Some b) WHITELISTED = Some b1"
    and nb: "if ne_license r \<noteq> ZERO_LICENSE then nb = b1
      else \<exists>l. assignLicense ia s1 = Some (l, s2) \<and> setLicense (Some b1) l = Some nb"
    using assms(1) by (auto simp: whitelisted_entry_def split: if_splits)
  have role: "b ! 0 = READER"
    using assms(2) assms(3) [OF Some] Some
    by (auto simp: good_entry_def valid_entry_def isWhitelisted_def isNodeRoleValid_iff role_defs)
  have lic: "ne_license r = subarray 49 53 b" using b(1) ne_decode_length [OF b(1)] by (auto simp: ne_decode_Some)
  show ?thesis
  proof (cases "ne_license r = ZERO_LICENSE")
    case True
    then obtain l where l: "assignLicense ia s1 = Some (l, s2)" "setLicense (Some b1) l = Some nb" using nb by auto
    then show ?thesis
      using setRole_effect [OF b(2)] setLicense_effect [OF l(2)] setLicense_license [OF l(2)]
        assigned_license [OF l(1)] Some role by simp
  next
    case False
    then show ?thesis
      using nb setRole_effect [OF b(2)] setRole_license [OF b(2)] lic Some role by simp
  qed
qed

text \<open>A successful APPEND_WHITELIST whitelists a reader, or a node the store did not know, and leaves it with
  a licence. Nobody's balance moves but the administrator's, who pays the fee once the genesis phase is over.\<close>

theorem whitelist_effect:
  assumes "handleApplyAppendWhitelistOperation E op node s = Some (SUCCESS, s')"
    and "prefix_ok E" "ledger_ok E (batch s)" "requester op \<noteq> target op"
  shows "roleOf (batch s) (target op) = READER \<and> roleOf (batch s') (target op) = WHITELISTED \<and>
    (\<exists>b. batch s' (target op) = Some b \<and> subarray 49 53 b \<noteq> ZERO_LICENSE) \<and>
    pays E (batch s) (batch s') (\<lambda>k. if k = requester op \<and> isApplyInitalizationDisabled s then - int fee else 0) \<and>
    keepsRoles E (batch s) (batch s') {target op} \<and> base s' = base s"
proof -
  obtain ra na s1 s2 nb where v: "appendWhitelist_verify E op node s = Some (ra, na)"
    and f: "appendWhitelist_fee ra s = Some s1"
    and w: "whitelisted_entry (bytes (p_ia (payload_of op))) (batch s na) s1 nb s2"
    and s': "s' = put (txKey op) (node_value node) (put na nb s2)"
    by (rule handleApplyAppendWhitelistOperation_success [OF assms(1)])
  note v = appendWhitelist_verify_Some [OF v]
  note f = appendWhitelist_fee_Some [OF f]
  have acc: "account E ra" "account E na" using v(1,2) by (auto dest: bufferToAddress_account)
  have parties: "ra = requester op" "na = target op"
    using v(1,2) by (auto simp: bufferToAddress_Some requester_def target_def)
  have ne: "ra \<noteq> na" using assms(4) parties by simp
  have s2: "s2 = s1 \<or> (\<exists>n l. s2 = put (EntryType_LICENSE_INDEX @ show_nat n) (bytes (p_ia (payload_of op)))
      (put EntryType_LICENSE_COUNT l s1))"
    using w unfolding whitelisted_entry_def
    by (auto split: option.splits if_splits elim!: assignLicense_Some)
  note new = whitelisted_view [of _ "batch s" na, OF w v(4) ledger_ok_entry [OF assms(3) acc(2)]]
  have fee: "if isApplyInitalizationDisabled s then \<exists>ab ab'. batch s ra = Some ab \<and> charged fee ab ab' \<and> s1 = put ra ab' s
    else s1 = s" using f .
  have b: "base s' = base s" using s2 fee by (auto simp: s' split: if_splits)
  have other: "shift (if k = ra \<and> isApplyInitalizationDisabled s then - int fee else 0) (batch s k) (batch s' k)"
    if "account E k" "k \<noteq> na" for k
    using that s2 fee charged_shift assms(2) by (auto simp: s' key txKey_def split: if_splits)
  have na: "batch s' na = Some nb" using acc(2) assms(2) by (simp add: s' key txKey_def)
  then have "pays E (batch s) (batch s') (\<lambda>k. if k = ra \<and> isApplyInitalizationDisabled s then - int fee else 0) \<and>
      keepsRoles E (batch s) (batch s') {na}"
    using other new ne by (intro one_change [where a = nb]) auto
  then show ?thesis
    using new na b unfolding parties by simp
qed

theorem whitelist_effect_witness:
  "\<exists>s'. handleApplyAppendWhitelistOperation xenv (xcontrol OT_APPEND_WHITELIST CHR ''a'') (xnode 1) xstate = Some (SUCCESS, s') \<and>
     roleOf (batch s') (acct CHR ''a'') = WHITELISTED"
proof -
  obtain s' where r: "handleApplyAppendWhitelistOperation xenv (xcontrol OT_APPEND_WHITELIST CHR ''a'') (xnode 1) xstate
      = Some (SUCCESS, s')" using xwhitelist_runs by auto
  have "roleOf (batch s') (acct CHR ''a'') = WHITELISTED"
    using whitelist_effect [OF r prefix_ok_xenv] by auto
  with r show ?thesis by blast
qed

section \<open>Indexers\<close>

text \<open>A successful ADD_INDEXER promotes a writer whose key is not an indexer of the base: the base takes the key as
  an indexer, the entry says so, the stake stays, and the administrator pays the fee.\<close>

theorem add_indexer_effect:
  assumes "handleApplyAddIndexerOperation E op node s = Some (SUCCESS, s')"
    and "prefix_ok E" "ledger_ok E (batch s)" "requester op \<noteq> target op"
  shows "roleOf (batch s) (target op) = WRITER \<and> roleOf (batch s') (target op) = INDEXER \<and>
    stakeOf (batch s') (target op) = 10 * fee \<and>
    isWriterKeyInIndexerListApply E (keyOf (batch s) (target op)) s \<noteq> Some True \<and>
    (\<exists>b. base_removeWriter E (keyOf (batch s) (target op)) (base s) = Some b \<and>
         base_addWriter E (keyOf (batch s) (target op)) True b = Some (base s')) \<and>
    pays E (batch s) (batch s') (\<lambda>k. if k = requester op then - int fee else 0) \<and>
    keepsRoles E (batch s) (batch s') {target op}"
proof -
  obtain ra ta tx where v: "indexer_verify OT_ADD_INDEXER E op node s = Some (ra, ta, tx)"
    and add: "addIndexer E node tx ta ra s = Some (SUCCESS, s')"
    using assms(1) unfolding handleApplyAddIndexerOperation_def by (auto simp: flow)
  note v = indexer_verify_Some [OF v]
  have acc: "account E ra" "account E ta" using v(1,2) by (auto dest: bufferToAddress_account)
  have parties: "ra = requester op" "ta = target op"
    using v(1,2) by (auto simp: bufferToAddress_Some requester_def target_def)
  have ne: "ta \<noteq> ra" using assms(4) parties by simp
  obtain tb r tb' ab ab' sb where *:
    "batch s ta = Some tb" "ne_decode (Some tb) = Some r" "isWriter (Some tb)" "\<not> isIndexer (Some tb)"
    "setRole (Some tb) INDEXER = Some tb'" "isWriterKeyInIndexerListApply E (ne_wk r) s \<noteq> Some True"
    "batch s ra = Some ab" "charged fee ab ab'"
    "base_removeWriter E (ne_wk r) (base s) = Some sb" "base_addWriter E (ne_wk r) True sb = Some (base s')"
    "batch s' = (batch s)(ta \<mapsto> tb', ra \<mapsto> ab', tx \<mapsto> node_value node)"
    by (rule addIndexer_success [OF add])
  have good: "good_entry tb" using ledger_ok_entry [OF assms(3) acc(2) *(1)] .
  have role: "tb ! 0 = WRITER \<and> staked tb = 10 * fee"
    using good *(3,4) by (auto simp: good_entry_def valid_entry_def isWhitelisted_def isWriter_def isIndexer_def
        isNodeRoleValid_iff role_defs split: if_splits)
  note e = setRole_effect [OF *(5)]
  have wkr: "ne_wk r = subarray 1 33 tb" using *(2) ne_decode_length [OF *(2)] by (auto simp: ne_decode_Some)
  have agree: "batch s' k = ((batch s)(ta \<mapsto> tb', ra \<mapsto> ab')) k" if "account E k" for k
    using that assms(2) by (simp add: *(11) v(3) key txKey_def)
  have ta': "batch s' ta = Some tb'" using agree [OF acc(2)] ne by simp
  have lq: "int (liquid tb') = int (liquid tb) + 0" using e by simp
  note two = two_changes [OF agree *(1,7) ne lq charged_shift [OF *(8)]]
  show ?thesis
    using two *(1,6,9,10) ta' role wkr e unfolding parties by auto
qed

theorem add_indexer_effect_witness:
  "\<exists>s'. handleApplyAddIndexerOperation xenv (xcontrol OT_ADD_INDEXER CHR ''f'') (xnode 1) xstate = Some (SUCCESS, s') \<and>
     roleOf (batch s') (acct CHR ''f'') = INDEXER \<and> base s' = ([xwk 3, xwk 1, xwk 4], [xwk 2])"
proof -
  obtain s' where r: "handleApplyAddIndexerOperation xenv (xcontrol OT_ADD_INDEXER CHR ''f'') (xnode 1) xstate
      = Some (SUCCESS, s')" using xaddIndexer_runs by auto
  have "roleOf (batch s') (acct CHR ''f'') = INDEXER \<and> base s' = ([xwk 3, xwk 1, xwk 4], [xwk 2])"
    using add_indexer_effect [OF r prefix_ok_xenv] by auto
  with r show ?thesis by blast
qed

text \<open>A successful REMOVE_INDEXER of another node than the administrator demotes an indexer of the base to
  writer: the base takes the key as a plain writer, the stake stays, and the administrator pays the fee.\<close>

theorem remove_indexer_effect:
  assumes "handleApplyRemoveIndexerOperation E op node s = Some (SUCCESS, s')"
    and "prefix_ok E" "ledger_ok E (batch s)" "requester op \<noteq> target op"
  shows "roleOf (batch s) (target op) = INDEXER \<and> roleOf (batch s') (target op) = WRITER \<and>
    stakeOf (batch s') (target op) = 10 * fee \<and>
    isWriterKeyInIndexerListApply E (keyOf (batch s) (target op)) s = Some True \<and>
    (\<exists>b. base_removeWriter E (keyOf (batch s) (target op)) (base s) = Some b \<and>
         base_addWriter E (keyOf (batch s) (target op)) False b = Some (base s')) \<and>
    pays E (batch s) (batch s') (\<lambda>k. if k = requester op then - int fee else 0) \<and>
    keepsRoles E (batch s) (batch s') {target op}"
proof -
  obtain ra ta tx where v: "indexer_verify OT_REMOVE_INDEXER E op node s = Some (ra, ta, tx)"
    and rem: "removeIndexer E node tx ta (bytes (p_ia (payload_of op))) ra s = Some (SUCCESS, s')"
    using assms(1) unfolding handleApplyRemoveIndexerOperation_def by (auto simp: flow)
  note v = indexer_verify_Some [OF v]
  have acc: "account E ra" "account E ta" using v(1,2) by (auto dest: bufferToAddress_account)
  have parties: "ra = requester op" "ta = target op"
    using v(1,2) by (auto simp: bufferToAddress_Some requester_def target_def)
  have ne: "ta \<noteq> ra" using assms(4) parties by simp
  obtain tb r tb' ab ab' sb n l where *:
    "batch s ta = Some tb" "ne_decode (Some tb) = Some r" "isIndexer (Some tb)"
    "setRoleAndWriterKey (Some tb) WRITER (ne_wk r) = Some tb'"
    "isWriterKeyInIndexerListApply E (ne_wk r) s = Some True"
    "batch s ra = Some ab" "charged fee ab ab'"
    "base_removeWriter E (ne_wk r) (base s) = Some sb" "base_addWriter E (ne_wk r) False sb = Some (base s')"
    "batch s' = (batch s)(EntryType_WRITERS_INDEX @ show_nat n \<mapsto> bytes (p_ia (payload_of op)), EntryType_WRITERS_LENGTH \<mapsto> l,
       ta \<mapsto> tb', ra \<mapsto> ab', tx \<mapsto> node_value node)"
    by (rule removeIndexer_success [OF rem])
  have good: "good_entry tb" using ledger_ok_entry [OF assms(3) acc(2) *(1)] .
  have role: "tb ! 0 = INDEXER \<and> staked tb = 10 * fee"
    using good *(3) by (auto simp: good_entry_def valid_entry_def isWhitelisted_def isWriter_def isIndexer_def
        isNodeRoleValid_iff role_defs split: if_splits)
  note e = setRoleAndWriterKey_effect [OF *(4)]
  have wkr: "ne_wk r = subarray 1 33 tb" using *(2) ne_decode_length [OF *(2)] by (auto simp: ne_decode_Some)
  have agree: "batch s' k = ((batch s)(ta \<mapsto> tb', ra \<mapsto> ab')) k" if "account E k" for k
    using that assms(2) by (simp add: *(10) v(3) key txKey_def)
  have ta': "batch s' ta = Some tb'" using agree [OF acc(2)] ne by simp
  have lq: "int (liquid tb') = int (liquid tb) + 0" using e by simp
  note two = two_changes [OF agree *(1,6) ne lq charged_shift [OF *(7)]]
  show ?thesis
    using two *(1,5,8,9) ta' role wkr e unfolding parties by auto
qed

theorem remove_indexer_effect_witness:
  "\<exists>s'. handleApplyRemoveIndexerOperation xenv (xcontrol OT_REMOVE_INDEXER CHR ''g'') (xnode 1) xstate = Some (SUCCESS, s') \<and>
     roleOf (batch s') (acct CHR ''g'') = WRITER \<and> base s' = ([xwk 1], [xwk 4, xwk 2, xwk 3])"
proof -
  obtain s' where r: "handleApplyRemoveIndexerOperation xenv (xcontrol OT_REMOVE_INDEXER CHR ''g'') (xnode 1) xstate
      = Some (SUCCESS, s')" using xremoveIndexer_runs by auto
  have "roleOf (batch s') (acct CHR ''g'') = WRITER \<and> base s' = ([xwk 1], [xwk 4, xwk 2, xwk 3])"
    using remove_indexer_effect [OF r prefix_ok_xenv] by auto
  with r show ?thesis by blast
qed

text \<open>REMOVE_INDEXER on the administrator itself leaves the two records apart: the base
  demotes the key to a plain writer, but the entry written last is the charged one read before the
  demotion, so the account keeps the role of an indexer.\<close>

theorem remove_indexer_self:
  assumes "handleApplyRemoveIndexerOperation E op node s = Some (SUCCESS, s')"
    and "prefix_ok E" "ledger_ok E (batch s)" "requester op = target op"
  shows "roleOf (batch s') (target op) = INDEXER \<and>
    (\<exists>b. base_removeWriter E (keyOf (batch s) (target op)) (base s) = Some b \<and>
         base_addWriter E (keyOf (batch s) (target op)) False b = Some (base s'))"
proof -
  obtain ra ta tx where v: "indexer_verify OT_REMOVE_INDEXER E op node s = Some (ra, ta, tx)"
    and rem: "removeIndexer E node tx ta (bytes (p_ia (payload_of op))) ra s = Some (SUCCESS, s')"
    using assms(1) unfolding handleApplyRemoveIndexerOperation_def by (auto simp: flow)
  note v = indexer_verify_Some [OF v]
  have parties: "ra = ta" "ta = target op" "account E ta"
    using v(1,2) assms(4) by (auto simp: bufferToAddress_Some requester_def target_def)
  obtain tb r tb' ab ab' sb n l where *:
    "batch s ta = Some tb" "ne_decode (Some tb) = Some r" "isIndexer (Some tb)"
    "batch s ra = Some ab" "charged fee ab ab'"
    "base_removeWriter E (ne_wk r) (base s) = Some sb" "base_addWriter E (ne_wk r) False sb = Some (base s')"
    "batch s' = (batch s)(EntryType_WRITERS_INDEX @ show_nat n \<mapsto> bytes (p_ia (payload_of op)), EntryType_WRITERS_LENGTH \<mapsto> l,
       ta \<mapsto> tb', ra \<mapsto> ab', tx \<mapsto> node_value node)"
    by (rule removeIndexer_success [OF rem])
  have role: "tb ! 0 = INDEXER"
    using ledger_ok_entry [OF assms(3) parties(3) *(1)] *(3)
    by (auto simp: good_entry_def valid_entry_def isWhitelisted_def isWriter_def isIndexer_def
        isNodeRoleValid_iff role_defs split: if_splits)
  have wkr: "ne_wk r = subarray 1 33 tb" using *(2) ne_decode_length [OF *(2)] by (auto simp: ne_decode_Some)
  have "batch s' ta = Some ab'"
    using parties assms(2) by (simp add: *(8) v(3) key txKey_def)
  then show ?thesis
    using *(1,4,6,7) charged_effect(3) [OF *(5)] role wkr unfolding parties(1) parties(2) by auto
qed

theorem remove_indexer_self_witness:
  "\<exists>s'. handleApplyRemoveIndexerOperation xenv (xcontrol OT_REMOVE_INDEXER CHR ''d'') (xnode 1) xstate = Some (SUCCESS, s') \<and>
     roleOf (batch s') (acct CHR ''d'') = INDEXER \<and> base s' = ([xwk 4], [xwk 1, xwk 2, xwk 3])"
proof -
  obtain s' where r: "handleApplyRemoveIndexerOperation xenv (xcontrol OT_REMOVE_INDEXER CHR ''d'') (xnode 1) xstate
      = Some (SUCCESS, s')" using xself_runs by auto
  have "roleOf (batch s') (acct CHR ''d'') = INDEXER \<and> base s' = ([xwk 4], [xwk 1, xwk 2, xwk 3])"
    using remove_indexer_self [OF r prefix_ok_xenv] by auto
  with r show ?thesis by blast
qed

end
