(* ===== verification/Loop_Claims.thy ===== *)
theory Loop_Claims
  imports Payment_Claims Access_Claims
begin

text \<open>
  Properties of the apply loop: what every operation, every batch and every run of batches keeps, and the
  penalty of a validator.
\<close>

section \<open>A run of the concrete network\<close>

lemma xdispatch_runs: "\<exists>s'. dispatch xenv (xtransfer CHR ''a'' CHR ''c'' (10 ^ 18)) (xnode 2) xstate = Some (SUCCESS, s')"
  using xtransfer_runs [of "CHR ''c''"] by (simp add: dispatch_def getApplyOperationHandler_def)

lemma xbatch_runs:
  assumes "dispatch xenv (xtransfer CHR ''a'' CHR ''c'' (10 ^ 18)) (xnode 2) xstate = Some (SUCCESS, s')"
  shows "apply_batch xenv [xnode 2] xstate = Some s'"
  using assms
  by (simp add: apply_batch_def applyNode_def dispatch_def getApplyOperationHandler_def)

lemma xreachable: "\<exists>s'. apply_batch xenv [xnode 2] xstate = Some s' \<and> reachable xenv True xstate s'"
proof -
  obtain s' where r: "dispatch xenv (xtransfer CHR ''a'' CHR ''c'' (10 ^ 18)) (xnode 2) xstate = Some (SUCCESS, s')"
    using xdispatch_runs by blast
  have "reachable xenv True xstate s'"
    by (rule reachable.step [OF reachable.start xbatch_runs [OF r]]) (simp add: canonical_node_def)
  with xbatch_runs [OF r] show ?thesis by blast
qed

section \<open>Runs\<close>

text \<open>C1. Once the genesis phase is closed no run of batches creates money: in every state it reaches the
  accounts hold together, stakes included, no more than they held at its start, if no address in it
  has a byte past ASCII.\<close>

theorem supply_never_grows:
  assumes "reachable E True s0 s" "prefix_ok E" "ledger_ok E (batch s0)" "genesis_over s0"
  shows "total_supply E (batch s) \<le> total_supply E (batch s0)"
  using reachable_keeps [OF assms(1-3)] assms(4) by (simp add: keeps_def)

theorem supply_never_grows_witness:
  "\<exists>s'. apply_batch xenv [xnode 2] xstate = Some s' \<and> total_supply xenv (batch s') \<le> total_supply xenv xbatch"
proof -
  obtain s' where r: "apply_batch xenv [xnode 2] xstate = Some s'" "reachable xenv True xstate s'" using xreachable by blast
  then show ?thesis using supply_never_grows [OF r(2)] by auto
qed

text \<open>The registries of the concrete network are sound.\<close>

lemma xbatch_counters:
  "counter xbatch EntryType_WRITERS_LENGTH = 4" "counter xbatch EntryType_LICENSE_COUNT = 5"
  by (simp_all add: counter_def be_nat_uint32_bytes)

lemma records_upd:
  "\<forall>k v. m k = Some v \<longrightarrow> P k v \<Longrightarrow> P a x \<Longrightarrow> \<forall>k v. (m(a \<mapsto> x)) k = Some v \<longrightarrow> P k v"
  by simp

lemma xindexes_there:
  "n < 4 \<Longrightarrow> xindexes (EntryType_WRITERS_INDEX @ show_nat n) \<noteq> None"
  "n < 5 \<Longrightarrow> xindexes (EntryType_LICENSE_INDEX @ show_nat (n + 1)) \<noteq> None"
  by (auto simp: xindexes_def less_Suc_eq numeral_eq_Suc)

lemma xregistries: "registries_ok xenv xbatch"
  unfolding registries_ok_def xbatch_counters
proof (intro conjI allI impI)
  define P where "P = record_ok xenv xbatch"
  have named: "names_account xenv xbatch (addr c)" if "c \<in> set ''bcdefg''" for c
    using that by (auto intro!: names_accountI [where a = "acct c"])
  have P: "P (acct c) v" "P (EntryType_WRITER_ADDRESS @ x) (addr CHR ''b'')"
    "P (EntryType_WRITER_ADDRESS @ x) (addr CHR ''d'')" "P (EntryType_WRITER_ADDRESS @ x) (addr CHR ''f'')"
    "P (EntryType_WRITER_ADDRESS @ x) (addr CHR ''g'')"
    "P (EntryType_WRITERS_INDEX @ x) (addr CHR ''b'')" "P (EntryType_WRITERS_INDEX @ x) (addr CHR ''d'')"
    "P (EntryType_WRITERS_INDEX @ x) (addr CHR ''f'')" "P (EntryType_WRITERS_INDEX @ x) (addr CHR ''g'')"
    "P (EntryType_LICENSE_INDEX @ x) (addr CHR ''b'')" "P (EntryType_LICENSE_INDEX @ x) (addr CHR ''d'')"
    "P (EntryType_LICENSE_INDEX @ x) (addr CHR ''e'')" "P (EntryType_LICENSE_INDEX @ x) (addr CHR ''f'')"
    "P (EntryType_LICENSE_INDEX @ x) (addr CHR ''g'')"
    "P EntryType_INITIALIZATION (safeWriteUInt32BE 0)"
    "P EntryType_LICENSE_COUNT (uint32_bytes 5)" "P EntryType_WRITERS_LENGTH (uint32_bytes 4)" for c v x
    by (simp_all add: P_def record_kinds named)
  have P': "P EntryType_ADMIN (addr CHR ''d'' @ xwk 1)" "P (EntryType_DEPLOYMENT @ x) (xwk 8 @ addr CHR ''c'')" for x
    using admin_record [of xenv "addr CHR ''d''" "acct CHR ''d''" "xwk 1"]
      deployment_record [of "xwk 8" "addr CHR ''c''" xenv] named [of "CHR ''c''"]
    by (auto simp: P_def record_kinds)
  have "\<forall>k v. xbatch k = Some v \<longrightarrow> P k v"
    unfolding xbatch_def xindexes_def by (intro records_upd P P') simp
  then show "record_ok xenv xbatch k v" if "xbatch k = Some v" for k v
    using that by (simp add: P_def)
  show "xbatch (EntryType_WRITERS_INDEX @ show_nat n) \<noteq> None" if "n < 4" for n
    using that xindexes_there by (simp add: xbatch_def key)
  show "xbatch (EntryType_LICENSE_INDEX @ show_nat (n + 1)) \<noteq> None" if "n < 5" for n
    using that xindexes_there by (simp add: xbatch_def key)
qed

text \<open>C2. Every state a run reaches has well-formed accounts: entries of the right size with one of the four
  roles, whose stake is 0.3 TNK for writers and indexers and nothing for everybody else. From a state with
  sound registries it reaches only such states: the administrator's record, every registered writer key,
  every indexed writer, every licence and every deployment can be decoded and names an account that is
  there, the flag of the genesis phase is 0 or 1, and below the two counters no index is missing.\<close>

theorem ledger_invariant:
  assumes "reachable E c s0 s" "prefix_ok E" "ledger_ok E (batch s0)"
  shows "ledger_ok E (batch s) \<and> (registries_ok E (batch s0) \<longrightarrow> registries_ok E (batch s))"
  using reachable_keeps [OF assms] by (simp add: keeps_def)

theorem ledger_invariant_witness:
  "\<exists>s'. apply_batch xenv [xnode 2] xstate = Some s' \<and> ledger_ok xenv (batch s') \<and> registries_ok xenv (batch s')"
proof -
  obtain s' where r: "apply_batch xenv [xnode 2] xstate = Some s'" "reachable xenv True xstate s'" using xreachable by blast
  then show ?thesis using ledger_invariant [OF r(2)] xregistries by auto
qed

text \<open>C4. What a run recorded under a transaction hash stays recorded, unchanged, for ever.\<close>

theorem log_append_only:
  assumes "reachable E c s0 s" "prefix_ok E" "ledger_ok E (batch s0)" "batch s0 (to_hex h) = Some v"
  shows "batch s (to_hex h) = Some v"
  using reachable_keeps [OF assms(1-3)] assms(4) by (simp add: keeps_def)

text \<open>The transfer on a state that has an operation recorded.\<close>

abbreviation xlogged where "xlogged \<equiv> put (to_hex (xwk 40)) [7] xstate"

lemma xlogged_ok: "ledger_ok xenv (batch xlogged)" "total_supply xenv (batch xlogged) < 2 ^ 128"
  using supply_put_other [of xenv "to_hex (xwk 40)" xbatch "Some [7]"] by (simp_all add: ledger_puts key)

lemma xlogged_runs: "\<exists>s'. apply_batch xenv [xnode 2] xlogged = Some s' \<and> reachable xenv True xlogged s'"
proof -
  have "to_hex (xwk 40) \<noteq> to_hex (xwk 95)" by (simp add: to_hex_inj xwk_def)
  moreover have "indexersMatch xenv (xwk 65) xlogged" by (simp add: indexersMatch_def getIndexerSequenceStateApply_def xhash_wk)
  ultimately have "\<exists>s'. handleApplyTransferOperation xenv (xtransfer CHR ''a'' CHR ''c'' (10 ^ 18)) (xnode 2) xlogged = Some (SUCCESS, s')"
    by (intro transfer_accepts [OF xlogged_ok xtransfer_verify]) (auto simp: transferCost_def fee_milli key)
  then obtain s' where "dispatch xenv (xtransfer CHR ''a'' CHR ''c'' (10 ^ 18)) (xnode 2) xlogged = Some (SUCCESS, s')"
    by (auto simp: dispatch_def getApplyOperationHandler_def)
  then have r: "apply_batch xenv [xnode 2] xlogged = Some s'"
    by (simp add: apply_batch_def applyNode_def dispatch_def getApplyOperationHandler_def)
  have "reachable xenv True xlogged s'"
    by (rule reachable.step [OF reachable.start r]) (simp add: canonical_node_def)
  with r show ?thesis by blast
qed

theorem log_append_only_witness:
  "\<exists>s'. apply_batch xenv [xnode 2] xlogged = Some s' \<and> batch s' (to_hex (xwk 40)) = Some [7]"
proof -
  obtain s' where s': "apply_batch xenv [xnode 2] xlogged = Some s'" "reachable xenv True xlogged s'" using xlogged_runs by blast
  have "batch xlogged (to_hex (xwk 40)) = Some [7]" by simp
  from log_append_only [OF s'(2) prefix_ok_xenv xlogged_ok(1) this] show ?thesis using s'(1) by blast
qed

text \<open>C3. An operation that succeeded never succeeds a second time, nor does another with its hash: not in the
  state it leaves and not in any state a run reaches from there.\<close>

theorem no_replay:
  assumes "dispatch E op node s0 = Some (SUCCESS, s1)" "reachable E c s1 s" "prefix_ok E" "ledger_ok E (batch s0)"
    and "txKey op' = txKey op"
  shows "dispatch E op' node' s \<noteq> Some (SUCCESS, s')"
proof -
  have "ledger_ok E (batch s1)" using disp.ledger_kept [OF assms(3,4,1)] .
  moreover have "batch s1 (txKey op) \<noteq> None" using disp.recorded [OF assms(1)] by simp
  ultimately have "batch s (txKey op') \<noteq> None"
    using reachable_keeps [OF assms(2,3)] assms(5) by (auto simp: keeps_def txKey_def)
  then show ?thesis by (rule disp.replay_refused)
qed

theorem no_replay_witness:
  "\<exists>s1. dispatch xenv (xtransfer CHR ''a'' CHR ''c'' (10 ^ 18)) (xnode 2) xstate = Some (SUCCESS, s1) \<and>
     dispatch xenv (xtransfer CHR ''a'' CHR ''c'' (10 ^ 18)) (xnode 2) s1 \<noteq> Some (SUCCESS, s1)"
proof -
  obtain s1 where r: "dispatch xenv (xtransfer CHR ''a'' CHR ''c'' (10 ^ 18)) (xnode 2) xstate = Some (SUCCESS, s1)"
    using xdispatch_runs by blast
  then show ?thesis using no_replay [OF r reachable.start] by auto
qed

text \<open>The genesis phase ends once: in no state that a run reaches after it does ADD_ADMIN,
  BALANCE_INITIALIZATION or DISABLE_INITIALIZATION succeed again.\<close>

theorem genesis_final:
  assumes "reachable E c s0 s" "prefix_ok E" "ledger_ok E (batch s0)" "genesis_over s0"
    and "op_type op \<in> {OT_ADD_ADMIN, OT_BALANCE_INITIALIZATION, OT_DISABLE_INITIALIZATION}"
  shows "dispatch E op node s \<noteq> Some (SUCCESS, s')"
proof
  assume d: "dispatch E op node s = Some (SUCCESS, s')"
  have g: "genesis_over s" using reachable_keeps [OF assms(1-3)] assms(4) by (simp add: keeps_def)
  consider "handleApplyAddAdminOperation E op node s = Some (SUCCESS, s')"
    | "handleApplyInitializeBalanceOperation E op node s = Some (SUCCESS, s')"
    | "handleApplyDisableBalanceInitializationOperation E op node s = Some (SUCCESS, s')"
    using d assms(5) by (auto simp: dispatch_def getApplyOperationHandler_def)
  then show False
  proof cases
    case 1
    then obtain ra where v: "addAdmin_verify E op node s = Some ra"
      by (rule handleApplyAddAdminOperation_success)
    show False using addAdmin_verify_Some(6) [OF v] g by (simp add: genesis_over_def)
  next
    case 2
    then have "\<not> isApplyInitalizationDisabled s" by (rule handleApplyInitializeBalanceOperation_success)
    then show False using g by (simp add: genesis_over_def)
  next
    case 3
    then have "\<not> isApplyInitalizationDisabled s" by (rule handleApplyDisableBalanceInitializationOperation_success)
    then show False using g by (simp add: genesis_over_def)
  qed
qed

theorem genesis_final_witness:
  "\<exists>s'. apply_batch xenv [xnode 2] xstate = Some s' \<and>
     dispatch xenv (xinitialize CHR ''a'' 5) (xnode 1) s' \<noteq> Some (SUCCESS, s')"
proof -
  obtain s' where r: "apply_batch xenv [xnode 2] xstate = Some s'" "reachable xenv True xstate s'" using xreachable by blast
  then show ?thesis using genesis_final [OF r(2)] by auto
qed

section \<open>One operation\<close>

text \<open>C32. An operation that is not accepted, whether it fails or is ignored, changes nothing: store,
  base and events are those before it.\<close>

theorem rejected_unchanged:
  assumes "dispatch E op node s = Some (st, s')" "st \<noteq> SUCCESS" "prefix_ok E" "ledger_ok E (batch s)"
  shows "s' = s"
  using disp.rejected [OF assms(3,4,1,2)] .

theorem rejected_unchanged_witness:
  "\<exists>s'. dispatch xenv (xtransfer CHR ''a'' CHR ''c'' (6 * 10 ^ 18)) (xnode 2) xstate = Some (IGNORE, s') \<and> s' = xstate"
proof -
  have "handleApplyTransferOperation xenv (xtransfer CHR ''a'' CHR ''c'' (6 * 10 ^ 18)) (xnode 2) xstate = Some (IGNORE, xstate)"
    by (rule transfer_insufficient [OF xtransfer_verify]) (auto simp: transferCost_def fee_milli)
  then have r: "dispatch xenv (xtransfer CHR ''a'' CHR ''c'' (6 * 10 ^ 18)) (xnode 2) xstate = Some (IGNORE, xstate)"
    by (simp add: dispatch_def getApplyOperationHandler_def)
  then show ?thesis using rejected_unchanged [OF r] by simp
qed

text \<open>An accepted operation was not recorded before and is recorded after, under its own hash.\<close>

theorem accepted_recorded:
  assumes "dispatch E op node s = Some (SUCCESS, s')"
  shows "batch s (txKey op) = None \<and> batch s' (txKey op) = Some (node_value node)"
  using disp.recorded [OF assms] .

theorem accepted_recorded_witness:
  "\<exists>s'. dispatch xenv (xtransfer CHR ''a'' CHR ''c'' (10 ^ 18)) (xnode 2) xstate = Some (SUCCESS, s') \<and>
     batch s' (to_hex (xwk 95)) = Some [2]"
proof -
  obtain s' where r: "dispatch xenv (xtransfer CHR ''a'' CHR ''c'' (10 ^ 18)) (xnode 2) xstate = Some (SUCCESS, s')"
    using xdispatch_runs by blast
  then show ?thesis using accepted_recorded [OF r] by auto
qed

section \<open>The penalty\<close>

text \<open>A batch of more than ten nodes is not applied at all: no operation of it is recorded, and all that
  happens is the penalty of its author for ten invalid operations.\<close>

theorem oversized_batch:
  assumes "apply_batch E nodes s = Some s'" "BATCH_SIZE < length nodes" "prefix_ok E"
  shows "validatorPenaltyApply E (from_key (hd nodes)) BATCH_SIZE s = Some s' \<and>
    (\<forall>h. batch s' (to_hex h) = batch s (to_hex h))"
proof -
  have "validatorPenaltyApply E (from_key (hd nodes)) BATCH_SIZE s = Some s'"
    using assms(1,2) by (auto simp: apply_batch_def split: if_splits)
  then show ?thesis using penalty_laws(1) [OF _ assms(3)] by blast
qed

theorem oversized_batch_witness:
  "apply_batch xenv (replicate 11 (xnode 1)) xstate = Some xstate \<and>
   validatorPenaltyApply xenv (xwk 1) BATCH_SIZE xstate = Some xstate"
proof -
  have r: "apply_batch xenv (replicate 11 (xnode 1)) xstate = Some xstate"
    by (simp add: apply_batch_def validatorPenaltyApply_def)
  then show ?thesis using oversized_batch [OF r] by simp
qed

lemma penalty_runs:
  assumes l: "ledger_ok E (batch s)" and small: "total_supply E (batch s) < 2 ^ 128" and n: "n \<le> BATCH_SIZE"
    and ad: "ae_decode E (batch s EntryType_ADMIN) = Some ae" "ae_wk ae \<noteq> wk"
    and reg: "batch s (EntryType_WRITER_ADDRESS @ to_hex wk) = Some vab" "addressAndKey E vab = Some (va, pk)"
    and vb: "batch s va = Some vb"
  shows "\<exists>vb'. length vb' = 69 \<and> vb' ! 0 = WHITELISTED \<and> staked vb' = 0 \<and>
    liquid vb' = liquid vb + (staked vb - n * fee) \<and>
    validatorPenaltyApply E wk n s = map_option (put va vb') (removeWriterBase E wk s)"
proof -
  have va: "account E va" using reg(2) by (auto dest: addressAndKey_account)
  have len: "length vb = 69" using good_entry_length [OF ledger_ok_entry [OF l va vb]] .
  obtain st where st: "toBalance (ne_stakedBalance (decoded vb)) = Some st" "bal_ok st" "bal_nat st = staked vb"
    using entry_balance [OF len] len by auto
  have "n * fee \<le> 10 * fee" using n by simp
  then have nf: "n * fee < 2 ^ 128" by (simp add: fee_def)
  have "toTerm (int n) = amount n" by (simp add: toTerm_def amount_def)
  moreover have "be_nat (amount n) = n" using n by simp
  ultimately have pen: "bal_mul BALANCE_FEE (toTerm (int n)) = Some (Balance (amount (n * fee)))"
    using nf bal_mul_eq [of BALANCE_FEE "amount n"] by (simp add: mult.commute)
  have p: "bal_ok (Balance (amount (n * fee)))" "bal_nat (Balance (amount (n * fee))) = n * fee" using nf by simp_all
  have hold: "liquid vb + staked vb < 2 ^ 128"
    using holding_le_supply [OF ledger_ok_finite [OF l] va] vb small by (simp add: entry_holding_eq)
  define d where "d = staked vb - n * fee"
  have ded: "(if bal_greaterThanOrEquals (Balance (amount (n * fee))) st then Some BALANCE_ZERO
      else bal_sub st (Balance (amount (n * fee)))) = Some (if d = 0 then BALANCE_ZERO else Balance (amount d))"
    using bal.ge_iff [OF p(1) st(2)] bal_sub_eq [OF st(2) p(1)] p st by (auto simp: d_def)
  have zero: "length (bal_value BALANCE_ZERO) = 16" by (simp add: BALANCE_ZERO_def)
  define b0 where "b0 = (if d = 0 then vb else with_liquid (liquid vb + d) vb)"
  have len0: "length b0 = 69" using len by (simp add: b0_def)
  then obtain e where e: "setStakedBalance (Some b0) (bal_value BALANCE_ZERO) = Some e"
    using zero by (simp add: setStakedBalance_def)
  note eff = setStakedBalance_effect [OF e]
  have "validatorPenaltyApply E wk n s = map_option (put va (e[0 := WHITELISTED])) (removeWriterBase E wk s)"
  proof (cases "d = 0")
    case True
    then show ?thesis
      using ad reg vb len st(1) pen ded e eff(1)
      by (auto simp: b0_def validatorPenaltyApply_def bal_greaterThan_iff ae_decode_def split: option.splits if_splits)
  next
    case False
    have d128: "d < 2 ^ 128" using hold by (simp add: d_def)
    then show ?thesis
      using False ad reg vb len st(1) pen ded e eff(1) hold
      by (auto simp: b0_def validatorPenaltyApply_def bal_greaterThan_iff ae_decode_def d_def split: option.splits if_splits)
  qed
  moreover have "liquid e = liquid vb + d \<and> staked e = 0"
    using eff len hold by (auto simp: b0_def d_def BALANCE_ZERO_def split: if_splits)
  ultimately show ?thesis
    using eff(1) by (intro exI [of _ "e[0 := WHITELISTED]"]) (simp add: d_def liquid_def staked_def subarray_update_0)
qed

text \<open>C11. The author of a batch with \<open>n\<close> invalid operations, unless it is the administrator's node, loses
  \<open>n\<close> fees of its stake, at most all of it. It is no writer any more: what is left of the stake is
  back in its balance, its role is WHITELISTED whatever it was, and the base drops the key.\<close>

theorem penalty_exact:
  assumes "validatorPenaltyApply E wk n s = Some s'" and "prefix_ok E" "ledger_ok E (batch s)"
    and "total_supply E (batch s) < 2 ^ 128" "n \<le> BATCH_SIZE"
    and "ae_decode E (batch s EntryType_ADMIN) = Some ae" "ae_wk ae \<noteq> wk"
    and "batch s (EntryType_WRITER_ADDRESS @ to_hex wk) = Some vab" "addressAndKey E vab = Some (va, pk)"
    and "batch s va = Some vb"
  shows "roleOf (batch s') va = WHITELISTED \<and> stakeOf (batch s') va = 0 \<and>
    base_removeWriter E wk (base s) = Some (base s') \<and>
    pays E (batch s) (batch s') (\<lambda>k. if k = va then int (stakeOf (batch s) va - n * fee) else 0) \<and>
    keepsRoles E (batch s) (batch s') {va}"
proof -
  obtain vb' where b: "length vb' = 69" "vb' ! 0 = WHITELISTED" "staked vb' = 0"
    "liquid vb' = liquid vb + (staked vb - n * fee)"
    "validatorPenaltyApply E wk n s = map_option (put va vb') (removeWriterBase E wk s)"
    using penalty_runs [OF assms(3-10)] by blast
  obtain s1 where s1: "removeWriterBase E wk s = Some s1" "s' = put va vb' s1" using b(5) assms(1)
    by (cases "removeWriterBase E wk s") auto
  note r = removeWriterBase_batch [OF s1(1)]
  have "pays E (batch s) (batch s') (\<lambda>k. if k = va then int (stakeOf (batch s) va - n * fee) else 0) \<and>
      keepsRoles E (batch s) (batch s') {va}"
    using r s1(2) b assms(10) by (intro one_change [where a = vb']) auto
  then show ?thesis using r s1(2) b by simp
qed

theorem penalty_exact_witness:
  "\<exists>s'. apply_batch xenv [xnode 3] xstate = Some s' \<and>
     int (liquidOf (batch s') (acct CHR ''f'')) = int (liquidOf xbatch (acct CHR ''f'')) + int (9 * fee)"
proof -
  obtain vb' where v: "validatorPenaltyApply xenv (xwk 3) 1 xstate =
      map_option (put (acct CHR ''f'') vb') (removeWriterBase xenv (xwk 3) xstate)"
    using penalty_runs [of xenv xstate 1 "\<lparr>ae_address = Some (acct CHR ''d''), ae_wk = xwk 1\<rparr>" "xwk 3" "addr CHR ''f''"
        "acct CHR ''f''" "addr CHR ''f''" "xentry (xwk 3) WRITER 1000 4"] by auto
  then obtain s' where r: "validatorPenaltyApply xenv (xwk 3) 1 xstate = Some s'"
    by (auto simp: removeWriterBase_def)
  have "int (liquidOf (batch s') (acct CHR ''f'')) = int (liquidOf xbatch (acct CHR ''f'')) + int (9 * fee)"
    using penalty_exact [OF r prefix_ok_xenv, of "\<lparr>ae_address = Some (acct CHR ''d''), ae_wk = xwk 1\<rparr>" "addr CHR ''f''"]
      account_acct [of "CHR ''f''"] by (auto simp: pays_def)
  moreover have "apply_batch xenv [xnode 3] xstate = Some s'"
    using r by (simp add: apply_batch_def applyNode_def)
  ultimately show ?thesis by blast
qed

end
