(* ===== verification/Codec.thy ===== *)
theory Codec
  imports Check
begin

text \<open>
  The codec of apply operations, \<open>src/utils/protobuf/applyOperations.cjs\<close> with the two safe
  wrappers of \<open>operationHelpers.js\<close>: seven payload messages of bytes fields and the
  message \<open>Operation\<close> with its type, address and one of the payloads. The package
  \<open>protocol-buffers-encodings\<close> it calls is the record \<open>wire\<close>: the bytes each encoder writes
  and their number, and what each decoder reads at an offset, with the bytes it consumed, or
  \<open>None\<close> when it throws. \<open>b4a.allocUnsafe\<close> is in it too: its content is not
  specified.
\<close>

section \<open>The wire library\<close>

record wire =
  varint_encode :: "nat \<Rightarrow> buffer"
  varint_length :: "nat \<Rightarrow> nat"
  varint_decode :: "buffer \<Rightarrow> nat \<Rightarrow> (nat \<times> nat) option"
  bytes_encode :: "buffer \<Rightarrow> buffer"
  bytes_length :: "buffer \<Rightarrow> nat"
  bytes_decode :: "buffer \<Rightarrow> nat \<Rightarrow> (buffer \<times> nat) option"
  enum_encode :: "nat \<Rightarrow> buffer"
  enum_length :: "nat \<Rightarrow> nat"
  enum_decode :: "buffer \<Rightarrow> nat \<Rightarrow> (int \<times> nat) option"
  skip_field :: "nat \<Rightarrow> buffer \<Rightarrow> nat \<Rightarrow> nat option"
  allocUnsafe :: "nat \<Rightarrow> buffer"

text \<open>A call that may throw returns or throws; a loop that does not end is \<open>None\<close> around it.\<close>

datatype 'a thrown = Returns 'a | Throws

section \<open>Writing bytes fields\<close>

text \<open>
  One \<open>if (defined(obj.f))\<close> block after the other, each with its key byte. Writing past the end of a
  buffer is silently dropped, as by a typed array and by \<open>Buffer.copy\<close>. The pair is the buffer and
  the offset after the block.
\<close>

fun encode_fields :: "wire \<Rightarrow> (byte \<times> field) list \<Rightarrow> buffer \<Rightarrow> nat \<Rightarrow> buffer \<times> nat" where
  "encode_fields w [] buf offset = (buf, offset)"
| "encode_fields w ((key, f) # fs) buf offset =
     (case f of
        Bytes b \<Rightarrow>
          (let buf = buf[offset := key];
               offset = offset + 1;
               buf = copy_into (bytes_encode w b) offset buf;
               offset = offset + length (bytes_encode w b)
           in encode_fields w fs buf offset)
      | _ \<Rightarrow> encode_fields w fs buf offset)"

fun fields_length :: "wire \<Rightarrow> field list \<Rightarrow> nat" where
  "fields_length w [] = 0"
| "fields_length w (f # fs) =
     (case f of Bytes b \<Rightarrow> 1 + bytes_length w b | _ \<Rightarrow> 0) + fields_length w fs"

section \<open>Reading fields\<close>

text \<open>\<open>prefix >> 3\<close> on a signed 32-bit integer.\<close>

definition tag_of :: "nat \<Rightarrow> int" where
  "tag_of prefix = sint (word_of_nat prefix :: 32 word) div 8"

text \<open>
  The \<open>while (true)\<close> of every decoder. \<open>arm\<close> is its \<open>switch\<close>: from the tag, the wire type, the object and the offset
  to the object and the offset after the field.
\<close>

partial_function (option) decode_loop ::
  "wire \<Rightarrow> (int \<Rightarrow> nat \<Rightarrow> 'o \<Rightarrow> nat \<Rightarrow> ('o \<times> nat) thrown option) \<Rightarrow> buffer \<Rightarrow> nat \<Rightarrow> 'o \<Rightarrow> nat \<Rightarrow>
     ('o \<times> nat) thrown option" where
  "decode_loop w arm buf end obj offset =
     (if end \<le> offset then Some (Returns (obj, offset))
      else case varint_decode w buf offset of
        None \<Rightarrow> Some Throws
      | Some (prefix, n) \<Rightarrow> (
          case arm (tag_of prefix) (prefix mod 8) obj (offset + n) of
            None \<Rightarrow> None
          | Some r \<Rightarrow> (
              case r of
                Throws \<Rightarrow> Some Throws
              | Returns q \<Rightarrow> decode_loop w arm buf end (fst q) (snd q))))"

text \<open>\<open>end\<close> is falsy when the caller leaves it out. The number in the result is \<open>decode.bytes\<close>.\<close>

definition decode_message ::
  "wire \<Rightarrow> (buffer \<Rightarrow> int \<Rightarrow> nat \<Rightarrow> 'o \<Rightarrow> nat \<Rightarrow> ('o \<times> nat) thrown option) \<Rightarrow> 'o \<Rightarrow> buffer \<Rightarrow> nat \<Rightarrow> nat \<Rightarrow>
     ('o \<times> nat) thrown option" where
  "decode_message w arm obj buf offset end =
     (let end = (if end = 0 then length buf else end)
      in if \<not> (end \<le> length buf \<and> offset \<le> length buf) then Some Throws
      else case decode_loop w (arm buf) buf end obj offset of
        None \<Rightarrow> None
      | Some Throws \<Rightarrow> Some Throws
      | Some (Returns (obj, offset')) \<Rightarrow> Some (Returns (obj, offset' - offset)))"

definition set_tx :: "field \<Rightarrow> payload \<Rightarrow> payload" where "set_tx f = p_tx_update (\<lambda>_. f)"
definition set_txv :: "field \<Rightarrow> payload \<Rightarrow> payload" where "set_txv f = p_txv_update (\<lambda>_. f)"
definition set_iw :: "field \<Rightarrow> payload \<Rightarrow> payload" where "set_iw f = p_iw_update (\<lambda>_. f)"
definition set_ia :: "field \<Rightarrow> payload \<Rightarrow> payload" where "set_ia f = p_ia_update (\<lambda>_. f)"
definition set_am :: "field \<Rightarrow> payload \<Rightarrow> payload" where "set_am f = p_am_update (\<lambda>_. f)"
definition set_in :: "field \<Rightarrow> payload \<Rightarrow> payload" where "set_in f = p_in_update (\<lambda>_. f)"
definition set_is :: "field \<Rightarrow> payload \<Rightarrow> payload" where "set_is f = p_is_update (\<lambda>_. f)"
definition set_to :: "field \<Rightarrow> payload \<Rightarrow> payload" where "set_to f = p_to_update (\<lambda>_. f)"
definition set_ch :: "field \<Rightarrow> payload \<Rightarrow> payload" where "set_ch f = p_ch_update (\<lambda>_. f)"
definition set_bs :: "field \<Rightarrow> payload \<Rightarrow> payload" where "set_bs f = p_bs_update (\<lambda>_. f)"
definition set_mbs :: "field \<Rightarrow> payload \<Rightarrow> payload" where "set_mbs f = p_mbs_update (\<lambda>_. f)"
definition set_ic :: "field \<Rightarrow> payload \<Rightarrow> payload" where "set_ic f = p_ic_update (\<lambda>_. f)"
definition set_va :: "field \<Rightarrow> payload \<Rightarrow> payload" where "set_va f = p_va_update (\<lambda>_. f)"
definition set_vn :: "field \<Rightarrow> payload \<Rightarrow> payload" where "set_vn f = p_vn_update (\<lambda>_. f)"
definition set_vs :: "field \<Rightarrow> payload \<Rightarrow> payload" where "set_vs f = p_vs_update (\<lambda>_. f)"

text \<open>The \<open>switch\<close> of a payload message: a bytes field for each case, \<open>skip\<close> by default.\<close>

definition bytes_arms :: "wire \<Rightarrow> (int \<times> (field \<Rightarrow> payload \<Rightarrow> payload)) list \<Rightarrow> buffer \<Rightarrow> int \<Rightarrow> nat \<Rightarrow>
    payload \<Rightarrow> nat \<Rightarrow> (payload \<times> nat) thrown option" where
  "bytes_arms w cases buf tag wireType obj offset = Some
     (case map_of cases tag of
        Some assign \<Rightarrow>
          (case bytes_decode w buf offset of
             None \<Rightarrow> Throws
           | Some (b, n) \<Rightarrow> Returns (assign (Bytes b) obj, offset + n))
      | None \<Rightarrow>
          (case skip_field w wireType buf offset of
             None \<Rightarrow> Throws
           | Some offset \<Rightarrow> Returns (obj, offset)))"

section \<open>CoreAdminOperation\<close>

definition CoreAdminOperation_null :: payload where
  "CoreAdminOperation_null = empty_payload\<lparr>p_tx := Null, p_txv := Null, p_iw := Null, p_in := Null, p_is := Null\<rparr>"

definition CoreAdminOperation_encodingLength :: "wire \<Rightarrow> payload \<Rightarrow> nat" where
  "CoreAdminOperation_encodingLength w obj =
     fields_length w [p_tx obj, p_txv obj, p_iw obj, p_in obj, p_is obj]"

definition CoreAdminOperation_encode :: "wire \<Rightarrow> payload \<Rightarrow> buffer \<Rightarrow> nat \<Rightarrow> buffer \<times> nat" where
  "CoreAdminOperation_encode w obj = encode_fields w
     [(10, p_tx obj), (18, p_txv obj), (26, p_iw obj), (34, p_in obj), (42, p_is obj)]"

definition CoreAdminOperation_decode :: "wire \<Rightarrow> buffer \<Rightarrow> nat \<Rightarrow> nat \<Rightarrow> (payload \<times> nat) thrown option" where
  "CoreAdminOperation_decode w = decode_message w
     (bytes_arms w [(1, set_tx), (2, set_txv), (3, set_iw), (4, set_in), (5, set_is)])
     CoreAdminOperation_null"

section \<open>AdminControlOperation\<close>

definition AdminControlOperation_null :: payload where
  "AdminControlOperation_null = empty_payload\<lparr>p_tx := Null, p_txv := Null, p_ia := Null, p_in := Null, p_is := Null\<rparr>"

definition AdminControlOperation_encodingLength :: "wire \<Rightarrow> payload \<Rightarrow> nat" where
  "AdminControlOperation_encodingLength w obj =
     fields_length w [p_tx obj, p_txv obj, p_ia obj, p_in obj, p_is obj]"

definition AdminControlOperation_encode :: "wire \<Rightarrow> payload \<Rightarrow> buffer \<Rightarrow> nat \<Rightarrow> buffer \<times> nat" where
  "AdminControlOperation_encode w obj = encode_fields w
     [(10, p_tx obj), (18, p_txv obj), (26, p_ia obj), (34, p_in obj), (42, p_is obj)]"

definition AdminControlOperation_decode :: "wire \<Rightarrow> buffer \<Rightarrow> nat \<Rightarrow> nat \<Rightarrow> (payload \<times> nat) thrown option" where
  "AdminControlOperation_decode w = decode_message w
     (bytes_arms w [(1, set_tx), (2, set_txv), (3, set_ia), (4, set_in), (5, set_is)])
     AdminControlOperation_null"

section \<open>BalanceInitializationOperation\<close>

definition BalanceInitializationOperation_null :: payload where
  "BalanceInitializationOperation_null = empty_payload\<lparr>p_tx := Null, p_txv := Null, p_ia := Null, p_am := Null,
     p_in := Null, p_is := Null\<rparr>"

definition BalanceInitializationOperation_encodingLength :: "wire \<Rightarrow> payload \<Rightarrow> nat" where
  "BalanceInitializationOperation_encodingLength w obj =
     fields_length w [p_tx obj, p_txv obj, p_ia obj, p_am obj, p_in obj, p_is obj]"

definition BalanceInitializationOperation_encode :: "wire \<Rightarrow> payload \<Rightarrow> buffer \<Rightarrow> nat \<Rightarrow> buffer \<times> nat" where
  "BalanceInitializationOperation_encode w obj = encode_fields w
     [(10, p_tx obj), (18, p_txv obj), (26, p_ia obj), (34, p_am obj), (42, p_in obj), (50, p_is obj)]"

definition BalanceInitializationOperation_decode :: "wire \<Rightarrow> buffer \<Rightarrow> nat \<Rightarrow> nat \<Rightarrow> (payload \<times> nat) thrown option" where
  "BalanceInitializationOperation_decode w = decode_message w
     (bytes_arms w [(1, set_tx), (2, set_txv), (3, set_ia), (4, set_am), (5, set_in), (6, set_is)])
     BalanceInitializationOperation_null"

section \<open>TransferOperation\<close>

definition TransferOperation_null :: payload where
  "TransferOperation_null = empty_payload\<lparr>p_tx := Null, p_txv := Null, p_to := Null, p_am := Null,
     p_in := Null, p_is := Null, p_va := Null, p_vn := Null, p_vs := Null\<rparr>"

definition TransferOperation_encodingLength :: "wire \<Rightarrow> payload \<Rightarrow> nat" where
  "TransferOperation_encodingLength w obj =
     fields_length w [p_tx obj, p_txv obj, p_to obj, p_am obj, p_in obj, p_is obj, p_va obj, p_vn obj, p_vs obj]"

definition TransferOperation_encode :: "wire \<Rightarrow> payload \<Rightarrow> buffer \<Rightarrow> nat \<Rightarrow> buffer \<times> nat" where
  "TransferOperation_encode w obj = encode_fields w
     [(10, p_tx obj), (18, p_txv obj), (26, p_to obj), (34, p_am obj), (42, p_in obj), (50, p_is obj),
      (58, p_va obj), (66, p_vn obj), (74, p_vs obj)]"

definition TransferOperation_decode :: "wire \<Rightarrow> buffer \<Rightarrow> nat \<Rightarrow> nat \<Rightarrow> (payload \<times> nat) thrown option" where
  "TransferOperation_decode w = decode_message w
     (bytes_arms w [(1, set_tx), (2, set_txv), (3, set_to), (4, set_am), (5, set_in), (6, set_is),
        (7, set_va), (8, set_vn), (9, set_vs)])
     TransferOperation_null"

section \<open>RoleAccessOperation\<close>

definition RoleAccessOperation_null :: payload where
  "RoleAccessOperation_null = empty_payload\<lparr>p_tx := Null, p_txv := Null, p_iw := Null,
     p_in := Null, p_is := Null, p_va := Null, p_vn := Null, p_vs := Null\<rparr>"

definition RoleAccessOperation_encodingLength :: "wire \<Rightarrow> payload \<Rightarrow> nat" where
  "RoleAccessOperation_encodingLength w obj =
     fields_length w [p_tx obj, p_txv obj, p_iw obj, p_in obj, p_is obj, p_va obj, p_vn obj, p_vs obj]"

definition RoleAccessOperation_encode :: "wire \<Rightarrow> payload \<Rightarrow> buffer \<Rightarrow> nat \<Rightarrow> buffer \<times> nat" where
  "RoleAccessOperation_encode w obj = encode_fields w
     [(10, p_tx obj), (18, p_txv obj), (26, p_iw obj), (34, p_in obj), (42, p_is obj),
      (50, p_va obj), (58, p_vn obj), (66, p_vs obj)]"

definition RoleAccessOperation_decode :: "wire \<Rightarrow> buffer \<Rightarrow> nat \<Rightarrow> nat \<Rightarrow> (payload \<times> nat) thrown option" where
  "RoleAccessOperation_decode w = decode_message w
     (bytes_arms w [(1, set_tx), (2, set_txv), (3, set_iw), (4, set_in), (5, set_is),
        (6, set_va), (7, set_vn), (8, set_vs)])
     RoleAccessOperation_null"

section \<open>TxOperation\<close>

definition TxOperation_null :: payload where
  "TxOperation_null = empty_payload\<lparr>p_tx := Null, p_txv := Null, p_iw := Null, p_ch := Null, p_bs := Null,
     p_mbs := Null, p_in := Null, p_is := Null, p_va := Null, p_vn := Null, p_vs := Null\<rparr>"

definition TxOperation_encodingLength :: "wire \<Rightarrow> payload \<Rightarrow> nat" where
  "TxOperation_encodingLength w obj =
     fields_length w [p_tx obj, p_txv obj, p_iw obj, p_ch obj, p_bs obj, p_mbs obj, p_in obj, p_is obj,
       p_va obj, p_vn obj, p_vs obj]"

definition TxOperation_encode :: "wire \<Rightarrow> payload \<Rightarrow> buffer \<Rightarrow> nat \<Rightarrow> buffer \<times> nat" where
  "TxOperation_encode w obj = encode_fields w
     [(10, p_tx obj), (18, p_txv obj), (26, p_iw obj), (34, p_ch obj), (42, p_bs obj), (50, p_mbs obj),
      (58, p_in obj), (66, p_is obj), (74, p_va obj), (82, p_vn obj), (90, p_vs obj)]"

definition TxOperation_decode :: "wire \<Rightarrow> buffer \<Rightarrow> nat \<Rightarrow> nat \<Rightarrow> (payload \<times> nat) thrown option" where
  "TxOperation_decode w = decode_message w
     (bytes_arms w [(1, set_tx), (2, set_txv), (3, set_iw), (4, set_ch), (5, set_bs), (6, set_mbs),
        (7, set_in), (8, set_is), (9, set_va), (10, set_vn), (11, set_vs)])
     TxOperation_null"

section \<open>BootstrapDeploymentOperation\<close>

definition BootstrapDeploymentOperation_null :: payload where
  "BootstrapDeploymentOperation_null = empty_payload\<lparr>p_tx := Null, p_txv := Null, p_bs := Null, p_ic := Null,
     p_in := Null, p_is := Null, p_va := Null, p_vn := Null, p_vs := Null\<rparr>"

definition BootstrapDeploymentOperation_encodingLength :: "wire \<Rightarrow> payload \<Rightarrow> nat" where
  "BootstrapDeploymentOperation_encodingLength w obj =
     fields_length w [p_tx obj, p_txv obj, p_bs obj, p_ic obj, p_in obj, p_is obj, p_va obj, p_vn obj, p_vs obj]"

definition BootstrapDeploymentOperation_encode :: "wire \<Rightarrow> payload \<Rightarrow> buffer \<Rightarrow> nat \<Rightarrow> buffer \<times> nat" where
  "BootstrapDeploymentOperation_encode w obj = encode_fields w
     [(10, p_tx obj), (18, p_txv obj), (26, p_bs obj), (34, p_ic obj), (42, p_in obj), (50, p_is obj),
      (58, p_va obj), (66, p_vn obj), (74, p_vs obj)]"

definition BootstrapDeploymentOperation_decode :: "wire \<Rightarrow> buffer \<Rightarrow> nat \<Rightarrow> nat \<Rightarrow> (payload \<times> nat) thrown option" where
  "BootstrapDeploymentOperation_decode w = decode_message w
     (bytes_arms w [(1, set_tx), (2, set_txv), (3, set_bs), (4, set_ic), (5, set_in), (6, set_is),
        (7, set_va), (8, set_vn), (9, set_vs)])
     BootstrapDeploymentOperation_null"

section \<open>Operation\<close>

text \<open>
  At most one payload is there (\<open>op_value\<close>), so the \<open>oneof\<close> guard of the source cannot throw. The type is
  a number, which is always defined.
\<close>

definition payload_encodingLength :: "wire \<Rightarrow> op_value \<Rightarrow> nat" where
  "payload_encodingLength w v = (case v of
     NoValue \<Rightarrow> 0
   | Cao p \<Rightarrow> CoreAdminOperation_encodingLength w p
   | Aco p \<Rightarrow> AdminControlOperation_encodingLength w p
   | Bio p \<Rightarrow> BalanceInitializationOperation_encodingLength w p
   | Tro p \<Rightarrow> TransferOperation_encodingLength w p
   | Rao p \<Rightarrow> RoleAccessOperation_encodingLength w p
   | Bdo p \<Rightarrow> BootstrapDeploymentOperation_encodingLength w p
   | Txo p \<Rightarrow> TxOperation_encodingLength w p)"

definition Operation_encodingLength :: "wire \<Rightarrow> operation \<Rightarrow> nat" where
  "Operation_encodingLength w obj =
     (let len = 1 + enum_length w (op_type obj);
          len = len + (case op_address obj of Bytes b \<Rightarrow> 1 + bytes_length w b | _ \<Rightarrow> 0)
      in case op_value obj of
           NoValue \<Rightarrow> len
         | v \<Rightarrow> let n = payload_encodingLength w v in len + varint_length w n + (1 + n))"

text \<open>The block of a nested message: its key, its length, its fields.\<close>

definition encode_nested :: "wire \<Rightarrow> byte \<Rightarrow> nat \<Rightarrow> (buffer \<Rightarrow> nat \<Rightarrow> buffer \<times> nat) \<Rightarrow> buffer \<Rightarrow> nat \<Rightarrow> buffer \<times> nat" where
  "encode_nested w key len encode buf offset =
     (let buf = buf[offset := key];
          offset = offset + 1;
          buf = copy_into (varint_encode w len) offset buf;
          offset = offset + length (varint_encode w len)
      in encode buf offset)"

definition Operation_encode :: "wire \<Rightarrow> operation \<Rightarrow> buffer" where
  "Operation_encode w obj =
     (let buf = allocUnsafe w (Operation_encodingLength w obj);
          offset = 0;
          buf = buf[offset := 8];
          offset = offset + 1;
          buf = copy_into (enum_encode w (op_type obj)) offset buf;
          offset = offset + length (enum_encode w (op_type obj));
          (buf, offset) = encode_fields w [(18, op_address obj)] buf offset
      in fst (case op_value obj of
           NoValue \<Rightarrow> (buf, offset)
         | Cao p \<Rightarrow> encode_nested w 26 (CoreAdminOperation_encodingLength w p) (CoreAdminOperation_encode w p) buf offset
         | Aco p \<Rightarrow> encode_nested w 34 (AdminControlOperation_encodingLength w p) (AdminControlOperation_encode w p) buf offset
         | Bio p \<Rightarrow> encode_nested w 42 (BalanceInitializationOperation_encodingLength w p) (BalanceInitializationOperation_encode w p) buf offset
         | Tro p \<Rightarrow> encode_nested w 50 (TransferOperation_encodingLength w p) (TransferOperation_encode w p) buf offset
         | Rao p \<Rightarrow> encode_nested w 58 (RoleAccessOperation_encodingLength w p) (RoleAccessOperation_encode w p) buf offset
         | Bdo p \<Rightarrow> encode_nested w 66 (BootstrapDeploymentOperation_encodingLength w p) (BootstrapDeploymentOperation_encode w p) buf offset
         | Txo p \<Rightarrow> encode_nested w 74 (TxOperation_encodingLength w p) (TxOperation_encode w p) buf offset))"

text \<open>
  A case of a nested message: the other payloads are deleted, the length is read, the message is decoded up to it.
\<close>

definition decode_nested :: "wire \<Rightarrow> (payload \<Rightarrow> op_value) \<Rightarrow> (buffer \<Rightarrow> nat \<Rightarrow> nat \<Rightarrow> (payload \<times> nat) thrown option) \<Rightarrow>
    buffer \<Rightarrow> operation \<Rightarrow> nat \<Rightarrow> (operation \<times> nat) thrown option" where
  "decode_nested w con decode buf obj offset =
     (case varint_decode w buf offset of
        None \<Rightarrow> Some Throws
      | Some (len, n) \<Rightarrow>
          (let offset = offset + n
           in case decode buf offset (offset + len) of
                None \<Rightarrow> None
              | Some Throws \<Rightarrow> Some Throws
              | Some (Returns (p, m)) \<Rightarrow> Some (Returns (obj\<lparr>op_value := con p\<rparr>, offset + m))))"

text \<open>
  An enumeration value past \<open>2 ^ 31 - 1\<close> is read as a negative number. No operation has a negative type; it is kept
  as \<open>UNKNOWN\<close>, which no handler and no schema accepts either.
\<close>

definition operation_arms :: "wire \<Rightarrow> buffer \<Rightarrow> int \<Rightarrow> nat \<Rightarrow> operation \<Rightarrow> nat \<Rightarrow> (operation \<times> nat) thrown option" where
  "operation_arms w buf tag wireType obj offset =
     (if tag = 1 then
        (case enum_decode w buf offset of
           None \<Rightarrow> Some Throws
         | Some (t, n) \<Rightarrow> Some (Returns (obj\<lparr>op_type := nat t\<rparr>, offset + n)))
      else if tag = 2 then
        (case bytes_decode w buf offset of
           None \<Rightarrow> Some Throws
         | Some (b, n) \<Rightarrow> Some (Returns (obj\<lparr>op_address := Bytes b\<rparr>, offset + n)))
      else if tag = 3 then decode_nested w Cao (CoreAdminOperation_decode w) buf obj offset
      else if tag = 4 then decode_nested w Aco (AdminControlOperation_decode w) buf obj offset
      else if tag = 5 then decode_nested w Bio (BalanceInitializationOperation_decode w) buf obj offset
      else if tag = 6 then decode_nested w Tro (TransferOperation_decode w) buf obj offset
      else if tag = 7 then decode_nested w Rao (RoleAccessOperation_decode w) buf obj offset
      else if tag = 8 then decode_nested w Bdo (BootstrapDeploymentOperation_decode w) buf obj offset
      else if tag = 9 then decode_nested w Txo (TxOperation_decode w) buf obj offset
      else
        (case skip_field w wireType buf offset of
           None \<Rightarrow> Some Throws
         | Some offset \<Rightarrow> Some (Returns (obj, offset))))"

definition Operation_decode_buf :: "wire \<Rightarrow> buffer \<Rightarrow> nat \<Rightarrow> nat \<Rightarrow> (operation \<times> nat) thrown option" where
  "Operation_decode_buf w = decode_message w (operation_arms w)
     \<lparr>op_type = 0, op_address = Null, op_value = NoValue\<rparr>"

section \<open>The safe wrappers\<close>

text \<open>\<open>try ... catch\<close> turns an exception into \<open>null\<close>, and into the empty buffer on the way out.\<close>

definition safeDecodeApplyOperation :: "wire \<Rightarrow> buffer \<Rightarrow> operation option" where
  "safeDecodeApplyOperation w buf =
     (case Operation_decode_buf w buf 0 0 of
        Some (Returns (op, _)) \<Rightarrow> Some op
      | _ \<Rightarrow> None)"

definition safeEncodeApplyOperation :: "wire \<Rightarrow> operation \<Rightarrow> buffer" where
  "safeEncodeApplyOperation w op = Operation_encode w op"

end
