(* ===== verification/Helpers.thy ===== *)
theory Helpers
  imports Codec
begin

text \<open>
  Values of JavaScript as the message code meets them, \<open>src/utils/helpers.js\<close> (hexadecimal
  strings) and \<open>src/utils/applyOperations.js\<close> (which payload belongs to which type of operation).
  An exception is the left of a sum; \<open>chain\<close> is what comes after a call that may throw.
\<close>

section \<open>Values and exceptions\<close>

datatype js =
    JUndefined
  | JNull
  | JNum int
  | JStr string
  | JBuf buffer
  | JObj "(string \<times> js) list"

fun truthy :: "js \<Rightarrow> bool" where
  "truthy JUndefined \<longleftrightarrow> False"
| "truthy JNull \<longleftrightarrow> False"
| "truthy (JNum n) \<longleftrightarrow> n \<noteq> 0"
| "truthy (JStr s) \<longleftrightarrow> s \<noteq> []"
| "truthy (JBuf b) \<longleftrightarrow> True"
| "truthy (JObj ps) \<longleftrightarrow> True"

fun is_object :: "js \<Rightarrow> bool" where
  "is_object (JObj ps) \<longleftrightarrow> True"
| "is_object (JBuf b) \<longleftrightarrow> True"
| "is_object JNull \<longleftrightarrow> True"
| "is_object _ \<longleftrightarrow> False"

text \<open>Reading a property that is not there gives \<open>undefined\<close>.\<close>

fun prop_of :: "js \<Rightarrow> string \<Rightarrow> js" where
  "prop_of (JObj ps) k = (case map_of ps k of None \<Rightarrow> JUndefined | Some v \<Rightarrow> v)"
| "prop_of _ k = JUndefined"

fun chain :: "'e + 'a \<Rightarrow> ('a \<Rightarrow> 'e + 'b) \<Rightarrow> 'e + 'b" where
  "chain (Inl e) f = Inl e"
| "chain (Inr x) f = f x"

lemma chain_Inr: "chain r f = Inr y \<longleftrightarrow> (\<exists>x. r = Inr x \<and> f x = Inr y)"
  by (cases r) auto

lemma chain_Inl: "chain r f = Inl e \<longleftrightarrow> r = Inl e \<or> (\<exists>x. r = Inr x \<and> f x = Inl e)"
  by (cases r) auto

lemma chain_assoc: "chain (chain r f) g = chain r (\<lambda>x. chain (f x) g)"
  by (cases r) auto

section \<open>Hexadecimal strings\<close>

definition hex_value :: "char \<Rightarrow> nat option" where
  "hex_value c =
     (let n = of_char c
      in if 48 \<le> n \<and> n \<le> 57 then Some (n - 48)
         else if 97 \<le> n \<and> n \<le> 102 then Some (n - 87)
         else if 65 \<le> n \<and> n \<le> 70 then Some (n - 55)
         else None)"

definition isHexString :: "string \<Rightarrow> bool" where
  "isHexString s \<longleftrightarrow> 1 < length s \<and> list_all (\<lambda>c. hex_value c \<noteq> None) s \<and> even (length s)"

text \<open>\<open>b4a.from(s, 'hex')\<close> stops at the first pair that is not two digits.\<close>

fun from_hex :: "string \<Rightarrow> buffer" where
  "from_hex (c # d # cs) =
     (case (hex_value c, hex_value d) of
        (Some x, Some y) \<Rightarrow> word_of_nat (16 * x + y) # from_hex cs
      | _ \<Rightarrow> [])"
| "from_hex _ = []"

datatype hex_error = NullInput | InvalidHexString | NotHexNorBuffer

fun normalizeHex :: "js \<Rightarrow> hex_error + buffer" where
  "normalizeHex JUndefined = Inl NullInput"
| "normalizeHex JNull = Inl NullInput"
| "normalizeHex (JStr s) = (if \<not> isHexString s then Inl InvalidHexString else Inr (from_hex s))"
| "normalizeHex (JBuf b) = Inr b"
| "normalizeHex _ = Inl NotHexNorBuffer"

section \<open>Operation types and their payloads\<close>

definition isCoreAdmin :: "nat \<Rightarrow> bool" where
  "isCoreAdmin type \<longleftrightarrow> List.member [OT_ADD_ADMIN, OT_DISABLE_INITIALIZATION] type"

definition isAdminControl :: "nat \<Rightarrow> bool" where
  "isAdminControl type \<longleftrightarrow> List.member [OT_APPEND_WHITELIST, OT_ADD_INDEXER, OT_REMOVE_INDEXER, OT_BAN_VALIDATOR] type"

definition isRoleAccess :: "nat \<Rightarrow> bool" where
  "isRoleAccess type \<longleftrightarrow> List.member [OT_ADD_WRITER, OT_REMOVE_WRITER, OT_ADMIN_RECOVERY] type"

definition isTransaction :: "nat \<Rightarrow> bool" where
  "isTransaction type \<longleftrightarrow> List.member [OT_TX] type"

definition isBootstrapDeployment :: "nat \<Rightarrow> bool" where
  "isBootstrapDeployment type \<longleftrightarrow> List.member [OT_BOOTSTRAP_DEPLOYMENT] type"

definition isTransfer :: "nat \<Rightarrow> bool" where
  "isTransfer type \<longleftrightarrow> List.member [OT_TRANSFER] type"

definition isBalanceInitialization :: "nat \<Rightarrow> bool" where
  "isBalanceInitialization type \<longleftrightarrow> List.member [OT_BALANCE_INITIALIZATION] type"

definition operationToPayload :: "nat \<Rightarrow> string option" where
  "operationToPayload type =
     map_option snd (List.find (\<lambda>entry. fst entry type)
       [(isCoreAdmin, ''cao''), (isAdminControl, ''aco''), (isRoleAccess, ''rao''), (isTransaction, ''txo''),
        (isBootstrapDeployment, ''bdo''), (isTransfer, ''tro''), (isBalanceInitialization, ''bio'')])"

lemmas type_defs = isCoreAdmin_def isAdminControl_def isRoleAccess_def isTransaction_def
  isBootstrapDeployment_def isTransfer_def isBalanceInitialization_def

text \<open>The computed property \<open>[payloadKey]: body\<close> of an operation.\<close>

definition keyed :: "string \<Rightarrow> payload \<Rightarrow> op_value" where
  "keyed key p =
     (if key = ''cao'' then Cao p else if key = ''aco'' then Aco p else if key = ''rao'' then Rao p
      else if key = ''txo'' then Txo p else if key = ''bdo'' then Bdo p else if key = ''tro'' then Tro p
      else if key = ''bio'' then Bio p else NoValue)"

section \<open>Reading back what was written\<close>

lemma hex_value_digit: "n < 16 \<Longrightarrow> hex_value (hex_digit n) = Some n"
proof -
  have "\<forall>n < 16. hex_value (hex_digit n) = Some n"
    by (simp add: hex_value_def hex_digit_def numeral_eq_Suc All_less_Suc)
  then show "n < 16 \<Longrightarrow> hex_value (hex_digit n) = Some n" by simp
qed

lemma byte_digits:
  "hex_value (hex_digit (unat (x :: byte) div 16)) = Some (unat x div 16)"
  "hex_value (hex_digit (unat x mod 16)) = Some (unat x mod 16)"
proof -
  have "unat x < 256" using unsigned_less [of x] by simp
  then show "hex_value (hex_digit (unat x div 16)) = Some (unat x div 16)"
    by (simp add: hex_value_digit less_mult_imp_div_less)
qed (simp add: hex_value_digit)

lemma from_hex_to_hex [simp]: "from_hex (to_hex b) = b"
  by (induction b) (simp_all add: byte_digits)

lemma hex_digits [simp]: "list_all (\<lambda>c. \<exists>n. hex_value c = Some n) (to_hex b)"
  by (induction b) (simp_all add: byte_digits)

lemma isHexString_to_hex [simp]: "isHexString (to_hex b) \<longleftrightarrow> b \<noteq> []"
  by (cases b) (simp_all add: isHexString_def byte_digits)

lemma length_from_hex: "list_all (\<lambda>c. hex_value c \<noteq> None) s \<Longrightarrow> length (from_hex s) = length s div 2"
  by (induction s rule: from_hex.induct) (auto split: option.splits)

lemma normalizeHex_to_hex: "b \<noteq> [] \<Longrightarrow> normalizeHex (JStr (to_hex b)) = Inr b"
  by simp

end
