(* ===== verification/Node_State.thy ===== *)
theory Node_State
  imports Apply_Loop Helpers
begin

text \<open>
  The reads of \<open>src/core/state/State.js\<close> outside the apply function: what the services of a node and
  its interface see of the store. \<open>ns_view\<close> is the current view, which the apply function has written
  up to the last node; \<open>ns_signed\<close> is the checkout at the length the indexers have signed. Both are
  maps, \<open>null\<close> being \<open>None\<close>; \<open>ns_history\<close> is the history stream of the view. The base, its
  writability, its indexers and the local key come from \<open>autobase\<close>. A read that may throw is
  \<open>None\<close> then.
\<close>

section \<open>State\<close>

datatype entry_type = Put | Del

record history_entry =
  he_type :: entry_type
  he_key :: string
  he_seq :: int

record node_state =
  ns_view :: "string \<Rightarrow> buffer option"
  ns_signed :: "string \<Rightarrow> buffer option"
  ns_history :: "history_entry list"
  ns_signedLength :: int
  ns_writable :: bool
  ns_indexer :: bool
  ns_indexers :: "buffer list"
  ns_writingKey :: buffer
  ns_walletAddress :: "string option"
  ns_maxWritersForAdmin :: nat

section \<open>Entries\<close>

definition st_get :: "node_state \<Rightarrow> string \<Rightarrow> buffer option" where
  "st_get s key = (case ns_view s key of None \<Rightarrow> None | Some result \<Rightarrow> Some result)"

definition getSigned :: "node_state \<Rightarrow> string \<Rightarrow> buffer option" where
  "getSigned s key = (case ns_signed s key of None \<Rightarrow> None | Some result \<Rightarrow> Some result)"

definition getAdminEntry :: "'b env \<Rightarrow> node_state \<Rightarrow> admin_entry option" where
  "getAdminEntry E s = (case getSigned s EntryType_ADMIN of None \<Rightarrow> None | Some adminEntry \<Rightarrow> ae_decode E (Some adminEntry))"

definition getNodeEntry :: "node_state \<Rightarrow> string \<Rightarrow> node_entry option" where
  "getNodeEntry s address = (case getSigned s address of None \<Rightarrow> None | Some nodeEntry \<Rightarrow> ne_decode (Some nodeEntry))"

definition getNodeEntryUnsigned :: "node_state \<Rightarrow> string \<Rightarrow> node_entry option" where
  "getNodeEntryUnsigned s address = (case st_get s address of None \<Rightarrow> None | Some nodeEntry \<Rightarrow> ne_decode (Some nodeEntry))"

definition isAddressWhitelisted :: "node_state \<Rightarrow> string \<Rightarrow> bool" where
  "isAddressWhitelisted s address =
     (case getNodeEntry s address of None \<Rightarrow> False | Some nodeEntry \<Rightarrow> ne_isWhitelisted nodeEntry)"

definition getAddressByLicenseId :: "'b env \<Rightarrow> node_state \<Rightarrow> nat \<Rightarrow> string option" where
  "getAddressByLicenseId E s licenseId =
     (case getSigned s (EntryType_LICENSE_INDEX @ show_nat licenseId) of
        None \<Rightarrow> None | Some address \<Rightarrow> bufferToAddress E address)"

definition getWriterIndex :: "node_state \<Rightarrow> int \<Rightarrow> buffer option" where
  "getWriterIndex s index =
     (if index < 0 \<or> index > 2 ^ 53 - 1 then None
      else case getSigned s (EntryType_WRITERS_INDEX @ show_nat (nat index)) of
        None \<Rightarrow> None | Some writerPublicKey \<Rightarrow> Some writerPublicKey)"

definition getRegisteredBootstrapEntry :: "node_state \<Rightarrow> string \<Rightarrow> buffer option" where
  "getRegisteredBootstrapEntry s bootstrapHex =
     (if bootstrapHex = [] \<or> \<not> isHexString bootstrapHex \<or> length bootstrapHex \<noteq> 64 then None
      else getSigned s (EntryType_DEPLOYMENT @ bootstrapHex))"

definition getRegisteredBootstrapEntryUnsigned :: "node_state \<Rightarrow> string \<Rightarrow> buffer option" where
  "getRegisteredBootstrapEntryUnsigned s bootstrapHex =
     (if bootstrapHex = [] \<or> \<not> isHexString bootstrapHex \<or> length bootstrapHex \<noteq> 64 then None
      else st_get s (EntryType_DEPLOYMENT @ bootstrapHex))"

text \<open>The stored address is a buffer; \<open>addressToBuffer\<close> returns a copy of it when it is an address.\<close>

definition getRegisteredWriterKey :: "'b env \<Rightarrow> node_state \<Rightarrow> string \<Rightarrow> buffer option" where
  "getRegisteredWriterKey E s writingKey =
     (case st_get s (EntryType_WRITER_ADDRESS @ writingKey) of
        None \<Rightarrow> None
      | Some entry \<Rightarrow> Some (if \<not> isAddressValid E (ascii_string entry) then alloc 0 else entry))"

section \<open>Counters and flags\<close>

definition getWriterLength :: "node_state \<Rightarrow> nat option option" where
  "getWriterLength s = (case getSigned s EntryType_WRITERS_LENGTH of
     None \<Rightarrow> Some None | Some writersLength \<Rightarrow> map_option Some (decodeBE writersLength))"

definition getLicenseCount :: "node_state \<Rightarrow> nat option option" where
  "getLicenseCount s = (case getSigned s EntryType_LICENSE_COUNT of
     None \<Rightarrow> Some None | Some licenseLength \<Rightarrow> map_option Some (decodeBE licenseLength))"

definition isInitalizationDisabled :: "node_state \<Rightarrow> bool" where
  "isInitalizationDisabled s = (case getSigned s EntryType_INITIALIZATION of
     None \<Rightarrow> False | Some initialization \<Rightarrow> initialization = safeWriteUInt32BE 0)"

definition isWkInIndexersEntry :: "node_state \<Rightarrow> buffer option \<Rightarrow> bool" where
  "isWkInIndexersEntry s wk = (case wk of None \<Rightarrow> False | Some wk \<Rightarrow> list_ex (\<lambda>key. key = wk) (ns_indexers s))"

definition getIndexerSequenceState :: "(buffer \<Rightarrow> buffer) \<Rightarrow> node_state \<Rightarrow> buffer" where
  "getIndexerSequenceState hash s = hash (concat (ns_indexers s))"

section \<open>Who may validate\<close>

definition allowedToValidate :: "node_state \<Rightarrow> string \<Rightarrow> bool" where
  "allowedToValidate s address =
     (let localWritable = ns_writable s; localIndexer = ns_indexer s
      in case getNodeEntryUnsigned s address of
           None \<Rightarrow> False
         | Some unsignedNodeEntry \<Rightarrow>
             (localWritable \<and> \<not> localIndexer) \<and>
             (ne_isWriter unsignedNodeEntry \<and> \<not> ne_isIndexer unsignedNodeEntry))"

definition isAdmin :: "'b env \<Rightarrow> node_state \<Rightarrow> bool" where
  "isAdmin E s =
     (case getAdminEntry E s of
        None \<Rightarrow> False
      | Some adminEntry \<Rightarrow>
          (case (ns_walletAddress s, ae_address adminEntry) of
             (Some a, Some b) \<Rightarrow> a = b | _ \<Rightarrow> False) \<and>
          ae_wk adminEntry = ns_writingKey s)"

text \<open>\<open>null <= n\<close> holds for a count.\<close>

definition isAdminAllowedToValidate :: "'b env \<Rightarrow> node_state \<Rightarrow> bool option" where
  "isAdminAllowedToValidate E s =
     (let isAdmin = (to_hex (ns_writingKey s) = to_hex (bootstrap E))
      in case getWriterLength s of
           None \<Rightarrow> None
         | Some len \<Rightarrow> (
             let lengthCondition = (case len of None \<Rightarrow> True | Some n \<Rightarrow> n \<le> ns_maxWritersForAdmin s)
             in Some (isAdmin \<and> ns_indexer s \<and> lengthCondition)))"

section \<open>History\<close>

text \<open>\<open>createHistoryStream\<close> with \<open>gte\<close> and \<open>lte\<close>: the entries with a sequence number in the range, in order.\<close>

definition historyStream :: "node_state \<Rightarrow> int \<Rightarrow> int \<Rightarrow> history_entry list" where
  "historyStream s gte lte = filter (\<lambda>e. gte \<le> he_seq e \<and> he_seq e \<le> lte) (ns_history s)"

definition isTransactionRecordPut :: "history_entry \<Rightarrow> bool" where
  "isTransactionRecordPut entry =
     (let isPut = (he_type entry = Put); isHex = isHexString (he_key entry); is64 = (length (he_key entry) = 64)
      in isPut \<and> isHex \<and> is64)"

datatype history_error = InvalidHash | NegativeParams | EndBeforeStart | InvalidRange

definition getTransactionConfirmedLength :: "node_state \<Rightarrow> string \<Rightarrow> history_error + int option" where
  "getTransactionConfirmedLength s hash =
     (if \<not> isHexString hash \<or> length hash \<noteq> 64 then Inl InvalidHash
      else let confirmedLength = ns_signedLength s
           in Inr (map_option he_seq
                (List.find (\<lambda>entry. isTransactionRecordPut entry \<and> he_key entry = hash) (historyStream s 0 confirmedLength))))"

definition confirmedTransactionsBetween :: "node_state \<Rightarrow> int \<Rightarrow> int \<Rightarrow> history_error + (string \<times> int) list" where
  "confirmedTransactionsBetween s startSignedLength endSignedLength =
     (if startSignedLength < 0 \<or> endSignedLength < 0 then Inl NegativeParams
      else if startSignedLength > endSignedLength then Inl EndBeforeStart
      else if startSignedLength = endSignedLength then Inr []
      else let signedLength2End = min (ns_signedLength s) endSignedLength;
               startSeq = startSignedLength;
               endSeq = signedLength2End - 1
           in if startSeq > endSeq then Inl InvalidRange
              else Inr (map (\<lambda>entry. (he_key entry, he_seq entry))
                     (filter isTransactionRecordPut (historyStream s startSeq endSeq))))"

end
