(* ===== verification/Builder.thy ===== *)
theory Builder
  imports Helpers
begin

text \<open>
  \<open>src/messages/state/ApplyStateMessageBuilder.js\<close>: the object that assembles and signs an
  operation, in the \<open>partial\<close> phase by the user who asks for it and in the \<open>complete\<close>
  phase by the validator or the administrator who appends it. The private fields are the record
  \<open>builder\<close> (\<open>None\<close> for \<open>undefined\<close>); a setter returns the builder as updated or
  the error it throws, and every throw comes before the assignment, so the builder is then as it was. The
  wallet's signature, the hash of \<open>trac-crypto-api\<close> and the nonce it draws are parameters.
\<close>

section \<open>State\<close>

record wallet =
  w_address :: string
  w_sign :: "buffer \<Rightarrow> buffer"

record builder =
  b_address :: "buffer option"
  b_amount :: "buffer option"
  b_channel :: "buffer option"
  b_contentHash :: "buffer option"
  b_externalBootstrap :: "buffer option"
  b_incomingAddress :: "buffer option"
  b_incomingNonce :: "buffer option"
  b_incomingSignature :: "buffer option"
  b_incomingWriterKey :: "buffer option"
  b_msbBootstrap :: "buffer option"
  b_operationType :: "nat option"
  b_payload :: "operation option"
  b_txHash :: "buffer option"
  b_txValidity :: "buffer option"
  b_writingKey :: "buffer option"
  b_phase :: "string option"
  b_output :: "string option"
  b_payloadKey :: "string option"
  b_built :: bool

datatype build_error =
    WalletMissing | WalletAddress | PhaseInvalid | OutputInvalid | TypeInvalid | AddressInvalid
  | BufferSize string nat | HexLength string nat | BufferOrHex string nat
  | MustBeSet string | CompleteNeedsBuffer | TypeUnsupported nat | NotPartial nat | SelfAddress
  | NotBuilt | PayloadAddress | JsonUnsupported | ReadUndefined | BuilderMissing

definition fresh_builder :: builder where
  "fresh_builder = \<lparr>b_address = None, b_amount = None, b_channel = None, b_contentHash = None,
     b_externalBootstrap = None, b_incomingAddress = None, b_incomingNonce = None, b_incomingSignature = None,
     b_incomingWriterKey = None, b_msbBootstrap = None, b_operationType = None, b_payload = None, b_txHash = None,
     b_txValidity = None, b_writingKey = None, b_phase = None, b_output = None, b_payloadKey = None, b_built = False\<rparr>"

definition new_builder :: "'b env \<Rightarrow> wallet option \<Rightarrow> build_error + builder" where
  "new_builder E wallet =
     (case wallet of
        None \<Rightarrow> Inl WalletMissing
      | Some w \<Rightarrow> if \<not> isAddressValid E (w_address w) then Inl WalletAddress else Inr fresh_builder)"

section \<open>Setters\<close>

definition normalizeHexBuffer :: "js \<Rightarrow> nat \<Rightarrow> string \<Rightarrow> build_error + buffer" where
  "normalizeHexBuffer value expectedBytes fieldName =
     (case value of
        JBuf b \<Rightarrow> if length b \<noteq> expectedBytes then Inl (BufferSize fieldName expectedBytes) else Inr b
      | JStr s \<Rightarrow>
          (let expectedLength = expectedBytes * 2
           in if \<not> isHexString s \<or> length s \<noteq> expectedLength then Inl (HexLength fieldName expectedLength)
              else Inr (from_hex s))
      | _ \<Rightarrow> Inl (BufferOrHex fieldName expectedBytes))"

definition normalizeAddress :: "'b env \<Rightarrow> js \<Rightarrow> buffer option" where
  "normalizeAddress E address =
     (case address of
        JBuf b \<Rightarrow> (case bufferToAddress E b of None \<Rightarrow> None | Some _ \<Rightarrow> Some b)
      | JStr s \<Rightarrow> if \<not> isAddressValid E s then None else Some (addressToBuffer E s)
      | _ \<Rightarrow> None)"

definition setPhase :: "js \<Rightarrow> builder \<Rightarrow> build_error + builder" where
  "setPhase phase b = (case phase of
     JStr s \<Rightarrow> if \<not> List.member [''partial'', ''complete''] s then Inl PhaseInvalid else Inr (b\<lparr>b_phase := Some s\<rparr>)
   | _ \<Rightarrow> Inl PhaseInvalid)"

definition setOutput :: "js \<Rightarrow> builder \<Rightarrow> build_error + builder" where
  "setOutput out b = (case out of
     JStr s \<Rightarrow> if \<not> List.member [''json'', ''buffer''] s then Inl OutputInvalid else Inr (b\<lparr>b_output := Some s\<rparr>)
   | _ \<Rightarrow> Inl OutputInvalid)"

definition OperationType_values :: "nat list" where
  "OperationType_values = [OT_ADD_ADMIN, OT_DISABLE_INITIALIZATION, OT_BALANCE_INITIALIZATION, OT_APPEND_WHITELIST,
     OT_ADD_WRITER, OT_REMOVE_WRITER, OT_ADMIN_RECOVERY, OT_ADD_INDEXER, OT_REMOVE_INDEXER, OT_BAN_VALIDATOR,
     OT_BOOTSTRAP_DEPLOYMENT, OT_TX, OT_TRANSFER]"

definition setOperationType :: "js \<Rightarrow> builder \<Rightarrow> build_error + builder" where
  "setOperationType operationType b = (case operationType of
     JNum n \<Rightarrow> if \<not> List.member (map int OperationType_values) n then Inl TypeInvalid
              else Inr (b\<lparr>b_operationType := Some (nat n)\<rparr>)
   | _ \<Rightarrow> Inl TypeInvalid)"

definition setAddress :: "'b env \<Rightarrow> js \<Rightarrow> builder \<Rightarrow> build_error + builder" where
  "setAddress E address b = (case normalizeAddress E address of
     None \<Rightarrow> Inl AddressInvalid | Some a \<Rightarrow> Inr (b\<lparr>b_address := Some a\<rparr>))"

definition setIncomingAddress :: "'b env \<Rightarrow> js \<Rightarrow> builder \<Rightarrow> build_error + builder" where
  "setIncomingAddress E address b = (case normalizeAddress E address of
     None \<Rightarrow> Inl AddressInvalid | Some a \<Rightarrow> Inr (b\<lparr>b_incomingAddress := Some a\<rparr>))"

definition setWriterKey :: "js \<Rightarrow> builder \<Rightarrow> build_error + builder" where
  "setWriterKey v b = chain (normalizeHexBuffer v 32 ''Writer key'') (\<lambda>x. Inr (b\<lparr>b_writingKey := Some x\<rparr>))"

definition setTxHash :: "js \<Rightarrow> builder \<Rightarrow> build_error + builder" where
  "setTxHash v b = chain (normalizeHexBuffer v 32 ''Transaction hash'') (\<lambda>x. Inr (b\<lparr>b_txHash := Some x\<rparr>))"

definition setIncomingWriterKey :: "js \<Rightarrow> builder \<Rightarrow> build_error + builder" where
  "setIncomingWriterKey v b =
     chain (normalizeHexBuffer v 32 ''Incoming writer key'') (\<lambda>x. Inr (b\<lparr>b_incomingWriterKey := Some x\<rparr>))"

definition setIncomingNonce :: "js \<Rightarrow> builder \<Rightarrow> build_error + builder" where
  "setIncomingNonce v b = chain (normalizeHexBuffer v 32 ''Incoming nonce'') (\<lambda>x. Inr (b\<lparr>b_incomingNonce := Some x\<rparr>))"

definition setContentHash :: "js \<Rightarrow> builder \<Rightarrow> build_error + builder" where
  "setContentHash v b = chain (normalizeHexBuffer v 32 ''Content hash'') (\<lambda>x. Inr (b\<lparr>b_contentHash := Some x\<rparr>))"

definition setIncomingSignature :: "js \<Rightarrow> builder \<Rightarrow> build_error + builder" where
  "setIncomingSignature v b =
     chain (normalizeHexBuffer v 64 ''Incoming signature'') (\<lambda>x. Inr (b\<lparr>b_incomingSignature := Some x\<rparr>))"

definition setExternalBootstrap :: "js \<Rightarrow> builder \<Rightarrow> build_error + builder" where
  "setExternalBootstrap v b =
     chain (normalizeHexBuffer v 32 ''Bootstrap key'') (\<lambda>x. Inr (b\<lparr>b_externalBootstrap := Some x\<rparr>))"

definition setMsbBootstrap :: "js \<Rightarrow> builder \<Rightarrow> build_error + builder" where
  "setMsbBootstrap v b = chain (normalizeHexBuffer v 32 ''MSB bootstrap'') (\<lambda>x. Inr (b\<lparr>b_msbBootstrap := Some x\<rparr>))"

definition setChannel :: "js \<Rightarrow> builder \<Rightarrow> build_error + builder" where
  "setChannel v b = chain (normalizeHexBuffer v 32 ''Channel'') (\<lambda>x. Inr (b\<lparr>b_channel := Some x\<rparr>))"

definition setTxValidity :: "js \<Rightarrow> builder \<Rightarrow> build_error + builder" where
  "setTxValidity v b = chain (normalizeHexBuffer v 32 ''Transaction validity'') (\<lambda>x. Inr (b\<lparr>b_txValidity := Some x\<rparr>))"

definition setAmount :: "js \<Rightarrow> builder \<Rightarrow> build_error + builder" where
  "setAmount v b = chain (normalizeHexBuffer v 16 ''Amount'') (\<lambda>x. Inr (b\<lparr>b_amount := Some x\<rparr>))"

section \<open>The partial phase\<close>

fun requireFields :: "(buffer option \<times> string) list \<Rightarrow> build_error + unit" where
  "requireFields [] = Inr ()"
| "requireFields ((value, name) # rest) = (if value = None then Inl (MustBeSet name) else requireFields rest)"

text \<open>\<open>createMessage\<close> drops an argument that is \<open>undefined\<close>; a body property keeps it.\<close>

fun present :: "buffer option \<Rightarrow> msg_arg list" where
  "present (Some b) = [Buf b]"
| "present None = []"

fun fld :: "buffer option \<Rightarrow> field" where
  "fld (Some b) = Bytes b"
| "fld None = Absent"

definition assertPhaseAndOutput :: "builder \<Rightarrow> build_error + unit" where
  "assertPhaseAndOutput b =
     (if b_phase b = None then Inl (MustBeSet ''Phase'')
      else if b_output b = None then Inl (MustBeSet ''Output format'')
      else if b_phase b = Some ''complete'' \<and> b_output b \<noteq> Some ''buffer'' then Inl CompleteNeedsBuffer
      else Inr ())"

definition partial_message :: "'b env \<Rightarrow> builder \<Rightarrow> nat \<Rightarrow> buffer \<Rightarrow> build_error + buffer" where
  "partial_message E b type nonce =
     (if List.member [OT_ADD_WRITER, OT_REMOVE_WRITER, OT_ADMIN_RECOVERY] type then
        chain (requireFields [(b_txValidity b, ''Transaction validity''), (b_writingKey b, ''Writer key'')])
          (\<lambda>_. Inr (createMessage (Num (networkId E) # present (b_txValidity b) @ present (b_writingKey b) @
             [Buf nonce, Num type])))
      else if type = OT_BOOTSTRAP_DEPLOYMENT then
        chain (requireFields [(b_txValidity b, ''Transaction validity''), (b_externalBootstrap b, ''External bootstrap''),
            (b_channel b, ''Channel'')])
          (\<lambda>_. Inr (createMessage (Num (networkId E) # present (b_txValidity b) @ present (b_externalBootstrap b) @
             present (b_channel b) @ [Buf nonce, Num OT_BOOTSTRAP_DEPLOYMENT])))
      else if type = OT_TX then
        chain (requireFields [(b_txValidity b, ''Transaction validity''), (b_writingKey b, ''Writer key''),
            (b_contentHash b, ''Content hash''), (b_externalBootstrap b, ''External bootstrap''),
            (b_msbBootstrap b, ''MSB bootstrap'')])
          (\<lambda>_. Inr (createMessage (Num (networkId E) # present (b_txValidity b) @ present (b_writingKey b) @
             present (b_contentHash b) @ present (b_externalBootstrap b) @ present (b_msbBootstrap b) @
             [Buf nonce, Num OT_TX])))
      else if type = OT_TRANSFER then
        chain (requireFields [(b_txValidity b, ''Transaction validity''), (b_incomingAddress b, ''Incoming address''),
            (b_amount b, ''Amount'')])
          (\<lambda>_. Inr (createMessage (Num (networkId E) # present (b_txValidity b) @ present (b_incomingAddress b) @
             present (b_amount b) @ [Buf nonce, Num OT_TRANSFER])))
      else Inl (TypeUnsupported type))"

definition partial_body :: "builder \<Rightarrow> nat \<Rightarrow> buffer \<Rightarrow> buffer \<Rightarrow> buffer \<Rightarrow> build_error + payload" where
  "partial_body b type tx nonce signature =
     (if isBootstrapDeployment type then
        Inr (empty_payload\<lparr>p_tx := Bytes tx, p_txv := fld (b_txValidity b), p_bs := fld (b_externalBootstrap b),
          p_ic := fld (b_channel b), p_in := Bytes nonce, p_is := Bytes signature\<rparr>)
      else if isRoleAccess type then
        Inr (empty_payload\<lparr>p_tx := Bytes tx, p_txv := fld (b_txValidity b), p_iw := fld (b_writingKey b),
          p_in := Bytes nonce, p_is := Bytes signature\<rparr>)
      else if isTransaction type then
        Inr (empty_payload\<lparr>p_tx := Bytes tx, p_txv := fld (b_txValidity b), p_iw := fld (b_writingKey b),
          p_ch := fld (b_contentHash b), p_bs := fld (b_externalBootstrap b), p_mbs := fld (b_msbBootstrap b),
          p_in := Bytes nonce, p_is := Bytes signature\<rparr>)
      else if isTransfer type then
        Inr (empty_payload\<lparr>p_tx := Bytes tx, p_txv := fld (b_txValidity b), p_to := fld (b_incomingAddress b),
          p_am := fld (b_amount b), p_in := Bytes nonce, p_is := Bytes signature\<rparr>)
      else Inl (TypeUnsupported type))"

definition buildPartialBody :: "'b env \<Rightarrow> (buffer \<Rightarrow> buffer) \<Rightarrow> wallet \<Rightarrow> buffer \<Rightarrow> builder \<Rightarrow> nat \<Rightarrow> build_error + payload" where
  "buildPartialBody E hash w nonce b type =
     (if \<not> isRoleAccess type \<and> \<not> isTransaction type \<and> \<not> isBootstrapDeployment type \<and> \<not> isTransfer type
      then Inl (NotPartial type)
      else chain (partial_message E b type nonce) (\<lambda>msg.
        let tx = hash msg; signature = w_sign w tx in partial_body b type tx nonce signature))"

section \<open>The complete phase\<close>

definition complete_message :: "'b env \<Rightarrow> wallet \<Rightarrow> builder \<Rightarrow> nat \<Rightarrow> buffer \<Rightarrow> build_error + buffer" where
  "complete_message E w b type nonce =
     (if List.member [OT_ADD_ADMIN, OT_DISABLE_INITIALIZATION] type then
        chain (requireFields [(b_txValidity b, ''Transaction validity''), (b_writingKey b, ''Writer key'')])
          (\<lambda>_. Inr (createMessage (Num (networkId E) # present (b_txValidity b) @ present (b_writingKey b) @
             [Buf nonce, Num type])))
      else if type = OT_BALANCE_INITIALIZATION then
        chain (requireFields [(b_txValidity b, ''Transaction validity''), (b_incomingAddress b, ''Incoming address''),
            (b_amount b, ''Amount'')])
          (\<lambda>_. Inr (createMessage (Num (networkId E) # present (b_txValidity b) @ present (b_incomingAddress b) @
             present (b_amount b) @ [Buf nonce, Num type])))
      else if List.member [OT_APPEND_WHITELIST, OT_ADD_INDEXER, OT_REMOVE_INDEXER, OT_BAN_VALIDATOR] type then
        chain (requireFields [(b_txValidity b, ''Transaction validity''), (b_incomingAddress b, ''Incoming address'')])
          (\<lambda>_. if (case b_incomingAddress b of None \<Rightarrow> False
                    | Some a \<Rightarrow> bufferToAddress E a = Some (w_address w))
               then Inl SelfAddress
               else Inr (createMessage (Num (networkId E) # present (b_txValidity b) @ present (b_incomingAddress b) @
                 [Buf nonce, Num type])))
      else if List.member [OT_ADD_WRITER, OT_REMOVE_WRITER, OT_ADMIN_RECOVERY] type then
        chain (requireFields [(b_txHash b, ''Transaction hash''), (b_txValidity b, ''Transaction validity''),
            (b_incomingWriterKey b, ''Incoming writer key''), (b_incomingNonce b, ''Incoming nonce''),
            (b_incomingSignature b, ''Incoming signature'')])
          (\<lambda>_. Inr (createMessage (Num (networkId E) # present (b_txHash b) @ [Buf nonce, Num type])))
      else if type = OT_BOOTSTRAP_DEPLOYMENT then
        chain (requireFields [(b_txHash b, ''Transaction hash''), (b_txValidity b, ''Transaction validity''),
            (b_externalBootstrap b, ''External bootstrap''), (b_channel b, ''Channel''),
            (b_incomingNonce b, ''Incoming nonce''), (b_incomingSignature b, ''Incoming signature'')])
          (\<lambda>_. Inr (createMessage (Num (networkId E) # present (b_txHash b) @ [Buf nonce, Num type])))
      else if type = OT_TX then
        chain (requireFields [(b_txHash b, ''Transaction hash''), (b_txValidity b, ''Transaction validity''),
            (b_incomingWriterKey b, ''Incoming writer key''), (b_incomingNonce b, ''Incoming nonce''),
            (b_incomingSignature b, ''Incoming signature''), (b_contentHash b, ''Content hash''),
            (b_externalBootstrap b, ''External bootstrap''), (b_msbBootstrap b, ''MSB bootstrap'')])
          (\<lambda>_. Inr (createMessage (Num (networkId E) # present (b_txHash b) @ [Buf nonce, Num type])))
      else if type = OT_TRANSFER then
        chain (requireFields [(b_txHash b, ''Transaction hash''), (b_txValidity b, ''Transaction validity''),
            (b_incomingAddress b, ''Incoming address''), (b_amount b, ''Amount''),
            (b_incomingNonce b, ''Incoming nonce''), (b_incomingSignature b, ''Incoming signature'')])
          (\<lambda>_. Inr (createMessage (Num (networkId E) # present (b_txHash b) @ [Buf nonce, Num type])))
      else Inl (TypeUnsupported type))"

text \<open>The properties that the bodies of the operations of a user have in common.\<close>

definition completed_body :: "builder \<Rightarrow> buffer \<Rightarrow> buffer \<Rightarrow> buffer \<Rightarrow> payload" where
  "completed_body b validatorAddress nonce signature =
     empty_payload\<lparr>p_tx := fld (b_txHash b), p_txv := fld (b_txValidity b), p_in := fld (b_incomingNonce b),
       p_is := fld (b_incomingSignature b), p_va := Bytes validatorAddress, p_vn := Bytes nonce, p_vs := Bytes signature\<rparr>"

definition complete_body :: "builder \<Rightarrow> nat \<Rightarrow> buffer \<Rightarrow> buffer \<Rightarrow> buffer \<Rightarrow> buffer \<Rightarrow> build_error + payload" where
  "complete_body b type tx validatorAddress nonce signature =
     (if isCoreAdmin type then
        Inr (empty_payload\<lparr>p_tx := Bytes tx, p_txv := fld (b_txValidity b), p_iw := fld (b_writingKey b),
          p_in := Bytes nonce, p_is := Bytes signature\<rparr>)
      else if isAdminControl type then
        Inr (empty_payload\<lparr>p_tx := Bytes tx, p_txv := fld (b_txValidity b), p_ia := fld (b_incomingAddress b),
          p_in := Bytes nonce, p_is := Bytes signature\<rparr>)
      else if isRoleAccess type then
        Inr ((completed_body b validatorAddress nonce signature)\<lparr>p_iw := fld (b_incomingWriterKey b)\<rparr>)
      else if isTransaction type then
        Inr ((completed_body b validatorAddress nonce signature)\<lparr>p_iw := fld (b_incomingWriterKey b),
          p_ch := fld (b_contentHash b), p_bs := fld (b_externalBootstrap b), p_mbs := fld (b_msbBootstrap b)\<rparr>)
      else if isBootstrapDeployment type then
        Inr ((completed_body b validatorAddress nonce signature)\<lparr>p_bs := fld (b_externalBootstrap b),
          p_ic := fld (b_channel b)\<rparr>)
      else if isTransfer type then
        Inr ((completed_body b validatorAddress nonce signature)\<lparr>p_to := fld (b_incomingAddress b),
          p_am := fld (b_amount b)\<rparr>)
      else if isBalanceInitialization type then
        Inr (empty_payload\<lparr>p_tx := Bytes tx, p_txv := fld (b_txValidity b), p_ia := fld (b_incomingAddress b),
          p_am := fld (b_amount b), p_in := Bytes nonce, p_is := Bytes signature\<rparr>)
      else Inl (TypeUnsupported type))"

definition buildCompleteBody :: "'b env \<Rightarrow> (buffer \<Rightarrow> buffer) \<Rightarrow> wallet \<Rightarrow> buffer \<Rightarrow> builder \<Rightarrow> nat \<Rightarrow> build_error + payload" where
  "buildCompleteBody E hash w nonce b type =
     chain (complete_message E w b type nonce) (\<lambda>msg.
       let tx = hash msg; signature = w_sign w tx; validatorAddress = addressToBuffer E (w_address w)
       in complete_body b type tx validatorAddress nonce signature)"

section \<open>Building\<close>

definition build :: "'b env \<Rightarrow> (buffer \<Rightarrow> buffer) \<Rightarrow> wallet \<Rightarrow> buffer \<Rightarrow> builder \<Rightarrow> build_error + builder" where
  "build E hash w nonce b =
     chain (assertPhaseAndOutput b) (\<lambda>_.
       case b_operationType b of
         None \<Rightarrow> Inl (MustBeSet ''Operation type'')
       | Some type \<Rightarrow> (
           if type = 0 then Inl (MustBeSet ''Operation type'')
           else case b_address b of
             None \<Rightarrow> Inl (MustBeSet ''Address'')
           | Some address \<Rightarrow> (
               case operationToPayload type of
                 None \<Rightarrow> Inl (TypeUnsupported type)
               | Some payloadKey \<Rightarrow>
                   chain (if b_phase b = Some ''partial'' then buildPartialBody E hash w nonce b type
                          else buildCompleteBody E hash w nonce b type)
                     (\<lambda>body. Inr (b\<lparr>b_payloadKey := Some payloadKey,
                        b_payload := Some \<lparr>op_type = type, op_address = Bytes address, op_value = keyed payloadKey body\<rparr>,
                        b_built := True\<rparr>)))))"

section \<open>Output\<close>

text \<open>\<open>toHex\<close> of a property that is not a buffer reads a method of \<open>undefined\<close>.\<close>

fun toHex :: "field \<Rightarrow> build_error + js" where
  "toHex (Bytes b) = Inr (JStr (to_hex b))"
| "toHex _ = Inl ReadUndefined"

fun hex_props :: "(string \<times> field) list \<Rightarrow> build_error + (string \<times> js) list" where
  "hex_props [] = Inr []"
| "hex_props ((k, f) # fs) = chain (toHex f) (\<lambda>v. chain (hex_props fs) (\<lambda>vs. Inr ((k, v) # vs)))"

definition address_js :: "'b env \<Rightarrow> field \<Rightarrow> js" where
  "address_js E f = (case f of
     Bytes b \<Rightarrow> (case bufferToAddress E b of None \<Rightarrow> JNull | Some a \<Rightarrow> JStr a)
   | _ \<Rightarrow> JNull)"

definition encodePayloadJson :: "'b env \<Rightarrow> string option \<Rightarrow> operation \<Rightarrow> build_error + js" where
  "encodePayloadJson E payloadKey payload =
     (case address_js E (op_address payload) of
        JStr address \<Rightarrow> (
          let body = payload_of payload;
              base = [(''type'', JNum (int (op_type payload))), (''address'', JStr address)]
          in if payloadKey = Some ''rao'' then
               chain (hex_props [(''tx'', p_tx body), (''txv'', p_txv body), (''iw'', p_iw body), (''in'', p_in body),
                   (''is'', p_is body)])
                 (\<lambda>o'. Inr (JObj (base @ [(''rao'', JObj o')])))
             else if payloadKey = Some ''txo'' then
               chain (hex_props [(''tx'', p_tx body), (''txv'', p_txv body), (''iw'', p_iw body), (''ch'', p_ch body),
                   (''bs'', p_bs body), (''mbs'', p_mbs body), (''in'', p_in body), (''is'', p_is body)])
                 (\<lambda>o'. Inr (JObj (base @ [(''txo'', JObj o')])))
             else if payloadKey = Some ''bdo'' then
               chain (hex_props [(''tx'', p_tx body), (''txv'', p_txv body), (''bs'', p_bs body), (''ic'', p_ic body),
                   (''in'', p_in body), (''is'', p_is body)])
                 (\<lambda>o'. Inr (JObj (base @ [(''bdo'', JObj o')])))
             else if payloadKey = Some ''tro'' then
               chain (hex_props [(''tx'', p_tx body), (''txv'', p_txv body)]) (\<lambda>o1.
                 chain (hex_props [(''am'', p_am body), (''in'', p_in body), (''is'', p_is body)]) (\<lambda>o2.
                   Inr (JObj (base @ [(''tro'', JObj (o1 @ [(''to'', address_js E (p_to body))] @ o2))]))))
             else Inl JsonUnsupported)
      | _ \<Rightarrow> Inl PayloadAddress)"

datatype built = JsonOut js | BufferOut operation

definition getPayload :: "'b env \<Rightarrow> builder \<Rightarrow> build_error + built" where
  "getPayload E b =
     (case b_payload b of
        None \<Rightarrow> Inl NotBuilt
      | Some payload \<Rightarrow>
          if \<not> b_built b then Inl NotBuilt
          else if b_output b = Some ''json'' then
            chain (encodePayloadJson E (b_payloadKey b) payload) (\<lambda>j. Inr (JsonOut j))
          else Inr (BufferOut payload))"

end
