(* ===== verification/Normalizers.thy ===== *)
theory Normalizers
  imports Builder "HOL-Library.Sublist"
begin

text \<open>
  \<open>src/utils/normalizers.js\<close>: what a node does with an operation that reached it as JSON, from the
  interface or from another node, before it validates it; and the JSON rendering of a decoded
  operation that the interface returns.
\<close>

section \<open>From JSON to buffers\<close>

datatype normalize_error =
    InvalidPayload | MissingFields | BadHex hex_error | InvalidMessage | TypeMissing | UnsupportedType

text \<open>\<open>addressToBuffer\<close> on any value: a buffer that renders to an address is copied.\<close>

fun addressToBuffer_js :: "'b env \<Rightarrow> js \<Rightarrow> buffer" where
  "addressToBuffer_js E (JStr s) = addressToBuffer E s"
| "addressToBuffer_js E (JBuf b) = (if \<not> isAddressValid E (ascii_string b) then alloc 0 else b)"
| "addressToBuffer_js E _ = alloc 0"

text \<open>The properties of a body that go through \<open>normalizeHex\<close>, in the order they are evaluated.\<close>

fun normal_props :: "js \<Rightarrow> string list \<Rightarrow> normalize_error + (string \<times> js) list" where
  "normal_props body [] = Inr []"
| "normal_props body (k # ks) =
     (case normalizeHex (prop_of body k) of
        Inl e \<Rightarrow> Inl (BadHex e)
      | Inr b \<Rightarrow> chain (normal_props body ks) (\<lambda>ps. Inr ((k, JBuf b) # ps)))"

definition payload_missing :: "js \<Rightarrow> string \<Rightarrow> bool" where
  "payload_missing payload key \<longleftrightarrow> \<not> truthy payload \<or> \<not> is_object payload \<or> \<not> truthy (prop_of payload key)"

definition fields_missing :: "js \<Rightarrow> string list \<Rightarrow> bool" where
  "fields_missing body keys \<longleftrightarrow> list_ex (\<lambda>k. \<not> truthy (prop_of body k)) keys"

definition normalizeTransferOperation :: "'b env \<Rightarrow> js \<Rightarrow> normalize_error + js" where
  "normalizeTransferOperation E payload =
     (if payload_missing payload ''tro'' then Inl InvalidPayload
      else let type = prop_of payload ''type''; address = prop_of payload ''address''; tro = prop_of payload ''tro''
      in if type \<noteq> JNum (int OT_TRANSFER) \<or> \<not> truthy address \<or>
            fields_missing tro [''tx'', ''txv'', ''in'', ''to'', ''am'', ''is'']
         then Inl MissingFields
         else chain (normal_props tro [''tx'', ''txv'', ''in'']) (\<lambda>o1.
           let to = (''to'', JBuf (addressToBuffer_js E (prop_of tro ''to'')))
           in chain (normal_props tro [''am'', ''is'']) (\<lambda>o2.
             Inr (JObj [(''type'', type), (''address'', JBuf (addressToBuffer_js E address)),
                        (''tro'', JObj (o1 @ [to] @ o2))]))))"

definition normalizeTransactionOperation :: "'b env \<Rightarrow> js \<Rightarrow> normalize_error + js" where
  "normalizeTransactionOperation E payload =
     (if payload_missing payload ''txo'' then Inl InvalidPayload
      else let type = prop_of payload ''type''; address = prop_of payload ''address''; txo = prop_of payload ''txo''
      in if type \<noteq> JNum (int OT_TX) \<or> \<not> truthy address \<or>
            fields_missing txo [''tx'', ''txv'', ''iw'', ''ch'', ''bs'', ''mbs'', ''in'', ''is'']
         then Inl MissingFields
         else chain (normal_props txo [''tx'', ''txv'', ''iw'', ''ch'', ''bs'', ''mbs'', ''in'', ''is'']) (\<lambda>o1.
             Inr (JObj [(''type'', type), (''address'', JBuf (addressToBuffer_js E address)), (''txo'', JObj o1)])))"

definition normalizeRoleAccessOperation :: "'b env \<Rightarrow> js \<Rightarrow> normalize_error + js" where
  "normalizeRoleAccessOperation E payload =
     (if payload_missing payload ''rao'' then Inl InvalidPayload
      else let type = prop_of payload ''type''; address = prop_of payload ''address''; rao = prop_of payload ''rao''
      in if \<not> truthy type \<or> \<not> truthy address \<or> fields_missing rao [''tx'', ''txv'', ''iw'', ''in'', ''is'']
         then Inl MissingFields
         else chain (normal_props rao [''tx'', ''txv'', ''iw'', ''in'', ''is'']) (\<lambda>o1.
             Inr (JObj [(''type'', type), (''address'', JBuf (addressToBuffer_js E address)), (''rao'', JObj o1)])))"

definition normalizeBootstrapDeploymentOperation :: "'b env \<Rightarrow> js \<Rightarrow> normalize_error + js" where
  "normalizeBootstrapDeploymentOperation E payload =
     (if payload_missing payload ''bdo'' then Inl InvalidPayload
      else let type = prop_of payload ''type''; address = prop_of payload ''address''; bdo = prop_of payload ''bdo''
      in if type \<noteq> JNum (int OT_BOOTSTRAP_DEPLOYMENT) \<or> \<not> truthy address \<or>
            fields_missing bdo [''tx'', ''bs'', ''ic'', ''in'', ''is'', ''txv'']
         then Inl MissingFields
         else chain (normal_props bdo [''tx'', ''txv'', ''bs'', ''ic'', ''in'', ''is'']) (\<lambda>o1.
             Inr (JObj [(''type'', type), (''address'', JBuf (addressToBuffer_js E address)), (''bdo'', JObj o1)])))"

text \<open>A number that is not an integer is not in the model; it is refused with the other values.\<close>

definition normalizeMessageByOperationType :: "'b env \<Rightarrow> js \<Rightarrow> normalize_error + js" where
  "normalizeMessageByOperationType E message =
     (if \<not> truthy message \<or> \<not> is_object message then Inl InvalidMessage
      else case prop_of message ''type'' of
        JNum type \<Rightarrow>
          if type \<le> 0 then Inl TypeMissing
          else if isRoleAccess (nat type) then normalizeRoleAccessOperation E message
          else if isTransaction (nat type) then normalizeTransactionOperation E message
          else if isBootstrapDeployment (nat type) then normalizeBootstrapDeploymentOperation E message
          else if isTransfer (nat type) then normalizeTransferOperation E message
          else Inl UnsupportedType
      | _ \<Rightarrow> Inl TypeMissing)"

section \<open>From buffers to JSON\<close>

definition lower :: "char \<Rightarrow> char" where
  "lower c = (let n = of_char c :: nat in if 65 \<le> n \<and> n \<le> 90 then char_of (n + 32) else c)"

definition key_includes :: "string \<Rightarrow> string \<Rightarrow> bool" where
  "key_includes key part \<longleftrightarrow> sublist part (map lower key)"

definition json_of_buffer :: "'b env \<Rightarrow> string \<Rightarrow> buffer \<Rightarrow> amount_error + js" where
  "json_of_buffer E key value =
     (if list_ex (key_includes key) [''address'', ''to'', ''va'', ''ia''] then
        Inr (JStr (case bufferToAddress E value of None \<Rightarrow> to_hex value | Some addr \<Rightarrow> addr))
      else if key_includes key ''am'' then
        chain (bufferToBigInt value) (\<lambda>amount. Inr (JStr (show_nat (nat amount))))
      else Inr (JStr (to_hex value)))"

text \<open>The keys of a buffer are its indices, with its bytes.\<close>

fun normalizeDecodedPayloadForJson :: "'b env \<Rightarrow> js \<Rightarrow> amount_error + js"
  and normal_entries :: "'b env \<Rightarrow> (string \<times> js) list \<Rightarrow> amount_error + (string \<times> js) list" where
  "normalizeDecodedPayloadForJson E (JObj ps) = chain (normal_entries E ps) (\<lambda>qs. Inr (JObj qs))"
| "normalizeDecodedPayloadForJson E (JBuf b) =
     Inr (JObj (map (\<lambda>i. (show_nat i, JNum (uint (b ! i)))) [0..<length b]))"
| "normalizeDecodedPayloadForJson E v = Inr v"
| "normal_entries E [] = Inr []"
| "normal_entries E ((key, value) # ps) =
     chain (case value of
         JBuf b \<Rightarrow> json_of_buffer E key b
       | JObj qs \<Rightarrow> normalizeDecodedPayloadForJson E (JObj qs)
       | v \<Rightarrow> Inr v)
       (\<lambda>v. chain (normal_entries E ps) (\<lambda>vs. Inr ((key, v) # vs)))"

section \<open>Objects as operations\<close>

text \<open>How the validators and the encoder read an object: by the names of its properties.\<close>

fun js_field :: "js \<Rightarrow> field" where
  "js_field (JBuf b) = Bytes b"
| "js_field JNull = Null"
| "js_field _ = Absent"

definition js_payload :: "js \<Rightarrow> payload" where
  "js_payload v = \<lparr>p_tx = js_field (prop_of v ''tx''), p_txv = js_field (prop_of v ''txv''),
     p_iw = js_field (prop_of v ''iw''), p_ia = js_field (prop_of v ''ia''), p_am = js_field (prop_of v ''am''),
     p_in = js_field (prop_of v ''in''), p_is = js_field (prop_of v ''is''), p_to = js_field (prop_of v ''to''),
     p_ch = js_field (prop_of v ''ch''), p_bs = js_field (prop_of v ''bs''), p_mbs = js_field (prop_of v ''mbs''),
     p_ic = js_field (prop_of v ''ic''), p_va = js_field (prop_of v ''va''), p_vn = js_field (prop_of v ''vn''),
     p_vs = js_field (prop_of v ''vs'')\<rparr>"

definition js_operation :: "js \<Rightarrow> operation" where
  "js_operation v =
     \<lparr>op_type = (case prop_of v ''type'' of JNum n \<Rightarrow> nat n | _ \<Rightarrow> 0),
      op_address = js_field (prop_of v ''address''),
      op_value = (case List.find (\<lambda>k. truthy (prop_of v k)) [''cao'', ''aco'', ''rao'', ''txo'', ''bdo'', ''tro'', ''bio''] of
         None \<Rightarrow> NoValue | Some k \<Rightarrow> keyed k (js_payload (prop_of v k)))\<rparr>"

end
