(* ===== verification/Result_Codes.thy ===== *)
theory Result_Codes
  imports Prelude
begin

text \<open>
  The result codes of protocol v1, \<open>ResultCode\<close> of \<open>src/utils/constants.js\<close>, with the
  numbers that \<open>networkV1.generated.cjs\<close> gives them, and \<open>connectionPolicies.js\<close>: what the
  sender of a request does with its validator after a response, and which refusals end the connection.
\<close>

section \<open>Codes\<close>

type_synonym result_code = nat

definition RC_UNSPECIFIED :: result_code where [simp]: "RC_UNSPECIFIED = 0"
definition RC_OK :: result_code where [simp]: "RC_OK = 1"
definition RC_INVALID_PAYLOAD :: result_code where [simp]: "RC_INVALID_PAYLOAD = 2"
definition RC_RATE_LIMITED :: result_code where [simp]: "RC_RATE_LIMITED = 3"
definition RC_SIGNATURE_INVALID :: result_code where [simp]: "RC_SIGNATURE_INVALID = 4"
definition RC_UNEXPECTED_ERROR :: result_code where [simp]: "RC_UNEXPECTED_ERROR = 5"
definition RC_TIMEOUT :: result_code where [simp]: "RC_TIMEOUT = 6"
definition RC_NODE_HAS_NO_WRITE_ACCESS :: result_code where [simp]: "RC_NODE_HAS_NO_WRITE_ACCESS = 7"
definition RC_TX_ACCEPTED_PROOF_UNAVAILABLE :: result_code where [simp]: "RC_TX_ACCEPTED_PROOF_UNAVAILABLE = 8"
definition RC_NODE_OVERLOADED :: result_code where [simp]: "RC_NODE_OVERLOADED = 9"
definition RC_TX_ALREADY_PENDING :: result_code where [simp]: "RC_TX_ALREADY_PENDING = 10"
definition RC_OPERATION_TYPE_UNKNOWN :: result_code where [simp]: "RC_OPERATION_TYPE_UNKNOWN = 11"
definition RC_SCHEMA_VALIDATION_FAILED :: result_code where [simp]: "RC_SCHEMA_VALIDATION_FAILED = 12"
definition RC_REQUESTER_ADDRESS_INVALID :: result_code where [simp]: "RC_REQUESTER_ADDRESS_INVALID = 13"
definition RC_REQUESTER_PUBLIC_KEY_INVALID :: result_code where [simp]: "RC_REQUESTER_PUBLIC_KEY_INVALID = 14"
definition RC_TX_HASH_MISMATCH :: result_code where [simp]: "RC_TX_HASH_MISMATCH = 15"
definition RC_TX_SIGNATURE_INVALID :: result_code where [simp]: "RC_TX_SIGNATURE_INVALID = 16"
definition RC_TX_EXPIRED :: result_code where [simp]: "RC_TX_EXPIRED = 17"
definition RC_TX_ALREADY_EXISTS :: result_code where [simp]: "RC_TX_ALREADY_EXISTS = 18"
definition RC_OPERATION_ALREADY_COMPLETED :: result_code where [simp]: "RC_OPERATION_ALREADY_COMPLETED = 19"
definition RC_REQUESTER_NOT_FOUND :: result_code where [simp]: "RC_REQUESTER_NOT_FOUND = 20"
definition RC_INSUFFICIENT_FEE_BALANCE :: result_code where [simp]: "RC_INSUFFICIENT_FEE_BALANCE = 21"
definition RC_EXTERNAL_BOOTSTRAP_EQUALS_MSB_BOOTSTRAP :: result_code where [simp]: "RC_EXTERNAL_BOOTSTRAP_EQUALS_MSB_BOOTSTRAP = 22"
definition RC_SELF_VALIDATION_FORBIDDEN :: result_code where [simp]: "RC_SELF_VALIDATION_FORBIDDEN = 23"
definition RC_ROLE_NODE_ENTRY_NOT_FOUND :: result_code where [simp]: "RC_ROLE_NODE_ENTRY_NOT_FOUND = 24"
definition RC_ROLE_NODE_ALREADY_WRITER :: result_code where [simp]: "RC_ROLE_NODE_ALREADY_WRITER = 25"
definition RC_ROLE_NODE_NOT_WHITELISTED :: result_code where [simp]: "RC_ROLE_NODE_NOT_WHITELISTED = 26"
definition RC_ROLE_NODE_NOT_WRITER :: result_code where [simp]: "RC_ROLE_NODE_NOT_WRITER = 27"
definition RC_ROLE_NODE_IS_INDEXER :: result_code where [simp]: "RC_ROLE_NODE_IS_INDEXER = 28"
definition RC_ROLE_ADMIN_ENTRY_MISSING :: result_code where [simp]: "RC_ROLE_ADMIN_ENTRY_MISSING = 29"
definition RC_ROLE_INVALID_RECOVERY_CASE :: result_code where [simp]: "RC_ROLE_INVALID_RECOVERY_CASE = 30"
definition RC_ROLE_UNKNOWN_OPERATION :: result_code where [simp]: "RC_ROLE_UNKNOWN_OPERATION = 31"
definition RC_ROLE_INVALID_WRITER_KEY :: result_code where [simp]: "RC_ROLE_INVALID_WRITER_KEY = 32"
definition RC_ROLE_INSUFFICIENT_FEE_BALANCE :: result_code where [simp]: "RC_ROLE_INSUFFICIENT_FEE_BALANCE = 33"
definition RC_MSB_BOOTSTRAP_MISMATCH :: result_code where [simp]: "RC_MSB_BOOTSTRAP_MISMATCH = 34"
definition RC_EXTERNAL_BOOTSTRAP_NOT_DEPLOYED :: result_code where [simp]: "RC_EXTERNAL_BOOTSTRAP_NOT_DEPLOYED = 35"
definition RC_EXTERNAL_BOOTSTRAP_TX_MISSING :: result_code where [simp]: "RC_EXTERNAL_BOOTSTRAP_TX_MISSING = 36"
definition RC_EXTERNAL_BOOTSTRAP_MISMATCH :: result_code where [simp]: "RC_EXTERNAL_BOOTSTRAP_MISMATCH = 37"
definition RC_BOOTSTRAP_ALREADY_EXISTS :: result_code where [simp]: "RC_BOOTSTRAP_ALREADY_EXISTS = 38"
definition RC_TRANSFER_RECIPIENT_ADDRESS_INVALID :: result_code where [simp]: "RC_TRANSFER_RECIPIENT_ADDRESS_INVALID = 39"
definition RC_TRANSFER_RECIPIENT_PUBLIC_KEY_INVALID :: result_code where [simp]: "RC_TRANSFER_RECIPIENT_PUBLIC_KEY_INVALID = 40"
definition RC_TRANSFER_AMOUNT_TOO_LARGE :: result_code where [simp]: "RC_TRANSFER_AMOUNT_TOO_LARGE = 41"
definition RC_TRANSFER_SENDER_NOT_FOUND :: result_code where [simp]: "RC_TRANSFER_SENDER_NOT_FOUND = 42"
definition RC_TRANSFER_INSUFFICIENT_BALANCE :: result_code where [simp]: "RC_TRANSFER_INSUFFICIENT_BALANCE = 43"
definition RC_TRANSFER_RECIPIENT_BALANCE_OVERFLOW :: result_code where [simp]: "RC_TRANSFER_RECIPIENT_BALANCE_OVERFLOW = 44"
definition RC_TX_HASH_INVALID_FORMAT :: result_code where [simp]: "RC_TX_HASH_INVALID_FORMAT = 45"
definition RC_INTERNAL_ENQUEUE_VALIDATION_FAILED :: result_code where [simp]: "RC_INTERNAL_ENQUEUE_VALIDATION_FAILED = 46"
definition RC_TX_COMMITTED_RECEIPT_MISSING :: result_code where [simp]: "RC_TX_COMMITTED_RECEIPT_MISSING = 47"
definition RC_VALIDATOR_RESPONSE_TX_TYPE_INVALID :: result_code where [simp]: "RC_VALIDATOR_RESPONSE_TX_TYPE_INVALID = 48"
definition RC_VALIDATOR_RESPONSE_TX_TYPE_UNKNOWN :: result_code where [simp]: "RC_VALIDATOR_RESPONSE_TX_TYPE_UNKNOWN = 49"
definition RC_VALIDATOR_RESPONSE_TX_TYPE_UNSUPPORTED :: result_code where [simp]: "RC_VALIDATOR_RESPONSE_TX_TYPE_UNSUPPORTED = 50"
definition RC_VALIDATOR_RESPONSE_SCHEMA_INVALID :: result_code where [simp]: "RC_VALIDATOR_RESPONSE_SCHEMA_INVALID = 51"
definition RC_PENDING_REQUEST_MISSING_TX_DATA :: result_code where [simp]: "RC_PENDING_REQUEST_MISSING_TX_DATA = 52"
definition RC_PROOF_PAYLOAD_MISMATCH :: result_code where [simp]: "RC_PROOF_PAYLOAD_MISMATCH = 53"
definition RC_VALIDATOR_WRITER_KEY_NOT_REGISTERED :: result_code where [simp]: "RC_VALIDATOR_WRITER_KEY_NOT_REGISTERED = 54"
definition RC_VALIDATOR_ADDRESS_MISMATCH :: result_code where [simp]: "RC_VALIDATOR_ADDRESS_MISMATCH = 55"
definition RC_VALIDATOR_NODE_ENTRY_NOT_FOUND :: result_code where [simp]: "RC_VALIDATOR_NODE_ENTRY_NOT_FOUND = 56"
definition RC_VALIDATOR_NODE_NOT_WRITER :: result_code where [simp]: "RC_VALIDATOR_NODE_NOT_WRITER = 57"
definition RC_VALIDATOR_WRITER_KEY_MISMATCH :: result_code where [simp]: "RC_VALIDATOR_WRITER_KEY_MISMATCH = 58"
definition RC_VALIDATOR_TX_OBJECT_INVALID :: result_code where [simp]: "RC_VALIDATOR_TX_OBJECT_INVALID = 59"
definition RC_VALIDATOR_VA_MISSING :: result_code where [simp]: "RC_VALIDATOR_VA_MISSING = 60"
definition RC_TX_INVALID_PAYLOAD :: result_code where [simp]: "RC_TX_INVALID_PAYLOAD = 61"

section \<open>Policies\<close>

datatype sender_action = UNDEFINED | SENDER_SUCCESS | ROTATE | NO_ROTATE

definition SUCCESS_CODES :: "result_code list" where
  "SUCCESS_CODES =
    [RC_OK]"

definition ROTATE_CODES :: "result_code list" where
  "ROTATE_CODES =
    [RC_UNSPECIFIED, RC_INVALID_PAYLOAD, RC_RATE_LIMITED, RC_SIGNATURE_INVALID, RC_UNEXPECTED_ERROR,
     RC_TIMEOUT, RC_NODE_HAS_NO_WRITE_ACCESS, RC_TX_ACCEPTED_PROOF_UNAVAILABLE, RC_NODE_OVERLOADED,
     RC_OPERATION_TYPE_UNKNOWN, RC_SCHEMA_VALIDATION_FAILED, RC_REQUESTER_ADDRESS_INVALID,
     RC_REQUESTER_PUBLIC_KEY_INVALID, RC_TX_HASH_MISMATCH, RC_TX_SIGNATURE_INVALID, RC_TX_EXPIRED,
     RC_TX_ALREADY_EXISTS, RC_OPERATION_ALREADY_COMPLETED, RC_REQUESTER_NOT_FOUND, RC_INSUFFICIENT_FEE_BALANCE,
     RC_EXTERNAL_BOOTSTRAP_EQUALS_MSB_BOOTSTRAP, RC_SELF_VALIDATION_FORBIDDEN, RC_ROLE_NODE_ENTRY_NOT_FOUND,
     RC_ROLE_NODE_ALREADY_WRITER, RC_ROLE_NODE_NOT_WHITELISTED, RC_ROLE_NODE_NOT_WRITER,
     RC_ROLE_NODE_IS_INDEXER, RC_ROLE_ADMIN_ENTRY_MISSING, RC_ROLE_INVALID_RECOVERY_CASE,
     RC_ROLE_UNKNOWN_OPERATION, RC_ROLE_INVALID_WRITER_KEY, RC_ROLE_INSUFFICIENT_FEE_BALANCE,
     RC_MSB_BOOTSTRAP_MISMATCH, RC_EXTERNAL_BOOTSTRAP_NOT_DEPLOYED, RC_EXTERNAL_BOOTSTRAP_TX_MISSING,
     RC_EXTERNAL_BOOTSTRAP_MISMATCH, RC_BOOTSTRAP_ALREADY_EXISTS, RC_TRANSFER_RECIPIENT_ADDRESS_INVALID,
     RC_TRANSFER_RECIPIENT_PUBLIC_KEY_INVALID, RC_TRANSFER_AMOUNT_TOO_LARGE, RC_TRANSFER_SENDER_NOT_FOUND,
     RC_TRANSFER_INSUFFICIENT_BALANCE, RC_TRANSFER_RECIPIENT_BALANCE_OVERFLOW, RC_TX_HASH_INVALID_FORMAT,
     RC_INTERNAL_ENQUEUE_VALIDATION_FAILED, RC_TX_COMMITTED_RECEIPT_MISSING,
     RC_VALIDATOR_RESPONSE_TX_TYPE_INVALID, RC_VALIDATOR_RESPONSE_TX_TYPE_UNKNOWN,
     RC_VALIDATOR_RESPONSE_TX_TYPE_UNSUPPORTED, RC_VALIDATOR_RESPONSE_SCHEMA_INVALID,
     RC_PENDING_REQUEST_MISSING_TX_DATA, RC_PROOF_PAYLOAD_MISMATCH, RC_VALIDATOR_WRITER_KEY_NOT_REGISTERED,
     RC_VALIDATOR_ADDRESS_MISMATCH, RC_VALIDATOR_NODE_ENTRY_NOT_FOUND, RC_VALIDATOR_NODE_NOT_WRITER,
     RC_VALIDATOR_WRITER_KEY_MISMATCH, RC_VALIDATOR_TX_OBJECT_INVALID, RC_VALIDATOR_VA_MISSING,
     RC_TX_INVALID_PAYLOAD]"

definition NO_ROTATE_CODES :: "result_code list" where
  "NO_ROTATE_CODES =
    [RC_TX_ALREADY_PENDING]"

definition VALIDATOR_SIDE_END_CONNECTION_CODES :: "result_code list" where
  "VALIDATOR_SIDE_END_CONNECTION_CODES =
    [RC_UNSPECIFIED, RC_INVALID_PAYLOAD, RC_RATE_LIMITED, RC_SIGNATURE_INVALID, RC_UNEXPECTED_ERROR,
     RC_NODE_HAS_NO_WRITE_ACCESS, RC_NODE_OVERLOADED, RC_OPERATION_TYPE_UNKNOWN, RC_SCHEMA_VALIDATION_FAILED,
     RC_REQUESTER_ADDRESS_INVALID, RC_REQUESTER_PUBLIC_KEY_INVALID, RC_TX_HASH_MISMATCH,
     RC_TX_SIGNATURE_INVALID, RC_TX_EXPIRED, RC_TX_ALREADY_EXISTS, RC_OPERATION_ALREADY_COMPLETED,
     RC_REQUESTER_NOT_FOUND, RC_INSUFFICIENT_FEE_BALANCE, RC_EXTERNAL_BOOTSTRAP_EQUALS_MSB_BOOTSTRAP,
     RC_SELF_VALIDATION_FORBIDDEN, RC_ROLE_NODE_ENTRY_NOT_FOUND, RC_ROLE_NODE_ALREADY_WRITER,
     RC_ROLE_NODE_NOT_WHITELISTED, RC_ROLE_NODE_NOT_WRITER, RC_ROLE_NODE_IS_INDEXER,
     RC_ROLE_ADMIN_ENTRY_MISSING, RC_ROLE_INVALID_RECOVERY_CASE, RC_ROLE_UNKNOWN_OPERATION,
     RC_ROLE_INVALID_WRITER_KEY, RC_ROLE_INSUFFICIENT_FEE_BALANCE, RC_MSB_BOOTSTRAP_MISMATCH,
     RC_EXTERNAL_BOOTSTRAP_NOT_DEPLOYED, RC_EXTERNAL_BOOTSTRAP_TX_MISSING, RC_EXTERNAL_BOOTSTRAP_MISMATCH,
     RC_BOOTSTRAP_ALREADY_EXISTS, RC_TRANSFER_RECIPIENT_ADDRESS_INVALID,
     RC_TRANSFER_RECIPIENT_PUBLIC_KEY_INVALID, RC_TRANSFER_AMOUNT_TOO_LARGE, RC_TRANSFER_SENDER_NOT_FOUND,
     RC_TRANSFER_INSUFFICIENT_BALANCE, RC_TRANSFER_RECIPIENT_BALANCE_OVERFLOW, RC_TX_INVALID_PAYLOAD]"

definition resultToValidatorAction :: "result_code \<Rightarrow> sender_action" where
  "resultToValidatorAction resultCode =
     (if List.member SUCCESS_CODES resultCode then SENDER_SUCCESS
      else if List.member ROTATE_CODES resultCode then ROTATE
      else if List.member NO_ROTATE_CODES resultCode then NO_ROTATE
      else UNDEFINED)"

definition shouldEndConnection :: "result_code \<Rightarrow> bool" where
  "shouldEndConnection resultCode \<longleftrightarrow> List.member VALIDATOR_SIDE_END_CONNECTION_CODES resultCode"

text \<open>
  Of the 62 codes exactly \<open>OK\<close> is a success and exactly \<open>TX_ALREADY_PENDING\<close> keeps the validator without
  counting as one; no code is left undefined.
\<close>

lemma actions_total:
  "map resultToValidatorAction [0..<62] =
     (map (\<lambda>_. ROTATE) [0..<62])[1 := SENDER_SUCCESS, RC_TX_ALREADY_PENDING := NO_ROTATE]"
  by (simp add: resultToValidatorAction_def SUCCESS_CODES_def ROTATE_CODES_def NO_ROTATE_CODES_def upt_rec)

end
