(* ===== verification/Partial_Validators.thy ===== *)
theory Partial_Validators
  imports Node_State Normalizers Result_Codes
begin

text \<open>
  \<open>src/core/network/protocols/shared/validators/\<close>: the checks a validator makes on a partial
  operation of a user, before it completes and appends it. \<open>PartialOperationValidator.js\<close> has the steps
  they share, each a function that returns or throws; the four subclasses run them in their order and add
  their own. The result codes are those of \<open>src/utils/constants.js\<close>; any other exception, which the
  handler reports as \<open>UNEXPECTED_ERROR\<close>, is \<open>OtherError\<close>. Reads of the state do not change it,
  so the awaits between the steps do not matter to the result on one state.
\<close>

section \<open>Exceptions\<close>

datatype fault = Protocol result_code | OtherError

fun getResultCode :: "fault \<Rightarrow> result_code" where
  "getResultCode (Protocol code) = code"
| "getResultCode OtherError = RC_UNEXPECTED_ERROR"

type_synonym verdict = "fault + unit"

definition check_that :: "bool \<Rightarrow> result_code \<Rightarrow> verdict" where
  "check_that ok code = (if ok then Inr () else Inl (Protocol code))"

text \<open>The steps of a validator in a row: the first that throws ends it.\<close>

fun all_steps :: "verdict list \<Rightarrow> verdict" where
  "all_steps [] = Inr ()"
| "all_steps (v # vs) = chain v (\<lambda>_. all_steps vs)"

lemma all_steps_Inr: "all_steps vs = Inr u \<longleftrightarrow> list_all (\<lambda>v. v = Inr ()) vs"
  by (induction vs) (auto simp: chain_Inr)

lemma check_that_Inr [simp]: "check_that ok code = Inr u \<longleftrightarrow> ok"
  by (simp add: check_that_def)

section \<open>The shared steps\<close>

definition FEE_BIGINT :: int where
  "FEE_BIGINT = (case bufferToBigInt FEE of Inl _ \<Rightarrow> 0 | Inr n \<Rightarrow> n)"

definition MAX_AMOUNT :: int where "MAX_AMOUNT = 0xffffffffffffffffffffffffffffffff"

definition PUBLIC_KEY_LENGTH :: nat where [simp]: "PUBLIC_KEY_LENGTH = 32"

definition selectCheckSchemaValidator :: "'b env \<Rightarrow> nat \<Rightarrow> (operation \<Rightarrow> bool) option" where
  "selectCheckSchemaValidator E type =
     (if List.member [OT_ADD_WRITER, OT_REMOVE_WRITER, OT_ADMIN_RECOVERY] type then Some (validateRoleAccessOperation E)
      else if type = OT_BOOTSTRAP_DEPLOYMENT then Some (validateBootstrapDeploymentOperation E)
      else if type = OT_TX then Some (validateTransactionOperation E)
      else if type = OT_TRANSFER then Some (validateTransferOperation E)
      else None)"

definition isPayloadSchemaValid :: "'b env \<Rightarrow> operation \<Rightarrow> verdict" where
  "isPayloadSchemaValid E payload =
     (if op_type payload = 0 then Inl (Protocol RC_TX_INVALID_PAYLOAD)
      else case selectCheckSchemaValidator E (op_type payload) of
        None \<Rightarrow> Inl (Protocol RC_OPERATION_TYPE_UNKNOWN)
      | Some selectedValidator \<Rightarrow> check_that (selectedValidator payload) RC_SCHEMA_VALIDATION_FAILED)"

definition requesterAddress :: "'b env \<Rightarrow> operation \<Rightarrow> string option" where
  "requesterAddress E payload = bufferToAddress E (bytes (op_address payload))"

definition validateRequesterAddress :: "'b env \<Rightarrow> operation \<Rightarrow> verdict" where
  "validateRequesterAddress E payload =
     (case requesterAddress E payload of
        None \<Rightarrow> Inl (Protocol RC_REQUESTER_ADDRESS_INVALID)
      | Some incomingAddress \<Rightarrow>
          check_that (length (address_decodeSafe E (Some incomingAddress)) = PUBLIC_KEY_LENGTH)
            RC_REQUESTER_PUBLIC_KEY_INVALID)"

definition getMessageComponents :: "'b env \<Rightarrow> operation \<Rightarrow> msg_arg list option" where
  "getMessageComponents E payload =
     (let operation = payload_of payload; type = op_type payload
      in if List.member [OT_ADD_WRITER, OT_REMOVE_WRITER, OT_ADMIN_RECOVERY] type then
           Some [Num (networkId E), Buf (bytes (p_txv operation)), Buf (bytes (p_iw operation)),
             Buf (bytes (p_in operation)), Num type]
         else if type = OT_BOOTSTRAP_DEPLOYMENT then
           Some [Num (networkId E), Buf (bytes (p_txv operation)), Buf (bytes (p_bs operation)),
             Buf (bytes (p_ic operation)), Buf (bytes (p_in operation)), Num OT_BOOTSTRAP_DEPLOYMENT]
         else if type = OT_TX then
           Some [Num (networkId E), Buf (bytes (p_txv operation)), Buf (bytes (p_iw operation)),
             Buf (bytes (p_ch operation)), Buf (bytes (p_bs operation)), Buf (bytes (p_mbs operation)),
             Buf (bytes (p_in operation)), Num OT_TX]
         else if type = OT_TRANSFER then
           Some [Num (networkId E), Buf (bytes (p_txv operation)), Buf (bytes (p_to operation)),
             Buf (bytes (p_am operation)), Buf (bytes (p_in operation)), Num OT_TRANSFER]
         else None)"

definition validateSignature :: "'b env \<Rightarrow> (buffer \<Rightarrow> buffer) \<Rightarrow> operation \<Rightarrow> verdict" where
  "validateSignature E hash payload =
     (let operation = payload_of payload;
          incomingPublicKey = address_decodeSafe E (requesterAddress E payload);
          incomingSignature = bytes (p_is operation)
      in case getMessageComponents E payload of
           None \<Rightarrow> Inl (Protocol RC_OPERATION_TYPE_UNKNOWN)
         | Some messageComponents \<Rightarrow> (
             let messageHash = hash (createMessage messageComponents); payloadHash = bytes (p_tx operation)
             in chain (check_that (payloadHash = messageHash) RC_TX_HASH_MISMATCH) (\<lambda>_.
                  check_that (signature_verify E incomingSignature messageHash incomingPublicKey)
                    RC_TX_SIGNATURE_INVALID)))"

definition validateTransactionValidity :: "(buffer \<Rightarrow> buffer) \<Rightarrow> node_state \<Rightarrow> operation \<Rightarrow> verdict" where
  "validateTransactionValidity hash s payload =
     check_that (getIndexerSequenceState hash s = bytes (p_txv (payload_of payload))) RC_TX_EXPIRED"

definition validateTransactionUniqueness :: "node_state \<Rightarrow> operation \<Rightarrow> verdict" where
  "validateTransactionUniqueness s payload =
     check_that (st_get s (to_hex (bytes (p_tx (payload_of payload)))) = None) RC_TX_ALREADY_EXISTS"

text \<open>\<open>null\<close> is not \<open>undefined\<close>.\<close>

definition isOperationNotCompleted :: "operation \<Rightarrow> verdict" where
  "isOperationNotCompleted payload =
     (let operation = payload_of payload
      in check_that (p_va operation = Absent \<and> p_vn operation = Absent \<and> p_vs operation = Absent)
           RC_OPERATION_ALREADY_COMPLETED)"

text \<open>\<open>onSigned\<close> chooses the checkout that the indexers have signed.\<close>

definition requesterEntry :: "'b env \<Rightarrow> node_state \<Rightarrow> operation \<Rightarrow> bool \<Rightarrow> node_entry option" where
  "requesterEntry E s payload onSigned =
     (case requesterAddress E payload of
        None \<Rightarrow> None
      | Some a \<Rightarrow> if onSigned then getNodeEntry s a else getNodeEntryUnsigned s a)"

definition balance_at_least :: "node_entry \<Rightarrow> int \<Rightarrow> result_code \<Rightarrow> verdict" where
  "balance_at_least entry n code =
     (case bufferToBigInt (ne_balance entry) of
        Inl _ \<Rightarrow> Inl OtherError
      | Inr requesterBalance \<Rightarrow> check_that (\<not> requesterBalance < n) code)"

definition validateRequesterBalance :: "'b env \<Rightarrow> node_state \<Rightarrow> operation \<Rightarrow> bool \<Rightarrow> verdict" where
  "validateRequesterBalance E s payload onSigned =
     (case requesterEntry E s payload onSigned of
        None \<Rightarrow> Inl (Protocol RC_REQUESTER_NOT_FOUND)
      | Some entry \<Rightarrow> balance_at_least entry FEE_BIGINT RC_INSUFFICIENT_FEE_BALANCE)"

definition validateSubnetworkBootstrapEquality :: "'b env \<Rightarrow> operation \<Rightarrow> verdict" where
  "validateSubnetworkBootstrapEquality E payload =
     check_that (bootstrap E \<noteq> bytes (p_bs (payload_of payload))) RC_EXTERNAL_BOOTSTRAP_EQUALS_MSB_BOOTSTRAP"

definition validateNoSelfValidation :: "'b env \<Rightarrow> string option \<Rightarrow> operation \<Rightarrow> verdict" where
  "validateNoSelfValidation E selfAddress payload =
     (case selfAddress of
        None \<Rightarrow> Inr ()
      | Some a \<Rightarrow>
          if a = [] then Inr ()
          else check_that (requesterAddress E payload \<noteq> Some a) RC_SELF_VALIDATION_FORBIDDEN)"

text \<open>The seven steps that every \<open>validate\<close> begins with.\<close>

definition common_steps :: "'b env \<Rightarrow> (buffer \<Rightarrow> buffer) \<Rightarrow> string option \<Rightarrow> node_state \<Rightarrow> operation \<Rightarrow> verdict list" where
  "common_steps E hash selfAddress s payload =
     [isPayloadSchemaValid E payload, validateNoSelfValidation E selfAddress payload,
      validateRequesterAddress E payload, validateTransactionUniqueness s payload,
      validateSignature E hash payload, validateTransactionValidity hash s payload,
      isOperationNotCompleted payload]"

section \<open>Transfers\<close>

definition validateRecipientAddress :: "'b env \<Rightarrow> operation \<Rightarrow> verdict" where
  "validateRecipientAddress E payload =
     (case bufferToAddress E (bytes (p_to (payload_of payload))) of
        None \<Rightarrow> Inl (Protocol RC_TRANSFER_RECIPIENT_ADDRESS_INVALID)
      | Some incomingAddress \<Rightarrow>
          check_that (address_decodeSafe E (Some incomingAddress) \<noteq> alloc 0) RC_TRANSFER_RECIPIENT_PUBLIC_KEY_INVALID)"

definition recipient_room :: "node_state \<Rightarrow> string option \<Rightarrow> int \<Rightarrow> verdict" where
  "recipient_room s recipientAddress transferAmount =
     (case recipientAddress of
        None \<Rightarrow> Inr ()
      | Some a \<Rightarrow>
          (case getNodeEntryUnsigned s a of
             None \<Rightarrow> Inr ()
           | Some recipientEntry \<Rightarrow>
               (case bufferToBigInt (ne_balance recipientEntry) of
                  Inl _ \<Rightarrow> Inl OtherError
                | Inr recipientBalance \<Rightarrow>
                    (let newRecipientBalance = recipientBalance + transferAmount
                     in check_that (\<not> newRecipientBalance > MAX_AMOUNT) RC_TRANSFER_RECIPIENT_BALANCE_OVERFLOW))))"

definition validateStateBalances :: "'b env \<Rightarrow> node_state \<Rightarrow> operation \<Rightarrow> verdict" where
  "validateStateBalances E s payload =
     (let senderAddress = requesterAddress E payload;
          recipientAddress = bufferToAddress E (bytes (p_to (payload_of payload)))
      in case bufferToBigInt (bytes (p_am (payload_of payload))) of
           Inl _ \<Rightarrow> Inl OtherError
         | Inr transferAmount \<Rightarrow>
             if transferAmount > MAX_AMOUNT then Inl (Protocol RC_TRANSFER_AMOUNT_TOO_LARGE)
             else let isSelfTransfer = (senderAddress = recipientAddress);
                      totalDeductedAmount = (if isSelfTransfer then FEE_BIGINT else transferAmount + FEE_BIGINT)
             in case requesterEntry E s payload False of
                  None \<Rightarrow> Inl (Protocol RC_TRANSFER_SENDER_NOT_FOUND)
                | Some senderEntry \<Rightarrow>
                    (case bufferToBigInt (ne_balance senderEntry) of
                       Inl _ \<Rightarrow> Inl OtherError
                     | Inr senderBalance \<Rightarrow>
                         if \<not> senderBalance \<ge> totalDeductedAmount then Inl (Protocol RC_TRANSFER_INSUFFICIENT_BALANCE)
                         else if \<not> isSelfTransfer then recipient_room s recipientAddress transferAmount
                         else Inr ()))"

definition validateTransfer :: "'b env \<Rightarrow> (buffer \<Rightarrow> buffer) \<Rightarrow> string option \<Rightarrow> node_state \<Rightarrow> operation \<Rightarrow> verdict" where
  "validateTransfer E hash selfAddress s payload =
     all_steps (common_steps E hash selfAddress s payload @
       [validateRecipientAddress E payload, validateStateBalances E s payload])"

section \<open>Transactions of subnetworks\<close>

definition validateMsbBootstrap :: "'b env \<Rightarrow> operation \<Rightarrow> verdict" where
  "validateMsbBootstrap E payload =
     check_that (bootstrap E = bytes (p_mbs (payload_of payload))) RC_MSB_BOOTSTRAP_MISMATCH"

text \<open>
  \<open>decodedBootstrapDeployment.bdo.bs\<close> throws on \<open>null\<close> and on an operation with another payload, and
  \<open>decodedPayload.txHash\<close> on an entry that does not decode.
\<close>

definition validateIfExternalBootstrapHasBeenDeployed :: "'b env \<Rightarrow> node_state \<Rightarrow> operation \<Rightarrow> verdict" where
  "validateIfExternalBootstrapHasBeenDeployed E s payload =
     (let bs = bytes (p_bs (payload_of payload))
      in case getRegisteredBootstrapEntry s (to_hex bs) of
           None \<Rightarrow> Inl (Protocol RC_EXTERNAL_BOOTSTRAP_NOT_DEPLOYED)
         | Some externalBootstrapResult \<Rightarrow>
             (case de_decode (Some externalBootstrapResult) (addressLength E) of
                None \<Rightarrow> Inl OtherError
              | Some decodedPayload \<Rightarrow>
                  (case st_get s (to_hex (de_txHash decodedPayload)) of
                     None \<Rightarrow> Inl (Protocol RC_EXTERNAL_BOOTSTRAP_TX_MISSING)
                   | Some txPayload \<Rightarrow>
                       (case Operation_decode E txPayload of
                          None \<Rightarrow> Inl OtherError
                        | Some decoded \<Rightarrow>
                            (case op_value decoded of
                               Bdo bdo \<Rightarrow>
                                 (case p_bs bdo of
                                    Bytes b \<Rightarrow> check_that (b = bs) RC_EXTERNAL_BOOTSTRAP_MISMATCH
                                  | _ \<Rightarrow> Inl OtherError)
                             | _ \<Rightarrow> Inl OtherError)))))"

definition validateTransaction :: "'b env \<Rightarrow> (buffer \<Rightarrow> buffer) \<Rightarrow> string option \<Rightarrow> node_state \<Rightarrow> operation \<Rightarrow> verdict" where
  "validateTransaction E hash selfAddress s payload =
     all_steps (common_steps E hash selfAddress s payload @
       [validateRequesterBalance E s payload False, validateRequesterBalance E s payload True,
        validateSubnetworkBootstrapEquality E payload, validateMsbBootstrap E payload,
        validateIfExternalBootstrapHasBeenDeployed E s payload])"

section \<open>Deployments of bootstraps\<close>

definition validateBootstrapRegistration :: "node_state \<Rightarrow> operation \<Rightarrow> verdict" where
  "validateBootstrapRegistration s payload =
     check_that (getRegisteredBootstrapEntryUnsigned s (to_hex (bytes (p_bs (payload_of payload)))) = None)
       RC_BOOTSTRAP_ALREADY_EXISTS"

definition validateBootstrapDeployment :: "'b env \<Rightarrow> (buffer \<Rightarrow> buffer) \<Rightarrow> string option \<Rightarrow> node_state \<Rightarrow> operation \<Rightarrow> verdict" where
  "validateBootstrapDeployment E hash selfAddress s payload =
     all_steps (common_steps E hash selfAddress s payload @
       [validateRequesterBalance E s payload False, validateRequesterBalance E s payload True,
        validateSubnetworkBootstrapEquality E payload, validateBootstrapRegistration s payload])"

section \<open>Role access\<close>

definition validateRequesterBalanceForAddWriterOperation :: "'b env \<Rightarrow> node_state \<Rightarrow> operation \<Rightarrow> bool \<Rightarrow> verdict" where
  "validateRequesterBalanceForAddWriterOperation E s payload onSigned =
     (case requesterEntry E s payload onSigned of
        None \<Rightarrow> Inl (Protocol RC_REQUESTER_NOT_FOUND)
      | Some entry \<Rightarrow> balance_at_least entry (FEE_BIGINT * 11) RC_ROLE_INSUFFICIENT_FEE_BALANCE)"

definition validateWriterKey :: "'b env \<Rightarrow> node_state \<Rightarrow> operation \<Rightarrow> verdict" where
  "validateWriterKey E s payload =
     (case requesterEntry E s payload True of
        None \<Rightarrow> Inl (Protocol RC_REQUESTER_NOT_FOUND)
      | Some nodeEntry \<Rightarrow>
          (let iw = bytes (p_iw (payload_of payload))
           in case getRegisteredWriterKey E s (to_hex iw) of
                None \<Rightarrow> Inr ()
              | Some addressFromRegisteredWritingKey \<Rightarrow>
                  (let isCurrentWk = (ne_wk nodeEntry = iw);
                       isOwner = (addressFromRegisteredWritingKey = bytes (op_address payload))
                   in check_that (isCurrentWk \<and> isOwner) RC_ROLE_INVALID_WRITER_KEY)))"

definition isRequesterAllowedToChangeRole :: "'b env \<Rightarrow> node_state \<Rightarrow> operation \<Rightarrow> verdict" where
  "isRequesterAllowedToChangeRole E s payload =
     (let type = op_type payload
      in if type = OT_ADD_WRITER then
           (case requesterEntry E s payload True of
              None \<Rightarrow> Inl (Protocol RC_ROLE_NODE_ENTRY_NOT_FOUND)
            | Some nodeEntry \<Rightarrow>
                chain (check_that (\<not> ne_isWriter nodeEntry) RC_ROLE_NODE_ALREADY_WRITER) (\<lambda>_.
                  check_that (ne_isWhitelisted nodeEntry) RC_ROLE_NODE_NOT_WHITELISTED))
         else if type = OT_REMOVE_WRITER then
           (case requesterEntry E s payload True of
              None \<Rightarrow> Inl (Protocol RC_ROLE_NODE_ENTRY_NOT_FOUND)
            | Some nodeEntry \<Rightarrow>
                chain (check_that (ne_isWriter nodeEntry) RC_ROLE_NODE_NOT_WRITER) (\<lambda>_.
                  check_that (\<not> ne_isIndexer nodeEntry) RC_ROLE_NODE_IS_INDEXER))
         else if type = OT_ADMIN_RECOVERY then
           (case getAdminEntry E s of
              None \<Rightarrow> Inl (Protocol RC_ROLE_ADMIN_ENTRY_MISSING)
            | Some adminEntry \<Rightarrow>
                (let isRecoveryCase = (ae_address adminEntry = requesterAddress E payload \<and>
                       bytes (p_iw (payload_of payload)) \<noteq> ae_wk adminEntry)
                 in check_that isRecoveryCase RC_ROLE_INVALID_RECOVERY_CASE))
         else Inl (Protocol RC_ROLE_UNKNOWN_OPERATION))"

definition validateRoleAccess :: "'b env \<Rightarrow> (buffer \<Rightarrow> buffer) \<Rightarrow> string option \<Rightarrow> node_state \<Rightarrow> operation \<Rightarrow> verdict" where
  "validateRoleAccess E hash selfAddress s payload =
     all_steps (common_steps E hash selfAddress s payload @
       (if op_type payload = OT_ADD_WRITER then
          [validateRequesterBalanceForAddWriterOperation E s payload False,
           validateRequesterBalanceForAddWriterOperation E s payload True, validateWriterKey E s payload]
        else [validateRequesterBalance E s payload True, validateRequesterBalance E s payload False]) @
       [isRequesterAllowedToChangeRole E s payload])"

end
