(* ===== verification/Director.thy ===== *)
theory Director
  imports Builder
begin

text \<open>
  \<open>src/messages/state/ApplyStateMessageDirector.js\<close>: one method for each message, each a chain
  of setters of the builder, \<open>build\<close> and \<open>getPayload\<close>. The argument
  \<open>build_step\<close> is \<open>build\<close> with the hash, the wallet and the nonce of that builder.
\<close>

type_synonym step = "builder \<Rightarrow> build_error + builder"
type_synonym message = "builder option \<Rightarrow> build_error + built \<times> builder"

fun call_chain :: "step list \<Rightarrow> step" where
  "call_chain [] b = Inr b"
| "call_chain (f # fs) b = chain (f b) (call_chain fs)"

text \<open>What every method does with its chain; the builder is returned with the payload.\<close>

definition directed :: "'b env \<Rightarrow> step \<Rightarrow> step list \<Rightarrow> message" where
  "directed E build_step setters builder =
     (case builder of
        None \<Rightarrow> Inl BuilderMissing
      | Some b \<Rightarrow> chain (call_chain (setters @ [build_step]) b) (\<lambda>b.
          chain (getPayload E b) (\<lambda>payload. Inr (payload, b))))"

section \<open>Partial messages\<close>

definition buildPartialAddWriterMessage ::
  "'b env \<Rightarrow> step \<Rightarrow> js \<Rightarrow> js \<Rightarrow> js \<Rightarrow> js \<Rightarrow> message" where
  "buildPartialAddWriterMessage E build_step invokerAddress writingKey txValidity out =
      directed E build_step
     [setPhase (JStr ''partial''), setOutput out, setOperationType (JNum (int OT_ADD_WRITER)),
      setAddress E invokerAddress, setTxValidity txValidity, setWriterKey writingKey]"

definition buildPartialRemoveWriterMessage ::
  "'b env \<Rightarrow> step \<Rightarrow> js \<Rightarrow> js \<Rightarrow> js \<Rightarrow> js \<Rightarrow> message" where
  "buildPartialRemoveWriterMessage E build_step invokerAddress writerKey txValidity out =
      directed E build_step
     [setPhase (JStr ''partial''), setOutput out, setOperationType (JNum (int OT_REMOVE_WRITER)),
      setAddress E invokerAddress, setTxValidity txValidity, setWriterKey writerKey]"

definition buildPartialAdminRecoveryMessage ::
  "'b env \<Rightarrow> step \<Rightarrow> js \<Rightarrow> js \<Rightarrow> js \<Rightarrow> js \<Rightarrow> message" where
  "buildPartialAdminRecoveryMessage E build_step invokerAddress writingKey txValidity out =
      directed E build_step
     [setPhase (JStr ''partial''), setOutput out, setOperationType (JNum (int OT_ADMIN_RECOVERY)),
      setAddress E invokerAddress, setTxValidity txValidity, setWriterKey writingKey]"

definition buildPartialTransactionOperationMessage ::
  "'b env \<Rightarrow> step \<Rightarrow> js \<Rightarrow> js \<Rightarrow> js \<Rightarrow> js \<Rightarrow> js \<Rightarrow> js \<Rightarrow> js \<Rightarrow> message" where
  "buildPartialTransactionOperationMessage E build_step invokerAddress incomingWritingKey
      txValidity contentHash externalBootstrap msbBootstrap out = directed E build_step
     [setPhase (JStr ''partial''), setOutput out, setOperationType (JNum (int OT_TX)),
      setAddress E invokerAddress, setTxValidity txValidity, setWriterKey incomingWritingKey,
      setContentHash contentHash, setExternalBootstrap externalBootstrap, setMsbBootstrap msbBootstrap]"

definition buildPartialBootstrapDeploymentMessage ::
  "'b env \<Rightarrow> step \<Rightarrow> js \<Rightarrow> js \<Rightarrow> js \<Rightarrow> js \<Rightarrow> js \<Rightarrow> message" where
  "buildPartialBootstrapDeploymentMessage E build_step invokerAddress bootstrapKey channel
      txValidity out = directed E build_step
     [setPhase (JStr ''partial''), setOutput out, setOperationType (JNum (int OT_BOOTSTRAP_DEPLOYMENT)),
      setAddress E invokerAddress, setTxValidity txValidity, setExternalBootstrap bootstrapKey,
      setChannel channel]"

definition buildPartialTransferOperationMessage ::
  "'b env \<Rightarrow> step \<Rightarrow> js \<Rightarrow> js \<Rightarrow> js \<Rightarrow> js \<Rightarrow> js \<Rightarrow> message" where
  "buildPartialTransferOperationMessage E build_step invokerAddress recipientAddress amount
      txValidity out = directed E build_step
     [setPhase (JStr ''partial''), setOutput out, setOperationType (JNum (int OT_TRANSFER)),
      setAddress E invokerAddress, setTxValidity txValidity, setIncomingAddress E recipientAddress,
      setAmount amount]"

section \<open>Complete messages\<close>

definition buildCompleteAddAdminMessage ::
  "'b env \<Rightarrow> step \<Rightarrow> js \<Rightarrow> js \<Rightarrow> js \<Rightarrow> message" where
  "buildCompleteAddAdminMessage E build_step invokerAddress writingKey txValidity = directed E
      build_step
     [setPhase (JStr ''complete''), setOutput (JStr ''buffer''),
      setOperationType (JNum (int OT_ADD_ADMIN)), setAddress E invokerAddress, setWriterKey writingKey,
      setTxValidity txValidity]"

definition buildCompleteDisableInitializationMessage ::
  "'b env \<Rightarrow> step \<Rightarrow> js \<Rightarrow> js \<Rightarrow> js \<Rightarrow> message" where
  "buildCompleteDisableInitializationMessage E build_step invokerAddress writingKey txValidity
      = directed E build_step
     [setPhase (JStr ''complete''), setOutput (JStr ''buffer''),
      setOperationType (JNum (int OT_DISABLE_INITIALIZATION)), setAddress E invokerAddress,
      setWriterKey writingKey, setTxValidity txValidity]"

definition buildCompleteBalanceInitializationMessage ::
  "'b env \<Rightarrow> step \<Rightarrow> js \<Rightarrow> js \<Rightarrow> js \<Rightarrow> js \<Rightarrow> message" where
  "buildCompleteBalanceInitializationMessage E build_step invokerAddress recipientAddress
      amount txValidity = directed E build_step
     [setPhase (JStr ''complete''), setOutput (JStr ''buffer''),
      setOperationType (JNum (int OT_BALANCE_INITIALIZATION)), setAddress E invokerAddress,
      setIncomingAddress E recipientAddress, setAmount amount, setTxValidity txValidity]"

definition buildCompleteAppendWhitelistMessage ::
  "'b env \<Rightarrow> step \<Rightarrow> js \<Rightarrow> js \<Rightarrow> js \<Rightarrow> message" where
  "buildCompleteAppendWhitelistMessage E build_step invokerAddress incomingAddress txValidity =
      directed E build_step
     [setPhase (JStr ''complete''), setOutput (JStr ''buffer''),
      setOperationType (JNum (int OT_APPEND_WHITELIST)), setAddress E invokerAddress,
      setTxValidity txValidity, setIncomingAddress E incomingAddress]"

definition buildCompleteAddWriterMessage ::
  "'b env \<Rightarrow> step \<Rightarrow> js \<Rightarrow> js \<Rightarrow> js \<Rightarrow> js \<Rightarrow> js \<Rightarrow> js \<Rightarrow> message" where
  "buildCompleteAddWriterMessage E build_step invokerAddress txHash txValidity
      incomingWritingKey incomingNonce incomingSignature = directed E build_step
     [setPhase (JStr ''complete''), setOutput (JStr ''buffer''),
      setOperationType (JNum (int OT_ADD_WRITER)), setAddress E invokerAddress, setTxHash txHash,
      setTxValidity txValidity, setIncomingWriterKey incomingWritingKey, setIncomingNonce incomingNonce,
      setIncomingSignature incomingSignature]"

definition buildCompleteRemoveWriterMessage ::
  "'b env \<Rightarrow> step \<Rightarrow> js \<Rightarrow> js \<Rightarrow> js \<Rightarrow> js \<Rightarrow> js \<Rightarrow> js \<Rightarrow> message" where
  "buildCompleteRemoveWriterMessage E build_step invokerAddress txHash txValidity
      incomingWritingKey incomingNonce incomingSignature = directed E build_step
     [setPhase (JStr ''complete''), setOutput (JStr ''buffer''),
      setOperationType (JNum (int OT_REMOVE_WRITER)), setAddress E invokerAddress, setTxHash txHash,
      setTxValidity txValidity, setIncomingWriterKey incomingWritingKey, setIncomingNonce incomingNonce,
      setIncomingSignature incomingSignature]"

definition buildCompleteAdminRecoveryMessage ::
  "'b env \<Rightarrow> step \<Rightarrow> js \<Rightarrow> js \<Rightarrow> js \<Rightarrow> js \<Rightarrow> js \<Rightarrow> js \<Rightarrow> message" where
  "buildCompleteAdminRecoveryMessage E build_step invokerAddress txHash txValidity
      incomingWritingKey incomingNonce incomingSignature = directed E build_step
     [setPhase (JStr ''complete''), setOutput (JStr ''buffer''),
      setOperationType (JNum (int OT_ADMIN_RECOVERY)), setAddress E invokerAddress, setTxHash txHash,
      setTxValidity txValidity, setIncomingWriterKey incomingWritingKey, setIncomingNonce incomingNonce,
      setIncomingSignature incomingSignature]"

definition buildCompleteAddIndexerMessage ::
  "'b env \<Rightarrow> step \<Rightarrow> js \<Rightarrow> js \<Rightarrow> js \<Rightarrow> message" where
  "buildCompleteAddIndexerMessage E build_step invokerAddress incomingAddress txValidity =
      directed E build_step
     [setPhase (JStr ''complete''), setOutput (JStr ''buffer''),
      setOperationType (JNum (int OT_ADD_INDEXER)), setAddress E invokerAddress,
      setTxValidity txValidity, setIncomingAddress E incomingAddress]"

definition buildCompleteRemoveIndexerMessage ::
  "'b env \<Rightarrow> step \<Rightarrow> js \<Rightarrow> js \<Rightarrow> js \<Rightarrow> message" where
  "buildCompleteRemoveIndexerMessage E build_step invokerAddress incomingAddress txValidity =
      directed E build_step
     [setPhase (JStr ''complete''), setOutput (JStr ''buffer''),
      setOperationType (JNum (int OT_REMOVE_INDEXER)), setAddress E invokerAddress,
      setTxValidity txValidity, setIncomingAddress E incomingAddress]"

definition buildCompleteBanWriterMessage ::
  "'b env \<Rightarrow> step \<Rightarrow> js \<Rightarrow> js \<Rightarrow> js \<Rightarrow> message" where
  "buildCompleteBanWriterMessage E build_step invokerAddress incomingAddress txValidity =
      directed E build_step
     [setPhase (JStr ''complete''), setOutput (JStr ''buffer''),
      setOperationType (JNum (int OT_BAN_VALIDATOR)), setAddress E invokerAddress,
      setTxValidity txValidity, setIncomingAddress E incomingAddress]"

definition buildCompleteTransactionOperationMessage ::
  "'b env \<Rightarrow> step \<Rightarrow> js \<Rightarrow> js \<Rightarrow> js \<Rightarrow> js \<Rightarrow> js \<Rightarrow> js \<Rightarrow> js \<Rightarrow> js \<Rightarrow> js \<Rightarrow> message" where
  "buildCompleteTransactionOperationMessage E build_step invokerAddress txHash txValidity
      incomingWriterKey incomingNonce contentHash incomingSignature externalBootstrap
      msbBootstrap = directed E build_step
     [setPhase (JStr ''complete''), setOutput (JStr ''buffer''), setOperationType (JNum (int OT_TX)),
      setAddress E invokerAddress, setTxHash txHash, setTxValidity txValidity,
      setIncomingWriterKey incomingWriterKey, setIncomingNonce incomingNonce,
      setContentHash contentHash, setIncomingSignature incomingSignature,
      setExternalBootstrap externalBootstrap, setMsbBootstrap msbBootstrap]"

definition buildCompleteBootstrapDeploymentMessage ::
  "'b env \<Rightarrow> step \<Rightarrow> js \<Rightarrow> js \<Rightarrow> js \<Rightarrow> js \<Rightarrow> js \<Rightarrow> js \<Rightarrow> js \<Rightarrow> message" where
  "buildCompleteBootstrapDeploymentMessage E build_step invokerAddress transactionHash
      txValidity externalBootstrap channel incomingNonce incomingSignature = directed E
      build_step
     [setPhase (JStr ''complete''), setOutput (JStr ''buffer''),
      setOperationType (JNum (int OT_BOOTSTRAP_DEPLOYMENT)), setAddress E invokerAddress,
      setTxHash transactionHash, setTxValidity txValidity, setExternalBootstrap externalBootstrap,
      setChannel channel, setIncomingNonce incomingNonce, setIncomingSignature incomingSignature]"

definition buildCompleteTransferOperationMessage ::
  "'b env \<Rightarrow> step \<Rightarrow> js \<Rightarrow> js \<Rightarrow> js \<Rightarrow> js \<Rightarrow> js \<Rightarrow> js \<Rightarrow> js \<Rightarrow> message" where
  "buildCompleteTransferOperationMessage E build_step invokerAddress transactionHash txValidity
      incomingNonce recipientAddress amount incomingSignature = directed E build_step
     [setPhase (JStr ''complete''), setOutput (JStr ''buffer''),
      setOperationType (JNum (int OT_TRANSFER)), setAddress E invokerAddress, setTxHash transactionHash,
      setTxValidity txValidity, setIncomingNonce incomingNonce, setIncomingAddress E recipientAddress,
      setAmount amount, setIncomingSignature incomingSignature]"

end
