(* ===== verification/Services.thy ===== *)
theory Services
  imports Partial_Validators Director Apply_Loop
begin

text \<open>
  The two services through which a validator publishes what it completed:
  \<open>src/core/network/services/TransactionPoolService.js\<close> (the queue, appended in batches) and
  \<open>TransactionCommitService.js\<close> (the promises the requests wait on, one for each transaction hash). A
  promise is settled by taking its entry out of the map and recording its outcome; the timers and the
  scheduler that decide when a step happens are outside, so a run is any sequence of the steps.
\<close>

section \<open>Pending commits\<close>

datatype commit_error =
    PendingCommitInvalidTxHash | PendingCommitBufferFull | PendingCommitAlreadyExists
  | PendingCommitTimeout | PendingCommitCancelled | PendingCommitUnexpected

text \<open>A missing proof comes with the time of the append, if that is a safe integer.\<close>

datatype pool_error =
    TransactionPoolProofUnavailable int | TransactionPoolMissingCommitReceipt | TransactionPoolInvalidIncomingData
  | TransactionPoolFull | TransactionPoolAlreadyQueued

text \<open>What rejects a promise: an error of the two services, of the append, or of the request.\<close>

datatype service_error = CommitError commit_error | PoolError pool_error | AppendError | RequestError fault

record receipt =
  r_txHash :: string
  r_proof :: "buffer option"
  r_timestamp :: int

type_synonym settlement = "service_error + receipt"

record services =
  pendingCommits :: "string list"
  settled :: "(string \<times> settlement) list"
  txPool :: "(string \<times> buffer) list"
  queuedTxHashes :: "string set"

definition no_services :: services where
  "no_services = \<lparr>pendingCommits = [], settled = [], txPool = [], queuedTxHashes = {}\<rparr>"

definition TRANSACTION_COMMIT_SERVICE_BUFFER_SIZE :: nat where [simp]: "TRANSACTION_COMMIT_SERVICE_BUFFER_SIZE = 1500"

definition assertTxHash :: "string \<Rightarrow> bool" where
  "assertTxHash txHash \<longleftrightarrow> \<not> (\<not> isHexString txHash \<or> length txHash \<noteq> 64)"

definition registerPendingCommit :: "string \<Rightarrow> services \<Rightarrow> commit_error + services" where
  "registerPendingCommit txHash s =
     (if \<not> assertTxHash txHash then Inl PendingCommitInvalidTxHash
      else if length (pendingCommits s) \<ge> TRANSACTION_COMMIT_SERVICE_BUFFER_SIZE then Inl PendingCommitBufferFull
      else if List.member (pendingCommits s) txHash then Inl PendingCommitAlreadyExists
      else Inr (s\<lparr>pendingCommits := pendingCommits s @ [txHash]\<rparr>))"

text \<open>\<open>None\<close> when there is no entry.\<close>

definition getAndDeletePendingCommit :: "string \<Rightarrow> services \<Rightarrow> services option" where
  "getAndDeletePendingCommit txHash s =
     (if \<not> List.member (pendingCommits s) txHash then None
      else Some (s\<lparr>pendingCommits := removeAll txHash (pendingCommits s)\<rparr>))"

definition settleCommit :: "string \<Rightarrow> settlement \<Rightarrow> services \<Rightarrow> commit_error + bool \<times> services" where
  "settleCommit txHash outcome s =
     (if \<not> assertTxHash txHash then Inl PendingCommitInvalidTxHash
      else case getAndDeletePendingCommit txHash s of
        None \<Rightarrow> Inr (False, s)
      | Some s \<Rightarrow> Inr (True, s\<lparr>settled := settled s @ [(txHash, outcome)]\<rparr>))"

definition resolvePendingCommit :: "string \<Rightarrow> receipt \<Rightarrow> services \<Rightarrow> commit_error + bool \<times> services" where
  "resolvePendingCommit txHash receipt = settleCommit txHash (Inr receipt)"

definition rejectPendingCommit :: "string \<Rightarrow> service_error \<Rightarrow> services \<Rightarrow> commit_error + bool \<times> services" where
  "rejectPendingCommit txHash error = settleCommit txHash (Inl error)"

definition closeCommits :: "services \<Rightarrow> services" where
  "closeCommits s = s\<lparr>settled := settled s @ map (\<lambda>h. (h, Inl (CommitError PendingCommitCancelled))) (pendingCommits s),
     pendingCommits := []\<rparr>"

section \<open>The transaction pool\<close>

definition validateEnqueue :: "nat \<Rightarrow> services \<Rightarrow> pool_error + unit" where
  "validateEnqueue txPoolSize s = (if length (txPool s) \<ge> txPoolSize then Inl TransactionPoolFull else Inr ())"

definition hasTransaction :: "string \<Rightarrow> services \<Rightarrow> bool" where
  "hasTransaction txHash s \<longleftrightarrow> txHash \<in> queuedTxHashes s"

text \<open>The types of the arguments hold at its calls; the empty string is falsy.\<close>

definition addTransaction :: "nat \<Rightarrow> string \<Rightarrow> buffer \<Rightarrow> services \<Rightarrow> pool_error + services" where
  "addTransaction txPoolSize txHash encodedTx s =
     chain (validateEnqueue txPoolSize s) (\<lambda>_.
       if txHash = [] then Inl TransactionPoolInvalidIncomingData
       else if hasTransaction txHash s then Inl TransactionPoolAlreadyQueued
       else Inr (s\<lparr>queuedTxHashes := insert txHash (queuedTxHashes s), txPool := txPool s @ [(txHash, encodedTx)]\<rparr>))"

fun shift_items :: "nat \<Rightarrow> services \<Rightarrow> (string \<times> buffer) list \<times> services" where
  "shift_items 0 s = ([], s)"
| "shift_items (Suc n) s =
     (case txPool s of
        [] \<Rightarrow> ([], s)
      | tx # rest \<Rightarrow>
          (let s = s\<lparr>txPool := rest, queuedTxHashes := queuedTxHashes s - {fst tx}\<rparr>;
               (items, s) = shift_items n s
           in (tx # items, s)))"

definition prepareBatch :: "services \<Rightarrow> (string \<times> buffer) list \<times> services" where
  "prepareBatch s = (let batchSize = min (length (txPool s)) BATCH_SIZE in shift_items batchSize s)"

text \<open>
  The result of a settlement is not looked at; an invalid hash throws out of the loop, which leaves what was
  settled before it (\<open>False\<close>).
\<close>

fun settle_all :: "(string \<times> settlement) list \<Rightarrow> services \<Rightarrow> bool \<times> services" where
  "settle_all [] s = (True, s)"
| "settle_all ((h, outcome) # xs) s =
     (case settleCommit h outcome s of
        Inl _ \<Rightarrow> (False, s)
      | Inr (_, s) \<Rightarrow> settle_all xs s)"

definition MAX_SAFE_INTEGER :: int where "MAX_SAFE_INTEGER = 2 ^ 53 - 1"

definition isSafeInteger :: "int \<Rightarrow> bool" where
  "isSafeInteger n \<longleftrightarrow> - MAX_SAFE_INTEGER \<le> n \<and> n \<le> MAX_SAFE_INTEGER"

definition proofUnavailable :: "int \<Rightarrow> pool_error" where
  "proofUnavailable timestamp = TransactionPoolProofUnavailable (if isSafeInteger timestamp then timestamp else 0)"

text \<open>\<open>receiptsByHash\<close>: the last receipt with a hash wins.\<close>

definition receipt_outcome :: "receipt list \<Rightarrow> string \<Rightarrow> settlement" where
  "receipt_outcome receipts txHash =
     (case List.find (\<lambda>r. r_txHash r = txHash) (rev (filter (\<lambda>r. r_txHash r \<noteq> []) receipts)) of
        None \<Rightarrow> Inl (PoolError TransactionPoolMissingCommitReceipt)
      | Some receipt \<Rightarrow>
          if r_proof receipt = None then Inl (PoolError (proofUnavailable (r_timestamp receipt)))
          else Inr receipt)"

text \<open>
  \<open>#processTransactions\<close> waits for the append between its two halves, and other requests run in the
  meantime. The first half takes a batch when this node may write and the queue is not empty.
\<close>

definition takeBatch :: "bool \<Rightarrow> services \<Rightarrow> ((string \<times> buffer) list \<times> services) option" where
  "takeBatch canValidate s =
     (if \<not> canValidate \<or> length (txPool s) = 0 then None else Some (prepareBatch s))"

text \<open>
  \<open>appended\<close> is what \<open>appendWithProofOfPublication\<close> gave for the batch: its receipts, or an exception. An
  exception inside the loop is caught like one of the append: the items of the batch are rejected with it.
\<close>

definition settleBatch :: "receipt list option \<Rightarrow> (string \<times> buffer) list \<Rightarrow> services \<Rightarrow> bool \<times> services" where
  "settleBatch appended batchItems s =
     (let reject_all = settle_all (map (\<lambda>item. (fst item, Inl AppendError)) batchItems)
      in case appended of
           None \<Rightarrow> reject_all s
         | Some receipts \<Rightarrow>
             (case settle_all (map (\<lambda>item. (fst item, receipt_outcome receipts (fst item))) batchItems) s of
                (False, s) \<Rightarrow> reject_all s
              | (True, s) \<Rightarrow> (True, s)))"

definition stopPool :: "services \<Rightarrow> services" where
  "stopPool s = s\<lparr>queuedTxHashes := {}, txPool := []\<rparr>"

end
