(* ===== verification/Network_Messages.thy ===== *)
theory Network_Messages
  imports Services Builder "HOL-Library.Char_ord" "HOL-Library.List_Lexorder"
begin

text \<open>
  The messages of protocol v1: \<open>src/messages/network/v1/NetworkMessageBuilder.js\<close> and
  \<open>NetworkMessageDirector.js\<close>, and the buffers of \<open>src/utils/buffer.js\<close> that they sign. A message is an object with
  a header and, under its key, one payload; a decoded one may have any of the four, which the list holds
  in the order of their keys. The clock is an argument; \<open>None\<close> is an exception.
\<close>

section \<open>Buffers\<close>

text \<open>The characters of a string here are code points below 256.\<close>

definition utf8_char :: "char \<Rightarrow> buffer" where
  "utf8_char c = (let n = of_char c :: nat
     in if n < 128 then [word_of_nat n] else [word_of_nat (192 + n div 64), word_of_nat (128 + n mod 64)])"

definition utf8 :: "string \<Rightarrow> buffer" where
  "utf8 s = concat (map utf8_char s)"

definition uint64ToBuffer :: "int \<Rightarrow> buffer option" where
  "uint64ToBuffer value =
     (if value > MAX_SAFE_INTEGER \<or> value < 0 then None else Some (be_bytes 8 (nat value) []))"

definition timestampToBuffer :: "int \<Rightarrow> buffer option" where
  "timestampToBuffer timestamp = uint64ToBuffer timestamp"

definition idToBuffer :: "string \<Rightarrow> buffer" where
  "idToBuffer i = utf8 i"

definition writeUInt16BE :: "nat \<Rightarrow> buffer option" where
  "writeUInt16BE n = (if n > 0xFFFF then None else Some [word_of_nat (n div 256), word_of_nat (n mod 256)])"

fun capability_parts :: "string list \<Rightarrow> buffer option" where
  "capability_parts [] = Some []"
| "capability_parts (capability # caps) =
     (case writeUInt16BE (length (utf8 capability)) of
        None \<Rightarrow> None
      | Some bufferLen \<Rightarrow> map_option (\<lambda>parts. bufferLen @ utf8 capability @ parts) (capability_parts caps))"

definition encodeCapabilities :: "string list \<Rightarrow> buffer option" where
  "encodeCapabilities capabilities = capability_parts (sort capabilities)"

section \<open>Messages\<close>

definition NT_LIVENESS_REQUEST :: nat where [simp]: "NT_LIVENESS_REQUEST = 1"
definition NT_LIVENESS_RESPONSE :: nat where [simp]: "NT_LIVENESS_RESPONSE = 2"
definition NT_BROADCAST_TRANSACTION_REQUEST :: nat where [simp]: "NT_BROADCAST_TRANSACTION_REQUEST = 3"
definition NT_BROADCAST_TRANSACTION_RESPONSE :: nat where [simp]: "NT_BROADCAST_TRANSACTION_RESPONSE = 4"

definition NetworkOperationType_values :: "nat list" where
  "NetworkOperationType_values = [NT_LIVENESS_REQUEST, NT_LIVENESS_RESPONSE, NT_BROADCAST_TRANSACTION_REQUEST,
     NT_BROADCAST_TRANSACTION_RESPONSE]"

definition ResultCode_values :: "nat list" where
  "ResultCode_values = [0..<62]"

datatype net_payload =
    LivenessRequest (np_nonce: buffer) (np_signature: buffer)
  | LivenessResponse (np_nonce: buffer) (np_signature: buffer) (np_result: result_code)
  | BroadcastRequest (np_data: buffer) (np_nonce: buffer) (np_signature: buffer)
  | BroadcastResponse (np_nonce: buffer) (np_signature: buffer) (np_proof: buffer) (np_timestamp: int) (np_result: result_code)

record net_message =
  nm_type :: nat
  nm_id :: string
  nm_timestamp :: int
  nm_capabilities :: "string list"
  nm_payloads :: "net_payload list"

section \<open>The builder\<close>

text \<open>The arguments have the types that the callers give them.\<close>

record net_builder =
  nb_type :: "nat option"
  nb_capabilities :: "string list option"
  nb_id :: "string option"
  nb_timestamp :: "int option"
  nb_resultCode :: "result_code option"
  nb_data :: "buffer option"
  nb_proof :: "buffer option"
  nb_timestamp_ledger :: "int option"
  nb_header :: "(nat \<times> string \<times> int \<times> string list) option"
  nb_body :: "net_payload option"

definition fresh_net_builder :: net_builder where
  "fresh_net_builder = \<lparr>nb_type = None, nb_capabilities = None, nb_id = None, nb_timestamp = None, nb_resultCode = None,
     nb_data = None, nb_proof = None, nb_timestamp_ledger = None, nb_header = None, nb_body = None\<rparr>"

definition nb_setId :: "string \<Rightarrow> net_builder \<Rightarrow> net_builder option" where
  "nb_setId i b = Some (b\<lparr>nb_id := Some i\<rparr>)"

definition nb_setTimestamp :: "int \<Rightarrow> net_builder \<Rightarrow> net_builder option" where
  "nb_setTimestamp now b = Some (b\<lparr>nb_timestamp := Some now\<rparr>)"

definition nb_setCapabilities :: "string list \<Rightarrow> net_builder \<Rightarrow> net_builder option" where
  "nb_setCapabilities caps b = Some (b\<lparr>nb_capabilities := Some caps\<rparr>)"

definition nb_setType :: "nat \<Rightarrow> net_builder \<Rightarrow> net_builder option" where
  "nb_setType t b = (if \<not> List.member NetworkOperationType_values t then None else Some (b\<lparr>nb_type := Some t\<rparr>))"

definition nb_setResultCode :: "result_code \<Rightarrow> net_builder \<Rightarrow> net_builder option" where
  "nb_setResultCode code b = (if \<not> List.member ResultCode_values code then None else Some (b\<lparr>nb_resultCode := Some code\<rparr>))"

definition nb_setData :: "buffer option \<Rightarrow> net_builder \<Rightarrow> net_builder option" where
  "nb_setData d b = Some (b\<lparr>nb_data := Some (case d of None \<Rightarrow> alloc 0 | Some d \<Rightarrow> d)\<rparr>)"

definition nb_setProof :: "buffer option \<Rightarrow> net_builder \<Rightarrow> net_builder option" where
  "nb_setProof p b = Some (b\<lparr>nb_proof := Some (case p of None \<Rightarrow> alloc 0 | Some p \<Rightarrow> p)\<rparr>)"

definition nb_setTimestampLedger :: "int option \<Rightarrow> net_builder \<Rightarrow> net_builder option" where
  "nb_setTimestampLedger timestamp b =
     (case timestamp of
        None \<Rightarrow> Some (b\<lparr>nb_timestamp_ledger := None\<rparr>)
      | Some v \<Rightarrow> if v > MAX_SAFE_INTEGER \<or> v < 0 then None else Some (b\<lparr>nb_timestamp_ledger := Some v\<rparr>))"

definition setHeader :: "net_builder \<Rightarrow> net_builder option" where
  "setHeader b =
     (case (nb_type b, nb_id b, nb_timestamp b, nb_capabilities b) of
        (Some t, Some i, Some ts, Some caps) \<Rightarrow>
          if t = 0 \<or> i = [] \<or> ts = 0 then None else Some (b\<lparr>nb_header := Some (t, i, ts, caps)\<rparr>)
      | _ \<Rightarrow> None)"

text \<open>Which proofs and timestamps go with a result.\<close>

definition result_consistent :: "result_code \<Rightarrow> buffer \<Rightarrow> int \<Rightarrow> bool" where
  "result_consistent result proof timestamp =
     (let hasProof = length proof > 0; hasTimestamp = timestamp > 0
      in if result = RC_OK then \<not> (\<not> hasProof \<or> \<not> hasTimestamp)
         else if result = RC_TX_ACCEPTED_PROOF_UNAVAILABLE then if hasProof then False else hasTimestamp
         else if hasProof then False else timestamp = 0)"

text \<open>The payload of each type, with the signature over its parts; \<open>h\<close> is the header.\<close>

type_synonym net_header = "nat \<times> string \<times> int \<times> string list"

definition buildLivenessRequestPayload :: "(buffer \<Rightarrow> buffer) \<Rightarrow> wallet \<Rightarrow> buffer \<Rightarrow> net_header \<Rightarrow> net_payload option" where
  "buildLivenessRequestPayload hash w nonce h =
     (case h of (t, i, ts, caps) \<Rightarrow> case (timestampToBuffer ts, encodeCapabilities caps) of
        (Some tsBuf, Some capsBuf) \<Rightarrow>
          (let message = createMessage [Num t, Buf (idToBuffer i), Buf tsBuf, Buf nonce, Buf capsBuf]
           in Some (LivenessRequest nonce (w_sign w (hash message))))
      | _ \<Rightarrow> None)"

definition buildLivenessResponsePayload :: "(buffer \<Rightarrow> buffer) \<Rightarrow> wallet \<Rightarrow> buffer \<Rightarrow> net_builder \<Rightarrow> net_header \<Rightarrow> net_payload option" where
  "buildLivenessResponsePayload hash w nonce b h =
     (case h of (t, i, ts, caps) \<Rightarrow> case (nb_resultCode b, timestampToBuffer ts, encodeCapabilities caps) of
        (Some resultCode, Some tsBuf, Some capsBuf) \<Rightarrow>
          (let message = createMessage [Num t, Buf (idToBuffer i), Buf tsBuf, Buf nonce, Buf (safeWriteUInt32BE resultCode), Buf capsBuf]
           in Some (LivenessResponse nonce (w_sign w (hash message)) resultCode))
      | _ \<Rightarrow> None)"

definition buildBroadcastRequestPayload :: "(buffer \<Rightarrow> buffer) \<Rightarrow> wallet \<Rightarrow> buffer \<Rightarrow> net_builder \<Rightarrow> net_header \<Rightarrow> net_payload option" where
  "buildBroadcastRequestPayload hash w nonce b h =
     (case h of (t, i, ts, caps) \<Rightarrow> case (nb_data b, timestampToBuffer ts, encodeCapabilities caps) of
        (Some d, Some tsBuf, Some capsBuf) \<Rightarrow>
          (let message = createMessage [Num t, Buf (idToBuffer i), Buf tsBuf, Buf d, Buf nonce, Buf capsBuf]
           in Some (BroadcastRequest d nonce (w_sign w (hash message))))
      | _ \<Rightarrow> None)"

definition buildBroadcastResponsePayload :: "(buffer \<Rightarrow> buffer) \<Rightarrow> wallet \<Rightarrow> buffer \<Rightarrow> net_builder \<Rightarrow> net_header \<Rightarrow> net_payload option" where
  "buildBroadcastResponsePayload hash w nonce b h =
     (case h of (t, i, ts, caps) \<Rightarrow> case (nb_resultCode b, timestampToBuffer ts, encodeCapabilities caps) of
        (Some resultCode, Some tsBuf, Some capsBuf) \<Rightarrow>
          (let proof = (case nb_proof b of Some p \<Rightarrow> p | None \<Rightarrow> alloc 0);
               timestamp = (case nb_timestamp_ledger b of Some v \<Rightarrow> v | None \<Rightarrow> 0)
           in if \<not> result_consistent resultCode proof timestamp then None
              else case timestampToBuffer timestamp of
                None \<Rightarrow> None
              | Some ledgerBuf \<Rightarrow>
                  (let message = createMessage [Num t, Buf (idToBuffer i), Buf tsBuf, Buf nonce, Buf proof, Buf ledgerBuf,
                         Buf (safeWriteUInt32BE resultCode), Buf capsBuf]
                   in Some (BroadcastResponse nonce (w_sign w (hash message)) proof timestamp resultCode)))
      | _ \<Rightarrow> None)"

definition net_body :: "(buffer \<Rightarrow> buffer) \<Rightarrow> wallet \<Rightarrow> buffer \<Rightarrow> net_builder \<Rightarrow> net_header \<Rightarrow> net_payload option" where
  "net_body hash w nonce b h =
     (let t = fst h
      in if t = NT_LIVENESS_REQUEST then buildLivenessRequestPayload hash w nonce h
         else if t = NT_LIVENESS_RESPONSE then buildLivenessResponsePayload hash w nonce b h
         else if t = NT_BROADCAST_TRANSACTION_REQUEST then buildBroadcastRequestPayload hash w nonce b h
         else if t = NT_BROADCAST_TRANSACTION_RESPONSE then buildBroadcastResponsePayload hash w nonce b h
         else None)"

definition buildPayload :: "(buffer \<Rightarrow> buffer) \<Rightarrow> wallet \<Rightarrow> buffer \<Rightarrow> net_builder \<Rightarrow> net_builder option" where
  "buildPayload hash w nonce b =
     (case setHeader b of
        None \<Rightarrow> None
      | Some b \<Rightarrow> map_option (\<lambda>body. b\<lparr>nb_body := Some body\<rparr>) (net_body hash w nonce b (the (nb_header b))))"

definition getResult :: "net_builder \<Rightarrow> net_message option" where
  "getResult b =
     (case (nb_header b, nb_body b) of
        (Some (t, i, ts, caps), Some body) \<Rightarrow>
          Some \<lparr>nm_type = t, nm_id = i, nm_timestamp = ts, nm_capabilities = caps, nm_payloads = [body]\<rparr>
      | _ \<Rightarrow> None)"

section \<open>The director\<close>

fun net_chain :: "(net_builder \<Rightarrow> net_builder option) list \<Rightarrow> net_builder \<Rightarrow> net_message option" where
  "net_chain [] b = getResult b"
| "net_chain (f # fs) b = (case f b of None \<Rightarrow> None | Some b \<Rightarrow> net_chain fs b)"

text \<open>The factory gives every message a fresh builder.\<close>

definition net_message_of :: "'b env \<Rightarrow> wallet \<Rightarrow> (net_builder \<Rightarrow> net_builder option) list \<Rightarrow> net_message option" where
  "net_message_of E w steps = (if \<not> isAddressValid E (w_address w) then None else net_chain steps fresh_net_builder)"

definition buildLivenessRequest :: "'b env \<Rightarrow> (buffer \<Rightarrow> buffer) \<Rightarrow> wallet \<Rightarrow> buffer \<Rightarrow> int \<Rightarrow> string \<Rightarrow> string list \<Rightarrow> net_message option" where
  "buildLivenessRequest E hash w nonce now i caps =
     net_message_of E w [nb_setType NT_LIVENESS_REQUEST, nb_setId i, nb_setTimestamp now, nb_setCapabilities caps, buildPayload hash w nonce]"

definition buildLivenessResponse :: "'b env \<Rightarrow> (buffer \<Rightarrow> buffer) \<Rightarrow> wallet \<Rightarrow> buffer \<Rightarrow> int \<Rightarrow> string \<Rightarrow> string list \<Rightarrow> result_code \<Rightarrow>
    net_message option" where
  "buildLivenessResponse E hash w nonce now i caps statusCode =
     net_message_of E w [nb_setType NT_LIVENESS_RESPONSE, nb_setId i, nb_setTimestamp now, nb_setCapabilities caps,
       nb_setResultCode statusCode, buildPayload hash w nonce]"

definition buildBroadcastTransactionRequest :: "'b env \<Rightarrow> (buffer \<Rightarrow> buffer) \<Rightarrow> wallet \<Rightarrow> buffer \<Rightarrow> int \<Rightarrow> string \<Rightarrow> buffer option \<Rightarrow>
    string list \<Rightarrow> net_message option" where
  "buildBroadcastTransactionRequest E hash w nonce now i d caps =
     net_message_of E w [nb_setType NT_BROADCAST_TRANSACTION_REQUEST, nb_setId i, nb_setTimestamp now, nb_setData d,
       nb_setCapabilities caps, buildPayload hash w nonce]"

definition buildBroadcastTransactionResponse :: "'b env \<Rightarrow> (buffer \<Rightarrow> buffer) \<Rightarrow> wallet \<Rightarrow> buffer \<Rightarrow> int \<Rightarrow> string \<Rightarrow> string list \<Rightarrow>
    result_code \<Rightarrow> buffer option \<Rightarrow> int option \<Rightarrow> net_message option" where
  "buildBroadcastTransactionResponse E hash w nonce now i caps resultCode proof timestamp =
     net_message_of E w [nb_setType NT_BROADCAST_TRANSACTION_RESPONSE, nb_setId i, nb_setTimestamp now, nb_setCapabilities caps,
       nb_setProof proof, nb_setTimestampLedger timestamp, nb_setResultCode resultCode, buildPayload hash w nonce]"

end
