(* ===== verification/Network_Codec.thy ===== *)
theory Network_Codec
  imports Network_Messages
begin

text \<open>
  The codec of network messages, \<open>src/utils/protobuf/networkV1.generated.cjs\<close> with the two wrappers of
  \<open>operationHelpers.js\<close>. The package \<open>protobufjs\<close> whose writer and reader it calls is the record \<open>pbjs\<close>: the bytes that each call of
  the writer appends, and what each call of the reader gives at a position of the buffer with the next position, or \<open>None\<close> when
  it throws. \<open>fork\<close> and \<open>ldelim\<close> put the length of what was written between them in front of it.
\<close>

section \<open>The library\<close>

text \<open>\<open>rd_uint64\<close> gives the number that \<open>LongBits.toNumber\<close> makes of it.\<close>

record pbjs =
  wr_uint32 :: "nat \<Rightarrow> buffer"
  wr_int32 :: "nat \<Rightarrow> buffer"
  wr_uint64 :: "int \<Rightarrow> buffer"
  wr_string :: "string \<Rightarrow> buffer"
  wr_bytes :: "buffer \<Rightarrow> buffer"
  rd_uint32 :: "buffer \<Rightarrow> nat \<Rightarrow> (nat \<times> nat) option"
  rd_int32 :: "buffer \<Rightarrow> nat \<Rightarrow> (int \<times> nat) option"
  rd_uint64 :: "buffer \<Rightarrow> nat \<Rightarrow> (int \<times> nat) option"
  rd_string :: "buffer \<Rightarrow> nat \<Rightarrow> (string \<times> nat) option"
  rd_bytes :: "buffer \<Rightarrow> nat \<Rightarrow> (buffer \<times> nat) option"
  rd_skipType :: "nat \<Rightarrow> buffer \<Rightarrow> nat \<Rightarrow> nat option"

definition wr_ldelim :: "pbjs \<Rightarrow> buffer \<Rightarrow> buffer" where
  "wr_ldelim p forked = wr_uint32 p (length forked) @ forked"

section \<open>Decoding a message\<close>

text \<open>The loop of every decoder; \<open>arm\<close> is its switch on the tag, from the object and the position to those after the field.\<close>

partial_function (option) pb_loop :: "pbjs \<Rightarrow> (nat \<Rightarrow> 'o \<Rightarrow> nat \<Rightarrow> ('o \<times> nat) thrown option) \<Rightarrow> buffer \<Rightarrow> nat \<Rightarrow> 'o \<Rightarrow> nat \<Rightarrow>
    ('o \<times> nat) thrown option" where
  "pb_loop p arm buf stop obj pos =
     (if \<not> pos < stop then Some (Returns (obj, pos))
      else case rd_uint32 p buf pos of
        None \<Rightarrow> Some Throws
      | Some (tag, pos) \<Rightarrow>
          (case arm tag obj pos of
             None \<Rightarrow> None
           | Some r \<Rightarrow> (case r of Throws \<Rightarrow> Some Throws | Returns q \<Rightarrow> pb_loop p arm buf stop (fst q) (snd q))))"

text \<open>One read and the assignment of its result; the \<open>default\<close> of every switch; a nested message.\<close>

definition pb_set :: "('v \<times> nat) option \<Rightarrow> ('v \<Rightarrow> 'o) \<Rightarrow> ('o \<times> nat) thrown option" where
  "pb_set r f = (case r of None \<Rightarrow> Some Throws | Some (v, pos) \<Rightarrow> Some (Returns (f v, pos)))"

definition pb_skip :: "pbjs \<Rightarrow> buffer \<Rightarrow> nat \<Rightarrow> 'o \<Rightarrow> nat \<Rightarrow> ('o \<times> nat) thrown option" where
  "pb_skip p buf tag obj pos = pb_set (map_option (\<lambda>pos. ((), pos)) (rd_skipType p (tag mod 8) buf pos)) (\<lambda>_. obj)"

definition pb_nested :: "pbjs \<Rightarrow> (pbjs \<Rightarrow> buffer \<Rightarrow> nat \<Rightarrow> nat \<Rightarrow> ('m \<times> nat) thrown option) \<Rightarrow> buffer \<Rightarrow> nat \<Rightarrow> ('m \<Rightarrow> 'o) \<Rightarrow>
    ('o \<times> nat) thrown option" where
  "pb_nested p dec buf pos f =
     (case rd_uint32 p buf pos of
        None \<Rightarrow> Some Throws
      | Some (len, pos) \<Rightarrow>
          (case dec p buf len pos of
             None \<Rightarrow> None
           | Some Throws \<Rightarrow> Some Throws
           | Some (Returns (m, pos)) \<Rightarrow> Some (Returns (f m, pos))))"

text \<open>The code behind a 32-bit number: the codes are those below 62, and every check of a code compares it with them.\<close>

definition code_of_int32 :: "int \<Rightarrow> result_code" where
  "code_of_int32 n = nat (n mod 2 ^ 32)"

section \<open>LivenessRequest\<close>

definition LivenessRequest_encode :: "pbjs \<Rightarrow> buffer \<Rightarrow> buffer \<Rightarrow> buffer" where
  "LivenessRequest_encode p nonce signature = wr_uint32 p 10 @ wr_bytes p nonce @ wr_uint32 p 18 @ wr_bytes p signature"

definition LivenessRequest_arm :: "pbjs \<Rightarrow> buffer \<Rightarrow> nat \<Rightarrow> buffer \<times> buffer \<Rightarrow> nat \<Rightarrow> ((buffer \<times> buffer) \<times> nat) thrown option" where
  "LivenessRequest_arm p buf tag m pos =
     (case m of (nonce, signature) \<Rightarrow>
        if tag div 8 = 1 then pb_set (rd_bytes p buf pos) (\<lambda>v. (v, signature))
        else if tag div 8 = 2 then pb_set (rd_bytes p buf pos) (\<lambda>v. (nonce, v))
        else pb_skip p buf tag m pos)"

definition LivenessRequest_decode :: "pbjs \<Rightarrow> buffer \<Rightarrow> nat \<Rightarrow> nat \<Rightarrow> ((buffer \<times> buffer) \<times> nat) thrown option" where
  "LivenessRequest_decode p buf len pos = pb_loop p (LivenessRequest_arm p buf) buf (pos + len) ([], []) pos"

definition LivenessRequest_toObject :: "buffer \<times> buffer \<Rightarrow> net_payload" where
  "LivenessRequest_toObject m = (case m of (nonce, signature) \<Rightarrow> LivenessRequest nonce signature)"

section \<open>LivenessResponse\<close>

definition LivenessResponse_encode :: "pbjs \<Rightarrow> buffer \<Rightarrow> buffer \<Rightarrow> result_code \<Rightarrow> buffer" where
  "LivenessResponse_encode p nonce signature result =
     wr_uint32 p 10 @ wr_bytes p nonce @ wr_uint32 p 18 @ wr_bytes p signature @ wr_uint32 p 24 @ wr_int32 p result"

definition LivenessResponse_arm :: "pbjs \<Rightarrow> buffer \<Rightarrow> nat \<Rightarrow> buffer \<times> buffer \<times> int \<Rightarrow> nat \<Rightarrow> ((buffer \<times> buffer \<times> int) \<times> nat) thrown option" where
  "LivenessResponse_arm p buf tag m pos =
     (case m of (nonce, signature, result) \<Rightarrow>
        if tag div 8 = 1 then pb_set (rd_bytes p buf pos) (\<lambda>v. (v, signature, result))
        else if tag div 8 = 2 then pb_set (rd_bytes p buf pos) (\<lambda>v. (nonce, v, result))
        else if tag div 8 = 3 then pb_set (rd_int32 p buf pos) (\<lambda>v. (nonce, signature, v))
        else pb_skip p buf tag m pos)"

definition LivenessResponse_decode :: "pbjs \<Rightarrow> buffer \<Rightarrow> nat \<Rightarrow> nat \<Rightarrow> ((buffer \<times> buffer \<times> int) \<times> nat) thrown option" where
  "LivenessResponse_decode p buf len pos = pb_loop p (LivenessResponse_arm p buf) buf (pos + len) ([], [], 0) pos"

definition LivenessResponse_toObject :: "buffer \<times> buffer \<times> int \<Rightarrow> net_payload" where
  "LivenessResponse_toObject m = (case m of (nonce, signature, result) \<Rightarrow> LivenessResponse nonce signature (code_of_int32 result))"

section \<open>BroadcastTransactionRequest\<close>

definition BroadcastTransactionRequest_encode :: "pbjs \<Rightarrow> buffer \<Rightarrow> buffer \<Rightarrow> buffer \<Rightarrow> buffer" where
  "BroadcastTransactionRequest_encode p d nonce signature =
     wr_uint32 p 10 @ wr_bytes p d @ wr_uint32 p 18 @ wr_bytes p nonce @ wr_uint32 p 26 @ wr_bytes p signature"

definition BroadcastTransactionRequest_arm :: "pbjs \<Rightarrow> buffer \<Rightarrow> nat \<Rightarrow> buffer \<times> buffer \<times> buffer \<Rightarrow> nat \<Rightarrow>
    ((buffer \<times> buffer \<times> buffer) \<times> nat) thrown option" where
  "BroadcastTransactionRequest_arm p buf tag m pos =
     (case m of (d, nonce, signature) \<Rightarrow>
        if tag div 8 = 1 then pb_set (rd_bytes p buf pos) (\<lambda>v. (v, nonce, signature))
        else if tag div 8 = 2 then pb_set (rd_bytes p buf pos) (\<lambda>v. (d, v, signature))
        else if tag div 8 = 3 then pb_set (rd_bytes p buf pos) (\<lambda>v. (d, nonce, v))
        else pb_skip p buf tag m pos)"

definition BroadcastTransactionRequest_decode :: "pbjs \<Rightarrow> buffer \<Rightarrow> nat \<Rightarrow> nat \<Rightarrow> ((buffer \<times> buffer \<times> buffer) \<times> nat) thrown option" where
  "BroadcastTransactionRequest_decode p buf len pos = pb_loop p (BroadcastTransactionRequest_arm p buf) buf (pos + len) ([], [], []) pos"

definition BroadcastTransactionRequest_toObject :: "buffer \<times> buffer \<times> buffer \<Rightarrow> net_payload" where
  "BroadcastTransactionRequest_toObject m = (case m of (d, nonce, signature) \<Rightarrow> BroadcastRequest d nonce signature)"

section \<open>BroadcastTransactionResponse\<close>

type_synonym pb_response = "buffer \<times> buffer \<times> buffer \<times> int \<times> int"

definition BroadcastTransactionResponse_encode :: "pbjs \<Rightarrow> buffer \<Rightarrow> buffer \<Rightarrow> buffer \<Rightarrow> int \<Rightarrow> result_code \<Rightarrow> buffer" where
  "BroadcastTransactionResponse_encode p nonce signature prf timestamp result =
     wr_uint32 p 10 @ wr_bytes p nonce @ wr_uint32 p 18 @ wr_bytes p signature @ wr_uint32 p 26 @ wr_bytes p prf @
     wr_uint32 p 32 @ wr_uint64 p timestamp @ wr_uint32 p 40 @ wr_int32 p result"

definition BroadcastTransactionResponse_arm :: "pbjs \<Rightarrow> buffer \<Rightarrow> nat \<Rightarrow> pb_response \<Rightarrow> nat \<Rightarrow> (pb_response \<times> nat) thrown option" where
  "BroadcastTransactionResponse_arm p buf tag m pos =
     (case m of (nonce, signature, prf, timestamp, result) \<Rightarrow>
        if tag div 8 = 1 then pb_set (rd_bytes p buf pos) (\<lambda>v. (v, signature, prf, timestamp, result))
        else if tag div 8 = 2 then pb_set (rd_bytes p buf pos) (\<lambda>v. (nonce, v, prf, timestamp, result))
        else if tag div 8 = 3 then pb_set (rd_bytes p buf pos) (\<lambda>v. (nonce, signature, v, timestamp, result))
        else if tag div 8 = 4 then pb_set (rd_uint64 p buf pos) (\<lambda>v. (nonce, signature, prf, v, result))
        else if tag div 8 = 5 then pb_set (rd_int32 p buf pos) (\<lambda>v. (nonce, signature, prf, timestamp, v))
        else pb_skip p buf tag m pos)"

definition BroadcastTransactionResponse_decode :: "pbjs \<Rightarrow> buffer \<Rightarrow> nat \<Rightarrow> nat \<Rightarrow> (pb_response \<times> nat) thrown option" where
  "BroadcastTransactionResponse_decode p buf len pos =
     pb_loop p (BroadcastTransactionResponse_arm p buf) buf (pos + len) ([], [], [], 0, 0) pos"

definition BroadcastTransactionResponse_toObject :: "pb_response \<Rightarrow> net_payload" where
  "BroadcastTransactionResponse_toObject m =
     (case m of (nonce, signature, prf, timestamp, result) \<Rightarrow> BroadcastResponse nonce signature prf timestamp (code_of_int32 result))"

section \<open>MessageHeader\<close>

record message_header =
  mh_type :: int
  mh_id :: string
  mh_timestamp :: int
  mh_livenessRequest :: "(buffer \<times> buffer) option"
  mh_livenessResponse :: "(buffer \<times> buffer \<times> int) option"
  mh_broadcastRequest :: "(buffer \<times> buffer \<times> buffer) option"
  mh_broadcastResponse :: "pb_response option"
  mh_capabilities :: "string list"

definition new_MessageHeader :: message_header where
  "new_MessageHeader = \<lparr>mh_type = 0, mh_id = [], mh_timestamp = 0, mh_livenessRequest = None, mh_livenessResponse = None,
     mh_broadcastRequest = None, mh_broadcastResponse = None, mh_capabilities = []\<rparr>"

text \<open>The payloads of the message in the order of their keys.\<close>

fun payload_encode :: "pbjs \<Rightarrow> net_payload \<Rightarrow> buffer" where
  "payload_encode p (LivenessRequest nonce signature) = wr_uint32 p 34 @ wr_ldelim p (LivenessRequest_encode p nonce signature)"
| "payload_encode p (LivenessResponse nonce signature result) = wr_uint32 p 42 @ wr_ldelim p (LivenessResponse_encode p nonce signature result)"
| "payload_encode p (BroadcastRequest d nonce signature) = wr_uint32 p 50 @ wr_ldelim p (BroadcastTransactionRequest_encode p d nonce signature)"
| "payload_encode p (BroadcastResponse nonce signature prf timestamp result) =
     wr_uint32 p 58 @ wr_ldelim p (BroadcastTransactionResponse_encode p nonce signature prf timestamp result)"

definition MessageHeader_encode :: "pbjs \<Rightarrow> net_message \<Rightarrow> buffer" where
  "MessageHeader_encode p m =
     wr_uint32 p 8 @ wr_int32 p (nm_type m) @ wr_uint32 p 18 @ wr_string p (nm_id m) @ wr_uint32 p 24 @ wr_uint64 p (nm_timestamp m) @
     concat (map (payload_encode p) (nm_payloads m)) @
     concat (map (\<lambda>capability. wr_uint32 p 66 @ wr_string p capability) (nm_capabilities m))"

definition MessageHeader_arm :: "pbjs \<Rightarrow> buffer \<Rightarrow> nat \<Rightarrow> message_header \<Rightarrow> nat \<Rightarrow> (message_header \<times> nat) thrown option" where
  "MessageHeader_arm p buf tag m pos =
     (if tag div 8 = 1 then pb_set (rd_int32 p buf pos) (\<lambda>v. m\<lparr>mh_type := v\<rparr>)
      else if tag div 8 = 2 then pb_set (rd_string p buf pos) (\<lambda>v. m\<lparr>mh_id := v\<rparr>)
      else if tag div 8 = 3 then pb_set (rd_uint64 p buf pos) (\<lambda>v. m\<lparr>mh_timestamp := v\<rparr>)
      else if tag div 8 = 4 then pb_nested p LivenessRequest_decode buf pos (\<lambda>v. m\<lparr>mh_livenessRequest := Some v\<rparr>)
      else if tag div 8 = 5 then pb_nested p LivenessResponse_decode buf pos (\<lambda>v. m\<lparr>mh_livenessResponse := Some v\<rparr>)
      else if tag div 8 = 6 then pb_nested p BroadcastTransactionRequest_decode buf pos (\<lambda>v. m\<lparr>mh_broadcastRequest := Some v\<rparr>)
      else if tag div 8 = 7 then pb_nested p BroadcastTransactionResponse_decode buf pos (\<lambda>v. m\<lparr>mh_broadcastResponse := Some v\<rparr>)
      else if tag div 8 = 8 then pb_set (rd_string p buf pos) (\<lambda>v. m\<lparr>mh_capabilities := mh_capabilities m @ [v]\<rparr>)
      else pb_skip p buf tag m pos)"

definition MessageHeader_decode :: "pbjs \<Rightarrow> buffer \<Rightarrow> (message_header \<times> nat) thrown option" where
  "MessageHeader_decode p buf = pb_loop p (MessageHeader_arm p buf) buf (length buf) new_MessageHeader 0"

text \<open>The object of a message; the caller looks at the sign of the type first.\<close>

definition MessageHeader_toObject :: "message_header \<Rightarrow> net_message" where
  "MessageHeader_toObject m =
     \<lparr>nm_type = nat (mh_type m), nm_id = mh_id m, nm_timestamp = mh_timestamp m, nm_capabilities = mh_capabilities m,
      nm_payloads = map LivenessRequest_toObject (case mh_livenessRequest m of None \<Rightarrow> [] | Some v \<Rightarrow> [v]) @
        map LivenessResponse_toObject (case mh_livenessResponse m of None \<Rightarrow> [] | Some v \<Rightarrow> [v]) @
        map BroadcastTransactionRequest_toObject (case mh_broadcastRequest m of None \<Rightarrow> [] | Some v \<Rightarrow> [v]) @
        map BroadcastTransactionResponse_toObject (case mh_broadcastResponse m of None \<Rightarrow> [] | Some v \<Rightarrow> [v])\<rparr>"

section \<open>The wrappers\<close>

definition encodeV1networkOperation :: "pbjs \<Rightarrow> net_message \<Rightarrow> buffer" where
  "encodeV1networkOperation p payload = MessageHeader_encode p payload"

text \<open>The message and the number in its type; \<open>None\<close> is an exception.\<close>

definition decodeV1networkOperation :: "pbjs \<Rightarrow> buffer \<Rightarrow> (int \<times> net_message) option" where
  "decodeV1networkOperation p payload =
     (case MessageHeader_decode p payload of
        Some (Returns (m, _)) \<Rightarrow> Some (mh_type m, MessageHeader_toObject m)
      | _ \<Rightarrow> None)"

end
