(* ===== verification/Broadcast.thy ===== *)
theory Broadcast
  imports Services
begin

text \<open>
  How a validator serves a broadcast request of protocol v1, \<open>V1BroadcastTransactionOperationHandler.js\<close> with
  \<open>broadcastTransaction/\<close>: the decoded operation is sanitised, checked by the validator of its kind,
  completed with the director, encoded, registered and queued. \<open>hash\<close>, \<open>w\<close> and \<open>nonce\<close> are those of the
  builder of the completion.
\<close>

section \<open>Sanitising\<close>

text \<open>The decoder leaves \<open>null\<close> in the fields a partial operation does not have; they are deleted.\<close>

definition absent_if_null :: "field \<Rightarrow> field" where
  "absent_if_null f = (if f = Null then Absent else f)"

definition sanitize_payload :: "payload \<Rightarrow> payload" where
  "sanitize_payload p = p\<lparr>p_va := absent_if_null (p_va p), p_vn := absent_if_null (p_vn p),
     p_vs := absent_if_null (p_vs p)\<rparr>"

text \<open>Only the payload that belongs to the type is looked at.\<close>

definition sanitizeDecodedPartialTransaction :: "operation \<Rightarrow> operation" where
  "sanitizeDecodedPartialTransaction op =
     (case operationToPayload (op_type op) of
        None \<Rightarrow> op
      | Some key \<Rightarrow>
          if op_value op = keyed key (payload_of op)
          then op\<lparr>op_value := keyed key (sanitize_payload (payload_of op))\<rparr> else op)"

text \<open>\<open>b4a.toString\<close> of a field that is no buffer throws.\<close>

definition getTxHashFromDecodedTransaction :: "operation \<Rightarrow> string option" where
  "getTxHashFromDecodedTransaction op =
     (case p_tx (payload_of op) of Bytes b \<Rightarrow> Some (to_hex b) | _ \<Rightarrow> None)"

section \<open>Completing an operation\<close>

fun js_of_field :: "field \<Rightarrow> js" where
  "js_of_field (Bytes b) = JBuf b"
| "js_of_field Null = JNull"
| "js_of_field Absent = JUndefined"

definition complete_call :: "'b env \<Rightarrow> step \<Rightarrow> operation \<Rightarrow> build_error + built \<times> builder" where
  "complete_call E build_step d =
     (let address = js_of_field (op_address d); p = payload_of d; arg = (\<lambda>f. js_of_field (f p)); b = Some fresh_builder
      in if op_type d = OT_ADD_WRITER then
           buildCompleteAddWriterMessage E build_step address (arg p_tx) (arg p_txv) (arg p_iw) (arg p_in) (arg p_is) b
         else if op_type d = OT_REMOVE_WRITER then
           buildCompleteRemoveWriterMessage E build_step address (arg p_tx) (arg p_txv) (arg p_iw) (arg p_in) (arg p_is) b
         else if op_type d = OT_ADMIN_RECOVERY then
           buildCompleteAdminRecoveryMessage E build_step address (arg p_tx) (arg p_txv) (arg p_iw) (arg p_in) (arg p_is) b
         else if op_type d = OT_TX then
           buildCompleteTransactionOperationMessage E build_step address (arg p_tx) (arg p_txv) (arg p_iw) (arg p_in)
             (arg p_ch) (arg p_is) (arg p_bs) (arg p_mbs) b
         else if op_type d = OT_BOOTSTRAP_DEPLOYMENT then
           buildCompleteBootstrapDeploymentMessage E build_step address (arg p_tx) (arg p_txv) (arg p_bs) (arg p_ic)
             (arg p_in) (arg p_is) b
         else
           buildCompleteTransferOperationMessage E build_step address (arg p_tx) (arg p_txv) (arg p_in) (arg p_to)
             (arg p_am) (arg p_is) b)"

definition strategy_types :: "nat list" where
  "strategy_types = [OT_ADD_WRITER, OT_REMOVE_WRITER, OT_ADMIN_RECOVERY, OT_TX, OT_BOOTSTRAP_DEPLOYMENT, OT_TRANSFER]"

definition partial_validator :: "'b env \<Rightarrow> (buffer \<Rightarrow> buffer) \<Rightarrow> string option \<Rightarrow> node_state \<Rightarrow> operation \<Rightarrow> verdict" where
  "partial_validator E hash selfAddress s d =
     (if List.member [OT_ADD_WRITER, OT_REMOVE_WRITER, OT_ADMIN_RECOVERY] (op_type d) then validateRoleAccess E hash selfAddress s d
      else if op_type d = OT_TX then validateTransaction E hash selfAddress s d
      else if op_type d = OT_BOOTSTRAP_DEPLOYMENT then validateBootstrapDeployment E hash selfAddress s d
      else validateTransfer E hash selfAddress s d)"

text \<open>\<open>createOperationStrategy(...).build\<close>; an exception of the builder is not a protocol error.\<close>

definition strategy_build :: "'b env \<Rightarrow> (buffer \<Rightarrow> buffer) \<Rightarrow> wallet \<Rightarrow> buffer \<Rightarrow> node_state \<Rightarrow> operation \<Rightarrow> fault + operation" where
  "strategy_build E hash w nonce s d =
     chain (partial_validator E hash (Some (w_address w)) s d) (\<lambda>_.
       case new_builder E (Some w) of
         Inl _ \<Rightarrow> Inl OtherError
       | Inr _ \<Rightarrow>
           (case complete_call E (build E hash w nonce) d of
              Inr (BufferOut op, _) \<Rightarrow> Inr op
            | _ \<Rightarrow> Inl OtherError))"

section \<open>Errors of the services\<close>

fun mapTxPoolAvailabilityError :: "pool_error \<Rightarrow> fault" where
  "mapTxPoolAvailabilityError TransactionPoolFull = Protocol RC_NODE_OVERLOADED"
| "mapTxPoolAvailabilityError _ = OtherError"

fun mapPendingCommitRegistrationError :: "commit_error \<Rightarrow> fault" where
  "mapPendingCommitRegistrationError PendingCommitInvalidTxHash = Protocol RC_TX_HASH_INVALID_FORMAT"
| "mapPendingCommitRegistrationError PendingCommitAlreadyExists = Protocol RC_TX_ALREADY_PENDING"
| "mapPendingCommitRegistrationError PendingCommitBufferFull = Protocol RC_NODE_OVERLOADED"
| "mapPendingCommitRegistrationError _ = OtherError"

fun mapTransactionEnqueueError :: "pool_error \<Rightarrow> fault" where
  "mapTransactionEnqueueError TransactionPoolFull = Protocol RC_NODE_OVERLOADED"
| "mapTransactionEnqueueError TransactionPoolAlreadyQueued = Protocol RC_TX_ALREADY_PENDING"
| "mapTransactionEnqueueError TransactionPoolInvalidIncomingData = Protocol RC_INTERNAL_ENQUEUE_VALIDATION_FAILED"
| "mapTransactionEnqueueError _ = OtherError"

text \<open>The error with the property \<open>timestamp\<close>, 0 where it has none.\<close>

fun mapPendingCommitResolutionError :: "service_error \<Rightarrow> fault \<times> int" where
  "mapPendingCommitResolutionError (PoolError (TransactionPoolProofUnavailable t)) =
     (Protocol RC_TX_ACCEPTED_PROOF_UNAVAILABLE, if isSafeInteger t \<and> t > 0 then t else 0)"
| "mapPendingCommitResolutionError (PoolError TransactionPoolMissingCommitReceipt) = (Protocol RC_TX_COMMITTED_RECEIPT_MISSING, 0)"
| "mapPendingCommitResolutionError (CommitError PendingCommitTimeout) = (Protocol RC_TIMEOUT, 0)"
| "mapPendingCommitResolutionError (RequestError e) = (e, 0)"
| "mapPendingCommitResolutionError _ = (OtherError, 0)"

section \<open>Dispatching\<close>

text \<open>
  \<open>#registerPendingCommit\<close> and \<open>#enqueueTransaction\<close> run without an await between them. A transaction that is
  not queued has its promise rejected with the error of the request.
\<close>

definition enqueue :: "nat \<Rightarrow> string \<Rightarrow> buffer \<Rightarrow> services \<Rightarrow> (fault + unit) \<times> services" where
  "enqueue txPoolSize txHash encoded s =
     (case registerPendingCommit txHash s of
        Inl e \<Rightarrow> (Inl (mapPendingCommitRegistrationError e), s)
      | Inr s \<Rightarrow>
          (case addTransaction txPoolSize txHash encoded s of
             Inr s \<Rightarrow> (Inr (), s)
           | Inl e \<Rightarrow>
               (let mappedError = mapTransactionEnqueueError e
                in case rejectPendingCommit txHash (RequestError mappedError) s of
                     Inl _ \<Rightarrow> (Inl OtherError, s)
                   | Inr (_, s) \<Rightarrow> (Inl mappedError, s))))"

text \<open>\<open>dispatchTransaction\<close> up to the wait for the promise; the hash is what the request then waits on.\<close>

definition dispatchTransaction :: "'b env \<Rightarrow> wire \<Rightarrow> (buffer \<Rightarrow> buffer) \<Rightarrow> wallet \<Rightarrow> buffer \<Rightarrow> nat \<Rightarrow> node_state \<Rightarrow>
    operation \<Rightarrow> services \<Rightarrow> (fault + string) \<times> services" where
  "dispatchTransaction E wr hash w nonce txPoolSize s d svc =
     (if op_type d = 0 then (Inl (Protocol RC_TX_INVALID_PAYLOAD), svc)
      else if \<not> List.member strategy_types (op_type d) then (Inl (Protocol RC_TX_INVALID_PAYLOAD), svc)
      else case strategy_build E hash w nonce s d of
        Inl e \<Rightarrow> (Inl e, svc)
      | Inr completeTransactionOperation \<Rightarrow>
          (case getTxHashFromDecodedTransaction d of
             None \<Rightarrow> (Inl OtherError, svc)
           | Some txHash \<Rightarrow>
               (let encoded = Operation_encode wr completeTransactionOperation
                in case enqueue txPoolSize txHash encoded svc of
                     (Inl e, svc) \<Rightarrow> (Inl e, svc)
                   | (Inr _, svc) \<Rightarrow> (Inr txHash, svc))))"

definition validateWriteCapability :: "'b env \<Rightarrow> node_state \<Rightarrow> string \<Rightarrow> verdict" where
  "validateWriteCapability E s walletAddress =
     (case isAdminAllowedToValidate E s of
        None \<Rightarrow> Inl OtherError
      | Some isAdminAllowed \<Rightarrow>
          check_that (allowedToValidate s walletAddress \<or> isAdminAllowed) RC_NODE_HAS_NO_WRITE_ACCESS)"

text \<open>
  \<open>#processBroadcastTransactionRequest\<close> up to the same wait. \<open>admitted\<close> is the verdict of the rate limit
  and of the validator of the request's envelope, which come first.
\<close>

definition processBroadcastTransactionRequest :: "'b env \<Rightarrow> wire \<Rightarrow> (buffer \<Rightarrow> buffer) \<Rightarrow> wallet \<Rightarrow> buffer \<Rightarrow> nat \<Rightarrow>
    node_state \<Rightarrow> verdict \<Rightarrow> buffer \<Rightarrow> services \<Rightarrow> (fault + string) \<times> services" where
  "processBroadcastTransactionRequest E wr hash w nonce txPoolSize s admitted data svc =
     (case chain admitted (\<lambda>_. validateWriteCapability E s (w_address w)) of
        Inl e \<Rightarrow> (Inl e, svc)
      | Inr _ \<Rightarrow>
          (case validateEnqueue txPoolSize svc of
             Inl e \<Rightarrow> (Inl (mapTxPoolAvailabilityError e), svc)
           | Inr _ \<Rightarrow>
               (case Operation_decode_buf wr data 0 0 of
                  Some (Returns (decoded, _)) \<Rightarrow>
                    dispatchTransaction E wr hash w nonce txPoolSize s (sanitizeDecodedPartialTransaction decoded) svc
                | _ \<Rightarrow> (Inl (Protocol RC_UNEXPECTED_ERROR), svc))))"

record request_outcome =
  ro_endConnection :: bool
  ro_proof :: "buffer option"
  ro_resultCode :: result_code
  ro_timestamp :: int

text \<open>The outcome of the request when it failed, and when its promise was settled.\<close>

definition buildFailedRequestOutcome :: "fault \<times> int \<Rightarrow> request_outcome" where
  "buildFailedRequestOutcome failed =
     (case failed of (error, errorTimestamp) \<Rightarrow>
       let resultCode = getResultCode error;
           timestamp = (if resultCode = RC_TX_ACCEPTED_PROOF_UNAVAILABLE \<and> isSafeInteger errorTimestamp \<and> errorTimestamp > 0
             then errorTimestamp else 0)
       in \<lparr>ro_endConnection = shouldEndConnection resultCode, ro_proof = None, ro_resultCode = resultCode, ro_timestamp = timestamp\<rparr>)"

definition request_settled :: "settlement \<Rightarrow> request_outcome" where
  "request_settled outcome =
     (case outcome of
        Inl e \<Rightarrow> buildFailedRequestOutcome (mapPendingCommitResolutionError e)
      | Inr receipt \<Rightarrow> \<lparr>ro_endConnection = False, ro_proof = r_proof receipt, ro_resultCode = RC_OK, ro_timestamp = r_timestamp receipt\<rparr>)"

end
