(* ===== verification/V1_Validators.thy ===== *)
theory V1_Validators
  imports Network_Messages Broadcast
begin

text \<open>
  What a node checks of a message of protocol v1: \<open>V1ValidationSchema.js\<close>, \<open>V1BaseOperation.js\<close>, the
  validators of the two requests and the two responses, and \<open>deepEqualApplyPayload.js\<close>. The
  schemas follow the documented behaviour of \<open>fastest-validator\<close>; a strict one allows one payload only.
\<close>

section \<open>Schemas\<close>

definition MAX_PARTIAL_TX_PAYLOAD_BYTE_SIZE :: nat where [simp]: "MAX_PARTIAL_TX_PAYLOAD_BYTE_SIZE = 3072"

text \<open>The rule \<open>buffer\<close> with an exact length; an all-zero buffer is refused.\<close>

definition net_buffer :: "nat \<Rightarrow> buffer \<Rightarrow> bool" where
  "net_buffer n b \<longleftrightarrow> length b = n \<and> \<not> list_all (\<lambda>x. x = 0) b"

definition header_valid :: "net_message \<Rightarrow> bool" where
  "header_valid m \<longleftrightarrow> 1 \<le> length (nm_id m) \<and> length (nm_id m) \<le> 64 \<and> 1 \<le> nm_timestamp m \<and> nm_timestamp m \<le> MAX_SAFE_INTEGER"

definition validateV1LivenessRequest :: "net_message \<Rightarrow> bool" where
  "validateV1LivenessRequest m \<longleftrightarrow> nm_type m = NT_LIVENESS_REQUEST \<and> header_valid m \<and>
     (case nm_payloads m of [LivenessRequest nonce signature] \<Rightarrow> net_buffer NONCE_BYTE_LENGTH nonce \<and> net_buffer SIGNATURE_BYTE_LENGTH signature
      | _ \<Rightarrow> False)"

definition validateV1LivenessResponse :: "net_message \<Rightarrow> bool" where
  "validateV1LivenessResponse m \<longleftrightarrow> nm_type m = NT_LIVENESS_RESPONSE \<and> header_valid m \<and>
     (case nm_payloads m of [LivenessResponse nonce signature result] \<Rightarrow> net_buffer NONCE_BYTE_LENGTH nonce \<and>
        net_buffer SIGNATURE_BYTE_LENGTH signature \<and> List.member ResultCode_values result
      | _ \<Rightarrow> False)"

definition validateV1BroadcastTransactionRequest :: "net_message \<Rightarrow> bool" where
  "validateV1BroadcastTransactionRequest m \<longleftrightarrow> nm_type m = NT_BROADCAST_TRANSACTION_REQUEST \<and> header_valid m \<and>
     (case nm_payloads m of [BroadcastRequest d nonce signature] \<Rightarrow> 1 \<le> length d \<and> length d \<le> MAX_PARTIAL_TX_PAYLOAD_BYTE_SIZE \<and>
        net_buffer NONCE_BYTE_LENGTH nonce \<and> net_buffer SIGNATURE_BYTE_LENGTH signature
      | _ \<Rightarrow> False)"

definition validateV1BroadcastTransactionResponse :: "net_message \<Rightarrow> bool" where
  "validateV1BroadcastTransactionResponse m \<longleftrightarrow> nm_type m = NT_BROADCAST_TRANSACTION_RESPONSE \<and> header_valid m \<and>
     (case nm_payloads m of [BroadcastResponse nonce signature proof timestamp result] \<Rightarrow> net_buffer NONCE_BYTE_LENGTH nonce \<and>
        net_buffer SIGNATURE_BYTE_LENGTH signature \<and> 0 \<le> timestamp \<and> timestamp \<le> MAX_SAFE_INTEGER \<and> List.member ResultCode_values result
      | _ \<Rightarrow> False)"

section \<open>The base operation\<close>

definition v1_schemaValidator :: "nat \<Rightarrow> fault + (net_message \<Rightarrow> bool)" where
  "v1_schemaValidator type =
     (if type = 0 then Inl (Protocol RC_INVALID_PAYLOAD)
      else if type = NT_LIVENESS_REQUEST then Inr validateV1LivenessRequest
      else if type = NT_LIVENESS_RESPONSE then Inr validateV1LivenessResponse
      else if type = NT_BROADCAST_TRANSACTION_REQUEST then Inr validateV1BroadcastTransactionRequest
      else if type = NT_BROADCAST_TRANSACTION_RESPONSE then Inr validateV1BroadcastTransactionResponse
      else Inl (Protocol RC_UNEXPECTED_ERROR))"

definition v1_isPayloadSchemaValid :: "net_message \<Rightarrow> verdict" where
  "v1_isPayloadSchemaValid m =
     chain (v1_schemaValidator (nm_type m)) (\<lambda>selectedValidator. check_that (selectedValidator m) RC_INVALID_PAYLOAD)"

text \<open>A payload that is not there is \<open>undefined\<close>, and reading its fields throws.\<close>

definition payload_where :: "(net_payload \<Rightarrow> bool) \<Rightarrow> net_message \<Rightarrow> fault + net_payload" where
  "payload_where P m = (case List.find P (nm_payloads m) of None \<Rightarrow> Inl OtherError | Some p \<Rightarrow> Inr p)"

definition or_throw :: "'a option \<Rightarrow> fault + 'a" where
  "or_throw x = (case x of None \<Rightarrow> Inl OtherError | Some y \<Rightarrow> Inr y)"

definition buildSignatureMessage :: "net_message \<Rightarrow> fault + buffer \<times> buffer" where
  "buildSignatureMessage m =
     (if nm_type m = 0 then Inl (Protocol RC_INVALID_PAYLOAD)
      else let idBuf = idToBuffer (nm_id m) in
      chain (or_throw (timestampToBuffer (nm_timestamp m))) (\<lambda>tsBuf.
      chain (or_throw (encodeCapabilities (nm_capabilities m))) (\<lambda>capsBuf.
        if nm_type m = NT_LIVENESS_REQUEST then
          chain (payload_where is_LivenessRequest m) (\<lambda>p.
            Inr (np_signature p, createMessage [Num (nm_type m), Buf idBuf, Buf tsBuf, Buf (np_nonce p), Buf capsBuf]))
        else if nm_type m = NT_LIVENESS_RESPONSE then
          chain (payload_where is_LivenessResponse m) (\<lambda>p.
            Inr (np_signature p, createMessage [Num (nm_type m), Buf idBuf, Buf tsBuf, Buf (np_nonce p),
              Buf (safeWriteUInt32BE (np_result p)), Buf capsBuf]))
        else if nm_type m = NT_BROADCAST_TRANSACTION_REQUEST then
          chain (payload_where is_BroadcastRequest m) (\<lambda>p.
            Inr (np_signature p, createMessage [Num (nm_type m), Buf idBuf, Buf tsBuf, Buf (np_data p), Buf (np_nonce p), Buf capsBuf]))
        else if nm_type m = NT_BROADCAST_TRANSACTION_RESPONSE then
          chain (payload_where is_BroadcastResponse m) (\<lambda>p.
            let timestamp = (if 0 - MAX_SAFE_INTEGER \<le> np_timestamp p \<and> np_timestamp p \<le> MAX_SAFE_INTEGER then np_timestamp p else 0)
            in if \<not> result_consistent (np_result p) (np_proof p) timestamp then Inl (Protocol RC_INVALID_PAYLOAD)
               else chain (or_throw (timestampToBuffer timestamp)) (\<lambda>ledgerBuf.
                 Inr (np_signature p, createMessage [Num (nm_type m), Buf idBuf, Buf tsBuf, Buf (np_nonce p), Buf (np_proof p),
                   Buf ledgerBuf, Buf (safeWriteUInt32BE (np_result p)), Buf capsBuf])))
        else Inl (Protocol RC_UNEXPECTED_ERROR))))"

definition v1_validateSignature :: "'b env \<Rightarrow> (buffer \<Rightarrow> buffer) \<Rightarrow> net_message \<Rightarrow> buffer \<Rightarrow> verdict" where
  "v1_validateSignature E hash m remotePublicKey =
     (case buildSignatureMessage m of
        Inl (Protocol c) \<Rightarrow> Inl (Protocol c)
      | Inl OtherError \<Rightarrow> Inl (Protocol RC_INVALID_PAYLOAD)
      | Inr (signature, message) \<Rightarrow>
          check_that (signature_verify E signature (hash message) remotePublicKey) RC_SIGNATURE_INVALID)"

text \<open>An entry of the pending requests; \<open>pr_armed\<close> says that its timer runs.\<close>

record pending_request =
  pr_id :: string
  pr_requestType :: nat
  pr_requestTxData :: "buffer option"
  pr_requestedTo :: string
  pr_armed :: bool

definition validatePeerCorrectness :: "buffer \<Rightarrow> pending_request \<Rightarrow> verdict" where
  "validatePeerCorrectness remotePublicKey entry = check_that (to_hex remotePublicKey = pr_requestedTo entry) RC_INVALID_PAYLOAD"

definition validateResponseType :: "net_message \<Rightarrow> pending_request \<Rightarrow> verdict" where
  "validateResponseType m entry =
     (if pr_requestType entry = NT_LIVENESS_REQUEST then check_that (nm_type m = NT_LIVENESS_RESPONSE) RC_INVALID_PAYLOAD
      else if pr_requestType entry = NT_BROADCAST_TRANSACTION_REQUEST then
        check_that (nm_type m = NT_BROADCAST_TRANSACTION_RESPONSE) RC_INVALID_PAYLOAD
      else Inl (Protocol RC_UNEXPECTED_ERROR))"

section \<open>Requests and liveness\<close>

definition validateLivenessRequest :: "'b env \<Rightarrow> (buffer \<Rightarrow> buffer) \<Rightarrow> net_message \<Rightarrow> buffer \<Rightarrow> verdict" where
  "validateLivenessRequest E hash m remotePublicKey = all_steps [v1_isPayloadSchemaValid m, v1_validateSignature E hash m remotePublicKey]"

definition isDataPropertySizeValid :: "net_message \<Rightarrow> verdict" where
  "isDataPropertySizeValid m =
     chain (payload_where is_BroadcastRequest m) (\<lambda>p.
       check_that (length (np_data p) \<le> MAX_PARTIAL_TX_PAYLOAD_BYTE_SIZE) RC_INVALID_PAYLOAD)"

definition validateBroadcastRequest :: "'b env \<Rightarrow> (buffer \<Rightarrow> buffer) \<Rightarrow> net_message \<Rightarrow> buffer \<Rightarrow> verdict" where
  "validateBroadcastRequest E hash m remotePublicKey =
     all_steps [v1_isPayloadSchemaValid m, isDataPropertySizeValid m, v1_validateSignature E hash m remotePublicKey]"

definition response_steps :: "'b env \<Rightarrow> (buffer \<Rightarrow> buffer) \<Rightarrow> net_message \<Rightarrow> buffer \<Rightarrow> pending_request \<Rightarrow> verdict list" where
  "response_steps E hash m remotePublicKey entry =
     [v1_isPayloadSchemaValid m, validateResponseType m entry, validatePeerCorrectness remotePublicKey entry,
      v1_validateSignature E hash m remotePublicKey]"

definition validateLivenessResponse :: "'b env \<Rightarrow> (buffer \<Rightarrow> buffer) \<Rightarrow> net_message \<Rightarrow> buffer \<Rightarrow> pending_request \<Rightarrow> verdict" where
  "validateLivenessResponse E hash m remotePublicKey entry = all_steps (response_steps E hash m remotePublicKey entry)"

end
