(* ===== verification/V1_Response.thy ===== *)
theory V1_Response
  imports V1_Validators
begin

text \<open>
  What the sender of a transaction checks of the response: \<open>V1BroadcastTransactionResponse.js\<close> with
  \<open>deepEqualApplyPayload.js\<close>. The proof of publication is verified by the library of the log; its block and
  its manifest are what the record \<open>publication\<close> returns. Both reads of the store, of the registered writer key and of the entry of its
  address, are of the one state \<open>s\<close>, though the source waits between them.
\<close>

section \<open>Decoded operations as objects\<close>

text \<open>The fields of a message, in the order in which its decoder makes them. An operation without a payload has
  all seven keys; the arrival of a payload deletes the others.\<close>

fun object_fields :: "op_value \<Rightarrow> (string \<times> field) list" where
  "object_fields NoValue = []"
| "object_fields (Cao p) = [(''tx'', p_tx p), (''txv'', p_txv p), (''iw'', p_iw p), (''in'', p_in p), (''is'', p_is p)]"
| "object_fields (Aco p) = [(''tx'', p_tx p), (''txv'', p_txv p), (''ia'', p_ia p), (''in'', p_in p), (''is'', p_is p)]"
| "object_fields (Bio p) = [(''tx'', p_tx p), (''txv'', p_txv p), (''ia'', p_ia p), (''am'', p_am p), (''in'', p_in p), (''is'', p_is p)]"
| "object_fields (Tro p) = [(''tx'', p_tx p), (''txv'', p_txv p), (''to'', p_to p), (''am'', p_am p), (''in'', p_in p),
     (''is'', p_is p), (''va'', p_va p), (''vn'', p_vn p), (''vs'', p_vs p)]"
| "object_fields (Rao p) = [(''tx'', p_tx p), (''txv'', p_txv p), (''iw'', p_iw p), (''in'', p_in p), (''is'', p_is p),
     (''va'', p_va p), (''vn'', p_vn p), (''vs'', p_vs p)]"
| "object_fields (Bdo p) = [(''tx'', p_tx p), (''txv'', p_txv p), (''bs'', p_bs p), (''ic'', p_ic p), (''in'', p_in p),
     (''is'', p_is p), (''va'', p_va p), (''vn'', p_vn p), (''vs'', p_vs p)]"
| "object_fields (Txo p) = [(''tx'', p_tx p), (''txv'', p_txv p), (''iw'', p_iw p), (''ch'', p_ch p), (''bs'', p_bs p), (''mbs'', p_mbs p),
     (''in'', p_in p), (''is'', p_is p), (''va'', p_va p), (''vn'', p_vn p), (''vs'', p_vs p)]"

fun object_key :: "op_value \<Rightarrow> string" where
  "object_key NoValue = []"
| "object_key (Cao p) = ''cao''" | "object_key (Aco p) = ''aco''" | "object_key (Bio p) = ''bio''" | "object_key (Tro p) = ''tro''"
| "object_key (Rao p) = ''rao''" | "object_key (Bdo p) = ''bdo''" | "object_key (Txo p) = ''txo''"

definition decoded_object :: "operation \<Rightarrow> js" where
  "decoded_object op = JObj ([(''type'', JNum (int (op_type op))), (''address'', js_of_field (op_address op))] @
     (if op_value op = NoValue then map (\<lambda>k. (k, JNull)) [''cao'', ''aco'', ''bio'', ''tro'', ''rao'', ''bdo'', ''txo'']
      else [(object_key (op_value op), JObj (map (\<lambda>(k, f). (k, js_of_field f)) (object_fields (op_value op))))]))"

section \<open>Comparing payloads\<close>

definition VALIDATOR_METADATA_FIELDS :: "string list" where
  "VALIDATOR_METADATA_FIELDS = [''va'', ''vn'', ''vs'']"

fun stripValidatorMetadata :: "js \<Rightarrow> js" where
  "stripValidatorMetadata (JObj ps) =
     JObj (map (\<lambda>(key, v). if List.member VALIDATOR_METADATA_FIELDS key then (key, JNull) else (key, stripValidatorMetadata v)) ps)"
| "stripValidatorMetadata v = v"

text \<open>\<open>===\<close> holds of equal values of the other types; two buffers are compared by their bytes.\<close>

function isDeepEqualApplyPayload :: "js \<Rightarrow> js \<Rightarrow> bool" where
  "isDeepEqualApplyPayload left right =
     (case left of
        JObj ps \<Rightarrow>
          (case right of
             JObj qs \<Rightarrow> length ps = length qs \<and>
               (\<forall>(key, v) \<in> set ps. case map_of qs key of None \<Rightarrow> False | Some v' \<Rightarrow> isDeepEqualApplyPayload v v')
           | _ \<Rightarrow> False)
      | _ \<Rightarrow> left = right)"
  by pat_completeness auto

termination
proof (relation "measure (\<lambda>(l, r). size l)", goal_cases)
  case (2 left right ps qs x key v v')
  have "size v < Suc (size_list (size_prod (\<lambda>_. 0) size) ps)" if "(key, v) \<in> set ps" for ps key
    using that by (induction ps) auto
  then show ?case using 2 by auto
qed simp

declare isDeepEqualApplyPayload.simps [simp del]

section \<open>The response\<close>

record publication =
  pub_verify :: "buffer \<Rightarrow> (buffer \<times> buffer) option"
  pub_decodeValue :: "buffer \<Rightarrow> buffer option"
  pub_manifestKey :: "buffer \<Rightarrow> buffer option"
  pub_address :: "buffer \<Rightarrow> string"

definition unsafeDecodeApplyOperation :: "wire \<Rightarrow> buffer \<Rightarrow> fault + operation" where
  "unsafeDecodeApplyOperation wr b =
     (case Operation_decode_buf wr b 0 0 of Some (Returns (op, _)) \<Rightarrow> Inr op | _ \<Rightarrow> Inl OtherError)"

definition validateIfResultCodeIsValidatorInternalError :: "result_code \<Rightarrow> verdict" where
  "validateIfResultCodeIsValidatorInternalError resultCode =
     check_that (resultCode \<noteq> RC_TX_COMMITTED_RECEIPT_MISSING) RC_TX_COMMITTED_RECEIPT_MISSING"

definition assertProofPayloadMatchesRequestPayload :: "publication \<Rightarrow> wire \<Rightarrow> buffer \<times> buffer \<Rightarrow> pending_request \<Rightarrow>
    fault + operation \<times> buffer" where
  "assertProofPayloadMatchesRequestPayload P wr proofResult entry =
     (case pr_requestTxData entry of
        None \<Rightarrow> Inl (Protocol RC_PENDING_REQUEST_MISSING_TX_DATA)
      | Some requested \<Rightarrow>
          if length requested = 0 then Inl (Protocol RC_PENDING_REQUEST_MISSING_TX_DATA)
          else case proofResult of (provenBlock, manifest) \<Rightarrow>
            chain (or_throw (pub_decodeValue P provenBlock)) (\<lambda>published.
            chain (unsafeDecodeApplyOperation wr requested) (\<lambda>fromRequest.
            chain (unsafeDecodeApplyOperation wr published) (\<lambda>fromResponse.
              let strippedValidatorPayload = stripValidatorMetadata (decoded_object fromResponse)
              in if \<not> isDeepEqualApplyPayload (decoded_object fromRequest) strippedValidatorPayload
                 then Inl (Protocol RC_PROOF_PAYLOAD_MISMATCH)
                 else Inr (fromResponse, manifest)))))"

definition validateDecodedCompletePayloadSchema :: "'b env \<Rightarrow> operation \<Rightarrow> verdict" where
  "validateDecodedCompletePayloadSchema E op =
     (let type = op_type op
      in if \<not> List.member OperationType_values type then Inl (Protocol RC_VALIDATOR_RESPONSE_TX_TYPE_UNKNOWN)
         else if List.member [OT_ADD_WRITER, OT_REMOVE_WRITER, OT_ADMIN_RECOVERY] type then
           check_that (validateRoleAccessOperation E op) RC_VALIDATOR_RESPONSE_SCHEMA_INVALID
         else if type = OT_BOOTSTRAP_DEPLOYMENT then check_that (validateBootstrapDeploymentOperation E op) RC_VALIDATOR_RESPONSE_SCHEMA_INVALID
         else if type = OT_TX then check_that (validateTransactionOperation E op) RC_VALIDATOR_RESPONSE_SCHEMA_INVALID
         else if type = OT_TRANSFER then check_that (validateTransferOperation E op) RC_VALIDATOR_RESPONSE_SCHEMA_INVALID
         else Inl (Protocol RC_VALIDATOR_RESPONSE_TX_TYPE_UNSUPPORTED))"

text \<open>The writer key of the manifest and the address it is registered to.\<close>

definition validateWritingKey :: "'b env \<Rightarrow> publication \<Rightarrow> node_state \<Rightarrow> buffer \<Rightarrow> fault + buffer \<times> buffer" where
  "validateWritingKey E P s manifest =
     chain (or_throw (pub_manifestKey P manifest)) (\<lambda>writerKeyFromManifest.
       case getRegisteredWriterKey E s (to_hex writerKeyFromManifest) of
         None \<Rightarrow> Inl (Protocol RC_VALIDATOR_WRITER_KEY_NOT_REGISTERED)
       | Some validatorAddressBuffer \<Rightarrow>
           if length validatorAddressBuffer = 0 then Inl (Protocol RC_VALIDATOR_WRITER_KEY_NOT_REGISTERED)
           else Inr (writerKeyFromManifest, validatorAddressBuffer))"

definition extractRequiredVaFromDecodedTx :: "js \<Rightarrow> fault + buffer" where
  "extractRequiredVaFromDecodedTx tx =
     (case tx of
        JObj ps \<Rightarrow>
          (case List.find (\<lambda>(_, v). case v of JObj qs \<Rightarrow> map_of qs ''va'' \<noteq> None | _ \<Rightarrow> False) ps of
             None \<Rightarrow> Inl (Protocol RC_VALIDATOR_VA_MISSING)
           | Some (_, operationPayload) \<Rightarrow>
               (case prop_of operationPayload ''va'' of JBuf va \<Rightarrow> Inr va | _ \<Rightarrow> Inl (Protocol RC_VALIDATOR_VA_MISSING)))
      | _ \<Rightarrow> Inl (Protocol RC_VALIDATOR_TX_OBJECT_INVALID))"

definition validateValidatorCorrectness :: "'b env \<Rightarrow> publication \<Rightarrow> node_state \<Rightarrow> operation \<Rightarrow> buffer \<Rightarrow> buffer \<Rightarrow> buffer \<Rightarrow> verdict" where
  "validateValidatorCorrectness E P s op remotePublicKey writerKeyFromManifest fromManifest =
     chain (extractRequiredVaFromDecodedTx (decoded_object op)) (\<lambda>fromTx.
       let fromKey = addressToBuffer E (pub_address P remotePublicKey)
       in chain (check_that (fromTx = fromKey) RC_VALIDATOR_ADDRESS_MISMATCH) (\<lambda>_.
          chain (check_that (fromTx = fromManifest) RC_VALIDATOR_ADDRESS_MISMATCH) (\<lambda>_.
          chain (check_that (fromManifest = fromKey) RC_VALIDATOR_ADDRESS_MISMATCH) (\<lambda>_.
            case (case bufferToAddress E fromKey of None \<Rightarrow> None | Some a \<Rightarrow> getNodeEntry s a) of
              None \<Rightarrow> Inl (Protocol RC_VALIDATOR_NODE_ENTRY_NOT_FOUND)
            | Some account \<Rightarrow>
                chain (check_that (ne_isWriter account) RC_VALIDATOR_NODE_NOT_WRITER) (\<lambda>_.
                  check_that (ne_wk account = writerKeyFromManifest) RC_VALIDATOR_WRITER_KEY_MISMATCH)))))"

definition validateBroadcastResponse :: "'b env \<Rightarrow> publication \<Rightarrow> wire \<Rightarrow> (buffer \<Rightarrow> buffer) \<Rightarrow> node_state \<Rightarrow> net_message \<Rightarrow> buffer \<Rightarrow>
    pending_request \<Rightarrow> verdict" where
  "validateBroadcastResponse E P wr hash s m remotePublicKey entry =
     chain (all_steps (response_steps E hash m remotePublicKey entry)) (\<lambda>_.
     chain (payload_where is_BroadcastResponse m) (\<lambda>p.
     chain (validateIfResultCodeIsValidatorInternalError (np_result p)) (\<lambda>_.
       if np_result p \<noteq> RC_OK then Inr ()
       else
         chain (or_throw (pub_verify P (np_proof p))) (\<lambda>proofResult.
         chain (assertProofPayloadMatchesRequestPayload P wr proofResult entry) (\<lambda>(op, manifest).
         chain (validateDecodedCompletePayloadSchema E op) (\<lambda>_.
         chain (validateWritingKey E P s manifest) (\<lambda>(writerKeyFromManifest, fromManifest).
           validateValidatorCorrectness E P s op remotePublicKey writerKeyFromManifest fromManifest)))))))"

end
