(* ===== verification/Builder_Spec.thy ===== *)
theory Builder_Spec
  imports Broadcast
begin

text \<open>
  What the setters of the builder accept, as one contract (the locale \<open>hex_setter\<close>) that eleven setters
  keep, and what \<open>build\<close> makes of a builder whose fields are set.
\<close>

section \<open>Setters of sized buffers\<close>

text \<open>The buffer that a value of JavaScript stands for, when it is one of \<open>n\<close> bytes.\<close>

definition sized_buffer :: "nat \<Rightarrow> js \<Rightarrow> buffer option" where
  "sized_buffer n v = (case v of
     JBuf b \<Rightarrow> if length b = n then Some b else None
   | JStr s \<Rightarrow> if isHexString s \<and> length s = 2 * n then Some (from_hex s) else None
   | _ \<Rightarrow> None)"

fun size_error :: "js \<Rightarrow> nat \<Rightarrow> string \<Rightarrow> build_error" where
  "size_error (JBuf b) n name = BufferSize name n"
| "size_error (JStr s) n name = HexLength name (n * 2)"
| "size_error _ n name = BufferOrHex name n"

lemma normalizeHexBuffer_eq:
  "normalizeHexBuffer v n name = (case sized_buffer n v of Some x \<Rightarrow> Inr x | None \<Rightarrow> Inl (size_error v n name))"
  by (cases v) (simp_all add: normalizeHexBuffer_def sized_buffer_def Let_def)

lemma sized_buffer_length: "sized_buffer n v = Some b \<Longrightarrow> length b = n"
  by (cases v) (auto simp: sized_buffer_def isHexString_def length_from_hex split: if_splits)

lemma sized_buffer_hex: "length b = n \<Longrightarrow> 0 < n \<Longrightarrow> sized_buffer n (JStr (to_hex b)) = Some b"
  by (auto simp: sized_buffer_def)

locale hex_setter =
  fixes setter :: "js \<Rightarrow> builder \<Rightarrow> build_error + builder" and size :: nat and name :: string
    and upd :: "buffer \<Rightarrow> builder \<Rightarrow> builder" and get :: "builder \<Rightarrow> buffer option"
  assumes sets: "setter v b = chain (normalizeHexBuffer v size name) (\<lambda>x. Inr (upd x b))"
    and reads: "get (upd x b) = Some x"
    and positive: "0 < size"
begin

lemma accepts: "setter v b = Inr b' \<longleftrightarrow> (\<exists>x. sized_buffer size v = Some x \<and> b' = upd x b)"
  by (auto simp: sets normalizeHexBuffer_eq split: option.split)

lemma refuses: "sized_buffer size v = None \<Longrightarrow> setter v b = Inl (size_error v size name)"
  by (simp add: sets normalizeHexBuffer_eq)

lemma holds: "setter v b = Inr b' \<Longrightarrow> \<exists>x. get b' = Some x \<and> length x = size"
  using reads sized_buffer_length by (auto simp: accepts)

lemma buffer: "length x = size \<Longrightarrow> setter (JBuf x) b = Inr (upd x b)"
  by (simp add: accepts sized_buffer_def)

lemma hex_same: "length x = size \<Longrightarrow> setter (JStr (to_hex x)) b = setter (JBuf x) b"
  using sized_buffer_hex [of x size] positive by (simp add: sets normalizeHexBuffer_eq sized_buffer_def)

end

interpretation txHash: hex_setter setTxHash 32 "''Transaction hash''" "\<lambda>x. b_txHash_update (\<lambda>_. Some x)" b_txHash
  by unfold_locales (simp_all add: setTxHash_def)
interpretation txValidity: hex_setter setTxValidity 32 "''Transaction validity''" "\<lambda>x. b_txValidity_update (\<lambda>_. Some x)" b_txValidity
  by unfold_locales (simp_all add: setTxValidity_def)
interpretation writerKey: hex_setter setWriterKey 32 "''Writer key''" "\<lambda>x. b_writingKey_update (\<lambda>_. Some x)" b_writingKey
  by unfold_locales (simp_all add: setWriterKey_def)
interpretation incomingWriterKey: hex_setter setIncomingWriterKey 32 "''Incoming writer key''" "\<lambda>x. b_incomingWriterKey_update (\<lambda>_. Some x)" b_incomingWriterKey
  by unfold_locales (simp_all add: setIncomingWriterKey_def)
interpretation incomingNonce: hex_setter setIncomingNonce 32 "''Incoming nonce''" "\<lambda>x. b_incomingNonce_update (\<lambda>_. Some x)" b_incomingNonce
  by unfold_locales (simp_all add: setIncomingNonce_def)
interpretation contentHash: hex_setter setContentHash 32 "''Content hash''" "\<lambda>x. b_contentHash_update (\<lambda>_. Some x)" b_contentHash
  by unfold_locales (simp_all add: setContentHash_def)
interpretation incomingSignature: hex_setter setIncomingSignature 64 "''Incoming signature''" "\<lambda>x. b_incomingSignature_update (\<lambda>_. Some x)" b_incomingSignature
  by unfold_locales (simp_all add: setIncomingSignature_def)
interpretation externalBootstrap: hex_setter setExternalBootstrap 32 "''Bootstrap key''" "\<lambda>x. b_externalBootstrap_update (\<lambda>_. Some x)" b_externalBootstrap
  by unfold_locales (simp_all add: setExternalBootstrap_def)
interpretation msbBootstrap: hex_setter setMsbBootstrap 32 "''MSB bootstrap''" "\<lambda>x. b_msbBootstrap_update (\<lambda>_. Some x)" b_msbBootstrap
  by unfold_locales (simp_all add: setMsbBootstrap_def)
interpretation channel: hex_setter setChannel 32 "''Channel''" "\<lambda>x. b_channel_update (\<lambda>_. Some x)" b_channel
  by unfold_locales (simp_all add: setChannel_def)
interpretation amount: hex_setter setAmount 16 "''Amount''" "\<lambda>x. b_amount_update (\<lambda>_. Some x)" b_amount
  by unfold_locales (simp_all add: setAmount_def)

lemmas setter_buffer = txHash.buffer txValidity.buffer writerKey.buffer incomingWriterKey.buffer incomingNonce.buffer
  contentHash.buffer incomingSignature.buffer externalBootstrap.buffer msbBootstrap.buffer channel.buffer amount.buffer

lemma setAddress_buffer:
  "bufferToAddress E b = Some a \<Longrightarrow> setAddress E (JBuf b) s = Inr (s\<lparr>b_address := Some b\<rparr>)"
  by (simp add: setAddress_def normalizeAddress_def)

lemma setIncomingAddress_buffer:
  "bufferToAddress E b = Some a \<Longrightarrow> setIncomingAddress E (JBuf b) s = Inr (s\<lparr>b_incomingAddress := Some b\<rparr>)"
  by (simp add: setIncomingAddress_def normalizeAddress_def)

lemma set_literals:
  "setPhase (JStr ''partial'') s = Inr (s\<lparr>b_phase := Some ''partial''\<rparr>)"
  "setPhase (JStr ''complete'') s = Inr (s\<lparr>b_phase := Some ''complete''\<rparr>)"
  "setOutput (JStr ''buffer'') s = Inr (s\<lparr>b_output := Some ''buffer''\<rparr>)"
  "setOutput (JStr ''json'') s = Inr (s\<lparr>b_output := Some ''json''\<rparr>)"
  by (simp_all add: setPhase_def setOutput_def)

lemma setOperationType_num:
  "0 < n \<Longrightarrow> n \<le> 13 \<Longrightarrow> setOperationType (JNum n) s = Inr (s\<lparr>b_operationType := Some (nat n)\<rparr>)"
  by (simp add: setOperationType_def OperationType_values_def) presburger

lemma keyed_simps [simp]:
  "keyed ''cao'' p = Cao p" "keyed ''aco'' p = Aco p" "keyed ''rao'' p = Rao p" "keyed ''txo'' p = Txo p"
  "keyed ''bdo'' p = Bdo p" "keyed ''tro'' p = Tro p" "keyed ''bio'' p = Bio p"
  by (simp_all add: keyed_def)

lemmas setter_simps = setter_buffer setAddress_buffer setIncomingAddress_buffer set_literals setOperationType_num

lemma operationToPayload_simps [simp]:
  "operationToPayload 5 = Some ''rao''" "operationToPayload 6 = Some ''rao''" "operationToPayload 7 = Some ''rao''"
  "operationToPayload 11 = Some ''bdo''" "operationToPayload 12 = Some ''txo''" "operationToPayload 13 = Some ''tro''"
  by (simp_all add: operationToPayload_def type_defs)

end
