(* ===== verification/Broadcast_Spec.thy ===== *)
theory Broadcast_Spec
  imports Builder_Spec Acceptance
begin

text \<open>
  What a validator makes of a partial operation it has accepted: the same operation with its own three
  fields, and why the ledger's handlers find it in order.
\<close>

section \<open>The shape of a partial operation\<close>

abbreviation nonzero :: "buffer \<Rightarrow> bool" where "nonzero \<equiv> list_ex (\<lambda>x. x \<noteq> 0)"

definition sized :: "nat \<Rightarrow> buffer \<Rightarrow> bool" where
  "sized n b \<longleftrightarrow> length b = n \<and> nonzero b"

lemma rule_buffer_iff: "rule_buffer n f \<longleftrightarrow> (\<exists>b. f = Bytes b \<and> sized n b)"
  by (cases f) (auto simp: sized_def)

lemma rule_buffer_amount_iff: "rule_buffer_amount n f \<longleftrightarrow> (\<exists>b. f = Bytes b \<and> length b = n)"
  by (cases f) auto

lemma sizedD [dest]: "sized n b \<Longrightarrow> length b = n" by (simp add: sized_def)

lemma not_completed:
  "isOperationNotCompleted d = Inr u \<longleftrightarrow>
     p_va (payload_of d) = Absent \<and> p_vn (payload_of d) = Absent \<and> p_vs (payload_of d) = Absent"
  by (simp add: isOperationNotCompleted_def Let_def)

lemmas shape_rules = rule_buffer_iff rule_buffer_amount_iff not_completed none_of_def payload_of.simps empty_payload_def

lemma transfer_shape:
  assumes "validateTransferOperation E d" "isOperationNotCompleted d = Inr ()"
  obtains a tx txv to am i sg where "d = \<lparr>op_type = 13, op_address = Bytes a, op_value = Tro (empty_payload\<lparr>p_tx := Bytes tx,
      p_txv := Bytes txv, p_in := Bytes i, p_is := Bytes sg, p_to := Bytes to, p_am := Bytes am\<rparr>)\<rparr>"
    "sized (addressLength E) a" "sized 32 tx" "sized 32 txv" "sized 32 i" "sized 64 sg" "sized (addressLength E) to" "length am = 16"
proof (cases d)
  case (fields t a v)
  then obtain p where v: "v = Tro p" using assms(1) by (cases v) (auto simp: validateTransferOperation_def)
  show ?thesis
    using assms that by (cases p) (auto simp: fields v validateTransferOperation_def shape_rules)
qed

lemma transaction_shape:
  assumes "validateTransactionOperation E d" "isOperationNotCompleted d = Inr ()"
  obtains a tx txv iw ch bs mbs i sg where "d = \<lparr>op_type = 12, op_address = Bytes a, op_value = Txo (empty_payload\<lparr>p_tx := Bytes tx,
      p_txv := Bytes txv, p_in := Bytes i, p_is := Bytes sg, p_iw := Bytes iw, p_ch := Bytes ch, p_bs := Bytes bs, p_mbs := Bytes mbs\<rparr>)\<rparr>"
    "sized (addressLength E) a" "sized 32 tx" "sized 32 txv" "sized 32 i" "sized 64 sg" "sized 32 iw" "sized 32 ch" "sized 32 bs" "sized 32 mbs"
proof (cases d)
  case (fields t a v)
  then obtain p where v: "v = Txo p" using assms(1) by (cases v) (auto simp: validateTransactionOperation_def)
  show ?thesis
    using assms that by (cases p) (auto simp: fields v validateTransactionOperation_def shape_rules)
qed

lemma deployment_shape:
  assumes "validateBootstrapDeploymentOperation E d" "isOperationNotCompleted d = Inr ()"
  obtains a tx txv bs ic i sg where "d = \<lparr>op_type = 11, op_address = Bytes a, op_value = Bdo (empty_payload\<lparr>p_tx := Bytes tx,
      p_txv := Bytes txv, p_in := Bytes i, p_is := Bytes sg, p_bs := Bytes bs, p_ic := Bytes ic\<rparr>)\<rparr>"
    "sized (addressLength E) a" "sized 32 tx" "sized 32 txv" "sized 32 i" "sized 64 sg" "sized 32 bs" "sized 32 ic"
proof (cases d)
  case (fields t a v)
  then obtain p where v: "v = Bdo p" using assms(1) by (cases v) (auto simp: validateBootstrapDeploymentOperation_def)
  show ?thesis
    using assms that by (cases p) (auto simp: fields v validateBootstrapDeploymentOperation_def shape_rules)
qed

lemma role_shape:
  assumes "validateRoleAccessOperation E d" "isOperationNotCompleted d = Inr ()"
  obtains t a tx txv iw i sg where "d = \<lparr>op_type = t, op_address = Bytes a, op_value = Rao (empty_payload\<lparr>p_tx := Bytes tx,
      p_txv := Bytes txv, p_in := Bytes i, p_is := Bytes sg, p_iw := Bytes iw\<rparr>)\<rparr>" "t = 5 \<or> t = 6 \<or> t = 7"
    "sized (addressLength E) a" "sized 32 tx" "sized 32 txv" "sized 32 i" "sized 64 sg" "sized 32 iw"
proof (cases d)
  case (fields t a v)
  then obtain p where v: "v = Rao p" using assms(1) by (cases v) (auto simp: validateRoleAccessOperation_def)
  show ?thesis
    using assms that by (cases p) (auto simp: fields v validateRoleAccessOperation_def shape_rules)
qed

section \<open>Completion\<close>

text \<open>The operation of the user with the address, the nonce and the signature of the validator.\<close>

definition validator_message :: "'b env \<Rightarrow> buffer \<Rightarrow> operation \<Rightarrow> buffer" where
  "validator_message E nonce d =
     createMessage [Num (networkId E), Buf (bytes (p_tx (payload_of d))), Buf nonce, Num (op_type d)]"

definition with_validator :: "buffer \<Rightarrow> buffer \<Rightarrow> buffer \<Rightarrow> op_value \<Rightarrow> op_value" where
  "with_validator va vn vs v =
     (let f = (\<lambda>p. p\<lparr>p_va := Bytes va, p_vn := Bytes vn, p_vs := Bytes vs\<rparr>)
      in case v of Tro p \<Rightarrow> Tro (f p) | Txo p \<Rightarrow> Txo (f p) | Bdo p \<Rightarrow> Bdo (f p) | Rao p \<Rightarrow> Rao (f p) | _ \<Rightarrow> v)"

definition completion :: "'b env \<Rightarrow> (buffer \<Rightarrow> buffer) \<Rightarrow> wallet \<Rightarrow> buffer \<Rightarrow> operation \<Rightarrow> operation" where
  "completion E hash w nonce d =
     d\<lparr>op_value := with_validator (addressToBuffer E (w_address w)) nonce (w_sign w (hash (validator_message E nonce d))) (op_value d)\<rparr>"

lemmas director_defs = buildCompleteAddWriterMessage_def buildCompleteRemoveWriterMessage_def
  buildCompleteAdminRecoveryMessage_def buildCompleteTransactionOperationMessage_def
  buildCompleteBootstrapDeploymentMessage_def buildCompleteTransferOperationMessage_def directed_def

lemmas build_defs = build_def assertPhaseAndOutput_def buildCompleteBody_def complete_message_def complete_body_def
  completed_body_def type_defs getPayload_def OperationType_values_def

lemma partial_validator_common:
  assumes "partial_validator E hash sa s d = Inr ()"
  shows "list_all (\<lambda>v. v = Inr ()) (common_steps E hash sa s d)"
  using assms
  by (auto simp: partial_validator_def validateRoleAccess_def validateTransaction_def validateTransfer_def
      validateBootstrapDeployment_def all_steps_Inr split: if_splits)

lemma partial_validator_facts:
  assumes "partial_validator E hash sa s d = Inr ()"
  shows "isPayloadSchemaValid E d = Inr ()" "isOperationNotCompleted d = Inr ()"
    "validateNoSelfValidation E sa d = Inr ()" "validateRequesterAddress E d = Inr ()"
    "validateTransactionUniqueness s d = Inr ()" "validateSignature E hash d = Inr ()"
    "validateTransactionValidity hash s d = Inr ()"
  using partial_validator_common [OF assms] by (simp_all add: common_steps_def)

lemma partial_validator_special:
  assumes "partial_validator E hash sa s d = Inr ()"
  shows "op_type d = 13 \<Longrightarrow> validateRecipientAddress E d = Inr () \<and> validateStateBalances E s d = Inr ()"
    "op_type d = 12 \<Longrightarrow> validateRequesterBalance E s d False = Inr () \<and> validateSubnetworkBootstrapEquality E d = Inr () \<and>
       validateMsbBootstrap E d = Inr () \<and> validateIfExternalBootstrapHasBeenDeployed E s d = Inr ()"
    "op_type d = 11 \<Longrightarrow> validateRequesterBalance E s d False = Inr () \<and> validateSubnetworkBootstrapEquality E d = Inr () \<and>
       validateBootstrapRegistration s d = Inr ()"
    "op_type d = 5 \<Longrightarrow> validateRequesterBalanceForAddWriterOperation E s d False = Inr () \<and> validateWriterKey E s d = Inr ()"
    "op_type d = 5 \<or> op_type d = 6 \<or> op_type d = 7 \<Longrightarrow> isRequesterAllowedToChangeRole E s d = Inr ()"
    "op_type d = 6 \<or> op_type d = 7 \<Longrightarrow> validateRequesterBalance E s d False = Inr ()"
  using assms
  by (auto simp: partial_validator_def validateRoleAccess_def validateTransaction_def validateTransfer_def
      validateBootstrapDeployment_def all_steps_Inr)

lemma schema_cases:
  assumes "isPayloadSchemaValid E d = Inr ()"
  obtains "op_type d = 13" "validateTransferOperation E d" | "op_type d = 12" "validateTransactionOperation E d"
    | "op_type d = 11" "validateBootstrapDeploymentOperation E d"
    | "op_type d = 5 \<or> op_type d = 6 \<or> op_type d = 7" "validateRoleAccessOperation E d"
  using assms by (auto simp: isPayloadSchemaValid_def selectCheckSchemaValidator_def split: if_splits option.splits)

lemma requester_valid:
  assumes "validateRequesterAddress E d = Inr ()"
  obtains ra where "bufferToAddress E (bytes (op_address d)) = Some ra" "requesterAddress E d = Some ra"
    "length (address_decodeSafe E (Some ra)) = 32"
  using assms by (auto simp: validateRequesterAddress_def requesterAddress_def split: option.splits)

lemmas call_simps = setter_simps fresh_builder_def completion_def with_validator_def validator_message_def payload_of.simps
  sizedD

lemma complete_call_eq:
  assumes "partial_validator E hash sa s d = Inr ()"
  shows "\<exists>b. complete_call E (build E hash w nonce) d = Inr (BufferOut (completion E hash w nonce d), b)"
proof -
  note f = partial_validator_facts [OF assms] and g = partial_validator_special [OF assms]
  obtain ra where ra: "bufferToAddress E (bytes (op_address d)) = Some ra" using requester_valid [OF f(4)] .
  from f(1) show ?thesis
  proof (cases rule: schema_cases)
    case 1
    obtain ta where ta: "bufferToAddress E (bytes (p_to (payload_of d))) = Some ta"
      using g(1) 1(1) by (auto simp: validateRecipientAddress_def split: option.splits)
    show ?thesis
      by (rule transfer_shape [OF 1(2) f(2)]) (use ra ta in \<open>simp add: complete_call_def director_defs build_defs call_simps\<close>)
  next
    case 2
    show ?thesis
      by (rule transaction_shape [OF 2(2) f(2)]) (use ra in \<open>simp add: complete_call_def director_defs build_defs call_simps\<close>)
  next
    case 3
    show ?thesis
      by (rule deployment_shape [OF 3(2) f(2)]) (use ra in \<open>simp add: complete_call_def director_defs build_defs call_simps\<close>)
  next
    case 4
    show ?thesis
      by (rule role_shape [OF 4(2) f(2)]) (use ra in \<open>auto simp: complete_call_def director_defs build_defs call_simps\<close>)
  qed
qed

section \<open>The handlers find a completed operation in order\<close>

text \<open>
  A wallet whose address is one of the network and whose signatures verify under the key of that address, and the
  hash that the handlers recompute.
\<close>

definition sound_wallet :: "'b env \<Rightarrow> (buffer \<Rightarrow> buffer) \<Rightarrow> wallet \<Rightarrow> bool" where
  "sound_wallet E hash w \<longleftrightarrow> isAddressValid E (w_address w) \<and> ascii_buffer (ascii_bytes (w_address w)) \<and>
     ascii_string (ascii_bytes (w_address w)) = w_address w \<and> sized (addressLength E) (ascii_bytes (w_address w)) \<and>
     address_decodeSafe E (Some (w_address w)) \<noteq> [] \<and> blake3Safe E = hash \<and>
     (\<forall>m. length (hash m) = 32 \<and> sized 64 (w_sign w (hash m)) \<and>
       signature_verify E (w_sign w (hash m)) (hash m) (address_decodeSafe E (Some (w_address w))))"

text \<open>The nonce of the completion is not the user's, and neither is its signature.\<close>

definition fresh_for :: "'b env \<Rightarrow> (buffer \<Rightarrow> buffer) \<Rightarrow> wallet \<Rightarrow> buffer \<Rightarrow> operation \<Rightarrow> bool" where
  "fresh_for E hash w nonce d \<longleftrightarrow> sized 32 nonce \<and> bytes (p_in (payload_of d)) \<noteq> nonce \<and>
     bytes (p_is (payload_of d)) \<noteq> w_sign w (hash (validator_message E nonce d))"

lemma sound_walletD:
  assumes "sound_wallet E hash w"
  shows "isAddressValid E (w_address w)" "addressToBuffer E (w_address w) = ascii_bytes (w_address w)"
    "bufferToAddress E (ascii_bytes (w_address w)) = Some (w_address w)" "ascii_buffer (ascii_bytes (w_address w))"
    "addressAndKey E (ascii_bytes (w_address w)) = Some (w_address w, address_decodeSafe E (Some (w_address w)))"
    "rule_buffer (addressLength E) (Bytes (ascii_bytes (w_address w)))" "rule_buffer 64 (Bytes (w_sign w (hash m)))"
    "signature_verify E (w_sign w (hash m)) (hash m) (address_decodeSafe E (Some (w_address w)))" "blake3Safe E = hash" "length (hash m) = 32"
  using assms
  by (auto simp: sound_wallet_def addressToBuffer_def bufferToAddress_Some addressAndKey_Some sized_def)

lemma createMessage_nonempty: "b \<noteq> [] \<Longrightarrow> Buf b \<in> set xs \<Longrightarrow> createMessage xs \<noteq> []"
  unfolding createMessage_def List.map_filter_def by force

lemma sized_32_nonempty: "sized 32 b \<Longrightarrow> b \<noteq> []"
  by (auto simp: sized_def)

lemma no_self:
  assumes "validateNoSelfValidation E (Some (w_address w)) d = Inr ()" "sound_wallet E hash w"
  shows "bytes (op_address d) \<noteq> ascii_bytes (w_address w)"
proof
  assume "bytes (op_address d) = ascii_bytes (w_address w)"
  moreover have "w_address w \<noteq> []"
    using assms(2) by (auto simp: sound_wallet_def isAddressValid_def startsWith_def split: option.splits)
  ultimately show False
    using assms sound_walletD(3) [OF assms(2)]
    by (auto simp: validateNoSelfValidation_def requesterAddress_def split: if_splits)
qed

lemma requester_signed:
  assumes "validateSignature E hash d = Inr ()" "getMessageComponents E d = Some ms" "requesterAddress E d = Some ra"
  shows "hash (createMessage ms) = bytes (p_tx (payload_of d))"
    "signature_verify E (bytes (p_is (payload_of d))) (bytes (p_tx (payload_of d))) (address_decodeSafe E (Some ra))"
  using assms by (auto simp: validateSignature_def Let_def chain_Inr)

lemmas verify_simps = completion_def with_validator_def payload_of.simps validator_message_def hasOwn_def
  rule_buffer_iff rule_buffer_amount_iff none_of_def empty_payload_def custom_validator_fields_def fresh_for_def

lemma transfer_completed:
  assumes v: "partial_validator E hash (Some (w_address w)) s d = Inr ()" and t: "op_type d = 13"
    and w: "sound_wallet E hash w" and n: "fresh_for E hash w nonce d"
  shows "transfer_verify E (completion E hash w nonce d) = Some (the (requesterAddress E d), w_address w)"
proof -
  note f = partial_validator_facts [OF v] and W = sound_walletD [OF w]
  obtain ra where ra: "bufferToAddress E (bytes (op_address d)) = Some ra" "requesterAddress E d = Some ra"
    "length (address_decodeSafe E (Some ra)) = 32" using requester_valid [OF f(4)] .
  have valid: "validateTransferOperation E d" using f(1) t by (auto elim: schema_cases)
  have self: "bytes (op_address d) \<noteq> ascii_bytes (w_address w)" using no_self [OF f(3) w] .
  show ?thesis
  proof (rule transfer_shape [OF valid f(2)])
    fix a tx txv to am i sg
    assume d: "d = \<lparr>op_type = 13, op_address = Bytes a, op_value = Tro (empty_payload\<lparr>p_tx := Bytes tx,
        p_txv := Bytes txv, p_in := Bytes i, p_is := Bytes sg, p_to := Bytes to, p_am := Bytes am\<rparr>)\<rparr>"
      and sz: "sized (addressLength E) a" "sized 32 tx" "sized 32 txv" "sized 32 i" "sized 64 sg" "sized (addressLength E) to" "length am = 16"
    define m where "m = [Num (networkId E), Buf txv, Buf to, Buf am, Buf i, Num OT_TRANSFER]"
    have "getMessageComponents E d = Some m"
      by (simp add: d m_def getMessageComponents_def payload_of.simps empty_payload_def)
    note sig = requester_signed [OF f(6) this ra(2)]
    have key: "addressAndKey E a = Some (ra, address_decodeSafe E (Some ra))"
      using ra by (auto simp: addressAndKey_Some d)
    have ne: "createMessage m \<noteq> []" "createMessage [Num (networkId E), Buf tx, Buf nonce, Num 13] \<noteq> []"
      using sz sized_32_nonempty createMessage_nonempty [of txv m] createMessage_nonempty [of tx] by (auto simp: m_def)
    show ?thesis
      unfolding transfer_verify_def validateTransferOperation_def
      using sz sig W key ne self n ra
      by (simp add: d verify_simps messageHash_def Let_def m_def)
  qed
qed

lemma transaction_completed:
  assumes v: "partial_validator E hash (Some (w_address w)) s d = Inr ()" and t: "op_type d = 12"
    and w: "sound_wallet E hash w" and n: "fresh_for E hash w nonce d"
  shows "tx_verify E (completion E hash w nonce d) = Some (the (requesterAddress E d), w_address w)"
proof -
  note f = partial_validator_facts [OF v] and W = sound_walletD [OF w] and g = partial_validator_special(2) [OF v t]
  obtain ra where ra: "bufferToAddress E (bytes (op_address d)) = Some ra" "requesterAddress E d = Some ra"
    "length (address_decodeSafe E (Some ra)) = 32" using requester_valid [OF f(4)] .
  have valid: "validateTransactionOperation E d" using f(1) t by (auto elim: schema_cases)
  have self: "bytes (op_address d) \<noteq> ascii_bytes (w_address w)" using no_self [OF f(3) w] .
  show ?thesis
  proof (rule transaction_shape [OF valid f(2)])
    fix a tx txv iw ch bs mbs i sg
    assume d: "d = \<lparr>op_type = 12, op_address = Bytes a, op_value = Txo (empty_payload\<lparr>p_tx := Bytes tx,
        p_txv := Bytes txv, p_in := Bytes i, p_is := Bytes sg, p_iw := Bytes iw, p_ch := Bytes ch, p_bs := Bytes bs, p_mbs := Bytes mbs\<rparr>)\<rparr>"
      and sz: "sized (addressLength E) a" "sized 32 tx" "sized 32 txv" "sized 32 i" "sized 64 sg" "sized 32 iw" "sized 32 ch"
        "sized 32 bs" "sized 32 mbs"
    define m where "m = [Num (networkId E), Buf txv, Buf iw, Buf ch, Buf bs, Buf mbs, Buf i, Num OT_TX]"
    have "getMessageComponents E d = Some m"
      by (simp add: d m_def getMessageComponents_def payload_of.simps empty_payload_def)
    note sig = requester_signed [OF f(6) this ra(2)]
    have boot: "mbs = bootstrap E" "bs \<noteq> mbs"
      using g by (auto simp: d validateSubnetworkBootstrapEquality_def validateMsbBootstrap_def payload_of.simps)
    have key: "addressAndKey E a = Some (ra, address_decodeSafe E (Some ra))"
      using ra by (auto simp: addressAndKey_Some d)
    have ne: "createMessage m \<noteq> []" "createMessage [Num (networkId E), Buf tx, Buf nonce, Num 12] \<noteq> []"
      using sz sized_32_nonempty createMessage_nonempty [of txv m] createMessage_nonempty [of tx] by (auto simp: m_def)
    show ?thesis
      unfolding tx_verify_def validateTransactionOperation_def
      using sz sig W key ne self n ra boot(2) unfolding m_def boot(1)
      by (simp add: d verify_simps messageHash_def Let_def boot(1))
  qed
qed

lemma deployment_completed:
  assumes v: "partial_validator E hash (Some (w_address w)) s d = Inr ()" and t: "op_type d = 11"
    and w: "sound_wallet E hash w" and n: "fresh_for E hash w nonce d"
  shows "bootstrapDeployment_verify E (completion E hash w nonce d) = Some (the (requesterAddress E d), w_address w)"
proof -
  note f = partial_validator_facts [OF v] and W = sound_walletD [OF w] and g = partial_validator_special(3) [OF v t]
  obtain ra where ra: "bufferToAddress E (bytes (op_address d)) = Some ra" "requesterAddress E d = Some ra"
    "length (address_decodeSafe E (Some ra)) = 32" using requester_valid [OF f(4)] .
  have valid: "validateBootstrapDeploymentOperation E d" using f(1) t by (auto elim: schema_cases)
  have self: "bytes (op_address d) \<noteq> ascii_bytes (w_address w)" using no_self [OF f(3) w] .
  show ?thesis
  proof (rule deployment_shape [OF valid f(2)])
    fix a tx txv bs ic i sg
    assume d: "d = \<lparr>op_type = 11, op_address = Bytes a, op_value = Bdo (empty_payload\<lparr>p_tx := Bytes tx,
        p_txv := Bytes txv, p_in := Bytes i, p_is := Bytes sg, p_bs := Bytes bs, p_ic := Bytes ic\<rparr>)\<rparr>"
      and sz: "sized (addressLength E) a" "sized 32 tx" "sized 32 txv" "sized 32 i" "sized 64 sg" "sized 32 bs" "sized 32 ic"
    define m where "m = [Num (networkId E), Buf txv, Buf bs, Buf ic, Buf i, Num OT_BOOTSTRAP_DEPLOYMENT]"
    have "getMessageComponents E d = Some m"
      by (simp add: d m_def getMessageComponents_def payload_of.simps empty_payload_def)
    note sig = requester_signed [OF f(6) this ra(2)]
    have boot: "bs \<noteq> bootstrap E"
      using g by (auto simp: d validateSubnetworkBootstrapEquality_def payload_of.simps)
    have key: "addressAndKey E a = Some (ra, address_decodeSafe E (Some ra))"
      using ra by (auto simp: addressAndKey_Some d)
    have ne: "createMessage m \<noteq> []" "createMessage [Num (networkId E), Buf tx, Buf nonce, Num 11] \<noteq> []"
      using sz sized_32_nonempty createMessage_nonempty [of txv m] createMessage_nonempty [of tx] by (auto simp: m_def)
    show ?thesis
      unfolding bootstrapDeployment_verify_def validateBootstrapDeploymentOperation_def
      using sz sig W key ne self n ra boot
      by (simp add: d verify_simps messageHash_def Let_def m_def)
  qed
qed

lemma role_completed:
  assumes v: "partial_validator E hash (Some (w_address w)) s d = Inr ()" and t: "op_type d = 5 \<or> op_type d = 6 \<or> op_type d = 7"
    and w: "sound_wallet E hash w" and n: "fresh_for E hash w nonce d"
  defines "op \<equiv> completion E hash w nonce d" and "ra \<equiv> the (requesterAddress E d)"
  shows "op_type d = 5 \<Longrightarrow> addWriter_verify E op = Some (ra, w_address w)"
    "op_type d = 6 \<Longrightarrow> removeWriter_verify E op = Some (ra, w_address w)"
    "op_type d = 7 \<Longrightarrow> adminRecovery_verify E op = Some (ra, address_decodeSafe E (Some ra), w_address w)"
proof -
  note f = partial_validator_facts [OF v] and W = sound_walletD [OF w]
  obtain ra' where ra': "bufferToAddress E (bytes (op_address d)) = Some ra'" "requesterAddress E d = Some ra'"
    "length (address_decodeSafe E (Some ra')) = 32" using requester_valid [OF f(4)] .
  then have [simp]: "ra = ra'" by (simp add: ra_def)
  have valid: "validateRoleAccessOperation E d" using f(1) t by (auto elim: schema_cases)
  have self: "bytes (op_address d) \<noteq> ascii_bytes (w_address w)" using no_self [OF f(3) w] .
  have "(op_type d = 5 \<longrightarrow> addWriter_verify E op = Some (ra, w_address w)) \<and>
    (op_type d = 6 \<longrightarrow> removeWriter_verify E op = Some (ra, w_address w)) \<and>
    (op_type d = 7 \<longrightarrow> adminRecovery_verify E op = Some (ra, address_decodeSafe E (Some ra), w_address w))"
  proof (rule role_shape [OF valid f(2)])
    fix t a tx txv iw i sg
    assume d: "d = \<lparr>op_type = t, op_address = Bytes a, op_value = Rao (empty_payload\<lparr>p_tx := Bytes tx,
        p_txv := Bytes txv, p_in := Bytes i, p_is := Bytes sg, p_iw := Bytes iw\<rparr>)\<rparr>" and t: "t = 5 \<or> t = 6 \<or> t = 7"
      and sz: "sized (addressLength E) a" "sized 32 tx" "sized 32 txv" "sized 32 i" "sized 64 sg" "sized 32 iw"
    define m where "m = [Num (networkId E), Buf txv, Buf iw, Buf i, Num t]"
    have "getMessageComponents E d = Some m"
      using t by (auto simp: d m_def getMessageComponents_def payload_of.simps empty_payload_def)
    note sig = requester_signed [OF f(6) this ra'(2)]
    have key: "addressAndKey E a = Some (ra, address_decodeSafe E (Some ra))"
      using ra' by (auto simp: addressAndKey_Some d)
    have zero: "iw \<noteq> ZERO_WK" using sz by (auto simp: sized_def ZERO_WK_def alloc_def list_ex_iff)
    have ne: "createMessage m \<noteq> []" "createMessage [Num (networkId E), Buf tx, Buf nonce, Num t] \<noteq> []"
      using sz sized_32_nonempty createMessage_nonempty [of txv m] createMessage_nonempty [of tx] by (auto simp: m_def)
    note facts = sz sig W key ne self n ra' zero
    have a: "addWriter_verify E op = Some (ra, w_address w)" if "t = 5"
      using facts unfolding addWriter_verify_def validateRoleAccessOperation_def op_def m_def that d
      by (simp add: verify_simps messageHash_def Let_def)
    have b: "removeWriter_verify E op = Some (ra, w_address w)" if "t = 6"
      using facts unfolding removeWriter_verify_def validateRoleAccessOperation_def op_def m_def that d
      by (simp add: verify_simps messageHash_def Let_def)
    have "adminRecovery_verify E op = Some (ra, address_decodeSafe E (Some ra), w_address w)" if "t = 7"
      using facts unfolding adminRecovery_verify_def validateRoleAccessOperation_def op_def m_def that d
      by (simp add: verify_simps messageHash_def Let_def)
    with a b show ?thesis by (auto simp: d)
  qed
  then show "op_type d = 5 \<Longrightarrow> addWriter_verify E op = Some (ra, w_address w)"
    "op_type d = 6 \<Longrightarrow> removeWriter_verify E op = Some (ra, w_address w)"
    "op_type d = 7 \<Longrightarrow> adminRecovery_verify E op = Some (ra, address_decodeSafe E (Some ra), w_address w)"
    by blast+
qed

end
