(* ===== verification/Publish_Spec.thy ===== *)
theory Publish_Spec
  imports Broadcast_Spec
begin

text \<open>
  A validator's view of the store and the store the apply function works on: while the two agree, what the
  validator has accepted and completed is applied.
\<close>

section \<open>What the checks say of the store\<close>

definition sees :: "'b env \<Rightarrow> node_state \<Rightarrow> 'b astate \<Rightarrow> bool" where
  "sees E s st \<longleftrightarrow> ns_view s = batch st \<and> base_indexers E (base st) = Some (ns_indexers s)"

lemma FEE_BIGINT_eq [simp]: "FEE_BIGINT = int fee"
  by (simp add: FEE_BIGINT_def bufferToBigInt_be_nat)

lemma bigint_balance: "length b = 69 \<Longrightarrow> bufferToBigInt (ne_balance (decoded b)) = Inr (int (liquid b))"
  by (simp del: decoded add: decoded_def ne_decode_Some liquid_def bufferToBigInt_be_nat buf)

lemma view_entry: "sees E s st \<Longrightarrow> getNodeEntryUnsigned s a = (case batch st a of None \<Rightarrow> None | Some b \<Rightarrow> ne_decode (Some b))"
  by (simp add: sees_def getNodeEntryUnsigned_def st_get_def split: option.split)

lemma ne_decode_length69: "ne_decode (Some b) = Some e \<Longrightarrow> length b = 69 \<and> e = decoded b"
  using ne_decode_length [of b e] by auto

lemma unsigned_entry:
  assumes "sees E s st" "requesterEntry E s d False = Some e" "requesterAddress E d = Some ra"
  obtains b where "batch st ra = Some b" "length b = 69" "e = decoded b"
proof -
  obtain b where "batch st ra = Some b" "ne_decode (Some b) = Some e"
    using assms by (auto simp: requesterEntry_def view_entry split: option.splits)
  then show ?thesis using that ne_decode_length69 by blast
qed

lemma can_pay:
  assumes "sees E s st" "validateRequesterBalance E s d False = Inr ()" "requesterAddress E d = Some ra"
  obtains b where "batch st ra = Some b" "length b = 69" "fee \<le> liquid b"
proof -
  obtain e where e: "requesterEntry E s d False = Some e" "balance_at_least e FEE_BIGINT RC_INSUFFICIENT_FEE_BALANCE = Inr ()"
    using assms(2) by (auto simp: validateRequesterBalance_def split: option.splits)
  obtain b where b: "batch st ra = Some b" "length b = 69" "e = decoded b"
    using unsigned_entry [OF assms(1) e(1) assms(3)] .
  then show ?thesis using that e(2) by (simp add: balance_at_least_def bigint_balance)
qed

lemma validity_matches:
  assumes "sees E s st" "validateTransactionValidity hash s d = Inr ()" "blake3Safe E = hash"
  shows "indexersMatch E (bytes (p_txv (payload_of d))) st"
  using assms
  by (auto simp: sees_def validateTransactionValidity_def indexersMatch_def getIndexerSequenceStateApply_def getIndexerSequenceState_def)

lemma unique_new:
  assumes "sees E s st" "validateTransactionUniqueness s d = Inr ()"
  shows "batch st (txKey d) = None"
  using assms by (auto simp: sees_def validateTransactionUniqueness_def txKey_def st_get_def split: option.splits)

section \<open>What completion keeps\<close>

lemma completion_same [simp]:
  "op_type (completion E hash w nonce d) = op_type d" "op_address (completion E hash w nonce d) = op_address d"
  by (simp_all add: completion_def)

lemma completion_payload [simp]:
  "p_tx (payload_of (completion E hash w nonce d)) = p_tx (payload_of d)"
  "p_txv (payload_of (completion E hash w nonce d)) = p_txv (payload_of d)"
  "p_to (payload_of (completion E hash w nonce d)) = p_to (payload_of d)"
  "p_am (payload_of (completion E hash w nonce d)) = p_am (payload_of d)"
  "p_iw (payload_of (completion E hash w nonce d)) = p_iw (payload_of d)"
  "p_bs (payload_of (completion E hash w nonce d)) = p_bs (payload_of d)"
  by (cases "op_value d"; simp add: completion_def with_validator_def payload_of.simps)+

lemma completion_keys [simp]:
  "txKey (completion E hash w nonce d) = txKey d" "deploymentKey (completion E hash w nonce d) = deploymentKey d"
  "wkaKey (completion E hash w nonce d) = wkaKey d" "transferCost (completion E hash w nonce d) = transferCost d"
  by (simp_all add: txKey_def deploymentKey_def wkaKey_def transferCost_def)

text \<open>The schema leaves the recipient out of the other operations, and completion puts the validator's address in.\<close>

lemma completion_canonical:
  assumes v: "partial_validator E hash (Some (w_address w)) s d = Inr ()" and w: "sound_wallet E hash w"
    and a: "ascii_buffer (bytes (op_address d))" "ascii_buffer (bytes (p_to (payload_of d)))"
  shows "canonical_op (completion E hash w nonce d)"
proof -
  have "p_va (payload_of (completion E hash w nonce d)) = Bytes (ascii_bytes (w_address w))"
    using partial_validator_facts(1) [OF v] sound_walletD(2) [OF w]
    by (cases "op_value d")
      (auto simp: completion_def with_validator_def payload_of.simps validateTransferOperation_def
        validateTransactionOperation_def validateBootstrapDeploymentOperation_def validateRoleAccessOperation_def elim!: schema_cases)
  then show ?thesis using a sound_walletD(4) [OF w] by (simp add: canonical_op_def)
qed

section \<open>Accepted operations are applied\<close>

lemma transfer_affordable:
  assumes "sees E s st" "validateStateBalances E s d = Inr ()" "requesterAddress E d = Some ra"
    and a: "ascii_buffer (bytes (op_address d))" "ascii_buffer (bytes (p_to (payload_of d)))"
    and t: "bufferToAddress E (bytes (p_to (payload_of d))) = Some ta" and "length (bytes (p_am (payload_of d))) = 16"
  obtains b where "batch st ra = Some b" "transferCost d \<le> liquid b"
proof -
  have ra: "bufferToAddress E (bytes (op_address d)) = Some ra" using assms(3) by (simp add: requesterAddress_def)
  have same: "ra = ta \<longleftrightarrow> bytes (op_address d) = bytes (p_to (payload_of d))"
    using bufferToAddress_inj [OF ra t a] .
  obtain e where e: "requesterEntry E s d False = Some e"
    using assms(2,7) by (auto simp: validateStateBalances_def Let_def bufferToBigInt_be_nat split: option.splits if_splits)
  obtain b where b: "batch st ra = Some b" "length b = 69" "e = decoded b"
    using unsigned_entry [OF assms(1) e assms(3)] .
  have "transferCost d \<le> liquid b"
    using assms(2,3,7) e b t same
    by (auto simp: validateStateBalances_def Let_def bufferToBigInt_be_nat bigint_balance transferCost_def split: if_splits)
  then show ?thesis using that b by blast
qed

lemma transfer_published:
  assumes v: "partial_validator E hash (Some (w_address w)) s d = Inr ()" and t: "op_type d = 13"
    and w: "sound_wallet E hash w" and n: "fresh_for E hash w nonce d" and st: "sees E s st"
    and l: "ledger_ok E (batch st)" and small: "total_supply E (batch st) < 2 ^ 128"
    and val: "isValidatorValidApply (batch st (w_address w)) node"
    and a: "ascii_buffer (bytes (op_address d))" "ascii_buffer (bytes (p_to (payload_of d)))"
  shows "\<exists>st'. handleApplyTransferOperation E (completion E hash w nonce d) node st = Some (SUCCESS, st')"
proof -
  note f = partial_validator_facts [OF v] and g = partial_validator_special(1) [OF v t]
  obtain ra where ra: "bufferToAddress E (bytes (op_address d)) = Some ra" "requesterAddress E d = Some ra"
    "length (address_decodeSafe E (Some ra)) = 32" using requester_valid [OF f(4)] .
  obtain ta where ta: "bufferToAddress E (bytes (p_to (payload_of d))) = Some ta" "address_decodeSafe E (Some ta) \<noteq> []"
    using g by (auto simp: validateRecipientAddress_def alloc_def split: option.splits)
  have "validateTransferOperation E d" using f(1) t by (auto elim: schema_cases)
  then have am: "length (bytes (p_am (payload_of d))) = 16" using validateTransferOperation_bytes(4) by blast
  obtain b where b: "batch st ra = Some b" "transferCost d \<le> liquid b"
    using transfer_affordable [OF st _ ra(2) a ta(1) am] g by blast
  show ?thesis
    by (rule transfer_accepts [OF l small transfer_completed [OF v t w n], where ta = ta and pk = "address_decodeSafe E (Some ta)"])
      (use completion_canonical [OF v w a] validity_matches [OF st f(7) sound_walletD(9) [OF w]] val unique_new [OF st f(5)] ra ta b
        in \<open>simp_all add: addressAndKey_Some\<close>)
qed

lemma deployment_free:
  assumes "sees E s st" "validateBootstrapRegistration s d = Inr ()" "length (bytes (p_bs (payload_of d))) = 32"
  shows "batch st (deploymentKey d) = None"
proof -
  have "bytes (p_bs (payload_of d)) \<noteq> []" using assms(3) by auto
  then show ?thesis
    using assms by (auto simp: validateBootstrapRegistration_def getRegisteredBootstrapEntryUnsigned_def sees_def
        deploymentKey_def st_get_def split: option.splits)
qed

lemma deployment_published:
  assumes v: "partial_validator E hash (Some (w_address w)) s d = Inr ()" and t: "op_type d = 11"
    and w: "sound_wallet E hash w" and n: "fresh_for E hash w nonce d" and st: "sees E s st"
    and l: "ledger_ok E (batch st)" and small: "total_supply E (batch st) < 2 ^ 128"
    and val: "isValidatorValidApply (batch st (w_address w)) node"
    and a: "ascii_buffer (bytes (op_address d))" "ascii_buffer (bytes (p_to (payload_of d)))"
  shows "\<exists>st'. handleApplyBootstrapDeploymentOperation E (completion E hash w nonce d) node st = Some (SUCCESS, st')"
proof -
  note f = partial_validator_facts [OF v] and g = partial_validator_special(3) [OF v t]
  obtain ra where ra: "bufferToAddress E (bytes (op_address d)) = Some ra" "requesterAddress E d = Some ra"
    "length (address_decodeSafe E (Some ra)) = 32" using requester_valid [OF f(4)] .
  have "validateBootstrapDeploymentOperation E d" using f(1) t by (auto elim: schema_cases)
  then have bs: "length (bytes (p_bs (payload_of d))) = 32"
    by (rule deployment_shape [OF _ f(2)]) (auto simp: payload_of.simps)
  obtain b where b: "batch st ra = Some b" "length b = 69" "fee \<le> liquid b"
    using can_pay [OF st _ ra(2)] g by blast
  show ?thesis
    by (rule deployment_accepts [OF l small deployment_completed [OF v t w n]])
      (use completion_canonical [OF v w a] validity_matches [OF st f(7) sound_walletD(9) [OF w]] val unique_new [OF st f(5)] ra b
        deployment_free [OF st _ bs] g in \<open>simp_all\<close>)
qed

text \<open>
  The two that also read the checkout the indexers have signed are applied when it is the same store. A
  deployer has an account; the base and the writers' counter must take another writer.
\<close>

lemma deployment_known:
  assumes "sees E s st" "ns_signed s = batch st" "validateIfExternalBootstrapHasBeenDeployed E s d = Inr ()"
  obtains e where "de_decode (batch st (deploymentKey d)) (addressLength E) = Some e"
proof -
  obtain x e where "getRegisteredBootstrapEntry s (to_hex (bytes (p_bs (payload_of d)))) = Some x"
    "de_decode (Some x) (addressLength E) = Some e"
    using assms(3) by (auto simp: validateIfExternalBootstrapHasBeenDeployed_def Let_def split: option.splits)
  then have "batch st (deploymentKey d) = Some x"
    using assms(2) by (auto simp: getRegisteredBootstrapEntry_def getSigned_def deploymentKey_def split: if_splits option.splits)
  then show ?thesis using that \<open>de_decode (Some x) (addressLength E) = Some e\<close> by simp
qed

lemma transaction_published:
  assumes v: "partial_validator E hash (Some (w_address w)) s d = Inr ()" and t: "op_type d = 12"
    and w: "sound_wallet E hash w" and n: "fresh_for E hash w nonce d" and st: "sees E s st" "ns_signed s = batch st"
    and l: "ledger_ok E (batch st)" and small: "total_supply E (batch st) < 2 ^ 128"
    and val: "isValidatorValidApply (batch st (w_address w)) node"
    and a: "ascii_buffer (bytes (op_address d))" "ascii_buffer (bytes (p_to (payload_of d)))"
    and creator: "\<And>e. de_decode (batch st (deploymentKey d)) (addressLength E) = Some e \<Longrightarrow>
       \<exists>ca. bufferToAddress E (de_address e) = Some ca \<and> batch st ca \<noteq> None"
  shows "\<exists>st'. handleApplyTxOperation E (completion E hash w nonce d) node st = Some (SUCCESS, st')"
proof -
  note f = partial_validator_facts [OF v] and g = partial_validator_special(2) [OF v t]
  obtain ra where ra: "bufferToAddress E (bytes (op_address d)) = Some ra" "requesterAddress E d = Some ra"
    "length (address_decodeSafe E (Some ra)) = 32" using requester_valid [OF f(4)] .
  obtain b where b: "batch st ra = Some b" "length b = 69" "fee \<le> liquid b" using can_pay [OF st(1) _ ra(2)] g by blast
  obtain e where e: "de_decode (batch st (deploymentKey d)) (addressLength E) = Some e"
    using deployment_known [OF st] g by blast
  obtain ca cb where ca: "bufferToAddress E (de_address e) = Some ca" "batch st ca = Some cb" using creator [OF e] by auto
  show ?thesis
    by (rule tx_accepts [OF l small transaction_completed [OF v t w n], where d = e and ca = ca and cb = cb and rb = b])
      (use completion_canonical [OF v w a] validity_matches [OF st(1) f(7) sound_walletD(9) [OF w]] val
        unique_new [OF st(1) f(5)] ra b e ca in \<open>simp_all\<close>)
qed

lemma whitelisted_role:
  assumes "good_entry b" "ne_isWhitelisted (decoded b)" "\<not> ne_isWriter (decoded b)"
  shows "b ! 0 = WHITELISTED"
  using assms by (auto simp: good_entry_def valid_entry_def isNodeRoleValid_iff role_defs)

lemma addWriter_published:
  assumes v: "partial_validator E hash (Some (w_address w)) s d = Inr ()" and t: "op_type d = 5"
    and w: "sound_wallet E hash w" and n: "fresh_for E hash w nonce d" and st: "sees E s st" "ns_signed s = batch st"
    and pre: "prefix_ok E" and l: "ledger_ok E (batch st)" and small: "total_supply E (batch st) < 2 ^ 128"
    and val: "isValidatorValidApply (batch st (w_address w)) node"
    and a: "ascii_buffer (bytes (op_address d))" "ascii_buffer (bytes (p_to (payload_of d)))"
    and base: "base_addWriter E (bytes (p_iw (payload_of d))) False (base st) \<noteq> None" and idx: "updateWritersIndex st \<noteq> None"
  shows "\<exists>st'. handleApplyAddWriterOperation E (completion E hash w nonce d) node st = Some (SUCCESS, st')"
proof -
  note f = partial_validator_facts [OF v] and g = partial_validator_special(4,5) [OF v]
  have t7: "op_type d = 5 \<or> op_type d = 6 \<or> op_type d = 7" using t by simp
  obtain ra where ra: "bufferToAddress E (bytes (op_address d)) = Some ra" "requesterAddress E d = Some ra"
    "length (address_decodeSafe E (Some ra)) = 32" using requester_valid [OF f(4)] .
  have signed: "requesterEntry E s d True = requesterEntry E s d False"
    using st by (auto simp: requesterEntry_def getNodeEntry_def getNodeEntryUnsigned_def getSigned_def st_get_def sees_def split: option.splits)
  obtain e where e: "requesterEntry E s d False = Some e" "balance_at_least e (FEE_BIGINT * 11) RC_ROLE_INSUFFICIENT_FEE_BALANCE = Inr ()"
    using g(1) [OF t] by (auto simp: validateRequesterBalanceForAddWriterOperation_def split: option.splits)
  obtain b where b: "batch st ra = Some b" "length b = 69" "e = decoded b"
    using unsigned_entry [OF st(1) e(1) ra(2)] .
  have paid: "11 * fee \<le> liquid b" using e(2) b by (simp add: balance_at_least_def bigint_balance)
  have flags: "ne_isWhitelisted (decoded b)" "\<not> ne_isWriter (decoded b)"
    using g(2) [OF t7] t e(1) b(3) signed by (auto simp: isRequesterAllowedToChangeRole_def chain_Inr)
  have acc: "account E ra" using ra(1) by (rule bufferToAddress_account)
  have role: "b ! 0 = WHITELISTED" using whitelisted_role [OF ledger_ok_entry [OF l acc b(1)] flags] .
  have nonempty: "bytes (op_address d) \<noteq> []"
    using account_nonempty [of E] acc ra(1) by (auto simp: bufferToAddress_Some ascii_string_def)
  have wk: "batch st (wkaKey d) = None \<or> subarray 1 33 b = bytes (p_iw (payload_of d)) \<and>
      batch st (wkaKey d) = Some (bytes (op_address d))"
    using g(1) [OF t] e(1) b signed st(1) nonempty
    by (auto simp: validateWriterKey_def getRegisteredWriterKey_def sees_def wkaKey_def st_get_def alloc_def
        split: option.splits if_splits)
  show ?thesis
    by (rule addWriter_accepts [OF pre l small role_completed(1) [OF v t7 w n t]])
      (use completion_canonical [OF v w a] validity_matches [OF st(1) f(7) sound_walletD(9) [OF w]] val
        unique_new [OF st(1) f(5)] ra b role wk paid base idx in \<open>simp_all\<close>)
qed

section \<open>REMOVE_WRITER\<close>

text \<open>
  The ledger fails a REMOVE_WRITER whose writer key is not the requester's; a failure counts against the
  validator that completed it.
\<close>

lemma removeWriter_wrong_key:
  assumes v: "removeWriter_verify E op = Some (ra, va)" and i: "indexersMatch E (bytes (p_txv (payload_of op))) st"
    and val: "isValidatorValidApply (batch st va) node" and new: "batch st (txKey op) = None"
    and b: "batch st ra = Some b" "length b = 69" and wk: "subarray 1 33 b \<noteq> bytes (p_iw (payload_of op))"
  shows "handleApplyRemoveWriterOperation E op node st = Some (FAILURE, st)"
  using assms by (simp add: handleApplyRemoveWriterOperation_def removeWriter_def Let_def txKey_def)

lemma removeWriter_unchecked:
  assumes v: "partial_validator E hash (Some (w_address w)) s d = Inr ()" and t: "op_type d = 6"
    and w: "sound_wallet E hash w" and n: "fresh_for E hash w nonce d" and st: "sees E s st"
    and val: "isValidatorValidApply (batch st (w_address w)) node"
    and wk: "\<And>ra b. requesterAddress E d = Some ra \<Longrightarrow> batch st ra = Some b \<Longrightarrow> subarray 1 33 b \<noteq> bytes (p_iw (payload_of d))"
  shows "handleApplyRemoveWriterOperation E (completion E hash w nonce d) node st = Some (FAILURE, st)"
proof -
  note f = partial_validator_facts [OF v] and g = partial_validator_special(6) [OF v]
  have t7: "op_type d = 5 \<or> op_type d = 6 \<or> op_type d = 7" using t by simp
  obtain ra where ra: "bufferToAddress E (bytes (op_address d)) = Some ra" "requesterAddress E d = Some ra"
    "length (address_decodeSafe E (Some ra)) = 32" using requester_valid [OF f(4)] .
  obtain b where b: "batch st ra = Some b" "length b = 69" "fee \<le> liquid b" using can_pay [OF st _ ra(2)] g t by blast
  show ?thesis
    by (rule removeWriter_wrong_key [OF role_completed(2) [OF v t7 w n t], where b = b])
      (use validity_matches [OF st f(7) sound_walletD(9) [OF w]] val unique_new [OF st f(5)] ra b wk [OF ra(2) b(1)] in \<open>simp_all\<close>)
qed

end
