(* ===== verification/Codec_Spec.thy ===== *)
theory Codec_Spec
  imports Codec
begin

text \<open>
  The contract of the wire library as a locale, the wire form of an operation, and what
  follows for the codec: the encoder fills its buffer exactly, the decoder ends on every buffer,
  returns only operations of the right shape, and inverts the encoder. The contract is
  interpreted on the protobuf wire format itself: LEB128 numbers and length-prefixed bytes.
\<close>

section \<open>The contract\<close>

locale wire_format =
  fixes w :: wire
  assumes varint_length: "varint_length w n = length (varint_encode w n)"
    and bytes_length: "bytes_length w b = length (bytes_encode w b)"
    and enum_length: "enum_length w n = length (enum_encode w n)"
    and allocUnsafe: "length (allocUnsafe w n) = n"
    and varint_roundtrip: "n < 2 ^ 53 \<Longrightarrow>
      varint_decode w (p @ varint_encode w n @ q) (length p) = Some (n, length (varint_encode w n))"
    and varint_small: "n < 128 \<Longrightarrow> varint_encode w n = [word_of_nat n]"
    and varint_advances: "varint_decode w buf i = Some (n, k) \<Longrightarrow> 0 < k"
    and bytes_roundtrip: "length b < 2 ^ 53 \<Longrightarrow>
      bytes_decode w (p @ bytes_encode w b @ q) (length p) = Some (b, length (bytes_encode w b))"
    and enum_roundtrip: "n < 2 ^ 31 \<Longrightarrow>
      enum_decode w (p @ enum_encode w n @ q) (length p) = Some (int n, length (enum_encode w n))"
    and skip_advances: "skip_field w t buf i = Some j \<Longrightarrow> i \<le> j"

section \<open>The wire form of fields\<close>

fun field_wire :: "wire \<Rightarrow> byte \<times> field \<Rightarrow> buffer" where
  "field_wire w (key, f) = (case f of Bytes b \<Rightarrow> key # bytes_encode w b | _ \<Rightarrow> [])"

definition fields_wire :: "wire \<Rightarrow> (byte \<times> field) list \<Rightarrow> buffer" where
  "fields_wire w fs = concat (map (field_wire w) fs)"

lemma fields_wire_simps [simp]:
  "fields_wire w [] = []" "fields_wire w (x # fs) = field_wire w x @ fields_wire w fs"
  by (simp_all add: fields_wire_def)

lemma copy_into_append:
  assumes "length src \<le> length rest"
  shows "copy_into src (length pre) (pre @ rest) = pre @ src @ drop (length src) rest"
  using assms by (simp add: copy_into_def)

lemma update_append: "rest \<noteq> [] \<Longrightarrow> (pre @ rest)[length pre := x] = pre @ x # drop 1 rest"
  by (cases rest) simp_all

lemma encode_fields_eq:
  assumes "length (fields_wire w fs) \<le> length rest"
  shows "encode_fields w fs (pre @ rest) (length pre) =
    (pre @ fields_wire w fs @ drop (length (fields_wire w fs)) rest, length pre + length (fields_wire w fs))"
  using assms
proof (induction fs arbitrary: pre rest)
  case Nil
  then show ?case by simp
next
  case (Cons x fs)
  obtain key f where x: "x = (key, f)" by (cases x)
  show ?case
  proof (cases f)
    case (Bytes b)
    let ?e = "bytes_encode w b"
    have len: "1 + length ?e + length (fields_wire w fs) \<le> length rest" using Cons.prems x Bytes by simp
    then have rest: "rest \<noteq> []" by auto
    have copy: "copy_into ?e (Suc (length pre)) ((pre @ rest)[length pre := key]) =
        (pre @ key # ?e) @ drop (1 + length ?e) rest"
      using len copy_into_append [of ?e "drop 1 rest" "pre @ [key]"] by (simp add: update_append [OF rest])
    show ?thesis
      using Cons.IH [of "drop (1 + length ?e) rest" "pre @ key # ?e"] len
      by (simp add: x Bytes Let_def copy add.assoc add.commute add.left_commute)
  qed (use Cons x in auto)
qed

section \<open>The tables of the messages\<close>

fun payload_fields :: "op_value \<Rightarrow> (byte \<times> field) list" where
  "payload_fields NoValue = []"
| "payload_fields (Cao p) = [(10, p_tx p), (18, p_txv p), (26, p_iw p), (34, p_in p), (42, p_is p)]"
| "payload_fields (Aco p) = [(10, p_tx p), (18, p_txv p), (26, p_ia p), (34, p_in p), (42, p_is p)]"
| "payload_fields (Bio p) = [(10, p_tx p), (18, p_txv p), (26, p_ia p), (34, p_am p), (42, p_in p), (50, p_is p)]"
| "payload_fields (Tro p) = [(10, p_tx p), (18, p_txv p), (26, p_to p), (34, p_am p), (42, p_in p), (50, p_is p),
     (58, p_va p), (66, p_vn p), (74, p_vs p)]"
| "payload_fields (Rao p) = [(10, p_tx p), (18, p_txv p), (26, p_iw p), (34, p_in p), (42, p_is p),
     (50, p_va p), (58, p_vn p), (66, p_vs p)]"
| "payload_fields (Bdo p) = [(10, p_tx p), (18, p_txv p), (26, p_bs p), (34, p_ic p), (42, p_in p), (50, p_is p),
     (58, p_va p), (66, p_vn p), (74, p_vs p)]"
| "payload_fields (Txo p) = [(10, p_tx p), (18, p_txv p), (26, p_iw p), (34, p_ch p), (42, p_bs p), (50, p_mbs p),
     (58, p_in p), (66, p_is p), (74, p_va p), (82, p_vn p), (90, p_vs p)]"

fun payload_key :: "op_value \<Rightarrow> byte" where
  "payload_key (Cao _) = 26" | "payload_key (Aco _) = 34" | "payload_key (Bio _) = 42"
| "payload_key (Tro _) = 50" | "payload_key (Rao _) = 58" | "payload_key (Bdo _) = 66"
| "payload_key (Txo _) = 74" | "payload_key NoValue = 0"

lemmas encode_defs = CoreAdminOperation_encode_def AdminControlOperation_encode_def
  BalanceInitializationOperation_encode_def TransferOperation_encode_def RoleAccessOperation_encode_def
  TxOperation_encode_def BootstrapDeploymentOperation_encode_def

lemmas length_defs = CoreAdminOperation_encodingLength_def AdminControlOperation_encodingLength_def
  BalanceInitializationOperation_encodingLength_def TransferOperation_encodingLength_def
  RoleAccessOperation_encodingLength_def TxOperation_encodingLength_def
  BootstrapDeploymentOperation_encodingLength_def

lemmas decode_defs = CoreAdminOperation_decode_def AdminControlOperation_decode_def
  BalanceInitializationOperation_decode_def TransferOperation_decode_def RoleAccessOperation_decode_def
  TxOperation_decode_def BootstrapDeploymentOperation_decode_def

lemmas null_defs = CoreAdminOperation_null_def AdminControlOperation_null_def
  BalanceInitializationOperation_null_def TransferOperation_null_def RoleAccessOperation_null_def
  TxOperation_null_def BootstrapDeploymentOperation_null_def empty_payload_def

lemmas set_defs = set_tx_def set_txv_def set_iw_def set_ia_def set_am_def set_in_def set_is_def set_to_def
  set_ch_def set_bs_def set_mbs_def set_ic_def set_va_def set_vn_def set_vs_def

lemma payload_encodingLength_fields:
  "payload_encodingLength w v = fields_length w (map snd (payload_fields v))"
  by (cases v) (simp_all add: payload_encodingLength_def length_defs)

text \<open>The wire form of an operation.\<close>

definition payload_wire :: "wire \<Rightarrow> op_value \<Rightarrow> buffer" where
  "payload_wire w v = (if v = NoValue then []
     else payload_key v # varint_encode w (length (fields_wire w (payload_fields v))) @
       fields_wire w (payload_fields v))"

definition operation_wire :: "wire \<Rightarrow> operation \<Rightarrow> buffer" where
  "operation_wire w op = 8 # enum_encode w (op_type op) @ field_wire w (18, op_address op) @
     payload_wire w (op_value op)"

text \<open>Operations of the right shape: a field of the message is there, if only as \<open>null\<close>, no other is.\<close>

fun shaped :: "op_value \<Rightarrow> bool" where
  "shaped NoValue \<longleftrightarrow> True"
| "shaped (Cao p) \<longleftrightarrow> none_of [p_ia, p_am, p_to, p_ch, p_bs, p_mbs, p_ic, p_va, p_vn, p_vs] p \<and>
     list_all (\<lambda>(_, f). f \<noteq> Absent) (payload_fields (Cao p))"
| "shaped (Aco p) \<longleftrightarrow> none_of [p_iw, p_am, p_to, p_ch, p_bs, p_mbs, p_ic, p_va, p_vn, p_vs] p \<and>
     list_all (\<lambda>(_, f). f \<noteq> Absent) (payload_fields (Aco p))"
| "shaped (Bio p) \<longleftrightarrow> none_of [p_iw, p_to, p_ch, p_bs, p_mbs, p_ic, p_va, p_vn, p_vs] p \<and>
     list_all (\<lambda>(_, f). f \<noteq> Absent) (payload_fields (Bio p))"
| "shaped (Tro p) \<longleftrightarrow> none_of [p_iw, p_ia, p_ch, p_bs, p_mbs, p_ic] p \<and> list_all (\<lambda>(_, f). f \<noteq> Absent) (payload_fields (Tro p))"
| "shaped (Rao p) \<longleftrightarrow> none_of [p_ia, p_am, p_to, p_ch, p_bs, p_mbs, p_ic] p \<and> list_all (\<lambda>(_, f). f \<noteq> Absent) (payload_fields (Rao p))"
| "shaped (Bdo p) \<longleftrightarrow> none_of [p_iw, p_ia, p_am, p_to, p_ch, p_mbs] p \<and> list_all (\<lambda>(_, f). f \<noteq> Absent) (payload_fields (Bdo p))"
| "shaped (Txo p) \<longleftrightarrow> none_of [p_ia, p_am, p_to, p_ic] p \<and> list_all (\<lambda>(_, f). f \<noteq> Absent) (payload_fields (Txo p))"

definition shaped_operation :: "operation \<Rightarrow> bool" where
  "shaped_operation op \<longleftrightarrow> op_address op \<noteq> Absent \<and> shaped (op_value op)"

section \<open>What the decoder returns has the shape\<close>

lemma decode_loop_invariant:
  assumes "decode_loop w arm buf end obj offset = Some r" "P obj"
    and "\<And>tag t o1 i o2 j. P o1 \<Longrightarrow> arm tag t o1 i = Some (Returns (o2, j)) \<Longrightarrow> P o2"
    and "r = Returns (obj', offset')"
  shows "P obj'"
proof -
  let ?Q = "\<lambda>arm. \<forall>tag t o1 i o2 j. P o1 \<longrightarrow> arm tag t o1 i = Some (Returns (o2, j)) \<longrightarrow> P o2"
  have "?Q arm \<longrightarrow> P obj \<longrightarrow> (\<forall>obj' offset'. r = Returns (obj', offset') \<longrightarrow> P obj')"
  proof (rule decode_loop.raw_induct [OF _ assms(1)], intro impI allI, goal_cases)
    case (1 loop w arm buf "end" obj offset r obj' offset')
    show ?case
    proof (cases "end \<le> offset")
      case True
      then show ?thesis using 1(2,4,5) by simp
    next
      case False
      obtain prefix n where v: "varint_decode w buf offset = Some (prefix, n)"
        using False 1(2,5) by (auto split: option.splits)
      obtain q where q: "arm (tag_of prefix) (prefix mod 8) obj (offset + n) = Some (Returns q)"
        "loop w arm buf end (fst q) (snd q) = Some r"
        using False v 1(2,5) by (auto split: option.splits thrown.splits)
      have "P (fst q)" using 1(3) [rule_format, OF 1(4), of "tag_of prefix" "prefix mod 8" "offset + n" "fst q" "snd q"] q(1)
        by simp
      then show ?thesis using 1(1) [OF q(2)] 1(3,5) by blast
    qed
  qed
  then show ?thesis using assms(2-4) by blast
qed

lemma decode_message_invariant:
  assumes "decode_message w arm obj buf offset end = Some (Returns (obj', n))" "P obj"
    and "\<And>tag t o1 i o2 j. P o1 \<Longrightarrow> arm buf tag t o1 i = Some (Returns (o2, j)) \<Longrightarrow> P o2"
  shows "P obj'"
proof -
  obtain e offset' where "decode_loop w (arm buf) buf e obj offset = Some (Returns (obj', offset'))"
    using assms(1) by (auto simp: decode_message_def Let_def split: if_splits option.splits thrown.splits)
  then show ?thesis using decode_loop_invariant [where P = P] assms(2,3) by blast
qed

lemma bytes_arms_invariant:
  assumes "bytes_arms w cases buf tag t obj i = Some (Returns (obj', j))" "P obj"
    and "\<forall>assign \<in> snd ` set cases. \<forall>b obj. P obj \<longrightarrow> P (assign (Bytes b) obj)"
  shows "P obj'"
  using assms
  by (auto simp: bytes_arms_def split: option.splits dest!: map_of_SomeD)

lemma fields_invariant:
  assumes "decode_message w (bytes_arms w cases) obj buf i e = Some (Returns (obj', n))" "P obj"
    and "\<forall>assign \<in> snd ` set cases. \<forall>b obj. P obj \<longrightarrow> P (assign (Bytes b) obj)"
  shows "P obj'"
  using assms(1,2) by (rule decode_message_invariant) (rule bytes_arms_invariant [OF _ _ assms(3)])

lemma payload_shaped:
  "CoreAdminOperation_decode w buf i e = Some (Returns (p, n)) \<Longrightarrow> shaped (Cao p)"
  "AdminControlOperation_decode w buf i e = Some (Returns (p, n)) \<Longrightarrow> shaped (Aco p)"
  "BalanceInitializationOperation_decode w buf i e = Some (Returns (p, n)) \<Longrightarrow> shaped (Bio p)"
  "TransferOperation_decode w buf i e = Some (Returns (p, n)) \<Longrightarrow> shaped (Tro p)"
  "RoleAccessOperation_decode w buf i e = Some (Returns (p, n)) \<Longrightarrow> shaped (Rao p)"
  "TxOperation_decode w buf i e = Some (Returns (p, n)) \<Longrightarrow> shaped (Txo p)"
  "BootstrapDeploymentOperation_decode w buf i e = Some (Returns (p, n)) \<Longrightarrow> shaped (Bdo p)"
  unfolding decode_defs
  by (erule fields_invariant; simp add: null_defs none_of_def set_defs)+

lemma decode_nested_op:
  assumes "decode_nested w con decode buf obj i = Some (Returns (obj', j))"
  obtains p k e n where "decode buf k e = Some (Returns (p, n))" "obj' = obj\<lparr>op_value := con p\<rparr>"
  using assms by (auto simp: decode_nested_def Let_def split: option.splits thrown.splits prod.splits)

lemma operation_arms_shaped:
  assumes "operation_arms w buf tag t obj i = Some (Returns (obj', j))" "shaped_operation obj"
  shows "shaped_operation obj'"
  using assms
  by (auto simp: operation_arms_def shaped_operation_def payload_shaped simp del: shaped.simps
      split: if_splits option.splits elim!: decode_nested_op)

lemma decode_shaped:
  assumes "safeDecodeApplyOperation w buf = Some op"
  shows "shaped_operation op"
proof -
  obtain n where d: "decode_message w (operation_arms w) \<lparr>op_type = 0, op_address = Null, op_value = NoValue\<rparr> buf 0 0 =
      Some (Returns (op, n))"
    using assms unfolding safeDecodeApplyOperation_def Operation_decode_buf_def
    by (auto split: option.splits thrown.splits)
  show ?thesis
    by (rule decode_message_invariant [OF d]) (simp add: shaped_operation_def, rule operation_arms_shaped)
qed

section \<open>The loops end\<close>

lemma decode_loop_total:
  assumes "\<And>i n k. varint_decode w buf i = Some (n, k) \<Longrightarrow> 0 < k"
    and "\<And>tag t o1 i. arm tag t o1 i \<noteq> None"
    and "\<And>tag t o1 i o2 j. arm tag t o1 i = Some (Returns (o2, j)) \<Longrightarrow> i \<le> j"
  shows "decode_loop w arm buf end obj offset \<noteq> None \<and>
    (\<forall>obj' j. decode_loop w arm buf end obj offset = Some (Returns (obj', j)) \<longrightarrow> offset \<le> j)"
proof (induction "end - offset" arbitrary: obj offset rule: less_induct)
  case less
  show ?case
  proof (cases "end \<le> offset")
    case True
    then show ?thesis by (simp add: decode_loop.simps)
  next
    case False
    show ?thesis
    proof (cases "varint_decode w buf offset")
      case None
      then show ?thesis using False by (simp add: decode_loop.simps)
    next
      case (Some v)
      obtain prefix n where v: "v = (prefix, n)" by (cases v)
      have n: "0 < n" using assms(1) Some v by blast
      obtain r where r: "arm (tag_of prefix) (prefix mod 8) obj (offset + n) = Some r" using assms(2) by blast
      show ?thesis
      proof (cases r)
        case (Returns q)
        have q: "offset + n \<le> snd q" using assms(3) r Returns by (metis prod.collapse)
        have IH: "decode_loop w arm buf end (fst q) (snd q) \<noteq> None \<and>
            (\<forall>obj' j. decode_loop w arm buf end (fst q) (snd q) = Some (Returns (obj', j)) \<longrightarrow> snd q \<le> j)"
          by (rule less) (use q n False in simp)
        have "decode_loop w arm buf end obj offset = decode_loop w arm buf end (fst q) (snd q)"
          by (subst decode_loop.simps) (use False Some v r Returns in simp)
        then show ?thesis using IH q by fastforce
      next
        case Throws
        then show ?thesis using False Some v r by (simp add: decode_loop.simps)
      qed
    qed
  qed
qed

text \<open>A field read back, or left \<open>null\<close>, is the field that was written.\<close>

definition assign :: "(field \<Rightarrow> payload \<Rightarrow> payload) \<Rightarrow> field \<Rightarrow> payload \<Rightarrow> payload" where
  "assign set_field f obj = (case f of Bytes b \<Rightarrow> set_field f obj | _ \<Rightarrow> obj)"

fun assign_field :: "(int \<times> (field \<Rightarrow> payload \<Rightarrow> payload)) list \<Rightarrow> byte \<times> field \<Rightarrow> payload \<Rightarrow> payload" where
  "assign_field cases (key, f) obj = assign (the (map_of cases (int (unat key div 8)))) f obj"

lemma assign_rules:
  "p_tx obj = Null \<Longrightarrow> f \<noteq> Absent \<Longrightarrow> assign set_tx f obj = obj\<lparr>p_tx := f\<rparr>"
  "p_txv obj = Null \<Longrightarrow> f \<noteq> Absent \<Longrightarrow> assign set_txv f obj = obj\<lparr>p_txv := f\<rparr>"
  "p_iw obj = Null \<Longrightarrow> f \<noteq> Absent \<Longrightarrow> assign set_iw f obj = obj\<lparr>p_iw := f\<rparr>"
  "p_ia obj = Null \<Longrightarrow> f \<noteq> Absent \<Longrightarrow> assign set_ia f obj = obj\<lparr>p_ia := f\<rparr>"
  "p_am obj = Null \<Longrightarrow> f \<noteq> Absent \<Longrightarrow> assign set_am f obj = obj\<lparr>p_am := f\<rparr>"
  "p_in obj = Null \<Longrightarrow> f \<noteq> Absent \<Longrightarrow> assign set_in f obj = obj\<lparr>p_in := f\<rparr>"
  "p_is obj = Null \<Longrightarrow> f \<noteq> Absent \<Longrightarrow> assign set_is f obj = obj\<lparr>p_is := f\<rparr>"
  "p_to obj = Null \<Longrightarrow> f \<noteq> Absent \<Longrightarrow> assign set_to f obj = obj\<lparr>p_to := f\<rparr>"
  "p_ch obj = Null \<Longrightarrow> f \<noteq> Absent \<Longrightarrow> assign set_ch f obj = obj\<lparr>p_ch := f\<rparr>"
  "p_bs obj = Null \<Longrightarrow> f \<noteq> Absent \<Longrightarrow> assign set_bs f obj = obj\<lparr>p_bs := f\<rparr>"
  "p_mbs obj = Null \<Longrightarrow> f \<noteq> Absent \<Longrightarrow> assign set_mbs f obj = obj\<lparr>p_mbs := f\<rparr>"
  "p_ic obj = Null \<Longrightarrow> f \<noteq> Absent \<Longrightarrow> assign set_ic f obj = obj\<lparr>p_ic := f\<rparr>"
  "p_va obj = Null \<Longrightarrow> f \<noteq> Absent \<Longrightarrow> assign set_va f obj = obj\<lparr>p_va := f\<rparr>"
  "p_vn obj = Null \<Longrightarrow> f \<noteq> Absent \<Longrightarrow> assign set_vn f obj = obj\<lparr>p_vn := f\<rparr>"
  "p_vs obj = Null \<Longrightarrow> f \<noteq> Absent \<Longrightarrow> assign set_vs f obj = obj\<lparr>p_vs := f\<rparr>"
  by (cases f; simp add: set_defs assign_def)+

lemma assign_payload:
  "shaped (Cao p) \<Longrightarrow> fold (assign_field
     [(1, set_tx), (2, set_txv), (3, set_iw), (4, set_in), (5, set_is)])
     (payload_fields (Cao p)) CoreAdminOperation_null = p"
  "shaped (Aco p) \<Longrightarrow> fold (assign_field
     [(1, set_tx), (2, set_txv), (3, set_ia), (4, set_in), (5, set_is)])
     (payload_fields (Aco p)) AdminControlOperation_null = p"
  "shaped (Bio p) \<Longrightarrow> fold (assign_field
     [(1, set_tx), (2, set_txv), (3, set_ia), (4, set_am), (5, set_in), (6, set_is)])
     (payload_fields (Bio p)) BalanceInitializationOperation_null = p"
  "shaped (Tro p) \<Longrightarrow> fold (assign_field
     [(1, set_tx), (2, set_txv), (3, set_to), (4, set_am), (5, set_in), (6, set_is), (7, set_va), (8, set_vn), (9, set_vs)])
     (payload_fields (Tro p)) TransferOperation_null = p"
  "shaped (Rao p) \<Longrightarrow> fold (assign_field
     [(1, set_tx), (2, set_txv), (3, set_iw), (4, set_in), (5, set_is), (6, set_va), (7, set_vn), (8, set_vs)])
     (payload_fields (Rao p)) RoleAccessOperation_null = p"
  "shaped (Txo p) \<Longrightarrow> fold (assign_field
     [(1, set_tx), (2, set_txv), (3, set_iw), (4, set_ch), (5, set_bs), (6, set_mbs), (7, set_in), (8, set_is), (9, set_va), (10, set_vn), (11, set_vs)])
     (payload_fields (Txo p)) TxOperation_null = p"
  "shaped (Bdo p) \<Longrightarrow> fold (assign_field
     [(1, set_tx), (2, set_txv), (3, set_bs), (4, set_ic), (5, set_in), (6, set_is), (7, set_va), (8, set_vn), (9, set_vs)])
     (payload_fields (Bdo p)) BootstrapDeploymentOperation_null = p"
  by (cases p, simp add: none_of_def null_defs assign_rules)+

definition fields_fit :: "(byte \<times> field) list \<Rightarrow> bool" where
  "fields_fit fs \<longleftrightarrow> (\<forall>b. Bytes b \<in> snd ` set fs \<longrightarrow> length b < 2 ^ 53)"

context wire_format
begin

lemma decode_message_total:
  assumes "\<And>tag t o1 i. arm buf tag t o1 i \<noteq> None"
    and "\<And>tag t o1 i o2 j. arm buf tag t o1 i = Some (Returns (o2, j)) \<Longrightarrow> i \<le> j"
  shows "decode_message w arm obj buf offset end \<noteq> None"
proof -
  have "decode_loop w (arm buf) buf e obj offset \<noteq> None" for e
    using decode_loop_total [of w buf "arm buf" e obj offset] varint_advances assms by blast
  then show ?thesis
    by (auto simp: decode_message_def Let_def simp del: not_None_eq split: option.splits thrown.splits)
qed

lemma fields_total: "decode_message w (bytes_arms w cases) obj buf offset end \<noteq> None"
  by (rule decode_message_total)
    (auto simp: bytes_arms_def split: option.splits dest: skip_advances)

lemma decode_nested_total:
  "(\<And>k e. decode buf k e \<noteq> None) \<Longrightarrow> decode_nested w con decode buf obj i \<noteq> None"
  by (auto simp: decode_nested_def Let_def simp del: not_None_eq split: option.splits thrown.splits)

lemma decode_nested_advances: "decode_nested w con decode buf obj i = Some (Returns (obj', j)) \<Longrightarrow> i \<le> j"
  by (auto simp: decode_nested_def Let_def split: option.splits thrown.splits)

lemma payload_total:
  "CoreAdminOperation_decode w buf k e \<noteq> None" "AdminControlOperation_decode w buf k e \<noteq> None"
  "BalanceInitializationOperation_decode w buf k e \<noteq> None" "TransferOperation_decode w buf k e \<noteq> None"
  "RoleAccessOperation_decode w buf k e \<noteq> None" "TxOperation_decode w buf k e \<noteq> None"
  "BootstrapDeploymentOperation_decode w buf k e \<noteq> None"
  unfolding decode_defs by (rule fields_total)+

lemma operation_arms_total:
  "operation_arms w buf tag t obj i \<noteq> None"
  "operation_arms w buf tag t obj i = Some (Returns (obj', j)) \<Longrightarrow> i \<le> j"
  by (auto simp: operation_arms_def decode_nested_total payload_total simp del: not_None_eq
      split: if_splits option.splits dest: skip_advances decode_nested_advances)

lemma Operation_decode_total: "Operation_decode_buf w buf offset end \<noteq> None"
  unfolding Operation_decode_buf_def
  by (rule decode_message_total) (auto simp: operation_arms_total)

text \<open>Reading back what \<open>encode_fields\<close> wrote.\<close>

lemma tag_of_key: "n < 128 \<Longrightarrow> tag_of n = int (n div 8)"
  by (simp add: tag_of_def signed_of_nat signed_take_bit_int_eq_self zdiv_int)

lemma key_decode:
  assumes "key < 128"
  shows "varint_decode w (p @ key # q) (length p) = Some (unat key, 1)"
proof -
  have "unat key < 128" using assms by (simp add: word_less_nat_alt)
  then have "varint_encode w (unat key) = [key]" using varint_small [of "unat key"] by simp
  then show ?thesis using varint_roundtrip [of "unat key" p q] \<open>unat key < 128\<close> by simp
qed

lemma decode_fields:
  assumes "\<forall>(key, f) \<in> set fs. key < 128 \<and> map_of cases (int (unat key div 8)) \<noteq> None \<and>
      (\<forall>b. f = Bytes b \<longrightarrow> length b < 2 ^ 53)"
  shows "decode_loop w (bytes_arms w cases (pre @ fields_wire w fs @ post)) (pre @ fields_wire w fs @ post)
      (length pre + length (fields_wire w fs)) obj (length pre) =
    Some (Returns (fold (assign_field cases) fs obj,
      length pre + length (fields_wire w fs)))"
  using assms
proof (induction fs arbitrary: pre obj)
  case Nil
  then show ?case by (simp add: decode_loop.simps)
next
  case (Cons x fs)
  obtain key f where x: "x = (key, f)" by (cases x)
  show ?case
  proof (cases f)
    case (Bytes b)
    let ?e = "bytes_encode w b" and ?buf = "pre @ fields_wire w (x # fs) @ post"
    let ?pre = "pre @ key # ?e"
    have key: "key < 128" "length b < 2 ^ 53" and c: "map_of cases (int (unat key div 8)) \<noteq> None"
      using Cons.prems x Bytes by auto
    obtain g where g: "map_of cases (int (unat key div 8)) = Some g" using c by blast
    have buf: "?buf = pre @ key # ?e @ fields_wire w fs @ post" "?buf = ?pre @ fields_wire w fs @ post"
      using x Bytes by simp_all
    have v: "varint_decode w ?buf (length pre) = Some (unat key, 1)"
      unfolding buf(1) using key_decode [OF key(1)] by simp
    have b: "bytes_decode w ?buf (length pre + 1) = Some (b, length ?e)"
      unfolding buf(1) using bytes_roundtrip [OF key(2), of "pre @ [key]" "fields_wire w fs @ post"] by simp
    have "unat key < 128" using key(1) by (simp add: word_less_nat_alt)
    then have arm: "bytes_arms w cases ?buf (tag_of (unat key)) (unat key mod 8) obj (length pre + 1) =
        Some (Returns (g (Bytes b) obj, length ?pre))"
      using b g by (simp add: bytes_arms_def tag_of_key)
    have len: "length pre + length (fields_wire w (x # fs)) = length ?pre + length (fields_wire w fs)"
      using x Bytes by simp
    have step: "decode_loop w (bytes_arms w cases ?buf) ?buf (length ?pre + length (fields_wire w fs)) obj (length pre) =
        decode_loop w (bytes_arms w cases ?buf) ?buf (length ?pre + length (fields_wire w fs)) (g (Bytes b) obj) (length ?pre)"
      by (subst decode_loop.simps) (simp only: v arm option.case prod.case thrown.case fst_conv snd_conv, simp)
    show ?thesis
      unfolding len step unfolding buf(2)
      using Cons.IH [of ?pre "g (Bytes b) obj"] Cons.prems x Bytes g by (simp add: assign_def)
  qed (use Cons x in \<open>auto simp: assign_def\<close>)
qed

text \<open>The whole operation.\<close>

lemma fields_length_eq: "fields_length w (map snd fs) = length (fields_wire w fs)"
  by (induction fs) (auto simp: bytes_length split: field.splits)

lemma payload_wire_NoValue [simp]: "payload_wire w NoValue = []"
  by (simp add: payload_wire_def)

lemma Operation_encodingLength_eq: "Operation_encodingLength w op = length (operation_wire w op)"
  by (cases "op_value op")
    (auto simp: Operation_encodingLength_def operation_wire_def payload_wire_def Let_def payload_encodingLength_fields
      fields_length_eq enum_length bytes_length varint_length simp del: payload_fields.simps split: field.splits)

lemma encode_nested_eq:
  assumes "len = length (fields_wire w fs)" "1 + length (varint_encode w len) + len \<le> length rest"
  shows "fst (encode_nested w key len (encode_fields w fs) (pre @ rest) (length pre)) =
    pre @ key # varint_encode w len @ fields_wire w fs @ drop (1 + length (varint_encode w len) + len) rest"
proof -
  let ?v = "varint_encode w len"
  have rest: "rest \<noteq> []" using assms(2) by auto
  have "copy_into ?v (Suc (length pre)) ((pre @ rest)[length pre := key]) = (pre @ key # ?v) @ drop (1 + length ?v) rest"
    using assms(2) copy_into_append [of ?v "drop 1 rest" "pre @ [key]"] by (simp add: update_append [OF rest])
  moreover have "Suc (length pre + length ?v) = length (pre @ key # ?v)" by simp
  ultimately show ?thesis
    using encode_fields_eq [of w fs "drop (1 + length ?v) rest" "pre @ key # ?v"] assms
    by (simp add: encode_nested_def Let_def add.commute add.left_commute)
qed

lemma payload_encode_cases:
  assumes "v \<noteq> NoValue"
  shows "(case v of NoValue \<Rightarrow> (buf, offset)
         | Cao p \<Rightarrow> encode_nested w 26 (CoreAdminOperation_encodingLength w p) (CoreAdminOperation_encode w p) buf offset
         | Aco p \<Rightarrow> encode_nested w 34 (AdminControlOperation_encodingLength w p) (AdminControlOperation_encode w p) buf offset
         | Bio p \<Rightarrow> encode_nested w 42 (BalanceInitializationOperation_encodingLength w p) (BalanceInitializationOperation_encode w p) buf offset
         | Tro p \<Rightarrow> encode_nested w 50 (TransferOperation_encodingLength w p) (TransferOperation_encode w p) buf offset
         | Rao p \<Rightarrow> encode_nested w 58 (RoleAccessOperation_encodingLength w p) (RoleAccessOperation_encode w p) buf offset
         | Bdo p \<Rightarrow> encode_nested w 66 (BootstrapDeploymentOperation_encodingLength w p) (BootstrapDeploymentOperation_encode w p) buf offset
         | Txo p \<Rightarrow> encode_nested w 74 (TxOperation_encodingLength w p) (TxOperation_encode w p) buf offset) =
    encode_nested w (payload_key v) (length (fields_wire w (payload_fields v))) (encode_fields w (payload_fields v)) buf offset"
  using assms payload_encodingLength_fields [of w v]
  by (cases v) (simp_all add: fields_length_eq payload_encodingLength_def encode_defs del: payload_fields.simps,
    simp_all)

lemma Operation_encode_eq: "Operation_encode w op = operation_wire w op"
proof -
  let ?n = "Operation_encodingLength w op" and ?e = "enum_encode w (op_type op)" and ?a = "field_wire w (18, op_address op)"
    and ?v = "op_value op"
  let ?buf = "allocUnsafe w ?n"
  have n: "length ?buf = 1 + length ?e + length ?a + length (payload_wire w ?v)"
    by (simp add: allocUnsafe Operation_encodingLength_eq operation_wire_def)
  then have ne: "?buf \<noteq> []" by auto
  have 1: "copy_into ?e (Suc 0) (?buf[0 := 8]) = 8 # ?e @ drop (Suc (length ?e)) ?buf"
    using copy_into_append [of ?e "drop 1 ?buf" "[8]"] n update_append [OF ne, of "[]" 8] by simp
  have 2: "encode_fields w [(18, op_address op)] (8 # ?e @ drop (Suc (length ?e)) ?buf) (Suc (length ?e)) =
      (8 # ?e @ ?a @ drop (Suc (length ?e + length ?a)) ?buf, Suc (length ?e + length ?a))"
    using encode_fields_eq [of w "[(18, op_address op)]" "drop (1 + length ?e) ?buf" "8 # ?e"] n
    by (simp del: field_wire.simps encode_fields.simps add: add.commute add.left_commute)
  note enc = 1 2 fst_conv prod.case
  show ?thesis
  proof (cases "?v = NoValue")
    case True
    then show ?thesis using n
      by (simp add: Operation_encode_def Let_def enc operation_wire_def del: field_wire.simps encode_fields.simps)
  next
    case False
    let ?f = "payload_fields ?v"
    have p: "payload_wire w ?v = payload_key ?v # varint_encode w (length (fields_wire w ?f)) @ fields_wire w ?f"
      using False by (simp add: payload_wire_def)
    have 3: "fst (encode_nested w (payload_key ?v) (length (fields_wire w ?f)) (encode_fields w ?f)
        (8 # ?e @ ?a @ drop (Suc (length ?e + length ?a)) ?buf) (Suc (length ?e + length ?a))) = 8 # ?e @ ?a @ payload_wire w ?v"
      using encode_nested_eq [of "length (fields_wire w ?f)" ?f "drop (Suc (length ?e + length ?a)) ?buf" "payload_key ?v"
          "8 # ?e @ ?a"] n p
      by (simp del: field_wire.simps)
    show ?thesis
      unfolding Operation_encode_def Let_def payload_encode_cases [OF False]
      by (simp add: enc 3 operation_wire_def del: field_wire.simps encode_fields.simps)
  qed
qed

lemma decode_message_fields:
  assumes "\<forall>(key, f) \<in> set fs. key < 128 \<and> map_of cases (int (unat key div 8)) \<noteq> None" "fields_fit fs"
    and "pre \<noteq> []" "n = length pre + length (fields_wire w fs)"
    and "fold (assign_field cases) fs obj = p"
  shows "decode_message w (bytes_arms w cases) obj (pre @ fields_wire w fs @ post) (length pre) n =
    Some (Returns (p, length (fields_wire w fs)))"
proof -
  have c: "\<forall>(key, f) \<in> set fs. key < 128 \<and> map_of cases (int (unat key div 8)) \<noteq> None \<and>
      (\<forall>b. f = Bytes b \<longrightarrow> length b < 2 ^ 53)"
    using assms(1,2) by (force simp: fields_fit_def)
  show ?thesis
    using decode_fields [OF c, of pre post obj] assms(3-5) by (simp add: decode_message_def)
qed

lemma payload_decode:
  "pre \<noteq> [] \<Longrightarrow> shaped (Cao p) \<Longrightarrow> fields_fit (payload_fields (Cao p)) \<Longrightarrow>
    CoreAdminOperation_decode w (pre @ fields_wire w (payload_fields (Cao p)) @ post) (length pre)
      (length pre + length (fields_wire w (payload_fields (Cao p)))) =
    Some (Returns (p, length (fields_wire w (payload_fields (Cao p)))))"
  "pre \<noteq> [] \<Longrightarrow> shaped (Aco p) \<Longrightarrow> fields_fit (payload_fields (Aco p)) \<Longrightarrow>
    AdminControlOperation_decode w (pre @ fields_wire w (payload_fields (Aco p)) @ post) (length pre)
      (length pre + length (fields_wire w (payload_fields (Aco p)))) =
    Some (Returns (p, length (fields_wire w (payload_fields (Aco p)))))"
  "pre \<noteq> [] \<Longrightarrow> shaped (Bio p) \<Longrightarrow> fields_fit (payload_fields (Bio p)) \<Longrightarrow>
    BalanceInitializationOperation_decode w (pre @ fields_wire w (payload_fields (Bio p)) @ post) (length pre)
      (length pre + length (fields_wire w (payload_fields (Bio p)))) =
    Some (Returns (p, length (fields_wire w (payload_fields (Bio p)))))"
  "pre \<noteq> [] \<Longrightarrow> shaped (Tro p) \<Longrightarrow> fields_fit (payload_fields (Tro p)) \<Longrightarrow>
    TransferOperation_decode w (pre @ fields_wire w (payload_fields (Tro p)) @ post) (length pre)
      (length pre + length (fields_wire w (payload_fields (Tro p)))) =
    Some (Returns (p, length (fields_wire w (payload_fields (Tro p)))))"
  "pre \<noteq> [] \<Longrightarrow> shaped (Rao p) \<Longrightarrow> fields_fit (payload_fields (Rao p)) \<Longrightarrow>
    RoleAccessOperation_decode w (pre @ fields_wire w (payload_fields (Rao p)) @ post) (length pre)
      (length pre + length (fields_wire w (payload_fields (Rao p)))) =
    Some (Returns (p, length (fields_wire w (payload_fields (Rao p)))))"
  "pre \<noteq> [] \<Longrightarrow> shaped (Txo p) \<Longrightarrow> fields_fit (payload_fields (Txo p)) \<Longrightarrow>
    TxOperation_decode w (pre @ fields_wire w (payload_fields (Txo p)) @ post) (length pre)
      (length pre + length (fields_wire w (payload_fields (Txo p)))) =
    Some (Returns (p, length (fields_wire w (payload_fields (Txo p)))))"
  "pre \<noteq> [] \<Longrightarrow> shaped (Bdo p) \<Longrightarrow> fields_fit (payload_fields (Bdo p)) \<Longrightarrow>
    BootstrapDeploymentOperation_decode w (pre @ fields_wire w (payload_fields (Bdo p)) @ post) (length pre)
      (length pre + length (fields_wire w (payload_fields (Bdo p)))) =
    Some (Returns (p, length (fields_wire w (payload_fields (Bdo p)))))"
  unfolding decode_defs
  by (rule decode_message_fields, simp, assumption, assumption, rule refl, erule assign_payload)+

lemma decode_nested_eq:
  assumes "length f < 2 ^ 53" "pre \<noteq> []"
    and "\<And>pre. pre \<noteq> [] \<Longrightarrow> decode (pre @ f @ post) (length pre) (length pre + length f) = Some (Returns (p, length f))"
  shows "decode_nested w con decode (pre @ varint_encode w (length f) @ f @ post) obj (length pre) =
    Some (Returns (obj\<lparr>op_value := con p\<rparr>, length pre + length (varint_encode w (length f)) + length f))"
  using assms(2) assms(3) [of "pre @ varint_encode w (length f)"] varint_roundtrip [OF assms(1), of pre "f @ post"]
  by (simp add: decode_nested_def)

lemma nested_arm:
  assumes "v \<noteq> NoValue" "shaped v" "fields_fit (payload_fields v)" "pre \<noteq> []"
    and "length (fields_wire w (payload_fields v)) < 2 ^ 53"
  shows "operation_arms w (pre @ varint_encode w (length (fields_wire w (payload_fields v))) @ fields_wire w (payload_fields v) @ post)
      (int (unat (payload_key v) div 8)) t obj (length pre) =
    Some (Returns (obj\<lparr>op_value := v\<rparr>,
      length pre + length (varint_encode w (length (fields_wire w (payload_fields v)))) + length (fields_wire w (payload_fields v))))"
  using assms
  by (cases v; simp only: payload_key.simps; simp add: operation_arms_def del: payload_fields.simps shaped.simps;
      intro decode_nested_eq payload_decode; simp del: payload_fields.simps shaped.simps)

lemma decode_loop_step:
  assumes "offset < end" "varint_decode w buf offset = Some (prefix, n)"
    and "arm (tag_of prefix) (prefix mod 8) obj (offset + n) = Some (Returns (obj', j))"
  shows "decode_loop w arm buf end obj offset = decode_loop w arm buf end obj' j"
  using assms by (subst decode_loop.simps) simp

lemma decode_payload:
  assumes "shaped v" "fields_fit (payload_fields v)" "length (fields_wire w (payload_fields v)) < 2 ^ 53" "op_value obj = NoValue"
    and "buf = pre @ payload_wire w v"
  shows "decode_loop w (operation_arms w buf) buf (length buf) obj (length pre) =
    Some (Returns (obj\<lparr>op_value := v\<rparr>, length buf))"
proof (cases "v = NoValue")
  case True
  then show ?thesis using assms(4,5) by (cases obj) (simp add: decode_loop.simps)
next
  case False
  let ?f = "fields_wire w (payload_fields v)"
  have b: "buf = pre @ payload_key v # varint_encode w (length ?f) @ ?f"
    using False assms(5) by (simp add: payload_wire_def)
  have k: "payload_key v < 128" by (cases v) simp_all
  then have u: "unat (payload_key v) < 128" by (simp add: word_less_nat_alt)
  have "operation_arms w buf (tag_of (unat (payload_key v))) t obj (length pre + 1) = Some (Returns (obj\<lparr>op_value := v\<rparr>, length buf))" for t
    using nested_arm [OF False assms(1,2) _ assms(3), of "pre @ [payload_key v]" "[]" t obj] b u by (simp add: tag_of_key)
  then have "decode_loop w (operation_arms w buf) buf (length buf) obj (length pre) =
      decode_loop w (operation_arms w buf) buf (length buf) (obj\<lparr>op_value := v\<rparr>) (length buf)"
    using key_decode [OF k, of pre] b by (intro decode_loop_step) auto
  then show ?thesis by (simp add: decode_loop.simps)
qed

lemma field_wire_arm:
  assumes "buf = pre @ field_wire w (18, f) @ post" "\<And>b. f = Bytes b \<Longrightarrow> length b < 2 ^ 53" "f \<noteq> Absent" "op_address obj = Null"
  shows "decode_loop w (operation_arms w buf) buf (length buf) obj (length pre) =
    decode_loop w (operation_arms w buf) buf (length buf) (obj\<lparr>op_address := f\<rparr>) (length pre + length (field_wire w (18, f)))"
proof (cases f)
  case (Bytes b)
  have buf: "buf = pre @ 18 # bytes_encode w b @ post" using assms(1) Bytes by simp
  have v: "varint_decode w buf (length pre) = Some (unat (18 :: byte), 1)"
    unfolding buf by (rule key_decode) simp
  have "bytes_decode w buf (length pre + 1) = Some (b, length (bytes_encode w b))"
    using bytes_roundtrip [of b "pre @ [18]" post] assms(2) [OF Bytes] buf by simp
  then have "operation_arms w buf (tag_of (unat (18 :: byte))) t obj (length pre + 1) =
      Some (Returns (obj\<lparr>op_address := f\<rparr>, length pre + length (field_wire w (18, f))))" for t
    using Bytes by (simp add: tag_of_key operation_arms_def)
  then show ?thesis by (intro decode_loop_step [OF _ v]) (use buf in auto)
next
  case Null
  then have "obj\<lparr>op_address := f\<rparr> = obj" using assms(4) by (cases obj) simp
  then show ?thesis using Null by simp
qed (use assms(3) in simp)

lemma Operation_decode_wire:
  assumes "shaped_operation op" "op_type op < 2 ^ 31" "length (operation_wire w op) < 2 ^ 53"
    and "fields_fit ((18, op_address op) # payload_fields (op_value op))"
  shows "Operation_decode_buf w (operation_wire w op) 0 0 = Some (Returns (op, length (operation_wire w op)))"
proof -
  let ?buf = "operation_wire w op" and ?e = "enum_encode w (op_type op)" and ?a = "field_wire w (18, op_address op)"
  let ?o = "\<lparr>op_type = 0, op_address = Null, op_value = NoValue\<rparr>"
  let ?o1 = "?o\<lparr>op_type := op_type op\<rparr>"
  have b: "?buf = 8 # ?e @ ?a @ payload_wire w (op_value op)" by (simp add: operation_wire_def)
  have fit: "\<And>b. op_address op = Bytes b \<Longrightarrow> length b < 2 ^ 53" "fields_fit (payload_fields (op_value op))"
    using assms(4) by (auto simp: fields_fit_def)
  have "decode_loop w (operation_arms w ?buf) ?buf (length ?buf) ?o 0 =
      decode_loop w (operation_arms w ?buf) ?buf (length ?buf) ?o1 (length (8 # ?e))"
    by (rule decode_loop_step [where prefix = 8 and n = 1])
      (use key_decode [of 8 "[]"] enum_roundtrip [OF assms(2), of "[8]"] b in \<open>simp_all add: tag_of_key operation_arms_def\<close>)
  also have "\<dots> = decode_loop w (operation_arms w ?buf) ?buf (length ?buf) (?o1\<lparr>op_address := op_address op\<rparr>) (length (8 # ?e) + length ?a)"
    by (rule field_wire_arm) (use b fit assms(1) in \<open>auto simp: shaped_operation_def\<close>)
  also have "\<dots> = Some (Returns (?o1\<lparr>op_address := op_address op, op_value := op_value op\<rparr>, length ?buf))"
    using decode_payload [of "op_value op" "?o1\<lparr>op_address := op_address op\<rparr>" ?buf "8 # ?e @ ?a"] b fit(2) assms(1,3)
    by (auto simp: shaped_operation_def payload_wire_def split: if_splits)
  also have "?o1\<lparr>op_address := op_address op, op_value := op_value op\<rparr> = op" by (cases op) simp
  finally show ?thesis by (simp add: Operation_decode_buf_def decode_message_def)
qed

end

section \<open>The protobuf wire format\<close>

text \<open>
  The format that \<open>protocol-buffers-encodings\<close> documents: numbers in groups of seven bits, the least significant
  first, the top bit of a byte telling that more follow; bytes with their length before them, cut at the end of the
  buffer; enumerations as numbers, signed in 32 bits; and the fields a reader does not know skipped by their wire type.
\<close>

fun leb_encode :: "nat \<Rightarrow> buffer" where
  "leb_encode n = (if n < 128 then [word_of_nat n] else word_of_nat (n mod 128 + 128) # leb_encode (n div 128))"

fun leb_read :: "buffer \<Rightarrow> (nat \<times> nat) option" where
  "leb_read [] = None"
| "leb_read (b # bs) =
     (if unat b < 128 then Some (unat b, 1)
      else case leb_read bs of None \<Rightarrow> None | Some (n, k) \<Rightarrow> Some (unat b - 128 + 128 * n, k + 1))"

declare leb_encode.simps [simp del]

definition leb_decode :: "buffer \<Rightarrow> nat \<Rightarrow> (nat \<times> nat) option" where
  "leb_decode buf i = leb_read (drop i buf)"

definition protobuf :: wire where
  "protobuf = \<lparr>varint_encode = leb_encode, varint_length = (\<lambda>n. length (leb_encode n)), varint_decode = leb_decode,
     bytes_encode = (\<lambda>b. leb_encode (length b) @ b), bytes_length = (\<lambda>b. length (leb_encode (length b)) + length b),
     bytes_decode = (\<lambda>buf i. case leb_decode buf i of None \<Rightarrow> None
       | Some (n, k) \<Rightarrow> let b = take n (drop (i + k) buf) in Some (b, k + length b)),
     enum_encode = leb_encode, enum_length = (\<lambda>n. length (leb_encode n)),
     enum_decode = (\<lambda>buf i. map_option (\<lambda>(n, k). (if n > 2 ^ 31 - 1 then int n - 2 ^ 32 else int n, k)) (leb_decode buf i)),
     skip_field = (\<lambda>t buf i. if t = 0 then map_option (\<lambda>(n, k). i + k) (leb_decode buf i)
       else if t = 1 then Some (i + 8)
       else if t = 2 then map_option (\<lambda>(n, k). i + k + n) (leb_decode buf i)
       else if t = 5 then Some (i + 4) else None),
     allocUnsafe = alloc\<rparr>"

lemma leb_read_encode: "leb_read (leb_encode n @ q) = Some (n, length (leb_encode n))"
proof (induction n rule: less_induct)
  case (less n)
  show ?case
  proof (cases "n < 128")
    case True
    then show ?thesis by (simp add: leb_encode.simps [of n] unat_byte_of_nat)
  next
    case False
    then have "leb_read (leb_encode (n div 128) @ q) = Some (n div 128, length (leb_encode (n div 128)))"
      by (intro less) simp
    moreover have "n mod 128 < 128" by simp
    then have "unat (word_of_nat (n mod 128 + 128) :: byte) = n mod 128 + 128" by (subst unat_byte_of_nat) simp
    ultimately show ?thesis using False by (simp add: leb_encode.simps [of n])
  qed
qed

lemma leb_decode_encode: "leb_decode (p @ leb_encode n @ q) (length p) = Some (n, length (leb_encode n))"
  by (simp add: leb_decode_def leb_read_encode)

lemma leb_read_advances: "leb_read bs = Some (n, k) \<Longrightarrow> 0 < k"
  by (induction bs arbitrary: n k) (auto split: if_splits option.splits)

interpretation pb: wire_format protobuf
proof (unfold_locales, goal_cases)
  case (6 n)
  then show ?case by (simp add: protobuf_def leb_encode.simps [of n])
next
  case (7 buf i n k)
  then show ?case by (auto simp: protobuf_def leb_decode_def dest: leb_read_advances)
next
  case (8 b p q)
  then show ?case using leb_decode_encode [of p "length b" "b @ q"] by (simp add: protobuf_def)
next
  case (9 n p q)
  then show ?case using leb_decode_encode [of p n q] by (simp add: protobuf_def)
next
  case (10 t buf i j)
  then show ?case by (auto simp: protobuf_def split: if_splits)
qed (simp_all add: protobuf_def leb_decode_encode)

section \<open>The safe wrappers\<close>

text \<open>An operation whose numbers the wire can hold.\<close>

definition wire_sized :: "wire \<Rightarrow> operation \<Rightarrow> bool" where
  "wire_sized w op \<longleftrightarrow> op_type op < 2 ^ 31 \<and> length (operation_wire w op) < 2 ^ 53 \<and>
     fields_fit ((18, op_address op) # payload_fields (op_value op))"

lemma encoded_decoded:
  assumes "wire_format w" "shaped_operation op" "wire_sized w op"
  shows "safeDecodeApplyOperation w (safeEncodeApplyOperation w op) = Some op"
    "length (safeEncodeApplyOperation w op) = Operation_encodingLength w op"
  using assms wire_format.Operation_decode_wire [OF assms(1,2)]
  by (simp_all add: safeDecodeApplyOperation_def safeEncodeApplyOperation_def wire_sized_def
      wire_format.Operation_encode_eq [OF assms(1)] wire_format.Operation_encodingLength_eq [OF assms(1)])

end
