(* ===== verification/Dispatch_Spec.thy ===== *)
theory Dispatch_Spec
  imports Publish_Spec Codec_Spec
begin

text \<open>
  From the request a validator dispatches to the node the ledger applies: what the checks leave open, the
  shape of the completed operation, its encoding, and its place in the queue.
\<close>

section \<open>From the request to the ledger\<close>

text \<open>What the handler of the ledger asks of a user's operation before it looks at the state: the requester and
  the validator it finds in the operation.\<close>

definition ledger_guard :: "'b env \<Rightarrow> operation \<Rightarrow> (string \<times> string) option" where
  "ledger_guard E op =
     (if op_type op = OT_TRANSFER then transfer_verify E op else if op_type op = OT_TX then tx_verify E op
      else if op_type op = OT_BOOTSTRAP_DEPLOYMENT then bootstrapDeployment_verify E op
      else if op_type op = OT_ADD_WRITER then addWriter_verify E op
      else if op_type op = OT_REMOVE_WRITER then removeWriter_verify E op
      else if op_type op = OT_ADMIN_RECOVERY then map_option (\<lambda>(ra, _, va). (ra, va)) (adminRecovery_verify E op)
      else None)"

text \<open>What the checks leave to the ledger: that the indexers have signed the store the checks read, a
  deployer that has an account, room for a writer.\<close>

definition settled_for :: "'b env \<Rightarrow> node_state \<Rightarrow> 'b astate \<Rightarrow> operation \<Rightarrow> bool" where
  "settled_for E s st d \<longleftrightarrow>
     (if op_type d = OT_TX then ns_signed s = batch st \<and>
        (\<forall>e. de_decode (batch st (deploymentKey d)) (addressLength E) = Some e \<longrightarrow>
          (\<exists>ca. bufferToAddress E (de_address e) = Some ca \<and> batch st ca \<noteq> None))
      else if op_type d = OT_ADD_WRITER then ns_signed s = batch st \<and> updateWritersIndex st \<noteq> None \<and>
        base_addWriter E (bytes (p_iw (payload_of d))) False (base st) \<noteq> None
      else op_type d = OT_TRANSFER \<or> op_type d = OT_BOOTSTRAP_DEPLOYMENT)"

lemma guard_completed:
  assumes "partial_validator E hash (Some (w_address w)) s d = Inr ()" "sound_wallet E hash w" "fresh_for E hash w nonce d"
  shows "ledger_guard E (completion E hash w nonce d) = Some (the (requesterAddress E d), w_address w)"
proof -
  have t: "op_type d \<in> {5, 6, 7, 11, 12, 13}"
    using partial_validator_facts(1) [OF assms(1)] by (auto elim: schema_cases)
  show ?thesis
    using t transfer_completed [OF assms(1) _ assms(2,3)] transaction_completed [OF assms(1) _ assms(2,3)]
      deployment_completed [OF assms(1) _ assms(2,3)] role_completed [OF assms(1) _ assms(2,3)]
    by (auto simp: ledger_guard_def)
qed

lemma strategy_build_eq:
  assumes "partial_validator E hash (Some (w_address w)) s d = Inr ()" "isAddressValid E (w_address w)"
  shows "strategy_build E hash w nonce s d = Inr (completion E hash w nonce d)"
  using assms complete_call_eq [OF assms(1), of w nonce] by (auto simp: strategy_build_def new_builder_def)

lemma strategy_build_checked:
  assumes "strategy_build E hash w nonce s d = Inr op" "isAddressValid E (w_address w)"
  shows "partial_validator E hash (Some (w_address w)) s d = Inr ()" "op = completion E hash w nonce d"
proof -
  show v: "partial_validator E hash (Some (w_address w)) s d = Inr ()"
    using assms(1) by (auto simp: strategy_build_def chain_Inr)
  show "op = completion E hash w nonce d" using strategy_build_eq [OF v assms(2), of nonce] assms(1) by simp
qed

lemma completion_shaped:
  assumes "partial_validator E hash sa s d = Inr ()"
  shows "shaped_operation (completion E hash w nonce d)"
proof -
  note f = partial_validator_facts [OF assms]
  note simps = completion_def with_validator_def shaped_operation_def empty_payload_def none_of_def
  from f(1) show ?thesis
  proof (cases rule: schema_cases)
    case 1
    show ?thesis by (rule transfer_shape [OF 1(2) f(2)]) (simp add: simps)
  next
    case 2
    show ?thesis by (rule transaction_shape [OF 2(2) f(2)]) (simp add: simps)
  next
    case 3
    show ?thesis by (rule deployment_shape [OF 3(2) f(2)]) (simp add: simps)
  next
    case 4
    show ?thesis by (rule role_shape [OF 4(2) f(2)]) (simp add: simps)
  qed
qed

lemma handler_applied:
  assumes "partial_validator E hash (Some (w_address w)) s d = Inr ()" "sound_wallet E hash w" "fresh_for E hash w nonce d"
    and "sees E s st" "settled_for E s st d" "prefix_ok E" "ledger_ok E (batch st)" "total_supply E (batch st) < 2 ^ 128"
    and "isValidatorValidApply (batch st (w_address w)) node"
    and "ascii_buffer (bytes (op_address d))" "ascii_buffer (bytes (p_to (payload_of d)))"
  shows "\<exists>st'. dispatch E (completion E hash w nonce d) node st = Some (SUCCESS, st')"
proof -
  consider "op_type d = 13" | "op_type d = 11" | "op_type d = 12" | "op_type d = 5"
    using assms(5) by (auto simp: settled_for_def split: if_splits)
  then show ?thesis
  proof cases
    case 1
    then show ?thesis using transfer_published [OF assms(1) 1 assms(2-4,7-11)] by (simp add: dispatch_def getApplyOperationHandler_def)
  next
    case 2
    then show ?thesis using deployment_published [OF assms(1) 2 assms(2-4,7-11)] by (simp add: dispatch_def getApplyOperationHandler_def)
  next
    case 3
    then show ?thesis using transaction_published [OF assms(1) 3 assms(2-4) _ assms(7-11)] assms(5)
      by (simp add: dispatch_def getApplyOperationHandler_def settled_for_def)
  next
    case 4
    then show ?thesis using addWriter_published [OF assms(1) 4 assms(2-4) _ assms(6-11)] assms(5)
      by (simp add: dispatch_def getApplyOperationHandler_def settled_for_def)
  qed
qed

text \<open>The encoded operation, applied as a node of its validator.\<close>

lemma encoded_dispatched:
  assumes "wire_format wr" "shaped_operation op" "wire_sized wr op" "Operation_encodingLength wr op \<le> MAXIMUM_OPERATION_PAYLOAD_SIZE"
    and "Operation_decode E = safeDecodeApplyOperation wr" "node_value node = Operation_encode wr op"
    and "dispatch E op node st = Some (r, st')" "getApplyOperationHandler E (op_type op) \<noteq> None"
  shows "applyNode E node st = Some (r = FAILURE, st')"
  using encoded_decoded [OF assms(1-3)] assms(4-)
  by (auto simp: applyNode_def dispatch_def safeEncodeApplyOperation_def split: option.splits)

lemma dispatched:
  assumes "dispatchTransaction E wr hash w nonce n s d svc = (Inr h, svc')" "isAddressValid E (w_address w)"
  shows "partial_validator E hash (Some (w_address w)) s d = Inr ()" "h = txKey d"
    "enqueue n h (Operation_encode wr (completion E hash w nonce d)) svc = (Inr (), svc')"
  using assms strategy_build_checked [OF _ assms(2)]
  by (auto simp: dispatchTransaction_def getTxHashFromDecodedTransaction_def txKey_def Let_def
      split: if_splits sum.splits option.splits field.splits prod.splits)

lemma enqueued:
  assumes "enqueue n h tx s = (Inr (), s')"
  shows "txPool s' = txPool s @ [(h, tx)]" "pendingCommits s' = pendingCommits s @ [h]"
proof -
  obtain s1 where "registerPendingCommit h s = Inr s1" "addTransaction n h tx s1 = Inr s'"
    using assms
    by (auto simp: enqueue_def Let_def split: sum.splits prod.splits)
  then show "txPool s' = txPool s @ [(h, tx)]" "pendingCommits s' = pendingCommits s @ [h]"
    by (auto simp: registerPendingCommit_def addTransaction_def chain_Inr split: if_splits)
qed

end
