(* ===== verification/V1_Spec.thy ===== *)
theory V1_Spec
  imports V1_Response Dispatch_Spec
begin

text \<open>
  The messages of protocol v1 between two nodes: what the one builds the other accepts, what an accepted response
  proves, and that the comparison of the published operation with the requested one is exact.
\<close>

section \<open>Comparing decoded operations\<close>

fun strip_value :: "op_value \<Rightarrow> op_value" where
  "strip_value (Tro p) = Tro (p\<lparr>p_va := Null, p_vn := Null, p_vs := Null\<rparr>)"
| "strip_value (Txo p) = Txo (p\<lparr>p_va := Null, p_vn := Null, p_vs := Null\<rparr>)"
| "strip_value (Bdo p) = Bdo (p\<lparr>p_va := Null, p_vn := Null, p_vs := Null\<rparr>)"
| "strip_value (Rao p) = Rao (p\<lparr>p_va := Null, p_vn := Null, p_vs := Null\<rparr>)"
| "strip_value v = v"

definition strip_operation :: "operation \<Rightarrow> operation" where
  "strip_operation op = op\<lparr>op_value := strip_value (op_value op)\<rparr>"

lemma deep_obj [simp]:
  "isDeepEqualApplyPayload (JObj ps) (JObj qs) \<longleftrightarrow> length ps = length qs \<and>
     (\<forall>(key, v) \<in> set ps. case map_of qs key of None \<Rightarrow> False | Some v' \<Rightarrow> isDeepEqualApplyPayload v v')"
  by (subst isDeepEqualApplyPayload.simps) simp

lemma deep_flat [simp]:
  "isDeepEqualApplyPayload (JNum n) v \<longleftrightarrow> v = JNum n" "isDeepEqualApplyPayload JNull v \<longleftrightarrow> v = JNull"
  "isDeepEqualApplyPayload (js_of_field f) (js_of_field g) \<longleftrightarrow> f = g" "isDeepEqualApplyPayload (js_of_field f) JNull \<longleftrightarrow> f = Null"
  "isDeepEqualApplyPayload (js_of_field f) (JObj ps) \<longleftrightarrow> False" "isDeepEqualApplyPayload (JObj ps) (js_of_field f) \<longleftrightarrow> False"
  "isDeepEqualApplyPayload (JObj ps) JNull \<longleftrightarrow> False"
  by (subst isDeepEqualApplyPayload.simps, cases f rule: js_of_field.cases, auto split: js.splits; cases g; auto)+

lemma strip_field [simp]: "stripValidatorMetadata (js_of_field f) = js_of_field f"
  by (cases f) simp_all

lemma payload_eq: "(p :: payload) = q \<longleftrightarrow> p_tx p = p_tx q \<and> p_txv p = p_txv q \<and> p_iw p = p_iw q \<and> p_ia p = p_ia q \<and> p_am p = p_am q \<and> p_in p = p_in q \<and> p_is p = p_is q \<and>
    p_to p = p_to q \<and> p_ch p = p_ch q \<and> p_bs p = p_bs q \<and> p_mbs p = p_mbs q \<and> p_ic p = p_ic q \<and> p_va p = p_va q \<and> p_vn p = p_vn q \<and> p_vs p = p_vs q"
  by (cases p; cases q) simp

lemma deep_equal_decoded:
  assumes "shaped_operation a" "shaped_operation b"
  shows "isDeepEqualApplyPayload (decoded_object a) (stripValidatorMetadata (decoded_object b)) \<longleftrightarrow> a = strip_operation b"
proof (cases a; cases b)
  fix t x v t' x' v'
  assume ab: "a = \<lparr>op_type = t, op_address = x, op_value = v\<rparr>" "b = \<lparr>op_type = t', op_address = x', op_value = v'\<rparr>"
  note s = assms [unfolded ab shaped_operation_def, simplified]
  have "isDeepEqualApplyPayload (decoded_object a) (stripValidatorMetadata (decoded_object b)) \<longleftrightarrow> t = t' \<and> x = x' \<and> v = strip_value v'"
    using s
    by (cases v; cases v') (auto simp: ab decoded_object_def VALIDATOR_METADATA_FIELDS_def none_of_def payload_eq)
  then show ?thesis by (simp add: ab strip_operation_def)
qed

section \<open>Messages verify\<close>

text \<open>A wallet whose signatures verify under the key of its connection.\<close>

definition net_wallet :: "'b env \<Rightarrow> (buffer \<Rightarrow> buffer) \<Rightarrow> wallet \<Rightarrow> buffer \<Rightarrow> bool" where
  "net_wallet E hash w pk \<longleftrightarrow> (\<forall>m. net_buffer 64 (w_sign w (hash m)) \<and> signature_verify E (w_sign w (hash m)) (hash m) pk)"

lemma net_walletD:
  "net_wallet E hash w pk \<Longrightarrow> net_buffer 64 (w_sign w (hash m))"
  "net_wallet E hash w pk \<Longrightarrow> signature_verify E (w_sign w (hash m)) (hash m) pk"
  by (simp_all add: net_wallet_def)

lemmas build_net_defs = net_message_of_def nb_setType_def nb_setId_def nb_setTimestamp_def nb_setCapabilities_def nb_setData_def
  nb_setResultCode_def nb_setProof_def nb_setTimestampLedger_def buildPayload_def setHeader_def net_body_def getResult_def
  fresh_net_builder_def NetworkOperationType_values_def

lemmas check_net_defs = v1_isPayloadSchemaValid_def v1_schemaValidator_def v1_validateSignature_def buildSignatureMessage_def
  payload_where_def or_throw_def header_valid_def all_steps_Inr check_that_def net_walletD

text \<open>What the four builders return, if they do.\<close>

lemma livenessRequest_built:
  assumes "buildLivenessRequest E hash w nonce now i caps = Some m"
  obtains tsBuf capsBuf where "timestampToBuffer now = Some tsBuf" "encodeCapabilities caps = Some capsBuf" "i \<noteq> []"
    "m = \<lparr>nm_type = 1, nm_id = i, nm_timestamp = now, nm_capabilities = caps, nm_payloads = [LivenessRequest nonce
       (w_sign w (hash (createMessage [Num 1, Buf (idToBuffer i), Buf tsBuf, Buf nonce, Buf capsBuf])))]\<rparr>"
  using assms
  by (auto simp: buildLivenessRequest_def build_net_defs buildLivenessRequestPayload_def split: if_splits option.splits)

lemma livenessResponse_built:
  assumes "buildLivenessResponse E hash w nonce now i caps r = Some m"
  obtains tsBuf capsBuf where "timestampToBuffer now = Some tsBuf" "encodeCapabilities caps = Some capsBuf" "i \<noteq> []"
    "List.member ResultCode_values r"
    "m = \<lparr>nm_type = 2, nm_id = i, nm_timestamp = now, nm_capabilities = caps, nm_payloads = [LivenessResponse nonce
       (w_sign w (hash (createMessage [Num 2, Buf (idToBuffer i), Buf tsBuf, Buf nonce, Buf (safeWriteUInt32BE r), Buf capsBuf]))) r]\<rparr>"
  using assms
  by (auto simp: buildLivenessResponse_def build_net_defs buildLivenessResponsePayload_def split: if_splits option.splits)

lemma broadcastRequest_built:
  assumes "buildBroadcastTransactionRequest E hash w nonce now i (Some d) caps = Some m"
  obtains tsBuf capsBuf where "timestampToBuffer now = Some tsBuf" "encodeCapabilities caps = Some capsBuf" "i \<noteq> []"
    "m = \<lparr>nm_type = 3, nm_id = i, nm_timestamp = now, nm_capabilities = caps, nm_payloads = [BroadcastRequest d nonce
       (w_sign w (hash (createMessage [Num 3, Buf (idToBuffer i), Buf tsBuf, Buf d, Buf nonce, Buf capsBuf])))]\<rparr>"
  using assms
  by (auto simp: buildBroadcastTransactionRequest_def build_net_defs buildBroadcastRequestPayload_def split: if_splits option.splits)

lemma broadcastResponse_built:
  assumes "buildBroadcastTransactionResponse E hash w nonce now i caps r (Some proof) (Some t) = Some m"
  obtains tsBuf capsBuf ledgerBuf where "timestampToBuffer now = Some tsBuf" "encodeCapabilities caps = Some capsBuf" "i \<noteq> []"
    "timestampToBuffer t = Some ledgerBuf" "result_consistent r proof t" "List.member ResultCode_values r"
    "m = \<lparr>nm_type = 4, nm_id = i, nm_timestamp = now, nm_capabilities = caps, nm_payloads = [BroadcastResponse nonce
       (w_sign w (hash (createMessage [Num 4, Buf (idToBuffer i), Buf tsBuf, Buf nonce, Buf proof, Buf ledgerBuf,
          Buf (safeWriteUInt32BE r), Buf capsBuf]))) proof t r]\<rparr>"
  using assms
  by (auto simp: buildBroadcastTransactionResponse_def build_net_defs buildBroadcastResponsePayload_def Let_def split: if_splits option.splits)

lemma timestampToBuffer_Some: "timestampToBuffer t = Some b \<Longrightarrow> 0 \<le> t \<and> t \<le> MAX_SAFE_INTEGER"
  by (simp add: timestampToBuffer_def uint64ToBuffer_def split: if_splits)

lemma built_verified:
  assumes w: "net_wallet E hash w pk" and n: "net_buffer 32 nonce" and i: "length i \<le> 64" "1 \<le> now"
  shows "buildLivenessRequest E hash w nonce now i caps = Some m \<Longrightarrow> validateLivenessRequest E hash m pk = Inr ()"
    "buildBroadcastTransactionRequest E hash w nonce now i (Some d) caps = Some m \<Longrightarrow> d \<noteq> [] \<Longrightarrow> length d \<le> 3072 \<Longrightarrow>
     validateBroadcastRequest E hash m pk = Inr ()"
    "buildLivenessResponse E hash w nonce now i caps r = Some m \<Longrightarrow> pr_requestType e = 1 \<Longrightarrow> pr_requestedTo e = to_hex pk \<Longrightarrow>
     validateLivenessResponse E hash m pk e = Inr ()"
    "buildBroadcastTransactionResponse E hash w nonce now i caps r (Some proof) (Some t) = Some m \<Longrightarrow> pr_requestType e = 3 \<Longrightarrow>
     pr_requestedTo e = to_hex pk \<Longrightarrow> all_steps (response_steps E hash m pk e) = Inr ()"
proof -
  note D = net_walletD [OF w]
  have len: "1 \<le> length i" if "i \<noteq> []" using that by (cases i) auto
  show "validateLivenessRequest E hash m pk = Inr ()" if "buildLivenessRequest E hash w nonce now i caps = Some m"
    by (rule livenessRequest_built [OF that])
      (use n i D len timestampToBuffer_Some in \<open>simp add: validateLivenessRequest_def validateV1LivenessRequest_def check_net_defs\<close>)
  show "validateBroadcastRequest E hash m pk = Inr ()"
    if "buildBroadcastTransactionRequest E hash w nonce now i (Some d) caps = Some m" "d \<noteq> []" "length d \<le> 3072"
    by (rule broadcastRequest_built [OF that(1)])
      (use n i D len that(2,3) timestampToBuffer_Some in \<open>simp add: validateBroadcastRequest_def isDataPropertySizeValid_def
        validateV1BroadcastTransactionRequest_def check_net_defs Suc_le_eq\<close>)
  show "validateLivenessResponse E hash m pk e = Inr ()"
    if "buildLivenessResponse E hash w nonce now i caps r = Some m" "pr_requestType e = 1" "pr_requestedTo e = to_hex pk"
    by (rule livenessResponse_built [OF that(1)])
      (use n i D len that(2,3) timestampToBuffer_Some in \<open>simp add: validateLivenessResponse_def response_steps_def validateResponseType_def
        validatePeerCorrectness_def validateV1LivenessResponse_def check_net_defs\<close>)
  show "all_steps (response_steps E hash m pk e) = Inr ()"
    if "buildBroadcastTransactionResponse E hash w nonce now i caps r (Some proof) (Some t) = Some m" "pr_requestType e = 3"
      "pr_requestedTo e = to_hex pk"
  proof (rule broadcastResponse_built [OF that(1)])
    fix tsBuf capsBuf ledgerBuf
    assume B: "timestampToBuffer now = Some tsBuf" "encodeCapabilities caps = Some capsBuf" "i \<noteq> []"
      "timestampToBuffer t = Some ledgerBuf" "result_consistent r proof t" "List.member ResultCode_values r"
      "m = \<lparr>nm_type = 4, nm_id = i, nm_timestamp = now, nm_capabilities = caps, nm_payloads = [BroadcastResponse nonce
       (w_sign w (hash (createMessage [Num 4, Buf (idToBuffer i), Buf tsBuf, Buf nonce, Buf proof, Buf ledgerBuf,
          Buf (safeWriteUInt32BE r), Buf capsBuf]))) proof t r]\<rparr>"
    from timestampToBuffer_Some [OF B(4)] timestampToBuffer_Some [OF B(1)] show ?thesis
      using n i D len B that(2,3) by (simp add: response_steps_def validateResponseType_def
        validatePeerCorrectness_def validateV1BroadcastTransactionResponse_def check_net_defs)
  qed
qed

section \<open>What a response proves\<close>

text \<open>What the sender of a transaction may conclude from a response it has accepted.\<close>

definition proven_publication :: "'b env \<Rightarrow> publication \<Rightarrow> wire \<Rightarrow> node_state \<Rightarrow> buffer \<Rightarrow> buffer \<Rightarrow> pending_request \<Rightarrow> bool" where
  "proven_publication E P wr s proof remotePublicKey entry \<longleftrightarrow>
     (\<exists>provenBlock manifest published requested a b key e.
        pub_verify P proof = Some (provenBlock, manifest) \<and> pub_decodeValue P provenBlock = Some published \<and>
        pr_requestTxData entry = Some requested \<and>
        unsafeDecodeApplyOperation wr requested = Inr a \<and> unsafeDecodeApplyOperation wr published = Inr b \<and>
        a = strip_operation b \<and> op_type b \<in> {5, 6, 7, 11, 12, 13} \<and>
        p_va (payload_of b) = Bytes (addressToBuffer E (pub_address P remotePublicKey)) \<and>
        pub_manifestKey P manifest = Some key \<and>
        getRegisteredWriterKey E s (to_hex key) = Some (addressToBuffer E (pub_address P remotePublicKey)) \<and>
        bufferToAddress E (addressToBuffer E (pub_address P remotePublicKey)) \<noteq> None \<and>
        getNodeEntry s (the (bufferToAddress E (addressToBuffer E (pub_address P remotePublicKey)))) = Some e \<and>
        ne_isWriter e \<and> ne_wk e = key)"

lemma decoded_shaped:
  assumes "unsafeDecodeApplyOperation wr b = Inr op"
  shows "shaped_operation op"
  by (rule decode_shaped [of wr b]) (use assms in \<open>auto simp: unsafeDecodeApplyOperation_def safeDecodeApplyOperation_def split: option.splits thrown.splits\<close>)


lemma or_throw_Inr: "or_throw x = Inr y \<longleftrightarrow> x = Some y" by (auto simp: or_throw_def split: option.splits)

lemma response_type:
  assumes "validateDecodedCompletePayloadSchema E op = Inr ()"
  shows "op_type op \<in> {5, 6, 7, 11, 12, 13}"
  using assms
  by (auto simp: validateDecodedCompletePayloadSchema_def Let_def  split: if_splits)

lemma field_cases:
  "(case js_of_field f of JObj qs \<Rightarrow> Q qs | _ \<Rightarrow> False) \<longleftrightarrow> False"
  "(case js_of_field f of JBuf x \<Rightarrow> Inr x | _ \<Rightarrow> Inl e) = Inr va \<longleftrightarrow> f = Bytes va"
  by (cases f; simp)+

lemma response_validator:
  assumes "shaped_operation op"
  shows "extractRequiredVaFromDecodedTx (decoded_object op) = Inr va \<longleftrightarrow> p_va (payload_of op) = Bytes va"
  using assms
  by (cases "op_value op")
    (auto simp: extractRequiredVaFromDecodedTx_def decoded_object_def shaped_operation_def payload_of.simps field_cases none_of_def
      empty_payload_def)

text \<open>The signature of a response to a broadcast is one under the key of the peer, of its type, id, time, nonce, proof, time of the ledger, code and
  capabilities, in this order.\<close>

definition answer_signed :: "'b env \<Rightarrow> (buffer \<Rightarrow> buffer) \<Rightarrow> net_message \<Rightarrow> buffer \<Rightarrow> buffer \<Rightarrow> buffer \<Rightarrow> int \<Rightarrow> result_code \<Rightarrow> buffer \<Rightarrow> bool" where
  "answer_signed E hash m nonce signature proof t r pk \<longleftrightarrow> (\<exists>sent ledger caps.
     timestampToBuffer (nm_timestamp m) = Some sent \<and> timestampToBuffer t = Some ledger \<and> encodeCapabilities (nm_capabilities m) = Some caps \<and>
     signature_verify E signature (hash (createMessage [Num NT_BROADCAST_TRANSACTION_RESPONSE, Buf (idToBuffer (nm_id m)), Buf sent, Buf nonce, Buf proof,
       Buf ledger, Buf (safeWriteUInt32BE r), Buf caps])) pk)"

lemma response_checked:
  assumes "all_steps (response_steps E hash m pk entry) = Inr ()" "nm_payloads m = [BroadcastResponse nonce signature proof t r]"
  shows "nm_type m = 4" "pr_requestType entry = 3" "to_hex pk = pr_requestedTo entry" "0 \<le> t" "result_consistent r proof t"
    "answer_signed E hash m nonce signature proof t r pk"
proof -
  from assms(1) have c: "v1_isPayloadSchemaValid m = Inr ()" "validateResponseType m entry = Inr ()"
    "validatePeerCorrectness pk entry = Inr ()" "v1_validateSignature E hash m pk = Inr ()"
    by (simp_all add: response_steps_def chain_Inr)
  show t: "nm_type m = 4"
    using c(1) assms(2) by (auto simp: v1_isPayloadSchemaValid_def v1_schemaValidator_def  validateV1LivenessRequest_def
      validateV1LivenessResponse_def validateV1BroadcastTransactionRequest_def split: if_splits)
  show "pr_requestType entry = 3" "to_hex pk = pr_requestedTo entry"
    using c(2,3) t by (auto simp: validateResponseType_def validatePeerCorrectness_def  split: if_splits)
  have b: "0 \<le> t" "t \<le> MAX_SAFE_INTEGER"
    using c(1) t assms(2) by (simp_all add: v1_isPayloadSchemaValid_def v1_schemaValidator_def  validateV1BroadcastTransactionResponse_def)
  then show "0 \<le> t" by simp
  from b have "0 - MAX_SAFE_INTEGER \<le> t \<and> t \<le> MAX_SAFE_INTEGER" by simp
  then show "result_consistent r proof t" "answer_signed E hash m nonce signature proof t r pk"
    using c(4) t assms(2)
    by (auto simp: answer_signed_def or_throw_Inr check_that_def v1_validateSignature_def buildSignatureMessage_def Let_def payload_where_def chain_Inr 
      split: sum.splits fault.splits if_splits)
qed

lemma response_proves:
  assumes "validateBroadcastResponse E P wr hash s m pk entry = Inr ()" "nm_payloads m = [BroadcastResponse nonce signature proof t RC_OK]"
  shows "to_hex pk = pr_requestedTo entry \<and> pr_requestType entry = NT_BROADCAST_TRANSACTION_REQUEST \<and>
    answer_signed E hash m nonce signature proof t RC_OK pk \<and> proof \<noteq> [] \<and> t > 0 \<and>
    proven_publication E P wr s proof pk entry"
proof -
  have f: "List.find is_BroadcastResponse (nm_payloads m) = Some (BroadcastResponse nonce signature proof t RC_OK)"
    using assms(2) by simp
  from assms(1) obtain block manifest b key reg va e where r:
    "all_steps (response_steps E hash m pk entry) = Inr ()"
    "pub_verify P proof = Some (block, manifest)"
    "assertProofPayloadMatchesRequestPayload P wr (block, manifest) entry = Inr (b, manifest)"
    "validateDecodedCompletePayloadSchema E b = Inr ()"
    "validateWritingKey E P s manifest = Inr (key, reg)"
    "extractRequiredVaFromDecodedTx (decoded_object b) = Inr va" "va = addressToBuffer E (pub_address P pk)" "va = reg"
    "(case bufferToAddress E va of None \<Rightarrow> None | Some a \<Rightarrow> getNodeEntry s a) = Some e" "ne_isWriter e" "ne_wk e = key"
    unfolding validateBroadcastResponse_def payload_where_def f
    by (auto simp: chain_Inr or_throw_Inr  validateValidatorCorrectness_def Let_def assertProofPayloadMatchesRequestPayload_def
       split: option.splits if_splits)
  from r(3) obtain requested published a where d: "pr_requestTxData entry = Some requested" "pub_decodeValue P block = Some published"
    "unsafeDecodeApplyOperation wr requested = Inr a" "unsafeDecodeApplyOperation wr published = Inr b"
    "isDeepEqualApplyPayload (decoded_object a) (stripValidatorMetadata (decoded_object b))"
    by (auto simp: assertProofPayloadMatchesRequestPayload_def Let_def chain_Inr or_throw_Inr split: option.splits if_splits)
  have "a = strip_operation b" using d(3-5) by (simp add: deep_equal_decoded decoded_shaped)
  moreover have "p_va (payload_of b) = Bytes va" using r(6) by (simp add: response_validator [OF decoded_shaped [OF d(4)]])
  moreover have "pub_manifestKey P manifest = Some key" "getRegisteredWriterKey E s (to_hex key) = Some reg"
    using r(5) by (auto simp: validateWritingKey_def chain_Inr or_throw_Inr split: option.splits if_splits)
  moreover note response_checked [OF r(1) assms(2)]
  ultimately show ?thesis
    using r d response_type [OF r(4)] unfolding proven_publication_def
    by (auto simp: result_consistent_def split: option.splits)
qed

section \<open>An honest answer\<close>

lemma verify_schema:
  "transfer_verify E op = Some r \<Longrightarrow> validateTransferOperation E op" "tx_verify E op = Some r \<Longrightarrow> validateTransactionOperation E op"
  "bootstrapDeployment_verify E op = Some r \<Longrightarrow> validateBootstrapDeploymentOperation E op"
  "addWriter_verify E op = Some r \<Longrightarrow> validateRoleAccessOperation E op" "removeWriter_verify E op = Some r \<Longrightarrow> validateRoleAccessOperation E op"
  "adminRecovery_verify E op = Some q \<Longrightarrow> validateRoleAccessOperation E op"
  by (rule ccontr, simp add: Let_def transfer_verify_def tx_verify_def bootstrapDeployment_verify_def addWriter_verify_def removeWriter_verify_def
    adminRecovery_verify_def)+

lemma completed_schema:
  assumes "ledger_guard E op = Some r"
  shows "validateDecodedCompletePayloadSchema E op = Inr ()"
proof -
  consider "op_type op = 13" | "op_type op = 12" | "op_type op = 11" | "op_type op = 5" | "op_type op = 6" | "op_type op = 7"
    using assms by (auto simp: ledger_guard_def split: if_splits)
  then show ?thesis
    by cases (use assms in \<open>auto dest: verify_schema simp: ledger_guard_def validateDecodedCompletePayloadSchema_def OperationType_values_def check_that_def\<close>)
qed

lemma op_keys: "keyed ''tro'' p = Tro p" "keyed ''txo'' p = Txo p" "keyed ''bdo'' p = Bdo p" "keyed ''rao'' p = Rao p"
  by (simp_all add: keyed_def)

lemma sanitized_cases:
  assumes "isPayloadSchemaValid E (sanitizeDecodedPartialTransaction d) = Inr ()"
  obtains q where "op_value d = Tro q" "sanitizeDecodedPartialTransaction d = d\<lparr>op_value := Tro (sanitize_payload q)\<rparr>"
    | q where "op_value d = Txo q" "sanitizeDecodedPartialTransaction d = d\<lparr>op_value := Txo (sanitize_payload q)\<rparr>"
    | q where "op_value d = Bdo q" "sanitizeDecodedPartialTransaction d = d\<lparr>op_value := Bdo (sanitize_payload q)\<rparr>"
    | q where "op_value d = Rao q" "sanitizeDecodedPartialTransaction d = d\<lparr>op_value := Rao (sanitize_payload q)\<rparr>"
proof -
  have t: "op_type (sanitizeDecodedPartialTransaction d) = op_type d"
    by (simp add: sanitizeDecodedPartialTransaction_def split: option.split)
  note s = sanitizeDecodedPartialTransaction_def op_keys payload_of.simps
  from assms show ?thesis
  proof (cases rule: schema_cases)
    case 1
    then have "op_type d = 13" using t by simp
    then show ?thesis using that(1) 1(2)
      by (cases "op_value d") (simp_all add: s validateTransferOperation_def)
  next
    case 2
    then have "op_type d = 12" using t by simp
    then show ?thesis using that(2) 2(2)
      by (cases "op_value d") (simp_all add: s validateTransactionOperation_def)
  next
    case 3
    then have "op_type d = 11" using t by simp
    then show ?thesis using that(3) 3(2)
      by (cases "op_value d") (simp_all add: s validateBootstrapDeploymentOperation_def)
  next
    case 4
    then have "operationToPayload (op_type d) = Some ''rao''" using t 4(1) by auto
    then show ?thesis using that(4) 4(2)
      by (cases "op_value d") (simp_all add: s validateRoleAccessOperation_def)
  qed
qed

lemma strip_completed:
  assumes "partial_validator E hash sa s (sanitizeDecodedPartialTransaction d) = Inr ()" "shaped_operation d"
  shows "strip_operation (completion E hash w nonce (sanitizeDecodedPartialTransaction d)) = d"
proof -
  note f = partial_validator_facts [OF assms(1)]
  have restored: "p\<lparr>p_va := Null, p_vn := Null, p_vs := Null\<rparr> = p"
    if x: "p_va (sanitize_payload p) = Absent" "p_vn (sanitize_payload p) = Absent" "p_vs (sanitize_payload p) = Absent"
      "p_va p \<noteq> Absent" "p_vn p \<noteq> Absent" "p_vs p \<noteq> Absent" for p :: payload
    using x by (cases p) (simp add: sanitize_payload_def absent_if_null_def split: if_splits)
  have forget: "(sanitize_payload p)\<lparr>p_va := a, p_vn := b, p_vs := c\<rparr> = p\<lparr>p_va := a, p_vn := b, p_vs := c\<rparr>" for p :: payload and a b c
    by (cases p) (simp add: sanitize_payload_def)
  from f(1) show ?thesis
    by (cases rule: sanitized_cases; cases d)
      (use f(2) assms(2) in \<open>simp_all add: isOperationNotCompleted_def Let_def  shaped_operation_def payload_of.simps
        strip_operation_def completion_def with_validator_def forget restored\<close>)
qed

text \<open>The network as the client sees it: the library proves the publication of the block, and the store says who its writer is.\<close>

definition publishes :: "'b env \<Rightarrow> publication \<Rightarrow> node_state \<Rightarrow> string \<Rightarrow> buffer \<Rightarrow> buffer \<Rightarrow> buffer \<Rightarrow> bool" where
  "publishes E P s vaddr pk proof published \<longleftrightarrow> pub_address P pk = vaddr \<and>
     (\<exists>block manifest key e. pub_verify P proof = Some (block, manifest) \<and> pub_decodeValue P block = Some published \<and>
        pub_manifestKey P manifest = Some key \<and> getRegisteredWriterKey E s (to_hex key) = Some (ascii_bytes vaddr) \<and>
        getNodeEntry s vaddr = Some e \<and> ne_isWriter e \<and> ne_wk e = key)"

lemma decoded_unsafe: "safeDecodeApplyOperation wr b = Some op \<longleftrightarrow> unsafeDecodeApplyOperation wr b = Inr op"
  by (auto simp: unsafeDecodeApplyOperation_def safeDecodeApplyOperation_def split: option.splits thrown.splits)

lemma honest_accepted:
  assumes "net_wallet E hash w pk" "net_buffer 32 nonce'" "length i \<le> 64" "1 \<le> now"
    and "buildBroadcastTransactionResponse E hash w nonce' now i caps RC_OK (Some proof) (Some t) = Some m"
    and "pr_requestType entry = NT_BROADCAST_TRANSACTION_REQUEST" "pr_requestedTo entry = to_hex pk" "pr_requestTxData entry = Some requested"
    and "requested \<noteq> []" "unsafeDecodeApplyOperation wr requested = Inr d"
    and "partial_validator E hash (Some (w_address w)) sv (sanitizeDecodedPartialTransaction d) = Inr ()"
    and "sound_wallet E hash w" "fresh_for E hash w nonce (sanitizeDecodedPartialTransaction d)"
    and "wire_format wr" "wire_sized wr op" "publishes E P s (w_address w) pk proof (Operation_encode wr op)"
    and "op = completion E hash w nonce (sanitizeDecodedPartialTransaction d)"
  shows "validateBroadcastResponse E P wr hash s m pk entry = Inr ()"
proof -
  have steps: "all_steps (response_steps E hash m pk entry) = Inr ()"
    by (rule built_verified(4) [OF assms(1-5)]) (use assms(6,7) in simp_all)
  obtain sig where m: "nm_payloads m = [BroadcastResponse nonce' sig proof t RC_OK]"
    using assms(5) by (rule broadcastResponse_built) simp
  have shaped: "shaped_operation d" "shaped_operation op" using decoded_shaped [OF assms(10)] completion_shaped [OF assms(11)] assms(17) by simp_all
  have published: "unsafeDecodeApplyOperation wr (Operation_encode wr op) = Inr op"
    using encoded_decoded [OF assms(14) shaped(2) assms(15)] by (simp add: decoded_unsafe safeEncodeApplyOperation_def)
  have eq: "d = strip_operation op" using strip_completed [OF assms(11) shaped(1)] assms(17) by simp
  have va: "p_va (payload_of op) = Bytes (ascii_bytes (w_address w))"
    using partial_validator_facts(1) [OF assms(11)] sound_walletD(2) [OF assms(12)] unfolding assms(17)
    by (cases rule: sanitized_cases) (simp_all add: completion_def with_validator_def payload_of.simps)
  have schema: "validateDecodedCompletePayloadSchema E op = Inr ()"
    using completed_schema [OF guard_completed [OF assms(11-13)]] assms(17) by simp
  have ext: "extractRequiredVaFromDecodedTx (decoded_object op) = Inr (ascii_bytes (w_address w))"
    using va by (simp add: response_validator [OF shaped(2)])
  from assms(16) obtain block manifest key e where P: "pub_address P pk = w_address w" "pub_verify P proof = Some (block, manifest)"
    "pub_decodeValue P block = Some (Operation_encode wr op)" "pub_manifestKey P manifest = Some key"
    "getRegisteredWriterKey E s (to_hex key) = Some (ascii_bytes (w_address w))" "getNodeEntry s (w_address w) = Some e" "ne_isWriter e" "ne_wk e = key"
    unfolding publishes_def by blast
  have "assertProofPayloadMatchesRequestPayload P wr (block, manifest) entry = Inr (op, manifest)"
    using assms(8-10) P(3) published deep_equal_decoded [OF shaped] eq
    by (simp add: assertProofPayloadMatchesRequestPayload_def or_throw_def)
  moreover have "ascii_bytes (w_address w) \<noteq> []" using sound_walletD(6) [OF assms(12)] by auto
  then have "w_address w \<noteq> []" by (auto simp: ascii_bytes_def)
  moreover note this
  moreover note sound_walletD(2,3) [OF assms(12)]
  ultimately show ?thesis
    using steps m P schema ext
    by (simp add: validateBroadcastResponse_def payload_where_def validateIfResultCodeIsValidatorInternalError_def check_that_def or_throw_def
      validateWritingKey_def validateValidatorCorrectness_def)
qed

end
