(* ===== verification/Network_Codec_Spec.thy ===== *)
theory Network_Codec_Spec
  imports Network_Codec V1_Spec Codec_Spec
begin

text \<open>
  The laws of the writer and the reader (locale \<open>pb_format\<close>) with the protobuf wire format as their instance, and what they give: the
  decoder of network messages ends on every buffer and inverts the encoder.
\<close>

text \<open>The numbers of a message that is built are within their ranges.\<close>

fun payload_numbers :: "net_payload \<Rightarrow> bool" where
  "payload_numbers (LivenessResponse nonce sig r) \<longleftrightarrow> r < 62"
| "payload_numbers (BroadcastResponse nonce sig pf t r) \<longleftrightarrow> r < 62 \<and> 0 \<le> t \<and> t \<le> MAX_SAFE_INTEGER"
| "payload_numbers _ \<longleftrightarrow> True"

locale pb_format =
  fixes p :: pbjs
  assumes uint32_roundtrip: "n < 2 ^ 32 \<Longrightarrow> rd_uint32 p (pre @ wr_uint32 p n @ post) (length pre) = Some (n, length pre + length (wr_uint32 p n))"
    and int32_roundtrip: "n < 2 ^ 31 \<Longrightarrow> rd_int32 p (pre @ wr_int32 p n @ post) (length pre) = Some (int n, length pre + length (wr_int32 p n))"
    and uint64_roundtrip: "0 \<le> t \<Longrightarrow> t \<le> MAX_SAFE_INTEGER \<Longrightarrow>
      rd_uint64 p (pre @ wr_uint64 p t @ post) (length pre) = Some (t, length pre + length (wr_uint64 p t))"
    and string_roundtrip: "length s < 2 ^ 31 \<Longrightarrow> rd_string p (pre @ wr_string p s @ post) (length pre) = Some (s, length pre + length (wr_string p s))"
    and bytes_roundtrip: "length b < 2 ^ 32 \<Longrightarrow> rd_bytes p (pre @ wr_bytes p b @ post) (length pre) = Some (b, length pre + length (wr_bytes p b))"
    and string_length: "length s \<le> length (wr_string p s)"
    and bytes_length: "length b \<le> length (wr_bytes p b)"
    and tag_nonempty: "wr_uint32 p n \<noteq> []"
    and uint32_advances: "rd_uint32 p buf i = Some (n, j) \<Longrightarrow> i < j \<and> j \<le> length buf"
    and int32_advances: "rd_int32 p buf i = Some (v, j) \<Longrightarrow> i \<le> j"
    and uint64_advances: "rd_uint64 p buf i = Some (v, j) \<Longrightarrow> i \<le> j"
    and string_advances: "rd_string p buf i = Some (s, j) \<Longrightarrow> i \<le> j"
    and bytes_advances: "rd_bytes p buf i = Some (b, j) \<Longrightarrow> i \<le> j"
    and skip_advances: "rd_skipType p ty buf i = Some j \<Longrightarrow> i \<le> j"
begin

section \<open>Reading what was written\<close>

text \<open>The bytes that take the object from \<open>o\<close> to \<open>o'\<close>, wherever they stand.\<close>

definition reads :: "(buffer \<Rightarrow> nat \<Rightarrow> 'o \<Rightarrow> nat \<Rightarrow> ('o \<times> nat) thrown option) \<Rightarrow> buffer \<Rightarrow> 'o \<Rightarrow> 'o \<Rightarrow> bool" where
  "reads arm bs x y \<longleftrightarrow> (\<forall>pre post stop. length pre + length bs \<le> stop \<longrightarrow>
     pb_loop p (arm (pre @ bs @ post)) (pre @ bs @ post) stop x (length pre) =
     pb_loop p (arm (pre @ bs @ post)) (pre @ bs @ post) stop y (length pre + length bs))"

lemma reads_nil [simp]: "reads arm [] x x" by (simp add: reads_def)

lemma reads_append:
  assumes "reads arm bs x y" "reads arm cs y z"
  shows "reads arm (bs @ cs) x z"
  unfolding reads_def
proof (intro allI impI)
  fix pre post :: buffer and stop :: nat
  assume e: "length pre + length (bs @ cs) \<le> stop"
  have "pb_loop p (arm (pre @ bs @ cs @ post)) (pre @ bs @ cs @ post) stop x (length pre) =
      pb_loop p (arm (pre @ bs @ cs @ post)) (pre @ bs @ cs @ post) stop y (length pre + length bs)"
    using assms(1) e unfolding reads_def by (auto elim: allE [of _ pre])
  also have "\<dots> = pb_loop p (arm (pre @ bs @ cs @ post)) (pre @ bs @ cs @ post) stop z (length pre + length bs + length cs)"
    using assms(2) [unfolded reads_def, rule_format, of "pre @ bs" stop post] e by simp
  finally show "pb_loop p (arm (pre @ (bs @ cs) @ post)) (pre @ (bs @ cs) @ post) stop x (length pre) =
      pb_loop p (arm (pre @ (bs @ cs) @ post)) (pre @ (bs @ cs) @ post) stop z (length pre + length (bs @ cs))"
    by (simp add: add.assoc)
qed

lemma reads_concat:
  assumes "\<And>x y. y \<in> set ys \<Longrightarrow> reads arm (g y) x (f y x)"
  shows "reads arm (concat (map g ys)) x (fold f ys x)"
  using assms by (induction ys arbitrary: x) (auto intro: reads_append)

text \<open>One field: the tag, and the value that the arm of the tag reads.\<close>

lemma reads_field:
  assumes "tag < 2 ^ 32"
    and "\<And>pre post. arm (pre @ v @ post) tag x (length pre) = Some (Returns (y, length pre + length v))"
  shows "reads arm (wr_uint32 p tag @ v) x y"
  unfolding reads_def
proof (intro allI impI)
  fix pre post :: buffer and stop :: nat
  assume e: "length pre + length (wr_uint32 p tag @ v) \<le> stop"
  then have "length pre < stop" using tag_nonempty [of tag] by (cases "wr_uint32 p tag") auto
  then show "pb_loop p (arm (pre @ (wr_uint32 p tag @ v) @ post)) (pre @ (wr_uint32 p tag @ v) @ post) stop x (length pre) =
      pb_loop p (arm (pre @ (wr_uint32 p tag @ v) @ post)) (pre @ (wr_uint32 p tag @ v) @ post) stop y (length pre + length (wr_uint32 p tag @ v))"
    using uint32_roundtrip [OF assms(1), of pre "v @ post"] assms(2) [of "pre @ wr_uint32 p tag" post]
    by (subst pb_loop.simps) (simp add: add.assoc)
qed

lemma reads_done:
  assumes "reads arm bs x y"
  shows "pb_loop p (arm (pre @ bs @ post)) (pre @ bs @ post) (length pre + length bs) x (length pre) = Some (Returns (y, length pre + length bs))"
  using assms [unfolded reads_def, rule_format, of pre "length pre + length bs" post] by (simp add: pb_loop.simps [of p _ _ _ y])

text \<open>A nested message behind its length.\<close>

lemma nested_read:
  assumes "reads arm bs x y" "length bs < 2 ^ 32" "\<And>buf len pos. dec p buf len pos = pb_loop p (arm buf) buf (pos + len) x pos"
  shows "pb_nested p dec (pre @ wr_ldelim p bs @ post) (length pre) f =
    Some (Returns (f y, length pre + length (wr_ldelim p bs)))"
  using uint32_roundtrip [OF assms(2), of pre "bs @ post"] reads_done [OF assms(1), of "pre @ wr_uint32 p (length bs)" post]
  by (simp add: pb_nested_def wr_ldelim_def assms(3) add.assoc)

lemmas read_simps = pb_set_def int32_roundtrip uint64_roundtrip string_roundtrip bytes_roundtrip

section \<open>The four payloads\<close>

lemma livenessRequest_read:
  assumes "length nonce < 2 ^ 32" "length sig < 2 ^ 32"
  shows "reads (LivenessRequest_arm p) (LivenessRequest_encode p nonce sig) ([], []) (nonce, sig)"
proof -
  have "reads (LivenessRequest_arm p) (wr_uint32 p 10 @ wr_bytes p nonce) ([], []) (nonce, [])"
    "reads (LivenessRequest_arm p) (wr_uint32 p 18 @ wr_bytes p sig) (nonce, []) (nonce, sig)"
    by (rule reads_field; use assms in \<open>simp add: LivenessRequest_arm_def read_simps\<close>)+
  from reads_append [OF this] show ?thesis by (simp add: LivenessRequest_encode_def)
qed

lemma livenessResponse_read:
  assumes "length nonce < 2 ^ 32" "length sig < 2 ^ 32" "r < 2 ^ 31"
  shows "reads (LivenessResponse_arm p) (LivenessResponse_encode p nonce sig r) ([], [], 0) (nonce, sig, int r)"
proof -
  have "reads (LivenessResponse_arm p) (wr_uint32 p 10 @ wr_bytes p nonce) ([], [], 0) (nonce, [], 0)"
    "reads (LivenessResponse_arm p) (wr_uint32 p 18 @ wr_bytes p sig) (nonce, [], 0) (nonce, sig, 0)"
    "reads (LivenessResponse_arm p) (wr_uint32 p 24 @ wr_int32 p r) (nonce, sig, 0) (nonce, sig, int r)"
    by (rule reads_field; use assms in \<open>simp add: LivenessResponse_arm_def read_simps\<close>)+
  from reads_append [OF reads_append [OF this(1,2)] this(3)] show ?thesis by (simp add: LivenessResponse_encode_def)
qed

lemma broadcastRequest_read:
  assumes "length d < 2 ^ 32" "length nonce < 2 ^ 32" "length sig < 2 ^ 32"
  shows "reads (BroadcastTransactionRequest_arm p) (BroadcastTransactionRequest_encode p d nonce sig) ([], [], []) (d, nonce, sig)"
proof -
  have "reads (BroadcastTransactionRequest_arm p) (wr_uint32 p 10 @ wr_bytes p d) ([], [], []) (d, [], [])"
    "reads (BroadcastTransactionRequest_arm p) (wr_uint32 p 18 @ wr_bytes p nonce) (d, [], []) (d, nonce, [])"
    "reads (BroadcastTransactionRequest_arm p) (wr_uint32 p 26 @ wr_bytes p sig) (d, nonce, []) (d, nonce, sig)"
    by (rule reads_field; use assms in \<open>simp add: BroadcastTransactionRequest_arm_def read_simps\<close>)+
  from reads_append [OF reads_append [OF this(1,2)] this(3)] show ?thesis by (simp add: BroadcastTransactionRequest_encode_def)
qed

lemma broadcastResponse_read:
  assumes "length nonce < 2 ^ 32" "length sig < 2 ^ 32" "length pf < 2 ^ 32" "0 \<le> t" "t \<le> MAX_SAFE_INTEGER" "r < 2 ^ 31"
  shows "reads (BroadcastTransactionResponse_arm p) (BroadcastTransactionResponse_encode p nonce sig pf t r) ([], [], [], 0, 0) (nonce, sig, pf, t, int r)"
proof -
  let ?arm = "BroadcastTransactionResponse_arm p"
  have "reads ?arm (wr_uint32 p 10 @ wr_bytes p nonce) ([], [], [], 0, 0) (nonce, [], [], 0, 0)"
    "reads ?arm (wr_uint32 p 18 @ wr_bytes p sig) (nonce, [], [], 0, 0) (nonce, sig, [], 0, 0)"
    "reads ?arm (wr_uint32 p 26 @ wr_bytes p pf) (nonce, sig, [], 0, 0) (nonce, sig, pf, 0, 0)"
    "reads ?arm (wr_uint32 p 32 @ wr_uint64 p t) (nonce, sig, pf, 0, 0) (nonce, sig, pf, t, 0)"
    "reads ?arm (wr_uint32 p 40 @ wr_int32 p r) (nonce, sig, pf, t, 0) (nonce, sig, pf, t, int r)"
    by (rule reads_field; use assms in \<open>simp add: BroadcastTransactionResponse_arm_def read_simps\<close>)+
  from reads_append [OF reads_append [OF reads_append [OF reads_append [OF this(1,2)] this(3)] this(4)] this(5)]
  show ?thesis by (simp add: BroadcastTransactionResponse_encode_def)
qed

section \<open>The header\<close>

fun put_payload :: "net_payload \<Rightarrow> message_header \<Rightarrow> message_header" where
  "put_payload (LivenessRequest nonce sig) m = m\<lparr>mh_livenessRequest := Some (nonce, sig)\<rparr>"
| "put_payload (LivenessResponse nonce sig r) m = m\<lparr>mh_livenessResponse := Some (nonce, sig, int r)\<rparr>"
| "put_payload (BroadcastRequest d nonce sig) m = m\<lparr>mh_broadcastRequest := Some (d, nonce, sig)\<rparr>"
| "put_payload (BroadcastResponse nonce sig pf t r) m = m\<lparr>mh_broadcastResponse := Some (nonce, sig, pf, t, int r)\<rparr>"

fun payload_sized :: "net_payload \<Rightarrow> bool" where
  "payload_sized (LivenessRequest nonce sig) \<longleftrightarrow> length nonce < 2 ^ 32 \<and> length sig < 2 ^ 32 \<and> length (LivenessRequest_encode p nonce sig) < 2 ^ 32"
| "payload_sized (LivenessResponse nonce sig r) \<longleftrightarrow> length nonce < 2 ^ 32 \<and> length sig < 2 ^ 32 \<and> r < 2 ^ 31 \<and>
     length (LivenessResponse_encode p nonce sig r) < 2 ^ 32"
| "payload_sized (BroadcastRequest d nonce sig) \<longleftrightarrow> length d < 2 ^ 32 \<and> length nonce < 2 ^ 32 \<and> length sig < 2 ^ 32 \<and>
     length (BroadcastTransactionRequest_encode p d nonce sig) < 2 ^ 32"
| "payload_sized (BroadcastResponse nonce sig pf t r) \<longleftrightarrow> length nonce < 2 ^ 32 \<and> length sig < 2 ^ 32 \<and> length pf < 2 ^ 32 \<and> 0 \<le> t \<and>
     t \<le> MAX_SAFE_INTEGER \<and> r < 2 ^ 31 \<and> length (BroadcastTransactionResponse_encode p nonce sig pf t r) < 2 ^ 32"

lemma payload_read: "payload_sized pl \<Longrightarrow> reads (MessageHeader_arm p) (payload_encode p pl) m (put_payload pl m)"
proof (cases pl)
  case (LivenessRequest nonce sig)
  assume "payload_sized pl"
  then have "reads (LivenessRequest_arm p) (LivenessRequest_encode p nonce sig) ([], []) (nonce, sig)"
    "length (LivenessRequest_encode p nonce sig) < 2 ^ 32"
    using LivenessRequest livenessRequest_read by simp_all
  from nested_read [where dec = LivenessRequest_decode, OF this LivenessRequest_decode_def] show ?thesis
    unfolding LivenessRequest payload_encode.simps put_payload.simps by (intro reads_field) (simp_all add: MessageHeader_arm_def)
next
  case (LivenessResponse nonce sig r)
  assume "payload_sized pl"
  then have "reads (LivenessResponse_arm p) (LivenessResponse_encode p nonce sig r) ([], [], 0) (nonce, sig, int r)"
    "length (LivenessResponse_encode p nonce sig r) < 2 ^ 32"
    using LivenessResponse livenessResponse_read by simp_all
  from nested_read [where dec = LivenessResponse_decode, OF this LivenessResponse_decode_def] show ?thesis
    unfolding LivenessResponse payload_encode.simps put_payload.simps by (intro reads_field) (simp_all add: MessageHeader_arm_def)
next
  case (BroadcastRequest d nonce sig)
  assume "payload_sized pl"
  then have "reads (BroadcastTransactionRequest_arm p) (BroadcastTransactionRequest_encode p d nonce sig) ([], [], []) (d, nonce, sig)"
    "length (BroadcastTransactionRequest_encode p d nonce sig) < 2 ^ 32"
    using BroadcastRequest broadcastRequest_read by simp_all
  from nested_read [where dec = BroadcastTransactionRequest_decode, OF this BroadcastTransactionRequest_decode_def] show ?thesis
    unfolding BroadcastRequest payload_encode.simps put_payload.simps by (intro reads_field) (simp_all add: MessageHeader_arm_def)
next
  case (BroadcastResponse nonce sig pf t r)
  assume "payload_sized pl"
  then have "reads (BroadcastTransactionResponse_arm p) (BroadcastTransactionResponse_encode p nonce sig pf t r) ([], [], [], 0, 0)
      (nonce, sig, pf, t, int r)" "length (BroadcastTransactionResponse_encode p nonce sig pf t r) < 2 ^ 32"
    using BroadcastResponse broadcastResponse_read by simp_all
  from nested_read [where dec = BroadcastTransactionResponse_decode, OF this BroadcastTransactionResponse_decode_def] show ?thesis
    unfolding BroadcastResponse payload_encode.simps put_payload.simps by (intro reads_field) (simp_all add: MessageHeader_arm_def)
qed

lemma capabilities_read:
  assumes "\<forall>c \<in> set caps. length c < 2 ^ 31"
  shows "reads (MessageHeader_arm p) (concat (map (\<lambda>c. wr_uint32 p 66 @ wr_string p c) caps)) m (m\<lparr>mh_capabilities := mh_capabilities m @ caps\<rparr>)"
proof -
  have "reads (MessageHeader_arm p) (concat (map (\<lambda>c. wr_uint32 p 66 @ wr_string p c) caps)) m
      (fold (\<lambda>c m. m\<lparr>mh_capabilities := mh_capabilities m @ [c]\<rparr>) caps m)"
    by (rule reads_concat, rule reads_field; use assms in \<open>simp add: MessageHeader_arm_def read_simps\<close>)
  moreover have "fold (\<lambda>c m. m\<lparr>mh_capabilities := mh_capabilities m @ [c]\<rparr>) caps m = m\<lparr>mh_capabilities := mh_capabilities m @ caps\<rparr>"
    by (induction caps arbitrary: m) simp_all
  ultimately show ?thesis by simp
qed

definition net_sized :: "net_message \<Rightarrow> bool" where
  "net_sized m \<longleftrightarrow> nm_type m < 2 ^ 31 \<and> length (nm_id m) < 2 ^ 31 \<and> 0 \<le> nm_timestamp m \<and> nm_timestamp m \<le> MAX_SAFE_INTEGER \<and>
     (\<forall>c \<in> set (nm_capabilities m). length c < 2 ^ 31) \<and> (\<exists>pl. nm_payloads m = [pl] \<and> payload_sized pl)"

lemma network_decoded:
  assumes "net_sized m"
  shows "decodeV1networkOperation p (encodeV1networkOperation p m) = Some (int (nm_type m), m)"
proof -
  obtain pl where pl: "nm_payloads m = [pl]" "payload_sized pl" using assms by (auto simp: net_sized_def)
  let ?arm = "MessageHeader_arm p" and ?a = "new_MessageHeader\<lparr>mh_type := int (nm_type m)\<rparr>"
  let ?b = "?a\<lparr>mh_id := nm_id m\<rparr>" let ?c = "?b\<lparr>mh_timestamp := nm_timestamp m\<rparr>"
  have head: "reads ?arm (wr_uint32 p 8 @ wr_int32 p (nm_type m)) new_MessageHeader ?a"
    "reads ?arm (wr_uint32 p 18 @ wr_string p (nm_id m)) ?a ?b" "reads ?arm (wr_uint32 p 24 @ wr_uint64 p (nm_timestamp m)) ?b ?c"
    by (rule reads_field; use assms in \<open>simp add: MessageHeader_arm_def read_simps net_sized_def\<close>)+
  let ?h = "put_payload pl ?c" let ?stop = "?h\<lparr>mh_capabilities := mh_capabilities ?h @ nm_capabilities m\<rparr>"
  have caps: "reads ?arm (concat (map (\<lambda>c. wr_uint32 p 66 @ wr_string p c) (nm_capabilities m))) ?h ?stop"
    by (rule capabilities_read) (use assms in \<open>simp add: net_sized_def\<close>)
  have "reads ?arm (MessageHeader_encode p m) new_MessageHeader ?stop"
    using reads_append [OF head(1) reads_append [OF head(2) reads_append [OF head(3) reads_append [OF payload_read [OF pl(2)] caps]]]] pl(1)
    by (simp add: MessageHeader_encode_def)
  from reads_done [OF this, of "[]" "[]"]
  have d: "MessageHeader_decode p (MessageHeader_encode p m) = Some (Returns (?stop, length (MessageHeader_encode p m)))"
    by (simp add: MessageHeader_decode_def)
  have "MessageHeader_toObject ?stop = m" "mh_type ?stop = int (nm_type m)"
    using pl by (cases pl; cases m; simp add: MessageHeader_toObject_def new_MessageHeader_def LivenessRequest_toObject_def
      LivenessResponse_toObject_def BroadcastTransactionRequest_toObject_def BroadcastTransactionResponse_toObject_def code_of_int32_def)+
  then show ?thesis using d by (simp add: decodeV1networkOperation_def encodeV1networkOperation_def)
qed

text \<open>The length of a message bounds that of each of its parts.\<close>

lemma payload_small: "payload_numbers pl \<Longrightarrow> length (payload_encode p pl) < 2 ^ 31 \<Longrightarrow> payload_sized pl"
proof (cases pl)
  case (LivenessRequest n g)
  then show "payload_numbers pl \<Longrightarrow> length (payload_encode p pl) < 2 ^ 31 \<Longrightarrow> payload_sized pl"
    using bytes_length [of n] bytes_length [of g] by (simp add: wr_ldelim_def LivenessRequest_encode_def)
next
  case (LivenessResponse n g r)
  then show "payload_numbers pl \<Longrightarrow> length (payload_encode p pl) < 2 ^ 31 \<Longrightarrow> payload_sized pl"
    using bytes_length [of n] bytes_length [of g] by (simp add: wr_ldelim_def LivenessResponse_encode_def)
next
  case (BroadcastRequest d n g)
  then show "payload_numbers pl \<Longrightarrow> length (payload_encode p pl) < 2 ^ 31 \<Longrightarrow> payload_sized pl"
    using bytes_length [of d] bytes_length [of n] bytes_length [of g] by (simp add: wr_ldelim_def BroadcastTransactionRequest_encode_def)
next
  case (BroadcastResponse n g f t r)
  then show "payload_numbers pl \<Longrightarrow> length (payload_encode p pl) < 2 ^ 31 \<Longrightarrow> payload_sized pl"
    using bytes_length [of f] bytes_length [of n] bytes_length [of g] by (simp add: wr_ldelim_def BroadcastTransactionResponse_encode_def)
qed

lemma message_small:
  assumes "nm_type m < 5" "0 \<le> nm_timestamp m" "nm_timestamp m \<le> MAX_SAFE_INTEGER" "nm_payloads m = [pl]" "payload_numbers pl"
    and "length (encodeV1networkOperation p m) < 2 ^ 31"
  shows "net_sized m"
proof -
  have len: "length (wr_string p (nm_id m)) < 2 ^ 31" "length (payload_encode p pl) < 2 ^ 31"
    "sum_list (map (\<lambda>c. length (wr_uint32 p 66 @ wr_string p c)) (nm_capabilities m)) < 2 ^ 31"
    using assms(4,6) by (simp_all add: encodeV1networkOperation_def MessageHeader_encode_def length_concat comp_def)
  have "length c < 2 ^ 31" if "c \<in> set (nm_capabilities m)" for c
  proof -
    have "length (wr_uint32 p 66 @ wr_string p c) \<le> sum_list (map (\<lambda>c. length (wr_uint32 p 66 @ wr_string p c)) (nm_capabilities m))"
      by (rule member_le_sum_list) (use that in auto)
    then show ?thesis using len(3) string_length [of c] by simp
  qed
  then show ?thesis using assms(1-5) len(1,2) string_length [of "nm_id m"] payload_small by (simp add: net_sized_def)
qed

section \<open>The decoder ends\<close>

text \<open>An arm that returns or throws, and does not go back.\<close>

definition goes_on :: "('o \<times> nat) thrown option \<Rightarrow> nat \<Rightarrow> bool" where
  "goes_on r pos \<longleftrightarrow> r \<noteq> None \<and> (\<forall>y j. r = Some (Returns (y, j)) \<longrightarrow> pos \<le> j)"

lemma loop_goes_on:
  assumes "\<And>tag x pos. goes_on (arm tag x pos) pos"
  shows "goes_on (pb_loop p arm buf stop x pos) pos"
proof (induction "length buf - pos" arbitrary: x pos rule: less_induct)
  case less
  show ?case
  proof (cases "rd_uint32 p buf pos")
    case None
    then show ?thesis by (simp add: pb_loop.simps [of p arm] goes_on_def)
  next
    case (Some q)
    obtain tag i where q: "q = (tag, i)" "pos < i" "i \<le> length buf" using uint32_advances Some by (cases q) auto
    show ?thesis
    proof (cases "arm tag x i")
      case None
      then show ?thesis using assms [of tag x i] by (simp add: goes_on_def)
    next
      case arm: (Some r)
      show ?thesis
      proof (cases r)
        case Throws
        then show ?thesis using Some q arm by (simp add: pb_loop.simps [of p arm] goes_on_def)
      next
        case (Returns s)
        then have i: "i \<le> snd s" using assms [of tag x i] arm by (cases s) (auto simp: goes_on_def)
        then have "goes_on (pb_loop p arm buf stop (fst s) (snd s)) (snd s)" using q by (intro less) linarith
        then show ?thesis using Some q arm Returns i by (subst pb_loop.simps) (auto simp: goes_on_def)
      qed
    qed
  qed
qed

lemma set_goes_on: "(\<And>v j. r = Some (v, j) \<Longrightarrow> pos \<le> j) \<Longrightarrow> goes_on (pb_set r f) pos"
  by (auto simp: goes_on_def pb_set_def split: option.splits)

lemma skip_goes_on: "goes_on (pb_skip p buf tag x pos) pos"
  unfolding pb_skip_def by (rule set_goes_on) (auto dest: skip_advances)

lemma nested_goes_on:
  assumes "\<And>len i. goes_on (dec p buf len i) i"
  shows "goes_on (pb_nested p dec buf pos f) pos"
proof (cases "rd_uint32 p buf pos")
  case (Some q)
  obtain len i where q: "q = (len, i)" "pos < i" using uint32_advances Some by (cases q) auto
  then show ?thesis using assms [of len i] Some by (fastforce simp: goes_on_def pb_nested_def split: option.splits thrown.splits)
qed (simp add: goes_on_def pb_nested_def)

lemmas read_goes_on = set_goes_on [OF bytes_advances] set_goes_on [OF string_advances] set_goes_on [OF int32_advances]
  set_goes_on [OF uint64_advances] skip_goes_on

lemma payloads_go_on:
  "goes_on (LivenessRequest_decode p buf len pos) pos" "goes_on (LivenessResponse_decode p buf len pos) pos"
  "goes_on (BroadcastTransactionRequest_decode p buf len pos) pos" "goes_on (BroadcastTransactionResponse_decode p buf len pos) pos"
  unfolding LivenessRequest_decode_def LivenessResponse_decode_def BroadcastTransactionRequest_decode_def BroadcastTransactionResponse_decode_def
  by (rule loop_goes_on, simp add: LivenessRequest_arm_def LivenessResponse_arm_def BroadcastTransactionRequest_arm_def
      BroadcastTransactionResponse_arm_def read_goes_on split: prod.split)+

lemma header_ends: "MessageHeader_decode p buf \<noteq> None"
proof -
  have "goes_on (MessageHeader_arm p buf tag x pos) pos" for tag x pos
    by (simp add: MessageHeader_arm_def read_goes_on nested_goes_on payloads_go_on)
  from loop_goes_on [of "MessageHeader_arm p buf", OF this] show ?thesis
    unfolding MessageHeader_decode_def goes_on_def by blast
qed

end

section \<open>The protobuf wire format\<close>

fun utf8_decode :: "buffer \<Rightarrow> string" where
  "utf8_decode [] = []"
| "utf8_decode (b # bs) =
     (if unat b < 128 then char_of (unat b) # utf8_decode bs
      else case bs of [] \<Rightarrow> [] | c # cs \<Rightarrow> char_of ((unat b - 192) * 64 + (unat c - 128)) # utf8_decode cs)"

lemma utf8_decode_utf8: "utf8_decode (utf8 s) = s"
proof (induction s)
  case (Cons c s)
  let ?n = "of_char c :: nat"
  have n: "?n < 256" by simp
  show ?case
  proof (cases "?n < 128")
    case True
    then show ?thesis using Cons n by (simp add: utf8_def utf8_char_def unat_byte_of_nat)
  next
    case False
    have "?n div 64 < 4" using n by (intro less_mult_imp_div_less) simp
    moreover have "?n mod 64 < 64" by simp
    ultimately have "192 + ?n div 64 < 256" "128 + ?n mod 64 < 256" by linarith+
    then have u: "unat (word_of_nat (192 + ?n div 64) :: byte) = 192 + ?n div 64" "unat (word_of_nat (128 + ?n mod 64) :: byte) = 128 + ?n mod 64"
      by (simp_all only: unat_byte_of_nat mod_less)
    have "utf8 (c # s) = word_of_nat (192 + ?n div 64) # word_of_nat (128 + ?n mod 64) # utf8 s"
      using False by (simp only: utf8_def utf8_char_def Let_def list.map concat.simps if_False append.simps)
    moreover have "\<not> 192 + ?n div 64 < 128" by simp
    ultimately have "utf8_decode (utf8 (c # s)) = char_of ((192 + ?n div 64 - 192) * 64 + (128 + ?n mod 64 - 128)) # utf8_decode (utf8 s)"
      by (simp only: utf8_decode.simps u if_False list.case)
    also have "(192 + ?n div 64 - 192) * 64 + (128 + ?n mod 64 - 128) = ?n" by simp
    finally show ?thesis using Cons by simp
  qed
qed (simp add: utf8_def)

lemma length_utf8: "length (utf8 s) \<le> 2 * length s"
  by (induction s) (auto simp: utf8_def utf8_char_def Let_def)

definition rd_varint :: "buffer \<Rightarrow> nat \<Rightarrow> (nat \<times> nat) option" where
  "rd_varint buf i = map_option (\<lambda>(n, k). (n, i + k)) (leb_decode buf i)"

definition rd_block :: "buffer \<Rightarrow> nat \<Rightarrow> (buffer \<times> nat) option" where
  "rd_block buf i =
     (case rd_varint buf i of
        None \<Rightarrow> None
      | Some (n, j) \<Rightarrow> let n = n mod 2 ^ 32 in if length buf < j + n then None else Some (take n (drop j buf), j + n))"

definition protobufjs :: pbjs where
  "protobufjs = \<lparr>wr_uint32 = leb_encode, wr_int32 = leb_encode, wr_uint64 = (\<lambda>t. leb_encode (nat t)),
     wr_string = (\<lambda>s. leb_encode (length (utf8 s)) @ utf8 s), wr_bytes = (\<lambda>b. leb_encode (length b) @ b),
     rd_uint32 = (\<lambda>buf i. map_option (\<lambda>(n, j). (n mod 2 ^ 32, j)) (rd_varint buf i)),
     rd_int32 = (\<lambda>buf i. map_option (\<lambda>(n, j). (sint (word_of_nat n :: 32 word), j)) (rd_varint buf i)),
     rd_uint64 = (\<lambda>buf i. map_option (\<lambda>(n, j). (int (n mod 2 ^ 64), j)) (rd_varint buf i)),
     rd_string = (\<lambda>buf i. map_option (\<lambda>(b, j). (utf8_decode b, j)) (rd_block buf i)), rd_bytes = rd_block,
     rd_skipType = (\<lambda>t buf i. if t = 0 then map_option snd (rd_varint buf i) else if t = 1 then Some (i + 8)
       else if t = 2 then map_option snd (rd_block buf i) else if t = 5 then Some (i + 4) else None)\<rparr>"

lemma leb_read_bound: "leb_read bs = Some (n, k) \<Longrightarrow> k \<le> length bs"
  by (induction bs arbitrary: n k) (auto split: if_splits option.splits)

lemma rd_varint_wr: "rd_varint (pre @ leb_encode n @ post) (length pre) = Some (n, length pre + length (leb_encode n))"
  by (simp add: rd_varint_def leb_decode_encode)

lemma rd_varint_advances: "rd_varint buf i = Some (n, j) \<Longrightarrow> i < j \<and> j \<le> length buf"
proof -
  assume "rd_varint buf i = Some (n, j)"
  then obtain k where k: "leb_read (drop i buf) = Some (n, k)" "j = i + k" by (auto simp: rd_varint_def leb_decode_def)
  have "0 < k" "k \<le> length (drop i buf)" using leb_read_advances leb_read_bound k(1) by blast+
  then show ?thesis using k(2) by (cases "i \<le> length buf") auto
qed

lemma rd_block_wr: "length b < 2 ^ 32 \<Longrightarrow>
    rd_block (pre @ (leb_encode (length b) @ b) @ post) (length pre) = Some (b, length pre + length (leb_encode (length b) @ b))"
  using rd_varint_wr [of pre "length b" "b @ post"] by (simp add: rd_block_def add.assoc Let_def)

lemma rd_block_advances: "rd_block buf i = Some (b, j) \<Longrightarrow> i \<le> j"
  by (auto simp: rd_block_def Let_def dest!: rd_varint_advances split: option.splits if_splits)

lemma leb_nonempty: "leb_encode n \<noteq> []" by (simp add: leb_encode.simps [of n])

interpretation pbn: pb_format protobufjs
proof (unfold_locales, goal_cases)
  case (1 n pre post)
  then show ?case by (simp add: protobufjs_def rd_varint_wr)
next
  case (2 n pre post)
  then have "sint (word_of_nat n :: 32 word) = int n" by (simp add: signed_of_nat signed_take_bit_int_eq_self)
  then show ?case by (simp add: protobufjs_def rd_varint_wr)
next
  case (3 t pre post)
  then show ?case by (simp add: protobufjs_def rd_varint_wr MAX_SAFE_INTEGER_def)
next
  case (4 s pre post)
  then have "length (utf8 s) < 2 ^ 32" using length_utf8 [of s] by simp
  then show ?case using rd_block_wr [of "utf8 s"] by (simp add: protobufjs_def utf8_decode_utf8)
next
  case (5 b pre post)
  then show ?case using rd_block_wr [of b] by (simp add: protobufjs_def)
next
  case (6 s)
  have "length s \<le> length (utf8 s)" by (induction s) (auto simp: utf8_def utf8_char_def Let_def)
  then show ?case by (simp add: protobufjs_def)
next
  case (7 b)
  then show ?case by (simp add: protobufjs_def)
next
  case (8 n)
  then show ?case by (simp add: protobufjs_def leb_nonempty)
next
  case (9 buf i n j)
  then show ?case by (auto simp: protobufjs_def dest: rd_varint_advances)
next
  case (10 buf i v j)
  then show ?case by (auto simp: protobufjs_def dest: rd_varint_advances)
next
  case (11 buf i v j)
  then show ?case by (auto simp: protobufjs_def dest: rd_varint_advances)
next
  case (12 buf i s j)
  then show ?case by (auto simp: protobufjs_def dest: rd_block_advances)
next
  case (13 buf i b j)
  then show ?case by (auto simp: protobufjs_def dest: rd_block_advances)
next
  case (14 ty buf i j)
  then show ?case by (auto simp: protobufjs_def dest: rd_varint_advances rd_block_advances split: if_splits)
qed

end
