(* ===== verification/Peer_Services.thy ===== *)
theory Peer_Services
  imports V1_Response
begin

text \<open>
  What a node keeps of its peers: the requests it waits on (\<open>services/PendingRequestService.js\<close>), the rate
  limiter (\<open>services/TransactionRateLimiterService.js\<close>), and the handling of a response in two halves, before
  and after the wait for its validator (\<open>v1/handlers/V1BaseOperationHandler.js\<close>).
\<close>

section \<open>Pending requests\<close>

definition PEER_PUBLIC_KEY_HEX_LENGTH :: nat where [simp]: "PEER_PUBLIC_KEY_HEX_LENGTH = 64"

datatype register_error = InvalidPeerKey | InvalidRequestId | UnsupportedRequestType | TooManyRequests | DuplicateRequest

text \<open>What a promise of a request is rejected with.\<close>

datatype request_error = RequestTimeout | RequestRejected fault | ConnectionLost | SendFailed | RequestCancelled

record requests =
  rq_pending :: "pending_request list"
  rq_settled :: "(string \<times> (request_error + result_code)) list"

definition requestMessageTypes :: "nat list" where
  "requestMessageTypes = [NT_LIVENESS_REQUEST, NT_BROADCAST_TRANSACTION_REQUEST]"

definition getPendingRequest :: "string \<Rightarrow> requests \<Rightarrow> pending_request option" where
  "getPendingRequest i s = List.find (\<lambda>e. pr_id e = i) (rq_pending s)"

definition hasPendingRequest :: "string \<Rightarrow> requests \<Rightarrow> bool" where
  "hasPendingRequest i s \<longleftrightarrow> list_ex (\<lambda>e. pr_id e = i) (rq_pending s)"

definition isProbePending :: "string \<Rightarrow> requests \<Rightarrow> bool" where
  "isProbePending peer s \<longleftrightarrow> list_ex (\<lambda>e. pr_requestedTo e = peer \<and> pr_requestType e = NT_LIVENESS_REQUEST) (rq_pending s)"

definition validateRegisterInput :: "string \<Rightarrow> net_message \<Rightarrow> register_error + unit" where
  "validateRegisterInput peer m =
     (if \<not> isHexString peer \<or> length peer \<noteq> PEER_PUBLIC_KEY_HEX_LENGTH then Inl InvalidPeerKey
      else if length (nm_id m) = 0 then Inl InvalidRequestId
      else if \<not> List.member requestMessageTypes (nm_type m) then Inl UnsupportedRequestType
      else Inr ())"

definition extractRequestTxData :: "net_message \<Rightarrow> buffer option" where
  "extractRequestTxData m =
     (if nm_type m \<noteq> NT_BROADCAST_TRANSACTION_REQUEST then None
      else map_option np_data (List.find is_BroadcastRequest (nm_payloads m)))"

definition registerPendingRequest :: "nat \<Rightarrow> string \<Rightarrow> net_message \<Rightarrow> requests \<Rightarrow> register_error + requests" where
  "registerPendingRequest maxRequests peer m s =
     chain (validateRegisterInput peer m) (\<lambda>_.
       if length (rq_pending s) \<ge> maxRequests then Inl TooManyRequests
       else if hasPendingRequest (nm_id m) s then Inl DuplicateRequest
       else Inr (s\<lparr>rq_pending := rq_pending s @ [\<lparr>pr_id = nm_id m, pr_requestType = nm_type m,
              pr_requestTxData = extractRequestTxData m, pr_requestedTo = peer, pr_armed = True\<rparr>]\<rparr>))"

definition getAndDeletePendingRequest :: "string \<Rightarrow> requests \<Rightarrow> (pending_request \<times> requests) option" where
  "getAndDeletePendingRequest i s =
     (case getPendingRequest i s of
        None \<Rightarrow> None
      | Some entry \<Rightarrow> Some (entry, s\<lparr>rq_pending := filter (\<lambda>e. pr_id e \<noteq> i) (rq_pending s)\<rparr>))"

definition settleRequest :: "string \<Rightarrow> request_error + result_code \<Rightarrow> requests \<Rightarrow> bool \<times> requests" where
  "settleRequest i outcome s =
     (case getAndDeletePendingRequest i s of
        None \<Rightarrow> (False, s)
      | Some (entry, s) \<Rightarrow> (True, s\<lparr>rq_settled := rq_settled s @ [(i, outcome)]\<rparr>))"

definition resolvePendingRequest :: "string \<Rightarrow> result_code \<Rightarrow> requests \<Rightarrow> bool \<times> requests" where
  "resolvePendingRequest i resultCode = settleRequest i (Inr resultCode)"

definition rejectPendingRequest :: "string \<Rightarrow> request_error \<Rightarrow> requests \<Rightarrow> bool \<times> requests" where
  "rejectPendingRequest i error = settleRequest i (Inl error)"

definition rejectPendingRequestsForPeer :: "string \<Rightarrow> request_error \<Rightarrow> requests \<Rightarrow> nat \<times> requests" where
  "rejectPendingRequestsForPeer peer error s =
     (let idsToReject = map pr_id (filter (\<lambda>e. pr_requestedTo e = peer) (rq_pending s))
      in (length idsToReject, fold (\<lambda>i s. snd (rejectPendingRequest i error s)) idsToReject s))"

definition stopPendingRequestTimeout :: "string \<Rightarrow> requests \<Rightarrow> bool \<times> requests" where
  "stopPendingRequestTimeout i s =
     (if \<not> hasPendingRequest i s then (False, s)
      else (True, s\<lparr>rq_pending := map (\<lambda>e. if pr_id e = i then e\<lparr>pr_armed := False\<rparr> else e) (rq_pending s)\<rparr>))"

definition closeRequests :: "requests \<Rightarrow> requests" where
  "closeRequests s = s\<lparr>rq_settled := rq_settled s @ map (\<lambda>e. (pr_id e, Inl RequestCancelled)) (rq_pending s), rq_pending := []\<rparr>"

text \<open>\<open>V1Protocol.send\<close>: a message that cannot be written rejects its own request. \<open>sent\<close> says whether it could.\<close>

definition v1_send :: "nat \<Rightarrow> string \<Rightarrow> bool \<Rightarrow> net_message \<Rightarrow> requests \<Rightarrow> register_error + requests" where
  "v1_send maxRequests peer sent m s =
     chain (registerPendingRequest maxRequests peer m s) (\<lambda>s.
       Inr (if sent then s else snd (rejectPendingRequest (nm_id m) SendFailed s)))"

section \<open>The rate limiter\<close>

record peer_statistics =
  ps_sessionStartTime :: int
  ps_lastActivityTime :: int
  ps_lastCounterReset :: int
  ps_transactionCount :: nat

record limiter =
  lm_lastCleanup :: int
  lm_statistics :: "string \<Rightarrow> peer_statistics option"

record rate_config =
  rl_disabled :: bool
  rl_maxTransactionsPerSecond :: nat
  rl_cleanupIntervalMs :: int
  rl_connectionTimeoutMs :: int

definition new_limiter :: "int \<Rightarrow> limiter" where
  "new_limiter now = \<lparr>lm_lastCleanup = now, lm_statistics = Map.empty\<rparr>"

text \<open>The entry of the peer, which its callers have made sure of; the counter is reset in the entry.\<close>

definition hasExceededRateLimit :: "rate_config \<Rightarrow> peer_statistics \<Rightarrow> int \<Rightarrow> bool \<times> peer_statistics" where
  "hasExceededRateLimit cfg peerData currentTime =
     (let currentSecond = (currentTime - ps_sessionStartTime peerData) div 1000;
          lastResetSecond = (ps_lastCounterReset peerData - ps_sessionStartTime peerData) div 1000;
          peerData = (if currentSecond > lastResetSecond
            then peerData\<lparr>ps_transactionCount := 0, ps_lastCounterReset := currentTime\<rparr> else peerData)
      in (ps_transactionCount peerData \<ge> rl_maxTransactionsPerSecond cfg, peerData))"

definition isConnectionExpired :: "rate_config \<Rightarrow> int \<Rightarrow> peer_statistics \<Rightarrow> bool" where
  "isConnectionExpired cfg currentTime peerData \<longleftrightarrow> currentTime - ps_lastActivityTime peerData \<ge> rl_connectionTimeoutMs cfg"

definition cleanUpOldConnections :: "rate_config \<Rightarrow> int \<Rightarrow> limiter \<Rightarrow> limiter" where
  "cleanUpOldConnections cfg currentTime l =
     (if \<not> currentTime - lm_lastCleanup l \<ge> rl_cleanupIntervalMs cfg then l
      else \<lparr>lm_lastCleanup = currentTime,
             lm_statistics = (\<lambda>peer. case lm_statistics l peer of
               None \<Rightarrow> None
             | Some peerData \<Rightarrow> if isConnectionExpired cfg currentTime peerData then None else Some peerData)\<rparr>)"

definition initializePeerConnectionInfoEntry :: "string \<Rightarrow> int \<Rightarrow> limiter \<Rightarrow> peer_statistics \<times> limiter" where
  "initializePeerConnectionInfoEntry peer timestamp l =
     (case lm_statistics l peer of
        Some peerData \<Rightarrow> (peerData, l)
      | None \<Rightarrow>
          (let peerData = \<lparr>ps_sessionStartTime = timestamp, ps_lastActivityTime = timestamp, ps_lastCounterReset = timestamp,
                 ps_transactionCount = 0\<rparr>
           in (peerData, l\<lparr>lm_statistics := (lm_statistics l)(peer \<mapsto> peerData)\<rparr>)))"

definition updatePeerConnectionInfo :: "string \<Rightarrow> int \<Rightarrow> peer_statistics \<Rightarrow> limiter \<Rightarrow> limiter" where
  "updatePeerConnectionInfo peer timestamp peerData l =
     l\<lparr>lm_statistics := (lm_statistics l)(peer \<mapsto> peerData\<lparr>ps_lastActivityTime := timestamp,
         ps_transactionCount := ps_transactionCount peerData + 1\<rparr>)\<rparr>"

text \<open>\<open>True\<close>: the peer is disconnected.\<close>

definition legacyHandleRateLimit :: "rate_config \<Rightarrow> string \<Rightarrow> int \<Rightarrow> limiter \<Rightarrow> bool \<times> limiter" where
  "legacyHandleRateLimit cfg peer currentTime l =
     (case initializePeerConnectionInfoEntry peer currentTime (cleanUpOldConnections cfg currentTime l) of
        (peerData, l) \<Rightarrow>
          (case hasExceededRateLimit cfg peerData currentTime of
             (exceeded, peerData) \<Rightarrow>
               if exceeded then (True, l\<lparr>lm_statistics := (lm_statistics l)(peer \<mapsto> peerData)\<rparr>)
               else (False, updatePeerConnectionInfo peer currentTime peerData l)))"

definition v1HandleRateLimit :: "rate_config \<Rightarrow> string \<Rightarrow> int \<Rightarrow> limiter \<Rightarrow> verdict \<times> limiter" where
  "v1HandleRateLimit cfg peer currentTime l =
     (case initializePeerConnectionInfoEntry peer currentTime (cleanUpOldConnections cfg currentTime l) of
        (peerData, l) \<Rightarrow>
          (case hasExceededRateLimit cfg peerData currentTime of
             (exceeded, peerData) \<Rightarrow>
               if exceeded then (Inl (Protocol RC_RATE_LIMITED), l\<lparr>lm_statistics := (lm_statistics l)(peer \<mapsto> peerData)\<rparr>)
               else (Inr (), updatePeerConnectionInfo peer currentTime peerData l)))"

definition applyRateLimit :: "rate_config \<Rightarrow> string \<Rightarrow> int \<Rightarrow> limiter \<Rightarrow> verdict \<times> limiter" where
  "applyRateLimit cfg peer currentTime l = (if rl_disabled cfg then (Inr (), l) else v1HandleRateLimit cfg peer currentTime l)"

section \<open>Handling a response\<close>

text \<open>A response that is being validated, with the key of its sender and the entry it was taken for.\<close>

type_synonym flight = "net_message \<times> buffer \<times> pending_request"

record peer_node =
  pn_requests :: requests
  pn_limiter :: limiter
  pn_flights :: "flight list"

fun toProtocolError :: "fault \<Rightarrow> fault" where
  "toProtocolError (Protocol c) = Protocol c"
| "toProtocolError OtherError = Protocol RC_UNEXPECTED_ERROR"

definition handlePendingResponseError :: "string \<Rightarrow> fault \<Rightarrow> peer_node \<Rightarrow> peer_node" where
  "handlePendingResponseError i error nd =
     nd\<lparr>pn_requests := snd (rejectPendingRequest i (RequestRejected (toProtocolError error)) (pn_requests nd))\<rparr>"

text \<open>\<open>handleResponse\<close> with \<open>resolvePendingResponse\<close> up to its wait, and after it.\<close>

definition startResponse :: "rate_config \<Rightarrow> int \<Rightarrow> net_message \<Rightarrow> buffer \<Rightarrow> peer_node \<Rightarrow> peer_node" where
  "startResponse cfg now m remotePublicKey nd =
     (case applyRateLimit cfg (to_hex remotePublicKey) now (pn_limiter nd) of
        (Inl e, l) \<Rightarrow> handlePendingResponseError (nm_id m) e (nd\<lparr>pn_limiter := l\<rparr>)
      | (Inr _, l) \<Rightarrow>
          (case getPendingRequest (nm_id m) (pn_requests nd) of
             None \<Rightarrow> nd\<lparr>pn_limiter := l\<rparr>
           | Some entry \<Rightarrow>
               nd\<lparr>pn_limiter := l, pn_requests := snd (stopPendingRequestTimeout (nm_id m) (pn_requests nd)),
                  pn_flights := pn_flights nd @ [(m, remotePublicKey, entry)]\<rparr>))"

definition finishResponse :: "verdict \<Rightarrow> net_message \<Rightarrow> peer_node \<Rightarrow> peer_node" where
  "finishResponse validated m nd =
     (case chain validated (\<lambda>_. payload_where (if nm_type m = NT_LIVENESS_RESPONSE then is_LivenessResponse else is_BroadcastResponse) m) of
        Inl e \<Rightarrow> handlePendingResponseError (nm_id m) e nd
      | Inr p \<Rightarrow> nd\<lparr>pn_requests := snd (resolvePendingRequest (nm_id m) (np_result p) (pn_requests nd))\<rparr>)"

text \<open>The handler, and with it the validator, is chosen by the type of the message.\<close>

definition responseVerdict :: "'b env \<Rightarrow> publication \<Rightarrow> wire \<Rightarrow> (buffer \<Rightarrow> buffer) \<Rightarrow> node_state \<Rightarrow> flight \<Rightarrow> verdict" where
  "responseVerdict E P wr hash s f =
     (case f of (m, remotePublicKey, entry) \<Rightarrow>
        if nm_type m = NT_LIVENESS_RESPONSE then validateLivenessResponse E hash m remotePublicKey entry
        else validateBroadcastResponse E P wr hash s m remotePublicKey entry)"

end
