(* ===== verification/V1_Handlers.thy ===== *)
theory V1_Handlers
  imports Peer_Services Network_Codec
begin

text \<open>
  How a validator answers the requests of protocol v1: \<open>V1LivenessOperationHandler.js\<close>, the request side of
  \<open>V1BroadcastTransactionOperationHandler.js\<close>, and the router \<open>v1/NetworkMessageRouter.js\<close>.
\<close>

definition NETWORK_CAPABILITIES :: "string list" where
  "NETWORK_CAPABILITIES = [''protocols:v1:legacy'']"

text \<open>What goes out to the peer: a response if it could be built, and whether the connection ends. A response that
  cannot be built ends it.\<close>

definition sendResponseAndMaybeClose :: "net_message option \<Rightarrow> bool \<Rightarrow> net_message option \<times> bool" where
  "sendResponseAndMaybeClose response endConnection =
     (case response of None \<Rightarrow> (None, True) | Some m \<Rightarrow> (Some m, endConnection))"

definition handleLivenessRequest :: "'b env \<Rightarrow> (buffer \<Rightarrow> buffer) \<Rightarrow> wallet \<Rightarrow> buffer \<Rightarrow> rate_config \<Rightarrow> int \<Rightarrow> net_message \<Rightarrow> buffer \<Rightarrow> limiter \<Rightarrow>
    (net_message option \<times> bool) \<times> limiter" where
  "handleLivenessRequest E hash w nonce cfg now m remotePublicKey l =
     (case applyRateLimit cfg (to_hex remotePublicKey) now l of
        (limited, l) \<Rightarrow>
          (case chain limited (\<lambda>_. validateLivenessRequest E hash m remotePublicKey) of
             Inr _ \<Rightarrow> (sendResponseAndMaybeClose (buildLivenessResponse E hash w nonce now (nm_id m) NETWORK_CAPABILITIES RC_OK) False, l)
           | Inl error \<Rightarrow>
               (let resultCode = getResultCode error
                in (sendResponseAndMaybeClose (buildLivenessResponse E hash w nonce now (nm_id m) NETWORK_CAPABILITIES resultCode)
                      (shouldEndConnection resultCode), l))))"

definition sendBroadcastTransactionResponse :: "'b env \<Rightarrow> (buffer \<Rightarrow> buffer) \<Rightarrow> wallet \<Rightarrow> buffer \<Rightarrow> int \<Rightarrow> string \<Rightarrow> request_outcome \<Rightarrow>
    net_message option \<times> bool" where
  "sendBroadcastTransactionResponse E hash w nonce now i out =
     sendResponseAndMaybeClose
       (buildBroadcastTransactionResponse E hash w nonce now i NETWORK_CAPABILITIES (ro_resultCode out) (ro_proof out) (Some (ro_timestamp out)))
       (ro_endConnection out)"

text \<open>
  \<open>handleRequest\<close> of a broadcast up to the wait for the promise: the hash it waits on, or the outcome of the
  failed request. \<open>nonce\<close> is drawn by the builder of the completed operation.
\<close>

definition startBroadcastRequest :: "'b env \<Rightarrow> wire \<Rightarrow> (buffer \<Rightarrow> buffer) \<Rightarrow> wallet \<Rightarrow> buffer \<Rightarrow> nat \<Rightarrow> node_state \<Rightarrow> rate_config \<Rightarrow> int \<Rightarrow>
    net_message \<Rightarrow> buffer \<Rightarrow> limiter \<times> services \<Rightarrow> (request_outcome + string) \<times> limiter \<times> services" where
  "startBroadcastRequest E wr hash w nonce txPoolSize s cfg now m remotePublicKey st =
     (case st of (l, svc) \<Rightarrow>
       (case applyRateLimit cfg (to_hex remotePublicKey) now l of
          (limited, l) \<Rightarrow>
            (let admitted = chain limited (\<lambda>_. validateBroadcastRequest E hash m remotePublicKey);
                 txData = (case List.find is_BroadcastRequest (nm_payloads m) of Some p \<Rightarrow> np_data p | None \<Rightarrow> [])
             in case processBroadcastTransactionRequest E wr hash w nonce txPoolSize s admitted txData svc of
                  (Inl error, svc) \<Rightarrow> (Inl (buildFailedRequestOutcome (error, 0)), l, svc)
                | (Inr txHash, svc) \<Rightarrow> (Inr txHash, l, svc))))"

section \<open>The router\<close>

definition V1_PROTOCOL_PAYLOAD_MAX_SIZE :: nat where [simp]: "V1_PROTOCOL_PAYLOAD_MAX_SIZE = 4096"

datatype route = Disconnect | LivenessRequestHandler net_message | LivenessResponseHandler net_message
  | BroadcastRequestHandler net_message | BroadcastResponseHandler net_message

text \<open>The second component says whether the message has told the session that the peer speaks protocol v1.\<close>

definition route_v1 :: "pbjs \<Rightarrow> buffer \<Rightarrow> route \<times> bool" where
  "route_v1 p incomingMessage =
     (if length incomingMessage = 0 \<or> length incomingMessage > V1_PROTOCOL_PAYLOAD_MAX_SIZE then (Disconnect, False)
      else case decodeV1networkOperation p incomingMessage of
        None \<Rightarrow> (Disconnect, False)
      | Some (type, m) \<Rightarrow>
          if type \<le> 0 then (Disconnect, False)
          else if nm_type m = NT_LIVENESS_REQUEST then (LivenessRequestHandler m, True)
          else if nm_type m = NT_LIVENESS_RESPONSE then (LivenessResponseHandler m, True)
          else if nm_type m = NT_BROADCAST_TRANSACTION_REQUEST then (BroadcastRequestHandler m, True)
          else if nm_type m = NT_BROADCAST_TRANSACTION_RESPONSE then (BroadcastResponseHandler m, True)
          else (Disconnect, True))"

end
