(* ===== verification/Answer_Spec.thy ===== *)
theory Answer_Spec
  imports V1_Handlers V1_Spec
begin

text \<open>
  Every request of a broadcast gets an answer that its sender can check: the codes with which a validator may
  refuse, and the responses that are built from them.
\<close>

section \<open>Refusals\<close>

text \<open>A refusal is reported with a code that goes with an empty proof and no time.\<close>

definition refusal :: "fault \<Rightarrow> bool" where
  "refusal e \<longleftrightarrow> getResultCode e < 62 \<and> getResultCode e \<noteq> RC_OK \<and> getResultCode e \<noteq> RC_TX_ACCEPTED_PROOF_UNAVAILABLE"

definition refuses :: "fault + 'a \<Rightarrow> bool" where
  "refuses v \<longleftrightarrow> (\<forall>e. v = Inl e \<longrightarrow> refusal e)"

lemma refuses_Inl [simp]: "refuses (Inl e) \<longleftrightarrow> refusal e" by (simp add: refuses_def)
lemma refuses_Inr [simp]: "refuses (Inr x)" by (simp add: refuses_def)
lemma refusal_Other [simp]: "refusal OtherError" by (simp add: refusal_def)
lemma refusal_Protocol [simp]: "refusal (Protocol c) \<longleftrightarrow> c < 62 \<and> c \<noteq> 1 \<and> c \<noteq> 8" by (simp add: refusal_def)
lemma refuses_check [simp]: "c < 62 \<Longrightarrow> c \<noteq> 1 \<Longrightarrow> c \<noteq> 8 \<Longrightarrow> refuses (check_that b c)" by (simp add: check_that_def)

lemma refuses_chain [intro!]: "refuses v \<Longrightarrow> (\<And>x. refuses (f x)) \<Longrightarrow> refuses (chain v f)"
  by (cases v) auto

lemma refuses_all [simp]: "list_all refuses vs \<Longrightarrow> refuses (all_steps vs)"
  by (induction vs) auto

section \<open>The checks of a partial operation\<close>

lemma balance_refuses [simp]: "c < 62 \<Longrightarrow> c \<noteq> 1 \<Longrightarrow> c \<noteq> 8 \<Longrightarrow> refuses (balance_at_least e n c)"
  by (simp add: balance_at_least_def split: sum.split)

lemma requester_refuses [simp]:
  "refuses (validateRequesterBalance E s d b)" "refuses (validateRequesterBalanceForAddWriterOperation E s d b)"
  by (simp_all add: validateRequesterBalance_def validateRequesterBalanceForAddWriterOperation_def split: option.split)

lemma common_refuses [simp]: "list_all refuses (common_steps E hash self s d)"
  by (auto simp: common_steps_def isPayloadSchemaValid_def validateNoSelfValidation_def validateRequesterAddress_def
    validateTransactionUniqueness_def validateSignature_def validateTransactionValidity_def isOperationNotCompleted_def Let_def
    split: option.split)

lemma transfer_refuses: "refuses (validateTransfer E hash self s d)"
  by (auto simp: validateTransfer_def validateRecipientAddress_def validateStateBalances_def recipient_room_def Let_def
    split: option.split sum.split)

lemma transaction_refuses: "refuses (validateTransaction E hash self s d)"
  by (auto simp: validateTransaction_def validateSubnetworkBootstrapEquality_def validateMsbBootstrap_def
    validateIfExternalBootstrapHasBeenDeployed_def Let_def split: option.split op_value.split field.split)

lemma deployment_refuses: "refuses (validateBootstrapDeployment E hash self s d)"
  by (auto simp: validateBootstrapDeployment_def validateSubnetworkBootstrapEquality_def validateBootstrapRegistration_def)

lemma role_refuses: "refuses (validateRoleAccess E hash self s d)"
proof -
  have "refuses (validateWriterKey E s d)" by (simp add: validateWriterKey_def Let_def split: option.split)
  moreover have "refuses (isRequesterAllowedToChangeRole E s d)"
    by (auto simp: isRequesterAllowedToChangeRole_def Let_def split: option.split)
  ultimately show ?thesis by (simp add: validateRoleAccess_def)
qed

section \<open>The request\<close>

lemma build_refuses: "refuses (strategy_build E hash w nonce s d)"
  unfolding strategy_build_def
  by (rule refuses_chain)
    (auto simp: partial_validator_def transfer_refuses transaction_refuses deployment_refuses role_refuses
      split: sum.split prod.split built.split)

lemma enqueue_refuses: "refuses (fst (enqueue n h b svc))"
proof -
  have "refusal (mapPendingCommitRegistrationError e)" "refusal (mapTransactionEnqueueError e')" for e e'
    by (cases e; simp) (cases e'; simp)
  then show ?thesis by (simp add: enqueue_def Let_def split: sum.split prod.split)
qed

lemma dispatch_refuses: "refuses (fst (dispatchTransaction E wr hash w nonce n s d svc))"
  using build_refuses [of E hash w nonce s d] enqueue_refuses
  by (auto simp: dispatchTransaction_def Let_def split: sum.split option.split prod.split)
    (metis fst_conv refuses_Inl)

lemma process_refuses:
  assumes "refuses admitted"
  shows "refuses (fst (processBroadcastTransactionRequest E wr hash w nonce n s admitted d svc))"
proof -
  have "refuses (chain admitted (\<lambda>_. validateWriteCapability E s (w_address w)))"
    using assms by (auto simp: validateWriteCapability_def split: option.split)
  moreover have "refusal (mapTxPoolAvailabilityError e)" for e by (cases e) simp_all
  ultimately show ?thesis
    using dispatch_refuses
    by (auto simp: processBroadcastTransactionRequest_def split: sum.split option.split thrown.split prod.split)
qed

lemma envelope_refuses: "refuses (validateBroadcastRequest E hash m pk)"
proof -
  have "refuses (v1_isPayloadSchemaValid m)"
    by (auto simp: v1_isPayloadSchemaValid_def v1_schemaValidator_def)
  moreover have "refuses (isDataPropertySizeValid m)"
    by (auto simp: isDataPropertySizeValid_def payload_where_def split: option.split)
  moreover have "refuses (buildSignatureMessage m)"
    by (auto simp: buildSignatureMessage_def payload_where_def or_throw_def Let_def split: option.split)
  then have "refuses (v1_validateSignature E hash m pk)"
    by (auto simp: v1_validateSignature_def split: sum.split fault.split)
  ultimately show ?thesis unfolding validateBroadcastRequest_def by (intro refuses_all) (simp del: all_steps.simps)
qed

lemma rate_refuses: "refuses (fst (applyRateLimit cfg peer now l))"
  by (auto simp: applyRateLimit_def v1HandleRateLimit_def split: prod.split)

lemma start_refuses:
  assumes "startBroadcastRequest E wr hash w nonce n s cfg now m pk (l, svc) = (Inl out, l', svc')"
  shows "\<exists>e. refusal e \<and> out = buildFailedRequestOutcome (e, 0)"
proof -
  obtain v l1 where v: "applyRateLimit cfg (to_hex pk) now l = (v, l1)" by fastforce
  have "refuses (chain v (\<lambda>_. validateBroadcastRequest E hash m pk))"
    using rate_refuses [of cfg "to_hex pk" now l] envelope_refuses v by auto
  define d where "d = (case List.find is_BroadcastRequest (nm_payloads m) of Some p \<Rightarrow> np_data p | None \<Rightarrow> [])"
  obtain r svc2 where r: "processBroadcastTransactionRequest E wr hash w nonce n s (chain v (\<lambda>_. validateBroadcastRequest E hash m pk)) d svc = (r, svc2)"
    by fastforce
  have "refuses r"
    using process_refuses [OF \<open>refuses (chain v (\<lambda>_. validateBroadcastRequest E hash m pk))\<close>, of E wr hash w nonce n s d svc] by (simp add: r)
  moreover have "startBroadcastRequest E wr hash w nonce n s cfg now m pk (l, svc) =
      (case r of Inl error \<Rightarrow> (Inl (buildFailedRequestOutcome (error, 0)), l1, svc2) | Inr txHash \<Rightarrow> (Inr txHash, l1, svc2))"
    using r by (simp add: startBroadcastRequest_def v d_def Let_def split: sum.split)
  ultimately show ?thesis using assms by (cases r) auto
qed

section \<open>The answer\<close>

text \<open>An outcome that goes on the wire.\<close>

definition answerable :: "request_outcome \<Rightarrow> bool" where
  "answerable out \<longleftrightarrow> ro_resultCode out < 62 \<and> 0 \<le> ro_timestamp out \<and> ro_timestamp out \<le> MAX_SAFE_INTEGER \<and>
     result_consistent (ro_resultCode out) (case ro_proof out of None \<Rightarrow> [] | Some p \<Rightarrow> p) (ro_timestamp out)"

lemma refused_answerable: "refusal e \<Longrightarrow> answerable (buildFailedRequestOutcome (e, 0))"
  by (simp add: refusal_def answerable_def buildFailedRequestOutcome_def result_consistent_def Let_def MAX_SAFE_INTEGER_def)

text \<open>The settlements that the two services and the request give. A receipt that resolves a promise has a proof.\<close>

definition settled_well :: "settlement \<Rightarrow> bool" where
  "settled_well r \<longleftrightarrow> (case r of
     Inr receipt \<Rightarrow> (\<exists>p. r_proof receipt = Some p \<and> p \<noteq> []) \<and> 1 \<le> r_timestamp receipt \<and> r_timestamp receipt \<le> MAX_SAFE_INTEGER
   | Inl (PoolError (TransactionPoolProofUnavailable t)) \<Rightarrow> 1 \<le> t \<and> t \<le> MAX_SAFE_INTEGER
   | Inl (RequestError e) \<Rightarrow> refusal e
   | Inl _ \<Rightarrow> True)"

lemma settled_answerable:
  assumes "settled_well r"
  shows "answerable (request_settled r)"
proof (cases r)
  case (Inr receipt)
  then show ?thesis using assms
    by (auto simp: settled_well_def request_settled_def answerable_def result_consistent_def Let_def)
next
  case (Inl e)
  show ?thesis
  proof (cases "\<exists>t. e = PoolError (TransactionPoolProofUnavailable t)")
    case True
    then show ?thesis using assms Inl
      by (auto simp: settled_well_def request_settled_def answerable_def result_consistent_def Let_def buildFailedRequestOutcome_def
        isSafeInteger_def)
  next
    case False
    have "\<exists>e'. refusal e' \<and> mapPendingCommitResolutionError e = (e', 0)"
    proof (cases e)
      case (CommitError c)
      then show ?thesis by (cases c) simp_all
    next
      case (PoolError c)
      then show ?thesis using False by (cases c) simp_all
    next
      case (RequestError f)
      then show ?thesis using assms Inl by (simp add: settled_well_def)
    qed simp
    then show ?thesis using refused_answerable Inl by (auto simp: request_settled_def)
  qed
qed

lemma answered:
  assumes out: "answerable out" and w: "net_wallet E hash w pk" "isAddressValid E (w_address w)" and n: "net_buffer 32 nonce"
    and i: "i \<noteq> []" "length i \<le> 64" and t: "1 \<le> now" "now \<le> MAX_SAFE_INTEGER"
    and e: "pr_requestType entry = NT_BROADCAST_TRANSACTION_REQUEST" "pr_requestedTo entry = to_hex pk"
  shows "\<exists>m sig. sendBroadcastTransactionResponse E hash w nonce now i out = (Some m, ro_endConnection out) \<and> nm_id m = i \<and>
    nm_payloads m = [BroadcastResponse nonce sig (case ro_proof out of None \<Rightarrow> [] | Some p \<Rightarrow> p) (ro_timestamp out) (ro_resultCode out)] \<and>
    all_steps (response_steps E hash m pk entry) = Inr ()"
proof -
  let ?p = "case ro_proof out of None \<Rightarrow> [] | Some p \<Rightarrow> p"
  have caps: "encodeCapabilities NETWORK_CAPABILITIES \<noteq> None"
    by (simp add: encodeCapabilities_def NETWORK_CAPABILITIES_def writeUInt16BE_def utf8_def utf8_char_def Let_def)
  then obtain c where c: "encodeCapabilities NETWORK_CAPABILITIES = Some c" by blast
  have "buildBroadcastTransactionResponse E hash w nonce now i NETWORK_CAPABILITIES (ro_resultCode out) (ro_proof out) (Some (ro_timestamp out)) =
      buildBroadcastTransactionResponse E hash w nonce now i NETWORK_CAPABILITIES (ro_resultCode out) (Some ?p) (Some (ro_timestamp out))"
  proof -
    have "nb_setProof None = nb_setProof (Some [])" by (rule ext) (simp add: nb_setProof_def alloc_def)
    then show ?thesis by (cases "ro_proof out") (simp_all add: buildBroadcastTransactionResponse_def)
  qed
  moreover obtain m sig where m: "buildBroadcastTransactionResponse E hash w nonce now i NETWORK_CAPABILITIES (ro_resultCode out) (Some ?p)
      (Some (ro_timestamp out)) = Some m" "nm_id m = i" "nm_payloads m = [BroadcastResponse nonce sig ?p (ro_timestamp out) (ro_resultCode out)]"
    using out w(2) i(1) t c
    by (simp add: answerable_def buildBroadcastTransactionResponse_def build_net_defs buildBroadcastResponsePayload_def Let_def
      ResultCode_values_def timestampToBuffer_def uint64ToBuffer_def)
  ultimately show ?thesis
    using built_verified(4) [OF w(1) n i(2) t(1) m(1)] e
    by (auto simp: sendBroadcastTransactionResponse_def sendResponseAndMaybeClose_def)
qed

end
