(* ===== verification/Message_Spec.thy ===== *)
theory Message_Spec
  imports Broadcast_Spec Normalizers
begin

text \<open>
  What \<open>build\<close> makes of a builder in the partial phase, why a validator's checks of schema and signature
  pass on it, and the way through JSON.
\<close>

section \<open>Sizes\<close>

text \<open>Every setter puts in a buffer of its size; an address is one of the network.\<close>

definition opt_sized :: "nat \<Rightarrow> buffer option \<Rightarrow> bool" where
  "opt_sized n x \<longleftrightarrow> (case x of None \<Rightarrow> True | Some b \<Rightarrow> length b = n)"

definition opt_address :: "'b env \<Rightarrow> buffer option \<Rightarrow> bool" where
  "opt_address E x \<longleftrightarrow> (case x of None \<Rightarrow> True | Some b \<Rightarrow> bufferToAddress E b \<noteq> None)"

definition builder_sized :: "'b env \<Rightarrow> builder \<Rightarrow> bool" where
  "builder_sized E b \<longleftrightarrow> opt_address E (b_address b) \<and> opt_address E (b_incomingAddress b) \<and>
     opt_sized 16 (b_amount b) \<and> opt_sized 64 (b_incomingSignature b) \<and>
     list_all (opt_sized 32) [b_channel b, b_contentHash b, b_externalBootstrap b, b_incomingNonce b, b_incomingWriterKey b,
       b_msbBootstrap b, b_txHash b, b_txValidity b, b_writingKey b]"

lemma fresh_sized: "builder_sized E fresh_builder"
  by (simp add: builder_sized_def opt_sized_def opt_address_def fresh_builder_def)

lemma normalizeAddress_valid:
  assumes "normalizeAddress E v = Some b" "\<And>s. address_isValid E s = Some True \<Longrightarrow> ascii_string (ascii_bytes s) = s"
  shows "bufferToAddress E b \<noteq> None"
  using assms
  by (auto simp: normalizeAddress_def addressToBuffer_def bufferToAddress_def isAddressValid_def Let_def
      split: js.splits option.splits if_splits)

lemmas setter_accepts = txHash.accepts txValidity.accepts writerKey.accepts incomingWriterKey.accepts incomingNonce.accepts
  contentHash.accepts incomingSignature.accepts externalBootstrap.accepts msbBootstrap.accepts channel.accepts amount.accepts

text \<open>A setter of the builder, by its name.\<close>

definition setters :: "'b env \<Rightarrow> (js \<Rightarrow> step) list" where
  "setters E = [setPhase, setOutput, setOperationType, setAddress E, setIncomingAddress E, setTxHash, setTxValidity, setWriterKey,
     setIncomingWriterKey, setIncomingNonce, setContentHash, setIncomingSignature, setExternalBootstrap, setMsbBootstrap,
     setChannel, setAmount]"

lemma sized_values:
  "sized_buffer n v = Some x \<Longrightarrow> opt_sized n (Some x)" "opt_address E (Some a) \<longleftrightarrow> bufferToAddress E a \<noteq> None"
  by (simp_all add: opt_sized_def opt_address_def sized_buffer_length)

lemma sized_frame [simp]:
  "builder_sized E (b\<lparr>b_phase := x\<rparr>) = builder_sized E b" "builder_sized E (b\<lparr>b_output := x\<rparr>) = builder_sized E b"
  "builder_sized E (b\<lparr>b_operationType := t\<rparr>) = builder_sized E b"
  by (simp_all add: builder_sized_def)

lemma address_setters_sized:
  assumes "\<And>s. address_isValid E s = Some True \<Longrightarrow> ascii_string (ascii_bytes s) = s" "builder_sized E b"
  shows "setAddress E v b = Inr b' \<Longrightarrow> builder_sized E b'" "setIncomingAddress E v b = Inr b' \<Longrightarrow> builder_sized E b'"
proof -
  have valid: "bufferToAddress E x \<noteq> None" if "normalizeAddress E v = Some x" for x
    using normalizeAddress_valid [OF that assms(1)] .
  have "builder_sized E (b\<lparr>b_address := Some x\<rparr>)" "builder_sized E (b\<lparr>b_incomingAddress := Some x\<rparr>)"
    if "normalizeAddress E v = Some x" for x
    using valid [OF that] assms(2) unfolding builder_sized_def by (simp_all add: sized_values(2))
  then show "setAddress E v b = Inr b' \<Longrightarrow> builder_sized E b'" "setIncomingAddress E v b = Inr b' \<Longrightarrow> builder_sized E b'"
    by (auto simp: setAddress_def setIncomingAddress_def split: option.splits)
qed

lemma other_setters_sized:
  assumes "builder_sized E b"
  shows "setPhase v b = Inr b' \<Longrightarrow> builder_sized E b'" "setOutput v b = Inr b' \<Longrightarrow> builder_sized E b'"
    "setOperationType v b = Inr b' \<Longrightarrow> builder_sized E b'"
  using assms by (auto simp: setPhase_def setOutput_def setOperationType_def split: js.splits if_splits)

lemma hex_setters_sized:
  assumes "builder_sized E b" "f \<in> set (drop 5 (setters E))" "f v b = Inr b'"
  shows "builder_sized E b'"
proof -
  have "f = setTxHash \<or> f = setTxValidity \<or> f = setWriterKey \<or> f = setIncomingWriterKey \<or> f = setIncomingNonce \<or>
      f = setContentHash \<or> f = setIncomingSignature \<or> f = setExternalBootstrap \<or> f = setMsbBootstrap \<or> f = setChannel \<or> f = setAmount"
    using assms(2) by (simp add: setters_def)
  then show ?thesis
    by (elim disjE; use assms(1,3) in \<open>simp add: setter_accepts builder_sized_def\<close>;
        elim exE conjE; simp add: sized_values(1))
qed

lemma setters_sized:
  assumes "f \<in> set (setters E)" "f v b = Inr b'" "builder_sized E b"
    and valid: "\<And>s. address_isValid E s = Some True \<Longrightarrow> ascii_string (ascii_bytes s) = s"
  shows "builder_sized E b'"
proof -
  have "f = setPhase \<or> f = setOutput \<or> f = setOperationType \<or> f = setAddress E \<or> f = setIncomingAddress E \<or> f \<in> set (drop 5 (setters E))"
    using assms(1) by (simp add: setters_def)
  then show ?thesis
    using other_setters_sized [OF assms(3)] address_setters_sized [OF valid assms(3)] hex_setters_sized [OF assms(3)] assms(2) by blast
qed

section \<open>Partial messages\<close>

definition partial_types :: "nat list" where
  "partial_types = [OT_ADD_WRITER, OT_REMOVE_WRITER, OT_ADMIN_RECOVERY, OT_BOOTSTRAP_DEPLOYMENT, OT_TX, OT_TRANSFER]"

lemma partial_build:
  assumes "build E hash w nonce b = Inr b'" "b_phase b = Some ''partial''"
  obtains t a p m where "b_operationType b = Some t" "t \<in> set partial_types" "b_address b = Some a"
    "partial_message E b t nonce = Inr m" "partial_body b t (hash m) nonce (w_sign w (hash m)) = Inr p"
    "b' = b\<lparr>b_payloadKey := operationToPayload t,
       b_payload := Some \<lparr>op_type = t, op_address = Bytes a, op_value = keyed (the (operationToPayload t)) p\<rparr>, b_built := True\<rparr>"
proof -
  obtain t a key where t: "b_operationType b = Some t" "b_address b = Some a" "operationToPayload t = Some key"
    and body: "chain (buildPartialBody E hash w nonce b t) (\<lambda>body. Inr (b\<lparr>b_payloadKey := Some key,
      b_payload := Some \<lparr>op_type = t, op_address = Bytes a, op_value = keyed key body\<rparr>, b_built := True\<rparr>)) = Inr b'"
    using assms by (simp add: build_def chain_Inr split: option.splits if_splits)
  then obtain p where p: "buildPartialBody E hash w nonce b t = Inr p" by (auto simp: chain_Inr)
  then obtain m where m: "partial_message E b t nonce = Inr m" "partial_body b t (hash m) nonce (w_sign w (hash m)) = Inr p"
    by (auto simp: buildPartialBody_def chain_Inr Let_def split: if_splits)
  have "t \<in> set partial_types"
    using p by (auto simp: buildPartialBody_def type_defs partial_types_def split: if_splits)
  then show ?thesis using that t body p m by simp
qed

lemma requireFields_Inr: "requireFields fs = Inr u \<longleftrightarrow> list_all (\<lambda>f. fst f \<noteq> None) fs"
  by (induction fs rule: requireFields.induct) (simp_all del: not_None_eq)

lemma fld_Bytes: "fld x = Bytes b \<longleftrightarrow> x = Some b"
  by (cases x) auto

lemmas partial_simps = partial_message_def partial_body_def type_defs chain_Inr requireFields_Inr payload_of.simps

lemma partial_signed:
  fixes a :: buffer
  assumes "partial_message E b t nonce = Inr m" "t \<in> set partial_types"
    "partial_body b t (hash m) nonce sig = Inr p"
  defines "op \<equiv> \<lparr>op_type = t, op_address = Bytes a, op_value = keyed (the (operationToPayload t)) p\<rparr>"
  shows "getMessageComponents E op \<noteq> None" "createMessage (the (getMessageComponents E op)) = m"
    "p_tx (payload_of op) = Bytes (hash m)" "p_is (payload_of op) = Bytes sig" "p_in (payload_of op) = Bytes nonce"
    "isOperationNotCompleted op = Inr ()"
  using assms(1-3)
  by (auto simp: partial_types_def op_def partial_simps getMessageComponents_def isOperationNotCompleted_def empty_payload_def
      Let_def split: if_splits)

section \<open>Through JSON\<close>

lemma ascii_bytes_string: "ascii_buffer b \<Longrightarrow> ascii_bytes (ascii_string b) = b"
  by (induction b) (auto simp: ascii_string_def ascii_bytes_def ascii_buffer_def byte_and_127 word_less_nat_alt)

lemma address_back:
  assumes "bufferToAddress E a = Some s" "ascii_buffer a"
  shows "addressToBuffer E s = a" "s \<noteq> []" "address_js E (Bytes a) = JStr s"
proof -
  have s: "s = ascii_string a" "isAddressValid E s" using assms(1) by (auto simp: bufferToAddress_Some)
  then show "addressToBuffer E s = a" using assms(2) by (simp add: addressToBuffer_def ascii_bytes_string)
  show "s \<noteq> []" using s(2) by (auto simp: isAddressValid_def startsWith_def split: option.splits)
  show "address_js E (Bytes a) = JStr s" using assms(1) by (simp add: address_js_def)
qed

lemmas json_simps = encodePayloadJson_def Let_def payload_of.simps empty_payload_def normalizeMessageByOperationType_def
  payload_missing_def fields_missing_def js_operation_def js_payload_def address_back

lemma json_back:
  fixes a :: buffer
  assumes "partial_message E b t nonce = Inr m" "t \<in> set partial_types" "partial_body b t (hash m) nonce sg = Inr p"
    and a: "bufferToAddress E a = Some s" "ascii_buffer a"
    and to: "\<And>x. b_incomingAddress b = Some x \<Longrightarrow> bufferToAddress E x \<noteq> None \<and> ascii_buffer x"
    and ne: "hash m \<noteq> []" "nonce \<noteq> []" "sg \<noteq> []" and b: "builder_sized E b"
  defines "op \<equiv> \<lparr>op_type = t, op_address = Bytes a, op_value = keyed (the (operationToPayload t)) p\<rparr>"
  shows "\<exists>j v. encodePayloadJson E (operationToPayload t) op = Inr j \<and> normalizeMessageByOperationType E j = Inr v \<and>
    js_operation v = op"
proof -
  have ns: "x \<noteq> []" if "y = Some x" "opt_sized 32 y \<or> opt_sized 16 y" for x y using that by (auto simp: opt_sized_def)
  note sized = b [unfolded builder_sized_def, simplified]
  consider "t = 5 \<or> t = 6 \<or> t = 7" | "t = 11" | "t = 12" | "t = 13" using assms(2) by (auto simp: partial_types_def)
  then show ?thesis
  proof cases
    case 1
    then obtain txv iw where f: "b_txValidity b = Some txv" "b_writingKey b = Some iw" and "p = empty_payload\<lparr>p_tx := Bytes (hash m), p_txv := Bytes txv,
        p_iw := Bytes iw, p_in := Bytes nonce, p_is := Bytes sg\<rparr>"
      using assms(1,3) by (auto simp: partial_simps split: if_splits)
    then show ?thesis
      using 1 a ne ns [OF f(1)] ns [OF f(2)] sized f
      by (auto simp: op_def json_simps normalizeRoleAccessOperation_def type_defs)
  next
    case 2
    then obtain txv bs ic where f: "b_txValidity b = Some txv" "b_externalBootstrap b = Some bs" "b_channel b = Some ic"
      and "p = empty_payload\<lparr>p_tx := Bytes (hash m), p_txv := Bytes txv, p_bs := Bytes bs, p_ic := Bytes ic, p_in := Bytes nonce, p_is := Bytes sg\<rparr>"
      using assms(1,3) by (auto simp: partial_simps split: if_splits)
    then show ?thesis
      using 2 a ne ns [OF f(1)] ns [OF f(2)] ns [OF f(3)] sized f
      by (auto simp: op_def json_simps normalizeBootstrapDeploymentOperation_def type_defs)
  next
    case 3
    then obtain txv iw ch bs mbs where f: "b_txValidity b = Some txv" "b_writingKey b = Some iw" "b_contentHash b = Some ch"
        "b_externalBootstrap b = Some bs" "b_msbBootstrap b = Some mbs"
      and "p = empty_payload\<lparr>p_tx := Bytes (hash m), p_txv := Bytes txv, p_iw := Bytes iw, p_ch := Bytes ch, p_bs := Bytes bs,
        p_mbs := Bytes mbs, p_in := Bytes nonce, p_is := Bytes sg\<rparr>"
      using assms(1,3) by (auto simp: partial_simps split: if_splits)
    then show ?thesis
      using 3 a ne ns [OF f(1)] ns [OF f(2)] ns [OF f(3)] ns [OF f(4)] ns [OF f(5)] sized f
      by (auto simp: op_def json_simps normalizeTransactionOperation_def type_defs)
  next
    case 4
    then obtain txv x am where f: "b_txValidity b = Some txv" "b_incomingAddress b = Some x" "b_amount b = Some am"
      and "p = empty_payload\<lparr>p_tx := Bytes (hash m), p_txv := Bytes txv, p_to := Bytes x, p_am := Bytes am, p_in := Bytes nonce, p_is := Bytes sg\<rparr>"
      using assms(1,3) by (auto simp: partial_simps split: if_splits)
    moreover obtain xs where "bufferToAddress E x = Some xs" "ascii_buffer x" using to [OF f(2)] by auto
    ultimately show ?thesis
      using 4 a ne ns [OF f(1)] ns [OF f(3)] sized
      by (auto simp: op_def json_simps normalizeTransferOperation_def type_defs)
  qed
qed

section \<open>A validator's first checks\<close>

text \<open>No field of the builder is all zeros, which the schema refuses.\<close>

definition builder_nonzero :: "builder \<Rightarrow> bool" where
  "builder_nonzero b \<longleftrightarrow> list_all (\<lambda>x. case x of None \<Rightarrow> True | Some v \<Rightarrow> nonzero v)
     [b_incomingAddress b, b_channel b, b_contentHash b, b_externalBootstrap b, b_msbBootstrap b, b_txValidity b, b_writingKey b]"

lemma partial_payload:
  assumes "build E hash w nonce b = Inr b'" "b_phase b = Some ''partial''" "b_address b = Some a"
  obtains t m p where "t \<in> set partial_types" "partial_message E b t nonce = Inr m"
    "partial_body b t (hash m) nonce (w_sign w (hash m)) = Inr p"
    "b_payload b' = Some \<lparr>op_type = t, op_address = Bytes a, op_value = keyed (the (operationToPayload t)) p\<rparr>"
    "b_payloadKey b' = operationToPayload t" "b_built b'" "b_output b' = b_output b"
  by (rule partial_build [OF assms(1,2)], rule that) (use assms(3) in auto)

lemma address_length:
  "bufferToAddress E a \<noteq> None \<Longrightarrow> address_size E (addressPrefix E) = Some n \<Longrightarrow> length a = n"
  by (auto simp: bufferToAddress_Some isAddressValid_def ascii_string_def split: option.splits)

lemma partial_fields:
  assumes "builder_sized E b" "builder_nonzero b" "address_size E (addressPrefix E) = Some (addressLength E)"
  shows "b_txValidity b = Some x \<Longrightarrow> sized 32 x" "b_writingKey b = Some x \<Longrightarrow> sized 32 x" "b_contentHash b = Some x \<Longrightarrow> sized 32 x"
    "b_externalBootstrap b = Some x \<Longrightarrow> sized 32 x" "b_msbBootstrap b = Some x \<Longrightarrow> sized 32 x" "b_channel b = Some x \<Longrightarrow> sized 32 x"
    "b_incomingAddress b = Some x \<Longrightarrow> sized (addressLength E) x" "b_amount b = Some x \<Longrightarrow> length x = 16"
  using assms(1,2) address_length [OF _ assms(3), of x]
  by (auto simp: builder_sized_def builder_nonzero_def opt_sized_def opt_address_def sized_def split: option.splits)

lemma partial_schema:
  fixes a :: buffer
  assumes "partial_message E b t nonce = Inr m" "t \<in> set partial_types" "partial_body b t (hash m) nonce sg = Inr p"
    and "builder_sized E b" "builder_nonzero b" "address_size E (addressPrefix E) = Some (addressLength E)"
    and sz: "sized (addressLength E) a" "sized 32 nonce" "sized 32 (hash m)" "sized 64 sg"
  defines "op \<equiv> \<lparr>op_type = t, op_address = Bytes a, op_value = keyed (the (operationToPayload t)) p\<rparr>"
  shows "isPayloadSchemaValid E op = Inr ()"
proof -
  note f = partial_fields [OF assms(4-6)]
  note simps = op_def type_defs payload_of.simps empty_payload_def isPayloadSchemaValid_def selectCheckSchemaValidator_def
    rule_buffer_iff rule_buffer_amount_iff none_of_def custom_validator_fields_def
  consider "t = 5 \<or> t = 6 \<or> t = 7" | "t = 11" | "t = 12" | "t = 13" using assms(2) by (auto simp: partial_types_def)
  then show ?thesis
  proof cases
    case 1
    then obtain txv iw where e: "b_txValidity b = Some txv" "b_writingKey b = Some iw" and "p = empty_payload\<lparr>p_tx := Bytes (hash m), p_txv := Bytes txv,
        p_iw := Bytes iw, p_in := Bytes nonce, p_is := Bytes sg\<rparr>"
      using assms(1,3) by (auto simp: partial_simps split: if_splits)
    then show ?thesis using 1 sz f(1) [OF e(1)] f(2) [OF e(2)] by (auto simp: simps validateRoleAccessOperation_def)
  next
    case 2
    then obtain txv bs ic where e: "b_txValidity b = Some txv" "b_externalBootstrap b = Some bs" "b_channel b = Some ic" and "p = empty_payload\<lparr>p_tx := Bytes (hash m),
        p_txv := Bytes txv, p_bs := Bytes bs, p_ic := Bytes ic, p_in := Bytes nonce, p_is := Bytes sg\<rparr>"
      using assms(1,3) by (auto simp: partial_simps split: if_splits)
    then show ?thesis using 2 sz f(1) [OF e(1)] f(4) [OF e(2)] f(6) [OF e(3)] by (simp add: simps validateBootstrapDeploymentOperation_def)
  next
    case 3
    then obtain txv iw ch bs mbs where e: "b_txValidity b = Some txv" "b_writingKey b = Some iw" "b_contentHash b = Some ch"
        "b_externalBootstrap b = Some bs" "b_msbBootstrap b = Some mbs"
      and "p = empty_payload\<lparr>p_tx := Bytes (hash m), p_txv := Bytes txv, p_iw := Bytes iw, p_ch := Bytes ch, p_bs := Bytes bs,
        p_mbs := Bytes mbs, p_in := Bytes nonce, p_is := Bytes sg\<rparr>"
      using assms(1,3) by (auto simp: partial_simps split: if_splits)
    then show ?thesis using 3 sz f(1) [OF e(1)] f(2) [OF e(2)] f(3) [OF e(3)] f(4) [OF e(4)] f(5) [OF e(5)]
      by (simp add: simps validateTransactionOperation_def)
  next
    case 4
    then obtain txv x am where e: "b_txValidity b = Some txv" "b_incomingAddress b = Some x" "b_amount b = Some am" and "p = empty_payload\<lparr>p_tx := Bytes (hash m),
        p_txv := Bytes txv, p_to := Bytes x, p_am := Bytes am, p_in := Bytes nonce, p_is := Bytes sg\<rparr>"
      using assms(1,3) by (auto simp: partial_simps split: if_splits)
    then show ?thesis using 4 sz f(1) [OF e(1)] f(7) [OF e(2)] f(8) [OF e(3)] by (simp add: simps validateTransferOperation_def)
  qed
qed

lemma partial_checks:
  assumes "build E hash w nonce b = Inr b'" "b_phase b = Some ''partial''" "b_address b = Some (ascii_bytes (w_address w))"
    and "sound_wallet E hash w" "length (address_decodeSafe E (Some (w_address w))) = 32" "sized 32 nonce"
    and "builder_sized E b" "builder_nonzero b" "address_size E (addressPrefix E) = Some (addressLength E)"
    and "nonzero (bytes (p_tx (payload_of (the (b_payload b')))))"
  shows "\<exists>op. b_payload b' = Some op \<and> isPayloadSchemaValid E op = Inr () \<and> validateRequesterAddress E op = Inr () \<and>
    validateSignature E hash op = Inr () \<and> isOperationNotCompleted op = Inr ()"
proof -
  note W = sound_walletD [OF assms(4)]
  obtain t m p where b: "t \<in> set partial_types" "partial_message E b t nonce = Inr m"
      "partial_body b t (hash m) nonce (w_sign w (hash m)) = Inr p"
    "b_payload b' = Some \<lparr>op_type = t, op_address = Bytes (ascii_bytes (w_address w)), op_value = keyed (the (operationToPayload t)) p\<rparr>"
    by (rule partial_payload [OF assms(1-3)])
  let ?op = "\<lparr>op_type = t, op_address = Bytes (ascii_bytes (w_address w)), op_value = keyed (the (operationToPayload t)) p\<rparr>"
  note s = partial_signed [where hash = hash and a = "ascii_bytes (w_address w)", OF b(2,1,3)]
  have "sized 32 (hash m)" using assms(10) b(4) s(3) W(10) by (simp add: sized_def)
  moreover have "sized 64 (w_sign w (hash m))" "sized (addressLength E) (ascii_bytes (w_address w))"
    using W(6,7) by (auto simp: rule_buffer_iff)
  ultimately have "isPayloadSchemaValid E ?op = Inr ()"
    using partial_schema [where hash = hash, OF b(2,1,3) assms(7-9)] assms(6) by blast
  moreover have "requesterAddress E ?op = Some (w_address w)" using W(3) by (simp add: requesterAddress_def)
  moreover obtain ms where "getMessageComponents E ?op = Some ms" "createMessage ms = m" using s(1,2) by fastforce
  ultimately show ?thesis
    using s b(4) assms(5) W(8) by (simp add: validateRequesterAddress_def validateSignature_def Let_def chain_Inr)
qed

end
