(* ===== verification/Publish_Claims.thy ===== *)
theory Publish_Claims
  imports Dispatch_Spec Scenario Message_Spec
begin
text \<open>
  Properties of a validator that completes and publishes the operation of a user, what it has accepted is what the
  ledger accepts; and of the builder behind it: what a user's own client builds and a validator then accepts, and the way through JSON.
\<close>

section \<open>A validator of the concrete network\<close>

text \<open>The environment with keys of 32 bytes and the generated codec, and the validator b with its view.\<close>

definition penv :: "(buffer list \<times> buffer list) env" where
  "penv = xenv\<lparr>address_decodeSafe := (\<lambda>a. case a of None \<Rightarrow> [] | Some s \<Rightarrow> ascii_bytes s @ replicate 26 0),
     signature_verify := (\<lambda>sig h pk. sig = h @ pk), Operation_decode := safeDecodeApplyOperation protobuf\<rparr>"

definition xwallet :: wallet where
  "xwallet = \<lparr>w_address = acct CHR ''b'', w_sign = xsign (addr CHR ''b'')\<rparr>"

definition xview :: node_state where
  "xview = \<lparr>ns_view = xbatch, ns_signed = xbatch, ns_history = [], ns_signedLength = 0, ns_writable = True, ns_indexer = False,
     ns_indexers = [xwk 1, xwk 4], ns_writingKey = xwk 2, ns_walletAddress = Some (acct CHR ''b''), ns_maxWritersForAdmin = 10\<rparr>"

definition xpartial :: operation where
  "xpartial = \<lparr>op_type = OT_TRANSFER, op_address = Bytes (addr CHR ''a''),
     op_value = Tro (empty_payload\<lparr>p_tx := Bytes (xwk 95), p_txv := Bytes (xwk 65), p_in := Bytes (xwk 20),
       p_is := Bytes (xsign (addr CHR ''a'') (xwk 95)), p_to := Bytes (addr CHR ''c''), p_am := Bytes (amount (10 ^ 18))\<rparr>)\<rparr>"

definition xremoval :: operation where
  "xremoval = \<lparr>op_type = OT_REMOVE_WRITER, op_address = Bytes (addr CHR ''f''),
     op_value = Rao (empty_payload\<lparr>p_tx := Bytes (xwk 105), p_txv := Bytes (xwk 65), p_in := Bytes (xwk 20),
       p_is := Bytes (xsign (addr CHR ''f'') (xwk 105)), p_iw := Bytes (xwk 9)\<rparr>)\<rparr>"

lemma penv_sel [simp]:
  "networkId penv = 918" "addressPrefix penv = ''trac''" "addressLength penv = 6" "bootstrap penv = xwk 1"
  "address_decodeSafe penv (Some s) = ascii_bytes s @ replicate 26 0" "blake3Safe penv = xhash"
  "signature_verify penv sig h pk \<longleftrightarrow> sig = h @ pk" "base_indexers penv b = Some (fst b)"
  "Operation_decode penv = safeDecodeApplyOperation protobuf"
  by (simp_all add: penv_def)

lemma penv_account [simp]: "isAddressValid penv k = isAddressValid xenv k"
  by (simp add: isAddressValid_def penv_def)

lemma penv_ledger [simp]: "ledger_ok penv m = ledger_ok xenv m" "total_supply penv m = total_supply xenv m" "prefix_ok penv"
  by (simp_all add: ledger_ok_def total_supply_def prefix_ok_def hex_chars_def)

lemma penv_addr [simp]: "of_char c < (128 :: nat) \<Longrightarrow> bufferToAddress penv (addr c) = Some (acct c)"
  by (simp add: bufferToAddress_Some)

lemma xview_sel [simp]:
  "ns_view xview = xbatch" "ns_signed xview = xbatch" "ns_indexers xview = [xwk 1, xwk 4]"
  by (simp_all add: xview_def)

lemma xsound: "sound_wallet penv xhash xwallet"
  by (simp add: sound_wallet_def xwallet_def sized_def xsign_def ascii_string_bytes)

lemma xfresh: "fresh_for penv xhash xwallet (xwk 21) xpartial" "fresh_for penv xhash xwallet (xwk 21) xremoval"
  by (simp_all add: fresh_for_def xpartial_def xremoval_def xwallet_def sized_def xhash_wk)

lemma xsees: "sees penv xview xstate"
  by (simp add: sees_def)

lemmas xchecks = all_steps_Inr common_steps_def isPayloadSchemaValid_def selectCheckSchemaValidator_def none_of_def
  validateNoSelfValidation_def requesterAddress_def validateRequesterAddress_def validateTransactionUniqueness_def st_get_def
  validateSignature_def getMessageComponents_def Let_def xhash_wk createMessage_simps isUInt32_small empty_payload_def
  validateTransactionValidity_def getIndexerSequenceState_def isOperationNotCompleted_def chain_Inr

lemma penv_signed [simp]: "xsign (addr c) (xwk n) = xwk n @ addr c @ replicate 26 0"
  by (simp add: xsign_def)

lemma xentries:
  "getNodeEntryUnsigned xview (acct CHR ''a'') = Some (decoded (xentry ZERO_WK READER 5000 0))"
  "getNodeEntryUnsigned xview (acct CHR ''c'') = Some (decoded (xentry ZERO_WK READER 2000 0))"
  "getNodeEntryUnsigned xview (acct CHR ''f'') = Some (decoded (xentry (xwk 3) WRITER 1000 4))"
  "getNodeEntry xview (acct CHR ''f'') = Some (decoded (xentry (xwk 3) WRITER 1000 4))"
  by (simp_all add: getNodeEntryUnsigned_def st_get_def getNodeEntry_def getSigned_def)

lemma xliquid: "length key = 32 \<Longrightarrow> isNodeRoleValid role \<Longrightarrow> milli < 10 ^ 6 \<Longrightarrow>
    bufferToBigInt (ne_balance (decoded (xentry key role milli lic))) = Inr (int (milli * 10 ^ 15))"
  by (simp add: bigint_balance)

lemma xflags: "ne_isWriter (decoded (xentry (xwk n) WRITER 1000 k))" "\<not> ne_isIndexer (decoded (xentry (xwk n) WRITER 1000 k))"
  by (simp_all, simp_all add: role_defs)

lemma xpartial_checked: "partial_validator penv xhash (Some (w_address xwallet)) xview xpartial = Inr ()"
  unfolding xpartial_def
  by (simp add: partial_validator_def validateTransfer_def xwallet_def xchecks validateTransferOperation_def validateRecipientAddress_def
      validateStateBalances_def requesterEntry_def xentries xliquid recipient_room_def bufferToBigInt_be_nat MAX_AMOUNT_def fee_def
      custom_validator_fields_def alloc_def)

lemma xremoval_checked: "partial_validator penv xhash (Some (w_address xwallet)) xview xremoval = Inr ()"
  unfolding xremoval_def
  by (simp add: partial_validator_def validateRoleAccess_def xwallet_def xchecks validateRoleAccessOperation_def isRequesterAllowedToChangeRole_def
      validateRequesterBalance_def balance_at_least_def requesterEntry_def xentries xliquid fee_def xflags custom_validator_fields_def)

text \<open>The completed transfer and its encoding, and the request that queues it.\<close>

abbreviation xcomplete :: operation where
  "xcomplete \<equiv> completion penv xhash xwallet (xwk 21) xpartial"

lemma xcomplete_wire: "length (operation_wire protobuf xcomplete) \<le> 4096" "wire_sized protobuf xcomplete"
  by (simp_all add: wire_sized_def fields_fit_def operation_wire_def completion_def with_validator_def xpartial_def xwallet_def empty_payload_def
      payload_wire_def protobuf_def leb_encode.simps addressToBuffer_def)

lemma xenqueued: "\<exists>svc'. dispatchTransaction penv protobuf xhash xwallet (xwk 21) 5 xview xpartial no_services = (Inr (to_hex (xwk 95)), svc')"
  using strategy_build_eq [OF xpartial_checked, of "xwk 21"] sound_walletD(1) [OF xsound]
  by (simp add: dispatchTransaction_def strategy_types_def getTxHashFromDecodedTransaction_def enqueue_def registerPendingCommit_def
      addTransaction_def validateEnqueue_def hasTransaction_def no_services_def assertTxHash_def xpartial_def)

section \<open>Properties\<close>

text \<open>C16. The checks a validator makes before it completes a user's operation, of whatever
  type, imply those the ledger's handler makes of the completed one: schema, addresses, keys, hash, both
  signatures. The builder completes it without an error, and the handler finds the user and this
  validator in it.\<close>

theorem accepted_completed:
  assumes "partial_validator E hash (Some (w_address w)) s d = Inr ()" "sound_wallet E hash w" "fresh_for E hash w nonce d"
  shows "\<exists>op ra. strategy_build E hash w nonce s d = Inr op \<and> requesterAddress E d = Some ra \<and>
    ledger_guard E op = Some (ra, w_address w)"
proof -
  obtain ra where "requesterAddress E d = Some ra"
    using requester_valid [OF partial_validator_facts(4) [OF assms(1)]] by blast
  then show ?thesis
    using strategy_build_eq [OF assms(1) sound_walletD(1) [OF assms(2)]] guard_completed [OF assms] by simp
qed

theorem accepted_completed_witness:
  "\<exists>op. strategy_build penv xhash xwallet (xwk 21) xview xpartial = Inr op \<and>
     ledger_guard penv op = Some (acct CHR ''a'', acct CHR ''b'')"
  using accepted_completed [OF xpartial_checked xsound xfresh(1)] by (auto simp: xpartial_def requesterAddress_def xwallet_def)

text \<open>C14. From the request to the ledger: a transfer, a bootstrap deployment, a transaction or
  the request to become a writer that a validator has dispatched waits under its hash at the end of the queue, and
  the bytes in the queue, applied as a node of this validator on the store its checks have seen,
  succeed and are recorded under that hash.\<close>

theorem published_applied:
  assumes "dispatchTransaction E wr hash w nonce n s d svc = (Inr h, svc')" "wire_format wr"
    and "Operation_decode E = safeDecodeApplyOperation wr" "sound_wallet E hash w" "fresh_for E hash w nonce d"
    and "sees E s st" "settled_for E s st d" "prefix_ok E" "ledger_ok E (batch st)" "total_supply E (batch st) < 2 ^ 128"
    and "ascii_buffer (bytes (op_address d))" "ascii_buffer (bytes (p_to (payload_of d)))"
    and "wire_sized wr (completion E hash w nonce d)"
    and "Operation_encodingLength wr (completion E hash w nonce d) \<le> MAXIMUM_OPERATION_PAYLOAD_SIZE"
    and "isValidatorValidApply (batch st (w_address w)) node"
  shows "\<exists>encoded st'. txPool svc' = txPool svc @ [(h, encoded)] \<and> h \<in> set (pendingCommits svc') \<and>
    applyNode E (node\<lparr>node_value := encoded\<rparr>) st = Some (False, st') \<and> batch st' h = Some encoded"
proof -
  note d = dispatched [OF assms(1) sound_walletD(1) [OF assms(4)]]
  let ?op = "completion E hash w nonce d" and ?node = "node\<lparr>node_value := Operation_encode wr (completion E hash w nonce d)\<rparr>"
  have "isValidatorValidApply (batch st (w_address w)) ?node"
    using assms(15) by (simp add: isValidatorValidApply_iff)
  then obtain st' where st': "dispatch E ?op ?node st = Some (SUCCESS, st')"
    using handler_applied [OF d(1) assms(4-10) _ assms(11,12)] by blast
  have "getApplyOperationHandler E (op_type ?op) \<noteq> None"
    using assms(7) by (auto simp: settled_for_def getApplyOperationHandler_def split: if_splits)
  then have "applyNode E ?node st = Some (False, st')"
    using encoded_dispatched [OF assms(2) completion_shaped [OF d(1)] assms(13,14,3) _ st'] by simp
  moreover have "batch st' h = Some (Operation_encode wr ?op)" using disp.recorded [OF st'] d(2) by simp
  ultimately show ?thesis using enqueued [OF d(3)] by auto
qed

theorem published_applied_witness:
  "\<exists>svc' encoded st'. dispatchTransaction penv protobuf xhash xwallet (xwk 21) 5 xview xpartial no_services = (Inr (to_hex (xwk 95)), svc') \<and>
     txPool svc' = [(to_hex (xwk 95), encoded)] \<and> applyNode penv (xnode 2\<lparr>node_value := encoded\<rparr>) xstate = Some (False, st') \<and>
     batch st' (to_hex (xwk 95)) = Some encoded"
proof -
  obtain svc' where r: "dispatchTransaction penv protobuf xhash xwallet (xwk 21) 5 xview xpartial no_services = (Inr (to_hex (xwk 95)), svc')"
    using xenqueued by blast
  have "Operation_encodingLength protobuf xcomplete \<le> 4096"
    by (simp add: wire_format.Operation_encodingLength_eq [OF pb.wire_format_axioms] xcomplete_wire)
  with published_applied [OF r pb.wire_format_axioms _ xsound xfresh(1) xsees _ _ _ _ _ _ xcomplete_wire(2), of "xnode 2"]
  show ?thesis using r by (auto simp: xpartial_def xwallet_def settled_for_def no_services_def ascii_buffer_def [of "[]"])
qed

text \<open>The checks do not look at the writer key of a REMOVE_WRITER: a validator accepts
  and completes one that names another key than the requester's, and the ledger counts it as a failure, the
  validator's.\<close>

theorem remove_writer_unchecked:
  assumes "partial_validator E hash (Some (w_address w)) s d = Inr ()" "op_type d = OT_REMOVE_WRITER"
    and "sound_wallet E hash w" "fresh_for E hash w nonce d" "sees E s st" "isValidatorValidApply (batch st (w_address w)) node"
    and "requesterAddress E d = Some ra" "batch st ra = Some b" "subarray 1 33 b \<noteq> bytes (p_iw (payload_of d))"
  shows "strategy_build E hash w nonce s d = Inr (completion E hash w nonce d) \<and>
    handleApplyRemoveWriterOperation E (completion E hash w nonce d) node st = Some (FAILURE, st)"
proof -
  have "op_type d = 6" using assms(2) by simp
  from removeWriter_unchecked [OF assms(1) this assms(3-6)]
  show ?thesis using strategy_build_eq [OF assms(1) sound_walletD(1) [OF assms(3)]] assms(7-9) by fastforce
qed

theorem remove_writer_unchecked_witness:
  "strategy_build penv xhash xwallet (xwk 21) xview xremoval = Inr (completion penv xhash xwallet (xwk 21) xremoval) \<and>
   handleApplyRemoveWriterOperation penv (completion penv xhash xwallet (xwk 21) xremoval) (xnode 2) xstate = Some (FAILURE, xstate)"
  by (rule remove_writer_unchecked [OF xremoval_checked _ xsound xfresh(2) xsees, where ra = "acct CHR ''f''"])
    (simp_all add: xremoval_def xwallet_def requesterAddress_def del: One_nat_def, simp)

section \<open>What a client builds\<close>

text \<open>The account b pays c; its message has the 94 bytes whose toy hash is \<open>xwk 95\<close>.\<close>

definition xbuilder :: builder where
  "xbuilder = fresh_builder\<lparr>b_phase := Some ''partial'', b_output := Some ''json'', b_operationType := Some OT_TRANSFER,
     b_address := Some (addr CHR ''b''), b_txValidity := Some (xwk 65), b_incomingAddress := Some (addr CHR ''c''),
     b_amount := Some (amount (10 ^ 18))\<rparr>"

lemma xbuilt: "\<exists>b'. build penv xhash xwallet (xwk 20) xbuilder = Inr b' \<and> p_tx (payload_of (the (b_payload b'))) = Bytes (xwk 95)"
  by (simp add: xbuilder_def fresh_builder_def build_def assertPhaseAndOutput_def buildPartialBody_def partial_message_def partial_body_def type_defs
      OperationType_values_def Let_def createMessage_simps xhash_wk isUInt32_small xwallet_def)

lemma xbuilder_sized: "builder_sized penv xbuilder" "builder_nonzero xbuilder"
  by (simp_all add: builder_sized_def builder_nonzero_def xbuilder_def fresh_builder_def opt_sized_def opt_address_def)

section \<open>Properties\<close>

text \<open>Whatever values of JavaScript a client passes to the setters, in whatever order:
  when none of them throws, each field of the builder that is set has the length its field of the message needs, and an address
  is one of the network.\<close>

theorem setters_keep_sizes:
  assumes "call_chain (map (\<lambda>(setter, v). setter v) calls) fresh_builder = Inr b"
    and "set (map fst calls) \<subseteq> set (setters E)"
    and "\<And>s. address_isValid E s = Some True \<Longrightarrow> ascii_string (ascii_bytes s) = s"
  shows "builder_sized E b"
proof -
  have "builder_sized E b" if "call_chain (map (\<lambda>(setter, v). setter v) calls) b0 = Inr b" "builder_sized E b0" for b0
    using that assms(2)
  proof (induction calls arbitrary: b0)
    case (Cons c calls)
    then obtain b1 where "fst c (snd c) b0 = Inr b1" "call_chain (map (\<lambda>(setter, v). setter v) calls) b1 = Inr b"
      by (cases c) (auto simp: chain_Inr)
    then show ?case using Cons setters_sized [OF _ _ Cons.prems(2) assms(3)] by auto
  qed simp
  then show ?thesis using assms(1) fresh_sized by blast
qed

theorem setters_keep_sizes_witness:
  "setTxHash (JBuf (xwk 5)) fresh_builder = Inr (fresh_builder\<lparr>b_txHash := Some (xwk 5)\<rparr>) \<and>
   builder_sized (penv\<lparr>address_isValid := \<lambda>_. Some False\<rparr>) (fresh_builder\<lparr>b_txHash := Some (xwk 5)\<rparr>)"
proof
  show "setTxHash (JBuf (xwk 5)) fresh_builder = Inr (fresh_builder\<lparr>b_txHash := Some (xwk 5)\<rparr>)" by (simp add: setter_simps)
  then show "builder_sized (penv\<lparr>address_isValid := \<lambda>_. Some False\<rparr>) (fresh_builder\<lparr>b_txHash := Some (xwk 5)\<rparr>)"
    by (intro setters_keep_sizes [of "[(setTxHash, JBuf (xwk 5))]"]) (auto simp: setters_def)
qed

text \<open>C39. What a client builds for its own address, of any of the six types a user can ask
  for, passes the first checks of every validator: the schema, the address, the hash and the signature under the key of that
  address; and it is not taken for a completed one.\<close>

theorem partial_accepted:
  assumes "build E hash w nonce b = Inr b'" "b_phase b = Some ''partial''" "b_address b = Some (ascii_bytes (w_address w))"
    and "sound_wallet E hash w" "length (address_decodeSafe E (Some (w_address w))) = 32" "sized 32 nonce"
    and "builder_sized E b" "builder_nonzero b" "address_size E (addressPrefix E) = Some (addressLength E)"
    and "nonzero (bytes (p_tx (payload_of (the (b_payload b')))))"
  shows "\<exists>op. b_payload b' = Some op \<and> isPayloadSchemaValid E op = Inr () \<and> validateRequesterAddress E op = Inr () \<and>
    validateSignature E hash op = Inr () \<and> isOperationNotCompleted op = Inr ()"
  using assms by (rule partial_checks)

theorem partial_accepted_witness:
  "\<exists>b' op. build penv xhash xwallet (xwk 20) xbuilder = Inr b' \<and> b_payload b' = Some op \<and> validateSignature penv xhash op = Inr ()"
proof -
  obtain b' where "build penv xhash xwallet (xwk 20) xbuilder = Inr b'" "p_tx (payload_of (the (b_payload b'))) = Bytes (xwk 95)"
    using xbuilt by blast
  with partial_accepted [OF this(1) _ _ xsound _ _ xbuilder_sized] show ?thesis
    by (auto simp: xbuilder_def xwallet_def penv_def sized_def)
qed

text \<open>C40. A partial operation that goes to an application as JSON, its buffers in hexadecimal and its addresses
  as strings, and comes back through the normaliser of its type, is the operation that was built.\<close>

theorem json_roundtrip:
  assumes "build E hash w nonce b = Inr b'" "b_phase b = Some ''partial''" "b_output b = Some ''json''"
    and "b_address b = Some a" "bufferToAddress E a \<noteq> None" "ascii_buffer a" "builder_sized E b"
    and "\<forall>x \<in> set_option (b_incomingAddress b). ascii_buffer x \<and> bufferToAddress E x \<noteq> None"
    and "nonce \<noteq> []" "\<And>m. hash m \<noteq> [] \<and> w_sign w (hash m) \<noteq> []"
  shows "\<exists>j v. getPayload E b' = Inr (JsonOut j) \<and> normalizeMessageByOperationType E j = Inr v \<and>
    Some (js_operation v) = b_payload b'"
proof -
  obtain t m p where b: "t \<in> set partial_types" "partial_message E b t nonce = Inr m"
      "partial_body b t (hash m) nonce (w_sign w (hash m)) = Inr p"
    "b_payload b' = Some \<lparr>op_type = t, op_address = Bytes a, op_value = keyed (the (operationToPayload t)) p\<rparr>"
    "b_payloadKey b' = operationToPayload t" "b_built b'" "b_output b' = b_output b"
    by (rule partial_payload [OF assms(1,2,4)])
  obtain s where "bufferToAddress E a = Some s" using assms(5) by blast
  then have "\<exists>j v. encodePayloadJson E (operationToPayload t) (the (b_payload b')) = Inr j \<and>
      normalizeMessageByOperationType E j = Inr v \<and> js_operation v = the (b_payload b')"
    using json_back [where hash = hash, OF b(2,1,3) _ assms(6) _ _ assms(9) _ assms(7)] assms(8,10) b(4) by simp
  then show ?thesis using b(4-7) assms(3) by (auto simp: getPayload_def)
qed

theorem json_roundtrip_witness:
  "\<exists>b' j v. build penv xhash xwallet (xwk 20) xbuilder = Inr b' \<and> getPayload penv b' = Inr (JsonOut j) \<and>
     normalizeMessageByOperationType penv j = Inr v \<and> Some (js_operation v) = b_payload b'"
proof -
  obtain b' where b': "build penv xhash xwallet (xwk 20) xbuilder = Inr b'" using xbuilt by blast
  have "hash \<noteq> [] \<and> w_sign xwallet hash \<noteq> []" if "length hash = 32" for hash
    using that by (auto simp: xwallet_def xsign_def)
  then have "xhash m \<noteq> [] \<and> w_sign xwallet (xhash m) \<noteq> []" for m using length_xhash [of m] by blast
  from json_roundtrip [OF b' _ _ _ _ _ xbuilder_sized(1) _ _ this] b'
  show ?thesis by (auto simp: xbuilder_def)
qed

end
