(* ===== verification/Response_Claims.thy ===== *)
theory Response_Claims
  imports Answer_Spec Publish_Claims
begin

text \<open>
  Properties of the exchange of a broadcast: the sender of a transaction believes a response only if it proves the
  publication, an honest validator is believed, and every request is answered.
\<close>

section \<open>A request on the concrete network\<close>

text \<open>The transfer of the concrete network as it goes out, and a log whose block holds the completed one.\<close>

definition xrequest :: operation where
  "xrequest = xpartial\<lparr>op_value := Tro ((payload_of xpartial)\<lparr>p_va := Null, p_vn := Null, p_vs := Null\<rparr>)\<rparr>"

definition xpk :: buffer where "xpk = addr CHR ''b'' @ replicate 26 0"

definition xpending :: pending_request where
  "xpending = \<lparr>pr_id = ''r1'', pr_requestType = 3, pr_requestTxData = Some (Operation_encode protobuf xrequest),
     pr_requestedTo = to_hex xpk, pr_armed = True\<rparr>"

definition xpub :: publication where
  "xpub = \<lparr>pub_verify = (\<lambda>p. if p = [9] then Some ([10], [11]) else None),
     pub_decodeValue = (\<lambda>b. Some (Operation_encode protobuf xcomplete)), pub_manifestKey = (\<lambda>m. Some (xwk 2)),
     pub_address = (\<lambda>pk. acct CHR ''b'')\<rparr>"

lemma xrequest_decoded:
  "Operation_encode protobuf xrequest \<noteq> []" "unsafeDecodeApplyOperation protobuf (Operation_encode protobuf xrequest) = Inr xrequest"
  "sanitizeDecodedPartialTransaction xrequest = xpartial"
proof -
  have shaped: "shaped_operation xrequest"
    by (simp add: xrequest_def xpartial_def shaped_operation_def none_of_def empty_payload_def payload_of.simps)
  have sized: "wire_sized protobuf xrequest"
    by (simp add: wire_sized_def fields_fit_def operation_wire_def xrequest_def xpartial_def empty_payload_def payload_of.simps
      payload_wire_def protobuf_def leb_encode.simps)
  have d: "safeDecodeApplyOperation protobuf (Operation_encode protobuf xrequest) = Some xrequest"
    using encoded_decoded(1) [OF pb.wire_format_axioms shaped sized] by (simp add: safeEncodeApplyOperation_def)
  then show "unsafeDecodeApplyOperation protobuf (Operation_encode protobuf xrequest) = Inr xrequest"
    by (simp add: decoded_unsafe)
  show "Operation_encode protobuf xrequest \<noteq> []"
    by (simp add: wire_format.Operation_encode_eq [OF pb.wire_format_axioms] operation_wire_def)
  show "sanitizeDecodedPartialTransaction xrequest = xpartial"
    by (simp add: sanitizeDecodedPartialTransaction_def operationToPayload_def sanitize_payload_def xrequest_def xpartial_def
      payload_of.simps keyed_def absent_if_null_def type_defs empty_payload_def)
qed

lemma xwallet_net: "net_wallet penv xhash xwallet xpk"
proof -
  have "\<not> list_all (\<lambda>x. x = 0) (addr CHR ''b'')" using nonzero_addr [of "CHR ''b''"] by (simp add: list_ex_iff list_all_iff)
  then show ?thesis by (simp add: net_wallet_def net_buffer_def xwallet_def xsign_def xpk_def)
qed

lemma xkey: "net_buffer 32 (xwk n) \<longleftrightarrow> n \<noteq> 0"
  using nonzero_wk [of n] by (auto simp: net_buffer_def list_ex_iff list_all_iff)

lemma xpublishes: "publishes penv xpub xview (acct CHR ''b'') xpk [9] (Operation_encode protobuf xcomplete)"
proof -
  have "getRegisteredWriterKey penv xview (to_hex (xwk 2)) = Some (addr CHR ''b'')"
    by (simp add: getRegisteredWriterKey_def st_get_def)
  moreover have "getNodeEntry xview (acct CHR ''b'') = Some (decoded (xentry (xwk 2) WRITER 1000 2))"
    by (simp add: st_get_def getNodeEntry_def getSigned_def)
  ultimately show ?thesis using xflags(1) [of 2 2] by (simp add: publishes_def xpub_def)
qed

lemma xanswer: "\<exists>m sig. buildBroadcastTransactionResponse penv xhash xwallet (xwk 30) 5 ''r1'' [] RC_OK (Some [9]) (Some 7) = Some m \<and>
    nm_payloads m = [BroadcastResponse (xwk 30) sig [9] 7 RC_OK]"
  by (simp add: buildBroadcastTransactionResponse_def build_net_defs buildBroadcastResponsePayload_def result_consistent_def
    xwallet_def ResultCode_values_def timestampToBuffer_def uint64ToBuffer_def MAX_SAFE_INTEGER_def encodeCapabilities_def Let_def)

lemma xaddress: "w_address xwallet = acct CHR ''b''" by (simp add: xwallet_def)

lemmas xexchange = xpending_def xkey xrequest_decoded(3) xsound xfresh pb.wire_format_axioms xcomplete_wire xaddress

section \<open>Properties\<close>

text \<open>C12. A client believes a response with the code OK only if it comes from the peer that was asked
  and its signature verifies, under that peer's key, over everything the response says, and the log proves a published operation which is,
  apart from the three fields of the validator, the operation that was sent; that operation is completed, names the peer as
  its validator, and was appended with the writer key that the ledger has registered for the peer, an active writer.\<close>

theorem response_sound:
  assumes "validateBroadcastResponse E P wr hash s m pk entry = Inr ()" "nm_payloads m = [BroadcastResponse nonce signature proof t RC_OK]"
  shows "to_hex pk = pr_requestedTo entry \<and> pr_requestType entry = NT_BROADCAST_TRANSACTION_REQUEST \<and>
    answer_signed E hash m nonce signature proof t RC_OK pk \<and> proof \<noteq> [] \<and> t > 0 \<and>
    proven_publication E P wr s proof pk entry"
  by (rule response_proves [OF assms])

lemma xhonest:
  assumes "buildBroadcastTransactionResponse penv xhash xwallet (xwk 30) 5 ''r1'' [] RC_OK (Some [9]) (Some 7) = Some m"
  shows "validateBroadcastResponse penv xpub protobuf xhash xview m xpk xpending = Inr ()"
  by (rule honest_accepted [OF xwallet_net _ _ _ assms _ _ _ xrequest_decoded(1,2), where sv = xview and nonce = "xwk 21" and op = xcomplete])
    (use xpublishes xpartial_checked in \<open>simp_all add: xexchange\<close>)

theorem response_sound_witness:
  "\<exists>m. buildBroadcastTransactionResponse penv xhash xwallet (xwk 30) 5 ''r1'' [] RC_OK (Some [9]) (Some 7) = Some m \<and>
     proven_publication penv xpub protobuf xview [9] xpk xpending"
  using xanswer xhonest response_sound [of penv xpub protobuf xhash xview _ xpk xpending] by blast

text \<open>C13. The answer of an honest validator is believed: what a validator builds with the code OK for a
  request whose operation its checks accept passes all checks of the client, once the log proves that the
  operation this validator completes was published with the writer key registered for it.\<close>

theorem honest_believed:
  assumes "net_wallet E hash w pk" "net_buffer 32 nonce'" "length i \<le> 64" "1 \<le> now"
    and "buildBroadcastTransactionResponse E hash w nonce' now i caps RC_OK (Some proof) (Some t) = Some m"
    and "pr_requestType entry = NT_BROADCAST_TRANSACTION_REQUEST" "pr_requestedTo entry = to_hex pk" "pr_requestTxData entry = Some requested"
    and "requested \<noteq> []" "unsafeDecodeApplyOperation wr requested = Inr d"
    and "partial_validator E hash (Some (w_address w)) sv (sanitizeDecodedPartialTransaction d) = Inr ()"
    and "sound_wallet E hash w" "fresh_for E hash w nonce (sanitizeDecodedPartialTransaction d)"
    and "wire_format wr" "wire_sized wr (completion E hash w nonce (sanitizeDecodedPartialTransaction d))"
    and "publishes E P s (w_address w) pk proof (Operation_encode wr (completion E hash w nonce (sanitizeDecodedPartialTransaction d)))"
  shows "validateBroadcastResponse E P wr hash s m pk entry = Inr ()"
  by (rule honest_accepted [OF assms refl])

theorem honest_believed_witness:
  "\<exists>m. buildBroadcastTransactionResponse penv xhash xwallet (xwk 30) 5 ''r1'' [] RC_OK (Some [9]) (Some 7) = Some m \<and>
     validateBroadcastResponse penv xpub protobuf xhash xview m xpk xpending = Inr ()"
proof -
  obtain m where m: "buildBroadcastTransactionResponse penv xhash xwallet (xwk 30) 5 ''r1'' [] RC_OK (Some [9]) (Some 7) = Some m"
    using xanswer by blast
  have "validateBroadcastResponse penv xpub protobuf xhash xview m xpk xpending = Inr ()"
    by (rule honest_believed [OF xwallet_net _ _ _ m _ _ _ xrequest_decoded(1,2), where sv = xview and nonce = "xwk 21"])
      (use xpublishes xpartial_checked in \<open>simp_all add: xexchange\<close>)
  then show ?thesis using m by blast
qed

text \<open>C17. No request of a broadcast stays without an answer that its sender can check. However the
  request fails, and however its promise is settled, the validator can build a response with the code of the
  outcome, and that response passes the checks that the client makes before it looks at the proof.\<close>

theorem request_answered:
  assumes "startBroadcastRequest E wr hash w nonce n s cfg now m client st = (r, st')"
    and "r = Inl out \<or> (\<exists>h settlement. r = Inr h \<and> settled_well settlement \<and> out = request_settled settlement)"
    and "net_wallet E hash w pk" "isAddressValid E (w_address w)" "net_buffer 32 nonce'" "nm_id m \<noteq> []" "length (nm_id m) \<le> 64"
    and "1 \<le> later" "later \<le> MAX_SAFE_INTEGER"
    and "pr_requestType entry = NT_BROADCAST_TRANSACTION_REQUEST" "pr_requestedTo entry = to_hex pk"
  shows "\<exists>answer sig. sendBroadcastTransactionResponse E hash w nonce' later (nm_id m) out = (Some answer, ro_endConnection out) \<and>
    nm_id answer = nm_id m \<and>
    nm_payloads answer = [BroadcastResponse nonce' sig (case ro_proof out of None \<Rightarrow> [] | Some p \<Rightarrow> p) (ro_timestamp out) (ro_resultCode out)] \<and>
    all_steps (response_steps E hash answer pk entry) = Inr ()"
proof (rule answered [OF _ assms(3-)])
  obtain l svc l' svc' where st: "st = (l, svc)" "st' = (l', svc')" by fastforce
  show "answerable out"
    using assms(2) settled_answerable start_refuses [of E wr hash w nonce n s cfg now m client l svc out l' svc'] refused_answerable
      assms(1) st by blast
qed

theorem request_answered_witness:
  "\<exists>answer sig. sendBroadcastTransactionResponse penv xhash xwallet (xwk 30) 5 ''r1''
     (buildFailedRequestOutcome (Protocol RC_INVALID_PAYLOAD, 0)) = (Some answer, True) \<and>
     nm_payloads answer = [BroadcastResponse (xwk 30) sig [] 0 RC_INVALID_PAYLOAD] \<and>
     all_steps (response_steps penv xhash answer xpk xpending) = Inr ()"
proof -
  let ?m = "\<lparr>nm_type = 3, nm_id = ''r1'', nm_timestamp = 4, nm_capabilities = [], nm_payloads = []\<rparr>"
    and ?cfg = "\<lparr>rl_disabled = True, rl_maxTransactionsPerSecond = 1, rl_cleanupIntervalMs = 1, rl_connectionTimeoutMs = 1\<rparr>"
    and ?out = "buildFailedRequestOutcome (Protocol RC_INVALID_PAYLOAD, 0)"
  have "startBroadcastRequest penv protobuf xhash xwallet (xwk 21) 5 xview ?cfg 4 ?m [] (new_limiter 0, no_services)
    = (Inl ?out, new_limiter 0, no_services)"
    by (simp add: startBroadcastRequest_def applyRateLimit_def validateBroadcastRequest_def check_net_defs validateV1BroadcastTransactionRequest_def
      processBroadcastTransactionRequest_def)
  moreover have "?out = \<lparr>ro_endConnection = True, ro_proof = None, ro_resultCode = 2, ro_timestamp = 0\<rparr>"
    by (simp add: buildFailedRequestOutcome_def shouldEndConnection_def VALIDATOR_SIDE_END_CONNECTION_CODES_def)
  moreover note request_answered [OF _ _ xwallet_net, of protobuf "xwk 21" 5 xview ?cfg 4 ?m "[]" "(new_limiter 0, no_services)" "Inl ?out"
    "(new_limiter 0, no_services)" ?out "xwk 30" 5 xpending]
  ultimately show ?thesis by (simp add: xexchange MAX_SAFE_INTEGER_def) blast
qed

end
