(* ===== verification/Codec_Claims.thy ===== *)
theory Codec_Claims
  imports Scenario Network_Codec_Spec Response_Claims
begin
text \<open>
  Properties of the codec of apply operations, of the ledger reading what it wrote, of the codec of network messages, and of the
  byte arithmetic of balances.
\<close>

text \<open>An operation used by the witnesses: a whitelisting by the account \<open>[1, 2]\<close>.\<close>

definition sample :: operation where
  "sample = \<lparr>op_type = OT_APPEND_WHITELIST, op_address = Bytes [1, 2], op_value = Aco (AdminControlOperation_null\<lparr>
     p_tx := Bytes [3], p_txv := Bytes [4], p_ia := Bytes [5, 6], p_in := Bytes [7]\<rparr>)\<rparr>"

lemma sample_shaped: "shaped_operation sample"
  by (simp add: sample_def shaped_operation_def null_defs none_of_def)

lemma sample_wire:
  "operation_wire protobuf sample = [8, 4, 18, 2, 1, 2, 34, 13, 10, 1, 3, 18, 1, 4, 26, 2, 5, 6, 34, 1, 7]"
  by (simp add: sample_def operation_wire_def payload_wire_def null_defs protobuf_def leb_encode.simps)

lemma sample_length: "Operation_encodingLength protobuf sample = 21"
  by (simp add: wire_format.Operation_encodingLength_eq [OF pb.wire_format_axioms] sample_wire)

lemma sample_type: "op_type sample = 4" by (simp add: sample_def)

lemma sample_sized: "wire_sized protobuf sample"
  unfolding wire_sized_def sample_wire by (simp add: sample_def null_defs fields_fit_def)

lemmas sample_decoded = encoded_decoded [OF pb.wire_format_axioms sample_shaped sample_sized]

text \<open>C34. An operation of the right shape is decoded from its encoding as it was, and the encoder fills
  exactly the bytes it allocated, whatever was in them.\<close>

theorem codec_roundtrip:
  assumes "wire_format w" "shaped_operation op" "wire_sized w op"
  shows "safeDecodeApplyOperation w (safeEncodeApplyOperation w op) = Some op \<and>
    length (safeEncodeApplyOperation w op) = Operation_encodingLength w op"
  using encoded_decoded [OF assms] by simp

theorem codec_roundtrip_witness:
  "safeDecodeApplyOperation protobuf (safeEncodeApplyOperation protobuf sample) = Some sample"
  using codec_roundtrip [OF pb.wire_format_axioms sample_shaped sample_sized] by simp

text \<open>The decoder ends on every buffer, well formed or not: it returns an operation or throws.\<close>

theorem decode_ends:
  assumes "wire_format w"
  shows "Operation_decode_buf w buf 0 0 \<noteq> None"
  using wire_format.Operation_decode_total [OF assms] .

theorem decode_ends_witness: "Operation_decode_buf protobuf [26, 255, 255, 1, 0] 0 0 \<noteq> None"
  using decode_ends [OF pb.wire_format_axioms] .

text \<open>C36. Whatever the decoder returns has the address and exactly the fields of its payload's message, each a buffer or \<open>null\<close>, none
  left out and none of another message. So a user's operation that came off the wire and passes its schema carries all three fields of the
  validator, with their lengths, although the schema itself accepts an operation that leaves them out.\<close>

theorem decoded_shape:
  assumes "safeDecodeApplyOperation w buf = Some op"
  shows "shaped_operation op \<and>
    (validateTransferOperation E op \<or> validateTransactionOperation E op \<or> validateBootstrapDeploymentOperation E op \<or>
     validateRoleAccessOperation E op \<longrightarrow>
     (\<exists>va vn vs. p_va (payload_of op) = Bytes va \<and> p_vn (payload_of op) = Bytes vn \<and> p_vs (payload_of op) = Bytes vs \<and>
       length va = addressLength E \<and> length vn = 32 \<and> length vs = 64))"
proof -
  have s: "shaped_operation op" using decode_shaped [OF assms] .
  have f: "\<exists>b. f = Bytes b \<and> length b = n" if "rule_optional (rule_buffer n) f" "f \<noteq> Absent" "f \<noteq> Null" for f n
    using that by (cases f) auto
  show ?thesis
    using s f [of "addressLength E" "p_va (payload_of op)"] f [of 32 "p_vn (payload_of op)"] f [of 64 "p_vs (payload_of op)"]
    by (cases "op_value op")
      (auto simp: shaped_operation_def validateTransferOperation_def validateTransactionOperation_def custom_validator_fields_def
        validateBootstrapDeploymentOperation_def validateRoleAccessOperation_def payload_of.simps Let_def)
qed

lemma xcomplete_shaped: "shaped_operation xcomplete" "validateTransferOperation penv xcomplete"
  by (simp_all add: completion_def with_validator_def xpartial_def shaped_operation_def none_of_def empty_payload_def payload_of.simps
      validateTransferOperation_def custom_validator_fields_def xwallet_def addressToBuffer_def Let_def xhash_wk)

text \<open>The transfer that a validator has completed, encoded and decoded.\<close>

theorem decoded_shape_witness:
  "safeDecodeApplyOperation protobuf (safeEncodeApplyOperation protobuf xcomplete) = Some xcomplete \<and> shaped_operation xcomplete \<and>
   (\<exists>va vn vs. p_va (payload_of xcomplete) = Bytes va \<and> p_vn (payload_of xcomplete) = Bytes vn \<and> p_vs (payload_of xcomplete) = Bytes vs \<and>
      length va = 6 \<and> length vn = 32 \<and> length vs = 64)"
proof -
  have d: "safeDecodeApplyOperation protobuf (safeEncodeApplyOperation protobuf xcomplete) = Some xcomplete"
    by (rule encoded_decoded(1) [OF pb.wire_format_axioms xcomplete_shaped(1) xcomplete_wire(2)])
  show ?thesis using decoded_shape [OF d, of penv] xcomplete_shaped(2) d by simp
qed

text \<open>A node that carries an encoded operation within the size limit is applied by the handler of its type
  on that very operation, and only a failure counts against the validator.\<close>

lemma encoded_applied:
  assumes "wire_format w" "shaped_operation op" "wire_sized w op" "Operation_encodingLength w op \<le> MAXIMUM_OPERATION_PAYLOAD_SIZE"
    and "Operation_decode E = safeDecodeApplyOperation w" "getApplyOperationHandler E (op_type op) = Some handler"
    and "node_value node = safeEncodeApplyOperation w op"
  shows "applyNode E node s = map_option (\<lambda>(result, s'). (result = FAILURE, s')) (handler op node s)"
  using encoded_decoded [OF assms(1-3)] assms(4-) by (simp add: applyNode_def split: option.splits prod.splits)

section \<open>Messages of protocol v1 on the wire\<close>

text \<open>What the builders send is what the handlers get.\<close>

definition built_message :: "'b env \<Rightarrow> (buffer \<Rightarrow> buffer) \<Rightarrow> wallet \<Rightarrow> buffer \<Rightarrow> int \<Rightarrow> string \<Rightarrow> string list \<Rightarrow> net_message \<Rightarrow> bool" where
  "built_message E hash w nonce now i caps m \<longleftrightarrow>
     buildLivenessRequest E hash w nonce now i caps = Some m \<or>
     (\<exists>r. buildLivenessResponse E hash w nonce now i caps r = Some m) \<or>
     (\<exists>d. buildBroadcastTransactionRequest E hash w nonce now i (Some d) caps = Some m) \<or>
     (\<exists>r pf t. buildBroadcastTransactionResponse E hash w nonce now i caps r (Some pf) (Some t) = Some m)"

fun routed :: "net_payload list \<Rightarrow> net_message \<Rightarrow> route" where
  "routed [LivenessRequest nonce sig] m = LivenessRequestHandler m"
| "routed [LivenessResponse nonce sig r] m = LivenessResponseHandler m"
| "routed [BroadcastRequest d nonce sig] m = BroadcastRequestHandler m"
| "routed [BroadcastResponse nonce sig pf t r] m = BroadcastResponseHandler m"
| "routed _ m = Disconnect"

lemma built_parts:
  assumes "built_message E hash w nonce now i caps m"
  shows "\<exists>pl. nm_payloads m = [pl] \<and> payload_numbers pl \<and> 0 \<le> nm_timestamp m \<and> nm_timestamp m \<le> MAX_SAFE_INTEGER \<and>
    nm_type m = (case pl of LivenessRequest _ _ \<Rightarrow> 1 | LivenessResponse _ _ _ \<Rightarrow> 2 | BroadcastRequest _ _ _ \<Rightarrow> 3 | BroadcastResponse _ _ _ _ _ \<Rightarrow> 4)"
    (is "?parts m")
proof -
  note ts = timestampToBuffer_Some
  from assms consider "buildLivenessRequest E hash w nonce now i caps = Some m" | r where "buildLivenessResponse E hash w nonce now i caps r = Some m"
    | d where "buildBroadcastTransactionRequest E hash w nonce now i (Some d) caps = Some m"
    | r pf t where "buildBroadcastTransactionResponse E hash w nonce now i caps r (Some pf) (Some t) = Some m"
    unfolding built_message_def by blast
  then show ?thesis
  proof cases
    case 1
    show ?thesis by (rule livenessRequest_built [OF 1]) (use ts in simp)
  next
    case 2
    show ?thesis by (rule livenessResponse_built [OF 2]) (use ts in \<open>simp add: ResultCode_values_def\<close>)
  next
    case 3
    show ?thesis by (rule broadcastRequest_built [OF 3]) (use ts in simp)
  next
    case 4
    show ?thesis by (rule broadcastResponse_built [OF 4]) (use ts in \<open>simp add: ResultCode_values_def\<close>)
  qed
qed

section \<open>Properties\<close>

text \<open>C38. A message that a node builds, encoded and sent, reaches the handler of its type at the other end
  exactly as it was built, if it fits the limit of the router; the session learns that the peer speaks protocol v1. What
  the node signed as a request passes the validation of that handler under the node's key.\<close>

theorem message_arrives:
  assumes "pb_format p" "built_message E hash w nonce now i caps m"
    and "length (encodeV1networkOperation p m) \<le> V1_PROTOCOL_PAYLOAD_MAX_SIZE"
    and "net_wallet E hash w pk" "net_buffer 32 nonce" "length i \<le> 64" "1 \<le> now"
  shows "route_v1 p (encodeV1networkOperation p m) = (routed (nm_payloads m) m, True) \<and>
    (nm_type m = NT_LIVENESS_REQUEST \<longrightarrow> validateLivenessRequest E hash m pk = Inr ()) \<and>
    (\<forall>d g. nm_payloads m = [BroadcastRequest d nonce g] \<and> d \<noteq> [] \<and> length d \<le> MAX_PARTIAL_TX_PAYLOAD_BYTE_SIZE \<longrightarrow>
      validateBroadcastRequest E hash m pk = Inr ())"
proof -
  obtain pl where pl: "nm_payloads m = [pl]" "payload_numbers pl" "0 \<le> nm_timestamp m" "nm_timestamp m \<le> MAX_SAFE_INTEGER"
    "nm_type m = (case pl of LivenessRequest _ _ \<Rightarrow> 1 | LivenessResponse _ _ _ \<Rightarrow> 2 | BroadcastRequest _ _ _ \<Rightarrow> 3 | BroadcastResponse _ _ _ _ _ \<Rightarrow> 4)"
    using built_parts [OF assms(2)] by blast
  have "pb_format.net_sized p m"
    by (rule pb_format.message_small [OF assms(1) _ pl(3,4,1,2)]) (use pl(5) assms(3) in \<open>simp_all split: net_payload.splits\<close>)
  then have d: "decodeV1networkOperation p (encodeV1networkOperation p m) = Some (int (nm_type m), m)"
    by (rule pb_format.network_decoded [OF assms(1)])
  have "encodeV1networkOperation p m \<noteq> []"
    using pb_format.tag_nonempty [OF assms(1)] by (simp add: encodeV1networkOperation_def MessageHeader_encode_def)
  then have "route_v1 p (encodeV1networkOperation p m) = (routed (nm_payloads m) m, True)"
    using d assms(3) pl(1,5) by (cases pl) (simp_all add: route_v1_def)
  moreover have "validateLivenessRequest E hash m pk = Inr ()" if "nm_type m = NT_LIVENESS_REQUEST"
  proof -
    have "buildLivenessRequest E hash w nonce now i caps = Some m"
      using assms(2) that unfolding built_message_def by (auto elim: livenessResponse_built broadcastRequest_built broadcastResponse_built)
    then show ?thesis using built_verified(1) [OF assms(4-7)] by blast
  qed
  moreover have "validateBroadcastRequest E hash m pk = Inr ()"
    if "nm_payloads m = [BroadcastRequest x nonce g]" "x \<noteq> []" "length x \<le> MAX_PARTIAL_TX_PAYLOAD_BYTE_SIZE" for x g
  proof -
    note pl = that(1)
    obtain y where y: "buildBroadcastTransactionRequest E hash w nonce now i (Some y) caps = Some m"
      using assms(2) pl unfolding built_message_def by (auto elim: livenessRequest_built livenessResponse_built broadcastResponse_built)
    moreover have "y = x" using y pl by (auto elim: broadcastRequest_built)
    ultimately show ?thesis using built_verified(2) [OF assms(4-7)] that(2,3) by simp
  qed
  ultimately show ?thesis by blast
qed

theorem message_arrives_witness:
  "\<exists>m. buildLivenessRequest penv xhash xwallet (xwk 30) 5 ''r1'' [] = Some m \<and>
     route_v1 protobufjs (encodeV1networkOperation protobufjs m) = (LivenessRequestHandler m, True) \<and>
     validateLivenessRequest penv xhash m xpk = Inr ()"
proof -
  obtain m g where m: "buildLivenessRequest penv xhash xwallet (xwk 30) 5 ''r1'' [] = Some m" "m =
      \<lparr>nm_type = 1, nm_id = ''r1'', nm_timestamp = 5, nm_capabilities = [], nm_payloads = [LivenessRequest (xwk 30) g]\<rparr>" "length g = 64"
    by (simp add: buildLivenessRequest_def build_net_defs buildLivenessRequestPayload_def xwallet_def
      timestampToBuffer_def uint64ToBuffer_def MAX_SAFE_INTEGER_def encodeCapabilities_def Let_def)
  have "length (encodeV1networkOperation protobufjs m) \<le> 4096"
    by (simp add: m(2,3) encodeV1networkOperation_def MessageHeader_encode_def LivenessRequest_encode_def wr_ldelim_def protobufjs_def
      leb_encode.simps utf8_def utf8_char_def)
  moreover have "built_message penv xhash xwallet (xwk 30) 5 ''r1'' [] m" using m(1) by (simp add: built_message_def)
  ultimately show ?thesis
    using message_arrives [OF pbn.pb_format_axioms _ _ xwallet_net, of "xwk 30" 5 "''r1''" "[]" m] m xkey by auto
qed

section \<open>The byte arithmetic of balances\<close>

text \<open>C33. Adding and subtracting 16-byte balances byte by byte with carry and borrow gives the sum and the
  difference of the numbers, and \<open>null\<close> exactly when it does not fit; comparing the buffers
  compares the numbers.\<close>

theorem balance_add_sub:
  assumes "bal_ok x" "bal_ok y"
  shows "bal_add x y = (if bal_nat x + bal_nat y < 2 ^ 128 then Some (Balance (amount (bal_nat x + bal_nat y))) else None) \<and>
    bal_sub x y = (if bal_nat y \<le> bal_nat x then Some (Balance (amount (bal_nat x - bal_nat y))) else None) \<and>
    (bal_greaterThanOrEquals x y \<longleftrightarrow> bal_nat y \<le> bal_nat x) \<and> (bal_greaterThan x y \<longleftrightarrow> bal_nat y < bal_nat x) \<and>
    (bal_lowerThanOrEquals x y \<longleftrightarrow> bal_nat x \<le> bal_nat y) \<and> (bal_lowerThan x y \<longleftrightarrow> bal_nat x < bal_nat y) \<and>
    (bal_equals x y \<longleftrightarrow> bal_nat x = bal_nat y)"
  using assms bal_add_eq bal_sub_eq bal.ge_iff bal_greaterThan_iff bal_lowerThan_iff bal_lowerThanOrEquals_iff
    bal_equals_iff by simp

theorem balance_add_sub_witness:
  "bal_sub BALANCE_FEE BALANCE_TO_STAKE = None \<and> bal_add BALANCE_FEE BALANCE_FEE = Some (Balance (amount (2 * fee)))"
  using balance_add_sub [of BALANCE_FEE BALANCE_TO_STAKE] balance_add_sub [of BALANCE_FEE BALANCE_FEE]
  by (simp add: fee_def)

text \<open>The schoolbook multiplication is the product, or \<open>null\<close> when the product needs more than 16 bytes; the
  bitwise long division is the quotient, or \<open>null\<close> for a zero divisor; and a percentage, given in
  hundredths, rounds down and fails when the product before the division does not fit.\<close>

theorem balance_scaling:
  assumes "bal_ok x" "length t = 16"
  shows "bal_mul x t = (if bal_nat x * be_nat t < 2 ^ 128 then Some (Balance (amount (bal_nat x * be_nat t))) else None) \<and>
    bal_div x t = (if be_nat t = 0 then None else Some (Balance (amount (bal_nat x div be_nat t)))) \<and>
    bal_percentage x t = (if bal_nat x * be_nat t < 2 ^ 128
      then Some (Balance (amount (bal_nat x * be_nat t div 10000))) else None)"
proof -
  have "bal_div x t = (if be_nat t = 0 then None else Some (Balance (amount (bal_nat x div be_nat t))))"
  proof (cases "be_nat t = 0")
    case True
    then show ?thesis using assms(2) by (simp add: bal_div_zero)
  next
    case False
    then show ?thesis using bal_div_nat [OF assms] bal_eq_amount by auto
  qed
  then show ?thesis using bal_mul_eq [OF assms] bal_percentage_eq [OF assms] by blast
qed

theorem balance_scaling_witness:
  "bal_percentage BALANCE_FEE PERCENT_25 = Some (Balance (amount (fee div 4))) \<and> bal_div BALANCE_FEE ZERO_BALANCE = None"
proof -
  have "fee * 2500 div 10000 = fee div 4" by (simp add: fee_def)
  then show ?thesis
    using balance_scaling [of BALANCE_FEE PERCENT_25] balance_scaling [of BALANCE_FEE ZERO_BALANCE]
    by (simp add: fee_def)
qed

text \<open>The fee is 0.03 TNK and the stake ten fees; the parts of the fee that are paid out, three quarters, or a
  half and a quarter, are exact, so that exactly a quarter is burned; and the first
  administrator is created with the stake that every indexer has.\<close>

lemma fee_schedule:
  "bal_nat BALANCE_FEE = 3 * 10 ^ 16 \<and> bal_nat BALANCE_TO_STAKE = 3 * 10 ^ 17 \<and>
   bal_percentage BALANCE_FEE PERCENT_75 = Some reward75 \<and> bal_nat reward75 + fee div 4 = fee \<and>
   bal_percentage BALANCE_FEE PERCENT_50 = Some reward50 \<and> bal_percentage BALANCE_FEE PERCENT_25 = Some reward25 \<and>
   bal_nat reward50 + bal_nat reward25 = bal_nat reward75 \<and>
   be_nat ADMIN_INITIAL_STAKED_BALANCE = bal_nat BALANCE_TO_STAKE \<and> be_nat ADMIN_INITIAL_BALANCE = 1000 * 10 ^ 18"
  by (simp add: ADMIN_INITIAL_BALANCE_def ADMIN_INITIAL_STAKED_BALANCE_def) (simp add: fee_def)

section \<open>Entries\<close>

lemma subarray_append: "i \<le> j \<Longrightarrow> j \<le> k \<Longrightarrow> subarray i j b @ subarray j k b = subarray i k b"
  using take_add [of "j - i" "k - j" "drop i b"] by (simp add: subarray_def)

lemma entry_fields:
  assumes "length b = 69"
  shows "b = b ! 0 # subarray 1 33 b @ subarray 33 49 b @ subarray 49 53 b @ subarray 53 69 b"
proof -
  have "subarray 1 33 b @ subarray 33 49 b @ subarray 49 53 b @ subarray 53 69 b = subarray 1 69 b"
    by (simp add: subarray_append)
  moreover have "b ! 0 # subarray 1 69 b = b" using assms by (cases b) (simp_all add: subarray_def)
  ultimately show ?thesis by simp
qed

lemma entry_eqI:
  assumes "length a = 69" "length b = 69" "a ! 0 = b ! 0" "subarray 1 33 a = subarray 1 33 b"
    "subarray 33 49 a = subarray 33 49 b" "subarray 49 53 a = subarray 49 53 b" "subarray 53 69 a = subarray 53 69 b"
  shows "a = b"
  using entry_fields [OF assms(1)] entry_fields [OF assms(2)] assms(3-7) by simp

lemma role_of_flags:
  assumes "valid_entry b"
  shows "calculateNodeRole (decoded b) = b ! 0"
  using assms by (auto simp: valid_entry_def calculateNodeRole_def isNodeRoleValid_iff role_defs Let_def)

text \<open>Node entries survive the trip both ways: decoding the encoding of a record with nested roles and fields of the
  right sizes gives the record, and encoding what a well-formed entry decodes to gives the entry.\<close>

theorem entry_roundtrip:
  assumes "ne_wellformed r" "valid_entry b"
  shows "ne_decode (Some (ne_encode r)) = Some r \<and> (\<exists>d. ne_decode (Some b) = Some d \<and> ne_encode d = b)"
proof -
  have len: "length b = 69" using assms(2) by (simp add: valid_entry_def)
  note f = ne_decode_fields [OF decoded(1) [OF len]]
  have e: "ne_encode (decoded b) = ne_layout (b ! 0) (ne_wk (decoded b)) (ne_balance (decoded b))
      (ne_license (decoded b)) (ne_stakedBalance (decoded b))"
    using assms(2) f role_of_flags [OF assms(2)] by (simp add: ne_encode_def valid_entry_def)
  have "ne_balance (decoded b) = subarray 33 49 b" "ne_stakedBalance (decoded b) = subarray 53 69 b"
    "ne_license (decoded b) = subarray 49 53 b" "ne_wk (decoded b) = subarray 1 33 b"
    using len by (simp_all add: decoded_def ne_decode_Some del: decoded(1))
  note fields = this
  have "ne_encode (decoded b) = b"
    unfolding e fields
    by (rule entry_eqI) (simp_all only: ne_layout_props [OF f [unfolded fields]] len)
  then show ?thesis using ne_decode_encode [OF assms(1)] len by simp
qed

theorem entry_roundtrip_witness:
  "\<exists>d. ne_decode (Some (ne_init ZERO_WK WRITER ZERO_BALANCE ZERO_LICENSE ZERO_BALANCE)) = Some d \<and>
     ne_encode d = ne_init ZERO_WK WRITER ZERO_BALANCE ZERO_LICENSE ZERO_BALANCE"
  using entry_roundtrip [of "\<lparr>ne_wk = ZERO_WK, ne_isWhitelisted = True, ne_isWriter = True, ne_isIndexer = False,
      ne_balance = ZERO_BALANCE, ne_license = ZERO_LICENSE, ne_stakedBalance = ZERO_BALANCE\<rparr>"
      "ne_init ZERO_WK WRITER ZERO_BALANCE ZERO_LICENSE ZERO_BALANCE"]
    ne_init_valid(1) [of ZERO_WK WRITER ZERO_BALANCE ZERO_LICENSE ZERO_BALANCE]
  by (simp add: ne_wellformed_def)

text \<open>A setter of the node entry changes the field it is for and no other, and refuses an entry or a value
  of the wrong size, or a role that does not exist.\<close>

lemma setters_frame:
  "ne_decode (setBalance e v) = (if length v = 16 then map_option (\<lambda>r. r\<lparr>ne_balance := v\<rparr>) (ne_decode e) else None) \<and>
   ne_decode (setStakedBalance e v) = (if length v = 16 then map_option (\<lambda>r. r\<lparr>ne_stakedBalance := v\<rparr>) (ne_decode e) else None) \<and>
   ne_decode (setLicense e v) = (if length v = 4 then map_option (\<lambda>r. r\<lparr>ne_license := v\<rparr>) (ne_decode e) else None) \<and>
   ne_decode (setWritingKey e v) = (if length v = 32 then map_option (\<lambda>r. r\<lparr>ne_wk := v\<rparr>) (ne_decode e) else None) \<and>
   ne_decode (setRole e role) = (if isNodeRoleValid role then map_option (set_role_flags role) (ne_decode e) else None) \<and>
   ne_decode (setRoleAndWriterKey e role v) = (if isNodeRoleValid role \<and> length v = 32
     then map_option (\<lambda>r. (set_role_flags role r)\<lparr>ne_wk := v\<rparr>) (ne_decode e) else None)"
  by (auto simp: set_decode_simps set_role_flags_def)

text \<open>The admin entry and the deployment entry decode to what was encoded.\<close>

lemma stored_roundtrip:
  assumes "isAddressValid E (ascii_string a)" "length w = 32" "length h = 32"
  shows "ae_decode E (Some (ae_encode E a w)) = Some \<lparr>ae_address = Some (ascii_string a), ae_wk = w\<rparr> \<and>
    de_decode (Some (de_encode E h a)) (length a) = Some \<lparr>de_txHash = h, de_address = a\<rparr>"
  using ae_decode_encode [OF assms(1,2)] de_decode_encode [OF assms(1,3)] by simp

end
