(* ===== verification/Peer_Spec.thy ===== *)
theory Peer_Spec
  imports Peer_Services V1_Spec
begin

text \<open>
  The requests of a node over every order of their steps: sending, the timers, responses that arrive and
  those whose validation ends, connections that are lost, the shutdown; and the rate limiter over every
  sequence of requests.
\<close>

section \<open>Steps\<close>

datatype peer_event = Sent string net_message | TimedOut string | Arrived net_message buffer | Validated node_state flight | PeerLost string | Closed

inductive peer_step :: "'b env \<Rightarrow> publication \<Rightarrow> wire \<Rightarrow> (buffer \<Rightarrow> buffer) \<Rightarrow> rate_config \<Rightarrow> nat \<Rightarrow>
    peer_node \<Rightarrow> peer_event \<Rightarrow> peer_node \<Rightarrow> bool"
  for E :: "'b env" and P wr hash cfg n where
  peer_send: "v1_send n peer sent m (pn_requests nd) = Inr r \<Longrightarrow>
    peer_step E P wr hash cfg n nd (Sent peer m) (nd\<lparr>pn_requests := r\<rparr>)"
| peer_timeout: "e \<in> set (rq_pending (pn_requests nd)) \<Longrightarrow> pr_armed e \<Longrightarrow>
    peer_step E P wr hash cfg n nd (TimedOut (pr_id e)) (nd\<lparr>pn_requests := snd (rejectPendingRequest (pr_id e) RequestTimeout (pn_requests nd))\<rparr>)"
| peer_arrive: "nm_type m = NT_LIVENESS_RESPONSE \<or> nm_type m = NT_BROADCAST_TRANSACTION_RESPONSE \<Longrightarrow>
    peer_step E P wr hash cfg n nd (Arrived m pk) (startResponse cfg now m pk nd)"
| peer_validated: "pn_flights nd = xs @ f # ys \<Longrightarrow>
    peer_step E P wr hash cfg n nd (Validated s f) (finishResponse (responseVerdict E P wr hash s f) (fst f) (nd\<lparr>pn_flights := xs @ ys\<rparr>))"
| peer_lost: "peer_step E P wr hash cfg n nd (PeerLost peer)
    (nd\<lparr>pn_requests := snd (rejectPendingRequestsForPeer peer ConnectionLost (pn_requests nd))\<rparr>)"
| peer_closed: "peer_step E P wr hash cfg n nd Closed (nd\<lparr>pn_requests := closeRequests (pn_requests nd)\<rparr>)"

definition new_peer_node :: "int \<Rightarrow> peer_node" where
  "new_peer_node now = \<lparr>pn_requests = \<lparr>rq_pending = [], rq_settled = []\<rparr>, pn_limiter = new_limiter now, pn_flights = []\<rparr>"

inductive peer_run :: "'b env \<Rightarrow> publication \<Rightarrow> wire \<Rightarrow> (buffer \<Rightarrow> buffer) \<Rightarrow> rate_config \<Rightarrow> nat \<Rightarrow> peer_event list \<Rightarrow> peer_node \<Rightarrow> bool"
  for E :: "'b env" and P wr hash cfg n where
  peer_start: "peer_run E P wr hash cfg n [] (new_peer_node now)"
| peer_next: "peer_run E P wr hash cfg n ls nd \<Longrightarrow> peer_step E P wr hash cfg n nd l nd' \<Longrightarrow> peer_run E P wr hash cfg n (ls @ [l]) nd'"

section \<open>What settling does\<close>

abbreviation pending_ids :: "requests \<Rightarrow> string list" where
  "pending_ids s \<equiv> map pr_id (rq_pending s)"

definition settled_for_id :: "string \<Rightarrow> requests \<Rightarrow> nat" where
  "settled_for_id i s = length (filter (\<lambda>(j, _). j = i) (rq_settled s))"

lemma getPendingRequest_None: "getPendingRequest i s = None \<longleftrightarrow> i \<notin> set (pending_ids s)"
  by (auto simp: getPendingRequest_def find_None_iff)

lemma hasPendingRequest_iff: "hasPendingRequest i s \<longleftrightarrow> i \<in> set (pending_ids s)"
  by (auto simp: hasPendingRequest_def list_ex_iff)

lemma getPendingRequest_Some: "getPendingRequest i s = Some e \<Longrightarrow> e \<in> set (rq_pending s) \<and> pr_id e = i"
  by (auto simp: getPendingRequest_def find_Some_iff)

lemma settleRequest_eq:
  "settleRequest i r s = (if i \<in> set (pending_ids s)
     then (True, \<lparr>rq_pending = filter (\<lambda>e. pr_id e \<noteq> i) (rq_pending s), rq_settled = rq_settled s @ [(i, r)]\<rparr>) else (False, s))"
  using getPendingRequest_None [of i s]
  by (auto simp: settleRequest_def getAndDeletePendingRequest_def split: option.splits)

text \<open>One request, settled or not: what every proof below needs of it.\<close>

definition keeps_count :: "requests \<Rightarrow> requests \<Rightarrow> bool" where
  "keeps_count s s' \<longleftrightarrow> (distinct (pending_ids s) \<longrightarrow> distinct (pending_ids s') \<and> set (rq_pending s') \<subseteq> set (rq_pending s) \<and>
     length (rq_pending s') \<le> length (rq_pending s) \<and>
     (\<forall>i. settled_for_id i s' + count_list (pending_ids s') i = settled_for_id i s + count_list (pending_ids s) i))"

lemma keeps_count_refl [simp]: "keeps_count s s"
  by (simp add: keeps_count_def)

lemma keeps_count_trans: "keeps_count s s' \<Longrightarrow> keeps_count s' s'' \<Longrightarrow> keeps_count s s''"
  by (fastforce simp: keeps_count_def)

lemma count_list_distinct: "distinct xs \<Longrightarrow> count_list xs i = (if i \<in> set xs then 1 else 0)"
  by (induction xs) auto

lemma pending_ids_filter: "map pr_id (filter (\<lambda>e. pr_id e \<noteq> i) es) = removeAll i (map pr_id es)"
  by (induction es) auto

lemma settle_counts: "keeps_count s (snd (settleRequest i r s))"
proof -
  have "count_list (removeAll i xs) j = (if i = j then 0 else count_list xs j)" for xs :: "string list" and j
    by (induction xs) auto
  then show ?thesis
    by (auto simp: settleRequest_eq keeps_count_def pending_ids_filter distinct_removeAll settled_for_id_def count_list_distinct
      intro: le_trans [OF length_filter_le])
qed

definition rejects :: "requests \<Rightarrow> requests \<Rightarrow> bool" where
  "rejects s s' \<longleftrightarrow> keeps_count s s' \<and> (\<forall>i c. (i, Inr c) \<in> set (rq_settled s') \<longrightarrow> (i, Inr c) \<in> set (rq_settled s))"

lemma rejects_refl [simp]: "rejects s s"
  by (simp add: rejects_def)

lemma rejects_trans: "rejects s s' \<Longrightarrow> rejects s' s'' \<Longrightarrow> rejects s s''"
  unfolding rejects_def by (meson keeps_count_trans)

lemma rejects_one: "rejects s (snd (rejectPendingRequest i e s))"
  using settle_counts [of s i "Inl e"] by (auto simp: rejects_def rejectPendingRequest_def settleRequest_eq)

lemma rejects_peer: "rejects s (snd (rejectPendingRequestsForPeer peer e s))"
proof -
  have "rejects s (fold (\<lambda>i s. snd (rejectPendingRequest i e s)) is s)" for "is"
    by (induction "is" arbitrary: s) (auto intro: rejects_trans rejects_one)
  then show ?thesis by (simp add: rejectPendingRequestsForPeer_def Let_def)
qed

lemma rejects_close: "rejects s (closeRequests s)"
proof -
  have "length (filter (\<lambda>(j, _). j = i) (map (\<lambda>e. (pr_id e, r)) es)) = count_list (map pr_id es) i" for i es and r :: "request_error + result_code"
    by (induction es) auto
  then show ?thesis by (auto simp: rejects_def keeps_count_def closeRequests_def settled_for_id_def)
qed

section \<open>The invariant\<close>

definition requests_ok :: "nat \<Rightarrow> string list \<Rightarrow> requests \<Rightarrow> bool" where
  "requests_ok n sent_ids s \<longleftrightarrow> distinct (pending_ids s) \<and> length (rq_pending s) \<le> n \<and>
     (\<forall>i. settled_for_id i s + count_list (pending_ids s) i = count_list sent_ids i)"

lemma keeps_ok: "requests_ok n sent_ids s \<Longrightarrow> keeps_count s s' \<Longrightarrow> requests_ok n sent_ids s'"
  by (fastforce simp: requests_ok_def keeps_count_def)

lemma register_ok:
  assumes "requests_ok n sent_ids s" "registerPendingRequest n peer m s = Inr s'"
  shows "requests_ok n (sent_ids @ [nm_id m]) s'" "rq_settled s' = rq_settled s"
    "e \<in> set (rq_pending s') \<Longrightarrow> e \<in> set (rq_pending s) \<or> pr_armed e"
  using assms
  by (auto simp: registerPendingRequest_def chain_Inr requests_ok_def hasPendingRequest_iff settled_for_id_def split: if_splits)

lemma stop_ok:
  assumes "requests_ok n sent_ids s"
  shows "requests_ok n sent_ids (snd (stopPendingRequestTimeout i s))" "rq_settled (snd (stopPendingRequestTimeout i s)) = rq_settled s"
    "e \<in> set (rq_pending (snd (stopPendingRequestTimeout i s))) \<Longrightarrow> pr_id e = i \<or> e \<in> set (rq_pending s)"
proof -
  have "(pr_id :: pending_request \<Rightarrow> string) \<circ> (\<lambda>e. if pr_id e = i then e\<lparr>pr_armed := False\<rparr> else e) = pr_id"
    by (rule ext) simp
  then show "requests_ok n sent_ids (snd (stopPendingRequestTimeout i s))"
    using assms by (simp add: stopPendingRequestTimeout_def requests_ok_def settled_for_id_def del: comp_apply)
qed (auto simp: stopPendingRequestTimeout_def split: if_splits)

text \<open>A response that was validated, and the code it carries.\<close>

definition answered_by :: "'b env \<Rightarrow> publication \<Rightarrow> wire \<Rightarrow> (buffer \<Rightarrow> buffer) \<Rightarrow> node_state \<Rightarrow> flight \<Rightarrow> string \<Rightarrow> result_code \<Rightarrow> bool" where
  "answered_by E P wr hash s f i c \<longleftrightarrow> (case f of (m, pk, e) \<Rightarrow>
     responseVerdict E P wr hash s f = Inr () \<and> nm_id m = i \<and> pr_id e = i \<and>
     (\<exists>p. payload_where (if nm_type m = NT_LIVENESS_RESPONSE then is_LivenessResponse else is_BroadcastResponse) m = Inr p \<and> np_result p = c))"

fun sent_id :: "peer_event \<Rightarrow> string list" where
  "sent_id (Sent peer m) = [nm_id m]"
| "sent_id _ = []"

definition waits_ok :: "pending_request list \<Rightarrow> flight list \<Rightarrow> bool" where
  "waits_ok es fs \<longleftrightarrow> (\<forall>(m, pk, e) \<in> set fs. pr_id e = nm_id m) \<and> (\<forall>e \<in> set es. pr_armed e \<or> pr_id e \<in> (nm_id \<circ> fst) ` set fs)"

definition answers_ok :: "'b env \<Rightarrow> publication \<Rightarrow> wire \<Rightarrow> (buffer \<Rightarrow> buffer) \<Rightarrow> peer_event list \<Rightarrow> requests \<Rightarrow> bool" where
  "answers_ok E P wr hash ls s \<longleftrightarrow>
     (\<forall>i c. (i, Inr c) \<in> set (rq_settled s) \<longrightarrow> (\<exists>st f. Validated st f \<in> set ls \<and> answered_by E P wr hash st f i c))"

definition peer_ok :: "'b env \<Rightarrow> publication \<Rightarrow> wire \<Rightarrow> (buffer \<Rightarrow> buffer) \<Rightarrow> nat \<Rightarrow> peer_event list \<Rightarrow> peer_node \<Rightarrow> bool" where
  "peer_ok E P wr hash n ls nd \<longleftrightarrow> requests_ok n (concat (map sent_id ls)) (pn_requests nd) \<and>
     waits_ok (rq_pending (pn_requests nd)) (pn_flights nd) \<and> answers_ok E P wr hash ls (pn_requests nd)"

lemma answers_mono:
  "answers_ok E P wr hash ls s \<Longrightarrow> (\<And>i c. (i, Inr c) \<in> set (rq_settled s') \<Longrightarrow> (i, Inr c) \<in> set (rq_settled s)) \<Longrightarrow>
   answers_ok E P wr hash (ls @ [l]) s'"
  unfolding answers_ok_def by fastforce

lemma answers_add:
  assumes "answers_ok E P wr hash ls s" "answered_by E P wr hash st f i c"
    and "\<And>j d. (j, Inr d) \<in> set (rq_settled s') \<Longrightarrow> (j, Inr d) \<in> set (rq_settled s) \<or> j = i \<and> d = c"
  shows "answers_ok E P wr hash (ls @ [Validated st f]) s'"
  using assms unfolding answers_ok_def by fastforce

lemma rejects_subset: "requests_ok n sent_ids s \<Longrightarrow> rejects s s' \<Longrightarrow> set (rq_pending s') \<subseteq> set (rq_pending s)"
  by (simp add: rejects_def keeps_count_def requests_ok_def)

lemma waits_mono: "waits_ok es fs \<Longrightarrow> set es' \<subseteq> set es \<Longrightarrow> waits_ok es' fs"
  unfolding waits_ok_def by blast

lemma peer_rejects:
  assumes "peer_ok E P wr hash n ls nd" "rejects (pn_requests nd) r" "sent_id l = []" "waits_ok (rq_pending r) fs"
  shows "peer_ok E P wr hash n (ls @ [l]) \<lparr>pn_requests = r, pn_limiter = lim, pn_flights = fs\<rparr>"
  using assms keeps_ok [of n _ "pn_requests nd" r] answers_mono [of E P wr hash ls "pn_requests nd" r l]
  by (simp add: peer_ok_def rejects_def)

lemma peer_rejects_same:
  assumes "peer_ok E P wr hash n ls nd" "rejects (pn_requests nd) r" "sent_id l = []"
  shows "peer_ok E P wr hash n (ls @ [l]) \<lparr>pn_requests = r, pn_limiter = lim, pn_flights = pn_flights nd\<rparr>"
  by (rule peer_rejects [OF assms]) (use assms(1,2) rejects_subset waits_mono in \<open>unfold peer_ok_def, blast\<close>)

section \<open>Every step keeps it\<close>

lemma peer_eta: "nd\<lparr>pn_requests := r\<rparr> = \<lparr>pn_requests = r, pn_limiter = pn_limiter nd, pn_flights = pn_flights nd\<rparr>"
  "nd\<lparr>pn_limiter := lim\<rparr> = \<lparr>pn_requests = pn_requests nd, pn_limiter = lim, pn_flights = pn_flights nd\<rparr>"
  "nd\<lparr>pn_flights := fs\<rparr> = \<lparr>pn_requests = pn_requests nd, pn_limiter = pn_limiter nd, pn_flights = fs\<rparr>" for nd :: peer_node
  by simp_all

lemma waits_flight:
  "waits_ok es fs \<Longrightarrow> pr_id e = nm_id m \<Longrightarrow> (\<And>x. x \<in> set es' \<Longrightarrow> pr_id x = nm_id m \<or> x \<in> set es) \<Longrightarrow> waits_ok es' (fs @ [(m, pk, e)])"
  by (auto simp: waits_ok_def)

lemma send_ok:
  assumes "peer_ok E P wr hash n ls nd" "v1_send n peer sent m (pn_requests nd) = Inr r"
  shows "peer_ok E P wr hash n (ls @ [Sent peer m]) (nd\<lparr>pn_requests := r\<rparr>)"
proof -
  obtain r' where r': "registerPendingRequest n peer m (pn_requests nd) = Inr r'" "rejects r' r"
    using assms(2) rejects_one by (auto simp: v1_send_def chain_Inr)
  have ok: "requests_ok n (concat (map sent_id ls)) (pn_requests nd)" using assms(1) by (simp add: peer_ok_def)
  note R = register_ok [OF ok r'(1)]
  have "waits_ok (rq_pending r') (pn_flights nd)"
    using assms(1) R(3) unfolding peer_ok_def waits_ok_def by blast
  moreover have "answers_ok E P wr hash (ls @ [Sent peer m]) r"
    by (rule answers_mono [of E P wr hash ls "pn_requests nd"]) (use assms(1) R(2) r'(2) in \<open>simp_all add: peer_ok_def rejects_def\<close>)
  ultimately show ?thesis
    using keeps_ok [OF R(1)] r'(2) waits_mono rejects_subset [OF R(1)] by (auto simp: peer_ok_def rejects_def)
qed

lemma arrive_ok:
  assumes "peer_ok E P wr hash n ls nd"
  shows "peer_ok E P wr hash n (ls @ [Arrived m pk]) (startResponse cfg now m pk nd)"
proof (cases "applyRateLimit cfg (to_hex pk) now (pn_limiter nd)")
  case (Pair v lim)
  have ok: "requests_ok n (concat (map sent_id ls)) (pn_requests nd)" using assms by (simp add: peer_ok_def)
  show ?thesis
  proof (cases v)
    case (Inl e)
    then show ?thesis
      using Pair peer_rejects_same [OF assms rejects_one, of "Arrived m pk" "nm_id m"]
      by (simp add: startResponse_def handlePendingResponseError_def peer_eta)
  next
    case (Inr u)
    show ?thesis
    proof (cases "getPendingRequest (nm_id m) (pn_requests nd)")
      case None
      then show ?thesis
        using Pair Inr peer_rejects_same [OF assms rejects_refl, of "Arrived m pk"] by (simp add: startResponse_def peer_eta)
    next
      case (Some e)
      note S = stop_ok [OF ok, where i = "nm_id m"]
      have "waits_ok (rq_pending (snd (stopPendingRequestTimeout (nm_id m) (pn_requests nd)))) (pn_flights nd @ [(m, pk, e)])"
        by (rule waits_flight [of "rq_pending (pn_requests nd)"]) (use assms S(3) getPendingRequest_Some [OF Some] in \<open>auto simp: peer_ok_def\<close>)
      moreover have "answers_ok E P wr hash (ls @ [Arrived m pk]) (snd (stopPendingRequestTimeout (nm_id m) (pn_requests nd)))"
        by (rule answers_mono [of E P wr hash ls "pn_requests nd"]) (use assms S(2) in \<open>simp_all add: peer_ok_def\<close>)
      ultimately show ?thesis
        using Pair Inr Some S(1) by (simp add: startResponse_def peer_ok_def)
    qed
  qed
qed

lemma finish_ok:
  assumes "peer_ok E P wr hash n ls nd" "pn_flights nd = xs @ f # ys"
  shows "peer_ok E P wr hash n (ls @ [Validated s f]) (finishResponse (responseVerdict E P wr hash s f) (fst f) (nd\<lparr>pn_flights := xs @ ys\<rparr>))"
proof -
  obtain m pk e where f: "f = (m, pk, e)" by (cases f)
  have ok: "requests_ok n (concat (map sent_id ls)) (pn_requests nd)" using assms by (simp add: peer_ok_def)
  have e: "pr_id e = nm_id m" using assms f by (simp add: peer_ok_def waits_ok_def)
  have wait: "waits_ok (rq_pending (snd (settleRequest (nm_id m) r (pn_requests nd)))) (xs @ ys)" for r
    using assms(1) e by (auto simp: assms(2) f peer_ok_def waits_ok_def settleRequest_eq) force
  define p where "p = payload_where (if nm_type m = NT_LIVENESS_RESPONSE then is_LivenessResponse else is_BroadcastResponse) m"
  show ?thesis
  proof (cases "chain (responseVerdict E P wr hash s f) (\<lambda>_. p)")
    case (Inl err)
    then show ?thesis
      using peer_rejects [OF assms(1) rejects_one _ wait [of "Inl (RequestRejected (toProtocolError err))", folded rejectPendingRequest_def], of "Validated s f"]
      by (simp add: f finishResponse_def p_def handlePendingResponseError_def rejectPendingRequest_def peer_eta)
  next
    case (Inr q)
    then have by_f: "answered_by E P wr hash s f (nm_id m) (np_result q)"
      using e by (auto simp: answered_by_def f p_def chain_Inr)
    have "answers_ok E P wr hash (ls @ [Validated s f]) (snd (settleRequest (nm_id m) (Inr (np_result q)) (pn_requests nd)))"
      by (rule answers_add [of E P wr hash ls "pn_requests nd" s f "nm_id m" "np_result q"])
        (use assms(1) by_f in \<open>auto simp: peer_ok_def settleRequest_eq split: if_splits\<close>)
    moreover have "requests_ok n (concat (map sent_id ls)) (snd (settleRequest (nm_id m) (Inr (np_result q)) (pn_requests nd)))"
      by (rule keeps_ok [OF ok settle_counts])
    ultimately show ?thesis
      using Inr wait [of "Inr (np_result q)"] by (simp add: f finishResponse_def p_def resolvePendingRequest_def peer_ok_def)
  qed
qed

lemma peer_step_ok: "peer_step E P wr hash cfg n nd l nd' \<Longrightarrow> peer_ok E P wr hash n ls nd \<Longrightarrow> peer_ok E P wr hash n (ls @ [l]) nd'"
proof (induction rule: peer_step.induct)
  case peer_send
  then show ?case using send_ok by blast
next
  case (peer_timeout e nd)
  then show ?case using peer_rejects_same [OF _ rejects_one, of _ _ _ _ _ _ nd "TimedOut (pr_id e)"] by (simp add: peer_eta)
next
  case peer_arrive
  then show ?case using arrive_ok by blast
next
  case peer_validated
  then show ?case using finish_ok by blast
next
  case (peer_lost nd peer)
  then show ?case using peer_rejects_same [OF _ rejects_peer, of _ _ _ _ _ _ nd "PeerLost peer"] by (simp add: peer_eta)
next
  case (peer_closed nd)
  then show ?case using peer_rejects_same [OF _ rejects_close, of _ _ _ _ _ _ nd Closed] by (simp add: peer_eta)
qed

lemma peer_run_ok: "peer_run E P wr hash cfg n ls nd \<Longrightarrow> peer_ok E P wr hash n ls nd"
proof (induction rule: peer_run.induct)
  case (peer_start now)
  then show ?case by (simp add: peer_ok_def new_peer_node_def requests_ok_def settled_for_id_def waits_ok_def answers_ok_def)
next
  case peer_next
  then show ?case using peer_step_ok by blast
qed

section \<open>Where an entry comes from\<close>

text \<open>The entry of a request, with its timer running or stopped; an entry that waits, or that a response is validated with, is one of a request sent.\<close>

definition sent_entry :: "string \<Rightarrow> net_message \<Rightarrow> bool \<Rightarrow> pending_request" where
  "sent_entry peer m armed = \<lparr>pr_id = nm_id m, pr_requestType = nm_type m, pr_requestTxData = extractRequestTxData m, pr_requestedTo = peer,
     pr_armed = armed\<rparr>"

definition entries_of :: "peer_node \<Rightarrow> pending_request set" where
  "entries_of nd = set (rq_pending (pn_requests nd)) \<union> (\<lambda>(m, pk, e). e) ` set (pn_flights nd)"

lemma flight_entry: "pn_flights nd = xs @ (m, pk, e) # ys \<Longrightarrow> e \<in> entries_of nd"
  by (auto simp: entries_of_def)

lemma step_entries:
  assumes "peer_step E P wr hash cfg n nd l nd'" "peer_ok E P wr hash n ls nd" "e \<in> entries_of nd'"
  shows "(\<exists>e0 \<in> entries_of nd. e = e0 \<or> e = e0\<lparr>pr_armed := False\<rparr>) \<or> (\<exists>peer m. l = Sent peer m \<and> e = sent_entry peer m True)"
proof -
  have ok: "requests_ok n (concat (map sent_id ls)) (pn_requests nd)" using assms(2) by (simp add: peer_ok_def)
  have less: ?thesis if "set (rq_pending (pn_requests nd')) \<subseteq> set (rq_pending (pn_requests nd))" "set (pn_flights nd') \<subseteq> set (pn_flights nd)"
  proof -
    have "entries_of nd' \<subseteq> entries_of nd" unfolding entries_of_def by (intro Un_mono image_mono that)
    then show ?thesis using assms(3) by blast
  qed
  note rej = rejects_subset [OF ok]
  show ?thesis
    using assms(1)
  proof cases
    case (peer_send peer sent m r)
    then obtain r' where r': "registerPendingRequest n peer m (pn_requests nd) = Inr r'" "rejects r' r"
      using rejects_one by (auto simp: v1_send_def chain_Inr)
    have "set (rq_pending r) \<subseteq> set (rq_pending r')" by (rule rejects_subset [OF register_ok(1) [OF ok r'(1)] r'(2)])
    moreover have "rq_pending r' = rq_pending (pn_requests nd) @ [sent_entry peer m True]"
      using r'(1) by (auto simp: registerPendingRequest_def chain_Inr sent_entry_def split: if_splits)
    ultimately have "entries_of nd' \<subseteq> insert (sent_entry peer m True) (entries_of nd)"
      using peer_send(2) unfolding entries_of_def by (simp, blast)
    then show ?thesis using assms(3) peer_send(1) by blast
  next
    case (peer_timeout e0)
    then show ?thesis using less rej [OF rejects_one] by simp
  next
    case (peer_arrive m pk now)
    show ?thesis
    proof (cases "fst (applyRateLimit cfg (to_hex pk) now (pn_limiter nd))")
      case (Inl err)
      then show ?thesis
        using less rej [OF rejects_one] peer_arrive(2)
        by (simp add: startResponse_def handlePendingResponseError_def split: prod.splits)
    next
      case (Inr u)
      then obtain lim where lim: "applyRateLimit cfg (to_hex pk) now (pn_limiter nd) = (Inr (), lim)" by (cases "applyRateLimit cfg (to_hex pk) now (pn_limiter nd)") auto
      have stop: "x \<in> set (rq_pending (pn_requests nd)) \<or> (\<exists>e0 \<in> set (rq_pending (pn_requests nd)). x = e0\<lparr>pr_armed := False\<rparr>)"
        if "x \<in> set (rq_pending (snd (stopPendingRequestTimeout i (pn_requests nd))))" for x i
        using that by (auto simp: stopPendingRequestTimeout_def split: if_splits)
      show ?thesis
      proof (cases "getPendingRequest (nm_id m) (pn_requests nd)")
        case None
        then show ?thesis using less peer_arrive(2) lim by (simp add: startResponse_def)
      next
        case (Some e1)
        then have nd': "entries_of nd' \<subseteq> set (rq_pending (snd (stopPendingRequestTimeout (nm_id m) (pn_requests nd)))) \<union> entries_of nd"
          using peer_arrive(2) lim getPendingRequest_Some [OF Some] by (simp add: startResponse_def entries_of_def, blast)
        then show ?thesis using assms(3) stop [of e "nm_id m"] unfolding entries_of_def by blast
      qed
    qed
  next
    case (peer_validated xs f ys s)
    have "set (rq_pending (snd (settleRequest i r (pn_requests nd)))) \<subseteq> set (rq_pending (pn_requests nd))" for i r
      by (auto simp: settleRequest_eq)
    then show ?thesis
      using less peer_validated
      by (cases f) (auto simp: finishResponse_def handlePendingResponseError_def rejectPendingRequest_def resolvePendingRequest_def split: sum.splits)
  next
    case (peer_lost peer)
    then show ?thesis using less rej [OF rejects_peer] by simp
  next
    case peer_closed
    then show ?thesis using less rej [OF rejects_close] by simp
  qed
qed

lemma run_entries: "peer_run E P wr hash cfg n ls nd \<Longrightarrow> e \<in> entries_of nd \<Longrightarrow> \<exists>peer m armed. Sent peer m \<in> set ls \<and> e = sent_entry peer m armed"
proof (induction arbitrary: e rule: peer_run.induct)
  case (peer_start now)
  then show ?case by (simp add: entries_of_def new_peer_node_def)
next
  case (peer_next ls nd l nd')
  have disarmed: "(sent_entry peer m armed)\<lparr>pr_armed := False\<rparr> = sent_entry peer m False" for peer m armed by (simp add: sent_entry_def)
  consider e0 where "e0 \<in> entries_of nd" "e = e0 \<or> e = e0\<lparr>pr_armed := False\<rparr>" | peer m where "l = Sent peer m" "e = sent_entry peer m True"
    using step_entries [OF peer_next(2) peer_run_ok [OF peer_next(1)] peer_next(4)] by blast
  then show ?case
  proof cases
    case 1
    then obtain peer m armed where "Sent peer m \<in> set ls" "e0 = sent_entry peer m armed" using peer_next(3) by blast
    then show ?thesis using 1(2) disarmed by auto
  next
    case 2
    then show ?thesis by auto
  qed
qed

lemma peer_run_at: "peer_run E P wr hash cfg n (xs @ l # ys) nd \<Longrightarrow> \<exists>nd1 nd2. peer_run E P wr hash cfg n xs nd1 \<and> peer_step E P wr hash cfg n nd1 l nd2"
proof (induction ys arbitrary: nd rule: rev_induct)
  case Nil
  then show ?case by (cases rule: peer_run.cases) auto
next
  case (snoc y ys)
  from snoc(2) obtain nd1 where "peer_run E P wr hash cfg n (xs @ l # ys) nd1" by (cases rule: peer_run.cases) auto
  then show ?case by (rule snoc(1))
qed

lemma validated_entry:
  assumes "peer_run E P wr hash cfg n ls nd" "Validated s (m, pk, e) \<in> set ls"
  obtains before after peer req armed where "ls = before @ Validated s (m, pk, e) # after" "Sent peer req \<in> set before" "e = sent_entry peer req armed"
proof -
  obtain before after where ls: "ls = before @ Validated s (m, pk, e) # after" using assms(2) split_list by metis
  obtain nd1 nd2 where r: "peer_run E P wr hash cfg n before nd1" "peer_step E P wr hash cfg n nd1 (Validated s (m, pk, e)) nd2"
    using peer_run_at [OF assms(1) [unfolded ls]] by blast
  from r(2) have "e \<in> entries_of nd1" by cases (auto intro: flight_entry)
  then show thesis using run_entries [OF r(1)] that ls by blast
qed

lemma sent_in: "Sent peer m \<in> set ls \<Longrightarrow> nm_id m \<in> set (concat (map sent_id ls))"
  by (induction ls) auto

lemma sent_once:
  "distinct (concat (map sent_id ls)) \<Longrightarrow> Sent peer m \<in> set ls \<Longrightarrow> Sent peer' m' \<in> set ls \<Longrightarrow> nm_id m' = nm_id m \<Longrightarrow> peer' = peer \<and> m' = m"
proof (induction ls)
  case (Cons l ls)
  have d: "distinct (concat (map sent_id ls))" using Cons.prems(1) by simp
  have "nm_id x \<notin> set (concat (map sent_id ls))" if "l = Sent p x" for p x using Cons.prems(1) that by simp
  then have new: "l = Sent p x \<Longrightarrow> Sent q y \<in> set ls \<Longrightarrow> nm_id y \<noteq> nm_id x" for p x q y using sent_in by metis
  consider "l = Sent peer m" "l = Sent peer' m'" | "l = Sent peer m" "Sent peer' m' \<in> set ls" | "Sent peer m \<in> set ls" "l = Sent peer' m'"
    | "Sent peer m \<in> set ls" "Sent peer' m' \<in> set ls" using Cons.prems(2,3) by auto
  then show ?case
  proof cases
    case 1
    then show ?thesis by simp
  next
    case 2
    then show ?thesis using new [OF 2] Cons.prems(4) by simp
  next
    case 3
    then show ?thesis using new [OF 3(2,1)] Cons.prems(4) by simp
  next
    case 4
    show ?thesis by (rule Cons.IH [OF d 4 Cons.prems(4)])
  qed
qed simp

section \<open>What an answer proves\<close>

lemma accepted_steps:
  "validateBroadcastResponse E P wr hash s m pk e = Inr () \<Longrightarrow> all_steps (response_steps E hash m pk e) = Inr ()"
  by (auto simp: validateBroadcastResponse_def chain_Inr split: option.splits)

lemma answer_proves:
  assumes "answered_by E P wr hash s (m, pk, e) i c"
  shows "to_hex pk = pr_requestedTo e"
    "pr_requestType e = NT_BROADCAST_TRANSACTION_REQUEST \<Longrightarrow> c = RC_OK \<Longrightarrow> \<exists>proof. proven_publication E P wr s proof pk e"
proof -
  have v: "responseVerdict E P wr hash s (m, pk, e) = Inr ()" using assms by (simp add: answered_by_def)
  have steps: "all_steps (response_steps E hash m pk e) = Inr ()"
    using v accepted_steps by (auto simp: responseVerdict_def validateLivenessResponse_def split: if_splits)
  then have c: "v1_isPayloadSchemaValid m = Inr ()" "validateResponseType m e = Inr ()" "validatePeerCorrectness pk e = Inr ()"
    by (simp_all add: response_steps_def chain_Inr)
  show "to_hex pk = pr_requestedTo e" using c(3) by (simp add: validatePeerCorrectness_def)
  assume b: "pr_requestType e = NT_BROADCAST_TRANSACTION_REQUEST" "c = RC_OK"
  have t: "nm_type m = 4" using c(2) b by (simp add: validateResponseType_def)
  then obtain nonce sig p ts r where m: "nm_payloads m = [BroadcastResponse nonce sig p ts r]"
    using c(1) by (auto simp: v1_isPayloadSchemaValid_def v1_schemaValidator_def validateV1BroadcastTransactionResponse_def
      split: list.splits net_payload.splits) (metis neq_Nil_conv)+
  have "r = RC_OK" using assms b(2) t m by (auto simp: answered_by_def payload_where_def)
  then show "\<exists>proof. proven_publication E P wr s proof pk e"
    using response_proves v t m by (fastforce simp: responseVerdict_def)
qed

section \<open>The rate limiter\<close>

text \<open>
  The rate limiter over every sequence of requests at times that do not decrease, with the log of the requests it
  has let through.
\<close>

inductive rate_run :: "rate_config \<Rightarrow> (string \<times> int) list \<Rightarrow> limiter \<Rightarrow> int \<Rightarrow> bool" for cfg where
  rate_start: "rate_run cfg [] (new_limiter now) now"
| rate_v1: "rate_run cfg log l t \<Longrightarrow> t \<le> now \<Longrightarrow> v1HandleRateLimit cfg peer now l = (v, l') \<Longrightarrow>
    rate_run cfg (if v = Inr () then (peer, now) # log else log) l' now"
| rate_legacy: "rate_run cfg log l t \<Longrightarrow> t \<le> now \<Longrightarrow> legacyHandleRateLimit cfg peer now l = (disconnected, l') \<Longrightarrow>
    rate_run cfg (if disconnected then log else (peer, now) # log) l' now"

text \<open>Both variants differ in the way they refuse.\<close>

lemma legacy_v1:
  "legacyHandleRateLimit cfg peer now l =
     (fst (v1HandleRateLimit cfg peer now l) \<noteq> Inr (), snd (v1HandleRateLimit cfg peer now l))"
  by (simp add: legacyHandleRateLimit_def v1HandleRateLimit_def split: prod.split)

text \<open>The requests of a peer that were let through in a span of time.\<close>

definition admitted :: "(string \<times> int) list \<Rightarrow> string \<Rightarrow> (int \<Rightarrow> bool) \<Rightarrow> nat" where
  "admitted log peer Q = length (filter (\<lambda>(p, t). p = peer \<and> Q t) log)"

lemma admitted_simps [simp]:
  "admitted [] peer Q = 0"
  "admitted ((p, t) # log) peer Q = (if p = peer \<and> Q t then 1 else 0) + admitted log peer Q"
  by (simp_all add: admitted_def)

lemma admitted_none: "(\<And>t. (peer, t) \<in> set log \<Longrightarrow> \<not> Q t) \<Longrightarrow> admitted log peer Q = 0"
  by (auto simp: admitted_def filter_empty_conv)

lemma admitted_le:
  assumes "\<And>t. (peer, t) \<in> set log \<Longrightarrow> Q t \<Longrightarrow> R t \<or> S t"
  shows "admitted log peer Q \<le> admitted log peer R + admitted log peer S"
  using assms
proof (induction log)
  case (Cons x log)
  then show ?case by (cases x) (fastforce split: if_splits)
qed simp

text \<open>
  The entry of a peer: since its session began, the current second has seen as many requests as the counter
  says, every other at most the maximum; all before the session are older than the timeout.
\<close>

definition session_second :: "peer_statistics \<Rightarrow> int \<Rightarrow> int \<Rightarrow> bool" where
  "session_second d k t \<longleftrightarrow> ps_sessionStartTime d \<le> t \<and> (t - ps_sessionStartTime d) div 1000 = k"

definition entry_ok :: "rate_config \<Rightarrow> (string \<times> int) list \<Rightarrow> string \<Rightarrow> int \<Rightarrow> peer_statistics \<Rightarrow> bool" where
  "entry_ok cfg log peer now d \<longleftrightarrow>
     ps_sessionStartTime d \<le> ps_lastCounterReset d \<and> ps_lastCounterReset d \<le> now \<and> ps_lastActivityTime d \<le> now \<and>
     (\<forall>t. (peer, t) \<in> set log \<longrightarrow> t \<le> ps_lastActivityTime d \<and> (t < ps_sessionStartTime d \<longrightarrow> t \<le> ps_sessionStartTime d - rl_connectionTimeoutMs cfg)) \<and>
     (\<forall>t. (peer, t) \<in> set log \<longrightarrow> ps_sessionStartTime d \<le> t \<longrightarrow>
        (t - ps_sessionStartTime d) div 1000 \<le> (ps_lastCounterReset d - ps_sessionStartTime d) div 1000) \<and>
     admitted log peer (session_second d ((ps_lastCounterReset d - ps_sessionStartTime d) div 1000)) = ps_transactionCount d \<and>
     (\<forall>k. admitted log peer (session_second d k) \<le> rl_maxTransactionsPerSecond cfg)"

definition limiter_ok :: "rate_config \<Rightarrow> (string \<times> int) list \<Rightarrow> limiter \<Rightarrow> int \<Rightarrow> bool" where
  "limiter_ok cfg log l now \<longleftrightarrow> (\<forall>peer. case lm_statistics l peer of
     None \<Rightarrow> (\<forall>t. (peer, t) \<in> set log \<longrightarrow> t \<le> now - rl_connectionTimeoutMs cfg)
   | Some d \<Rightarrow> entry_ok cfg log peer now d)"

lemma limiter_okD:
  "limiter_ok cfg log l now \<Longrightarrow> lm_statistics l peer = None \<Longrightarrow> (peer, t) \<in> set log \<Longrightarrow> t \<le> now - rl_connectionTimeoutMs cfg"
  "limiter_ok cfg log l now \<Longrightarrow> lm_statistics l peer = Some d \<Longrightarrow> entry_ok cfg log peer now d"
  unfolding limiter_ok_def by (drule spec [of _ peer], simp)+

text \<open>Time passes, and expired entries go.\<close>

lemma entry_later: "entry_ok cfg log peer t d \<Longrightarrow> t \<le> now \<Longrightarrow> entry_ok cfg log peer now d"
  by (auto simp: entry_ok_def)

lemma cleaned_ok:
  assumes "limiter_ok cfg log l t" "t \<le> now"
  shows "limiter_ok cfg log (cleanUpOldConnections cfg now l) now"
  unfolding limiter_ok_def
proof
  fix peer
  show "case lm_statistics (cleanUpOldConnections cfg now l) peer of
     None \<Rightarrow> (\<forall>t. (peer, t) \<in> set log \<longrightarrow> t \<le> now - rl_connectionTimeoutMs cfg)
   | Some d \<Rightarrow> entry_ok cfg log peer now d"
  proof (cases "lm_statistics l peer")
    case None
    then show ?thesis using limiter_okD(1) [OF assms(1) None] assms(2)
      by (force simp: cleanUpOldConnections_def)
  next
    case (Some d)
    have ok: "entry_ok cfg log peer now d" using entry_later [OF limiter_okD(2) [OF assms(1) Some] assms(2)] .
    then show ?thesis using Some
      by (force simp: cleanUpOldConnections_def isConnectionExpired_def entry_ok_def)
  qed
qed

text \<open>The check of one request, on the entry of its peer, old or new.\<close>

lemma initialized_ok:
  assumes "limiter_ok cfg log l now" "initializePeerConnectionInfoEntry peer now l = (d, l')" "0 < rl_connectionTimeoutMs cfg"
  shows "entry_ok cfg log peer now d" "\<And>q. q \<noteq> peer \<Longrightarrow> lm_statistics l' q = lm_statistics l q"
proof -
  show "entry_ok cfg log peer now d"
  proof (cases "lm_statistics l peer")
    case None
    have old: "t \<le> now - rl_connectionTimeoutMs cfg" if "(peer, t) \<in> set log" for t
      using limiter_okD(1) [OF assms(1) None that] .
    have d: "ps_sessionStartTime d = now" "ps_lastCounterReset d = now" "ps_lastActivityTime d = now" "ps_transactionCount d = 0"
      using None assms(2) by (auto simp: initializePeerConnectionInfoEntry_def Let_def)
    have none: "admitted log peer (session_second d k) = 0" for k
      by (rule admitted_none) (use old assms(3) in \<open>fastforce simp: session_second_def d\<close>)
    show ?thesis using old assms(3) none unfolding entry_ok_def d by force
  next
    case (Some e)
    then show ?thesis using limiter_okD(2) [OF assms(1) Some] assms(2) by (simp add: initializePeerConnectionInfoEntry_def)
  qed
  show "\<And>q. q \<noteq> peer \<Longrightarrow> lm_statistics l' q = lm_statistics l q"
    using assms(2) by (auto simp: initializePeerConnectionInfoEntry_def Let_def split: option.splits)
qed

lemma reset_ok:
  assumes "entry_ok cfg log peer now d" "hasExceededRateLimit cfg d now = (exceeded, d')"
  shows "entry_ok cfg log peer now d'" "ps_sessionStartTime d' = ps_sessionStartTime d"
    "(ps_lastCounterReset d' - ps_sessionStartTime d') div 1000 = (now - ps_sessionStartTime d') div 1000"
    "exceeded \<longleftrightarrow> ps_transactionCount d' \<ge> rl_maxTransactionsPerSecond cfg"
proof -
  have mono: "(ps_lastCounterReset d - ps_sessionStartTime d) div 1000 \<le> (now - ps_sessionStartTime d) div 1000"
    using assms(1) by (intro zdiv_mono1) (auto simp: entry_ok_def)
  have none: "admitted log peer (session_second d ((now - ps_sessionStartTime d) div 1000)) = 0"
    if "(ps_lastCounterReset d - ps_sessionStartTime d) div 1000 < (now - ps_sessionStartTime d) div 1000"
    by (rule admitted_none) (use assms(1) that in \<open>fastforce simp: entry_ok_def session_second_def\<close>)
  have ses: "session_second (d\<lparr>ps_transactionCount := a, ps_lastCounterReset := b\<rparr>) = session_second d" for a b
    by (intro ext) (simp add: session_second_def)
  show "entry_ok cfg log peer now d'"
  proof (cases "(ps_lastCounterReset d - ps_sessionStartTime d) div 1000 < (now - ps_sessionStartTime d) div 1000")
    case True
    have "d' = d\<lparr>ps_transactionCount := 0, ps_lastCounterReset := now\<rparr>"
      using assms(2) True by (simp add: hasExceededRateLimit_def)
    then show ?thesis using assms(1) none [OF True] True by (fastforce simp: entry_ok_def ses)
  next
    case False
    then show ?thesis using assms by (simp add: hasExceededRateLimit_def)
  qed
  show "ps_sessionStartTime d' = ps_sessionStartTime d"
    "(ps_lastCounterReset d' - ps_sessionStartTime d') div 1000 = (now - ps_sessionStartTime d') div 1000"
    "exceeded \<longleftrightarrow> ps_transactionCount d' \<ge> rl_maxTransactionsPerSecond cfg"
    using assms(2) mono by (auto simp: hasExceededRateLimit_def Let_def split: if_splits)
qed

lemma accepted_ok:
  assumes "entry_ok cfg log peer now d" "(ps_lastCounterReset d - ps_sessionStartTime d) div 1000 = (now - ps_sessionStartTime d) div 1000"
    "ps_transactionCount d < rl_maxTransactionsPerSecond cfg"
  shows "entry_ok cfg ((peer, now) # log) peer now (d\<lparr>ps_lastActivityTime := now, ps_transactionCount := ps_transactionCount d + 1\<rparr>)"
proof -
  have ses: "session_second (d\<lparr>ps_lastActivityTime := a, ps_transactionCount := b\<rparr>) = session_second d" for a b
    by (intro ext) (simp add: session_second_def)
  have now: "session_second d k now \<longleftrightarrow> k = (ps_lastCounterReset d - ps_sessionStartTime d) div 1000" for k
    using assms(1,2) by (auto simp: session_second_def entry_ok_def)
  show ?thesis
    unfolding entry_ok_def ses
    using assms now by (simp add: entry_ok_def) force
qed

lemma entry_other: "q \<noteq> peer \<Longrightarrow> entry_ok cfg ((peer, t) # log) q now d = entry_ok cfg log q now d"
  by (simp add: entry_ok_def)

lemma window_in_session:
  assumes "entry_ok cfg log peer now d" "(ps_lastCounterReset d - ps_sessionStartTime d) div 1000 = (now - ps_sessionStartTime d) div 1000"
    "1000 \<le> rl_connectionTimeoutMs cfg" "now < a + 1000"
  shows "admitted log peer (\<lambda>t. a \<le> t \<and> t < a + 1000) \<le> 2 * rl_maxTransactionsPerSecond cfg"
proof -
  define k where "k = (now - ps_sessionStartTime d) div 1000"
  have "session_second d k t \<or> session_second d (k - 1) t" if t: "(peer, t) \<in> set log" "a \<le> t" for t
  proof -
    have s: "ps_sessionStartTime d \<le> t" "t \<le> now"
      using assms(1,3,4) t by (fastforce simp: entry_ok_def)+
    have "(t - ps_sessionStartTime d) div 1000 \<le> k" unfolding k_def using s by (intro zdiv_mono1) auto
    moreover have "k - 1 \<le> (t - ps_sessionStartTime d) div 1000" unfolding k_def using t(2) assms(4) by linarith
    ultimately show ?thesis using s by (auto simp: session_second_def)
  qed
  then have "admitted log peer (\<lambda>t. a \<le> t \<and> t < a + 1000) \<le> admitted log peer (session_second d k) + admitted log peer (session_second d (k - 1))"
    by (intro admitted_le) blast
  moreover have "admitted log peer (session_second d k) \<le> rl_maxTransactionsPerSecond cfg"
    "admitted log peer (session_second d (k - 1)) \<le> rl_maxTransactionsPerSecond cfg"
    using assms(1) by (simp_all add: entry_ok_def)
  ultimately show ?thesis by linarith
qed

text \<open>Both invariants over a run.\<close>

definition window_ok :: "rate_config \<Rightarrow> (string \<times> int) list \<Rightarrow> bool" where
  "window_ok cfg log \<longleftrightarrow> (\<forall>peer a. admitted log peer (\<lambda>t. a \<le> t \<and> t < a + 1000) \<le> 2 * rl_maxTransactionsPerSecond cfg)"

lemma request_ok:
  assumes "limiter_ok cfg log l t" "window_ok cfg log" "t \<le> now" "1000 \<le> rl_connectionTimeoutMs cfg" "v1HandleRateLimit cfg peer now l = (v, l')"
  shows "limiter_ok cfg (if v = Inr () then (peer, now) # log else log) l' now \<and> window_ok cfg (if v = Inr () then (peer, now) # log else log)"
proof -
  obtain d0 l0 where i: "initializePeerConnectionInfoEntry peer now (cleanUpOldConnections cfg now l) = (d0, l0)" by fastforce
  obtain ex d where h: "hasExceededRateLimit cfg d0 now = (ex, d)" by fastforce
  note C = cleaned_ok [OF assms(1,3)]
  have pos: "0 < rl_connectionTimeoutMs cfg" using assms(4) by simp
  note I = initialized_ok [OF C i pos] and R = reset_ok [OF initialized_ok(1) [OF C i pos] h]
  have others: "case lm_statistics l0 q of None \<Rightarrow> (\<forall>t. (q, t) \<in> set log \<longrightarrow> t \<le> now - rl_connectionTimeoutMs cfg)
      | Some d \<Rightarrow> entry_ok cfg log q now d" if "q \<noteq> peer" for q
    using C I(2) [OF that] unfolding limiter_ok_def by simp
  show ?thesis
  proof (cases ex)
    case True
    then have "v \<noteq> Inr ()" "l' = l0\<lparr>lm_statistics := (lm_statistics l0)(peer \<mapsto> d)\<rparr>"
      using assms(5) i h by (auto simp: v1HandleRateLimit_def)
    then show ?thesis using others R(1) assms(2) by (simp add: limiter_ok_def)
  next
    case False
    have v: "v = Inr ()" "l' = updatePeerConnectionInfo peer now d l0"
      using False assms(5) i h by (auto simp: v1HandleRateLimit_def)
    define d' where "d' = d\<lparr>ps_lastActivityTime := now, ps_transactionCount := ps_transactionCount d + 1\<rparr>"
    have e: "entry_ok cfg ((peer, now) # log) peer now d'"
      unfolding d'_def by (rule accepted_ok) (use R False in auto)
    have others': "case lm_statistics l0 q of None \<Rightarrow> (\<forall>t. (q, t) \<in> set ((peer, now) # log) \<longrightarrow> t \<le> now - rl_connectionTimeoutMs cfg)
      | Some d \<Rightarrow> entry_ok cfg ((peer, now) # log) q now d" if "q \<noteq> peer" for q
      using others [OF that] that by (cases "lm_statistics l0 q") (simp_all add: entry_other)
    have "limiter_ok cfg ((peer, now) # log) l' now"
      unfolding limiter_ok_def
    proof
      fix q
      show "case lm_statistics l' q of None \<Rightarrow> (\<forall>t. (q, t) \<in> set ((peer, now) # log) \<longrightarrow> t \<le> now - rl_connectionTimeoutMs cfg)
        | Some d \<Rightarrow> entry_ok cfg ((peer, now) # log) q now d"
        using others' [of q] e by (cases "q = peer") (simp_all add: v updatePeerConnectionInfo_def d'_def)
    qed
    moreover have "window_ok cfg ((peer, now) # log)"
      unfolding window_ok_def
    proof (intro allI)
      fix q a
      show "admitted ((peer, now) # log) q (\<lambda>t. a \<le> t \<and> t < a + 1000) \<le> 2 * rl_maxTransactionsPerSecond cfg"
      proof (cases "q = peer \<and> a \<le> now \<and> now < a + 1000")
        case True
        then show ?thesis
          using window_in_session [OF e _ assms(4), of a] R(3) by (simp add: d'_def)
      next
        case False
        then show ?thesis using assms(2) by (auto simp: window_ok_def)
      qed
    qed
    ultimately show ?thesis using v by simp
  qed
qed

lemma rate_run_ok:
  assumes "rate_run cfg log l t" "1000 \<le> rl_connectionTimeoutMs cfg"
  shows "limiter_ok cfg log l t \<and> window_ok cfg log"
  using assms
proof (induction rule: rate_run.induct)
  case (rate_start now)
  then show ?case by (simp add: limiter_ok_def window_ok_def new_limiter_def)
next
  case (rate_v1 log l t now peer v l')
  then show ?case using request_ok by blast
next
  case (rate_legacy log l t now peer disconnected l')
  then obtain v where v: "v1HandleRateLimit cfg peer now l = (v, l')" "disconnected \<longleftrightarrow> v \<noteq> Inr ()"
    by (cases "v1HandleRateLimit cfg peer now l") (auto simp: legacy_v1)
  have "limiter_ok cfg (if v = Inr () then (peer, now) # log else log) l' now \<and> window_ok cfg (if v = Inr () then (peer, now) # log else log)"
    by (rule request_ok [OF _ _ _ _ v(1)]) (use rate_legacy in auto)
  then show ?case using v(2) by (simp split: if_splits)
qed

end
