(* ===== verification/Peer_Claims.thy ===== *)
theory Peer_Claims
  imports Peer_Spec Response_Claims
begin

text \<open>
  Properties of a node towards its peers, over every order of sends, timers, responses, lost connections and
  shutdown: its requests, and its rate limiter.
\<close>

section \<open>A run of the concrete network\<close>

text \<open>The client sends the transfer to b, whose answer arrives and is validated.\<close>

definition xsent :: net_message where
  "xsent = \<lparr>nm_type = 3, nm_id = ''r1'', nm_timestamp = 4, nm_capabilities = [],
     nm_payloads = [BroadcastRequest (Operation_encode protobuf xrequest) (xwk 40) (xwk 41)]\<rparr>"

lemma xsent_id [simp]: "nm_id xsent = ''r1''" "nm_type xsent = 3"
  by (simp_all add: xsent_def)

definition xlimits :: rate_config where
  "xlimits = \<lparr>rl_disabled = False, rl_maxTransactionsPerSecond = 1, rl_cleanupIntervalMs = 60000, rl_connectionTimeoutMs = 60000\<rparr>"

lemma xregistered:
  "v1_send 10 (to_hex xpk) True xsent (pn_requests (new_peer_node 0)) = Inr \<lparr>rq_pending = [xpending], rq_settled = []\<rparr>"
  by (simp add: v1_send_def registerPendingRequest_def validateRegisterInput_def xsent_def requestMessageTypes_def hasPendingRequest_def
    new_peer_node_def extractRequestTxData_def xpending_def xpk_def)

lemma xrun:
  "\<exists>m nd. peer_run penv xpub protobuf xhash xlimits 10 [Sent (to_hex xpk) xsent, Arrived m xpk, Validated xview (m, xpk, xpending)] nd \<and>
     rq_pending (pn_requests nd) = [] \<and> rq_settled (pn_requests nd) = [(''r1'', Inr RC_OK)]"
proof -
  obtain m sig where m: "buildBroadcastTransactionResponse penv xhash xwallet (xwk 30) 5 ''r1'' [] RC_OK (Some [9]) (Some 7) = Some m"
    "nm_payloads m = [BroadcastResponse (xwk 30) sig [9] 7 RC_OK]"
    using xanswer by blast
  have t: "nm_type m = 4" "nm_id m = ''r1''" by (rule broadcastResponse_built [OF m(1)], simp)+
  let ?start = "new_peer_node 0" and ?f = "(m, xpk, xpending)"
  let ?sent = "?start\<lparr>pn_requests := \<lparr>rq_pending = [xpending], rq_settled = []\<rparr>\<rparr>"
  let ?arrived = "startResponse xlimits 5 m xpk ?sent"
  have 1: "peer_step penv xpub protobuf xhash xlimits 10 ?start (Sent (to_hex xpk) xsent) ?sent"
    using peer_send [OF xregistered, of penv xpub protobuf xhash xlimits] by simp
  have 2: "peer_step penv xpub protobuf xhash xlimits 10 ?sent (Arrived m xpk) ?arrived"
    by (rule peer_arrive) (simp add: t)
  have a: "pn_flights ?arrived = [] @ ?f # []" "rq_pending (pn_requests ?arrived) = [xpending\<lparr>pr_armed := False\<rparr>]"
    "rq_settled (pn_requests ?arrived) = []"
    by (simp_all add: startResponse_def applyRateLimit_def v1HandleRateLimit_def xlimits_def new_peer_node_def new_limiter_def
      cleanUpOldConnections_def initializePeerConnectionInfoEntry_def hasExceededRateLimit_def Let_def getPendingRequest_def t xpending_def
      stopPendingRequestTimeout_def hasPendingRequest_def)
  let ?done = "finishResponse (responseVerdict penv xpub protobuf xhash xview ?f) (fst ?f) (?arrived\<lparr>pn_flights := [] @ []\<rparr>)"
  have 3: "peer_step penv xpub protobuf xhash xlimits 10 ?arrived (Validated xview ?f) ?done"
    by (rule peer_validated [OF a(1)])
  have "peer_run penv xpub protobuf xhash xlimits 10 ((([] @ [Sent (to_hex xpk) xsent]) @ [Arrived m xpk]) @ [Validated xview ?f]) ?done"
    by (rule peer_next [OF peer_next [OF peer_next [OF peer_start 1] 2] 3])
  moreover have "rq_pending (pn_requests ?done) = [] \<and> rq_settled (pn_requests ?done) = [(''r1'', Inr RC_OK)]"
    using a(2,3) xhonest [OF m(1)]
    by (simp add: finishResponse_def responseVerdict_def t payload_where_def m(2) resolvePendingRequest_def settleRequest_eq xpending_def)
  ultimately show ?thesis by auto
qed

section \<open>Properties\<close>

text \<open>C26. In every run each request is settled exactly once or still waits: for every id, the settlements
  and the entry of the map are as many as the requests sent with it. The map holds no id twice and never more than
  the maximum, and no entry is forgotten: its timer runs, or a response to it is being validated, whose
  verdict settles it.\<close>

theorem requests_once:
  assumes "peer_run E P wr hash cfg n ls nd"
  shows "(\<forall>i. settled_for_id i (pn_requests nd) + count_list (pending_ids (pn_requests nd)) i = count_list (concat (map sent_id ls)) i) \<and>
    distinct (pending_ids (pn_requests nd)) \<and> length (rq_pending (pn_requests nd)) \<le> n \<and>
    (\<forall>e \<in> set (rq_pending (pn_requests nd)). pr_armed e \<or> (\<exists>m pk e'. (m, pk, e') \<in> set (pn_flights nd) \<and> nm_id m = pr_id e))"
proof -
  have ok: "requests_ok n (concat (map sent_id ls)) (pn_requests nd)" "waits_ok (rq_pending (pn_requests nd)) (pn_flights nd)"
    using peer_run_ok [OF assms] by (simp_all add: peer_ok_def)
  have "pr_armed e \<or> (\<exists>m pk e'. (m, pk, e') \<in> set (pn_flights nd) \<and> nm_id m = pr_id e)" if "e \<in> set (rq_pending (pn_requests nd))" for e
    using ok(2) that unfolding waits_ok_def by fastforce
  then show ?thesis using ok(1) unfolding requests_ok_def by blast
qed

theorem requests_once_witness:
  "\<exists>m nd. peer_run penv xpub protobuf xhash xlimits 10 [Sent (to_hex xpk) xsent, Arrived m xpk, Validated xview (m, xpk, xpending)] nd \<and>
     settled_for_id ''r1'' (pn_requests nd) + count_list (pending_ids (pn_requests nd)) ''r1'' = 1"
  using xrun requests_once [of penv xpub protobuf xhash xlimits 10 _ _] by fastforce

text \<open>C25. A broadcast that a node reports as OK was published: whenever the promise of a request with the id \<open>i\<close> was
  resolved with that code, the node had sent a request with that id, and later a response with it, from the peer that was asked, was
  validated against the entry of that very request; and if the request was a broadcast, the log proved, on the state the check
  read, that the operation this request carried was published by that peer. If the node gives no id twice, as its random ids do not, it is the
  only request with that id.\<close>

theorem ok_published:
  assumes "peer_run E P wr hash cfg n ls nd" "(i, Inr RC_OK) \<in> set (rq_settled (pn_requests nd))"
  shows "\<exists>before after peer req s m pk armed. ls = before @ Validated s (m, pk, sent_entry peer req armed) # after \<and>
    Sent peer req \<in> set before \<and> nm_id req = i \<and> nm_id m = i \<and> to_hex pk = peer \<and>
    (nm_type req = NT_BROADCAST_TRANSACTION_REQUEST \<longrightarrow> (\<exists>proof. proven_publication E P wr s proof pk (sent_entry peer req armed))) \<and>
    (distinct (concat (map sent_id ls)) \<longrightarrow> (\<forall>peer' req'. Sent peer' req' \<in> set ls \<and> nm_id req' = i \<longrightarrow> peer' = peer \<and> req' = req))"
proof -
  obtain s m pk e where v: "Validated s (m, pk, e) \<in> set ls" "answered_by E P wr hash s (m, pk, e) i RC_OK"
    using peer_run_ok [OF assms(1)] assms(2) unfolding peer_ok_def answers_ok_def by (metis prod_cases3)
  obtain before after peer req armed where b: "ls = before @ Validated s (m, pk, e) # after" "Sent peer req \<in> set before"
      "e = sent_entry peer req armed"
    by (rule validated_entry [OF assms(1) v(1)])
  have e: "pr_id e = nm_id req" "pr_requestedTo e = peer" "pr_requestType e = nm_type req" by (simp_all add: b(3) sent_entry_def)
  have ids: "nm_id req = i" "nm_id m = i" using v(2) e(1) by (auto simp: answered_by_def)
  have peer: "to_hex pk = peer" using answer_proves(1) [OF v(2)] e(2) by simp
  have proven: "nm_type req = NT_BROADCAST_TRANSACTION_REQUEST \<longrightarrow> (\<exists>proof. proven_publication E P wr s proof pk (sent_entry peer req armed))"
    using answer_proves(2) [OF v(2)] e(3) b(3) by simp
  have "Sent peer req \<in> set ls" using b(1,2) by simp
  then have "distinct (concat (map sent_id ls)) \<longrightarrow> (\<forall>peer' req'. Sent peer' req' \<in> set ls \<and> nm_id req' = i \<longrightarrow> peer' = peer \<and> req' = req)"
    using sent_once ids(1) by blast
  then show ?thesis
    using b(1,2) ids peer proven unfolding b(3) by blast
qed

theorem ok_published_witness:
  "\<exists>m nd proof armed. peer_run penv xpub protobuf xhash xlimits 10 [Sent (to_hex xpk) xsent, Arrived m xpk, Validated xview (m, xpk, xpending)] nd \<and>
     proven_publication penv xpub protobuf xview proof xpk (sent_entry (to_hex xpk) xsent armed)"
proof -
  obtain m nd where r: "peer_run penv xpub protobuf xhash xlimits 10 [Sent (to_hex xpk) xsent, Arrived m xpk, Validated xview (m, xpk, xpending)] nd"
    "rq_settled (pn_requests nd) = [(''r1'', Inr RC_OK)]"
    using xrun by blast
  then have settled: "(''r1'', Inr RC_OK) \<in> set (rq_settled (pn_requests nd))" by simp
  from ok_published [OF r(1) settled] obtain before after peer req s m' pk armed where e:
      "[Sent (to_hex xpk) xsent, Arrived m xpk, Validated xview (m, xpk, xpending)] = before @ Validated s (m', pk, sent_entry peer req armed) # after"
      "Sent peer req \<in> set before"
      "nm_type req = NT_BROADCAST_TRANSACTION_REQUEST \<longrightarrow> (\<exists>proof. proven_publication penv xpub protobuf s proof pk (sent_entry peer req armed))"
    by (elim exE conjE) (rule that; assumption)
  have "set before \<subseteq> {Sent (to_hex xpk) xsent, Arrived m xpk}" "s = xview" "pk = xpk"
    using e(1) by (auto simp: Cons_eq_append_conv)
  then have "peer = to_hex xpk" "req = xsent" using e(2) by auto
  moreover have "nm_type xsent = NT_BROADCAST_TRANSACTION_REQUEST" by simp
  ultimately show ?thesis using e(3) r(1) \<open>s = xview\<close> \<open>pk = xpk\<close> by blast
qed

text \<open>C27. In every run of the rate limiter, whatever the order of the requests, no peer has more
  than twice the configured number of requests admitted in any second, if a connection expires no sooner than
  after one second: the windows of the counter are those of the session, and a span of a second meets at most two of them.\<close>

theorem rate_bounded:
  assumes "rate_run cfg log l now" "1000 \<le> rl_connectionTimeoutMs cfg"
  shows "admitted log peer (\<lambda>t. a \<le> t \<and> t < a + 1000) \<le> 2 * rl_maxTransactionsPerSecond cfg"
  using rate_run_ok [OF assms] by (simp add: window_ok_def)

lemma xlimited:
  assumes "lm_statistics l ''p'' = Some \<lparr>ps_sessionStartTime = 999, ps_lastActivityTime = a, ps_lastCounterReset = r, ps_transactionCount = 1\<rparr>"
    and "(r - 999) div 1000 < (now - 999) div 1000" "now - lm_lastCleanup l < 60000"
  shows "\<exists>l'. v1HandleRateLimit xlimits ''p'' now l = (Inr (), l') \<and> lm_lastCleanup l' = lm_lastCleanup l \<and>
    lm_statistics l' ''p'' = Some \<lparr>ps_sessionStartTime = 999, ps_lastActivityTime = now, ps_lastCounterReset = now, ps_transactionCount = 1\<rparr>"
  using assms by (simp add: v1HandleRateLimit_def xlimits_def cleanUpOldConnections_def initializePeerConnectionInfoEntry_def
    hasExceededRateLimit_def updatePeerConnectionInfo_def Let_def)

theorem rate_bounded_witness:
  "\<exists>l. rate_run xlimits [(''p'', 2999), (''p'', 2998), (''p'', 999)] l 2999 \<and>
     admitted [(''p'', 2999), (''p'', 2998), (''p'', 999)] ''p'' (\<lambda>t. 2500 \<le> t \<and> t < 2500 + 1000) \<le> 2"
proof -
  obtain l1 where 1: "v1HandleRateLimit xlimits ''p'' 999 (new_limiter 0) = (Inr (), l1)" "lm_lastCleanup l1 = 0" "lm_statistics l1 ''p'' =
      Some \<lparr>ps_sessionStartTime = 999, ps_lastActivityTime = 999, ps_lastCounterReset = 999, ps_transactionCount = 1\<rparr>"
    by (simp add: v1HandleRateLimit_def xlimits_def new_limiter_def cleanUpOldConnections_def initializePeerConnectionInfoEntry_def
      hasExceededRateLimit_def updatePeerConnectionInfo_def Let_def)
  obtain l2 where 2: "v1HandleRateLimit xlimits ''p'' 2998 l1 = (Inr (), l2)" "lm_lastCleanup l2 = 0" "lm_statistics l2 ''p'' =
      Some \<lparr>ps_sessionStartTime = 999, ps_lastActivityTime = 2998, ps_lastCounterReset = 2998, ps_transactionCount = 1\<rparr>"
    using xlimited [OF 1(3), of 2998] 1(2) by auto
  obtain l3 where 3: "v1HandleRateLimit xlimits ''p'' 2999 l2 = (Inr (), l3)"
    using xlimited [OF 2(3), of 2999] 2(2) by auto
  have "rate_run xlimits [(''p'', 2999), (''p'', 2998), (''p'', 999)] l3 2999"
    using rate_v1 [OF rate_v1 [OF rate_v1 [OF rate_start _ 1(1)] _ 2(1)] _ 3] by simp
  then show ?thesis
    using rate_bounded [of xlimits _ l3 2999 "''p''" 2500] by (auto simp: xlimits_def)
qed

end
