(* ===== verification/Services_Spec.thy ===== *)
theory Services_Spec
  imports Broadcast
begin

text \<open>
  The runs of the two services: requests that register and queue, timers that expire, the worker that takes a batch,
  waits for the append and settles it, the shutdown. The steps of a run come in any order; the worker has
  one batch in flight at most, since the scheduler waits for it.
\<close>

section \<open>Runs\<close>

type_synonym sys = "services \<times> (string \<times> buffer) list option"

text \<open>The boolean of a request is whether it registered a promise.\<close>

datatype label = Enqueue string bool | Expire string | Take | Settle | Stop | Close

definition registers :: "string \<Rightarrow> services \<Rightarrow> bool" where
  "registers h s = (case registerPendingCommit h s of Inl _ \<Rightarrow> False | Inr _ \<Rightarrow> True)"

inductive service_step :: "nat \<Rightarrow> label \<Rightarrow> sys \<Rightarrow> sys \<Rightarrow> bool" for n where
  step_enqueue: "enqueue n h tx s = (r, s') \<Longrightarrow> service_step n (Enqueue h (registers h s)) (s, f) (s', f)"
| step_expire: "h \<in> set (pendingCommits s) \<Longrightarrow> rejectPendingCommit h (CommitError PendingCommitTimeout) s = Inr (b, s') \<Longrightarrow>
    service_step n (Expire h) (s, f) (s', f)"
| step_take: "takeBatch ok s = Some (items, s') \<Longrightarrow> service_step n Take (s, None) (s', Some items)"
| step_settle: "settleBatch appended items s = (b, s') \<Longrightarrow> service_step n Settle (s, Some items) (s', None)"
| step_stop: "service_step n Stop (s, None) (stopPool s, None)"
| step_close: "service_step n Close (s, f) (closeCommits s, f)"

inductive service_run :: "nat \<Rightarrow> label list \<Rightarrow> sys \<Rightarrow> bool" for n where
  run_start: "service_run n [] (no_services, None)"
| run_step: "service_run n ls c \<Longrightarrow> service_step n l c c' \<Longrightarrow> service_run n (ls @ [l]) c'"

section \<open>One operation after the other\<close>

definition commits_ok :: "services \<Rightarrow> bool" where
  "commits_ok s \<longleftrightarrow> distinct (pendingCommits s) \<and> length (pendingCommits s) \<le> TRANSACTION_COMMIT_SERVICE_BUFFER_SIZE \<and>
     list_all assertTxHash (pendingCommits s)"

definition pool_ok :: "nat \<Rightarrow> services \<Rightarrow> bool" where
  "pool_ok n s \<longleftrightarrow> distinct (map fst (txPool s)) \<and> set (map fst (txPool s)) = queuedTxHashes s \<and> length (txPool s) \<le> n \<and>
     list_all assertTxHash (map fst (txPool s))"

definition batch_ok :: "(string \<times> buffer) list option \<Rightarrow> bool" where
  "batch_ok f \<longleftrightarrow> (case f of None \<Rightarrow> True
     | Some items \<Rightarrow> items \<noteq> [] \<and> length items \<le> BATCH_SIZE \<and> distinct (map fst items) \<and> list_all assertTxHash (map fst items))"

definition sys_ok :: "nat \<Rightarrow> sys \<Rightarrow> bool" where
  "sys_ok n c \<longleftrightarrow> commits_ok (fst c) \<and> pool_ok n (fst c) \<and> batch_ok (snd c)"

text \<open>How often the promise of a hash was settled, and whether one is waiting.\<close>

definition settlements :: "string \<Rightarrow> services \<Rightarrow> nat" where
  "settlements h s = length (filter (\<lambda>x. fst x = h) (settled s))"

definition waiting :: "string \<Rightarrow> services \<Rightarrow> nat" where
  "waiting h s = (if h \<in> set (pendingCommits s) then 1 else 0)"

lemma registerPendingCommit_Inr:
  "registerPendingCommit h s = Inr s' \<longleftrightarrow> assertTxHash h \<and> length (pendingCommits s) < TRANSACTION_COMMIT_SERVICE_BUFFER_SIZE \<and>
     h \<notin> set (pendingCommits s) \<and> s' = s\<lparr>pendingCommits := pendingCommits s @ [h]\<rparr>"
  by (auto simp: registerPendingCommit_def)

lemma settleCommit_Inr:
  "settleCommit h r s = Inr (b, s') \<longleftrightarrow> assertTxHash h \<and> b = (h \<in> set (pendingCommits s)) \<and>
     s' = (if h \<in> set (pendingCommits s)
           then s\<lparr>pendingCommits := removeAll h (pendingCommits s), settled := settled s @ [(h, r)]\<rparr> else s)"
  by (auto simp: settleCommit_def getAndDeletePendingCommit_def)

lemma addTransaction_Inr:
  "addTransaction n h tx s = Inr s' \<longleftrightarrow> length (txPool s) < n \<and> h \<noteq> [] \<and> h \<notin> queuedTxHashes s \<and>
     s' = s\<lparr>queuedTxHashes := insert h (queuedTxHashes s), txPool := txPool s @ [(h, tx)]\<rparr>"
  by (auto simp: addTransaction_def validateEnqueue_def hasTransaction_def)

lemma settleCommit_frame:
  assumes "settleCommit h r s = Inr (b, s')"
  shows "txPool s' = txPool s" "queuedTxHashes s' = queuedTxHashes s" "commits_ok s \<Longrightarrow> commits_ok s'"
    "commits_ok s \<Longrightarrow> settlements k s' + waiting k s' = settlements k s + waiting k s" "h \<notin> set (pendingCommits s')"
    "set (pendingCommits s') \<subseteq> set (pendingCommits s)"
  using assms
  by (auto simp: settleCommit_Inr commits_ok_def settlements_def waiting_def list_all_iff distinct_removeAll
      intro: order_trans [OF length_removeAll_less_eq] split: if_splits)

text \<open>What a step does to the promises: settles some of those that wait, registers none.\<close>

definition only_settles :: "services \<Rightarrow> services \<Rightarrow> bool" where
  "only_settles s s' \<longleftrightarrow> txPool s' = txPool s \<and> queuedTxHashes s' = queuedTxHashes s \<and> (commits_ok s \<longrightarrow> commits_ok s') \<and>
     set (pendingCommits s') \<subseteq> set (pendingCommits s) \<and>
     (commits_ok s \<longrightarrow> (\<forall>k. settlements k s' + waiting k s' = settlements k s + waiting k s))"

lemma only_settles_refl [simp]: "only_settles s s"
  by (simp add: only_settles_def)

lemma only_settles_trans: "only_settles a b \<Longrightarrow> only_settles b c \<Longrightarrow> only_settles a c"
  by (auto simp: only_settles_def)

lemma settleCommit_only: "settleCommit h r s = Inr (b, s') \<Longrightarrow> only_settles s s'"
  using settleCommit_frame [of h r s b s'] by (auto simp: only_settles_def)

lemma settle_all_only: "settle_all xs s = (b, s') \<Longrightarrow> only_settles s s'"
proof (induction xs s rule: settle_all.induct)
  case (2 h outcome xs s)
  then show ?case
    by (cases "settleCommit h outcome s") (auto intro: only_settles_trans settleCommit_only)
qed simp

lemma settle_all_valid:
  assumes "list_all (\<lambda>x. assertTxHash (fst x)) xs" "settle_all xs s = (b, s')"
  shows "b \<and> (\<forall>x \<in> set xs. fst x \<notin> set (pendingCommits s'))"
  using assms
proof (induction xs s rule: settle_all.induct)
  case (2 h outcome xs s)
  then obtain b' s1 where c: "settleCommit h outcome s = Inr (b', s1)"
    by (cases "settleCommit h outcome s") (auto simp: settleCommit_def split: option.splits)
  have r: "settle_all xs s1 = (b, s')" using 2(3) c by simp
  then have "set (pendingCommits s') \<subseteq> set (pendingCommits s1)" using settle_all_only by (auto simp: only_settles_def)
  then show ?case using 2(1) [OF c refl _ r] 2(2) settleCommit_frame(5) [OF c] by auto
qed simp

lemma settleBatch_only: "settleBatch appended items s = (b, s') \<Longrightarrow> only_settles s s'"
  by (auto simp: settleBatch_def Let_def intro: settle_all_only only_settles_trans split: option.splits prod.splits bool.splits)

lemma settleBatch_settles:
  assumes "batch_ok (Some items)" "settleBatch appended items s = (b, s')"
  shows "b \<and> (\<forall>x \<in> set items. fst x \<notin> set (pendingCommits s'))"
proof -
  have v: "list_all (\<lambda>x. assertTxHash (fst x)) (map (\<lambda>i. (fst i, f i)) items)" for f :: "string \<times> buffer \<Rightarrow> settlement"
    using assms(1) by (simp add: batch_ok_def list_all_iff)
  show ?thesis
  proof (cases appended)
    case None
    then show ?thesis using assms(2) settle_all_valid [OF v] by (fastforce simp: settleBatch_def)
  next
    case (Some receipts)
    obtain b1 s1 where r: "settle_all (map (\<lambda>i. (fst i, receipt_outcome receipts (fst i))) items) s = (b1, s1)" by force
    note w = settle_all_valid [OF v r]
    then have "b1" by simp
    then show ?thesis using assms(2) r w Some by (fastforce simp: settleBatch_def)
  qed
qed

lemma shift_items_eq:
  "k \<le> length (txPool s) \<Longrightarrow> shift_items k s =
     (take k (txPool s), s\<lparr>txPool := drop k (txPool s), queuedTxHashes := queuedTxHashes s - set (map fst (take k (txPool s)))\<rparr>)"
proof (induction k arbitrary: s)
  case (Suc k)
  then obtain tx rest where "txPool s = tx # rest" by (cases "txPool s") auto
  then show ?case using Suc Diff_insert2 [of "queuedTxHashes s" "fst tx" "fst ` set (take k rest)"]
    by (simp add: Let_def)
qed simp

lemma takeBatch_Some:
  assumes "takeBatch ok s = Some (items, s')"
  defines "k \<equiv> min (length (txPool s)) BATCH_SIZE"
  shows "txPool s \<noteq> []" "items = take k (txPool s)"
    "s' = s\<lparr>txPool := drop k (txPool s), queuedTxHashes := queuedTxHashes s - set (map fst items)\<rparr>"
  using assms by (auto simp: takeBatch_def prepareBatch_def shift_items_eq Let_def split: if_splits)

lemma takeBatch_ok:
  assumes "takeBatch ok s = Some (items, s')" "pool_ok n s"
  shows "pool_ok n s'" "batch_ok (Some items)" "pendingCommits s' = pendingCommits s" "settled s' = settled s"
proof -
  note t = takeBatch_Some [OF assms(1)]
  define k where "k = min (length (txPool s)) BATCH_SIZE"
  have split: "txPool s = items @ drop k (txPool s)" using t(2) by (simp add: k_def)
  have d: "distinct (map fst (items @ drop k (txPool s)))" using assms(2) split by (simp add: pool_ok_def)
  have v: "list_all assertTxHash (map fst (items @ drop k (txPool s)))" using assms(2) split by (simp add: pool_ok_def)
  have q: "queuedTxHashes s = set (map fst (items @ drop k (txPool s)))" using assms(2) split by (simp add: pool_ok_def)
  have s': "txPool s' = drop k (txPool s)" "queuedTxHashes s' = queuedTxHashes s - set (map fst items)"
    using t(3) by (simp_all add: k_def)
  have len: "length (txPool s) \<le> n" using assms(2) by (simp add: pool_ok_def)
  show "pool_ok n s'" using d v q len unfolding pool_ok_def s' by auto
  have "items \<noteq> []" "length items \<le> BATCH_SIZE" using t(1,2) by (auto simp: min_def)
  then show "batch_ok (Some items)" using d v by (simp add: batch_ok_def)
qed (use takeBatch_Some(3) [OF assms(1)] in simp_all)

lemma enqueue_cases:
  assumes "enqueue n h tx s = (r, s')"
  obtains "s' = s" "\<not> registers h s"
    | s1 where "registerPendingCommit h s = Inr s1" "addTransaction n h tx s1 = Inr s'" "r = Inr ()"
    | s1 e where "registerPendingCommit h s = Inr s1" "only_settles s1 s'" "h \<notin> set (pendingCommits s')" "r = Inl e"
proof (cases "registerPendingCommit h s")
  case (Inl e)
  then show ?thesis using assms that(1) by (simp add: enqueue_def registers_def)
next
  case reg: (Inr s1)
  show ?thesis
  proof (cases "addTransaction n h tx s1")
    case (Inr s2)
    then show ?thesis using assms reg that(2) by (simp add: enqueue_def)
  next
    case (Inl e)
    have "assertTxHash h" using reg by (simp add: registerPendingCommit_Inr)
    then obtain b s2 where c: "settleCommit h (Inl (RequestError (mapTransactionEnqueueError e))) s1 = Inr (b, s2)"
      by (auto simp: settleCommit_Inr)
    then have "s' = s2" "r = Inl (mapTransactionEnqueueError e)"
      using assms reg Inl by (simp_all add: enqueue_def rejectPendingCommit_def Let_def)
    then show ?thesis using that(3) reg settleCommit_only [OF c] settleCommit_frame(5) [OF c] by blast
  qed
qed

lemma registered_ok:
  assumes "registerPendingCommit h s = Inr s1" "commits_ok s"
  shows "commits_ok s1" "txPool s1 = txPool s" "queuedTxHashes s1 = queuedTxHashes s"
    "settlements k s1 + waiting k s1 = settlements k s + waiting k s + (if k = h then 1 else 0)" "assertTxHash h"
  using assms by (auto simp: registerPendingCommit_Inr commits_ok_def settlements_def waiting_def)

lemma queued_ok:
  assumes "addTransaction n h tx s = Inr s'" "pool_ok n s" "assertTxHash h"
  shows "pool_ok n s'" "pendingCommits s' = pendingCommits s" "settled s' = settled s"
  using assms by (auto simp: addTransaction_Inr pool_ok_def)

section \<open>All steps\<close>

lemma only_settles_pool: "only_settles s s' \<Longrightarrow> pool_ok n s \<Longrightarrow> pool_ok n s'"
  by (simp add: only_settles_def pool_ok_def)

lemma cong_settled:
  "pendingCommits s' = pendingCommits s \<Longrightarrow> settled s' = settled s \<Longrightarrow>
     commits_ok s' = commits_ok s \<and> settlements k s' = settlements k s \<and> waiting k s' = waiting k s"
  by (simp add: commits_ok_def settlements_def waiting_def)

lemma enqueue_step:
  assumes "enqueue n h tx s = (r, s')" "commits_ok s" "pool_ok n s"
  shows "commits_ok s' \<and> pool_ok n s' \<and>
    settlements k s' + waiting k s' = settlements k s + waiting k s + (if k = h \<and> registers h s then 1 else 0)"
  using assms(1)
proof (cases rule: enqueue_cases)
  case 1
  then show ?thesis using assms by simp
next
  case (2 s1)
  note reg = registered_ok [OF 2(1) assms(2)]
  have "pool_ok n s1" using assms(3) reg by (simp add: pool_ok_def)
  note a = queued_ok [OF 2(2) this reg(5)]
  show ?thesis using reg(1) reg(4) [where k = k] a cong_settled [OF a(2,3), where k = k] 2(1) by (simp add: registers_def)
next
  case (3 s1 e)
  note reg = registered_ok [OF 3(1) assms(2)]
  have "pool_ok n s1" using assms(3) reg by (simp add: pool_ok_def)
  then show ?thesis
    using reg(1) reg(4) [where k = k] 3 only_settles_pool [OF 3(2)] by (auto simp: registers_def only_settles_def)
qed

lemma close_step:
  assumes "commits_ok s" "pool_ok n s"
  shows "commits_ok (closeCommits s) \<and> pool_ok n (closeCommits s) \<and>
    settlements k (closeCommits s) + waiting k (closeCommits s) = settlements k s + waiting k s"
proof -
  have "length (filter (\<lambda>x. x = k) ps) = (if k \<in> set ps then 1 else 0)" if "distinct ps" for ps
    using that by (induction ps) auto
  then show ?thesis
    using assms by (auto simp: closeCommits_def commits_ok_def pool_ok_def settlements_def waiting_def filter_map comp_def)
qed

lemma service_step_ok:
  assumes "service_step n l c c'" "sys_ok n c"
  shows "sys_ok n c' \<and> settlements k (fst c') + waiting k (fst c') =
    settlements k (fst c) + waiting k (fst c) + (if l = Enqueue k True then 1 else 0)"
  using assms(1)
proof (cases rule: service_step.cases)
  case (step_enqueue h tx s r s' f)
  then show ?thesis using enqueue_step [of n h tx s r s' k] assms(2) by (auto simp: sys_ok_def)
next
  case (step_expire h s b s' f)
  then have o': "only_settles s s'" using settleCommit_only by (simp add: rejectPendingCommit_def)
  then show ?thesis using assms(2) step_expire only_settles_pool [OF o'] by (auto simp: sys_ok_def only_settles_def)
next
  case (step_take ok s items s')
  then have "pool_ok n s" using assms(2) by (simp add: sys_ok_def)
  note t = takeBatch_ok [OF step_take(4) this]
  show ?thesis using assms(2) step_take t cong_settled [OF t(3,4), where k = k] by (simp add: sys_ok_def)
next
  case (step_settle appended items s b s')
  then have o': "only_settles s s'" using settleBatch_only by simp
  then show ?thesis
    using assms(2) step_settle only_settles_pool [OF o'] by (auto simp: sys_ok_def only_settles_def batch_ok_def)
next
  case (step_stop s)
  then show ?thesis
    using assms(2) by (simp add: sys_ok_def stopPool_def pool_ok_def commits_ok_def settlements_def waiting_def)
next
  case (step_close s f)
  then show ?thesis using assms(2) close_step [of s n k] by (simp add: sys_ok_def)
qed

lemma start_ok: "sys_ok n (no_services, None)"
  by (simp add: sys_ok_def commits_ok_def pool_ok_def batch_ok_def no_services_def)

lemma run_ok: "service_run n ls c \<Longrightarrow> sys_ok n c"
  by (induction rule: service_run.induct) (use start_ok service_step_ok in blast)+

lemma run_counts:
  "service_run n ls c \<Longrightarrow>
     settlements k (fst c) + waiting k (fst c) = length (filter (\<lambda>l. l = Enqueue k True) ls)"
proof (induction rule: service_run.induct)
  case run_start
  then show ?case by (simp add: settlements_def waiting_def no_services_def)
next
  case (run_step ls c l c')
  then show ?case using service_step_ok [OF run_step(2) run_ok [OF run_step(1)], of k] by auto
qed

end
