(* ===== verification/Connections.thy ===== *)
theory Connections
  imports Peer_Services
begin

text \<open>
  The validators a node is connected to: \<open>services/ConnectionManager.js\<close>, the health checks it subscribes to
  (\<open>ValidatorHealthCheckService.js\<close>), the negotiation of the protocol with a peer (\<open>ProtocolSession.js\<close>) and the
  connections that \<open>Network.js\<close> waits for. A connection is a number, a public key its hexadecimal string; a
  timer is the key it was started for, and ticks at any time.
\<close>

section \<open>The pool\<close>

record validator_entry =
  ve_connection :: "nat option"
  ve_sent :: nat

text \<open>The entries in the order of the map, the health checks, the listeners for \<open>close\<close> by connection, and the
  connections that were ended.\<close>

record pool =
  pl_validators :: "(string \<times> validator_entry) list"
  pl_timers :: "string list"
  pl_listeners :: "(nat \<times> string) list"
  pl_ended :: "nat list"

definition empty_pool :: pool where
  "empty_pool = \<lparr>pl_validators = [], pl_timers = [], pl_listeners = [], pl_ended = []\<rparr>"

definition existsValidator :: "string \<Rightarrow> pool \<Rightarrow> bool" where
  "existsValidator key p \<longleftrightarrow> map_of (pl_validators p) key \<noteq> None"

definition connected :: "string \<Rightarrow> pool \<Rightarrow> bool" where
  "connected key p \<longleftrightarrow> (case map_of (pl_validators p) key of None \<Rightarrow> False | Some entry \<Rightarrow> ve_connection entry \<noteq> None)"

definition getConnection :: "string \<Rightarrow> pool \<Rightarrow> nat option" where
  "getConnection key p = (case map_of (pl_validators p) key of None \<Rightarrow> None | Some entry \<Rightarrow> ve_connection entry)"

definition connectedValidators :: "pool \<Rightarrow> string list" where
  "connectedValidators p = filter (\<lambda>key. connected key p) (map fst (pl_validators p))"

definition connectionCount :: "pool \<Rightarrow> nat" where
  "connectionCount p = length (connectedValidators p)"

definition maxConnectionsReached :: "nat \<Rightarrow> pool \<Rightarrow> bool" where
  "maxConnectionsReached maxValidators p \<longleftrightarrow> connectionCount p \<ge> maxValidators"

definition getSentCount :: "string \<Rightarrow> pool \<Rightarrow> nat" where
  "getSentCount key p = (case map_of (pl_validators p) key of None \<Rightarrow> 0 | Some entry \<Rightarrow> ve_sent entry)"

text \<open>A change of the object that the map holds for the key.\<close>

definition update_entry :: "string \<Rightarrow> (validator_entry \<Rightarrow> validator_entry) \<Rightarrow> pool \<Rightarrow> pool" where
  "update_entry key f p = p\<lparr>pl_validators := map (\<lambda>(k, entry). if k = key then (k, f entry) else (k, entry)) (pl_validators p)\<rparr>"

definition incrementSentCount :: "string \<Rightarrow> pool \<Rightarrow> pool" where
  "incrementSentCount key p = update_entry key (\<lambda>entry. entry\<lparr>ve_sent := ve_sent entry + 1\<rparr>) p"

section \<open>Health checks\<close>

text \<open>\<open>start\<close>, \<open>stop\<close> and \<open>has\<close> of an open service; keys are lower case already.\<close>

definition startHealthCheck :: "string \<Rightarrow> pool \<Rightarrow> bool \<times> pool" where
  "startHealthCheck key p = (if List.member (pl_timers p) key then (False, p) else (True, p\<lparr>pl_timers := pl_timers p @ [key]\<rparr>))"

definition stopHealthCheck :: "string \<Rightarrow> pool \<Rightarrow> bool \<times> pool" where
  "stopHealthCheck key p =
     (if \<not> List.member (pl_timers p) key then (False, p) else (True, p\<lparr>pl_timers := removeAll key (pl_timers p)\<rparr>))"

definition stopAllHealthChecks :: "pool \<Rightarrow> pool" where
  "stopAllHealthChecks p = fold (\<lambda>key p. snd (stopHealthCheck key p)) (pl_timers p) p"

section \<open>Adding and removing\<close>

definition removeValidator :: "string \<Rightarrow> pool \<Rightarrow> pool" where
  "removeValidator key p =
     (let p = snd (stopHealthCheck key p)
      in case map_of (pl_validators p) key of
           None \<Rightarrow> p
         | Some entry \<Rightarrow>
             (let p = (case ve_connection entry of None \<Rightarrow> p | Some c \<Rightarrow> p\<lparr>pl_ended := pl_ended p @ [c]\<rparr>)
              in p\<lparr>pl_validators := filter (\<lambda>(k, _). k \<noteq> key) (pl_validators p)\<rparr>))"

definition appendValidator :: "string \<Rightarrow> nat \<Rightarrow> pool \<Rightarrow> pool" where
  "appendValidator key c p =
     (if existsValidator key p then p
      else p\<lparr>pl_validators := pl_validators p @ [(key, \<lparr>ve_connection = Some c, ve_sent = 0\<rparr>)],
             pl_listeners := pl_listeners p @ [(c, key)]\<rparr>)"

definition updateValidator :: "string \<Rightarrow> nat \<Rightarrow> pool \<Rightarrow> pool" where
  "updateValidator key c p =
     (if existsValidator key p then update_entry key (\<lambda>entry. entry\<lparr>ve_connection := Some c\<rparr>) p
      else p\<lparr>pl_validators := pl_validators p @ [(key, \<lparr>ve_connection = Some c, ve_sent = 0\<rparr>)]\<rparr>)"

definition addValidator :: "nat \<Rightarrow> string \<Rightarrow> nat \<Rightarrow> pool \<Rightarrow> bool \<times> pool" where
  "addValidator maxValidators key c p =
     (if maxConnectionsReached maxValidators p then (False, p)
      else if \<not> existsValidator key p then (True, appendValidator key c p)
      else if \<not> connected key p then (True, updateValidator key c p)
      else (False, p))"

text \<open>The event \<open>close\<close> of a connection runs the listeners that were added to it.\<close>

definition connectionClosed :: "nat \<Rightarrow> pool \<Rightarrow> pool" where
  "connectionClosed c p = fold (\<lambda>(c', key) p. if c' = c then removeValidator key p else p) (pl_listeners p) p"

text \<open>The index of \<open>Math.random\<close> is an argument, below the length.\<close>

definition pickRandomValidator :: "nat \<Rightarrow> string list \<Rightarrow> string option" where
  "pickRandomValidator index keys = (if length keys = 0 then None else Some (keys ! (index mod length keys)))"

definition pickRandomConnectedValidator :: "nat \<Rightarrow> pool \<Rightarrow> string option" where
  "pickRandomConnectedValidator index p =
     (let connected = connectedValidators p in if length connected = 0 then None else pickRandomValidator index connected)"

text \<open>
  The handler of a health check up to its wait, and after it. Every connection in the pool has a protocol
  session, which its set-up has given it. \<open>None\<close>: it has ended; the answer of the session is the other argument.
\<close>

definition startHealthCheckHandler :: "string \<Rightarrow> pool \<Rightarrow> nat option \<times> pool" where
  "startHealthCheckHandler key p =
     (if \<not> existsValidator key p \<or> \<not> connected key p then (None, snd (stopHealthCheck key p))
      else (getConnection key p, p))"

definition finishHealthCheckHandler :: "string \<Rightarrow> result_code option \<Rightarrow> pool \<Rightarrow> pool" where
  "finishHealthCheckHandler key answer p =
     (let success = (answer = Some RC_OK)
      in if \<not> success then snd (stopHealthCheck key (removeValidator key p)) else p)"

section \<open>The protocol of a session\<close>

datatype protocol = LEGACY | V1

record session =
  ss_preferredProtocol :: "protocol option"
  ss_activeProtocol :: protocol

definition new_session :: session where
  "new_session = \<lparr>ss_preferredProtocol = None, ss_activeProtocol = V1\<rparr>"

definition isProbed :: "session \<Rightarrow> bool" where
  "isProbed ss \<longleftrightarrow> ss_preferredProtocol ss \<noteq> None"

definition setLegacyAsPreferredProtocol :: "session \<Rightarrow> session" where
  "setLegacyAsPreferredProtocol ss =
     (if isProbed ss then ss else \<lparr>ss_preferredProtocol = Some LEGACY, ss_activeProtocol = LEGACY\<rparr>)"

definition setV1AsPreferredProtocol :: "session \<Rightarrow> session" where
  "setV1AsPreferredProtocol ss = (if isProbed ss then ss else \<lparr>ss_preferredProtocol = Some V1, ss_activeProtocol = V1\<rparr>)"

text \<open>The end of \<open>probe\<close>, with the answer to the liveness request; \<open>None\<close> is an exception.\<close>

definition finishProbe :: "result_code option \<Rightarrow> session \<Rightarrow> session" where
  "finishProbe answer ss =
     (case answer of
        Some result \<Rightarrow> if result \<noteq> RC_OK then setLegacyAsPreferredProtocol ss else setV1AsPreferredProtocol ss
      | None \<Rightarrow> setLegacyAsPreferredProtocol ss)"

definition sendHealthCheck :: "result_code option \<Rightarrow> session \<Rightarrow> result_code" where
  "sendHealthCheck answer ss =
     (case ss_preferredProtocol ss of
        Some V1 \<Rightarrow> (case answer of Some result \<Rightarrow> result | None \<Rightarrow> RC_UNEXPECTED_ERROR)
      | Some LEGACY \<Rightarrow> RC_OK
      | None \<Rightarrow> RC_UNSPECIFIED)"

definition isHealthCheckSupported :: "session \<Rightarrow> bool option" where
  "isHealthCheckSupported ss = (case ss_preferredProtocol ss of None \<Rightarrow> None | Some protocol \<Rightarrow> Some (protocol = V1))"

section \<open>Pending connections\<close>

datatype connection_status = IGNORED | CONNECTED | PENDING

text \<open>
  The connections that \<open>Network.js\<close> waits for, with their type, and those whose session is being probed, which
  the handler of \<open>VALIDATOR_CONNECTION_READY\<close> has taken out of the first.
\<close>

record network =
  nw_pending :: "(string \<times> string option) list"
  nw_probing :: "(string \<times> nat) list"
  nw_pool :: pool

definition isConnectionPending :: "string \<Rightarrow> network \<Rightarrow> bool" where
  "isConnectionPending key nw \<longleftrightarrow> map_of (nw_pending nw) key \<noteq> None"

definition addReadyValidator :: "nat \<Rightarrow> session \<Rightarrow> string \<Rightarrow> nat \<Rightarrow> network \<Rightarrow> network" where
  "addReadyValidator maxValidators ss key c nw =
     (let p = snd (addValidator maxValidators key c (nw_pool nw));
          healthCheckSupported = (case isHealthCheckSupported ss of None \<Rightarrow> False | Some b \<Rightarrow> b)
      in nw\<lparr>nw_pool := (if healthCheckSupported then snd (startHealthCheck key p) else snd (stopHealthCheck key p))\<rparr>)"

text \<open>The handler up to its wait for the probe; \<open>ss\<close> is the session of the connection.\<close>

definition connectionReady :: "nat \<Rightarrow> session \<Rightarrow> string \<Rightarrow> string option \<Rightarrow> nat \<Rightarrow> network \<Rightarrow> network" where
  "connectionReady maxValidators ss key type c nw =
     (let nw = nw\<lparr>nw_pending := filter (\<lambda>(k, _). k \<noteq> key) (nw_pending nw)\<rparr>
      in if type \<noteq> Some ''validator'' then nw
         else if \<not> isProbed ss then nw\<lparr>nw_probing := nw_probing nw @ [(key, c)]\<rparr>
         else addReadyValidator maxValidators ss key c nw)"

definition finalizeConnection :: "nat \<Rightarrow> session \<Rightarrow> string \<Rightarrow> string option \<Rightarrow> nat \<Rightarrow> network \<Rightarrow> network" where
  "finalizeConnection maxValidators ss key type c nw =
     (if \<not> isConnectionPending key nw then nw else connectionReady maxValidators ss key type c nw)"

text \<open>\<open>found\<close>: the connection that the swarm has for the key, with its session, and whether a probe of the peer is pending.\<close>

definition tryConnect :: "nat \<Rightarrow> nat \<Rightarrow> (nat \<times> session) option \<Rightarrow> bool \<Rightarrow> string \<Rightarrow> string option \<Rightarrow> network \<Rightarrow> connection_status \<times> network" where
  "tryConnect maxPending maxValidators found probePending key type nw =
     (if isConnectionPending key nw \<or> length (nw_pending nw) \<ge> maxPending then (IGNORED, nw)
      else let nw = nw\<lparr>nw_pending := nw_pending nw @ [(key, type)]\<rparr>
           in case found of
                None \<Rightarrow> (PENDING, nw)
              | Some (c, ss) \<Rightarrow>
                  if probePending then (PENDING, nw)
                  else (CONNECTED, finalizeConnection maxValidators ss key type c nw))"

text \<open>The swarm has a new connection; the timeout of a pending one; a connection closes: the listener of the pool
  and the one of the network run.\<close>

definition swarmConnection :: "nat \<Rightarrow> session \<Rightarrow> string \<Rightarrow> nat \<Rightarrow> network \<Rightarrow> network" where
  "swarmConnection maxValidators ss key c nw =
     (case map_of (nw_pending nw) key of
        None \<Rightarrow> nw
      | Some type \<Rightarrow> finalizeConnection maxValidators ss key type c nw)"

definition connectTimeout :: "string \<Rightarrow> network \<Rightarrow> network" where
  "connectTimeout key nw = nw\<lparr>nw_pending := filter (\<lambda>(k, _). k \<noteq> key) (nw_pending nw)\<rparr>"

definition swarmConnectionClosed :: "string \<Rightarrow> nat \<Rightarrow> network \<Rightarrow> network" where
  "swarmConnectionClosed key c nw = nw\<lparr>nw_pool := removeValidator key (connectionClosed c (nw_pool nw))\<rparr>"

section \<open>The message orchestrator\<close>

text \<open>
  Sending an operation to a validator, \<open>services/MessageOrchestrator.js\<close>: the choice of a validator, the two
  protocols, the retries. What the node cannot choose is an argument: the \<open>k\<close>-th attempt of a message has an index
  from \<open>Math.random\<close>, the protocol that the connection prefers, the answer, and the connections that close while
  the attempt waits.
\<close>

datatype legacy_answer = LegacyThrows | Appeared bool
datatype v1_answer = Result result_code | Fails

record attempt =
  at_index :: nat
  at_protocol :: "protocol option"
  at_legacy :: legacy_answer
  at_built :: bool
  at_closedBefore :: "nat list"
  at_v1 :: v1_answer
  at_closedAfter :: "nat list"

record send_config =
  sc_maxRetries :: nat
  sc_messageThreshold :: nat
  sc_address :: "string \<Rightarrow> string"

definition pickValidatorForMessage :: "send_config \<Rightarrow> string option \<Rightarrow> nat \<Rightarrow> pool \<Rightarrow> string option" where
  "pickValidatorForMessage cfg messageAddress index p =
     (case messageAddress of
        None \<Rightarrow> pickRandomConnectedValidator index p
      | Some requester \<Rightarrow>
          if requester = [] then pickRandomConnectedValidator index p
          else let connected = connectedValidators p
               in if length connected = 0 then None
                  else let eligible = filter (\<lambda>key. sc_address cfg key \<noteq> requester) connected;
                           candidates = (if length eligible > 0 then eligible else connected)
                       in pickRandomValidator index candidates)"

definition shouldRemove :: "send_config \<Rightarrow> string \<Rightarrow> pool \<Rightarrow> bool" where
  "shouldRemove cfg key p \<longleftrightarrow> getSentCount key p \<ge> sc_messageThreshold cfg"

definition count_sent :: "send_config \<Rightarrow> string \<Rightarrow> pool \<Rightarrow> pool" where
  "count_sent cfg key p =
     (let p = incrementSentCount key p in if shouldRemove cfg key p then removeValidator key p else p)"

definition close_all :: "nat list \<Rightarrow> pool \<Rightarrow> pool" where
  "close_all cs p = fold connectionClosed cs p"

definition attemptSendMessageForLegacy :: "send_config \<Rightarrow> attempt \<Rightarrow> string \<Rightarrow> pool \<Rightarrow> bool option \<times> pool" where
  "attemptSendMessageForLegacy cfg a key p =
     (let p = close_all (at_closedAfter a) p
      in case at_legacy a of
           LegacyThrows \<Rightarrow> (None, p)
         | Appeared appeared \<Rightarrow> if appeared then (Some True, count_sent cfg key p) else (Some False, p))"

definition v1_action :: "send_config \<Rightarrow> result_code \<Rightarrow> string \<Rightarrow> pool \<Rightarrow> bool \<times> pool" where
  "v1_action cfg resultCode key p =
     (case resultToValidatorAction resultCode of
        SENDER_SUCCESS \<Rightarrow> (True, count_sent cfg key p)
      | ROTATE \<Rightarrow> (False, removeValidator key p)
      | NO_ROTATE \<Rightarrow> (False, p)
      | UNDEFINED \<Rightarrow> (False, removeValidator key p))"

text \<open>
  \<open>None\<close> is an exception. The state counts the attempts. A legacy attempt that throws sends the message again in
  the \<open>catch\<close>, and when that has failed once more after the \<open>catch\<close>.
\<close>

function send :: "send_config \<Rightarrow> (nat \<Rightarrow> attempt) \<Rightarrow> string option \<Rightarrow> nat \<Rightarrow> nat \<times> pool \<Rightarrow> bool option \<times> nat \<times> pool" where
  "send cfg as requester retries (k, p) =
     (if retries > sc_maxRetries cfg then (Some False, k, p)
      else case pickValidatorForMessage cfg requester (at_index (as k)) p of
        None \<Rightarrow> (Some False, k, p)
      | Some key \<Rightarrow>
          (case at_protocol (as k) of
             Some LEGACY \<Rightarrow>
               (let (sent, k, p) =
                  (case attemptSendMessageForLegacy cfg (as k) key p of
                     (None, p) \<Rightarrow> send cfg as requester (retries + 1) (Suc k, p)
                   | (Some sent, p) \<Rightarrow> (Some sent, Suc k, p))
                in case sent of
                     None \<Rightarrow> (None, k, p)
                   | Some True \<Rightarrow> (Some True, k, p)
                   | Some False \<Rightarrow> send cfg as requester (retries + 1) (k, removeValidator key p))
           | Some V1 \<Rightarrow>
               (if \<not> at_built (as k) then (None, Suc k, p)
                else let p = close_all (at_closedBefore (as k)) p
                     in if \<not> connected key p then send cfg as requester (retries + 1) (Suc k, p)
                        else let p = close_all (at_closedAfter (as k)) p
                             in case at_v1 (as k) of
                                  Result resultCode \<Rightarrow> (case v1_action cfg resultCode key p of (sent, p) \<Rightarrow> (Some sent, Suc k, p))
                                | Fails \<Rightarrow> send cfg as requester (retries + 1) (Suc k, removeValidator key p))
           | None \<Rightarrow> (Some False, Suc k, p)))"
  by pat_completeness auto

termination
  by (relation "measure (\<lambda>(cfg, as, requester, retries, s). Suc (sc_maxRetries cfg) - retries)") auto

declare send.simps [simp del]

end
