(* ===== verification/Pool_Spec.thy ===== *)
theory Pool_Spec
  imports Connections
begin

text \<open>
  The pool of validators over every order of its steps, and what sending a message does to it: the invariant of the
  network state, the attempts of one message, and what a success means.
\<close>

section \<open>Entries of the pool\<close>

abbreviation pool_keys :: "pool \<Rightarrow> string list" where
  "pool_keys p \<equiv> map fst (pl_validators p)"

definition pool_ok :: "nat \<Rightarrow> pool \<Rightarrow> bool" where
  "pool_ok n p \<longleftrightarrow> distinct (pool_keys p) \<and> connectionCount p \<le> n"

lemma stopHealthCheck_same [simp]:
  "pl_validators (snd (stopHealthCheck key p)) = pl_validators p" "pl_listeners (snd (stopHealthCheck key p)) = pl_listeners p"
  "pl_ended (snd (stopHealthCheck key p)) = pl_ended p"
  by (simp_all add: stopHealthCheck_def)

lemma startHealthCheck_same [simp]: "pl_validators (snd (startHealthCheck key p)) = pl_validators p"
  by (simp add: startHealthCheck_def)

lemma removeValidator_entries [simp]:
  "pl_validators (removeValidator key p) = filter (\<lambda>(k, _). k \<noteq> key) (pl_validators p)"
proof -
  have "map_of es key = None \<Longrightarrow> filter (\<lambda>(k, _). k \<noteq> key) es = es" for es :: "(string \<times> validator_entry) list"
    by (induction es) (auto split: if_splits)
  then show ?thesis by (auto simp: removeValidator_def Let_def split: option.splits)
qed

lemma removeValidator_listeners [simp]: "pl_listeners (removeValidator key p) = pl_listeners p"
  by (auto simp: removeValidator_def Let_def split: option.splits)

lemma keys_of_filter: "map fst (filter (\<lambda>(k, _). Q k) es) = filter Q (map fst es)"
  by (induction es) auto

lemma map_of_filter_key: "map_of (filter (\<lambda>(k, _). k \<noteq> key) es) k = (if k = key then None else map_of es k)"
  by (induction es) auto

lemma connected_remove [simp]: "connected k (removeValidator key p) \<longleftrightarrow> k \<noteq> key \<and> connected k p"
  by (simp add: connected_def map_of_filter_key)

lemma connectedValidators_remove: "connectedValidators (removeValidator key p) = filter (\<lambda>k. k \<noteq> key) (connectedValidators p)"
  by (simp add: connectedValidators_def keys_of_filter) (rule filter_cong; auto)

lemma connected_same: "pl_validators p = pl_validators q \<Longrightarrow> connected k p = connected k q"
  "pl_validators p = pl_validators q \<Longrightarrow> connectionCount p = connectionCount q"
  "pl_validators p = pl_validators q \<Longrightarrow> pool_ok n p = pool_ok n q"
  by (simp_all add: connected_def connectionCount_def connectedValidators_def pool_ok_def)

lemma distinct_remove1: "distinct xs \<Longrightarrow> length xs \<le> Suc (length (filter (\<lambda>k. k \<noteq> key) xs))"
proof (induction xs)
  case (Cons x xs)
  have "key \<notin> set xs \<Longrightarrow> filter (\<lambda>k. k \<noteq> key) xs = xs" by (rule filter_True) auto
  then show ?case using Cons by auto
qed simp

lemma remove_ok: "pool_ok n p \<Longrightarrow> pool_ok n (removeValidator key p)"
  by (auto simp: pool_ok_def keys_of_filter connectionCount_def connectedValidators_remove intro: le_trans [OF length_filter_le])

lemma remove_count: "pool_ok n p \<Longrightarrow> connectionCount p \<le> Suc (connectionCount (removeValidator key p))"
  using distinct_remove1 [of "connectedValidators p" key]
  by (simp add: pool_ok_def connectionCount_def connectedValidators_remove connectedValidators_def [of p])

lemma update_entry_keys [simp]: "pool_keys (update_entry key f p) = pool_keys p"
  by (simp add: update_entry_def comp_def case_prod_beta if_distrib cong: if_cong)

lemma map_of_update: "map_of (map (\<lambda>(k, e). if k = key then (k, f e) else (k, e)) es) k = (if k = key then map_option f (map_of es k) else map_of es k)"
  by (induction es) auto

lemma connected_increment [simp]: "connected k (incrementSentCount key p) = connected k p"
  by (auto simp: connected_def incrementSentCount_def update_entry_def map_of_update split: option.splits)

lemma increment_keys [simp]: "pool_keys (incrementSentCount key p) = pool_keys p"
  by (simp add: incrementSentCount_def)

lemma increment_ok: "connectionCount (incrementSentCount key p) = connectionCount p" "pool_ok n (incrementSentCount key p) = pool_ok n p"
  by (simp_all add: pool_ok_def connectionCount_def connectedValidators_def)

lemma closed_ok: "pool_ok n p \<Longrightarrow> pool_ok n (connectionClosed c p)"
proof -
  have "pool_ok n p \<Longrightarrow> pool_ok n (fold (\<lambda>(c', key) p. if c' = c then removeValidator key p else p) ls p)" for ls
    by (induction ls arbitrary: p) (auto simp: remove_ok)
  then show "pool_ok n p \<Longrightarrow> pool_ok n (connectionClosed c p)" by (simp add: connectionClosed_def)
qed

lemma close_all_ok: "pool_ok n p \<Longrightarrow> pool_ok n (close_all cs p)"
  by (induction cs arbitrary: p) (auto simp: close_all_def closed_ok)

lemma count_sent_ok: "pool_ok n p \<Longrightarrow> pool_ok n (count_sent cfg key p)"
  by (simp add: count_sent_def Let_def remove_ok increment_ok)

lemma v1_action_ok: "pool_ok n p \<Longrightarrow> pool_ok n (snd (v1_action cfg c key p))"
  by (auto simp: v1_action_def remove_ok count_sent_ok split: sender_action.splits)

text \<open>A validator is added only below the maximum, and is at most one more.\<close>

lemma pool_add_ok:
  assumes "pool_ok n p"
  shows "pool_ok n (snd (addValidator n key c p))"
proof (cases "maxConnectionsReached n p")
  case True
  then show ?thesis using assms by (simp add: addValidator_def)
next
  case less: False
  show ?thesis
  proof (cases "existsValidator key p")
    case False
    then have new: "key \<notin> set (pool_keys p)" "map_of (pl_validators p) key = None"
      by (simp_all add: existsValidator_def map_of_eq_None_iff)
    then have "filter (\<lambda>k. connected k (appendValidator key c p)) (pool_keys p) = connectedValidators p"
      unfolding connectedValidators_def
      by (intro filter_cong) (auto simp: connected_def appendValidator_def existsValidator_def map_add_def split: option.splits)
    then have "connectedValidators (appendValidator key c p) = connectedValidators p @ [key]"
      using new by (simp add: connectedValidators_def [of "appendValidator key c p"])
        (simp add: appendValidator_def existsValidator_def connected_def map_add_def)
    then show ?thesis
      using assms less False new
      by (simp add: addValidator_def pool_ok_def connectionCount_def maxConnectionsReached_def) (simp add: appendValidator_def)
  next
    case True
    show ?thesis
    proof (cases "connected key p")
      case False
      have c: "connected k (updateValidator key c p) \<longleftrightarrow> k = key \<or> connected k p" for k
        using True by (auto simp: connected_def updateValidator_def update_entry_def map_of_update existsValidator_def split: option.splits)
      have keys: "pool_keys (updateValidator key c p) = pool_keys p" using True by (simp add: updateValidator_def)
      have "distinct xs \<Longrightarrow> \<not> Q key \<Longrightarrow> length (filter (\<lambda>k. k = key \<or> Q k) xs) \<le> Suc (length (filter Q xs))" for xs and Q :: "string \<Rightarrow> bool"
      proof (induction xs)
        case (Cons x xs)
        have "x = key \<Longrightarrow> filter (\<lambda>k. k = key \<or> Q k) xs = filter Q xs" using Cons.prems by (intro filter_cong) auto
        then show ?case using Cons by auto
      qed simp
      from this [of "pool_keys p" "\<lambda>k. connected k p"] show ?thesis
        using assms less True False
        by (simp add: addValidator_def pool_ok_def connectionCount_def maxConnectionsReached_def connectedValidators_def c keys)
    next
      case False': True
      then show ?thesis using assms less True by (simp add: addValidator_def)
    qed
  qed
qed

section \<open>The network\<close>

text \<open>The steps of the network and of the messages that are being sent, in any order. A message changes the pool
  only by removing a validator or by counting one.\<close>

inductive net_step :: "nat \<Rightarrow> nat \<Rightarrow> network \<Rightarrow> network \<Rightarrow> bool" for n maxPending where
  net_try: "net_step n maxPending nw (snd (tryConnect maxPending n found probePending key type nw))"
| net_swarm: "net_step n maxPending nw (swarmConnection n ss key c nw)"
| net_probed: "nw_probing nw = xs @ (key, c) # ys \<Longrightarrow>
    net_step n maxPending nw (addReadyValidator n (finishProbe answer ss) key c (nw\<lparr>nw_probing := xs @ ys\<rparr>))"
| net_timeout: "net_step n maxPending nw (connectTimeout key nw)"
| net_closed: "net_step n maxPending nw (swarmConnectionClosed key c nw)"
| net_tick: "key \<in> set (pl_timers (nw_pool nw)) \<Longrightarrow> net_step n maxPending nw (nw\<lparr>nw_pool := snd (startHealthCheckHandler key (nw_pool nw))\<rparr>)"
| net_checked: "net_step n maxPending nw (nw\<lparr>nw_pool := finishHealthCheckHandler key answer (nw_pool nw)\<rparr>)"
| net_removed: "net_step n maxPending nw (nw\<lparr>nw_pool := removeValidator key (nw_pool nw)\<rparr>)"
| net_answered: "net_step n maxPending nw (nw\<lparr>nw_pool := snd (v1_action cfg code key (nw_pool nw))\<rparr>)"
| net_appeared: "net_step n maxPending nw (nw\<lparr>nw_pool := count_sent cfg key (nw_pool nw)\<rparr>)"

inductive net_run :: "nat \<Rightarrow> nat \<Rightarrow> network \<Rightarrow> bool" for n maxPending where
  net_start: "net_run n maxPending \<lparr>nw_pending = [], nw_probing = [], nw_pool = empty_pool\<rparr>"
| net_next: "net_run n maxPending nw \<Longrightarrow> net_step n maxPending nw nw' \<Longrightarrow> net_run n maxPending nw'"

definition net_ok :: "nat \<Rightarrow> nat \<Rightarrow> network \<Rightarrow> bool" where
  "net_ok n maxPending nw \<longleftrightarrow> pool_ok n (nw_pool nw) \<and> distinct (map fst (nw_pending nw)) \<and> length (nw_pending nw) \<le> maxPending"

lemma stop_pool_ok [simp]: "pool_ok n (snd (stopHealthCheck key p)) = pool_ok n p"
  by (rule connected_same) simp

lemma start_pool_ok [simp]: "pool_ok n (snd (startHealthCheck key p)) = pool_ok n p"
  by (rule connected_same) simp

lemma ready_ok: "net_ok n m nw \<Longrightarrow> net_ok n m (addReadyValidator n ss key c nw)"
  by (simp add: net_ok_def addReadyValidator_def Let_def pool_add_ok)

lemma pending_filter_ok: "net_ok n m nw \<Longrightarrow> net_ok n m (nw\<lparr>nw_pending := filter (\<lambda>(k, _). k \<noteq> key) (nw_pending nw)\<rparr>)"
  by (auto simp: net_ok_def keys_of_filter intro: le_trans [OF length_filter_le])

lemma probing_ok [simp]: "net_ok n m (nw\<lparr>nw_probing := x\<rparr>) = net_ok n m nw"
  by (simp add: net_ok_def)

lemma finalize_ok: "net_ok n m nw \<Longrightarrow> net_ok n m (finalizeConnection k ss key type c nw)" if "k = n"
  using that by (simp add: finalizeConnection_def connectionReady_def Let_def ready_ok pending_filter_ok)

lemma try_ok: "net_ok n m nw \<Longrightarrow> net_ok n m (snd (tryConnect m n found probe key type nw))"
proof -
  assume ok: "net_ok n m nw"
  have "isConnectionPending key nw \<or> length (nw_pending nw) \<ge> m \<or> net_ok n m (nw\<lparr>nw_pending := nw_pending nw @ [(key, type)]\<rparr>)"
    using ok by (auto simp: net_ok_def isConnectionPending_def map_of_eq_None_iff)
  then show ?thesis
    using ok by (auto simp: tryConnect_def Let_def finalize_ok split: option.splits)
qed

lemma net_step_ok: "net_step n m nw nw' \<Longrightarrow> net_ok n m nw \<Longrightarrow> net_ok n m nw'"
proof (induction rule: net_step.induct)
  case net_try
  then show ?case by (rule try_ok)
next
  case net_swarm
  then show ?case by (simp add: swarmConnection_def finalize_ok split: option.split)
next
  case net_probed
  then show ?case by (simp add: ready_ok)
next
  case net_timeout
  then show ?case by (simp add: connectTimeout_def pending_filter_ok)
next
  case net_closed
  then show ?case by (simp add: net_ok_def swarmConnectionClosed_def remove_ok closed_ok)
next
  case net_tick
  then show ?case by (simp add: net_ok_def startHealthCheckHandler_def)
next
  case net_checked
  then show ?case by (simp add: net_ok_def finishHealthCheckHandler_def Let_def remove_ok)
qed (simp_all add: net_ok_def remove_ok v1_action_ok count_sent_ok)

lemma net_run_ok: "net_run n m nw \<Longrightarrow> net_ok n m nw"
  by (induction rule: net_run.induct) (auto simp: net_ok_def pool_ok_def connectionCount_def connectedValidators_def empty_pool_def dest: net_step_ok [unfolded net_ok_def pool_ok_def])

section \<open>Sending a message\<close>

text \<open>The attempt was answered: its message appeared in the ledger, or the validator said so.\<close>

definition attempt_succeeded :: "attempt \<Rightarrow> bool" where
  "attempt_succeeded a \<longleftrightarrow> (at_protocol a = Some LEGACY \<and> at_legacy a = Appeared True) \<or>
     (at_protocol a = Some V1 \<and> at_v1 a = Result RC_OK)"

lemma success_code: "resultToValidatorAction c = SENDER_SUCCESS \<longleftrightarrow> c = RC_OK"
  by (auto simp: resultToValidatorAction_def SUCCESS_CODES_def split: if_splits)

text \<open>The budget of attempts that a number of retries leaves.\<close>

definition attempts_left :: "nat \<Rightarrow> nat" where
  "attempts_left d = 2 ^ d - 1"

lemma attempts_left_simps: "attempts_left 0 = 0" "attempts_left (Suc d) = Suc (2 * attempts_left d)"
proof -
  have "0 < (2 :: nat) ^ d" by simp
  then show "attempts_left (Suc d) = Suc (2 * attempts_left d)" unfolding attempts_left_def power_Suc by linarith
qed (simp add: attempts_left_def)

text \<open>One level of the retries, with what the next level is known to do.\<close>

definition sends_well :: "(nat \<Rightarrow> attempt) \<Rightarrow> nat \<Rightarrow> nat \<Rightarrow> bool option \<times> nat \<times> pool \<Rightarrow> nat \<Rightarrow> bool" where
  "sends_well as n k result budget \<longleftrightarrow> (case result of (r, k', p') \<Rightarrow>
     k \<le> k' \<and> k' \<le> k + budget \<and> pool_ok n p' \<and> (r = Some True \<longrightarrow> (\<exists>j. k \<le> j \<and> j < k' \<and> attempt_succeeded (as j))))"

lemma sends_well_later: "sends_well as n (Suc k) r b \<Longrightarrow> b \<le> b' \<Longrightarrow> sends_well as n k r (Suc b')"
  by (auto simp: sends_well_def dest: Suc_leD split: prod.splits)

lemma sends_well_twice:
  "sends_well as n (Suc k) (s, k2, p2) b \<Longrightarrow> sends_well as n k2 r b \<Longrightarrow> sends_well as n k r (Suc (2 * b))"
proof (cases r)
  case (fields r' k3 p3)
  assume "sends_well as n (Suc k) (s, k2, p2) b" "sends_well as n k2 r b"
  then have "Suc k \<le> k2" "k2 \<le> Suc k + b" "k2 \<le> k3" "k3 \<le> k2 + b" "pool_ok n p3"
    "r' = Some True \<longrightarrow> (\<exists>j. k2 \<le> j \<and> j < k3 \<and> attempt_succeeded (as j))"
    by (simp_all add: fields sends_well_def)
  then show ?thesis unfolding fields sends_well_def by (auto dest: order_trans [of "Suc k" k2]) (metis Suc_leD order_trans)
qed

lemma sends_wellI:
  "pool_ok n p \<Longrightarrow> (r = Some True \<Longrightarrow> attempt_succeeded (as k)) \<Longrightarrow> sends_well as n k (r, Suc k, p) (Suc b)"
  by (auto simp: sends_well_def)

lemma attempt_ok: "pool_ok n p \<Longrightarrow> attemptSendMessageForLegacy cfg a key p = (r, p') \<Longrightarrow> pool_ok n p'"
  by (auto simp: attemptSendMessageForLegacy_def Let_def count_sent_ok close_all_ok split: legacy_answer.splits if_splits)

lemma attempt_result: "attemptSendMessageForLegacy cfg a key p = (Some True, p') \<Longrightarrow> at_legacy a = Appeared True"
  by (auto simp: attemptSendMessageForLegacy_def Let_def split: legacy_answer.splits if_splits)

lemma send_well:
  assumes "pool_ok n p"
  shows "sends_well as n k (send cfg as requester retries (k, p)) (attempts_left (Suc (sc_maxRetries cfg) - retries))"
  using assms
proof (induction "Suc (sc_maxRetries cfg) - retries" arbitrary: retries k p)
  case 0
  then show ?case by (simp add: send.simps sends_well_def)
next
  case (Suc d)
  have d: "\<not> retries > sc_maxRetries cfg" "d = Suc (sc_maxRetries cfg) - (retries + 1)" using Suc.hyps(2) by linarith+
  have next_ok: "sends_well as n k (send cfg as requester (retries + 1) (k, p)) (attempts_left d)" if "pool_ok n p" for k p
    using Suc.hyps(1) [OF d(2) that] d(2) by simp
  note b = attempts_left_simps(2) [of d]
  show ?case
  proof (cases "pickValidatorForMessage cfg requester (at_index (as k)) p")
    case None
    then show ?thesis using d(1) Suc.prems by (simp add: send.simps [of _ _ _ retries] sends_well_def)
  next
    case (Some key)
    note S = send.simps [of cfg as requester retries k p] and simps = d(1) Some b Suc.hyps(2) [symmetric]
    show ?thesis
    proof (cases "at_protocol (as k)")
      case None
      then show ?thesis unfolding S using Suc.prems sends_wellI [of n p "Some False" as k] by (simp add: simps)
    next
      case P: (Some protocol)
      show ?thesis
      proof (cases protocol)
        case LEGACY
        obtain r1 p1 where a: "attemptSendMessageForLegacy cfg (as k) key p = (r1, p1)" by fastforce
        have p1: "pool_ok n p1" using attempt_ok [OF Suc.prems a] .
        show ?thesis
        proof (cases r1)
          case None
          obtain r2 k2 p2 where i: "send cfg as requester (retries + 1) (Suc k, p1) = (r2, k2, p2)" by (metis prod_cases3)
          note w = next_ok [OF p1, of "Suc k", unfolded i]
          have "pool_ok n p2" using w by (simp add: sends_well_def)
          note w2 = next_ok [OF remove_ok [OF this], of k2 key]
          show ?thesis
            unfolding S using a None i P LEGACY simps sends_well_later [OF w, where b' = "2 * attempts_left d"] sends_well_twice [OF w w2]
            by (auto split: option.split bool.split)
        next
          case (Some r)
          show ?thesis
          proof (cases r)
            case True
            have "at_legacy (as k) = Appeared True" using a Some True attempt_result by metis
            then show ?thesis
              unfolding S using a Some P LEGACY simps True p1 sends_wellI [of n p1 "Some True" as k] by (simp add: attempt_succeeded_def)
          next
            case False
            then show ?thesis
              unfolding S using a Some P LEGACY simps sends_well_later [OF next_ok [OF remove_ok [OF p1]], where b' = "2 * attempts_left d"] by simp
          qed
        qed
      next
        case V1
        define p1 where "p1 = close_all (at_closedBefore (as k)) p"
        define p2 where "p2 = close_all (at_closedAfter (as k)) p1"
        have ok: "pool_ok n p1" "pool_ok n p2" using Suc.prems by (simp_all add: p1_def p2_def close_all_ok)
        show ?thesis
        proof (cases "at_built (as k) \<and> connected key p1")
          case False
          then show ?thesis
            unfolding S using P V1 simps Suc.prems sends_wellI [of n p None as k] sends_well_later [OF next_ok [OF ok(1)], where b' = "2 * attempts_left d"]
            by (auto simp: p1_def [symmetric])
        next
          case True
          then show ?thesis
          proof (cases "at_v1 (as k)")
            case (Result c)
            obtain r p3 where v: "v1_action cfg c key p2 = (r, p3)" by fastforce
            have "r \<longrightarrow> attempt_succeeded (as k)"
              using v Result P V1 success_code [of c]
              by (auto simp: v1_action_def attempt_succeeded_def split: sender_action.splits)
            then show ?thesis
              unfolding S using True Result P V1 simps v v1_action_ok [OF ok(2), of cfg c key] sends_wellI [of n p3 "Some r" as k]
              by (simp add: p1_def [symmetric] p2_def [symmetric])
          next
            case Fails
            then show ?thesis
              unfolding S using True P V1 simps sends_well_later [OF next_ok [OF remove_ok [OF ok(2)]], where b' = "2 * attempts_left d"]
              by (simp add: p1_def [symmetric] p2_def [symmetric])
          qed
        qed
      qed
    qed
  qed
qed

text \<open>Without the legacy protocol the retries are the bound; with it, a validator that throws doubles them.\<close>

lemma v1_attempts:
  assumes "\<And>j. at_protocol (as j) \<noteq> Some LEGACY"
  shows "fst (snd (send cfg as requester retries (k, p))) \<le> k + (Suc (sc_maxRetries cfg) - retries)"
proof (induction "Suc (sc_maxRetries cfg) - retries" arbitrary: retries k p)
  case 0
  then show ?case by (simp add: send.simps)
next
  case (Suc d)
  have d: "\<not> retries > sc_maxRetries cfg" "d = Suc (sc_maxRetries cfg) - (retries + 1)" using Suc.hyps(2) by linarith+
  have ih: "fst (snd (send cfg as requester (retries + 1) (Suc k, p))) \<le> Suc k + d" for k p
    using Suc.hyps(1) [OF d(2), of "Suc k" p] d(2) by simp
  have "at_protocol (as k) = None \<or> at_protocol (as k) = Some V1"
    using assms [of k] by (metis option.exhaust protocol.exhaust)
  then show ?case
    using d(1) Suc.hyps(2) [symmetric] ih
    by (auto simp: send.simps [of _ _ _ retries] Let_def split: option.split v1_answer.split prod.split)
qed

lemma picked_connected:
  "connectionCount p > 0 \<Longrightarrow> \<exists>key. pickValidatorForMessage cfg requester index p = Some key"
proof -
  have "\<exists>key. pickRandomValidator index keys = Some key" if "keys \<noteq> []" for keys
    using that by (simp add: pickRandomValidator_def)
  then show "connectionCount p > 0 \<Longrightarrow> \<exists>key. pickValidatorForMessage cfg requester index p = Some key"
    by (auto simp: pickValidatorForMessage_def pickRandomConnectedValidator_def connectionCount_def Let_def split: option.splits)
qed

lemma legacy_attempts:
  assumes "\<And>j. at_protocol (as j) = Some LEGACY \<and> at_legacy (as j) = LegacyThrows \<and> at_closedAfter (as j) = []"
    and "pool_ok n p" "attempts_left (Suc (sc_maxRetries cfg) - retries) \<le> connectionCount p"
  shows "\<exists>p'. send cfg as requester retries (k, p) = (Some False, k + attempts_left (Suc (sc_maxRetries cfg) - retries), p') \<and> pool_ok n p' \<and>
    connectionCount p \<le> connectionCount p' + attempts_left (Suc (sc_maxRetries cfg) - retries)"
  using assms(2-)
proof (induction "Suc (sc_maxRetries cfg) - retries" arbitrary: retries k p)
  case 0
  then show ?case by (simp add: send.simps attempts_left_simps)
next
  case (Suc d)
  have d: "\<not> retries > sc_maxRetries cfg" "d = Suc (sc_maxRetries cfg) - (retries + 1)" using Suc.hyps(2) by linarith+
  note b = attempts_left_simps(2) [of d] and hyp = Suc.hyps(2) [symmetric]
  obtain key where key: "pickValidatorForMessage cfg requester (at_index (as k)) p = Some key"
    using picked_connected [of p] Suc.prems(2) hyp b by fastforce
  obtain p1 where p1: "send cfg as requester (retries + 1) (Suc k, p) = (Some False, Suc k + attempts_left d, p1)" "pool_ok n p1"
    "connectionCount p \<le> connectionCount p1 + attempts_left d"
    using Suc.hyps(1) [OF d(2) Suc.prems(1), of "Suc k"] Suc.prems(2) hyp b d(2) by auto
  note p2 = remove_ok [OF p1(2), of key] remove_count [OF p1(2), of key]
  obtain p3 where p3: "send cfg as requester (retries + 1) (Suc k + attempts_left d, removeValidator key p1) =
      (Some False, Suc k + attempts_left d + attempts_left d, p3)" "pool_ok n p3"
    "connectionCount (removeValidator key p1) \<le> connectionCount p3 + attempts_left d"
    using Suc.hyps(1) [OF d(2) p2(1), of "Suc k + attempts_left d"] Suc.prems(2) hyp b d(2) p1(3) p2(2) by auto
  have "attemptSendMessageForLegacy cfg (as k) key p = (None, p)"
    using assms(1) by (simp add: attemptSendMessageForLegacy_def close_all_def)
  then have "send cfg as requester retries (k, p) = (Some False, Suc k + attempts_left d + attempts_left d, p3)"
    using d(1) key p1(1) p3(1) assms(1) [of k] by (simp add: send.simps [of _ _ _ retries])
  then show ?case using p1(3) p2(2) p3 hyp b by auto
qed

end
