(* ===== verification/Observer.thy ===== *)
theory Observer
  imports Connections "HOL-Library.AList"
begin

text \<open>
  The choice of the validators to connect to, \<open>services/ValidatorObserverService.js\<close>. The list of writers that
  autobase has, the clock, the random numbers and what the swarm finds are arguments; \<open>decode\<close> is the
  decoder of addresses of the library, \<open>None\<close> when it throws.
\<close>

definition VALIDATOR_CANDIDATES_PER_CYCLE :: nat where [simp]: "VALIDATOR_CANDIDATES_PER_CYCLE = 10"
definition MAX_KEY_DECODE_CACHE_SIZE :: nat where [simp]: "MAX_KEY_DECODE_CACHE_SIZE = 10000"

record observer_config =
  oc_maxValidators :: nat
  oc_adminThreshold :: nat
  oc_adminCacheTTL :: int
  oc_writersShortCacheTTL :: int
  oc_writersLongCacheTTL :: int
  oc_bootstrapTimeout :: int

text \<open>A writer of the list: its address and its public key in hexadecimal.\<close>

record writer =
  wr_address :: string
  wr_publicKey :: string

text \<open>An entry of the list of autobase: key and value.\<close>

record system_writer =
  sw_key :: buffer
  sw_value :: "(bool \<times> bool) option"

record observer =
  ob_hasBootstrapped :: bool
  ob_bootstrapStartedAt :: int
  ob_adminCache :: "string option \<times> int"
  ob_writersCache :: "writer list \<times> int"
  ob_keyDecodeCache :: "(string \<times> writer option) list"

section \<open>Selecting candidates\<close>

definition countAliveWriters :: "string \<Rightarrow> writer list \<Rightarrow> string option \<Rightarrow> pool \<Rightarrow> nat" where
  "countAliveWriters self writers adminAddress p =
     length (filter (\<lambda>w. Some (wr_address w) \<noteq> adminAddress \<and> (wr_address w = self \<or> connected (wr_publicKey w) p)) writers)"

text \<open>The shuffle of Fisher and Yates, from the index \<open>i\<close> on.\<close>

function shuffle :: "(nat \<Rightarrow> nat) \<Rightarrow> nat \<Rightarrow> 'a list \<Rightarrow> 'a list" where
  "shuffle random i xs =
     (if i < length xs then
        (let j = i + random i mod (length xs - i) in shuffle random (Suc i) (xs[i := xs ! j, j := xs ! i]))
      else xs)"
  by pat_completeness auto

termination
  by (relation "measure (\<lambda>(random, i, xs). length xs - i)") auto

declare shuffle.simps [simp del]

definition selectCandidates :: "observer_config \<Rightarrow> string \<Rightarrow> (nat \<Rightarrow> nat) \<Rightarrow> writer list \<Rightarrow> string option \<Rightarrow> network \<Rightarrow> writer list \<times> nat" where
  "selectCandidates cfg self random writers adminAddress nw =
     (let aliveWritersCount = countAliveWriters self writers adminAddress (nw_pool nw);
          adminBlocked = (adminAddress \<noteq> None \<and> aliveWritersCount \<ge> oc_adminThreshold cfg);
          isSelfInWriters = list_ex (\<lambda>w. wr_address w = self) writers;
          networkSize = (if isSelfInWriters then length writers - 1 else length writers);
          target = min networkSize (oc_maxValidators cfg);
          isSelfAdmin = (Some self = adminAddress);
          totalConnected = connectionCount (nw_pool nw);
          available = filter (\<lambda>w.
            if wr_address w = self then False
            else if connected (wr_publicKey w) (nw_pool nw) \<or> isConnectionPending (wr_publicKey w) nw then False
            else \<not> (adminBlocked \<and> \<not> isSelfAdmin \<and> Some (wr_address w) = adminAddress)) writers;
          result = shuffle random 0 available;
          slots = target - totalConnected;
          limit = min (min slots VALIDATOR_CANDIDATES_PER_CYCLE) (length result)
      in (take limit result, slots))"

section \<open>Policies\<close>

definition enforceAdminPolicy :: "observer_config \<Rightarrow> string \<Rightarrow> writer list \<Rightarrow> string option \<Rightarrow> pool \<Rightarrow> pool" where
  "enforceAdminPolicy cfg self writers adminAddress p =
     (if countAliveWriters self writers adminAddress p < oc_adminThreshold cfg then p
      else if Some self = adminAddress then p
      else case List.find (\<lambda>w. Some (wr_address w) = adminAddress) writers of
        None \<Rightarrow> p
      | Some adminWriter \<Rightarrow> removeValidator (wr_publicKey adminWriter) p)"

definition enforceNoStaleConnections :: "string \<Rightarrow> pool \<Rightarrow> pool" where
  "enforceNoStaleConnections key p = (if connected key p then removeValidator key p else p)"

section \<open>Scanning the writers\<close>

text \<open>The identity behind a writer key, through the cache; \<open>None\<close> when the library throws.\<close>

definition decode_writer :: "'b env \<Rightarrow> (string option \<Rightarrow> buffer option option) \<Rightarrow> node_state \<Rightarrow> string \<Rightarrow> (string \<times> writer option) list \<Rightarrow>
    (writer option \<times> (string \<times> writer option) list) option" where
  "decode_writer E decode s key cache =
     (case map_of cache key of
        Some decodedIdentity \<Rightarrow> Some (decodedIdentity, cache)
      | None \<Rightarrow>
          (let remember = (\<lambda>decodedIdentity. Some (decodedIdentity, AList.update key decodedIdentity cache))
           in case getRegisteredWriterKey E s key of
                None \<Rightarrow> remember None
              | Some addressBuffer \<Rightarrow>
                  if length addressBuffer \<noteq> addressLength E then remember None
                  else (let addr = bufferToAddress E addressBuffer
                        in case decode addr of
                             None \<Rightarrow> None
                           | Some None \<Rightarrow> remember None
                           | Some (Some publicKey) \<Rightarrow>
                               remember (map_option (\<lambda>a. \<lparr>wr_address = a, wr_publicKey = to_hex publicKey\<rparr>) addr))))"

text \<open>
  The loop over the list, which an exception ends, and \<open>#shouldRun\<close>, which each turn asks first: \<open>running k\<close> is its answer in the turn with
  the number \<open>k\<close>. \<open>active\<close> is the map from addresses, in its order.
\<close>

fun scan_writers :: "'b env \<Rightarrow> (string option \<Rightarrow> buffer option option) \<Rightarrow> node_state \<Rightarrow> (nat \<Rightarrow> bool) \<Rightarrow> nat \<Rightarrow> string option \<Rightarrow>
    system_writer list \<Rightarrow> (string \<times> writer option) list \<Rightarrow> (string \<times> writer) list \<Rightarrow> pool \<Rightarrow>
    (string \<times> writer option) list \<times> (string \<times> writer) list \<times> pool" where
  "scan_writers E decode s running k adminAddress [] cache active p = (cache, active, p)"
| "scan_writers E decode s running k adminAddress (x # xs) cache active p =
     (let scan = scan_writers E decode s running (Suc k) adminAddress xs
      in if \<not> running k then (cache, active, p)
      else if length (sw_key x) \<noteq> WRITER_BYTE_LENGTH then scan cache active p
      else case sw_value x of
        None \<Rightarrow> scan cache active p
      | Some (indexing, removed) \<Rightarrow>
          (case decode_writer E decode s (to_hex (sw_key x)) cache of
             None \<Rightarrow> (cache, active, p)
           | Some (None, cache) \<Rightarrow> scan cache active p
           | Some (Some w, cache) \<Rightarrow>
               if indexing \<and> Some (wr_address w) \<noteq> adminAddress then scan cache active p
               else if removed then
                 scan cache (AList.delete (wr_address w) active) (enforceNoStaleConnections (wr_publicKey w) p)
               else scan cache (AList.update (wr_address w) w active) p))"

definition scanAutobaseWriters :: "'b env \<Rightarrow> (string option \<Rightarrow> buffer option option) \<Rightarrow> node_state \<Rightarrow> (nat \<Rightarrow> bool) \<Rightarrow> string option \<Rightarrow> system_writer list \<Rightarrow>
    (string \<times> writer option) list \<Rightarrow> pool \<Rightarrow> (string \<times> writer option) list \<times> writer list \<times> pool" where
  "scanAutobaseWriters E decode s running adminAddress xs cache p =
     (let cache = (if length cache > MAX_KEY_DECODE_CACHE_SIZE then [] else cache);
          (cache, active, p) = scan_writers E decode s running 0 adminAddress xs cache [] p
      in (cache, map snd active, p))"

section \<open>Caches\<close>

definition getAdminEntryCached :: "observer_config \<Rightarrow> int \<Rightarrow> string option \<Rightarrow> observer \<Rightarrow> string option \<times> observer" where
  "getAdminEntryCached cfg now entry ob =
     (case ob_adminCache ob of
        (Some cached, lastUpdated) \<Rightarrow>
          if now - lastUpdated < oc_adminCacheTTL cfg then (Some cached, ob) else (entry, ob\<lparr>ob_adminCache := (entry, now)\<rparr>)
      | (None, lastUpdated) \<Rightarrow> (entry, ob\<lparr>ob_adminCache := (entry, now)\<rparr>))"

definition getWritersCached :: "'b env \<Rightarrow> (string option \<Rightarrow> buffer option option) \<Rightarrow> node_state \<Rightarrow> (nat \<Rightarrow> bool) \<Rightarrow> system_writer list \<Rightarrow> observer_config \<Rightarrow> int \<Rightarrow>
    string option \<Rightarrow> observer \<times> pool \<Rightarrow> writer list \<times> observer \<times> pool" where
  "getWritersCached E decode s running xs cfg now adminAddress st =
     (case st of (ob, p) \<Rightarrow>
       let full = maxConnectionsReached (oc_maxValidators cfg) p;
           timedOut = (now - ob_bootstrapStartedAt ob > oc_bootstrapTimeout cfg);
           ob = ob\<lparr>ob_hasBootstrapped := (ob_hasBootstrapped ob \<or> full \<or> timedOut)\<rparr>;
           dynamicTTL = (if ob_hasBootstrapped ob then oc_writersLongCacheTTL cfg else oc_writersShortCacheTTL cfg);
           (cachedList, lastUpdated) = ob_writersCache ob
       in if length cachedList > 0 \<and> now - lastUpdated < dynamicTTL then (cachedList, ob, p)
          else let (cache, writers, p) = scanAutobaseWriters E decode s running adminAddress xs (ob_keyDecodeCache ob) p
               in (writers, ob\<lparr>ob_writersCache := (writers, now), ob_keyDecodeCache := cache\<rparr>, p))"

section \<open>Connecting\<close>

text \<open>
  What happens around the attempt with the number \<open>k\<close>: the steps of the network before it, and what the swarm has
  found. \<open>co_running\<close>, \<open>co_scanning\<close> and \<open>co_enabled\<close> are what \<open>#shouldRun\<close> answers before an attempt, in a turn of the scan and at the
  start of the cycle. An exception of \<open>tryConnect\<close> is logged and skipped.
\<close>

record connect_oracle =
  co_enabled :: bool
  co_scanning :: "nat \<Rightarrow> bool"
  co_running :: "nat \<Rightarrow> bool"
  co_network :: "nat \<Rightarrow> network \<Rightarrow> network"
  co_found :: "nat \<Rightarrow> (nat \<times> session) option"
  co_probePending :: "nat \<Rightarrow> bool"

fun processCandidates :: "connect_oracle \<Rightarrow> nat \<Rightarrow> nat \<Rightarrow> nat \<Rightarrow> nat \<Rightarrow> nat \<Rightarrow> writer list \<Rightarrow> network \<Rightarrow> nat \<times> network" where
  "processCandidates co maxPending maxValidators slots k attempts [] nw = (attempts, nw)"
| "processCandidates co maxPending maxValidators slots k attempts (candidate # cs) nw =
     (let nw = co_network co k nw
      in if \<not> co_running co k \<or> attempts \<ge> slots then (attempts, nw)
         else if connected (wr_publicKey candidate) (nw_pool nw) \<or> isConnectionPending (wr_publicKey candidate) nw
           then processCandidates co maxPending maxValidators slots (Suc k) attempts cs nw
         else case tryConnect maxPending maxValidators (co_found co k) (co_probePending co k) (wr_publicKey candidate)
                (Some ''validator'') nw of
             (IGNORED, nw) \<Rightarrow> processCandidates co maxPending maxValidators slots (Suc k) attempts cs nw
           | (_, nw) \<Rightarrow> processCandidates co maxPending maxValidators slots (Suc k) (Suc attempts) cs nw)"

text \<open>One cycle of the worker.\<close>

definition worker_cycle :: "'b env \<Rightarrow> (string option \<Rightarrow> buffer option option) \<Rightarrow> node_state \<Rightarrow> system_writer list \<Rightarrow> observer_config \<Rightarrow>
    connect_oracle \<Rightarrow> nat \<Rightarrow> (nat \<Rightarrow> nat) \<Rightarrow> int \<Rightarrow> string \<Rightarrow> string option \<Rightarrow> observer \<times> network \<Rightarrow> observer \<times> network" where
  "worker_cycle E decode s xs cfg co maxPending random now self adminAddress st =
     (case st of (ob, nw) \<Rightarrow>
       if \<not> co_enabled co then (ob, nw) else
       let (admin, ob) = getAdminEntryCached cfg now adminAddress ob;
           (writers, ob, p) = getWritersCached E decode s (co_scanning co) xs cfg now admin (ob, nw_pool nw);
           nw = nw\<lparr>nw_pool := p\<rparr>
       in if writers = [] then (ob, nw)
          else let nw = nw\<lparr>nw_pool := enforceAdminPolicy cfg self writers admin (nw_pool nw)\<rparr>
               in if maxConnectionsReached (oc_maxValidators cfg) (nw_pool nw) then (ob, nw)
                  else let (candidates, slots) = selectCandidates cfg self random writers admin nw
                       in (ob, snd (processCandidates co maxPending (oc_maxValidators cfg) slots 0 0 candidates nw)))"

end
