(* ===== verification/Observer_Spec.thy ===== *)
theory Observer_Spec
  imports Observer Pool_Spec "HOL-Library.Multiset" "HOL-Library.Sublist"
begin

text \<open>
  What the observer of validators chooses: the shuffle permutes, the candidates are writers that may be connected
  to, the attempts stay within the free slots, and the scan keeps of an address what the last entry says that it reads, whatever the cache holds
  and wherever it is cut short.
\<close>

lemma swap_perm: "i < length xs \<Longrightarrow> j < length xs \<Longrightarrow> mset (xs[i := xs ! j, j := xs ! i]) = mset xs"
  by (rule mset_swap)

lemma shuffle_perm: "mset (shuffle random i xs) = mset xs"
proof (induction random i xs rule: shuffle.induct)
  case (1 random i xs)
  show ?case
  proof (cases "i < length xs")
    case True
    define j where "j = i + random i mod (length xs - i)"
    have "random i mod (length xs - i) < length xs - i" using True by simp
    then have "j < length xs" unfolding j_def by linarith
    then have "mset (xs[i := xs ! j, j := xs ! i]) = mset xs" using swap_perm True by blast
    then show ?thesis using 1 [OF True j_def] True by (simp add: shuffle.simps [of _ i xs] j_def [symmetric] Let_def)
  next
    case False
    then show ?thesis by (simp add: shuffle.simps [of _ i xs])
  qed
qed

lemma shuffle_length: "length (shuffle random i xs) = length xs"
  using shuffle_perm [of random i xs, THEN arg_cong [of _ _ size]] by simp

text \<open>The writers that may be connected to.\<close>

definition available_writers :: "observer_config \<Rightarrow> string \<Rightarrow> string option \<Rightarrow> network \<Rightarrow> writer list \<Rightarrow> writer list" where
  "available_writers cfg self admin nw writers =
     filter (\<lambda>w. wr_address w \<noteq> self \<and> \<not> connected (wr_publicKey w) (nw_pool nw) \<and> \<not> isConnectionPending (wr_publicKey w) nw \<and>
       \<not> (oc_adminThreshold cfg \<le> countAliveWriters self writers admin (nw_pool nw) \<and> Some self \<noteq> admin \<and> Some (wr_address w) = admin)) writers"

lemma selectCandidates_eq:
  "selectCandidates cfg self random writers admin nw =
     (let xs = available_writers cfg self admin nw writers;
          slots = min (if list_ex (\<lambda>w. wr_address w = self) writers then length writers - 1 else length writers) (oc_maxValidators cfg) -
            connectionCount (nw_pool nw)
      in (take (min (min slots 10) (length xs)) (shuffle random 0 xs), slots))"
proof -
  have "length (shuffle random 0 xs) = length xs" for xs :: "writer list" by (rule shuffle_length)
  moreover have "filter (\<lambda>w. if wr_address w = self then False
      else if connected (wr_publicKey w) (nw_pool nw) \<or> isConnectionPending (wr_publicKey w) nw then False
      else \<not> ((admin \<noteq> None \<and> countAliveWriters self writers admin (nw_pool nw) \<ge> oc_adminThreshold cfg) \<and> \<not> Some self = admin \<and> Some (wr_address w) = admin)) writers
    = available_writers cfg self admin nw writers"
    unfolding available_writers_def by (rule filter_cong) auto
  ultimately show ?thesis unfolding selectCandidates_def Let_def by simp
qed

lemma take_subseteq: "mset (take n xs) \<subseteq># mset xs"
proof -
  have "mset xs = mset (take n xs) + mset (drop n xs)" by (simp flip: mset_append)
  then show ?thesis by (metis mset_subset_eq_add_left)
qed

lemma selected:
  assumes "selectCandidates cfg self random writers admin nw = (cs, slots)"
  shows "mset cs \<subseteq># mset (available_writers cfg self admin nw writers)" "slots + connectionCount (nw_pool nw) \<le> max (oc_maxValidators cfg) (connectionCount (nw_pool nw))"
    "length cs = min (min slots 10) (length (available_writers cfg self admin nw writers))"
proof -
  define xs where "xs = available_writers cfg self admin nw writers"
  have len: "length (shuffle random 0 xs) = length xs" by (rule shuffle_length)
  have cs: "cs = take (min (min slots 10) (length xs)) (shuffle random 0 xs)"
    using assms unfolding selectCandidates_eq Let_def xs_def by blast
  show "mset cs \<subseteq># mset (available_writers cfg self admin nw writers)"
    unfolding cs xs_def [symmetric] shuffle_perm [of random 0 xs, symmetric]
    by (rule take_subseteq)
  show "length cs = min (min slots 10) (length (available_writers cfg self admin nw writers))"
    using len by (simp add: cs xs_def)
  show "slots + connectionCount (nw_pool nw) \<le> max (oc_maxValidators cfg) (connectionCount (nw_pool nw))"
    using assms by (simp add: selectCandidates_eq Let_def) linarith
qed

lemma process_attempts: "attempts \<le> slots \<Longrightarrow> fst (processCandidates co m n slots k attempts cs nw) \<le> slots"
  by (induction cs arbitrary: k attempts nw) (auto simp: Let_def split: prod.split connection_status.split)

section \<open>The scan\<close>

text \<open>The identity behind a writer key without the cache, \<open>None\<close> when the library throws; the cache holds only such.\<close>

definition identity :: "'b env \<Rightarrow> (string option \<Rightarrow> buffer option option) \<Rightarrow> node_state \<Rightarrow> string \<Rightarrow> writer option option" where
  "identity E decode s key = map_option fst (decode_writer E decode s key [])"

definition cache_sound :: "'b env \<Rightarrow> (string option \<Rightarrow> buffer option option) \<Rightarrow> node_state \<Rightarrow> (string \<times> writer option) list \<Rightarrow> bool" where
  "cache_sound E decode s cache \<longleftrightarrow> (\<forall>key d. map_of cache key = Some d \<longrightarrow> identity E decode s key = Some d)"

lemma decode_sound:
  assumes "cache_sound E decode s cache"
  shows "map_option fst (decode_writer E decode s key cache) = identity E decode s key"
    "decode_writer E decode s key cache = Some (d, cache') \<Longrightarrow> cache_sound E decode s cache'"
proof -
  have miss: "map_of cache key = None \<Longrightarrow> map_option fst (decode_writer E decode s key cache) = identity E decode s key"
    "map_of cache key = None \<Longrightarrow> decode_writer E decode s key cache = Some (d, cache') \<Longrightarrow> cache' = AList.update key d cache"
    by (auto simp: identity_def decode_writer_def Let_def split: option.splits if_splits)
  show eq: "map_option fst (decode_writer E decode s key cache) = identity E decode s key"
    using miss(1) assms by (cases "map_of cache key") (auto simp: cache_sound_def decode_writer_def)
  show "cache_sound E decode s cache'" if d: "decode_writer E decode s key cache = Some (d, cache')"
  proof (cases "map_of cache key")
    case None
    then have "cache' = AList.update key d cache" "identity E decode s key = Some d" using miss(2) d eq by simp_all
    then show ?thesis using assms by (auto simp: cache_sound_def update_conv' split: if_splits)
  next
    case (Some x)
    then show ?thesis using d assms by (simp add: decode_writer_def)
  qed
qed

text \<open>What the scan takes a key for: what the cache remembers of it, else what the store says.\<close>

definition known :: "'b env \<Rightarrow> (string option \<Rightarrow> buffer option option) \<Rightarrow> node_state \<Rightarrow> (string \<times> writer option) list \<Rightarrow> string \<Rightarrow>
    writer option option" where
  "known E decode s cache key = (case map_of cache key of Some d \<Rightarrow> Some d | None \<Rightarrow> identity E decode s key)"

lemma known_decode: "map_option fst (decode_writer E decode s key cache) = known E decode s cache key"
  by (cases "map_of cache key") (auto simp: known_def identity_def decode_writer_def Let_def split: option.splits if_splits)

lemma known_keeps: "decode_writer E decode s key cache = Some (d, cache') \<Longrightarrow> known E decode s cache' = known E decode s cache"
proof -
  assume d: "decode_writer E decode s key cache = Some (d, cache')"
  then have k: "known E decode s cache key = Some d" using known_decode [of E decode s key cache] by simp
  have "cache' = cache \<or> map_of cache key = None \<and> cache' = AList.update key d cache"
    using d by (auto simp: decode_writer_def Let_def split: option.splits if_splits)
  then show ?thesis using k by (auto simp: known_def update_conv' fun_eq_iff)
qed

lemma known_sound: "cache_sound E decode s cache \<Longrightarrow> known E decode s cache = identity E decode s"
  by (auto simp: known_def cache_sound_def fun_eq_iff split: option.split)

text \<open>The entries that count, with their writer and whether it was removed.\<close>

definition counted :: "(string \<Rightarrow> writer option option) \<Rightarrow> string option \<Rightarrow> system_writer \<Rightarrow> (writer \<times> bool) option" where
  "counted ident admin x =
     (case (sw_value x, ident (to_hex (sw_key x))) of
        (Some (indexing, removed), Some (Some w)) \<Rightarrow>
          if length (sw_key x) = WRITER_BYTE_LENGTH \<and> \<not> (indexing \<and> Some (wr_address w) \<noteq> admin) then Some (w, removed) else None
      | _ \<Rightarrow> None)"

definition apply_counted :: "(writer \<times> bool) option \<Rightarrow> (string \<times> writer) list \<Rightarrow> (string \<times> writer) list" where
  "apply_counted c active =
     (case c of None \<Rightarrow> active
      | Some (w, removed) \<Rightarrow> if removed then AList.delete (wr_address w) active else AList.update (wr_address w) w active)"

text \<open>The entries that the scan reads: those before the turn that finds the observer stopped, or an entry whose key the library refuses.\<close>

definition key_refused :: "(string \<Rightarrow> writer option option) \<Rightarrow> system_writer \<Rightarrow> bool" where
  "key_refused ident x \<longleftrightarrow> length (sw_key x) = WRITER_BYTE_LENGTH \<and> sw_value x \<noteq> None \<and> ident (to_hex (sw_key x)) = None"

fun entries_read :: "(nat \<Rightarrow> bool) \<Rightarrow> (string \<Rightarrow> writer option option) \<Rightarrow> nat \<Rightarrow> system_writer list \<Rightarrow> system_writer list" where
  "entries_read running ident k [] = []"
| "entries_read running ident k (x # xs) = (if \<not> running k \<or> key_refused ident x then [] else x # entries_read running ident (Suc k) xs)"

lemma entries_read_all:
  "(\<And>i. i < k + length xs \<Longrightarrow> running i) \<Longrightarrow> list_all (\<lambda>x. \<not> key_refused ident x) xs \<Longrightarrow> entries_read running ident k xs = xs"
  by (induction xs arbitrary: k) auto

lemma prefix_entries_read: "prefix (entries_read running ident k xs) xs"
  by (induction xs arbitrary: k) auto

lemma connected_stale: "connected k (enforceNoStaleConnections key p) \<longleftrightarrow> connected k p \<and> k \<noteq> key"
  by (auto simp: enforceNoStaleConnections_def connected_remove)

text \<open>The connections that a scan ends: those of the writers that an entry says are removed.\<close>

definition dropped :: "(string \<Rightarrow> writer option option) \<Rightarrow> string option \<Rightarrow> system_writer list \<Rightarrow> string \<Rightarrow> bool" where
  "dropped ident admin xs key \<longleftrightarrow>
     list_ex (\<lambda>x. case counted ident admin x of Some (w, removed) \<Rightarrow> removed \<and> wr_publicKey w = key | None \<Rightarrow> False) xs"

lemma scan_fold:
  assumes "scan_writers E decode s running k admin xs cache active p = (cache', active', p')"
  shows "active' = fold (\<lambda>x. apply_counted (counted (known E decode s cache) admin x)) (entries_read running (known E decode s cache) k xs) active \<and>
    (\<forall>key. connected key p' \<longleftrightarrow> connected key p \<and> \<not> dropped (known E decode s cache) admin (entries_read running (known E decode s cache) k xs) key)"
  using assms
proof (induction xs arbitrary: k cache active p)
  case (Cons x xs)
  let ?key = "to_hex (sw_key x)"
  show ?case
  proof (cases "running k \<and> length (sw_key x) = WRITER_BYTE_LENGTH \<and> sw_value x \<noteq> None")
    case False
    show ?thesis
    proof (cases "running k")
      case True
      then have "counted (known E decode s cache) admin x = None" "\<not> key_refused (known E decode s cache) x"
        using False by (auto simp: counted_def key_refused_def split: option.splits prod.splits)
      moreover have "scan_writers E decode s running (Suc k) admin xs cache active p = (cache', active', p')"
        using Cons.prems True False by (cases "sw_value x") (simp_all add: Let_def split: if_splits)
      ultimately show ?thesis using Cons.IH True by (simp add: apply_counted_def dropped_def)
    next
      case False
      then show ?thesis using Cons.prems by (simp add: Let_def dropped_def)
    qed
  next
    case True
    then obtain indexing removed where v: "sw_value x = Some (indexing, removed)" by auto
    show ?thesis
    proof (cases "decode_writer E decode s ?key cache")
      case None
      then have "known E decode s cache ?key = None" using known_decode [of E decode s ?key cache] by simp
      then show ?thesis using Cons.prems True None v by (auto simp: key_refused_def dropped_def)
    next
      case (Some r)
      obtain d cache1 where c: "decode_writer E decode s ?key cache = Some (d, cache1)" using Some by (cases r) simp
      then have d: "known E decode s cache ?key = Some d" using known_decode [of E decode s ?key cache] by simp
      note ih = Cons.IH [of "Suc k" cache1, unfolded known_keeps [OF c]]
      have read: "entries_read running (known E decode s cache) k (x # xs) = x # entries_read running (known E decode s cache) (Suc k) xs"
        using True d by (simp add: key_refused_def)
      note step = Cons.prems [unfolded scan_writers.simps Let_def, simplified True v c option.case prod.case simp_thms if_True if_False]
      consider "counted (known E decode s cache) admin x = None" "scan_writers E decode s running (Suc k) admin xs cache1 active p = (cache', active', p')"
        | w where "counted (known E decode s cache) admin x = Some (w, True)"
            "scan_writers E decode s running (Suc k) admin xs cache1 (AList.delete (wr_address w) active)
              (enforceNoStaleConnections (wr_publicKey w) p) = (cache', active', p')"
        | w where "counted (known E decode s cache) admin x = Some (w, False)"
            "scan_writers E decode s running (Suc k) admin xs cache1 (AList.update (wr_address w) w active) p = (cache', active', p')"
        using step True v d by (cases d; cases removed) (simp_all add: counted_def split: if_splits)
      then show ?thesis
      proof cases
        case 1
        show ?thesis using ih [OF 1(2)] 1(1) unfolding read by (simp add: apply_counted_def dropped_def)
      next
        case 2
        show ?thesis using ih [OF 2(2)] 2(1) unfolding read by (auto simp add: apply_counted_def dropped_def connected_stale)
      next
        case 3
        show ?thesis using ih [OF 3(2)] 3(1) unfolding read by (simp add: apply_counted_def dropped_def)
      qed
    qed
  qed
qed (simp add: dropped_def)

text \<open>The last entry that counts for an address decides.\<close>

definition last_counted :: "(string \<Rightarrow> writer option option) \<Rightarrow> string option \<Rightarrow> system_writer list \<Rightarrow> string \<Rightarrow>
    (writer \<times> bool) option" where
  "last_counted ident admin xs a = List.find (\<lambda>(w, _). wr_address w = a) (rev (List.map_filter (counted ident admin) xs))"

lemma fold_counted:
  "map_of (fold (\<lambda>x. apply_counted (counted ident admin x)) xs []) a =
     (case last_counted ident admin xs a of Some (w, False) \<Rightarrow> Some w | _ \<Rightarrow> None)"
proof (induction xs rule: rev_induct)
  case (snoc x xs)
  show ?case
  proof (cases "counted ident admin x")
    case None
    then show ?thesis using snoc by (simp add: apply_counted_def last_counted_def map_filter_def)
  next
    case (Some c)
    obtain w removed where c: "c = (w, removed)" by fastforce
    show ?thesis using snoc Some c
      by (auto simp: apply_counted_def last_counted_def map_filter_def update_conv' delete_conv')
  qed
qed (simp add: last_counted_def map_filter_def)

lemma fold_distinct: "distinct (map fst active) \<Longrightarrow> distinct (map fst (fold (\<lambda>x. apply_counted (f x)) xs active))"
  by (induction xs arbitrary: active)
    (auto simp: apply_counted_def distinct_update distinct_delete split: option.split prod.split)

lemma last_counted_address: "last_counted ident admin xs a = Some (w, r) \<Longrightarrow> wr_address w = a"
  by (auto simp: last_counted_def find_Some_iff)

lemma writers_scanned:
  assumes "scanAutobaseWriters E decode s running admin xs cache p = (cache', writers, p')"
    and "ident = known E decode s (if length cache > MAX_KEY_DECODE_CACHE_SIZE then [] else cache)"
    and "ys = entries_read running ident 0 xs"
  shows "distinct (map wr_address writers)" "w \<in> set writers \<longleftrightarrow> last_counted ident admin ys (wr_address w) = Some (w, False)"
    "connected key p' \<longleftrightarrow> connected key p \<and> \<not> dropped ident admin ys key"
proof -
  let ?active = "fold (\<lambda>x. apply_counted (counted ident admin x)) ys []"
  let ?cache = "if length cache > MAX_KEY_DECODE_CACHE_SIZE then [] else cache"
  obtain c a q where scan: "scan_writers E decode s running 0 admin xs ?cache [] p = (c, a, q)" by (metis prod_cases3)
  then have "a = ?active" "connected key q \<longleftrightarrow> connected key p \<and> \<not> dropped ident admin ys key"
    using scan_fold [OF scan] assms(2,3) by auto
  moreover have eq: "writers = map snd a" "p' = q"
    using assms(1) scan by (auto simp: scanAutobaseWriters_def Let_def)
  ultimately have writers: "writers = map snd ?active" by simp
  show "connected key p' \<longleftrightarrow> connected key p \<and> \<not> dropped ident admin ys key"
    using scan_fold [OF scan] assms(2,3) eq by auto
  have d: "distinct (map fst ?active)" by (rule fold_distinct) simp
  then have active: "(k, w) \<in> set ?active \<longleftrightarrow> last_counted ident admin ys k = Some (w, False)" for k w
    unfolding map_of_eq_Some_iff [OF d, symmetric] fold_counted by (simp split: option.split prod.split bool.split)
  have "map wr_address (map snd ?active) = map fst ?active"
    using active last_counted_address by fastforce
  then show "distinct (map wr_address writers)" using d by (simp only: writers)
  show "w \<in> set writers \<longleftrightarrow> last_counted ident admin ys (wr_address w) = Some (w, False)"
    using active last_counted_address unfolding writers by force
qed

end
