(* ===== verification/Scheduler.thy ===== *)
theory Scheduler
  imports Observer Services
begin

text \<open>
  \<open>src/utils/Scheduler.js\<close>, the timer that drives a worker, and the two services that start and stop one: the transaction pool and the
  observer of validators; and \<open>Network.js\<close>, which opens and closes them with the others. The timeouts of the platform that have not fired are part of the state, each with its handle, and so are the runs of
  the worker in flight; which of them ends next is the order of the steps. The worker is asynchronous: calling it does not throw.
\<close>

section \<open>The scheduler\<close>

text \<open>What \<open>Number\<close> makes of a delay.\<close>

datatype js_number = Finite int | NotFinite

definition validateDelay :: "js_number \<Rightarrow> int option" where
  "validateDelay delayMs = (case delayMs of NotFinite \<Rightarrow> None | Finite ms \<Rightarrow> if ms < 0 then None else Some ms)"

record scheduler =
  sch_defaultInterval :: int
  sch_isRunning :: bool
  sch_timer :: "nat option"
  sch_currentWorkerRun :: bool
  sch_timeouts :: "(nat \<times> int) list"
  sch_handles :: nat
  sch_runs :: nat

definition new_scheduler :: "js_number option \<Rightarrow> scheduler option" where
  "new_scheduler defaultInterval =
     map_option (\<lambda>interval. \<lparr>sch_defaultInterval = interval, sch_isRunning = False, sch_timer = None, sch_currentWorkerRun = False,
         sch_timeouts = [], sch_handles = 0, sch_runs = 0\<rparr>)
       (validateDelay (case defaultInterval of None \<Rightarrow> Finite 100 | Some d \<Rightarrow> d))"

definition setTimeout :: "int \<Rightarrow> scheduler \<Rightarrow> scheduler" where
  "setTimeout ms sc =
     sc\<lparr>sch_timer := Some (sch_handles sc), sch_timeouts := sch_timeouts sc @ [(sch_handles sc, ms)], sch_handles := Suc (sch_handles sc)\<rparr>"

text \<open>\<open>None\<close> is the exception of an invalid delay.\<close>

definition next_timeout :: "js_number \<Rightarrow> scheduler \<Rightarrow> scheduler option" where
  "next_timeout delayMs sc =
     (if \<not> sch_isRunning sc then Some sc else map_option (\<lambda>ms. setTimeout ms sc) (validateDelay delayMs))"

definition start_scheduler :: "js_number \<Rightarrow> scheduler \<Rightarrow> scheduler option" where
  "start_scheduler initialDelayMs sc =
     (if sch_isRunning sc then Some sc
      else case validateDelay initialDelayMs of
        None \<Rightarrow> None
      | Some delayMs \<Rightarrow> next_timeout (Finite delayMs) (sc\<lparr>sch_isRunning := True\<rparr>))"

text \<open>The callback of a timeout up to its wait for the worker; a scheduler that was stopped does nothing.\<close>

definition fire :: "nat \<Rightarrow> scheduler \<Rightarrow> scheduler" where
  "fire handle sc =
     (let sc = sc\<lparr>sch_timeouts := filter (\<lambda>(h, ms). h \<noteq> handle) (sch_timeouts sc)\<rparr>
      in if \<not> sch_isRunning sc then sc else sc\<lparr>sch_currentWorkerRun := True, sch_runs := sch_runs sc + 1\<rparr>)"

text \<open>
  How a run ends: with an exception, or after it has called \<open>scheduleNext\<close> with these delays. One that is not valid throws into the worker, and
  leaves the delay as it was, at first \<open>null\<close>, which counts as 0.
\<close>

datatype run_end = Failed | Ended "js_number list"

definition run_delay :: "scheduler \<Rightarrow> run_end \<Rightarrow> js_number" where
  "run_delay sc e =
     (case e of
        Failed \<Rightarrow> Finite (sch_defaultInterval sc)
      | Ended calls \<Rightarrow>
          if calls = [] then Finite (sch_defaultInterval sc)
          else case List.map_filter validateDelay calls of [] \<Rightarrow> Finite 0 | valid \<Rightarrow> Finite (last valid))"

definition finish_run :: "run_end \<Rightarrow> scheduler \<Rightarrow> scheduler option" where
  "finish_run e sc =
     (let sc = sc\<lparr>sch_currentWorkerRun := False, sch_runs := sch_runs sc - 1\<rparr>
      in if sch_isRunning sc then next_timeout (run_delay sc e) sc else Some sc)"

text \<open>Whether the caller has to wait for the run in flight.\<close>

definition stop_scheduler :: "bool \<Rightarrow> scheduler \<Rightarrow> bool \<times> scheduler" where
  "stop_scheduler waitForCurrent sc =
     (if \<not> sch_isRunning sc then (False, sc)
      else let sc = sc\<lparr>sch_isRunning := False\<rparr>;
               sc = (case sch_timer sc of
                 None \<Rightarrow> sc
               | Some timer \<Rightarrow> sc\<lparr>sch_timeouts := filter (\<lambda>(h, ms). h \<noteq> timer) (sch_timeouts sc), sch_timer := None\<rparr>)
           in (waitForCurrent \<and> sch_currentWorkerRun sc, sc))"

section \<open>Runs\<close>

datatype sched_label = Start js_number | Fire nat | Finish run_end | Stop bool

text \<open>A patient caller does not start the scheduler while a run is in flight, as one that waits for \<open>stop\<close>.\<close>

inductive sched_step :: "bool \<Rightarrow> sched_label \<Rightarrow> scheduler \<Rightarrow> scheduler \<Rightarrow> bool" for patient where
  "start_scheduler d sc = Some sc' \<Longrightarrow> (if patient then sch_runs sc = 0 else True) \<Longrightarrow> sched_step patient (Start d) sc sc'"
| "h \<in> fst ` set (sch_timeouts sc) \<Longrightarrow> sched_step patient (Fire h) sc (fire h sc)"
| "0 < sch_runs sc \<Longrightarrow> finish_run e sc = Some sc' \<Longrightarrow> sched_step patient (Finish e) sc sc'"
| "sched_step patient (Stop b) sc (snd (stop_scheduler b sc))"

inductive_simps sched_step_simps: "sched_step patient (Start d) sc sc'" "sched_step patient (Fire h) sc sc'"
  "sched_step patient (Finish e) sc sc'" "sched_step patient (Stop b) sc sc'"

inductive sched_run :: "bool \<Rightarrow> js_number option \<Rightarrow> sched_label list \<Rightarrow> scheduler \<Rightarrow> bool" for patient interval where
  "new_scheduler interval = Some sc \<Longrightarrow> sched_run patient interval [] sc"
| "sched_run patient interval ls sc \<Longrightarrow> sched_step patient l sc sc' \<Longrightarrow> sched_run patient interval (ls @ [l]) sc'"

text \<open>The timeouts and the runs in flight are at most one together, exactly one while the scheduler runs; and a timeout is the one that \<open>stop\<close> clears.\<close>

definition sched_ok :: "scheduler \<Rightarrow> bool" where
  "sched_ok sc \<longleftrightarrow> 0 \<le> sch_defaultInterval sc \<and> sch_runs sc \<le> 1 \<and> (sch_currentWorkerRun sc \<longleftrightarrow> sch_runs sc = 1) \<and>
     (if sch_isRunning sc
      then (if sch_runs sc = 1 then sch_timeouts sc = [] else (\<exists>h ms. sch_timeouts sc = [(h, ms)] \<and> sch_timer sc = Some h \<and> 0 \<le> ms))
      else sch_timeouts sc = [])"

lemma run_delay_valid: "0 \<le> sch_defaultInterval sc \<Longrightarrow> \<exists>ms. run_delay sc e = Finite ms \<and> 0 \<le> ms"
proof (cases e)
  case (Ended calls)
  have "0 \<le> ms" if "ms \<in> set (List.map_filter validateDelay calls)" for ms
    using that by (auto simp: List.map_filter_def validateDelay_def split: js_number.splits if_splits)
  then have "0 \<le> last (List.map_filter validateDelay calls)" if "List.map_filter validateDelay calls \<noteq> []" using that by simp
  then show "0 \<le> sch_defaultInterval sc \<Longrightarrow> ?thesis" using Ended by (auto simp: run_delay_def split: list.split)
qed (simp add: run_delay_def)

lemma sched_step_ok:
  assumes "sched_step True l sc sc'" "sched_ok sc"
  shows "sched_ok sc'"
  using assms(1)
proof cases
  case (1 d)
  then show ?thesis
    using assms(2)
    by (auto simp: sched_ok_def start_scheduler_def next_timeout_def setTimeout_def validateDelay_def split: if_splits option.splits js_number.splits)
next
  case (2 h)
  then show ?thesis using assms(2) by (auto simp: sched_ok_def fire_def Let_def split: if_splits)
next
  case (3 e)
  define sc1 where "sc1 = sc\<lparr>sch_currentWorkerRun := False, sch_runs := sch_runs sc - 1\<rparr>"
  obtain ms where "run_delay sc1 e = Finite ms" "0 \<le> ms"
    using run_delay_valid [of sc1 e] assms(2) by (auto simp: sc1_def sched_ok_def)
  then show ?thesis
    using 3 assms(2)
    by (auto simp: finish_run_def sc1_def [symmetric] Let_def next_timeout_def setTimeout_def validateDelay_def sched_ok_def split: if_splits)
      (auto simp: sc1_def sched_ok_def)
next
  case (4 b)
  then show ?thesis using assms(2) by (auto simp: sched_ok_def stop_scheduler_def Let_def split: if_splits option.splits)
qed

lemma sched_run_ok: "sched_run True interval ls sc \<Longrightarrow> sched_ok sc"
proof (induction rule: sched_run.induct)
  case (1 sc)
  then show ?case by (auto simp: new_scheduler_def sched_ok_def validateDelay_def split: option.splits js_number.splits if_splits)
qed (rule sched_step_ok)

text \<open>With any caller: as many timeouts and runs as starts at most; and one start needs no patience.\<close>

fun is_start :: "sched_label \<Rightarrow> bool" where
  "is_start (Start _) \<longleftrightarrow> True"
| "is_start _ \<longleftrightarrow> False"

definition starts_in :: "sched_label list \<Rightarrow> nat" where
  "starts_in ls = length (filter is_start ls)"

lemma starts_in_simps [simp]: "starts_in [] = 0" "starts_in (ls @ [l]) = starts_in ls + (if is_start l then 1 else 0)"
  by (simp_all add: starts_in_def)

definition in_flight :: "scheduler \<Rightarrow> nat" where
  "in_flight sc = length (sch_timeouts sc) + sch_runs sc"

lemma filter_handle: "h \<in> fst ` set xs \<Longrightarrow> length (filter (\<lambda>(h', ms). h' \<noteq> h) xs) < length xs"
  by (erule imageE) (rule length_filter_less, auto)

lemma next_timeout_count: "next_timeout d sc = Some sc' \<Longrightarrow> in_flight sc' \<le> Suc (in_flight sc)"
  by (auto simp: next_timeout_def setTimeout_def in_flight_def split: if_splits)

lemma sched_step_count:
  assumes "sched_step patient l sc sc'"
  shows "in_flight sc' \<le> in_flight sc + (if is_start l then 1 else 0)"
  using assms
proof cases
  case (1 d)
  then show ?thesis
    using next_timeout_count [of _ "sc\<lparr>sch_isRunning := True\<rparr>" sc']
    by (fastforce simp: start_scheduler_def in_flight_def split: if_splits option.splits)
next
  case (2 h)
  then show ?thesis using filter_handle [of h "sch_timeouts sc"] by (simp add: fire_def in_flight_def Let_def)
next
  case (3 e)
  then show ?thesis
    using next_timeout_count [of "run_delay (sc\<lparr>sch_currentWorkerRun := False, sch_runs := sch_runs sc - 1\<rparr>) e"
        "sc\<lparr>sch_currentWorkerRun := False, sch_runs := sch_runs sc - 1\<rparr>" sc']
    by (auto simp: finish_run_def in_flight_def Let_def split: if_splits)
next
  case (4 b)
  then show ?thesis
    by (auto simp: stop_scheduler_def in_flight_def Let_def split: option.split)
qed

lemma sched_run_count: "sched_run patient interval ls sc \<Longrightarrow> in_flight sc \<le> starts_in ls"
proof (induction rule: sched_run.induct)
  case (1 sc)
  then show ?case by (auto simp: new_scheduler_def in_flight_def split: option.splits)
next
  case (2 ls sc l sc')
  then show ?case using sched_step_count [OF 2(2)] by simp
qed

lemma sched_run_once: "sched_run patient interval ls sc \<Longrightarrow> patient \<or> starts_in ls \<le> 1 \<Longrightarrow> sched_run True interval ls sc"
proof (induction rule: sched_run.induct)
  case (1 sc)
  show ?case by (rule sched_run.intros(1) [OF 1(1)])
next
  case (2 ls sc l sc')
  have run: "sched_run True interval ls sc" using 2 by (auto split: if_splits)
  have "sch_runs sc = 0" if "is_start l" "\<not> patient"
    using sched_run_count [OF 2(1)] 2(4) that by (simp add: in_flight_def)
  then have "sched_step True l sc sc'"
    using 2(2) by (cases l) (auto simp: sched_step_simps split: if_splits)
  then show ?case by (rule sched_run.intros(2) [OF run])
qed

section \<open>The services that have one\<close>

record pool_service =
  tp_scheduler :: "scheduler option"
  tp_services :: services

definition runs_already :: "scheduler option \<Rightarrow> bool" where
  "runs_already scheduler = (case scheduler of None \<Rightarrow> False | Some sc \<Rightarrow> sch_isRunning sc)"

definition started_scheduler :: "js_number \<Rightarrow> scheduler option" where
  "started_scheduler interval =
     (case new_scheduler (Some interval) of None \<Rightarrow> None | Some sc \<Rightarrow> start_scheduler (Finite 0) sc)"

definition startPool :: "bool \<Rightarrow> js_number \<Rightarrow> pool_service \<Rightarrow> pool_service option" where
  "startPool enableWallet processIntervalMs ps =
     (if \<not> enableWallet then Some ps
      else if runs_already (tp_scheduler ps) then Some ps
      else map_option (\<lambda>sc. ps\<lparr>tp_scheduler := Some sc\<rparr>) (started_scheduler processIntervalMs))"

text \<open>The end of a run of the pool's worker: \<open>failed\<close> says whether the batch threw.\<close>

definition pool_run_end :: "bool \<Rightarrow> js_number \<Rightarrow> services \<Rightarrow> run_end" where
  "pool_run_end failed processIntervalMs svc =
     (if failed then Failed else if length (txPool svc) > 0 then Ended [Finite 0] else Ended [processIntervalMs])"

text \<open>\<open>stopPool\<close> and \<open>stopValidatorObserver\<close> with the wait behind them.\<close>

definition stopPoolService :: "pool_service \<Rightarrow> pool_service" where
  "stopPoolService ps =
     (case tp_scheduler ps of None \<Rightarrow> ps | Some sc \<Rightarrow> ps\<lparr>tp_scheduler := None, tp_services := stopPool (tp_services ps)\<rparr>)"

record observer_service =
  os_scheduler :: "scheduler option"
  os_isInterrupted :: bool
  os_observer :: observer

definition shouldRun :: "bool \<Rightarrow> observer_service \<Rightarrow> bool" where
  "shouldRun enableValidatorObserver os \<longleftrightarrow> enableValidatorObserver \<and> \<not> os_isInterrupted os"

definition startObserver :: "bool \<Rightarrow> js_number \<Rightarrow> int \<Rightarrow> observer_service \<Rightarrow> observer_service option" where
  "startObserver enableValidatorObserver pollInterval now os =
     (if \<not> shouldRun enableValidatorObserver os then Some os
      else if runs_already (os_scheduler os) then Some os
      else map_option (\<lambda>sc. os\<lparr>os_scheduler := Some sc, os_isInterrupted := False,
             os_observer := (os_observer os)\<lparr>ob_bootstrapStartedAt := now, ob_hasBootstrapped := False\<rparr>\<rparr>)
           (started_scheduler pollInterval))"

definition stopValidatorObserver :: "observer_service \<Rightarrow> observer_service" where
  "stopValidatorObserver os =
     (case os_scheduler os of None \<Rightarrow> os | Some sc \<Rightarrow> os\<lparr>os_isInterrupted := True, os_scheduler := None\<rparr>)"

text \<open>The flag that \<open>stopValidatorObserver\<close> sets keeps \<open>start\<close> from clearing it: an observer that was stopped never runs again.\<close>

lemma observer_not_restarted:
  assumes "os_scheduler os \<noteq> None"
  shows "startObserver enable interval now (stopValidatorObserver os) = Some (stopValidatorObserver os)"
  using assms by (auto simp: startObserver_def stopValidatorObserver_def shouldRun_def)

section \<open>Opening and closing the network\<close>

text \<open>The services that \<open>Network.js\<close> owns, with the connections it waits for.\<close>

record network_services =
  nt_pool :: pool_service
  nt_observer :: observer_service
  nt_network :: network
  nt_requests :: requests

text \<open>\<open>_open\<close> does not wait for the two services, so that an exception of theirs is lost.\<close>

definition openNetwork :: "bool \<Rightarrow> js_number \<Rightarrow> bool \<Rightarrow> js_number \<Rightarrow> int \<Rightarrow> network_services \<Rightarrow> network_services" where
  "openNetwork enableWallet processIntervalMs enableValidatorObserver pollInterval now nt =
     (let nt = (case startPool enableWallet processIntervalMs (nt_pool nt) of None \<Rightarrow> nt | Some ps \<Rightarrow> nt\<lparr>nt_pool := ps\<rparr>)
      in case startObserver enableValidatorObserver pollInterval now (nt_observer nt) of
           None \<Rightarrow> nt | Some os \<Rightarrow> nt\<lparr>nt_observer := os\<rparr>)"

definition closeHealthChecks :: "network \<Rightarrow> network" where
  "closeHealthChecks nw = nw\<lparr>nw_pool := (stopAllHealthChecks (nw_pool nw))\<lparr>pl_timers := []\<rparr>\<rparr>"

definition cleanupPendingConnections :: "network \<Rightarrow> network" where
  "cleanupPendingConnections nw = nw\<lparr>nw_pending := []\<rparr>"

text \<open>\<open>_close\<close>; what happens during its two pauses is an argument each.\<close>

definition closeNetwork :: "(network_services \<Rightarrow> network_services) \<Rightarrow> (network_services \<Rightarrow> network_services) \<Rightarrow> network_services \<Rightarrow> network_services" where
  "closeNetwork pause1 pause2 nt =
     (let nt = nt\<lparr>nt_pool := stopPoolService (nt_pool nt)\<rparr>;
          nt = pause1 nt;
          nt = nt\<lparr>nt_observer := stopValidatorObserver (nt_observer nt)\<rparr>;
          nt = pause2 nt;
          nt = nt\<lparr>nt_network := closeHealthChecks (nt_network nt)\<rparr>;
          nt = nt\<lparr>nt_network := cleanupPendingConnections (nt_network nt)\<rparr>;
          nt = nt\<lparr>nt_requests := closeRequests (nt_requests nt)\<rparr>
      in nt\<lparr>nt_pool := (nt_pool nt)\<lparr>tp_services := closeCommits (tp_services (nt_pool nt))\<rparr>\<rparr>)"

text \<open>Whatever came in during the pauses, nobody is left to wait: every promise of a commit and of a request is settled, and no timer is left.\<close>

lemma nobody_waits:
  assumes "closeNetwork pause1 pause2 nt = nt'"
  shows "pendingCommits (tp_services (nt_pool nt')) = []" "rq_pending (nt_requests nt') = []" "nw_pending (nt_network nt') = []"
    "pl_timers (nw_pool (nt_network nt')) = []"
  using assms by (auto simp: closeNetwork_def Let_def closeCommits_def closeRequests_def cleanupPendingConnections_def closeHealthChecks_def)

end
