(* ===== verification/Pool_Claims.thy ===== *)
theory Pool_Claims
  imports Services_Spec Pool_Spec Observer_Spec Response_Claims Scheduler
begin

text \<open>
  Properties of the pool of validators: its bounds, what sending a message through it means, how often it is
  tried, the scan of the writers, and the scheduler behind the services.
\<close>

section \<open>The concrete network\<close>

text \<open>Two connected validators, the first of them twice on the way.\<close>

definition xpool :: pool where
  "xpool = \<lparr>pl_validators = [(''k1'', \<lparr>ve_connection = Some 1, ve_sent = 0\<rparr>), (''k2'', \<lparr>ve_connection = Some 2, ve_sent = 0\<rparr>),
     (''k3'', \<lparr>ve_connection = Some 3, ve_sent = 0\<rparr>)], pl_timers = [], pl_listeners = [], pl_ended = []\<rparr>"

definition xsend :: send_config where
  "xsend = \<lparr>sc_maxRetries = 1, sc_messageThreshold = 3, sc_address = (\<lambda>k. k)\<rparr>"

definition xattempt :: "protocol \<Rightarrow> attempt" where
  "xattempt pr = \<lparr>at_index = 0, at_protocol = Some pr, at_legacy = LegacyThrows, at_built = True, at_closedBefore = [], at_v1 = Result RC_OK,
     at_closedAfter = []\<rparr>"

lemma xpool_ok: "pool_ok 3 xpool" "connectionCount xpool = 3"
  by (simp_all add: pool_ok_def xpool_def connectionCount_def connectedValidators_def connected_def)

section \<open>Properties\<close>

text \<open>C28. In every state that the network reaches, whatever the order of attempts, new and
  lost connections, probes, health checks and answers, the pool holds no validator twice and never more connections than
  the maximum, and no key waits twice and never more keys than allowed.\<close>

theorem pool_bounded:
  assumes "net_run n maxPending nw"
  shows "distinct (pool_keys (nw_pool nw)) \<and> connectionCount (nw_pool nw) \<le> n \<and> distinct (map fst (nw_pending nw)) \<and>
    length (nw_pending nw) \<le> maxPending"
  using net_run_ok [OF assms] by (simp add: net_ok_def pool_ok_def)

theorem pool_bounded_witness:
  "\<exists>nw. net_run 1 5 nw \<and> connectionCount (nw_pool nw) = 1 \<and> connectionCount (nw_pool nw) \<le> 1"
proof -
  let ?start = "\<lparr>nw_pending = [], nw_probing = [], nw_pool = empty_pool\<rparr>" and ?ss = "\<lparr>ss_preferredProtocol = Some V1, ss_activeProtocol = V1\<rparr>"
  let ?next = "snd (tryConnect 5 1 (Some (7, ?ss)) False ''k1'' (Some ''validator'') ?start)"
  have "net_run 1 5 ?next" by (rule net_next [OF net_start net_try])
  moreover have "connectionCount (nw_pool ?next) = 1"
    by (simp add: tryConnect_def isConnectionPending_def Let_def finalizeConnection_def connectionReady_def isProbed_def addReadyValidator_def
      addValidator_def maxConnectionsReached_def connectionCount_def connectedValidators_def connected_def empty_pool_def existsValidator_def
      appendValidator_def isHealthCheckSupported_def startHealthCheck_def)
  ultimately show ?thesis using pool_bounded by blast
qed

text \<open>C29. Sending a message ends after at most \<open>2 ^ (maxRetries + 1) - 1\<close> attempts, after at most
  \<open>maxRetries + 1\<close> when no connection speaks the legacy protocol, and keeps the pool well formed. If it reports success, the
  operation appeared in the ledger or a validator answered OK in one of the attempts.\<close>

theorem send_bounded:
  assumes "pool_ok n p" "send cfg as who 0 (0, p) = (sent, k, p')"
  shows "k \<le> 2 ^ (sc_maxRetries cfg + 1) - 1 \<and> ((\<forall>j. at_protocol (as j) \<noteq> Some LEGACY) \<longrightarrow> k \<le> sc_maxRetries cfg + 1) \<and> pool_ok n p' \<and>
    (sent = Some True \<longrightarrow> (\<exists>j < k. attempt_succeeded (as j)))"
proof -
  have "k \<le> sc_maxRetries cfg + 1" if "\<And>j. at_protocol (as j) \<noteq> Some LEGACY"
    using v1_attempts [where as = as and cfg = cfg and requester = who and retries = 0 and k = 0 and p = p] assms(2) that by simp
  then show ?thesis
    using send_well [OF assms(1), of as 0 cfg who 0] assms(2) by (auto simp: sends_well_def attempts_left_def)
qed

theorem send_bounded_witness:
  "\<exists>k p'. send xsend (\<lambda>j. xattempt V1) None 0 (0, xpool) = (Some True, k, p') \<and> k \<le> 2 \<and> pool_ok 3 p' \<and> (\<exists>j < k. attempt_succeeded (xattempt V1))"
proof -
  obtain k p' where s: "send xsend (\<lambda>j. xattempt V1) None 0 (0, xpool) = (Some True, k, p')"
    by (simp add: send.simps xsend_def xattempt_def pickValidatorForMessage_def pickRandomConnectedValidator_def pickRandomValidator_def
      connectedValidators_def connected_def xpool_def close_all_def v1_action_def resultToValidatorAction_def SUCCESS_CODES_def)
  from send_bounded [OF xpool_ok(1) s] show ?thesis using s by (auto simp: xsend_def xattempt_def)
qed

text \<open>With validators of the legacy protocol that all fail the bound is reached: the failure of an
  attempt sends the message again in the handler of the exception and, when that has failed, once more after it, each
  time with one retry less; so with enough validators there are \<open>2 ^ (maxRetries + 1) - 1\<close> attempts and as many validators
  may be lost, not one per retry.\<close>

theorem legacy_retries:
  assumes "pool_ok n p" "2 ^ (sc_maxRetries cfg + 1) - 1 \<le> connectionCount p"
    and "\<And>j. at_protocol (as j) = Some LEGACY" "\<And>j. at_legacy (as j) = LegacyThrows" "\<And>j. at_closedAfter (as j) = []"
  shows "\<exists>p'. send cfg as who 0 (0, p) = (Some False, 2 ^ (sc_maxRetries cfg + 1) - 1, p')"
  using legacy_attempts [of as n p cfg 0 who 0] assms by (auto simp: attempts_left_def)

theorem legacy_retries_witness: "\<exists>p'. send xsend (\<lambda>j. xattempt LEGACY) None 0 (0, xpool) = (Some False, 3, p')"
  using legacy_retries [OF xpool_ok(1), of xsend "\<lambda>j. xattempt LEGACY" None] xpool_ok(2) by (simp add: xsend_def xattempt_def)

text \<open>C31. The scan of the writers, whatever its cache holds, whenever the observer is stopped and whichever key the library refuses: it reads the
  entries before the turn that finds the observer stopped or a key that is refused, and what it lists are exactly the addresses
  whose last entry that counts, among those read and in their order, is not removed, each once, with the identity of the key, which is what the
  cache remembers of it, or else what the store says. It ends the connections of the writers that an entry it read says are removed,
  and no other. If the cache tells what the store now says, the observer runs and no key is refused, that holds of all
  entries and of the identities of the store. The order is that of the list, not of time: an old key of an address that was removed and comes
  after its active one takes it off the list.\<close>

theorem scan_exact:
  assumes "scanAutobaseWriters E decode s running admin xs cache p = (cache', writers, p')"
  shows "\<exists>ident ys. ident = known E decode s (if length cache > MAX_KEY_DECODE_CACHE_SIZE then [] else cache) \<and>
    ys = entries_read running ident 0 xs \<and> prefix ys xs \<and>
    (cache_sound E decode s cache \<and> (\<forall>i < length xs. running i) \<and> list_all (\<lambda>x. identity E decode s (to_hex (sw_key x)) \<noteq> None) xs \<longrightarrow>
       ys = xs \<and> ident = identity E decode s) \<and>
    distinct (map wr_address writers) \<and> (\<forall>w. w \<in> set writers \<longleftrightarrow> last_counted ident admin ys (wr_address w) = Some (w, False)) \<and>
    (\<forall>key. connected key p' \<longleftrightarrow> connected key p \<and> \<not> dropped ident admin ys key)"
proof -
  define ident where "ident = known E decode s (if length cache > MAX_KEY_DECODE_CACHE_SIZE then [] else cache)"
  define ys where "ys = entries_read running ident 0 xs"
  have "ys = xs \<and> ident = identity E decode s"
    if "cache_sound E decode s cache" "\<forall>i < length xs. running i" "list_all (\<lambda>x. identity E decode s (to_hex (sw_key x)) \<noteq> None) xs"
  proof -
    have i: "ident = identity E decode s" using that(1) unfolding ident_def by (intro known_sound) (simp add: cache_sound_def)
    have "list_all (\<lambda>x. \<not> key_refused ident x) xs" using that(3) by (simp add: i key_refused_def list_all_iff)
    then show ?thesis using i that(2) entries_read_all [of 0 xs running ident] by (simp add: ys_def)
  qed
  then show ?thesis
    using writers_scanned [OF assms ident_def ys_def] prefix_entries_read [of running ident 0 xs, folded ys_def] ident_def ys_def
    by (intro exI [of _ ident] exI [of _ ys] conjI allI) blast+
qed

text \<open>b with two keys: an old one that is removed, and the active one.\<close>

definition xkeys :: node_state where
  "xkeys = xview\<lparr>ns_view := xbatch(EntryType_WRITER_ADDRESS @ to_hex (xwk 5) \<mapsto> addr CHR ''b'')\<rparr>"

lemma xidentity:
  "identity penv (\<lambda>_. Some (Some xpk)) xkeys (to_hex (xwk n)) = Some (Some \<lparr>wr_address = acct CHR ''b'', wr_publicKey = to_hex xpk\<rparr>)"
  if "n = 2 \<or> n = 5"
  using that by (auto simp: identity_def decode_writer_def getRegisteredWriterKey_def st_get_def xkeys_def Let_def)

theorem scan_exact_witness:
  "\<exists>cache' p'. scanAutobaseWriters penv (\<lambda>_. Some (Some xpk)) xkeys (\<lambda>_. True) None
     [\<lparr>sw_key = xwk 5, sw_value = Some (False, True)\<rparr>, \<lparr>sw_key = xwk 2, sw_value = Some (False, False)\<rparr>] [] xpool =
       (cache', [\<lparr>wr_address = acct CHR ''b'', wr_publicKey = to_hex xpk\<rparr>], p') \<and> \<not> connected (to_hex xpk) p'"
proof -
  let ?xs = "[\<lparr>sw_key = xwk 5, sw_value = Some (False, True)\<rparr>, \<lparr>sw_key = xwk 2, sw_value = Some (False, False)\<rparr>]"
  let ?w = "\<lparr>wr_address = acct CHR ''b'', wr_publicKey = to_hex xpk\<rparr>" and ?decode = "\<lambda>_. Some (Some xpk)"
  obtain cache' writers p' where s: "scanAutobaseWriters penv ?decode xkeys (\<lambda>_. True) None ?xs [] xpool = (cache', writers, p')"
    by (metis prod_cases3)
  have c: "counted (identity penv ?decode xkeys) None (\<lparr>sw_key = xwk n, sw_value = Some (False, b)\<rparr>) = Some (?w, b)"
    if "n = 2 \<or> n = 5" for n b
    using that by (auto simp: counted_def xidentity)
  have "cache_sound penv ?decode xkeys []" "list_all (\<lambda>x. identity penv ?decode xkeys (to_hex (sw_key x)) \<noteq> None) ?xs"
    by (simp_all add: cache_sound_def xidentity)
  then have e: "distinct (map wr_address writers)"
      "\<forall>w. w \<in> set writers \<longleftrightarrow> last_counted (identity penv ?decode xkeys) None ?xs (wr_address w) = Some (w, False)"
      "\<forall>key. connected key p' \<longleftrightarrow> connected key xpool \<and> \<not> dropped (identity penv ?decode xkeys) None ?xs key"
    using scan_exact [OF s] by auto
  have "last_counted (identity penv ?decode xkeys) None ?xs a = (if a = wr_address ?w then Some (?w, False) else None)" for a
    by (simp add: last_counted_def map_filter_def c ex_bool_eq)
  then have "w \<in> set writers \<longleftrightarrow> w = ?w" for w using e(2) by auto
  then have "set writers = {?w}" by auto
  moreover have "distinct writers" using e(1) by (simp add: distinct_map)
  ultimately have "writers = [?w]" by (cases writers; cases "tl writers"; auto)
  moreover have "\<not> connected (to_hex xpk) p'" using e(3) by (simp add: dropped_def c)
  ultimately show ?thesis using s by blast
qed

section \<open>The services of a validator\<close>

text \<open>
  Properties of the two services through which a validator publishes, over every order of their steps.
\<close>

text \<open>The settlements of a batch of valid hashes, each once.\<close>

lemma settle_all_eq:
  assumes "distinct (map fst items)" "list_all assertTxHash (map fst items)"
  shows "settle_all (map (\<lambda>i. (fst i, r (fst i))) items) s = (True, s\<lparr>
    pendingCommits := filter (\<lambda>h. h \<notin> fst ` set items) (pendingCommits s),
    settled := settled s @ map (\<lambda>i. (fst i, r (fst i))) (filter (\<lambda>i. fst i \<in> set (pendingCommits s)) items)\<rparr>)"
  using assms
proof (induction items arbitrary: s)
  case Nil
  then show ?case by simp
next
  case (Cons i items)
  then have ih: "settle_all (map (\<lambda>i. (fst i, r (fst i))) items) s = (True, s\<lparr>
    pendingCommits := filter (\<lambda>h. h \<notin> fst ` set items) (pendingCommits s),
    settled := settled s @ map (\<lambda>i. (fst i, r (fst i))) (filter (\<lambda>i. fst i \<in> set (pendingCommits s)) items)\<rparr>)" for s
    by simp
  have "x \<in> set items \<Longrightarrow> fst x \<noteq> fst i" for x using Cons.prems(1) by (auto simp: image_iff dest: sym)
  then have f: "filter (\<lambda>x. fst x \<in> set (removeAll (fst i) ps)) items = filter (\<lambda>x. fst x \<in> set ps) items" for ps
    by (intro filter_cong) auto
  have g: "filter (\<lambda>h. h \<notin> fst ` set items) (removeAll (fst i) ps) = filter (\<lambda>h. h \<notin> fst ` set (i # items)) ps" for ps
    by (auto simp: removeAll_filter_not_eq intro: filter_cong)
  have h: "fst i \<notin> set ps \<Longrightarrow> filter (\<lambda>h. h \<notin> fst ` set (i # items)) ps = filter (\<lambda>h. h \<notin> fst ` set items) ps" for ps
    by (intro filter_cong) auto
  have v: "assertTxHash (fst i)" using Cons.prems(2) by simp
  show ?case
  proof (cases "fst i \<in> set (pendingCommits s)")
    case True
    then show ?thesis using v ih f g by (simp add: settleCommit_def getAndDeletePendingCommit_def del: image_insert list.set)
  next
    case False
    then show ?thesis using v ih h by (simp add: settleCommit_def getAndDeletePendingCommit_def del: list.set)
  qed
qed

section \<open>A run\<close>

definition xh :: string where "xh = to_hex (replicate 32 7)"

lemma xh_valid: "assertTxHash xh" "xh \<noteq> []"
  by (simp_all add: assertTxHash_def xh_def length_to_hex)

definition xqueued :: services where
  "xqueued = \<lparr>pendingCommits = [xh], settled = [], txPool = [(xh, [7])], queuedTxHashes = {xh}\<rparr>"

lemma xenqueue: "enqueue 5 xh [7] no_services = (Inr (), xqueued)" "registers xh no_services"
  using xh_valid
  by (simp_all add: enqueue_def registers_def registerPendingCommit_def addTransaction_def validateEnqueue_def hasTransaction_def
      no_services_def xqueued_def)

lemma xqueued_run: "service_run 5 [Enqueue xh True] (xqueued, None)"
  using run_step [OF run_start step_enqueue [OF xenqueue(1)]] xenqueue(2) by simp

lemma xtaken_run: "service_run 5 [Enqueue xh True, Take] (xqueued\<lparr>txPool := [], queuedTxHashes := {}\<rparr>, Some [(xh, [7])])"
proof -
  have "takeBatch True xqueued = Some ([(xh, [7])], xqueued\<lparr>txPool := [], queuedTxHashes := {}\<rparr>)"
    by (simp add: takeBatch_def prepareBatch_def xqueued_def shift_items.simps One_nat_def)
  from run_step [OF xqueued_run step_take [OF this]] show ?thesis by simp
qed

section \<open>Properties\<close>

text \<open>In every state a run reaches, the queue holds no hash twice, at most as many
  transactions as configured, and exactly those of the set of queued hashes; at most 1500 promises wait, one
  for a hash; a batch that waits for its append is not empty and within what the apply loop accepts.\<close>

theorem services_bounded:
  assumes "service_run n ls (s, f)"
  shows "distinct (map fst (txPool s)) \<and> queuedTxHashes s = set (map fst (txPool s)) \<and> length (txPool s) \<le> n \<and>
    distinct (pendingCommits s) \<and> length (pendingCommits s) \<le> 1500 \<and>
    (case f of None \<Rightarrow> True | Some items \<Rightarrow> items \<noteq> [] \<and> length items \<le> BATCH_SIZE \<and> distinct (map fst items))"
  using run_ok [OF assms] by (auto simp: sys_ok_def Services_Spec.pool_ok_def commits_ok_def batch_ok_def split: option.splits)

theorem services_bounded_witness: "distinct (map fst (txPool xqueued))"
  using services_bounded [OF xqueued_run] by blast

text \<open>A promise is settled once: the settlements of a hash and the promise that
  waits for it, if one does, are as many as the requests that registered it.\<close>

theorem promises_counted:
  assumes "service_run n ls (s, f)"
  shows "settlements h s + waiting h s = length (filter (\<lambda>l. l = Enqueue h True) ls)"
  using run_counts [OF assms] by simp

theorem promises_counted_witness: "settlements xh xqueued + waiting xh xqueued = 1"
  using promises_counted [OF xqueued_run, of xh] by simp

text \<open>C37. Whatever the append gave for a batch that a run took, its receipts or an exception, the
  worker settles each promise of the batch that still waits, in order, with the receipt of its hash or with
  an error, and touches no other promise and not the queue.\<close>

theorem batch_settled:
  assumes "service_run n ls (s, Some items)"
  shows "settleBatch appended items s = (True, s\<lparr>
    pendingCommits := filter (\<lambda>h. h \<notin> fst ` set items) (pendingCommits s),
    settled := settled s @ map (\<lambda>i. (fst i, case appended of None \<Rightarrow> Inl AppendError
        | Some receipts \<Rightarrow> receipt_outcome receipts (fst i)))
      (filter (\<lambda>i. fst i \<in> set (pendingCommits s)) items)\<rparr>)"
proof -
  have i: "distinct (map fst items)" "list_all assertTxHash (map fst items)"
    using run_ok [OF assms] by (simp_all add: sys_ok_def batch_ok_def)
  show ?thesis
    using settle_all_eq [OF i, of "\<lambda>_. Inl AppendError"] settle_all_eq [OF i, of "receipt_outcome r" for r]
    by (cases appended) (simp_all add: settleBatch_def)
qed

theorem batch_settled_witness:
  "settled (snd (settleBatch (Some [\<lparr>r_txHash = xh, r_proof = Some [1], r_timestamp = 7\<rparr>]) [(xh, [7])] (xqueued\<lparr>txPool := [], queuedTxHashes := {}\<rparr>))) =
     [(xh, Inr \<lparr>r_txHash = xh, r_proof = Some [1], r_timestamp = 7\<rparr>)]"
  using batch_settled [OF xtaken_run] by (simp add: xqueued_def receipt_outcome_def xh_valid)

section \<open>The scheduler\<close>

text \<open>C30. The scheduler behind the pool and the observer, over every order of starts, timeouts, ends of runs and stops, whatever the caller waits for:
  there are never more timeouts and runs of the worker together than calls of \<open>start\<close>. If it is started once, as the two services start the
  one they make, or if no caller starts it again while a run is in flight, then the worker never runs twice at once; while the scheduler runs there
  is exactly one timeout or one run, however the runs end, by an exception or with an invalid delay, so that it neither doubles nor dies; and a stop
  leaves no timeout behind, and tells its caller to wait exactly when a run is in flight.\<close>

theorem one_worker:
  assumes "sched_run patient interval ls sc"
  shows "length (sch_timeouts sc) + sch_runs sc \<le> starts_in ls \<and>
    (patient \<or> starts_in ls \<le> 1 \<longrightarrow>
      sch_runs sc \<le> 1 \<and> length (sch_timeouts sc) + sch_runs sc = (if sch_isRunning sc then 1 else sch_runs sc) \<and>
      sch_timeouts (snd (stop_scheduler b sc)) = [] \<and> \<not> sch_isRunning (snd (stop_scheduler b sc)) \<and>
      (fst (stop_scheduler True sc) \<longleftrightarrow> sch_isRunning sc \<and> sch_runs sc = 1))"
  using sched_run_count [OF assms] sched_run_ok [OF sched_run_once [OF assms]]
  by (auto simp: in_flight_def sched_ok_def stop_scheduler_def Let_def split: if_splits option.splits)

lemma xsched_run: "\<exists>sc. sched_run True None [Start (Finite 0), Fire 0] sc \<and> sch_isRunning sc \<and> sch_runs sc = 1"
proof -
  define sc0 where "sc0 = the (new_scheduler None)"
  have r0: "sched_run True None [] sc0" by (rule sched_run.intros(1)) (simp add: sc0_def new_scheduler_def validateDelay_def)
  define sc1 where "sc1 = the (start_scheduler (Finite 0) sc0)"
  have "sched_step True (Start (Finite 0)) sc0 sc1"
    by (simp add: sched_step_simps sc1_def sc0_def new_scheduler_def start_scheduler_def next_timeout_def validateDelay_def)
  with sched_run.intros(2) [OF r0 this] have r1: "sched_run True None [Start (Finite 0)] sc1" by simp
  have "sched_step True (Fire 0) sc1 (fire 0 sc1)"
    by (simp add: sched_step_simps sc1_def sc0_def new_scheduler_def start_scheduler_def next_timeout_def validateDelay_def setTimeout_def)
  with sched_run.intros(2) [OF r1 this] have "sched_run True None [Start (Finite 0), Fire 0] (fire 0 sc1)" by simp
  moreover have "sch_isRunning (fire 0 sc1) \<and> sch_runs (fire 0 sc1) = 1"
    by (simp add: fire_def sc1_def sc0_def new_scheduler_def start_scheduler_def next_timeout_def validateDelay_def setTimeout_def)
  ultimately show ?thesis by blast
qed

theorem one_worker_witness:
  "\<exists>sc. sched_run True None [Start (Finite 0), Fire 0] sc \<and> sch_isRunning sc \<and> sch_timeouts sc = [] \<and> fst (stop_scheduler True sc)"
proof -
  obtain sc where sc: "sched_run True None [Start (Finite 0), Fire 0] sc" "sch_isRunning sc" "sch_runs sc = 1" using xsched_run by blast
  from one_worker [OF sc(1)] show ?thesis using sc by (intro exI [of _ sc]) simp
qed

text \<open>Two starts and no wait: started again while the run before the stop is in flight, two workers run.\<close>

lemma impatient_start: "\<exists>sc. sched_run False None [Start (Finite 0), Fire 0, Stop False, Start (Finite 0), Finish (Ended []), Fire 1, Fire 2] sc \<and> sch_runs sc = 2"
proof -
  note defs = new_scheduler_def validateDelay_def start_scheduler_def next_timeout_def setTimeout_def fire_def finish_run_def run_delay_def
    stop_scheduler_def Let_def sched_step_simps
  define s0 where "s0 = \<lparr>sch_defaultInterval = 100, sch_isRunning = False, sch_timer = None, sch_currentWorkerRun = False, sch_timeouts = [], sch_handles = 0, sch_runs = 0\<rparr>"
  define s1 where "s1 = \<lparr>sch_defaultInterval = 100, sch_isRunning = True, sch_timer = Some 0, sch_currentWorkerRun = False, sch_timeouts = [(0, 0)], sch_handles = 1, sch_runs = 0\<rparr>"
  define s2 where "s2 = \<lparr>sch_defaultInterval = 100, sch_isRunning = True, sch_timer = Some 0, sch_currentWorkerRun = True, sch_timeouts = [], sch_handles = 1, sch_runs = 1\<rparr>"
  define s3 where "s3 = \<lparr>sch_defaultInterval = 100, sch_isRunning = False, sch_timer = None, sch_currentWorkerRun = True, sch_timeouts = [], sch_handles = 1, sch_runs = 1\<rparr>"
  define s4 where "s4 = \<lparr>sch_defaultInterval = 100, sch_isRunning = True, sch_timer = Some 1, sch_currentWorkerRun = True, sch_timeouts = [(1, 0)], sch_handles = 2, sch_runs = 1\<rparr>"
  define s5 where "s5 = \<lparr>sch_defaultInterval = 100, sch_isRunning = True, sch_timer = Some 2, sch_currentWorkerRun = False, sch_timeouts = [(1, 0), (2, 100)], sch_handles = 3, sch_runs = 0\<rparr>"
  define s6 where "s6 = \<lparr>sch_defaultInterval = 100, sch_isRunning = True, sch_timer = Some 2, sch_currentWorkerRun = True, sch_timeouts = [(2, 100)], sch_handles = 3, sch_runs = 1\<rparr>"
  define s7 where "s7 = \<lparr>sch_defaultInterval = 100, sch_isRunning = True, sch_timer = Some 2, sch_currentWorkerRun = True, sch_timeouts = [], sch_handles = 3, sch_runs = 2\<rparr>"
  note states = s0_def s1_def s2_def s3_def s4_def s5_def s6_def s7_def
  have r: "sched_run False None [] s0" by (rule sched_run.intros(1)) (simp add: states defs)
  have "sched_step False (Start (Finite 0)) s0 s1" by (simp add: states defs)
  note r = sched_run.intros(2) [OF r this]
  have "sched_step False (Fire 0) s1 s2" by (simp add: states defs)
  note r = sched_run.intros(2) [OF r this]
  have "sched_step False (Stop False) s2 s3" by (simp add: states defs)
  note r = sched_run.intros(2) [OF r this]
  have "sched_step False (Start (Finite 0)) s3 s4" by (simp add: states defs)
  note r = sched_run.intros(2) [OF r this]
  have "sched_step False (Finish (Ended [])) s4 s5" by (simp add: states defs)
  note r = sched_run.intros(2) [OF r this]
  have "sched_step False (Fire 1) s5 s6" by (simp add: states defs)
  note r = sched_run.intros(2) [OF r this]
  have "sched_step False (Fire 2) s6 s7" by (simp add: states defs)
  note r = sched_run.intros(2) [OF r this]
  have "sch_runs s7 = 2" by (simp add: states)
  then show ?thesis using r by auto
qed

end
