(* ===== verification/Legacy.thy ===== *)
theory Legacy
  imports Broadcast Connections Normalizers
begin

text \<open>
  The legacy protocol, \<open>protocols/legacy\<close>: a node takes JSON messages, among them partial operations, which it completes and queues
  without an answer; and it answers the question for a validator, an answer the requester checks. A message holds no booleans and no arrays, and
  its numbers are integers that are written in full.
  JavaScript's conversion of a string to a number and the decoding of an address, of trac-crypto-api, are fields of the node; an
  exception of either is \<open>None\<close>. Any exception ends the connection (\<open>LegacyProtocol.js\<close>).
\<close>

section \<open>JSON\<close>

definition json_char :: "char \<Rightarrow> string" where
  "json_char c =
     (let n = of_char c :: nat; escaped = (\<lambda>e. [CHR 0x5C, e])
      in if n = 34 then escaped (CHR 0x22) else if n = 92 then escaped (CHR 0x5C) else if n = 8 then escaped (CHR ''b'')
         else if n = 12 then escaped (CHR ''f'') else if n = 10 then escaped (CHR ''n'') else if n = 13 then escaped (CHR ''r'')
         else if n = 9 then escaped (CHR ''t'') else if n < 32 then escaped (CHR ''u'') @ ''00'' @ to_hex [word_of_nat n] else [c])"

definition json_string :: "string \<Rightarrow> string" where
  "json_string s = CHR 0x22 # concat (map json_char s) @ [CHR 0x22]"

definition commas :: "string list \<Rightarrow> string" where
  "commas xs = concat (case xs of [] \<Rightarrow> [] | y # ys \<Rightarrow> y # map (\<lambda>z. CHR '','' # z) ys)"

text \<open>\<open>JSON.stringify\<close>; a property that is \<open>undefined\<close> is left out, a buffer is written with its bytes.\<close>

fun JSON_stringify :: "js \<Rightarrow> string"
  and stringified_props :: "(string \<times> js) list \<Rightarrow> string list" where
  "JSON_stringify JUndefined = []"
| "JSON_stringify JNull = ''null''"
| "JSON_stringify (JNum n) = show_int n"
| "JSON_stringify (JStr s) = json_string s"
| "JSON_stringify (JBuf b) =
     ''{'' @ json_string ''type'' @ '':'' @ json_string ''Buffer'' @ '','' @ json_string ''data'' @ '':['' @
     commas (map (\<lambda>x. show_nat (unat x)) b) @ '']}''"
| "JSON_stringify (JObj ps) = ''{'' @ commas (stringified_props ps) @ ''}''"
| "stringified_props [] = []"
| "stringified_props ((k, v) # ps) =
     (if v = JUndefined then stringified_props ps else (json_string k @ '':'' @ JSON_stringify v) # stringified_props ps)"

section \<open>The node and its errors\<close>

record 'b legacy_node =
  ln_env :: "'b env"
  ln_wire :: wire
  ln_hash :: "buffer \<Rightarrow> buffer"
  ln_wallet :: wallet
  ln_publicKey :: buffer
  ln_number :: "string \<Rightarrow> int option"
  ln_address_decode :: "string \<Rightarrow> buffer option"
  ln_channel :: string
  ln_txPoolSize :: nat
  ln_transactionPoolSize :: nat
  ln_rate :: rate_config

datatype legacy_error =
    InvalidMessageFormat | FailedToRoute | UnhandledGet | MissingRequiredFields | IssuerMismatch | ResponseTooOld | NotAWriter
  | ValidatorIsIndexer | NoPublicKey | ResponseSignature | ChannelMismatch | NotHexString | StateUnreadable | NotWritable
  | PoolUnavailable pool_error | PayloadTooLarge | RateLimitExceeded | NotNormalized normalize_error | NotValidated
  | UnsupportedOperationType | AssemblingFailed | NotEnqueued pool_error

section \<open>The question for a validator\<close>

definition VALIDATOR_GET :: string where "VALIDATOR_GET = ''get_validator_pop''"

definition GET_types :: "string list" where
  "GET_types = [VALIDATOR_GET, ''get_admin_pop'', ''get_node_pop'']"

definition RESPONSE_types :: "string list" where
  "RESPONSE_types = [''validatorResponse'', ''adminResponse'', ''nodeResponse'']"

definition handleGetValidatorResponse :: "'b legacy_node \<Rightarrow> buffer \<Rightarrow> int \<Rightarrow> node_state \<Rightarrow> buffer \<Rightarrow> js" where
  "handleGetValidatorResponse N nonce now s remotePublicKey =
     (let payload =
        [(''op'', JStr ''validatorResponse''), (''wk'', JStr (to_hex (ns_writingKey s))), (''address'', JStr (w_address (ln_wallet N))),
         (''nonce'', JStr (to_hex nonce)), (''channel'', JStr (ln_channel N)), (''issuer'', JStr (to_hex remotePublicKey)),
         (''timestamp'', JNum now)];
       hashInput = utf8 (JSON_stringify (JObj payload));
       sig = w_sign (ln_wallet N) (ln_hash N hashInput)
      in JObj (payload @ [(''sig'', JStr (to_hex sig))]))"

definition legacyGet :: "'b legacy_node \<Rightarrow> buffer \<Rightarrow> int \<Rightarrow> node_state \<Rightarrow> buffer \<Rightarrow> string \<Rightarrow> legacy_error + js" where
  "legacyGet N nonce now s remotePublicKey message =
     (if message = VALIDATOR_GET then Inr (handleGetValidatorResponse N nonce now s remotePublicKey) else Inl UnhandledGet)"

section \<open>The checks of a response\<close>

definition validatePayload :: "js \<Rightarrow> legacy_error + unit" where
  "validatePayload message =
     (if list_ex (\<lambda>k. \<not> truthy (prop_of message k)) [''op'', ''wk'', ''address'', ''nonce'', ''channel'', ''issuer'', ''timestamp'']
      then Inl MissingRequiredFields else Inr ())"

text \<open>\<open>b4a.from\<close> of anything but a string is taken to throw.\<close>

fun hex_of :: "js \<Rightarrow> legacy_error + buffer" where
  "hex_of (JStr s) = Inr (from_hex s)"
| "hex_of _ = Inl NotHexString"

definition validateIssuerPublicKey :: "'b legacy_node \<Rightarrow> js \<Rightarrow> legacy_error + unit" where
  "validateIssuerPublicKey N message =
     chain (hex_of (prop_of message ''issuer'')) (\<lambda>issuerPublicKey.
       if issuerPublicKey \<noteq> ln_publicKey N then Inl IssuerMismatch else Inr ())"

text \<open>\<open>NaN\<close> is not greater than anything.\<close>

fun as_number :: "(string \<Rightarrow> int option) \<Rightarrow> js \<Rightarrow> int option" where
  "as_number number (JNum n) = Some n"
| "as_number number (JStr s) = number s"
| "as_number number JNull = Some 0"
| "as_number number _ = None"

definition legacyTimestamp :: "'b legacy_node \<Rightarrow> int \<Rightarrow> js \<Rightarrow> legacy_error + unit" where
  "legacyTimestamp N now message =
     (let treshhold = 10000
      in case as_number (ln_number N) (prop_of message ''timestamp'') of
           None \<Rightarrow> Inr ()
         | Some timestamp \<Rightarrow> if now - timestamp > treshhold then Inl ResponseTooOld else Inr ())"

text \<open>Reading a key that is no string throws.\<close>

definition validateNodeEntry :: "'b legacy_node \<Rightarrow> node_state \<Rightarrow> js \<Rightarrow> legacy_error + unit" where
  "validateNodeEntry N s message =
     (case prop_of message ''address'' of
        JStr address \<Rightarrow>
          (case getNodeEntry s address of
             None \<Rightarrow> Inl NotAWriter
           | Some validatorEntry \<Rightarrow>
               if \<not> ne_isWriter validatorEntry then Inl NotAWriter
               else if (case getAdminEntry (ln_env N) s of None \<Rightarrow> False | Some adminEntry \<Rightarrow> ae_address adminEntry = Some address) then Inr ()
               else if ne_isIndexer validatorEntry then Inl ValidatorIsIndexer
               else Inr ())
      | _ \<Rightarrow> Inl StateUnreadable)"

fun without_sig :: "js \<Rightarrow> js" where
  "without_sig (JObj ps) = JObj (filter (\<lambda>(k, v). k \<noteq> ''sig'') ps)"
| "without_sig v = v"

definition legacySignature :: "'b legacy_node \<Rightarrow> js \<Rightarrow> legacy_error + unit" where
  "legacySignature N message =
     (case (case prop_of message ''address'' of JStr address \<Rightarrow> ln_address_decode N address | _ \<Rightarrow> None) of
        None \<Rightarrow> Inl NoPublicKey
      | Some publicKey \<Rightarrow>
          (let hashInput = utf8 (JSON_stringify (without_sig message)); hash = ln_hash N hashInput
           in chain (hex_of (prop_of message ''sig'')) (\<lambda>signature.
                if \<not> signature_verify (ln_env N) signature hash publicKey then Inl ResponseSignature else Inr ())))"

definition validateChannel :: "'b legacy_node \<Rightarrow> js \<Rightarrow> legacy_error + unit" where
  "validateChannel N message = (if prop_of message ''channel'' \<noteq> JStr (ln_channel N) then Inl ChannelMismatch else Inr ())"

definition legacyResponse :: "'b legacy_node \<Rightarrow> int \<Rightarrow> node_state \<Rightarrow> js \<Rightarrow> legacy_error + unit" where
  "legacyResponse N now s message =
     chain (validatePayload message) (\<lambda>_. chain (validateIssuerPublicKey N message) (\<lambda>_. chain (legacyTimestamp N now message) (\<lambda>_.
       chain (validateNodeEntry N s message) (\<lambda>_. chain (legacySignature N message) (\<lambda>_. validateChannel N message)))))"

section \<open>Operations\<close>

text \<open>\<open>validateBasicRequirements\<close>, up to the wait of the validators.\<close>

definition validateBasicRequirements :: "'b legacy_node \<Rightarrow> int \<Rightarrow> node_state \<Rightarrow> buffer \<Rightarrow> js \<Rightarrow> services \<Rightarrow> limiter \<Rightarrow>
    (legacy_error + unit) \<times> limiter" where
  "validateBasicRequirements N now s remotePublicKey payload svc l =
     (case isAdminAllowedToValidate (ln_env N) s of
        None \<Rightarrow> (Inl StateUnreadable, l)
      | Some isAdminAllowed \<Rightarrow>
          if \<not> (allowedToValidate s (w_address (ln_wallet N)) \<or> isAdminAllowed) then (Inl NotWritable, l)
          else case validateEnqueue (ln_txPoolSize N) svc of
            Inl e \<Rightarrow> (Inl (PoolUnavailable e), l)
          | Inr _ \<Rightarrow>
              if length (utf8 (JSON_stringify payload)) > ln_transactionPoolSize N then (Inl PayloadTooLarge, l)
              else if rl_disabled (ln_rate N) then (Inr (), l)
              else case legacyHandleRateLimit (ln_rate N) (to_hex remotePublicKey) now l of
                (shouldDisconnect, l) \<Rightarrow> (if shouldDisconnect then Inl RateLimitExceeded else Inr (), l))"

definition normalized :: "normalize_error + js \<Rightarrow> legacy_error + js" where
  "normalized r = (case r of Inl e \<Rightarrow> Inl (NotNormalized e) | Inr v \<Rightarrow> Inr v)"

definition validated :: "verdict \<Rightarrow> legacy_error + unit" where
  "validated r = (case r of Inl _ \<Rightarrow> Inl NotValidated | Inr _ \<Rightarrow> Inr ())"

text \<open>A call of the director of \<open>applyStateMessageFactory\<close>, whose builder completes an operation with the wallet of the node.\<close>

definition assembled :: "'b legacy_node \<Rightarrow> buffer \<Rightarrow> (step \<Rightarrow> builder option \<Rightarrow> build_error + built \<times> builder) \<Rightarrow> legacy_error + operation" where
  "assembled N nonce call =
     (case new_builder (ln_env N) (Some (ln_wallet N)) of
        Inl _ \<Rightarrow> Inl AssemblingFailed
      | Inr b \<Rightarrow>
          (case call (build (ln_env N) (ln_hash N) (ln_wallet N) nonce) (Some b) of
             Inr (BufferOut op, _) \<Rightarrow> Inr op
           | _ \<Rightarrow> Inl AssemblingFailed))"

definition enqueueTransaction :: "'b legacy_node \<Rightarrow> string \<Rightarrow> buffer \<Rightarrow> services \<Rightarrow> legacy_error + services" where
  "enqueueTransaction N txHash encodedOperation svc =
     (case addTransaction (ln_txPoolSize N) txHash encodedOperation svc of Inl e \<Rightarrow> Inl (NotEnqueued e) | Inr svc \<Rightarrow> Inr svc)"

text \<open>The hexadecimal hash of a property that is a buffer, and of a completed operation.\<close>

fun hex_prop :: "js \<Rightarrow> string" where
  "hex_prop (JBuf b) = to_hex b"
| "hex_prop _ = []"

definition legacyRoleOperation :: "'b legacy_node \<Rightarrow> buffer \<Rightarrow> node_state \<Rightarrow> js \<Rightarrow> services \<Rightarrow> legacy_error + services" where
  "legacyRoleOperation N nonce s message svc =
     (let E = ln_env N; selfAddress = Some (w_address (ln_wallet N))
      in chain (normalized (normalizeRoleAccessOperation E message)) (\<lambda>v.
         chain (validated (validateRoleAccess E (ln_hash N) selfAddress s (js_operation v))) (\<lambda>_.
           let type = prop_of v ''type''; address = prop_of v ''address''; arg = prop_of (prop_of v ''rao'')
           in chain
               (if type = JNum (int OT_ADD_WRITER) then
                  assembled N nonce (\<lambda>b. buildCompleteAddWriterMessage E b address (arg ''tx'') (arg ''txv'') (arg ''iw'') (arg ''in'') (arg ''is''))
                else if type = JNum (int OT_REMOVE_WRITER) then
                  assembled N nonce (\<lambda>b. buildCompleteRemoveWriterMessage E b address (arg ''tx'') (arg ''txv'') (arg ''iw'') (arg ''in'') (arg ''is''))
                else if type = JNum (int OT_ADMIN_RECOVERY) then
                  assembled N nonce (\<lambda>b. buildCompleteAdminRecoveryMessage E b address (arg ''tx'') (arg ''txv'') (arg ''iw'') (arg ''in'') (arg ''is''))
                else Inl UnsupportedOperationType)
               (\<lambda>completePayload.
                 let encodedOperation = safeEncodeApplyOperation (ln_wire N) completePayload;
                     txHash = to_hex (bytes (p_tx (payload_of completePayload)))
                 in enqueueTransaction N txHash encodedOperation svc))))"

definition partialTransactionSubHandler :: "'b legacy_node \<Rightarrow> buffer \<Rightarrow> node_state \<Rightarrow> js \<Rightarrow> services \<Rightarrow> legacy_error + services" where
  "partialTransactionSubHandler N nonce s payload svc =
     (let E = ln_env N; selfAddress = Some (w_address (ln_wallet N))
      in chain (normalized (normalizeTransactionOperation E payload)) (\<lambda>v.
         chain (validated (validateTransaction E (ln_hash N) selfAddress s (js_operation v))) (\<lambda>_.
           let arg = prop_of (prop_of v ''txo'')
           in chain
               (assembled N nonce (\<lambda>b. buildCompleteTransactionOperationMessage E b (prop_of v ''address'') (arg ''tx'') (arg ''txv'') (arg ''iw'')
                  (arg ''in'') (arg ''ch'') (arg ''is'') (arg ''bs'') (arg ''mbs'')))
               (\<lambda>op. enqueueTransaction N (hex_prop (arg ''tx'')) (safeEncodeApplyOperation (ln_wire N) op) svc))))"

definition partialBootstrapDeploymentSubHandler :: "'b legacy_node \<Rightarrow> buffer \<Rightarrow> node_state \<Rightarrow> js \<Rightarrow> services \<Rightarrow> legacy_error + services" where
  "partialBootstrapDeploymentSubHandler N nonce s payload svc =
     (let E = ln_env N; selfAddress = Some (w_address (ln_wallet N))
      in chain (normalized (normalizeBootstrapDeploymentOperation E payload)) (\<lambda>v.
         chain (validated (validateBootstrapDeployment E (ln_hash N) selfAddress s (js_operation v))) (\<lambda>_.
           let arg = prop_of (prop_of v ''bdo'')
           in chain
               (assembled N nonce (\<lambda>b. buildCompleteBootstrapDeploymentMessage E b (prop_of v ''address'') (arg ''tx'') (arg ''txv'') (arg ''bs'')
                  (arg ''ic'') (arg ''in'') (arg ''is'')))
               (\<lambda>op. enqueueTransaction N (hex_prop (arg ''tx'')) (safeEncodeApplyOperation (ln_wire N) op) svc))))"

definition legacySubnetworkOperation :: "'b legacy_node \<Rightarrow> buffer \<Rightarrow> node_state \<Rightarrow> js \<Rightarrow> services \<Rightarrow> legacy_error + services" where
  "legacySubnetworkOperation N nonce s payload svc =
     (if prop_of payload ''type'' = JNum (int OT_TX) then partialTransactionSubHandler N nonce s payload svc
      else if prop_of payload ''type'' = JNum (int OT_BOOTSTRAP_DEPLOYMENT) then partialBootstrapDeploymentSubHandler N nonce s payload svc
      else Inl UnsupportedOperationType)"

definition legacyTransferOperation :: "'b legacy_node \<Rightarrow> buffer \<Rightarrow> node_state \<Rightarrow> js \<Rightarrow> services \<Rightarrow> legacy_error + services" where
  "legacyTransferOperation N nonce s payload svc =
     (if prop_of payload ''type'' \<noteq> JNum (int OT_TRANSFER) then Inl UnsupportedOperationType
      else let E = ln_env N; selfAddress = Some (w_address (ln_wallet N))
      in chain (normalized (normalizeTransferOperation E payload)) (\<lambda>v.
         chain (validated (validateTransfer E (ln_hash N) selfAddress s (js_operation v))) (\<lambda>_.
           let arg = prop_of (prop_of v ''tro'')
           in chain
               (assembled N nonce (\<lambda>b. buildCompleteTransferOperationMessage E b (prop_of v ''address'') (arg ''tx'') (arg ''txv'') (arg ''in'')
                  (arg ''to'') (arg ''am'') (arg ''is'')))
               (\<lambda>op. enqueueTransaction N (hex_prop (arg ''tx'')) (safeEncodeApplyOperation (ln_wire N) op) svc))))"

text \<open>\<open>handle\<close>: the requirements, then the operation.\<close>

definition handleStateOperation :: "'b legacy_node \<Rightarrow> int \<Rightarrow> node_state \<Rightarrow> buffer \<Rightarrow> (node_state \<Rightarrow> js \<Rightarrow> services \<Rightarrow> legacy_error + services) \<Rightarrow>
    js \<Rightarrow> limiter \<times> services \<Rightarrow> (legacy_error + js option) \<times> limiter \<times> services" where
  "handleStateOperation N now s remotePublicKey handleOperation payload st =
     (case st of (l, svc) \<Rightarrow>
        (case validateBasicRequirements N now s remotePublicKey payload svc l of
           (Inl e, l) \<Rightarrow> (Inl e, l, svc)
         | (Inr _, l) \<Rightarrow>
             (case handleOperation s payload svc of
                Inl e \<Rightarrow> (Inl e, l, svc)
              | Inr svc \<Rightarrow> (Inr None, l, svc))))"

section \<open>The router\<close>

definition isGetRequest :: "js \<Rightarrow> bool" where
  "isGetRequest message \<longleftrightarrow> (case message of JStr m \<Rightarrow> List.member GET_types m | _ \<Rightarrow> False)"

definition isResponse :: "js \<Rightarrow> bool" where
  "isResponse message \<longleftrightarrow> (case prop_of message ''op'' of JStr op \<Rightarrow> List.member RESPONSE_types op | _ \<Rightarrow> False)"

definition of_type :: "(nat \<Rightarrow> bool) \<Rightarrow> js \<Rightarrow> bool" where
  "of_type is_type message \<longleftrightarrow> (case prop_of message ''type'' of JNum n \<Rightarrow> 0 \<le> n \<and> is_type (nat n) | _ \<Rightarrow> False)"

definition preValidate :: "js \<Rightarrow> bool" where
  "preValidate message \<longleftrightarrow> (case message of JObj _ \<Rightarrow> True | JStr _ \<Rightarrow> True | _ \<Rightarrow> False)"

text \<open>
  \<open>route\<close>: an error, or the answer the session sends if there is one. The nonce is that of the answer or of the
  completed operation, \<open>now\<close> the time of the message, \<open>s\<close> the state its handler reads.
\<close>

definition route_legacy :: "'b legacy_node \<Rightarrow> buffer \<Rightarrow> int \<Rightarrow> node_state \<Rightarrow> buffer \<Rightarrow> js \<Rightarrow> session \<times> limiter \<times> services \<Rightarrow>
    (legacy_error + js option) \<times> session \<times> limiter \<times> services" where
  "route_legacy N nonce now s remotePublicKey message st =
     (case st of (ss, l, svc) \<Rightarrow>
        if \<not> preValidate message then (Inl InvalidMessageFormat, ss, l, svc)
        else let ss = setLegacyAsPreferredProtocol ss
        in case message of
             JStr m \<Rightarrow>
               if isGetRequest message then
                 (case legacyGet N nonce now s remotePublicKey m of Inl e \<Rightarrow> Inl e | Inr answer \<Rightarrow> Inr (Some answer), ss, l, svc)
               else (Inl FailedToRoute, ss, l, svc)
           | _ \<Rightarrow>
               if isResponse message then
                 (case legacyResponse N now s message of Inl e \<Rightarrow> Inl e | Inr _ \<Rightarrow> Inr None, ss, l, svc)
               else if of_type isRoleAccess message then
                 (case handleStateOperation N now s remotePublicKey (legacyRoleOperation N nonce) message (l, svc) of (r, l, svc) \<Rightarrow> (r, ss, l, svc))
               else if of_type isTransaction message \<or> of_type isBootstrapDeployment message then
                 (case handleStateOperation N now s remotePublicKey (legacySubnetworkOperation N nonce) message (l, svc) of (r, l, svc) \<Rightarrow> (r, ss, l, svc))
               else if of_type isTransfer message then
                 (case handleStateOperation N now s remotePublicKey (legacyTransferOperation N nonce) message (l, svc) of (r, l, svc) \<Rightarrow> (r, ss, l, svc))
               else (Inl FailedToRoute, ss, l, svc))"

text \<open>The listener of the channel: whether the connection ends, and what is sent.\<close>

definition legacy_onmessage :: "'b legacy_node \<Rightarrow> buffer \<Rightarrow> int \<Rightarrow> node_state \<Rightarrow> buffer \<Rightarrow> js \<Rightarrow> session \<times> limiter \<times> services \<Rightarrow>
    (bool \<times> js option) \<times> session \<times> limiter \<times> services" where
  "legacy_onmessage N nonce now s remotePublicKey incomingMessage st =
     (case route_legacy N nonce now s remotePublicKey incomingMessage st of
        (Inl err, st) \<Rightarrow> ((True, None), st)
      | (Inr answer, st) \<Rightarrow> ((False, answer), st))"

end
