(* ===== verification/Legacy_Claims.thy ===== *)
theory Legacy_Claims
  imports Legacy Dispatch_Spec Publish_Claims
begin

text \<open>
  The legacy protocol against protocol v1: it queues the operation that a v1 request with the same content would queue; and its
  question for a validator, with the answer that the other end believes.
\<close>

section \<open>Normalised operations\<close>

definition publish :: "'b legacy_node \<Rightarrow> buffer \<Rightarrow> node_state \<Rightarrow> operation \<Rightarrow> services \<Rightarrow> services option" where
  "publish N nonce s d svc =
     (case strategy_build (ln_env N) (ln_hash N) (ln_wallet N) nonce s d of
        Inl _ \<Rightarrow> None
      | Inr op \<Rightarrow>
          (case addTransaction (ln_txPoolSize N) (txKey d) (Operation_encode (ln_wire N) op) svc of Inl _ \<Rightarrow> None | Inr svc \<Rightarrow> Some svc))"

definition returned :: "'e + 'a \<Rightarrow> 'a option" where
  "returned r = (case r of Inl _ \<Rightarrow> None | Inr x \<Rightarrow> Some x)"

lemma returned_simps [simp]: "returned (Inl e) = None" "returned (Inr x) = Some x"
  by (simp_all add: returned_def)

lemmas operation_reads = js_operation_def js_payload_def keyed_def payload_of.simps txKey_def

text \<open>The handlers make the calls of the strategies of v1.\<close>

lemma handler_publish:
  assumes "call (build (ln_env N) (ln_hash N) (ln_wallet N) nonce) (Some fresh_builder) =
      complete_call (ln_env N) (build (ln_env N) (ln_hash N) (ln_wallet N) nonce) d"
    and "verdict = partial_validator (ln_env N) (ln_hash N) (Some (w_address (ln_wallet N))) s d"
    and "\<And>op. strategy_build (ln_env N) (ln_hash N) (ln_wallet N) nonce s d = Inr op \<Longrightarrow> h op = txKey d"
  shows "returned (chain (validated verdict) (\<lambda>_. chain (assembled N nonce call)
      (\<lambda>op. enqueueTransaction N (h op) (safeEncodeApplyOperation (ln_wire N) op) svc))) = publish N nonce s d svc"
proof (cases verdict)
  case (Inl e)
  then show ?thesis using assms(2) by (simp add: validated_def publish_def strategy_build_def)
next
  case (Inr u)
  define r where "r = assembled N nonce call"
  have r: "strategy_build (ln_env N) (ln_hash N) (ln_wallet N) nonce s d = (case r of Inl _ \<Rightarrow> Inl OtherError | Inr op \<Rightarrow> Inr op)"
    using Inr assms(2) assms(1) [symmetric]
    by (auto simp: r_def strategy_build_def assembled_def new_builder_def split: sum.split prod.split built.split)
  show ?thesis
    using Inr assms(3) unfolding r_def [symmetric] publish_def r
    by (auto simp: validated_def enqueueTransaction_def safeEncodeApplyOperation_def split: sum.split)
qed

lemma transfer_publish:
  assumes "normalizeTransferOperation (ln_env N) m = Inr v"
  shows "returned (legacyTransferOperation N nonce s m svc) = publish N nonce s (js_operation v) svc"
proof -
  obtain a b1 b2 b3 b4 b5 b6 where v: "v = JObj [(''type'', JNum 13), (''address'', JBuf a), (''tro'', JObj [(''tx'', JBuf b1), (''txv'', JBuf b2),
      (''in'', JBuf b3), (''to'', JBuf b4), (''am'', JBuf b5), (''is'', JBuf b6)])]" and t: "prop_of m ''type'' = JNum 13"
    using assms by (auto simp: normalizeTransferOperation_def Let_def chain_Inr split: if_splits sum.splits)
  have n: "normalized (normalizeTransferOperation (ln_env N) m) = Inr v" by (simp add: normalized_def assms)
  show ?thesis
    unfolding legacyTransferOperation_def Let_def n t chain.simps
    by (simp, rule handler_publish) (simp_all add: v operation_reads complete_call_def partial_validator_def)
qed

lemma deployment_publish:
  assumes "normalizeBootstrapDeploymentOperation (ln_env N) m = Inr v"
  shows "returned (partialBootstrapDeploymentSubHandler N nonce s m svc) = publish N nonce s (js_operation v) svc" "prop_of m ''type'' = JNum 11"
proof -
  obtain a b1 b2 b3 b4 b5 b6 where v: "v = JObj [(''type'', JNum 11), (''address'', JBuf a), (''bdo'', JObj [(''tx'', JBuf b1), (''txv'', JBuf b2),
      (''bs'', JBuf b3), (''ic'', JBuf b4), (''in'', JBuf b5), (''is'', JBuf b6)])]" and t: "prop_of m ''type'' = JNum 11"
    using assms by (auto simp: normalizeBootstrapDeploymentOperation_def Let_def chain_Inr split: if_splits sum.splits)
  have n: "normalized (normalizeBootstrapDeploymentOperation (ln_env N) m) = Inr v" by (simp add: normalized_def assms)
  show "returned (partialBootstrapDeploymentSubHandler N nonce s m svc) = publish N nonce s (js_operation v) svc"
    unfolding partialBootstrapDeploymentSubHandler_def Let_def n chain.simps
    by (rule handler_publish) (simp_all add: v operation_reads complete_call_def partial_validator_def)
  show "prop_of m ''type'' = JNum 11" by (rule t)
qed

lemma transaction_publish:
  assumes "normalizeTransactionOperation (ln_env N) m = Inr v"
  shows "returned (partialTransactionSubHandler N nonce s m svc) = publish N nonce s (js_operation v) svc" "prop_of m ''type'' = JNum 12"
proof -
  obtain a b1 b2 b3 b4 b5 b6 b7 b8 where v: "v = JObj [(''type'', JNum 12), (''address'', JBuf a), (''txo'', JObj [(''tx'', JBuf b1), (''txv'', JBuf b2),
      (''iw'', JBuf b3), (''ch'', JBuf b4), (''bs'', JBuf b5), (''mbs'', JBuf b6), (''in'', JBuf b7), (''is'', JBuf b8)])]"
    and t: "prop_of m ''type'' = JNum 12"
    using assms by (auto simp: normalizeTransactionOperation_def Let_def chain_Inr split: if_splits sum.splits)
  have n: "normalized (normalizeTransactionOperation (ln_env N) m) = Inr v" by (simp add: normalized_def assms)
  show "returned (partialTransactionSubHandler N nonce s m svc) = publish N nonce s (js_operation v) svc"
    unfolding partialTransactionSubHandler_def Let_def n chain.simps
    by (rule handler_publish) (simp_all add: v operation_reads complete_call_def partial_validator_def)
  show "prop_of m ''type'' = JNum 12" by (rule t)
qed

lemma role_publish:
  assumes "normalizeRoleAccessOperation (ln_env N) m = Inr v" "prop_of m ''type'' \<in> {JNum 5, JNum 6, JNum 7}"
  shows "returned (legacyRoleOperation N nonce s m svc) = publish N nonce s (js_operation v) svc"
proof -
  obtain a b1 b2 b3 b4 b5 where v: "v = JObj [(''type'', prop_of m ''type''), (''address'', JBuf a), (''rao'', JObj [(''tx'', JBuf b1),
      (''txv'', JBuf b2), (''iw'', JBuf b3), (''in'', JBuf b4), (''is'', JBuf b5)])]"
    using assms(1) by (auto simp: normalizeRoleAccessOperation_def Let_def chain_Inr split: if_splits sum.splits)
  have n: "normalized (normalizeRoleAccessOperation (ln_env N) m) = Inr v" by (simp add: normalized_def assms)
  have h: "to_hex (bytes (p_tx (payload_of op))) = txKey (js_operation v)"
    if "strategy_build (ln_env N) (ln_hash N) (ln_wallet N) nonce s (js_operation v) = Inr op" for op
  proof -
    have "isAddressValid (ln_env N) (w_address (ln_wallet N))"
      using that by (auto simp: strategy_build_def chain_Inr new_builder_def split: if_splits)
    then have "op = completion (ln_env N) (ln_hash N) (ln_wallet N) nonce (js_operation v)" using strategy_build_checked(2) [OF that] by simp
    then show ?thesis by (simp add: txKey_def)
  qed
  note defs = v operation_reads complete_call_def partial_validator_def
  consider "prop_of m ''type'' = JNum 5" | "prop_of m ''type'' = JNum 6" | "prop_of m ''type'' = JNum 7" using assms(2) by blast
  then show ?thesis
  proof cases
    case 1
    show ?thesis
      unfolding legacyRoleOperation_def Let_def n chain.simps
      by (simp add: v 1, rule handler_publish) (use h 1 in \<open>simp_all add: defs\<close>)
  next
    case 2
    show ?thesis
      unfolding legacyRoleOperation_def Let_def n chain.simps
      by (simp add: v 2, rule handler_publish) (use h 2 in \<open>simp_all add: defs\<close>)
  next
    case 3
    show ?thesis
      unfolding legacyRoleOperation_def Let_def n chain.simps
      by (simp add: v 3, rule handler_publish) (use h 3 in \<open>simp_all add: defs\<close>)
  qed
qed

section \<open>Both protocols queue alike\<close>

lemma checked_shape:
  assumes "partial_validator E hash sa s d = Inr ()"
  shows "List.member strategy_types (op_type d)" "op_type d \<noteq> 0" "getTxHashFromDecodedTransaction d = Some (txKey d)" "assertTxHash (txKey d)"
proof -
  have "op_type d \<in> {5, 6, 7, 11, 12, 13} \<and> (\<exists>tx. p_tx (payload_of d) = Bytes tx \<and> sized 32 tx)"
    using partial_validator_facts(1) [OF assms]
  proof (cases rule: schema_cases)
    case 1
    show ?thesis by (rule transfer_shape [OF 1(2) partial_validator_facts(2) [OF assms]]) (simp add: payload_of.simps)
  next
    case 2
    show ?thesis by (rule transaction_shape [OF 2(2) partial_validator_facts(2) [OF assms]]) (simp add: payload_of.simps)
  next
    case 3
    show ?thesis by (rule deployment_shape [OF 3(2) partial_validator_facts(2) [OF assms]]) (simp add: payload_of.simps)
  next
    case 4
    show ?thesis by (rule role_shape [OF 4(2) partial_validator_facts(2) [OF assms]]) (auto simp: payload_of.simps)
  qed
  then obtain tx where tx: "op_type d \<in> {5, 6, 7, 11, 12, 13}" "p_tx (payload_of d) = Bytes tx" "sized 32 tx" by blast
  show "List.member strategy_types (op_type d)" "op_type d \<noteq> 0" using tx(1) by (auto simp: strategy_types_def)
  show "getTxHashFromDecodedTransaction d = Some (txKey d)" using tx(2) by (simp add: getTxHashFromDecodedTransaction_def txKey_def)
  show "assertTxHash (txKey d)" using tx(2,3) by (auto simp: assertTxHash_def txKey_def sized_def length_to_hex)
qed

text \<open>A v1 request for the operation with no promise pending, and then the promises as they were.\<close>

definition as_v1 :: "'b legacy_node \<Rightarrow> buffer \<Rightarrow> node_state \<Rightarrow> operation \<Rightarrow> services \<Rightarrow> services option" where
  "as_v1 N nonce s d svc =
     (case dispatchTransaction (ln_env N) (ln_wire N) (ln_hash N) (ln_wallet N) nonce (ln_txPoolSize N) s d (svc\<lparr>pendingCommits := []\<rparr>) of
        (Inl _, _) \<Rightarrow> None
      | (Inr _, svc1) \<Rightarrow> Some (svc1\<lparr>pendingCommits := pendingCommits svc\<rparr>))"

lemma addTransaction_commits: "addTransaction n h tx (s\<lparr>pendingCommits := xs\<rparr>) =
    (case addTransaction n h tx s of Inl e \<Rightarrow> Inl e | Inr s' \<Rightarrow> Inr (s'\<lparr>pendingCommits := xs\<rparr>))"
  by (simp add: addTransaction_def validateEnqueue_def hasTransaction_def)

lemma addTransaction_keeps: "addTransaction n h tx s = Inr s' \<Longrightarrow> s'\<lparr>pendingCommits := pendingCommits s\<rparr> = s'"
  by (auto simp: addTransaction_def chain_Inr split: if_splits)

lemma publish_as_v1: "publish N nonce s d svc = as_v1 N nonce s d svc"
proof (cases "strategy_build (ln_env N) (ln_hash N) (ln_wallet N) nonce s d")
  case (Inl e)
  then show ?thesis by (simp add: publish_def as_v1_def dispatchTransaction_def)
next
  case (Inr op)
  then have "partial_validator (ln_env N) (ln_hash N) (Some (w_address (ln_wallet N))) s d = Inr ()"
    by (auto simp: strategy_build_def chain_Inr)
  note c = checked_shape(2-4) [OF this] checked_shape(1) [OF this, unfolded List.member_iff]
  show ?thesis
    by (cases "addTransaction (ln_txPoolSize N) (txKey d) (Operation_encode (ln_wire N) op) svc")
      (auto simp: Inr c publish_def as_v1_def dispatchTransaction_def enqueue_def registerPendingCommit_def addTransaction_commits
        addTransaction_keeps settleCommit_def rejectPendingCommit_def Let_def split: sum.split prod.split)
qed

lemma type_cases:
  assumes "normalizeMessageByOperationType E m = Inr v"
  obtains "of_type isRoleAccess m" "normalizeRoleAccessOperation E m = Inr v" "prop_of m ''type'' \<in> {JNum 5, JNum 6, JNum 7}"
    | "of_type isTransaction m" "normalizeTransactionOperation E m = Inr v" "prop_of m ''type'' = JNum 12"
    | "of_type isBootstrapDeployment m" "normalizeBootstrapDeploymentOperation E m = Inr v" "prop_of m ''type'' = JNum 11"
    | "of_type isTransfer m" "normalizeTransferOperation E m = Inr v" "prop_of m ''type'' = JNum 13"
proof -
  obtain n where n: "prop_of m ''type'' = JNum n" "0 < n"
    using assms by (auto simp: normalizeMessageByOperationType_def split: js.splits if_splits)
  have k: "n = 5 \<longleftrightarrow> nat n = 5" "n = 6 \<longleftrightarrow> nat n = 6" "n = 7 \<longleftrightarrow> nat n = 7" "n = 11 \<longleftrightarrow> nat n = 11" "n = 12 \<longleftrightarrow> nat n = 12" "n = 13 \<longleftrightarrow> nat n = 13"
    by (simp_all add: nat_eq_iff)
  consider "isRoleAccess (nat n)" "normalizeRoleAccessOperation E m = Inr v" | "isTransaction (nat n)" "normalizeTransactionOperation E m = Inr v"
    | "isBootstrapDeployment (nat n)" "normalizeBootstrapDeploymentOperation E m = Inr v"
    | "isTransfer (nat n)" "normalizeTransferOperation E m = Inr v"
    using assms n by (simp add: normalizeMessageByOperationType_def split: if_splits)
  then show thesis
    by cases (rule that(1) that(2) that(3) that(4); use n k in \<open>auto simp: of_type_def type_defs\<close>)+
qed

lemma norm_of_type:
  assumes "of_type kind m"
  obtains n where "prop_of m ''type'' = JNum n" "kind (nat n)" "0 \<le> n" "truthy m" "is_object m" "preValidate m"
    "\<And>x. m \<noteq> JStr x"
proof -
  obtain n where n: "prop_of m ''type'' = JNum n" "kind (nat n)" "0 \<le> n" using assms by (auto simp: of_type_def split: js.splits)
  then obtain ps where "m = JObj ps" by (cases m) auto
  then show thesis using that n by (simp add: preValidate_def)
qed

lemma norm_role: "of_type isRoleAccess m \<Longrightarrow> normalizeMessageByOperationType E m = normalizeRoleAccessOperation E m"
  by (erule norm_of_type) (auto simp: normalizeMessageByOperationType_def type_defs)

lemma norm_transaction: "of_type isTransaction m \<Longrightarrow> normalizeMessageByOperationType E m = normalizeTransactionOperation E m"
  by (erule norm_of_type) (auto simp: normalizeMessageByOperationType_def type_defs)

lemma norm_deployment: "of_type isBootstrapDeployment m \<Longrightarrow> normalizeMessageByOperationType E m = normalizeBootstrapDeploymentOperation E m"
  by (erule norm_of_type) (auto simp: normalizeMessageByOperationType_def type_defs)

lemma norm_transfer: "of_type isTransfer m \<Longrightarrow> normalizeMessageByOperationType E m = normalizeTransferOperation E m"
  by (erule norm_of_type) (auto simp: normalizeMessageByOperationType_def type_defs)

text \<open>What a handler leaves of the services, with what it does when the requirements are met.\<close>

lemma handled:
  assumes "\<And>v. normalizeMessageByOperationType (ln_env N) m = Inr v \<Longrightarrow> returned (f s m svc) = as_v1 N nonce s (js_operation v) svc"
    and "\<And>e. normalizeMessageByOperationType (ln_env N) m = Inl e \<Longrightarrow> returned (f s m svc) = None"
  shows "snd (snd (handleStateOperation N now s pk f m (l, svc))) =
    (if fst (validateBasicRequirements N now s pk m svc l) \<noteq> Inr () then svc
     else case normalizeMessageByOperationType (ln_env N) m of
       Inl _ \<Rightarrow> svc | Inr v \<Rightarrow> (case as_v1 N nonce s (js_operation v) svc of None \<Rightarrow> svc | Some svc' \<Rightarrow> svc'))"
proof -
  have "returned (f s m svc) = (case normalizeMessageByOperationType (ln_env N) m of Inl _ \<Rightarrow> None | Inr v \<Rightarrow> as_v1 N nonce s (js_operation v) svc)"
    using assms by (simp split: sum.split)
  then have r: "(case returned (f s m svc) of None \<Rightarrow> svc | Some svc' \<Rightarrow> svc') = (case normalizeMessageByOperationType (ln_env N) m of
       Inl _ \<Rightarrow> svc | Inr v \<Rightarrow> (case as_v1 N nonce s (js_operation v) svc of None \<Rightarrow> svc | Some svc' \<Rightarrow> svc'))"
    by (simp split: sum.split)
  have "snd (snd (handleStateOperation N now s pk f m (l, svc))) = (if fst (validateBasicRequirements N now s pk m svc l) \<noteq> Inr () then svc
      else case returned (f s m svc) of None \<Rightarrow> svc | Some svc' \<Rightarrow> svc')"
    by (auto simp: handleStateOperation_def returned_def split: sum.splits prod.splits)
  then show ?thesis unfolding r .
qed

lemma normalized_Inl: "normalized (Inl e) = Inl (NotNormalized e)"
  by (simp add: normalized_def)

lemma subnetwork_publish:
  assumes "of_type isTransaction m \<or> of_type isBootstrapDeployment m"
  shows "normalizeMessageByOperationType (ln_env N) m = Inr v \<Longrightarrow>
      returned (legacySubnetworkOperation N nonce s m svc) = as_v1 N nonce s (js_operation v) svc"
    "normalizeMessageByOperationType (ln_env N) m = Inl e \<Longrightarrow> returned (legacySubnetworkOperation N nonce s m svc) = None"
proof -
  consider "of_type isTransaction m" "prop_of m ''type'' = JNum 12" | "of_type isBootstrapDeployment m" "prop_of m ''type'' = JNum 11"
    using assms by (auto simp: of_type_def type_defs split: js.splits)
  note cases = this
  show "returned (legacySubnetworkOperation N nonce s m svc) = as_v1 N nonce s (js_operation v) svc"
    if "normalizeMessageByOperationType (ln_env N) m = Inr v"
    using cases that
    by cases (simp_all add: legacySubnetworkOperation_def norm_transaction norm_deployment transaction_publish deployment_publish publish_as_v1)
  show "returned (legacySubnetworkOperation N nonce s m svc) = None" if "normalizeMessageByOperationType (ln_env N) m = Inl e"
    using cases that
    by cases (simp_all add: legacySubnetworkOperation_def norm_transaction norm_deployment partialTransactionSubHandler_def
      partialBootstrapDeploymentSubHandler_def normalized_Inl Let_def)
qed

lemma transfer_message_publish:
  assumes "of_type isTransfer m"
  shows "normalizeMessageByOperationType (ln_env N) m = Inr v \<Longrightarrow>
      returned (legacyTransferOperation N nonce s m svc) = as_v1 N nonce s (js_operation v) svc"
    "normalizeMessageByOperationType (ln_env N) m = Inl e \<Longrightarrow> returned (legacyTransferOperation N nonce s m svc) = None"
  using assms transfer_publish [of N m v nonce s svc]
  by (auto simp: norm_transfer publish_as_v1 legacyTransferOperation_def normalized_Inl Let_def)

lemma role_message_publish:
  assumes "of_type isRoleAccess m"
  shows "normalizeMessageByOperationType (ln_env N) m = Inr v \<Longrightarrow>
      returned (legacyRoleOperation N nonce s m svc) = as_v1 N nonce s (js_operation v) svc"
    "normalizeMessageByOperationType (ln_env N) m = Inl e \<Longrightarrow> returned (legacyRoleOperation N nonce s m svc) = None"
proof -
  have t: "prop_of m ''type'' \<in> {JNum 5, JNum 6, JNum 7}" using assms by (auto simp: of_type_def type_defs split: js.splits)
  show "normalizeMessageByOperationType (ln_env N) m = Inr v \<Longrightarrow> returned (legacyRoleOperation N nonce s m svc) = as_v1 N nonce s (js_operation v) svc"
    using role_publish [OF _ t, of N v nonce s svc] by (simp add: norm_role [OF assms] publish_as_v1)
  show "normalizeMessageByOperationType (ln_env N) m = Inl e \<Longrightarrow> returned (legacyRoleOperation N nonce s m svc) = None"
    by (simp add: norm_role [OF assms] legacyRoleOperation_def normalized_Inl)
qed

lemma routed_services:
  "snd (snd (snd (route_legacy N nonce now s pk m (ss, l, svc)))) =
    (let ops = (\<lambda>f. snd (snd (handleStateOperation N now s pk f m (l, svc))))
     in if isResponse m then svc
        else if of_type isRoleAccess m then ops (legacyRoleOperation N nonce)
        else if of_type isTransaction m \<or> of_type isBootstrapDeployment m then ops (legacySubnetworkOperation N nonce)
        else if of_type isTransfer m then ops (legacyTransferOperation N nonce)
        else svc)"
  by (cases m) (auto simp: route_legacy_def preValidate_def of_type_def isResponse_def Let_def split: prod.split)

section \<open>Properties\<close>

text \<open>C21. The legacy protocol queues exactly what protocol v1 would queue. Of a message, whatever it is, the services keep nothing
  unless it is an operation whose sender meets the requirements; then its normalised form leaves the queue of a v1 dispatch of that operation
  (with no promise in its way), and the promises of the v1 requests as they were. So a legacy operation has passed the same
  validators, and the same completed bytes wait under the same hash.\<close>

theorem legacy_as_v1:
  "snd (snd (snd (route_legacy N nonce now s remotePublicKey m (ss, l, svc)))) =
    (if isResponse m then svc
     else if fst (validateBasicRequirements N now s remotePublicKey m svc l) = Inr () then
       (case normalizeMessageByOperationType (ln_env N) m of
          Inl _ \<Rightarrow> svc
        | Inr v \<Rightarrow>
         (case dispatchTransaction (ln_env N) (ln_wire N) (ln_hash N) (ln_wallet N) nonce (ln_txPoolSize N) s (js_operation v)
             (svc\<lparr>pendingCommits := []\<rparr>) of
            (Inl _, _) \<Rightarrow> svc
          | (Inr _, svc1) \<Rightarrow> svc1\<lparr>pendingCommits := pendingCommits svc\<rparr>))
     else svc)"
proof -
  have unfolded: "(case dispatchTransaction (ln_env N) (ln_wire N) (ln_hash N) (ln_wallet N) nonce (ln_txPoolSize N) s d (svc\<lparr>pendingCommits := []\<rparr>) of
      (Inl _, _) \<Rightarrow> svc | (Inr _, svc1) \<Rightarrow> svc1\<lparr>pendingCommits := pendingCommits svc\<rparr>) =
      (case as_v1 N nonce s d svc of None \<Rightarrow> svc | Some svc' \<Rightarrow> svc')" for d
    by (simp add: as_v1_def split: prod.split sum.split)
  have none: "\<exists>e. normalizeMessageByOperationType (ln_env N) m = Inl e"
    if "\<not> of_type isRoleAccess m" "\<not> of_type isTransaction m" "\<not> of_type isBootstrapDeployment m" "\<not> of_type isTransfer m"
    using that by (cases "normalizeMessageByOperationType (ln_env N) m") (auto elim: type_cases)
  let ?ops = "\<lambda>f. snd (snd (handleStateOperation N now s remotePublicKey f m (l, svc)))"
  define rest where "rest = (if fst (validateBasicRequirements N now s remotePublicKey m svc l) \<noteq> Inr () then svc
      else case normalizeMessageByOperationType (ln_env N) m of
        Inl _ \<Rightarrow> svc | Inr v \<Rightarrow> (case as_v1 N nonce s (js_operation v) svc of None \<Rightarrow> svc | Some svc' \<Rightarrow> svc'))"
  have "?ops (legacyRoleOperation N nonce) = rest" if "of_type isRoleAccess m"
    unfolding rest_def by (rule handled) (simp_all add: role_message_publish that)
  moreover have "?ops (legacySubnetworkOperation N nonce) = rest" if "of_type isTransaction m \<or> of_type isBootstrapDeployment m"
    unfolding rest_def by (rule handled) (simp_all add: subnetwork_publish [OF that])
  moreover have "?ops (legacyTransferOperation N nonce) = rest" if "of_type isTransfer m"
    unfolding rest_def by (rule handled) (simp_all add: transfer_message_publish that)
  moreover have "rest = svc"
    if "\<not> of_type isRoleAccess m" "\<not> of_type isTransaction m" "\<not> of_type isBootstrapDeployment m" "\<not> of_type isTransfer m"
    using none [OF that] by (auto simp: rest_def)
  ultimately have "snd (snd (snd (route_legacy N nonce now s remotePublicKey m (ss, l, svc)))) = (if isResponse m then svc else rest)"
    unfolding routed_services Let_def by auto
  then show ?thesis unfolding unfolded rest_def by simp
qed

text \<open>C22. The question for a validator. A node that is asked signs an answer for the key of the asker; the asker, whatever its
  session, believes it exactly when the answer is at most ten seconds old and its own signed state has the node as a writer that is the
  administrator or no indexer; otherwise it ends the connection. Nothing is queued.\<close>

theorem legacy_answered:
  assumes "route_legacy N nonce now s (ln_publicKey M) (JStr ''get_validator_pop'') st = (Inr (Some answer), st1)"
    and "ln_channel M = ln_channel N" "ln_hash M = ln_hash N" "ln_address_decode M (w_address (ln_wallet N)) = Some pk"
    and "\<And>m. signature_verify (ln_env M) (w_sign (ln_wallet N) (ln_hash N m)) (ln_hash N m) pk"
    and "ns_writingKey s \<noteq> []" "nonce \<noteq> []" "ln_channel N \<noteq> []" "ln_publicKey M \<noteq> []" "w_address (ln_wallet N) \<noteq> []" "now \<noteq> 0"
  shows "\<exists>r. route_legacy M nonce' now' s' remotePublicKey answer (ss, l, svc) = (r, setLegacyAsPreferredProtocol ss, l, svc) \<and>
    (r = Inr None \<longleftrightarrow> now' \<le> now + 10000 \<and> (\<exists>e. getNodeEntry s' (w_address (ln_wallet N)) = Some e \<and> ne_isWriter e \<and>
      (ne_isIndexer e \<longrightarrow> (\<exists>a. getAdminEntry (ln_env M) s' = Some a \<and> ae_address a = Some (w_address (ln_wallet N))))))"
proof -
  have a: "answer = handleGetValidatorResponse N nonce now s (ln_publicKey M)"
    using assms(1) by (auto simp: route_legacy_def preValidate_def isGetRequest_def GET_types_def VALIDATOR_GET_def legacyGet_def Let_def
        split: prod.splits if_splits)
  have ne: "to_hex b \<noteq> []" if "b \<noteq> []" for b using that length_to_hex [of b] by auto
  have p: "validatePayload answer = Inr ()"
    using assms(6-11) by (simp add: a handleGetValidatorResponse_def validatePayload_def ne Let_def)
  have i: "validateIssuerPublicKey M answer = Inr ()" "validateChannel M answer = Inr ()"
    by (simp_all add: a handleGetValidatorResponse_def validateIssuerPublicKey_def validateChannel_def assms(2) Let_def)
  have g: "legacySignature M answer = Inr ()"
    by (simp add: a handleGetValidatorResponse_def legacySignature_def assms(3-5) Let_def)
  have t: "legacyTimestamp M now' answer = (if now' - now > 10000 then Inl ResponseTooOld else Inr ())"
    and d: "prop_of answer ''address'' = JStr (w_address (ln_wallet N))"
    by (simp_all add: a handleGetValidatorResponse_def legacyTimestamp_def Let_def)
  have o: "isResponse answer" "preValidate answer" "\<exists>ps. answer = JObj ps"
    by (simp_all add: a handleGetValidatorResponse_def isResponse_def RESPONSE_types_def preValidate_def Let_def)
  have "route_legacy M nonce' now' s' remotePublicKey answer (ss, l, svc) =
      ((case legacyResponse M now' s' answer of Inl e \<Rightarrow> Inl e | Inr _ \<Rightarrow> Inr None), setLegacyAsPreferredProtocol ss, l, svc)"
    using o by (auto simp: route_legacy_def)
  moreover have "legacyResponse M now' s' answer = Inr () \<longleftrightarrow> now' \<le> now + 10000 \<and> validateNodeEntry M s' answer = Inr ()"
    by (auto simp: legacyResponse_def p i g t chain_Inr)
  moreover have "validateNodeEntry M s' answer = Inr () \<longleftrightarrow> (\<exists>e. getNodeEntry s' (w_address (ln_wallet N)) = Some e \<and> ne_isWriter e \<and>
      (ne_isIndexer e \<longrightarrow> (\<exists>a. getAdminEntry (ln_env M) s' = Some a \<and> ae_address a = Some (w_address (ln_wallet N)))))"
    by (auto simp: validateNodeEntry_def d split: option.split)
  ultimately show ?thesis by (cases "legacyResponse M now' s' answer") auto
qed

definition xlegacy :: "buffer \<Rightarrow> (buffer list \<times> buffer list) legacy_node" where
  "xlegacy pk = \<lparr>ln_env = penv, ln_wire = protobuf, ln_hash = xhash, ln_wallet = xwallet, ln_publicKey = pk, ln_number = (\<lambda>_. None),
     ln_address_decode = (\<lambda>a. Some (ascii_bytes a @ replicate 26 0)), ln_channel = ''msb'', ln_txPoolSize = 5, ln_transactionPoolSize = 1000,
     ln_rate = \<lparr>rl_disabled = True, rl_maxTransactionsPerSecond = 10, rl_cleanupIntervalMs = 100, rl_connectionTimeoutMs = 100\<rparr>\<rparr>"

theorem legacy_answered_witness:
  "\<exists>answer. route_legacy (xlegacy (xwk 7)) (xwk 3) 100 xview (xwk 8) (JStr ''get_validator_pop'') (new_session, new_limiter 0, no_services) =
      (Inr (Some answer), setLegacyAsPreferredProtocol new_session, new_limiter 0, no_services) \<and>
    fst (route_legacy (xlegacy (xwk 8)) [] 5000 xview (xwk 7) answer (new_session, new_limiter 0, no_services)) = Inr None"
proof -
  define answer where "answer = handleGetValidatorResponse (xlegacy (xwk 7)) (xwk 3) 100 xview (xwk 8)"
  have r: "route_legacy (xlegacy (xwk 7)) (xwk 3) 100 xview (ln_publicKey (xlegacy (xwk 8))) (JStr ''get_validator_pop'')
      (new_session, new_limiter 0, no_services) = (Inr (Some answer), setLegacyAsPreferredProtocol new_session, new_limiter 0, no_services)"
    by (simp add: route_legacy_def preValidate_def isGetRequest_def GET_types_def legacyGet_def VALIDATOR_GET_def answer_def xlegacy_def Let_def)
  have e: "getNodeEntry xview (acct CHR ''b'') = Some (decoded (xentry (xwk 2) WRITER 1000 2))"
    by (simp add: getNodeEntry_def getSigned_def xview_def xbatch_accounts)
  have "\<exists>r'. route_legacy (xlegacy (xwk 8)) [] 5000 xview (xwk 7) answer (new_session, new_limiter 0, no_services) =
      (r', setLegacyAsPreferredProtocol new_session, new_limiter 0, no_services) \<and> (r' = Inr None \<longleftrightarrow> (5000::int) \<le> 100 + 10000 \<and>
        (\<exists>e. getNodeEntry xview (acct CHR ''b'') = Some e \<and> ne_isWriter e \<and> (ne_isIndexer e \<longrightarrow>
          (\<exists>a. getAdminEntry penv xview = Some a \<and> ae_address a = Some (acct CHR ''b'')))))"
    using legacy_answered [OF r, of "addr CHR ''b'' @ replicate 26 0" "[]" 5000 xview "xwk 7" new_session "new_limiter 0" no_services]
    by (simp add: xlegacy_def xwallet_def xsign_def addr_def acct_def xview_def xwk_def)
  moreover have "ne_isWriter (decoded (xentry (xwk 2) WRITER 1000 2)) \<and> \<not> ne_isIndexer (decoded (xentry (xwk 2) WRITER 1000 2))"
    by (simp, simp add: WRITER_def INDEXER_MASK_def)
  ultimately show ?thesis using r e by (auto simp: xlegacy_def)
qed

end
