(* ===== verification/Decimals.thy ===== *)
theory Decimals
  imports Helpers
begin

text \<open>
  The decimal strings of \<open>src/utils/amountSerialization.js\<close>, in which the command line and the interface take and show amounts, and
  \<open>trim\<close> of JavaScript. The regular expression and \<open>split('.')\<close> are the two runs of digits around the point.
\<close>

section \<open>Strings\<close>

definition is_space :: "char \<Rightarrow> bool" where
  "is_space c = (let n = of_char c :: nat in 9 \<le> n \<and> n \<le> 13 \<or> n = 32 \<or> n = 160)"

definition trim :: "string \<Rightarrow> string" where
  "trim s = rev (dropWhile is_space (rev (dropWhile is_space s)))"

definition is_digit :: "char \<Rightarrow> bool" where
  "is_digit c = (let n = of_char c :: nat in 48 \<le> n \<and> n \<le> 57)"

definition digits_value :: "string \<Rightarrow> nat" where
  "digits_value s = fold (\<lambda>c n. 10 * n + (of_char c - 48)) s 0"

definition padEnd :: "nat \<Rightarrow> char \<Rightarrow> string \<Rightarrow> string" where
  "padEnd n c s = s @ replicate (n - length s) c"

definition padStart :: "nat \<Rightarrow> char \<Rightarrow> string \<Rightarrow> string" where
  "padStart n c s = replicate (n - length s) c @ s"

text \<open>\<open>^\d+(\.\d+)?$\<close>: the part before the point and the part behind it, or no match.\<close>

definition decimal_parts :: "string \<Rightarrow> (string \<times> string) option" where
  "decimal_parts s =
     (let integerPart = takeWhile is_digit s; rest = dropWhile is_digit s
      in if integerPart = [] then None
         else case rest of
           [] \<Rightarrow> Some (integerPart, [])
         | c # fractionalPart \<Rightarrow>
             if c = CHR ''.'' \<and> fractionalPart \<noteq> [] \<and> list_all is_digit fractionalPart then Some (integerPart, fractionalPart) else None)"

section \<open>Amounts\<close>

definition decimalStringToBigInt :: "string \<Rightarrow> amount_error + int" where
  "decimalStringToBigInt inputString =
     (let trimmedInput = trim inputString
      in if take 1 trimmedInput = ''-'' then Inl NegativeAmount
         else case decimal_parts trimmedInput of
           None \<Rightarrow> Inl InvalidDecimalFormat
         | Some (integerPart, fractionalPart) \<Rightarrow>
             if length fractionalPart > TOKEN_DECIMALS then Inl TooManyDecimals
             else let value = int (digits_value (integerPart @ padEnd TOKEN_DECIMALS (CHR ''0'') fractionalPart))
                  in if value > 2 ^ 128 - 1 then Inl ExceedsMaximum else Inr value)"

definition bigIntToDecimalString :: "int \<Rightarrow> amount_error + string" where
  "bigIntToDecimalString v =
     (if v < 0 then Inl NegativeAmount
      else if v > 2 ^ 128 - 1 then Inl ExceedsMaximum
      else let str = padStart (TOKEN_DECIMALS + 1) (CHR ''0'') (show_nat (nat v))
           in if length str \<le> TOKEN_DECIMALS then Inl ValueTooSmall
              else let integerPart = take (length str - TOKEN_DECIMALS) str;
                       fractionalPart = rev (dropWhile (\<lambda>c. c = CHR ''0'') (rev (drop (length str - TOKEN_DECIMALS) str)))
                   in Inr (if 0 < length fractionalPart then integerPart @ ''.'' @ fractionalPart else integerPart))"

section \<open>Reading back what is shown\<close>

lemma fold_digits: "fold (\<lambda>c n. 10 * n + d c) t m = m * 10 ^ length t + fold (\<lambda>c n. 10 * n + d c) t (0 :: nat)"
proof (induction t arbitrary: m)
  case (Cons c t)
  have "fold (\<lambda>c n. 10 * n + d c) t (10 * m + d c) = (10 * m + d c) * 10 ^ length t + fold (\<lambda>c n. 10 * n + d c) t 0"
    "fold (\<lambda>c n. 10 * n + d c) t (d c) = d c * 10 ^ length t + fold (\<lambda>c n. 10 * n + d c) t 0"
    by (rule Cons)+
  then show ?case by (simp add: algebra_simps)
qed simp

lemma digits_value_append: "digits_value (s @ t) = digits_value s * 10 ^ length t + digits_value t"
  unfolding digits_value_def fold_append comp_def by (rule fold_digits)

lemma digits_value_simps [simp]:
  "digits_value [] = 0" "digits_value [c] = of_char c - 48" "digits_value (replicate n (CHR ''0'') @ s) = digits_value s"
  by (simp_all add: digits_value_append, simp_all add: digits_value_def, induction n) simp_all

lemma digit_char: "n < 10 \<Longrightarrow> is_digit (hex_digit n) \<and> of_char (hex_digit n) = 48 + n"
proof -
  have "\<forall>n < 10. is_digit (hex_digit n) \<and> of_char (hex_digit n) = 48 + n"
    by (simp add: is_digit_def hex_digit_def numeral_eq_Suc All_less_Suc)
  then show "n < 10 \<Longrightarrow> is_digit (hex_digit n) \<and> of_char (hex_digit n) = 48 + n" by blast
qed

lemma show_nat_digits: "list_all is_digit (show_nat n) \<and> digits_value (show_nat n) = n \<and> show_nat n \<noteq> []"
proof (induction n rule: show_nat.induct)
  case (1 n)
  then show ?case using digit_char [of "n mod 10"] digit_char [of n]
    by (subst (1 2 3) show_nat.simps) (auto simp: digits_value_append)
qed

lemma digit_not_space: "is_digit c \<Longrightarrow> \<not> is_space c"
  by (simp add: is_digit_def is_space_def Let_def)

lemma trim_digits:
  assumes "s \<noteq> []" "is_digit (hd s)" "is_digit (last s)"
  shows "trim s = s"
proof -
  have "dropWhile is_space s = s" "dropWhile is_space (rev s) = rev s"
    using assms digit_not_space by (simp_all add: dropWhile_eq_self_iff hd_rev)
  then show ?thesis by (simp add: trim_def)
qed

lemma no_zero_end: "\<exists>k. s = rev (dropWhile (\<lambda>c. c = CHR ''0'') (rev s)) @ replicate k (CHR ''0'')"
proof -
  have "rev s = takeWhile (\<lambda>c. c = CHR ''0'') (rev s) @ dropWhile (\<lambda>c. c = CHR ''0'') (rev s)" by simp
  moreover have "takeWhile (\<lambda>c. c = CHR ''0'') (rev s) = replicate (length (takeWhile (\<lambda>c. c = CHR ''0'') (rev s))) (CHR ''0'')"
    by (rule replicate_length_same [symmetric]) (auto dest: set_takeWhileD)
  ultimately show ?thesis by (metis rev_append rev_rev_ident rev_replicate)
qed

lemma decimal_back:
  assumes "0 \<le> v" "v < 2 ^ 128"
  shows "\<exists>s. bigIntToDecimalString v = Inr s \<and> decimalStringToBigInt s = Inr v"
proof -
  define str where "str = padStart (TOKEN_DECIMALS + 1) (CHR ''0'') (show_nat (nat v))"
  define i where "i = take (length str - 18) str"
  define f where "f = drop (length str - 18) str"
  define g where "g = rev (dropWhile (\<lambda>c. c = CHR ''0'') (rev f))"
  have zero: "is_digit (CHR ''0'')" "\<not> is_digit (CHR ''.'')" by (simp_all add: is_digit_def)
  have len: "19 \<le> length str" by (simp add: str_def padStart_def)
  have digits: "list_all is_digit str" "digits_value str = nat v"
    using show_nat_digits [of "nat v"] zero by (auto simp: str_def padStart_def list_all_iff)
  have split: "str = i @ f" "length f = 18" "i \<noteq> []" using len by (auto simp: i_def f_def)
  obtain k where k: "f = g @ replicate k (CHR ''0'')" using no_zero_end [of f] by (auto simp: g_def)
  have d: "list_all is_digit i" "list_all is_digit g" using digits(1) split(1) k by auto
  have pad: "padEnd 18 (CHR ''0'') g = f" "length g \<le> 18" using k split(2) by (auto simp: padEnd_def)
  let ?s = "if 0 < length g then i @ ''.'' @ g else i"
  have shown: "bigIntToDecimalString v = Inr ?s"
    using assms len by (simp add: bigIntToDecimalString_def Let_def str_def [symmetric] i_def [symmetric] f_def [symmetric] g_def [symmetric])
      (use len str_def in \<open>simp add: i_def f_def g_def\<close>)
  have "is_digit (hd i)" "is_digit (last i)" using d(1) split(3) by (auto simp: list_all_iff)
  moreover have "g \<noteq> [] \<Longrightarrow> is_digit (last g)" using d(2) by (auto simp: list_all_iff)
  ultimately have t: "trim ?s = ?s" using split(3) by (intro trim_digits) auto
  have "takeWhile is_digit ?s = i" "dropWhile is_digit ?s = (if 0 < length g then ''.'' @ g else [])"
    using d zero by (auto simp: list_all_iff takeWhile_append dropWhile_append)
  then have parts: "decimal_parts ?s = Some (i, g)" using split(3) d(2) by (auto simp: decimal_parts_def Let_def)
  have "take 1 ?s \<noteq> ''-''"
    using \<open>is_digit (hd i)\<close> split(3) by (cases i) (auto simp: is_digit_def)
  then have "decimalStringToBigInt ?s = Inr (int (digits_value (i @ f)))"
    using t parts pad assms digits(2) split(1) by (simp add: decimalStringToBigInt_def Let_def)
  then show ?thesis using shown digits(2) split(1) assms(1) by auto
qed

text \<open>What is read at all is read exactly.\<close>

lemma decimal_value:
  assumes "decimalStringToBigInt t = Inr u"
  shows "\<exists>i f. decimal_parts (trim t) = Some (i, f) \<and> length f \<le> 18 \<and> u * 10 ^ length f = int (digits_value (i @ f)) * 10 ^ 18 \<and> 0 \<le> u \<and> u < 2 ^ 128"
proof -
  obtain i f where p: "decimal_parts (trim t) = Some (i, f)" "length f \<le> 18" "u = int (digits_value (i @ padEnd 18 (CHR ''0'') f))" "u < 2 ^ 128"
    using assms by (auto simp: decimalStringToBigInt_def Let_def TOKEN_DECIMALS_def split: if_splits option.splits)
  have "digits_value (i @ padEnd 18 (CHR ''0'') f) = digits_value (i @ f) * 10 ^ (18 - length f)"
    using digits_value_append [of "i @ f" "replicate (18 - length f) (CHR ''0'')"]
      digits_value_simps(3) [of "18 - length f" "[]"] by (simp add: padEnd_def)
  then have "u * 10 ^ length f = int (digits_value (i @ f)) * (10 ^ (18 - length f) * 10 ^ length f)" using p(3) by simp
  also have "\<dots> = int (digits_value (i @ f)) * 10 ^ 18" using p(2) by (simp add: power_add [symmetric])
  finally show ?thesis using p by auto
qed

end
