(* ===== verification/Migration_Files.thy ===== *)
theory Migration_Files
  imports Decimals Normalizers
begin

text \<open>
  \<open>src/utils/fileUtils.js\<close>: the files of migrations. A directory is the list of its files, each a name with its contents, in the order in which they
  are listed; a path is the name of its file. Reading a file that is missing is \<open>None\<close>. The numbers of the files are taken to be
  exact as numbers of JavaScript.
\<close>

section \<open>Lines\<close>

fun split_on :: "char \<Rightarrow> string \<Rightarrow> string list" where
  "split_on c [] = [[]]"
| "split_on c (x # xs) = (if x = c then [] # split_on c xs else case split_on c xs of [] \<Rightarrow> [[x]] | p # ps \<Rightarrow> (x # p) # ps)"

fun join_lines :: "string list \<Rightarrow> string" where
  "join_lines [] = []"
| "join_lines [l] = l"
| "join_lines (l # ls) = l @ CHR 0x0A # join_lines ls"

definition file_lines :: "string \<Rightarrow> string list" where
  "file_lines data = filter (\<lambda>l. l \<noteq> []) (map trim (split_on (CHR 0x0A) data))"

section \<open>The lists of a migration\<close>

definition WHITELIST_FILEPATH :: string where "WHITELIST_FILEPATH = ''./whitelist/addresses.csv''"
definition BALANCE_MIGRATION_FILEPATH :: string where "BALANCE_MIGRATION_FILEPATH = ''./migration/initial_balances.csv''"
definition BALANCE_MIGRATED_DIR :: string where "BALANCE_MIGRATED_DIR = ''./migration/migrated/''"
definition WHITELIST_MIGRATION_DIR :: string where "WHITELIST_MIGRATION_DIR = ''./whitelist/migrated/''"

datatype file_error =
    NotCsv | FileMissing | FileEmpty | Duplicates "string list" | BadLine string | DuplicateAddress string | BadBalance amount_error
  | BalanceMismatch | AlreadyMigrated string string

definition is_csv :: "string \<Rightarrow> bool" where
  "is_csv filepath \<longleftrightarrow> suffix ''.csv'' (map lower filepath)"

text \<open>The addresses that come more than once, with those seen.\<close>

fun duplicates :: "string list \<Rightarrow> string list \<Rightarrow> string list \<Rightarrow> string list" where
  "duplicates seen dups [] = dups"
| "duplicates seen dups (a # as) =
     (if List.member seen a then duplicates seen (if List.member dups a then dups else dups @ [a]) as else duplicates (seen @ [a]) dups as)"

definition readAddressesFromWhitelistFile :: "string \<Rightarrow> string option \<Rightarrow> file_error + string list" where
  "readAddressesFromWhitelistFile filepath data =
     (if \<not> is_csv filepath then Inl NotCsv
      else case data of
        None \<Rightarrow> Inl FileMissing
      | Some data \<Rightarrow>
          let addresses = file_lines data
          in if addresses = [] then Inl FileEmpty
             else let dups = duplicates [] [] addresses in if dups \<noteq> [] then Inl (Duplicates dups) else Inr addresses)"

definition is_alnum :: "char \<Rightarrow> bool" where
  "is_alnum c \<longleftrightarrow> (let n = of_char c :: nat in 48 \<le> n \<and> n \<le> 57 \<or> 65 \<le> n \<and> n \<le> 90 \<or> 97 \<le> n \<and> n \<le> 122)"

text \<open>\<open>pairFormatRegex\<close>: an address and a decimal with at most 18 digits behind the point.\<close>

definition pair_of_line :: "string \<Rightarrow> (string \<times> string) option" where
  "pair_of_line line =
     (let address = takeWhile is_alnum line
      in case dropWhile is_alnum line of
           [] \<Rightarrow> None
         | c # balance \<Rightarrow>
             if address \<noteq> [] \<and> c = CHR '','' \<and> (case decimal_parts balance of None \<Rightarrow> False | Some (_, f) \<Rightarrow> length f \<le> 18)
             then Some (address, balance) else None)"

record balance_file =
  bf_addressBalancePair :: "(string \<times> buffer) list"
  bf_totalBalance :: int
  bf_totalAddresses :: nat
  bf_addresses :: "(string \<times> int) list"

fun balance_lines :: "string list \<Rightarrow> balance_file \<Rightarrow> file_error + balance_file" where
  "balance_lines [] r = Inr r"
| "balance_lines (line # rest) r =
     (case pair_of_line line of
        None \<Rightarrow> Inl (BadLine line)
      | Some (address, balance) \<Rightarrow>
          if map_of (bf_addressBalancePair r) address \<noteq> None then Inl (DuplicateAddress address)
          else case decimalStringToBigInt balance of
            Inl e \<Rightarrow> Inl (BadBalance e)
          | Inr parsedBalance \<Rightarrow>
              let balanceBuffer = bigIntTo16ByteBuffer parsedBalance
              in case bufferToBigInt balanceBuffer of
                Inl e \<Rightarrow> Inl (BadBalance e)
              | Inr reconstructedBalance \<Rightarrow>
                  if parsedBalance \<noteq> reconstructedBalance then Inl BalanceMismatch
                  else balance_lines rest
                    \<lparr>bf_addressBalancePair = bf_addressBalancePair r @ [(address, balanceBuffer)], bf_totalBalance = bf_totalBalance r + parsedBalance,
                     bf_totalAddresses = bf_totalAddresses r + 1, bf_addresses = bf_addresses r @ [(address, parsedBalance)]\<rparr>)"

definition readBalanceMigrationFile :: "string \<Rightarrow> string option \<Rightarrow> file_error + balance_file" where
  "readBalanceMigrationFile filepath data =
     (if \<not> is_csv filepath then Inl NotCsv
      else case data of
        None \<Rightarrow> Inl FileMissing
      | Some data \<Rightarrow>
          let lines = file_lines data
          in if lines = [] then Inl FileEmpty
             else balance_lines lines \<lparr>bf_addressBalancePair = [], bf_totalBalance = 0, bf_totalAddresses = 0, bf_addresses = []\<rparr>)"

section \<open>The directory of past migrations\<close>

type_synonym directory = "(string \<times> string) list"

text \<open>\<open>MIGRATED_FILE_REGEX\<close> with its number.\<close>

definition migrated_number :: "string \<Rightarrow> nat option" where
  "migrated_number file =
     (let rest = drop 8 file; digits = takeWhile is_digit rest
      in if take 8 file = ''migrated'' \<and> digits \<noteq> [] \<and> dropWhile is_digit rest = ''.csv'' then Some (digits_value digits) else None)"

definition getAllMigrationFiles :: "directory \<Rightarrow> directory" where
  "getAllMigrationFiles dir = filter (\<lambda>(file, _). migrated_number file \<noteq> None) dir"

definition first_migrated :: "(string \<Rightarrow> string) \<Rightarrow> directory \<Rightarrow> string list \<Rightarrow> file_error + unit" where
  "first_migrated address_of dir addresses =
     (case List.find (\<lambda>(a, _). List.member addresses a)
         (concat (map (\<lambda>(file, content). map (\<lambda>l. (address_of l, file)) (file_lines content)) (getAllMigrationFiles dir))) of
        None \<Rightarrow> Inr () | Some (a, file) \<Rightarrow> Inl (AlreadyMigrated a file))"

definition validateBalanceMigrationData :: "directory \<Rightarrow> string list \<Rightarrow> file_error + unit" where
  "validateBalanceMigrationData = first_migrated (\<lambda>trimmedLine. hd (split_on (CHR '','') trimmedLine))"

definition validateWhitelistMigrationData :: "directory \<Rightarrow> string list \<Rightarrow> file_error + unit" where
  "validateWhitelistMigrationData = first_migrated (\<lambda>trimmedLine. trimmedLine)"

definition getNextMigrationNumber :: "directory \<Rightarrow> nat" where
  "getNextMigrationNumber dir =
     (case map (\<lambda>(file, _). case migrated_number file of None \<Rightarrow> 0 | Some n \<Rightarrow> n) (getAllMigrationFiles dir) of
        [] \<Rightarrow> 1 | n # numbers \<Rightarrow> fold max numbers n + 1)"

definition migrated_name :: "nat \<Rightarrow> string" where
  "migrated_name n = ''migrated'' @ show_nat n @ ''.csv''"

fun entry_lines :: "(string \<times> buffer) list \<Rightarrow> file_error + string list" where
  "entry_lines [] = Inr []"
| "entry_lines ((address, balance) # ps) =
     (case bufferToBigInt balance of
        Inl e \<Rightarrow> Inl (BadBalance e)
      | Inr v \<Rightarrow> (case bigIntToDecimalString v of
          Inl e \<Rightarrow> Inl (BadBalance e) | Inr s \<Rightarrow> chain (entry_lines ps) (\<lambda>ls. Inr ((address @ CHR '','' # s) # ls))))"

text \<open>The file that is written: its name and its contents.\<close>

definition createMigrationEntryFile :: "(string \<times> buffer) list \<Rightarrow> nat \<Rightarrow> file_error + string \<times> string" where
  "createMigrationEntryFile addressBalancePair migrationNumber =
     chain (entry_lines addressBalancePair) (\<lambda>ls. Inr (migrated_name migrationNumber, join_lines ls))"

definition createWhitelistEntryFile :: "string list \<Rightarrow> nat \<Rightarrow> string \<times> string" where
  "createWhitelistEntryFile addresses migrationNumber = (migrated_name migrationNumber, join_lines addresses)"

section \<open>Lines that are written are read back\<close>

lemma split_on_nonempty [simp]: "split_on c s \<noteq> []"
  by (induction c s rule: split_on.induct) (auto split: list.split)

lemma split_on_parts: "p \<in> set (split_on c s) \<Longrightarrow> c \<notin> set p"
  by (induction c s arbitrary: p rule: split_on.induct) (auto split: list.splits if_splits)

lemma split_on_none: "c \<notin> set s \<Longrightarrow> split_on c s = [s]"
  by (induction c s rule: split_on.induct) auto

lemma split_on_append: "c \<notin> set l \<Longrightarrow> split_on c (l @ c # s) = l # split_on c s"
  by (induction l) auto

lemma split_join: "ls \<noteq> [] \<Longrightarrow> \<forall>l \<in> set ls. CHR 0x0A \<notin> set l \<Longrightarrow> split_on (CHR 0x0A) (join_lines ls) = ls"
  by (induction ls rule: join_lines.induct) (auto simp: split_on_none split_on_append)

lemma trim_idem [simp]: "trim (trim s) = trim s"
proof -
  have "dropWhile is_space (rev (dropWhile is_space (rev t))) = rev (dropWhile is_space (rev t))" if "t = [] \<or> \<not> is_space (hd t)" for t
    using that
  proof (cases "dropWhile is_space (rev t)")
    case (Cons x xs)
    then have False: "dropWhile is_space (rev t) \<noteq> []" by simp
    then have "hd (rev (dropWhile is_space (rev t))) = hd t"
      by (metis False hd_append2 rev_append rev_is_Nil_conv rev_rev_ident takeWhile_dropWhile_id)
    then show ?thesis using that False by (auto simp: dropWhile_eq_self_iff)
  qed (simp only: rev.simps dropWhile.simps)
  moreover have "dropWhile is_space s = [] \<or> \<not> is_space (hd (dropWhile is_space s))" using hd_dropWhile by blast
  ultimately show ?thesis by (simp add: trim_def)
qed

lemma trim_subset: "c \<in> set (trim s) \<Longrightarrow> c \<in> set s"
  by (auto simp: trim_def dest!: set_dropWhileD)

lemma file_lines_clean: "l \<in> set (file_lines d) \<Longrightarrow> l \<noteq> [] \<and> trim l = l \<and> CHR 0x0A \<notin> set l"
  by (auto simp: file_lines_def dest: trim_subset split_on_parts)

lemma file_lines_join:
  assumes "\<forall>l \<in> set ls. l \<noteq> [] \<and> trim l = l \<and> CHR 0x0A \<notin> set l"
  shows "file_lines (join_lines ls) = ls"
proof (cases "ls = []")
  case False
  then have "split_on (CHR 0x0A) (join_lines ls) = ls" using assms by (intro split_join) auto
  moreover have "map trim ls = ls" using assms by (simp add: map_idI)
  ultimately show ?thesis using assms by (simp add: file_lines_def)
qed (simp add: file_lines_def trim_def)

section \<open>A new file\<close>

lemma migrated_number_name: "migrated_number (migrated_name n) = Some n"
  using show_nat_digits [of n]
  by (auto simp: migrated_number_def migrated_name_def Let_def list_all_iff takeWhile_append dropWhile_append is_digit_def)

lemma fold_max_bound: "x \<in> insert n (set ns) \<Longrightarrow> x \<le> fold max ns (n :: nat)"
proof (induction ns arbitrary: n x)
  case (Cons m ns)
  have "max m n \<le> fold max ns (max m n)" by (rule Cons.IH) simp
  then show ?case using Cons.IH [of x "max m n"] Cons.prems by auto
qed simp

lemma next_name_fresh: "migrated_name (getNextMigrationNumber dir) \<notin> fst ` set dir"
proof
  define ns where "ns = map (\<lambda>(file, _). case migrated_number file of None \<Rightarrow> 0 | Some n \<Rightarrow> n) (getAllMigrationFiles dir)"
  let ?n = "getNextMigrationNumber dir"
  assume "migrated_name ?n \<in> fst ` set dir"
  then have "?n \<in> set ns"
    using migrated_number_name [of ?n] by (fastforce simp: ns_def getAllMigrationFiles_def intro: rev_image_eqI)
  then obtain m ms where "ns = m # ms" "?n \<in> insert m (set ms)" by (cases ns) auto
  then show False using fold_max_bound [of ?n m ms] by (simp add: getNextMigrationNumber_def ns_def)
qed

end
