(* ===== verification/Node_Commands.thy ===== *)
theory Node_Commands
  imports Migration_Files Director Node_State Partial_Validators V1_Response
begin

text \<open>
  \<open>src/index.js\<close>: the operations of a node, as its operator and the interface call them. What a command
  does to the network, to the ledger and to the files is a list of effects, in order: a payload given to the orchestrator, bytes appended to
  autobase, or a file written to a directory; with it comes its result or the exception that ends it. The orchestrator's answer is the argument \<open>send\<close>, the nonce that the
  builder draws the argument \<open>nonce\<close>; the files of migrations are given by their contents. A state that is read again after a wait
  is an argument of its own.
\<close>

section \<open>The node\<close>

record node_config =
  enableWallet :: bool
  enableRoleRequester :: bool

record msb =
  m_config :: node_config
  m_wallet :: "wallet option"
  m_state :: node_state

datatype effect = Broadcast js | Append buffer | WriteFile string string string

datatype command_error =
    WalletNotEnabled | WalletNotInitialized | AdminExists | AdminMissing | NotAdmin | NotAdminNorWriter | NotBootstrap | SameWriterKey
  | AddressRefused | AdminAddress | AlreadyWhitelisted | WhitelistedBefore | BadFile file_error | NothingToProcess
  | AlreadyWriter | NotAllowed | AlreadyWritable | InsufficientBalance | NotWriter | RoleIndexer
  | EntryMissing | AlreadyIndexer | NotPromotable | NotDemotable | NotBannable
  | BootstrapMissing | ChannelMissing | ChannelNotHex | BootstrapNotHex | AlreadyDeployed | OwnBootstrap | SenderMissing
  | AmountTooLarge | AmountConversion | InitializationOver | DecodeFailed
  | PayloadRequired | InvalidTransaction | BroadcastFailed
  | BadAmount amount_error | BadBuild build_error | BadPayload normalize_error | Rejected fault | BadHistory history_error
  | TypeErr

type_synonym 'a command = "effect list \<times> (command_error + 'a)"

definition fails :: "command_error \<Rightarrow> 'a command" where
  "fails e = ([], Inl e)"

text \<open>The guards of a command, in order.\<close>

fun require :: "(bool \<times> command_error) list \<Rightarrow> 'a command \<Rightarrow> 'a command" where
  "require [] c = c"
| "require ((bad, e) # guards) c = (if bad then fails e else require guards c)"

definition given :: "command_error + 'x \<Rightarrow> ('x \<Rightarrow> 'a command) \<Rightarrow> 'a command" where
  "given r f = (case r of Inl e \<Rightarrow> fails e | Inr x \<Rightarrow> f x)"

text \<open>A property of the wallet that is \<open>undefined\<close>, or of an entry that is \<open>null\<close>, is a TypeError.\<close>

definition value_of :: "'x option \<Rightarrow> command_error + 'x" where
  "value_of v = (case v of None \<Rightarrow> Inl TypeErr | Some x \<Rightarrow> Inr x)"

definition bigint_of :: "buffer \<Rightarrow> command_error + int" where
  "bigint_of b = (case bufferToBigInt b of Inl e \<Rightarrow> Inl (BadAmount e) | Inr v \<Rightarrow> Inr v)"

definition own_address :: "msb \<Rightarrow> command_error + string" where
  "own_address m = (case m_wallet m of None \<Rightarrow> Inl TypeErr | Some w \<Rightarrow> Inr (w_address w))"

definition file_of :: "file_error + 'x \<Rightarrow> command_error + 'x" where
  "file_of r = (case r of Inl e \<Rightarrow> Inl (BadFile e) | Inr x \<Rightarrow> Inr x)"

text \<open>What was done before the rest of a command stays done when that fails.\<close>

definition emitting :: "effect list \<Rightarrow> 'a command \<Rightarrow> 'a command" where
  "emitting effects c = (effects @ fst c, snd c)"

text \<open>\<open>isAddressValid\<close> of an argument that may be missing.\<close>

fun address_arg :: "'b env \<Rightarrow> string option \<Rightarrow> bool" where
  "address_arg E None = False"
| "address_arg E (Some a) = isAddressValid E a"

section \<open>Messages\<close>

definition applyStateMessageFactory :: "'b env \<Rightarrow> (buffer \<Rightarrow> buffer) \<Rightarrow> wallet option \<Rightarrow> buffer \<Rightarrow> (step \<Rightarrow> message) \<Rightarrow> command_error + built" where
  "applyStateMessageFactory E hash wallet nonce build_message =
     (case new_builder E wallet of
        Inl e \<Rightarrow> Inl (BadBuild e)
      | Inr b \<Rightarrow> (case wallet of
          None \<Rightarrow> Inl TypeErr
        | Some w \<Rightarrow> (case build_message (build E hash w nonce) (Some b) of
            Inl e \<Rightarrow> Inl (BadBuild e) | Inr (payload, _) \<Rightarrow> Inr payload)))"

definition encode_built :: "wire \<Rightarrow> built \<Rightarrow> buffer" where
  "encode_built wr payload = (case payload of BufferOut op \<Rightarrow> safeEncodeApplyOperation wr op | JsonOut _ \<Rightarrow> alloc 0)"

definition append_message :: "wire \<Rightarrow> command_error + built \<Rightarrow> unit command" where
  "append_message wr r = given r (\<lambda>payload. ([Append (encode_built wr payload)], Inr ()))"

definition broadcastPartialTransaction :: "(js \<Rightarrow> bool) \<Rightarrow> js \<Rightarrow> effect list \<times> bool" where
  "broadcastPartialTransaction send payload = ([Broadcast payload], send payload)"

definition json_of_built :: "built \<Rightarrow> js" where
  "json_of_built payload = (case payload of JsonOut j \<Rightarrow> j | BufferOut _ \<Rightarrow> JUndefined)"

definition broadcast_message :: "(js \<Rightarrow> bool) \<Rightarrow> command_error + built \<Rightarrow> unit command" where
  "broadcast_message send r = given r (\<lambda>payload.
     let (effects, ok) = broadcastPartialTransaction send (json_of_built payload)
     in (effects, if ok then Inr () else Inl BroadcastFailed))"

section \<open>Who is the admin\<close>

definition isAdminNode :: "msb \<Rightarrow> admin_entry option \<Rightarrow> command_error + bool" where
  "isAdminNode m adminEntry =
     (case adminEntry of
        None \<Rightarrow> Inr False
      | Some a \<Rightarrow>
          if \<not> enableWallet (m_config m) then Inr False
          else case m_wallet m of
            None \<Rightarrow> Inl TypeErr
          | Some w \<Rightarrow> Inr (Some (w_address w) = ae_address a \<and> ae_wk a = ns_writingKey (m_state m)))"

definition isAllowedToRequestRole :: "msb \<Rightarrow> admin_entry option \<Rightarrow> node_entry option \<Rightarrow> command_error + bool" where
  "isAllowedToRequestRole m adminEntry nodeEntry =
     (if (case nodeEntry of None \<Rightarrow> False | Some e \<Rightarrow> ne_isWhitelisted e)
      then (case isAdminNode m adminEntry of Inl e \<Rightarrow> Inl e | Inr b \<Rightarrow> Inr (\<not> b)) else Inr False)"

section \<open>Administration\<close>

definition handleAdminCreation :: "'b env \<Rightarrow> (buffer \<Rightarrow> buffer) \<Rightarrow> wire \<Rightarrow> buffer \<Rightarrow> msb \<Rightarrow> unit command" where
  "handleAdminCreation E hash wr nonce m =
     require [(\<not> enableWallet (m_config m), WalletNotEnabled), (getAdminEntry E (m_state m) \<noteq> None, AdminExists),
         (m_wallet m = None, WalletNotInitialized), (ns_writingKey (m_state m) \<noteq> bootstrap E, NotBootstrap)]
       (let txValidity = hash (bootstrap E)
        in given (own_address m) (\<lambda>address.
          append_message wr (applyStateMessageFactory E hash (m_wallet m) nonce (\<lambda>step.
            buildCompleteAddAdminMessage E step (JStr address) (JBuf (ns_writingKey (m_state m))) (JBuf txValidity)))))"

definition handleAdminRecovery :: "'b env \<Rightarrow> (buffer \<Rightarrow> buffer) \<Rightarrow> (js \<Rightarrow> bool) \<Rightarrow> buffer \<Rightarrow> msb \<Rightarrow> unit command" where
  "handleAdminRecovery E hash send nonce m =
     (let adminEntry = getAdminEntry E (m_state m)
      in require [(\<not> enableWallet (m_config m), WalletNotEnabled), (adminEntry = None, AdminMissing), (m_wallet m = None, WalletNotInitialized)]
           (given (value_of adminEntry) (\<lambda>admin. given (own_address m) (\<lambda>address.
             require [(ae_address admin \<noteq> Some address, NotAdmin), (ns_writingKey (m_state m) = ae_wk admin, SameWriterKey)]
               (let txValidity = getIndexerSequenceState hash (m_state m)
                in broadcast_message send (applyStateMessageFactory E hash (m_wallet m) nonce (\<lambda>step.
                  buildPartialAdminRecoveryMessage E step (JStr address) (JBuf (ns_writingKey (m_state m))) (JBuf txValidity) (JStr ''json''))))))))"

definition disableInitialization :: "'b env \<Rightarrow> (buffer \<Rightarrow> buffer) \<Rightarrow> wire \<Rightarrow> buffer \<Rightarrow> msb \<Rightarrow> unit command" where
  "disableInitialization E hash wr nonce m =
     (let adminEntry = getAdminEntry E (m_state m)
      in require [(\<not> enableWallet (m_config m), WalletNotEnabled), (isInitalizationDisabled (m_state m), InitializationOver),
             (adminEntry = None, AdminMissing)]
           (given (isAdminNode m adminEntry) (\<lambda>admin.
             require [(\<not> admin, NotAdmin), (m_wallet m = None, WalletNotInitialized)]
               (let txValidity = getIndexerSequenceState hash (m_state m)
                in given (own_address m) (\<lambda>address.
                  append_message wr (applyStateMessageFactory E hash (m_wallet m) nonce (\<lambda>step.
                    buildCompleteDisableInitializationMessage E step (JStr address) (JBuf (ns_writingKey (m_state m))) (JBuf txValidity))))))))"

definition updateWriterToIndexerRole ::
  "'b env \<Rightarrow> (buffer \<Rightarrow> buffer) \<Rightarrow> wire \<Rightarrow> buffer \<Rightarrow> msb \<Rightarrow> string option \<Rightarrow> bool \<Rightarrow> unit command" where
  "updateWriterToIndexerRole E hash wr nonce m addressToUpdate toAdd =
     (let adminEntry = getAdminEntry E (m_state m)
      in require [(\<not> enableWallet (m_config m), WalletNotEnabled), (adminEntry = None, AdminMissing),
             (\<not> address_arg E addressToUpdate, AddressRefused)]
           (given (isAdminNode m adminEntry) (\<lambda>admin.
             require [(\<not> admin \<and> \<not> ns_writable (m_state m), NotAdminNorWriter)]
               (given (value_of addressToUpdate) (\<lambda>target.
                 case getNodeEntry (m_state m) target of
                   None \<Rightarrow> fails EntryMissing
                 | Some nodeEntry \<Rightarrow>
                     (let indexerListHasAddress = isWkInIndexersEntry (m_state m) (Some (ne_wk nodeEntry));
                          txValidity = getIndexerSequenceState hash (m_state m);
                          message = (\<lambda>f. given (own_address m) (\<lambda>address.
                            append_message wr (applyStateMessageFactory E hash (m_wallet m) nonce (\<lambda>step. f step (JStr address) (JStr target) (JBuf txValidity)))))
                      in if toAdd then
                           require [(indexerListHasAddress, AlreadyIndexer),
                               (\<not> (ne_isWhitelisted nodeEntry \<and> ne_isWriter nodeEntry \<and> \<not> ne_isIndexer nodeEntry \<and> \<not> indexerListHasAddress), NotPromotable)]
                             (message (buildCompleteAddIndexerMessage E))
                         else
                           require [(\<not> (ne_isIndexer nodeEntry \<and> indexerListHasAddress), NotDemotable)]
                             (message (buildCompleteRemoveIndexerMessage E))))))))"

definition banValidator :: "'b env \<Rightarrow> (buffer \<Rightarrow> buffer) \<Rightarrow> wire \<Rightarrow> buffer \<Rightarrow> msb \<Rightarrow> string option \<Rightarrow> unit command" where
  "banValidator E hash wr nonce m addressToBan =
     (let adminEntry = getAdminEntry E (m_state m)
      in require [(\<not> enableWallet (m_config m), WalletNotEnabled), (adminEntry = None, AdminMissing), (\<not> address_arg E addressToBan, AddressRefused)]
           (given (isAdminNode m adminEntry) (\<lambda>admin.
             require [(\<not> admin, NotAdmin)]
               (given (value_of addressToBan) (\<lambda>target.
                 let nodeEntry = getNodeEntry (m_state m) target
                 in require [(\<not> isAddressWhitelisted (m_state m) target \<or> nodeEntry = None \<or>
                        (case nodeEntry of None \<Rightarrow> False | Some e \<Rightarrow> ne_isIndexer e), NotBannable)]
                      (let txValidity = getIndexerSequenceState hash (m_state m)
                       in given (own_address m) (\<lambda>address.
                         append_message wr (applyStateMessageFactory E hash (m_wallet m) nonce (\<lambda>step.
                           buildCompleteBanWriterMessage E step (JStr address) (JStr target) (JBuf txValidity))))))))))"

section \<open>Migrations\<close>

text \<open>\<open>validateAddressFromIncomingFile\<close>; \<open>decode\<close> throws on what is no address.\<close>

definition validateAddressFromIncomingFile :: "'b env \<Rightarrow> node_state \<Rightarrow> string \<Rightarrow> admin_entry option \<Rightarrow> command_error + unit" where
  "validateAddressFromIncomingFile E s address adminEntry =
     (if \<not> isAddressValid E address then Inl AddressRefused
      else if length (address_decodeSafe E (Some address)) \<noteq> 32 then Inl AddressRefused
      else case adminEntry of
        None \<Rightarrow> Inl TypeErr
      | Some admin \<Rightarrow>
          if Some address = ae_address admin then Inl AdminAddress
          else case getNodeEntryUnsigned s address of
            None \<Rightarrow> Inr ()
          | Some nodeEntry \<Rightarrow>
              if ne_isWhitelisted nodeEntry then Inl AlreadyWhitelisted
              else if ne_license nodeEntry \<noteq> ZERO_LICENSE then Inl WhitelistedBefore
              else Inr ())"

fun each_valid :: "'b env \<Rightarrow> node_state \<Rightarrow> admin_entry option \<Rightarrow> string list \<Rightarrow> command_error + unit" where
  "each_valid E s adminEntry [] = Inr ()"
| "each_valid E s adminEntry (a # as) =
     (case validateAddressFromIncomingFile E s a adminEntry of Inl e \<Rightarrow> Inl e | Inr _ \<Rightarrow> each_valid E s adminEntry as)"

text \<open>The messages of a list, each with a nonce of its own. \<open>Map.set\<close> keeps the place of a key that it overwrites.\<close>

fun map_set :: "'k \<Rightarrow> 'v \<Rightarrow> ('k \<times> 'v) list \<Rightarrow> ('k \<times> 'v) list" where
  "map_set k v [] = [(k, v)]"
| "map_set k v ((k', v') # ps) = (if k' = k then (k, v) # ps else (k', v') # map_set k v ps)"

fun whitelist_messages :: "wire \<Rightarrow> (string \<Rightarrow> command_error + built) \<Rightarrow> string list \<Rightarrow> (string \<times> buffer) list \<Rightarrow>
    command_error + (string \<times> buffer) list" where
  "whitelist_messages wr message [] messages = Inr messages"
| "whitelist_messages wr message (a # as) messages =
     (case message a of
        Inl e \<Rightarrow> Inl e
      | Inr payload \<Rightarrow> whitelist_messages wr message as (map_set a (encode_built wr payload) messages))"

text \<open>The loop that appends them; before each message the state is read again, and \<open>later i\<close> is what it is then.\<close>

fun whitelist_appends :: "(nat \<Rightarrow> node_state) \<Rightarrow> nat \<Rightarrow> (string \<times> buffer) list \<Rightarrow> effect list" where
  "whitelist_appends later i [] = []"
| "whitelist_appends later i ((address, encodedPayload) # messages) =
     (if isAddressWhitelisted (later i) address then whitelist_appends later (Suc i) messages
      else Append encodedPayload # whitelist_appends later (Suc i) messages)"

definition handleWhitelistOperations ::
  "'b env \<Rightarrow> (buffer \<Rightarrow> buffer) \<Rightarrow> wire \<Rightarrow> (string \<Rightarrow> buffer) \<Rightarrow> (nat \<Rightarrow> node_state) \<Rightarrow> msb \<Rightarrow> string option \<Rightarrow> directory \<Rightarrow> unit command" where
  "handleWhitelistOperations E hash wr nonce later m data dir =
     (let adminEntry = getAdminEntry E (m_state m)
      in require [(\<not> enableWallet (m_config m), WalletNotEnabled)]
           (given (isAdminNode m adminEntry) (\<lambda>admin.
             require [(\<not> admin, NotAdmin)]
               (given (file_of (readAddressesFromWhitelistFile WHITELIST_FILEPATH data)) (\<lambda>addresses.
               given (each_valid E (m_state m) adminEntry addresses) (\<lambda>_.
               given (file_of (validateWhitelistMigrationData dir addresses)) (\<lambda>_.
                 let (file, content) = createWhitelistEntryFile addresses (getNextMigrationNumber dir)
                 in emitting [WriteFile WHITELIST_MIGRATION_DIR file content]
                   (given (own_address m) (\<lambda>address.
                     let txValidity = getIndexerSequenceState hash (m_state m)
                     in given (whitelist_messages wr (\<lambda>a. applyStateMessageFactory E hash (m_wallet m) (nonce a) (\<lambda>step.
                          buildCompleteAppendWhitelistMessage E step (JStr address) (JStr a) (JBuf txValidity))) addresses []) (\<lambda>messages.
                       require [(messages = [], NothingToProcess)] (whitelist_appends later 0 messages, Inr ())))))))))))"

fun balance_messages :: "wire \<Rightarrow> (string \<Rightarrow> buffer \<Rightarrow> command_error + built) \<Rightarrow> (string \<times> buffer) list \<Rightarrow> command_error + buffer list" where
  "balance_messages wr message [] = Inr []"
| "balance_messages wr message ((a, amount) # pairs) =
     (case message a amount of
        Inl e \<Rightarrow> Inl e
      | Inr payload \<Rightarrow> (case balance_messages wr message pairs of Inl e \<Rightarrow> Inl e | Inr bs \<Rightarrow> Inr (encode_built wr payload # bs)))"

text \<open>The balances as they are afterwards, against those of the file; an entry that is not there yet is a TypeError.\<close>

fun check_balances :: "(string \<Rightarrow> node_entry option) \<Rightarrow> (string \<times> int) list \<Rightarrow> command_error + bool" where
  "check_balances entry [] = Inr True"
| "check_balances entry ((address, expectedBalance) # rest) =
     chain (value_of (entry address)) (\<lambda>e. chain (bigint_of (ne_balance e)) (\<lambda>amountBigInt.
       chain (check_balances entry rest) (\<lambda>ok. Inr (amountBigInt = expectedBalance \<and> ok))))"

definition allBalancesMigrated :: "node_state \<Rightarrow> (string \<times> int) list \<Rightarrow> command_error + bool" where
  "allBalancesMigrated s addresses =
     chain (check_balances (getNodeEntryUnsigned s) addresses) (\<lambda>unsigned.
       chain (check_balances (getNodeEntry s) addresses) (\<lambda>confirmed. Inr (unsigned \<and> confirmed)))"

text \<open>\<open>after\<close> is the state five seconds after the last append. The sum of the balances is shown before anything is appended, which throws when it has
  more than 16 bytes.\<close>

definition balanceMigrationOperation ::
  "'b env \<Rightarrow> (buffer \<Rightarrow> buffer) \<Rightarrow> wire \<Rightarrow> (string \<Rightarrow> buffer) \<Rightarrow> node_state \<Rightarrow> msb \<Rightarrow> string option \<Rightarrow> directory \<Rightarrow> bool command" where
  "balanceMigrationOperation E hash wr nonce after m data dir =
     (let adminEntry = getAdminEntry E (m_state m)
      in require [(isInitalizationDisabled (m_state m), InitializationOver), (\<not> enableWallet (m_config m), WalletNotEnabled),
             (adminEntry = None, AdminMissing)]
           (given (isAdminNode m adminEntry) (\<lambda>admin.
             require [(\<not> admin, NotAdmin), (m_wallet m = None, WalletNotInitialized), (ns_writingKey (m_state m) \<noteq> bootstrap E, NotBootstrap)]
               (given (file_of (readBalanceMigrationFile BALANCE_MIGRATION_FILEPATH data)) (\<lambda>migration.
                let addressBalancePair = bf_addressBalancePair migration; addresses = map fst (bf_addresses migration)
                in given (each_valid E (m_state m) adminEntry addresses) (\<lambda>_.
                given (file_of (validateBalanceMigrationData dir addresses)) (\<lambda>_.
                given (file_of (createMigrationEntryFile addressBalancePair (getNextMigrationNumber dir))) (\<lambda>(file, content).
                 emitting [WriteFile BALANCE_MIGRATED_DIR file content]
                   (let txValidity = getIndexerSequenceState hash (m_state m)
                    in given (own_address m) (\<lambda>address.
                      given (balance_messages wr (\<lambda>a amount. applyStateMessageFactory E hash (m_wallet m) (nonce a) (\<lambda>step.
                          buildCompleteBalanceInitializationMessage E step (JStr address) (JStr a) (JBuf amount) (JBuf txValidity))) addressBalancePair) (\<lambda>messages.
                      given (case bigIntToDecimalString (bf_totalBalance migration) of Inl e \<Rightarrow> Inl (BadAmount e) | Inr s \<Rightarrow> Inr s) (\<lambda>_.
                        require [(messages = [], NothingToProcess)]
                          (map Append messages, allBalancesMigrated after (bf_addresses migration))))))))))))))"

section \<open>Roles, deployments and transfers\<close>

definition fee_bigint :: "command_error + int" where
  "fee_bigint = bigint_of FEE"

definition requestWriterRole :: "'b env \<Rightarrow> (buffer \<Rightarrow> buffer) \<Rightarrow> (js \<Rightarrow> bool) \<Rightarrow> buffer \<Rightarrow> msb \<Rightarrow> bool \<Rightarrow> unit command" where
  "requestWriterRole E hash send nonce m toAdd =
     (let adminEntry = getAdminEntry E (m_state m); txValidity = getIndexerSequenceState hash (m_state m)
      in require [(\<not> enableWallet (m_config m), WalletNotEnabled)]
           (given (own_address m) (\<lambda>address.
             let nodeEntry = getNodeEntry (m_state m) address;
                 isAlreadyWriter = (case nodeEntry of None \<Rightarrow> False | Some e \<Rightarrow> ne_isWriter e);
                 message = (\<lambda>f key. broadcast_message send (applyStateMessageFactory E hash (m_wallet m) nonce (\<lambda>step.
                   f step (JStr address) (JBuf key) (JBuf txValidity) (JStr ''json''))))
             in if toAdd then
                  require [(isAlreadyWriter, AlreadyWriter)]
                    (given (isAllowedToRequestRole m adminEntry nodeEntry) (\<lambda>allowed.
                      require [(\<not> allowed, NotAllowed), (ns_writable (m_state m), AlreadyWritable)]
                        (given fee_bigint (\<lambda>fee. given (value_of nodeEntry) (\<lambda>entry. given (bigint_of (ne_balance entry)) (\<lambda>nodeBalance.
                          require [(nodeBalance < fee * 11, InsufficientBalance)]
                            (message (buildPartialAddWriterMessage E) (ns_writingKey (m_state m)))))))))
                else
                  require [(\<not> isAlreadyWriter, NotWriter)]
                    (given (value_of nodeEntry) (\<lambda>entry.
                      require [(ne_isIndexer entry, RoleIndexer)]
                        (given fee_bigint (\<lambda>fee. given (bigint_of (ne_balance entry)) (\<lambda>nodeBalance.
                          require [(nodeBalance < fee, InsufficientBalance)]
                            (message (buildPartialRemoveWriterMessage E) (ne_wk entry))))))))))"

text \<open>At the start of the node; \<open>after\<close> is the node five seconds later. An exception of the first request ends the start.\<close>

definition setUpRoleAutomatically ::
  "'b env \<Rightarrow> (buffer \<Rightarrow> buffer) \<Rightarrow> (js \<Rightarrow> bool) \<Rightarrow> buffer \<Rightarrow> buffer \<Rightarrow> msb \<Rightarrow> msb \<Rightarrow> unit command" where
  "setUpRoleAutomatically E hash send nonce1 nonce2 m after =
     (if \<not> ns_writable (m_state m) \<and> enableRoleRequester (m_config m) then
        (case requestWriterRole E hash send nonce1 m False of
           (effects, Inl e) \<Rightarrow> (effects, Inl e)
         | (effects, Inr _) \<Rightarrow> (effects @ fst (requestWriterRole E hash send nonce2 after True), Inr ()))
      else ([], Inr ()))"

fun falsy_arg :: "string option \<Rightarrow> bool" where
  "falsy_arg None = True"
| "falsy_arg (Some s) \<longleftrightarrow> s = []"

definition deployBootstrap ::
  "'b env \<Rightarrow> (buffer \<Rightarrow> buffer) \<Rightarrow> (js \<Rightarrow> bool) \<Rightarrow> buffer \<Rightarrow> msb \<Rightarrow> string option \<Rightarrow> string option \<Rightarrow> unit command" where
  "deployBootstrap E hash send nonce m externalBootstrap channel =
     require [(\<not> enableWallet (m_config m), WalletNotEnabled), (m_wallet m = None, WalletNotInitialized),
         (getAdminEntry E (m_state m) = None, AdminMissing), (falsy_arg externalBootstrap, BootstrapMissing), (falsy_arg channel, ChannelMissing)]
       (given (value_of externalBootstrap) (\<lambda>bs. given (value_of channel) (\<lambda>ch. given (own_address m) (\<lambda>address.
         require [(length ch \<noteq> 64 \<or> \<not> isHexString ch, ChannelNotHex), (length bs \<noteq> 64 \<or> \<not> isHexString bs, BootstrapNotHex),
             (getRegisteredBootstrapEntry (m_state m) bs \<noteq> None, AlreadyDeployed), (bs = to_hex (bootstrap E), OwnBootstrap)]
           (case getNodeEntry (m_state m) address of
              None \<Rightarrow> fails SenderMissing
            | Some senderEntry \<Rightarrow>
                given fee_bigint (\<lambda>fee. given (bigint_of (ne_balance senderEntry)) (\<lambda>senderBalance.
                  require [(senderBalance < fee, InsufficientBalance)]
                    (let txValidity = getIndexerSequenceState hash (m_state m)
                     in broadcast_message send (applyStateMessageFactory E hash (m_wallet m) nonce (\<lambda>step.
                       buildPartialBootstrapDeploymentMessage E step (JStr address) (JStr bs) (JStr ch) (JBuf txValidity) (JStr ''json'')))))))))))"

record prepared =
  pt_payload :: js
  pt_amount :: int
  pt_fee :: int
  pt_senderBalance :: int
  pt_totalDeductedAmount :: int
  pt_expectedNewBalance :: int
  pt_isSelfTransfer :: bool

text \<open>An amount that is missing is no string.\<close>

definition amount_arg :: "string option \<Rightarrow> command_error + int" where
  "amount_arg amount = (case amount of None \<Rightarrow> Inl TypeErr
     | Some s \<Rightarrow> (case decimalStringToBigInt s of Inl e \<Rightarrow> Inl (BadAmount e) | Inr v \<Rightarrow> Inr v))"

definition prepareTransferOperation ::
  "'b env \<Rightarrow> (buffer \<Rightarrow> buffer) \<Rightarrow> buffer \<Rightarrow> msb \<Rightarrow> string option \<Rightarrow> string option \<Rightarrow> prepared command" where
  "prepareTransferOperation E hash nonce m recipientAddress amount =
     require [(\<not> enableWallet (m_config m), WalletNotEnabled), (m_wallet m = None, WalletNotInitialized), (\<not> address_arg E recipientAddress, AddressRefused)]
       (given (value_of recipientAddress) (\<lambda>recipient. given (own_address m) (\<lambda>address. given (amount_arg amount) (\<lambda>amountBigInt.
         let amountBuffer = bigIntTo16ByteBuffer amountBigInt
         in require [(amountBigInt > 2 ^ 128 - 1, AmountTooLarge)]
           (given (bigint_of amountBuffer) (\<lambda>written.
             require [(written \<noteq> amountBigInt, AmountConversion)]
               (case getNodeEntry (m_state m) address of
                  None \<Rightarrow> fails SenderMissing
                | Some senderEntry \<Rightarrow>
                    given fee_bigint (\<lambda>fee. given (bigint_of (ne_balance senderEntry)) (\<lambda>senderBalance.
                      let isSelfTransfer = (recipient = address);
                          totalDeductedAmount = (if isSelfTransfer then fee else amountBigInt + fee);
                          txValidity = getIndexerSequenceState hash (m_state m)
                      in require [(\<not> totalDeductedAmount \<le> senderBalance, InsufficientBalance)]
                        (given (applyStateMessageFactory E hash (m_wallet m) nonce (\<lambda>step.
                            buildPartialTransferOperationMessage E step (JStr address) (JStr recipient) (JBuf amountBuffer) (JBuf txValidity) (JStr ''json''))) (\<lambda>payload.
                          ([], Inr \<lparr>pt_payload = json_of_built payload, pt_amount = amountBigInt, pt_fee = fee, pt_senderBalance = senderBalance,
                             pt_totalDeductedAmount = totalDeductedAmount, pt_expectedNewBalance = senderBalance - totalDeductedAmount,
                             pt_isSelfTransfer = isSelfTransfer\<rparr>))))))))))))"

definition submitPreparedTransferOperation :: "(js \<Rightarrow> bool) \<Rightarrow> prepared \<Rightarrow> js command" where
  "submitPreparedTransferOperation send preparedTransfer =
     (let (effects, ok) = broadcastPartialTransaction send (pt_payload preparedTransfer)
      in (effects, if ok then Inr (prop_of (prop_of (pt_payload preparedTransfer) ''tro'') ''tx'') else Inl BroadcastFailed))"

section \<open>Reads\<close>

text \<open>
  The reads of \<open>src/index.js\<close> that the command line and the interface show, and the broadcast of an operation that a
  user built elsewhere. A result that may be \<open>null\<close> is an option, an exception an \<open>Inl\<close>.
\<close>

subsection \<open>Transactions\<close>

definition tx_info :: "wire \<Rightarrow> buffer option \<Rightarrow> command_error + (buffer \<times> operation) option" where
  "tx_info wr payload =
     (case payload of
        None \<Rightarrow> Inr None
      | Some payload \<Rightarrow> (case safeDecodeApplyOperation wr payload of
          None \<Rightarrow> Inl DecodeFailed | Some decoded \<Rightarrow> Inr (Some (payload, decoded))))"

definition getConfirmedTxInfo :: "wire \<Rightarrow> msb \<Rightarrow> string \<Rightarrow> command_error + (buffer \<times> operation) option" where
  "getConfirmedTxInfo wr m txHash = tx_info wr (getSigned (m_state m) txHash)"

definition getUnconfirmedTxInfo :: "wire \<Rightarrow> msb \<Rightarrow> string \<Rightarrow> command_error + (buffer \<times> operation) option" where
  "getUnconfirmedTxInfo wr m txHash = tx_info wr (st_get (m_state m) txHash)"

definition details_json :: "'b env \<Rightarrow> operation \<Rightarrow> command_error + js" where
  "details_json E decoded = (case normalizeDecodedPayloadForJson E (decoded_object decoded) of Inl e \<Rightarrow> Inl (BadAmount e) | Inr j \<Rightarrow> Inr j)"

definition getTxDetails :: "'b env \<Rightarrow> wire \<Rightarrow> msb \<Rightarrow> string \<Rightarrow> command_error + js option" where
  "getTxDetails E wr m h =
     chain (getConfirmedTxInfo wr m h) (\<lambda>rawPayload. case rawPayload of
       None \<Rightarrow> Inr None
     | Some (_, decoded) \<Rightarrow> chain (details_json E decoded) (\<lambda>j. Inr (Some j)))"

record bulk_response =
  br_results :: "(string \<times> js) list"
  br_missing :: "string list"

text \<open>\<open>Promise.all\<close> reads every hash before the results are gone through.\<close>

fun all_infos :: "wire \<Rightarrow> msb \<Rightarrow> string list \<Rightarrow> command_error + (string \<times> operation option) list" where
  "all_infos wr m [] = Inr []"
| "all_infos wr m (h # hs) =
     chain (getConfirmedTxInfo wr m h) (\<lambda>r. chain (all_infos wr m hs) (\<lambda>rs. Inr ((h, map_option snd r) # rs)))"

fun bulk_results :: "'b env \<Rightarrow> (string \<times> operation option) list \<Rightarrow> bulk_response \<Rightarrow> command_error + bulk_response" where
  "bulk_results E [] response = Inr response"
| "bulk_results E ((h, None) # rs) response = bulk_results E rs (response\<lparr>br_missing := br_missing response @ [h]\<rparr>)"
| "bulk_results E ((h, Some decoded) # rs) response =
     chain (details_json E decoded) (\<lambda>j. bulk_results E rs (response\<lparr>br_results := br_results response @ [(h, j)]\<rparr>))"

definition fetchBulkTxPayloads :: "'b env \<Rightarrow> wire \<Rightarrow> msb \<Rightarrow> string list \<Rightarrow> command_error + bulk_response" where
  "fetchBulkTxPayloads E wr m hashes =
     chain (all_infos wr m hashes) (\<lambda>results. bulk_results E results \<lparr>br_results = [], br_missing = []\<rparr>)"

definition handleGetFee :: "command_error + int" where
  "handleGetFee = fee_bigint"

record extended_details =
  ed_txDetails :: js
  ed_confirmed_length :: int
  ed_fee :: string

definition getExtendedTxDetails :: "'b env \<Rightarrow> wire \<Rightarrow> msb \<Rightarrow> string \<Rightarrow> bool \<Rightarrow> command_error + extended_details option" where
  "getExtendedTxDetails E wr m h confirmed =
     chain (if confirmed then getConfirmedTxInfo wr m h else getUnconfirmedTxInfo wr m h) (\<lambda>rawPayload. case rawPayload of
       None \<Rightarrow> Inr None
     | Some (_, decoded) \<Rightarrow> chain (details_json E decoded) (\<lambda>txDetails.
         case getTransactionConfirmedLength (m_state m) h of
           Inl e \<Rightarrow> Inl (BadHistory e)
         | Inr None \<Rightarrow> Inr (Some \<lparr>ed_txDetails = txDetails, ed_confirmed_length = 0, ed_fee = ''0''\<rparr>)
         | Inr (Some confirmedLength) \<Rightarrow> chain handleGetFee (\<lambda>fee.
             Inr (Some \<lparr>ed_txDetails = txDetails, ed_confirmed_length = confirmedLength, ed_fee = show_int fee\<rparr>))))"

definition getTxHashes :: "msb \<Rightarrow> int \<Rightarrow> int \<Rightarrow> command_error + (string \<times> int) list" where
  "getTxHashes m start stop = (case confirmedTransactionsBetween (m_state m) start stop of Inl e \<Rightarrow> Inl (BadHistory e) | Inr hashes \<Rightarrow> Inr hashes)"

section \<open>Accounts and lengths\<close>

definition getBalance :: "msb \<Rightarrow> string \<Rightarrow> bool \<Rightarrow> command_error + (string \<times> string) option" where
  "getBalance m address confirmed =
     (case (if confirmed then getNodeEntry (m_state m) address else getNodeEntryUnsigned (m_state m) address) of
        None \<Rightarrow> Inr None
      | Some nodeEntry \<Rightarrow> chain (bigint_of (ne_balance nodeEntry)) (\<lambda>balance. Inr (Some (address, show_int balance))))"

definition getTxv :: "(buffer \<Rightarrow> buffer) \<Rightarrow> msb \<Rightarrow> string" where
  "getTxv hash m = to_hex (getIndexerSequenceState hash (m_state m))"

definition getConfirmedLength :: "msb \<Rightarrow> int" where
  "getConfirmedLength m = ns_signedLength (m_state m)"

section \<open>Broadcasting\<close>

text \<open>\<open>polls\<close> are the states that \<open>waitForUnsigned\<close> reads until its time is over; reading an undefined key is an exception of the
  store.\<close>

definition waitForUnsigned :: "node_state list \<Rightarrow> string \<Rightarrow> bool" where
  "waitForUnsigned polls txHash = list_ex (\<lambda>s. st_get s txHash \<noteq> None) polls"

definition forwardTransaction :: "(js \<Rightarrow> bool) \<Rightarrow> node_state list \<Rightarrow> js \<Rightarrow> string option \<Rightarrow> string command" where
  "forwardTransaction send polls payload h =
     (let (effects, ok) = broadcastPartialTransaction send payload
      in (effects, if \<not> ok then Inl BroadcastFailed
           else case h of
             None \<Rightarrow> Inl TypeErr
           | Some tx \<Rightarrow> if \<not> waitForUnsigned polls tx then Inl BroadcastFailed else Inr tx))"

definition tx_hex :: "js \<Rightarrow> string \<Rightarrow> string option" where
  "tx_hex normalizedPayload key = (case prop_of (prop_of normalizedPayload key) ''tx'' of JBuf b \<Rightarrow> Some (to_hex b) | _ \<Rightarrow> None)"

definition broadcastTransaction ::
  "'b env \<Rightarrow> (buffer \<Rightarrow> buffer) \<Rightarrow> (js \<Rightarrow> bool) \<Rightarrow> node_state list \<Rightarrow> msb \<Rightarrow> js \<Rightarrow> string command" where
  "broadcastTransaction E hash send polls m payload =
     (if \<not> truthy payload then fails PayloadRequired
      else if prop_of payload ''type'' = JNum (int OT_TRANSFER) then
        (case normalizeTransferOperation E payload of
           Inl e \<Rightarrow> fails (BadPayload e)
         | Inr normalizedPayload \<Rightarrow>
             (case validateTransfer E hash None (m_state m) (js_operation normalizedPayload) of
                Inl f \<Rightarrow> fails (Rejected f)
              | Inr _ \<Rightarrow> forwardTransaction send polls payload (tx_hex normalizedPayload ''tro'')))
      else if prop_of payload ''type'' = JNum (int OT_TX) then
        (case normalizeTransactionOperation E payload of
           Inl e \<Rightarrow> fails (BadPayload e)
         | Inr normalizedPayload \<Rightarrow>
             (case validateTransaction E hash None (m_state m) (js_operation normalizedPayload) of
                Inl f \<Rightarrow> fails InvalidTransaction
              | Inr _ \<Rightarrow> forwardTransaction send polls payload (tx_hex normalizedPayload ''txo'')))
      else forwardTransaction send polls payload None)"

end
