(* ===== verification/Rpc.thy ===== *)
theory Rpc
  imports Node_Commands
begin

text \<open>
  The HTTP interface of a node, \<open>src/rpc\<close>: the routes, the handlers and the sanitising of what comes in. A handler's response is its status
  with what the body holds; \<open>None\<close> is an exception, which the server answers. The platform's \<open>URL\<close> and \<open>JSON.parse\<close> are
  arguments: a request comes with the segments of its path and its parameter \<open>confirmed\<close>.
\<close>

section \<open>Requests and responses\<close>

record request =
  rq_method :: string
  rq_url :: string
  rq_parts :: "string list"
  rq_confirmed :: "string option"
  rq_chunks :: "string list"

datatype rpc_error =
    RpcOffline | WalletAddressRequired | InvalidAccountAddress | PayloadTooLarge | InvalidJson | PayloadIsMissing | NotBase64 | NotDecodable | NotJson
  | BadStructure | NotTransferOrTransaction | EmptyPayload | InvalidTxPayload | BroadcastError | ProcessingError
  | NotInteger | Negative | EndBefore | RangeTooLong | InvalidHashFormat | HashRequired | NotFoundTx string | InternalError
  | ConfirmedNotBoolean | NoPayloadFound string | BodyTooLarge | MissingPayload | InvalidBulk | MissingHashes | TooManyHashes | ResponseTooLarge
  | InvalidBody | AccountRequired | NotFoundRoute | RouteError

record account_state =
  ac_address :: string
  ac_writingKey :: string
  ac_isWhitelisted :: bool
  ac_isValidator :: bool
  ac_isIndexer :: bool
  ac_license :: "string option"
  ac_balance :: string
  ac_stakedBalance :: string

datatype rpc_body =
    NoBody | Err rpc_error | Healthy | BalanceOf string string | Txv string | Fee string | Length int | Broadcasted string
  | TxHashes "(string \<times> int) list" | TxDetails js | Extended extended_details | Bulk bulk_response | Account account_state

type_synonym response = "(nat \<times> rpc_body) option"

definition respond :: "nat \<Rightarrow> rpc_body \<Rightarrow> response" where
  "respond code body = Some (code, body)"

section \<open>Parameters\<close>

definition MAX_SIGNED_LENGTH :: int where "MAX_SIGNED_LENGTH = 1000"

text \<open>\<open>getConfirmedParameter\<close>: \<open>None\<close> is \<open>null\<close>.\<close>

definition getConfirmedParameter :: "request \<Rightarrow> bool \<Rightarrow> bool option" where
  "getConfirmedParameter r defaultValue =
     (case rq_confirmed r of
        None \<Rightarrow> Some defaultValue
      | Some p \<Rightarrow> if p = ''true'' then Some True else if p = ''false'' then Some False else None)"

definition isValidTxHash :: "string \<Rightarrow> bool" where
  "isValidTxHash h \<longleftrightarrow> isHexString h \<and> length h = 64"

definition hasSpacesInUrl :: "string \<Rightarrow> bool" where
  "hasSpacesInUrl url \<longleftrightarrow> sublist ''%20'' url \<or> sublist '' '' url"

definition part :: "request \<Rightarrow> nat \<Rightarrow> string option" where
  "part r i = (if i < length (rq_parts r) then Some (rq_parts r ! i) else None)"

text \<open>\<open>parseInt\<close>: leading spaces and a sign, then the longest run of digits, hexadecimal after \<open>0x\<close>; \<open>None\<close> is NaN.\<close>

definition parse_digits :: "nat \<Rightarrow> (char \<Rightarrow> bool) \<Rightarrow> string \<Rightarrow> int option" where
  "parse_digits radix ok s =
     (let ds = takeWhile ok s
      in if ds = [] then None else Some (int (fold (\<lambda>c n. radix * n + the (hex_value c)) ds 0)))"

definition parseInt :: "string \<Rightarrow> int option" where
  "parseInt s =
     (let t = dropWhile is_space s;
          (negative, u) = (case t of c # cs \<Rightarrow> if c = CHR ''-'' then (True, cs) else if c = CHR ''+'' then (False, cs) else (False, t) | [] \<Rightarrow> (False, []));
          value = (if take 2 u = ''0x'' \<or> take 2 u = ''0X'' then parse_digits 16 (\<lambda>c. hex_value c \<noteq> None) (drop 2 u) else parse_digits 10 is_digit u)
      in map_option (\<lambda>n. if negative then - n else n) value)"

text \<open>The chunks of a body as they arrive; \<open>None\<close> when the limit is passed.\<close>

fun read_body :: "nat \<Rightarrow> string \<Rightarrow> string list \<Rightarrow> string option" where
  "read_body limit body [] = Some body"
| "read_body limit body (chunk # chunks) =
     (if length (body @ chunk) > limit then None else read_body limit (body @ chunk) chunks)"

section \<open>Reads\<close>

definition handleHealth :: "msb option \<Rightarrow> bool \<Rightarrow> response" where
  "handleHealth msbInstance opened = (if msbInstance \<noteq> None \<and> opened then respond 200 Healthy else respond 503 (Err RpcOffline))"

definition handleBalance :: "'b env \<Rightarrow> msb \<Rightarrow> request \<Rightarrow> response" where
  "handleBalance E m r =
     (case part r 2 of
        None \<Rightarrow> respond 400 (Err WalletAddressRequired)
      | Some address \<Rightarrow>
          if \<not> isAddressValid E address then respond 400 (Err InvalidAccountAddress)
          else case getBalance m address (case getConfirmedParameter r False of None \<Rightarrow> False | Some b \<Rightarrow> b) of
            Inl e \<Rightarrow> None
          | Inr nodeInfo \<Rightarrow> respond 200 (BalanceOf address (case nodeInfo of None \<Rightarrow> ''0'' | Some (_, balance) \<Rightarrow> if balance = [] then ''0'' else balance)))"

definition handleTxv :: "(buffer \<Rightarrow> buffer) \<Rightarrow> msb \<Rightarrow> response" where
  "handleTxv hash m = respond 200 (Txv (getTxv hash m))"

definition handleFee :: response where
  "handleFee = (case handleGetFee of Inl e \<Rightarrow> None | Inr v \<Rightarrow> respond 200 (Fee (show_int v)))"

definition handleConfirmedLength :: "msb \<Rightarrow> response" where
  "handleConfirmedLength m = respond 200 (Length (getConfirmedLength m))"

definition handleUnconfirmedLength :: "int \<Rightarrow> response" where
  "handleUnconfirmedLength unconfirmed_length = respond 200 (Length unconfirmed_length)"

definition handleTxHashes :: "msb \<Rightarrow> request \<Rightarrow> response" where
  "handleTxHashes m r =
     (case (Option.bind (part r 2) parseInt, Option.bind (part r 3) parseInt) of
        (Some startSignedLength, Some endSignedLength) \<Rightarrow>
          if startSignedLength < 0 \<or> endSignedLength < 0 then respond 400 (Err Negative)
          else if endSignedLength < startSignedLength then respond 400 (Err EndBefore)
          else if endSignedLength - startSignedLength > MAX_SIGNED_LENGTH then respond 400 (Err RangeTooLong)
          else let adjustedEndLength = min endSignedLength (getConfirmedLength m)
               in (case getTxHashes m startSignedLength adjustedEndLength of Inl e \<Rightarrow> None | Inr hashes \<Rightarrow> respond 200 (TxHashes hashes))
      | _ \<Rightarrow> respond 400 (Err NotInteger))"

definition handleTransactionDetails :: "'b env \<Rightarrow> wire \<Rightarrow> msb \<Rightarrow> request \<Rightarrow> response" where
  "handleTransactionDetails E wr m r =
     (if hasSpacesInUrl (rq_url r) then respond 400 (Err InvalidHashFormat)
      else if rq_parts r = [] \<or> last (rq_parts r) = ''tx'' then respond 400 (Err HashRequired)
      else let normalizedHash = map lower (last (rq_parts r))
           in if \<not> isValidTxHash normalizedHash then respond 400 (Err InvalidHashFormat)
              else case getTxDetails E wr m normalizedHash of
                Inl e \<Rightarrow> respond 500 (Err InternalError)
              | Inr None \<Rightarrow> respond 404 (Err (NotFoundTx normalizedHash))
              | Inr (Some txDetails) \<Rightarrow> respond 200 (TxDetails txDetails))"

definition handleTransactionExtendedDetails :: "'b env \<Rightarrow> wire \<Rightarrow> msb \<Rightarrow> request \<Rightarrow> response" where
  "handleTransactionExtendedDetails E wr m r =
     (if hasSpacesInUrl (rq_url r) then respond 400 (Err InvalidHashFormat)
      else if rq_parts r = [] \<or> last (rq_parts r) = ''details'' \<or> last (rq_parts r) = ''tx'' then respond 400 (Err HashRequired)
      else let h = map lower (last (rq_parts r))
           in if \<not> isValidTxHash h then respond 400 (Err InvalidHashFormat)
              else case getConfirmedParameter r True of
                None \<Rightarrow> respond 400 (Err ConfirmedNotBoolean)
              | Some confirmed \<Rightarrow>
                  (case getExtendedTxDetails E wr m h confirmed of
                     Inl e \<Rightarrow> respond 500 (Err ProcessingError)
                   | Inr None \<Rightarrow> respond 404 (Err (NoPayloadFound h))
                   | Inr (Some details) \<Rightarrow> respond 200 (Extended details)))"

definition defaultAccountState :: "string \<Rightarrow> account_state" where
  "defaultAccountState address = \<lparr>ac_address = address, ac_writingKey = to_hex ZERO_WK, ac_isWhitelisted = False, ac_isValidator = False,
     ac_isIndexer = False, ac_license = None, ac_balance = ''0'', ac_stakedBalance = ''0''\<rparr>"

definition handleAccountDetails :: "'b env \<Rightarrow> msb \<Rightarrow> request \<Rightarrow> response" where
  "handleAccountDetails E m r =
     (case part r 2 of
        None \<Rightarrow> respond 400 (Err AccountRequired)
      | Some address \<Rightarrow>
          (case getConfirmedParameter r True of
             None \<Rightarrow> respond 400 (Err ConfirmedNotBoolean)
           | Some confirmed \<Rightarrow>
               if \<not> isAddressValid E address then respond 400 (Err InvalidAccountAddress)
               else case (if confirmed then getNodeEntry (m_state m) address else getNodeEntryUnsigned (m_state m) address) of
                 None \<Rightarrow> respond 200 (Account (defaultAccountState address))
               | Some nodeEntry \<Rightarrow>
                   (case (licenseBufferToBigInt (ne_license nodeEntry), bufferToBigInt (ne_balance nodeEntry), bufferToBigInt (ne_stakedBalance nodeEntry)) of
                      (Inr licenseValue, Inr balance, Inr staked) \<Rightarrow>
                        respond 200 (Account \<lparr>ac_address = address, ac_writingKey = to_hex (ne_wk nodeEntry), ac_isWhitelisted = ne_isWhitelisted nodeEntry,
                          ac_isValidator = ne_isWriter nodeEntry, ac_isIndexer = ne_isIndexer nodeEntry,
                          ac_license = (if licenseValue = 0 then None else Some (show_int licenseValue)), ac_balance = show_int balance,
                          ac_stakedBalance = show_int staked\<rparr>)
                    | _ \<Rightarrow> None)))"

section \<open>Many transactions at once\<close>

text \<open>What \<open>JSON.parse\<close> makes of the cleaned body: a falsy value, no list of hashes, or the list.\<close>

datatype bulk_body = Falsy | NoList | Hashes "string list"

definition clean_body :: "string \<Rightarrow> string" where
  "clean_body body = trim (filter (\<lambda>c. c \<noteq> CHR 0x0D \<and> c \<noteq> CHR 0x00) body)"

definition handleFetchBulkTxPayloads ::
  "'b env \<Rightarrow> wire \<Rightarrow> (string \<Rightarrow> bulk_body option) \<Rightarrow> (bulk_response \<Rightarrow> nat) \<Rightarrow> msb \<Rightarrow> request \<Rightarrow> response" where
  "handleFetchBulkTxPayloads E wr parse json_bytes m r =
     (case read_body 1000000 [] (rq_chunks r) of
        None \<Rightarrow> respond 413 (Err BodyTooLarge)
      | Some body \<Rightarrow>
          if body = [] then respond 400 (Err MissingPayload)
          else case parse (clean_body body) of
            None \<Rightarrow> respond 400 (Err InvalidBody)
          | Some Falsy \<Rightarrow> respond 400 (Err InvalidBulk)
          | Some NoList \<Rightarrow> respond 400 (Err MissingHashes)
          | Some (Hashes hashes) \<Rightarrow>
              if hashes = [] then respond 400 (Err MissingHashes)
              else let uniqueHashes = rev (remdups (rev hashes))
                   in if length uniqueHashes > 1500 then respond 400 (Err TooManyHashes)
                      else case fetchBulkTxPayloads E wr m uniqueHashes of
                        Inl e \<Rightarrow> respond 500 (Err InternalError)
                      | Inr commandResult \<Rightarrow>
                          if json_bytes commandResult > 2000000 then respond 413 (Err ResponseTooLarge)
                          else respond 200 (Bulk commandResult))"

section \<open>Broadcasting\<close>

definition base64_value :: "char \<Rightarrow> nat option" where
  "base64_value c =
     (let n = of_char c
      in if 65 \<le> n \<and> n \<le> 90 then Some (n - 65)
         else if 97 \<le> n \<and> n \<le> 122 then Some (n - 71)
         else if 48 \<le> n \<and> n \<le> 57 then Some (n + 4)
         else if n = 43 then Some 62 else if n = 47 then Some 63 else None)"

abbreviation b64 :: "char \<Rightarrow> bool" where "b64 c \<equiv> base64_value c \<noteq> None"

fun isBase64_string :: "string \<Rightarrow> bool" where
  "isBase64_string [] \<longleftrightarrow> True"
| "isBase64_string (a # b # c # d # rest) \<longleftrightarrow>
     b64 a \<and> b64 b \<and> (b64 c \<and> b64 d \<and> isBase64_string rest \<or> rest = [] \<and> d = CHR ''='' \<and> (b64 c \<or> c = CHR ''=''))"
| "isBase64_string _ \<longleftrightarrow> False"

text \<open>The regular expression is tested on the value as a string; a boolean or an array is not in the model.\<close>

fun isBase64 :: "js \<Rightarrow> bool" where
  "isBase64 (JStr s) \<longleftrightarrow> isBase64_string s"
| "isBase64 (JNum n) \<longleftrightarrow> isBase64_string (show_int n)"
| "isBase64 _ \<longleftrightarrow> False"

text \<open>The bytes of a string that matches.\<close>

fun from_base64 :: "string \<Rightarrow> buffer" where
  "from_base64 (a # b # c # d # rest) =
     (let x = the (base64_value a); y = the (base64_value b)
      in case (base64_value c, base64_value d) of
           (Some z, Some w) \<Rightarrow> word_of_nat (x * 4 + y div 16) # word_of_nat (y mod 16 * 16 + z div 4) # word_of_nat (z mod 4 * 64 + w) # from_base64 rest
         | (Some z, None) \<Rightarrow> [word_of_nat (x * 4 + y div 16), word_of_nat (y mod 16 * 16 + z div 4)]
         | _ \<Rightarrow> [word_of_nat (x * 4 + y div 16)])"
| "from_base64 _ = []"

definition decodeBase64Payload :: "(buffer \<Rightarrow> js option) \<Rightarrow> js \<Rightarrow> rpc_error + js" where
  "decodeBase64Payload parse base64 =
     (case base64 of
        JStr s \<Rightarrow> (case parse (from_base64 s) of None \<Rightarrow> Inl NotJson | Some j \<Rightarrow> Inr j)
      | _ \<Rightarrow> Inl NotDecodable)"

definition is_number :: "js \<Rightarrow> bool" where "is_number v = (case v of JNum _ \<Rightarrow> True | _ \<Rightarrow> False)"

definition is_string :: "js \<Rightarrow> bool" where "is_string v = (case v of JStr _ \<Rightarrow> True | _ \<Rightarrow> False)"

definition validatePayloadStructure :: "js \<Rightarrow> rpc_error + unit" where
  "validatePayloadStructure payload =
     (if \<not> is_object payload \<or> payload = JNull \<or> \<not> is_number (prop_of payload ''type'') \<or> \<not> is_string (prop_of payload ''address'') \<or>
         \<not> list_ex (\<lambda>key. is_object (prop_of payload key)) [''txo'', ''tro'']
      then Inl BadStructure else Inr ())"

definition sanitize_string :: "string \<Rightarrow> string" where
  "sanitize_string value =
     (let sanitized = trim value
      in if sanitized \<noteq> [] \<and> list_all (\<lambda>c. hex_value c \<noteq> None) sanitized then map lower sanitized else sanitized)"

fun sanitize_value :: "js \<Rightarrow> js" where
  "sanitize_value (JStr s) = JStr (sanitize_string s)"
| "sanitize_value v = v"

fun sanitize_operation :: "js \<Rightarrow> js" where
  "sanitize_operation (JObj ps) = JObj (map (\<lambda>(k, v). (k, sanitize_value v)) ps)"
| "sanitize_operation v = v"

fun trim_value :: "js \<Rightarrow> js" where
  "trim_value (JStr s) = JStr (trim s)"
| "trim_value v = v"

definition sanitizeTransferPayload :: "js \<Rightarrow> rpc_error + js" where
  "sanitizeTransferPayload payload =
     (let operationKey = (case prop_of payload ''type'' of JNum t \<Rightarrow> if t < 0 then None else operationToPayload (nat t) | _ \<Rightarrow> None)
      in if operationKey \<noteq> Some ''tro'' \<and> operationKey \<noteq> Some ''txo'' then Inl NotTransferOrTransaction
         else case payload of
           JObj ps \<Rightarrow> Inr (JObj (map (\<lambda>(k, v). (k, if k = ''address'' then trim_value v else if Some k = operationKey then sanitize_operation v else v)) ps))
         | v \<Rightarrow> Inr v)"

text \<open>The class of an exception decides the status of the answer.\<close>

fun broadcast_error :: "command_error \<Rightarrow> nat \<times> rpc_error" where
  "broadcast_error PayloadRequired = (400, EmptyPayload)"
| "broadcast_error InvalidTransaction = (400, InvalidTxPayload)"
| "broadcast_error BroadcastFailed = (429, BroadcastError)"
| "broadcast_error _ = (500, ProcessingError)"

definition handleBroadcastTransaction ::
  "'b env \<Rightarrow> (buffer \<Rightarrow> buffer) \<Rightarrow> (js \<Rightarrow> bool) \<Rightarrow> node_state list \<Rightarrow> (string \<Rightarrow> js option) \<Rightarrow> (buffer \<Rightarrow> js option) \<Rightarrow> msb \<Rightarrow> request \<Rightarrow>
    effect list \<times> response" where
  "handleBroadcastTransaction E hash send polls parse parse_payload m r =
     (case read_body 2000000 [] (rq_chunks r) of
        None \<Rightarrow> ([], respond 413 (Err PayloadTooLarge))
      | Some body \<Rightarrow>
          if body = [] then ([], respond 400 (Err InvalidJson))
          else case parse body of
            None \<Rightarrow> ([], respond 400 (Err InvalidJson))
          | Some parsedBody \<Rightarrow>
              if parsedBody = JNull then ([], respond 500 (Err ProcessingError))
              else let payload = prop_of parsedBody ''payload''
              in if \<not> truthy payload then ([], respond 400 (Err PayloadIsMissing))
              else if \<not> isBase64 payload then ([], respond 400 (Err NotBase64))
              else case chain (decodeBase64Payload parse_payload payload) (\<lambda>decodedPayload.
                     chain (validatePayloadStructure decodedPayload) (\<lambda>_. sanitizeTransferPayload decodedPayload)) of
                Inl e \<Rightarrow> ([], respond 400 (Err e))
              | Inr sanitizedPayload \<Rightarrow>
                  (case broadcastTransaction E hash send polls m sanitizedPayload of
                     (effects, Inl e) \<Rightarrow> (effects, respond (fst (broadcast_error e)) (Err (snd (broadcast_error e))))
                   | (effects, Inr tx) \<Rightarrow> (effects, respond 200 (Broadcasted tx))))"

section \<open>Routes\<close>

datatype endpoint =
    GetHealth | GetBalance | GetTxv | GetFee | GetConfirmedLength | PostBroadcast | GetTxHashes | GetUnconfirmedLength | GetTx | PostBulk
  | GetTxExtended | GetAccount

definition v1Routes :: "(string \<times> string \<times> endpoint) list" where
  "v1Routes =
     [(''GET'', ''/health'', GetHealth), (''GET'', ''/balance'', GetBalance), (''GET'', ''/txv'', GetTxv), (''GET'', ''/fee'', GetFee),
      (''GET'', ''/confirmed-length'', GetConfirmedLength), (''POST'', ''/broadcast-transaction'', PostBroadcast),
      (''GET'', ''/tx-hashes/'', GetTxHashes), (''GET'', ''/unconfirmed-length'', GetUnconfirmedLength), (''GET'', ''/tx'', GetTx),
      (''POST'', ''/tx-payloads-bulk'', PostBulk), (''GET'', ''/tx/details'', GetTxExtended), (''GET'', ''/account'', GetAccount)]"

definition routes :: "(string \<times> string \<times> endpoint) list" where
  "routes = map (\<lambda>(verb, path, h). (verb, ''/v1'' @ path, h)) v1Routes"

definition route_matches :: "string \<Rightarrow> string \<Rightarrow> string \<times> string \<times> endpoint \<Rightarrow> bool" where
  "route_matches verb requestPath r =
     (case r of (m, path, _) \<Rightarrow>
        let routeBase = (if path \<noteq> [] \<and> last path = CHR ''/'' then butlast path else path);
            requestParts = split_on (CHR ''/'') requestPath; routeParts = split_on (CHR ''/'') routeBase
        in verb = m \<and> length routeParts \<le> length requestParts \<and> take (length routeParts) requestParts = routeParts)"

definition sortedRoutes :: "(string \<times> string \<times> endpoint) list" where
  "sortedRoutes = sort_key (\<lambda>(_, path, _). - int (length path)) routes"

definition foundRoute :: "string \<Rightarrow> string \<Rightarrow> endpoint option" where
  "foundRoute verb url = map_option (\<lambda>(_, _, h). h) (List.find (route_matches verb (takeWhile (\<lambda>c. c \<noteq> CHR ''?'') url)) sortedRoutes)"

text \<open>What the handlers need besides the request.\<close>

record rpc_server =
  sv_msb :: msb
  sv_opened :: bool
  sv_unconfirmed :: int
  sv_send :: "js \<Rightarrow> bool"
  sv_polls :: "node_state list"
  sv_parse :: "string \<Rightarrow> js option"
  sv_parse_payload :: "buffer \<Rightarrow> js option"
  sv_parse_bulk :: "string \<Rightarrow> bulk_body option"
  sv_json_bytes :: "bulk_response \<Rightarrow> nat"

definition handler :: "'b env \<Rightarrow> (buffer \<Rightarrow> buffer) \<Rightarrow> wire \<Rightarrow> rpc_server \<Rightarrow> request \<Rightarrow> endpoint \<Rightarrow> effect list \<times> response" where
  "handler E hash wr sv r endpoint =
     (let m = sv_msb sv in case endpoint of
        GetHealth \<Rightarrow> ([], handleHealth (Some m) (sv_opened sv))
      | GetBalance \<Rightarrow> ([], handleBalance E m r)
      | GetTxv \<Rightarrow> ([], handleTxv hash m)
      | GetFee \<Rightarrow> ([], handleFee)
      | GetConfirmedLength \<Rightarrow> ([], handleConfirmedLength m)
      | PostBroadcast \<Rightarrow> handleBroadcastTransaction E hash (sv_send sv) (sv_polls sv) (sv_parse sv) (sv_parse_payload sv) m r
      | GetTxHashes \<Rightarrow> ([], handleTxHashes m r)
      | GetUnconfirmedLength \<Rightarrow> ([], handleUnconfirmedLength (sv_unconfirmed sv))
      | GetTx \<Rightarrow> ([], handleTransactionDetails E wr m r)
      | PostBulk \<Rightarrow> ([], handleFetchBulkTxPayloads E wr (sv_parse_bulk sv) (sv_json_bytes sv) m r)
      | GetTxExtended \<Rightarrow> ([], handleTransactionExtendedDetails E wr m r)
      | GetAccount \<Rightarrow> ([], handleAccountDetails E m r))"

definition createServer :: "'b env \<Rightarrow> (buffer \<Rightarrow> buffer) \<Rightarrow> wire \<Rightarrow> rpc_server \<Rightarrow> request \<Rightarrow> effect list \<times> nat \<times> rpc_body" where
  "createServer E hash wr sv r =
     (if rq_method r = ''OPTIONS'' then ([], 204, NoBody)
      else case foundRoute (rq_method r) (rq_url r) of
        None \<Rightarrow> ([], 404, Err NotFoundRoute)
      | Some endpoint \<Rightarrow>
          (case handler E hash wr sv r endpoint of
             (effects, None) \<Rightarrow> (effects, 500, Err ProcessingError)
           | (effects, Some answer) \<Rightarrow> (effects, answer)))"

end
