(* ===== verification/Cli.thy ===== *)
theory Cli
  imports Rpc
begin

text \<open>
  The command line of a node, \<open>src/cli/commandHandler.js\<close> and \<open>src/cli/handlers.js\<close>: which line of input calls which operation with which
  arguments, the confirmation of a transfer, what the reading commands show, and the session, in which the handlers of the lines interleave. Reading a key that is \<open>undefined\<close> is an exception of
  the store.
\<close>

section \<open>Commands\<close>

datatype cli_action =
    Help | Exit | AddAdminRecovery | AddAdmin | AddWhitelist | AddWriter | RemoveWriter | CoreInfo | IndexersList | ValidatorPool | Stats
  | BalanceMigration | DisableInitialization | NodeStatus | AddIndexer | RemoveIndexer | BanWriter | Deployment | ValidatorAddr | DeploymentInfo
  | TxInfo | Transfer | BalanceInfo | LicenseNumber | LicenseAddress | LicenseCount | TxvInfo | FeeInfo | ConfirmedLength | UnconfirmedLength
  | TxsHashes | TxDetailsInfo | ExtendedTxDetails

text \<open>How a handler recognises its line: by the first word, the whole input, or how the input begins.\<close>

datatype matcher = ByCommand string | ByInput string | ByPrefix string

fun evaluates :: "string \<Rightarrow> matcher \<Rightarrow> bool" where
  "evaluates input (ByCommand w) \<longleftrightarrow> hd (split_on (CHR '' '') input) = w"
| "evaluates input (ByInput w) \<longleftrightarrow> input = w"
| "evaluates input (ByPrefix w) \<longleftrightarrow> startsWith input w"

definition getHandlers :: "(matcher \<times> cli_action) list" where
  "getHandlers =
     [(ByCommand ''/help'', Help), (ByCommand ''/exit'', Exit), (ByInput ''/add_admin --recovery'', AddAdminRecovery),
      (ByCommand ''/add_admin'', AddAdmin), (ByCommand ''/add_whitelist'', AddWhitelist), (ByCommand ''/add_writer'', AddWriter),
      (ByCommand ''/remove_writer'', RemoveWriter), (ByCommand ''/core'', CoreInfo), (ByCommand ''/indexers_list'', IndexersList),
      (ByCommand ''/validator_pool'', ValidatorPool), (ByCommand ''/stats'', Stats), (ByCommand ''/balance_migration'', BalanceMigration),
      (ByCommand ''/disable_initialization'', DisableInitialization), (ByPrefix ''/node_status'', NodeStatus),
      (ByPrefix ''/add_indexer'', AddIndexer), (ByPrefix ''/remove_indexer'', RemoveIndexer), (ByPrefix ''/ban_writer'', BanWriter),
      (ByPrefix ''/deployment'', Deployment), (ByPrefix ''/get_validator_addr'', ValidatorAddr), (ByPrefix ''/get_deployment'', DeploymentInfo),
      (ByPrefix ''/get_tx_info'', TxInfo), (ByPrefix ''/transfer'', Transfer), (ByPrefix ''/get_balance'', BalanceInfo),
      (ByPrefix ''/get_license_number'', LicenseNumber), (ByPrefix ''/get_license_address'', LicenseAddress),
      (ByPrefix ''/get_license_count'', LicenseCount), (ByPrefix ''/get_txv'', TxvInfo), (ByPrefix ''/get_fee'', FeeInfo),
      (ByPrefix ''/confirmed_length'', ConfirmedLength), (ByPrefix ''/unconfirmed_length'', UnconfirmedLength),
      (ByPrefix ''/get_txs_hashes'', TxsHashes), (ByPrefix ''/get_tx_details'', TxDetailsInfo),
      (ByPrefix ''/get_extended_tx_details'', ExtendedTxDetails)]"

definition command_of :: "string \<Rightarrow> cli_action option" where
  "command_of input = map_option snd (List.find (\<lambda>(matcher, _). evaluates input matcher) getHandlers)"

definition parts_of :: "string \<Rightarrow> string list" where
  "parts_of input = tl (split_on (CHR '' '') input)"

definition arg :: "string list \<Rightarrow> nat \<Rightarrow> string option" where
  "arg parts i = (if i < length parts then Some (parts ! i) else None)"

section \<open>What is shown\<close>

datatype shown =
    Nothing | Message string | Status string account_state | NoStatus | Admin "(string \<times> string) option" "buffer list" | Decoded operation
  | License string string | LicenseOwner int string | Count "nat option" | Amount string | AccountBalance string string | Number int
  | Hashes_shown "(string \<times> int) list" | Details js | ExtendedDetails extended_details | Confirm prepared

definition decimal_of :: "buffer \<Rightarrow> command_error + string" where
  "decimal_of b = chain (bigint_of b) (\<lambda>v. case bigIntToDecimalString v of Inl e \<Rightarrow> Inl (BadAmount e) | Inr s \<Rightarrow> Inr s)"

definition key_of :: "string option \<Rightarrow> command_error + string" where
  "key_of a = value_of a"

definition handleNodeStatus :: "msb \<Rightarrow> string option \<Rightarrow> command_error + shown" where
  "handleNodeStatus m address = chain (key_of address) (\<lambda>address.
     case getNodeEntry (m_state m) address of
       None \<Rightarrow> Inr NoStatus
     | Some nodeEntry \<Rightarrow>
         (let licenseValue = be_nat (ne_license nodeEntry); licenseDisplay = (if licenseValue = 0 then ''N/A'' else show_nat licenseValue)
          in chain (decimal_of (ne_stakedBalance nodeEntry)) (\<lambda>staked. chain (decimal_of (ne_balance nodeEntry)) (\<lambda>balance.
            Inr (Status address \<lparr>ac_address = address, ac_writingKey = to_hex (ne_wk nodeEntry), ac_isWhitelisted = ne_isWhitelisted nodeEntry,
              ac_isValidator = ne_isWriter nodeEntry, ac_isIndexer = ne_isIndexer nodeEntry, ac_license = Some licenseDisplay,
              ac_balance = balance, ac_stakedBalance = staked\<rparr>)))))"

definition handleCoreInfo :: "'b env \<Rightarrow> msb \<Rightarrow> shown" where
  "handleCoreInfo E m =
     Admin (map_option (\<lambda>admin. (case ae_address admin of None \<Rightarrow> ''null'' | Some a \<Rightarrow> a, to_hex (ae_wk admin))) (getAdminEntry E (m_state m)))
       (ns_indexers (m_state m))"

text \<open>A missing argument is concatenated as \<open>undefined\<close>.\<close>

definition handleValidatorAddress :: "'b env \<Rightarrow> msb \<Rightarrow> string option \<Rightarrow> shown" where
  "handleValidatorAddress E m wkHexString =
     (case getSigned (m_state m) (EntryType_WRITER_ADDRESS @ (case wkHexString of None \<Rightarrow> ''undefined'' | Some h \<Rightarrow> h)) of
        None \<Rightarrow> Nothing
      | Some payload \<Rightarrow> Message (case bufferToAddress E payload of None \<Rightarrow> ''null'' | Some a \<Rightarrow> a))"

definition handleDeployment :: "'b env \<Rightarrow> wire \<Rightarrow> msb \<Rightarrow> string option \<Rightarrow> command_error + shown" where
  "handleDeployment E wr m bootstrapHex =
     (case Option.bind bootstrapHex (getRegisteredBootstrapEntry (m_state m)) of
        None \<Rightarrow> Inr Nothing
      | Some deploymentEntry \<Rightarrow>
          (case de_decode (Some deploymentEntry) (addressLength E) of
             None \<Rightarrow> Inl TypeErr
           | Some decodedDeploymentEntry \<Rightarrow>
               (let txhash = to_hex (de_txHash decodedDeploymentEntry)
                in case getSigned (m_state m) txhash of
                     None \<Rightarrow> Inr (Message txhash)
                   | Some payload \<Rightarrow> (case safeDecodeApplyOperation wr payload of None \<Rightarrow> Inr (Message txhash) | Some decoded \<Rightarrow> Inr (Decoded decoded)))))"

definition handleTxInfo :: "wire \<Rightarrow> msb \<Rightarrow> string option \<Rightarrow> command_error + shown" where
  "handleTxInfo wr m txHash = chain (key_of txHash) (\<lambda>h. chain (getConfirmedTxInfo wr m h) (\<lambda>txInfo.
     Inr (case txInfo of None \<Rightarrow> Nothing | Some (_, decoded) \<Rightarrow> Decoded decoded)))"

text \<open>The license of an entry has four bytes, and \<open>bufferToBigInt\<close> takes sixteen.\<close>

definition handleLicenseNumber :: "msb \<Rightarrow> string option \<Rightarrow> command_error + shown" where
  "handleLicenseNumber m address = chain (key_of address) (\<lambda>address.
     case getNodeEntry (m_state m) address of
       None \<Rightarrow> Inr Nothing
     | Some nodeEntry \<Rightarrow> chain (bigint_of (ne_license nodeEntry)) (\<lambda>license. Inr (License address (show_int license))))"

definition handleLicenseAddress :: "'b env \<Rightarrow> msb \<Rightarrow> int option \<Rightarrow> shown" where
  "handleLicenseAddress E m licenseId =
     (case licenseId of
        None \<Rightarrow> Nothing
      | Some n \<Rightarrow> if n < 0 then Nothing
          else (case getAddressByLicenseId E (m_state m) (nat n) of None \<Rightarrow> Nothing | Some address \<Rightarrow> LicenseOwner n address))"

definition handleLicenseCount :: "'b env \<Rightarrow> msb \<Rightarrow> command_error + shown" where
  "handleLicenseCount E m =
     (if \<not> isAdmin E (m_state m) then Inl NotAdmin
      else case getLicenseCount (m_state m) of None \<Rightarrow> Inl TypeErr | Some n \<Rightarrow> Inr (Count n))"

definition handleFeeInfo :: "command_error + shown" where
  "handleFeeInfo = chain (decimal_of FEE) (\<lambda>s. Inr (Amount s))"

text \<open>The flag is anything but \<open>false\<close>; the balance is parsed from its decimal digits.\<close>

definition handleBalanceInfo :: "msb \<Rightarrow> string option \<Rightarrow> string option \<Rightarrow> command_error + shown" where
  "handleBalanceInfo m address confirmedFlag = chain (key_of address) (\<lambda>address.
     chain (getBalance m address (confirmedFlag \<noteq> Some ''false'')) (\<lambda>nodeInfo.
       case nodeInfo of
         None \<Rightarrow> Inr NoStatus
       | Some (_, balance) \<Rightarrow>
           (case bigIntToDecimalString (int (digits_value balance)) of Inl e \<Rightarrow> Inl (BadAmount e) | Inr s \<Rightarrow> Inr (AccountBalance address s))))"

definition handleTxHashesInfo :: "msb \<Rightarrow> int option \<Rightarrow> int option \<Rightarrow> command_error + shown" where
  "handleTxHashesInfo m start stop =
     (case (start, stop) of (Some a, Some b) \<Rightarrow> chain (getTxHashes m a b) (\<lambda>hs. Inr (Hashes_shown hs)) | _ \<Rightarrow> Inl TypeErr)"

definition handleTxDetailsInfo :: "'b env \<Rightarrow> wire \<Rightarrow> msb \<Rightarrow> string option \<Rightarrow> command_error + shown" where
  "handleTxDetailsInfo E wr m h = chain (key_of h) (\<lambda>h. chain (getTxDetails E wr m h) (\<lambda>txDetails.
     Inr (case txDetails of None \<Rightarrow> Nothing | Some d \<Rightarrow> Details d)))"

definition handleExtendedTxDetails :: "'b env \<Rightarrow> wire \<Rightarrow> msb \<Rightarrow> string option \<Rightarrow> bool \<Rightarrow> command_error + shown" where
  "handleExtendedTxDetails E wr m h confirmed = chain (key_of h) (\<lambda>h. chain (getExtendedTxDetails E wr m h confirmed) (\<lambda>txDetails.
     case txDetails of None \<Rightarrow> Inl EntryMissing | Some d \<Rightarrow> Inr (ExtendedDetails d)))"

section \<open>Carrying out a line\<close>

text \<open>What the operations need besides the line: the node, the orchestrator, nonces, files and a random channel.\<close>

record cli_world =
  cw_msb :: msb
  cw_send :: "js \<Rightarrow> bool"
  cw_nonce :: buffer
  cw_nonces :: "string \<Rightarrow> buffer"
  cw_later :: "nat \<Rightarrow> node_state"
  cw_whitelist :: "string option"
  cw_whitelist_dir :: directory
  cw_balances :: "string option"
  cw_balance_dir :: directory
  cw_after :: node_state
  cw_channel :: string
  cw_unconfirmed :: int

definition silent :: "'a command \<Rightarrow> shown command" where
  "silent c = (case c of (effects, Inl e) \<Rightarrow> (effects, Inl e) | (effects, Inr _) \<Rightarrow> (effects, Inr Nothing))"

definition shows_result :: "command_error + shown \<Rightarrow> shown command" where
  "shows_result r = ([], r)"

text \<open>\<open>parts[1] || randomBytes(32)\<close>; the second argument of \<open>isHexString\<close> is not looked at.\<close>

definition deployment_channel :: "string \<Rightarrow> string list \<Rightarrow> string" where
  "deployment_channel random parts = (case arg parts 1 of None \<Rightarrow> random | Some s \<Rightarrow> if s = [] then random else s)"

definition process ::
  "'b env \<Rightarrow> (buffer \<Rightarrow> buffer) \<Rightarrow> wire \<Rightarrow> cli_world \<Rightarrow> cli_action \<Rightarrow> string list \<Rightarrow> shown command" where
  "process E hash wr cw action parts =
     (let m = cw_msb cw; nonce = cw_nonce cw; send = cw_send cw in case action of
        Help \<Rightarrow> ([], Inr Nothing)
      | Exit \<Rightarrow> ([], Inr Nothing)
      | AddAdminRecovery \<Rightarrow> silent (handleAdminRecovery E hash send nonce m)
      | AddAdmin \<Rightarrow> silent (handleAdminCreation E hash wr nonce m)
      | AddWhitelist \<Rightarrow> silent (handleWhitelistOperations E hash wr (cw_nonces cw) (cw_later cw) m (cw_whitelist cw) (cw_whitelist_dir cw))
      | AddWriter \<Rightarrow> silent (requestWriterRole E hash send nonce m True)
      | RemoveWriter \<Rightarrow> silent (requestWriterRole E hash send nonce m False)
      | CoreInfo \<Rightarrow> ([], Inr (handleCoreInfo E m))
      | IndexersList \<Rightarrow> ([], Inr (Admin None (ns_indexers (m_state m))))
      | ValidatorPool \<Rightarrow> ([], Inr Nothing)
      | Stats \<Rightarrow> ([], Inr Nothing)
      | BalanceMigration \<Rightarrow>
          silent (balanceMigrationOperation E hash wr (cw_nonces cw) (cw_after cw) m (cw_balances cw) (cw_balance_dir cw))
      | DisableInitialization \<Rightarrow> silent (disableInitialization E hash wr nonce m)
      | NodeStatus \<Rightarrow> shows_result (handleNodeStatus m (arg parts 0))
      | AddIndexer \<Rightarrow> silent (updateWriterToIndexerRole E hash wr nonce m (arg parts 0) True)
      | RemoveIndexer \<Rightarrow> silent (updateWriterToIndexerRole E hash wr nonce m (arg parts 0) False)
      | BanWriter \<Rightarrow> silent (banValidator E hash wr nonce m (arg parts 0))
      | Deployment \<Rightarrow>
          (let channel = deployment_channel (cw_channel cw) parts
           in require [(\<not> isHexString channel, ChannelNotHex)] (silent (deployBootstrap E hash send nonce m (arg parts 0) (Some channel))))
      | ValidatorAddr \<Rightarrow> ([], Inr (handleValidatorAddress E m (arg parts 0)))
      | DeploymentInfo \<Rightarrow> shows_result (handleDeployment E wr m (arg parts 0))
      | TxInfo \<Rightarrow> shows_result (handleTxInfo wr m (arg parts 0))
      | Transfer \<Rightarrow>
          (case prepareTransferOperation E hash nonce m (arg parts 0) (arg parts 1) of
             (effects, Inl e) \<Rightarrow> (effects, Inl e) | (effects, Inr prepared) \<Rightarrow> (effects, Inr (Confirm prepared)))
      | BalanceInfo \<Rightarrow>
          shows_result (handleBalanceInfo m (if falsy_arg (arg parts 0) then map_option w_address (m_wallet m) else arg parts 0) (arg parts 1))
      | LicenseNumber \<Rightarrow> shows_result (handleLicenseNumber m (arg parts 0))
      | LicenseAddress \<Rightarrow> ([], Inr (handleLicenseAddress E m (Option.bind (arg parts 0) parseInt)))
      | LicenseCount \<Rightarrow> shows_result (handleLicenseCount E m)
      | TxvInfo \<Rightarrow> ([], Inr (Message (getTxv hash m)))
      | FeeInfo \<Rightarrow> shows_result handleFeeInfo
      | ConfirmedLength \<Rightarrow> ([], Inr (Number (getConfirmedLength m)))
      | UnconfirmedLength \<Rightarrow> ([], Inr (Number (cw_unconfirmed cw)))
      | TxsHashes \<Rightarrow> shows_result (handleTxHashesInfo m (Option.bind (arg parts 0) parseInt) (Option.bind (arg parts 1) parseInt))
      | TxDetailsInfo \<Rightarrow> shows_result (handleTxDetailsInfo E wr m (arg parts 0))
      | ExtendedTxDetails \<Rightarrow> shows_result (handleExtendedTxDetails E wr m (arg parts 0) (arg parts 1 = Some ''true'')))"

section \<open>Confirmation\<close>

text \<open>\<open>pendingConfirmation\<close> is the transfer that waits for an answer. Its details are shown with \<open>bigIntToDecimalString\<close>, which throws on an
  amount beyond 16 bytes before the confirmation is set.\<close>

definition shown_amounts :: "prepared \<Rightarrow> command_error + unit" where
  "shown_amounts p =
     (if list_ex (\<lambda>v. v < 0 \<or> v > 2 ^ 128 - 1)
           [pt_amount p, pt_fee p, pt_totalDeductedAmount p, pt_senderBalance p, pt_expectedNewBalance p]
      then Inl (BadAmount ExceedsMaximum) else Inr ())"

definition answer_of :: "string \<Rightarrow> bool option" where
  "answer_of input =
     (let normalizedInput = map lower (trim input)
      in if normalizedInput = ''y'' \<or> normalizedInput = ''yes'' then Some True
         else if normalizedInput = ''n'' \<or> normalizedInput = ''no'' then Some False else None)"

definition handlePendingConfirmation :: "cli_world \<Rightarrow> prepared \<Rightarrow> string \<Rightarrow> prepared option \<times> shown command" where
  "handlePendingConfirmation cw pendingConfirmation input =
     (case answer_of input of
        Some True \<Rightarrow>
          (None, case submitPreparedTransferOperation (cw_send cw) pendingConfirmation of
             (effects, Inl _) \<Rightarrow> (effects, Inr Nothing) | (effects, Inr _) \<Rightarrow> (effects, Inr Nothing))
      | Some False \<Rightarrow> (None, [], Inr Nothing)
      | None \<Rightarrow> (Some pendingConfirmation, [], Inr Nothing))"

definition handle_line ::
  "'b env \<Rightarrow> (buffer \<Rightarrow> buffer) \<Rightarrow> wire \<Rightarrow> cli_world \<Rightarrow> string \<Rightarrow> prepared option \<Rightarrow> prepared option \<times> shown command" where
  "handle_line E hash wr cw input pending =
     (case pending of
        Some pendingConfirmation \<Rightarrow> handlePendingConfirmation cw pendingConfirmation input
      | None \<Rightarrow>
          (case command_of input of
             None \<Rightarrow> (None, [], Inr Nothing)
           | Some action \<Rightarrow>
               (case process E hash wr cw action (parts_of input) of
                  (effects, Inr (Confirm prepared)) \<Rightarrow>
                    (case shown_amounts prepared of
                       Inl e \<Rightarrow> (None, effects, Inl e) | Inr _ \<Rightarrow> (Some prepared, effects, Inr (Confirm prepared)))
                | (effects, r) \<Rightarrow> (None, effects, r))))"

section \<open>The session\<close>

text \<open>
  Every line of input starts an \<open>async\<close> handler of its own, and nothing makes it wait for the handlers of the lines before: what a line
  does up to its first \<open>await\<close> - the look at \<open>pendingConfirmation\<close>, an answer to it - happens when it is entered, its effects follow
  one by one, and a transfer is queued for confirmation when its handler ends, whatever waits for confirmation then. Events of different lines
  come in any order. The world of a line is what its handler reads from its start to its end; \<open>#handleCommand\<close> gets the line trimmed.
\<close>

record line_task =
  lt_effects :: "effect list"
  lt_confirmation :: "prepared option"

record cli_session =
  cs_lines :: nat
  cs_pending :: "prepared option"
  cs_running :: "nat \<rightharpoonup> line_task"
  cs_sent :: "(nat \<times> effect) list"

definition new_session :: cli_session where
  "new_session = \<lparr>cs_lines = 0, cs_pending = None, cs_running = Map.empty, cs_sent = []\<rparr>"

definition line_entered :: "'b env \<Rightarrow> (buffer \<Rightarrow> buffer) \<Rightarrow> wire \<Rightarrow> cli_world \<Rightarrow> string \<Rightarrow> cli_session \<Rightarrow> cli_session" where
  "line_entered E hash wr cw input s =
     (case handle_line E hash wr cw (trim input) (cs_pending s) of (pendingConfirmation, effects, _) \<Rightarrow>
        s\<lparr>cs_lines := Suc (cs_lines s),
          cs_pending := (if cs_pending s = None then None else pendingConfirmation),
          cs_running := (cs_running s)(cs_lines s \<mapsto>
            \<lparr>lt_effects = effects, lt_confirmation = (if cs_pending s = None then pendingConfirmation else None)\<rparr>)\<rparr>)"

definition line_performs :: "nat \<Rightarrow> cli_session \<Rightarrow> cli_session" where
  "line_performs i s =
     (case cs_running s i of
        None \<Rightarrow> s
      | Some task \<Rightarrow>
          (case lt_effects task of
             [] \<Rightarrow> s
           | e # es \<Rightarrow> s\<lparr>cs_running := (cs_running s)(i \<mapsto> task\<lparr>lt_effects := es\<rparr>), cs_sent := cs_sent s @ [(i, e)]\<rparr>))"

definition line_ended :: "nat \<Rightarrow> cli_session \<Rightarrow> cli_session" where
  "line_ended i s =
     (case cs_running s i of
        None \<Rightarrow> s
      | Some task \<Rightarrow>
          if lt_effects task \<noteq> [] then s
          else s\<lparr>cs_running := (cs_running s)(i := None),
            cs_pending := (case lt_confirmation task of None \<Rightarrow> cs_pending s | Some prepared \<Rightarrow> Some prepared)\<rparr>)"

text \<open>The line with the number \<open>i\<close> is entered, performs its next effect, or ends; an event that cannot happen changes nothing.\<close>

datatype cli_event = Entered cli_world string | Performs nat | Ended nat

fun cli_step :: "'b env \<Rightarrow> (buffer \<Rightarrow> buffer) \<Rightarrow> wire \<Rightarrow> cli_event \<Rightarrow> cli_session \<Rightarrow> cli_session" where
  "cli_step E hash wr (Entered cw input) s = line_entered E hash wr cw input s"
| "cli_step E hash wr (Performs i) s = line_performs i s"
| "cli_step E hash wr (Ended i) s = line_ended i s"

definition cli_run :: "'b env \<Rightarrow> (buffer \<Rightarrow> buffer) \<Rightarrow> wire \<Rightarrow> cli_event list \<Rightarrow> cli_session" where
  "cli_run E hash wr es = fold (cli_step E hash wr) es new_session"

end
