(* ===== verification/Command_Spec.thy ===== *)
theory Command_Spec
  imports Cli Message_Spec Publish_Spec Views
begin

text \<open>
  What the commands of a node build and send: the operation behind a prepared transfer and why the validators accept it, which command
  may send what, and the session of the command line, over every order in which its lines are entered, perform their effects and end.
\<close>

section \<open>Guards\<close>

lemma require_Inr: "require guards c = (effects, Inr x) \<longleftrightarrow> list_all (\<lambda>g. \<not> fst g) guards \<and> c = (effects, Inr x)"
  by (induction guards c rule: require.induct) (auto simp: fails_def)

lemma given_Inr: "given r f = (effects, Inr x) \<longleftrightarrow> (\<exists>y. r = Inr y \<and> f y = (effects, Inr x))"
  by (cases r) (auto simp: given_def fails_def)

lemma fails_Inr [simp]: "fails e = (effects, Inr x) \<longleftrightarrow> False"
  by (simp add: fails_def)

lemma value_of_Inr [simp]: "value_of v = Inr x \<longleftrightarrow> v = Some x"
  by (cases v) (simp_all add: value_of_def)

lemma own_address_Inr: "own_address m = Inr a \<longleftrightarrow> (\<exists>w. m_wallet m = Some w \<and> a = w_address w)"
  by (auto simp: own_address_def split: option.splits)

lemma bigint_of_Inr: "bigint_of b = Inr v \<longleftrightarrow> length b = 16 \<and> v = int (be_nat b)"
  by (auto simp: bigint_of_def bufferToBigInt_def fold_be_nat split: sum.splits)

lemma fee_bigint_eq [simp]: "fee_bigint = Inr (int fee)"
  by (simp add: fee_bigint_def bigint_of_def bufferToBigInt_be_nat)

lemmas command_Inr = require_Inr given_Inr own_address_Inr bigint_of_Inr

section \<open>Transfers\<close>

definition transfer_builder :: "'b env \<Rightarrow> string \<Rightarrow> string \<Rightarrow> buffer \<Rightarrow> buffer \<Rightarrow> builder" where
  "transfer_builder E address r am txv =
     fresh_builder\<lparr>b_phase := Some ''partial'', b_output := Some ''json'', b_operationType := Some OT_TRANSFER,
       b_address := Some (addressToBuffer E address), b_txValidity := Some txv,
       b_incomingAddress := Some (addressToBuffer E r), b_amount := Some am\<rparr>"

lemma transfer_message:
  assumes "applyStateMessageFactory E hash wallet nonce (\<lambda>step.
      buildPartialTransferOperationMessage E step (JStr address) (JStr r) (JBuf am) (JBuf txv) (JStr ''json'')) = Inr payload"
  obtains w b' where "wallet = Some w" "isAddressValid E address" "isAddressValid E r" "length txv = 32" "length am = 16"
    "build E hash w nonce (transfer_builder E address r am txv) = Inr b'" "getPayload E b' = Inr payload"
proof -
  obtain w where w: "wallet = Some w" "new_builder E wallet = Inr fresh_builder"
    using assms by (auto simp: applyStateMessageFactory_def new_builder_def split: option.splits if_splits sum.splits)
  then obtain b where "buildPartialTransferOperationMessage E (build E hash w nonce) (JStr address) (JStr r) (JBuf am) (JBuf txv) (JStr ''json'')
      (Some fresh_builder) = Inr (payload, b)"
    using assms by (auto simp: applyStateMessageFactory_def split: sum.splits)
  then show ?thesis
    by (auto simp: buildPartialTransferOperationMessage_def directed_def chain_Inr setPhase_def setOutput_def setOperationType_def OperationType_values_def
        setAddress_def setTxValidity_def setIncomingAddress_def setAmount_def normalizeAddress_def normalizeHexBuffer_def
        split: if_splits option.splits intro!: that [OF w(1)] simp: transfer_builder_def)
qed

lemma prepared_parts:
  assumes "prepareTransferOperation E hash nonce m (Some r) a = (effects, Inr pt)"
  obtains w e payload where "m_wallet m = Some w" "effects = []" "getNodeEntry (m_state m) (w_address w) = Some e" "length (ne_balance e) = 16"
    "int (be_nat (bigIntTo16ByteBuffer (pt_amount pt))) = pt_amount pt"
    "pt_totalDeductedAmount pt = (if r = w_address w then int fee else pt_amount pt + int fee)"
    "pt_totalDeductedAmount pt \<le> int (be_nat (ne_balance e))"
    "pt_expectedNewBalance pt = int (be_nat (ne_balance e)) - pt_totalDeductedAmount pt"
    "applyStateMessageFactory E hash (m_wallet m) nonce (\<lambda>step.
       buildPartialTransferOperationMessage E step (JStr (w_address w)) (JStr r) (JBuf (bigIntTo16ByteBuffer (pt_amount pt)))
         (JBuf (getIndexerSequenceState hash (m_state m))) (JStr ''json'')) = Inr payload"
    "pt_payload pt = json_of_built payload"
proof -
  obtain w where w: "m_wallet m = Some w"
    using assms by (auto simp: prepareTransferOperation_def command_Inr Let_def simp del: require.simps split: option.splits if_splits)
  show ?thesis
    using assms that [OF w] w
    by (auto simp: prepareTransferOperation_def command_Inr Let_def simp del: require.simps split: option.splits if_splits)
qed

text \<open>The operation behind the JSON of a transfer that was built.\<close>

definition built_transfer :: "buffer \<Rightarrow> buffer \<Rightarrow> buffer \<Rightarrow> buffer \<Rightarrow> buffer \<Rightarrow> buffer \<Rightarrow> buffer \<Rightarrow> operation" where
  "built_transfer tx txv to am nonce sg address =
     \<lparr>op_type = OT_TRANSFER, op_address = Bytes address,
      op_value = Tro (empty_payload\<lparr>p_tx := Bytes tx, p_txv := Bytes txv, p_to := Bytes to, p_am := Bytes am, p_in := Bytes nonce, p_is := Bytes sg\<rparr>)\<rparr>"

lemma transfer_json:
  assumes "build E hash w nonce (transfer_builder E address r am txv) = Inr b'" "getPayload E b' = Inr payload"
    and "isAddressValid E address" "isAddressValid E r" "ascii_string (ascii_bytes address) = address" "ascii_string (ascii_bytes r) = r"
    and "ascii_buffer (ascii_bytes address)" "ascii_buffer (ascii_bytes r)" "length txv = 32" "length am = 16"
    and "nonce \<noteq> []" "\<And>x. hash x \<noteq> [] \<and> w_sign w (hash x) \<noteq> []"
  obtains x v where "normalizeMessageByOperationType E (json_of_built payload) = Inr v"
    "js_operation v = built_transfer (hash x) txv (ascii_bytes r) am nonce (w_sign w (hash x)) (ascii_bytes address)"
    "b_payload b' = Some (js_operation v)" "prop_of (prop_of (json_of_built payload) ''tro'') ''tx'' = JStr (to_hex (hash x))"
proof -
  let ?b = "transfer_builder E address r am txv"
  have b: "b_phase ?b = Some ''partial''" "b_address ?b = Some (ascii_bytes address)" "b_incomingAddress ?b = Some (ascii_bytes r)"
    "b_operationType ?b = Some 13" "b_output ?b = Some ''json''" "b_txValidity ?b = Some txv" "b_amount ?b = Some am" "builder_sized E ?b"
    using assms(3-6,9,10)
    by (simp_all add: transfer_builder_def addressToBuffer_def builder_sized_def fresh_builder_def opt_sized_def opt_address_def bufferToAddress_Some)
  obtain t a p x where t: "b_operationType ?b = Some t" "t \<in> set partial_types" "b_address ?b = Some a"
    "partial_message E ?b t nonce = Inr x" "partial_body ?b t (hash x) nonce (w_sign w (hash x)) = Inr p"
    "b' = ?b\<lparr>b_payloadKey := operationToPayload t,
       b_payload := Some \<lparr>op_type = t, op_address = Bytes a, op_value = keyed (the (operationToPayload t)) p\<rparr>, b_built := True\<rparr>"
    by (rule partial_build [OF assms(1) b(1)])
  have address: "bufferToAddress E (ascii_bytes address) = Some address" using assms(3,5) by (simp add: bufferToAddress_Some)
  have "t = 13" "a = ascii_bytes address" using t(1,3) b(2,4) by simp_all
  note t = t [unfolded this]
  have p: "p = empty_payload\<lparr>p_tx := Bytes (hash x), p_txv := Bytes txv, p_to := Bytes (ascii_bytes r), p_am := Bytes am, p_in := Bytes nonce,
      p_is := Bytes (w_sign w (hash x))\<rparr>"
    using t(5) b by (simp add: partial_body_def type_defs)
  have op: "\<lparr>op_type = 13, op_address = Bytes (ascii_bytes address), op_value = keyed (the (operationToPayload 13)) p\<rparr> =
      built_transfer (hash x) txv (ascii_bytes r) am nonce (w_sign w (hash x)) (ascii_bytes address)"
    by (simp add: built_transfer_def p operationToPayload_def type_defs keyed_def)
  have "\<exists>j v. encodePayloadJson E (operationToPayload 13) (the (b_payload b')) = Inr j \<and> normalizeMessageByOperationType E j = Inr v \<and>
      js_operation v = the (b_payload b')"
    using json_back [where hash = hash, OF t(4,2,5) _ assms(7) _ _ assms(11) _ b(8)] assms(3-6,8,12) b(3) t(6)
    by (simp add: bufferToAddress_Some)
  then obtain j v where j: "encodePayloadJson E (operationToPayload 13) (the (b_payload b')) = Inr j" "normalizeMessageByOperationType E j = Inr v"
      "js_operation v = the (b_payload b')"
    by blast
  moreover have "payload = JsonOut j" using assms(2) j(1) t(6) b(5) by (simp add: getPayload_def)
  moreover have "prop_of (prop_of j ''tro'') ''tx'' = JStr (to_hex (hash x))"
    using j(1) t(6) p address
    by (auto simp: encodePayloadJson_def operationToPayload_def type_defs keyed_def payload_of.simps empty_payload_def chain_Inr address_js_def
        Let_def)
  ultimately show ?thesis using that [of v x] t(6) op by (simp add: json_of_built_def)
qed

lemma built_transfer_sel [simp]:
  "op_type (built_transfer tx txv to am nonce sg address) = OT_TRANSFER" "op_address (built_transfer tx txv to am nonce sg address) = Bytes address"
  "p_tx (payload_of (built_transfer tx txv to am nonce sg address)) = Bytes tx"
  "p_txv (payload_of (built_transfer tx txv to am nonce sg address)) = Bytes txv"
  "p_to (payload_of (built_transfer tx txv to am nonce sg address)) = Bytes to"
  "p_am (payload_of (built_transfer tx txv to am nonce sg address)) = Bytes am"
  by (simp_all add: built_transfer_def payload_of.simps)

text \<open>The checks of the balances, on a view that shows what the node has read.\<close>

lemma transfer_affordable_view:
  assumes "requesterAddress E d = Some a" "bufferToAddress E (bytes (p_to (payload_of d))) = Some r" "length (bytes (p_am (payload_of d))) = 16"
    and "getNodeEntryUnsigned s a = Some e" "length (ne_balance e) = 16"
    and "(if a = r then int fee else int (be_nat (bytes (p_am (payload_of d)))) + int fee) \<le> int (be_nat (ne_balance e))"
    and room: "a = r \<or> int (liquidOf (ns_view s) r) + int (be_nat (bytes (p_am (payload_of d)))) < 2 ^ 128"
  shows "validateStateBalances E s d = Inr ()"
proof -
  let ?am = "bytes (p_am (payload_of d))"
  have "be_nat ?am < 2 ^ 128" using be_nat_bound [of ?am] assms(3) by simp
  then have small: "\<not> int (be_nat ?am) > MAX_AMOUNT" by (simp add: MAX_AMOUNT_def)
  have "recipient_room s (Some r) (int (be_nat ?am)) = Inr ()" if "a \<noteq> r"
  proof (cases "getNodeEntryUnsigned s r")
    case None
    then show ?thesis by (simp add: recipient_room_def)
  next
    case (Some x)
    then obtain b where b: "ns_view s r = Some b" "ne_decode (Some b) = Some x"
      by (auto simp: getNodeEntryUnsigned_def st_get_def split: option.splits)
    then have "length b = 69" "x = decoded b" using ne_decode_length69 by auto
    then have "bufferToBigInt (ne_balance x) = Inr (int (liquidOf (ns_view s) r))" using b(1) by (simp add: bigint_balance liquidOf_def)
    then show ?thesis using Some room that by (simp add: recipient_room_def MAX_AMOUNT_def)
  qed
  then show ?thesis
    using assms(1-6) small
    by (auto simp: validateStateBalances_def Let_def requesterEntry_def bufferToBigInt_be_nat split: if_splits)
qed

lemma prepared_accepted:
  assumes p: "prepareTransferOperation E hash nonce m (Some r) a = (effects, Inr pt)"
    and u: "m_wallet m = Some u" "sound_wallet E hash u" "length (address_decodeSafe E (Some (w_address u))) = 32"
    and size: "address_size E (addressPrefix E) = Some (addressLength E)" and nonce: "sized 32 nonce"
    and r: "ascii_string (ascii_bytes r) = r" "ascii_buffer (ascii_bytes r)" "nonzero (ascii_bytes r)" "address_decodeSafe E (Some r) \<noteq> []"
    and tx: "prop_of (prop_of (pt_payload pt) ''tro'') ''tx'' = JStr (to_hex tx)" "nonzero tx" "ns_view s (to_hex tx) = None"
    and s: "ns_view s = ns_signed (m_state m)" "ns_indexers s = ns_indexers (m_state m)" "nonzero (getIndexerSequenceState hash s)"
    and room: "int (liquidOf (ns_view s) r) + pt_amount pt < 2 ^ 128" and va: "va \<noteq> w_address u"
  obtains v sg where "normalizeMessageByOperationType E (pt_payload pt) = Inr v" "partial_validator E hash (Some va) s (js_operation v) = Inr ()"
    "js_operation v = built_transfer tx (getIndexerSequenceState hash s) (ascii_bytes r) (bigIntTo16ByteBuffer (pt_amount pt)) nonce sg
       (ascii_bytes (w_address u))"
proof -
  note W = sound_walletD [OF u(2)]
  obtain w e payload where Q: "m_wallet m = Some w" "effects = []" "getNodeEntry (m_state m) (w_address w) = Some e" "length (ne_balance e) = 16"
      "int (be_nat (bigIntTo16ByteBuffer (pt_amount pt))) = pt_amount pt"
      "pt_totalDeductedAmount pt = (if r = w_address w then int fee else pt_amount pt + int fee)"
      "pt_totalDeductedAmount pt \<le> int (be_nat (ne_balance e))"
      "pt_expectedNewBalance pt = int (be_nat (ne_balance e)) - pt_totalDeductedAmount pt"
      "applyStateMessageFactory E hash (m_wallet m) nonce (\<lambda>step.
         buildPartialTransferOperationMessage E step (JStr (w_address w)) (JStr r) (JBuf (bigIntTo16ByteBuffer (pt_amount pt)))
           (JBuf (getIndexerSequenceState hash (m_state m))) (JStr ''json'')) = Inr payload" "pt_payload pt = json_of_built payload"
    by (rule prepared_parts [OF p])
  have w: "w = u" using Q(1) u(1) by simp
  note P = Q(3-7) [unfolded w] Q(9,10) [unfolded w]
  let ?am = "bigIntTo16ByteBuffer (pt_amount pt)" and ?txv = "getIndexerSequenceState hash s"
  have txv: "getIndexerSequenceState hash (m_state m) = ?txv" using s(2) by (simp add: getIndexerSequenceState_def)
  obtain w' b' where B: "m_wallet m = Some w'" "isAddressValid E (w_address u)" "isAddressValid E r"
      "length (getIndexerSequenceState hash (m_state m)) = 32" "length ?am = 16"
      "build E hash w' nonce (transfer_builder E (w_address u) r ?am (getIndexerSequenceState hash (m_state m))) = Inr b'" "getPayload E b' = Inr payload"
    by (rule transfer_message [OF P(6)])
  have w': "w' = u" using B(1) u(1) by simp
  note b = B(2,3) B(4) [unfolded txv] B(6) [unfolded txv w'] B(7)
  have u': "ascii_string (ascii_bytes (w_address u)) = w_address u" using W(3) by (simp add: bufferToAddress_Some)
  have ne: "hash x \<noteq> [] \<and> w_sign u (hash x) \<noteq> []" for x using W(7,10) [of x] by (auto simp: rule_buffer_iff sized_def)
  have nn: "nonce \<noteq> []" using nonce by (auto simp: sized_def)
  obtain x v where v: "normalizeMessageByOperationType E (pt_payload pt) = Inr v"
      "js_operation v = built_transfer (hash x) ?txv (ascii_bytes r) ?am nonce (w_sign u (hash x)) (ascii_bytes (w_address u))"
      "b_payload b' = Some (js_operation v)" "prop_of (prop_of (pt_payload pt) ''tro'') ''tx'' = JStr (to_hex (hash x))"
    unfolding P(7) by (rule transfer_json [OF b(4,5,1,2) u' r(1) W(4) r(2) b(3) B(5) nn ne])
  have hash: "hash x = tx" using v(4) tx(1) to_hex_inj by simp
  let ?b = "transfer_builder E (w_address u) r ?am ?txv" and ?d = "js_operation v"
  have sized: "b_phase ?b = Some ''partial''" "b_address ?b = Some (ascii_bytes (w_address u))" "builder_sized E ?b" "builder_nonzero ?b"
    using b(1-3) u' r(1,3) s(3)
    by (simp_all add: transfer_builder_def addressToBuffer_def builder_sized_def builder_nonzero_def fresh_builder_def opt_sized_def opt_address_def
        bufferToAddress_Some)
  have checks: "isPayloadSchemaValid E ?d = Inr ()" "validateRequesterAddress E ?d = Inr ()" "validateSignature E hash ?d = Inr ()"
      "isOperationNotCompleted ?d = Inr ()"
    using partial_checks [OF b(4) sized(1,2) u(2,3) nonce sized(3,4) size] v(2,3) tx(2) hash by auto
  have names: "requesterAddress E ?d = Some (w_address u)" "bufferToAddress E (ascii_bytes r) = Some r"
    using W(3) v(2) b(2) r(1) by (simp_all add: requesterAddress_def bufferToAddress_Some)
  have "getNodeEntryUnsigned s (w_address u) = Some e"
    using P(1) s(1) by (simp add: getNodeEntry_def getNodeEntryUnsigned_def getSigned_def st_get_def)
  then have "validateStateBalances E s ?d = Inr ()"
    using names v(2) P(2-5) room by (intro transfer_affordable_view [of E ?d "w_address u" r s e]) (auto split: if_splits)
  then have "partial_validator E hash (Some va) s ?d = Inr ()"
    using checks names [unfolded v(2)] v(2) va tx(3) r(4) hash
    by (simp add: partial_validator_def validateTransfer_def all_steps_Inr common_steps_def validateNoSelfValidation_def
        validateTransactionUniqueness_def st_get_def validateTransactionValidity_def validateRecipientAddress_def alloc_def check_that_def)
  then show ?thesis using that v(1,2) hash by blast
qed

lemma built_transfer_balance:
  fixes a r :: string and tx txv am nonce sg :: buffer
  defines "d \<equiv> built_transfer tx txv (ascii_bytes r) am nonce sg (ascii_bytes a)"
  assumes "partial_validator E hash (Some (w_address w)) s d = Inr ()" "sound_wallet E hash w" "w_address w \<noteq> a" "prefix_ok E"
    and a: "isAddressValid E a" "ascii_string (ascii_bytes a) = a" "ascii_buffer (ascii_bytes a)"
    and r: "ascii_string (ascii_bytes r) = r" "ascii_buffer (ascii_bytes r)"
    and run: "handleApplyTransferOperation E (completion E hash w n d) node st = Some (SUCCESS, st')"
  shows "int (liquidOf (batch st') a) = int (liquidOf (batch st) a) - (if a = r then int fee else int (be_nat am) + int fee)"
proof -
  have "canonical_op (completion E hash w n d)"
    using completion_canonical [OF assms(2,3)] a(3) r(2) by (simp add: d_def)
  moreover have "requester (completion E hash w n d) = a" using a(2) by (simp add: requester_def d_def)
  moreover have "validator (completion E hash w n d) = w_address w"
    using sound_walletD(2,3) [OF assms(3)]
    by (simp add: validator_def d_def built_transfer_def completion_def with_validator_def payload_of.simps bufferToAddress_Some)
  moreover have "transferCost (completion E hash w n d) = (if a = r then fee else be_nat am + fee)"
    using a(2) r(1) by (auto simp: transferCost_def d_def)
  ultimately show ?thesis using transfer_pays [OF run assms(5)] a(1) assms(4) by (auto simp: pays_def)
qed

text \<open>Preparing sends nothing, whether it goes well or not.\<close>

lemma silent_fails [simp]: "fst (fails e) = []" by (simp add: fails_def)

lemma silent_require: "fst c = [] \<Longrightarrow> fst (require guards c) = []"
  by (induction guards c rule: require.induct) simp_all

lemma silent_given: "(\<And>x. r = Inr x \<Longrightarrow> fst (f x) = []) \<Longrightarrow> fst (given r f) = []"
  by (cases r) (simp_all add: given_def)

lemma prepare_silent: "fst (prepareTransferOperation E hash nonce m r a) = []"
  unfolding prepareTransferOperation_def Let_def
  by (intro silent_require silent_given) (auto intro!: silent_require silent_given split: option.splits)

section \<open>The command line\<close>

lemma answer_words:
  "answer_of (trim input) = Some True \<longleftrightarrow> map lower (trim input) \<in> {''y'', ''yes''}"
  "answer_of (trim input) = None \<longleftrightarrow> map lower (trim input) \<notin> {''y'', ''yes'', ''n'', ''no''}"
  by (simp_all add: answer_of_def Let_def)

lemma line_answered:
  "fst (snd (handle_line E hash wr cw line (Some pt))) = (if answer_of line = Some True then [Broadcast (pt_payload pt)] else [])"
  "fst (handle_line E hash wr cw line (Some pt)) = (if answer_of line = None then Some pt else None)"
  by (auto simp: handle_line_def handlePendingConfirmation_def submitPreparedTransferOperation_def broadcastPartialTransaction_def
      split: option.splits bool.splits)

lemma shown_results [simp]: "silent c \<noteq> (e, Inr (Confirm pt))"
  by (auto simp: silent_def split: prod.splits sum.splits)

lemma balance_shown: "handleBalanceInfo m a c \<noteq> Inr (Confirm pt)"
  unfolding handleBalanceInfo_def chain_Inr Let_def by (auto simp: Let_def split: sum.splits option.splits if_splits)

lemma prepared_line:
  assumes "fst (handle_line E hash wr cw line None) = Some pt"
  shows "command_of line = Some Transfer \<and>
    prepareTransferOperation E hash (cw_nonce cw) (cw_msb cw) (arg (parts_of line) 0) (arg (parts_of line) 1) = ([], Inr pt) \<and>
    fst (snd (handle_line E hash wr cw line None)) = []"
proof -
  obtain action effects where a: "command_of line = Some action" "process E hash wr cw action (parts_of line) = (effects, Inr (Confirm pt))"
    and h: "handle_line E hash wr cw line None = (Some pt, effects, Inr (Confirm pt))"
    using assms by (auto simp: handle_line_def split: option.splits prod.splits sum.splits shown.splits)
  have "action = Transfer"
    using a(2)
    by (cases action)
      (auto simp: process_def Let_def shows_result_def fails_def handleCoreInfo_def handleValidatorAddress_def handleLicenseAddress_def
        handleNodeStatus_def handleDeployment_def handleTxInfo_def handleLicenseNumber_def handleLicenseCount_def handleFeeInfo_def
        balance_shown handleTxHashesInfo_def handleTxDetailsInfo_def handleExtendedTxDetails_def chain_Inr
        split: prod.splits sum.splits option.splits if_splits)
  then show ?thesis
    using a h prepare_silent [of E hash "cw_nonce cw" "cw_msb cw" "arg (parts_of line) 0" "arg (parts_of line) 1"]
    by (auto simp: process_def Let_def split: prod.splits sum.splits)
qed

section \<open>The session of the command line\<close>

lemma cli_run_Nil [simp]: "cli_run E hash wr [] = new_session"
  by (simp add: cli_run_def)

lemma cli_run_snoc [simp]: "cli_run E hash wr (xs @ [x]) = cli_step E hash wr x (cli_run E hash wr xs)"
  by (simp add: cli_run_def)

text \<open>The lines among the events, and the answers among the lines.\<close>

fun is_line :: "cli_event \<Rightarrow> bool" where
  "is_line (Entered _ _) \<longleftrightarrow> True"
| "is_line _ \<longleftrightarrow> False"

fun is_answer :: "cli_event \<Rightarrow> bool" where
  "is_answer (Entered _ input) \<longleftrightarrow> answer_of (trim input) \<noteq> None"
| "is_answer _ \<longleftrightarrow> False"

definition lines_in :: "cli_event list \<Rightarrow> nat" where
  "lines_in es = length (filter is_line es)"

lemma lines_in_simps [simp]: "lines_in [] = 0" "lines_in (x # xs) = (if is_line x then Suc (lines_in xs) else lines_in xs)"
    "lines_in (xs @ ys) = lines_in xs + lines_in ys"
  by (simp_all add: lines_in_def)

text \<open>The \<open>i\<close>-th line of a run: the events before it, its world and text.\<close>

definition line_at :: "cli_event list \<Rightarrow> nat \<Rightarrow> cli_event list \<Rightarrow> cli_world \<Rightarrow> string \<Rightarrow> cli_event list \<Rightarrow> bool" where
  "line_at es i before cw line after \<longleftrightarrow> es = before @ Entered cw line # after \<and> lines_in before = i"

lemma line_at_snoc: "line_at es i before cw line after \<Longrightarrow> line_at (es @ [x]) i before cw line (after @ [x])"
  by (simp add: line_at_def)

lemma line_at_last: "lines_in es = i \<Longrightarrow> line_at (es @ [Entered cw line]) i es cw line []"
  by (simp add: line_at_def)

lemma line_at_unique:
  assumes "line_at es i b cw line a" "line_at es i b' cw' line' a'"
  shows "b = b' \<and> cw = cw' \<and> line = line' \<and> a = a'"
proof -
  have "xs @ Entered cw line # ys = xs' @ Entered cw' line' # ys' \<Longrightarrow> lines_in xs = lines_in xs' \<Longrightarrow>
      xs = xs' \<and> cw = cw' \<and> line = line' \<and> ys = ys'" for xs xs' ys ys'
  proof (induction xs arbitrary: xs')
    case Nil
    then show ?case by (cases xs') auto
  next
    case (Cons x xs)
    then show ?case by (cases xs') (auto split: if_splits)
  qed
  then show ?thesis using assms unfolding line_at_def by blast
qed

lemma first_unique:
  "xs @ x # ys = xs' @ x' # ys' \<Longrightarrow> P x \<Longrightarrow> P x' \<Longrightarrow> \<forall>y \<in> set xs. \<not> P y \<Longrightarrow> \<forall>y \<in> set xs'. \<not> P y \<Longrightarrow> xs = xs' \<and> x = x' \<and> ys = ys'"
proof (induction xs arbitrary: xs')
  case Nil
  then show ?case by (cases xs') auto
next
  case (Cons z xs)
  then show ?case by (cases xs') auto
qed

text \<open>
  The command with the number \<open>j\<close> prepared the transfer \<open>pt\<close> when nothing waited for an answer, and its handler has not ended in the events
  \<open>after\<close> it.
\<close>

definition transfer_line :: "'b env \<Rightarrow> (buffer \<Rightarrow> buffer) \<Rightarrow> wire \<Rightarrow> cli_event list \<Rightarrow> nat \<Rightarrow> prepared \<Rightarrow> cli_event list \<Rightarrow> bool" where
  "transfer_line E hash wr es j pt after \<longleftrightarrow> (\<exists>before cw line. line_at es j before cw line after \<and> Ended j \<notin> set after \<and>
     cs_pending (cli_run E hash wr before) = None \<and> command_of (trim line) = Some Transfer \<and>
     prepareTransferOperation E hash (cw_nonce cw) (cw_msb cw) (arg (parts_of (trim line)) 0) (arg (parts_of (trim line)) 1) = ([], Inr pt))"

text \<open>A transfer waits: the handler of its command has ended, and no answer came since.\<close>

definition awaits :: "'b env \<Rightarrow> (buffer \<Rightarrow> buffer) \<Rightarrow> wire \<Rightarrow> cli_event list \<Rightarrow> nat \<Rightarrow> prepared \<Rightarrow> bool" where
  "awaits E hash wr es j pt \<longleftrightarrow> (\<exists>xs after ys. es = xs @ Ended j # ys \<and> transfer_line E hash wr xs j pt after \<and> (\<forall>e \<in> set ys. \<not> is_answer e))"

lemma awaits_snoc: "awaits E hash wr es j pt \<Longrightarrow> \<not> is_answer e \<Longrightarrow> awaits E hash wr (es @ [e]) j pt"
  unfolding awaits_def by (elim exE conjE) (rule exI, rule exI, rule_tac x = "ys @ [e]" in exI, auto)

text \<open>What the session keeps: its running lines and what they sent are what their handling says, and what waits was prepared by a line.\<close>

definition line_result :: "'b env \<Rightarrow> (buffer \<Rightarrow> buffer) \<Rightarrow> wire \<Rightarrow> cli_event list \<Rightarrow> cli_world \<Rightarrow> string \<Rightarrow> prepared option \<times> effect list" where
  "line_result E hash wr before cw line =
     (case handle_line E hash wr cw (trim line) (cs_pending (cli_run E hash wr before)) of (q, effects, _) \<Rightarrow> (q, effects))"

definition sent_by :: "nat \<Rightarrow> cli_session \<Rightarrow> effect list" where
  "sent_by i s = map snd (filter (\<lambda>(j, _). j = i) (cs_sent s))"

definition line_ok :: "'b env \<Rightarrow> (buffer \<Rightarrow> buffer) \<Rightarrow> wire \<Rightarrow> cli_event list \<Rightarrow> cli_session \<Rightarrow> nat \<Rightarrow> bool" where
  "line_ok E hash wr es s i \<longleftrightarrow> (\<exists>before cw line after q rest. line_at es i before cw line after \<and>
     line_result E hash wr before cw line = (q, sent_by i s @ rest) \<and>
     (\<forall>t. cs_running s i = Some t \<longrightarrow> lt_effects t = rest \<and>
        (\<forall>pt. lt_confirmation t = Some pt \<longrightarrow> q = Some pt \<and> cs_pending (cli_run E hash wr before) = None \<and> Ended i \<notin> set after)))"

definition session_ok :: "'b env \<Rightarrow> (buffer \<Rightarrow> buffer) \<Rightarrow> wire \<Rightarrow> cli_event list \<Rightarrow> cli_session \<Rightarrow> bool" where
  "session_ok E hash wr es s \<longleftrightarrow> cs_lines s = lines_in es \<and> (\<forall>i < lines_in es. line_ok E hash wr es s i) \<and>
     (\<forall>i. lines_in es \<le> i \<longrightarrow> cs_running s i = None \<and> sent_by i s = []) \<and>
     (\<forall>pt. cs_pending s = Some pt \<longrightarrow> (\<exists>j. awaits E hash wr es j pt))"

lemma line_ok_snoc:
  assumes "line_ok E hash wr es s i" "sent_by i s' = sent_by i s" "cs_running s' i = cs_running s i \<or> cs_running s' i = None" "x = Ended i \<Longrightarrow> cs_running s' i = None \<or>
      (\<forall>t. cs_running s i = Some t \<longrightarrow> lt_confirmation t = None)"
  shows "line_ok E hash wr (es @ [x]) s' i"
proof -
  obtain before cw line after q rest where l: "line_at es i before cw line after"
      "line_result E hash wr before cw line = (q, sent_by i s @ rest)"
      "\<forall>t. cs_running s i = Some t \<longrightarrow> lt_effects t = rest \<and>
        (\<forall>pt. lt_confirmation t = Some pt \<longrightarrow> q = Some pt \<and> cs_pending (cli_run E hash wr before) = None \<and> Ended i \<notin> set after)"
    using assms(1) unfolding line_ok_def by blast
  have "\<forall>t. cs_running s' i = Some t \<longrightarrow> lt_effects t = rest \<and>
        (\<forall>pt. lt_confirmation t = Some pt \<longrightarrow> q = Some pt \<and> cs_pending (cli_run E hash wr before) = None \<and> Ended i \<notin> set (after @ [x]))"
    using l(3) assms(3,4) by auto
  then show ?thesis using line_at_snoc [OF l(1)] l(2) assms(2) unfolding line_ok_def by metis
qed

lemma running_line:
  assumes "session_ok E hash wr es s" "cs_running s i = Some t"
  obtains before cw line after q where "i < lines_in es" "line_at es i before cw line after"
    "line_result E hash wr before cw line = (q, sent_by i s @ lt_effects t)"
    "\<forall>pt. lt_confirmation t = Some pt \<longrightarrow> q = Some pt \<and> cs_pending (cli_run E hash wr before) = None \<and> Ended i \<notin> set after"
proof -
  have "\<not> lines_in es \<le> i" using assms unfolding session_ok_def by (metis option.distinct(1))
  then have i: "i < lines_in es" by simp
  then have "line_ok E hash wr es s i" using assms(1) unfolding session_ok_def by blast
  then show ?thesis using that i assms(2) unfolding line_ok_def by blast
qed

lemma prepared_result:
  assumes "line_result E hash wr before cw line = (Some pt, effects)" "cs_pending (cli_run E hash wr before) = None"
  shows "effects = []" "command_of (trim line) = Some Transfer"
    "prepareTransferOperation E hash (cw_nonce cw) (cw_msb cw) (arg (parts_of (trim line)) 0) (arg (parts_of (trim line)) 1) = ([], Inr pt)"
  using assms prepared_line [of E hash wr cw "trim line" pt] by (auto simp: line_result_def split: prod.splits)

lemma sent_by_entered: "sent_by i (line_entered E hash wr cw line s) = sent_by i s"
  by (simp add: line_entered_def sent_by_def split: prod.split)

lemma entered_ok:
  assumes "session_ok E hash wr es s" "s = cli_run E hash wr es"
  shows "session_ok E hash wr (es @ [Entered cw line]) (line_entered E hash wr cw line s)"
proof -
  let ?n = "lines_in es" and ?s' = "line_entered E hash wr cw line s"
  note ok = assms(1) [unfolded session_ok_def]
  obtain q effects r where h: "handle_line E hash wr cw (trim line) (cs_pending s) = (q, effects, r)" by (metis prod_cases3)
  have s': "cs_lines ?s' = Suc ?n" "cs_pending ?s' = (if cs_pending s = None then None else q)"
      "cs_running ?s' = (cs_running s)(?n \<mapsto> \<lparr>lt_effects = effects, lt_confirmation = (if cs_pending s = None then q else None)\<rparr>)"
    using ok h by (simp_all add: line_entered_def)
  have new: "line_result E hash wr es cw line = (q, sent_by ?n ?s' @ effects)"
      "cs_pending s = None \<Longrightarrow> cs_pending (cli_run E hash wr es) = None"
    using h ok by (simp_all add: line_result_def sent_by_entered flip: assms(2))
  have "line_ok E hash wr (es @ [Entered cw line]) ?s' ?n"
    unfolding line_ok_def
    by (rule exI [of _ es], rule exI [of _ cw], rule exI [of _ line], rule exI [of _ "[]"], rule exI [of _ q], rule exI [of _ effects])
      (use new in \<open>simp add: line_at_last s'(3)\<close>)
  moreover have "line_ok E hash wr (es @ [Entered cw line]) ?s' i" if "i < ?n" for i
    by (rule line_ok_snoc) (use ok that in \<open>auto simp: sent_by_entered s'(3)\<close>)
  moreover have "\<exists>j. awaits E hash wr (es @ [Entered cw line]) j pt" if p: "cs_pending ?s' = Some pt" for pt
  proof -
    obtain pt0 where pt0: "cs_pending s = Some pt0" "q = Some pt" using p s'(2) by (auto split: if_splits)
    then have "pt0 = pt" "answer_of (trim line) = None"
      using h line_answered(2) [of E hash wr cw "trim line" pt0] by (auto split: if_splits)
    then show ?thesis using ok pt0 awaits_snoc [of E hash wr es _ pt "Entered cw line"] by auto
  qed
  ultimately show ?thesis
    unfolding session_ok_def using ok s' by (auto simp: sent_by_entered less_Suc_eq)
qed

lemma performs_ok:
  assumes "session_ok E hash wr es s"
  shows "session_ok E hash wr (es @ [Performs i]) (line_performs i s)"
proof -
  let ?s' = "line_performs i s"
  note ok = assms [unfolded session_ok_def]
  have w: "\<exists>j. awaits E hash wr (es @ [Performs i]) j pt" if "cs_pending s = Some pt" for pt
    using ok that awaits_snoc [of E hash wr es _ pt "Performs i"] by fastforce
  have other: "sent_by k ?s' = sent_by k s \<and> cs_running ?s' k = cs_running s k" if "k \<noteq> i" for k
    using that by (simp add: line_performs_def sent_by_def split: option.split list.split)
  have same: "line_ok E hash wr (es @ [Performs i]) ?s' k" if "k < lines_in es" "?s' = s \<or> k \<noteq> i" for k
    by (rule line_ok_snoc [of _ _ _ _ s]) (use ok that other in auto)
  show ?thesis
  proof (cases "?s' = s")
    case True
    then show ?thesis using ok w same unfolding session_ok_def by auto
  next
    case False
    then obtain t e rest where t: "cs_running s i = Some t" "lt_effects t = e # rest"
      by (auto simp: line_performs_def split: option.splits list.splits)
    then have s': "?s' = s\<lparr>cs_running := (cs_running s)(i \<mapsto> t\<lparr>lt_effects := rest\<rparr>), cs_sent := cs_sent s @ [(i, e)]\<rparr>"
      by (simp add: line_performs_def)
    obtain before cw line after q where i: "i < lines_in es" and l: "line_at es i before cw line after"
        "line_result E hash wr before cw line = (q, sent_by i s @ e # rest)"
        "\<forall>pt. lt_confirmation t = Some pt \<longrightarrow> q = Some pt \<and> cs_pending (cli_run E hash wr before) = None \<and> Ended i \<notin> set after"
      using running_line [OF assms t(1)] t(2) by metis
    have "line_ok E hash wr (es @ [Performs i]) ?s' i"
      unfolding line_ok_def
      by (rule exI [of _ before], rule exI [of _ cw], rule exI [of _ line], rule exI [of _ "after @ [Performs i]"], rule exI [of _ q],
          rule exI [of _ rest]) (use l line_at_snoc [OF l(1)] in \<open>auto simp: s' sent_by_def\<close>)
    then have "\<forall>k < lines_in es. line_ok E hash wr (es @ [Performs i]) ?s' k" using same by blast
    moreover have "\<forall>k. lines_in es \<le> k \<longrightarrow> cs_running ?s' k = None \<and> sent_by k ?s' = []"
      using ok i by (auto simp: s' sent_by_def)
    ultimately show ?thesis unfolding session_ok_def using ok w by (auto simp: s')
  qed
qed

lemma ended_ok:
  assumes "session_ok E hash wr es s"
  shows "session_ok E hash wr (es @ [Ended i]) (line_ended i s)"
proof -
  let ?s' = "line_ended i s"
  note ok = assms [unfolded session_ok_def]
  have w: "\<exists>j. awaits E hash wr (es @ [Ended i]) j pt" if "cs_pending s = Some pt" for pt
    using ok that awaits_snoc [of E hash wr es _ pt "Ended i"] by fastforce
  have confirm: "lt_effects t = [] \<and> (\<exists>after. transfer_line E hash wr es i pt after)"
    if t: "cs_running s i = Some t" "lt_confirmation t = Some pt" for t pt
  proof -
    obtain before cw line after q where l: "line_at es i before cw line after"
        "line_result E hash wr before cw line = (q, sent_by i s @ lt_effects t)" and q: "q = Some pt"
        "cs_pending (cli_run E hash wr before) = None" "Ended i \<notin> set after"
      using running_line [OF assms t(1)] t(2) by metis
    note p = prepared_result [OF l(2) [unfolded q(1)] q(2)]
    show ?thesis using p l(1) q(2,3) unfolding transfer_line_def by blast
  qed
  have none: "lt_confirmation t = None" if "cs_running s i = Some t" "lt_effects t \<noteq> []" for t
    using confirm that by (cases "lt_confirmation t") auto
  have lines: "line_ok E hash wr (es @ [Ended i]) ?s' k" if "k < lines_in es" for k
    by (rule line_ok_snoc [of _ _ _ _ s])
      (use ok that none in \<open>auto simp: line_ended_def sent_by_def split: option.splits if_splits\<close>)
  have "\<exists>j. awaits E hash wr (es @ [Ended i]) j pt" if p: "cs_pending ?s' = Some pt" for pt
  proof (cases "cs_pending s = Some pt")
    case False
    then obtain t where t: "cs_running s i = Some t" "lt_confirmation t = Some pt"
      using p by (auto simp: line_ended_def split: option.splits if_splits)
    then obtain after where "transfer_line E hash wr es i pt after" using confirm by blast
    then have "awaits E hash wr (es @ [Ended i]) i pt" unfolding awaits_def by fastforce
    then show ?thesis by blast
  qed (rule w)
  then show ?thesis
    unfolding session_ok_def using ok lines by (auto simp: line_ended_def sent_by_def split: option.split)
qed

lemma session_run: "session_ok E hash wr es (cli_run E hash wr es)"
proof (induction es rule: rev_induct)
  case Nil
  show ?case by (simp add: session_ok_def new_session_def sent_by_def)
next
  case (snoc e es)
  then show ?case by (cases e) (simp_all add: entered_ok performs_ok ended_ok)
qed

text \<open>What a line sends is sent by its handling, and one answer at most meets the transfer of a command.\<close>

lemma sent_line:
  assumes "(i, e) \<in> set (cs_sent (cli_run E hash wr es))"
  shows "\<exists>before cw line after q rest. line_at es i before cw line after \<and>
    line_result E hash wr before cw line = (q, sent_by i (cli_run E hash wr es) @ rest) \<and> e \<in> set (sent_by i (cli_run E hash wr es))"
proof -
  have e: "e \<in> set (sent_by i (cli_run E hash wr es))" using assms by (force simp: sent_by_def)
  then have "i < lines_in es" using session_run [of E hash wr es] unfolding session_ok_def by (metis empty_iff list.set(1) not_le)
  then show ?thesis using session_run [of E hash wr es] e unfolding session_ok_def line_ok_def by metis
qed

lemma answer_unique:
  assumes "line_at es i b cw line a" "awaits E hash wr b j pt" "answer_of (trim line) \<noteq> None"
    and "line_at es i' b' cw' line' a'" "awaits E hash wr b' j pt'" "answer_of (trim line') \<noteq> None"
  shows "i = i' \<and> pt = pt'"
proof -
  obtain xs after ys where w: "b = xs @ Ended j # ys" "transfer_line E hash wr xs j pt after" "\<forall>e \<in> set ys. \<not> is_answer e"
    using assms(2) unfolding awaits_def by blast
  obtain xs' after' ys' where w': "b' = xs' @ Ended j # ys'" "transfer_line E hash wr xs' j pt' after'" "\<forall>e \<in> set ys'. \<not> is_answer e"
    using assms(5) unfolding awaits_def by blast
  obtain p c l where t: "line_at xs j p c l after" "Ended j \<notin> set after"
      "prepareTransferOperation E hash (cw_nonce c) (cw_msb c) (arg (parts_of (trim l)) 0) (arg (parts_of (trim l)) 1) = ([], Inr pt)"
    using w(2) unfolding transfer_line_def by blast
  obtain p' c' l' where t': "line_at xs' j p' c' l' after'" "Ended j \<notin> set after'"
      "prepareTransferOperation E hash (cw_nonce c') (cw_msb c') (arg (parts_of (trim l')) 0) (arg (parts_of (trim l')) 1) = ([], Inr pt')"
    using w'(2) unfolding transfer_line_def by blast
  let ?rest = "ys @ Entered cw line # a" and ?rest' = "ys' @ Entered cw' line' # a'"
  have at: "line_at es j p c l (after @ Ended j # ?rest)" "line_at es j p' c' l' (after' @ Ended j # ?rest')"
    using t(1) t'(1) assms(1,4) w(1) w'(1) by (simp_all add: line_at_def)
  then have eq: "p = p'" "c = c'" "l = l'" "after @ Ended j # ?rest = after' @ Ended j # ?rest'" using line_at_unique [OF at] by simp_all
  have "after = after' \<and> Ended j = Ended j \<and> ?rest = ?rest'"
    by (rule first_unique [where P = "\<lambda>e. e = Ended j"]) (use eq(4) t(2) t'(2) in auto)
  then have "after = after'" "ys = ys'"
    using first_unique [of ys "Entered cw line" a ys' "Entered cw' line'" a' is_answer] assms(3,6) w(3) w'(3) by auto
  then show ?thesis using eq t t' w(1) w'(1) assms(1,4) by (auto simp: line_at_def)
qed

section \<open>What a command may send\<close>

definition sends :: "(effect \<Rightarrow> bool) \<Rightarrow> 'a command \<Rightarrow> bool" where
  "sends P c \<longleftrightarrow> (\<forall>e \<in> set (fst c). P e)"

named_theorems sending

lemma sends_fails [sending]: "sends P (fails e)"
  by (simp add: sends_def fails_def)

lemma sends_require [sending]: "(list_all (\<lambda>(bad, _). \<not> bad) guards \<Longrightarrow> sends P c) \<Longrightarrow> sends P (require guards c)"
  by (induction guards c rule: require.induct) (auto simp: sends_fails)

lemma sends_given [sending]: "(\<And>x. r = Inr x \<Longrightarrow> sends P (f x)) \<Longrightarrow> sends P (given r f)"
  by (cases r) (auto simp: given_def sends_fails)

lemma sends_append [sending]: "(\<And>b. P (Append b)) \<Longrightarrow> sends P (append_message wr r)"
  by (auto simp: append_message_def sends_def given_def fails_def split: sum.splits)

lemma sends_broadcast [sending]: "(\<And>p. P (Broadcast p)) \<Longrightarrow> sends P (broadcast_message send r)"
  by (auto simp: broadcast_message_def broadcastPartialTransaction_def sends_def given_def fails_def split: sum.splits)

lemma sends_silent [sending]: "sends P c \<Longrightarrow> sends P (silent c)"
  by (auto simp: silent_def sends_def split: prod.splits sum.splits)

lemma sends_result [sending]: "sends P (shows_result r)" "sends P ([], r)"
  by (auto simp: shows_result_def sends_def)

lemma sends_whitelist [sending]: "(\<And>b. P (Append b)) \<Longrightarrow> sends P (whitelist_appends later i ms, r)"
  by (induction later i ms rule: whitelist_appends.induct) (auto simp: sends_def)

lemma sends_emitting [sending]: "\<forall>e \<in> set es. P e \<Longrightarrow> sends P c \<Longrightarrow> sends P (emitting es c)"
  by (auto simp: emitting_def sends_def)

lemma sends_appends [sending]: "(\<And>b. P (Append b)) \<Longrightarrow> sends P (map Append bs, r)"
  by (auto simp: sends_def)

text \<open>The node of the administrator, and who may send what by which command.\<close>

definition administrator :: "'b env \<Rightarrow> msb \<Rightarrow> bool" where
  "administrator E m \<longleftrightarrow> (\<exists>a w. getAdminEntry E (m_state m) = Some a \<and> m_wallet m = Some w \<and> ae_address a = Some (w_address w) \<and>
     ae_wk a = ns_writingKey (m_state m))"

lemma isAdminNode_True: "isAdminNode m a = Inr True \<Longrightarrow> getAdminEntry E (m_state m) = a \<Longrightarrow> administrator E m"
  by (auto simp: isAdminNode_def administrator_def split: option.splits if_splits)

fun permitted :: "'b env \<Rightarrow> msb \<Rightarrow> cli_action \<Rightarrow> effect \<Rightarrow> bool" where
  "permitted E m action (Append b) \<longleftrightarrow> enableWallet (m_config m) \<and>
     (action = AddAdmin \<and> getAdminEntry E (m_state m) = None \<and> ns_writingKey (m_state m) = bootstrap E \<or>
      action \<in> {AddWhitelist, BalanceMigration, DisableInitialization, BanWriter} \<and> administrator E m \<or>
      action \<in> {AddIndexer, RemoveIndexer} \<and> (administrator E m \<or> getAdminEntry E (m_state m) \<noteq> None \<and> ns_writable (m_state m)))"
| "permitted E m action (WriteFile d f c) \<longleftrightarrow> enableWallet (m_config m) \<and> administrator E m \<and>
     (action = AddWhitelist \<and> d = WHITELIST_MIGRATION_DIR \<or> action = BalanceMigration \<and> d = BALANCE_MIGRATED_DIR)"
| "permitted E m action (Broadcast p) \<longleftrightarrow> enableWallet (m_config m) \<and>
     (action = AddAdminRecovery \<and> (\<exists>a w. getAdminEntry E (m_state m) = Some a \<and> m_wallet m = Some w \<and> ae_address a = Some (w_address w) \<and>
        ae_wk a \<noteq> ns_writingKey (m_state m)) \<or>
      action \<in> {AddWriter, RemoveWriter, Deployment})"

lemma creation_sends: "sends (permitted E m AddAdmin) (handleAdminCreation E hash wr nonce m)"
  unfolding handleAdminCreation_def Let_def by (intro sending) auto

lemma recovery_sends: "sends (permitted E m AddAdminRecovery) (handleAdminRecovery E hash send nonce m)"
  unfolding handleAdminRecovery_def Let_def
  by (intro sending) (auto simp: value_of_def own_address_def split: option.splits)

lemma disable_sends: "sends (permitted E m DisableInitialization) (disableInitialization E hash wr nonce m)"
  unfolding disableInitialization_def Let_def by (intro sending) (auto dest: isAdminNode_True)

lemma indexer_sends: "action = (if toAdd then AddIndexer else RemoveIndexer) \<Longrightarrow>
    sends (permitted E m action) (updateWriterToIndexerRole E hash wr nonce m a toAdd)"
  unfolding updateWriterToIndexerRole_def Let_def
  by (auto split: option.split intro!: sending) (simp_all add: isAdminNode_True)

lemma ban_sends: "sends (permitted E m BanWriter) (banValidator E hash wr nonce m a)"
  unfolding banValidator_def Let_def by (intro sending) (auto dest: isAdminNode_True)

lemma whitelist_command_sends: "sends (permitted E m AddWhitelist) (handleWhitelistOperations E hash wr nonces later m data dir)"
  unfolding handleWhitelistOperations_def Let_def
  by (auto simp: createWhitelistEntryFile_def intro!: sending intro: isAdminNode_True) (simp_all add: isAdminNode_True)

lemma migration_sends: "sends (permitted E m BalanceMigration) (balanceMigrationOperation E hash wr nonces after m data dir)"
  unfolding balanceMigrationOperation_def Let_def
  by (auto split: prod.split intro!: sending) (simp_all add: isAdminNode_True)

lemma role_sends: "sends (permitted E m (if toAdd then AddWriter else RemoveWriter)) (requestWriterRole E hash send nonce m toAdd)"
  unfolding requestWriterRole_def Let_def by (auto intro!: sending)

lemma deployment_sends: "sends (permitted E m Deployment) (deployBootstrap E hash send nonce m b c)"
  unfolding deployBootstrap_def Let_def by (auto split: option.split intro!: sending)

lemma process_sends: "sends (permitted E (cw_msb cw) action) (process E hash wr cw action parts)"
proof (cases action)
  case Transfer
  then show ?thesis
    using prepare_silent [of E hash "cw_nonce cw" "cw_msb cw" "arg parts 0" "arg parts 1"]
    by (auto simp: process_def Let_def sends_def split: prod.splits sum.splits)
qed (auto simp: process_def Let_def intro!: sending creation_sends recovery_sends disable_sends ban_sends whitelist_command_sends
    migration_sends deployment_sends indexer_sends role_sends [where toAdd = True, simplified] role_sends [where toAdd = False, simplified])

lemma line_sends:
  assumes "handle_line E hash wr cw line None = (q, effects, r)" "e \<in> set effects"
  shows "\<exists>action. command_of line = Some action \<and> permitted E (cw_msb cw) action e"
proof -
  obtain action where a: "command_of line = Some action" "effects = fst (process E hash wr cw action (parts_of line))"
    using assms by (auto simp: handle_line_def split: option.splits prod.splits sum.splits shown.splits)
  then show ?thesis using assms(2) process_sends [of E cw action hash wr "parts_of line"] by (auto simp: sends_def)
qed

lemma broadcasting_command:
  assumes "line_result E hash wr before cw line = (q, effects)" "cs_pending (cli_run E hash wr before) = None" "Broadcast p \<in> set effects"
  shows "command_of (trim line) \<in> Some ` {AddAdminRecovery, AddWriter, RemoveWriter, Deployment}"
proof -
  obtain r where "handle_line E hash wr cw (trim line) None = (q, effects, r)"
    using assms(1,2) by (auto simp: line_result_def split: prod.splits)
  then show ?thesis using line_sends [of E hash wr cw "trim line" q effects r "Broadcast p"] assms(3) by auto
qed

lemma session_lines: "cs_lines (cli_run E hash wr es) = lines_in es"
  using session_run [of E hash wr es] by (simp add: session_ok_def)

lemma waiting_entered:
  assumes "cs_pending s = Some pt"
  shows "cs_pending (line_entered E hash wr cw line s) = (if answer_of (trim line) = None then Some pt else None)"
    "cs_running (line_entered E hash wr cw line s) = (cs_running s)(cs_lines s \<mapsto>
       \<lparr>lt_effects = (if answer_of (trim line) = Some True then [Broadcast (pt_payload pt)] else []), lt_confirmation = None\<rparr>)"
  using line_answered [of E hash wr cw "trim line" pt] assms by (auto simp: line_entered_def split: prod.splits)

section \<open>Migrations\<close>

text \<open>The addresses of the lines of a file of balances.\<close>

definition line_addresses :: "string option \<Rightarrow> string list" where
  "line_addresses data = (case data of None \<Rightarrow> [] | Some d \<Rightarrow> map (takeWhile is_alnum) (file_lines d))"

lemma balance_lines_Inr:
  assumes "balance_lines ls r = Inr r'" "map fst (bf_addressBalancePair r) = map fst (bf_addresses r)"
    and "\<forall>a \<in> set (map fst (bf_addresses r)). a \<noteq> [] \<and> list_all is_alnum a"
  shows "map fst (bf_addresses r') = map fst (bf_addresses r) @ map (takeWhile is_alnum) ls \<and>
    map fst (bf_addressBalancePair r') = map fst (bf_addresses r') \<and>
    (\<forall>a \<in> set (map fst (bf_addresses r')). a \<noteq> [] \<and> list_all is_alnum a)"
  using assms
proof (induction ls r rule: balance_lines.induct)
  case (2 line rest r)
  obtain address balance parsed where l: "pair_of_line line = Some (address, balance)"
    "balance_lines rest \<lparr>bf_addressBalancePair = bf_addressBalancePair r @ [(address, bigIntTo16ByteBuffer parsed)], bf_totalBalance = bf_totalBalance r + parsed,
       bf_totalAddresses = bf_totalAddresses r + 1, bf_addresses = bf_addresses r @ [(address, parsed)]\<rparr> = Inr r'"
    and g: "map_of (bf_addressBalancePair r) address = None" "decimalStringToBigInt balance = Inr parsed"
      "bufferToBigInt (bigIntTo16ByteBuffer parsed) = Inr parsed"
    using "2.prems"(1) by (auto simp: Let_def split: option.splits prod.splits sum.splits if_splits)
  have a: "address = takeWhile is_alnum line" "address \<noteq> []" "list_all is_alnum address"
    using l(1) by (auto simp: pair_of_line_def Let_def list_all_iff split: list.splits if_splits dest: set_takeWhileD)
  let ?r = "\<lparr>bf_addressBalancePair = bf_addressBalancePair r @ [(address, bigIntTo16ByteBuffer parsed)], bf_totalBalance = bf_totalBalance r + parsed,
       bf_totalAddresses = bf_totalAddresses r + 1, bf_addresses = bf_addresses r @ [(address, parsed)]\<rparr>"
  have "map fst (bf_addresses r') = map fst (bf_addresses ?r) @ map (takeWhile is_alnum) rest \<and>
      map fst (bf_addressBalancePair r') = map fst (bf_addresses r') \<and> (\<forall>a \<in> set (map fst (bf_addresses r')). a \<noteq> [] \<and> list_all is_alnum a)"
    by (rule "2.IH" [OF l(1) refl _ g(2) refl g(3)]) (use g(1) l(2) "2.prems"(2,3) a in auto)
  moreover have "map fst (bf_addresses ?r) @ map (takeWhile is_alnum) rest = map fst (bf_addresses r) @ map (takeWhile is_alnum) (line # rest)"
    using a(1) by simp
  ultimately show ?case by (elim conjE) (intro conjI, erule (1) trans)
qed simp

lemma read_addresses:
  assumes "readBalanceMigrationFile path data = Inr r"
  shows "map fst (bf_addresses r) = line_addresses data" "map fst (bf_addressBalancePair r) = line_addresses data"
    "\<forall>a \<in> set (line_addresses data). a \<noteq> [] \<and> list_all is_alnum a"
proof -
  obtain d where d: "data = Some d" "balance_lines (file_lines d)
      \<lparr>bf_addressBalancePair = [], bf_totalBalance = 0, bf_totalAddresses = 0, bf_addresses = []\<rparr> = Inr r"
    using assms by (auto simp: readBalanceMigrationFile_def Let_def split: if_splits option.splits)
  have l: "line_addresses data = map (takeWhile is_alnum) (file_lines d)" by (simp add: line_addresses_def d(1))
  show eq: "map fst (bf_addresses r) = line_addresses data" "map fst (bf_addressBalancePair r) = line_addresses data"
    using balance_lines_Inr [OF d(2)] by (simp_all add: l)
  have "\<forall>a \<in> set (map fst (bf_addresses r)). a \<noteq> [] \<and> list_all is_alnum a"
    by (rule balance_lines_Inr [OF d(2), THEN conjunct2, THEN conjunct2]) simp_all
  then show "\<forall>a \<in> set (line_addresses data). a \<noteq> [] \<and> list_all is_alnum a" unfolding eq(1) .
qed

lemma decimal_string_chars:
  assumes "bigIntToDecimalString v = Inr s"
  shows "\<forall>c \<in> set s. is_digit c \<or> c = CHR ''.''" "s \<noteq> []" "is_digit (last s)"
proof -
  define str where "str = padStart 19 (CHR ''0'') (show_nat (nat v))"
  let ?n = "length str - 18" and ?g = "rev (dropWhile (\<lambda>c. c = CHR ''0'') (rev (drop (length str - 18) str)))"
  have d: "list_all is_digit str" "19 \<le> length str"
    using show_nat_digits [of "nat v"] by (auto simp: str_def padStart_def list_all_iff is_digit_def)
  have s: "s = (if 0 < length ?g then take ?n str @ ''.'' @ ?g else take ?n str)"
    using assms d(2) by (auto simp: bigIntToDecimalString_def str_def Let_def split: if_splits)
  have t: "list_all is_digit (take ?n str)" "list_all is_digit ?g" "take ?n str \<noteq> []"
    using d by (auto simp: list_all_iff dest!: in_set_takeD in_set_dropD set_dropWhileD)
  show "\<forall>c \<in> set s. is_digit c \<or> c = CHR ''.''" "s \<noteq> []" using t unfolding s by (auto simp: list_all_iff)
  have "is_digit (last (take ?n str))" using t(1,3) last_in_set unfolding list_all_iff by blast
  moreover have "?g \<noteq> [] \<Longrightarrow> is_digit (last ?g)" using t(2) last_in_set unfolding list_all_iff by blast
  ultimately show "is_digit (last s)" unfolding s by auto
qed

lemma alnum_clean: "is_alnum c \<Longrightarrow> \<not> is_space c \<and> c \<noteq> CHR '','' \<and> c \<noteq> CHR 0x0A"
  by (auto simp: is_alnum_def is_space_def Let_def)

lemma digit_clean: "is_digit c \<Longrightarrow> c \<noteq> CHR 0x0A" "\<not> is_space (CHR ''.'')"
  by (auto simp: is_digit_def is_space_def Let_def)

lemma trim_ends: "s \<noteq> [] \<Longrightarrow> \<not> is_space (hd s) \<Longrightarrow> \<not> is_space (last s) \<Longrightarrow> trim s = s"
  using dropWhile_eq_self_iff [of is_space s] dropWhile_eq_self_iff [of is_space "rev s"] by (simp add: trim_def hd_rev)

lemma entry_lines_clean:
  assumes "entry_lines ps = Inr ls" "\<forall>a \<in> set (map fst ps). a \<noteq> [] \<and> list_all is_alnum a"
  shows "map (\<lambda>l. hd (split_on (CHR '','') l)) ls = map fst ps \<and> (\<forall>l \<in> set ls. l \<noteq> [] \<and> trim l = l \<and> CHR 0x0A \<notin> set l)"
  using assms
proof (induction ps arbitrary: ls)
  case (Cons p ps)
  obtain a b v s rest where p: "p = (a, b)" "bigIntToDecimalString v = Inr s" "entry_lines ps = Inr rest" "ls = (a @ CHR '','' # s) # rest"
    using Cons.prems(1) by (cases p) (auto simp: chain_Inr split: sum.splits)
  have a: "a \<noteq> []" "list_all is_alnum a" using Cons.prems(2) p(1) by auto
  then have "CHR '','' \<notin> set a" "CHR 0x0A \<notin> set a" "\<not> is_space (hd a)" using alnum_clean by (auto simp: list_all_iff)
  moreover have "CHR 0x0A \<notin> set s" "\<not> is_space (last s)" "s \<noteq> []"
    using decimal_string_chars [OF p(2)] digit_clean digit_not_space by auto
  ultimately have "hd (split_on (CHR '','') (a @ CHR '','' # s)) = a" "trim (a @ CHR '','' # s) = a @ CHR '','' # s" "CHR 0x0A \<notin> set (a @ CHR '','' # s)"
    using a by (auto simp: split_on_append intro!: trim_ends)
  then show ?case using Cons.IH [OF p(3)] Cons.prems(2) p(1,4) by auto
qed simp

lemma first_migrated_refuses:
  assumes "(migrated_name n, content) \<in> set dir" "l \<in> set (file_lines content)" "address_of l \<in> set addresses"
  shows "\<exists>e. first_migrated address_of dir addresses = Inl e"
proof -
  let ?xs = "concat (map (\<lambda>(file, content). map (\<lambda>l. (address_of l, file)) (file_lines content)) (getAllMigrationFiles dir))"
  have "(address_of l, migrated_name n) \<in> set ?xs" using assms by (force simp: getAllMigrationFiles_def migrated_number_name)
  then have "List.find (\<lambda>(a, _). List.member addresses a) ?xs \<noteq> None"
    using assms(3) unfolding find_None_iff by (metis (mono_tags, lifting) List.member_iff case_prod_conv)
  then show ?thesis by (auto simp: first_migrated_def)
qed

text \<open>What holds of a command that failed, and of its rest when its guards let it through, holds of it.\<close>

lemma on_require: "(\<And>e. Q (fails e)) \<Longrightarrow> Q c \<Longrightarrow> Q (require gs c)"
  by (induction gs c rule: require.induct) auto

lemma on_given: "(\<And>e. Q (fails e)) \<Longrightarrow> (\<And>x. r = Inr x \<Longrightarrow> Q (f x)) \<Longrightarrow> Q (given r f)"
  by (cases r) (auto simp: given_def)

lemma file_of_Inr: "file_of r = Inr x \<longleftrightarrow> r = Inr x"
  by (cases r) (auto simp: file_of_def)

text \<open>What a migration of balances leaves in the directory, and what it does then to the next one.\<close>

lemma balance_migration_writes:
  assumes "effects = fst (balanceMigrationOperation E hash wr nonces after m data dir)" "effects \<noteq> []"
  shows "\<exists>content rest. effects = WriteFile BALANCE_MIGRATED_DIR (migrated_name (getNextMigrationNumber dir)) content # rest \<and>
    map (\<lambda>l. hd (split_on (CHR '','') l)) (file_lines content) = line_addresses data \<and>
    validateBalanceMigrationData dir (line_addresses data) = Inr ()"
proof -
  let ?n = "getNextMigrationNumber dir"
  define Q :: "bool command \<Rightarrow> bool" where "Q c \<longleftrightarrow> fst c = [] \<or> (\<exists>r f content rest. readBalanceMigrationFile BALANCE_MIGRATION_FILEPATH data = Inr r \<and>
      createMigrationEntryFile (bf_addressBalancePair r) ?n = Inr (f, content) \<and> fst c = WriteFile BALANCE_MIGRATED_DIR f content # rest \<and>
      validateBalanceMigrationData dir (line_addresses data) = Inr ())" for c
  have fails: "Q (fails e)" for e by (simp add: Q_def fails_def)
  have "Q (balanceMigrationOperation E hash wr nonces after m data dir)"
    unfolding balanceMigrationOperation_def Let_def
    by (auto split: prod.split intro!: on_require [where Q = Q] on_given [where Q = Q] fails simp del: require.simps)
      (auto simp: Q_def emitting_def file_of_Inr read_addresses)
  then obtain r f content rest where r: "readBalanceMigrationFile BALANCE_MIGRATION_FILEPATH data = Inr r"
      "createMigrationEntryFile (bf_addressBalancePair r) ?n = Inr (f, content)" "effects = WriteFile BALANCE_MIGRATED_DIR f content # rest"
      "validateBalanceMigrationData dir (line_addresses data) = Inr ()"
    using assms by (auto simp: Q_def)
  obtain ls where ls: "entry_lines (bf_addressBalancePair r) = Inr ls" "f = migrated_name ?n" "content = join_lines ls"
    using r(2) by (auto simp: createMigrationEntryFile_def chain_Inr)
  note a = read_addresses [OF r(1)]
  have "map (\<lambda>l. hd (split_on (CHR '','') l)) ls = line_addresses data \<and> (\<forall>l \<in> set ls. l \<noteq> [] \<and> trim l = l \<and> CHR 0x0A \<notin> set l)"
    using entry_lines_clean [OF ls(1)] a(2,3) by simp
  moreover from this have "file_lines content = ls" unfolding ls(3) by (intro file_lines_join) blast
  ultimately show ?thesis using r(3,4) ls(2) by blast
qed

lemma balance_migration_once:
  assumes "effects = fst (balanceMigrationOperation (E :: 'b env) hash wr nonces after m data dir)" "effects \<noteq> []"
  shows "\<exists>f content rest. effects = WriteFile BALANCE_MIGRATED_DIR f content # rest \<and> f \<notin> fst ` set dir \<and>
    (\<forall>E' hash' wr' nonces' after' m' data' dir'. (f, content) \<in> set dir' \<longrightarrow> set (line_addresses data) \<inter> set (line_addresses data') \<noteq> {} \<longrightarrow>
       fst (balanceMigrationOperation (E' :: 'b env) hash' wr' nonces' after' m' data' dir') = [])"
proof -
  let ?f = "migrated_name (getNextMigrationNumber dir)"
  obtain content rest where c: "effects = WriteFile BALANCE_MIGRATED_DIR ?f content # rest"
      "map (\<lambda>l. hd (split_on (CHR '','') l)) (file_lines content) = line_addresses data"
    using balance_migration_writes [OF assms] by blast
  have once: "fst (balanceMigrationOperation (E' :: 'b env) hash' wr' nonces' after' m' data' dir') = []"
    if put: "(?f, content) \<in> set dir'" and both: "set (line_addresses data) \<inter> set (line_addresses data') \<noteq> {}" for E' hash' wr' nonces' after' m' data' dir'
  proof (rule ccontr)
    assume "fst (balanceMigrationOperation E' hash' wr' nonces' after' m' data' dir') \<noteq> []"
    then have "validateBalanceMigrationData dir' (line_addresses data') = Inr ()"
      using balance_migration_writes [OF refl] by blast
    moreover obtain l where l: "l \<in> set (file_lines content)" "hd (split_on (CHR '','') l) \<in> set (line_addresses data')"
      using both unfolding c(2) [symmetric] by auto
    have "\<exists>e. validateBalanceMigrationData dir' (line_addresses data') = Inl e"
      unfolding validateBalanceMigrationData_def by (rule first_migrated_refuses [where address_of = "\<lambda>l. hd (split_on (CHR '','') l)", OF put l])
    ultimately show False by auto
  qed
  show ?thesis
    by (rule exI [of _ ?f], rule exI [of _ content], rule exI [of _ rest]) (intro conjI allI impI c(1) next_name_fresh once)
qed

text \<open>The same of the whitelist, whose lines are the addresses.\<close>

lemma whitelist_once:
  assumes "effects = fst (handleWhitelistOperations (E :: 'b env) hash wr nonces later m (Some data) dir)" "effects \<noteq> []"
  shows "\<exists>f content rest. effects = WriteFile WHITELIST_MIGRATION_DIR f content # rest \<and> f \<notin> fst ` set dir \<and>
    (\<forall>E' hash' wr' nonces' later' m' data' dir'. (f, content) \<in> set dir' \<longrightarrow> set (file_lines data) \<inter> set (file_lines data') \<noteq> {} \<longrightarrow>
       fst (handleWhitelistOperations (E' :: 'b env) hash' wr' nonces' later' m' (Some data') dir') = [])"
proof -
  let ?f = "\<lambda>dir. migrated_name (getNextMigrationNumber dir)"
  have writes: "fst (handleWhitelistOperations (E' :: 'b env) hash' wr' nonces' later' m' (Some data') dir') = [] \<or>
      validateWhitelistMigrationData dir' (file_lines data') = Inr () \<and>
      (\<exists>rest. fst (handleWhitelistOperations E' hash' wr' nonces' later' m' (Some data') dir') =
        WriteFile WHITELIST_MIGRATION_DIR (?f dir') (join_lines (file_lines data')) # rest)" for E' hash' wr' nonces' later' m' data' dir'
  proof -
    define Q :: "unit command \<Rightarrow> bool" where "Q c \<longleftrightarrow> fst c = [] \<or> validateWhitelistMigrationData dir' (file_lines data') = Inr () \<and>
      (\<exists>rest. fst c = WriteFile WHITELIST_MIGRATION_DIR (?f dir') (join_lines (file_lines data')) # rest)" for c
    have fails: "Q (fails e)" for e by (simp add: Q_def fails_def)
    have "Q (handleWhitelistOperations E' hash' wr' nonces' later' m' (Some data') dir')"
      unfolding handleWhitelistOperations_def Let_def
      by (auto simp: createWhitelistEntryFile_def intro!: on_require [where Q = Q] on_given [where Q = Q] fails simp del: require.simps)
        (auto simp: Q_def emitting_def file_of_Inr readAddressesFromWhitelistFile_def Let_def split: if_splits)
    then show ?thesis by (simp add: Q_def)
  qed
  obtain rest where c: "effects = WriteFile WHITELIST_MIGRATION_DIR (?f dir) (join_lines (file_lines data)) # rest"
    using writes [of E hash wr nonces later m data dir] assms by auto
  have again: "file_lines (join_lines (file_lines data)) = file_lines data" by (intro file_lines_join) (blast dest: file_lines_clean)
  have once: "fst (handleWhitelistOperations (E' :: 'b env) hash' wr' nonces' later' m' (Some data') dir') = []"
    if put: "(?f dir, join_lines (file_lines data)) \<in> set dir'" and both: "set (file_lines data) \<inter> set (file_lines data') \<noteq> {}"
    for E' hash' wr' nonces' later' m' data' dir'
  proof -
    obtain l where "l \<in> set (file_lines data)" "l \<in> set (file_lines data')" using both by blast
    then have "\<exists>e. validateWhitelistMigrationData dir' (file_lines data') = Inl e"
      unfolding validateWhitelistMigrationData_def by (intro first_migrated_refuses [OF put]) (simp_all add: again)
    then show ?thesis using writes [of E' hash' wr' nonces' later' m' data' dir'] by auto
  qed
  show ?thesis
    by (rule exI [of _ "?f dir"], rule exI [of _ "join_lines (file_lines data)"], rule exI [of _ rest])
      (intro conjI allI impI c next_name_fresh once)
qed

end
