(* ===== verification/Rpc_Spec.thy ===== *)
theory Rpc_Spec
  imports Rpc Builder_Spec
begin

text \<open>
  What the interface lets through to the network: the operations that reach it are sanitised, normalised and validated before they are sent on.
\<close>

section \<open>What is sent on\<close>

definition forwardable :: "'b env \<Rightarrow> (buffer \<Rightarrow> buffer) \<Rightarrow> node_state \<Rightarrow> js \<Rightarrow> string \<Rightarrow> bool" where
  "forwardable E hash s payload tx \<longleftrightarrow>
     prop_of payload ''type'' = JNum (int OT_TRANSFER) \<and>
       (\<exists>v. normalizeTransferOperation E payload = Inr v \<and> validateTransfer E hash None s (js_operation v) = Inr () \<and> tx_hex v ''tro'' = Some tx) \<or>
     prop_of payload ''type'' = JNum (int OT_TX) \<and>
       (\<exists>v. normalizeTransactionOperation E payload = Inr v \<and> validateTransaction E hash None s (js_operation v) = Inr () \<and> tx_hex v ''txo'' = Some tx)"

lemma normal_props_bytes: "normal_props body ks = Inr ps \<Longrightarrow> k \<in> set ks \<Longrightarrow> \<exists>b. map_of ps k = Some (JBuf b)"
  by (induction body ks arbitrary: ps rule: normal_props.induct) (auto simp: chain_Inr split: sum.splits)

lemma normal_transfer_hash: "normalizeTransferOperation E p = Inr v \<Longrightarrow> \<exists>tx. tx_hex v ''tro'' = Some tx"
  using normal_props_bytes [of _ "[''tx'', ''txv'', ''in'']" _ "''tx''"]
  by (fastforce simp: normalizeTransferOperation_def Let_def chain_Inr tx_hex_def map_add_def split: if_splits)

lemma normal_transaction_hash: "normalizeTransactionOperation E p = Inr v \<Longrightarrow> \<exists>tx. tx_hex v ''txo'' = Some tx"
  using normal_props_bytes [of _ "[''tx'', ''txv'', ''iw'', ''ch'', ''bs'', ''mbs'', ''in'', ''is'']" _ "''tx''"]
  by (fastforce simp: normalizeTransactionOperation_def Let_def chain_Inr tx_hex_def split: if_splits)

lemma forwarded: "forwardTransaction send polls p (Some tx) = ([Broadcast p], if send p \<and> waitForUnsigned polls tx then Inr tx else Inl BroadcastFailed)"
  by (simp add: forwardTransaction_def broadcastPartialTransaction_def)

lemma broadcast_forwards:
  assumes "prop_of p ''type'' = JNum (int OT_TRANSFER) \<or> prop_of p ''type'' = JNum (int OT_TX)"
  shows "fst (broadcastTransaction E hash send polls m p) = [] \<or>
    (\<exists>tx. forwardable E hash (m_state m) p tx \<and>
      broadcastTransaction E hash send polls m p = ([Broadcast p], if send p \<and> waitForUnsigned polls tx then Inr tx else Inl BroadcastFailed))"
proof (cases "prop_of p ''type'' = JNum (int OT_TRANSFER)")
  case True
  show ?thesis
  proof (cases "normalizeTransferOperation E p")
    case (Inr v)
    obtain tx where "tx_hex v ''tro'' = Some tx" using normal_transfer_hash [OF Inr] by blast
    then show ?thesis
      using True Inr by (auto simp: broadcastTransaction_def fails_def forwarded forwardable_def split: sum.split)
  qed (use True in \<open>auto simp: broadcastTransaction_def fails_def\<close>)
next
  case False
  then have t: "prop_of p ''type'' = JNum (int OT_TX)" "JNum (int OT_TX) \<noteq> JNum (int OT_TRANSFER)" using assms by auto
  show ?thesis
  proof (cases "normalizeTransactionOperation E p")
    case (Inr v)
    obtain tx where "tx_hex v ''txo'' = Some tx" using normal_transaction_hash [OF Inr] by blast
    then show ?thesis
      using t Inr by (auto simp: broadcastTransaction_def fails_def forwarded forwardable_def split: sum.split)
  qed (use t in \<open>auto simp: broadcastTransaction_def fails_def\<close>)
qed

section \<open>Sanitising\<close>

lemma payload_key: "operationToPayload t = Some ''tro'' \<Longrightarrow> t = OT_TRANSFER" "operationToPayload t = Some ''txo'' \<Longrightarrow> t = OT_TX"
  by (auto simp: operationToPayload_def type_defs split: if_splits)

lemma map_of_rewrite: "map_of (map (\<lambda>(k, v). (k, f k v)) ps) k = map_option (f k) (map_of ps k)"
  by (induction ps) auto

lemma sanitized_type:
  assumes "sanitizeTransferPayload p = Inr q"
  shows "prop_of q ''type'' = JNum (int OT_TRANSFER) \<or> prop_of q ''type'' = JNum (int OT_TX)"
proof -
  obtain t where t: "prop_of p ''type'' = JNum t" "t \<ge> 0" "operationToPayload (nat t) \<in> {Some ''tro'', Some ''txo''}"
    using assms by (auto simp: sanitizeTransferPayload_def Let_def split: if_splits js.splits)
  then have "prop_of p ''type'' = JNum (int OT_TRANSFER) \<or> prop_of p ''type'' = JNum (int OT_TX)"
    using payload_key [of "nat t"] by auto
  moreover obtain ps where "p = JObj ps" using t(1) by (cases p) auto
  ultimately show ?thesis
    using assms t by (auto simp: sanitizeTransferPayload_def Let_def map_of_rewrite split: if_splits option.splits)
qed

section \<open>The server\<close>

lemma foundRoute_member:
  assumes "foundRoute verb url = Some e" shows "\<exists>path. (verb, path, e) \<in> set routes"
proof -
  let ?ok = "route_matches verb (takeWhile (\<lambda>c. c \<noteq> CHR ''?'') url)"
  obtain r where r: "List.find ?ok sortedRoutes = Some r" "e = snd (snd r)" using assms by (auto simp: foundRoute_def)
  then have "?ok r" "r \<in> set sortedRoutes" by (auto simp: find_Some_iff)
  then have "verb = fst r" "r \<in> set routes" by (auto simp: route_matches_def sortedRoutes_def Let_def split: prod.splits)
  then show ?thesis using r(2) by (cases r) auto
qed

lemma post_route: "foundRoute verb url = Some PostBroadcast \<Longrightarrow> verb = ''POST''"
  by (drule foundRoute_member) (auto simp: routes_def v1Routes_def)

lemma broadcast_handler:
  "fst (handleBroadcastTransaction E hash send polls parse parse_payload m r) = [] \<or>
   (\<exists>p tx. forwardable E hash (m_state m) p tx \<and>
      handleBroadcastTransaction E hash send polls parse parse_payload m r =
        ([Broadcast p], if send p \<and> waitForUnsigned polls tx then respond 200 (Broadcasted tx) else respond 429 (Err BroadcastError)))"
proof -
  define B where "B p = (case broadcastTransaction E hash send polls m p of
       (effects, Inl e) \<Rightarrow> (effects, respond (fst (broadcast_error e)) (Err (snd (broadcast_error e))))
     | (effects, Inr tx) \<Rightarrow> (effects, respond 200 (Broadcasted tx)))" for p
  define P where "P x \<longleftrightarrow> fst x = [] \<or> (\<exists>p tx. forwardable E hash (m_state m) p tx \<and>
      x = ([Broadcast p], if send p \<and> waitForUnsigned polls tx then respond 200 (Broadcasted tx) else respond 429 (Err BroadcastError)))" for x
  have B: "P (B p)" if sane: "sanitizeTransferPayload d = Inr p" for d p
  proof (cases "fst (broadcastTransaction E hash send polls m p) = []")
    case True
    then show ?thesis by (auto simp: P_def B_def split: prod.splits sum.splits)
  next
    case False
    then obtain tx where tx: "forwardable E hash (m_state m) p tx" "broadcastTransaction E hash send polls m p =
        ([Broadcast p], if send p \<and> waitForUnsigned polls tx then Inr tx else Inl BroadcastFailed)"
      using broadcast_forwards [OF sanitized_type [OF sane], of E hash send polls m] by blast
    then have "B p = ([Broadcast p], if send p \<and> waitForUnsigned polls tx then respond 200 (Broadcasted tx) else respond 429 (Err BroadcastError))"
      by (simp add: B_def)
    then show ?thesis using tx(1) unfolding P_def by blast
  qed
  have none: "P ([], x)" for x by (simp add: P_def)
  have "P (handleBroadcastTransaction E hash send polls parse parse_payload m r)"
    unfolding handleBroadcastTransaction_def Let_def B_def [symmetric]
    by (auto simp: chain_Inr none split: option.split sum.split if_split dest: B)
  then show ?thesis by (simp add: P_def)
qed

text \<open>What a request makes the node do.\<close>

lemma server_sends:
  assumes "createServer E hash wr sv r = (effects, code, body)" "effects \<noteq> []"
  shows "rq_method r = ''POST'' \<and> foundRoute (rq_method r) (rq_url r) = Some PostBroadcast \<and> (\<exists>p tx. effects = [Broadcast p] \<and> forwardable E hash (m_state (sv_msb sv)) p tx \<and>
    (code, body) = (if sv_send sv p \<and> waitForUnsigned (sv_polls sv) tx then (200, Broadcasted tx) else (429, Err BroadcastError)))"
proof -
  obtain e where e: "foundRoute (rq_method r) (rq_url r) = Some e" and h: "fst (handler E hash wr sv r e) \<noteq> []"
    and c: "(effects, code, body) = (case handler E hash wr sv r e of
             (effects, None) \<Rightarrow> (effects, 500, Err ProcessingError) | (effects, Some answer) \<Rightarrow> (effects, answer))"
    using assms by (auto simp: createServer_def split: if_splits option.splits prod.splits)
  have "e = PostBroadcast" using h by (cases e) (auto simp: handler_def Let_def)
  then show ?thesis
    using e c h post_route broadcast_handler [of E hash "sv_send sv" "sv_polls sv" "sv_parse sv" "sv_parse_payload sv" "sv_msb sv" r]
    by (auto simp: handler_def Let_def respond_def split: if_splits)
qed

end
