(* ===== verification/Configuration.thy ===== *)
theory Configuration
  imports Decimals Network_Messages
begin

text \<open>
  The configuration of a node, \<open>src/config\<close>: the values of the three environments, the options that override them (\<open>config.js\<close>, one
  definition for each getter), and the arguments of the command line they come from (\<open>args.js\<close>). Constants of trac-wallet and
  trac-crypto-api are the record \<open>constants\<close>. Options and environments are lists of properties, which are strings where a path is read.
\<close>

section \<open>Settings\<close>

datatype setting = SUndefined | SNull | SBool bool | SNum int | SNaN | SInfinity | SStr string | SBuf buffer | SArr "setting list"

type_synonym settings = "(string \<times> setting) list"

definition setting_of :: "settings \<Rightarrow> string \<Rightarrow> setting" where
  "setting_of ps k = (case map_of ps k of None \<Rightarrow> SUndefined | Some v \<Rightarrow> v)"

definition isDefined :: "setting \<Rightarrow> bool" where
  "isDefined v \<longleftrightarrow> \<not> (v = SUndefined \<or> v = SNull) \<and> \<not> v = SNaN"

fun is_true :: "setting \<Rightarrow> bool" where
  "is_true SUndefined \<longleftrightarrow> False"
| "is_true SNull \<longleftrightarrow> False"
| "is_true SNaN \<longleftrightarrow> False"
| "is_true (SBool b) \<longleftrightarrow> b"
| "is_true (SNum n) \<longleftrightarrow> n \<noteq> 0"
| "is_true (SStr s) \<longleftrightarrow> s \<noteq> []"
| "is_true _ \<longleftrightarrow> True"

fun text_of :: "setting \<Rightarrow> string" where
  "text_of (SStr s) = s"
| "text_of _ = []"

section \<open>What an option may be\<close>

datatype config_error =
    ChannelRequired | NotNonEmptyString string | PortRange | NotBootstrap | NotChannel | ChannelLength | NotDhtBootstrap
  | BlankDhtEntry | NotConvertible | RequiresValue string | NotNetwork

fun validateStringOverride :: "string \<Rightarrow> setting \<Rightarrow> config_error + unit" where
  "validateStringOverride field (SStr s) = (if length (trim s) = 0 then Inl (NotNonEmptyString field) else Inr ())"
| "validateStringOverride field _ = Inl (NotNonEmptyString field)"

fun validatePortOverride :: "setting \<Rightarrow> config_error + unit" where
  "validatePortOverride (SNum port) = (if port < 1 \<or> port > 65535 then Inl PortRange else Inr ())"
| "validatePortOverride _ = Inl PortRange"

fun validateBootstrapOverride :: "setting \<Rightarrow> config_error + unit" where
  "validateBootstrapOverride (SBuf b) = (if length b \<noteq> 32 then Inl NotBootstrap else Inr ())"
| "validateBootstrapOverride (SStr s) = (if length s = 64 \<and> list_all (\<lambda>c. hex_value c \<noteq> None) s then Inr () else Inl NotBootstrap)"
| "validateBootstrapOverride _ = Inl NotBootstrap"

definition channel_length :: "nat \<Rightarrow> config_error + unit" where
  "channel_length n = (if n = 0 \<or> n > 32 then Inl ChannelLength else Inr ())"

fun validateChannelOverride :: "setting \<Rightarrow> config_error + unit" where
  "validateChannelOverride (SStr s) = channel_length (length (utf8 s))"
| "validateChannelOverride (SBuf b) = channel_length (length b)"
| "validateChannelOverride _ = Inl NotChannel"

fun validateDhtBootstrapOverride :: "setting \<Rightarrow> config_error + unit" where
  "validateDhtBootstrapOverride (SArr entries) =
     (if entries = [] then Inl NotDhtBootstrap
      else if list_ex (\<lambda>entry. case entry of SStr s \<Rightarrow> length (trim s) = 0 | _ \<Rightarrow> True) entries then Inl BlankDhtEntry
      else Inr ())"
| "validateDhtBootstrapOverride _ = Inl NotDhtBootstrap"

definition if_defined :: "setting \<Rightarrow> (setting \<Rightarrow> config_error + unit) \<Rightarrow> config_error + unit" where
  "if_defined v validates = (if isDefined v then validates v else Inr ())"

definition validate_config :: "settings \<Rightarrow> settings \<Rightarrow> config_error + unit" where
  "validate_config options config =
     (if \<not> is_true (setting_of options ''channel'') \<and> \<not> is_true (setting_of config ''channel'') then Inl ChannelRequired
      else chain (if_defined (setting_of options ''bootstrap'') validateBootstrapOverride) (\<lambda>_.
           chain (if_defined (setting_of options ''channel'') validateChannelOverride) (\<lambda>_.
           chain (if_defined (setting_of options ''storesDirectory'') (validateStringOverride ''storesDirectory'')) (\<lambda>_.
           chain (if_defined (setting_of options ''host'') (validateStringOverride ''host'')) (\<lambda>_.
           chain (if_defined (setting_of options ''port'') validatePortOverride) (\<lambda>_.
             if_defined (setting_of options ''dhtBootstrap'') validateDhtBootstrapOverride))))))"

section \<open>The configuration\<close>

record config =
  cf_options :: settings
  cf_config :: settings
  cf_bootstrap :: buffer
  cf_channel :: buffer

fun normalizeBootstrap :: "setting \<Rightarrow> config_error + buffer" where
  "normalizeBootstrap (SBuf b) = Inr b"
| "normalizeBootstrap (SStr s) = Inr (from_hex s)"
| "normalizeBootstrap _ = Inl NotConvertible"

text \<open>\<open>fill\<close> repeats its argument.\<close>

definition fill :: "nat \<Rightarrow> buffer \<Rightarrow> buffer" where
  "fill n b = (if b = [] then replicate n 0 else take n (concat (replicate n b)))"

fun normalizeChannel :: "setting \<Rightarrow> config_error + buffer" where
  "normalizeChannel (SStr s) = Inr (fill 32 (utf8 s))"
| "normalizeChannel (SBuf b) = Inr (fill 32 b)"
| "normalizeChannel _ = Inl NotConvertible"

definition new_config :: "settings \<Rightarrow> settings \<Rightarrow> config_error + config" where
  "new_config options config =
     (let given = (\<lambda>k. if isDefined (setting_of options k) then setting_of options k else setting_of config k)
      in chain (validate_config options config) (\<lambda>_.
         chain (normalizeBootstrap (given ''bootstrap'')) (\<lambda>b.
         chain (normalizeChannel (given ''channel'')) (\<lambda>ch.
           Inr \<lparr>cf_options = options, cf_config = config, cf_bootstrap = b, cf_channel = ch\<rparr>))))"

definition isOverriden :: "config \<Rightarrow> string \<Rightarrow> bool" where
  "isOverriden c k \<longleftrightarrow> map_of (cf_options c) k \<noteq> None \<and> isDefined (setting_of (cf_options c) k)"

text \<open>The three forms of a getter that an option may override.\<close>

definition overridable :: "config \<Rightarrow> string \<Rightarrow> setting" where
  "overridable c k = (if isOverriden c k then setting_of (cf_options c) k else setting_of (cf_config c) k)"

definition override_flag :: "config \<Rightarrow> string \<Rightarrow> bool" where
  "override_flag c k = (if isOverriden c k then is_true (setting_of (cf_options c) k) else is_true (setting_of (cf_config c) k))"

definition flag_unless_false :: "config \<Rightarrow> string \<Rightarrow> bool" where
  "flag_unless_false c k = (if isOverriden c k then setting_of (cf_options c) k \<noteq> SBool False else is_true (setting_of (cf_config c) k))"

definition trimEnd :: "char \<Rightarrow> string \<Rightarrow> string" where
  "trimEnd c s = rev (dropWhile (\<lambda>x. x = c) (rev s))"

definition endsWith :: "string \<Rightarrow> string \<Rightarrow> bool" where
  "endsWith s e \<longleftrightarrow> length e \<le> length s \<and> drop (length s - length e) s = e"

section \<open>The getters\<close>

definition get_addressLength :: "config \<Rightarrow> setting" where
  "get_addressLength c = setting_of (cf_config c) ''addressLength''"

definition get_addressPrefix :: "config \<Rightarrow> setting" where
  "get_addressPrefix c = setting_of (cf_config c) ''addressPrefix''"

definition get_addressPrefixLength :: "config \<Rightarrow> nat" where
  "get_addressPrefixLength c = length (text_of (get_addressPrefix c))"

definition get_bech32mHrpLength :: "config \<Rightarrow> setting" where
  "get_bech32mHrpLength c = setting_of (cf_config c) ''bech32mHrpLength''"

definition get_bootstrap :: "config \<Rightarrow> buffer" where
  "get_bootstrap c = cf_bootstrap c"

definition get_channel :: "config \<Rightarrow> buffer" where
  "get_channel c = cf_channel c"

definition get_dhtBootstrap :: "config \<Rightarrow> setting" where
  "get_dhtBootstrap c = overridable c ''dhtBootstrap''"

definition get_disableRateLimit :: "config \<Rightarrow> bool" where
  "get_disableRateLimit c = override_flag c ''disableRateLimit''"

definition get_enableErrorApplyLogs :: "config \<Rightarrow> bool" where
  "get_enableErrorApplyLogs c = override_flag c ''enableErrorApplyLogs''"

definition get_enableInteractiveMode :: "config \<Rightarrow> bool" where
  "get_enableInteractiveMode c = flag_unless_false c ''enableInteractiveMode''"

definition get_enableRoleRequester :: "config \<Rightarrow> bool" where
  "get_enableRoleRequester c = override_flag c ''enableRoleRequester''"

definition get_enableValidatorObserver :: "config \<Rightarrow> bool" where
  "get_enableValidatorObserver c = override_flag c ''enableValidatorObserver''"

definition get_enableTxApplyLogs :: "config \<Rightarrow> bool" where
  "get_enableTxApplyLogs c = override_flag c ''enableTxApplyLogs''"

definition get_enableWallet :: "config \<Rightarrow> bool" where
  "get_enableWallet c = flag_unless_false c ''enableWallet''"

definition get_maxRetries :: "config \<Rightarrow> setting" where
  "get_maxRetries c = overridable c ''maxRetries''"

definition get_maxValidators :: "config \<Rightarrow> setting" where
  "get_maxValidators c = overridable c ''maxValidators''"

definition get_maxPeers :: "config \<Rightarrow> setting" where
  "get_maxPeers c = overridable c ''maxPeers''"

definition get_maxParallel :: "config \<Rightarrow> setting" where
  "get_maxParallel c = overridable c ''maxParallel''"

definition get_maxServerConnections :: "config \<Rightarrow> setting" where
  "get_maxServerConnections c = overridable c ''maxServerConnections''"

definition get_maxClientConnections :: "config \<Rightarrow> setting" where
  "get_maxClientConnections c = overridable c ''maxClientConnections''"

definition get_maxWritersForAdminIndexerConnection :: "config \<Rightarrow> setting" where
  "get_maxWritersForAdminIndexerConnection c = overridable c ''maxWritersForAdminIndexerConnection''"

definition get_processIntervalMs :: "config \<Rightarrow> setting" where
  "get_processIntervalMs c = overridable c ''processIntervalMs''"

definition get_transactionPoolSize :: "config \<Rightarrow> setting" where
  "get_transactionPoolSize c = overridable c ''transactionPoolSize''"

definition get_networkId :: "config \<Rightarrow> setting" where
  "get_networkId c = setting_of (cf_config c) ''networkId''"

definition get_host :: "config \<Rightarrow> setting" where
  "get_host c = overridable c ''host''"

definition get_port :: "config \<Rightarrow> setting" where
  "get_port c = overridable c ''port''"

definition get_storesDirectory :: "config \<Rightarrow> string" where
  "get_storesDirectory c = trimEnd (CHR ''/'') (text_of (overridable c ''storesDirectory''))"

definition get_storeName :: "config \<Rightarrow> setting" where
  "get_storeName c = setting_of (cf_config c) ''storeName''"

definition get_storesFullPath :: "config \<Rightarrow> string" where
  "get_storesFullPath c = get_storesDirectory c @ ''/'' @ text_of (get_storeName c)"

definition get_messageThreshold :: "config \<Rightarrow> setting" where
  "get_messageThreshold c = setting_of (cf_config c) ''messageThreshold''"

definition get_messageValidatorRetryDelay :: "config \<Rightarrow> setting" where
  "get_messageValidatorRetryDelay c = setting_of (cf_config c) ''messageValidatorRetryDelay''"

definition get_messageValidatorResponseTimeout :: "config \<Rightarrow> setting" where
  "get_messageValidatorResponseTimeout c = setting_of (cf_config c) ''messageValidatorResponseTimeout''"

definition get_rateLimitCleanupIntervalMs :: "config \<Rightarrow> setting" where
  "get_rateLimitCleanupIntervalMs c = overridable c ''rateLimitCleanupIntervalMs''"

definition get_rateLimitConnectionTimeoutMs :: "config \<Rightarrow> setting" where
  "get_rateLimitConnectionTimeoutMs c = overridable c ''rateLimitConnectionTimeoutMs''"

definition get_rateLimitMaxTransactionsPerSecond :: "config \<Rightarrow> setting" where
  "get_rateLimitMaxTransactionsPerSecond c = overridable c ''rateLimitMaxTransactionsPerSecond''"

definition get_pendingRequestTimeout :: "config \<Rightarrow> setting" where
  "get_pendingRequestTimeout c = setting_of (cf_config c) ''pendingRequestTimeout''"

definition get_txCommitTimeout :: "config \<Rightarrow> setting" where
  "get_txCommitTimeout c = setting_of (cf_config c) ''txCommitTimeout''"

definition get_txPoolSize :: "config \<Rightarrow> setting" where
  "get_txPoolSize c = setting_of (cf_config c) ''txPoolSize''"

definition get_validatorHealthCheckInterval :: "config \<Rightarrow> setting" where
  "get_validatorHealthCheckInterval c = overridable c ''validatorHealthCheckInterval''"

definition get_maxPendingRequestsInPendingRequestsService :: "config \<Rightarrow> setting" where
  "get_maxPendingRequestsInPendingRequestsService c = setting_of (cf_config c) ''maxPendingRequestsInPendingRequestsService''"

definition get_debug :: "config \<Rightarrow> setting" where
  "get_debug c = setting_of (cf_config c) ''debug''"

definition get_derivationPath :: "config \<Rightarrow> setting" where
  "get_derivationPath c = setting_of (cf_config c) ''derivationPath''"

definition get_pollInterval :: "config \<Rightarrow> setting" where
  "get_pollInterval c = overridable c ''pollInterval''"

definition get_adminCacheTTL :: "config \<Rightarrow> setting" where
  "get_adminCacheTTL c = overridable c ''adminCacheTTL''"

definition get_bootstrapTimeout :: "config \<Rightarrow> setting" where
  "get_bootstrapTimeout c = overridable c ''bootstrapTimeout''"

definition get_writersShortCacheTTL :: "config \<Rightarrow> setting" where
  "get_writersShortCacheTTL c = overridable c ''writersShortCacheTTL''"

definition get_writersLongCacheTTL :: "config \<Rightarrow> setting" where
  "get_writersLongCacheTTL c = overridable c ''writersLongCacheTTL''"

definition get_validatorConnectionAttemptDelay :: "config \<Rightarrow> setting" where
  "get_validatorConnectionAttemptDelay c = overridable c ''validatorConnectionAttemptDelay''"

definition get_isAdminMode :: "config \<Rightarrow> bool" where
  "get_isAdminMode c = endsWith (get_storesDirectory c) ''/admin''"

definition get_keyPairDirectoryPath :: "config \<Rightarrow> string" where
  "get_keyPairDirectoryPath c = get_storesFullPath c @ ''/db''"

definition get_keyPairPath :: "config \<Rightarrow> string" where
  "get_keyPairPath c = get_keyPairDirectoryPath c @ ''/keypair.json''"

section \<open>The environments\<close>

record constants =
  prefix_mainnet :: string
  prefix_testnet1 :: string
  id_mainnet :: int
  id_testnet :: int
  path_mainnet :: setting
  path_testnet :: setting

datatype environment = TESTNET1 | MAINNET | DEVELOPMENT

fun configData :: "constants \<Rightarrow> environment \<Rightarrow> settings" where
  "configData K TESTNET1 =
     [(''debug'', SBool False), (''addressLength'', SNum 67), (''addressPrefix'', SStr (prefix_testnet1 K)),
      (''addressPrefixLength'', SNum (int (length (prefix_testnet1 K)))), (''bech32mHrpLength'', SNum (int (length (prefix_testnet1 K)) + 1)),
      (''bootstrap'', SStr ''c184f4ad8e9cf5e911f9415b60e7dcfb30aed73ebd8a402ef68e1b154624f5ef''),
      (''channel'', SStr ''1111trac1network1msb1testnet1111''),
      (''dhtBootstrap'', SArr [SStr ''116.202.214.149:10001'', SStr ''157.180.12.214:10001'', SStr ''node1.hyperdht.org:49737'', SStr ''node2.hyperdht.org:49737'', SStr ''node3.hyperdht.org:49737'']),
      (''derivationPath'', path_testnet K), (''enableValidatorObserver'', SBool True), (''pollInterval'', SNum 500), (''adminCacheTTL'', SNum 10000),
      (''validatorConnectionAttemptDelay'', SNum 5), (''bootstrapTimeout'', SNum 60000), (''writersShortCacheTTL'', SNum 10000),
      (''writersLongCacheTTL'', SNum 120000), (''maxValidators'', SNum 50), (''maxWritersForAdminIndexerConnection'', SNum 10),
      (''disableRateLimit'', SBool False), (''enableErrorApplyLogs'', SBool True), (''enableInteractiveMode'', SBool True),
      (''enableRoleRequester'', SBool False), (''enableTxApplyLogs'', SBool True), (''enableWallet'', SBool True), (''maxRetries'', SNum 3),
      (''messageThreshold'', SNum 3), (''messageValidatorRetryDelay'', SNum 1000), (''messageValidatorResponseTimeout'', SNum (3 * 3 * 1000)),
      (''host'', SStr ''localhost''), (''port'', SNum 5000), (''networkId'', SNum (id_testnet K)), (''maxPeers'', SNum 64),
      (''maxParallel'', SNum 64), (''maxServerConnections'', SInfinity), (''maxClientConnections'', SInfinity), (''processIntervalMs'', SNum 50),
      (''transactionPoolSize'', SNum 1000), (''rateLimitCleanupIntervalMs'', SNum 120000), (''rateLimitConnectionTimeoutMs'', SNum 60000),
      (''rateLimitMaxTransactionsPerSecond'', SNum 50), (''maxPendingRequestsInPendingRequestsService'', SNum 50000),
      (''pendingRequestTimeout'', SNum 3000), (''txCommitTimeout'', SNum 2200), (''txPoolSize'', SNum 1000),
      (''validatorHealthCheckInterval'', SNum (5 * 60 * 1000)), (''storesDirectory'', SStr ''stores/''), (''storeName'', SStr ''testnet'')]"
| "configData K MAINNET =
     [(''debug'', SBool False), (''addressLength'', SNum 63), (''addressPrefix'', SStr (prefix_mainnet K)),
      (''addressPrefixLength'', SNum (int (length (prefix_mainnet K)))), (''bech32mHrpLength'', SNum (int (length (prefix_mainnet K)) + 1)),
      (''bootstrap'', SStr ''acbc3a4344d3a804101d40e53db1dda82b767646425af73599d4cd6577d69685''),
      (''channel'', SStr ''0000trac0network0msb0mainnet0000''),
      (''dhtBootstrap'', SArr [SStr ''116.202.214.149:10001'', SStr ''157.180.12.214:10001'', SStr ''node1.hyperdht.org:49737'', SStr ''node2.hyperdht.org:49737'', SStr ''node3.hyperdht.org:49737'']),
      (''derivationPath'', path_mainnet K), (''enableValidatorObserver'', SBool True), (''pollInterval'', SNum 500),
      (''adminCacheTTL'', SNum 3600000), (''validatorConnectionAttemptDelay'', SNum 5), (''bootstrapTimeout'', SNum 120000),
      (''writersShortCacheTTL'', SNum 2000), (''writersLongCacheTTL'', SNum 120000), (''maxValidators'', SNum 50),
      (''maxWritersForAdminIndexerConnection'', SNum 10), (''disableRateLimit'', SBool False), (''enableErrorApplyLogs'', SBool False),
      (''enableInteractiveMode'', SBool True), (''enableRoleRequester'', SBool False), (''enableTxApplyLogs'', SBool False),
      (''enableWallet'', SBool True), (''maxRetries'', SNum 3), (''messageThreshold'', SNum 3), (''messageValidatorRetryDelay'', SNum 1000),
      (''messageValidatorResponseTimeout'', SNum (3 * 3 * 1000)), (''host'', SStr ''localhost''), (''port'', SNum 5000),
      (''networkId'', SNum (id_mainnet K)), (''maxPeers'', SNum 64), (''maxParallel'', SNum 64), (''maxServerConnections'', SInfinity),
      (''maxClientConnections'', SInfinity), (''processIntervalMs'', SNum 50), (''transactionPoolSize'', SNum 1000),
      (''rateLimitCleanupIntervalMs'', SNum 120000), (''rateLimitConnectionTimeoutMs'', SNum 60000),
      (''rateLimitMaxTransactionsPerSecond'', SNum 50), (''maxPendingRequestsInPendingRequestsService'', SNum 50000),
      (''pendingRequestTimeout'', SNum 3000), (''txCommitTimeout'', SNum 2200), (''txPoolSize'', SNum 1000),
      (''validatorHealthCheckInterval'', SNum (5 * 60 * 1000)), (''storesDirectory'', SStr ''stores/''), (''storeName'', SStr ''mainnet'')]"
| "configData K DEVELOPMENT =
     [(''debug'', SBool False), (''addressLength'', SNum 63), (''addressPrefix'', SStr (prefix_mainnet K)),
      (''addressPrefixLength'', SNum (int (length (prefix_mainnet K)))), (''bech32mHrpLength'', SNum (int (length (prefix_mainnet K)) + 1)),
      (''bootstrap'', SStr ''12f7f1668eac2e691e17cbc6a53e509c5cee78cdcac562313091c64e5fd077d6''), (''channel'', SStr ''12312313123123''),
      (''dhtBootstrap'', SArr [SStr ''116.202.214.149:10001'', SStr ''157.180.12.214:10001'', SStr ''node1.hyperdht.org:49737'', SStr ''node2.hyperdht.org:49737'', SStr ''node3.hyperdht.org:49737'']),
      (''derivationPath'', path_mainnet K), (''enableValidatorObserver'', SBool True), (''pollInterval'', SNum 500), (''adminCacheTTL'', SNum 60000),
      (''validatorConnectionAttemptDelay'', SNum 5), (''bootstrapTimeout'', SNum 30000), (''writersShortCacheTTL'', SNum 1000),
      (''writersLongCacheTTL'', SNum 2000), (''maxValidators'', SNum 10), (''maxWritersForAdminIndexerConnection'', SNum 10),
      (''disableRateLimit'', SBool False), (''enableErrorApplyLogs'', SBool True), (''enableInteractiveMode'', SBool True),
      (''enableRoleRequester'', SBool False), (''enableTxApplyLogs'', SBool True), (''enableWallet'', SBool True), (''maxRetries'', SNum 3),
      (''messageThreshold'', SNum 1000), (''messageValidatorRetryDelay'', SNum 1000), (''messageValidatorResponseTimeout'', SNum (3 * 3 * 1000)),
      (''host'', SStr ''localhost''), (''port'', SNum 5000), (''networkId'', SNum (id_mainnet K)), (''maxPeers'', SNum 64),
      (''maxParallel'', SNum 64), (''maxServerConnections'', SInfinity), (''maxClientConnections'', SInfinity), (''processIntervalMs'', SNum 50),
      (''transactionPoolSize'', SNum 1000), (''rateLimitCleanupIntervalMs'', SNum 120000), (''rateLimitConnectionTimeoutMs'', SNum 60000),
      (''rateLimitMaxTransactionsPerSecond'', SNum 50), (''maxPendingRequestsInPendingRequestsService'', SNum 50000),
      (''pendingRequestTimeout'', SNum 3000), (''txCommitTimeout'', SNum 2200), (''txPoolSize'', SNum 1000),
      (''validatorHealthCheckInterval'', SNum 1000), (''storesDirectory'', SStr ''stores/''), (''storeName'', SStr ''development'')]"

definition createConfig :: "constants \<Rightarrow> environment \<Rightarrow> settings \<Rightarrow> config_error + config" where
  "createConfig K environment options = new_config options (configData K environment)"

section \<open>The arguments\<close>

text \<open>The arguments of the Pear application where there is one, or those of the process behind its first two.\<close>

definition getArguments :: "string list option \<Rightarrow> string list \<Rightarrow> string list" where
  "getArguments pear argv = (case pear of Some args \<Rightarrow> args | None \<Rightarrow> drop 2 argv)"

definition getOptionValue :: "string list \<Rightarrow> string \<Rightarrow> config_error + string option" where
  "getOptionValue args flag =
     (case dropWhile (\<lambda>a. a \<noteq> flag) args of
        [] \<Rightarrow> Inr None
      | [_] \<Rightarrow> Inl (RequiresValue flag)
      | _ # value # _ \<Rightarrow> if startsWith value ''--'' then Inl (RequiresValue flag) else Inr (Some value))"

definition parseNonEmptyStringOption :: "string list \<Rightarrow> string \<Rightarrow> config_error + string option" where
  "parseNonEmptyStringOption args flag =
     chain (getOptionValue args flag) (\<lambda>value. case value of
       None \<Rightarrow> Inr None
     | Some s \<Rightarrow> if length (trim s) = 0 then Inl (NotNonEmptyString flag) else Inr (Some s))"

definition parsePortOption :: "string list \<Rightarrow> config_error + int option" where
  "parsePortOption args =
     chain (getOptionValue args ''--port'') (\<lambda>value. case value of
       None \<Rightarrow> Inr None
     | Some s \<Rightarrow>
         if s = [] \<or> \<not> list_all is_digit s then Inl PortRange
         else let port = int (digits_value s) in if port < 1 \<or> port > 65535 then Inl PortRange else Inr (Some port))"

definition resolveEnvironment :: "string list \<Rightarrow> config_error + environment" where
  "resolveEnvironment args =
     chain (getOptionValue args ''--network'') (\<lambda>network. case network of
       None \<Rightarrow> Inr MAINNET
     | Some n \<Rightarrow>
         if n = ''mainnet'' then Inr MAINNET
         else if n = ''development'' then Inr DEVELOPMENT
         else if n = ''testnet1'' \<or> n = ''testnet'' then Inr TESTNET1
         else Inl NotNetwork)"

definition isRpcEnabled :: "string list \<Rightarrow> bool" where
  "isRpcEnabled args \<longleftrightarrow> List.member args ''--rpc''"

definition given_text :: "string option \<Rightarrow> setting" where
  "given_text v = (case v of None \<Rightarrow> SUndefined | Some s \<Rightarrow> SStr s)"

definition resolveConfig :: "constants \<Rightarrow> string list \<Rightarrow> config_error + config" where
  "resolveConfig K args =
     (let runRpc = isRpcEnabled args
      in chain (resolveEnvironment args) (\<lambda>selectedEnv.
         chain (parseNonEmptyStringOption args ''--stores-directory'') (\<lambda>storesDirectory.
         chain (if runRpc then parseNonEmptyStringOption args ''--host'' else Inr None) (\<lambda>host.
         chain (if runRpc then parsePortOption args else Inr None) (\<lambda>port.
           let rpc = [(''storesDirectory'', given_text storesDirectory), (''enableWallet'', SBool False), (''enableInteractiveMode'', SBool False),
                 (''host'', given_text host), (''port'', case port of None \<Rightarrow> SUndefined | Some p \<Rightarrow> SNum p)];
               options = (if runRpc then rpc else [(''storesDirectory'', given_text storesDirectory)])
           in createConfig K selectedEnv options)))))"

section \<open>What the arguments make\<close>

lemma length_fill: "length (fill n b) = n"
proof (cases "b = []")
  case False
  then have "n \<le> n * length b" by (cases b) simp_all
  then show ?thesis using False by (simp add: fill_def length_concat sum_list_replicate)
qed (simp add: fill_def)

lemmas setting_simps = setting_of_def overridable_def isOverriden_def override_flag_def flag_unless_false_def

text \<open>What the environments have in common.\<close>

lemma environment_settings:
  "\<exists>s. setting_of (configData K env) ''bootstrap'' = SStr s \<and> length (from_hex s) = 32"
  "\<exists>s. setting_of (configData K env) ''channel'' = SStr s \<and> s \<noteq> []"
  "setting_of (configData K env) ''port'' = SNum 5000" "setting_of (configData K env) ''host'' = SStr ''localhost''"
  "is_true (setting_of (configData K env) ''enableWallet'')" "is_true (setting_of (configData K env) ''enableInteractiveMode'')"
proof -
  have b: "length (from_hex ''c184f4ad8e9cf5e911f9415b60e7dcfb30aed73ebd8a402ef68e1b154624f5ef'') = 32"
    "length (from_hex ''acbc3a4344d3a804101d40e53db1dda82b767646425af73599d4cd6577d69685'') = 32"
    "length (from_hex ''12f7f1668eac2e691e17cbc6a53e509c5cee78cdcac562313091c64e5fd077d6'') = 32"
    by code_simp+
  show "\<exists>s. setting_of (configData K env) ''bootstrap'' = SStr s \<and> length (from_hex s) = 32"
    using b by (cases env) (simp_all add: setting_of_def del: from_hex.simps)
  show "\<exists>s. setting_of (configData K env) ''channel'' = SStr s \<and> s \<noteq> []"
    "setting_of (configData K env) ''port'' = SNum 5000" "setting_of (configData K env) ''host'' = SStr ''localhost''"
    "is_true (setting_of (configData K env) ''enableWallet'')" "is_true (setting_of (configData K env) ''enableInteractiveMode'')"
    by (cases env, simp_all add: setting_of_def)+
qed

lemma parsed_text: "parseNonEmptyStringOption args f = Inr (Some s) \<Longrightarrow> trim s \<noteq> []"
  by (auto simp: parseNonEmptyStringOption_def chain_Inr split: option.splits if_splits)

lemma parsed_port: "parsePortOption args = Inr (Some p) \<Longrightarrow> 1 \<le> p \<and> p \<le> 65535"
  by (auto simp: parsePortOption_def chain_Inr Let_def split: option.splits if_splits)

text \<open>Whatever the arguments give passes the checks of the configuration.\<close>

definition options_of :: "bool \<Rightarrow> string option \<Rightarrow> string option \<Rightarrow> int option \<Rightarrow> settings" where
  "options_of runRpc storesDirectory host port =
     (if runRpc then [(''storesDirectory'', given_text storesDirectory), (''enableWallet'', SBool False), (''enableInteractiveMode'', SBool False),
        (''host'', given_text host), (''port'', case port of None \<Rightarrow> SUndefined | Some p \<Rightarrow> SNum p)]
      else [(''storesDirectory'', given_text storesDirectory)])"

lemma options_accepted:
  assumes "\<forall>t \<in> set_option sd \<union> set_option h. trim t \<noteq> []" "\<forall>x \<in> set_option p. 1 \<le> x \<and> x \<le> 65535"
  shows "\<exists>b ch. createConfig K env (options_of runRpc sd h p) =
      Inr \<lparr>cf_options = options_of runRpc sd h p, cf_config = configData K env, cf_bootstrap = b, cf_channel = ch\<rparr> \<and>
    length b = 32 \<and> length ch = 32 \<and> b = from_hex (text_of (setting_of (configData K env) ''bootstrap'')) \<and>
    ch = fill 32 (utf8 (text_of (setting_of (configData K env) ''channel'')))"
proof -
  obtain bs cs where e: "setting_of (configData K env) ''bootstrap'' = SStr bs" "length (from_hex bs) = 32"
    "setting_of (configData K env) ''channel'' = SStr cs" "cs \<noteq> []"
    using environment_settings(1,2) [of K env] by blast
  have o: "setting_of (options_of runRpc sd h p) ''bootstrap'' = SUndefined" "setting_of (options_of runRpc sd h p) ''channel'' = SUndefined"
    "setting_of (options_of runRpc sd h p) ''dhtBootstrap'' = SUndefined" "setting_of (options_of runRpc sd h p) ''storesDirectory'' = given_text sd"
    "setting_of (options_of runRpc sd h p) ''host'' = (if runRpc then given_text h else SUndefined)"
    "setting_of (options_of runRpc sd h p) ''port'' = (if runRpc then (case p of None \<Rightarrow> SUndefined | Some p \<Rightarrow> SNum p) else SUndefined)"
    by (simp_all add: options_of_def setting_of_def)
  have "if_defined (given_text t) (validateStringOverride f) = Inr ()" if "\<forall>s \<in> set_option t. trim s \<noteq> []" for t f
    using that by (cases t) (simp_all add: if_defined_def given_text_def isDefined_def)
  moreover have "if_defined (case p of None \<Rightarrow> SUndefined | Some p \<Rightarrow> SNum p) validatePortOverride = Inr ()"
    using assms(2) by (cases p) (simp_all add: if_defined_def isDefined_def)
  ultimately have "validate_config (options_of runRpc sd h p) (configData K env) = Inr ()"
    using assms(1) e(4) by (simp add: validate_config_def o e(3) if_defined_def [of SUndefined] isDefined_def)
  then show ?thesis
    using e(2) by (simp add: createConfig_def new_config_def Let_def o e(1,3) isDefined_def length_fill)
qed

lemma getOptionValue_Inl: "getOptionValue args f = Inl e \<Longrightarrow> e = RequiresValue f"
  by (auto simp: getOptionValue_def split: list.splits if_splits)

lemma option_errors:
  "parseNonEmptyStringOption args f = Inl e \<Longrightarrow> e \<in> range NotNonEmptyString \<union> range RequiresValue"
  by (cases "getOptionValue args f"; auto simp: parseNonEmptyStringOption_def dest: getOptionValue_Inl split: option.splits if_splits)

lemma port_errors: "parsePortOption args = Inl e \<Longrightarrow> e \<in> {PortRange} \<union> range RequiresValue"
  by (cases "getOptionValue args ''--port''"; auto simp: parsePortOption_def Let_def dest: getOptionValue_Inl split: option.splits if_splits)

lemma network_errors: "resolveEnvironment args = Inl e \<Longrightarrow> e \<in> {NotNetwork} \<union> range RequiresValue"
  by (cases "getOptionValue args ''--network''"; auto simp: resolveEnvironment_def dest: getOptionValue_Inl split: option.splits if_splits)

lemma resolveConfig_cases:
  obtains e where "resolveConfig K args = Inl e" "e \<in> {PortRange, NotNetwork} \<union> range NotNonEmptyString \<union> range RequiresValue"
    | env sd h p where "resolveEnvironment args = Inr env" "parseNonEmptyStringOption args ''--stores-directory'' = Inr sd"
      "if isRpcEnabled args then parseNonEmptyStringOption args ''--host'' = Inr h \<and> parsePortOption args = Inr p else h = None \<and> p = None"
      "\<forall>t \<in> set_option sd \<union> set_option h. trim t \<noteq> []"
      "\<forall>x \<in> set_option p. 1 \<le> x \<and> x \<le> 65535" "resolveConfig K args = createConfig K env (options_of (isRpcEnabled args) sd h p)"
proof -
  let ?env = "resolveEnvironment args" and ?sd = "parseNonEmptyStringOption args ''--stores-directory''"
  let ?h = "if isRpcEnabled args then parseNonEmptyStringOption args ''--host'' else Inr None"
  let ?p = "if isRpcEnabled args then parsePortOption args else Inr None"
  have r: "resolveConfig K args = chain ?env (\<lambda>env. chain ?sd (\<lambda>sd. chain ?h (\<lambda>h. chain ?p (\<lambda>p.
      createConfig K env (options_of (isRpcEnabled args) sd h p)))))"
    by (simp add: resolveConfig_def options_of_def Let_def if_distrib [of "createConfig K _"] cong: if_cong)
  show thesis
  proof (cases "\<exists>env sd h p. ?env = Inr env \<and> ?sd = Inr sd \<and> ?h = Inr h \<and> ?p = Inr p")
    case True
    then obtain env sd h p where a: "?env = Inr env" "?sd = Inr sd" "?h = Inr h" "?p = Inr p" by blast
    then show thesis
      using that(2) [of env sd h p] r parsed_text [of args] parsed_port [of args] by (auto split: if_splits)
  next
    case False
    then obtain e where "resolveConfig K args = Inl e" "?env = Inl e \<or> ?sd = Inl e \<or> ?h = Inl e \<or> ?p = Inl e"
      unfolding r by (cases ?env; cases ?sd; cases ?h; cases ?p) auto
    then show thesis using that(1) [of e] option_errors [of args _ e] port_errors [of args e] network_errors [of args e] by (auto split: if_splits)
  qed
qed

end
