(* ===== verification/Node_Claims.thy ===== *)
theory Node_Claims
  imports Command_Spec Rpc_Spec Configuration Publish_Claims
begin

text \<open>
  Properties of the operations of a node, of its command line, of its interface and of its configuration.
\<close>

section \<open>A node of the concrete network\<close>

definition xnode_b :: msb where
  "xnode_b = \<lparr>m_config = \<lparr>enableWallet = True, enableRoleRequester = False\<rparr>, m_wallet = Some xwallet, m_state = xview\<rparr>"

lemma half_token: "decimalStringToBigInt ''0.5'' = Inr (5 * 10 ^ 17)"
proof -
  have "digits_value (''05'' @ replicate 17 (CHR ''0'')) = 5 * 10 ^ 17"
    using digits_value_simps(3) [of 17 "[]"] digits_value_append [of "''05''" "replicate 17 (CHR ''0'')"]
    by (simp add: digits_value_def)
  then show ?thesis
    by (simp add: decimalStringToBigInt_def trim_def is_space_def decimal_parts_def is_digit_def padEnd_def)
qed

lemma half_token_buffer: "bigIntTo16ByteBuffer 500000000000000000 = amount 500000000000000000"
    "bigint_of (amount 500000000000000000) = Inr 500000000000000000"
  by (simp_all add: amount_def bigint_of_Inr)

lemmas evaluated = applyStateMessageFactory_def new_builder_def xwallet_def directed_def setPhase_def setOutput_def
  setOperationType_def OperationType_values_def setAddress_def setTxValidity_def normalizeAddress_def normalizeHexBuffer_def
  addressToBuffer_def fresh_builder_def build_def assertPhaseAndOutput_def buildPartialBody_def partial_message_def
  partial_body_def type_defs operationToPayload_def Let_def createMessage_simps xhash_wk isUInt32_small getPayload_def

lemma xmessage: "\<exists>payload. applyStateMessageFactory penv xhash (Some xwallet) (xwk 20) (\<lambda>step. buildPartialTransferOperationMessage penv step
      (JStr (acct CHR ''b'')) (JStr (acct CHR ''c'')) (JBuf (amount n)) (JBuf (xwk 65)) (JStr ''json'')) = Inr payload \<and>
    prop_of (prop_of (json_of_built payload) ''tro'') ''tx'' = JStr (to_hex (xwk 95))"
  by (simp add: evaluated buildPartialTransferOperationMessage_def setIncomingAddress_def setAmount_def encodePayloadJson_def
      address_js_def keyed_def payload_of.simps empty_payload_def json_of_built_def addr_def [symmetric])

lemma xprepared: "\<exists>pt. prepareTransferOperation penv xhash (xwk 20) xnode_b (Some (acct CHR ''c'')) (Some ''0.5'') = ([], Inr pt) \<and>
    pt_amount pt = 5 * 10 ^ 17 \<and> prop_of (prop_of (pt_payload pt) ''tro'') ''tx'' = JStr (to_hex (xwk 95)) \<and> shown_amounts pt = Inr ()"
proof -
  have e: "getNodeEntry xview (acct CHR ''b'') = Some (decoded (xentry (xwk 2) WRITER 1000 2))"
    by (simp add: getNodeEntry_def getSigned_def)
  have balance: "bigint_of (ne_balance (decoded (xentry (xwk 2) WRITER 1000 2))) = Inr (10 ^ 18)"
    using xliquid [of "xwk 2" WRITER 1000] by (simp add: bigint_of_def)
  have txv: "getIndexerSequenceState xhash xview = xwk 65"
    by (simp add: getIndexerSequenceState_def xhash_wk)
  obtain payload where payload: "applyStateMessageFactory penv xhash (Some xwallet) (xwk 20) (\<lambda>step. buildPartialTransferOperationMessage penv step
      (JStr (acct CHR ''b'')) (JStr (acct CHR ''c'')) (JBuf (amount 500000000000000000)) (JBuf (xwk 65)) (JStr ''json'')) = Inr payload"
    "prop_of (prop_of (json_of_built payload) ''tro'') ''tx'' = JStr (to_hex (xwk 95))" using xmessage by blast
  have "fee \<le> 500000000000000000" by (simp add: fee_def)
  then show ?thesis using payload
    by (simp add: prepareTransferOperation_def xnode_b_def xwallet_def own_address_def given_def value_of_def amount_arg_def half_token
      half_token_buffer e balance Let_def txv shown_amounts_def fee_def)
qed

section \<open>Properties\<close>

text \<open>C15. The transfer that a node prepares for its user is one that the other validators accept and
  the ledger applies as announced: prepared from what the indexers have signed, it sends nothing yet; what it built, taken back from its JSON by a
  validator that sees the same store, passes every check of that validator, unless the recipient's balance would overflow; and once
  the completed transfer is applied on that store, the balance of the user is the one that was shown before the user confirmed.\<close>

theorem prepared_transfer:
  assumes "prepareTransferOperation E hash nonce m (Some r) a = (effects, Inr pt)"
    and "m_wallet m = Some u" "sound_wallet E hash u" "length (address_decodeSafe E (Some (w_address u))) = 32"
    and "address_size E (addressPrefix E) = Some (addressLength E)" "sized 32 nonce"
    and "ascii_string (ascii_bytes r) = r" "ascii_buffer (ascii_bytes r)" "nonzero (ascii_bytes r)" "address_decodeSafe E (Some r) \<noteq> []"
    and "prop_of (prop_of (pt_payload pt) ''tro'') ''tx'' = JStr (to_hex tx)" "nonzero tx" "ns_view s (to_hex tx) = None"
    and "ns_view s = ns_signed (m_state m)" "ns_indexers s = ns_indexers (m_state m)" "nonzero (getIndexerSequenceState hash s)"
    and "int (liquidOf (ns_view s) r) + pt_amount pt < 2 ^ 128"
    and "sound_wallet E hash w" "w_address w \<noteq> w_address u"
  shows "effects = [] \<and> (\<exists>v. normalizeMessageByOperationType E (pt_payload pt) = Inr v \<and>
    partial_validator E hash (Some (w_address w)) s (js_operation v) = Inr () \<and>
    (\<forall>n node st st'. prefix_ok E \<and> batch st = ns_view s \<and>
        handleApplyTransferOperation E (completion E hash w n (js_operation v)) node st = Some (SUCCESS, st') \<longrightarrow>
      int (liquidOf (batch st') (w_address u)) = pt_expectedNewBalance pt))"
proof -
  obtain w' e payload where Q: "m_wallet m = Some w'" "effects = []" "getNodeEntry (m_state m) (w_address w') = Some e" "length (ne_balance e) = 16"
      "int (be_nat (bigIntTo16ByteBuffer (pt_amount pt))) = pt_amount pt"
      "pt_totalDeductedAmount pt = (if r = w_address w' then int fee else pt_amount pt + int fee)"
      "pt_totalDeductedAmount pt \<le> int (be_nat (ne_balance e))"
      "pt_expectedNewBalance pt = int (be_nat (ne_balance e)) - pt_totalDeductedAmount pt"
      "applyStateMessageFactory E hash (m_wallet m) nonce (\<lambda>step.
         buildPartialTransferOperationMessage E step (JStr (w_address w')) (JStr r) (JBuf (bigIntTo16ByteBuffer (pt_amount pt)))
           (JBuf (getIndexerSequenceState hash (m_state m))) (JStr ''json'')) = Inr payload" "pt_payload pt = json_of_built payload"
    by (rule prepared_parts [OF assms(1)])
  have w': "w' = u" using Q(1) assms(2) by simp
  obtain v sg where v: "normalizeMessageByOperationType E (pt_payload pt) = Inr v"
      "partial_validator E hash (Some (w_address w)) s (js_operation v) = Inr ()"
      "js_operation v = built_transfer tx (getIndexerSequenceState hash s) (ascii_bytes r) (bigIntTo16ByteBuffer (pt_amount pt)) nonce sg
         (ascii_bytes (w_address u))"
    by (rule prepared_accepted [OF assms(1-17,19)])
  note W = sound_walletD [OF assms(3)]
  have u: "ascii_string (ascii_bytes (w_address u)) = w_address u" using W(3) by (simp add: bufferToAddress_Some)
  obtain b where "ns_signed (m_state m) (w_address u) = Some b" "ne_decode (Some b) = Some e"
    using Q(3) by (auto simp: w' getNodeEntry_def getSigned_def split: option.splits)
  then have before: "int (liquidOf (ns_view s) (w_address u)) = int (be_nat (ne_balance e))"
    using Q(4) assms(14) ne_decode_length69 [of b e] bigint_balance [of b] bufferToBigInt_be_nat [of "ne_balance e"] by (simp add: liquidOf_def)
  have "int (liquidOf (batch st') (w_address u)) = pt_expectedNewBalance pt"
    if "prefix_ok E" "batch st = ns_view s"
      "handleApplyTransferOperation E (completion E hash w n (js_operation v)) node st = Some (SUCCESS, st')" for n node st st'
    using built_transfer_balance [OF v(2) [unfolded v(3)] assms(18,19) that(1) W(1) u W(4) assms(7,8) that(3) [unfolded v(3)]]
      that(2) before Q(5,6,8) by (auto simp: w')
  then show ?thesis using Q(2) v(1,2) by blast
qed

theorem prepared_transfer_witness:
  "\<exists>pt v. prepareTransferOperation penv xhash (xwk 20) xnode_b (Some (acct CHR ''c'')) (Some ''0.5'') = ([], Inr pt) \<and>
     normalizeMessageByOperationType penv (pt_payload pt) = Inr v \<and>
     partial_validator penv xhash (Some (acct CHR ''f'')) xview (js_operation v) = Inr ()"
proof -
  obtain pt where pt: "prepareTransferOperation penv xhash (xwk 20) xnode_b (Some (acct CHR ''c'')) (Some ''0.5'') = ([], Inr pt)"
      "pt_amount pt = 5 * 10 ^ 17" "prop_of (prop_of (pt_payload pt) ''tro'') ''tx'' = JStr (to_hex (xwk 95))"
    using xprepared by blast
  let ?w = "\<lparr>w_address = acct CHR ''f'', w_sign = xsign (addr CHR ''f'')\<rparr>"
  have "sound_wallet penv xhash ?w" by (simp add: sound_wallet_def sized_def xsign_def ascii_string_bytes)
  moreover have "address_size penv ''trac'' = Some 6" by (simp add: penv_def xenv_def)
  ultimately show ?thesis
    using prepared_transfer [OF pt(1) _ xsound _ _ _ _ _ _ _ pt(3), of xview ?w] pt(1,2)
    by (auto simp: xnode_b_def xwallet_def sized_def getIndexerSequenceState_def xhash_wk liquidOf_def)
qed

text \<open>C20. What the command line of a node sends on its own behalf is bounded by who its operator is. Bytes are appended to the ledger's log
  only by the node whose wallet and writing key are those of the signed administrator entry, except that the node of the bootstrap
  may create the administrator while there is none, and that the commands that add and remove an indexer are also open to a node
  that is writable. Files are written only by the two migrations of the administrator, each to its directory. Operations are broadcast only by the recovery, which needs the administrator's wallet on a node with
  another writing key, by the requests of roles and by deployments; all of it needs an enabled wallet. No other command sends anything.\<close>

theorem command_authority:
  assumes "handle_line E hash wr cw line None = (q, effects, r)" "e \<in> set effects"
  shows "enableWallet (m_config (cw_msb cw)) \<and> (let s = m_state (cw_msb cw) in
    \<exists>action. command_of line = Some action \<and>
      (case e of
         Append _ \<Rightarrow>
           action = AddAdmin \<and> getAdminEntry E s = None \<and> ns_writingKey s = bootstrap E \<or>
           action \<in> {AddWhitelist, BalanceMigration, DisableInitialization, BanWriter, AddIndexer, RemoveIndexer} \<and>
           (\<exists>a w. getAdminEntry E s = Some a \<and> m_wallet (cw_msb cw) = Some w \<and> ae_address a = Some (w_address w) \<and> ae_wk a = ns_writingKey s) \<or>
           action \<in> {AddIndexer, RemoveIndexer} \<and> getAdminEntry E s \<noteq> None \<and> ns_writable s
       | WriteFile d _ _ \<Rightarrow>
           (action = AddWhitelist \<and> d = WHITELIST_MIGRATION_DIR \<or> action = BalanceMigration \<and> d = BALANCE_MIGRATED_DIR) \<and>
           (\<exists>a w. getAdminEntry E s = Some a \<and> m_wallet (cw_msb cw) = Some w \<and> ae_address a = Some (w_address w) \<and> ae_wk a = ns_writingKey s)
       | Broadcast _ \<Rightarrow>
           action = AddAdminRecovery \<and>
           (\<exists>a w. getAdminEntry E s = Some a \<and> m_wallet (cw_msb cw) = Some w \<and> ae_address a = Some (w_address w) \<and> ae_wk a \<noteq> ns_writingKey s) \<or>
           action \<in> {AddWriter, RemoveWriter, Deployment}))"
proof -
  obtain action where "command_of line = Some action" "permitted E (cw_msb cw) action e" using line_sends [OF assms] by blast
  then show ?thesis by (cases e) (auto simp: administrator_def Let_def)
qed

lemma xcreation: "\<exists>payload. applyStateMessageFactory penv xhash (Some xwallet) (xwk 20) (\<lambda>step. buildCompleteAddAdminMessage penv step
      (JStr (acct CHR ''b'')) (JBuf (bootstrap penv)) (JBuf (xhash (bootstrap penv)))) = Inr payload"
  by (simp add: evaluated buildCompleteAddAdminMessage_def setWriterKey_def buildCompleteBody_def complete_message_def complete_body_def)

definition xnode_genesis :: msb where
  "xnode_genesis = xnode_b\<lparr>m_state := xview\<lparr>ns_view := Map.empty, ns_signed := Map.empty, ns_writingKey := xwk 1\<rparr>\<rparr>"

definition xline :: "msb \<Rightarrow> cli_world" where
  "xline m = \<lparr>cw_msb = m, cw_send = (\<lambda>_. True), cw_nonce = xwk 20, cw_nonces = (\<lambda>_. xwk 20), cw_later = (\<lambda>_. m_state m), cw_whitelist = None,
     cw_whitelist_dir = [], cw_balances = None, cw_balance_dir = [], cw_after = m_state m, cw_channel = [], cw_unconfirmed = 0\<rparr>"

lemma xline_commands: "command_of ''/add_admin'' = Some AddAdmin" 
  by (simp add: command_of_def getHandlers_def startsWith_def)

theorem command_authority_witness:
  "\<exists>q b r. handle_line penv xhash protobuf (xline xnode_genesis) ''/add_admin'' None = (q, [Append b], r) \<and>
     getAdminEntry penv (m_state xnode_genesis) = None"
proof -
  obtain payload where p: "applyStateMessageFactory penv xhash (Some xwallet) (xwk 20) (\<lambda>step. buildCompleteAddAdminMessage penv step
      (JStr (acct CHR ''b'')) (JBuf (bootstrap penv)) (JBuf (xhash (bootstrap penv)))) = Inr payload" using xcreation by blast
  have none: "getAdminEntry penv (m_state xnode_genesis) = None"
    by (simp add: xnode_genesis_def getAdminEntry_def getSigned_def)
  obtain q r where h: "handle_line penv xhash protobuf (xline xnode_genesis) ''/add_admin'' None = (q, [Append (encode_built protobuf payload)], r)"
    using p none by (simp add: handle_line_def xline_commands process_def Let_def xline_def xnode_genesis_def xnode_b_def silent_def
      handleAdminCreation_def given_def append_message_def own_address_def xwallet_def)
  then show ?thesis using command_authority [OF h, of "Append (encode_built protobuf payload)"] none by auto
qed






text \<open>C18. The interface sends nothing to the network but a transfer or a transaction that this node has checked itself: whatever the
  request, the answers of the network and what its body parses to, the server either sends nothing, or it answers a request to the broadcast route
  and sends one payload, whose normal form passes every check of the validators but the one against the validator's own address on the node's store.
  It answers 200 with the hash of that operation exactly when the network took it and the hash appeared in the store while it polled, and 429
  otherwise.\<close>

theorem forwarded_valid:
  "case createServer E hash wr sv r of (effects, code, body) \<Rightarrow>
     effects = [] \<or>
     (\<exists>p v tx. rq_method r = ''POST'' \<and> foundRoute (rq_method r) (rq_url r) = Some PostBroadcast \<and> effects = [Broadcast p] \<and>
        (prop_of p ''type'' = JNum 13 \<and> normalizeTransferOperation E p = Inr v \<and> tx_hex v ''tro'' = Some tx \<and>
           validateTransfer E hash None (m_state (sv_msb sv)) (js_operation v) = Inr () \<or>
         prop_of p ''type'' = JNum 12 \<and> normalizeTransactionOperation E p = Inr v \<and> tx_hex v ''txo'' = Some tx \<and>
           validateTransaction E hash None (m_state (sv_msb sv)) (js_operation v) = Inr ()) \<and>
        (code, body) = (if sv_send sv p \<and> (\<exists>s \<in> set (sv_polls sv). st_get s tx \<noteq> None) then (200, Broadcasted tx) else (429, Err BroadcastError)))"
proof (cases "createServer E hash wr sv r")
  case (fields effects code body)
  show ?thesis
  proof (cases "effects = []")
    case False
    obtain p tx where p: "rq_method r = ''POST''" "foundRoute (rq_method r) (rq_url r) = Some PostBroadcast" "effects = [Broadcast p]"
        "forwardable E hash (m_state (sv_msb sv)) p tx"
        "(code, body) = (if sv_send sv p \<and> waitForUnsigned (sv_polls sv) tx then (200, Broadcasted tx) else (429, Err BroadcastError))"
      using server_sends [OF fields False] by blast
    then show ?thesis unfolding fields prod.case forwardable_def waitForUnsigned_def list_ex_iff by auto
  qed (simp add: fields)
qed

text \<open>C35. Amounts are shown and read back exactly: what \<open>bigIntToDecimalString\<close> makes of any amount of a balance, \<open>decimalStringToBigInt\<close>
  reads as that amount; and what the latter accepts at all is a decimal with at most 18 digits behind the point, whose value times \<open>10\<^sup>18\<close> it
  returns without rounding, within 16 bytes.\<close>

theorem decimal_roundtrip:
  "(if 0 \<le> v \<and> v < 2 ^ 128 then \<exists>s. bigIntToDecimalString v = Inr s \<and> decimalStringToBigInt s = Inr v
    else \<exists>e. bigIntToDecimalString v = Inl e) \<and>
   (case decimalStringToBigInt t of
      Inl _ \<Rightarrow> True
    | Inr u \<Rightarrow> \<exists>i f. decimal_parts (trim t) = Some (i, f) \<and> length f \<le> 18 \<and> u * 10 ^ length f = int (digits_value (i @ f)) * 10 ^ 18 \<and>
        0 \<le> u \<and> u < 2 ^ 128)"
proof (intro conjI)
  show "if 0 \<le> v \<and> v < 2 ^ 128 then \<exists>s. bigIntToDecimalString v = Inr s \<and> decimalStringToBigInt s = Inr v
    else \<exists>e. bigIntToDecimalString v = Inl e"
    using decimal_back [of v] by (auto simp: bigIntToDecimalString_def)
  show "case decimalStringToBigInt t of Inl _ \<Rightarrow> True
    | Inr u \<Rightarrow> \<exists>i f. decimal_parts (trim t) = Some (i, f) \<and> length f \<le> 18 \<and> u * 10 ^ length f = int (digits_value (i @ f)) * 10 ^ 18 \<and>
        0 \<le> u \<and> u < 2 ^ 128"
    using decimal_value [of t] by (auto split: sum.split)
qed

text \<open>A node that is configured to request its role at the start never gets it while it is no writer: the start first asks to be
  removed as a writer, which fails for whoever is none, and that exception ends the start, before anything is sent, even where the request to be
  added, which was to follow, would have been sent.\<close>

theorem role_request_fails:
  assumes "enableRoleRequester (m_config m)" "enableWallet (m_config m)" "m_wallet m = Some w" "\<not> ns_writable (m_state m)"
    and "\<forall>e. getNodeEntry (m_state m) (w_address w) = Some e \<longrightarrow> \<not> ne_isWriter e"
  shows "setUpRoleAutomatically E hash send nonce1 nonce2 m after = ([], Inl NotWriter)"
proof -
  have "requestWriterRole E hash send nonce1 m False = fails NotWriter"
    using assms by (auto simp: requestWriterRole_def Let_def given_def own_address_def split: option.split)
  then show ?thesis using assms by (simp add: setUpRoleAutomatically_def fails_def)
qed

definition xnode_e :: msb where
  "xnode_e = \<lparr>m_config = \<lparr>enableWallet = True, enableRoleRequester = True\<rparr>,
     m_wallet = Some \<lparr>w_address = acct CHR ''e'', w_sign = xsign (addr CHR ''e'')\<rparr>, m_state = xview\<lparr>ns_writable := False, ns_writingKey := xwk 6\<rparr>\<rparr>"

lemma xrole_request: "\<exists>p. requestWriterRole penv xhash (\<lambda>_. True) (xwk 20) xnode_e True = ([Broadcast p], Inr ())"
proof -
  have e: "getNodeEntry (xview\<lparr>ns_writable := False, ns_writingKey := xwk 6\<rparr>) (acct CHR ''e'') = Some (decoded (xentry ZERO_WK WHITELISTED 1000 3))"
    by (simp add: getNodeEntry_def getSigned_def)
  have balance: "bigint_of (ne_balance (decoded (xentry ZERO_WK WHITELISTED 1000 3))) = Inr (10 ^ 18)"
    using xliquid [of ZERO_WK WHITELISTED 1000] by (simp add: bigint_of_def)
  have txv: "getIndexerSequenceState xhash (xview\<lparr>ns_writable := False, ns_writingKey := xwk 6\<rparr>) = xwk 65"
    by (simp add: getIndexerSequenceState_def xhash_wk)
  have role: "WHITELISTED AND WHITELISTED_MASK \<noteq> 0" "WHITELISTED AND WRITER_MASK = 0"
    by (simp_all add: WHITELISTED_def WHITELISTED_MASK_def WRITER_MASK_def)
  have "address_size penv ''trac'' = Some 6" by (simp add: penv_def xenv_def)
  then have "getAdminEntry penv (m_state xnode_e) = Some \<lparr>ae_address = Some (acct CHR ''d''), ae_wk = xwk 1\<rparr>"
    by (simp add: xnode_e_def getAdminEntry_def getSigned_def ae_decode_def Let_def subarray_def)
  then have admin: "isAllowedToRequestRole xnode_e (getAdminEntry penv (m_state xnode_e)) (Some (decoded (xentry ZERO_WK WHITELISTED 1000 3))) = Inr True"
    using role by (simp add: isAllowedToRequestRole_def isAdminNode_def xnode_e_def)
  obtain payload where "applyStateMessageFactory penv xhash (m_wallet xnode_e) (xwk 20) (\<lambda>step. buildPartialAddWriterMessage penv step
      (JStr (acct CHR ''e'')) (JBuf (xwk 6)) (JBuf (xwk 65)) (JStr ''json'')) = Inr payload"
    by (simp add: evaluated buildPartialAddWriterMessage_def setWriterKey_def encodePayloadJson_def xnode_e_def
      address_js_def keyed_def payload_of.simps empty_payload_def json_of_built_def addr_def [symmetric])
  then show ?thesis
    by (simp add: requestWriterRole_def xnode_e_def own_address_def given_def value_of_def e balance txv Let_def fee_def role admin [unfolded xnode_e_def, simplified]
      broadcast_message_def broadcastPartialTransaction_def)
qed

theorem role_request_fails_witness:
  "setUpRoleAutomatically penv xhash (\<lambda>_. True) (xwk 20) (xwk 21) xnode_e xnode_e = ([], Inl NotWriter) \<and>
   (\<exists>p. requestWriterRole penv xhash (\<lambda>_. True) (xwk 20) xnode_e True = ([Broadcast p], Inr ()))"
proof -
  have "WHITELISTED AND WRITER_MASK = 0" by (simp add: WHITELISTED_def WRITER_MASK_def)
  then have "\<forall>e. getNodeEntry (m_state xnode_e) (acct CHR ''e'') = Some e \<longrightarrow> \<not> ne_isWriter e"
    by (simp add: xnode_e_def getNodeEntry_def getSigned_def)
  then have "setUpRoleAutomatically penv xhash (\<lambda>_. True) (xwk 20) (xwk 21) xnode_e xnode_e = ([], Inl NotWriter)"
    by (intro role_request_fails) (auto simp: xnode_e_def)
  then show ?thesis using xrole_request by blast
qed

text \<open>The license of an entry has four bytes, for which \<open>bufferToBigInt\<close> always throws: the command shows the license of no account.\<close>

lemma license_never_shown:
  assumes "getNodeEntry (m_state m) a = Some e"
  shows "\<exists>x. handleLicenseNumber m (Some a) = Inl x"
proof -
  obtain b where "ne_decode (Some b) = Some e" using assms by (auto simp: getNodeEntry_def split: option.splits)
  then have "length (ne_license e) = 4" by (rule ne_decode_fields)
  then show ?thesis using assms by (simp add: handleLicenseNumber_def key_of_def value_of_def bigint_of_def bufferToBigInt_def)
qed

text \<open>C24. No balance is initialised twice from files. A migration of balances that does anything first records its addresses in a new file of the directory,
  which overwrites none; and as long as that file is in the directory, a later migration, by whatever node in whatever state, with a file that
  names one of those addresses again does nothing at all.\<close>

theorem migrated_once:
  fixes E :: "'b env"
  assumes "balanceMigrationOperation E hash wr nonces after m data dir = (effects, r)" "effects \<noteq> []"
  shows "\<exists>f content rest. effects = WriteFile BALANCE_MIGRATED_DIR f content # rest \<and> f \<notin> fst ` set dir \<and>
    (\<forall>E' hash' wr' nonces' after' m' data' dir'. (f, content) \<in> set dir' \<longrightarrow> set (line_addresses data) \<inter> set (line_addresses data') \<noteq> {} \<longrightarrow>
       fst (balanceMigrationOperation (E' :: 'b env) hash' wr' nonces' after' m' data' dir') = [])"
  using assms balance_migration_once [of effects E hash wr nonces after m data dir] by simp

definition xnode_d :: msb where
  "xnode_d = \<lparr>m_config = \<lparr>enableWallet = True, enableRoleRequester = False\<rparr>,
     m_wallet = Some \<lparr>w_address = acct CHR ''d'', w_sign = xsign (addr CHR ''d'')\<rparr>,
     m_state = xview\<lparr>ns_signed := xbatch(EntryType_INITIALIZATION \<mapsto> safeWriteUInt32BE 1), ns_writingKey := xwk 1\<rparr>\<rparr>"

lemma xmigration_file: "readBalanceMigrationFile BALANCE_MIGRATION_FILEPATH (Some ''trac1c,0.5'') =
    Inr \<lparr>bf_addressBalancePair = [(acct CHR ''c'', amount (5 * 10 ^ 17))], bf_totalBalance = 5 * 10 ^ 17, bf_totalAddresses = 1,
      bf_addresses = [(acct CHR ''c'', 5 * 10 ^ 17)]\<rparr>"
proof -
  have b: "bufferToBigInt (amount 500000000000000000) = Inr 500000000000000000"
    using half_token_buffer(2) by (simp add: bigint_of_def split: sum.splits)
  have "file_lines ''trac1c,0.5'' = [''trac1c,0.5'']" by (simp add: file_lines_def trim_def is_space_def)
  moreover have "is_csv BALANCE_MIGRATION_FILEPATH" by (simp add: is_csv_def BALANCE_MIGRATION_FILEPATH_def lower_def suffix_def)
  moreover have "pair_of_line ''trac1c,0.5'' = Some (acct CHR ''c'', ''0.5'')"
    by (simp add: pair_of_line_def is_alnum_def decimal_parts_def is_digit_def acct_def)
  ultimately show ?thesis
    using half_token half_token_buffer b by (simp add: readBalanceMigrationFile_def)
qed

lemma xmigration: "\<exists>f content b. fst (balanceMigrationOperation penv xhash protobuf (\<lambda>_. xwk 20) xview xnode_d (Some ''trac1c,0.5'') []) =
    [WriteFile BALANCE_MIGRATED_DIR f content, Append b]"
proof -
  have size: "address_size penv ''trac'' = Some 6" by (simp add: penv_def xenv_def)
  have ne: "EntryType_ADMIN \<noteq> EntryType_INITIALIZATION" by (simp add: EntryType_ADMIN_def EntryType_INITIALIZATION_def)
  have admin: "getAdminEntry penv (m_state xnode_d) = Some \<lparr>ae_address = Some (acct CHR ''d''), ae_wk = xwk 1\<rparr>"
    using size ne by (simp add: xnode_d_def getAdminEntry_def getSigned_def ae_decode_def Let_def subarray_def)
  have admin_node: "isAdminNode xnode_d (getAdminEntry penv (m_state xnode_d)) = Inr True"
    by (simp add: admin isAdminNode_def) (simp add: xnode_d_def)
  have zero: "ZERO_LICENSE = [0, 0, 0, 0]"
    by (simp add: ZERO_LICENSE_def alloc_def LICENSE_BYTE_LENGTH_def numeral_eq_Suc)
  have license: "subarray 49 53 (xentry ZERO_WK READER 2000 0) = ZERO_LICENSE"
    using ne_layout_props(5) [of ZERO_WK "amount (2000 * 10 ^ 15)" "uint32_bytes 0" "amount 0" READER]
    by (simp add: xentry_def ne_init_def uint32_bytes_def zero)
  have valid: "each_valid penv (m_state xnode_d) (getAdminEntry penv (m_state xnode_d)) [acct CHR ''c''] = Inr ()"
    by (simp add: validateAddressFromIncomingFile_def admin) (simp add: xnode_d_def getNodeEntryUnsigned_def st_get_def license)
  obtain built where built: "applyStateMessageFactory penv xhash (m_wallet xnode_d) (xwk 20) (\<lambda>step. buildCompleteBalanceInitializationMessage penv step
      (JStr (acct CHR ''d'')) (JStr (acct CHR ''c'')) (JBuf (amount (5 * 10 ^ 17))) (JBuf (xwk 65))) = Inr built"
    by (simp add: xnode_d_def evaluated buildCompleteBalanceInitializationMessage_def setIncomingAddress_def setAmount_def buildCompleteBody_def
      complete_message_def complete_body_def addr_def [symmetric])
  obtain s where shown: "bigIntToDecimalString 500000000000000000 = Inr s"
    using decimal_back [of 500000000000000000] by auto
  have txv: "getIndexerSequenceState xhash (m_state xnode_d) = xwk 65" 
    by (simp add: getIndexerSequenceState_def xhash_wk xnode_d_def)
  have b: "bufferToBigInt (amount 500000000000000000) = Inr 500000000000000000"
    using half_token_buffer(2) by (simp add: bigint_of_def split: sum.splits)
  have initial: "safeWriteUInt32BE (Suc 0) \<noteq> safeWriteUInt32BE 0"
    by (simp add: safeWriteUInt32BE_def writeUInt32BE_def uint32_bytes_def)
  have open_: "\<not> isInitalizationDisabled (m_state xnode_d)" "enableWallet (m_config xnode_d)" "ns_writingKey (m_state xnode_d) = bootstrap penv"
    "own_address xnode_d = Inr (acct CHR ''d'')" "m_wallet xnode_d \<noteq> None"
    by (simp_all add: xnode_d_def isInitalizationDisabled_def getSigned_def own_address_def initial)
  show ?thesis
    using admin_node valid built shown txv b open_
    by (simp add: balanceMigrationOperation_def admin xmigration_file file_of_def given_def validateBalanceMigrationData_def first_migrated_def
      getAllMigrationFiles_def createMigrationEntryFile_def emitting_def Let_def)
qed

theorem migrated_once_witness:
  "\<exists>f content b. fst (balanceMigrationOperation penv xhash protobuf (\<lambda>_. xwk 20) xview xnode_d (Some ''trac1c,0.5'') []) =
      [WriteFile BALANCE_MIGRATED_DIR f content, Append b] \<and>
    fst (balanceMigrationOperation penv xhash protobuf (\<lambda>_. xwk 20) xview xnode_d (Some ''trac1c,1'') [(f, content)]) = []"
proof -
  obtain f content b where x: "fst (balanceMigrationOperation penv xhash protobuf (\<lambda>_. xwk 20) xview xnode_d (Some ''trac1c,0.5'') []) =
      [WriteFile BALANCE_MIGRATED_DIR f content, Append b]" using xmigration by blast
  have a: "line_addresses (Some ''trac1c,0.5'') = [acct CHR ''c'']" "line_addresses (Some ''trac1c,1'') = [acct CHR ''c'']"
    by (simp_all add: line_addresses_def file_lines_def trim_def is_space_def is_alnum_def acct_def)
  obtain r where run: "balanceMigrationOperation penv xhash protobuf (\<lambda>_. xwk 20) xview xnode_d (Some ''trac1c,0.5'') [] =
      ([WriteFile BALANCE_MIGRATED_DIR f content, Append b], r)"
    using x by (metis prod.collapse)
  from migrated_once [OF run]
  have "fst (balanceMigrationOperation penv xhash protobuf (\<lambda>_. xwk 20) xview xnode_d (Some ''trac1c,1'') [(f, content)]) = []"
    by (auto simp: a)
  then show ?thesis using x by blast
qed

section \<open>The configuration\<close>

text \<open>C23. What the arguments of a node can make of its configuration. Either an argument is refused, and no check of the configuration fails
  behind the arguments'; or the node has one of the three environments, with its 32 bytes of bootstrap key and of channel, a port between 1 and
  65535, a host that is not blank, and the directory of the environment or the one that an argument names, which is not blank, in both cases without
  slashes at its end. A node that serves the interface has neither a wallet nor the interactive mode, and host and port are those of its
  arguments or of the environment; one that does not ignores host and port. No argument changes anything else: bootstrap and channel are made of
  the environment's alone, and every other setting is the environment's.\<close>

theorem configured:
  "case resolveConfig K args of
     Inl e \<Rightarrow> e \<in> {PortRange, NotNetwork} \<union> range NotNonEmptyString \<union> range RequiresValue
   | Inr c \<Rightarrow> (\<exists>env sd h p port host. resolveEnvironment args = Inr env \<and> cf_config c = configData K env \<and>
       parseNonEmptyStringOption args ''--stores-directory'' = Inr sd \<and>
       get_storesDirectory c = trimEnd (CHR ''/'') (case sd of None \<Rightarrow> text_of (setting_of (configData K env) ''storesDirectory'') | Some s \<Rightarrow> s) \<and>
       (case sd of None \<Rightarrow> True | Some s \<Rightarrow> trim s \<noteq> []) \<and>
       cf_channel c = fill 32 (utf8 (text_of (setting_of (configData K env) ''channel''))) \<and>
       cf_bootstrap c = from_hex (text_of (setting_of (configData K env) ''bootstrap'')) \<and> length (cf_bootstrap c) = 32 \<and> length (cf_channel c) = 32 \<and>
       get_port c = SNum port \<and> 1 \<le> port \<and> port \<le> 65535 \<and> get_host c = SStr host \<and> trim host \<noteq> [] \<and>
       (if isRpcEnabled args then \<not> get_enableWallet c \<and> \<not> get_enableInteractiveMode c \<and>
          parseNonEmptyStringOption args ''--host'' = Inr h \<and> parsePortOption args = Inr p \<and>
          port = (case p of None \<Rightarrow> 5000 | Some p \<Rightarrow> p) \<and> host = (case h of None \<Rightarrow> ''localhost'' | Some h \<Rightarrow> h)
        else get_enableWallet c \<and> get_enableInteractiveMode c \<and> port = 5000 \<and> host = ''localhost'') \<and>
       (\<forall>k. k \<in> {''storesDirectory'', ''host'', ''port'', ''enableWallet'', ''enableInteractiveMode''} \<or>
          overridable c k = setting_of (configData K env) k))"
proof (cases rule: resolveConfig_cases [of K args])
  case (1 e)
  then show ?thesis by simp
next
  case (2 env sd h p)
  let ?o = "options_of (isRpcEnabled args) sd h p" and ?D = "configData K env"
  obtain b ch where c: "resolveConfig K args = Inr \<lparr>cf_options = ?o, cf_config = ?D, cf_bootstrap = b, cf_channel = ch\<rparr>"
    "length b = 32" "length ch = 32" "b = from_hex (text_of (setting_of ?D ''bootstrap''))"
    "ch = fill 32 (utf8 (text_of (setting_of ?D ''channel'')))"
    using options_accepted [OF 2(4,5), of K env "isRpcEnabled args"] 2(6) by auto
  define port where "port = (if isRpcEnabled args then (case p of None \<Rightarrow> 5000 | Some p \<Rightarrow> p) else 5000)"
  define host where "host = (if isRpcEnabled args then (case h of None \<Rightarrow> ''localhost'' | Some h \<Rightarrow> h) else ''localhost'')"
  note e = environment_settings(3-6) [of K env]
  have d: "setting_of ?D k = v \<Longrightarrow> (case map_of ?D k of None \<Rightarrow> SUndefined | Some x \<Rightarrow> x) = v" for k v by (simp add: setting_of_def)
  let ?c = "\<lparr>cf_options = ?o, cf_config = ?D, cf_bootstrap = b, cf_channel = ch\<rparr>"
  have "trim ''localhost'' \<noteq> []" by (simp add: trim_def is_space_def)
  then have "1 \<le> port" "port \<le> 65535" "trim host \<noteq> []" using 2(4,5) by (auto simp: port_def host_def split: option.splits)
  moreover have "get_port ?c = SNum port" "get_host ?c = SStr host"
    by (simp_all add: get_port_def get_host_def setting_simps options_of_def d [OF e(1)] d [OF e(2)] port_def host_def given_text_def isDefined_def
        split: option.split)
  moreover have "(if isRpcEnabled args then \<not> get_enableWallet ?c \<and> \<not> get_enableInteractiveMode ?c \<and>
      parseNonEmptyStringOption args ''--host'' = Inr h \<and> parsePortOption args = Inr p \<and>
      port = (case p of None \<Rightarrow> 5000 | Some p \<Rightarrow> p) \<and> host = (case h of None \<Rightarrow> ''localhost'' | Some h \<Rightarrow> h)
      else get_enableWallet ?c \<and> get_enableInteractiveMode ?c \<and> port = 5000 \<and> host = ''localhost'')"
    using e(3,4) 2(3) by (simp add: get_enableWallet_def get_enableInteractiveMode_def flag_unless_false_def isOverriden_def setting_of_def [of "(k, v) # xs" for k v xs]
        options_of_def port_def host_def isDefined_def)
  moreover have "\<forall>k. k \<in> {''storesDirectory'', ''host'', ''port'', ''enableWallet'', ''enableInteractiveMode''} \<or> overridable ?c k = setting_of ?D k"
    by (auto simp: overridable_def isOverriden_def options_of_def split: if_splits)
  moreover have "get_storesDirectory ?c = trimEnd (CHR ''/'') (case sd of None \<Rightarrow> text_of (setting_of ?D ''storesDirectory'') | Some s \<Rightarrow> s)"
    by (simp add: get_storesDirectory_def setting_simps options_of_def given_text_def isDefined_def split: option.split)
  moreover have "case sd of None \<Rightarrow> True | Some s \<Rightarrow> trim s \<noteq> []" using 2(4) by (cases sd) auto
  moreover have "cf_config ?c = ?D" "cf_bootstrap ?c = from_hex (text_of (setting_of ?D ''bootstrap''))" "length (cf_bootstrap ?c) = 32"
      "length (cf_channel ?c) = 32" "cf_channel ?c = fill 32 (utf8 (text_of (setting_of ?D ''channel'')))"
    using c(2-5) by simp_all
  ultimately show ?thesis
    unfolding c(1) sum.case using 2(1,2)
    by - (rule exI [of _ env], rule exI [of _ sd], rule exI [of _ h], rule exI [of _ p], rule exI [of _ port],
      rule exI [of _ host], intro conjI; assumption)
qed

end
