(* ===== verification/Spec2Isabelle.thy ===== *)
theory Spec2Isabelle
  imports Loop_Claims Codec_Claims Publish_Claims Peer_Claims Pool_Claims Legacy_Claims Node_Claims
begin

text \<open>
  Verification of the Trac main settlement bus: the ledger that the nodes of the network replicate, and the way of
  an operation from the client that signs it to the node that the ledger applies.

  \<^bold>\<open>The program.\<close> A client builds a partial operation (\<open>src/messages/state\<close>), which reaches a validator as a
  broadcast request. The validator checks it (\<open>core/network/protocols/shared/validators\<close>), completes it with its own
  address, nonce and signature, encodes it (\<open>utils/protobuf\<close>), registers a promise and queues it
  (\<open>core/network/services\<close>). The answer goes back with a proof of publication, which the requester checks against its own
  replica; before that it chose the validator among its connections, which an observer of the ledger keeps filled
  (\<open>core/network/protocols/v1\<close>, \<open>core/network/services\<close>). The pool appends batches to autobase. Autobase linearises the nodes of all writers and calls the apply
  function of \<open>core/state/State.js\<close> on every replica, which checks each operation again and changes
  the store, a key-value map. Beside protocol v1 a node still serves the legacy protocol (\<open>protocols/legacy\<close>), whose operations take the same way
  without an answer.

  A node is configured by the arguments of its command line (\<open>src/config\<close>). Its operator works with it on the command line (\<open>src/cli\<close>), applications over HTTP
  (\<open>src/rpc\<close>); both call the operations of the node (\<open>src/index.js\<close>), which prepare operations for its own wallet, pass on those of others,
  append those of the administrator, carry out the migrations of balances and of the whitelist from files (\<open>utils/fileUtils.js\<close>), and read the state.

  \<^bold>\<open>Models\<close>, in the order of the imports; the name of a definition is that of the function it models.
  \<^item> \<open>Prelude\<close>: buffers as lists of 8-bit words, slices, hexadecimal and ASCII as Node renders them.
  \<^item> \<open>Amounts\<close>, \<open>Balance\<close>: \<open>amountSerialization.js\<close>, \<open>buffer.js\<close>, \<open>utils/balance.js\<close>: amounts
    of 16 bytes, their byte-wise arithmetic and the fee schedule.
  \<^item> \<open>NodeEntry\<close>, \<open>Entries\<close>: \<open>nodeEntry.js\<close>, \<open>roles.js\<close>, \<open>address.js\<close>, \<open>adminEntry.js\<close>,
    \<open>deploymentEntry.js\<close>, \<open>lengthEntry.js\<close>: what the store holds.
  \<^item> \<open>Check\<close>: the schemas of \<open>check.js\<close>. \<open>Codec\<close>: \<open>applyOperations.cjs\<close> and \<open>operationHelpers.js\<close>.
  \<^item> \<open>ApplyState\<close>, \<open>Admin_Ops\<close>, \<open>Writer_Ops\<close>, \<open>Indexer_Ops\<close>, \<open>Whitelist_Ops\<close>, \<open>Network_Ops\<close>: the
    thirteen handlers of \<open>State.js\<close> with their helpers. \<open>Apply_Loop\<close>: the batch, the dispatcher, the penalty.
  \<^item> \<open>Node_State\<close>: the reads of \<open>State.js\<close> that the services and the interface use.
  \<^item> \<open>Helpers\<close>, \<open>Builder\<close>, \<open>Director\<close>, \<open>Normalizers\<close>: how operations are made, and how they come in as JSON.
  \<^item> \<open>Result_Codes\<close>, \<open>Partial_Validators\<close>: what a validator checks, and the code of each refusal.
  \<^item> \<open>Services\<close>, \<open>Broadcast\<close>: the pending commits, the pool, and the handler of broadcast requests.
  \<^item> \<open>Network_Messages\<close>: \<open>src/messages/network\<close>, the requests and responses of protocol v1 and what they sign.
    \<open>Network_Codec\<close>: \<open>networkV1.generated.cjs\<close>, their bytes. \<open>V1_Validators\<close>, \<open>V1_Response\<close>: \<open>protocols/v1/validators\<close>, what a
    node checks of a message, up to the proof and the registered writer behind it.
  \<^item> \<open>Peer_Services\<close>: \<open>PendingRequestService.js\<close>, \<open>TransactionRateLimiterService.js\<close>, the handling of responses.
    \<open>V1_Handlers\<close>: the router and the handlers of both requests, from bytes to bytes.
  \<^item> \<open>Connections\<close>: \<open>ConnectionManager.js\<close>, \<open>ProtocolSession.js\<close>, \<open>ValidatorHealthCheckService.js\<close>, the pending connections of
    \<open>Network.js\<close>, and \<open>MessageOrchestrator.js\<close>. \<open>Observer\<close>: \<open>ValidatorObserverService.js\<close>. \<open>Scheduler\<close>: \<open>Scheduler.js\<close>
    with the start and stop of the services it drives, and the opening and closing of \<open>Network.js\<close>.
  \<^item> \<open>Legacy\<close>: \<open>protocols/legacy\<close>, the router, the handlers and the checks of the JSON protocol.
  \<^item> \<open>Decimals\<close>: the decimal strings of \<open>amountSerialization.js\<close>. \<open>Migration_Files\<close>: \<open>fileUtils.js\<close>. \<open>Node_Commands\<close>: \<open>src/index.js\<close>, each command
    and each read, with what it sends, appends and writes. \<open>Rpc\<close>: \<open>src/rpc\<close>, the server, its routes and handlers. \<open>Cli\<close>: \<open>src/cli\<close>, the commands
    and the session, in which the handlers of the lines overlap, with the confirmation of transfers. \<open>Configuration\<close>: \<open>src/config\<close>.

  \<^bold>\<open>Lemmas.\<close>
  \<^item> \<open>Balance_Arith\<close>, \<open>Balance_Spec\<close> (locale \<open>amounts\<close>) and \<open>Settlement\<close>: the byte arithmetic is that
    of the natural numbers below \<open>2 ^ 128\<close>.
  \<^item> \<open>Ledger\<close>: accounts, total supply, the ledger invariant. \<open>Contract\<close> (locale \<open>apply_handler\<close>): what the loop relies
    on; the theories \<open>Admin_Spec\<close>, \<open>Writer_Spec\<close>, \<open>Indexer_Spec\<close>, \<open>Whitelist_Spec\<close>, \<open>Network_Spec\<close> interpret it for
    each handler, \<open>Loop_Spec\<close> for the dispatcher, with the soundness of the registries,
    and prove it for runs by rule induction. \<open>Acceptance\<close>: the
    converse, which operations succeed. \<open>Views\<close>: the vocabulary of the effects, what one transfer does to every balance, and
    what it leaves alone.
  \<^item> \<open>Codec_Spec\<close> (locale \<open>wire_format\<close>): the decoder ends on every buffer and inverts the encoder.
  \<^item> \<open>Builder_Spec\<close> (locale \<open>hex_setter\<close>), \<open>Message_Spec\<close>, \<open>Broadcast_Spec\<close>, \<open>Publish_Spec\<close>, \<open>Dispatch_Spec\<close>: the shape of partial
    and completed operations, and that what a validator accepts the ledger accepts.
  \<^item> \<open>Services_Spec\<close>: the steps of the services in any order (\<open>service_step\<close>), their invariant and the
    count of settlements.
  \<^item> \<open>V1_Spec\<close>, \<open>Answer_Spec\<close>: built messages pass the checks of the other end, an accepted response proves its publication, and
    every request that comes to the end is answered. \<open>Network_Codec_Spec\<close> (locale \<open>pb_format\<close>): the decoder of network messages ends on
    every buffer and inverts the encoder.
  \<^item> \<open>Peer_Spec\<close>, \<open>Pool_Spec\<close>, \<open>Observer_Spec\<close>: the pending requests, the counters of the rate limiter, the pool of validators in runs
    of their steps (\<open>peer_step\<close>, \<open>net_step\<close>), the bound on the attempts of a message, and the scan of the writers.
    The invariants of the scheduler are in its own theory.
  \<^item> \<open>Command_Spec\<close>, \<open>Rpc_Spec\<close>: which command may send, append or write what; the operation behind a prepared transfer; the invariant of
    the session over every order of its events (\<open>cli_step\<close>); and that
    the interface forwards only what the validators' checks accept.
  \<^item> \<open>Scenario\<close>: a concrete network for the witnesses. The properties are in the theories \<open>*_Claims\<close>, with the lemmas that only they need:
    \<open>Loop_Claims\<close>, \<open>Payment_Claims\<close>, \<open>Role_Claims\<close> and \<open>Access_Claims\<close> on the ledger, \<open>Codec_Claims\<close> on its data and both codecs,
    \<open>Publish_Claims\<close> and \<open>Response_Claims\<close> on the way of an operation, \<open>Peer_Claims\<close> and \<open>Pool_Claims\<close> on the services, \<open>Legacy_Claims\<close> on the legacy protocol,
    \<open>Node_Claims\<close> on the node with its interfaces and its configuration.

  \<^bold>\<open>Decisions.\<close> \<open>null\<close> and \<open>undefined\<close> results are \<open>None\<close>; an exception is an outer \<open>None\<close> or an \<open>Inl\<close>. The setters of
  \<open>nodeEntry.js\<close> change their buffer in place and return it; the model returns the new value, as the callers use it.
  Handlers read and write one batch, so the state of a handler is a map. Amounts are bounded by 16 bytes,
  and the supply by \<open>2 ^ 128\<close> where a sum could overflow. The loops of the codecs are \<open>partial_function\<close>s with
  a theorem that they end; all other loops are structural. Strings read with \<open>toString('ascii')\<close> lose the top bit of each byte, as Node has it.
  The schemas follow the documented behaviour of fastest-validator. A promise is an entry that is settled once; timers
  and the interleaving of requests are the order of the steps. Logging is left out.

  \<^bold>\<open>Parameters\<close> (record \<open>env\<close> and arguments): the configuration; the address, hash and signature functions of
  trac-crypto-api; the membership calls of autobase; the varint and bytes encodings of protocol-buffers-encodings
  (record \<open>wire\<close>) and the writer and reader of protobufjs (record \<open>pbjs\<close>), each with the protobuf format as an instance; the
  verification of proofs of publication (record \<open>publication\<close>); what a peer answers to a message and to a probe (oracles); the wallet, and the nonce it draws; for the commands of a node, whether
  its network takes a payload, what it reads while it polls and after a wait, and the contents of the files; the platform's \<open>URL\<close> and \<open>JSON.parse\<close>;
  for the legacy protocol (record \<open>legacy_node\<close>) its conversion of strings to numbers; the constants of trac-wallet and trac-crypto-api (record \<open>constants\<close>). A property that needs a law
  of one of them names it as a hypothesis: \<open>wire_format\<close>, \<open>pb_format\<close>, \<open>sound_wallet\<close>, \<open>net_wallet\<close>, \<open>publishes\<close>, \<open>fresh_for\<close>, \<open>prefix_ok\<close>.

  \<^bold>\<open>Not modelled.\<close> The append to autobase and the proofs of publication, which are calls of that library; the set-up of the swarm and
  of the Protomux channels; the opening and closing of a node with its listeners, its key pair and the completion of commands; what is only printed;
  the headers and stream errors of the HTTP server; in the generated codec of network messages, the conversions that no code of the program calls
  (\<open>verify\<close>, \<open>fromObject\<close>, \<open>toJSON\<close>, the delimited forms). What one command of the operator reads, and what one validation of a message
  reads of the store, is one state, where the source waits between the reads; the lines of the command line, whose handlers overlap, and the requests are
  interleaved.
\<close>

end
